(* ===== verification/Prelude.thy ===== *)
theory Prelude
  imports Complex_Main "HOL-Library.Word"
begin

text \<open>
  Shared vocabulary of the development: the machine types of the Rust sources, the outcome of a
  call that can return, return an error or panic, the text helpers of the error messages, and the
  generic lemmas and theorem collections that the component theories use.

  \<^item> \<open>u8\<close>, \<open>u32\<close>, \<open>u64\<close> are words of their width: \<open>+\<close> and \<open>*\<close> wrap as they do in a release build.
  \<^item> \<open>BigDecimal\<close> and \<open>MmNumber\<close> values are exact rationals.
  \<^item> A \<open>moment\<close> numbers the executions of stages: an operation of the outside world (chain, clock,
    peer) takes the moment of the call, so that the same call may answer differently later on.
\<close>

section \<open>Types\<close>

type_synonym u8 = "8 word"
type_synonym u32 = "32 word"
type_synonym u64 = "64 word"
type_synonym bytes = "u8 list"
type_synonym uuid = bytes
type_synonym moment = nat

text \<open>What a call of fallible Rust code comes to: a value, the \<open>Err\<close> of a \<open>Result\<close>, or a panic.\<close>

datatype 'a outcome = Ret 'a | Err string | Panic

named_theorems stage_defs \<open>definitions of the stages of a swap\<close>
named_theorems sum_split \<open>case splits of results, options and conditionals\<close>

declare sum.splits [sum_split] option.splits [sum_split] if_splits [sum_split]

section \<open>Integers of the language\<close>

definition checked_add :: "u64 \<Rightarrow> u64 \<Rightarrow> u64 option" where
  "checked_add a b = (if unat a + unat b < 2 ^ 64 then Some (a + b) else None)"

definition abs_diff :: "u64 \<Rightarrow> u64 \<Rightarrow> u64" where
  "abs_diff a b = (if b \<le> a then a - b else b - a)"

definition as_u32 :: "u64 \<Rightarrow> u32" where
  "as_u32 a = ucast a"

definition u32_try_from :: "u64 \<Rightarrow> u32 option" where
  "u32_try_from a = (if unat a < 2 ^ 32 then Some (ucast a) else None)"

text \<open>The saturating cast \<open>as u64\<close> of a floating point value.\<close>

definition f64_as_u64 :: "rat \<Rightarrow> u64" where
  "f64_as_u64 r = (if r < 0 then 0 else if 2 ^ 64 \<le> r then - 1 else of_int \<lfloor>r\<rfloor>)"

lemma checked_add_SomeD:
  "checked_add a b = Some c \<Longrightarrow> c = a + b \<and> unat c = unat a + unat b"
  by (auto simp: checked_add_def unat_word_ariths split: if_splits)

lemma unat_add_nowrap: "unat a + unat b < 2 ^ 64 \<Longrightarrow> unat ((a :: u64) + b) = unat a + unat b"
  by (simp add: unat_word_ariths)

lemma unat_mult_nowrap: "unat a * unat b < 2 ^ 64 \<Longrightarrow> unat ((a :: u64) * b) = unat a * unat b"
  by (simp add: unat_word_ariths)

lemma abs_diff_le_iff:
  "abs_diff a b \<le> d \<longleftrightarrow> unat a \<le> unat b + unat d \<and> unat b \<le> unat a + unat d"
proof (cases "b \<le> a")
  case True
  then have "unat b \<le> unat a" by (simp add: word_le_nat_alt)
  with True show ?thesis
    by (auto simp: abs_diff_def word_le_nat_alt unat_sub)
next
  case False
  then have "a \<le> b" and "unat a \<le> unat b" by (simp_all add: word_le_nat_alt)
  with False show ?thesis
    by (auto simp: abs_diff_def word_le_nat_alt unat_sub)
qed

lemma unat_f64_as_u64:
  assumes "0 \<le> r" "r < 2 ^ 64"
  shows "unat (f64_as_u64 r) = nat \<lfloor>r\<rfloor>"
proof -
  have "\<lfloor>r\<rfloor> < 2 ^ 64" using assms(2) by (simp add: floor_less_iff)
  moreover have "0 \<le> \<lfloor>r\<rfloor>" using assms(1) by simp
  ultimately have "uint (of_int \<lfloor>r\<rfloor> :: u64) = \<lfloor>r\<rfloor>"
    by (simp add: uint_word_of_int take_bit_int_eq_self)
  then have "unat (of_int \<lfloor>r\<rfloor> :: u64) = nat \<lfloor>r\<rfloor>"
    by (simp only: unat_eq_nat_uint)
  then show ?thesis
    using assms by (simp add: f64_as_u64_def not_le)
qed

section \<open>Text of error messages\<close>

text \<open>
  \<open>ERRL!\<close> formats its arguments behind a \<open>file:line] \<close> prefix. The prefix names a source position
  and is left out; the text after it is kept. \<open>debug_str\<close> is the \<open>{:?}\<close> rendering of a string.
\<close>

fun digits_acc :: "nat \<Rightarrow> nat \<Rightarrow> string \<Rightarrow> string" where
  "digits_acc 0 n acc = acc"
| "digits_acc (Suc fuel) n acc =
     (let c = char_of (48 + n mod 10) in
      if n < 10 then c # acc else digits_acc fuel (n div 10) (c # acc))"

text \<open>A \<open>u64\<close> has at most twenty decimal digits, so twenty rounds print every value.\<close>

definition show_u64 :: "u64 \<Rightarrow> string" where
  "show_u64 w = digits_acc 20 (unat w) []"

definition escape_char :: "char \<Rightarrow> string" where
  "escape_char c = (if c = CHR 0x22 \<or> c = CHR 0x5C then [CHR 0x5C, c] else [c])"

definition debug_str :: "string \<Rightarrow> string" where
  "debug_str s = [CHR 0x22] @ concat (map escape_char s) @ [CHR 0x22]"

definition show_opt_u64 :: "u64 option \<Rightarrow> string" where
  "show_opt_u64 x = (case x of None \<Rightarrow> ''None'' | Some v \<Rightarrow> ''Some('' @ show_u64 v @ '')'')"

definition hex_digit :: "nat \<Rightarrow> char" where
  "hex_digit n = (if n < 10 then char_of (48 + n) else char_of (87 + n))"

definition show_hex :: "bytes \<Rightarrow> string" where
  "show_hex bs = concat (map (\<lambda>b. [hex_digit (unat b div 16), hex_digit (unat b mod 16)]) bs)"

section \<open>Fixed-size byte arrays\<close>

text \<open>
  \<open>From<&[u8]>\<close> of the hash types (\<open>mm2_bitcoin/primitives/src/hash.rs\<close>) copies the first bytes of
  the slice: it panics on a shorter slice and drops the rest of a longer one.
\<close>

definition hash_from_slice :: "nat \<Rightarrow> bytes \<Rightarrow> bytes option" where
  "hash_from_slice n bs = (if n \<le> length bs then Some (take n bs) else None)"

definition hash_default :: "nat \<Rightarrow> bytes" where
  "hash_default n = replicate n 0"

lemma hash_from_slice_length: "hash_from_slice n bs = Some h \<Longrightarrow> length h = n"
  by (auto simp: hash_from_slice_def split: if_splits)

lemma hash_from_slice_exact [simp]: "length bs = n \<Longrightarrow> hash_from_slice n bs = Some bs"
  by (simp add: hash_from_slice_def)

section \<open>Lists of events\<close>

text \<open>The ways to cut a short list of events behind one of its members.\<close>

lemma split_one: "pre @ e # post = [a] \<longleftrightarrow> pre = [] \<and> e = a \<and> post = []"
  by (cases pre) auto

lemma split_two:
  "pre @ e # post = [a, b] \<longleftrightarrow> pre = [] \<and> e = a \<and> post = [b] \<or> pre = [a] \<and> e = b \<and> post = []"
  by (cases pre) (auto simp: split_one)

lemma split_three:
  "pre @ e # post = [a, b, c] \<longleftrightarrow>
     pre = [] \<and> e = a \<and> post = [b, c] \<or> pre = [a] \<and> e = b \<and> post = [c] \<or> pre = [a, b] \<and> e = c \<and> post = []"
  by (cases pre) (auto simp: split_two)

lemmas event_splits = split_one split_two split_three

end
