(* ===== verification/SwapTypes.thy ===== *)
theory SwapTypes
  imports Prelude
begin

text \<open>
  The data that swaps are made of: transactions and their errors, the argument structs of the coin
  operations (\<open>coins/lp_coins.rs\<close>), the swap messages of the peer-to-peer protocol
  (\<open>mm2_main/src/lp_swap.rs\<close>), the coin interface \<open>MmCoinEnum\<close> as the record of the methods the swaps
  call, the node context, and the effects a stage has on the outside world.

  Every chain-dependent method of a coin takes the moment of the call, and the methods called in a
  loop take the number of the attempt as well, so that no answer constrains a later one.
\<close>

section \<open>Transactions\<close>

datatype transaction_kind = UtxoTx | SignedEthTx | ZTransaction | CosmosTransaction | LightningPayment

record transaction =
  tx_kind :: transaction_kind
  tx_hex :: bytes
  tx_hash :: bytes

definition supports_tx_helper :: "transaction \<Rightarrow> bool" where
  "supports_tx_helper tx = (tx_kind tx \<noteq> LightningPayment)"

datatype transaction_err = TxRecoverable transaction string | Plain string

fun get_tx :: "transaction_err \<Rightarrow> transaction option" where
  "get_tx (TxRecoverable tx e) = Some tx"
| "get_tx (Plain e) = None"

fun get_plain_text_format :: "transaction_err \<Rightarrow> string" where
  "get_plain_text_format (TxRecoverable tx e) = e"
| "get_plain_text_format (Plain e) = e"

datatype found_swap_tx_spend = Spent transaction | Refunded transaction

datatype can_refund_htlc = CanRefundNow | HaveToWait u64

record transaction_identifier =
  ti_hex :: bytes
  ti_hash :: bytes

definition tx_ident :: "transaction \<Rightarrow> transaction_identifier" where
  "tx_ident tx = \<lparr>ti_hex = tx_hex tx, ti_hash = tx_hash tx\<rparr>"

section \<open>Fees and amounts\<close>

record trade_fee =
  tf_coin :: string
  tf_amount :: rat
  tf_paid_from_trading_vol :: bool

text \<open>\<open>SavedTradeFee\<close> holds the same three fields, the amount converted to a decimal.\<close>

record saved_trade_fee =
  stf_coin :: string
  stf_amount :: rat
  stf_paid_from_trading_vol :: bool

record locked_amount =
  la_coin :: string
  la_amount :: rat
  la_trade_fee :: "trade_fee option"

datatype fee_approx_stage = WithoutApprox | StartSwap | WatcherPreimage | OrderIssue | TradePreimage

datatype trade_preimage_value = Exact rat | UpperBound rat

datatype trade_preimage_error =
    TP_NotSufficientBalance string rat rat
  | TP_AmountIsTooSmall rat rat
  | TP_Transport string
  | TP_InternalError string

datatype balance_error =
    BE_Transport string
  | BE_InvalidResponse string
  | BE_UnexpectedDerivationMethod string
  | BE_WalletStorageError string
  | BE_Internal string

datatype check_balance_error =
    NotSufficientBalance string rat rat "rat option"
  | NotSufficientBaseCoinBalance string rat rat "rat option"
  | VolumeTooLow string rat rat
  | CB_Transport string
  | CB_InternalError string

datatype reward_target = RT_None | RT_Contract | RT_PaymentSender | RT_PaymentSpender | RT_PaymentReceiver

record watcher_reward =
  wr_amount :: rat
  wr_is_exact_amount :: bool
  wr_reward_target :: reward_target
  wr_send_contract_reward_on_spend :: bool

datatype payment_instructions = Lightning bytes | WatcherReward rat

section \<open>Argument structs of the coin operations\<close>

record confirm_payment_input =
  cpi_payment_tx :: bytes
  cpi_confirmations :: u64
  cpi_requires_nota :: bool
  cpi_wait_until :: u64
  cpi_check_every :: u64

record validate_payment_input =
  vpi_payment_tx :: bytes
  vpi_time_lock_duration :: u64
  vpi_time_lock :: u32
  vpi_other_pub :: bytes
  vpi_secret_hash :: bytes
  vpi_amount :: rat
  vpi_swap_contract_address :: "bytes option"
  vpi_try_spv_proof_until :: u64
  vpi_confirmations :: u64
  vpi_unique_swap_data :: bytes
  vpi_watcher_reward :: "watcher_reward option"

record search_for_swap_tx_spend_input =
  sfi_time_lock :: u32
  sfi_other_pub :: bytes
  sfi_secret_hash :: bytes
  sfi_tx :: bytes
  sfi_search_from_block :: u64
  sfi_swap_contract_address :: "bytes option"
  sfi_swap_unique_data :: bytes
  sfi_watcher_reward :: bool

record send_payment_args =
  spa_time_lock_duration :: u64
  spa_time_lock :: u32
  spa_other_pubkey :: bytes
  spa_secret_hash :: bytes
  spa_amount :: rat
  spa_swap_contract_address :: "bytes option"
  spa_swap_unique_data :: bytes
  spa_payment_instructions :: "payment_instructions option"
  spa_watcher_reward :: "watcher_reward option"
  spa_wait_for_confirmation_until :: u64

record spend_payment_args =
  sp_other_payment_tx :: bytes
  sp_time_lock :: u32
  sp_other_pubkey :: bytes
  sp_secret :: bytes
  sp_secret_hash :: bytes
  sp_swap_contract_address :: "bytes option"
  sp_swap_unique_data :: bytes
  sp_watcher_reward :: bool

record refund_payment_args =
  rpa_payment_tx :: bytes
  rpa_time_lock :: u32
  rpa_other_pubkey :: bytes
  rpa_secret_hash :: bytes
  rpa_swap_contract_address :: "bytes option"
  rpa_swap_unique_data :: bytes
  rpa_watcher_reward :: bool

record check_if_my_payment_sent_args =
  cia_time_lock :: u32
  cia_other_pub :: bytes
  cia_secret_hash :: bytes
  cia_search_from_block :: u64
  cia_swap_contract_address :: "bytes option"
  cia_swap_unique_data :: bytes
  cia_amount :: rat
  cia_payment_instructions :: "payment_instructions option"

record validate_fee_args =
  vfa_fee_tx :: transaction
  vfa_expected_sender :: bytes
  vfa_fee_addr :: bytes
  vfa_amount :: rat
  vfa_min_block_number :: u64
  vfa_uuid :: bytes

record wait_for_htlc_tx_spend_args =
  wha_tx_bytes :: bytes
  wha_secret_hash :: bytes
  wha_wait_until :: u64
  wha_from_block :: u64
  wha_swap_contract_address :: "bytes option"
  wha_check_every :: rat
  wha_watcher_reward :: bool

record payment_instruction_args =
  pia_secret_hash :: bytes
  pia_amount :: rat
  pia_maker_lock_duration :: u64
  pia_expires_in :: u64
  pia_watcher_reward :: bool
  pia_wait_until :: u64

definition payment_instruction_args_default :: payment_instruction_args where
  "payment_instruction_args_default =
     \<lparr>pia_secret_hash = [], pia_amount = 0, pia_maker_lock_duration = 0, pia_expires_in = 0,
      pia_watcher_reward = False, pia_wait_until = 0\<rparr>"

section \<open>Swap messages\<close>

record negotiation_data_v1 =
  n1_started_at :: u64
  n1_payment_locktime :: u64
  n1_secret_hash :: bytes
  n1_persistent_pubkey :: bytes

record negotiation_data_v2 =
  n2_started_at :: u64
  n2_payment_locktime :: u64
  n2_secret_hash :: bytes
  n2_persistent_pubkey :: bytes
  n2_maker_coin_swap_contract :: bytes
  n2_taker_coin_swap_contract :: bytes

record negotiation_data_v3 =
  n3_started_at :: u64
  n3_payment_locktime :: u64
  n3_secret_hash :: bytes
  n3_maker_coin_swap_contract :: bytes
  n3_taker_coin_swap_contract :: bytes
  n3_maker_coin_htlc_pub :: bytes
  n3_taker_coin_htlc_pub :: bytes

datatype negotiation_data_msg =
  V1 negotiation_data_v1 | V2 negotiation_data_v2 | V3 negotiation_data_v3

datatype swap_tx_data_msg = Regular bytes | WithInstructions bytes bytes

datatype swap_msg =
    Negotiation negotiation_data_msg
  | NegotiationReply negotiation_data_msg
  | Negotiated_msg bool
  | TakerFee_msg swap_tx_data_msg
  | MakerPayment_msg swap_tx_data_msg
  | TakerPayment_msg bytes

record swap_msg_store =
  sm_negotiation :: "negotiation_data_msg option"
  sm_negotiation_reply :: "negotiation_data_msg option"
  sm_negotiated :: "bool option"
  sm_taker_fee :: "swap_tx_data_msg option"
  sm_maker_payment :: "swap_tx_data_msg option"
  sm_taker_payment :: "bytes option"
  sm_accept_only_from :: bytes

record swap_confirmations_settings =
  sc_maker_coin_confs :: u64
  sc_maker_coin_nota :: bool
  sc_taker_coin_confs :: u64
  sc_taker_coin_nota :: bool

text \<open>The message a taker sends to watchers (\<open>TakerSwapWatcherData\<close>).\<close>

record taker_swap_watcher_data =
  wd_uuid :: uuid
  wd_secret_hash :: bytes
  wd_maker_payment_spend_preimage :: bytes
  wd_taker_payment_refund_preimage :: bytes
  wd_swap_started_at :: u64
  wd_lock_duration :: u64
  wd_taker_coin :: string
  wd_taker_fee_hash :: bytes
  wd_taker_payment_hash :: bytes
  wd_taker_coin_start_block :: u64
  wd_taker_payment_confirmations :: u64
  wd_taker_payment_requires_nota :: "bool option"
  wd_maker_coin :: string
  wd_maker_pub :: bytes
  wd_maker_payment_hash :: bytes
  wd_maker_coin_start_block :: u64

end
