(* ===== verification/SwapEnv.thy ===== *)
theory SwapEnv
  imports SwapTypes
begin

text \<open>
  What a swap sees of the rest of the node: the coin interface, the context and the effects.

  \<^item> \<open>coin\<close> is an \<open>MmCoinEnum\<close>: its variant and the methods of the traits \<open>SwapOps\<close>, \<open>WatcherOps\<close>,
    \<open>MarketCoinOps\<close> and \<open>MmCoin\<close> that the swap code calls. A trait object is a record of functions.
    Where a method receives the other coin it receives its ticker here.
  \<^item> \<open>mm_ctx\<close> holds the clocks, the environment variables, the store of received messages as it is
    at each poll, the failures of the swap databases, the lock of the swap file, the price service, the locked amounts of the
    running swaps, the hash functions and the rendering of errors that contain decimals. The clocks
    take the moment and, within it, the number of the event (\<open>x_now_ms\<close>, \<open>x_apply_now\<close>) or of the
    wait for a message (\<open>x_poll_start\<close>, \<open>x_poll_now\<close>), so that they may advance inside a stage.
  \<^item> \<open>effect\<close> lists the calls that change something outside of the swap, in the order in which a
    stage makes them.
\<close>

section \<open>The coin interface\<close>

datatype mm_coin_kind =
    UtxoCoin | QtumCoin | Qrc20Coin | EthCoin | ZCoin | Bch | SlpToken | Tendermint | TendermintToken
  | SolanaCoin | SplToken | LightningCoin | TestCoin

record coin =
  c_kind :: mm_coin_kind
  c_ticker :: string
  c_swap_contract_address :: "bytes option"
  c_fallback_swap_contract :: "bytes option"
  c_requires_notarization :: bool
  c_is_privacy :: bool
  c_is_auto_refundable :: bool
  c_is_supported_by_watchers :: bool
  c_maker_locktime_multiplier :: rat
  c_min_tx_amount :: rat
  c_derive_htlc_pubkey :: "bytes \<Rightarrow> bytes"
  c_derive_htlc_key_pair :: "bytes \<Rightarrow> bytes"
  c_negotiate_swap_contract_addr :: "bytes option \<Rightarrow> string + bytes option"
  c_validate_other_pubkey :: "bytes \<Rightarrow> string + unit"
  c_tx_enum_from_bytes :: "bytes \<Rightarrow> string + transaction"
  c_validate_maker_payment_instructions ::
    "bytes \<Rightarrow> payment_instruction_args \<Rightarrow> string + payment_instructions"
  c_validate_taker_payment_instructions ::
    "bytes \<Rightarrow> payment_instruction_args \<Rightarrow> string + payment_instructions"
  c_my_spendable_balance :: "moment \<Rightarrow> balance_error + rat"
  c_base_coin_balance :: "moment \<Rightarrow> balance_error + rat"
  c_current_block :: "moment \<Rightarrow> string + u64"
  c_get_sender_trade_fee ::
    "moment \<Rightarrow> trade_preimage_value \<Rightarrow> fee_approx_stage \<Rightarrow> trade_preimage_error + trade_fee"
  c_get_receiver_trade_fee :: "moment \<Rightarrow> fee_approx_stage \<Rightarrow> trade_preimage_error + trade_fee"
  c_get_fee_to_send_taker_fee :: "moment \<Rightarrow> rat \<Rightarrow> fee_approx_stage \<Rightarrow> trade_preimage_error + trade_fee"
  c_send_taker_fee :: "moment \<Rightarrow> bytes \<Rightarrow> rat \<Rightarrow> bytes \<Rightarrow> transaction_err + transaction"
  c_send_maker_payment :: "moment \<Rightarrow> send_payment_args \<Rightarrow> transaction_err + transaction"
  c_send_taker_payment :: "moment \<Rightarrow> send_payment_args \<Rightarrow> transaction_err + transaction"
  c_send_maker_spends_taker_payment ::
    "moment \<Rightarrow> spend_payment_args \<Rightarrow> transaction_err + transaction"
  c_send_taker_spends_maker_payment ::
    "moment \<Rightarrow> spend_payment_args \<Rightarrow> transaction_err + transaction"
  c_send_maker_refunds_payment :: "moment \<Rightarrow> refund_payment_args \<Rightarrow> transaction_err + transaction"
  c_send_taker_refunds_payment :: "moment \<Rightarrow> refund_payment_args \<Rightarrow> transaction_err + transaction"
  c_validate_fee :: "moment \<Rightarrow> nat \<Rightarrow> validate_fee_args \<Rightarrow> string + unit"
  c_validate_maker_payment :: "moment \<Rightarrow> validate_payment_input \<Rightarrow> string + unit"
  c_validate_taker_payment :: "moment \<Rightarrow> validate_payment_input \<Rightarrow> string + unit"
  c_check_if_my_payment_sent ::
    "moment \<Rightarrow> check_if_my_payment_sent_args \<Rightarrow> string + transaction option"
  c_search_for_swap_tx_spend_my ::
    "moment \<Rightarrow> search_for_swap_tx_spend_input \<Rightarrow> string + found_swap_tx_spend option"
  c_search_for_swap_tx_spend_other ::
    "moment \<Rightarrow> search_for_swap_tx_spend_input \<Rightarrow> string + found_swap_tx_spend option"
  c_extract_secret :: "moment \<Rightarrow> bytes \<Rightarrow> bytes \<Rightarrow> bool \<Rightarrow> string + bytes"
  c_can_refund_htlc :: "moment \<Rightarrow> nat \<Rightarrow> u64 \<Rightarrow> string + can_refund_htlc"
  c_wait_for_htlc_refund :: "moment \<Rightarrow> bytes \<Rightarrow> u64 \<Rightarrow> string + unit"
  c_wait_for_confirmations :: "moment \<Rightarrow> confirm_payment_input \<Rightarrow> string + unit"
  c_wait_for_htlc_tx_spend ::
    "moment \<Rightarrow> wait_for_htlc_tx_spend_args \<Rightarrow> transaction_err + transaction"
  c_maker_payment_instructions :: "moment \<Rightarrow> payment_instruction_args \<Rightarrow> string + bytes option"
  c_taker_payment_instructions :: "moment \<Rightarrow> payment_instruction_args \<Rightarrow> string + bytes option"
  c_get_taker_watcher_reward ::
    "moment \<Rightarrow> string \<Rightarrow> rat option \<Rightarrow> rat option \<Rightarrow> rat option \<Rightarrow> u64 \<Rightarrow> string + watcher_reward"
  c_get_maker_watcher_reward ::
    "moment \<Rightarrow> string \<Rightarrow> rat option \<Rightarrow> u64 \<Rightarrow> string + watcher_reward option"
  c_create_taker_payment_refund_preimage ::
    "moment \<Rightarrow> bytes \<Rightarrow> u32 \<Rightarrow> bytes \<Rightarrow> bytes \<Rightarrow> bytes option \<Rightarrow> bytes \<Rightarrow> transaction_err + transaction"
  c_create_maker_payment_spend_preimage ::
    "moment \<Rightarrow> bytes \<Rightarrow> u32 \<Rightarrow> bytes \<Rightarrow> bytes \<Rightarrow> bytes \<Rightarrow> transaction_err + transaction"

definition is_eth :: "coin \<Rightarrow> bool" where
  "is_eth c = (c_kind c = EthCoin)"

section \<open>The context\<close>

record mm_ctx =
  x_now_sec :: "moment \<Rightarrow> u64"
  x_now_ms :: "moment \<Rightarrow> nat \<Rightarrow> u64"
  x_apply_now :: "moment \<Rightarrow> nat \<Rightarrow> u64"
  x_poll_start :: "moment \<Rightarrow> nat \<Rightarrow> u64"
  x_poll_now :: "moment \<Rightarrow> nat \<Rightarrow> nat \<Rightarrow> u64"
  x_poll_store :: "moment \<Rightarrow> nat \<Rightarrow> nat \<Rightarrow> swap_msg_store option"
  x_db_load_error :: "moment \<Rightarrow> nat \<Rightarrow> string option"
  x_db_save_error :: "moment \<Rightarrow> nat \<Rightarrow> string option"
  x_stats_save_error :: "moment \<Rightarrow> string option"
  x_swap_lock :: "moment \<Rightarrow> nat \<Rightarrow> string + bool"
  x_swap_coins_price :: "moment \<Rightarrow> string option \<Rightarrow> string option \<Rightarrow> (rat \<times> rat) option"
  x_running_swaps :: "moment \<Rightarrow> (uuid \<times> locked_amount list) list"
  x_use_watchers :: bool
  x_env_use_watcher_reward :: bool
  x_env_use_test_locktime :: bool
  x_env_mycoin_fee_discount :: bool
  x_internal_pubkey :: "string + bytes"
  x_gui :: "string option"
  x_mm_version :: string
  x_to_decimal :: "rat \<Rightarrow> rat"
  x_dhash160 :: "bytes \<Rightarrow> bytes"
  x_sha256 :: "bytes \<Rightarrow> bytes"
  x_show_check_balance_error :: "check_balance_error \<Rightarrow> string"
  x_show_trade_preimage_error :: "trade_preimage_error \<Rightarrow> string"
  x_debug_transaction_err :: "transaction_err \<Rightarrow> string"
  x_debug_tx_marshaling_err :: "string \<Rightarrow> string"
  x_show_uuid :: "uuid \<Rightarrow> string"

section \<open>Effects\<close>

datatype effect =
    E_Broadcast swap_msg
  | E_BroadcastEvery swap_msg
  | E_BroadcastTx string bytes
  | E_BroadcastWatcherMsg string taker_swap_watcher_data bytes
  | E_BroadcastWatcherMsgEvery string taker_swap_watcher_data bytes
  | E_SendTakerFee bytes rat bytes
  | E_SendMakerPayment send_payment_args
  | E_SendTakerPayment send_payment_args
  | E_MakerSpendsTakerPayment spend_payment_args
  | E_TakerSpendsMakerPayment spend_payment_args
  | E_MakerRefundsPayment refund_payment_args
  | E_TakerRefundsPayment refund_payment_args
  | E_OnMakerPaymentRefundStart bytes
  | E_OnMakerPaymentRefundSuccess bytes
  | E_OnTakerPaymentRefundStart bytes
  | E_OnTakerPaymentRefundSuccess bytes
  | E_MakerSwapStatusChanged uuid string string rat rat string

text \<open>
  \<open>broadcast_p2p_tx_msg\<close> publishes the raw transaction on the helper topic of the coin, unless the
  transaction is a lightning payment.
\<close>

definition broadcast_p2p_tx_msg :: "string \<Rightarrow> transaction \<Rightarrow> effect list" where
  "broadcast_p2p_tx_msg ticker tx =
     (if \<not> supports_tx_helper tx then [] else [E_BroadcastTx ticker (tx_hex tx)])"

definition broadcast_recoverable :: "string \<Rightarrow> transaction_err \<Rightarrow> effect list" where
  "broadcast_recoverable ticker err =
     (case get_tx err of Some tx \<Rightarrow> broadcast_p2p_tx_msg ticker tx | None \<Rightarrow> [])"

lemma set_broadcast_p2p_tx_msg:
  "set (broadcast_p2p_tx_msg ticker tx) \<subseteq> {E_BroadcastTx ticker (tx_hex tx)}"
  by (simp add: broadcast_p2p_tx_msg_def)

lemma broadcast_recoverable_cases:
  "e \<in> set (broadcast_recoverable ticker err) \<Longrightarrow> \<exists>raw. e = E_BroadcastTx ticker raw"
  by (auto simp: broadcast_recoverable_def broadcast_p2p_tx_msg_def split: option.splits if_splits)

lemma broadcast_p2p_tx_msg_cases:
  "e \<in> set (broadcast_p2p_tx_msg ticker tx) \<Longrightarrow> e = E_BroadcastTx ticker (tx_hex tx)"
  by (auto simp: broadcast_p2p_tx_msg_def split: if_splits)

end
