(* ===== verification/SwapCommon.thy ===== *)
theory SwapCommon
  imports SwapEnv
begin

text \<open>
  The functions of \<open>mm2_main/src/lp_swap.rs\<close> that makers and takers share: the store of received
  messages (\<open>process_swap_msg\<close>, \<open>recv_swap_msg\<close>), the deadlines of a swap, the payment lock time of a
  coin pair, the DEX fee, the accessors of the negotiation messages and the amounts locked by the
  running swaps.
\<close>

section \<open>Received messages\<close>

definition swap_msg_store_new :: "bytes \<Rightarrow> swap_msg_store" where
  "swap_msg_store_new accept_only_from =
     \<lparr>sm_negotiation = None, sm_negotiation_reply = None, sm_negotiated = None, sm_taker_fee = None,
      sm_maker_payment = None, sm_taker_payment = None, sm_accept_only_from = accept_only_from\<rparr>"

definition init_msg_store ::
  "(uuid \<rightharpoonup> swap_msg_store) \<Rightarrow> uuid \<Rightarrow> bytes \<Rightarrow> (uuid \<rightharpoonup> swap_msg_store)" where
  "init_msg_store msgs u accept_only_from = msgs(u \<mapsto> swap_msg_store_new accept_only_from)"

fun store_swap_msg :: "swap_msg \<Rightarrow> swap_msg_store \<Rightarrow> swap_msg_store" where
  "store_swap_msg (Negotiation data) st = st\<lparr>sm_negotiation := Some data\<rparr>"
| "store_swap_msg (NegotiationReply data) st = st\<lparr>sm_negotiation_reply := Some data\<rparr>"
| "store_swap_msg (Negotiated_msg negotiated) st = st\<lparr>sm_negotiated := Some negotiated\<rparr>"
| "store_swap_msg (TakerFee_msg data) st = st\<lparr>sm_taker_fee := Some data\<rparr>"
| "store_swap_msg (MakerPayment_msg data) st = st\<lparr>sm_maker_payment := Some data\<rparr>"
| "store_swap_msg (TakerPayment_msg taker_payment) st = st\<lparr>sm_taker_payment := Some taker_payment\<rparr>"

text \<open>
  \<open>process_swap_msg\<close> of a native node. The parsers of the topic, of a signed message (with the
  unprefixed key of the signer) and of a swap status come from libraries; a status is handed to the
  statistics storage, which is the third component of the result.
\<close>

definition process_swap_msg ::
  "(string \<Rightarrow> string + uuid) \<Rightarrow> (bytes \<Rightarrow> string + swap_msg \<times> bytes) \<Rightarrow> (bytes \<Rightarrow> string + 'status) \<Rightarrow>
   string \<Rightarrow> bytes \<Rightarrow> (uuid \<rightharpoonup> swap_msg_store) \<Rightarrow>
   (uuid \<rightharpoonup> swap_msg_store) \<times> (string + unit) \<times> 'status option" where
  "process_swap_msg uuid_from_str decode_signed status_from_slice topic msg msgs =
     (case uuid_from_str topic of
        Inl e \<Rightarrow> (msgs, Inl e, None)
      | Inr u \<Rightarrow>
          (case decode_signed msg of
             Inl swap_msg_err \<Rightarrow>
               (case status_from_slice msg of
                  Inr status \<Rightarrow> (msgs, Inr (), Some status)
                | Inl swap_status_err \<Rightarrow>
                    (msgs,
                     Inl (''Couldn't deserialize swap msg to either 'SwapMsg': '' @ swap_msg_err
                          @ '' or to 'SwapStatus': '' @ swap_status_err),
                     None))
           | Inr (m, sender) \<Rightarrow>
               (case msgs u of
                  None \<Rightarrow> (msgs, Inr (), None)
                | Some st \<Rightarrow>
                    if sm_accept_only_from st = sender
                    then (msgs(u \<mapsto> store_swap_msg m st), Inr (), None)
                    else (msgs, Inr (), None))))"

definition BASIC_COMM_TIMEOUT :: u64 where "BASIC_COMM_TIMEOUT = 90"

text \<open>
  \<open>recv_swap_msg\<close> polls the store once a second until the getter finds its message or the clock has
  passed the deadline. The two functions give the store and the clock at the \<open>i\<close>-th poll;
  \<open>None\<close> is a loop that never returns.
\<close>

partial_function (option) recv_swap_msg_loop ::
  "(nat \<Rightarrow> swap_msg_store option) \<Rightarrow> (nat \<Rightarrow> u64) \<Rightarrow> (swap_msg_store \<Rightarrow> 'a option) \<Rightarrow>
   u64 \<Rightarrow> u64 \<Rightarrow> nat \<Rightarrow> (string + 'a) option" where
  "recv_swap_msg_loop store now getter started timeout i =
     (case Option.bind (store i) getter of
        Some msg \<Rightarrow> Some (Inr msg)
      | None \<Rightarrow>
          if started + timeout < now i
          then Some (Inl (''Timeout ('' @ show_u64 (now i - started) @ '' > '' @ show_u64 timeout @ '')''))
          else recv_swap_msg_loop store now getter started timeout (Suc i))"

definition recv_swap_msg ::
  "mm_ctx \<Rightarrow> moment \<Rightarrow> nat \<Rightarrow> (swap_msg_store \<Rightarrow> 'a option) \<Rightarrow> u64 \<Rightarrow> (string + 'a) option" where
  "recv_swap_msg ctx t k getter timeout =
     recv_swap_msg_loop (x_poll_store ctx t k) (x_poll_now ctx t k) getter
       (x_poll_start ctx t k) (BASIC_COMM_TIMEOUT + timeout) 0"

section \<open>Deadlines\<close>

definition PAYMENT_LOCKTIME :: u64 where "PAYMENT_LOCKTIME = 3600 * 2 + 300 * 2"

definition taker_payment_spend_duration :: "u64 \<Rightarrow> u64" where
  "taker_payment_spend_duration locktime = (locktime * 4) div 5"

definition taker_payment_spend_deadline :: "u64 \<Rightarrow> u64 \<Rightarrow> u64" where
  "taker_payment_spend_deadline swap_started_at locktime =
     swap_started_at + taker_payment_spend_duration locktime"

definition wait_for_maker_payment_conf_duration :: "u64 \<Rightarrow> u64" where
  "wait_for_maker_payment_conf_duration locktime = (locktime * 2) div 5"

definition wait_for_maker_payment_conf_until :: "u64 \<Rightarrow> u64 \<Rightarrow> u64" where
  "wait_for_maker_payment_conf_until swap_started_at locktime =
     swap_started_at + wait_for_maker_payment_conf_duration locktime"

definition WAIT_CONFIRM_INTERVAL_SEC :: u64 where "WAIT_CONFIRM_INTERVAL_SEC = 15"

text \<open>
  The lock duration of the maker payment, \<open>(lock_duration as f64 * multiplier).ceil() as u64\<close>. The
  product is computed exactly here; in \<open>f64\<close> it is exact as long as it stays below \<open>2 ^ 52\<close>, which
  for seconds is more than a hundred million years.
\<close>

definition maker_lock_duration :: "u64 \<Rightarrow> rat \<Rightarrow> u64" where
  "maker_lock_duration lock_duration multiplier =
     f64_as_u64 (of_int \<lceil>of_nat (unat lock_duration) * multiplier\<rceil>)"

section \<open>Lock time of a coin pair\<close>

definition requires_notarization :: "swap_confirmations_settings \<Rightarrow> bool" where
  "requires_notarization s = (sc_maker_coin_nota s \<or> sc_taker_coin_nota s)"

definition coin_with_4x_locktime :: "string \<Rightarrow> bool" where
  "coin_with_4x_locktime ticker = (ticker \<in> {''BCH'', ''BTG'', ''SBTC''})"

datatype atomic_locktime_version =
  LT_V1 | LT_V2 swap_confirmations_settings swap_confirmations_settings

definition lp_atomic_locktime_v1 :: "string \<Rightarrow> string \<Rightarrow> u64" where
  "lp_atomic_locktime_v1 maker_coin taker_coin =
     (if maker_coin = ''BTC'' \<or> taker_coin = ''BTC'' then PAYMENT_LOCKTIME * 10
      else if coin_with_4x_locktime maker_coin \<or> coin_with_4x_locktime taker_coin
      then PAYMENT_LOCKTIME * 4
      else PAYMENT_LOCKTIME)"

fun starts_with :: "string \<Rightarrow> string \<Rightarrow> bool" where
  "starts_with [] s = True"
| "starts_with (p # ps) [] = False"
| "starts_with (p # ps) (c # cs) = (p = c \<and> starts_with ps cs)"

fun contains_str :: "string \<Rightarrow> string \<Rightarrow> bool" where
  "contains_str p [] = (p = [])"
| "contains_str p (c # cs) = (starts_with p (c # cs) \<or> contains_str p cs)"

definition lp_atomic_locktime_v2 ::
  "string \<Rightarrow> string \<Rightarrow> swap_confirmations_settings \<Rightarrow> swap_confirmations_settings \<Rightarrow> u64" where
  "lp_atomic_locktime_v2 maker_coin taker_coin my_conf_settings other_conf_settings =
     (if contains_str ''-lightning'' taker_coin then PAYMENT_LOCKTIME * 12
      else if maker_coin = ''BTC'' \<or> taker_coin = ''BTC''
        \<or> coin_with_4x_locktime maker_coin \<or> coin_with_4x_locktime taker_coin
        \<or> requires_notarization my_conf_settings \<or> requires_notarization other_conf_settings
      then PAYMENT_LOCKTIME * 4
      else PAYMENT_LOCKTIME)"

fun lp_atomic_locktime :: "string \<Rightarrow> string \<Rightarrow> atomic_locktime_version \<Rightarrow> u64" where
  "lp_atomic_locktime maker_coin taker_coin LT_V1 = lp_atomic_locktime_v1 maker_coin taker_coin"
| "lp_atomic_locktime maker_coin taker_coin (LT_V2 my other) =
     lp_atomic_locktime_v2 maker_coin taker_coin my other"

section \<open>The DEX fee\<close>

definition dex_fee_threshold :: "rat \<Rightarrow> rat" where
  "dex_fee_threshold min_tx_amount =
     (let min_fee = 1 / 10000 in if min_fee < min_tx_amount then min_tx_amount else min_fee)"

definition dex_fee_rate :: "mm_ctx \<Rightarrow> string \<Rightarrow> string \<Rightarrow> rat" where
  "dex_fee_rate ctx base rel =
     (let fee_discount_tickers =
        (if x_env_mycoin_fee_discount ctx then [''KMD'', ''MYCOIN''] else [''KMD''])
      in if base \<in> set fee_discount_tickers \<or> rel \<in> set fee_discount_tickers
         then 9 / 7770 else 1 / 777)"

definition dex_fee_amount :: "mm_ctx \<Rightarrow> string \<Rightarrow> string \<Rightarrow> rat \<Rightarrow> rat \<Rightarrow> rat" where
  "dex_fee_amount ctx base rel trade_amount threshold =
     (let fee_amount = trade_amount * dex_fee_rate ctx base rel
      in if fee_amount < threshold then threshold else fee_amount)"

definition dex_fee_amount_from_taker_coin :: "mm_ctx \<Rightarrow> coin \<Rightarrow> string \<Rightarrow> rat \<Rightarrow> rat" where
  "dex_fee_amount_from_taker_coin ctx taker_coin maker_coin trade_amount =
     dex_fee_amount ctx (c_ticker taker_coin) maker_coin trade_amount
       (dex_fee_threshold (c_min_tx_amount taker_coin))"

text \<open>\<open>DEX_FEE_ADDR_RAW_PUBKEY\<close> (\<open>common/common.rs\<close>).\<close>

definition DEX_FEE_ADDR_RAW_PUBKEY :: bytes where
  "DEX_FEE_ADDR_RAW_PUBKEY =
     [0x03, 0xbc, 0x2c, 0x7b, 0xa6, 0x71, 0xba, 0xe4, 0xa6, 0xfc, 0x83, 0x52, 0x44, 0xc9, 0x76, 0x2b,
      0x41, 0x64, 0x7b, 0x98, 0x27, 0xd4, 0x78, 0x0a, 0x89, 0xa9, 0x49, 0xb9, 0x84, 0xa8, 0xdd, 0xcc,
      0x06]"

section \<open>Accessors of the messages\<close>

fun started_at :: "negotiation_data_msg \<Rightarrow> u64" where
  "started_at (V1 v) = n1_started_at v"
| "started_at (V2 v) = n2_started_at v"
| "started_at (V3 v) = n3_started_at v"

fun payment_locktime :: "negotiation_data_msg \<Rightarrow> u64" where
  "payment_locktime (V1 v) = n1_payment_locktime v"
| "payment_locktime (V2 v) = n2_payment_locktime v"
| "payment_locktime (V3 v) = n3_payment_locktime v"

fun msg_secret_hash :: "negotiation_data_msg \<Rightarrow> bytes" where
  "msg_secret_hash (V1 v) = n1_secret_hash v"
| "msg_secret_hash (V2 v) = n2_secret_hash v"
| "msg_secret_hash (V3 v) = n3_secret_hash v"

fun maker_coin_htlc_pub :: "negotiation_data_msg \<Rightarrow> bytes" where
  "maker_coin_htlc_pub (V1 v) = n1_persistent_pubkey v"
| "maker_coin_htlc_pub (V2 v) = n2_persistent_pubkey v"
| "maker_coin_htlc_pub (V3 v) = n3_maker_coin_htlc_pub v"

fun taker_coin_htlc_pub :: "negotiation_data_msg \<Rightarrow> bytes" where
  "taker_coin_htlc_pub (V1 v) = n1_persistent_pubkey v"
| "taker_coin_htlc_pub (V2 v) = n2_persistent_pubkey v"
| "taker_coin_htlc_pub (V3 v) = n3_taker_coin_htlc_pub v"

fun maker_coin_swap_contract :: "negotiation_data_msg \<Rightarrow> bytes option" where
  "maker_coin_swap_contract (V1 v) = None"
| "maker_coin_swap_contract (V2 v) = Some (n2_maker_coin_swap_contract v)"
| "maker_coin_swap_contract (V3 v) = Some (n3_maker_coin_swap_contract v)"

fun taker_coin_swap_contract :: "negotiation_data_msg \<Rightarrow> bytes option" where
  "taker_coin_swap_contract (V1 v) = None"
| "taker_coin_swap_contract (V2 v) = Some (n2_taker_coin_swap_contract v)"
| "taker_coin_swap_contract (V3 v) = Some (n3_taker_coin_swap_contract v)"

fun tx_data :: "swap_tx_data_msg \<Rightarrow> bytes" where
  "tx_data (Regular data) = data"
| "tx_data (WithInstructions data instructions) = data"

fun tx_instructions :: "swap_tx_data_msg \<Rightarrow> bytes option" where
  "tx_instructions (Regular data) = None"
| "tx_instructions (WithInstructions data instructions) = Some instructions"

fun swap_tx_data_msg_new :: "bytes \<Rightarrow> bytes option \<Rightarrow> swap_tx_data_msg" where
  "swap_tx_data_msg_new data (Some next_step_instructions) = WithInstructions data next_step_instructions"
| "swap_tx_data_msg_new data None = Regular data"

section \<open>Waiting for a refund\<close>

text \<open>The loop that waits for the refund condition; \<open>i\<close> counts the queries.\<close>

partial_function (option) wait_can_refund :: "coin \<Rightarrow> moment \<Rightarrow> u64 \<Rightarrow> nat \<Rightarrow> unit option" where
  "wait_can_refund c t locktime i =
     (case c_can_refund_htlc c t i locktime of
        Inr CanRefundNow \<Rightarrow> Some ()
      | Inr (HaveToWait to_sleep) \<Rightarrow> wait_can_refund c t locktime (Suc i)
      | Inl e \<Rightarrow> wait_can_refund c t locktime (Suc i))"

lemma wait_can_refund_Some: "wait_can_refund c t l i = Some () \<Longrightarrow> \<exists>j. c_can_refund_htlc c t j l = Inr CanRefundNow"
  by (erule wait_can_refund.raw_induct [rotated]) (auto split: sum.splits can_refund_htlc.splits)

lemma wait_can_refund_returns:
  assumes "i \<le> j" "c_can_refund_htlc c t j l = Inr CanRefundNow"
  shows "wait_can_refund c t l i = Some ()"
  using assms
  by (induction i rule: inc_induct)
    (subst wait_can_refund.simps, simp split: sum.split can_refund_htlc.split)+

section \<open>Secret hash\<close>

datatype secret_hash_algo = DHASH160 | SHA256

fun hash_secret :: "mm_ctx \<Rightarrow> secret_hash_algo \<Rightarrow> bytes \<Rightarrow> bytes" where
  "hash_secret ctx DHASH160 secret = x_dhash160 ctx secret"
| "hash_secret ctx SHA256 secret = x_sha256 ctx secret"

text \<open>The native variant of \<open>detect_secret_hash_algo\<close>.\<close>

definition detect_secret_hash_algo :: "coin \<Rightarrow> coin \<Rightarrow> secret_hash_algo" where
  "detect_secret_hash_algo maker_coin taker_coin =
     (if c_kind maker_coin \<in> {Tendermint, TendermintToken, LightningCoin} then SHA256
      else if c_kind taker_coin \<in> {Tendermint, TendermintToken} then SHA256
      else DHASH160)"

section \<open>Results of recovery and queries\<close>

datatype recovered_swap_action = RefundedMyPayment | SpentOtherPayment

record recovered_swap =
  rec_action :: recovered_swap_action
  rec_coin :: string
  rec_transaction :: transaction

record my_swap_info =
  mi_my_coin :: string
  mi_other_coin :: string
  mi_my_amount :: rat
  mi_other_amount :: rat
  mi_started_at :: u64

record swap_pubkeys =
  pk_maker :: string
  pk_taker :: string

section \<open>Amounts locked by running swaps\<close>

definition trade_fee_of_saved :: "saved_trade_fee \<Rightarrow> trade_fee" where
  "trade_fee_of_saved orig =
     \<lparr>tf_coin = stf_coin orig, tf_amount = stf_amount orig,
      tf_paid_from_trading_vol = stf_paid_from_trading_vol orig\<rparr>"

definition saved_of_trade_fee :: "mm_ctx \<Rightarrow> trade_fee \<Rightarrow> saved_trade_fee" where
  "saved_of_trade_fee ctx orig =
     \<lparr>stf_coin = tf_coin orig, stf_amount = x_to_decimal ctx (tf_amount orig),
      stf_paid_from_trading_vol = tf_paid_from_trading_vol orig\<rparr>"

definition add_locked :: "string \<Rightarrow> locked_amount \<Rightarrow> rat \<Rightarrow> rat" where
  "add_locked ticker locked acc =
     (let total1 = (if la_coin locked = ticker then acc + la_amount locked else acc)
      in case la_trade_fee locked of
           None \<Rightarrow> total1
         | Some fee \<Rightarrow>
             if tf_coin fee = ticker \<and> \<not> tf_paid_from_trading_vol fee
             then total1 + tf_amount fee else total1)"

definition get_locked_amount :: "mm_ctx \<Rightarrow> moment \<Rightarrow> string \<Rightarrow> rat" where
  "get_locked_amount ctx t ticker =
     fold (add_locked ticker) (concat (map snd (x_running_swaps ctx t))) 0"

definition get_locked_amount_by_other_swaps :: "mm_ctx \<Rightarrow> moment \<Rightarrow> uuid \<Rightarrow> string \<Rightarrow> rat" where
  "get_locked_amount_by_other_swaps ctx t except_uuid ticker =
     fold (add_locked ticker)
       (concat (map snd (filter (\<lambda>swap. fst swap \<noteq> except_uuid) (x_running_swaps ctx t)))) 0"

end
