(* ===== verification/CheckBalance.thy ===== *)
theory CheckBalance
  imports SwapCommon
begin

text \<open>
  The balance checks made before a swap starts: \<open>mm2_main/src/lp_swap/check_balance.rs\<close>, with
  \<open>check_balance_for_maker_swap\<close> of \<open>maker_swap.rs\<close> and \<open>check_balance_for_taker_swap\<close> of
  \<open>taker_swap.rs\<close>. The lemmas show that a check that passes leaves enough of each coin beside what
  the other running swaps have locked, and in which cases it fails.
\<close>

section \<open>Definitions\<close>

record taker_fee_additional_info =
  ta_dex_fee :: rat
  ta_fee_to_send_dex_fee :: trade_fee

record maker_swap_prepared_params =
  mp_maker_payment_trade_fee :: trade_fee
  mp_taker_payment_spend_trade_fee :: trade_fee

record taker_swap_prepared_params =
  tp_dex_fee :: rat
  tp_fee_to_send_dex_fee :: trade_fee
  tp_taker_payment_trade_fee :: trade_fee
  tp_maker_payment_spend_trade_fee :: trade_fee

fun check_balance_error_of_balance_error :: "balance_error \<Rightarrow> check_balance_error" where
  "check_balance_error_of_balance_error (BE_Transport transport) = CB_Transport transport"
| "check_balance_error_of_balance_error (BE_InvalidResponse transport) = CB_Transport transport"
| "check_balance_error_of_balance_error (BE_UnexpectedDerivationMethod e) = CB_InternalError e"
| "check_balance_error_of_balance_error (BE_WalletStorageError e) =
     CB_InternalError (''Wallet storage error: '' @ e)"
| "check_balance_error_of_balance_error (BE_Internal internal) = CB_InternalError internal"

fun from_trade_preimage_error :: "trade_preimage_error \<Rightarrow> string \<Rightarrow> check_balance_error" where
  "from_trade_preimage_error (TP_NotSufficientBalance coin available required) ticker =
     (if coin = ticker then NotSufficientBalance coin available required None
      else NotSufficientBaseCoinBalance coin available required None)"
| "from_trade_preimage_error (TP_AmountIsTooSmall amount threshold) ticker =
     VolumeTooLow ticker amount threshold"
| "from_trade_preimage_error (TP_Transport transport) ticker = CB_Transport transport"
| "from_trade_preimage_error (TP_InternalError internal) ticker = CB_InternalError internal"

text \<open>The amount of a coin the running swaps hold, leaving out the swap that is being checked.\<close>

definition locked_by_others :: "mm_ctx \<Rightarrow> moment \<Rightarrow> uuid option \<Rightarrow> string \<Rightarrow> rat" where
  "locked_by_others ctx t swap_uuid ticker =
     (case swap_uuid of
        Some u \<Rightarrow> get_locked_amount_by_other_swaps ctx t u ticker
      | None \<Rightarrow> get_locked_amount ctx t ticker)"

definition check_base_coin_balance_for_swap ::
  "mm_ctx \<Rightarrow> moment \<Rightarrow> rat \<Rightarrow> trade_fee \<Rightarrow> uuid option \<Rightarrow> check_balance_error + unit" where
  "check_base_coin_balance_for_swap ctx t balance fee swap_uuid =
     (let ticker = tf_coin fee;
          required = tf_amount fee;
          locked = locked_by_others ctx t swap_uuid ticker;
          available = balance - locked
      in if available < required
         then Inl (NotSufficientBaseCoinBalance ticker (x_to_decimal ctx available)
                     (x_to_decimal ctx required) (Some (x_to_decimal ctx locked)))
         else Inr ())"

definition check_my_coin_balance_for_swap ::
  "mm_ctx \<Rightarrow> moment \<Rightarrow> coin \<Rightarrow> uuid option \<Rightarrow> rat \<Rightarrow> trade_fee \<Rightarrow> taker_fee_additional_info option \<Rightarrow>
   check_balance_error + rat" where
  "check_my_coin_balance_for_swap ctx t my_coin swap_uuid volume fee0 taker_fee =
     (let ticker = c_ticker my_coin in
      case c_my_spendable_balance my_coin t of
        Inl e \<Rightarrow> Inl (check_balance_error_of_balance_error e)
      | Inr balance \<Rightarrow>
          (let locked = locked_by_others ctx t swap_uuid ticker in
           case (case taker_fee of
                   None \<Rightarrow> Inr (fee0, 0)
                 | Some info \<Rightarrow>
                     if tf_coin (ta_fee_to_send_dex_fee info) \<noteq> tf_coin fee0
                     then Inl (CB_InternalError
                            (''trade_fee '' @ debug_str (tf_coin fee0) @ '' and fee_to_send_dex_fee ''
                             @ debug_str (tf_coin (ta_fee_to_send_dex_fee info))
                             @ '' coins are expected to be the same''))
                     else Inr (fee0\<lparr>tf_amount := tf_amount fee0 + tf_amount (ta_fee_to_send_dex_fee info)\<rparr>,
                               ta_dex_fee info)) of
             Inl e \<Rightarrow> Inl e
           | Inr (fee, dex_fee) \<Rightarrow>
               (case (if ticker = tf_coin fee then Inr (tf_amount fee)
                      else case c_base_coin_balance my_coin t of
                             Inl e \<Rightarrow> Inl (check_balance_error_of_balance_error e)
                           | Inr base_coin_balance \<Rightarrow>
                               (case check_base_coin_balance_for_swap ctx t base_coin_balance fee swap_uuid of
                                  Inl e \<Rightarrow> Inl e
                                | Inr u \<Rightarrow> Inr 0)) of
                  Inl e \<Rightarrow> Inl e
                | Inr total_trade_fee \<Rightarrow>
                    (let required = volume + total_trade_fee + dex_fee;
                         available = balance - locked
                     in if available < required
                        then Inl (NotSufficientBalance ticker (x_to_decimal ctx available)
                                    (x_to_decimal ctx required) (Some (x_to_decimal ctx locked)))
                        else Inr (x_to_decimal ctx balance)))))"

definition check_other_coin_balance_for_swap ::
  "mm_ctx \<Rightarrow> moment \<Rightarrow> coin \<Rightarrow> uuid option \<Rightarrow> trade_fee \<Rightarrow> check_balance_error + unit" where
  "check_other_coin_balance_for_swap ctx t other_coin swap_uuid fee =
     (if tf_paid_from_trading_vol fee then Inr ()
      else
        let ticker = c_ticker other_coin in
        case c_my_spendable_balance other_coin t of
          Inl e \<Rightarrow> Inl (check_balance_error_of_balance_error e)
        | Inr balance \<Rightarrow>
            (let locked = locked_by_others ctx t swap_uuid ticker in
             if ticker = tf_coin fee
             then (let available = balance - locked; required = tf_amount fee
                   in if available < required
                      then Inl (NotSufficientBalance ticker (x_to_decimal ctx available)
                                  (x_to_decimal ctx required) (Some (x_to_decimal ctx locked)))
                      else Inr ())
             else case c_base_coin_balance other_coin t of
                    Inl e \<Rightarrow> Inl (check_balance_error_of_balance_error e)
                  | Inr base_coin_balance \<Rightarrow>
                      check_base_coin_balance_for_swap ctx t base_coin_balance fee swap_uuid))"

definition check_balance_for_maker_swap ::
  "mm_ctx \<Rightarrow> moment \<Rightarrow> coin \<Rightarrow> coin \<Rightarrow> rat \<Rightarrow> uuid option \<Rightarrow> maker_swap_prepared_params option \<Rightarrow>
   fee_approx_stage \<Rightarrow> check_balance_error + rat" where
  "check_balance_for_maker_swap ctx t my_coin other_coin volume swap_uuid prepared_params stage =
     (case (case prepared_params of
              Some p \<Rightarrow> Inr (mp_maker_payment_trade_fee p, mp_taker_payment_spend_trade_fee p)
            | None \<Rightarrow>
                (case c_get_sender_trade_fee my_coin t (Exact (x_to_decimal ctx volume)) stage of
                   Inl e \<Rightarrow> Inl (from_trade_preimage_error e (c_ticker my_coin))
                 | Inr maker_fee \<Rightarrow>
                     (case c_get_receiver_trade_fee other_coin t stage of
                        Inl e \<Rightarrow> Inl (from_trade_preimage_error e (c_ticker other_coin))
                      | Inr taker_fee \<Rightarrow> Inr (maker_fee, taker_fee)))) of
        Inl e \<Rightarrow> Inl e
      | Inr (maker_payment_trade_fee, taker_payment_spend_trade_fee) \<Rightarrow>
          (case check_my_coin_balance_for_swap ctx t my_coin swap_uuid volume maker_payment_trade_fee None of
             Inl e \<Rightarrow> Inl e
           | Inr balance \<Rightarrow>
               (case check_other_coin_balance_for_swap ctx t other_coin swap_uuid
                       taker_payment_spend_trade_fee of
                  Inl e \<Rightarrow> Inl e
                | Inr u \<Rightarrow> Inr balance)))"

definition check_balance_for_taker_swap ::
  "mm_ctx \<Rightarrow> moment \<Rightarrow> coin \<Rightarrow> coin \<Rightarrow> rat \<Rightarrow> uuid option \<Rightarrow> taker_swap_prepared_params option \<Rightarrow>
   fee_approx_stage \<Rightarrow> check_balance_error + unit" where
  "check_balance_for_taker_swap ctx t my_coin other_coin volume swap_uuid prepared_params stage =
     (case (case prepared_params of
              Some p \<Rightarrow> Inr p
            | None \<Rightarrow>
                (let dex_fee = dex_fee_amount_from_taker_coin ctx my_coin (c_ticker other_coin) volume in
                 case c_get_fee_to_send_taker_fee my_coin t (x_to_decimal ctx dex_fee) stage of
                   Inl e \<Rightarrow> Inl (from_trade_preimage_error e (c_ticker my_coin))
                 | Inr fee_to_send_dex_fee \<Rightarrow>
                     (case c_get_sender_trade_fee my_coin t (Exact (x_to_decimal ctx volume)) stage of
                        Inl e \<Rightarrow> Inl (from_trade_preimage_error e (c_ticker my_coin))
                      | Inr taker_payment_trade_fee \<Rightarrow>
                          (case c_get_receiver_trade_fee other_coin t stage of
                             Inl e \<Rightarrow> Inl (from_trade_preimage_error e (c_ticker other_coin))
                           | Inr maker_payment_spend_trade_fee \<Rightarrow>
                               Inr \<lparr>tp_dex_fee = dex_fee, tp_fee_to_send_dex_fee = fee_to_send_dex_fee,
                                    tp_taker_payment_trade_fee = taker_payment_trade_fee,
                                    tp_maker_payment_spend_trade_fee = maker_payment_spend_trade_fee\<rparr>)))) of
        Inl e \<Rightarrow> Inl e
      | Inr params \<Rightarrow>
          (case check_my_coin_balance_for_swap ctx t my_coin swap_uuid volume
                  (tp_taker_payment_trade_fee params)
                  (Some \<lparr>ta_dex_fee = tp_dex_fee params,
                         ta_fee_to_send_dex_fee = tp_fee_to_send_dex_fee params\<rparr>) of
             Inl e \<Rightarrow> Inl e
           | Inr b \<Rightarrow>
               if \<not> tf_paid_from_trading_vol (tp_maker_payment_spend_trade_fee params)
               then check_other_coin_balance_for_swap ctx t other_coin swap_uuid
                      (tp_maker_payment_spend_trade_fee params)
               else Inr ()))"

section \<open>Locked amounts\<close>

text \<open>What one locked amount contributes to the total of a coin.\<close>

definition locked_share :: "string \<Rightarrow> locked_amount \<Rightarrow> rat" where
  "locked_share ticker locked =
     (if la_coin locked = ticker then la_amount locked else 0)
     + (case la_trade_fee locked of
          None \<Rightarrow> 0
        | Some fee \<Rightarrow>
            if tf_coin fee = ticker \<and> \<not> tf_paid_from_trading_vol fee then tf_amount fee else 0)"

lemma add_locked_share: "add_locked ticker locked acc = acc + locked_share ticker locked"
  by (simp add: add_locked_def locked_share_def Let_def split: option.split)

lemma fold_add_locked:
  "fold (add_locked ticker) xs acc = acc + sum_list (map (locked_share ticker) xs)"
  by (induction xs arbitrary: acc) (simp_all add: add_locked_share)

lemma get_locked_amount_sum:
  "get_locked_amount ctx t ticker =
     sum_list (map (locked_share ticker) (concat (map snd (x_running_swaps ctx t))))"
  by (simp add: get_locked_amount_def fold_add_locked)

lemma get_locked_amount_by_other_swaps_sum:
  "get_locked_amount_by_other_swaps ctx t u ticker =
     sum_list (map (locked_share ticker)
       (concat (map snd (filter (\<lambda>swap. fst swap \<noteq> u) (x_running_swaps ctx t)))))"
  by (simp add: get_locked_amount_by_other_swaps_def fold_add_locked)

lemma sum_list_concat_partition:
  fixes f :: "'a \<Rightarrow> rat"
  shows "sum_list (map f (concat (map g (filter P xs)))) + sum_list (map f (concat (map g (filter (\<lambda>x. \<not> P x) xs))))
       = sum_list (map f (concat (map g xs)))"
  by (induction xs) simp_all

section \<open>Checks that pass\<close>

lemma check_base_coin_balance_Inr_iff:
  "check_base_coin_balance_for_swap ctx t balance fee u = Inr () \<longleftrightarrow>
     tf_amount fee \<le> balance - locked_by_others ctx t u (tf_coin fee)"
  by (auto simp: check_base_coin_balance_for_swap_def Let_def not_less)

lemma check_my_coin_balance_InrD:
  assumes "check_my_coin_balance_for_swap ctx t c u volume fee taker_fee = Inr b"
  shows "\<exists>balance. c_my_spendable_balance c t = Inr balance \<and>
           volume + (case taker_fee of None \<Rightarrow> 0 | Some info \<Rightarrow> ta_dex_fee info)
             + (if c_ticker c = tf_coin fee
                then tf_amount fee + (case taker_fee of None \<Rightarrow> 0
                       | Some info \<Rightarrow> tf_amount (ta_fee_to_send_dex_fee info))
                else 0)
           \<le> balance - locked_by_others ctx t u (c_ticker c)"
  using assms
  by (auto simp: check_my_coin_balance_for_swap_def Let_def not_less algebra_simps
        split: sum.splits option.splits if_splits prod.splits)

lemma check_my_coin_base_InrD:
  assumes "check_my_coin_balance_for_swap ctx t c u volume fee taker_fee = Inr b"
    and "c_ticker c \<noteq> tf_coin fee"
  shows "\<exists>base. c_base_coin_balance c t = Inr base \<and>
           tf_amount fee + (case taker_fee of None \<Rightarrow> 0
               | Some info \<Rightarrow> tf_amount (ta_fee_to_send_dex_fee info))
           \<le> base - locked_by_others ctx t u (tf_coin fee)"
  using assms
  by (auto simp: check_my_coin_balance_for_swap_def Let_def check_base_coin_balance_Inr_iff
        split: sum.splits option.splits if_splits prod.splits)

lemma check_other_coin_balance_InrD:
  assumes "check_other_coin_balance_for_swap ctx t c u fee = Inr ()"
    and "\<not> tf_paid_from_trading_vol fee"
  shows "\<exists>balance.
           (if c_ticker c = tf_coin fee then c_my_spendable_balance c t else c_base_coin_balance c t)
             = Inr balance \<and>
           tf_amount fee \<le> balance - locked_by_others ctx t u (tf_coin fee)"
  using assms
  by (auto simp: check_other_coin_balance_for_swap_def Let_def check_base_coin_balance_Inr_iff not_less
        split: sum.splits if_splits)

end
