(* ===== verification/MakerSwap.thy ===== *)
theory MakerSwap
  imports CheckBalance
begin

text \<open>
  The maker's side of a swap, \<open>mm2_main/src/lp_swap/maker_swap.rs\<close>: the data of the swap, the events
  with their effect on the state (\<open>apply_event\<close>), the eleven stages and their dispatch
  (\<open>handle_command\<close>), the locked amounts and the recovery of funds.

  A stage takes the context, the moment of its execution and the swap. It returns the effects it had
  on the outside world, the swap (only \<open>start\<close> writes to it directly) and its outcome: the next
  command with the events, or a panic. \<open>None\<close> is a stage that never returns, because it polls for a
  message or for the refund condition without end. The test-only failure injection \<open>fail_at\<close> and
  the log output are left out.
\<close>

section \<open>Data\<close>

record taker_negotiation_data =
  tn_taker_payment_locktime :: u64
  tn_taker_pubkey :: bytes
  tn_maker_coin_swap_contract_addr :: "bytes option"
  tn_taker_coin_swap_contract_addr :: "bytes option"
  tn_maker_coin_htlc_pubkey :: "bytes option"
  tn_taker_coin_htlc_pubkey :: "bytes option"

definition tn_other_maker_coin_htlc_pub :: "taker_negotiation_data \<Rightarrow> bytes" where
  "tn_other_maker_coin_htlc_pub d =
     (case tn_maker_coin_htlc_pubkey d of Some k \<Rightarrow> k | None \<Rightarrow> tn_taker_pubkey d)"

definition tn_other_taker_coin_htlc_pub :: "taker_negotiation_data \<Rightarrow> bytes" where
  "tn_other_taker_coin_htlc_pub d =
     (case tn_taker_coin_htlc_pubkey d of Some k \<Rightarrow> k | None \<Rightarrow> tn_taker_pubkey d)"

record maker_swap_data =
  md_taker_coin :: string
  md_maker_coin :: string
  md_taker :: bytes
  md_secret :: bytes
  md_secret_hash :: "bytes option"
  md_my_persistent_pub :: bytes
  md_lock_duration :: u64
  md_maker_amount :: rat
  md_taker_amount :: rat
  md_maker_payment_confirmations :: u64
  md_maker_payment_requires_nota :: "bool option"
  md_taker_payment_confirmations :: u64
  md_taker_payment_requires_nota :: "bool option"
  md_maker_payment_lock :: u64
  md_uuid :: uuid
  md_started_at :: u64
  md_maker_coin_start_block :: u64
  md_taker_coin_start_block :: u64
  md_maker_payment_trade_fee :: "saved_trade_fee option"
  md_taker_payment_spend_trade_fee :: "saved_trade_fee option"
  md_maker_coin_swap_contract_address :: "bytes option"
  md_taker_coin_swap_contract_address :: "bytes option"
  md_maker_coin_htlc_pubkey :: "bytes option"
  md_taker_coin_htlc_pubkey :: "bytes option"
  md_p2p_privkey :: "bytes option"

definition maker_swap_data_default :: maker_swap_data where
  "maker_swap_data_default =
     \<lparr>md_taker_coin = [], md_maker_coin = [], md_taker = hash_default 32, md_secret = hash_default 32,
      md_secret_hash = None, md_my_persistent_pub = hash_default 33, md_lock_duration = 0,
      md_maker_amount = 0, md_taker_amount = 0, md_maker_payment_confirmations = 0,
      md_maker_payment_requires_nota = None, md_taker_payment_confirmations = 0,
      md_taker_payment_requires_nota = None, md_maker_payment_lock = 0, md_uuid = hash_default 16,
      md_started_at = 0, md_maker_coin_start_block = 0, md_taker_coin_start_block = 0,
      md_maker_payment_trade_fee = None, md_taker_payment_spend_trade_fee = None,
      md_maker_coin_swap_contract_address = None, md_taker_coin_swap_contract_address = None,
      md_maker_coin_htlc_pubkey = None, md_taker_coin_htlc_pubkey = None, md_p2p_privkey = None\<rparr>"

record maker_swap_mut =
  mm_data :: maker_swap_data
  mm_other_maker_coin_htlc_pub :: bytes
  mm_other_taker_coin_htlc_pub :: bytes
  mm_taker_fee :: "transaction_identifier option"
  mm_maker_payment :: "transaction_identifier option"
  mm_taker_payment :: "transaction_identifier option"
  mm_taker_payment_spend :: "transaction_identifier option"
  mm_taker_payment_spend_confirmed :: bool
  mm_maker_payment_refund :: "transaction_identifier option"
  mm_payment_instructions :: "payment_instructions option"
  mm_watcher_reward :: bool

text \<open>\<open>MakerSwap\<close>: the fields behind the lock \<open>mutable\<close> (the parent record) and the others.\<close>

record maker_swap = maker_swap_mut +
  ms_maker_coin :: coin
  ms_taker_coin :: coin
  ms_maker_amount :: rat
  ms_taker_amount :: rat
  ms_my_persistent_pub :: bytes
  ms_taker :: bytes
  ms_uuid :: uuid
  ms_my_order_uuid :: "uuid option"
  ms_taker_payment_lock :: u64
  ms_taker_payment_confirmed :: bool
  ms_errors :: "string list"
  ms_finished_at :: u64
  ms_conf_settings :: swap_confirmations_settings
  ms_payment_locktime :: u64
  ms_p2p_privkey :: "bytes option"
  ms_secret :: bytes
  ms_secret_hash_algo :: secret_hash_algo

definition maker_swap_new ::
  "bytes \<Rightarrow> rat \<Rightarrow> rat \<Rightarrow> bytes \<Rightarrow> uuid \<Rightarrow> uuid option \<Rightarrow> swap_confirmations_settings \<Rightarrow> coin \<Rightarrow> coin \<Rightarrow>
   u64 \<Rightarrow> bytes option \<Rightarrow> bytes \<Rightarrow> maker_swap" where
  "maker_swap_new taker maker_amount taker_amount my_persistent_pub u my_order_uuid conf_settings
     maker_coin taker_coin locktime p2p_privkey secret =
     \<lparr>mm_data = maker_swap_data_default,
      mm_other_maker_coin_htlc_pub = hash_default 33, mm_other_taker_coin_htlc_pub = hash_default 33,
      mm_taker_fee = None, mm_maker_payment = None, mm_taker_payment = None,
      mm_taker_payment_spend = None, mm_taker_payment_spend_confirmed = False,
      mm_maker_payment_refund = None, mm_payment_instructions = None, mm_watcher_reward = False,
      ms_maker_coin = maker_coin, ms_taker_coin = taker_coin, ms_maker_amount = maker_amount,
      ms_taker_amount = taker_amount, ms_my_persistent_pub = my_persistent_pub, ms_taker = taker,
      ms_uuid = u, ms_my_order_uuid = my_order_uuid, ms_taker_payment_lock = 0,
      ms_taker_payment_confirmed = False, ms_errors = [], ms_finished_at = 0,
      ms_conf_settings = conf_settings, ms_payment_locktime = locktime, ms_p2p_privkey = p2p_privkey,
      ms_secret = secret, ms_secret_hash_algo = detect_secret_hash_algo maker_coin taker_coin\<rparr>"

section \<open>Commands and events\<close>

datatype maker_swap_command =
    Start
  | Negotiate
  | WaitForTakerFee
  | SendPayment
  | WaitForTakerPayment
  | ValidateTakerPayment
  | SpendTakerPayment
  | ConfirmTakerPaymentSpend
  | PrepareForMakerPaymentRefund
  | RefundMakerPayment
  | FinalizeMakerPaymentRefund
  | Finish

datatype maker_swap_event =
    Started maker_swap_data
  | StartFailed string
  | Negotiated taker_negotiation_data
  | NegotiateFailed string
  | MakerPaymentInstructionsReceived "payment_instructions option"
  | TakerFeeValidated transaction_identifier
  | TakerFeeValidateFailed string
  | MakerPaymentSent transaction_identifier
  | MakerPaymentTransactionFailed string
  | MakerPaymentDataSendFailed string
  | MakerPaymentWaitConfirmFailed string
  | TakerPaymentReceived transaction_identifier
  | TakerPaymentWaitConfirmStarted
  | TakerPaymentValidatedAndConfirmed
  | TakerPaymentValidateFailed string
  | TakerPaymentWaitConfirmFailed string
  | TakerPaymentSpent transaction_identifier
  | TakerPaymentSpendFailed string
  | TakerPaymentSpendConfirmStarted
  | TakerPaymentSpendConfirmed
  | TakerPaymentSpendConfirmFailed string
  | MakerPaymentWaitRefundStarted u64
  | MakerPaymentRefundStarted
  | MakerPaymentRefunded "transaction_identifier option"
  | MakerPaymentRefundFailed string
  | MakerPaymentRefundFinished
  | Finished

section \<open>Applying events\<close>

definition maker_push_error :: "string \<Rightarrow> maker_swap \<Rightarrow> maker_swap" where
  "maker_push_error err s = s\<lparr>ms_errors := ms_errors s @ [err]\<rparr>"

text \<open>\<open>now\<close> is the clock when the event is applied; only \<open>Finished\<close> reads it.\<close>

fun maker_apply_event :: "u64 \<Rightarrow> maker_swap_event \<Rightarrow> maker_swap \<Rightarrow> maker_swap" where
  "maker_apply_event now (Started data) s = s\<lparr>mm_data := data\<rparr>"
| "maker_apply_event now (StartFailed err) s = maker_push_error err s"
| "maker_apply_event now (Negotiated data) s =
     (let s1 = s\<lparr>ms_taker_payment_lock := tn_taker_payment_locktime data,
                 mm_other_maker_coin_htlc_pub := tn_other_maker_coin_htlc_pub data,
                 mm_other_taker_coin_htlc_pub := tn_other_taker_coin_htlc_pub data\<rparr>;
          s2 = (if tn_maker_coin_swap_contract_addr data \<noteq> None
                then s1\<lparr>mm_data := (mm_data s1)
                         \<lparr>md_maker_coin_swap_contract_address := tn_maker_coin_swap_contract_addr data\<rparr>\<rparr>
                else s1)
      in if tn_taker_coin_swap_contract_addr data \<noteq> None
         then s2\<lparr>mm_data := (mm_data s2)
                  \<lparr>md_taker_coin_swap_contract_address := tn_taker_coin_swap_contract_addr data\<rparr>\<rparr>
         else s2)"
| "maker_apply_event now (NegotiateFailed err) s = maker_push_error err s"
| "maker_apply_event now (MakerPaymentInstructionsReceived instructions) s =
     s\<lparr>mm_payment_instructions := instructions\<rparr>"
| "maker_apply_event now (TakerFeeValidated tx) s = s\<lparr>mm_taker_fee := Some tx\<rparr>"
| "maker_apply_event now (TakerFeeValidateFailed err) s = maker_push_error err s"
| "maker_apply_event now (MakerPaymentSent tx) s = s\<lparr>mm_maker_payment := Some tx\<rparr>"
| "maker_apply_event now (MakerPaymentTransactionFailed err) s = maker_push_error err s"
| "maker_apply_event now (MakerPaymentDataSendFailed err) s = maker_push_error err s"
| "maker_apply_event now (MakerPaymentWaitConfirmFailed err) s = maker_push_error err s"
| "maker_apply_event now (TakerPaymentReceived tx) s = s\<lparr>mm_taker_payment := Some tx\<rparr>"
| "maker_apply_event now TakerPaymentWaitConfirmStarted s = s"
| "maker_apply_event now TakerPaymentValidatedAndConfirmed s = s\<lparr>ms_taker_payment_confirmed := True\<rparr>"
| "maker_apply_event now (TakerPaymentValidateFailed err) s = maker_push_error err s"
| "maker_apply_event now (TakerPaymentWaitConfirmFailed err) s = maker_push_error err s"
| "maker_apply_event now (TakerPaymentSpent tx) s = s\<lparr>mm_taker_payment_spend := Some tx\<rparr>"
| "maker_apply_event now (TakerPaymentSpendFailed err) s = maker_push_error err s"
| "maker_apply_event now TakerPaymentSpendConfirmStarted s = s"
| "maker_apply_event now TakerPaymentSpendConfirmed s = s\<lparr>mm_taker_payment_spend_confirmed := True\<rparr>"
| "maker_apply_event now (TakerPaymentSpendConfirmFailed err) s = maker_push_error err s"
| "maker_apply_event now (MakerPaymentWaitRefundStarted wait_until) s = s"
| "maker_apply_event now MakerPaymentRefundStarted s = s"
| "maker_apply_event now (MakerPaymentRefunded tx) s = s\<lparr>mm_maker_payment_refund := tx\<rparr>"
| "maker_apply_event now (MakerPaymentRefundFailed err) s = maker_push_error err s"
| "maker_apply_event now MakerPaymentRefundFinished s = s"
| "maker_apply_event now Finished s = s\<lparr>ms_finished_at := now\<rparr>"

section \<open>Stages\<close>

type_synonym maker_stage = "effect list \<times> maker_swap \<times> (maker_swap_command option \<times> maker_swap_event list) outcome"

definition maker_secret_hash :: "mm_ctx \<Rightarrow> maker_swap \<Rightarrow> bytes" where
  "maker_secret_hash ctx s =
     (case md_secret_hash (mm_data s) of
        Some h \<Rightarrow> h
      | None \<Rightarrow> hash_secret ctx (ms_secret_hash_algo s) (ms_secret s))"

definition maker_unique_swap_data :: "mm_ctx \<Rightarrow> maker_swap \<Rightarrow> bytes" where
  "maker_unique_swap_data ctx s = maker_secret_hash ctx s"

definition maker_my_maker_coin_htlc_pub :: "maker_swap \<Rightarrow> bytes" where
  "maker_my_maker_coin_htlc_pub s =
     (case md_maker_coin_htlc_pubkey (mm_data s) of Some k \<Rightarrow> k | None \<Rightarrow> ms_my_persistent_pub s)"

definition maker_my_taker_coin_htlc_pub :: "maker_swap \<Rightarrow> bytes" where
  "maker_my_taker_coin_htlc_pub s =
     (case md_taker_coin_htlc_pubkey (mm_data s) of Some k \<Rightarrow> k | None \<Rightarrow> ms_my_persistent_pub s)"

definition maker_wait_refund_until :: "maker_swap \<Rightarrow> u64" where
  "maker_wait_refund_until s = md_maker_payment_lock (mm_data s) + 3700"

definition maker_watcher_reward_amount :: "maker_swap \<Rightarrow> rat option" where
  "maker_watcher_reward_amount s =
     (case mm_payment_instructions s of Some (WatcherReward reward) \<Rightarrow> Some reward | _ \<Rightarrow> None)"

definition maker_get_my_negotiation_data :: "mm_ctx \<Rightarrow> maker_swap \<Rightarrow> negotiation_data_msg" where
  "maker_get_my_negotiation_data ctx s =
     (let d = mm_data s;
          secret_hash = maker_secret_hash ctx s;
          maker_contract = (case c_swap_contract_address (ms_maker_coin s) of Some a \<Rightarrow> a | None \<Rightarrow> []);
          taker_contract = (case c_swap_contract_address (ms_taker_coin s) of Some a \<Rightarrow> a | None \<Rightarrow> []);
          equal_keys = (md_maker_coin_htlc_pubkey d = md_taker_coin_htlc_pubkey d);
          same_as_persistent = (md_maker_coin_htlc_pubkey d = Some (md_my_persistent_pub d))
      in if equal_keys \<and> same_as_persistent
         then V2 \<lparr>n2_started_at = md_started_at d, n2_payment_locktime = md_maker_payment_lock d,
                  n2_secret_hash = secret_hash, n2_persistent_pubkey = md_my_persistent_pub d,
                  n2_maker_coin_swap_contract = maker_contract,
                  n2_taker_coin_swap_contract = taker_contract\<rparr>
         else V3 \<lparr>n3_started_at = md_started_at d, n3_payment_locktime = md_maker_payment_lock d,
                  n3_secret_hash = secret_hash, n3_maker_coin_swap_contract = maker_contract,
                  n3_taker_coin_swap_contract = taker_contract,
                  n3_maker_coin_htlc_pub = maker_my_maker_coin_htlc_pub s,
                  n3_taker_coin_htlc_pub = maker_my_taker_coin_htlc_pub s\<rparr>)"

text \<open>\<open>get_my_payment_data\<close>: the outer \<open>None\<close> is the panic of \<open>unwrap\<close> without a maker payment.\<close>

definition maker_get_my_payment_data ::
  "mm_ctx \<Rightarrow> moment \<Rightarrow> maker_swap \<Rightarrow> (string + swap_tx_data_msg) option" where
  "maker_get_my_payment_data ctx t s =
     (case mm_maker_payment s of
        None \<Rightarrow> None
      | Some payment \<Rightarrow>
          (let expires_in = taker_payment_spend_duration (md_lock_duration (mm_data s)) in
           case c_taker_payment_instructions (ms_taker_coin s) t
                  (payment_instruction_args_default
                     \<lparr>pia_secret_hash := hash_secret ctx SHA256 (ms_secret s),
                      pia_amount := ms_taker_amount s, pia_expires_in := expires_in\<rparr>) of
             Inl e \<Rightarrow> Some (Inl e)
           | Inr instructions \<Rightarrow> Some (Inr (swap_tx_data_msg_new (ti_hex payment) instructions))))"

definition maker_ends :: "maker_swap \<Rightarrow> effect list \<Rightarrow> maker_swap_event list \<Rightarrow> maker_stage option" where
  "maker_ends s effs evs = Some (effs, s, Ret (Some Finish, evs))"

definition maker_refunds :: "maker_swap \<Rightarrow> effect list \<Rightarrow> maker_swap_event \<Rightarrow> maker_stage option" where
  "maker_refunds s effs ev =
     Some (effs, s, Ret (Some PrepareForMakerPaymentRefund,
                         [ev, MakerPaymentWaitRefundStarted (maker_wait_refund_until s)]))"

definition maker_continues ::
  "maker_swap \<Rightarrow> effect list \<Rightarrow> maker_swap_command \<Rightarrow> maker_swap_event list \<Rightarrow> maker_stage option" where
  "maker_continues s effs c evs = Some (effs, s, Ret (Some c, evs))"

definition maker_panics :: "maker_swap \<Rightarrow> effect list \<Rightarrow> maker_stage option" where
  "maker_panics s effs = Some (effs, s, Panic)"

definition maker_start :: "mm_ctx \<Rightarrow> moment \<Rightarrow> maker_swap \<Rightarrow> maker_stage option" where
  "maker_start ctx t s =
     (let mc = ms_maker_coin s; tc = ms_taker_coin s in
      case c_get_sender_trade_fee mc t (Exact (ms_maker_amount s)) StartSwap of
        Inl e \<Rightarrow> maker_ends s [] [StartFailed (''!maker_coin.get_sender_trade_fee '' @ x_show_trade_preimage_error ctx e)]
      | Inr maker_payment_trade_fee \<Rightarrow>
      case c_get_receiver_trade_fee tc t StartSwap of
        Inl e \<Rightarrow> maker_ends s [] [StartFailed (''!taker_coin.get_receiver_trade_fee '' @ x_show_trade_preimage_error ctx e)]
      | Inr taker_payment_spend_trade_fee \<Rightarrow>
      case check_balance_for_maker_swap ctx t mc tc (ms_maker_amount s) (Some (ms_uuid s))
             (Some \<lparr>mp_maker_payment_trade_fee = maker_payment_trade_fee,
                    mp_taker_payment_spend_trade_fee = taker_payment_spend_trade_fee\<rparr>) StartSwap of
        Inl e \<Rightarrow> maker_ends s [] [StartFailed (''!check_balance_for_maker_swap '' @ x_show_check_balance_error ctx e)]
      | Inr balance \<Rightarrow>
      (let now = x_now_sec ctx t in
      case c_current_block mc t of
        Inl e \<Rightarrow> maker_ends s [] [StartFailed (''!maker_coin.current_block '' @ e)]
      | Inr maker_coin_start_block \<Rightarrow>
      case c_current_block tc t of
        Inl e \<Rightarrow> maker_ends s [] [StartFailed (''!taker_coin.current_block '' @ e)]
      | Inr taker_coin_start_block \<Rightarrow>
      (let unique_data = maker_unique_swap_data ctx s in
      case (hash_from_slice 33 (c_derive_htlc_pubkey mc unique_data),
            hash_from_slice 33 (c_derive_htlc_pubkey tc unique_data)) of
        (Some maker_htlc_pub, Some taker_htlc_pub) \<Rightarrow>
          (let data =
             \<lparr>md_taker_coin = c_ticker tc, md_maker_coin = c_ticker mc, md_taker = ms_taker s,
              md_secret = ms_secret s, md_secret_hash = Some (maker_secret_hash ctx s),
              md_my_persistent_pub = ms_my_persistent_pub s, md_lock_duration = ms_payment_locktime s,
              md_maker_amount = ms_maker_amount s, md_taker_amount = ms_taker_amount s,
              md_maker_payment_confirmations = sc_maker_coin_confs (ms_conf_settings s),
              md_maker_payment_requires_nota = Some (sc_maker_coin_nota (ms_conf_settings s)),
              md_taker_payment_confirmations = sc_taker_coin_confs (ms_conf_settings s),
              md_taker_payment_requires_nota = Some (sc_taker_coin_nota (ms_conf_settings s)),
              md_maker_payment_lock =
                now + maker_lock_duration (ms_payment_locktime s) (c_maker_locktime_multiplier tc),
              md_uuid = ms_uuid s, md_started_at = now,
              md_maker_coin_start_block = maker_coin_start_block,
              md_taker_coin_start_block = taker_coin_start_block,
              md_maker_payment_trade_fee = Some (saved_of_trade_fee ctx maker_payment_trade_fee),
              md_taker_payment_spend_trade_fee = Some (saved_of_trade_fee ctx taker_payment_spend_trade_fee),
              md_maker_coin_swap_contract_address = c_swap_contract_address mc,
              md_taker_coin_swap_contract_address = c_swap_contract_address tc,
              md_maker_coin_htlc_pubkey = Some maker_htlc_pub,
              md_taker_coin_htlc_pubkey = Some taker_htlc_pub,
              md_p2p_privkey = ms_p2p_privkey s\<rparr>
           in maker_continues (s\<lparr>mm_watcher_reward := x_env_use_watcher_reward ctx\<rparr>) []
                Negotiate [Started data])
      | _ \<Rightarrow> maker_panics s [])))"

definition maker_negotiate_failed :: "maker_swap \<Rightarrow> effect list \<Rightarrow> string \<Rightarrow> maker_stage option" where
  "maker_negotiate_failed s effs err =
     maker_ends s (effs @ [E_Broadcast (Negotiated_msg False)]) [NegotiateFailed err]"

definition maker_negotiate :: "mm_ctx \<Rightarrow> moment \<Rightarrow> maker_swap \<Rightarrow> maker_stage option" where
  "maker_negotiate ctx t s =
     (let mc = ms_maker_coin s; tc = ms_taker_coin s;
          sent = [E_BroadcastEvery (Negotiation (maker_get_my_negotiation_data ctx s))] in
      case recv_swap_msg ctx t 0 sm_negotiation_reply 90 of
        None \<Rightarrow> None
      | Some (Inl e) \<Rightarrow> maker_negotiate_failed s sent (debug_str e)
      | Some (Inr taker_data) \<Rightarrow>
      (let time_dif = abs_diff (md_started_at (mm_data s)) (started_at taker_data) in
      if 60 < time_dif
      then maker_negotiate_failed s sent
             (''The time difference between you and the taker cannot be longer than 60 seconds. Current difference: ''
              @ show_u64 time_dif
              @ ''. Please make sure that your system clock is synced to the correct time before starting another swap!'')
      else
      (let expected_lock_time = checked_add (started_at taker_data) (md_lock_duration (mm_data s)) in
      if Some (payment_locktime taker_data) \<noteq> expected_lock_time
      then maker_negotiate_failed s sent
             (''taker_data.payment_locktime '' @ show_u64 (payment_locktime taker_data)
              @ '' not equal to expected '' @ show_opt_u64 expected_lock_time)
      else
      case c_negotiate_swap_contract_addr mc (maker_coin_swap_contract taker_data) of
        Inl e \<Rightarrow> maker_negotiate_failed s sent (''!maker_coin.negotiate_swap_contract_addr '' @ e)
      | Inr maker_coin_swap_contract_addr \<Rightarrow>
      case c_negotiate_swap_contract_addr tc (taker_coin_swap_contract taker_data) of
        Inl e \<Rightarrow> maker_negotiate_failed s sent (''!taker_coin.negotiate_swap_contract_addr '' @ e)
      | Inr taker_coin_swap_contract_addr \<Rightarrow>
      case c_validate_other_pubkey mc (maker_coin_htlc_pub taker_data) of
        Inl e \<Rightarrow> maker_negotiate_failed s sent (''!taker_data.maker_coin_htlc_pub '' @ e)
      | Inr u1 \<Rightarrow>
      case c_validate_other_pubkey tc (taker_coin_htlc_pub taker_data) of
        Inl e \<Rightarrow> maker_negotiate_failed s sent (''!taker_data.taker_coin_htlc_pub '' @ e)
      | Inr u2 \<Rightarrow>
      case (hash_from_slice 33 (maker_coin_htlc_pub taker_data),
            hash_from_slice 33 (taker_coin_htlc_pub taker_data)) of
        (Some maker_htlc, Some taker_htlc) \<Rightarrow>
          maker_continues s sent WaitForTakerFee
            [Negotiated \<lparr>tn_taker_payment_locktime = payment_locktime taker_data,
                         tn_taker_pubkey = hash_default 33,
                         tn_maker_coin_swap_contract_addr = maker_coin_swap_contract_addr,
                         tn_taker_coin_swap_contract_addr = taker_coin_swap_contract_addr,
                         tn_maker_coin_htlc_pubkey = Some maker_htlc,
                         tn_taker_coin_htlc_pubkey = Some taker_htlc\<rparr>]
      | _ \<Rightarrow> maker_panics s sent)))"

text \<open>The retry loop of \<open>wait_taker_fee\<close>: seven attempts, the seventh error is final.\<close>

function validate_fee_loop :: "coin \<Rightarrow> moment \<Rightarrow> validate_fee_args \<Rightarrow> nat \<Rightarrow> string + unit" where
  "validate_fee_loop c t args attempts =
     (case c_validate_fee c t attempts args of
        Inr u \<Rightarrow> Inr ()
      | Inl err \<Rightarrow>
          if 6 \<le> attempts then Inl err else validate_fee_loop c t args (attempts + 1))"
  by pat_completeness auto
termination
  by (relation "measure (\<lambda>(c, t, args, attempts). 6 - attempts)") auto

declare validate_fee_loop.simps [simp del]

definition maker_wait_taker_fee :: "mm_ctx \<Rightarrow> moment \<Rightarrow> maker_swap \<Rightarrow> maker_stage option" where
  "maker_wait_taker_fee ctx t s =
     (let mc = ms_maker_coin s; tc = ms_taker_coin s; sent = [E_BroadcastEvery (Negotiated_msg True)] in
      case recv_swap_msg ctx t 0 sm_taker_fee 600 of
        None \<Rightarrow> None
      | Some (Inl e) \<Rightarrow> maker_ends s sent [TakerFeeValidateFailed e]
      | Some (Inr payload) \<Rightarrow>
      case (case tx_instructions payload of
              None \<Rightarrow> Inr None
            | Some instructions \<Rightarrow>
                map_sum id Some (c_validate_maker_payment_instructions mc instructions
                  (payment_instruction_args_default
                     \<lparr>pia_secret_hash := maker_secret_hash ctx s, pia_amount := ms_maker_amount s,
                      pia_maker_lock_duration :=
                        maker_lock_duration (md_lock_duration (mm_data s)) (c_maker_locktime_multiplier tc)\<rparr>))) of
        Inl e \<Rightarrow> maker_ends s sent [TakerFeeValidateFailed e]
      | Inr instructions \<Rightarrow>
      case c_tx_enum_from_bytes tc (tx_data payload) of
        Inl e \<Rightarrow> maker_ends s sent [TakerFeeValidateFailed e]
      | Inr taker_fee \<Rightarrow>
      (let fee_amount = dex_fee_amount_from_taker_coin ctx tc (md_maker_coin (mm_data s)) (ms_taker_amount s) in
      case validate_fee_loop tc t
             \<lparr>vfa_fee_tx = taker_fee, vfa_expected_sender = mm_other_taker_coin_htlc_pub s,
              vfa_fee_addr = DEX_FEE_ADDR_RAW_PUBKEY, vfa_amount = x_to_decimal ctx fee_amount,
              vfa_min_block_number = md_taker_coin_start_block (mm_data s), vfa_uuid = ms_uuid s\<rparr> 0 of
        Inl e \<Rightarrow> maker_ends s sent [TakerFeeValidateFailed e]
      | Inr u \<Rightarrow>
          maker_continues s sent SendPayment
            [MakerPaymentInstructionsReceived instructions, TakerFeeValidated (tx_ident taker_fee)]))"

definition maker_check_if_my_payment_sent_args :: "mm_ctx \<Rightarrow> maker_swap \<Rightarrow> check_if_my_payment_sent_args" where
  "maker_check_if_my_payment_sent_args ctx s =
     \<lparr>cia_time_lock = as_u32 (md_maker_payment_lock (mm_data s)),
      cia_other_pub = mm_other_maker_coin_htlc_pub s, cia_secret_hash = maker_secret_hash ctx s,
      cia_search_from_block = md_maker_coin_start_block (mm_data s),
      cia_swap_contract_address = md_maker_coin_swap_contract_address (mm_data s),
      cia_swap_unique_data = maker_unique_swap_data ctx s, cia_amount = ms_maker_amount s,
      cia_payment_instructions = mm_payment_instructions s\<rparr>"

definition maker_payment_args :: "mm_ctx \<Rightarrow> maker_swap \<Rightarrow> watcher_reward option \<Rightarrow> send_payment_args" where
  "maker_payment_args ctx s reward =
     \<lparr>spa_time_lock_duration = md_lock_duration (mm_data s),
      spa_time_lock = as_u32 (md_maker_payment_lock (mm_data s)),
      spa_other_pubkey = mm_other_maker_coin_htlc_pub s, spa_secret_hash = maker_secret_hash ctx s,
      spa_amount = ms_maker_amount s,
      spa_swap_contract_address = md_maker_coin_swap_contract_address (mm_data s),
      spa_swap_unique_data = maker_unique_swap_data ctx s,
      spa_payment_instructions = mm_payment_instructions s, spa_watcher_reward = reward,
      spa_wait_for_confirmation_until =
        wait_for_maker_payment_conf_until (md_started_at (mm_data s)) (md_lock_duration (mm_data s))\<rparr>"

definition maker_maker_payment :: "mm_ctx \<Rightarrow> moment \<Rightarrow> maker_swap \<Rightarrow> maker_stage option" where
  "maker_maker_payment ctx t s =
     (let mc = ms_maker_coin s; tc = ms_taker_coin s; d = mm_data s;
          timeout = md_started_at d + md_lock_duration d div 3;
          now = x_now_sec ctx t in
      if timeout < now
      then maker_ends s [] [MakerPaymentTransactionFailed (''Timeout '' @ show_u64 now @ '' > '' @ show_u64 timeout)]
      else
      (let wait_maker_payment_until =
             wait_for_maker_payment_conf_until (md_started_at d) (md_lock_duration d) in
      case (if mm_watcher_reward s
            then c_get_maker_watcher_reward mc t (c_ticker tc) (maker_watcher_reward_amount s)
                   wait_maker_payment_until
            else Inr None) of
        Inl err \<Rightarrow> maker_ends s [] [MakerPaymentTransactionFailed err]
      | Inr reward \<Rightarrow>
      case c_check_if_my_payment_sent mc t (maker_check_if_my_payment_sent_args ctx s) of
        Inl e \<Rightarrow> maker_ends s [] [MakerPaymentTransactionFailed e]
      | Inr (Some tx) \<Rightarrow> maker_continues s [] WaitForTakerPayment [MakerPaymentSent (tx_ident tx)]
      | Inr None \<Rightarrow>
      (let args = maker_payment_args ctx s reward in
      case c_send_maker_payment mc t args of
        Inl err \<Rightarrow>
          maker_ends s [E_SendMakerPayment args] [MakerPaymentTransactionFailed (get_plain_text_format err)]
      | Inr tx \<Rightarrow>
          maker_continues s [E_SendMakerPayment args] WaitForTakerPayment [MakerPaymentSent (tx_ident tx)])))"

definition maker_wait_for_taker_payment :: "mm_ctx \<Rightarrow> moment \<Rightarrow> maker_swap \<Rightarrow> maker_stage option" where
  "maker_wait_for_taker_payment ctx t s =
     (let mc = ms_maker_coin s; tc = ms_taker_coin s; d = mm_data s in
      case maker_get_my_payment_data ctx t s of
        None \<Rightarrow> maker_panics s []
      | Some (Inl e) \<Rightarrow> maker_refunds s [] (MakerPaymentDataSendFailed e)
      | Some (Inr payment_data_msg) \<Rightarrow>
      (let sent = [E_BroadcastEvery (MakerPayment_msg payment_data_msg)];
           maker_payment_wait_confirm =
             wait_for_maker_payment_conf_until (md_started_at d) (md_lock_duration d) in
      case mm_maker_payment s of
        None \<Rightarrow> maker_panics s sent
      | Some payment \<Rightarrow>
      case c_wait_for_confirmations mc t
             \<lparr>cpi_payment_tx = ti_hex payment, cpi_confirmations = md_maker_payment_confirmations d,
              cpi_requires_nota = (md_maker_payment_requires_nota d = Some True),
              cpi_wait_until = maker_payment_wait_confirm, cpi_check_every = WAIT_CONFIRM_INTERVAL_SEC\<rparr> of
        Inl err \<Rightarrow>
          maker_refunds s sent
            (MakerPaymentWaitConfirmFailed (''!wait for maker payment confirmations: '' @ err))
      | Inr u \<Rightarrow>
      case recv_swap_msg ctx t 0 sm_taker_payment ((md_lock_duration d * 3) div 5) of
        None \<Rightarrow> None
      | Some (Inl e) \<Rightarrow> maker_refunds s sent (TakerPaymentValidateFailed e)
      | Some (Inr payload) \<Rightarrow>
      case c_tx_enum_from_bytes tc payload of
        Inl err \<Rightarrow>
          maker_refunds s sent (TakerPaymentValidateFailed (''!taker_coin.tx_enum_from_bytes: '' @ err))
      | Inr taker_payment \<Rightarrow>
          maker_continues s sent ValidateTakerPayment
            [TakerPaymentReceived (tx_ident taker_payment), TakerPaymentWaitConfirmStarted]))"

definition maker_validate_taker_payment :: "mm_ctx \<Rightarrow> moment \<Rightarrow> maker_swap \<Rightarrow> maker_stage option" where
  "maker_validate_taker_payment ctx t s =
     (let mc = ms_maker_coin s; tc = ms_taker_coin s; d = mm_data s;
          wait_taker_payment = taker_payment_spend_deadline (md_started_at d) (md_lock_duration d);
          confirmations = md_taker_payment_confirmations d in
      case mm_taker_payment s of
        None \<Rightarrow> maker_panics s []
      | Some payment \<Rightarrow>
      case c_wait_for_confirmations tc t
             \<lparr>cpi_payment_tx = ti_hex payment, cpi_confirmations = confirmations,
              cpi_requires_nota = (md_taker_payment_requires_nota d = Some True),
              cpi_wait_until = wait_taker_payment, cpi_check_every = WAIT_CONFIRM_INTERVAL_SEC\<rparr> of
        Inl err \<Rightarrow>
          maker_refunds s [] (TakerPaymentWaitConfirmFailed (''!taker_coin.wait_for_confirmations: '' @ err))
      | Inr u \<Rightarrow>
      case (if mm_watcher_reward s
            then map_sum id Some
                   (c_get_taker_watcher_reward tc t (c_ticker mc) (Some (ms_taker_amount s))
                      (Some (ms_maker_amount s)) (maker_watcher_reward_amount s) wait_taker_payment)
            else Inr None) of
        Inl err \<Rightarrow> maker_ends s [] [MakerPaymentTransactionFailed err]
      | Inr reward \<Rightarrow>
      case c_validate_taker_payment tc t
             \<lparr>vpi_payment_tx = ti_hex payment, vpi_time_lock_duration = md_lock_duration d,
              vpi_time_lock = as_u32 (ms_taker_payment_lock s),
              vpi_other_pub = mm_other_taker_coin_htlc_pub s, vpi_secret_hash = maker_secret_hash ctx s,
              vpi_amount = ms_taker_amount s,
              vpi_swap_contract_address = md_taker_coin_swap_contract_address d,
              vpi_try_spv_proof_until = wait_taker_payment, vpi_confirmations = confirmations,
              vpi_unique_swap_data = maker_unique_swap_data ctx s, vpi_watcher_reward = reward\<rparr> of
        Inl e \<Rightarrow>
          maker_refunds s [] (TakerPaymentValidateFailed (''!taker_coin.validate_taker_payment: '' @ e))
      | Inr u2 \<Rightarrow> maker_continues s [] SpendTakerPayment [TakerPaymentValidatedAndConfirmed])"

definition maker_spend_args :: "mm_ctx \<Rightarrow> maker_swap \<Rightarrow> bytes \<Rightarrow> spend_payment_args" where
  "maker_spend_args ctx s payment_hex =
     \<lparr>sp_other_payment_tx = payment_hex, sp_time_lock = as_u32 (ms_taker_payment_lock s),
      sp_other_pubkey = mm_other_taker_coin_htlc_pub s, sp_secret = md_secret (mm_data s),
      sp_secret_hash = maker_secret_hash ctx s,
      sp_swap_contract_address = md_taker_coin_swap_contract_address (mm_data s),
      sp_swap_unique_data = maker_unique_swap_data ctx s, sp_watcher_reward = mm_watcher_reward s\<rparr>"

definition maker_spend_taker_payment :: "mm_ctx \<Rightarrow> moment \<Rightarrow> maker_swap \<Rightarrow> maker_stage option" where
  "maker_spend_taker_payment ctx t s =
     (let tc = ms_taker_coin s; d = mm_data s;
          timeout = taker_payment_spend_deadline (md_started_at d) (md_lock_duration d);
          now = x_now_sec ctx t in
      if timeout < now
      then maker_refunds s []
             (TakerPaymentSpendFailed (''Timeout '' @ show_u64 now @ '' > '' @ show_u64 timeout))
      else
      case mm_taker_payment s of
        None \<Rightarrow> maker_panics s []
      | Some payment \<Rightarrow>
      (let args = maker_spend_args ctx s (ti_hex payment) in
      case c_send_maker_spends_taker_payment tc t args of
        Inl err \<Rightarrow>
          maker_refunds s (E_MakerSpendsTakerPayment args # broadcast_recoverable (c_ticker tc) err)
            (TakerPaymentSpendFailed
               (''!taker_coin.send_maker_spends_taker_payment: '' @ get_plain_text_format err))
      | Inr tx \<Rightarrow>
          maker_continues s (E_MakerSpendsTakerPayment args # broadcast_p2p_tx_msg (c_ticker tc) tx)
            ConfirmTakerPaymentSpend
            [TakerPaymentSpent (tx_ident tx), TakerPaymentSpendConfirmStarted]))"

definition maker_confirm_taker_payment_spend :: "mm_ctx \<Rightarrow> moment \<Rightarrow> maker_swap \<Rightarrow> maker_stage option" where
  "maker_confirm_taker_payment_spend ctx t s =
     (case mm_taker_payment s of
        None \<Rightarrow> maker_panics s []
      | Some payment \<Rightarrow>
      case c_wait_for_confirmations (ms_taker_coin s) t
             \<lparr>cpi_payment_tx = ti_hex payment,
              cpi_confirmations = min 1 (md_taker_payment_confirmations (mm_data s)),
              cpi_requires_nota = False, cpi_wait_until = maker_wait_refund_until s,
              cpi_check_every = WAIT_CONFIRM_INTERVAL_SEC\<rparr> of
        Inl err \<Rightarrow>
          maker_refunds s []
            (TakerPaymentSpendConfirmFailed (''!wait for taker payment spend confirmations: '' @ err))
      | Inr u \<Rightarrow> maker_ends s [] [TakerPaymentSpendConfirmed])"

definition maker_prepare_for_maker_payment_refund :: "mm_ctx \<Rightarrow> moment \<Rightarrow> maker_swap \<Rightarrow> maker_stage option" where
  "maker_prepare_for_maker_payment_refund ctx t s =
     (let effs = (case mm_taker_payment s of
                    Some payment \<Rightarrow> [E_OnMakerPaymentRefundStart (ti_hex payment)] | None \<Rightarrow> [])
      in maker_continues s effs RefundMakerPayment [MakerPaymentRefundStarted])"

definition maker_refund_args :: "mm_ctx \<Rightarrow> maker_swap \<Rightarrow> bytes \<Rightarrow> refund_payment_args" where
  "maker_refund_args ctx s payment_hex =
     \<lparr>rpa_payment_tx = payment_hex, rpa_time_lock = as_u32 (md_maker_payment_lock (mm_data s)),
      rpa_other_pubkey = mm_other_maker_coin_htlc_pub s, rpa_secret_hash = maker_secret_hash ctx s,
      rpa_swap_contract_address = md_maker_coin_swap_contract_address (mm_data s),
      rpa_swap_unique_data = maker_unique_swap_data ctx s, rpa_watcher_reward = mm_watcher_reward s\<rparr>"

definition maker_refund_maker_payment :: "mm_ctx \<Rightarrow> moment \<Rightarrow> maker_swap \<Rightarrow> maker_stage option" where
  "maker_refund_maker_payment ctx t s =
     (let mc = ms_maker_coin s; locktime = md_maker_payment_lock (mm_data s) in
      case mm_maker_payment s of
        None \<Rightarrow> maker_panics s []
      | Some payment \<Rightarrow>
      if c_is_auto_refundable mc
      then (case c_wait_for_htlc_refund mc t (ti_hex payment) locktime of
              Inr u \<Rightarrow> maker_continues s [] FinalizeMakerPaymentRefund [MakerPaymentRefunded None]
            | Inl err \<Rightarrow>
                maker_ends s [] [MakerPaymentRefundFailed (''!maker_coin.wait_for_htlc_refund: '' @ err)])
      else
      case wait_can_refund mc t locktime 0 of
        None \<Rightarrow> None
      | Some u \<Rightarrow>
      (let args = maker_refund_args ctx s (ti_hex payment) in
      case c_send_maker_refunds_payment mc t args of
        Inl err \<Rightarrow>
          maker_ends s (E_MakerRefundsPayment args # broadcast_recoverable (c_ticker mc) err)
            [MakerPaymentRefundFailed (''!maker_coin.send_maker_refunds_payment: '' @ get_plain_text_format err)]
      | Inr tx \<Rightarrow>
          maker_continues s (E_MakerRefundsPayment args # broadcast_p2p_tx_msg (c_ticker mc) tx)
            FinalizeMakerPaymentRefund [MakerPaymentRefunded (Some (tx_ident tx))]))"

definition maker_finalize_maker_payment_refund :: "mm_ctx \<Rightarrow> moment \<Rightarrow> maker_swap \<Rightarrow> maker_stage option" where
  "maker_finalize_maker_payment_refund ctx t s =
     (let effs = (case mm_taker_payment s of
                    Some payment \<Rightarrow> [E_OnMakerPaymentRefundSuccess (ti_hex payment)] | None \<Rightarrow> [])
      in maker_ends s effs [MakerPaymentRefundFinished])"

fun maker_handle_command ::
  "mm_ctx \<Rightarrow> moment \<Rightarrow> maker_swap \<Rightarrow> maker_swap_command \<Rightarrow> maker_stage option" where
  "maker_handle_command ctx t s Start = maker_start ctx t s"
| "maker_handle_command ctx t s Negotiate = maker_negotiate ctx t s"
| "maker_handle_command ctx t s WaitForTakerFee = maker_wait_taker_fee ctx t s"
| "maker_handle_command ctx t s SendPayment = maker_maker_payment ctx t s"
| "maker_handle_command ctx t s WaitForTakerPayment = maker_wait_for_taker_payment ctx t s"
| "maker_handle_command ctx t s ValidateTakerPayment = maker_validate_taker_payment ctx t s"
| "maker_handle_command ctx t s SpendTakerPayment = maker_spend_taker_payment ctx t s"
| "maker_handle_command ctx t s ConfirmTakerPaymentSpend = maker_confirm_taker_payment_spend ctx t s"
| "maker_handle_command ctx t s PrepareForMakerPaymentRefund = maker_prepare_for_maker_payment_refund ctx t s"
| "maker_handle_command ctx t s RefundMakerPayment = maker_refund_maker_payment ctx t s"
| "maker_handle_command ctx t s FinalizeMakerPaymentRefund = maker_finalize_maker_payment_refund ctx t s"
| "maker_handle_command ctx t s Finish = Some ([], s, Ret (None, [Finished]))"

lemmas maker_stage_defs =
  maker_start_def maker_negotiate_def maker_negotiate_failed_def maker_wait_taker_fee_def
  maker_maker_payment_def maker_wait_for_taker_payment_def maker_validate_taker_payment_def
  maker_spend_taker_payment_def maker_confirm_taker_payment_spend_def
  maker_prepare_for_maker_payment_refund_def maker_refund_maker_payment_def
  maker_finalize_maker_payment_refund_def

lemmas maker_result_defs = maker_ends_def maker_refunds_def maker_continues_def maker_panics_def

section \<open>Locked amounts\<close>

definition maker_locked_amount :: "maker_swap \<Rightarrow> locked_amount list" where
  "maker_locked_amount s =
     (if mm_maker_payment s = None
      then [\<lparr>la_coin = c_ticker (ms_maker_coin s), la_amount = ms_maker_amount s,
             la_trade_fee = map_option trade_fee_of_saved (md_maker_payment_trade_fee (mm_data s))\<rparr>]
      else [])
     @ (if mm_taker_payment_spend s = None
        then [\<lparr>la_coin = c_ticker (ms_taker_coin s), la_amount = 0,
               la_trade_fee = map_option trade_fee_of_saved (md_taker_payment_spend_trade_fee (mm_data s))\<rparr>]
        else [])"

end
