(* ===== verification/MakerSaved.thy ===== *)
theory MakerSaved
  imports MakerSwap
begin

text \<open>
  What a maker swap leaves in the database and what can be done with it
  (\<open>mm2_main/src/lp_swap/maker_swap.rs\<close>): the classification of the events, the command that resumes
  a swap (\<open>get_command\<close>), the saved swap with its queries, \<open>load_from_saved\<close> and \<open>recover_funds\<close>.
\<close>

section \<open>Classification of events\<close>

fun maker_status_str :: "maker_swap_event \<Rightarrow> string" where
  "maker_status_str (Started d) = ''Started...''"
| "maker_status_str (StartFailed e) = ''Start failed...''"
| "maker_status_str (Negotiated d) = ''Negotiated...''"
| "maker_status_str (NegotiateFailed e) = ''Negotiate failed...''"
| "maker_status_str (MakerPaymentInstructionsReceived i) = ''Maker payment instructions received...''"
| "maker_status_str (TakerFeeValidated tx) = ''Taker fee validated...''"
| "maker_status_str (TakerFeeValidateFailed e) = ''Taker fee validate failed...''"
| "maker_status_str (MakerPaymentSent tx) = ''Maker payment sent...''"
| "maker_status_str (MakerPaymentTransactionFailed e) = ''Maker payment failed...''"
| "maker_status_str (MakerPaymentDataSendFailed e) = ''Maker payment failed...''"
| "maker_status_str (MakerPaymentWaitConfirmFailed e) = ''Maker payment wait for confirmation failed...''"
| "maker_status_str (TakerPaymentReceived tx) = ''Taker payment received...''"
| "maker_status_str TakerPaymentWaitConfirmStarted = ''Taker payment wait confirm started...''"
| "maker_status_str TakerPaymentValidatedAndConfirmed = ''Taker payment validated and confirmed...''"
| "maker_status_str (TakerPaymentValidateFailed e) = ''Taker payment validate failed...''"
| "maker_status_str (TakerPaymentWaitConfirmFailed e) = ''Taker payment wait for confirmation failed...''"
| "maker_status_str (TakerPaymentSpent tx) = ''Taker payment spent...''"
| "maker_status_str (TakerPaymentSpendFailed e) = ''Taker payment spend failed...''"
| "maker_status_str TakerPaymentSpendConfirmStarted = ''Taker payment send wait confirm started...''"
| "maker_status_str TakerPaymentSpendConfirmed = ''Taker payment spend confirmed...''"
| "maker_status_str (TakerPaymentSpendConfirmFailed e) = ''Taker payment spend confirm failed...''"
| "maker_status_str (MakerPaymentWaitRefundStarted wait_until) =
     ''Maker payment wait refund till '' @ show_u64 wait_until @ '' started...''"
| "maker_status_str MakerPaymentRefundStarted = ''Maker payment refund started...''"
| "maker_status_str (MakerPaymentRefunded tx) = ''Maker payment refunded...''"
| "maker_status_str (MakerPaymentRefundFailed e) = ''Maker payment refund failed...''"
| "maker_status_str MakerPaymentRefundFinished = ''Maker payment refund finished...''"
| "maker_status_str Finished = ''Finished''"

text \<open>The name of an event, the tag of its serialized form.\<close>

fun maker_event_name :: "maker_swap_event \<Rightarrow> string" where
  "maker_event_name (Started d) = ''Started''"
| "maker_event_name (StartFailed e) = ''StartFailed''"
| "maker_event_name (Negotiated d) = ''Negotiated''"
| "maker_event_name (NegotiateFailed e) = ''NegotiateFailed''"
| "maker_event_name (MakerPaymentInstructionsReceived i) = ''MakerPaymentInstructionsReceived''"
| "maker_event_name (TakerFeeValidated tx) = ''TakerFeeValidated''"
| "maker_event_name (TakerFeeValidateFailed e) = ''TakerFeeValidateFailed''"
| "maker_event_name (MakerPaymentSent tx) = ''MakerPaymentSent''"
| "maker_event_name (MakerPaymentTransactionFailed e) = ''MakerPaymentTransactionFailed''"
| "maker_event_name (MakerPaymentDataSendFailed e) = ''MakerPaymentDataSendFailed''"
| "maker_event_name (MakerPaymentWaitConfirmFailed e) = ''MakerPaymentWaitConfirmFailed''"
| "maker_event_name (TakerPaymentReceived tx) = ''TakerPaymentReceived''"
| "maker_event_name TakerPaymentWaitConfirmStarted = ''TakerPaymentWaitConfirmStarted''"
| "maker_event_name TakerPaymentValidatedAndConfirmed = ''TakerPaymentValidatedAndConfirmed''"
| "maker_event_name (TakerPaymentValidateFailed e) = ''TakerPaymentValidateFailed''"
| "maker_event_name (TakerPaymentWaitConfirmFailed e) = ''TakerPaymentWaitConfirmFailed''"
| "maker_event_name (TakerPaymentSpent tx) = ''TakerPaymentSpent''"
| "maker_event_name (TakerPaymentSpendFailed e) = ''TakerPaymentSpendFailed''"
| "maker_event_name TakerPaymentSpendConfirmStarted = ''TakerPaymentSpendConfirmStarted''"
| "maker_event_name TakerPaymentSpendConfirmed = ''TakerPaymentSpendConfirmed''"
| "maker_event_name (TakerPaymentSpendConfirmFailed e) = ''TakerPaymentSpendConfirmFailed''"
| "maker_event_name (MakerPaymentWaitRefundStarted wait_until) = ''MakerPaymentWaitRefundStarted''"
| "maker_event_name MakerPaymentRefundStarted = ''MakerPaymentRefundStarted''"
| "maker_event_name (MakerPaymentRefunded tx) = ''MakerPaymentRefunded''"
| "maker_event_name (MakerPaymentRefundFailed e) = ''MakerPaymentRefundFailed''"
| "maker_event_name MakerPaymentRefundFinished = ''MakerPaymentRefundFinished''"
| "maker_event_name Finished = ''Finished''"

definition MAKER_SUCCESS_EVENTS :: "string list" where
  "MAKER_SUCCESS_EVENTS =
     [''Started'', ''Negotiated'', ''MakerPaymentInstructionsReceived'', ''TakerFeeValidated'',
      ''MakerPaymentSent'', ''TakerPaymentReceived'', ''TakerPaymentWaitConfirmStarted'',
      ''TakerPaymentValidatedAndConfirmed'', ''TakerPaymentSpent'', ''TakerPaymentSpendConfirmStarted'',
      ''TakerPaymentSpendConfirmed'', ''Finished'']"

definition MAKER_ERROR_EVENTS :: "string list" where
  "MAKER_ERROR_EVENTS =
     [''StartFailed'', ''NegotiateFailed'', ''TakerFeeValidateFailed'', ''MakerPaymentTransactionFailed'',
      ''MakerPaymentDataSendFailed'', ''MakerPaymentWaitConfirmFailed'', ''TakerPaymentValidateFailed'',
      ''TakerPaymentWaitConfirmFailed'', ''TakerPaymentSpendFailed'', ''TakerPaymentSpendConfirmFailed'',
      ''MakerPaymentWaitRefundStarted'', ''MakerPaymentRefundStarted'', ''MakerPaymentRefunded'',
      ''MakerPaymentRefundFailed'', ''MakerPaymentRefundFinished'']"

fun should_ban_taker :: "maker_swap_event \<Rightarrow> bool" where
  "should_ban_taker (TakerFeeValidateFailed e) = True"
| "should_ban_taker (TakerPaymentValidateFailed e) = True"
| "should_ban_taker _ = False"

fun maker_event_is_success :: "maker_swap_event \<Rightarrow> bool" where
  "maker_event_is_success (Started d) = True"
| "maker_event_is_success (Negotiated d) = True"
| "maker_event_is_success (MakerPaymentInstructionsReceived i) = True"
| "maker_event_is_success (TakerFeeValidated tx) = True"
| "maker_event_is_success (MakerPaymentSent tx) = True"
| "maker_event_is_success (TakerPaymentReceived tx) = True"
| "maker_event_is_success TakerPaymentWaitConfirmStarted = True"
| "maker_event_is_success TakerPaymentValidatedAndConfirmed = True"
| "maker_event_is_success (TakerPaymentSpent tx) = True"
| "maker_event_is_success TakerPaymentSpendConfirmStarted = True"
| "maker_event_is_success TakerPaymentSpendConfirmed = True"
| "maker_event_is_success Finished = True"
| "maker_event_is_success _ = False"

definition maker_event_is_error :: "maker_swap_event \<Rightarrow> bool" where
  "maker_event_is_error ev = (\<not> maker_event_is_success ev)"

fun maker_get_command :: "maker_swap_event \<Rightarrow> maker_swap_command option" where
  "maker_get_command (Started d) = Some Negotiate"
| "maker_get_command (StartFailed e) = Some Finish"
| "maker_get_command (Negotiated d) = Some WaitForTakerFee"
| "maker_get_command (MakerPaymentInstructionsReceived i) = Some WaitForTakerFee"
| "maker_get_command (NegotiateFailed e) = Some Finish"
| "maker_get_command (TakerFeeValidated tx) = Some SendPayment"
| "maker_get_command (TakerFeeValidateFailed e) = Some Finish"
| "maker_get_command (MakerPaymentSent tx) = Some WaitForTakerPayment"
| "maker_get_command (MakerPaymentTransactionFailed e) = Some Finish"
| "maker_get_command (MakerPaymentDataSendFailed e) = Some PrepareForMakerPaymentRefund"
| "maker_get_command (MakerPaymentWaitConfirmFailed e) = Some PrepareForMakerPaymentRefund"
| "maker_get_command (TakerPaymentReceived tx) = Some ValidateTakerPayment"
| "maker_get_command TakerPaymentWaitConfirmStarted = Some ValidateTakerPayment"
| "maker_get_command TakerPaymentValidatedAndConfirmed = Some SpendTakerPayment"
| "maker_get_command (TakerPaymentValidateFailed e) = Some PrepareForMakerPaymentRefund"
| "maker_get_command (TakerPaymentWaitConfirmFailed e) = Some PrepareForMakerPaymentRefund"
| "maker_get_command (TakerPaymentSpent tx) = Some ConfirmTakerPaymentSpend"
| "maker_get_command (TakerPaymentSpendFailed e) = Some PrepareForMakerPaymentRefund"
| "maker_get_command TakerPaymentSpendConfirmStarted = Some ConfirmTakerPaymentSpend"
| "maker_get_command TakerPaymentSpendConfirmed = Some Finish"
| "maker_get_command (TakerPaymentSpendConfirmFailed e) = Some PrepareForMakerPaymentRefund"
| "maker_get_command (MakerPaymentWaitRefundStarted wait_until) = Some PrepareForMakerPaymentRefund"
| "maker_get_command MakerPaymentRefundStarted = Some RefundMakerPayment"
| "maker_get_command (MakerPaymentRefunded tx) = Some FinalizeMakerPaymentRefund"
| "maker_get_command (MakerPaymentRefundFailed e) = Some Finish"
| "maker_get_command MakerPaymentRefundFinished = Some Finish"
| "maker_get_command Finished = None"

section \<open>Saved swaps\<close>

record maker_saved_event =
  mse_timestamp :: u64
  mse_event :: maker_swap_event

record maker_saved_swap =
  mss_uuid :: uuid
  mss_my_order_uuid :: "uuid option"
  mss_events :: "maker_saved_event list"
  mss_maker_amount :: "rat option"
  mss_maker_coin :: "string option"
  mss_maker_coin_usd_price :: "rat option"
  mss_taker_amount :: "rat option"
  mss_taker_coin :: "string option"
  mss_taker_coin_usd_price :: "rat option"
  mss_gui :: "string option"
  mss_mm_version :: "string option"
  mss_success_events :: "string list"
  mss_error_events :: "string list"

abbreviation mss_log :: "maker_saved_swap \<Rightarrow> maker_swap_event list" where
  "mss_log saved \<equiv> map mse_event (mss_events saved)"

definition maker_saved_swap_data :: "maker_saved_swap \<Rightarrow> string + maker_swap_data" where
  "maker_saved_swap_data saved =
     (case mss_events saved of
        [] \<Rightarrow> Inl ''Can't get swap_data, events are empty''
      | ev # evs \<Rightarrow>
          (case mse_event ev of
             Started data \<Rightarrow> Inr data
           | _ \<Rightarrow> Inl ''First swap event must be Started''))"

definition maker_saved_maker_coin :: "maker_saved_swap \<Rightarrow> string + string" where
  "maker_saved_maker_coin saved =
     (case mss_events saved of
        [] \<Rightarrow> Inl ''Can't get maker coin, events are empty''
      | ev # evs \<Rightarrow>
          (case mse_event ev of
             Started data \<Rightarrow> Inr (md_maker_coin data)
           | _ \<Rightarrow> Inl ''First swap event must be Started''))"

definition maker_saved_taker_coin :: "maker_saved_swap \<Rightarrow> string + string" where
  "maker_saved_taker_coin saved =
     (case mss_events saved of
        [] \<Rightarrow> Inl ''Can't get maker coin, events are empty''
      | ev # evs \<Rightarrow>
          (case mse_event ev of
             Started data \<Rightarrow> Inr (md_taker_coin data)
           | _ \<Rightarrow> Inl ''First swap event must be Started''))"

definition maker_saved_is_finished :: "maker_saved_swap \<Rightarrow> bool" where
  "maker_saved_is_finished saved =
     (if mss_events saved = [] then False else mse_event (last (mss_events saved)) = Finished)"

definition maker_saved_get_my_info :: "maker_saved_swap \<Rightarrow> my_swap_info option" where
  "maker_saved_get_my_info saved =
     (case mss_events saved of
        [] \<Rightarrow> None
      | ev # evs \<Rightarrow>
          (case mse_event ev of
             Started data \<Rightarrow>
               Some \<lparr>mi_my_coin = md_maker_coin data, mi_other_coin = md_taker_coin data,
                     mi_my_amount = md_maker_amount data, mi_other_amount = md_taker_amount data,
                     mi_started_at = md_started_at data\<rparr>
           | _ \<Rightarrow> None))"

fun maker_event_precludes_recovery :: "maker_swap_event \<Rightarrow> bool" where
  "maker_event_precludes_recovery (StartFailed e) = True"
| "maker_event_precludes_recovery (NegotiateFailed e) = True"
| "maker_event_precludes_recovery (TakerFeeValidateFailed e) = True"
| "maker_event_precludes_recovery TakerPaymentSpendConfirmed = True"
| "maker_event_precludes_recovery (MakerPaymentRefunded tx) = True"
| "maker_event_precludes_recovery _ = False"

definition maker_saved_is_recoverable :: "maker_saved_swap \<Rightarrow> bool" where
  "maker_saved_is_recoverable saved =
     (if \<not> maker_saved_is_finished saved then False
      else list_all (\<lambda>ev. \<not> maker_event_precludes_recovery (mse_event ev)) (mss_events saved))"

definition maker_saved_finished_at :: "maker_saved_swap \<Rightarrow> string + u64" where
  "maker_saved_finished_at saved =
     (if mss_events saved = [] then Inl ''Can't get finished_at, events are empty''
      else if mse_event (last (mss_events saved)) = Finished
      then Inr (mse_timestamp (last (mss_events saved)) div 1000)
      else Inl ''Last swap event must be Finished'')"

definition maker_saved_is_success :: "maker_saved_swap \<Rightarrow> string + bool" where
  "maker_saved_is_success saved =
     (if \<not> maker_saved_is_finished saved
      then Inl ''Can not determine is_success state for not finished swap''
      else Inr (list_all (\<lambda>ev. \<not> maker_event_is_error (mse_event ev)) (mss_events saved)))"

definition maker_saved_swap_pubkeys :: "maker_saved_swap \<Rightarrow> string + swap_pubkeys" where
  "maker_saved_swap_pubkeys saved =
     (case mss_events saved of
        [] \<Rightarrow> Inl ''Can't get maker's pubkey while events are empty''
      | ev # evs \<Rightarrow>
          (case mse_event ev of
             Started started \<Rightarrow>
               (case evs of
                  [] \<Rightarrow> Inl ''Can't get taker's pubkey while there's no Negotiated event''
                | ev1 # evs1 \<Rightarrow>
                    (case mse_event ev1 of
                       Negotiated neg \<Rightarrow>
                         (case tn_taker_coin_htlc_pubkey neg of
                            None \<Rightarrow> Inl ''taker's pubkey is empty''
                          | Some key \<Rightarrow>
                              Inr \<lparr>pk_maker = show_hex (md_my_persistent_pub started),
                                   pk_taker = show_hex key\<rparr>)
                     | _ \<Rightarrow> Inl ''Swap must be negotiated to get taker's pubkey''))
           | _ \<Rightarrow> Inl ''First swap event must be Started''))"

definition maker_saved_fetch_and_set_usd_prices ::
  "mm_ctx \<Rightarrow> moment \<Rightarrow> maker_saved_swap \<Rightarrow> maker_saved_swap" where
  "maker_saved_fetch_and_set_usd_prices ctx t saved =
     (case x_swap_coins_price ctx t (mss_maker_coin saved) (mss_taker_coin saved) of
        Some (base, rel) \<Rightarrow>
          saved\<lparr>mss_maker_coin_usd_price := Some base, mss_taker_coin_usd_price := Some rel\<rparr>
      | None \<Rightarrow> saved)"

section \<open>Loading a swap\<close>

definition maker_refresh_data :: "coin \<Rightarrow> coin \<Rightarrow> maker_swap_data \<Rightarrow> maker_swap_data" where
  "maker_refresh_data maker_coin taker_coin data =
     (let data1 = (if md_maker_coin_swap_contract_address data = None
                   then data\<lparr>md_maker_coin_swap_contract_address := c_swap_contract_address maker_coin\<rparr>
                   else data)
      in if md_taker_coin_swap_contract_address data1 = None
         then data1\<lparr>md_taker_coin_swap_contract_address := c_swap_contract_address taker_coin\<rparr>
         else data1)"

definition maker_load_conf_settings ::
  "coin \<Rightarrow> coin \<Rightarrow> maker_swap_data \<Rightarrow> swap_confirmations_settings" where
  "maker_load_conf_settings maker_coin taker_coin data =
     \<lparr>sc_maker_coin_confs = md_maker_payment_confirmations data,
      sc_maker_coin_nota =
        (case md_maker_payment_requires_nota data of
           Some b \<Rightarrow> b | None \<Rightarrow> c_requires_notarization maker_coin),
      sc_taker_coin_confs = md_taker_payment_confirmations data,
      sc_taker_coin_nota =
        (case md_taker_payment_requires_nota data of
           Some b \<Rightarrow> b | None \<Rightarrow> c_requires_notarization taker_coin)\<rparr>"

text \<open>\<open>now\<close> is the clock while the events are applied; \<open>hash_from_slice 33\<close> is the conversion of the key.\<close>

definition maker_load_from_saved ::
  "mm_ctx \<Rightarrow> u64 \<Rightarrow> coin \<Rightarrow> coin \<Rightarrow> maker_saved_swap \<Rightarrow>
   (maker_swap \<times> maker_swap_command option) outcome" where
  "maker_load_from_saved ctx now maker_coin taker_coin saved =
     (case mss_log saved of
        [] \<Rightarrow> Err ''Can't restore swap from empty events set''
      | Started data0 # evs \<Rightarrow>
          (let data = maker_refresh_data maker_coin taker_coin data0 in
           case x_internal_pubkey ctx of
             Inl e \<Rightarrow> Err e
           | Inr pub \<Rightarrow>
               (case hash_from_slice 33 pub of
                  None \<Rightarrow> Panic
                | Some my_persistent_pub \<Rightarrow>
                    (let swap = maker_swap_new (md_taker data) (md_maker_amount data) (md_taker_amount data)
                           my_persistent_pub (mss_uuid saved) (mss_my_order_uuid saved)
                           (maker_load_conf_settings maker_coin taker_coin data)
                           maker_coin taker_coin (md_lock_duration data) (md_p2p_privkey data)
                           (md_secret data);
                         events = Started data # evs
                     in Ret (fold (maker_apply_event now) events swap, maker_get_command (last events)))))
      | _ \<Rightarrow> Err ''First swap event must be Started'')"

section \<open>Recovery of funds\<close>

definition maker_search_other_input :: "mm_ctx \<Rightarrow> maker_swap \<Rightarrow> bytes \<Rightarrow> search_for_swap_tx_spend_input" where
  "maker_search_other_input ctx s taker_payment_hex =
     \<lparr>sfi_time_lock = as_u32 (ms_taker_payment_lock s), sfi_other_pub = mm_other_taker_coin_htlc_pub s,
      sfi_secret_hash = maker_secret_hash ctx s, sfi_tx = taker_payment_hex,
      sfi_search_from_block = md_taker_coin_start_block (mm_data s),
      sfi_swap_contract_address = md_taker_coin_swap_contract_address (mm_data s),
      sfi_swap_unique_data = maker_unique_swap_data ctx s, sfi_watcher_reward = mm_watcher_reward s\<rparr>"

definition maker_try_spend_taker_payment ::
  "mm_ctx \<Rightarrow> moment \<Rightarrow> maker_swap \<Rightarrow> effect list \<times> (string + transaction)" where
  "maker_try_spend_taker_payment ctx t s =
     (let tc = ms_taker_coin s in
      case mm_taker_payment s of
        None \<Rightarrow> ([], Inl ''No info about taker payment, swap is not recoverable'')
      | Some payment \<Rightarrow>
      case c_search_for_swap_tx_spend_other tc t (maker_search_other_input ctx s (ti_hex payment)) of
        Inr (Some (Spent tx)) \<Rightarrow>
          ([], Inl (''Taker payment was already spent by '' @ c_ticker tc @ '' tx '' @ show_hex (tx_hash tx)))
      | Inr (Some (Refunded tx)) \<Rightarrow>
          ([], Inl (''Taker payment was already refunded by '' @ c_ticker tc @ '' tx '' @ show_hex (tx_hash tx)))
      | Inl e \<Rightarrow> ([], Inl (''Error '' @ e @ '' when trying to find taker payment spend''))
      | Inr None \<Rightarrow>
          (let args = maker_spend_args ctx s (ti_hex payment) in
           ([E_MakerSpendsTakerPayment args],
            map_sum (x_debug_transaction_err ctx) id (c_send_maker_spends_taker_payment tc t args))))"

definition maker_search_my_input :: "mm_ctx \<Rightarrow> maker_swap \<Rightarrow> bytes \<Rightarrow> search_for_swap_tx_spend_input" where
  "maker_search_my_input ctx s maker_payment =
     \<lparr>sfi_time_lock = as_u32 (md_maker_payment_lock (mm_data s)),
      sfi_other_pub = mm_other_maker_coin_htlc_pub s,
      sfi_secret_hash = maker_secret_hash ctx s, sfi_tx = maker_payment,
      sfi_search_from_block = md_maker_coin_start_block (mm_data s),
      sfi_swap_contract_address = md_maker_coin_swap_contract_address (mm_data s),
      sfi_swap_unique_data = maker_unique_swap_data ctx s, sfi_watcher_reward = mm_watcher_reward s\<rparr>"

definition maker_recover_funds ::
  "mm_ctx \<Rightarrow> moment \<Rightarrow> maker_swap \<Rightarrow> effect list \<times> (string + recovered_swap)" where
  "maker_recover_funds ctx t s =
     (let mc = ms_maker_coin s; tc = ms_taker_coin s in
      if ms_finished_at s = 0
      then ([], Inl ''Swap must be finished before recover funds attempt'')
      else if mm_maker_payment_refund s \<noteq> None
      then ([], Inl ''Maker payment is refunded, swap is not recoverable'')
      else if mm_taker_payment_spend s \<noteq> None \<and> mm_taker_payment_spend_confirmed s
      then ([], Inl ''Taker payment spend transaction has been sent and confirmed'')
      else
      case (case mm_maker_payment s of
              Some tx \<Rightarrow> Inr (ti_hex tx)
            | None \<Rightarrow>
                (case c_check_if_my_payment_sent mc t (maker_check_if_my_payment_sent_args ctx s) of
                   Inl e \<Rightarrow> Inl e
                 | Inr (Some tx) \<Rightarrow> Inr (tx_hex tx)
                 | Inr None \<Rightarrow> Inl ''Maker payment transaction was not found'')) of
        Inl e \<Rightarrow> ([], Inl e)
      | Inr maker_payment \<Rightarrow>
      case c_search_for_swap_tx_spend_my mc t (maker_search_my_input ctx s maker_payment) of
        Inr (Some (Spent tx)) \<Rightarrow>
          (case maker_try_spend_taker_payment ctx t s of
             (effs, Inl e) \<Rightarrow> (effs, Inl e)
           | (effs, Inr transaction) \<Rightarrow>
               (effs, Inr \<lparr>rec_action = SpentOtherPayment, rec_coin = c_ticker tc,
                           rec_transaction = transaction\<rparr>))
      | Inr (Some (Refunded tx)) \<Rightarrow>
          ([], Inl (''Maker payment was already refunded by '' @ c_ticker mc @ '' tx '' @ show_hex (tx_hash tx)))
      | Inl e \<Rightarrow> ([], Inl (''Error '' @ e @ '' when trying to find maker payment spend''))
      | Inr None \<Rightarrow>
      if c_is_auto_refundable mc then ([], Inl ''Maker payment will be refunded automatically!'')
      else
      case c_can_refund_htlc mc t 0 (ucast (as_u32 (md_maker_payment_lock (mm_data s)))) of
        Inl e \<Rightarrow> ([], Inl e)
      | Inr (HaveToWait seconds_to_wait) \<Rightarrow>
          ([], Inl (''Too early to refund, wait until '' @ show_u64 (x_now_sec ctx t + seconds_to_wait)))
      | Inr CanRefundNow \<Rightarrow>
      (let args = maker_refund_args ctx s maker_payment in
      case c_send_maker_refunds_payment mc t args of
        Inl err \<Rightarrow>
          (E_MakerRefundsPayment args # broadcast_recoverable (c_ticker mc) err,
           Inl (get_plain_text_format err))
      | Inr transaction \<Rightarrow>
          ([E_MakerRefundsPayment args],
           Inr \<lparr>rec_action = RefundedMyPayment, rec_coin = c_ticker mc,
                rec_transaction = transaction\<rparr>)))"

end
