(* ===== verification/TakerSwap.thy ===== *)
theory TakerSwap
  imports CheckBalance
begin

text \<open>
  The taker's side of a swap, \<open>mm2_main/src/lp_swap/taker_swap.rs\<close>: the data of the swap, the events
  with their effect on the state (\<open>apply_event\<close>), the eleven stages with their dispatch
  (\<open>handle_command\<close>) and the locked amounts. Stages have the same shape as those of the maker:
  effects, swap and outcome, or \<open>None\<close> for a stage that polls without end. One stage of the taker
  can also return an error of its own (\<open>Err\<close>), which makes \<open>run_taker_swap\<close> panic.
\<close>

section \<open>Data\<close>

record maker_negotiation_data =
  mn_maker_payment_locktime :: u64
  mn_maker_pubkey :: bytes
  mn_secret_hash :: bytes
  mn_maker_coin_swap_contract_addr :: "bytes option"
  mn_taker_coin_swap_contract_addr :: "bytes option"
  mn_maker_coin_htlc_pubkey :: "bytes option"
  mn_taker_coin_htlc_pubkey :: "bytes option"

definition mn_other_maker_coin_htlc_pub :: "maker_negotiation_data \<Rightarrow> bytes" where
  "mn_other_maker_coin_htlc_pub d =
     (case mn_maker_coin_htlc_pubkey d of Some k \<Rightarrow> k | None \<Rightarrow> mn_maker_pubkey d)"

definition mn_other_taker_coin_htlc_pub :: "maker_negotiation_data \<Rightarrow> bytes" where
  "mn_other_taker_coin_htlc_pub d =
     (case mn_taker_coin_htlc_pubkey d of Some k \<Rightarrow> k | None \<Rightarrow> mn_maker_pubkey d)"

record taker_payment_spent_data =
  psd_transaction :: transaction_identifier
  psd_secret :: bytes

record taker_swap_data =
  td_taker_coin :: string
  td_maker_coin :: string
  td_maker :: bytes
  td_my_persistent_pub :: bytes
  td_lock_duration :: u64
  td_maker_amount :: rat
  td_taker_amount :: rat
  td_maker_payment_confirmations :: u64
  td_maker_payment_requires_nota :: "bool option"
  td_taker_payment_confirmations :: u64
  td_taker_payment_requires_nota :: "bool option"
  td_taker_payment_lock :: u64
  td_uuid :: uuid
  td_started_at :: u64
  td_maker_payment_wait :: u64
  td_maker_coin_start_block :: u64
  td_taker_coin_start_block :: u64
  td_fee_to_send_taker_fee :: "saved_trade_fee option"
  td_taker_payment_trade_fee :: "saved_trade_fee option"
  td_maker_payment_spend_trade_fee :: "saved_trade_fee option"
  td_maker_coin_swap_contract_address :: "bytes option"
  td_taker_coin_swap_contract_address :: "bytes option"
  td_maker_coin_htlc_pubkey :: "bytes option"
  td_taker_coin_htlc_pubkey :: "bytes option"
  td_p2p_privkey :: "bytes option"

definition taker_swap_data_default :: taker_swap_data where
  "taker_swap_data_default =
     \<lparr>td_taker_coin = [], td_maker_coin = [], td_maker = hash_default 32,
      td_my_persistent_pub = hash_default 33, td_lock_duration = 0, td_maker_amount = 0,
      td_taker_amount = 0, td_maker_payment_confirmations = 0,
      td_maker_payment_requires_nota = None, td_taker_payment_confirmations = 0,
      td_taker_payment_requires_nota = None, td_taker_payment_lock = 0, td_uuid = hash_default 16,
      td_started_at = 0, td_maker_payment_wait = 0, td_maker_coin_start_block = 0,
      td_taker_coin_start_block = 0, td_fee_to_send_taker_fee = None,
      td_taker_payment_trade_fee = None, td_maker_payment_spend_trade_fee = None,
      td_maker_coin_swap_contract_address = None, td_taker_coin_swap_contract_address = None,
      td_maker_coin_htlc_pubkey = None, td_taker_coin_htlc_pubkey = None, td_p2p_privkey = None\<rparr>"

record taker_swap_mut =
  tm_data :: taker_swap_data
  tm_other_maker_coin_htlc_pub :: bytes
  tm_other_taker_coin_htlc_pub :: bytes
  tm_taker_fee :: "transaction_identifier option"
  tm_maker_payment :: "transaction_identifier option"
  tm_taker_payment :: "transaction_identifier option"
  tm_maker_payment_spend :: "transaction_identifier option"
  tm_taker_payment_spend :: "transaction_identifier option"
  tm_maker_payment_spend_preimage :: "bytes option"
  tm_taker_payment_refund_preimage :: "bytes option"
  tm_taker_payment_refund :: "transaction_identifier option"
  tm_secret_hash :: bytes
  tm_secret :: bytes
  tm_watcher_reward :: bool
  tm_reward_amount :: "rat option"
  tm_payment_instructions :: "payment_instructions option"

record taker_swap = taker_swap_mut +
  ts_maker_coin :: coin
  ts_taker_coin :: coin
  ts_maker_amount :: rat
  ts_taker_amount :: rat
  ts_my_persistent_pub :: bytes
  ts_maker :: bytes
  ts_uuid :: uuid
  ts_my_order_uuid :: "uuid option"
  ts_maker_payment_lock :: u64
  ts_maker_payment_confirmed :: bool
  ts_errors :: "string list"
  ts_finished_at :: u64
  ts_conf_settings :: swap_confirmations_settings
  ts_payment_locktime :: u64
  ts_p2p_privkey :: "bytes option"

definition taker_swap_new ::
  "bytes \<Rightarrow> rat \<Rightarrow> rat \<Rightarrow> bytes \<Rightarrow> uuid \<Rightarrow> uuid option \<Rightarrow> swap_confirmations_settings \<Rightarrow> coin \<Rightarrow> coin \<Rightarrow>
   u64 \<Rightarrow> bytes option \<Rightarrow> taker_swap" where
  "taker_swap_new maker maker_amount taker_amount my_persistent_pub u my_order_uuid conf_settings
     maker_coin taker_coin locktime p2p_privkey =
     \<lparr>tm_data = taker_swap_data_default,
      tm_other_maker_coin_htlc_pub = hash_default 33, tm_other_taker_coin_htlc_pub = hash_default 33,
      tm_taker_fee = None, tm_maker_payment = None, tm_taker_payment = None,
      tm_maker_payment_spend = None, tm_taker_payment_spend = None,
      tm_maker_payment_spend_preimage = None, tm_taker_payment_refund_preimage = None,
      tm_taker_payment_refund = None, tm_secret_hash = [], tm_secret = hash_default 32,
      tm_watcher_reward = False, tm_reward_amount = None, tm_payment_instructions = None,
      ts_maker_coin = maker_coin, ts_taker_coin = taker_coin, ts_maker_amount = maker_amount,
      ts_taker_amount = taker_amount, ts_my_persistent_pub = my_persistent_pub, ts_maker = maker,
      ts_uuid = u, ts_my_order_uuid = my_order_uuid, ts_maker_payment_lock = 0,
      ts_maker_payment_confirmed = False, ts_errors = [], ts_finished_at = 0,
      ts_conf_settings = conf_settings, ts_payment_locktime = locktime, ts_p2p_privkey = p2p_privkey\<rparr>"

section \<open>Commands and events\<close>

datatype taker_swap_command =
    Start
  | Negotiate
  | SendTakerFee
  | WaitForMakerPayment
  | ValidateMakerPayment
  | SendTakerPayment
  | WaitForTakerPaymentSpend
  | SpendMakerPayment
  | PrepareForTakerPaymentRefund
  | RefundTakerPayment
  | FinalizeTakerPaymentRefund
  | Finish

datatype taker_swap_event =
    Started taker_swap_data
  | StartFailed string
  | Negotiated maker_negotiation_data
  | NegotiateFailed string
  | TakerFeeSent transaction_identifier
  | TakerFeeSendFailed string
  | TakerPaymentInstructionsReceived "payment_instructions option"
  | MakerPaymentReceived transaction_identifier
  | MakerPaymentWaitConfirmStarted
  | MakerPaymentValidatedAndConfirmed
  | MakerPaymentValidateFailed string
  | MakerPaymentWaitConfirmFailed string
  | TakerPaymentSent transaction_identifier
  | WatcherMessageSent "bytes option" "bytes option"
  | TakerPaymentTransactionFailed string
  | TakerPaymentDataSendFailed string
  | TakerPaymentWaitConfirmFailed string
  | TakerPaymentSpent taker_payment_spent_data
  | TakerPaymentWaitForSpendFailed string
  | MakerPaymentSpent transaction_identifier
  | MakerPaymentSpendFailed string
  | TakerPaymentWaitRefundStarted u64
  | TakerPaymentRefundStarted
  | TakerPaymentRefunded "transaction_identifier option"
  | TakerPaymentRefundFailed string
  | TakerPaymentRefundFinished
  | Finished

section \<open>Applying events\<close>

definition taker_push_error :: "string \<Rightarrow> taker_swap \<Rightarrow> taker_swap" where
  "taker_push_error err s = s\<lparr>ts_errors := ts_errors s @ [err]\<rparr>"

fun taker_apply_event :: "u64 \<Rightarrow> taker_swap_event \<Rightarrow> taker_swap \<Rightarrow> taker_swap" where
  "taker_apply_event now (Started data) s = s\<lparr>tm_data := data\<rparr>"
| "taker_apply_event now (StartFailed err) s = taker_push_error err s"
| "taker_apply_event now (Negotiated data) s =
     (let s1 = s\<lparr>ts_maker_payment_lock := mn_maker_payment_locktime data,
                 tm_other_maker_coin_htlc_pub := mn_other_maker_coin_htlc_pub data,
                 tm_other_taker_coin_htlc_pub := mn_other_taker_coin_htlc_pub data,
                 tm_secret_hash := mn_secret_hash data\<rparr>;
          s2 = (if mn_maker_coin_swap_contract_addr data \<noteq> None
                then s1\<lparr>tm_data := (tm_data s1)
                         \<lparr>td_maker_coin_swap_contract_address := mn_maker_coin_swap_contract_addr data\<rparr>\<rparr>
                else s1)
      in if mn_taker_coin_swap_contract_addr data \<noteq> None
         then s2\<lparr>tm_data := (tm_data s2)
                  \<lparr>td_taker_coin_swap_contract_address := mn_taker_coin_swap_contract_addr data\<rparr>\<rparr>
         else s2)"
| "taker_apply_event now (NegotiateFailed err) s = taker_push_error err s"
| "taker_apply_event now (TakerFeeSent tx) s = s\<lparr>tm_taker_fee := Some tx\<rparr>"
| "taker_apply_event now (TakerFeeSendFailed err) s = taker_push_error err s"
| "taker_apply_event now (TakerPaymentInstructionsReceived instructions) s =
     s\<lparr>tm_payment_instructions := instructions\<rparr>"
| "taker_apply_event now (MakerPaymentReceived tx) s = s\<lparr>tm_maker_payment := Some tx\<rparr>"
| "taker_apply_event now MakerPaymentWaitConfirmStarted s = s"
| "taker_apply_event now MakerPaymentValidatedAndConfirmed s = s\<lparr>ts_maker_payment_confirmed := True\<rparr>"
| "taker_apply_event now (MakerPaymentValidateFailed err) s = taker_push_error err s"
| "taker_apply_event now (MakerPaymentWaitConfirmFailed err) s = taker_push_error err s"
| "taker_apply_event now (TakerPaymentSent tx) s = s\<lparr>tm_taker_payment := Some tx\<rparr>"
| "taker_apply_event now (WatcherMessageSent spend_preimage refund_preimage) s =
     s\<lparr>tm_maker_payment_spend_preimage := spend_preimage,
       tm_taker_payment_refund_preimage := refund_preimage\<rparr>"
| "taker_apply_event now (TakerPaymentTransactionFailed err) s = taker_push_error err s"
| "taker_apply_event now (TakerPaymentDataSendFailed err) s = taker_push_error err s"
| "taker_apply_event now (TakerPaymentWaitConfirmFailed err) s = taker_push_error err s"
| "taker_apply_event now (TakerPaymentSpent data) s =
     s\<lparr>tm_taker_payment_spend := Some (psd_transaction data), tm_secret := psd_secret data\<rparr>"
| "taker_apply_event now (TakerPaymentWaitForSpendFailed err) s = taker_push_error err s"
| "taker_apply_event now (MakerPaymentSpent tx) s = s\<lparr>tm_maker_payment_spend := Some tx\<rparr>"
| "taker_apply_event now (MakerPaymentSpendFailed err) s = taker_push_error err s"
| "taker_apply_event now (TakerPaymentWaitRefundStarted wait_until) s = s"
| "taker_apply_event now TakerPaymentRefundStarted s = s"
| "taker_apply_event now (TakerPaymentRefunded tx) s = s\<lparr>tm_taker_payment_refund := tx\<rparr>"
| "taker_apply_event now (TakerPaymentRefundFailed err) s = taker_push_error err s"
| "taker_apply_event now TakerPaymentRefundFinished s = s"
| "taker_apply_event now Finished s = s\<lparr>ts_finished_at := now\<rparr>"

section \<open>Helpers of the stages\<close>

type_synonym taker_stage = "effect list \<times> taker_swap \<times> (taker_swap_command option \<times> taker_swap_event list) outcome"

definition TAKER_PAYMENT_SPEND_SEARCH_INTERVAL :: rat where "TAKER_PAYMENT_SPEND_SEARCH_INTERVAL = 10"

definition taker_unique_swap_data :: "taker_swap \<Rightarrow> bytes" where
  "taker_unique_swap_data s = ts_uuid s"

definition taker_my_maker_coin_htlc_pub :: "taker_swap \<Rightarrow> bytes" where
  "taker_my_maker_coin_htlc_pub s =
     (case td_maker_coin_htlc_pubkey (tm_data s) of Some k \<Rightarrow> k | None \<Rightarrow> ts_my_persistent_pub s)"

definition taker_my_taker_coin_htlc_pub :: "taker_swap \<Rightarrow> bytes" where
  "taker_my_taker_coin_htlc_pub s =
     (case td_taker_coin_htlc_pubkey (tm_data s) of Some k \<Rightarrow> k | None \<Rightarrow> ts_my_persistent_pub s)"

definition taker_wait_refund_until :: "taker_swap \<Rightarrow> u64" where
  "taker_wait_refund_until s = td_taker_payment_lock (tm_data s) + 3700"

definition taker_get_my_negotiation_data ::
  "taker_swap \<Rightarrow> bytes \<Rightarrow> bytes \<Rightarrow> bytes \<Rightarrow> negotiation_data_msg" where
  "taker_get_my_negotiation_data s secret_hash maker_contract taker_contract =
     (let d = tm_data s;
          equal_keys = (td_maker_coin_htlc_pubkey d = td_taker_coin_htlc_pubkey d);
          same_as_persistent = (td_maker_coin_htlc_pubkey d = Some (td_my_persistent_pub d))
      in if equal_keys \<and> same_as_persistent
         then V2 \<lparr>n2_started_at = td_started_at d, n2_payment_locktime = td_taker_payment_lock d,
                  n2_secret_hash = secret_hash, n2_persistent_pubkey = ts_my_persistent_pub s,
                  n2_maker_coin_swap_contract = maker_contract,
                  n2_taker_coin_swap_contract = taker_contract\<rparr>
         else V3 \<lparr>n3_started_at = td_started_at d, n3_payment_locktime = td_taker_payment_lock d,
                  n3_secret_hash = secret_hash, n3_maker_coin_swap_contract = maker_contract,
                  n3_taker_coin_swap_contract = taker_contract,
                  n3_maker_coin_htlc_pub = taker_my_maker_coin_htlc_pub s,
                  n3_taker_coin_htlc_pub = taker_my_taker_coin_htlc_pub s\<rparr>)"

text \<open>\<open>get_taker_fee_data\<close>: the outer \<open>None\<close> is the panic documented in the source.\<close>

definition taker_get_taker_fee_data ::
  "mm_ctx \<Rightarrow> moment \<Rightarrow> taker_swap \<Rightarrow> (string + swap_tx_data_msg) option" where
  "taker_get_taker_fee_data ctx t s =
     (case tm_taker_fee s of
        None \<Rightarrow> None
      | Some fee \<Rightarrow>
          (let d = tm_data s in
           case c_maker_payment_instructions (ts_maker_coin s) t
                  \<lparr>pia_secret_hash = tm_secret_hash s, pia_amount = x_to_decimal ctx (ts_maker_amount s),
                   pia_maker_lock_duration =
                     maker_lock_duration (td_lock_duration d) (c_maker_locktime_multiplier (ts_taker_coin s)),
                   pia_expires_in = wait_for_maker_payment_conf_duration (td_lock_duration d),
                   pia_watcher_reward = (tm_watcher_reward s \<and> is_eth (ts_taker_coin s)),
                   pia_wait_until =
                     wait_for_maker_payment_conf_until (td_started_at d) (td_lock_duration d)\<rparr> of
             Inl e \<Rightarrow> Some (Inl e)
           | Inr instructions \<Rightarrow> Some (Inr (swap_tx_data_msg_new (ti_hex fee) instructions))))"

text \<open>\<open>create_watcher_data\<close>, \<open>None\<close> where it unwraps a missing transaction.\<close>

definition taker_create_watcher_data ::
  "taker_swap \<Rightarrow> bytes \<Rightarrow> bytes \<Rightarrow> bytes \<Rightarrow> taker_swap_watcher_data option" where
  "taker_create_watcher_data s taker_payment_hash spend_preimage refund_preimage =
     (case (tm_taker_fee s, tm_maker_payment s) of
        (Some fee, Some payment) \<Rightarrow>
          Some \<lparr>wd_uuid = ts_uuid s, wd_secret_hash = tm_secret_hash s,
                wd_maker_payment_spend_preimage = spend_preimage,
                wd_taker_payment_refund_preimage = refund_preimage,
                wd_swap_started_at = td_started_at (tm_data s),
                wd_lock_duration = td_lock_duration (tm_data s),
                wd_taker_coin = td_taker_coin (tm_data s), wd_taker_fee_hash = ti_hash fee,
                wd_taker_payment_hash = taker_payment_hash,
                wd_taker_coin_start_block = td_taker_coin_start_block (tm_data s),
                wd_taker_payment_confirmations = td_taker_payment_confirmations (tm_data s),
                wd_taker_payment_requires_nota = td_taker_payment_requires_nota (tm_data s),
                wd_maker_coin = td_maker_coin (tm_data s), wd_maker_pub = tm_other_maker_coin_htlc_pub s,
                wd_maker_payment_hash = ti_hash payment,
                wd_maker_coin_start_block = td_maker_coin_start_block (tm_data s)\<rparr>
      | _ \<Rightarrow> None)"

definition taker_uses_watchers :: "mm_ctx \<Rightarrow> taker_swap \<Rightarrow> bool" where
  "taker_uses_watchers ctx s =
     (x_use_watchers ctx \<and> c_is_supported_by_watchers (ts_taker_coin s)
      \<and> c_is_supported_by_watchers (ts_maker_coin s))"

definition taker_ends :: "taker_swap \<Rightarrow> effect list \<Rightarrow> taker_swap_event list \<Rightarrow> taker_stage option" where
  "taker_ends s effs evs = Some (effs, s, Ret (Some Finish, evs))"

definition taker_refunds :: "taker_swap \<Rightarrow> effect list \<Rightarrow> taker_swap_event \<Rightarrow> taker_stage option" where
  "taker_refunds s effs ev =
     Some (effs, s, Ret (Some PrepareForTakerPaymentRefund,
                         [ev, TakerPaymentWaitRefundStarted (taker_wait_refund_until s)]))"

definition taker_continues ::
  "taker_swap \<Rightarrow> effect list \<Rightarrow> taker_swap_command \<Rightarrow> taker_swap_event list \<Rightarrow> taker_stage option" where
  "taker_continues s effs c evs = Some (effs, s, Ret (Some c, evs))"

definition taker_panics :: "taker_swap \<Rightarrow> effect list \<Rightarrow> taker_stage option" where
  "taker_panics s effs = Some (effs, s, Panic)"

section \<open>Stages\<close>

definition taker_start :: "mm_ctx \<Rightarrow> moment \<Rightarrow> taker_swap \<Rightarrow> taker_stage option" where
  "taker_start ctx t s =
     (let mc = ts_maker_coin s; tc = ts_taker_coin s;
          dex_fee = dex_fee_amount_from_taker_coin ctx tc (c_ticker mc) (ts_taker_amount s) in
      case c_get_fee_to_send_taker_fee tc t (x_to_decimal ctx dex_fee) StartSwap of
        Inl e \<Rightarrow> taker_ends s [] [StartFailed (''!taker_coin.get_fee_to_send_taker_fee '' @ x_show_trade_preimage_error ctx e)]
      | Inr fee_to_send_dex_fee \<Rightarrow>
      case c_get_sender_trade_fee tc t (Exact (x_to_decimal ctx (ts_taker_amount s))) StartSwap of
        Inl e \<Rightarrow> taker_ends s [] [StartFailed (''!taker_coin.get_sender_trade_fee '' @ x_show_trade_preimage_error ctx e)]
      | Inr taker_payment_trade_fee \<Rightarrow>
      case c_get_receiver_trade_fee mc t StartSwap of
        Inl e \<Rightarrow> taker_ends s [] [StartFailed (''!maker_coin.get_receiver_trade_fee '' @ x_show_trade_preimage_error ctx e)]
      | Inr maker_payment_spend_trade_fee \<Rightarrow>
      case check_balance_for_taker_swap ctx t tc mc (ts_taker_amount s) (Some (ts_uuid s))
             (Some \<lparr>tp_dex_fee = dex_fee, tp_fee_to_send_dex_fee = fee_to_send_dex_fee,
                    tp_taker_payment_trade_fee = taker_payment_trade_fee,
                    tp_maker_payment_spend_trade_fee = maker_payment_spend_trade_fee\<rparr>) StartSwap of
        Inl e \<Rightarrow> taker_ends s [] [StartFailed (''!check_balance_for_taker_swap '' @ x_show_check_balance_error ctx e)]
      | Inr u \<Rightarrow>
      (let now = x_now_sec ctx t in
      case c_current_block mc t of
        Inl e \<Rightarrow> taker_ends s [] [StartFailed (''!maker_coin.current_block '' @ e)]
      | Inr maker_coin_start_block \<Rightarrow>
      case c_current_block tc t of
        Inl e \<Rightarrow> taker_ends s [] [StartFailed (''!taker_coin.current_block '' @ e)]
      | Inr taker_coin_start_block \<Rightarrow>
      (let unique_data = taker_unique_swap_data s in
      case (hash_from_slice 33 (c_derive_htlc_pubkey mc unique_data),
            hash_from_slice 33 (c_derive_htlc_pubkey tc unique_data)) of
        (Some maker_htlc_pub, Some taker_htlc_pub) \<Rightarrow>
          (let data =
             \<lparr>td_taker_coin = c_ticker tc, td_maker_coin = c_ticker mc, td_maker = ts_maker s,
              td_my_persistent_pub = ts_my_persistent_pub s, td_lock_duration = ts_payment_locktime s,
              td_maker_amount = x_to_decimal ctx (ts_maker_amount s),
              td_taker_amount = x_to_decimal ctx (ts_taker_amount s),
              td_maker_payment_confirmations = sc_maker_coin_confs (ts_conf_settings s),
              td_maker_payment_requires_nota = Some (sc_maker_coin_nota (ts_conf_settings s)),
              td_taker_payment_confirmations = sc_taker_coin_confs (ts_conf_settings s),
              td_taker_payment_requires_nota = Some (sc_taker_coin_nota (ts_conf_settings s)),
              td_taker_payment_lock = now + ts_payment_locktime s,
              td_uuid = ts_uuid s, td_started_at = now,
              td_maker_payment_wait = wait_for_maker_payment_conf_until now (ts_payment_locktime s),
              td_maker_coin_start_block = maker_coin_start_block,
              td_taker_coin_start_block = taker_coin_start_block,
              td_fee_to_send_taker_fee = Some (saved_of_trade_fee ctx fee_to_send_dex_fee),
              td_taker_payment_trade_fee = Some (saved_of_trade_fee ctx taker_payment_trade_fee),
              td_maker_payment_spend_trade_fee = Some (saved_of_trade_fee ctx maker_payment_spend_trade_fee),
              td_maker_coin_swap_contract_address = c_swap_contract_address mc,
              td_taker_coin_swap_contract_address = c_swap_contract_address tc,
              td_maker_coin_htlc_pubkey = Some maker_htlc_pub,
              td_taker_coin_htlc_pubkey = Some taker_htlc_pub,
              td_p2p_privkey = ts_p2p_privkey s\<rparr>
           in taker_continues (s\<lparr>tm_watcher_reward := x_env_use_watcher_reward ctx\<rparr>) []
                Negotiate [Started data])
      | _ \<Rightarrow> taker_panics s [])))"

text \<open>The contract address agreed on, with the fallback that only the taker has.\<close>

definition taker_negotiate_contract :: "coin \<Rightarrow> bytes option \<Rightarrow> string + bytes option" where
  "taker_negotiate_contract c other_side_address =
     (case c_negotiate_swap_contract_addr c other_side_address of
        Inr addr \<Rightarrow> Inr addr
      | Inl e \<Rightarrow> (case c_fallback_swap_contract c of Some addr \<Rightarrow> Inr (Some addr) | None \<Rightarrow> Inl e))"

definition taker_negotiate_failed :: "taker_swap \<Rightarrow> effect list \<Rightarrow> string \<Rightarrow> taker_stage option" where
  "taker_negotiate_failed s effs err = taker_ends s effs [NegotiateFailed err]"

definition taker_negotiate :: "mm_ctx \<Rightarrow> moment \<Rightarrow> taker_swap \<Rightarrow> taker_stage option" where
  "taker_negotiate ctx t s =
     (let mc = ts_maker_coin s; tc = ts_taker_coin s in
      case recv_swap_msg ctx t 0 sm_negotiation 90 of
        None \<Rightarrow> None
      | Some (Inl e) \<Rightarrow> taker_negotiate_failed s [] (debug_str e)
      | Some (Inr maker_data) \<Rightarrow>
      (let time_dif = abs_diff (td_started_at (tm_data s)) (started_at maker_data) in
      if 60 < time_dif
      then taker_negotiate_failed s []
             (''The time difference between you and the maker cannot be longer than 60 seconds. Current difference: ''
              @ show_u64 time_dif
              @ ''. Please make sure that your system clock is synced to the correct time before starting another swap!'')
      else
      (let customized_lock_duration =
             maker_lock_duration (td_lock_duration (tm_data s)) (c_maker_locktime_multiplier tc);
           expected_lock_time = checked_add (started_at maker_data) customized_lock_duration in
      if Some (payment_locktime maker_data) \<noteq> expected_lock_time
      then taker_negotiate_failed s []
             (''maker_data.payment_locktime '' @ show_u64 (payment_locktime maker_data)
              @ '' not equal to expected '' @ show_opt_u64 expected_lock_time)
      else
      case taker_negotiate_contract mc (maker_coin_swap_contract maker_data) of
        Inl e \<Rightarrow> taker_negotiate_failed s [] (''!maker_coin.negotiate_swap_contract_addr '' @ e)
      | Inr maker_coin_swap_contract_addr \<Rightarrow>
      case taker_negotiate_contract tc (taker_coin_swap_contract maker_data) of
        Inl e \<Rightarrow> taker_negotiate_failed s [] (''!taker_coin.negotiate_swap_contract_addr '' @ e)
      | Inr taker_coin_swap_contract_addr \<Rightarrow>
      case c_validate_other_pubkey mc (maker_coin_htlc_pub maker_data) of
        Inl e \<Rightarrow> taker_negotiate_failed s [] (''!maker_data.maker_coin_htlc_pub '' @ e)
      | Inr u1 \<Rightarrow>
      case c_validate_other_pubkey tc (taker_coin_htlc_pub maker_data) of
        Inl e \<Rightarrow> taker_negotiate_failed s [] (''!maker_data.taker_coin_htlc_pub '' @ e)
      | Inr u2 \<Rightarrow>
      if \<not> (length (msg_secret_hash maker_data) = 20 \<or> length (msg_secret_hash maker_data) = 32)
      then taker_negotiate_failed s [] ''!maker_data.secret_hash: secret_hash validation failed''
      else
      (let maker_contract = (case maker_coin_swap_contract_addr of Some a \<Rightarrow> a | None \<Rightarrow> []);
           taker_contract = (case taker_coin_swap_contract_addr of Some a \<Rightarrow> a | None \<Rightarrow> []);
           sent = [E_BroadcastEvery (NegotiationReply
                     (taker_get_my_negotiation_data s (msg_secret_hash maker_data)
                        maker_contract taker_contract))] in
      case recv_swap_msg ctx t 1 sm_negotiated 90 of
        None \<Rightarrow> None
      | Some (Inl e) \<Rightarrow> taker_negotiate_failed s sent (debug_str e)
      | Some (Inr negotiated) \<Rightarrow>
      if \<not> negotiated then taker_negotiate_failed s sent ''Maker sent negotiated = false''
      else
      case (hash_from_slice 33 (maker_coin_htlc_pub maker_data),
            hash_from_slice 33 (taker_coin_htlc_pub maker_data)) of
        (Some maker_htlc, Some taker_htlc) \<Rightarrow>
          taker_continues s sent SendTakerFee
            [Negotiated \<lparr>mn_maker_payment_locktime = payment_locktime maker_data,
                         mn_maker_pubkey = hash_default 33,
                         mn_secret_hash = msg_secret_hash maker_data,
                         mn_maker_coin_swap_contract_addr = maker_coin_swap_contract_addr,
                         mn_taker_coin_swap_contract_addr = taker_coin_swap_contract_addr,
                         mn_maker_coin_htlc_pubkey = Some maker_htlc,
                         mn_taker_coin_htlc_pubkey = Some taker_htlc\<rparr>]
      | _ \<Rightarrow> taker_panics s sent))))"

definition taker_send_taker_fee :: "mm_ctx \<Rightarrow> moment \<Rightarrow> taker_swap \<Rightarrow> taker_stage option" where
  "taker_send_taker_fee ctx t s =
     (let tc = ts_taker_coin s; d = tm_data s;
          timeout = td_started_at d + td_lock_duration d div 3;
          now = x_now_sec ctx t in
      if timeout < now
      then taker_ends s [] [TakerFeeSendFailed (''Timeout '' @ show_u64 now @ '' > '' @ show_u64 timeout)]
      else
      (let fee_amount =
             x_to_decimal ctx (dex_fee_amount_from_taker_coin ctx tc (td_maker_coin d) (ts_taker_amount s));
           sent = [E_SendTakerFee DEX_FEE_ADDR_RAW_PUBKEY fee_amount (ts_uuid s)] in
      case c_send_taker_fee tc t DEX_FEE_ADDR_RAW_PUBKEY fee_amount (ts_uuid s) of
        Inl err \<Rightarrow> taker_ends s sent [TakerFeeSendFailed (get_plain_text_format err)]
      | Inr transaction \<Rightarrow>
          taker_continues s sent WaitForMakerPayment [TakerFeeSent (tx_ident transaction)]))"

definition taker_wait_for_maker_payment :: "mm_ctx \<Rightarrow> moment \<Rightarrow> taker_swap \<Rightarrow> taker_stage option" where
  "taker_wait_for_maker_payment ctx t s =
     (let mc = ts_maker_coin s; tc = ts_taker_coin s in
      case taker_get_taker_fee_data ctx t s of
        None \<Rightarrow> taker_panics s []
      | Some (Inl e) \<Rightarrow> taker_ends s [] [MakerPaymentValidateFailed e]
      | Some (Inr payment_data_msg) \<Rightarrow>
      (let sent = [E_BroadcastEvery (TakerFee_msg payment_data_msg)] in
      case recv_swap_msg ctx t 0 sm_maker_payment 600 of
        None \<Rightarrow> None
      | Some (Inl e) \<Rightarrow>
          taker_ends s sent [MakerPaymentValidateFailed (''Error waiting for 'maker-payment' data: '' @ e)]
      | Some (Inr payload) \<Rightarrow>
      case (case tx_instructions payload of
              None \<Rightarrow> Inr None
            | Some instructions \<Rightarrow>
                map_sum id Some (c_validate_taker_payment_instructions tc instructions
                  (payment_instruction_args_default
                     \<lparr>pia_secret_hash := tm_secret_hash s,
                      pia_amount := x_to_decimal ctx (ts_taker_amount s)\<rparr>))) of
        Inl e \<Rightarrow> taker_ends s sent [MakerPaymentValidateFailed e]
      | Inr instructions \<Rightarrow>
      case c_tx_enum_from_bytes mc (tx_data payload) of
        Inl e \<Rightarrow>
          taker_ends s sent [MakerPaymentValidateFailed
            (''Error parsing the 'maker-payment': '' @ x_debug_tx_marshaling_err ctx e)]
      | Inr maker_payment \<Rightarrow>
          taker_continues s sent ValidateMakerPayment
            [TakerPaymentInstructionsReceived instructions, MakerPaymentReceived (tx_ident maker_payment),
             MakerPaymentWaitConfirmStarted]))"

definition taker_validate_maker_payment :: "mm_ctx \<Rightarrow> moment \<Rightarrow> taker_swap \<Rightarrow> taker_stage option" where
  "taker_validate_maker_payment ctx t s =
     (let mc = ts_maker_coin s; tc = ts_taker_coin s; d = tm_data s;
          confirmations = td_maker_payment_confirmations d in
      case tm_maker_payment s of
        None \<Rightarrow> taker_panics s []
      | Some payment \<Rightarrow>
      case c_wait_for_confirmations mc t
             \<lparr>cpi_payment_tx = ti_hex payment, cpi_confirmations = confirmations,
              cpi_requires_nota = (td_maker_payment_requires_nota d = Some True),
              cpi_wait_until = td_maker_payment_wait d, cpi_check_every = WAIT_CONFIRM_INTERVAL_SEC\<rparr> of
        Inl err \<Rightarrow>
          taker_ends s []
            [MakerPaymentWaitConfirmFailed (''!wait for maker payment confirmations: '' @ err)]
      | Inr u \<Rightarrow>
      case (if tm_watcher_reward s
            then c_get_maker_watcher_reward mc t (c_ticker tc) (tm_reward_amount s) (td_maker_payment_wait d)
            else Inr None) of
        Inl err \<Rightarrow> taker_ends s [] [TakerPaymentTransactionFailed err]
      | Inr reward \<Rightarrow>
      case c_validate_maker_payment mc t
             \<lparr>vpi_payment_tx = ti_hex payment, vpi_time_lock_duration = td_lock_duration d,
              vpi_time_lock = as_u32 (ts_maker_payment_lock s),
              vpi_other_pub = tm_other_maker_coin_htlc_pub s, vpi_secret_hash = tm_secret_hash s,
              vpi_amount = x_to_decimal ctx (ts_maker_amount s),
              vpi_swap_contract_address = td_maker_coin_swap_contract_address d,
              vpi_try_spv_proof_until = td_maker_payment_wait d, vpi_confirmations = confirmations,
              vpi_unique_swap_data = taker_unique_swap_data s, vpi_watcher_reward = reward\<rparr> of
        Inl e \<Rightarrow> taker_ends s [] [MakerPaymentValidateFailed (''!validate maker payment: '' @ e)]
      | Inr u2 \<Rightarrow> taker_continues s [] SendTakerPayment [MakerPaymentValidatedAndConfirmed])"

definition taker_check_if_my_payment_sent_args :: "mm_ctx \<Rightarrow> taker_swap \<Rightarrow> check_if_my_payment_sent_args" where
  "taker_check_if_my_payment_sent_args ctx s =
     \<lparr>cia_time_lock = as_u32 (td_taker_payment_lock (tm_data s)),
      cia_other_pub = tm_other_taker_coin_htlc_pub s, cia_secret_hash = tm_secret_hash s,
      cia_search_from_block = td_taker_coin_start_block (tm_data s),
      cia_swap_contract_address = td_taker_coin_swap_contract_address (tm_data s),
      cia_swap_unique_data = taker_unique_swap_data s,
      cia_amount = x_to_decimal ctx (ts_taker_amount s),
      cia_payment_instructions = tm_payment_instructions s\<rparr>"

definition taker_payment_args :: "mm_ctx \<Rightarrow> taker_swap \<Rightarrow> watcher_reward option \<Rightarrow> send_payment_args" where
  "taker_payment_args ctx s reward =
     \<lparr>spa_time_lock_duration = td_lock_duration (tm_data s),
      spa_time_lock =
        (if x_env_use_test_locktime ctx then as_u32 (td_started_at (tm_data s))
         else as_u32 (td_taker_payment_lock (tm_data s))),
      spa_other_pubkey = tm_other_taker_coin_htlc_pub s, spa_secret_hash = tm_secret_hash s,
      spa_amount = x_to_decimal ctx (ts_taker_amount s),
      spa_swap_contract_address = td_taker_coin_swap_contract_address (tm_data s),
      spa_swap_unique_data = taker_unique_swap_data s,
      spa_payment_instructions = tm_payment_instructions s, spa_watcher_reward = reward,
      spa_wait_for_confirmation_until = td_taker_payment_lock (tm_data s)\<rparr>"

text \<open>
  The end of \<open>send_taker_payment\<close>: with watchers, the two preimages are created and the watcher
  message is sent. The error of \<open>u32::try_from\<close> leaves the function although the payment is sent.
\<close>

definition taker_after_payment ::
  "mm_ctx \<Rightarrow> moment \<Rightarrow> taker_swap \<Rightarrow> effect list \<Rightarrow> transaction \<Rightarrow> taker_stage option" where
  "taker_after_payment ctx t s effs tx =
     (let mc = ts_maker_coin s; tc = ts_taker_coin s; d = tm_data s; sent = TakerPaymentSent (tx_ident tx) in
      if \<not> taker_uses_watchers ctx s then taker_continues s effs WaitForTakerPaymentSpend [sent]
      else
      case tm_maker_payment s of
        None \<Rightarrow> taker_panics s effs
      | Some payment \<Rightarrow>
      case u32_try_from (if x_env_use_test_locktime ctx then td_started_at d else td_taker_payment_lock d) of
        None \<Rightarrow> Some (effs, s, Err ''out of range integral type conversion attempted'')
      | Some time_lock \<Rightarrow>
      case (c_create_maker_payment_spend_preimage mc t (ti_hex payment) (as_u32 (ts_maker_payment_lock s))
              (tm_other_maker_coin_htlc_pub s) (tm_secret_hash s) (taker_unique_swap_data s),
            c_create_taker_payment_refund_preimage tc t (tx_hex tx) time_lock
              (tm_other_taker_coin_htlc_pub s) (tm_secret_hash s)
              (td_taker_coin_swap_contract_address d) (taker_unique_swap_data s)) of
        (Inr spend, Inr refund) \<Rightarrow>
          (case taker_create_watcher_data s (tx_hash tx) (tx_hex spend) (tx_hex refund) of
             None \<Rightarrow> taker_panics s effs
           | Some watcher_data \<Rightarrow>
               taker_continues s
                 (effs @ [E_BroadcastWatcherMsg (td_taker_coin d) watcher_data
                            (c_derive_htlc_key_pair tc (taker_unique_swap_data s))])
                 WaitForTakerPaymentSpend
                 [sent, WatcherMessageSent (Some (tx_hex spend)) (Some (tx_hex refund))])
      | _ \<Rightarrow> taker_continues s effs WaitForTakerPaymentSpend [sent])"

definition taker_send_taker_payment :: "mm_ctx \<Rightarrow> moment \<Rightarrow> taker_swap \<Rightarrow> taker_stage option" where
  "taker_send_taker_payment ctx t s =
     (let mc = ts_maker_coin s; tc = ts_taker_coin s; d = tm_data s;
          timeout = td_maker_payment_wait d; now = x_now_sec ctx t in
      if timeout < now
      then taker_ends s [] [TakerPaymentTransactionFailed (''Timeout '' @ show_u64 now @ '' > '' @ show_u64 timeout)]
      else
      case (if tm_watcher_reward s
            then map_sum id Some
                   (c_get_taker_watcher_reward tc t (c_ticker mc) (Some (x_to_decimal ctx (ts_taker_amount s)))
                      (Some (x_to_decimal ctx (ts_maker_amount s))) (tm_reward_amount s)
                      (td_taker_payment_lock d))
            else Inr None) of
        Inl err \<Rightarrow> taker_ends s [] [TakerPaymentTransactionFailed (''Watcher reward error: '' @ err)]
      | Inr reward \<Rightarrow>
      case c_check_if_my_payment_sent tc t (taker_check_if_my_payment_sent_args ctx s) of
        Inl e \<Rightarrow> taker_ends s [] [TakerPaymentTransactionFailed e]
      | Inr (Some tx) \<Rightarrow> taker_after_payment ctx t s [] tx
      | Inr None \<Rightarrow>
      (let args = taker_payment_args ctx s reward in
      case c_send_taker_payment tc t args of
        Inl err \<Rightarrow>
          taker_ends s [E_SendTakerPayment args] [TakerPaymentTransactionFailed (get_plain_text_format err)]
      | Inr tx \<Rightarrow> taker_after_payment ctx t s [E_SendTakerPayment args] tx))"

text \<open>The watcher message that is repeated while the taker waits for the spend; \<open>None\<close> is a panic.\<close>

definition taker_watcher_broadcast :: "mm_ctx \<Rightarrow> taker_swap \<Rightarrow> transaction_identifier \<Rightarrow> effect list option" where
  "taker_watcher_broadcast ctx s payment =
     (if taker_uses_watchers ctx s
      then (case (tm_maker_payment_spend_preimage s, tm_taker_payment_refund_preimage s) of
              (Some spend, Some refund) \<Rightarrow>
                (case taker_create_watcher_data s (ti_hash payment) spend refund of
                   None \<Rightarrow> None
                 | Some watcher_data \<Rightarrow>
                     Some [E_BroadcastWatcherMsgEvery (td_taker_coin (tm_data s)) watcher_data
                             (c_derive_htlc_key_pair (ts_taker_coin s) (taker_unique_swap_data s))])
            | _ \<Rightarrow> Some [])
      else Some [])"

definition taker_wait_for_taker_payment_spend :: "mm_ctx \<Rightarrow> moment \<Rightarrow> taker_swap \<Rightarrow> taker_stage option" where
  "taker_wait_for_taker_payment_spend ctx t s =
     (let tc = ts_taker_coin s; d = tm_data s in
      case tm_taker_payment s of
        None \<Rightarrow> taker_panics s []
      | Some payment \<Rightarrow>
      case taker_watcher_broadcast ctx s payment of
        None \<Rightarrow> taker_panics s []
      | Some watcher_effs \<Rightarrow>
      (let sent = watcher_effs @ [E_BroadcastEvery (TakerPayment_msg (ti_hex payment))] in
      case c_wait_for_confirmations tc t
             \<lparr>cpi_payment_tx = ti_hex payment, cpi_confirmations = td_taker_payment_confirmations d,
              cpi_requires_nota = (td_taker_payment_requires_nota d = Some True),
              cpi_wait_until = td_taker_payment_lock d, cpi_check_every = WAIT_CONFIRM_INTERVAL_SEC\<rparr> of
        Inl err \<Rightarrow>
          taker_refunds s sent (TakerPaymentWaitConfirmFailed (''!taker_coin.wait_for_confirmations: '' @ err))
      | Inr u \<Rightarrow>
      case c_wait_for_htlc_tx_spend tc t
             \<lparr>wha_tx_bytes = ti_hex payment, wha_secret_hash = tm_secret_hash s,
              wha_wait_until = td_taker_payment_lock d, wha_from_block = td_taker_coin_start_block d,
              wha_swap_contract_address = td_taker_coin_swap_contract_address d,
              wha_check_every = TAKER_PAYMENT_SPEND_SEARCH_INTERVAL,
              wha_watcher_reward = tm_watcher_reward s\<rparr> of
        Inl err \<Rightarrow> taker_refunds s sent (TakerPaymentWaitForSpendFailed (get_plain_text_format err))
      | Inr tx \<Rightarrow>
      case c_extract_secret tc t (tm_secret_hash s) (tx_hex tx) (tm_watcher_reward s) of
        Inl e \<Rightarrow> taker_ends s sent [TakerPaymentWaitForSpendFailed e]
      | Inr secret_bytes \<Rightarrow>
      case hash_from_slice 32 secret_bytes of
        None \<Rightarrow> taker_panics s sent
      | Some secret \<Rightarrow>
          taker_continues s sent SpendMakerPayment
            [TakerPaymentSpent \<lparr>psd_transaction = tx_ident tx, psd_secret = secret\<rparr>]))"

definition taker_spend_args :: "taker_swap \<Rightarrow> bytes \<Rightarrow> bytes \<Rightarrow> spend_payment_args" where
  "taker_spend_args s payment_hex secret =
     \<lparr>sp_other_payment_tx = payment_hex, sp_time_lock = as_u32 (ts_maker_payment_lock s),
      sp_other_pubkey = tm_other_maker_coin_htlc_pub s, sp_secret = secret,
      sp_secret_hash = tm_secret_hash s,
      sp_swap_contract_address = td_maker_coin_swap_contract_address (tm_data s),
      sp_swap_unique_data = taker_unique_swap_data s, sp_watcher_reward = tm_watcher_reward s\<rparr>"

definition taker_spend_maker_payment :: "mm_ctx \<Rightarrow> moment \<Rightarrow> taker_swap \<Rightarrow> taker_stage option" where
  "taker_spend_maker_payment ctx t s =
     (let mc = ts_maker_coin s in
      case tm_maker_payment s of
        None \<Rightarrow> taker_panics s []
      | Some payment \<Rightarrow>
      (let args = taker_spend_args s (ti_hex payment) (tm_secret s) in
      case c_send_taker_spends_maker_payment mc t args of
        Inl err \<Rightarrow>
          taker_ends s (E_TakerSpendsMakerPayment args # broadcast_recoverable (c_ticker mc) err)
            [MakerPaymentSpendFailed (get_plain_text_format err)]
      | Inr tx \<Rightarrow>
          taker_ends s (E_TakerSpendsMakerPayment args # broadcast_p2p_tx_msg (c_ticker mc) tx)
            [MakerPaymentSpent (tx_ident tx)]))"

definition taker_prepare_for_taker_payment_refund :: "mm_ctx \<Rightarrow> moment \<Rightarrow> taker_swap \<Rightarrow> taker_stage option" where
  "taker_prepare_for_taker_payment_refund ctx t s =
     (case tm_maker_payment s of
        None \<Rightarrow> taker_panics s []
      | Some payment \<Rightarrow>
          taker_continues s [E_OnTakerPaymentRefundStart (ti_hex payment)] RefundTakerPayment
            [TakerPaymentRefundStarted])"

definition taker_refund_args :: "taker_swap \<Rightarrow> bytes \<Rightarrow> refund_payment_args" where
  "taker_refund_args s payment_hex =
     \<lparr>rpa_payment_tx = payment_hex, rpa_time_lock = as_u32 (td_taker_payment_lock (tm_data s)),
      rpa_other_pubkey = tm_other_taker_coin_htlc_pub s, rpa_secret_hash = tm_secret_hash s,
      rpa_swap_contract_address = td_taker_coin_swap_contract_address (tm_data s),
      rpa_swap_unique_data = taker_unique_swap_data s, rpa_watcher_reward = tm_watcher_reward s\<rparr>"

definition taker_refund_taker_payment :: "mm_ctx \<Rightarrow> moment \<Rightarrow> taker_swap \<Rightarrow> taker_stage option" where
  "taker_refund_taker_payment ctx t s =
     (let tc = ts_taker_coin s; locktime = td_taker_payment_lock (tm_data s) in
      case tm_taker_payment s of
        None \<Rightarrow> taker_panics s []
      | Some payment \<Rightarrow>
      if c_is_auto_refundable tc
      then (case c_wait_for_htlc_refund tc t (ti_hex payment) locktime of
              Inr u \<Rightarrow> taker_continues s [] FinalizeTakerPaymentRefund [TakerPaymentRefunded None]
            | Inl err \<Rightarrow>
                taker_ends s [] [TakerPaymentRefundFailed (''!taker_coin.wait_for_htlc_refund: '' @ err)])
      else
      case wait_can_refund tc t locktime 0 of
        None \<Rightarrow> None
      | Some u \<Rightarrow>
      (let args = taker_refund_args s (ti_hex payment) in
      case c_send_taker_refunds_payment tc t args of
        Inl err \<Rightarrow>
          taker_ends s (E_TakerRefundsPayment args # broadcast_recoverable (c_ticker tc) err)
            [TakerPaymentRefundFailed (debug_str (get_plain_text_format err))]
      | Inr tx \<Rightarrow>
          taker_continues s (E_TakerRefundsPayment args # broadcast_p2p_tx_msg (c_ticker tc) tx)
            FinalizeTakerPaymentRefund [TakerPaymentRefunded (Some (tx_ident tx))]))"

definition taker_finalize_taker_payment_refund :: "mm_ctx \<Rightarrow> moment \<Rightarrow> taker_swap \<Rightarrow> taker_stage option" where
  "taker_finalize_taker_payment_refund ctx t s =
     (case tm_maker_payment s of
        None \<Rightarrow> taker_panics s []
      | Some payment \<Rightarrow>
          taker_ends s [E_OnTakerPaymentRefundSuccess (ti_hex payment)] [TakerPaymentRefundFinished])"

fun taker_handle_command ::
  "mm_ctx \<Rightarrow> moment \<Rightarrow> taker_swap \<Rightarrow> taker_swap_command \<Rightarrow> taker_stage option" where
  "taker_handle_command ctx t s Start = taker_start ctx t s"
| "taker_handle_command ctx t s Negotiate = taker_negotiate ctx t s"
| "taker_handle_command ctx t s SendTakerFee = taker_send_taker_fee ctx t s"
| "taker_handle_command ctx t s WaitForMakerPayment = taker_wait_for_maker_payment ctx t s"
| "taker_handle_command ctx t s ValidateMakerPayment = taker_validate_maker_payment ctx t s"
| "taker_handle_command ctx t s SendTakerPayment = taker_send_taker_payment ctx t s"
| "taker_handle_command ctx t s WaitForTakerPaymentSpend = taker_wait_for_taker_payment_spend ctx t s"
| "taker_handle_command ctx t s SpendMakerPayment = taker_spend_maker_payment ctx t s"
| "taker_handle_command ctx t s PrepareForTakerPaymentRefund = taker_prepare_for_taker_payment_refund ctx t s"
| "taker_handle_command ctx t s RefundTakerPayment = taker_refund_taker_payment ctx t s"
| "taker_handle_command ctx t s FinalizeTakerPaymentRefund = taker_finalize_taker_payment_refund ctx t s"
| "taker_handle_command ctx t s Finish = Some ([], s, Ret (None, [Finished]))"

lemmas taker_result_defs = taker_ends_def taker_refunds_def taker_continues_def taker_panics_def

section \<open>Locked amounts\<close>

definition taker_locked_amount :: "mm_ctx \<Rightarrow> taker_swap \<Rightarrow> locked_amount list" where
  "taker_locked_amount ctx s =
     (if tm_taker_fee s = None
      then [\<lparr>la_coin = c_ticker (ts_taker_coin s),
             la_amount = dex_fee_amount_from_taker_coin ctx (ts_taker_coin s) (td_maker_coin (tm_data s))
                           (ts_taker_amount s),
             la_trade_fee = map_option trade_fee_of_saved (td_fee_to_send_taker_fee (tm_data s))\<rparr>]
      else [])
     @ (if tm_taker_payment s = None
        then [\<lparr>la_coin = c_ticker (ts_taker_coin s), la_amount = ts_taker_amount s,
               la_trade_fee = map_option trade_fee_of_saved (td_taker_payment_trade_fee (tm_data s))\<rparr>]
        else [])
     @ (if tm_maker_payment_spend s = None
        then [\<lparr>la_coin = c_ticker (ts_maker_coin s), la_amount = 0,
               la_trade_fee = map_option trade_fee_of_saved (td_maker_payment_spend_trade_fee (tm_data s))\<rparr>]
        else [])"

end
