(* ===== verification/TakerSaved.thy ===== *)
theory TakerSaved
  imports TakerSwap
begin

text \<open>
  What a taker swap leaves in the database and what can be done with it
  (\<open>mm2_main/src/lp_swap/taker_swap.rs\<close>): the classification of the events, the command that resumes
  a swap (\<open>get_command\<close>), the saved swap with its queries, \<open>load_from_saved\<close> and \<open>recover_funds\<close>.
\<close>

section \<open>Classification of events\<close>

fun taker_status_str :: "taker_swap_event \<Rightarrow> string" where
  "taker_status_str (Started d) = ''Started...''"
| "taker_status_str (StartFailed e) = ''Start failed...''"
| "taker_status_str (Negotiated d) = ''Negotiated...''"
| "taker_status_str (NegotiateFailed e) = ''Negotiate failed...''"
| "taker_status_str (TakerFeeSent tx) = ''Taker fee sent...''"
| "taker_status_str (TakerFeeSendFailed e) = ''Taker fee send failed...''"
| "taker_status_str (TakerPaymentInstructionsReceived i) = ''Taker payment instructions received...''"
| "taker_status_str (MakerPaymentReceived tx) = ''Maker payment received...''"
| "taker_status_str MakerPaymentWaitConfirmStarted = ''Maker payment wait confirm started...''"
| "taker_status_str MakerPaymentValidatedAndConfirmed = ''Maker payment validated and confirmed...''"
| "taker_status_str (MakerPaymentValidateFailed e) = ''Maker payment validate failed...''"
| "taker_status_str (MakerPaymentWaitConfirmFailed e) = ''Maker payment wait for confirmation failed...''"
| "taker_status_str (TakerPaymentSent tx) = ''Taker payment sent...''"
| "taker_status_str (WatcherMessageSent a b) = ''Watcher message sent...''"
| "taker_status_str (TakerPaymentTransactionFailed e) = ''Taker payment transaction failed...''"
| "taker_status_str (TakerPaymentDataSendFailed e) = ''Taker payment data send failed...''"
| "taker_status_str (TakerPaymentWaitConfirmFailed e) = ''Taker payment wait for confirmation failed...''"
| "taker_status_str (TakerPaymentSpent d) = ''Taker payment spent...''"
| "taker_status_str (TakerPaymentWaitForSpendFailed e) = ''Taker payment wait for spend failed...''"
| "taker_status_str (MakerPaymentSpent tx) = ''Maker payment spent...''"
| "taker_status_str (MakerPaymentSpendFailed e) = ''Maker payment spend failed...''"
| "taker_status_str (TakerPaymentWaitRefundStarted wait_until) = ''Taker payment wait refund till '' @ show_u64 wait_until @ '' started...''"
| "taker_status_str TakerPaymentRefundStarted = ''Taker payment refund started...''"
| "taker_status_str (TakerPaymentRefunded tx) = ''Taker payment refunded...''"
| "taker_status_str (TakerPaymentRefundFailed e) = ''Taker payment refund failed...''"
| "taker_status_str TakerPaymentRefundFinished = ''Taker payment refund finished...''"
| "taker_status_str Finished = ''Finished''"

text \<open>The name of an event, the tag of its serialized form.\<close>

fun taker_event_name :: "taker_swap_event \<Rightarrow> string" where
  "taker_event_name (Started d) = ''Started''"
| "taker_event_name (StartFailed e) = ''StartFailed''"
| "taker_event_name (Negotiated d) = ''Negotiated''"
| "taker_event_name (NegotiateFailed e) = ''NegotiateFailed''"
| "taker_event_name (TakerFeeSent tx) = ''TakerFeeSent''"
| "taker_event_name (TakerFeeSendFailed e) = ''TakerFeeSendFailed''"
| "taker_event_name (TakerPaymentInstructionsReceived i) = ''TakerPaymentInstructionsReceived''"
| "taker_event_name (MakerPaymentReceived tx) = ''MakerPaymentReceived''"
| "taker_event_name MakerPaymentWaitConfirmStarted = ''MakerPaymentWaitConfirmStarted''"
| "taker_event_name MakerPaymentValidatedAndConfirmed = ''MakerPaymentValidatedAndConfirmed''"
| "taker_event_name (MakerPaymentValidateFailed e) = ''MakerPaymentValidateFailed''"
| "taker_event_name (MakerPaymentWaitConfirmFailed e) = ''MakerPaymentWaitConfirmFailed''"
| "taker_event_name (TakerPaymentSent tx) = ''TakerPaymentSent''"
| "taker_event_name (WatcherMessageSent a b) = ''WatcherMessageSent''"
| "taker_event_name (TakerPaymentTransactionFailed e) = ''TakerPaymentTransactionFailed''"
| "taker_event_name (TakerPaymentDataSendFailed e) = ''TakerPaymentDataSendFailed''"
| "taker_event_name (TakerPaymentWaitConfirmFailed e) = ''TakerPaymentWaitConfirmFailed''"
| "taker_event_name (TakerPaymentSpent d) = ''TakerPaymentSpent''"
| "taker_event_name (TakerPaymentWaitForSpendFailed e) = ''TakerPaymentWaitForSpendFailed''"
| "taker_event_name (MakerPaymentSpent tx) = ''MakerPaymentSpent''"
| "taker_event_name (MakerPaymentSpendFailed e) = ''MakerPaymentSpendFailed''"
| "taker_event_name (TakerPaymentWaitRefundStarted wait_until) = ''TakerPaymentWaitRefundStarted''"
| "taker_event_name TakerPaymentRefundStarted = ''TakerPaymentRefundStarted''"
| "taker_event_name (TakerPaymentRefunded tx) = ''TakerPaymentRefunded''"
| "taker_event_name (TakerPaymentRefundFailed e) = ''TakerPaymentRefundFailed''"
| "taker_event_name TakerPaymentRefundFinished = ''TakerPaymentRefundFinished''"
| "taker_event_name Finished = ''Finished''"

definition TAKER_SUCCESS_EVENTS :: "string list" where
  "TAKER_SUCCESS_EVENTS =
     [''Started'', ''Negotiated'', ''TakerFeeSent'', ''TakerPaymentInstructionsReceived'',
      ''MakerPaymentReceived'', ''MakerPaymentWaitConfirmStarted'',
      ''MakerPaymentValidatedAndConfirmed'', ''TakerPaymentSent'', ''TakerPaymentSpent'',
      ''MakerPaymentSpent'', ''Finished'']"

definition TAKER_USING_WATCHERS_SUCCESS_EVENTS :: "string list" where
  "TAKER_USING_WATCHERS_SUCCESS_EVENTS =
     [''Started'', ''Negotiated'', ''TakerFeeSent'', ''TakerPaymentInstructionsReceived'',
      ''MakerPaymentReceived'', ''MakerPaymentWaitConfirmStarted'',
      ''MakerPaymentValidatedAndConfirmed'', ''TakerPaymentSent'', ''WatcherMessageSent'',
      ''TakerPaymentSpent'', ''MakerPaymentSpent'', ''Finished'']"

definition TAKER_ERROR_EVENTS :: "string list" where
  "TAKER_ERROR_EVENTS =
     [''StartFailed'', ''NegotiateFailed'', ''TakerFeeSendFailed'', ''MakerPaymentValidateFailed'',
      ''MakerPaymentWaitConfirmFailed'', ''TakerPaymentTransactionFailed'',
      ''TakerPaymentWaitConfirmFailed'', ''TakerPaymentDataSendFailed'',
      ''TakerPaymentWaitForSpendFailed'', ''MakerPaymentSpendFailed'',
      ''TakerPaymentWaitRefundStarted'', ''TakerPaymentRefundStarted'', ''TakerPaymentRefunded'',
      ''TakerPaymentRefundFailed'', ''TakerPaymentRefundFinished'']"

fun should_ban_maker :: "taker_swap_event \<Rightarrow> bool" where
  "should_ban_maker (MakerPaymentValidateFailed e) = True"
| "should_ban_maker (TakerPaymentWaitForSpendFailed e) = True"
| "should_ban_maker _ = False"

fun taker_event_is_success :: "taker_swap_event \<Rightarrow> bool" where
  "taker_event_is_success (Started d) = True"
| "taker_event_is_success (Negotiated d) = True"
| "taker_event_is_success (TakerFeeSent tx) = True"
| "taker_event_is_success (TakerPaymentInstructionsReceived i) = True"
| "taker_event_is_success (MakerPaymentReceived tx) = True"
| "taker_event_is_success MakerPaymentWaitConfirmStarted = True"
| "taker_event_is_success (WatcherMessageSent a b) = True"
| "taker_event_is_success MakerPaymentValidatedAndConfirmed = True"
| "taker_event_is_success (TakerPaymentSent tx) = True"
| "taker_event_is_success (TakerPaymentSpent d) = True"
| "taker_event_is_success (MakerPaymentSpent tx) = True"
| "taker_event_is_success Finished = True"
| "taker_event_is_success _ = False"

definition taker_event_is_error :: "taker_swap_event \<Rightarrow> bool" where
  "taker_event_is_error ev = (\<not> taker_event_is_success ev)"

fun taker_get_command :: "taker_swap_event \<Rightarrow> taker_swap_command option" where
  "taker_get_command (Started d) = Some Negotiate"
| "taker_get_command (StartFailed e) = Some Finish"
| "taker_get_command (Negotiated d) = Some SendTakerFee"
| "taker_get_command (NegotiateFailed e) = Some Finish"
| "taker_get_command (TakerFeeSent tx) = Some WaitForMakerPayment"
| "taker_get_command (TakerFeeSendFailed e) = Some Finish"
| "taker_get_command (TakerPaymentInstructionsReceived i) = Some ValidateMakerPayment"
| "taker_get_command (MakerPaymentReceived tx) = Some ValidateMakerPayment"
| "taker_get_command MakerPaymentWaitConfirmStarted = Some ValidateMakerPayment"
| "taker_get_command MakerPaymentValidatedAndConfirmed = Some SendTakerPayment"
| "taker_get_command (MakerPaymentValidateFailed e) = Some Finish"
| "taker_get_command (MakerPaymentWaitConfirmFailed e) = Some Finish"
| "taker_get_command (TakerPaymentSent tx) = Some WaitForTakerPaymentSpend"
| "taker_get_command (WatcherMessageSent a b) = Some WaitForTakerPaymentSpend"
| "taker_get_command (TakerPaymentTransactionFailed e) = Some Finish"
| "taker_get_command (TakerPaymentDataSendFailed e) = Some PrepareForTakerPaymentRefund"
| "taker_get_command (TakerPaymentWaitConfirmFailed e) = Some PrepareForTakerPaymentRefund"
| "taker_get_command (TakerPaymentSpent d) = Some SpendMakerPayment"
| "taker_get_command (TakerPaymentWaitForSpendFailed e) = Some PrepareForTakerPaymentRefund"
| "taker_get_command (MakerPaymentSpent tx) = Some Finish"
| "taker_get_command (MakerPaymentSpendFailed e) = Some PrepareForTakerPaymentRefund"
| "taker_get_command (TakerPaymentWaitRefundStarted wait_until) = Some PrepareForTakerPaymentRefund"
| "taker_get_command TakerPaymentRefundStarted = Some RefundTakerPayment"
| "taker_get_command (TakerPaymentRefunded tx) = Some FinalizeTakerPaymentRefund"
| "taker_get_command (TakerPaymentRefundFailed e) = Some Finish"
| "taker_get_command TakerPaymentRefundFinished = Some Finish"
| "taker_get_command Finished = None"

section \<open>Saved swaps\<close>

record taker_saved_event =
  tse_timestamp :: u64
  tse_event :: taker_swap_event

record taker_saved_swap =
  tss_uuid :: uuid
  tss_my_order_uuid :: "uuid option"
  tss_events :: "taker_saved_event list"
  tss_maker_amount :: "rat option"
  tss_maker_coin :: "string option"
  tss_maker_coin_usd_price :: "rat option"
  tss_taker_amount :: "rat option"
  tss_taker_coin :: "string option"
  tss_taker_coin_usd_price :: "rat option"
  tss_gui :: "string option"
  tss_mm_version :: "string option"
  tss_success_events :: "string list"
  tss_error_events :: "string list"

abbreviation tss_log :: "taker_saved_swap \<Rightarrow> taker_swap_event list" where
  "tss_log saved \<equiv> map tse_event (tss_events saved)"

definition taker_saved_swap_data :: "taker_saved_swap \<Rightarrow> string + taker_swap_data" where
  "taker_saved_swap_data saved =
     (case tss_events saved of
        [] \<Rightarrow> Inl ''Can't get swap_data, events are empty''
      | ev # evs \<Rightarrow>
          (case tse_event ev of
             Started data \<Rightarrow> Inr data
           | _ \<Rightarrow> Inl ''First swap event must be Started''))"

definition taker_saved_maker_coin :: "taker_saved_swap \<Rightarrow> string + string" where
  "taker_saved_maker_coin saved =
     (case tss_events saved of
        [] \<Rightarrow> Inl ''Can't get maker coin, events are empty''
      | ev # evs \<Rightarrow>
          (case tse_event ev of
             Started data \<Rightarrow> Inr (td_maker_coin data)
           | _ \<Rightarrow> Inl ''First swap event must be Started''))"

definition taker_saved_taker_coin :: "taker_saved_swap \<Rightarrow> string + string" where
  "taker_saved_taker_coin saved =
     (case tss_events saved of
        [] \<Rightarrow> Inl ''Can't get maker coin, events are empty''
      | ev # evs \<Rightarrow>
          (case tse_event ev of
             Started data \<Rightarrow> Inr (td_taker_coin data)
           | _ \<Rightarrow> Inl ''First swap event must be Started''))"

definition taker_saved_is_finished :: "taker_saved_swap \<Rightarrow> bool" where
  "taker_saved_is_finished saved =
     (if tss_events saved = [] then False else tse_event (last (tss_events saved)) = Finished)"

definition taker_saved_get_my_info :: "taker_saved_swap \<Rightarrow> my_swap_info option" where
  "taker_saved_get_my_info saved =
     (case tss_events saved of
        [] \<Rightarrow> None
      | ev # evs \<Rightarrow>
          (case tse_event ev of
             Started data \<Rightarrow>
               Some \<lparr>mi_my_coin = td_taker_coin data, mi_other_coin = td_maker_coin data,
                     mi_my_amount = td_taker_amount data, mi_other_amount = td_maker_amount data,
                     mi_started_at = td_started_at data\<rparr>
           | _ \<Rightarrow> None))"

fun taker_event_precludes_recovery :: "taker_swap_event \<Rightarrow> bool" where
  "taker_event_precludes_recovery (StartFailed e) = True"
| "taker_event_precludes_recovery (NegotiateFailed e) = True"
| "taker_event_precludes_recovery (TakerFeeSendFailed e) = True"
| "taker_event_precludes_recovery (MakerPaymentValidateFailed e) = True"
| "taker_event_precludes_recovery (TakerPaymentRefunded tx) = True"
| "taker_event_precludes_recovery (MakerPaymentSpent tx) = True"
| "taker_event_precludes_recovery (MakerPaymentWaitConfirmFailed e) = True"
| "taker_event_precludes_recovery _ = False"

definition taker_saved_is_recoverable :: "taker_saved_swap \<Rightarrow> bool" where
  "taker_saved_is_recoverable saved =
     (if \<not> taker_saved_is_finished saved then False
      else list_all (\<lambda>ev. \<not> taker_event_precludes_recovery (tse_event ev)) (tss_events saved))"

definition taker_saved_finished_at :: "taker_saved_swap \<Rightarrow> string + u64" where
  "taker_saved_finished_at saved =
     (if tss_events saved = [] then Inl ''Can't get finished_at, events are empty''
      else if tse_event (last (tss_events saved)) = Finished
      then Inr (tse_timestamp (last (tss_events saved)) div 1000)
      else Inl ''Last swap event must be Finished'')"

definition taker_saved_is_success :: "taker_saved_swap \<Rightarrow> string + bool" where
  "taker_saved_is_success saved =
     (if \<not> taker_saved_is_finished saved
      then Inl ''Can not determine is_success state for not finished swap''
      else Inr (list_all (\<lambda>ev. \<not> taker_event_is_error (tse_event ev)) (tss_events saved)))"

definition taker_saved_swap_pubkeys :: "taker_saved_swap \<Rightarrow> string + swap_pubkeys" where
  "taker_saved_swap_pubkeys saved =
     (case tss_events saved of
        [] \<Rightarrow> Inl ''Can't get taker's pubkey while events are empty''
      | ev # evs \<Rightarrow>
          (case tse_event ev of
             Started started \<Rightarrow>
               (case evs of
                  [] \<Rightarrow> Inl ''Can't get maker's pubkey while there's no Negotiated event''
                | ev1 # evs1 \<Rightarrow>
                    (case tse_event ev1 of
                       Negotiated neg \<Rightarrow>
                         (case mn_maker_coin_htlc_pubkey neg of
                            None \<Rightarrow> Inl ''maker's pubkey is empty''
                          | Some key \<Rightarrow>
                              Inr \<lparr>pk_maker = show_hex key,
                                   pk_taker = show_hex (td_my_persistent_pub started)\<rparr>)
                     | _ \<Rightarrow> Inl ''Swap must be negotiated to get maker's pubkey''))
           | _ \<Rightarrow> Inl ''First swap event must be Started''))"

definition taker_saved_fetch_and_set_usd_prices ::
  "mm_ctx \<Rightarrow> moment \<Rightarrow> taker_saved_swap \<Rightarrow> taker_saved_swap" where
  "taker_saved_fetch_and_set_usd_prices ctx t saved =
     (case x_swap_coins_price ctx t (tss_maker_coin saved) (tss_taker_coin saved) of
        Some (base, rel) \<Rightarrow>
          saved\<lparr>tss_maker_coin_usd_price := Some base, tss_taker_coin_usd_price := Some rel\<rparr>
      | None \<Rightarrow> saved)"

section \<open>Loading a swap\<close>

definition taker_refresh_data :: "coin \<Rightarrow> coin \<Rightarrow> taker_swap_data \<Rightarrow> taker_swap_data" where
  "taker_refresh_data maker_coin taker_coin data =
     (let data1 = (if td_maker_coin_swap_contract_address data = None
                   then data\<lparr>td_maker_coin_swap_contract_address := c_swap_contract_address maker_coin\<rparr>
                   else data)
      in if td_taker_coin_swap_contract_address data1 = None
         then data1\<lparr>td_taker_coin_swap_contract_address := c_swap_contract_address taker_coin\<rparr>
         else data1)"

definition taker_load_conf_settings ::
  "coin \<Rightarrow> coin \<Rightarrow> taker_swap_data \<Rightarrow> swap_confirmations_settings" where
  "taker_load_conf_settings maker_coin taker_coin data =
     \<lparr>sc_maker_coin_confs = td_maker_payment_confirmations data,
      sc_maker_coin_nota =
        (case td_maker_payment_requires_nota data of
           Some b \<Rightarrow> b | None \<Rightarrow> c_requires_notarization maker_coin),
      sc_taker_coin_confs = td_taker_payment_confirmations data,
      sc_taker_coin_nota =
        (case td_taker_payment_requires_nota data of
           Some b \<Rightarrow> b | None \<Rightarrow> c_requires_notarization taker_coin)\<rparr>"

text \<open>\<open>now\<close> is the clock while the events are applied; \<open>hash_from_slice 33\<close> is the conversion of the key.\<close>

definition taker_load_from_saved ::
  "mm_ctx \<Rightarrow> u64 \<Rightarrow> coin \<Rightarrow> coin \<Rightarrow> taker_saved_swap \<Rightarrow>
   (taker_swap \<times> taker_swap_command option) outcome" where
  "taker_load_from_saved ctx now maker_coin taker_coin saved =
     (case tss_log saved of
        [] \<Rightarrow> Err ''Can't restore swap from empty events set''
      | Started data0 # evs \<Rightarrow>
          (let data = taker_refresh_data maker_coin taker_coin data0 in
           case x_internal_pubkey ctx of
             Inl e \<Rightarrow> Err e
           | Inr pub \<Rightarrow>
               (case hash_from_slice 33 pub of
                  None \<Rightarrow> Panic
                | Some my_persistent_pub \<Rightarrow>
                    (let swap = taker_swap_new (td_maker data) (td_maker_amount data) (td_taker_amount data)
                           my_persistent_pub (tss_uuid saved) (Some (tss_uuid saved))
                           (taker_load_conf_settings maker_coin taker_coin data)
                           maker_coin taker_coin (td_lock_duration data) (td_p2p_privkey data);
                         events = Started data # evs
                     in Ret (fold (taker_apply_event now) events swap, taker_get_command (last events)))))
      | _ \<Rightarrow> Err ''First swap event must be Started'')"

section \<open>Recovery of funds\<close>

definition taker_search_other_input :: "taker_swap \<Rightarrow> bytes \<Rightarrow> search_for_swap_tx_spend_input" where
  "taker_search_other_input s maker_payment =
     \<lparr>sfi_time_lock = as_u32 (ts_maker_payment_lock s), sfi_other_pub = tm_other_maker_coin_htlc_pub s,
      sfi_secret_hash = tm_secret_hash s, sfi_tx = maker_payment,
      sfi_search_from_block = td_maker_coin_start_block (tm_data s),
      sfi_swap_contract_address = td_maker_coin_swap_contract_address (tm_data s),
      sfi_swap_unique_data = taker_unique_swap_data s, sfi_watcher_reward = tm_watcher_reward s\<rparr>"

text \<open>The macro \<open>check_maker_payment_is_not_spent\<close>: \<open>Some e\<close> is an early return with the error \<open>e\<close>.\<close>

definition taker_maker_payment_spent_error :: "moment \<Rightarrow> taker_swap \<Rightarrow> bytes \<Rightarrow> string option" where
  "taker_maker_payment_spent_error t s maker_payment =
     (let mc = ts_maker_coin s in
      case c_search_for_swap_tx_spend_other mc t (taker_search_other_input s maker_payment) of
        Inr (Some (Spent tx)) \<Rightarrow>
          Some (''Maker payment was already spent by '' @ c_ticker mc @ '' tx '' @ show_hex (tx_hash tx))
      | Inr (Some (Refunded tx)) \<Rightarrow>
          Some (''Maker payment was already refunded by '' @ c_ticker mc @ '' tx '' @ show_hex (tx_hash tx))
      | Inl e \<Rightarrow> Some (''Error '' @ e @ '' when trying to find maker payment spend'')
      | Inr None \<Rightarrow> None)"

definition taker_recover_spend ::
  "moment \<Rightarrow> taker_swap \<Rightarrow> bytes \<Rightarrow> bytes \<Rightarrow> effect list \<times> (string + recovered_swap)" where
  "taker_recover_spend t s maker_payment secret =
     (let mc = ts_maker_coin s; args = taker_spend_args s maker_payment secret in
      case c_send_taker_spends_maker_payment mc t args of
        Inl err \<Rightarrow>
          (E_TakerSpendsMakerPayment args # broadcast_recoverable (c_ticker mc) err,
           Inl (get_plain_text_format err))
      | Inr transaction \<Rightarrow>
          ([E_TakerSpendsMakerPayment args],
           Inr \<lparr>rec_action = SpentOtherPayment, rec_coin = c_ticker mc, rec_transaction = transaction\<rparr>))"

definition taker_search_my_input :: "taker_swap \<Rightarrow> bytes \<Rightarrow> search_for_swap_tx_spend_input" where
  "taker_search_my_input s taker_payment =
     \<lparr>sfi_time_lock = as_u32 (td_taker_payment_lock (tm_data s)),
      sfi_other_pub = tm_other_taker_coin_htlc_pub s,
      sfi_secret_hash = tm_secret_hash s, sfi_tx = taker_payment,
      sfi_search_from_block = td_taker_coin_start_block (tm_data s),
      sfi_swap_contract_address = td_taker_coin_swap_contract_address (tm_data s),
      sfi_swap_unique_data = taker_unique_swap_data s, sfi_watcher_reward = tm_watcher_reward s\<rparr>"

definition taker_recover_refund ::
  "mm_ctx \<Rightarrow> moment \<Rightarrow> taker_swap \<Rightarrow> bytes \<Rightarrow> effect list \<times> (string + recovered_swap)" where
  "taker_recover_refund ctx t s taker_payment =
     (let tc = ts_taker_coin s in
      if c_is_auto_refundable tc then ([], Inl ''Taker payment will be refunded automatically!'')
      else
      case c_can_refund_htlc tc t 0 (td_taker_payment_lock (tm_data s)) of
        Inl e \<Rightarrow> ([], Inl e)
      | Inr (HaveToWait seconds_to_wait) \<Rightarrow>
          ([], Inl (''Too early to refund, wait until '' @ show_u64 (x_now_sec ctx t + seconds_to_wait)))
      | Inr CanRefundNow \<Rightarrow>
      (let args = taker_refund_args s taker_payment in
      case c_send_taker_refunds_payment tc t args of
        Inl err \<Rightarrow>
          (E_TakerRefundsPayment args # broadcast_recoverable (c_ticker tc) err,
           Inl (debug_str (get_plain_text_format err)))
      | Inr transaction \<Rightarrow>
          ([E_TakerRefundsPayment args],
           Inr \<lparr>rec_action = RefundedMyPayment, rec_coin = c_ticker tc,
                rec_transaction = transaction\<rparr>)))"

definition taker_recover_funds ::
  "mm_ctx \<Rightarrow> moment \<Rightarrow> taker_swap \<Rightarrow> effect list \<times> (string + recovered_swap)" where
  "taker_recover_funds ctx t s =
     (let tc = ts_taker_coin s in
      if ts_finished_at s = 0
      then ([], Inl ''Swap must be finished before recover funds attempt'')
      else if tm_taker_payment_refund s \<noteq> None
      then ([], Inl ''Taker payment is refunded, swap is not recoverable'')
      else if tm_maker_payment_spend s \<noteq> None
      then ([], Inl ''Maker payment is spent, swap is not recoverable'')
      else
      case tm_maker_payment s of
        None \<Rightarrow> ([], Inl ''No info about maker payment, swap is not recoverable'')
      | Some maker_payment_ident \<Rightarrow>
      (let maker_payment = ti_hex maker_payment_ident in
      case (case tm_taker_payment s of
              Some tx \<Rightarrow> Inr (ti_hex tx)
            | None \<Rightarrow>
                (case c_check_if_my_payment_sent tc t (taker_check_if_my_payment_sent_args ctx s) of
                   Inl e \<Rightarrow> Inl e
                 | Inr (Some tx) \<Rightarrow> Inr (tx_hex tx)
                 | Inr None \<Rightarrow> Inl ''Taker payment is not found, swap is not recoverable'')) of
        Inl e \<Rightarrow> ([], Inl e)
      | Inr taker_payment \<Rightarrow>
      if tm_taker_payment_spend s \<noteq> None
      then (case taker_maker_payment_spent_error t s maker_payment of
              Some e \<Rightarrow> ([], Inl e)
            | None \<Rightarrow> taker_recover_spend t s maker_payment (tm_secret s))
      else
      case c_search_for_swap_tx_spend_my tc t (taker_search_my_input s taker_payment) of
        Inl e \<Rightarrow> ([], Inl e)
      | Inr (Some (Spent tx)) \<Rightarrow>
          (case taker_maker_payment_spent_error t s maker_payment of
             Some e \<Rightarrow> ([], Inl e)
           | None \<Rightarrow>
               (case c_extract_secret tc t (tm_secret_hash s) (tx_hex tx) (tm_watcher_reward s) of
                  Inl e \<Rightarrow> ([], Inl e)
                | Inr secret \<Rightarrow> taker_recover_spend t s maker_payment secret))
      | Inr (Some (Refunded tx)) \<Rightarrow>
          ([], Inl (''Taker payment has been refunded already by transaction '' @ show_hex (tx_hash tx)))
      | Inr None \<Rightarrow> taker_recover_refund ctx t s taker_payment))"

end
