(* ===== verification/SwapMachine.thy ===== *)
theory SwapMachine
  imports SwapEnv
begin

text \<open>
  The loop that drives a swap to its end, the body of \<open>run_maker_swap\<close> and \<open>run_taker_swap\<close>: a command
  is handled, and each of its events is saved to the database, may ban the other side and is applied
  to the swap, before the next command is taken. The two functions differ in the operations they
  call only, which are the fields of the record \<open>swap_ops\<close>.

  \<open>life\<close> is the step relation of a swap over the whole life of a node: the loop may be interrupted at
  any point, also between the events of one stage, and the swap is then loaded from the database.
  The locale \<open>swap_machine\<close> states what the operations of a side promise. Its lemmas hold for both
  sides: the loop ends, the state of the running swap is the replay of the saved events, a restart
  resumes with the command the running swap would execute, and no stage panics.
\<close>

section \<open>The loop\<close>

type_synonym ('s, 'c, 'e) stage_result = "(effect list \<times> 's \<times> ('c option \<times> 'e list) outcome) option"

record ('s, 'c, 'e, 'db) swap_ops =
  op_handle :: "moment \<Rightarrow> 's \<Rightarrow> 'c \<Rightarrow> ('s, 'c, 'e) stage_result"
  op_notify :: "'s \<Rightarrow> 'e \<Rightarrow> effect list"
  op_save :: "moment \<Rightarrow> nat \<Rightarrow> 's \<Rightarrow> 'e \<Rightarrow> 'db \<Rightarrow> string + 'db"
  op_should_ban :: "'e \<Rightarrow> bool"
  op_other_pubkey :: "'s \<Rightarrow> bytes"
  op_uuid :: "'s \<Rightarrow> uuid"
  op_apply :: "u64 \<Rightarrow> 'e \<Rightarrow> 's \<Rightarrow> 's"
  op_clock :: "moment \<Rightarrow> nat \<Rightarrow> u64"

record ('s, 'e, 'db) run_state =
  rs_swap :: 's
  rs_db :: 'db
  rs_banned :: "bytes \<rightharpoonup> uuid \<times> 'e"
  rs_effects :: "effect list"

text \<open>The events of a stage; \<open>Inl\<close> is the panic of a failed save, with the state it leaves.\<close>

fun process_events ::
  "('s, 'c, 'e, 'db) swap_ops \<Rightarrow> moment \<Rightarrow> nat \<Rightarrow> 'e list \<Rightarrow> ('s, 'e, 'db) run_state \<Rightarrow>
   (string \<times> ('s, 'e, 'db) run_state) + ('s, 'e, 'db) run_state" where
  "process_events ops t i [] rs = Inr rs"
| "process_events ops t i (ev # evs) rs =
     (let rs1 = rs\<lparr>rs_effects := rs_effects rs @ op_notify ops (rs_swap rs) ev\<rparr> in
      case op_save ops t i (rs_swap rs) ev (rs_db rs) of
        Inl e \<Rightarrow> Inl (e, rs1)
      | Inr db \<Rightarrow>
          process_events ops t (Suc i) evs
            (rs1\<lparr>rs_db := db,
                 rs_banned :=
                   (if op_should_ban ops ev
                    then (rs_banned rs)(op_other_pubkey ops (rs_swap rs) \<mapsto> (op_uuid ops (rs_swap rs), ev))
                    else rs_banned rs),
                 rs_swap := op_apply ops (op_clock ops t i) ev (rs_swap rs)\<rparr>))"

text \<open>
  One turn of the loop: the next command, the regular end, the panic that takes the task down, or a
  stage that never returns.
\<close>

datatype ('c, 'rs) run_outcome = Continue 'c 'rs | Completed 'rs | Crashed 'rs | Hangs

definition run_step ::
  "('s, 'c, 'e, 'db) swap_ops \<Rightarrow> moment \<Rightarrow> 'c \<Rightarrow> ('s, 'e, 'db) run_state \<Rightarrow>
   ('c, ('s, 'e, 'db) run_state) run_outcome" where
  "run_step ops t c rs =
     (case op_handle ops t (rs_swap rs) c of
        None \<Rightarrow> Hangs
      | Some (effs, s, out) \<Rightarrow>
          (let rs1 = rs\<lparr>rs_swap := s, rs_effects := rs_effects rs @ effs\<rparr> in
           case out of
             Ret (next, evs) \<Rightarrow>
               (case process_events ops t 0 evs rs1 of
                  Inl (e, rs2) \<Rightarrow> Crashed rs2
                | Inr rs2 \<Rightarrow> (case next of Some c' \<Rightarrow> Continue c' rs2 | None \<Rightarrow> Completed rs2))
           | _ \<Rightarrow> Crashed rs1))"

text \<open>The loop with fuel: \<open>Continue\<close> is the result when the fuel runs out.\<close>

fun run_loop ::
  "('s, 'c, 'e, 'db) swap_ops \<Rightarrow> nat \<Rightarrow> moment \<Rightarrow> 'c \<Rightarrow> ('s, 'e, 'db) run_state \<Rightarrow>
   ('c, ('s, 'e, 'db) run_state) run_outcome" where
  "run_loop ops 0 t c rs = Continue c rs"
| "run_loop ops (Suc fuel) t c rs =
     (case run_step ops t c rs of
        Continue c' rs' \<Rightarrow> run_loop ops fuel (Suc t) c' rs'
      | r \<Rightarrow> r)"

section \<open>The life of a swap\<close>

text \<open>
  \<open>allowed\<close> says in which states of the database the node may be restarted, \<open>load\<close> reads a swap and
  its command from the database. A stage can be interrupted while it runs (\<open>life_reload\<close>), when a
  part of its effects has happened and none of its events is saved, and after any number of its
  events (\<open>life_restart\<close>).
\<close>

inductive life ::
  "('s, 'c, 'e, 'db) swap_ops \<Rightarrow> (moment \<Rightarrow> 'db \<Rightarrow> ('s \<times> 'c) option) \<Rightarrow> ('db \<Rightarrow> bool) \<Rightarrow> 'c \<Rightarrow>
   ('s, 'e, 'db) run_state \<Rightarrow> moment \<Rightarrow> 'c \<Rightarrow> ('s, 'e, 'db) run_state \<Rightarrow> bool"
  for ops load allowed start rs0 where
  life_start: "life ops load allowed start rs0 0 start rs0"
| life_step:
    "life ops load allowed start rs0 t c rs \<Longrightarrow> run_step ops t c rs = Continue c' rs' \<Longrightarrow>
     life ops load allowed start rs0 (Suc t) c' rs'"
| life_reload:
    "life ops load allowed start rs0 t c rs \<Longrightarrow>
     (case op_handle ops t (rs_swap rs) c of None \<Rightarrow> [] | Some (effs, s, out) \<Rightarrow> effs) = done @ rest \<Longrightarrow>
     allowed (rs_db rs) \<Longrightarrow> load t (rs_db rs) = Some (s', c') \<Longrightarrow>
     life ops load allowed start rs0 (Suc t) c'
       (rs\<lparr>rs_swap := s', rs_effects := rs_effects rs @ done\<rparr>)"
| life_restart:
    "life ops load allowed start rs0 t c rs \<Longrightarrow>
     op_handle ops t (rs_swap rs) c = Some (effs, s, Ret (next, evs)) \<Longrightarrow>
     process_events ops t 0 (take k evs) (rs\<lparr>rs_swap := s, rs_effects := rs_effects rs @ effs\<rparr>) = Inr rs1 \<Longrightarrow>
     allowed (rs_db rs1) \<Longrightarrow> load t (rs_db rs1) = Some (s', c') \<Longrightarrow>
     life ops load allowed start rs0 (Suc t) c' (rs1\<lparr>rs_swap := s'\<rparr>)"

inductive_cases life_zeroE: "life ops load allowed start rs0 0 c rs"

section \<open>What the operations of a side promise\<close>

text \<open>
  The parameters beside the operations: \<open>rank\<close> bounds the number of turns that are left, \<open>log\<close> gives
  the saved events of a swap, \<open>fits\<close> says that the database holds the swap under its own key, \<open>obs\<close> is the part of the state that the events determine, \<open>genuine\<close>
  relates the swap a node created with the first event saved for it, \<open>ok\<close> is what a stage relies on.
  \<open>event_replay\<close> holds the law of \<open>obs\<close> alone: it does not depend on the clock at which events are
  applied. \<open>diverts\<close> marks the last events after which the running swap goes on with another command than a
  restarted one, \<open>fragile\<close> those after which a restart loses what the next stage relies on.
\<close>

locale event_replay =
  fixes apply_ev :: "u64 \<Rightarrow> 'e \<Rightarrow> 's \<Rightarrow> 's"
    and obs :: "'s \<Rightarrow> 's"
  assumes apply_obs: "obs s = obs s' \<Longrightarrow> obs (apply_ev now e s) = obs (apply_ev now' e s')"
begin

lemma fold_apply_obs:
  "obs s = obs s' \<Longrightarrow> obs (fold (apply_ev now) evs s) = obs (fold (apply_ev now') evs s')"
proof (induction evs arbitrary: s s')
  case (Cons e evs)
  from Cons.IH [OF apply_obs [OF Cons.prems]] show ?case by simp
qed simp

end

locale swap_machine = event_replay "op_apply ops" obs
  for ops :: "('s, 'c, 'e, 'db) swap_ops" and obs :: "'s \<Rightarrow> 's" +
  fixes load :: "moment \<Rightarrow> 'k \<Rightarrow> 'db \<Rightarrow> ('s \<times> 'c) option"
    and start :: 'c
    and rank :: "'c \<Rightarrow> nat"
    and get_command :: "'e \<Rightarrow> 'c option"
    and key :: "'s \<Rightarrow> 'k"
    and log :: "'k \<Rightarrow> 'db \<Rightarrow> 'e list"
    and fits :: "'k \<Rightarrow> 'db \<Rightarrow> bool"
    and origin :: "'s \<Rightarrow> bool"
    and genuine :: "'s \<Rightarrow> 'e \<Rightarrow> bool"
    and ok :: "'c \<Rightarrow> 's \<Rightarrow> bool"
    and diverts :: "'e \<Rightarrow> bool"
    and fragile :: "'e \<Rightarrow> bool"
  assumes rank_decreases:
      "op_handle ops t s c = Some (effs, s', Ret (Some c', evs)) \<Longrightarrow> rank c' < rank c"
    and events_nonempty: "op_handle ops t s c = Some (effs, s', Ret (nc, evs)) \<Longrightarrow> evs \<noteq> []"
    and resumes:
      "op_handle ops t s c = Some (effs, s', Ret (nc, evs)) \<Longrightarrow> \<not> diverts (last evs) \<Longrightarrow>
       get_command (last evs) = nc"
    and handle_obs: "op_handle ops t s c = Some (effs, s', Ret (nc, evs)) \<Longrightarrow> obs s' = obs s"
    and key_obs: "obs s = obs s' \<Longrightarrow> key s = key s'"
    and key_apply: "key (op_apply ops now e s) = key s"
    and save_appends:
      "fits (key s) db \<Longrightarrow> op_save ops t i s e db = Inr db' \<Longrightarrow>
       log (key s) db' = log (key s) db @ [e] \<and> fits (key s) db'"
    and genuine_start:
      "origin s0 \<Longrightarrow> obs s = obs s0 \<Longrightarrow> op_handle ops t s start = Some (effs, s', Ret (nc, evs)) \<Longrightarrow>
       genuine s0 (hd evs)"
    and load_replays:
      "origin s0 \<Longrightarrow> fits (key s0) db \<Longrightarrow> genuine s0 (hd (log (key s0) db)) \<Longrightarrow>
       load t (key s0) db = Some (s, c) \<Longrightarrow>
       log (key s0) db \<noteq> [] \<and> get_command (last (log (key s0) db)) = Some c \<and>
       obs s = obs (fold (op_apply ops 0) (log (key s0) db) s0)"
    and load_empty: "log k db = [] \<Longrightarrow> load t k db = None"
    and ok_obs: "obs s = obs s' \<Longrightarrow> ok c s \<longleftrightarrow> ok c s'"
    and ok_start: "origin s0 \<Longrightarrow> ok start s0"
    and ok_next:
      "ok c s \<Longrightarrow> op_handle ops t s c = Some (effs, s', Ret (Some c', evs)) \<Longrightarrow>
       ok c' (fold (op_apply ops 0) evs s')"
    and ok_prefix:
      "ok c s \<Longrightarrow> op_handle ops t s c = Some (effs, s', Ret (nc, evs)) \<Longrightarrow> evs = pre @ e # post \<Longrightarrow>
       get_command e = Some c' \<Longrightarrow> \<not> fragile e \<Longrightarrow> ok c' (fold (op_apply ops 0) (pre @ [e]) s')"
    and ok_safe: "ok c s \<Longrightarrow> op_handle ops t s c = Some (effs, s', out) \<Longrightarrow> out \<noteq> Panic"
begin

subsection \<open>The loop ends\<close>

lemma run_step_rank: "run_step ops t c rs = Continue c' rs' \<Longrightarrow> rank c' < rank c"
  by (auto simp: run_step_def Let_def split: option.splits prod.splits outcome.splits sum.splits
        dest: rank_decreases)

lemma run_loop_ends: "rank c < fuel \<Longrightarrow> run_loop ops fuel t c rs \<noteq> Continue c' rs'"
proof (induction fuel arbitrary: t c rs)
  case (Suc fuel)
  show ?case
  proof (cases "run_step ops t c rs")
    case (Continue d rs1)
    with Suc.prems run_step_rank have "rank d < fuel" by fastforce
    with Continue Suc.IH show ?thesis by simp
  qed simp_all
qed simp

lemma run_loop_fuel:
  "rank c < fuel \<Longrightarrow> fuel \<le> fuel' \<Longrightarrow> run_loop ops fuel' t c rs = run_loop ops fuel t c rs"
proof (induction fuel arbitrary: t c rs fuel')
  case (Suc fuel)
  then obtain n where n: "fuel' = Suc n" "fuel \<le> n" by (cases fuel') auto
  show ?case
  proof (cases "run_step ops t c rs")
    case (Continue d rs1)
    with Suc.prems run_step_rank have "rank d < fuel" by fastforce
    from Suc.IH [OF this n(2)] Continue n(1) show ?thesis by simp
  qed (simp_all add: n)
qed simp

subsection \<open>Saved events and running state agree\<close>

lemma key_fold: "key (fold (op_apply ops now) evs s) = key s"
  by (induction evs arbitrary: s) (simp_all add: key_apply)

lemma process_events_Inr:
  assumes "process_events ops t i evs rs = Inr rs'" "fits (key (rs_swap rs)) (rs_db rs)"
  shows "obs (rs_swap rs') = obs (fold (op_apply ops 0) evs (rs_swap rs))
       \<and> log (key (rs_swap rs)) (rs_db rs') = log (key (rs_swap rs)) (rs_db rs) @ evs
       \<and> fits (key (rs_swap rs)) (rs_db rs')"
  using assms
proof (induction evs arbitrary: i rs)
  case (Cons ev evs)
  then obtain db where db: "op_save ops t i (rs_swap rs) ev (rs_db rs) = Inr db"
    by (auto simp: Let_def split: sum.splits)
  let ?s = "op_apply ops (op_clock ops t i) ev (rs_swap rs)"
  note saved = save_appends [OF Cons.prems(2) db]
  have "obs (rs_swap rs') = obs (fold (op_apply ops 0) evs ?s)"
    and "log (key (rs_swap rs)) (rs_db rs') = log (key (rs_swap rs)) db @ evs
         \<and> fits (key (rs_swap rs)) (rs_db rs')"
    using Cons.IH [OF Cons.prems(1) [unfolded process_events.simps Let_def db sum.case]] saved
    by (simp_all add: key_apply)
  moreover have "obs (fold (op_apply ops 0) evs ?s) = obs (fold (op_apply ops 0) (ev # evs) (rs_swap rs))"
    using fold_apply_obs [OF apply_obs [OF refl, of "op_clock ops t i" ev "rs_swap rs" 0]] by simp
  ultimately show ?case
    using saved by simp
qed simp

subsection \<open>The invariant of a life\<close>

definition replay :: "'s \<Rightarrow> 'e list \<Rightarrow> 's" where
  "replay s0 evs = fold (op_apply ops 0) evs s0"

definition log_inv :: "'s \<Rightarrow> 'e list \<Rightarrow> bool" where
  "log_inv s0 evs \<longleftrightarrow> evs = [] \<or> genuine s0 (hd evs) \<and>
     (\<forall>c. get_command (last evs) = Some c \<longrightarrow> \<not> fragile (last evs) \<longrightarrow> ok c (replay s0 evs))"

definition life_inv :: "'s \<Rightarrow> 'c \<Rightarrow> ('s, 'e, 'db) run_state \<Rightarrow> bool" where
  "life_inv s0 c rs \<longleftrightarrow>
     obs (rs_swap rs) = obs (replay s0 (log (key s0) (rs_db rs))) \<and> log_inv s0 (log (key s0) (rs_db rs)) \<and>
     fits (key s0) (rs_db rs) \<and> ok c (rs_swap rs) \<and>
     (log (key s0) (rs_db rs) = [] \<longrightarrow> c = start) \<and>
     (log (key s0) (rs_db rs) \<noteq> [] \<longrightarrow> \<not> diverts (last (log (key s0) (rs_db rs))) \<longrightarrow>
        get_command (last (log (key s0) (rs_db rs))) = Some c)"

lemma replay_append: "replay s0 (evs @ evs') = fold (op_apply ops 0) evs' (replay s0 evs)"
  by (simp add: replay_def)

lemma key_life: "life_inv s0 c rs \<Longrightarrow> key (rs_swap rs) = key s0"
  unfolding life_inv_def replay_def using key_obs key_fold by metis

lemma stage_events:
  assumes inv: "life_inv s0 c rs"
    and h: "op_handle ops t (rs_swap rs) c = Some (effs, s, Ret (nc, evs))"
    and p: "process_events ops t 0 pre (rs\<lparr>rs_swap := s, rs_effects := effs'\<rparr>) = Inr rs1"
  shows "log (key s0) (rs_db rs1) = log (key s0) (rs_db rs) @ pre" "fits (key s0) (rs_db rs1)"
    and "obs (rs_swap rs1) = obs (fold (op_apply ops 0) pre s)"
    and "obs (rs_swap rs1) = obs (replay s0 (log (key s0) (rs_db rs) @ pre))"
proof -
  have s: "obs s = obs (rs_swap rs)" using handle_obs [OF h] .
  then have k: "key s = key s0" using key_obs key_life [OF inv] by metis
  have "fits (key (rs_swap (rs\<lparr>rs_swap := s, rs_effects := effs'\<rparr>)))
          (rs_db (rs\<lparr>rs_swap := s, rs_effects := effs'\<rparr>))"
    using inv k by (simp add: life_inv_def)
  note pe = process_events_Inr [OF p this]
  from pe k
  show "log (key s0) (rs_db rs1) = log (key s0) (rs_db rs) @ pre" "fits (key s0) (rs_db rs1)" by simp_all
  from pe
  show o: "obs (rs_swap rs1) = obs (fold (op_apply ops 0) pre s)" by simp
  have "obs s = obs (replay s0 (log (key s0) (rs_db rs)))"
    using s inv by (simp add: life_inv_def)
  then show "obs (rs_swap rs1) = obs (replay s0 (log (key s0) (rs_db rs) @ pre))"
    using o fold_apply_obs by (simp add: replay_append)
qed

lemma log_inv_extend:
  assumes org: "origin s0" and inv: "life_inv s0 c rs"
    and h: "op_handle ops t (rs_swap rs) c = Some (effs, s, Ret (nc, evs))"
    and evs: "evs = pre @ post"
  shows "log_inv s0 (log (key s0) (rs_db rs) @ pre)"
proof (cases pre rule: rev_cases)
  case Nil
  with inv show ?thesis by (simp add: life_inv_def)
next
  case (snoc pre' e)
  let ?L = "log (key s0) (rs_db rs)"
  have s: "obs s = obs (replay s0 ?L)"
    using handle_obs [OF h] inv by (simp add: life_inv_def)
  have gen: "genuine s0 (hd (?L @ pre))"
  proof (cases "?L = []")
    case True
    then have "c = start" and "obs (rs_swap rs) = obs s0"
      using inv by (simp_all add: life_inv_def replay_def)
    then have "genuine s0 (hd evs)" using genuine_start [OF org] h by blast
    then show ?thesis using True evs snoc by (simp add: hd_append split: if_splits)
  next
    case False
    then show ?thesis using inv by (simp add: life_inv_def log_inv_def)
  qed
  have "ok c' (replay s0 (?L @ pre))" if "get_command e = Some c'" "\<not> fragile e" for c'
  proof -
    have "ok c' (fold (op_apply ops 0) (pre' @ [e]) s)"
      using ok_prefix [OF _ h, of pre' e post c'] inv evs snoc that by (simp add: life_inv_def)
    moreover have "obs (fold (op_apply ops 0) pre s) = obs (replay s0 (?L @ pre))"
      using fold_apply_obs [OF s] by (simp add: replay_append)
    ultimately show ?thesis using ok_obs snoc by blast
  qed
  then show ?thesis using gen snoc by (simp add: log_inv_def)
qed

lemma life_inv_step:
  assumes org: "origin s0" and inv: "life_inv s0 c rs" and st: "run_step ops t c rs = Continue c' rs'"
  shows "life_inv s0 c' rs'"
proof -
  from st obtain effs s evs where
    h: "op_handle ops t (rs_swap rs) c = Some (effs, s, Ret (Some c', evs))"
    and p: "process_events ops t 0 evs (rs\<lparr>rs_swap := s, rs_effects := rs_effects rs @ effs\<rparr>) = Inr rs'"
    by (auto simp: run_step_def Let_def split: option.splits prod.splits outcome.splits sum.splits)
  note ev = stage_events [OF inv h p]
  have ne: "evs \<noteq> []" using events_nonempty [OF h] .
  have "log_inv s0 (log (key s0) (rs_db rs'))"
    using log_inv_extend [OF org inv h, of evs "[]"] ev(1) by simp
  moreover have "ok c' (rs_swap rs')"
    using ok_next [OF _ h] inv ok_obs [OF ev(3)] by (simp add: life_inv_def)
  moreover have "\<not> diverts (last evs) \<Longrightarrow> get_command (last evs) = Some c'"
    using resumes [OF h] by simp
  ultimately show ?thesis using ev ne by (simp add: life_inv_def)
qed

lemma life_inv_load:
  assumes org: "origin s0" and li: "log_inv s0 (log (key s0) db)"
    and ld: "load t (key s0) db = Some (s', c')" and nf: "\<not> fragile (last (log (key s0) db))"
    and db: "rs_db rs = db" "rs_swap rs = s'" "fits (key s0) db"
  shows "life_inv s0 c' rs"
proof -
  have ne: "log (key s0) db \<noteq> []" using load_empty ld by fastforce
  then have "genuine s0 (hd (log (key s0) db))" using li by (simp add: log_inv_def)
  from load_replays [OF org db(3) this ld]
  have gc: "get_command (last (log (key s0) db)) = Some c'"
    and o: "obs s' = obs (replay s0 (log (key s0) db))" by (simp_all add: replay_def)
  have "ok c' (replay s0 (log (key s0) db))" using li ne gc nf by (simp add: log_inv_def)
  then have "ok c' s'" using ok_obs [OF o] by simp
  then show ?thesis using ne gc o li db by (simp add: life_inv_def)
qed

lemma life_invariant:
  assumes "life ops (\<lambda>t. load t (key s0)) allowed start rs0 t c rs"
    and "origin s0" "rs_swap rs0 = s0" "log (key s0) (rs_db rs0) = []" "fits (key s0) (rs_db rs0)"
    and "\<And>db. allowed db \<Longrightarrow> \<not> fragile (last (log (key s0) db))"
  shows "life_inv s0 c rs"
  using assms(1)
proof (induction rule: life.induct)
  case life_start
  then show ?case using assms ok_start by (simp add: life_inv_def log_inv_def replay_def)
next
  case (life_step t c rs c' rs')
  then show ?case using life_inv_step [OF assms(2)] by blast
next
  case (life_reload t c rs don rest s' c')
  then have "log_inv s0 (log (key s0) (rs_db rs))" "fits (key s0) (rs_db rs)"
    by (simp_all add: life_inv_def)
  from life_inv_load [OF assms(2) this(1) life_reload(4) assms(6) [OF life_reload(3)] _ _ this(2)]
  show ?case by simp
next
  case (life_restart t c rs effs s nc evs k rs1 s' c')
  have "log_inv s0 (log (key s0) (rs_db rs1))"
    using log_inv_extend [OF assms(2) life_restart(6,2), of "take k evs" "drop k evs"]
      stage_events(1) [OF life_restart(6,2,3)] by simp
  from life_inv_load [OF assms(2) this life_restart(5) assms(6) [OF life_restart(4)] _ _
      stage_events(2) [OF life_restart(6,2,3)]]
  show ?case by simp
qed

subsection \<open>What follows for a node\<close>

lemma life_replay:
  assumes "life_inv s0 c rs"
  shows "obs (rs_swap rs) = obs (fold (op_apply ops 0) (log (key s0) (rs_db rs)) s0)"
  using assms by (simp add: life_inv_def replay_def)

lemma life_kick_start:
  assumes "origin s0" "life_inv s0 c rs" "load t (key s0) (rs_db rs) = Some (s', c')"
  shows "obs s' = obs (rs_swap rs)"
    and "\<not> diverts (last (log (key s0) (rs_db rs))) \<Longrightarrow> c' = c"
proof -
  have ne: "log (key s0) (rs_db rs) \<noteq> []" using load_empty assms(3) by fastforce
  then have "genuine s0 (hd (log (key s0) (rs_db rs)))"
    using assms(2) by (simp add: life_inv_def log_inv_def)
  moreover have "fits (key s0) (rs_db rs)" using assms(2) by (simp add: life_inv_def)
  note load_replays [OF assms(1) this _ assms(3)]
  ultimately
  show "obs s' = obs (rs_swap rs)" and "\<not> diverts (last (log (key s0) (rs_db rs))) \<Longrightarrow> c' = c"
    using assms(2) ne by (simp_all add: life_inv_def replay_def)
qed

lemma life_ok: "life_inv s0 c rs \<Longrightarrow> ok c (rs_swap rs)"
  by (simp add: life_inv_def)

lemma life_no_panic:
  assumes "life_inv s0 c rs" "op_handle ops t (rs_swap rs) c = Some (effs, s', out)"
  shows "out \<noteq> Panic"
  using ok_safe [OF life_ok [OF assms(1)] assms(2)] .

end

end
