(* ===== verification/SavedSwap.thy ===== *)
theory SavedSwap
  imports MakerSaved TakerSaved SwapMachine
begin

text \<open>
  Saved swaps of both sides (\<open>mm2_main/src/lp_swap/saved_swap.rs\<close>), the database of saved swaps, how
  the two sides write events to it and load from it, and \<open>run_maker_swap\<close> and \<open>run_taker_swap\<close> as
  instances of the loop of \<open>SwapMachine\<close>.

  The database maps the uuid of a swap to its file. A read or write that fails does so by the
  error functions of the context and leaves the database as it is.
\<close>

section \<open>Saved swaps of both sides\<close>

datatype saved_swap = Maker maker_saved_swap | Taker taker_saved_swap

type_synonym swap_db = "uuid \<rightharpoonup> saved_swap"

fun saved_uuid :: "saved_swap \<Rightarrow> uuid" where
  "saved_uuid (Maker swap) = mss_uuid swap"
| "saved_uuid (Taker swap) = tss_uuid swap"

fun saved_is_finished_and_success :: "saved_swap \<Rightarrow> bool" where
  "saved_is_finished_and_success (Maker swap) =
     (case maker_saved_is_success swap of Inr b \<Rightarrow> b | Inl e \<Rightarrow> False)"
| "saved_is_finished_and_success (Taker swap) =
     (case taker_saved_is_success swap of Inr b \<Rightarrow> b | Inl e \<Rightarrow> False)"

fun saved_is_finished :: "saved_swap \<Rightarrow> bool" where
  "saved_is_finished (Maker swap) = maker_saved_is_finished swap"
| "saved_is_finished (Taker swap) = taker_saved_is_finished swap"

fun saved_maker_coin_ticker :: "saved_swap \<Rightarrow> string + string" where
  "saved_maker_coin_ticker (Maker swap) = maker_saved_maker_coin swap"
| "saved_maker_coin_ticker (Taker swap) = taker_saved_maker_coin swap"

fun saved_taker_coin_ticker :: "saved_swap \<Rightarrow> string + string" where
  "saved_taker_coin_ticker (Maker swap) = maker_saved_taker_coin swap"
| "saved_taker_coin_ticker (Taker swap) = taker_saved_taker_coin swap"

fun saved_get_my_info :: "saved_swap \<Rightarrow> my_swap_info option" where
  "saved_get_my_info (Maker swap) = maker_saved_get_my_info swap"
| "saved_get_my_info (Taker swap) = taker_saved_get_my_info swap"

fun saved_is_recoverable :: "saved_swap \<Rightarrow> bool" where
  "saved_is_recoverable (Maker saved) = maker_saved_is_recoverable saved"
| "saved_is_recoverable (Taker saved) = taker_saved_is_recoverable saved"

fun maker_hide_event :: "maker_swap_event \<Rightarrow> maker_swap_event" where
  "maker_hide_event (maker_swap_event.Started data) =
     maker_swap_event.Started (data\<lparr>md_secret := hash_default 32, md_p2p_privkey := None\<rparr>)"
| "maker_hide_event ev = ev"

fun taker_hide_event :: "taker_swap_event \<Rightarrow> taker_swap_event" where
  "taker_hide_event (taker_swap_event.Started data) =
     taker_swap_event.Started (data\<lparr>td_p2p_privkey := None\<rparr>)"
| "taker_hide_event ev = ev"

fun hide_secrets :: "saved_swap \<Rightarrow> saved_swap" where
  "hide_secrets (Maker swap) =
     (case mss_events swap of
        [] \<Rightarrow> Maker swap
      | ev # evs \<Rightarrow>
          Maker (swap\<lparr>mss_events := ev\<lparr>mse_event := maker_hide_event (mse_event ev)\<rparr> # evs\<rparr>))"
| "hide_secrets (Taker swap) =
     (case tss_events swap of
        [] \<Rightarrow> Taker swap
      | ev # evs \<Rightarrow>
          Taker (swap\<lparr>tss_events := ev\<lparr>tse_event := taker_hide_event (tse_event ev)\<rparr> # evs\<rparr>))"

section \<open>The database\<close>

definition load_my_swap_from_db ::
  "mm_ctx \<Rightarrow> moment \<Rightarrow> nat \<Rightarrow> swap_db \<Rightarrow> uuid \<Rightarrow> string + saved_swap option" where
  "load_my_swap_from_db ctx t i db u =
     (case x_db_load_error ctx t i of Some e \<Rightarrow> Inl e | None \<Rightarrow> Inr (db u))"

definition save_to_db :: "mm_ctx \<Rightarrow> moment \<Rightarrow> nat \<Rightarrow> saved_swap \<Rightarrow> swap_db \<Rightarrow> string + swap_db" where
  "save_to_db ctx t i swap db =
     (case x_db_save_error ctx t i of Some e \<Rightarrow> Inl e | None \<Rightarrow> Inr (db(saved_uuid swap \<mapsto> swap)))"

definition maker_saved_swap_new :: "mm_ctx \<Rightarrow> maker_swap \<Rightarrow> maker_saved_swap" where
  "maker_saved_swap_new ctx s =
     \<lparr>mss_uuid = ms_uuid s, mss_my_order_uuid = ms_my_order_uuid s, mss_events = [],
      mss_maker_amount = Some (ms_maker_amount s), mss_maker_coin = Some (c_ticker (ms_maker_coin s)),
      mss_maker_coin_usd_price = None, mss_taker_amount = Some (ms_taker_amount s),
      mss_taker_coin = Some (c_ticker (ms_taker_coin s)), mss_taker_coin_usd_price = None,
      mss_gui = x_gui ctx, mss_mm_version = Some (x_mm_version ctx),
      mss_success_events = MAKER_SUCCESS_EVENTS, mss_error_events = MAKER_ERROR_EVENTS\<rparr>"

text \<open>The rendering of the unexpected swap at the end of the last error is left out.\<close>

definition save_my_maker_swap_event ::
  "mm_ctx \<Rightarrow> moment \<Rightarrow> nat \<Rightarrow> maker_swap \<Rightarrow> maker_saved_event \<Rightarrow> swap_db \<Rightarrow> string + swap_db" where
  "save_my_maker_swap_event ctx t i s event db =
     (case load_my_swap_from_db ctx t i db (ms_uuid s) of
        Inl e \<Rightarrow> Inl e
      | Inr found \<Rightarrow>
          (case (case found of Some swap \<Rightarrow> swap | None \<Rightarrow> Maker (maker_saved_swap_new ctx s)) of
             Maker m \<Rightarrow>
               (let m1 = m\<lparr>mss_events := mss_events m @ [event]\<rparr>;
                    m2 = (if maker_saved_is_success m1 = Inr True
                          then maker_saved_fetch_and_set_usd_prices ctx t m1 else m1)
                in save_to_db ctx t i (Maker m2) db)
           | Taker m \<Rightarrow> Inl ''Expected SavedSwap::Maker, got SavedSwap::Taker''))"

definition taker_saved_swap_new :: "mm_ctx \<Rightarrow> taker_swap \<Rightarrow> taker_saved_swap" where
  "taker_saved_swap_new ctx s =
     \<lparr>tss_uuid = ts_uuid s, tss_my_order_uuid = ts_my_order_uuid s, tss_events = [],
      tss_maker_amount = Some (x_to_decimal ctx (ts_maker_amount s)),
      tss_maker_coin = Some (c_ticker (ts_maker_coin s)),
      tss_maker_coin_usd_price = None, tss_taker_amount = Some (x_to_decimal ctx (ts_taker_amount s)),
      tss_taker_coin = Some (c_ticker (ts_taker_coin s)), tss_taker_coin_usd_price = None,
      tss_gui = x_gui ctx, tss_mm_version = Some (x_mm_version ctx),
      tss_success_events =
        (if taker_uses_watchers ctx s then TAKER_USING_WATCHERS_SUCCESS_EVENTS else TAKER_SUCCESS_EVENTS),
      tss_error_events = TAKER_ERROR_EVENTS\<rparr>"

definition save_my_taker_swap_event ::
  "mm_ctx \<Rightarrow> moment \<Rightarrow> nat \<Rightarrow> taker_swap \<Rightarrow> taker_saved_event \<Rightarrow> swap_db \<Rightarrow> string + swap_db" where
  "save_my_taker_swap_event ctx t i s event db =
     (case load_my_swap_from_db ctx t i db (ts_uuid s) of
        Inl e \<Rightarrow> Inl e
      | Inr found \<Rightarrow>
          (case (case found of Some swap \<Rightarrow> swap | None \<Rightarrow> Taker (taker_saved_swap_new ctx s)) of
             Taker m \<Rightarrow>
               (let m1 = m\<lparr>tss_events := tss_events m @ [event]\<rparr>;
                    m2 = (if taker_saved_is_success m1 = Inr True
                          then taker_saved_fetch_and_set_usd_prices ctx t m1 else m1)
                in save_to_db ctx t i (Taker m2) db)
           | Maker m \<Rightarrow> Inl ''Expected SavedSwap::Taker, got SavedSwap::Maker''))"

definition maker_load_from_db_by_uuid ::
  "mm_ctx \<Rightarrow> moment \<Rightarrow> coin \<Rightarrow> coin \<Rightarrow> uuid \<Rightarrow> swap_db \<Rightarrow>
   (maker_swap \<times> maker_swap_command option) outcome" where
  "maker_load_from_db_by_uuid ctx t maker_coin taker_coin u db =
     (case load_my_swap_from_db ctx t 0 db u of
        Inl e \<Rightarrow> Err e
      | Inr None \<Rightarrow> Err (''Couldn't find a swap with the uuid '' @ [CHR 0x27] @ x_show_uuid ctx u @ [CHR 0x27])
      | Inr (Some (Taker saved)) \<Rightarrow>
          Err (''Can not load MakerSwap from SavedSwap::Taker uuid: '' @ x_show_uuid ctx u)
      | Inr (Some (Maker saved)) \<Rightarrow>
          maker_load_from_saved ctx (x_apply_now ctx t 0) maker_coin taker_coin saved)"

definition taker_load_from_db_by_uuid ::
  "mm_ctx \<Rightarrow> moment \<Rightarrow> coin \<Rightarrow> coin \<Rightarrow> uuid \<Rightarrow> swap_db \<Rightarrow>
   (taker_swap \<times> taker_swap_command option) outcome" where
  "taker_load_from_db_by_uuid ctx t maker_coin taker_coin u db =
     (case load_my_swap_from_db ctx t 0 db u of
        Inl e \<Rightarrow> Err e
      | Inr None \<Rightarrow> Err (''Couldn't find a swap with the uuid '' @ [CHR 0x27] @ x_show_uuid ctx u @ [CHR 0x27])
      | Inr (Some (Maker saved)) \<Rightarrow>
          Err (''Can not load TakerSwap from SavedSwap::Maker uuid: '' @ x_show_uuid ctx u)
      | Inr (Some (Taker saved)) \<Rightarrow>
          taker_load_from_saved ctx (x_apply_now ctx t 0) maker_coin taker_coin saved)"

section \<open>Recovery of funds\<close>

text \<open>\<open>SavedSwap::recover_funds\<close>; \<open>coinfind\<close> is \<open>lp_coinfind\<close>, the lookup of an activated coin.\<close>

definition recover_funds ::
  "mm_ctx \<Rightarrow> moment \<Rightarrow> (string \<Rightarrow> string + coin option) \<Rightarrow> saved_swap \<Rightarrow>
   effect list \<times> recovered_swap outcome" where
  "recover_funds ctx t coinfind saved =
     (let find = (\<lambda>ticker.
            case coinfind ticker of
              Inr (Some c) \<Rightarrow> Inr c
            | Inr None \<Rightarrow> Inl (''Coin '' @ ticker @ '' is not activated'')
            | Inl e \<Rightarrow> Inl (''Error '' @ e @ '' on '' @ ticker @ '' coin find attempt''));
          result = (\<lambda>(effs, r). (effs, case r of Inl e \<Rightarrow> Err e | Inr x \<Rightarrow> Ret x)) in
      case saved_maker_coin_ticker saved of
        Inl e \<Rightarrow> ([], Err e)
      | Inr maker_ticker \<Rightarrow>
      (case find maker_ticker of
        Inl e \<Rightarrow> ([], Err e)
      | Inr maker_coin \<Rightarrow>
      (case saved_taker_coin_ticker saved of
        Inl e \<Rightarrow> ([], Err e)
      | Inr taker_ticker \<Rightarrow>
      (case find taker_ticker of
        Inl e \<Rightarrow> ([], Err e)
      | Inr taker_coin \<Rightarrow>
      (case saved of
         Maker m \<Rightarrow>
           (case maker_load_from_saved ctx (x_apply_now ctx t 0) maker_coin taker_coin m of
              Ret (swap, command) \<Rightarrow> result (maker_recover_funds ctx t swap)
            | Err e \<Rightarrow> ([], Err e)
            | Panic \<Rightarrow> ([], Panic))
       | Taker m \<Rightarrow>
           (case taker_load_from_saved ctx (x_apply_now ctx t 0) maker_coin taker_coin m of
              Ret (swap, command) \<Rightarrow> result (taker_recover_funds ctx t swap)
            | Err e \<Rightarrow> ([], Err e)
            | Panic \<Rightarrow> ([], Panic)))))))"

section \<open>Running swaps\<close>

definition maker_ops ::
  "mm_ctx \<Rightarrow> (maker_swap, maker_swap_command, maker_swap_event, swap_db) swap_ops" where
  "maker_ops ctx =
     \<lparr>op_handle = maker_handle_command ctx,
      op_notify = (\<lambda>s ev. [E_MakerSwapStatusChanged (ms_uuid s) (c_ticker (ms_taker_coin s))
                             (c_ticker (ms_maker_coin s)) (ms_taker_amount s) (ms_maker_amount s)
                             (maker_status_str ev)]),
      op_save = (\<lambda>t i s ev. save_my_maker_swap_event ctx t i s
                             \<lparr>mse_timestamp = x_now_ms ctx t i, mse_event = ev\<rparr>),
      op_should_ban = should_ban_taker, op_other_pubkey = ms_taker, op_uuid = ms_uuid,
      op_apply = maker_apply_event, op_clock = x_apply_now ctx\<rparr>"

definition taker_ops ::
  "mm_ctx \<Rightarrow> (taker_swap, taker_swap_command, taker_swap_event, swap_db) swap_ops" where
  "taker_ops ctx =
     \<lparr>op_handle = taker_handle_command ctx, op_notify = (\<lambda>s ev. []),
      op_save = (\<lambda>t i s ev. save_my_taker_swap_event ctx t i s
                             \<lparr>tse_timestamp = x_now_ms ctx t i, tse_event = ev\<rparr>),
      op_should_ban = should_ban_maker, op_other_pubkey = ts_maker, op_uuid = ts_uuid,
      op_apply = taker_apply_event, op_clock = x_apply_now ctx\<rparr>"

text \<open>The lock of the swap file: two attempts; \<open>Some\<close> is the reason to give up.\<close>

definition acquire_swap_lock :: "mm_ctx \<Rightarrow> moment \<Rightarrow> string option" where
  "acquire_swap_lock ctx t =
     (case x_swap_lock ctx t 0 of
        Inl e \<Rightarrow> Some e
      | Inr True \<Rightarrow> None
      | Inr False \<Rightarrow>
          (case x_swap_lock ctx t 1 of
             Inl e \<Rightarrow> Some e
           | Inr True \<Rightarrow> None
           | Inr False \<Rightarrow> Some ''file lock is acquired by another process/thread''))"

datatype 'swap run_swap_input = StartNew 'swap | KickStart coin coin uuid

datatype 'r swap_run = Aborted string | LoadPanic | Ran 'r

text \<open>
  \<open>broadcast_my_swap_status\<close>: the status that is saved in the statistics and published, its secrets
  hidden.
\<close>

definition broadcast_my_swap_status :: "mm_ctx \<Rightarrow> moment \<Rightarrow> swap_db \<Rightarrow> uuid \<Rightarrow> string + saved_swap" where
  "broadcast_my_swap_status ctx t db u =
     (case load_my_swap_from_db ctx t 0 db u of
        Inl e \<Rightarrow> Inl e
      | Inr None \<Rightarrow> Inl ''swap data is not found''
      | Inr (Some status) \<Rightarrow>
          (case x_stats_save_error ctx t of
             Some e \<Rightarrow> Inl e
           | None \<Rightarrow> Inr (hide_secrets status)))"

definition run_init :: "'s \<Rightarrow> swap_db \<Rightarrow> (bytes \<rightharpoonup> uuid \<times> 'e) \<Rightarrow> ('s, 'e, swap_db) run_state" where
  "run_init s db banned = \<lparr>rs_swap = s, rs_db = db, rs_banned = banned, rs_effects = []\<rparr>"

text \<open>
  A run from a new or a kick started swap. The first component holds the outcome of the loop, the
  second the message stores with the one of this swap, the third the status that is published. Twelve
  turns are enough: the loop visits each of the twelve commands at most once.
\<close>

definition RUN_FUEL :: nat where "RUN_FUEL = 12"

definition run_maker_swap ::
  "mm_ctx \<Rightarrow> moment \<Rightarrow> maker_swap run_swap_input \<Rightarrow> swap_db \<Rightarrow> (bytes \<rightharpoonup> uuid \<times> maker_swap_event) \<Rightarrow>
   (uuid \<rightharpoonup> swap_msg_store) \<Rightarrow>
   (maker_swap_command, (maker_swap, maker_swap_event, swap_db) run_state) run_outcome swap_run
   \<times> (uuid \<rightharpoonup> swap_msg_store) \<times> saved_swap option" where
  "run_maker_swap ctx t input db banned msgs =
     (let run = (\<lambda>swap command.
            let msgs1 = init_msg_store msgs (ms_uuid swap) (ms_taker swap);
                to_broadcast = (\<not> (c_is_privacy (ms_maker_coin swap) \<or> c_is_privacy (ms_taker_coin swap)));
                r = run_loop (maker_ops ctx) RUN_FUEL t command (run_init swap db banned)
            in (Ran r, msgs1,
                case r of
                  Completed rs \<Rightarrow>
                    if to_broadcast
                    then (case broadcast_my_swap_status ctx (t + RUN_FUEL) (rs_db rs) (ms_uuid swap) of
                            Inr status \<Rightarrow> Some status | Inl e \<Rightarrow> None)
                    else None
                | _ \<Rightarrow> None)) in
      case acquire_swap_lock ctx t of
        Some reason \<Rightarrow> (Aborted reason, msgs, None)
      | None \<Rightarrow>
          (case input of
             StartNew swap \<Rightarrow> run swap maker_swap_command.Start
           | KickStart maker_coin taker_coin u \<Rightarrow>
               (case maker_load_from_db_by_uuid ctx t maker_coin taker_coin u db of
                  Ret (swap, Some command) \<Rightarrow> run swap command
                | Ret (swap, None) \<Rightarrow> (Aborted ''has been finished already'', msgs, None)
                | Err e \<Rightarrow> (Aborted (''Error loading swap: '' @ e), msgs, None)
                | Panic \<Rightarrow> (LoadPanic, msgs, None))))"

definition run_taker_swap ::
  "mm_ctx \<Rightarrow> moment \<Rightarrow> taker_swap run_swap_input \<Rightarrow> swap_db \<Rightarrow> (bytes \<rightharpoonup> uuid \<times> taker_swap_event) \<Rightarrow>
   (uuid \<rightharpoonup> swap_msg_store) \<Rightarrow>
   (taker_swap_command, (taker_swap, taker_swap_event, swap_db) run_state) run_outcome swap_run
   \<times> (uuid \<rightharpoonup> swap_msg_store) \<times> saved_swap option" where
  "run_taker_swap ctx t input db banned msgs =
     (let run = (\<lambda>swap command.
            let msgs1 = init_msg_store msgs (ts_uuid swap) (ts_maker swap);
                to_broadcast = (\<not> (c_is_privacy (ts_maker_coin swap) \<or> c_is_privacy (ts_taker_coin swap)));
                r = run_loop (taker_ops ctx) RUN_FUEL t command (run_init swap db banned)
            in (Ran r, msgs1,
                case r of
                  Completed rs \<Rightarrow>
                    if to_broadcast
                    then (case broadcast_my_swap_status ctx (t + RUN_FUEL) (rs_db rs) (ts_uuid swap) of
                            Inr status \<Rightarrow> Some status | Inl e \<Rightarrow> None)
                    else None
                | _ \<Rightarrow> None)) in
      case acquire_swap_lock ctx t of
        Some reason \<Rightarrow> (Aborted reason, msgs, None)
      | None \<Rightarrow>
          (case input of
             StartNew swap \<Rightarrow> run swap taker_swap_command.Start
           | KickStart maker_coin taker_coin u \<Rightarrow>
               (case taker_load_from_db_by_uuid ctx t maker_coin taker_coin u db of
                  Ret (swap, Some command) \<Rightarrow> run swap command
                | Ret (swap, None) \<Rightarrow> (Aborted ''has been finished already'', msgs, None)
                | Err e \<Rightarrow> (Aborted (''Error loading swap: '' @ e), msgs, None)
                | Panic \<Rightarrow> (LoadPanic, msgs, None))))"

section \<open>What the swaps rely on in a coin\<close>

text \<open>
  Public keys have 33 bytes: the ones a coin derives for a swap, and the ones of the other side that
  it accepts. The conversions of these keys panic on shorter ones.
\<close>

definition keys_sized :: "coin \<Rightarrow> bool" where
  "keys_sized c \<longleftrightarrow>
     (\<forall>u. 33 \<le> length (c_derive_htlc_pubkey c u)) \<and>
     (\<forall>k. c_validate_other_pubkey c k = Inr () \<longrightarrow> 33 \<le> length k)"

lemma keys_sized_derive:
  "keys_sized c \<Longrightarrow>
   hash_from_slice 33 (c_derive_htlc_pubkey c u) = Some (take 33 (c_derive_htlc_pubkey c u))"
  by (simp add: keys_sized_def hash_from_slice_def)

lemma keys_sized_validate:
  "keys_sized c \<Longrightarrow> c_validate_other_pubkey c k = Inr () \<Longrightarrow> hash_from_slice 33 k = Some (take 33 k)"
  by (simp add: keys_sized_def hash_from_slice_def)

end
