(* ===== verification/MakerMachine.thy ===== *)
theory MakerMachine
  imports SavedSwap
begin

text \<open>
  The maker's swap as a state machine. \<open>maker_edge\<close> is its transition diagram: which command follows
  which and with which events. The stages of \<open>MakerSwap\<close> implement it. On top of the diagram the theory
  proves the laws of the locale \<open>swap_machine\<close> for the maker and draws the consequences for a node
  that runs, crashes and restarts.
\<close>

section \<open>The transition diagram\<close>

inductive maker_edge ::
  "maker_swap_command \<Rightarrow> maker_swap_command option \<Rightarrow> maker_swap_event list \<Rightarrow> bool" where
  start_failed: "maker_edge maker_swap_command.Start (Some maker_swap_command.Finish) [maker_swap_event.StartFailed e]"
| started: "maker_edge maker_swap_command.Start (Some maker_swap_command.Negotiate) [maker_swap_event.Started d]"
| negotiate_failed:
    "maker_edge maker_swap_command.Negotiate (Some maker_swap_command.Finish) [maker_swap_event.NegotiateFailed e]"
| negotiated:
    "maker_edge maker_swap_command.Negotiate (Some WaitForTakerFee) [maker_swap_event.Negotiated n]"
| fee_failed: "maker_edge WaitForTakerFee (Some maker_swap_command.Finish) [TakerFeeValidateFailed e]"
| fee_validated:
    "maker_edge WaitForTakerFee (Some SendPayment) [MakerPaymentInstructionsReceived i, TakerFeeValidated tx]"
| payment_failed: "maker_edge SendPayment (Some maker_swap_command.Finish) [MakerPaymentTransactionFailed e]"
| payment_sent: "maker_edge SendPayment (Some WaitForTakerPayment) [MakerPaymentSent tx]"
| payment_data_failed:
    "maker_edge WaitForTakerPayment (Some PrepareForMakerPaymentRefund)
       [MakerPaymentDataSendFailed e, MakerPaymentWaitRefundStarted w]"
| payment_confirm_failed:
    "maker_edge WaitForTakerPayment (Some PrepareForMakerPaymentRefund)
       [maker_swap_event.MakerPaymentWaitConfirmFailed e, MakerPaymentWaitRefundStarted w]"
| taker_payment_missing:
    "maker_edge WaitForTakerPayment (Some PrepareForMakerPaymentRefund)
       [TakerPaymentValidateFailed e, MakerPaymentWaitRefundStarted w]"
| taker_payment_received:
    "maker_edge WaitForTakerPayment (Some ValidateTakerPayment)
       [TakerPaymentReceived tx, TakerPaymentWaitConfirmStarted]"
| taker_payment_confirm_failed:
    "maker_edge ValidateTakerPayment (Some PrepareForMakerPaymentRefund)
       [maker_swap_event.TakerPaymentWaitConfirmFailed e, MakerPaymentWaitRefundStarted w]"
| taker_payment_invalid:
    "maker_edge ValidateTakerPayment (Some PrepareForMakerPaymentRefund)
       [TakerPaymentValidateFailed e, MakerPaymentWaitRefundStarted w]"
| watcher_reward_failed:
    "maker_edge ValidateTakerPayment (Some maker_swap_command.Finish) [MakerPaymentTransactionFailed e]"
| taker_payment_valid:
    "maker_edge ValidateTakerPayment (Some SpendTakerPayment) [TakerPaymentValidatedAndConfirmed]"
| spend_failed:
    "maker_edge SpendTakerPayment (Some PrepareForMakerPaymentRefund)
       [TakerPaymentSpendFailed e, MakerPaymentWaitRefundStarted w]"
| spent:
    "maker_edge SpendTakerPayment (Some ConfirmTakerPaymentSpend)
       [maker_swap_event.TakerPaymentSpent tx, TakerPaymentSpendConfirmStarted]"
| spend_confirm_failed:
    "maker_edge ConfirmTakerPaymentSpend (Some PrepareForMakerPaymentRefund)
       [TakerPaymentSpendConfirmFailed e, MakerPaymentWaitRefundStarted w]"
| spend_confirmed:
    "maker_edge ConfirmTakerPaymentSpend (Some maker_swap_command.Finish) [TakerPaymentSpendConfirmed]"
| refund_prepared:
    "maker_edge PrepareForMakerPaymentRefund (Some RefundMakerPayment) [MakerPaymentRefundStarted]"
| refunded: "maker_edge RefundMakerPayment (Some FinalizeMakerPaymentRefund) [MakerPaymentRefunded tx]"
| refund_failed: "maker_edge RefundMakerPayment (Some maker_swap_command.Finish) [MakerPaymentRefundFailed e]"
| refund_finished:
    "maker_edge FinalizeMakerPaymentRefund (Some maker_swap_command.Finish) [MakerPaymentRefundFinished]"
| finished: "maker_edge maker_swap_command.Finish None [maker_swap_event.Finished]"

inductive_cases maker_edge_Start: "maker_edge maker_swap_command.Start nc evs"
inductive_cases maker_edge_Validate: "maker_edge ValidateTakerPayment nc evs"
inductive_cases maker_edge_Finish: "maker_edge c (Some maker_swap_command.Finish) evs"

lemmas stage_splits = sum.splits option.splits if_splits prod.splits found_swap_tx_spend.splits

text \<open>A stage follows the diagram; it changes no field of the swap except \<open>watcher_reward\<close>.\<close>

definition maker_follows :: "maker_swap_command \<Rightarrow> maker_swap \<Rightarrow> maker_stage option \<Rightarrow> bool" where
  "maker_follows c s r \<longleftrightarrow>
     (\<forall>effs s' nc evs. r = Some (effs, s', Ret (nc, evs)) \<longrightarrow>
        maker_edge c nc evs \<and> (\<exists>w. s' = s\<lparr>mm_watcher_reward := w\<rparr>))"

lemma maker_same: "\<exists>w. s = s\<lparr>mm_watcher_reward := w\<rparr>"
  by (rule exI [where x = "mm_watcher_reward s"]) simp

lemma maker_follows_None [simp]: "maker_follows c s None"
  by (simp add: maker_follows_def)

lemma maker_follows_ends [simp]:
  "maker_follows c s (maker_ends s effs evs) \<longleftrightarrow> maker_edge c (Some maker_swap_command.Finish) evs"
  using maker_same by (auto simp: maker_follows_def maker_ends_def)

lemma maker_follows_refunds [simp]:
  "maker_follows c s (maker_refunds s effs ev) \<longleftrightarrow>
     maker_edge c (Some PrepareForMakerPaymentRefund)
       [ev, MakerPaymentWaitRefundStarted (maker_wait_refund_until s)]"
  using maker_same by (auto simp: maker_follows_def maker_refunds_def)

lemma maker_follows_continues [simp]:
  "maker_follows c s (maker_continues (s\<lparr>mm_watcher_reward := w\<rparr>) effs c' evs) \<longleftrightarrow> maker_edge c (Some c') evs"
  "maker_follows c s (maker_continues s effs c' evs) \<longleftrightarrow> maker_edge c (Some c') evs"
  using maker_same by (auto simp: maker_follows_def maker_continues_def)

lemma maker_follows_panics [simp]: "maker_follows c s (maker_panics s effs)"
  by (simp add: maker_follows_def maker_panics_def)

lemma maker_start_follows: "maker_follows maker_swap_command.Start s (maker_start ctx t s)"
  by (simp add: maker_start_def Let_def maker_edge.intros split: sum.split option.split)

lemma maker_negotiate_follows: "maker_follows maker_swap_command.Negotiate s (maker_negotiate ctx t s)"
  by (simp add: maker_negotiate_def maker_negotiate_failed_def Let_def maker_edge.intros
      split: sum.split option.split)

lemma maker_wait_taker_fee_follows: "maker_follows WaitForTakerFee s (maker_wait_taker_fee ctx t s)"
  by (simp add: maker_wait_taker_fee_def Let_def maker_edge.intros split: sum.split option.split)

lemma maker_maker_payment_follows: "maker_follows SendPayment s (maker_maker_payment ctx t s)"
  by (simp add: maker_maker_payment_def Let_def maker_edge.intros split: sum.split option.split)

lemma maker_wait_for_taker_payment_follows:
  "maker_follows WaitForTakerPayment s (maker_wait_for_taker_payment ctx t s)"
  by (simp add: maker_wait_for_taker_payment_def Let_def maker_edge.intros split: sum.split option.split)

lemma maker_validate_taker_payment_follows:
  "maker_follows ValidateTakerPayment s (maker_validate_taker_payment ctx t s)"
  by (simp add: maker_validate_taker_payment_def Let_def maker_edge.intros split: sum.split option.split)

lemma maker_spend_taker_payment_follows:
  "maker_follows SpendTakerPayment s (maker_spend_taker_payment ctx t s)"
  by (simp add: maker_spend_taker_payment_def Let_def maker_edge.intros split: sum.split option.split)

lemma maker_confirm_taker_payment_spend_follows:
  "maker_follows ConfirmTakerPaymentSpend s (maker_confirm_taker_payment_spend ctx t s)"
  by (simp add: maker_confirm_taker_payment_spend_def Let_def maker_edge.intros split: sum.split option.split)

lemma maker_refund_maker_payment_follows:
  "maker_follows RefundMakerPayment s (maker_refund_maker_payment ctx t s)"
  by (simp add: maker_refund_maker_payment_def Let_def maker_edge.intros split: sum.split option.split)

lemma maker_handle_follows: "maker_follows c s (maker_handle_command ctx t s c)"
  using maker_same
  by (cases c)
    (simp_all add: maker_start_follows maker_negotiate_follows maker_wait_taker_fee_follows
      maker_maker_payment_follows maker_wait_for_taker_payment_follows
      maker_validate_taker_payment_follows maker_spend_taker_payment_follows
      maker_confirm_taker_payment_spend_follows maker_refund_maker_payment_follows
      maker_prepare_for_maker_payment_refund_def maker_finalize_maker_payment_refund_def
      maker_edge.intros, simp add: maker_follows_def maker_edge.intros)

lemma maker_handle_edge:
  assumes "maker_handle_command ctx t s c = Some (effs, s', Ret (nc, evs))"
  shows "maker_edge c nc evs" and "\<exists>w. s' = s\<lparr>mm_watcher_reward := w\<rparr>"
  using maker_handle_follows [of c s ctx t] assms by (auto simp: maker_follows_def)

section \<open>The laws of the machine\<close>

fun maker_rank :: "maker_swap_command \<Rightarrow> nat" where
  "maker_rank maker_swap_command.Start = 11"
| "maker_rank maker_swap_command.Negotiate = 10"
| "maker_rank WaitForTakerFee = 9"
| "maker_rank SendPayment = 8"
| "maker_rank WaitForTakerPayment = 7"
| "maker_rank ValidateTakerPayment = 6"
| "maker_rank SpendTakerPayment = 5"
| "maker_rank ConfirmTakerPaymentSpend = 4"
| "maker_rank PrepareForMakerPaymentRefund = 3"
| "maker_rank RefundMakerPayment = 2"
| "maker_rank FinalizeMakerPaymentRefund = 1"
| "maker_rank maker_swap_command.Finish = 0"

lemma maker_edge_rank: "maker_edge c (Some c') evs \<Longrightarrow> maker_rank c' < maker_rank c"
  by (erule maker_edge.cases) simp_all

lemma maker_edge_nonempty: "maker_edge c nc evs \<Longrightarrow> evs \<noteq> []"
  by (erule maker_edge.cases) simp_all

lemma maker_edge_resumes: "maker_edge c nc evs \<Longrightarrow> maker_get_command (last evs) = nc"
  by (erule maker_edge.cases) simp_all

text \<open>
  The part of the state that the events determine: everything but \<open>watcher_reward\<close>, which \<open>start\<close>
  sets without an event, and the time at which \<open>Finished\<close> was applied.
\<close>

definition maker_obs :: "maker_swap \<Rightarrow> maker_swap" where
  "maker_obs s = s\<lparr>mm_watcher_reward := False, ms_finished_at := 0\<rparr>"

lemma maker_obs_eqD:
  assumes "maker_obs s = maker_obs s'"
  shows "s' = s\<lparr>mm_watcher_reward := mm_watcher_reward s', ms_finished_at := ms_finished_at s'\<rparr>"
  using assms by (cases s, cases s') (simp add: maker_obs_def)

lemma maker_obs_reward [simp]: "maker_obs (s\<lparr>mm_watcher_reward := w\<rparr>) = maker_obs s"
  by (simp add: maker_obs_def)

lemma maker_apply_update:
  "maker_obs (maker_apply_event now e (s\<lparr>mm_watcher_reward := w, ms_finished_at := f\<rparr>))
   = maker_obs (maker_apply_event now' e s)"
  by (cases e) (simp_all add: maker_obs_def maker_push_error_def Let_def)

interpretation maker_events: event_replay maker_apply_event maker_obs
proof
  fix s s' :: maker_swap and now now' e
  assume "maker_obs s = maker_obs s'"
  then show "maker_obs (maker_apply_event now e s) = maker_obs (maker_apply_event now' e s')"
    using maker_apply_update maker_obs_eqD by metis
qed

text \<open>What a stage relies on, and what is known at the end of a swap.\<close>

definition maker_ok :: "maker_swap_command \<Rightarrow> maker_swap \<Rightarrow> bool" where
  "maker_ok c s \<longleftrightarrow> keys_sized (ms_maker_coin s) \<and> keys_sized (ms_taker_coin s) \<and>
     (c \<in> {SendPayment, WaitForTakerPayment, ValidateTakerPayment, SpendTakerPayment,
           ConfirmTakerPaymentSpend, PrepareForMakerPaymentRefund, RefundMakerPayment,
           FinalizeMakerPaymentRefund} \<longrightarrow> mm_taker_fee s \<noteq> None) \<and>
     (c \<in> {WaitForTakerPayment, ValidateTakerPayment, SpendTakerPayment, ConfirmTakerPaymentSpend,
           PrepareForMakerPaymentRefund, RefundMakerPayment, FinalizeMakerPaymentRefund}
        \<longrightarrow> mm_maker_payment s \<noteq> None) \<and>
     (c \<in> {ValidateTakerPayment, SpendTakerPayment, ConfirmTakerPaymentSpend}
        \<longrightarrow> mm_taker_payment s \<noteq> None) \<and>
     (c \<in> {SpendTakerPayment, ConfirmTakerPaymentSpend} \<longrightarrow> ms_taker_payment_confirmed s) \<and>
     (c = ConfirmTakerPaymentSpend \<longrightarrow> mm_taker_payment_spend s \<noteq> None) \<and>
     (c \<in> {PrepareForMakerPaymentRefund, RefundMakerPayment, FinalizeMakerPaymentRefund}
        \<longrightarrow> ms_errors s \<noteq> []) \<and>
     (c = maker_swap_command.Finish \<longrightarrow>
        ms_errors s \<noteq> [] \<or> mm_taker_payment_spend s \<noteq> None \<and> mm_taker_payment_spend_confirmed s)"

lemma maker_ok_reward [simp]: "maker_ok c (s\<lparr>mm_watcher_reward := w\<rparr>) = maker_ok c s"
  by (simp add: maker_ok_def)

lemma maker_ok_obs:
  assumes "maker_obs s = maker_obs s'"
  shows "maker_ok c s = maker_ok c s'"
  using maker_obs_eqD [OF assms] by (cases s, cases s') (simp add: maker_ok_def)

lemma maker_edge_ok:
  assumes "maker_edge c nc evs" and "maker_ok c s"
    and "evs = pre @ e # post" "maker_get_command e = Some c'"
  shows "maker_ok c' (fold (maker_apply_event 0) (pre @ [e]) s)"
  using assms(1)
  by cases
    (insert assms(2-4), auto simp: event_splits maker_ok_def maker_push_error_def Let_def)

lemma maker_edge_ok_next:
  assumes "maker_edge c (Some c') evs" and "maker_ok c s"
  shows "maker_ok c' (fold (maker_apply_event 0) evs s)"
proof -
  have "evs = butlast evs @ last evs # []" and "maker_get_command (last evs) = Some c'"
    using maker_edge_nonempty maker_edge_resumes assms(1) by simp_all
  from maker_edge_ok [OF assms this] show ?thesis
    using maker_edge_nonempty [OF assms(1)] by simp
qed

subsection \<open>No stage panics\<close>

definition maker_safe :: "maker_stage option \<Rightarrow> bool" where
  "maker_safe r \<longleftrightarrow> (\<forall>effs s out. r = Some (effs, s, out) \<longrightarrow> (\<exists>nc evs. out = Ret (nc, evs)))"

lemma maker_safe_simps [simp]:
  "maker_safe None" "maker_safe (maker_ends s effs evs)" "maker_safe (maker_refunds s effs ev)"
  "maker_safe (maker_continues s effs c evs)" "\<not> maker_safe (maker_panics s effs)"
  by (simp_all add: maker_safe_def maker_result_defs)

lemma maker_start_safe: "maker_ok c s \<Longrightarrow> maker_safe (maker_start ctx t s)"
  by (simp add: maker_start_def Let_def maker_ok_def keys_sized_derive split: sum.split)

lemma maker_negotiate_safe:
  assumes "maker_ok c s"
  shows "maker_safe (maker_negotiate ctx t s)"
proof -
  have "c_validate_other_pubkey (ms_maker_coin s) k = Inr () \<Longrightarrow> hash_from_slice 33 k = Some (take 33 k)"
    and "c_validate_other_pubkey (ms_taker_coin s) k = Inr () \<Longrightarrow> hash_from_slice 33 k = Some (take 33 k)" for k
    using assms keys_sized_validate unfolding maker_ok_def by blast+
  then show ?thesis
    by (simp add: maker_negotiate_def maker_negotiate_failed_def Let_def split: sum.split option.split)
qed

lemmas maker_later_stage_defs =
  maker_wait_taker_fee_def maker_maker_payment_def maker_wait_for_taker_payment_def
  maker_get_my_payment_data_def maker_validate_taker_payment_def maker_spend_taker_payment_def
  maker_confirm_taker_payment_spend_def maker_prepare_for_maker_payment_refund_def
  maker_refund_maker_payment_def maker_finalize_maker_payment_refund_def

lemma maker_handle_safe:
  assumes "maker_ok c s"
  shows "maker_safe (maker_handle_command ctx t s c)"
proof (cases "c \<in> {maker_swap_command.Start, maker_swap_command.Negotiate, maker_swap_command.Finish}")
  case True
  then show ?thesis
    using maker_start_safe [OF assms] maker_negotiate_safe [OF assms] by (auto simp: maker_safe_def)
next
  case False
  with assms show ?thesis
    by (cases c) (auto simp: maker_later_stage_defs Let_def maker_ok_def split: sum.split option.split)
qed

subsection \<open>The database of the maker\<close>

type_synonym swap_key = "uuid \<times> uuid option \<times> coin \<times> coin"

definition maker_key :: "maker_swap \<Rightarrow> swap_key" where
  "maker_key s = (ms_uuid s, ms_my_order_uuid s, ms_maker_coin s, ms_taker_coin s)"

definition maker_log :: "swap_key \<Rightarrow> swap_db \<Rightarrow> maker_swap_event list" where
  "maker_log k db = (case db (fst k) of Some (Maker m) \<Rightarrow> mss_log m | _ \<Rightarrow> [])"

definition maker_fits :: "swap_key \<Rightarrow> swap_db \<Rightarrow> bool" where
  "maker_fits k db =
     (case db (fst k) of
        Some (Maker m) \<Rightarrow> mss_uuid m = fst k \<and> mss_my_order_uuid m = fst (snd k)
      | _ \<Rightarrow> True)"

definition maker_load :: "mm_ctx \<Rightarrow> moment \<Rightarrow> swap_key \<Rightarrow> swap_db \<Rightarrow> (maker_swap \<times> maker_swap_command) option" where
  "maker_load ctx t k db =
     (case k of (u, order_uuid, mc, tc) \<Rightarrow>
        (case maker_load_from_db_by_uuid ctx t mc tc u db of
           Ret (s, Some c) \<Rightarrow> Some (s, c)
         | _ \<Rightarrow> None))"

lemma usd_prices_same [simp]:
  "mss_uuid (maker_saved_fetch_and_set_usd_prices ctx t m) = mss_uuid m"
  "mss_my_order_uuid (maker_saved_fetch_and_set_usd_prices ctx t m) = mss_my_order_uuid m"
  "mss_events (maker_saved_fetch_and_set_usd_prices ctx t m) = mss_events m"
  by (simp_all add: maker_saved_fetch_and_set_usd_prices_def split: option.split)

lemma maker_save_appends:
  assumes "maker_fits (maker_key s) db"
    and "save_my_maker_swap_event ctx t i s \<lparr>mse_timestamp = n, mse_event = e\<rparr> db = Inr db'"
  shows "maker_log (maker_key s) db' = maker_log (maker_key s) db @ [e] \<and> maker_fits (maker_key s) db'"
  using assms
  by (auto simp: save_my_maker_swap_event_def load_my_swap_from_db_def save_to_db_def Let_def
      maker_log_def maker_fits_def maker_key_def maker_saved_swap_new_def
      split: option.splits saved_swap.splits if_splits)

text \<open>
  A swap as \<open>MakerSwap::new\<close> creates it on this node, and the first event \<open>start\<close> saves for it.
\<close>

definition maker_origin :: "mm_ctx \<Rightarrow> maker_swap \<Rightarrow> bool" where
  "maker_origin ctx s \<longleftrightarrow>
     s = maker_swap_new (ms_taker s) (ms_maker_amount s) (ms_taker_amount s) (ms_my_persistent_pub s)
           (ms_uuid s) (ms_my_order_uuid s) (ms_conf_settings s) (ms_maker_coin s) (ms_taker_coin s)
           (ms_payment_locktime s) (ms_p2p_privkey s) (ms_secret s) \<and>
     x_internal_pubkey ctx = Inr (ms_my_persistent_pub s) \<and> length (ms_my_persistent_pub s) = 33 \<and>
     keys_sized (ms_maker_coin s) \<and> keys_sized (ms_taker_coin s)"

fun maker_genuine :: "maker_swap \<Rightarrow> maker_swap_event \<Rightarrow> bool" where
  "maker_genuine s0 (maker_swap_event.Started d) \<longleftrightarrow>
     md_taker d = ms_taker s0 \<and> md_maker_amount d = ms_maker_amount s0 \<and>
     md_taker_amount d = ms_taker_amount s0 \<and> md_lock_duration d = ms_payment_locktime s0 \<and>
     md_p2p_privkey d = ms_p2p_privkey s0 \<and> md_secret d = ms_secret s0 \<and>
     maker_load_conf_settings (ms_maker_coin s0) (ms_taker_coin s0) d = ms_conf_settings s0 \<and>
     maker_refresh_data (ms_maker_coin s0) (ms_taker_coin s0) d = d"
| "maker_genuine s0 (maker_swap_event.StartFailed e) \<longleftrightarrow> True"
| "maker_genuine s0 ev \<longleftrightarrow> False"

lemma maker_start_data:
  assumes "maker_start ctx t s = Some (effs, s', Ret (nc, evs))"
  shows "maker_genuine s (hd evs)"
  using assms
  by (auto simp: maker_start_def Let_def maker_result_defs maker_load_conf_settings_def
      maker_refresh_data_def split: sum.splits option.splits)

lemma maker_ops_simps [simp]:
  "op_handle (maker_ops ctx) = maker_handle_command ctx" "op_apply (maker_ops ctx) = maker_apply_event"
  "op_save (maker_ops ctx) t i s ev = save_my_maker_swap_event ctx t i s
     \<lparr>mse_timestamp = x_now_ms ctx t i, mse_event = ev\<rparr>"
  "op_should_ban (maker_ops ctx) = should_ban_taker" "op_other_pubkey (maker_ops ctx) = ms_taker"
  "op_uuid (maker_ops ctx) = ms_uuid" "op_clock (maker_ops ctx) = x_apply_now ctx"
  by (simp_all add: maker_ops_def)

lemma maker_key_obs: "maker_obs s = maker_obs s' \<Longrightarrow> maker_key s = maker_key s'"
  by (drule maker_obs_eqD, erule ssubst) (simp add: maker_key_def)

lemma maker_key_apply: "maker_key (maker_apply_event now e s) = maker_key s"
  by (cases e) (simp_all add: maker_key_def maker_push_error_def Let_def)

lemma maker_genuine_obs: "maker_obs s = maker_obs s' \<Longrightarrow> maker_genuine s e = maker_genuine s' e"
  by (drule maker_obs_eqD, erule ssubst) (cases e; simp)

lemma maker_ok_start: "maker_origin ctx s0 \<Longrightarrow> maker_ok maker_swap_command.Start s0"
  by (simp add: maker_origin_def maker_ok_def)

end
