(* ===== verification/MakerLife.thy ===== *)
theory MakerLife
  imports MakerMachine
begin

text \<open>
  The laws of \<open>swap_machine\<close> for the maker, and what they give for a maker node over its whole life:
  the loop of \<open>run_maker_swap\<close> ends, the saved events determine the running swap, a restart resumes it
  where it was, no stage panics, and the moves of funds happen in the states they are meant for.
\<close>

section \<open>The maker is a swap machine\<close>

lemma maker_load_from_saved_replays:
  assumes "maker_load_from_saved ctx now mc tc saved = Ret (s, nc)"
  obtains d evs pub where "mss_log saved = maker_swap_event.Started d # evs"
    and "x_internal_pubkey ctx = Inr pub"
    and "nc = maker_get_command (last (mss_log saved))"
    and "s = fold (maker_apply_event now) (maker_swap_event.Started (maker_refresh_data mc tc d) # evs)
               (maker_swap_new (md_taker d) (md_maker_amount d) (md_taker_amount d) (take 33 pub)
                  (mss_uuid saved) (mss_my_order_uuid saved) (maker_load_conf_settings mc tc d)
                  mc tc (md_lock_duration d) (md_p2p_privkey d) (md_secret d))"
proof -
  have fields: "md_taker (maker_refresh_data mc tc d) = md_taker d"
    "md_maker_amount (maker_refresh_data mc tc d) = md_maker_amount d"
    "md_taker_amount (maker_refresh_data mc tc d) = md_taker_amount d"
    "md_lock_duration (maker_refresh_data mc tc d) = md_lock_duration d"
    "md_p2p_privkey (maker_refresh_data mc tc d) = md_p2p_privkey d"
    "md_secret (maker_refresh_data mc tc d) = md_secret d"
    "maker_load_conf_settings mc tc (maker_refresh_data mc tc d) = maker_load_conf_settings mc tc d" for d
    by (simp_all add: maker_refresh_data_def maker_load_conf_settings_def Let_def)
  from assms that show ?thesis
    by (auto simp: maker_load_from_saved_def Let_def fields hash_from_slice_def
        split: list.splits maker_swap_event.splits sum.splits option.splits if_splits)
qed

lemma maker_load_replays:
  assumes org: "maker_origin ctx s0" and fit: "maker_fits (maker_key s0) db"
    and gen: "maker_genuine s0 (hd (maker_log (maker_key s0) db))"
    and ld: "maker_load ctx t (maker_key s0) db = Some (s, c)"
  shows "maker_log (maker_key s0) db \<noteq> [] \<and>
    maker_get_command (last (maker_log (maker_key s0) db)) = Some c \<and>
    maker_obs s = maker_obs (fold (maker_apply_event 0) (maker_log (maker_key s0) db) s0)"
proof -
  from ld obtain m where m: "db (ms_uuid s0) = Some (Maker m)"
    and l: "maker_load_from_saved ctx (x_apply_now ctx t 0) (ms_maker_coin s0) (ms_taker_coin s0) m
            = Ret (s, Some c)"
    by (auto simp: maker_load_def maker_key_def maker_load_from_db_by_uuid_def load_my_swap_from_db_def
        split: outcome.splits option.splits saved_swap.splits)
  then have log: "maker_log (maker_key s0) db = mss_log m"
    by (simp add: maker_log_def maker_key_def)
  from l obtain d evs pub where d: "mss_log m = maker_swap_event.Started d # evs"
    and pub: "x_internal_pubkey ctx = Inr pub"
    and c: "Some c = maker_get_command (last (mss_log m))"
    and s: "s = fold (maker_apply_event (x_apply_now ctx t 0))
              (maker_swap_event.Started (maker_refresh_data (ms_maker_coin s0) (ms_taker_coin s0) d) # evs)
               (maker_swap_new (md_taker d) (md_maker_amount d) (md_taker_amount d) (take 33 pub)
                  (mss_uuid m) (mss_my_order_uuid m)
                  (maker_load_conf_settings (ms_maker_coin s0) (ms_taker_coin s0) d)
                  (ms_maker_coin s0) (ms_taker_coin s0) (md_lock_duration d) (md_p2p_privkey d) (md_secret d))"
    by (rule maker_load_from_saved_replays)
  have "mss_uuid m = ms_uuid s0 \<and> mss_my_order_uuid m = ms_my_order_uuid s0"
    using fit m by (simp add: maker_fits_def maker_key_def)
  moreover have "take 33 pub = ms_my_persistent_pub s0"
    using org pub by (simp add: maker_origin_def)
  ultimately have "s = fold (maker_apply_event (x_apply_now ctx t 0)) (maker_swap_event.Started d # evs) s0"
    using gen org unfolding s log d maker_origin_def by simp
  then have "maker_obs s = maker_obs (fold (maker_apply_event 0) (maker_swap_event.Started d # evs) s0)"
    using maker_events.fold_apply_obs [OF refl] by blast
  then show ?thesis using log d c by simp
qed

lemma maker_load_empty: "maker_log k db = [] \<Longrightarrow> maker_load ctx t k db = None"
  by (cases k, cases "db (fst k)")
    (auto simp: maker_log_def maker_load_def maker_load_from_db_by_uuid_def load_my_swap_from_db_def
      maker_load_from_saved_def split: option.split saved_swap.splits)

interpretation maker: swap_machine "maker_ops ctx" maker_obs "maker_load ctx" maker_swap_command.Start
  maker_rank maker_get_command maker_key maker_log maker_fits "maker_origin ctx" maker_genuine maker_ok
  "\<lambda>e. False" "\<lambda>e. False"
  for ctx
proof (unfold_locales, unfold maker_ops_simps)
  fix t s c effs s' nc evs assume h: "maker_handle_command ctx t s c = Some (effs, s', Ret (nc, evs))"
  note edge = maker_handle_edge [OF h]
  show "evs \<noteq> []" using maker_edge_nonempty edge by blast
  show "maker_obs s' = maker_obs s" using edge(2) by auto
  show "maker_get_command (last evs) = nc" using maker_edge_resumes edge by blast
  { fix pre e post c' assume "maker_ok c s" "evs = pre @ e # post" "maker_get_command e = Some c'"
    then show "maker_ok c' (fold (maker_apply_event 0) (pre @ [e]) s')"
      using maker_edge_ok edge by fastforce }
next
  fix t s c effs s' c' evs assume h: "maker_handle_command ctx t s c = Some (effs, s', Ret (Some c', evs))"
  note edge = maker_handle_edge [OF h]
  show "maker_rank c' < maker_rank c" using maker_edge_rank edge by blast
  show "maker_ok c s \<Longrightarrow> maker_ok c' (fold (maker_apply_event 0) evs s')"
    using maker_edge_ok_next edge by fastforce
next
  fix s0 s t effs s' nc evs
  assume "maker_obs s = maker_obs s0"
    and "maker_handle_command ctx t s maker_swap_command.Start = Some (effs, s', Ret (nc, evs))"
  then have "maker_genuine s (hd evs)" using maker_start_data by simp
  then show "maker_genuine s0 (hd evs)" using maker_genuine_obs [OF \<open>maker_obs s = maker_obs s0\<close>] by simp
next
  fix c s t effs s' out
  assume "maker_ok c s" and "maker_handle_command ctx t s c = Some (effs, s', out)"
  then show "out \<noteq> Panic" using maker_handle_safe [of c s ctx t] by (auto simp: maker_safe_def)
qed (rule maker_events.apply_obs maker_key_obs maker_key_apply maker_save_appends maker_load_replays
  maker_load_empty maker_ok_obs maker_ok_start; assumption)+

end
