(* ===== verification/TakerMachine.thy ===== *)
theory TakerMachine
  imports SavedSwap
begin

text \<open>
  The taker's swap as a state machine: the transition diagram \<open>taker_edge\<close>, the proof that the stages
  of \<open>TakerSwap\<close> implement it, and the facts that make it a \<open>swap_machine\<close>. Unlike the maker the taker
  has last events after which a restarted swap does something else than the running one
  (\<open>taker_diverts\<close>), and one event after which a restarted swap panics (\<open>taker_fragile\<close>).
\<close>

section \<open>The transition diagram\<close>

inductive taker_edge ::
  "taker_swap_command \<Rightarrow> taker_swap_command option \<Rightarrow> taker_swap_event list \<Rightarrow> bool" where
  start_failed: "taker_edge taker_swap_command.Start (Some taker_swap_command.Finish) [taker_swap_event.StartFailed e]"
| started: "taker_edge taker_swap_command.Start (Some taker_swap_command.Negotiate) [taker_swap_event.Started d]"
| negotiate_failed:
    "taker_edge taker_swap_command.Negotiate (Some taker_swap_command.Finish) [taker_swap_event.NegotiateFailed e]"
| negotiated: "taker_edge taker_swap_command.Negotiate (Some SendTakerFee) [taker_swap_event.Negotiated n]"
| fee_failed: "taker_edge SendTakerFee (Some taker_swap_command.Finish) [TakerFeeSendFailed e]"
| fee_sent: "taker_edge SendTakerFee (Some WaitForMakerPayment) [TakerFeeSent tx]"
| maker_payment_missing:
    "taker_edge WaitForMakerPayment (Some taker_swap_command.Finish) [MakerPaymentValidateFailed e]"
| maker_payment_received:
    "taker_edge WaitForMakerPayment (Some ValidateMakerPayment)
       [TakerPaymentInstructionsReceived i, MakerPaymentReceived tx, MakerPaymentWaitConfirmStarted]"
| maker_payment_confirm_failed:
    "taker_edge ValidateMakerPayment (Some taker_swap_command.Finish)
       [taker_swap_event.MakerPaymentWaitConfirmFailed e]"
| maker_payment_reward_failed:
    "taker_edge ValidateMakerPayment (Some taker_swap_command.Finish) [TakerPaymentTransactionFailed e]"
| maker_payment_invalid:
    "taker_edge ValidateMakerPayment (Some taker_swap_command.Finish) [MakerPaymentValidateFailed e]"
| maker_payment_valid:
    "taker_edge ValidateMakerPayment (Some SendTakerPayment) [MakerPaymentValidatedAndConfirmed]"
| payment_failed: "taker_edge SendTakerPayment (Some taker_swap_command.Finish) [TakerPaymentTransactionFailed e]"
| payment_sent: "taker_edge SendTakerPayment (Some WaitForTakerPaymentSpend) [TakerPaymentSent tx]"
| payment_sent_watched:
    "taker_edge SendTakerPayment (Some WaitForTakerPaymentSpend)
       [TakerPaymentSent tx, WatcherMessageSent (Some a) (Some b)]"
| payment_confirm_failed:
    "taker_edge WaitForTakerPaymentSpend (Some PrepareForTakerPaymentRefund)
       [taker_swap_event.TakerPaymentWaitConfirmFailed e, TakerPaymentWaitRefundStarted w]"
| spend_not_found:
    "taker_edge WaitForTakerPaymentSpend (Some PrepareForTakerPaymentRefund)
       [TakerPaymentWaitForSpendFailed e, TakerPaymentWaitRefundStarted w]"
| secret_not_found:
    "taker_edge WaitForTakerPaymentSpend (Some taker_swap_command.Finish) [TakerPaymentWaitForSpendFailed e]"
| payment_spent:
    "taker_edge WaitForTakerPaymentSpend (Some SpendMakerPayment) [taker_swap_event.TakerPaymentSpent p]"
| spend_failed: "taker_edge SpendMakerPayment (Some taker_swap_command.Finish) [MakerPaymentSpendFailed e]"
| spent: "taker_edge SpendMakerPayment (Some taker_swap_command.Finish) [MakerPaymentSpent tx]"
| refund_prepared:
    "taker_edge PrepareForTakerPaymentRefund (Some RefundTakerPayment) [TakerPaymentRefundStarted]"
| refunded: "taker_edge RefundTakerPayment (Some FinalizeTakerPaymentRefund) [TakerPaymentRefunded r]"
| refund_failed: "taker_edge RefundTakerPayment (Some taker_swap_command.Finish) [TakerPaymentRefundFailed e]"
| refund_finished:
    "taker_edge FinalizeTakerPaymentRefund (Some taker_swap_command.Finish) [TakerPaymentRefundFinished]"
| finished: "taker_edge taker_swap_command.Finish None [taker_swap_event.Finished]"

inductive_cases taker_edge_Start: "taker_edge taker_swap_command.Start nc evs"
inductive_cases taker_edge_SendPayment: "taker_edge SendTakerPayment nc evs"
inductive_cases taker_edge_Finish: "taker_edge c (Some taker_swap_command.Finish) evs"

definition taker_follows :: "taker_swap_command \<Rightarrow> taker_swap \<Rightarrow> taker_stage option \<Rightarrow> bool" where
  "taker_follows c s r \<longleftrightarrow>
     (\<forall>effs s' nc evs. r = Some (effs, s', Ret (nc, evs)) \<longrightarrow>
        taker_edge c nc evs \<and> (\<exists>w. s' = s\<lparr>tm_watcher_reward := w\<rparr>))"

lemma taker_same: "\<exists>w. s = s\<lparr>tm_watcher_reward := w\<rparr>"
  by (rule exI [where x = "tm_watcher_reward s"]) simp

lemma taker_follows_None [simp]: "taker_follows c s None"
  by (simp add: taker_follows_def)

lemma taker_follows_Err [simp]: "taker_follows c s (Some (effs, s, Err e))"
  by (simp add: taker_follows_def)

lemma taker_follows_ends [simp]:
  "taker_follows c s (taker_ends s effs evs) \<longleftrightarrow> taker_edge c (Some taker_swap_command.Finish) evs"
  using taker_same by (auto simp: taker_follows_def taker_ends_def)

lemma taker_follows_refunds [simp]:
  "taker_follows c s (taker_refunds s effs ev) \<longleftrightarrow>
     taker_edge c (Some PrepareForTakerPaymentRefund)
       [ev, TakerPaymentWaitRefundStarted (taker_wait_refund_until s)]"
  using taker_same by (auto simp: taker_follows_def taker_refunds_def)

lemma taker_follows_continues [simp]:
  "taker_follows c s (taker_continues (s\<lparr>tm_watcher_reward := w\<rparr>) effs c' evs) \<longleftrightarrow> taker_edge c (Some c') evs"
  "taker_follows c s (taker_continues s effs c' evs) \<longleftrightarrow> taker_edge c (Some c') evs"
  using taker_same by (auto simp: taker_follows_def taker_continues_def)

lemma taker_follows_panics [simp]: "taker_follows c s (taker_panics s effs)"
  by (simp add: taker_follows_def taker_panics_def)

lemma taker_start_follows: "taker_follows taker_swap_command.Start s (taker_start ctx t s)"
  by (simp add: taker_start_def Let_def taker_edge.intros split: sum.split option.split)

lemma taker_negotiate_follows: "taker_follows taker_swap_command.Negotiate s (taker_negotiate ctx t s)"
  by (simp add: taker_negotiate_def taker_negotiate_failed_def Let_def taker_edge.intros
      split: sum.split option.split)

lemma taker_send_taker_fee_follows: "taker_follows SendTakerFee s (taker_send_taker_fee ctx t s)"
  by (simp add: taker_send_taker_fee_def Let_def taker_edge.intros split: sum.split)

lemma taker_wait_for_maker_payment_follows:
  "taker_follows WaitForMakerPayment s (taker_wait_for_maker_payment ctx t s)"
  by (simp add: taker_wait_for_maker_payment_def Let_def taker_edge.intros split: sum.split option.split)

lemma taker_validate_maker_payment_follows:
  "taker_follows ValidateMakerPayment s (taker_validate_maker_payment ctx t s)"
  by (simp add: taker_validate_maker_payment_def Let_def taker_edge.intros split: sum.split option.split)

lemma taker_after_payment_follows: "taker_follows SendTakerPayment s (taker_after_payment ctx t s effs tx)"
  by (simp add: taker_after_payment_def Let_def taker_edge.intros split: sum.split option.split)

lemma taker_send_taker_payment_follows:
  "taker_follows SendTakerPayment s (taker_send_taker_payment ctx t s)"
  by (simp add: taker_send_taker_payment_def taker_after_payment_follows Let_def taker_edge.intros
      split: sum.split option.split)

lemma taker_wait_for_taker_payment_spend_follows:
  "taker_follows WaitForTakerPaymentSpend s (taker_wait_for_taker_payment_spend ctx t s)"
  by (simp add: taker_wait_for_taker_payment_spend_def Let_def taker_edge.intros split: sum.split option.split)

lemma taker_spend_maker_payment_follows:
  "taker_follows SpendMakerPayment s (taker_spend_maker_payment ctx t s)"
  by (simp add: taker_spend_maker_payment_def Let_def taker_edge.intros split: sum.split option.split)

lemma taker_refund_taker_payment_follows:
  "taker_follows RefundTakerPayment s (taker_refund_taker_payment ctx t s)"
  by (simp add: taker_refund_taker_payment_def Let_def taker_edge.intros split: sum.split option.split)

lemma taker_prepare_follows:
  "taker_follows PrepareForTakerPaymentRefund s (taker_prepare_for_taker_payment_refund ctx t s)"
  by (simp add: taker_prepare_for_taker_payment_refund_def taker_edge.intros split: option.split)

lemma taker_finalize_follows:
  "taker_follows FinalizeTakerPaymentRefund s (taker_finalize_taker_payment_refund ctx t s)"
  by (simp add: taker_finalize_taker_payment_refund_def taker_edge.intros split: option.split)

lemma taker_finish_follows:
  "taker_follows taker_swap_command.Finish s (Some ([], s, Ret (None, [taker_swap_event.Finished])))"
  using taker_same by (simp add: taker_follows_def taker_edge.intros)

lemma taker_handle_follows: "taker_follows c s (taker_handle_command ctx t s c)"
  by (cases c)
    (simp_all add: taker_start_follows taker_negotiate_follows taker_send_taker_fee_follows
      taker_wait_for_maker_payment_follows taker_validate_maker_payment_follows
      taker_send_taker_payment_follows taker_wait_for_taker_payment_spend_follows
      taker_spend_maker_payment_follows taker_refund_taker_payment_follows
      taker_prepare_follows taker_finalize_follows taker_finish_follows)

lemma taker_handle_edge:
  assumes "taker_handle_command ctx t s c = Some (effs, s', Ret (nc, evs))"
  shows "taker_edge c nc evs" and "\<exists>w. s' = s\<lparr>tm_watcher_reward := w\<rparr>"
  using taker_handle_follows [of c s ctx t] assms by (auto simp: taker_follows_def)

section \<open>The laws of the machine\<close>

fun taker_rank :: "taker_swap_command \<Rightarrow> nat" where
  "taker_rank taker_swap_command.Start = 11"
| "taker_rank taker_swap_command.Negotiate = 10"
| "taker_rank SendTakerFee = 9"
| "taker_rank WaitForMakerPayment = 8"
| "taker_rank ValidateMakerPayment = 7"
| "taker_rank SendTakerPayment = 6"
| "taker_rank WaitForTakerPaymentSpend = 5"
| "taker_rank SpendMakerPayment = 4"
| "taker_rank PrepareForTakerPaymentRefund = 3"
| "taker_rank RefundTakerPayment = 2"
| "taker_rank FinalizeTakerPaymentRefund = 1"
| "taker_rank taker_swap_command.Finish = 0"

fun taker_diverts :: "taker_swap_event \<Rightarrow> bool" where
  "taker_diverts (TakerPaymentWaitForSpendFailed e) = True"
| "taker_diverts (MakerPaymentSpendFailed e) = True"
| "taker_diverts ev = False"

fun taker_fragile :: "taker_swap_event \<Rightarrow> bool" where
  "taker_fragile (TakerPaymentInstructionsReceived i) = True"
| "taker_fragile ev = False"

lemma taker_edge_rank: "taker_edge c (Some c') evs \<Longrightarrow> taker_rank c' < taker_rank c"
  by (erule taker_edge.cases) simp_all

lemma taker_edge_nonempty: "taker_edge c nc evs \<Longrightarrow> evs \<noteq> []"
  by (erule taker_edge.cases) simp_all

lemma taker_edge_resumes:
  "taker_edge c nc evs \<Longrightarrow> \<not> taker_diverts (last evs) \<Longrightarrow> taker_get_command (last evs) = nc"
  by (erule taker_edge.cases) simp_all

definition taker_obs :: "taker_swap \<Rightarrow> taker_swap" where
  "taker_obs s = s\<lparr>tm_watcher_reward := False, ts_finished_at := 0\<rparr>"

lemma taker_obs_eqD:
  assumes "taker_obs s = taker_obs s'"
  shows "s' = s\<lparr>tm_watcher_reward := tm_watcher_reward s', ts_finished_at := ts_finished_at s'\<rparr>"
  using assms by (cases s, cases s') (simp add: taker_obs_def)

lemma taker_obs_reward [simp]: "taker_obs (s\<lparr>tm_watcher_reward := w\<rparr>) = taker_obs s"
  by (simp add: taker_obs_def)

lemma taker_apply_update:
  "taker_obs (taker_apply_event now e (s\<lparr>tm_watcher_reward := w, ts_finished_at := f\<rparr>))
   = taker_obs (taker_apply_event now' e s)"
  by (cases e) (simp_all add: taker_obs_def taker_push_error_def Let_def)

interpretation taker_events: event_replay taker_apply_event taker_obs
proof
  fix s s' :: taker_swap and now now' e
  assume "taker_obs s = taker_obs s'"
  then show "taker_obs (taker_apply_event now e s) = taker_obs (taker_apply_event now' e s')"
    using taker_apply_update taker_obs_eqD by metis
qed

text \<open>A coin whose \<open>extract_secret\<close> gives secrets of at least 32 bytes; the conversion panics on less.\<close>

definition secrets_sized :: "coin \<Rightarrow> bool" where
  "secrets_sized c \<longleftrightarrow>
     (\<forall>t secret_hash tx reward b. c_extract_secret c t secret_hash tx reward = Inr b \<longrightarrow> 32 \<le> length b)"

definition taker_ok :: "taker_swap_command \<Rightarrow> taker_swap \<Rightarrow> bool" where
  "taker_ok c s \<longleftrightarrow>
     keys_sized (ts_maker_coin s) \<and> keys_sized (ts_taker_coin s) \<and> secrets_sized (ts_taker_coin s) \<and>
     (c \<in> {WaitForMakerPayment, ValidateMakerPayment, SendTakerPayment, WaitForTakerPaymentSpend,
           SpendMakerPayment, PrepareForTakerPaymentRefund, RefundTakerPayment,
           FinalizeTakerPaymentRefund} \<longrightarrow> tm_taker_fee s \<noteq> None) \<and>
     (c \<in> {ValidateMakerPayment, SendTakerPayment, WaitForTakerPaymentSpend, SpendMakerPayment,
           PrepareForTakerPaymentRefund, RefundTakerPayment, FinalizeTakerPaymentRefund}
        \<longrightarrow> tm_maker_payment s \<noteq> None) \<and>
     (c \<in> {SendTakerPayment, WaitForTakerPaymentSpend, SpendMakerPayment, PrepareForTakerPaymentRefund,
           RefundTakerPayment, FinalizeTakerPaymentRefund} \<longrightarrow> ts_maker_payment_confirmed s) \<and>
     (c \<in> {WaitForTakerPaymentSpend, SpendMakerPayment, PrepareForTakerPaymentRefund,
           RefundTakerPayment, FinalizeTakerPaymentRefund} \<longrightarrow> tm_taker_payment s \<noteq> None) \<and>
     (c = SpendMakerPayment \<longrightarrow> tm_taker_payment_spend s \<noteq> None) \<and>
     (c \<in> {PrepareForTakerPaymentRefund, RefundTakerPayment, FinalizeTakerPaymentRefund}
        \<longrightarrow> ts_errors s \<noteq> []) \<and>
     (c = taker_swap_command.Finish \<longrightarrow> ts_errors s \<noteq> [] \<or> tm_maker_payment_spend s \<noteq> None)"

lemma taker_ok_reward [simp]: "taker_ok c (s\<lparr>tm_watcher_reward := w\<rparr>) = taker_ok c s"
  by (simp add: taker_ok_def)

lemma taker_ok_obs:
  assumes "taker_obs s = taker_obs s'"
  shows "taker_ok c s = taker_ok c s'"
  using taker_obs_eqD [OF assms] by (cases s, cases s') (simp add: taker_ok_def)

lemma taker_edge_ok:
  assumes "taker_edge c nc evs" and "taker_ok c s"
    and "evs = pre @ e # post" "taker_get_command e = Some c'" "\<not> taker_fragile e"
  shows "taker_ok c' (fold (taker_apply_event 0) (pre @ [e]) s)"
  using assms(1)
  by cases
    (insert assms(2-5), auto simp: event_splits taker_ok_def taker_push_error_def Let_def)

lemma taker_edge_diverts:
  assumes "taker_edge c nc evs" "taker_diverts (last evs)"
  obtains err where "nc = Some taker_swap_command.Finish" "fold (taker_apply_event 0) evs = taker_push_error err"
  using assms by cases (auto simp: fun_eq_iff)

lemma taker_ok_error: "taker_ok c s \<Longrightarrow> taker_ok taker_swap_command.Finish (taker_push_error err s)"
  by (simp add: taker_ok_def taker_push_error_def)

lemma taker_edge_ok_next:
  assumes "taker_edge c (Some c') evs" and "taker_ok c s"
  shows "taker_ok c' (fold (taker_apply_event 0) evs s)"
proof (cases "taker_diverts (last evs)")
  case True
  with assms(1) obtain err where "c' = taker_swap_command.Finish"
    and "fold (taker_apply_event 0) evs = taker_push_error err"
    by (rule taker_edge_diverts) simp
  then show ?thesis using taker_ok_error [OF assms(2)] by simp
next
  case False
  have "evs = butlast evs @ last evs # []" and "taker_get_command (last evs) = Some c'"
    using taker_edge_nonempty taker_edge_resumes assms(1) False by simp_all
  moreover have "\<not> taker_fragile (last evs)" using assms(1) by cases simp_all
  ultimately show ?thesis
    using taker_edge_ok [OF assms] taker_edge_nonempty [OF assms(1)] append_butlast_last_id by metis
qed

subsection \<open>No stage panics\<close>

definition taker_safe :: "taker_stage option \<Rightarrow> bool" where
  "taker_safe r \<longleftrightarrow> (\<forall>effs s out. r = Some (effs, s, out) \<longrightarrow> out \<noteq> Panic)"

lemma taker_safe_simps [simp]:
  "taker_safe None" "taker_safe (taker_ends s effs evs)" "taker_safe (taker_refunds s effs ev)"
  "taker_safe (taker_continues s effs c evs)" "\<not> taker_safe (taker_panics s effs)"
  "taker_safe (Some (effs, s, Err e))" "taker_safe (Some (effs, s, Ret r))"
  by (simp_all add: taker_safe_def taker_result_defs)

lemma taker_start_safe: "taker_ok c s \<Longrightarrow> taker_safe (taker_start ctx t s)"
  by (simp add: taker_start_def Let_def taker_ok_def keys_sized_derive split: sum.split)

lemma taker_negotiate_safe:
  assumes "taker_ok c s"
  shows "taker_safe (taker_negotiate ctx t s)"
proof -
  have "c_validate_other_pubkey (ts_maker_coin s) k = Inr () \<Longrightarrow> hash_from_slice 33 k = Some (take 33 k)"
    and "c_validate_other_pubkey (ts_taker_coin s) k = Inr () \<Longrightarrow> hash_from_slice 33 k = Some (take 33 k)" for k
    using assms keys_sized_validate unfolding taker_ok_def by blast+
  then show ?thesis
    by (simp add: taker_negotiate_def taker_negotiate_failed_def Let_def split: sum.split option.split)
qed

lemma taker_after_payment_safe:
  assumes "taker_ok SendTakerPayment s"
  shows "taker_safe (taker_after_payment ctx t s effs tx)"
proof -
  obtain fee payment where "tm_taker_fee s = Some fee" "tm_maker_payment s = Some payment"
    using assms by (auto simp: taker_ok_def)
  then show ?thesis
    by (simp add: taker_after_payment_def taker_create_watcher_data_def Let_def
        split: sum.split option.split)
qed

lemma taker_send_taker_payment_safe:
  "taker_ok SendTakerPayment s \<Longrightarrow> taker_safe (taker_send_taker_payment ctx t s)"
  by (simp add: taker_send_taker_payment_def taker_after_payment_safe Let_def split: sum.split option.split)

lemma taker_wait_for_taker_payment_spend_safe:
  assumes "taker_ok WaitForTakerPaymentSpend s"
  shows "taker_safe (taker_wait_for_taker_payment_spend ctx t s)"
proof -
  obtain fee payment taker_payment where "tm_taker_fee s = Some fee" "tm_maker_payment s = Some payment"
    and tp: "tm_taker_payment s = Some taker_payment"
    using assms by (auto simp: taker_ok_def)
  then have "\<exists>effs. taker_watcher_broadcast ctx s p = Some effs" for p
    by (simp add: taker_watcher_broadcast_def taker_create_watcher_data_def split: option.split)
  moreover have "c_extract_secret (ts_taker_coin s) t h tx r = Inr b \<Longrightarrow>
      hash_from_slice 32 b = Some (take 32 b)" for h tx r b
    using assms by (auto simp: taker_ok_def secrets_sized_def hash_from_slice_def)
  ultimately show ?thesis
    using tp by (auto simp: taker_wait_for_taker_payment_spend_def Let_def split: sum.split option.split)
qed

lemmas taker_simple_stage_defs =
  taker_send_taker_fee_def taker_wait_for_maker_payment_def taker_get_taker_fee_data_def
  taker_validate_maker_payment_def taker_spend_maker_payment_def
  taker_prepare_for_taker_payment_refund_def taker_refund_taker_payment_def
  taker_finalize_taker_payment_refund_def

lemma taker_handle_safe:
  assumes "taker_ok c s"
  shows "taker_safe (taker_handle_command ctx t s c)"
proof (cases "c \<in> {taker_swap_command.Start, taker_swap_command.Negotiate, SendTakerPayment,
                  WaitForTakerPaymentSpend, taker_swap_command.Finish}")
  case True
  then show ?thesis
    using taker_start_safe [OF assms] taker_negotiate_safe [OF assms] assms
      taker_send_taker_payment_safe taker_wait_for_taker_payment_spend_safe
    by auto
next
  case False
  with assms show ?thesis
    by (cases c) (auto simp: taker_simple_stage_defs Let_def taker_ok_def split: sum.split option.split)
qed

subsection \<open>The database of the taker\<close>

definition taker_key :: "taker_swap \<Rightarrow> uuid \<times> uuid option \<times> coin \<times> coin" where
  "taker_key s = (ts_uuid s, ts_my_order_uuid s, ts_maker_coin s, ts_taker_coin s)"

definition taker_log :: "uuid \<times> uuid option \<times> coin \<times> coin \<Rightarrow> swap_db \<Rightarrow> taker_swap_event list" where
  "taker_log k db = (case db (fst k) of Some (Taker m) \<Rightarrow> tss_log m | _ \<Rightarrow> [])"

definition taker_fits :: "uuid \<times> uuid option \<times> coin \<times> coin \<Rightarrow> swap_db \<Rightarrow> bool" where
  "taker_fits k db = (case db (fst k) of Some (Taker m) \<Rightarrow> tss_uuid m = fst k | _ \<Rightarrow> True)"

definition taker_load ::
  "mm_ctx \<Rightarrow> moment \<Rightarrow> uuid \<times> uuid option \<times> coin \<times> coin \<Rightarrow> swap_db \<Rightarrow>
   (taker_swap \<times> taker_swap_command) option" where
  "taker_load ctx t k db =
     (case k of (u, order_uuid, mc, tc) \<Rightarrow>
        (case taker_load_from_db_by_uuid ctx t mc tc u db of
           Ret (s, Some c) \<Rightarrow> Some (s, c)
         | _ \<Rightarrow> None))"

lemma taker_usd_prices_same [simp]:
  "tss_uuid (taker_saved_fetch_and_set_usd_prices ctx t m) = tss_uuid m"
  "tss_events (taker_saved_fetch_and_set_usd_prices ctx t m) = tss_events m"
  by (simp_all add: taker_saved_fetch_and_set_usd_prices_def split: option.split)

lemma taker_save_appends:
  assumes "taker_fits (taker_key s) db"
    and "save_my_taker_swap_event ctx t i s \<lparr>tse_timestamp = n, tse_event = e\<rparr> db = Inr db'"
  shows "taker_log (taker_key s) db' = taker_log (taker_key s) db @ [e] \<and> taker_fits (taker_key s) db'"
  using assms
  by (auto simp: save_my_taker_swap_event_def load_my_swap_from_db_def save_to_db_def Let_def
      taker_log_def taker_fits_def taker_key_def taker_saved_swap_new_def
      split: option.splits saved_swap.splits if_splits)

text \<open>
  A swap as \<open>lp_connected_alice\<close> creates it: \<open>TakerSwap::new\<close> with the uuid of the swap as the uuid of
  the order. The amounts are numbers that a decimal represents exactly, since the saved data hold
  decimals.
\<close>

definition taker_origin :: "mm_ctx \<Rightarrow> taker_swap \<Rightarrow> bool" where
  "taker_origin ctx s \<longleftrightarrow>
     s = taker_swap_new (ts_maker s) (ts_maker_amount s) (ts_taker_amount s) (ts_my_persistent_pub s)
           (ts_uuid s) (Some (ts_uuid s)) (ts_conf_settings s) (ts_maker_coin s) (ts_taker_coin s)
           (ts_payment_locktime s) (ts_p2p_privkey s) \<and>
     x_to_decimal ctx (ts_maker_amount s) = ts_maker_amount s \<and>
     x_to_decimal ctx (ts_taker_amount s) = ts_taker_amount s \<and>
     x_internal_pubkey ctx = Inr (ts_my_persistent_pub s) \<and> length (ts_my_persistent_pub s) = 33 \<and>
     keys_sized (ts_maker_coin s) \<and> keys_sized (ts_taker_coin s) \<and> secrets_sized (ts_taker_coin s)"

fun taker_genuine :: "mm_ctx \<Rightarrow> taker_swap \<Rightarrow> taker_swap_event \<Rightarrow> bool" where
  "taker_genuine ctx s0 (taker_swap_event.Started d) \<longleftrightarrow>
     td_maker d = ts_maker s0 \<and> td_maker_amount d = x_to_decimal ctx (ts_maker_amount s0) \<and>
     td_taker_amount d = x_to_decimal ctx (ts_taker_amount s0) \<and>
     td_lock_duration d = ts_payment_locktime s0 \<and> td_p2p_privkey d = ts_p2p_privkey s0 \<and>
     taker_load_conf_settings (ts_maker_coin s0) (ts_taker_coin s0) d = ts_conf_settings s0 \<and>
     taker_refresh_data (ts_maker_coin s0) (ts_taker_coin s0) d = d"
| "taker_genuine ctx s0 (taker_swap_event.StartFailed e) \<longleftrightarrow> True"
| "taker_genuine ctx s0 ev \<longleftrightarrow> False"

lemma taker_start_data:
  assumes "taker_start ctx t s = Some (effs, s', Ret (nc, evs))"
  shows "taker_genuine ctx s (hd evs)"
  using assms
  by (auto simp: taker_start_def Let_def taker_result_defs taker_load_conf_settings_def
      taker_refresh_data_def split: sum.splits option.splits)

lemma taker_ops_simps [simp]:
  "op_handle (taker_ops ctx) = taker_handle_command ctx" "op_apply (taker_ops ctx) = taker_apply_event"
  "op_save (taker_ops ctx) t i s ev = save_my_taker_swap_event ctx t i s
     \<lparr>tse_timestamp = x_now_ms ctx t i, tse_event = ev\<rparr>"
  "op_should_ban (taker_ops ctx) = should_ban_maker" "op_other_pubkey (taker_ops ctx) = ts_maker"
  "op_uuid (taker_ops ctx) = ts_uuid" "op_clock (taker_ops ctx) = x_apply_now ctx"
  by (simp_all add: taker_ops_def)

lemma taker_key_obs: "taker_obs s = taker_obs s' \<Longrightarrow> taker_key s = taker_key s'"
  by (drule taker_obs_eqD, erule ssubst) (simp add: taker_key_def)

lemma taker_key_apply: "taker_key (taker_apply_event now e s) = taker_key s"
  by (cases e) (simp_all add: taker_key_def taker_push_error_def Let_def)

lemma taker_genuine_obs: "taker_obs s = taker_obs s' \<Longrightarrow> taker_genuine ctx s e = taker_genuine ctx s' e"
  by (drule taker_obs_eqD, erule ssubst) (cases e; simp)

lemma taker_ok_start: "taker_origin ctx s0 \<Longrightarrow> taker_ok taker_swap_command.Start s0"
  by (simp add: taker_origin_def taker_ok_def)

end
