(* ===== verification/TakerLife.thy ===== *)
theory TakerLife
  imports TakerMachine
begin

text \<open>
  The laws of \<open>swap_machine\<close> for the taker, and what they give for a taker node over its whole life.
\<close>

section \<open>The taker is a swap machine\<close>

lemma taker_load_from_saved_replays:
  assumes "taker_load_from_saved ctx now mc tc saved = Ret (s, nc)"
  obtains d evs pub where "tss_log saved = taker_swap_event.Started d # evs"
    and "x_internal_pubkey ctx = Inr pub"
    and "nc = taker_get_command (last (tss_log saved))"
    and "s = fold (taker_apply_event now) (taker_swap_event.Started (taker_refresh_data mc tc d) # evs)
               (taker_swap_new (td_maker d) (td_maker_amount d) (td_taker_amount d) (take 33 pub)
                  (tss_uuid saved) (Some (tss_uuid saved)) (taker_load_conf_settings mc tc d)
                  mc tc (td_lock_duration d) (td_p2p_privkey d))"
proof -
  have fields: "td_maker (taker_refresh_data mc tc d) = td_maker d"
    "td_maker_amount (taker_refresh_data mc tc d) = td_maker_amount d"
    "td_taker_amount (taker_refresh_data mc tc d) = td_taker_amount d"
    "td_lock_duration (taker_refresh_data mc tc d) = td_lock_duration d"
    "td_p2p_privkey (taker_refresh_data mc tc d) = td_p2p_privkey d"
    "taker_load_conf_settings mc tc (taker_refresh_data mc tc d) = taker_load_conf_settings mc tc d" for d
    by (simp_all add: taker_refresh_data_def taker_load_conf_settings_def Let_def)
  from assms that show ?thesis
    by (auto simp: taker_load_from_saved_def Let_def fields hash_from_slice_def
        split: list.splits taker_swap_event.splits sum.splits option.splits if_splits)
qed

lemma taker_load_replays:
  assumes org: "taker_origin ctx s0" and fit: "taker_fits (taker_key s0) db"
    and gen: "taker_genuine ctx s0 (hd (taker_log (taker_key s0) db))"
    and ld: "taker_load ctx t (taker_key s0) db = Some (s, c)"
  shows "taker_log (taker_key s0) db \<noteq> [] \<and>
    taker_get_command (last (taker_log (taker_key s0) db)) = Some c \<and>
    taker_obs s = taker_obs (fold (taker_apply_event 0) (taker_log (taker_key s0) db) s0)"
proof -
  from ld obtain m where m: "db (ts_uuid s0) = Some (Taker m)"
    and l: "taker_load_from_saved ctx (x_apply_now ctx t 0) (ts_maker_coin s0) (ts_taker_coin s0) m
            = Ret (s, Some c)"
    by (auto simp: taker_load_def taker_key_def taker_load_from_db_by_uuid_def load_my_swap_from_db_def
        split: outcome.splits option.splits saved_swap.splits)
  then have log: "taker_log (taker_key s0) db = tss_log m"
    by (simp add: taker_log_def taker_key_def)
  from l obtain d evs pub where d: "tss_log m = taker_swap_event.Started d # evs"
    and pub: "x_internal_pubkey ctx = Inr pub"
    and c: "Some c = taker_get_command (last (tss_log m))"
    and s: "s = fold (taker_apply_event (x_apply_now ctx t 0))
              (taker_swap_event.Started (taker_refresh_data (ts_maker_coin s0) (ts_taker_coin s0) d) # evs)
               (taker_swap_new (td_maker d) (td_maker_amount d) (td_taker_amount d) (take 33 pub)
                  (tss_uuid m) (Some (tss_uuid m))
                  (taker_load_conf_settings (ts_maker_coin s0) (ts_taker_coin s0) d)
                  (ts_maker_coin s0) (ts_taker_coin s0) (td_lock_duration d) (td_p2p_privkey d))"
    by (rule taker_load_from_saved_replays)
  have "tss_uuid m = ts_uuid s0"
    using fit m by (simp add: taker_fits_def taker_key_def)
  moreover have "take 33 pub = ts_my_persistent_pub s0"
    using org pub by (simp add: taker_origin_def)
  ultimately have "s = fold (taker_apply_event (x_apply_now ctx t 0)) (taker_swap_event.Started d # evs) s0"
    using gen org unfolding s log d taker_origin_def by simp
  then have "taker_obs s = taker_obs (fold (taker_apply_event 0) (taker_swap_event.Started d # evs) s0)"
    using taker_events.fold_apply_obs [OF refl] by blast
  then show ?thesis using log d c by simp
qed

lemma taker_load_empty: "taker_log k db = [] \<Longrightarrow> taker_load ctx t k db = None"
  by (cases k, cases "db (fst k)")
    (auto simp: taker_log_def taker_load_def taker_load_from_db_by_uuid_def load_my_swap_from_db_def
      taker_load_from_saved_def split: option.split saved_swap.splits)

interpretation taker: swap_machine "taker_ops ctx" taker_obs "taker_load ctx" taker_swap_command.Start
  taker_rank taker_get_command taker_key taker_log taker_fits "taker_origin ctx" "taker_genuine ctx"
  taker_ok taker_diverts taker_fragile
  for ctx
proof (unfold_locales, unfold taker_ops_simps)
  fix t s c effs s' nc evs assume h: "taker_handle_command ctx t s c = Some (effs, s', Ret (nc, evs))"
  note edge = taker_handle_edge [OF h]
  show "evs \<noteq> []" using taker_edge_nonempty edge by blast
  show "taker_obs s' = taker_obs s" using edge(2) by auto
  show "\<not> taker_diverts (last evs) \<Longrightarrow> taker_get_command (last evs) = nc" using taker_edge_resumes edge by blast
  { fix pre e post c' assume "taker_ok c s" "evs = pre @ e # post" "taker_get_command e = Some c'"
      and "\<not> taker_fragile e"
    then show "taker_ok c' (fold (taker_apply_event 0) (pre @ [e]) s')"
      using taker_edge_ok edge by fastforce }
next
  fix t s c effs s' c' evs assume h: "taker_handle_command ctx t s c = Some (effs, s', Ret (Some c', evs))"
  note edge = taker_handle_edge [OF h]
  show "taker_rank c' < taker_rank c" using taker_edge_rank edge by blast
  show "taker_ok c s \<Longrightarrow> taker_ok c' (fold (taker_apply_event 0) evs s')"
    using taker_edge_ok_next edge by fastforce
next
  fix s0 s t effs s' nc evs
  assume "taker_obs s = taker_obs s0"
    and "taker_handle_command ctx t s taker_swap_command.Start = Some (effs, s', Ret (nc, evs))"
  then have "taker_genuine ctx s (hd evs)" using taker_start_data by simp
  then show "taker_genuine ctx s0 (hd evs)" using taker_genuine_obs [OF \<open>taker_obs s = taker_obs s0\<close>] by simp
next
  fix c s t effs s' out
  assume "taker_ok c s" and "taker_handle_command ctx t s c = Some (effs, s', out)"
  then show "out \<noteq> Panic" using taker_handle_safe [of c s ctx t] by (auto simp: taker_safe_def)
qed (rule taker_events.apply_obs taker_key_obs taker_key_apply taker_save_appends taker_load_replays
  taker_load_empty taker_ok_obs taker_ok_start; assumption)+

end
