(* ===== verification/SampleNode.thy ===== *)
theory SampleNode
  imports MakerLife TakerLife
begin

text \<open>
  A concrete node for the witnesses: two coins whose operations succeed, but for the wait for
  confirmations of a coin with \<open>confirms = False\<close>, a clock that stands at
  1700000000, and a store that holds the messages of a well-behaved other side. The swaps
  \<open>sample_maker\<close> and \<open>sample_taker\<close> run through all their stages with them.
\<close>

definition sample_tx :: transaction where
  "sample_tx = \<lparr>tx_kind = UtxoTx, tx_hex = [1, 2, 3], tx_hash = [7]\<rparr>"

definition sample_fee :: "string \<Rightarrow> trade_fee" where
  "sample_fee ticker = \<lparr>tf_coin = ticker, tf_amount = 1 / 1000, tf_paid_from_trading_vol = False\<rparr>"

definition sample_key :: bytes where
  "sample_key = replicate 33 2"

definition sample_reward :: watcher_reward where
  "sample_reward =
     \<lparr>wr_amount = 0, wr_is_exact_amount = True, wr_reward_target = RT_None,
      wr_send_contract_reward_on_spend = False\<rparr>"

definition sample_coin :: "bool \<Rightarrow> string \<Rightarrow> coin" where
  "sample_coin confirms ticker =
     \<lparr>c_kind = UtxoCoin, c_ticker = ticker, c_swap_contract_address = None,
      c_fallback_swap_contract = None, c_requires_notarization = False, c_is_privacy = False,
      c_is_auto_refundable = False, c_is_supported_by_watchers = True, c_maker_locktime_multiplier = 2,
      c_min_tx_amount = 1 / 10000, c_derive_htlc_pubkey = (\<lambda>u. sample_key),
      c_derive_htlc_key_pair = (\<lambda>u. sample_key), c_negotiate_swap_contract_addr = (\<lambda>a. Inr None),
      c_validate_other_pubkey = (\<lambda>k. if length k = 33 then Inr () else Inl ''Invalid public''),
      c_tx_enum_from_bytes = (\<lambda>b. Inr sample_tx),
      c_validate_maker_payment_instructions = (\<lambda>b a. Inr (Lightning b)),
      c_validate_taker_payment_instructions = (\<lambda>b a. Inr (Lightning b)),
      c_my_spendable_balance = (\<lambda>t. Inr 100), c_base_coin_balance = (\<lambda>t. Inr 100),
      c_current_block = (\<lambda>t. Inr 1000),
      c_get_sender_trade_fee = (\<lambda>t v st. Inr (sample_fee ticker)),
      c_get_receiver_trade_fee = (\<lambda>t st. Inr (sample_fee ticker)),
      c_get_fee_to_send_taker_fee = (\<lambda>t a st. Inr (sample_fee ticker)),
      c_send_taker_fee = (\<lambda>t p a u. Inr sample_tx), c_send_maker_payment = (\<lambda>t a. Inr sample_tx),
      c_send_taker_payment = (\<lambda>t a. Inr sample_tx),
      c_send_maker_spends_taker_payment = (\<lambda>t a. Inr sample_tx),
      c_send_taker_spends_maker_payment = (\<lambda>t a. Inr sample_tx),
      c_send_maker_refunds_payment = (\<lambda>t a. Inr sample_tx),
      c_send_taker_refunds_payment = (\<lambda>t a. Inr sample_tx),
      c_validate_fee = (\<lambda>t n a. if n < 2 then Inl ''not found yet'' else Inr ()),
      c_validate_maker_payment = (\<lambda>t a. Inr ()), c_validate_taker_payment = (\<lambda>t a. Inr ()),
      c_check_if_my_payment_sent = (\<lambda>t a. Inr None),
      c_search_for_swap_tx_spend_my = (\<lambda>t a. Inr None),
      c_search_for_swap_tx_spend_other = (\<lambda>t a. Inr None),
      c_extract_secret = (\<lambda>t h tx r. Inr (replicate 32 5)),
      c_can_refund_htlc = (\<lambda>t n l. if n < 3 then Inr (HaveToWait 60) else Inr CanRefundNow),
      c_wait_for_htlc_refund = (\<lambda>t tx l. Inr ()), c_wait_for_confirmations = (\<lambda>t a. if confirms then Inr () else Inl ''timeout''),
      c_wait_for_htlc_tx_spend = (\<lambda>t a. Inr sample_tx),
      c_maker_payment_instructions = (\<lambda>t a. Inr None), c_taker_payment_instructions = (\<lambda>t a. Inr None),
      c_get_taker_watcher_reward = (\<lambda>t c a b r w. Inr sample_reward),
      c_get_maker_watcher_reward = (\<lambda>t c r w. Inr None),
      c_create_taker_payment_refund_preimage = (\<lambda>t tx l p h a u. Inr sample_tx),
      c_create_maker_payment_spend_preimage = (\<lambda>t tx l p h u. Inr sample_tx)\<rparr>"

definition sample_now :: u64 where "sample_now = 1700000000"

definition sample_negotiation :: "u64 \<Rightarrow> negotiation_data_msg" where
  "sample_negotiation lock =
     V1 \<lparr>n1_started_at = sample_now, n1_payment_locktime = sample_now + lock,
         n1_secret_hash = replicate 20 9, n1_persistent_pubkey = sample_key\<rparr>"

definition sample_store :: swap_msg_store where
  "sample_store =
     \<lparr>sm_negotiation = Some (sample_negotiation (2 * PAYMENT_LOCKTIME)),
      sm_negotiation_reply = Some (sample_negotiation PAYMENT_LOCKTIME), sm_negotiated = Some True,
      sm_taker_fee = Some (Regular [1, 2, 3]), sm_maker_payment = Some (Regular [1, 2, 3]),
      sm_taker_payment = Some [1, 2, 3], sm_accept_only_from = replicate 32 2\<rparr>"

text \<open>The message arrives at the second poll.\<close>

definition sample_ctx :: mm_ctx where
  "sample_ctx =
     \<lparr>x_now_sec = (\<lambda>t. sample_now), x_now_ms = (\<lambda>t i. sample_now * 1000),
      x_apply_now = (\<lambda>t i. sample_now), x_poll_start = (\<lambda>t k. sample_now),
      x_poll_now = (\<lambda>t k i. sample_now + of_nat i),
      x_poll_store = (\<lambda>t k i. if i = 0 then None else Some sample_store),
      x_db_load_error = (\<lambda>t i. None), x_db_save_error = (\<lambda>t i. None), x_stats_save_error = (\<lambda>t. None),
      x_swap_lock = (\<lambda>t n. Inr (n = 1)), x_swap_coins_price = (\<lambda>t a b. Some (3, 4)),
      x_running_swaps = (\<lambda>t. []), x_use_watchers = True, x_env_use_watcher_reward = False,
      x_env_use_test_locktime = False, x_env_mycoin_fee_discount = False,
      x_internal_pubkey = Inr sample_key, x_gui = None, x_mm_version = ''1.0'',
      x_to_decimal = id, x_dhash160 = take 20, x_sha256 = id,
      x_show_check_balance_error = (\<lambda>e. []), x_show_trade_preimage_error = (\<lambda>e. []),
      x_debug_transaction_err = get_plain_text_format, x_debug_tx_marshaling_err = debug_str,
      x_show_uuid = show_hex\<rparr>"

definition sample_conf :: swap_confirmations_settings where
  "sample_conf =
     \<lparr>sc_maker_coin_confs = 1, sc_maker_coin_nota = False, sc_taker_coin_confs = 1,
      sc_taker_coin_nota = False\<rparr>"

definition sample_uuid :: uuid where "sample_uuid = replicate 16 6"

definition sample_maker :: "bool \<Rightarrow> maker_swap" where
  "sample_maker confirms =
     maker_swap_new (replicate 32 2) 10 20 sample_key sample_uuid (Some (replicate 16 8)) sample_conf
       (sample_coin confirms ''RICK'') (sample_coin True ''MORTY'') PAYMENT_LOCKTIME None (replicate 32 5)"

definition sample_taker :: "bool \<Rightarrow> taker_swap" where
  "sample_taker confirms =
     taker_swap_new (replicate 32 2) 10 20 sample_key sample_uuid (Some sample_uuid) sample_conf
       (sample_coin True ''RICK'') (sample_coin confirms ''MORTY'') PAYMENT_LOCKTIME None"

section \<open>The sample maker\<close>

lemma keys_sized_sample [simp]: "keys_sized (sample_coin confirms ticker)"
  by (simp add: keys_sized_def sample_coin_def sample_key_def)

lemma maker_origin_sample: "maker_origin sample_ctx (sample_maker confirms)"
  by (simp add: maker_origin_def sample_maker_def maker_swap_new_def sample_ctx_def sample_key_def)

lemma recv_sample:
  assumes "getter sample_store = Some m" "sample_now \<le> sample_now + (BASIC_COMM_TIMEOUT + n)"
  shows "recv_swap_msg sample_ctx t k getter n = Some (Inr m)"
proof -
  have "recv_swap_msg_loop (x_poll_store sample_ctx t k) (x_poll_now sample_ctx t k) getter
          (x_poll_start sample_ctx t k) (BASIC_COMM_TIMEOUT + n) 1 = Some (Inr m)"
    by (subst recv_swap_msg_loop.simps) (simp add: sample_ctx_def assms)
  then show ?thesis
    unfolding recv_swap_msg_def
    by (subst recv_swap_msg_loop.simps) (use assms in \<open>simp add: sample_ctx_def not_less\<close>)
qed

definition no_taker :: "swap_db \<Rightarrow> bool" where
  "no_taker db \<longleftrightarrow> (\<forall>m. db sample_uuid \<noteq> Some (Taker m))"

lemma maker_save_sample:
  assumes "no_taker db" "ms_uuid s = sample_uuid"
  shows "\<exists>db'. save_my_maker_swap_event sample_ctx t i s ev db = Inr db' \<and> no_taker db'"
  using assms
  by (auto simp: save_my_maker_swap_event_def load_my_swap_from_db_def save_to_db_def sample_ctx_def
      no_taker_def Let_def split: option.split saved_swap.split)

lemma process_events_Cons:
  assumes "op_save ops t i (rs_swap rs) ev (rs_db rs) = Inr db"
  shows "\<exists>r. process_events ops t i (ev # evs) rs = process_events ops t (Suc i) evs r \<and> rs_db r = db \<and>
           rs_swap r = op_apply ops (op_clock ops t i) ev (rs_swap rs)"
proof -
  let ?r = "rs\<lparr>rs_effects := rs_effects rs @ op_notify ops (rs_swap rs) ev, rs_db := db,
              rs_banned := (if op_should_ban ops ev
                 then (rs_banned rs)(op_other_pubkey ops (rs_swap rs) \<mapsto> (op_uuid ops (rs_swap rs), ev))
                 else rs_banned rs),
              rs_swap := op_apply ops (op_clock ops t i) ev (rs_swap rs)\<rparr>"
  show ?thesis by (rule exI [where x = ?r]) (simp add: Let_def assms)
qed

lemma maker_events_sample:
  assumes "no_taker (rs_db rs)" "ms_uuid (rs_swap rs) = sample_uuid"
  shows "\<exists>rs'. process_events (maker_ops sample_ctx) t i evs rs = Inr rs' \<and> no_taker (rs_db rs') \<and>
           rs_swap rs' = fold (maker_apply_event sample_now) evs (rs_swap rs)"
  using assms
proof (induction evs arbitrary: i rs)
  case (Cons ev evs)
  obtain db where db: "op_save (maker_ops sample_ctx) t i (rs_swap rs) ev (rs_db rs) = Inr db" "no_taker db"
    using maker_save_sample [OF Cons.prems] by fastforce
  have "ms_uuid (maker_apply_event sample_now ev (rs_swap rs)) = sample_uuid"
    using maker_key_apply [of sample_now ev "rs_swap rs"] Cons.prems by (simp add: maker_key_def)
  moreover have "op_clock (maker_ops sample_ctx) t i = sample_now" by (simp add: sample_ctx_def)
  ultimately show ?case
    using db(2) process_events_Cons [OF db(1), of evs] Cons.IH by (metis fold_simps(2) maker_ops_simps(2))
qed simp

lemma maker_step_sample:
  assumes "life (maker_ops sample_ctx) load allowed maker_swap_command.Start rs0 t c rs"
    and "maker_handle_command sample_ctx t (rs_swap rs) c = Some (effs, s, Ret (Some c', evs))"
    and "no_taker (rs_db rs)" "ms_uuid s = sample_uuid"
    and "s' = fold (maker_apply_event sample_now) evs s"
  shows "\<exists>rs'. life (maker_ops sample_ctx) load allowed maker_swap_command.Start rs0 (Suc t) c' rs' \<and>
           no_taker (rs_db rs') \<and> rs_swap rs' = s'"
proof -
  let ?rs1 = "rs\<lparr>rs_swap := s, rs_effects := rs_effects rs @ effs\<rparr>"
  from maker_events_sample [of ?rs1 t 0 evs] assms(3,4) obtain rs' where
    r: "process_events (maker_ops sample_ctx) t 0 evs ?rs1 = Inr rs'" "no_taker (rs_db rs')"
      "rs_swap rs' = fold (maker_apply_event sample_now) evs s"
    by auto
  then have "run_step (maker_ops sample_ctx) t c rs = Continue c' rs'"
    using assms(2) by (simp add: run_step_def Let_def)
  from life_step [OF assms(1) this] show ?thesis using r assms(5) by auto
qed

definition at_maker :: "bool \<Rightarrow> maker_swap \<Rightarrow> bool" where
  "at_maker confirms s \<longleftrightarrow> ms_maker_coin s = sample_coin confirms ''RICK'' \<and>
     ms_taker_coin s = sample_coin True ''MORTY'' \<and> md_started_at (mm_data s) = sample_now \<and>
     md_lock_duration (mm_data s) = PAYMENT_LOCKTIME \<and> \<not> mm_watcher_reward s \<and> ms_uuid s = sample_uuid \<and>
     (confirms \<longrightarrow> ms_errors s = [])"

lemmas sample_defs = sample_maker_def maker_swap_new_def sample_coin_def sample_ctx_def
  check_balance_for_maker_swap_def check_my_coin_balance_for_swap_def check_other_coin_balance_for_swap_def
  locked_by_others_def get_locked_amount_by_other_swaps_def sample_fee_def hash_from_slice_def
  sample_key_def Let_def

lemma maker_start_sample:
  "\<exists>d. maker_handle_command sample_ctx t (sample_maker confirms) maker_swap_command.Start =
     Some ([], sample_maker confirms, Ret (Some maker_swap_command.Negotiate, [maker_swap_event.Started d])) \<and>
     at_maker confirms (maker_apply_event sample_now (maker_swap_event.Started d) (sample_maker confirms))"
  by (simp add: maker_start_def maker_result_defs sample_defs at_maker_def)

lemma maker_negotiate_sample:
  assumes "at_maker confirms s"
  shows "\<exists>effs n. maker_handle_command sample_ctx t s maker_swap_command.Negotiate =
     Some (effs, s, Ret (Some WaitForTakerFee, [maker_swap_event.Negotiated n])) \<and>
     at_maker confirms (maker_apply_event sample_now (maker_swap_event.Negotiated n) s)"
  using assms
  by (simp add: maker_negotiate_def maker_result_defs recv_sample sample_store_def sample_negotiation_def
      at_maker_def sample_now_def PAYMENT_LOCKTIME_def BASIC_COMM_TIMEOUT_def abs_diff_def checked_add_def
      sample_coin_def hash_from_slice_def sample_key_def Let_def)

lemma maker_fee_sample:
  assumes "at_maker confirms s"
  shows "\<exists>effs i tx. maker_handle_command sample_ctx t s WaitForTakerFee =
     Some (effs, s, Ret (Some SendPayment, [MakerPaymentInstructionsReceived i, TakerFeeValidated tx]))"
proof -
  have "validate_fee_loop (sample_coin True ''MORTY'') t a 0 = Inr ()"
    and "c_tx_enum_from_bytes (sample_coin True ''MORTY'') b = Inr sample_tx" for a b
    by (simp_all add: validate_fee_loop.simps sample_coin_def)
  then show ?thesis
    using assms
    by (simp add: maker_wait_taker_fee_def maker_result_defs recv_sample sample_store_def at_maker_def
        sample_now_def BASIC_COMM_TIMEOUT_def Let_def)
qed

lemma maker_payment_sample:
  assumes "at_maker confirms s"
  shows "\<exists>a tx. maker_handle_command sample_ctx t s SendPayment =
     Some ([E_SendMakerPayment a], s, Ret (Some WaitForTakerPayment, [MakerPaymentSent tx]))"
  using assms
  by (simp add: maker_maker_payment_def maker_result_defs at_maker_def sample_coin_def sample_ctx_def
      sample_now_def PAYMENT_LOCKTIME_def Let_def)

lemma maker_wait_sample:
  assumes "at_maker True s" "mm_maker_payment s = Some p"
  shows "\<exists>effs tx. maker_handle_command sample_ctx t s WaitForTakerPayment =
     Some (effs, s, Ret (Some ValidateTakerPayment, [TakerPaymentReceived tx, TakerPaymentWaitConfirmStarted]))"
  using assms
  by (simp add: maker_wait_for_taker_payment_def maker_get_my_payment_data_def maker_result_defs recv_sample
      sample_store_def at_maker_def sample_coin_def sample_now_def BASIC_COMM_TIMEOUT_def
      PAYMENT_LOCKTIME_def Let_def)

lemma maker_wait_sample_fails:
  assumes "at_maker False s" "mm_maker_payment s = Some p"
  shows "\<exists>effs e w. maker_handle_command sample_ctx t s WaitForTakerPayment =
     Some (effs, s, Ret (Some PrepareForMakerPaymentRefund,
       [maker_swap_event.MakerPaymentWaitConfirmFailed e, MakerPaymentWaitRefundStarted w]))"
  using assms
  by (simp add: maker_wait_for_taker_payment_def maker_get_my_payment_data_def maker_result_defs
      at_maker_def sample_coin_def Let_def)

lemma maker_validate_sample:
  assumes "at_maker True s" "mm_taker_payment s = Some p"
  shows "maker_handle_command sample_ctx t s ValidateTakerPayment =
     Some ([], s, Ret (Some SpendTakerPayment, [TakerPaymentValidatedAndConfirmed]))"
  using assms
  by (simp add: maker_validate_taker_payment_def maker_result_defs at_maker_def sample_coin_def Let_def)

lemma at_maker_apply [simp]:
  "at_maker c (maker_apply_event now (MakerPaymentInstructionsReceived i) s) = at_maker c s"
  "at_maker c (s\<lparr>mm_payment_instructions := i\<rparr>) = at_maker c s"
  "at_maker c (s\<lparr>mm_taker_fee := tx\<rparr>) = at_maker c s"
  "at_maker c (s\<lparr>mm_maker_payment := tx\<rparr>) = at_maker c s"
  "at_maker c (s\<lparr>mm_taker_payment := tx\<rparr>) = at_maker c s"
  "at_maker c (s\<lparr>ms_taker_payment_confirmed := b\<rparr>) = at_maker c s"
  "at_maker c (s\<lparr>mm_taker_payment_spend := tx\<rparr>) = at_maker c s"
  "at_maker c (s\<lparr>mm_taker_payment_spend_confirmed := b\<rparr>) = at_maker c s"
  "at_maker False s \<Longrightarrow> at_maker False (maker_push_error e s)"
  by (simp_all add: at_maker_def maker_push_error_def)

abbreviation sample_maker_life :: "bool \<Rightarrow> moment \<Rightarrow> maker_swap_command \<Rightarrow>
    (maker_swap, maker_swap_event, swap_db) run_state \<Rightarrow> bool" where
  "sample_maker_life confirms \<equiv>
     life (maker_ops sample_ctx) (\<lambda>t. maker_load sample_ctx t (maker_key (sample_maker confirms))) (\<lambda>db. True)
       maker_swap_command.Start (run_init (sample_maker confirms) (\<lambda>u. None) (\<lambda>k. None))"

lemma maker_life_sample_3:
  "\<exists>rs. sample_maker_life confirms 3 SendPayment rs \<and> no_taker (rs_db rs) \<and> at_maker confirms (rs_swap rs)"
proof -
  let ?s0 = "sample_maker confirms"
  have u: "ms_uuid s = sample_uuid" if "at_maker c s" for c s using that by (simp add: at_maker_def)
  obtain d where d: "maker_handle_command sample_ctx 0 ?s0 maker_swap_command.Start =
     Some ([], ?s0, Ret (Some maker_swap_command.Negotiate, [maker_swap_event.Started d]))"
    and s1: "at_maker confirms (maker_apply_event sample_now (maker_swap_event.Started d) ?s0)"
    using maker_start_sample by blast
  let ?s1 = "maker_apply_event sample_now (maker_swap_event.Started d) ?s0"
  have "sample_maker_life confirms 0 maker_swap_command.Start (run_init ?s0 (\<lambda>u. None) (\<lambda>k. None))"
    by (rule life_start)
  from maker_step_sample [OF this, of "[]" ?s0 maker_swap_command.Negotiate "[maker_swap_event.Started d]" ?s1]
  obtain r1 where r1: "sample_maker_life confirms (Suc 0) maker_swap_command.Negotiate r1"
    "no_taker (rs_db r1)" "rs_swap r1 = ?s1"
    using d by (auto simp: run_init_def no_taker_def sample_maker_def maker_swap_new_def)
  obtain effs n where n: "maker_handle_command sample_ctx (Suc 0) (rs_swap r1) maker_swap_command.Negotiate =
     Some (effs, rs_swap r1, Ret (Some WaitForTakerFee, [maker_swap_event.Negotiated n]))"
    and s2: "at_maker confirms (maker_apply_event sample_now (maker_swap_event.Negotiated n) (rs_swap r1))"
    using maker_negotiate_sample s1 r1(3) by metis
  from maker_step_sample [OF r1(1) n r1(2)] obtain r2 where
    r2: "sample_maker_life confirms (Suc (Suc 0)) WaitForTakerFee r2" "no_taker (rs_db r2)"
      "at_maker confirms (rs_swap r2)"
    using s2 u [OF s1] r1(3) by fastforce
  obtain effs2 i tx where f: "maker_handle_command sample_ctx (Suc (Suc 0)) (rs_swap r2) WaitForTakerFee =
     Some (effs2, rs_swap r2, Ret (Some SendPayment, [MakerPaymentInstructionsReceived i, TakerFeeValidated tx]))"
    using maker_fee_sample [OF r2(3)] by blast
  from maker_step_sample [OF r2(1) f r2(2) u [OF r2(3)] refl] show ?thesis
    using r2(3) by (auto simp: numeral_eq_Suc)
qed

lemma maker_life_sample_4:
  "\<exists>rs. sample_maker_life confirms 4 WaitForTakerPayment rs \<and> no_taker (rs_db rs) \<and>
     at_maker confirms (rs_swap rs) \<and> mm_maker_payment (rs_swap rs) \<noteq> None"
proof -
  obtain r where r: "sample_maker_life confirms 3 SendPayment r" "no_taker (rs_db r)"
    "at_maker confirms (rs_swap r)"
    using maker_life_sample_3 by blast
  then obtain a tx where "maker_handle_command sample_ctx 3 (rs_swap r) SendPayment =
     Some ([E_SendMakerPayment a], rs_swap r, Ret (Some WaitForTakerPayment, [MakerPaymentSent tx]))"
    using maker_payment_sample by blast
  from maker_step_sample [OF r(1) this r(2) _ refl] show ?thesis
    using r(3) by (auto simp: numeral_eq_Suc at_maker_def)
qed

lemma maker_life_sample_6:
  "\<exists>rs. sample_maker_life True 6 SpendTakerPayment rs \<and> no_taker (rs_db rs) \<and> at_maker True (rs_swap rs) \<and>
     mm_taker_payment (rs_swap rs) \<noteq> None"
proof -
  obtain r p where r: "sample_maker_life True 4 WaitForTakerPayment r" "no_taker (rs_db r)"
    "at_maker True (rs_swap r)" "mm_maker_payment (rs_swap r) = Some p"
    using maker_life_sample_4 by blast
  then obtain effs tx where "maker_handle_command sample_ctx 4 (rs_swap r) WaitForTakerPayment =
     Some (effs, rs_swap r, Ret (Some ValidateTakerPayment, [TakerPaymentReceived tx, TakerPaymentWaitConfirmStarted]))"
    using maker_wait_sample by blast
  from maker_step_sample [OF r(1) this r(2) _ refl] r(3) obtain r5 where
    r5: "sample_maker_life True 5 ValidateTakerPayment r5" "no_taker (rs_db r5)" "at_maker True (rs_swap r5)"
      "mm_taker_payment (rs_swap r5) = Some tx"
    by (auto simp: numeral_eq_Suc at_maker_def)
  from maker_step_sample [OF r5(1) maker_validate_sample [OF r5(3,4)] r5(2) _ refl] r5(3,4)
  show ?thesis by (auto simp: numeral_eq_Suc at_maker_def)
qed

lemma maker_spend_sample:
  assumes "at_maker True s" "mm_taker_payment s = Some p"
  shows "\<exists>a rest tx. maker_handle_command sample_ctx t s SpendTakerPayment =
     Some (E_MakerSpendsTakerPayment a # rest, s, Ret (Some ConfirmTakerPaymentSpend,
       [maker_swap_event.TakerPaymentSpent tx, TakerPaymentSpendConfirmStarted]))"
  using assms
  by (simp add: maker_spend_taker_payment_def maker_result_defs at_maker_def sample_coin_def sample_ctx_def
      sample_now_def PAYMENT_LOCKTIME_def taker_payment_spend_deadline_def taker_payment_spend_duration_def
      Let_def)

lemma maker_life_sample_8:
  "\<exists>rs. sample_maker_life True 8 maker_swap_command.Finish rs \<and> ms_errors (rs_swap rs) = []"
proof -
  obtain r p where r: "sample_maker_life True 6 SpendTakerPayment r" "no_taker (rs_db r)"
    "at_maker True (rs_swap r)" "mm_taker_payment (rs_swap r) = Some p"
    using maker_life_sample_6 by blast
  then obtain effs tx where "maker_handle_command sample_ctx 6 (rs_swap r) SpendTakerPayment =
     Some (effs, rs_swap r, Ret (Some ConfirmTakerPaymentSpend,
       [maker_swap_event.TakerPaymentSpent tx, TakerPaymentSpendConfirmStarted]))"
    using maker_spend_sample by blast
  from maker_step_sample [OF r(1) this r(2) _ refl] r(3,4) obtain r7 where
    r7: "sample_maker_life True 7 ConfirmTakerPaymentSpend r7" "no_taker (rs_db r7)"
      "at_maker True (rs_swap r7)" "mm_taker_payment (rs_swap r7) = Some p"
    by (auto simp: numeral_eq_Suc at_maker_def)
  then have "maker_handle_command sample_ctx 7 (rs_swap r7) ConfirmTakerPaymentSpend =
     Some ([], rs_swap r7, Ret (Some maker_swap_command.Finish, [TakerPaymentSpendConfirmed]))"
    by (simp add: maker_confirm_taker_payment_spend_def maker_result_defs at_maker_def sample_coin_def)
  from maker_step_sample [OF r7(1) this r7(2) _ refl] r7(3)
  show ?thesis by (auto simp: numeral_eq_Suc at_maker_def)
qed

lemma maker_life_sample_1:
  "\<exists>rs d. sample_maker_life confirms 1 maker_swap_command.Negotiate rs \<and>
     maker_log (maker_key (sample_maker confirms)) (rs_db rs) = [maker_swap_event.Started d]"
proof -
  let ?s0 = "sample_maker confirms" and ?rs0 = "run_init (sample_maker confirms) (\<lambda>u. None) (\<lambda>k. None)"
  obtain d where d: "maker_handle_command sample_ctx 0 ?s0 maker_swap_command.Start =
     Some ([], ?s0, Ret (Some maker_swap_command.Negotiate, [maker_swap_event.Started d]))"
    using maker_start_sample by blast
  have "no_taker (rs_db ?rs0)" "ms_uuid (rs_swap ?rs0) = sample_uuid"
    by (simp_all add: run_init_def no_taker_def sample_maker_def maker_swap_new_def)
  from maker_events_sample [OF this, of 0 0 "[maker_swap_event.Started d]"] obtain rs where
    p: "process_events (maker_ops sample_ctx) 0 0 [maker_swap_event.Started d] ?rs0 = Inr rs" by blast
  then have st: "run_step (maker_ops sample_ctx) 0 maker_swap_command.Start ?rs0 = Continue maker_swap_command.Negotiate rs"
    using d by (simp add: run_step_def run_init_def Let_def)
  have "maker_fits (maker_key (rs_swap ?rs0)) (rs_db ?rs0)"
    by (simp add: run_init_def maker_fits_def)
  from maker.process_events_Inr [OF p this]
  have "maker_log (maker_key ?s0) (rs_db rs) = [maker_swap_event.Started d]"
    by (simp add: run_init_def maker_log_def)
  with life_step [OF life_start st] show ?thesis by auto
qed

lemma sample_refund_coin [simp]:
  "c_is_auto_refundable (sample_coin confirms ticker) = False"
  "c_can_refund_htlc (sample_coin confirms ticker) t n l =
     (if n < 3 then Inr (HaveToWait 60) else Inr CanRefundNow)"
  "c_send_maker_refunds_payment (sample_coin confirms ticker) t ra = Inr sample_tx"
  "c_send_taker_refunds_payment (sample_coin confirms ticker) t ra = Inr sample_tx"
  by (simp_all add: sample_coin_def)

lemma wait_can_refund_sample [simp]: "wait_can_refund (sample_coin confirms ticker) t l 0 = Some ()"
proof -
  let ?c = "sample_coin confirms ticker"
  have "wait_can_refund ?c t l (Suc (Suc (Suc 0))) = Some ()"
    by (subst wait_can_refund.simps) simp
  then show ?thesis
    by (subst wait_can_refund.simps, simp, subst wait_can_refund.simps, simp,
        subst wait_can_refund.simps, simp)
qed

lemma maker_refund_sample:
  assumes "at_maker False s" "mm_maker_payment s = Some p"
  shows "\<exists>a rest tx. maker_handle_command sample_ctx t s RefundMakerPayment =
     Some (E_MakerRefundsPayment a # rest, s, Ret (Some FinalizeMakerPaymentRefund, [MakerPaymentRefunded tx]))"
  using assms by (simp add: maker_refund_maker_payment_def maker_result_defs at_maker_def Let_def)

lemma maker_life_sample_refund:
  "\<exists>rs. sample_maker_life False 6 RefundMakerPayment rs \<and> no_taker (rs_db rs) \<and> at_maker False (rs_swap rs) \<and>
     mm_maker_payment (rs_swap rs) \<noteq> None"
proof -
  obtain r p where r: "sample_maker_life False 4 WaitForTakerPayment r" "no_taker (rs_db r)"
    "at_maker False (rs_swap r)" "mm_maker_payment (rs_swap r) = Some p"
    using maker_life_sample_4 by blast
  then obtain effs e w where "maker_handle_command sample_ctx 4 (rs_swap r) WaitForTakerPayment =
     Some (effs, rs_swap r, Ret (Some PrepareForMakerPaymentRefund,
       [maker_swap_event.MakerPaymentWaitConfirmFailed e, MakerPaymentWaitRefundStarted w]))"
    using maker_wait_sample_fails by blast
  from maker_step_sample [OF r(1) this r(2) _ refl] r(3,4) obtain r5 where
    r5: "sample_maker_life False 5 PrepareForMakerPaymentRefund r5" "no_taker (rs_db r5)"
      "at_maker False (rs_swap r5)" "mm_maker_payment (rs_swap r5) = Some p"
    by (auto simp: numeral_eq_Suc at_maker_def maker_push_error_def)
  obtain effs5 where "maker_handle_command sample_ctx 5 (rs_swap r5) PrepareForMakerPaymentRefund =
     Some (effs5, rs_swap r5, Ret (Some RefundMakerPayment, [MakerPaymentRefundStarted]))"
    by (simp add: maker_prepare_for_maker_payment_refund_def maker_result_defs)
  from maker_step_sample [OF r5(1) this r5(2) _ refl] r5(3,4)
  show ?thesis by (auto simp: numeral_eq_Suc at_maker_def)
qed

end
