(* ===== verification/MakerProps.thy ===== *)
theory MakerProps
  imports SampleNode
begin

text \<open>
  The properties of the maker. First which stage moves funds and under which conditions; then the
  properties of a maker node over its whole life, with witnesses on the sample node.
\<close>

section \<open>Effects that move funds\<close>

fun moves_funds :: "effect \<Rightarrow> bool" where
  "moves_funds (E_SendTakerFee p a u) = True"
| "moves_funds (E_SendMakerPayment a) = True"
| "moves_funds (E_SendTakerPayment a) = True"
| "moves_funds (E_MakerSpendsTakerPayment a) = True"
| "moves_funds (E_TakerSpendsMakerPayment a) = True"
| "moves_funds (E_MakerRefundsPayment a) = True"
| "moves_funds (E_TakerRefundsPayment a) = True"
| "moves_funds _ = False"

definition maker_emits :: "(effect \<Rightarrow> bool) \<Rightarrow> maker_stage option \<Rightarrow> bool" where
  "maker_emits P r \<longleftrightarrow> (\<forall>effs s out. r = Some (effs, s, out) \<longrightarrow> list_all P effs)"

lemma maker_emits_simps [simp]:
  "maker_emits P None" "maker_emits P (maker_ends s effs evs) = list_all P effs"
  "maker_emits P (maker_refunds s effs ev) = list_all P effs"
  "maker_emits P (maker_continues s effs c evs) = list_all P effs"
  "maker_emits P (maker_panics s effs) = list_all P effs"
  by (simp_all add: maker_emits_def maker_result_defs)

lemma maker_emitsD:
  "maker_emits (\<lambda>e. moves_funds e \<longrightarrow> P e) r \<Longrightarrow> r = Some (effs, s, out) \<Longrightarrow> e \<in> set effs \<Longrightarrow> moves_funds e \<Longrightarrow> P e"
  by (simp add: maker_emits_def list_all_iff)

lemma broadcast_moves_nothing [simp]:
  "list_all (\<lambda>e. moves_funds e \<longrightarrow> P e) (broadcast_recoverable ticker err)"
  "list_all (\<lambda>e. moves_funds e \<longrightarrow> P e) (broadcast_p2p_tx_msg ticker tx)"
  by (auto simp: list_all_iff dest: broadcast_recoverable_cases broadcast_p2p_tx_msg_cases)

lemma maker_start_emits: "maker_emits (\<lambda>e. moves_funds e \<longrightarrow> P e) (maker_start ctx t s)"
  by (simp add: maker_start_def Let_def split: sum.split option.split)

lemma maker_negotiate_emits: "maker_emits (\<lambda>e. moves_funds e \<longrightarrow> P e) (maker_negotiate ctx t s)"
  by (simp add: maker_negotiate_def maker_negotiate_failed_def Let_def split: sum.split option.split)

lemma maker_payment_emits:
  "maker_emits (\<lambda>e. moves_funds e \<longrightarrow>
       x_now_sec ctx t \<le> md_started_at (mm_data s) + md_lock_duration (mm_data s) div 3 \<and>
       c_check_if_my_payment_sent (ms_maker_coin s) t (maker_check_if_my_payment_sent_args ctx s) = Inr None \<and>
       (\<exists>reward. e = E_SendMakerPayment (maker_payment_args ctx s reward)))
     (maker_maker_payment ctx t s)"
  by (auto simp: maker_maker_payment_def Let_def not_less split: sum.split option.split)

lemma maker_spend_emits:
  "maker_emits (\<lambda>e. moves_funds e \<longrightarrow>
       x_now_sec ctx t \<le> taker_payment_spend_deadline (md_started_at (mm_data s)) (md_lock_duration (mm_data s)) \<and>
       (\<exists>p. mm_taker_payment s = Some p \<and> e = E_MakerSpendsTakerPayment (maker_spend_args ctx s (ti_hex p))))
     (maker_spend_taker_payment ctx t s)"
  by (simp add: maker_spend_taker_payment_def Let_def not_less split: sum.split option.split)

lemma maker_refund_emits:
  "maker_emits (\<lambda>e. moves_funds e \<longrightarrow>
       \<not> c_is_auto_refundable (ms_maker_coin s) \<and>
       (\<exists>j. c_can_refund_htlc (ms_maker_coin s) t j (md_maker_payment_lock (mm_data s)) = Inr CanRefundNow) \<and>
       (\<exists>p. mm_maker_payment s = Some p \<and> e = E_MakerRefundsPayment (maker_refund_args ctx s (ti_hex p))))
     (maker_refund_maker_payment ctx t s)"
  using wait_can_refund_Some [of "ms_maker_coin s" t "md_maker_payment_lock (mm_data s)" 0]
  by (simp add: maker_refund_maker_payment_def Let_def split: sum.split option.split)

lemma maker_other_stage_emits:
  assumes "c \<notin> {SendPayment, SpendTakerPayment, RefundMakerPayment}"
  shows "maker_emits (\<lambda>e. moves_funds e \<longrightarrow> P e) (maker_handle_command ctx t s c)"
  using assms
  by (cases c)
    (simp_all add: maker_start_emits maker_negotiate_emits maker_wait_taker_fee_def
      maker_wait_for_taker_payment_def maker_validate_taker_payment_def
      maker_confirm_taker_payment_spend_def maker_prepare_for_maker_payment_refund_def
      maker_finalize_maker_payment_refund_def Let_def maker_emits_def [of _ "Some x" for x]
      split: sum.split option.split)

lemma maker_fund_moves:
  assumes "maker_handle_command ctx t s c = Some (effs, s', out)" "e \<in> set effs" "moves_funds e"
  obtains
    (pay) reward where "c = SendPayment" "e = E_SendMakerPayment (maker_payment_args ctx s reward)"
      "x_now_sec ctx t \<le> md_started_at (mm_data s) + md_lock_duration (mm_data s) div 3"
      "c_check_if_my_payment_sent (ms_maker_coin s) t (maker_check_if_my_payment_sent_args ctx s) = Inr None"
  | (spend) p where "c = SpendTakerPayment" "mm_taker_payment s = Some p"
      "e = E_MakerSpendsTakerPayment (maker_spend_args ctx s (ti_hex p))"
      "x_now_sec ctx t \<le> taker_payment_spend_deadline (md_started_at (mm_data s)) (md_lock_duration (mm_data s))"
  | (refund) p j where "c = RefundMakerPayment" "mm_maker_payment s = Some p"
      "e = E_MakerRefundsPayment (maker_refund_args ctx s (ti_hex p))"
      "\<not> c_is_auto_refundable (ms_maker_coin s)"
      "c_can_refund_htlc (ms_maker_coin s) t j (md_maker_payment_lock (mm_data s)) = Inr CanRefundNow"
proof (cases "c \<in> {SendPayment, SpendTakerPayment, RefundMakerPayment}")
  case False
  from maker_emitsD [OF maker_other_stage_emits [OF this, of "\<lambda>e. False"] assms] show ?thesis ..
next
  case True
  then consider "c = SendPayment" | "c = SpendTakerPayment" | "c = RefundMakerPayment" by blast
  then show ?thesis
  proof cases
    case 1
    with assms(1) have "maker_maker_payment ctx t s = Some (effs, s', out)" by simp
    from maker_emitsD [OF maker_payment_emits this assms(2,3)] 1 show ?thesis by (auto intro: pay)
  next
    case 2
    with assms(1) have "maker_spend_taker_payment ctx t s = Some (effs, s', out)" by simp
    from maker_emitsD [OF maker_spend_emits this assms(2,3)] 2 show ?thesis by (auto intro: spend)
  next
    case 3
    with assms(1) have "maker_refund_maker_payment ctx t s = Some (effs, s', out)" by simp
    from maker_emitsD [OF maker_refund_emits this assms(2,3)] 3 show ?thesis by (auto intro: refund)
  qed
qed

section \<open>A maker node over its life\<close>

text \<open>
  \<open>maker_life ctx s0 db0 t c rs\<close>: after \<open>t\<close> stages and restarts, the swap that the node created as \<open>s0\<close>
  is in state \<open>rs\<close> and about to execute \<open>c\<close>. A restart may happen at any point.
\<close>

definition maker_life :: "mm_ctx \<Rightarrow> maker_swap \<Rightarrow> swap_db \<Rightarrow> moment \<Rightarrow> maker_swap_command \<Rightarrow>
    (maker_swap, maker_swap_event, swap_db) run_state \<Rightarrow> bool" where
  "maker_life ctx s0 db0 =
     life (maker_ops ctx) (\<lambda>t. maker_load ctx t (maker_key s0)) (\<lambda>db. True) maker_swap_command.Start
       (run_init s0 db0 (\<lambda>k. None))"

lemma maker_life_inv:
  assumes "maker_origin ctx s0" "db0 (ms_uuid s0) = None" "maker_life ctx s0 db0 t c rs"
  shows "maker.life_inv ctx s0 c rs"
proof (rule maker.life_invariant [OF assms(3) [unfolded maker_life_def] assms(1)])
  show "rs_swap (run_init s0 db0 (\<lambda>k. None)) = s0" by (simp add: run_init_def)
  show "maker_log (maker_key s0) (rs_db (run_init s0 db0 (\<lambda>k. None))) = []"
    and "maker_fits (maker_key s0) (rs_db (run_init s0 db0 (\<lambda>k. None)))"
    using assms(2) by (simp_all add: run_init_def maker_log_def maker_fits_def maker_key_def)
qed simp

lemmas maker_life_ok = maker.life_ok [OF maker_life_inv]

lemma maker_life_sample:
  "sample_maker_life confirms t c rs \<Longrightarrow> maker_life sample_ctx (sample_maker confirms) (\<lambda>u. None) t c rs"
  by (simp add: maker_life_def)

text \<open>
  C33. The loop of \<open>run_maker_swap\<close> ends: whatever the chain, the clock and the other side do, twelve
  turns suffice to complete the swap, unless a save panics or a stage waits for ever; more fuel
  changes nothing.
\<close>

theorem maker_run_ends:
  "(\<forall>c' rs'. run_loop (maker_ops ctx) RUN_FUEL t c rs \<noteq> Continue c' rs') \<and>
   run_loop (maker_ops ctx) (RUN_FUEL + n) t c rs = run_loop (maker_ops ctx) RUN_FUEL t c rs"
proof -
  have "maker_rank c < RUN_FUEL" by (cases c) (simp_all add: RUN_FUEL_def)
  from maker.run_loop_ends [OF this] maker.run_loop_fuel [OF this, of "RUN_FUEL + n"] show ?thesis by simp
qed

text \<open>
  C1. Kick start of a maker swap: at every moment of its life, restarts included, loading the saved
  swap with the same coins succeeds once \<open>Started\<close> is saved, gives the command the running swap is
  about to execute, and gives a swap that differs from the running one in \<open>watcher_reward\<close> and in the
  time of \<open>Finished\<close> at most.
\<close>

theorem maker_kick_start_resumes:
  assumes "maker_origin ctx s0" "db0 (ms_uuid s0) = None" "maker_life ctx s0 db0 t c rs"
    and "maker_log (maker_key s0) (rs_db rs) = maker_swap_event.Started d # evs"
    and "x_db_load_error ctx t' 0 = None"
  shows "\<exists>s. maker_load_from_db_by_uuid ctx t' (ms_maker_coin s0) (ms_taker_coin s0) (ms_uuid s0) (rs_db rs)
               = Ret (s, Some c) \<and> maker_obs s = maker_obs (rs_swap rs)"
proof -
  note inv = maker_life_inv [OF assms(1-3)]
  obtain m where m: "rs_db rs (ms_uuid s0) = Some (Maker m)" "mss_log m = maker_swap_event.Started d # evs"
    using assms(4) by (auto simp: maker_log_def maker_key_def split: option.splits saved_swap.splits)
  have "maker_get_command (last (mss_log m)) = Some c"
    using inv assms(4) m by (simp add: maker.life_inv_def)
  then obtain s where ld: "maker_load_from_db_by_uuid ctx t' (ms_maker_coin s0) (ms_taker_coin s0) (ms_uuid s0)
      (rs_db rs) = Ret (s, Some c)"
    using m assms(1,5)
    by (auto simp: maker_load_from_db_by_uuid_def load_my_swap_from_db_def maker_load_from_saved_def
        maker_origin_def Let_def split: if_splits)
  then have "maker_load ctx t' (maker_key s0) (rs_db rs) = Some (s, c)"
    by (simp add: maker_load_def maker_key_def)
  from maker.life_kick_start(1) [OF assms(1) inv this] ld show ?thesis by blast
qed

theorem maker_kick_start_resumes_witness:
  "\<exists>rs s. maker_life sample_ctx (sample_maker True) (\<lambda>u. None) 1 maker_swap_command.Negotiate rs \<and>
     maker_load_from_db_by_uuid sample_ctx 5 (sample_coin True ''RICK'') (sample_coin True ''MORTY'') sample_uuid
       (rs_db rs) = Ret (s, Some maker_swap_command.Negotiate)"
proof -
  obtain rs d where r: "maker_life sample_ctx (sample_maker True) (\<lambda>u. None) 1 maker_swap_command.Negotiate rs"
    "maker_log (maker_key (sample_maker True)) (rs_db rs) = [maker_swap_event.Started d]"
    using maker_life_sample_1 maker_life_sample by blast
  have "x_db_load_error sample_ctx 5 0 = None" by (simp add: sample_ctx_def)
  from maker_kick_start_resumes [OF maker_origin_sample _ r this] r(1) show ?thesis
    by (auto simp: sample_maker_def maker_swap_new_def)
qed







text \<open>
  C26. The maker sends a refund only for a payment of his own that is recorded, after an earlier stage
  of the swap reported an error, and after the coin answered that the lock time has passed.
\<close>

theorem maker_refunds_after_lock_time:
  assumes "maker_origin ctx s0" "db0 (ms_uuid s0) = None" "maker_life ctx s0 db0 t c rs"
    and "maker_handle_command ctx t' (rs_swap rs) c = Some (effs, s', out)"
    and "E_MakerRefundsPayment args \<in> set effs"
  shows "c = RefundMakerPayment \<and> ms_errors (rs_swap rs) \<noteq> [] \<and>
    \<not> c_is_auto_refundable (ms_maker_coin (rs_swap rs)) \<and>
    (\<exists>j. c_can_refund_htlc (ms_maker_coin (rs_swap rs)) t' j (md_maker_payment_lock (mm_data (rs_swap rs)))
          = Inr CanRefundNow) \<and>
    (\<exists>p. mm_maker_payment (rs_swap rs) = Some p \<and> args = maker_refund_args ctx (rs_swap rs) (ti_hex p))"
  by (rule maker_fund_moves [OF assms(4,5)])
    (use maker_life_ok [OF assms(1-3)] in \<open>auto simp: maker_ok_def\<close>)

theorem maker_refunds_after_lock_time_witness:
  "\<exists>rs. maker_life sample_ctx (sample_maker False) (\<lambda>u. None) 6 RefundMakerPayment rs \<and> ms_errors (rs_swap rs) \<noteq> []"
proof -
  obtain rs p where r: "maker_life sample_ctx (sample_maker False) (\<lambda>u. None) 6 RefundMakerPayment rs"
    "at_maker False (rs_swap rs)" "mm_maker_payment (rs_swap rs) = Some p"
    using maker_life_sample_refund maker_life_sample by blast
  then obtain a rest s out where
    "maker_handle_command sample_ctx 6 (rs_swap rs) RefundMakerPayment = Some (E_MakerRefundsPayment a # rest, s, out)"
    using maker_refund_sample by blast
  from maker_refunds_after_lock_time [OF maker_origin_sample _ r(1) this, of a] r(1) show ?thesis by auto
qed

text \<open>
  A maker swap that is about to finish without an error on record has spent the taker payment and
  seen the confirmation.
\<close>

theorem maker_finishes_clean_only_if_paid:
  assumes "maker_origin ctx s0" "db0 (ms_uuid s0) = None"
    and "maker_life ctx s0 db0 t maker_swap_command.Finish rs" "ms_errors (rs_swap rs) = []"
  shows "mm_taker_payment_spend (rs_swap rs) \<noteq> None \<and> mm_taker_payment_spend_confirmed (rs_swap rs)"
  using maker_life_ok [OF assms(1-3)] assms(4) by (simp add: maker_ok_def)

theorem maker_finishes_clean_only_if_paid_witness:
  "\<exists>rs. maker_life sample_ctx (sample_maker True) (\<lambda>u. None) 8 maker_swap_command.Finish rs \<and>
     mm_taker_payment_spend_confirmed (rs_swap rs)"
proof -
  obtain rs where "maker_life sample_ctx (sample_maker True) (\<lambda>u. None) 8 maker_swap_command.Finish rs"
    "ms_errors (rs_swap rs) = []"
    using maker_life_sample_8 maker_life_sample by blast
  from maker_finishes_clean_only_if_paid [OF maker_origin_sample _ this] this(1) show ?thesis by auto
qed

end
