(* ===== verification/SampleTaker.thy ===== *)
theory SampleTaker
  imports MakerProps
begin

text \<open>
  The run of the sample taker through its stages, for the witnesses of the taker's properties. With
  \<open>confirms = False\<close> the taker payment is not confirmed and the taker refunds it.
\<close>

lemma secrets_sized_sample [simp]: "secrets_sized (sample_coin confirms ticker)"
  by (simp add: secrets_sized_def sample_coin_def)

lemma taker_origin_sample: "taker_origin sample_ctx (sample_taker confirms)"
  by (simp add: taker_origin_def sample_taker_def taker_swap_new_def sample_ctx_def sample_key_def)

definition no_maker :: "swap_db \<Rightarrow> bool" where
  "no_maker db \<longleftrightarrow> (\<forall>m. db sample_uuid \<noteq> Some (Maker m))"

lemma taker_save_sample:
  assumes "no_maker db" "ts_uuid s = sample_uuid"
  shows "\<exists>db'. save_my_taker_swap_event sample_ctx t i s ev db = Inr db' \<and> no_maker db'"
  using assms
  by (auto simp: save_my_taker_swap_event_def load_my_swap_from_db_def save_to_db_def sample_ctx_def
      no_maker_def Let_def split: option.split saved_swap.split)

lemma taker_events_sample:
  assumes "no_maker (rs_db rs)" "ts_uuid (rs_swap rs) = sample_uuid"
  shows "\<exists>rs'. process_events (taker_ops sample_ctx) t i evs rs = Inr rs' \<and> no_maker (rs_db rs') \<and>
           rs_swap rs' = fold (taker_apply_event sample_now) evs (rs_swap rs)"
  using assms
proof (induction evs arbitrary: i rs)
  case (Cons ev evs)
  obtain db where db: "op_save (taker_ops sample_ctx) t i (rs_swap rs) ev (rs_db rs) = Inr db" "no_maker db"
    using taker_save_sample [OF Cons.prems] by fastforce
  have "ts_uuid (taker_apply_event sample_now ev (rs_swap rs)) = sample_uuid"
    using taker_key_apply [of sample_now ev "rs_swap rs"] Cons.prems by (simp add: taker_key_def)
  moreover have "op_clock (taker_ops sample_ctx) t i = sample_now" by (simp add: sample_ctx_def)
  ultimately show ?case
    using db(2) process_events_Cons [OF db(1), of evs] Cons.IH by (metis fold_simps(2) taker_ops_simps(2))
qed simp

lemma taker_step_sample:
  assumes "life (taker_ops sample_ctx) load allowed taker_swap_command.Start rs0 t c rs"
    and "taker_handle_command sample_ctx t (rs_swap rs) c = Some (effs, s, Ret (Some c', evs))"
    and "no_maker (rs_db rs)" "ts_uuid s = sample_uuid"
    and "s' = fold (taker_apply_event sample_now) evs s"
  shows "\<exists>rs'. life (taker_ops sample_ctx) load allowed taker_swap_command.Start rs0 (Suc t) c' rs' \<and>
           no_maker (rs_db rs') \<and> rs_swap rs' = s'"
proof -
  let ?rs1 = "rs\<lparr>rs_swap := s, rs_effects := rs_effects rs @ effs\<rparr>"
  from taker_events_sample [of ?rs1 t 0 evs] assms(3,4) obtain rs' where
    r: "process_events (taker_ops sample_ctx) t 0 evs ?rs1 = Inr rs'" "no_maker (rs_db rs')"
      "rs_swap rs' = fold (taker_apply_event sample_now) evs s"
    by auto
  then have "run_step (taker_ops sample_ctx) t c rs = Continue c' rs'"
    using assms(2) by (simp add: run_step_def Let_def)
  from life_step [OF assms(1) this] show ?thesis using r assms(5) by auto
qed

definition at_taker :: "bool \<Rightarrow> taker_swap \<Rightarrow> bool" where
  "at_taker confirms s \<longleftrightarrow> ts_maker_coin s = sample_coin True ''RICK'' \<and>
     ts_taker_coin s = sample_coin confirms ''MORTY'' \<and> td_started_at (tm_data s) = sample_now \<and>
     td_lock_duration (tm_data s) = PAYMENT_LOCKTIME \<and>
     td_taker_payment_lock (tm_data s) = sample_now + PAYMENT_LOCKTIME \<and>
     td_maker_payment_wait (tm_data s) = wait_for_maker_payment_conf_until sample_now PAYMENT_LOCKTIME \<and>
     \<not> tm_watcher_reward s \<and> ts_uuid s = sample_uuid \<and> (confirms \<longrightarrow> ts_errors s = [])"

lemma at_taker_apply [simp]:
  "at_taker c (s\<lparr>tm_payment_instructions := i\<rparr>) = at_taker c s"
  "at_taker c (s\<lparr>tm_taker_fee := tx\<rparr>) = at_taker c s"
  "at_taker c (s\<lparr>tm_maker_payment := tx\<rparr>) = at_taker c s"
  "at_taker c (s\<lparr>tm_taker_payment := tx\<rparr>) = at_taker c s"
  "at_taker c (s\<lparr>ts_maker_payment_confirmed := b\<rparr>) = at_taker c s"
  "at_taker c (s\<lparr>tm_maker_payment_spend_preimage := x, tm_taker_payment_refund_preimage := y\<rparr>) = at_taker c s"
  "at_taker c (s\<lparr>tm_taker_payment_spend := tx, tm_secret := b'\<rparr>) = at_taker c s"
  "at_taker c (s\<lparr>tm_maker_payment_spend := tx\<rparr>) = at_taker c s"
  "at_taker False s \<Longrightarrow> at_taker False (taker_push_error e s)"
  by (simp_all add: at_taker_def taker_push_error_def)

lemma taker_start_sample:
  "\<exists>d. taker_handle_command sample_ctx t (sample_taker confirms) taker_swap_command.Start =
     Some ([], sample_taker confirms, Ret (Some taker_swap_command.Negotiate, [taker_swap_event.Started d])) \<and>
     at_taker confirms (taker_apply_event sample_now (taker_swap_event.Started d) (sample_taker confirms))"
proof -
  have fee: "dex_fee_amount sample_ctx ''MORTY'' ''RICK'' 20 (dex_fee_threshold (1 / 10000)) \<le> 1"
    by (simp add: dex_fee_amount_def dex_fee_rate_def dex_fee_threshold_def Let_def)
  then show ?thesis
    by (simp add: taker_start_def taker_result_defs sample_defs sample_taker_def taker_swap_new_def at_taker_def
        check_balance_for_taker_swap_def dex_fee_amount_from_taker_coin_def)
qed

lemma sample_coin_sel:
  "c_ticker (sample_coin b k) = k" "c_is_supported_by_watchers (sample_coin b k) = True"
  "c_maker_locktime_multiplier (sample_coin b k) = 2" "c_derive_htlc_key_pair (sample_coin b k) u = sample_key"
  "c_negotiate_swap_contract_addr (sample_coin b k) a = Inr None"
  "c_validate_other_pubkey (sample_coin b k) key = (if length key = 33 then Inr () else Inl ''Invalid public'')"
  "c_tx_enum_from_bytes (sample_coin b k) raw = Inr sample_tx"
  "c_send_taker_fee (sample_coin b k) t p amount u = Inr sample_tx"
  "c_send_taker_payment (sample_coin b k) t spa = Inr sample_tx"
  "c_send_taker_spends_maker_payment (sample_coin b k) t spe = Inr sample_tx"
  "c_validate_maker_payment (sample_coin b k) t v = Inr ()"
  "c_check_if_my_payment_sent (sample_coin b k) t chk = Inr None"
  "c_extract_secret (sample_coin b k) t h tx r = Inr (replicate 32 5)"
  "c_wait_for_confirmations (sample_coin b k) t conf = (if b then Inr () else Inl ''timeout'')"
  "c_wait_for_htlc_tx_spend (sample_coin b k) t w = Inr sample_tx"
  "c_maker_payment_instructions (sample_coin b k) t pia = Inr None"
  "c_create_taker_payment_refund_preimage (sample_coin b k) t raw l p h ca u = Inr sample_tx"
  "c_create_maker_payment_spend_preimage (sample_coin b k) t raw l p h u = Inr sample_tx"
  by (simp_all add: sample_coin_def)

lemma taker_negotiate_sample:
  assumes "at_taker confirms s"
  shows "\<exists>effs n. taker_handle_command sample_ctx t s taker_swap_command.Negotiate =
     Some (effs, s, Ret (Some SendTakerFee, [taker_swap_event.Negotiated n])) \<and>
     at_taker confirms (taker_apply_event sample_now (taker_swap_event.Negotiated n) s)"
proof -
  have l: "maker_lock_duration PAYMENT_LOCKTIME 2 = 2 * PAYMENT_LOCKTIME"
    by (simp add: maker_lock_duration_def f64_as_u64_def PAYMENT_LOCKTIME_def)
  have c: "checked_add sample_now (2 * PAYMENT_LOCKTIME) = Some (sample_now + 2 * PAYMENT_LOCKTIME)"
    by (simp add: checked_add_def sample_now_def PAYMENT_LOCKTIME_def)
  have r: "sample_now \<le> sample_now + (BASIC_COMM_TIMEOUT + 90)"
    by (simp add: sample_now_def BASIC_COMM_TIMEOUT_def)
  show ?thesis
    using assms
    by (simp add: taker_negotiate_def taker_result_defs recv_sample [OF _ r] sample_store_def
        sample_negotiation_def at_taker_def l c abs_diff_def taker_negotiate_contract_def sample_coin_sel
        hash_from_slice_def sample_key_def Let_def)
qed

lemma taker_fee_sample:
  assumes "at_taker confirms s"
  shows "\<exists>effs tx. taker_handle_command sample_ctx t s SendTakerFee =
     Some (effs, s, Ret (Some WaitForMakerPayment, [TakerFeeSent tx]))"
proof -
  have "\<not> sample_now + PAYMENT_LOCKTIME div 3 < x_now_sec sample_ctx t"
    by (simp add: sample_ctx_def sample_now_def PAYMENT_LOCKTIME_def)
  then show ?thesis
    using assms by (simp add: taker_send_taker_fee_def taker_result_defs at_taker_def sample_coin_sel Let_def)
qed

lemma taker_wait_maker_sample:
  assumes "at_taker confirms s" "tm_taker_fee s = Some fee"
  shows "\<exists>effs i tx. taker_handle_command sample_ctx t s WaitForMakerPayment =
     Some (effs, s, Ret (Some ValidateMakerPayment,
       [TakerPaymentInstructionsReceived i, MakerPaymentReceived tx, MakerPaymentWaitConfirmStarted]))"
proof -
  have r: "sample_now \<le> sample_now + (BASIC_COMM_TIMEOUT + 600)"
    by (simp add: sample_now_def BASIC_COMM_TIMEOUT_def)
  show ?thesis
    using assms
    by (simp add: taker_wait_for_maker_payment_def taker_get_taker_fee_data_def taker_result_defs at_taker_def
        recv_sample [OF _ r] sample_store_def sample_coin_sel Let_def)
qed

lemma taker_validate_sample:
  assumes "at_taker confirms s" "tm_maker_payment s = Some p"
  shows "taker_handle_command sample_ctx t s ValidateMakerPayment =
     Some ([], s, Ret (Some SendTakerPayment, [MakerPaymentValidatedAndConfirmed]))"
  using assms
  by (simp add: taker_validate_maker_payment_def taker_result_defs at_taker_def sample_coin_sel Let_def)

lemma taker_payment_sample:
  assumes "at_taker confirms s" "tm_taker_fee s = Some fee" "tm_maker_payment s = Some p"
  shows "\<exists>a rest tx x y. taker_handle_command sample_ctx t s SendTakerPayment =
     Some (E_SendTakerPayment a # rest, s, Ret (Some WaitForTakerPaymentSpend,
       [TakerPaymentSent tx, WatcherMessageSent (Some x) (Some y)]))"
proof -
  have n: "\<not> wait_for_maker_payment_conf_until sample_now PAYMENT_LOCKTIME < x_now_sec sample_ctx t"
    by (simp add: sample_ctx_def sample_now_def PAYMENT_LOCKTIME_def wait_for_maker_payment_conf_until_def
        wait_for_maker_payment_conf_duration_def)
  have u: "u32_try_from (sample_now + PAYMENT_LOCKTIME) = Some (ucast (sample_now + PAYMENT_LOCKTIME))"
    by (simp add: u32_try_from_def sample_now_def PAYMENT_LOCKTIME_def)
  have c: "x_use_watchers sample_ctx" "\<not> x_env_use_test_locktime sample_ctx" by (simp_all add: sample_ctx_def)
  show ?thesis
    using assms n u c
    by (simp add: taker_send_taker_payment_def taker_after_payment_def taker_uses_watchers_def
        taker_create_watcher_data_def taker_result_defs at_taker_def sample_coin_sel Let_def)
qed

lemma taker_wait_spend_sample:
  assumes "at_taker confirms s" "tm_taker_fee s = Some fee" "tm_maker_payment s = Some p"
    "tm_taker_payment s = Some q"
  shows "confirms \<Longrightarrow> \<exists>effs d. taker_handle_command sample_ctx t s WaitForTakerPaymentSpend =
       Some (effs, s, Ret (Some SpendMakerPayment, [taker_swap_event.TakerPaymentSpent d]))"
    and "\<not> confirms \<Longrightarrow> \<exists>effs e w. taker_handle_command sample_ctx t s WaitForTakerPaymentSpend =
       Some (effs, s, Ret (Some PrepareForTakerPaymentRefund,
         [taker_swap_event.TakerPaymentWaitConfirmFailed e, TakerPaymentWaitRefundStarted w]))"
proof -
  have "\<exists>effs. taker_watcher_broadcast sample_ctx s q = Some effs"
    using assms(2,3) by (simp add: taker_watcher_broadcast_def taker_create_watcher_data_def split: option.split)
  then obtain effs where "taker_watcher_broadcast sample_ctx s q = Some effs" ..
  then show "confirms \<Longrightarrow> \<exists>effs d. taker_handle_command sample_ctx t s WaitForTakerPaymentSpend =
       Some (effs, s, Ret (Some SpendMakerPayment, [taker_swap_event.TakerPaymentSpent d]))"
    and "\<not> confirms \<Longrightarrow> \<exists>effs e w. taker_handle_command sample_ctx t s WaitForTakerPaymentSpend =
       Some (effs, s, Ret (Some PrepareForTakerPaymentRefund,
         [taker_swap_event.TakerPaymentWaitConfirmFailed e, TakerPaymentWaitRefundStarted w]))"
    using assms(1,4)
    by (simp_all add: taker_wait_for_taker_payment_spend_def taker_result_defs at_taker_def sample_coin_sel
        hash_from_slice_def Let_def)
qed

lemma taker_spend_sample:
  assumes "at_taker True s" "tm_maker_payment s = Some p"
  shows "\<exists>a rest tx. taker_handle_command sample_ctx t s SpendMakerPayment =
     Some (E_TakerSpendsMakerPayment a # rest, s, Ret (Some taker_swap_command.Finish, [MakerPaymentSpent tx]))"
  using assms by (simp add: taker_spend_maker_payment_def taker_result_defs at_taker_def sample_coin_sel Let_def)

lemma taker_refund_sample:
  assumes "at_taker False s" "tm_taker_payment s = Some p"
  shows "\<exists>a rest tx. taker_handle_command sample_ctx t s RefundTakerPayment =
     Some (E_TakerRefundsPayment a # rest, s, Ret (Some FinalizeTakerPaymentRefund, [TakerPaymentRefunded tx]))"
  using assms by (simp add: taker_refund_taker_payment_def taker_result_defs at_taker_def Let_def)

section \<open>The life of the sample taker\<close>

abbreviation sample_taker_life :: "bool \<Rightarrow> moment \<Rightarrow> taker_swap_command \<Rightarrow>
    (taker_swap, taker_swap_event, swap_db) run_state \<Rightarrow> bool" where
  "sample_taker_life confirms \<equiv>
     life (taker_ops sample_ctx) (\<lambda>t. taker_load sample_ctx t (taker_key (sample_taker confirms)))
       (\<lambda>db. \<not> taker_fragile (last (taker_log (taker_key (sample_taker confirms)) db)))
       taker_swap_command.Start (run_init (sample_taker confirms) (\<lambda>u. None) (\<lambda>k. None))"

text \<open>A life of the sample taker that has come to \<open>c\<close> with the transactions \<open>txs\<close> on record.\<close>

definition taker_at :: "bool \<Rightarrow> moment \<Rightarrow> taker_swap_command \<Rightarrow>
    (taker_swap, taker_swap_event, swap_db) run_state \<Rightarrow> bool" where
  "taker_at confirms t c rs \<longleftrightarrow>
     sample_taker_life confirms t c rs \<and> no_maker (rs_db rs) \<and> at_taker confirms (rs_swap rs)"

lemma taker_at_step:
  assumes "taker_at confirms t c rs"
    and "taker_handle_command sample_ctx t (rs_swap rs) c = Some (effs, rs_swap rs, Ret (Some c', evs))"
    and "at_taker confirms (fold (taker_apply_event sample_now) evs (rs_swap rs))"
  shows "\<exists>rs'. taker_at confirms (Suc t) c' rs' \<and>
           rs_swap rs' = fold (taker_apply_event sample_now) evs (rs_swap rs)"
proof -
  have "ts_uuid (rs_swap rs) = sample_uuid" using assms(1) by (simp add: taker_at_def at_taker_def)
  with taker_step_sample [OF _ assms(2) _ _ refl] assms(1,3) show ?thesis
    unfolding taker_at_def by fastforce
qed

lemma taker_at_1: "\<exists>rs d. taker_at confirms 1 taker_swap_command.Negotiate rs \<and>
    taker_log (taker_key (sample_taker confirms)) (rs_db rs) = [taker_swap_event.Started d]"
proof -
  let ?s0 = "sample_taker confirms" and ?rs0 = "run_init (sample_taker confirms) (\<lambda>u. None) (\<lambda>k. None)"
  obtain d where d: "taker_handle_command sample_ctx 0 ?s0 taker_swap_command.Start =
     Some ([], ?s0, Ret (Some taker_swap_command.Negotiate, [taker_swap_event.Started d]))"
    and s1: "at_taker confirms (taker_apply_event sample_now (taker_swap_event.Started d) ?s0)"
    using taker_start_sample by blast
  have "no_maker (rs_db ?rs0)" "ts_uuid (rs_swap ?rs0) = sample_uuid"
    by (simp_all add: run_init_def no_maker_def sample_taker_def taker_swap_new_def)
  from taker_events_sample [OF this, of 0 0 "[taker_swap_event.Started d]"] obtain rs where
    p: "process_events (taker_ops sample_ctx) 0 0 [taker_swap_event.Started d] ?rs0 = Inr rs"
    and r: "no_maker (rs_db rs)" "rs_swap rs = taker_apply_event sample_now (taker_swap_event.Started d) ?s0"
    by (auto simp: run_init_def)
  then have st: "run_step (taker_ops sample_ctx) 0 taker_swap_command.Start ?rs0 = Continue taker_swap_command.Negotiate rs"
    using d by (simp add: run_step_def run_init_def Let_def)
  have "taker_fits (taker_key (rs_swap ?rs0)) (rs_db ?rs0)"
    by (simp add: run_init_def taker_fits_def)
  from taker.process_events_Inr [OF p this]
  have "taker_log (taker_key ?s0) (rs_db rs) = [taker_swap_event.Started d]"
    by (simp add: run_init_def taker_log_def)
  with life_step [OF life_start st] r s1 show ?thesis
    unfolding taker_at_def by (intro exI [of _ rs] exI [of _ d]) (simp only: One_nat_def simp_thms)
qed

lemma taker_at_5:
  "\<exists>rs fee p. taker_at confirms 5 SendTakerPayment rs \<and> tm_taker_fee (rs_swap rs) = Some fee \<and>
     tm_maker_payment (rs_swap rs) = Some p"
proof -
  obtain r1 where r1: "taker_at confirms 1 taker_swap_command.Negotiate r1" using taker_at_1 by blast
  then obtain r2 where r2: "taker_at confirms 2 SendTakerFee r2"
    using taker_negotiate_sample [of confirms "rs_swap r1" 1] taker_at_step [OF r1]
    by (fastforce simp: taker_at_def numeral_eq_Suc)
  then obtain r3 fee where r3: "taker_at confirms 3 WaitForMakerPayment r3" "tm_taker_fee (rs_swap r3) = Some fee"
    using taker_fee_sample [of confirms "rs_swap r2" 2] taker_at_step [OF r2]
    by (fastforce simp: taker_at_def numeral_eq_Suc)
  then obtain r4 p where r4: "taker_at confirms 4 ValidateMakerPayment r4"
      "tm_taker_fee (rs_swap r4) = Some fee" "tm_maker_payment (rs_swap r4) = Some p"
    using taker_wait_maker_sample [of confirms "rs_swap r3" fee 3] taker_at_step [OF r3(1)]
    by (fastforce simp: taker_at_def numeral_eq_Suc)
  then show ?thesis
    using taker_validate_sample [of confirms "rs_swap r4" p 4] taker_at_step [OF r4(1)]
    by (fastforce simp: taker_at_def numeral_eq_Suc)
qed

lemma taker_at_6:
  "\<exists>rs fee p q. taker_at confirms 6 WaitForTakerPaymentSpend rs \<and> tm_taker_fee (rs_swap rs) = Some fee \<and>
     tm_maker_payment (rs_swap rs) = Some p \<and> tm_taker_payment (rs_swap rs) = Some q"
proof -
  obtain r fee p where r: "taker_at confirms 5 SendTakerPayment r" "tm_taker_fee (rs_swap r) = Some fee"
      "tm_maker_payment (rs_swap r) = Some p"
    using taker_at_5 by blast
  then show ?thesis
    using taker_payment_sample [of confirms "rs_swap r" fee p 5] taker_at_step [OF r(1)]
    by (fastforce simp: taker_at_def numeral_eq_Suc)
qed

lemma taker_at_7: "\<exists>rs p. taker_at True 7 SpendMakerPayment rs \<and> tm_maker_payment (rs_swap rs) = Some p"
proof -
  obtain r fee p q where r: "taker_at True 6 WaitForTakerPaymentSpend r" "tm_taker_fee (rs_swap r) = Some fee"
      "tm_maker_payment (rs_swap r) = Some p" "tm_taker_payment (rs_swap r) = Some q"
    using taker_at_6 by blast
  then show ?thesis
    using taker_wait_spend_sample(1) [of True "rs_swap r" fee p q 6] taker_at_step [OF r(1)]
    by (fastforce simp: taker_at_def numeral_eq_Suc)
qed

lemma taker_at_8: "\<exists>rs. taker_at True 8 taker_swap_command.Finish rs"
proof -
  obtain r p where r: "taker_at True 7 SpendMakerPayment r" "tm_maker_payment (rs_swap r) = Some p"
    using taker_at_7 by blast
  then show ?thesis
    using taker_spend_sample [of "rs_swap r" p 7] taker_at_step [OF r(1)]
    by (fastforce simp: taker_at_def numeral_eq_Suc)
qed

lemma taker_at_refund:
  "\<exists>rs q. taker_at False 8 RefundTakerPayment rs \<and> tm_taker_payment (rs_swap rs) = Some q"
proof -
  obtain r fee p q where r: "taker_at False 6 WaitForTakerPaymentSpend r" "tm_taker_fee (rs_swap r) = Some fee"
      "tm_maker_payment (rs_swap r) = Some p" "tm_taker_payment (rs_swap r) = Some q"
    using taker_at_6 by blast
  have a: "at_taker False (rs_swap r)" using r(1) by (simp add: taker_at_def)
  then obtain effs e w where h: "taker_handle_command sample_ctx 6 (rs_swap r) WaitForTakerPaymentSpend =
      Some (effs, rs_swap r, Ret (Some PrepareForTakerPaymentRefund,
         [taker_swap_event.TakerPaymentWaitConfirmFailed e, TakerPaymentWaitRefundStarted w]))"
    using taker_wait_spend_sample(2) [OF a r(2-4), of 6] by blast
  have "at_taker False (fold (taker_apply_event sample_now)
      [taker_swap_event.TakerPaymentWaitConfirmFailed e, TakerPaymentWaitRefundStarted w] (rs_swap r))"
    using a by simp
  from taker_at_step [OF r(1) h this] obtain r7 where r7: "taker_at False 7 PrepareForTakerPaymentRefund r7"
      "rs_swap r7 = taker_push_error e (rs_swap r)"
    by (auto simp: numeral_eq_Suc)
  then have r7': "tm_maker_payment (rs_swap r7) = Some p" "tm_taker_payment (rs_swap r7) = Some q"
    using r by (simp_all add: taker_push_error_def)
  have "\<exists>effs. taker_handle_command sample_ctx 7 (rs_swap r7) PrepareForTakerPaymentRefund =
     Some (effs, rs_swap r7, Ret (Some RefundTakerPayment, [TakerPaymentRefundStarted]))"
    using r7'(1) by (simp add: taker_prepare_for_taker_payment_refund_def taker_result_defs)
  then show ?thesis
    using taker_at_step [OF r7(1)] r7(1) r7' by (fastforce simp: taker_at_def numeral_eq_Suc)
qed

end
