(* ===== verification/TakerProps.thy ===== *)
theory TakerProps
  imports SampleTaker
begin

text \<open>
  The properties of the taker: which stage moves funds and under which conditions, and the properties
  of a taker node over its whole life, with witnesses on the sample node. The last section has the two
  points where a restarted taker does not do what the running one would do.
\<close>

section \<open>Effects that move funds\<close>

definition taker_emits :: "(effect \<Rightarrow> bool) \<Rightarrow> taker_stage option \<Rightarrow> bool" where
  "taker_emits P r \<longleftrightarrow> (\<forall>effs s out. r = Some (effs, s, out) \<longrightarrow> list_all P effs)"

lemma taker_emits_simps [simp]:
  "taker_emits P None" "taker_emits P (taker_ends s effs evs) = list_all P effs"
  "taker_emits P (taker_refunds s effs ev) = list_all P effs"
  "taker_emits P (taker_continues s effs c evs) = list_all P effs"
  "taker_emits P (taker_panics s effs) = list_all P effs"
  "taker_emits P (Some (effs, s, out)) = list_all P effs"
  by (simp_all add: taker_emits_def taker_result_defs)

lemma taker_emitsD:
  "taker_emits (\<lambda>e. moves_funds e \<longrightarrow> P e) r \<Longrightarrow> r = Some (effs, s, out) \<Longrightarrow> e \<in> set effs \<Longrightarrow> moves_funds e \<Longrightarrow> P e"
  by (simp add: taker_emits_def list_all_iff)

lemma taker_start_emits: "taker_emits (\<lambda>e. moves_funds e \<longrightarrow> P e) (taker_start ctx t s)"
  by (simp add: taker_start_def Let_def split: sum.split option.split)

lemma taker_negotiate_emits: "taker_emits (\<lambda>e. moves_funds e \<longrightarrow> P e) (taker_negotiate ctx t s)"
  by (simp add: taker_negotiate_def taker_negotiate_failed_def Let_def split: sum.split option.split)

lemma taker_fee_emits:
  "taker_emits (\<lambda>e. moves_funds e \<longrightarrow>
       x_now_sec ctx t \<le> td_started_at (tm_data s) + td_lock_duration (tm_data s) div 3 \<and>
       e = E_SendTakerFee DEX_FEE_ADDR_RAW_PUBKEY
             (x_to_decimal ctx (dex_fee_amount_from_taker_coin ctx (ts_taker_coin s)
                (td_maker_coin (tm_data s)) (ts_taker_amount s))) (ts_uuid s))
     (taker_send_taker_fee ctx t s)"
  by (simp add: taker_send_taker_fee_def Let_def not_less split: sum.split)

lemma taker_after_payment_emits:
  "list_all P effs \<Longrightarrow> (\<And>e. \<not> moves_funds e \<Longrightarrow> P e) \<Longrightarrow> taker_emits P (taker_after_payment ctx t s effs tx)"
  by (simp add: taker_after_payment_def Let_def split: sum.split option.split)

lemma taker_payment_emits:
  "taker_emits (\<lambda>e. moves_funds e \<longrightarrow>
       x_now_sec ctx t \<le> td_maker_payment_wait (tm_data s) \<and>
       c_check_if_my_payment_sent (ts_taker_coin s) t (taker_check_if_my_payment_sent_args ctx s) = Inr None \<and>
       (\<exists>reward. e = E_SendTakerPayment (taker_payment_args ctx s reward)))
     (taker_send_taker_payment ctx t s)"
  by (auto simp: taker_send_taker_payment_def Let_def not_less
      intro!: taker_after_payment_emits split: sum.split option.split)

lemma taker_spend_emits:
  "taker_emits (\<lambda>e. moves_funds e \<longrightarrow>
       (\<exists>p. tm_maker_payment s = Some p \<and>
            e = E_TakerSpendsMakerPayment (taker_spend_args s (ti_hex p) (tm_secret s))))
     (taker_spend_maker_payment ctx t s)"
  by (simp add: taker_spend_maker_payment_def Let_def split: sum.split option.split)

lemma taker_refund_emits:
  "taker_emits (\<lambda>e. moves_funds e \<longrightarrow>
       \<not> c_is_auto_refundable (ts_taker_coin s) \<and>
       (\<exists>j. c_can_refund_htlc (ts_taker_coin s) t j (td_taker_payment_lock (tm_data s)) = Inr CanRefundNow) \<and>
       (\<exists>p. tm_taker_payment s = Some p \<and> e = E_TakerRefundsPayment (taker_refund_args s (ti_hex p))))
     (taker_refund_taker_payment ctx t s)"
  using wait_can_refund_Some [of "ts_taker_coin s" t "td_taker_payment_lock (tm_data s)" 0]
  by (simp add: taker_refund_taker_payment_def Let_def split: sum.split option.split)

lemma taker_watcher_moves_nothing:
  "taker_watcher_broadcast ctx s p = Some effs \<Longrightarrow> list_all (\<lambda>e. moves_funds e \<longrightarrow> P e) effs"
  by (auto simp: taker_watcher_broadcast_def split: option.splits if_splits)

lemma taker_wait_spend_emits:
  "taker_emits (\<lambda>e. moves_funds e \<longrightarrow> P e) (taker_wait_for_taker_payment_spend ctx t s)"
  by (simp add: taker_wait_for_taker_payment_spend_def taker_watcher_moves_nothing Let_def
      split: sum.split option.split)

lemma taker_other_stage_emits:
  assumes "c \<notin> {SendTakerFee, SendTakerPayment, SpendMakerPayment, RefundTakerPayment}"
  shows "taker_emits (\<lambda>e. moves_funds e \<longrightarrow> P e) (taker_handle_command ctx t s c)"
  using assms
  by (cases c)
    (simp_all add: taker_start_emits taker_negotiate_emits taker_wait_spend_emits
      taker_wait_for_maker_payment_def taker_validate_maker_payment_def
      taker_prepare_for_taker_payment_refund_def taker_finalize_taker_payment_refund_def Let_def
      split: sum.split option.split)

lemma taker_fund_moves:
  assumes "taker_handle_command ctx t s c = Some (effs, s', out)" "e \<in> set effs" "moves_funds e"
  obtains
    (fee) "c = SendTakerFee"
      "e = E_SendTakerFee DEX_FEE_ADDR_RAW_PUBKEY
             (x_to_decimal ctx (dex_fee_amount_from_taker_coin ctx (ts_taker_coin s)
                (td_maker_coin (tm_data s)) (ts_taker_amount s))) (ts_uuid s)"
      "x_now_sec ctx t \<le> td_started_at (tm_data s) + td_lock_duration (tm_data s) div 3"
  | (pay) reward where "c = SendTakerPayment" "e = E_SendTakerPayment (taker_payment_args ctx s reward)"
      "x_now_sec ctx t \<le> td_maker_payment_wait (tm_data s)"
      "c_check_if_my_payment_sent (ts_taker_coin s) t (taker_check_if_my_payment_sent_args ctx s) = Inr None"
  | (spend) p where "c = SpendMakerPayment" "tm_maker_payment s = Some p"
      "e = E_TakerSpendsMakerPayment (taker_spend_args s (ti_hex p) (tm_secret s))"
  | (refund) p j where "c = RefundTakerPayment" "tm_taker_payment s = Some p"
      "e = E_TakerRefundsPayment (taker_refund_args s (ti_hex p))"
      "\<not> c_is_auto_refundable (ts_taker_coin s)"
      "c_can_refund_htlc (ts_taker_coin s) t j (td_taker_payment_lock (tm_data s)) = Inr CanRefundNow"
proof (cases "c \<in> {SendTakerFee, SendTakerPayment, SpendMakerPayment, RefundTakerPayment}")
  case False
  from taker_emitsD [OF taker_other_stage_emits [OF this, of "\<lambda>e. False"] assms] show ?thesis ..
next
  case True
  then consider "c = SendTakerFee" | "c = SendTakerPayment" | "c = SpendMakerPayment" | "c = RefundTakerPayment"
    by blast
  then show ?thesis
  proof cases
    case 1
    with assms(1) have "taker_send_taker_fee ctx t s = Some (effs, s', out)" by simp
    from taker_emitsD [OF taker_fee_emits this assms(2,3)] 1 show ?thesis by (auto intro: fee)
  next
    case 2
    with assms(1) have "taker_send_taker_payment ctx t s = Some (effs, s', out)" by simp
    from taker_emitsD [OF taker_payment_emits this assms(2,3)] 2 show ?thesis by (auto intro: pay)
  next
    case 3
    with assms(1) have "taker_spend_maker_payment ctx t s = Some (effs, s', out)" by simp
    from taker_emitsD [OF taker_spend_emits this assms(2,3)] 3 show ?thesis by (auto intro: spend)
  next
    case 4
    with assms(1) have "taker_refund_taker_payment ctx t s = Some (effs, s', out)" by simp
    from taker_emitsD [OF taker_refund_emits this assms(2,3)] 4 show ?thesis by (auto intro: refund)
  qed
qed

section \<open>The error that a stage returns\<close>

definition taker_errs :: "bool \<Rightarrow> taker_stage option \<Rightarrow> bool" where
  "taker_errs P r \<longleftrightarrow> (\<forall>effs s e. r = Some (effs, s, Err e) \<longrightarrow> P)"

lemma taker_errs_simps [simp]:
  "taker_errs P None" "taker_errs P (taker_ends s effs evs)" "taker_errs P (taker_refunds s effs ev)"
  "taker_errs P (taker_continues s effs c evs)" "taker_errs P (taker_panics s effs)"
  "taker_errs P (Some (effs, s, Ret r))" "taker_errs P (Some (effs, s, Err e)) = P"
  by (simp_all add: taker_errs_def taker_result_defs)

definition taker_lock_overflows :: "mm_ctx \<Rightarrow> taker_swap \<Rightarrow> bool" where
  "taker_lock_overflows ctx s \<longleftrightarrow> taker_uses_watchers ctx s \<and>
     u32_try_from (if x_env_use_test_locktime ctx then td_started_at (tm_data s)
                   else td_taker_payment_lock (tm_data s)) = None"

lemma taker_after_payment_errs: "taker_errs (taker_lock_overflows ctx s) (taker_after_payment ctx t s effs tx)"
  unfolding taker_after_payment_def taker_lock_overflows_def Let_def
  by (simp split: option.split sum.split)

lemma taker_payment_errs: "taker_errs (taker_lock_overflows ctx s) (taker_send_taker_payment ctx t s)"
  by (simp add: taker_send_taker_payment_def taker_after_payment_errs Let_def split: sum.split option.split)

lemma taker_other_stage_errs:
  assumes "c \<noteq> SendTakerPayment"
  shows "taker_errs False (taker_handle_command ctx t s c)"
  using assms
  by (cases c)
    (simp_all add: taker_start_def taker_negotiate_def taker_negotiate_failed_def taker_simple_stage_defs
      taker_wait_for_taker_payment_spend_def Let_def split: sum.split option.split)

lemma taker_stage_err:
  assumes "taker_handle_command ctx t s c = Some (effs, s', Err e)"
  shows "c = SendTakerPayment \<and> taker_lock_overflows ctx s"
proof (cases "c = SendTakerPayment")
  case True
  with assms taker_payment_errs [of ctx s t] show ?thesis by (simp add: taker_errs_def)
next
  case False
  with assms taker_other_stage_errs [OF this, of ctx t s] show ?thesis by (simp add: taker_errs_def)
qed

section \<open>A taker node over its life\<close>

text \<open>
  \<open>taker_life ctx s0 db0 t c rs\<close>: after \<open>t\<close> stages and restarts, the swap that the node created as \<open>s0\<close>
  is in state \<open>rs\<close> and about to execute \<open>c\<close>. A restart may happen at any point, except with
  \<open>TakerPaymentInstructionsReceived\<close> as the last saved event; for that point see
  \<open>taker_restart_without_maker_payment\<close> below.
\<close>

definition taker_life :: "mm_ctx \<Rightarrow> taker_swap \<Rightarrow> swap_db \<Rightarrow> moment \<Rightarrow> taker_swap_command \<Rightarrow>
    (taker_swap, taker_swap_event, swap_db) run_state \<Rightarrow> bool" where
  "taker_life ctx s0 db0 =
     life (taker_ops ctx) (\<lambda>t. taker_load ctx t (taker_key s0))
       (\<lambda>db. \<not> taker_fragile (last (taker_log (taker_key s0) db))) taker_swap_command.Start
       (run_init s0 db0 (\<lambda>k. None))"

lemma taker_life_inv:
  assumes "taker_origin ctx s0" "db0 (ts_uuid s0) = None" "taker_life ctx s0 db0 t c rs"
  shows "taker.life_inv ctx s0 c rs"
proof (rule taker.life_invariant [OF assms(3) [unfolded taker_life_def] assms(1)])
  show "rs_swap (run_init s0 db0 (\<lambda>k. None)) = s0" by (simp add: run_init_def)
  show "taker_log (taker_key s0) (rs_db (run_init s0 db0 (\<lambda>k. None))) = []"
    and "taker_fits (taker_key s0) (rs_db (run_init s0 db0 (\<lambda>k. None)))"
    using assms(2) by (simp_all add: run_init_def taker_log_def taker_fits_def taker_key_def)
qed simp

lemmas taker_life_ok = taker.life_ok [OF taker_life_inv]

lemma taker_life_sample:
  "taker_at confirms t c rs \<Longrightarrow>
   taker_life sample_ctx (sample_taker confirms) (\<lambda>u. None) t c rs \<and> at_taker confirms (rs_swap rs)"
  by (simp add: taker_life_def taker_at_def)

text \<open>
  The loop of \<open>run_taker_swap\<close> ends: twelve turns suffice to complete the swap, unless a save or a
  stage panics or a stage waits for ever; more fuel changes nothing.
\<close>

theorem taker_run_ends:
  "(\<forall>c' rs'. run_loop (taker_ops ctx) RUN_FUEL t c rs \<noteq> Continue c' rs') \<and>
   run_loop (taker_ops ctx) (RUN_FUEL + n) t c rs = run_loop (taker_ops ctx) RUN_FUEL t c rs"
proof -
  have "taker_rank c < RUN_FUEL" by (cases c) (simp_all add: RUN_FUEL_def)
  from taker.run_loop_ends [OF this] taker.run_loop_fuel [OF this, of "RUN_FUEL + n"] show ?thesis by simp
qed



text \<open>
  No stage of a taker swap panics, in whatever state a life with restarts leads to; and the only
  stage that returns an error is \<open>send_taker_payment\<close>, when watchers are used and the lock time does
  not fit 32 bits.
\<close>

theorem taker_stages_never_panic:
  assumes "taker_origin ctx s0" "db0 (ts_uuid s0) = None" "taker_life ctx s0 db0 t c rs"
    and "taker_handle_command ctx t' (rs_swap rs) c = Some (effs, s', out)"
  shows "(\<exists>next evs. out = Ret (next, evs)) \<or>
    c = SendTakerPayment \<and> taker_lock_overflows ctx (rs_swap rs) \<and> (\<exists>e. out = Err e)"
proof (cases out)
  case Panic
  with taker_handle_safe [OF taker_life_ok [OF assms(1-3)], of ctx t'] assms(4) show ?thesis
    by (simp add: taker_safe_def)
next
  case (Err e)
  with taker_stage_err assms(4) show ?thesis by blast
qed simp

theorem taker_stages_never_panic_witness:
  "\<exists>rs effs s out. taker_life sample_ctx (sample_taker True) (\<lambda>u. None) 7 SpendMakerPayment rs \<and>
     taker_handle_command sample_ctx 7 (rs_swap rs) SpendMakerPayment = Some (effs, s, out) \<and>
     (\<exists>next evs. out = Ret (next, evs))"
proof -
  obtain rs p where r: "taker_life sample_ctx (sample_taker True) (\<lambda>u. None) 7 SpendMakerPayment rs"
    "at_taker True (rs_swap rs)" "tm_maker_payment (rs_swap rs) = Some p"
    using taker_at_7 taker_life_sample by blast
  then obtain effs s out where h: "taker_handle_command sample_ctx 7 (rs_swap rs) SpendMakerPayment = Some (effs, s, out)"
    using taker_spend_sample by blast
  from taker_stages_never_panic [OF taker_origin_sample _ r(1) h] r(1) h show ?thesis by auto
qed



text \<open>
  The taker collects the maker payment only after the spend of his own payment was seen, with the
  secret on record from that spend and the maker payment that was validated and confirmed.
\<close>

theorem taker_spends_with_found_secret:
  assumes "taker_origin ctx s0" "db0 (ts_uuid s0) = None" "taker_life ctx s0 db0 t c rs"
    and "taker_handle_command ctx t' (rs_swap rs) c = Some (effs, s', out)"
    and "E_TakerSpendsMakerPayment args \<in> set effs"
  shows "c = SpendMakerPayment \<and> tm_taker_payment_spend (rs_swap rs) \<noteq> None \<and>
    ts_maker_payment_confirmed (rs_swap rs) \<and> tm_taker_payment (rs_swap rs) \<noteq> None \<and>
    (\<exists>p. tm_maker_payment (rs_swap rs) = Some p \<and>
         args = taker_spend_args (rs_swap rs) (ti_hex p) (tm_secret (rs_swap rs)))"
  by (rule taker_fund_moves [OF assms(4,5)])
    (use taker_life_ok [OF assms(1-3)] in \<open>auto simp: taker_ok_def\<close>)

theorem taker_spends_with_found_secret_witness:
  "\<exists>rs. taker_life sample_ctx (sample_taker True) (\<lambda>u. None) 7 SpendMakerPayment rs \<and>
     tm_taker_payment_spend (rs_swap rs) \<noteq> None"
proof -
  obtain rs p where r: "taker_life sample_ctx (sample_taker True) (\<lambda>u. None) 7 SpendMakerPayment rs"
    "at_taker True (rs_swap rs)" "tm_maker_payment (rs_swap rs) = Some p"
    using taker_at_7 taker_life_sample by blast
  from taker_spend_sample [OF r(2,3), of 7] obtain a rest s out where
    "taker_handle_command sample_ctx 7 (rs_swap rs) SpendMakerPayment = Some (E_TakerSpendsMakerPayment a # rest, s, out)"
    by blast
  from taker_spends_with_found_secret [OF taker_origin_sample _ r(1) this, of a] r(1) show ?thesis by auto
qed

text \<open>
  The taker sends a refund only for a payment of his own that is recorded, after an earlier stage
  of the swap reported an error, and after the coin answered that the lock time has passed.
\<close>

theorem taker_refunds_after_lock_time:
  assumes "taker_origin ctx s0" "db0 (ts_uuid s0) = None" "taker_life ctx s0 db0 t c rs"
    and "taker_handle_command ctx t' (rs_swap rs) c = Some (effs, s', out)"
    and "E_TakerRefundsPayment args \<in> set effs"
  shows "c = RefundTakerPayment \<and> ts_errors (rs_swap rs) \<noteq> [] \<and>
    \<not> c_is_auto_refundable (ts_taker_coin (rs_swap rs)) \<and>
    (\<exists>j. c_can_refund_htlc (ts_taker_coin (rs_swap rs)) t' j (td_taker_payment_lock (tm_data (rs_swap rs)))
          = Inr CanRefundNow) \<and>
    (\<exists>p. tm_taker_payment (rs_swap rs) = Some p \<and> args = taker_refund_args (rs_swap rs) (ti_hex p))"
  by (rule taker_fund_moves [OF assms(4,5)])
    (use taker_life_ok [OF assms(1-3)] in \<open>auto simp: taker_ok_def\<close>)

theorem taker_refunds_after_lock_time_witness:
  "\<exists>rs. taker_life sample_ctx (sample_taker False) (\<lambda>u. None) 8 RefundTakerPayment rs \<and> ts_errors (rs_swap rs) \<noteq> []"
proof -
  obtain rs p where r: "taker_life sample_ctx (sample_taker False) (\<lambda>u. None) 8 RefundTakerPayment rs"
    "at_taker False (rs_swap rs)" "tm_taker_payment (rs_swap rs) = Some p"
    using taker_at_refund taker_life_sample by blast
  from taker_refund_sample [OF r(2,3), of 8] obtain a rest s out where
    "taker_handle_command sample_ctx 8 (rs_swap rs) RefundTakerPayment = Some (E_TakerRefundsPayment a # rest, s, out)"
    by blast
  from taker_refunds_after_lock_time [OF taker_origin_sample _ r(1) this, of a] r(1) show ?thesis by auto
qed

text \<open>
  A taker swap that is about to finish without an error on record has spent the maker payment.
\<close>

theorem taker_finishes_clean_only_if_paid:
  assumes "taker_origin ctx s0" "db0 (ts_uuid s0) = None"
    and "taker_life ctx s0 db0 t taker_swap_command.Finish rs" "ts_errors (rs_swap rs) = []"
  shows "tm_maker_payment_spend (rs_swap rs) \<noteq> None"
  using taker_life_ok [OF assms(1-3)] assms(4) by (simp add: taker_ok_def)

theorem taker_finishes_clean_only_if_paid_witness:
  "\<exists>rs. taker_life sample_ctx (sample_taker True) (\<lambda>u. None) 8 taker_swap_command.Finish rs \<and>
     tm_maker_payment_spend (rs_swap rs) \<noteq> None"
proof -
  obtain rs where "taker_life sample_ctx (sample_taker True) (\<lambda>u. None) 8 taker_swap_command.Finish rs"
    "ts_errors (rs_swap rs) = []"
    using taker_at_8 taker_life_sample by (fastforce simp: at_taker_def)
  from taker_finishes_clean_only_if_paid [OF taker_origin_sample _ this] this(1) show ?thesis by auto
qed

section \<open>Restarts that do not resume\<close>

text \<open>
  \<open>wait_for_maker_payment\<close> saves \<open>TakerPaymentInstructionsReceived\<close> before \<open>MakerPaymentReceived\<close>. A node
  that stops between the two saves loads a swap whose next command is \<open>ValidateMakerPayment\<close> without a
  maker payment, and that stage unwraps the payment: the kick started swap panics, every time.
\<close>

theorem taker_restart_without_maker_payment:
  assumes "tss_log saved = [taker_swap_event.Started d, taker_swap_event.Negotiated n, TakerFeeSent fee,
                            TakerPaymentInstructionsReceived i]"
    and "x_internal_pubkey ctx = Inr pub" "33 \<le> length pub"
  shows "\<exists>s. taker_load_from_saved ctx now mc tc saved = Ret (s, Some ValidateMakerPayment) \<and>
             taker_handle_command ctx t s ValidateMakerPayment = Some ([], s, Panic)"
  using assms
  by (simp add: taker_load_from_saved_def hash_from_slice_def taker_validate_maker_payment_def
      taker_panics_def taker_swap_new_def Let_def)

definition sample_negotiated :: maker_negotiation_data where
  "sample_negotiated =
     \<lparr>mn_maker_payment_locktime = 0, mn_maker_pubkey = sample_key, mn_secret_hash = [],
      mn_maker_coin_swap_contract_addr = None, mn_taker_coin_swap_contract_addr = None,
      mn_maker_coin_htlc_pubkey = None, mn_taker_coin_htlc_pubkey = None\<rparr>"

definition sample_stopped_taker :: taker_saved_swap where
  "sample_stopped_taker =
     taker_saved_swap_new sample_ctx (sample_taker True)
       \<lparr>tss_events := map (\<lambda>e. \<lparr>tse_timestamp = 0, tse_event = e\<rparr>)
          [taker_swap_event.Started taker_swap_data_default, taker_swap_event.Negotiated sample_negotiated,
           TakerFeeSent (tx_ident sample_tx), TakerPaymentInstructionsReceived None]\<rparr>"

theorem taker_restart_without_maker_payment_witness:
  "\<exists>s. taker_load_from_saved sample_ctx 0 (sample_coin True ''RICK'') (sample_coin True ''MORTY'')
         sample_stopped_taker = Ret (s, Some ValidateMakerPayment) \<and>
       taker_handle_command sample_ctx 0 s ValidateMakerPayment = Some ([], s, Panic)"
  by (rule taker_restart_without_maker_payment [where pub = sample_key])
    (simp_all add: sample_stopped_taker_def sample_ctx_def sample_key_def)

text \<open>
  When the spend of the maker payment fails, the running swap finishes, while a node that restarts
  with \<open>MakerPaymentSpendFailed\<close> as its last event goes on to refund the taker payment, which the maker
  has spent by then.
\<close>

theorem taker_failed_spend_diverts:
  assumes "tm_maker_payment s = Some p"
    and "c_send_taker_spends_maker_payment (ts_maker_coin s) t (taker_spend_args s (ti_hex p) (tm_secret s)) = Inl err"
  shows "\<exists>effs ev. taker_handle_command ctx t s SpendMakerPayment
             = Some (effs, s, Ret (Some taker_swap_command.Finish, [ev])) \<and>
           ev = MakerPaymentSpendFailed (get_plain_text_format err) \<and>
           taker_get_command ev = Some PrepareForTakerPaymentRefund"
  using assms by (simp add: taker_spend_maker_payment_def taker_ends_def Let_def)

definition sample_stuck_taker :: taker_swap where
  "sample_stuck_taker = (sample_taker True)\<lparr>tm_maker_payment := Some (tx_ident sample_tx),
     ts_maker_coin := (sample_coin True ''RICK'')
       \<lparr>c_send_taker_spends_maker_payment := (\<lambda>t a. Inl (Plain ''no connection''))\<rparr>\<rparr>"

theorem taker_failed_spend_diverts_witness:
  "\<exists>effs ev. taker_handle_command sample_ctx 0 sample_stuck_taker SpendMakerPayment
       = Some (effs, sample_stuck_taker, Ret (Some taker_swap_command.Finish, [ev])) \<and>
     taker_get_command ev = Some PrepareForTakerPaymentRefund"
proof -
  have "tm_maker_payment sample_stuck_taker = Some (tx_ident sample_tx)"
    and "c_send_taker_spends_maker_payment (ts_maker_coin sample_stuck_taker) 0 a = Inl (Plain ''no connection'')" for a
    by (simp_all add: sample_stuck_taker_def)
  from taker_failed_spend_diverts [OF this] show ?thesis by blast
qed

text \<open>
  With watchers and a lock time that does not fit 32 bits, \<open>send_taker_payment\<close> returns an error
  after the payment went out: the loop crashes and nothing of the payment is saved.
\<close>

theorem taker_payment_sent_but_not_saved:
  assumes "taker_lock_overflows ctx (rs_swap rs)" "tm_maker_payment (rs_swap rs) \<noteq> None"
    and "x_now_sec ctx t \<le> td_maker_payment_wait (tm_data (rs_swap rs))" "\<not> tm_watcher_reward (rs_swap rs)"
    and "c_check_if_my_payment_sent (ts_taker_coin (rs_swap rs)) t
           (taker_check_if_my_payment_sent_args ctx (rs_swap rs)) = Inr None"
    and "c_send_taker_payment (ts_taker_coin (rs_swap rs)) t (taker_payment_args ctx (rs_swap rs) None) = Inr tx"
  shows "run_step (taker_ops ctx) t SendTakerPayment rs =
     Crashed (rs\<lparr>rs_effects := rs_effects rs @ [E_SendTakerPayment (taker_payment_args ctx (rs_swap rs) None)]\<rparr>)"
  using assms
  by (auto simp: run_step_def taker_send_taker_payment_def taker_after_payment_def taker_lock_overflows_def
      Let_def not_less)

definition sample_late_taker :: taker_swap where
  "sample_late_taker = (sample_taker True)\<lparr>tm_maker_payment := Some (tx_ident sample_tx),
     tm_data := taker_swap_data_default\<lparr>td_taker_payment_lock := 4294967296, td_maker_payment_wait := sample_now\<rparr>\<rparr>"

theorem taker_payment_sent_but_not_saved_witness:
  "\<exists>a. run_step (taker_ops sample_ctx) 0 SendTakerPayment (run_init sample_late_taker (\<lambda>u. None) (\<lambda>k. None))
     = Crashed ((run_init sample_late_taker (\<lambda>u. None) (\<lambda>k. None))\<lparr>rs_effects := [E_SendTakerPayment a]\<rparr>)"
proof -
  let ?rs = "run_init sample_late_taker (\<lambda>u. None) (\<lambda>k. None)"
  have "taker_lock_overflows sample_ctx (rs_swap ?rs)"
    by (simp add: taker_lock_overflows_def taker_uses_watchers_def u32_try_from_def run_init_def
        sample_late_taker_def sample_taker_def taker_swap_new_def sample_coin_sel)
      (simp add: sample_ctx_def)
  moreover have "x_now_sec sample_ctx 0 \<le> td_maker_payment_wait (tm_data (rs_swap ?rs))"
    by (simp add: run_init_def sample_late_taker_def sample_ctx_def)
  ultimately show ?thesis
    using taker_payment_sent_but_not_saved [of sample_ctx ?rs 0 sample_tx]
    by (auto simp: run_init_def sample_late_taker_def sample_taker_def taker_swap_new_def sample_coin_sel)
qed

end
