(* ===== verification/CommonProps.thy ===== *)
theory CommonProps
  imports SampleTaker
begin

text \<open>
  The properties of what makers and takers share: the messages they exchange, the deadlines and lock
  times they agree on, the DEX fee, the locked amounts and the balance checks.
\<close>

section \<open>Messages\<close>

lemma recv_swap_msg_loop_returns:
  "started + timeout < now n \<Longrightarrow> i \<le> n \<Longrightarrow>
   \<exists>r. recv_swap_msg_loop store now getter started timeout i = Some r"
proof (induction "n - i" arbitrary: i)
  case 0
  then show ?case by (subst recv_swap_msg_loop.simps) (simp split: option.split)
next
  case (Suc d)
  then have "\<exists>r. recv_swap_msg_loop store now getter started timeout (Suc i) = Some r" by simp
  then show ?case by (subst recv_swap_msg_loop.simps) (simp split: option.split)
qed

lemma recv_swap_msg_loop_result:
  "recv_swap_msg_loop store now getter started timeout i = Some r \<Longrightarrow>
   (case r of Inr msg \<Rightarrow> \<exists>j. Option.bind (store j) getter = Some msg
            | Inl e \<Rightarrow> \<exists>j. started + timeout < now j \<and> Option.bind (store j) getter = None)"
  by (erule recv_swap_msg_loop.raw_induct [rotated]) (auto split: option.splits if_splits)

text \<open>
  \<open>recv_swap_msg\<close> returns as soon as the clock has passed its deadline at some poll, whether a
  message came or not. A message it returns was in the store at one of the polls; a timeout it
  returns means that the deadline had passed at a poll that found nothing.
\<close>

theorem recv_swap_msg_returns:
  assumes "x_poll_start ctx t k + (BASIC_COMM_TIMEOUT + timeout) < x_poll_now ctx t k n"
  shows "\<exists>r. recv_swap_msg ctx t k getter timeout = Some r \<and>
    (case r of Inr msg \<Rightarrow> \<exists>j. Option.bind (x_poll_store ctx t k j) getter = Some msg
             | Inl e \<Rightarrow> \<exists>j. x_poll_start ctx t k + (BASIC_COMM_TIMEOUT + timeout) < x_poll_now ctx t k j \<and>
                          Option.bind (x_poll_store ctx t k j) getter = None)"
proof -
  obtain r where "recv_swap_msg ctx t k getter timeout = Some r"
    using recv_swap_msg_loop_returns [where now = "x_poll_now ctx t k" and n = n and i = 0, OF assms]
    unfolding recv_swap_msg_def by blast
  with recv_swap_msg_loop_result show ?thesis unfolding recv_swap_msg_def by blast
qed

theorem recv_swap_msg_returns_witness:
  "\<exists>r. recv_swap_msg (sample_ctx\<lparr>x_poll_store := (\<lambda>t k i. None)\<rparr>) 0 0 sm_taker_fee 600 = Some r"
proof -
  have "x_poll_start (sample_ctx\<lparr>x_poll_store := (\<lambda>t k i. None)\<rparr>) 0 0 + (BASIC_COMM_TIMEOUT + 600)
      < x_poll_now (sample_ctx\<lparr>x_poll_store := (\<lambda>t k i. None)\<rparr>) 0 0 691"
    by (simp add: sample_ctx_def sample_now_def BASIC_COMM_TIMEOUT_def)
  from recv_swap_msg_returns [OF this] show ?thesis by blast
qed

text \<open>
  \<open>process_swap_msg\<close> changes a message store only for the swap that the topic names, only when that
  swap runs, and only with a message signed by the other side of that swap. What the store holds of
  the other kinds of messages, and whom it accepts, stays the same.
\<close>

theorem process_swap_msg_only_from_partner:
  assumes "fst (process_swap_msg uuid_from_str decode_signed status_from_slice topic msg msgs) u \<noteq> msgs u"
  shows "\<exists>m st. uuid_from_str topic = Inr u \<and> decode_signed msg = Inr (m, sm_accept_only_from st) \<and>
    msgs u = Some st \<and> sm_accept_only_from (store_swap_msg m st) = sm_accept_only_from st \<and>
    fst (process_swap_msg uuid_from_str decode_signed status_from_slice topic msg msgs)
      = msgs(u \<mapsto> store_swap_msg m st)"
proof -
  have "sm_accept_only_from (store_swap_msg m st) = sm_accept_only_from st" for m st by (cases m) simp_all
  then show ?thesis
    using assms
    by (auto simp: process_swap_msg_def split: sum.splits option.splits if_splits prod.splits)
qed

definition sample_signed :: "bytes \<Rightarrow> string + swap_msg \<times> bytes" where
  "sample_signed b = (if b = [1] then Inr (TakerPayment_msg [4], [9]) else Inl [])"

theorem process_swap_msg_only_from_partner_witness:
  "\<exists>m. sample_signed [1] = Inr (m, [9]) \<and>
     fst (process_swap_msg (\<lambda>s. Inr sample_uuid) sample_signed (\<lambda>b. Inl [] :: string + unit) ''swap'' [1]
            [sample_uuid \<mapsto> swap_msg_store_new [9]])
      = [sample_uuid \<mapsto> store_swap_msg m (swap_msg_store_new [9])]"
proof -
  have "fst (process_swap_msg (\<lambda>s. Inr sample_uuid) sample_signed (\<lambda>b. Inl [] :: string + unit) ''swap'' [1]
            [sample_uuid \<mapsto> swap_msg_store_new [9]]) sample_uuid
        \<noteq> [sample_uuid \<mapsto> swap_msg_store_new [9]] sample_uuid"
    by (simp add: process_swap_msg_def swap_msg_store_new_def sample_signed_def)
  from process_swap_msg_only_from_partner [OF this] show ?thesis
    by (auto simp: swap_msg_store_new_def)
qed

section \<open>Deadlines and lock times\<close>

text \<open>
  The deadlines of a swap come in the order the protocol needs, as long as nothing wraps around:
  fee and maker payment within a third of the lock time, then the end of the wait for the maker
  payment, then the last moment to spend the taker payment, then the end of the taker's lock.
\<close>

theorem swap_deadlines_ordered:
  assumes "unat lock * 4 < 2 ^ 64" "unat start + unat lock < 2 ^ 64"
  shows "start + lock div 3 \<le> wait_for_maker_payment_conf_until start lock \<and>
    wait_for_maker_payment_conf_until start lock \<le> taker_payment_spend_deadline start lock \<and>
    taker_payment_spend_deadline start lock \<le> start + lock"
proof -
  have m: "unat (lock * 4) = unat lock * 4" "unat (lock * 2) = unat lock * 2"
    using assms(1) by (simp_all add: unat_word_ariths)
  then have d: "unat (wait_for_maker_payment_conf_duration lock) = unat lock * 2 div 5"
    "unat (taker_payment_spend_duration lock) = unat lock * 4 div 5" "unat (lock div 3) = unat lock div 3"
    by (simp_all add: wait_for_maker_payment_conf_duration_def taker_payment_spend_duration_def unat_div)
  have "unat lock div 3 \<le> unat lock * 2 div 5" "unat lock * 2 div 5 \<le> unat lock * 4 div 5"
    "unat lock * 4 div 5 \<le> unat lock"
    by linarith+
  then show ?thesis
    using assms(2) d
    by (simp add: word_le_nat_alt wait_for_maker_payment_conf_until_def taker_payment_spend_deadline_def
        unat_add_nowrap)
qed

theorem swap_deadlines_ordered_witness:
  "1700000000 + PAYMENT_LOCKTIME div 3 \<le> wait_for_maker_payment_conf_until 1700000000 PAYMENT_LOCKTIME \<and>
   wait_for_maker_payment_conf_until 1700000000 PAYMENT_LOCKTIME
     \<le> taker_payment_spend_deadline 1700000000 PAYMENT_LOCKTIME"
  using swap_deadlines_ordered [of PAYMENT_LOCKTIME 1700000000] by (simp add: PAYMENT_LOCKTIME_def)

definition taker_negotiates :: "(maker_negotiation_data \<Rightarrow> bool) \<Rightarrow> taker_stage option \<Rightarrow> bool" where
  "taker_negotiates P r \<longleftrightarrow>
     (\<forall>effs s nc n. r = Some (effs, s, Ret (nc, [taker_swap_event.Negotiated n])) \<longrightarrow> P n)"

lemma taker_negotiates_simps [simp]:
  "taker_negotiates P None" "taker_negotiates P (taker_negotiate_failed s effs e)"
  "taker_negotiates P (taker_panics s effs)"
  "taker_negotiates P (taker_continues s effs c [taker_swap_event.Negotiated n]) = P n"
  by (simp_all add: taker_negotiates_def taker_negotiate_failed_def taker_result_defs)

lemma taker_negotiate_times:
  "taker_negotiates (\<lambda>n. \<exists>other.
       abs_diff (td_started_at (tm_data s)) other \<le> 60 \<and>
       Some (mn_maker_payment_locktime n) =
         checked_add other (maker_lock_duration (td_lock_duration (tm_data s))
                              (c_maker_locktime_multiplier (ts_taker_coin s))))
     (taker_negotiate ctx t s)"
  by (auto simp: taker_negotiate_def Let_def not_less split: sum.split option.split)



definition maker_negotiates :: "(taker_negotiation_data \<Rightarrow> bool) \<Rightarrow> maker_stage option \<Rightarrow> bool" where
  "maker_negotiates P r \<longleftrightarrow>
     (\<forall>effs s nc n. r = Some (effs, s, Ret (nc, [maker_swap_event.Negotiated n])) \<longrightarrow> P n)"

lemma maker_negotiates_simps [simp]:
  "maker_negotiates P None" "maker_negotiates P (maker_negotiate_failed s effs e)"
  "maker_negotiates P (maker_panics s effs)"
  "maker_negotiates P (maker_continues s effs c [maker_swap_event.Negotiated n]) = P n"
  by (simp_all add: maker_negotiates_def maker_negotiate_failed_def maker_result_defs)

lemma maker_negotiate_times:
  "maker_negotiates (\<lambda>n. \<exists>other.
       abs_diff (md_started_at (mm_data s)) other \<le> 60 \<and>
       Some (tn_taker_payment_locktime n) = checked_add other (md_lock_duration (mm_data s)))
     (maker_negotiate ctx t s)"
  by (auto simp: maker_negotiate_def Let_def not_less split: sum.split option.split)

text \<open>
  The same margin from the maker's side: the taker payment he accepts is locked for a shorter
  time than his own payment, by the difference of the two lock durations, less 60 seconds.
\<close>

theorem maker_negotiated_lock_margin:
  assumes "maker_negotiate ctx t s = Some (effs, s', Ret (nc, [maker_swap_event.Negotiated n]))"
    and "unat (md_maker_payment_lock (mm_data s)) = unat (md_started_at (mm_data s)) +
           unat (maker_lock_duration (md_lock_duration (mm_data s)) (c_maker_locktime_multiplier (ms_taker_coin s)))"
  shows "unat (tn_taker_payment_locktime n) +
      unat (maker_lock_duration (md_lock_duration (mm_data s)) (c_maker_locktime_multiplier (ms_taker_coin s)))
    \<le> unat (md_maker_payment_lock (mm_data s)) + unat (md_lock_duration (mm_data s)) + 60"
proof -
  obtain other where "abs_diff (md_started_at (mm_data s)) other \<le> 60"
    and "checked_add other (md_lock_duration (mm_data s)) = Some (tn_taker_payment_locktime n)"
    using maker_negotiate_times [of s ctx t] assms(1) unfolding maker_negotiates_def by metis
  then have "unat other \<le> unat (md_started_at (mm_data s)) + 60"
    and "unat (tn_taker_payment_locktime n) = unat other + unat (md_lock_duration (mm_data s))"
    using checked_add_SomeD by (auto simp: abs_diff_le_iff)
  then show ?thesis using assms(2) by simp
qed

definition sample_negotiating_maker :: maker_swap where
  "sample_negotiating_maker = (sample_maker True)\<lparr>mm_data := maker_swap_data_default
     \<lparr>md_started_at := sample_now, md_lock_duration := PAYMENT_LOCKTIME,
      md_maker_payment_lock := sample_now + 2 * PAYMENT_LOCKTIME\<rparr>\<rparr>"

theorem maker_negotiated_lock_margin_witness:
  "\<exists>effs n. maker_negotiate sample_ctx 1 sample_negotiating_maker =
       Some (effs, sample_negotiating_maker, Ret (Some WaitForTakerFee, [maker_swap_event.Negotiated n])) \<and>
     unat (tn_taker_payment_locktime n) + unat (maker_lock_duration PAYMENT_LOCKTIME 2)
       \<le> unat (sample_now + 2 * PAYMENT_LOCKTIME) + unat PAYMENT_LOCKTIME + 60"
proof -
  let ?s = sample_negotiating_maker
  have s: "at_maker True ?s"
    by (simp add: at_maker_def sample_negotiating_maker_def sample_maker_def maker_swap_new_def)
  obtain effs n where n: "maker_negotiate sample_ctx 1 ?s =
      Some (effs, ?s, Ret (Some WaitForTakerFee, [maker_swap_event.Negotiated n]))"
    using maker_negotiate_sample [OF s, of 1] by auto
  have l: "unat (maker_lock_duration PAYMENT_LOCKTIME 2) = unat (2 * PAYMENT_LOCKTIME)"
    by (simp add: maker_lock_duration_def f64_as_u64_def PAYMENT_LOCKTIME_def)
  have d: "mm_data ?s = maker_swap_data_default
     \<lparr>md_started_at := sample_now, md_lock_duration := PAYMENT_LOCKTIME,
      md_maker_payment_lock := sample_now + 2 * PAYMENT_LOCKTIME\<rparr>"
    by (simp add: sample_negotiating_maker_def)
  have c: "c_maker_locktime_multiplier (ms_taker_coin ?s) = 2"
    using s by (simp add: at_maker_def sample_coin_sel)
  have "unat (md_maker_payment_lock (mm_data ?s)) = unat (md_started_at (mm_data ?s)) +
      unat (maker_lock_duration (md_lock_duration (mm_data ?s)) (c_maker_locktime_multiplier (ms_taker_coin ?s)))"
    by (simp add: d c l) (simp add: sample_now_def PAYMENT_LOCKTIME_def)
  from maker_negotiated_lock_margin [OF n this]
  have "unat (tn_taker_payment_locktime n) + unat (maker_lock_duration PAYMENT_LOCKTIME 2)
      \<le> unat (sample_now + 2 * PAYMENT_LOCKTIME) + unat PAYMENT_LOCKTIME + 60"
    by (simp add: d c)
  with n show ?thesis by blast
qed

text \<open>
  The two sides of a swap compute the same lock time: the first version does not depend on which
  coin is whose, the second does not depend on whose settings are whose. It is never shorter than
  \<open>PAYMENT_LOCKTIME\<close> and at most twelve times as long.
\<close>

theorem lp_atomic_locktime_agreed:
  "lp_atomic_locktime base rel LT_V1 = lp_atomic_locktime rel base LT_V1 \<and>
   lp_atomic_locktime base rel (LT_V2 mine other) = lp_atomic_locktime base rel (LT_V2 other mine) \<and>
   PAYMENT_LOCKTIME \<le> lp_atomic_locktime base rel v \<and> lp_atomic_locktime base rel v \<le> 12 * PAYMENT_LOCKTIME"
  by (cases v) (auto simp: lp_atomic_locktime_v1_def lp_atomic_locktime_v2_def PAYMENT_LOCKTIME_def)

section \<open>The DEX fee\<close>

text \<open>
  The DEX fee is never below the smallest amount the coin can send, grows with the traded amount,
  and is at most a 777th of the amount or that smallest amount (or one ten-thousandth of a coin).
  The maker, who validates the fee, and the taker, who sends it, compute the same number.
\<close>

theorem dex_fee_bounds:
  assumes "0 \<le> amount" "amount \<le> amount'"
  shows "c_min_tx_amount c \<le> dex_fee_amount_from_taker_coin ctx c other amount \<and>
    dex_fee_amount_from_taker_coin ctx c other amount \<le> dex_fee_amount_from_taker_coin ctx c other amount' \<and>
    dex_fee_amount_from_taker_coin ctx c other amount \<le> max (amount / 777) (max (c_min_tx_amount c) (1 / 10000))"
proof -
  have rate: "dex_fee_rate ctx a b \<le> 1 / 777" "0 < dex_fee_rate ctx a b" for a b
    by (simp_all add: dex_fee_rate_def Let_def)
  have "amount * dex_fee_rate ctx (c_ticker c) other \<le> amount' * dex_fee_rate ctx (c_ticker c) other"
    using rate(2) assms(2) by (simp add: mult_right_mono less_imp_le)
  moreover have "amount * dex_fee_rate ctx (c_ticker c) other \<le> amount * (1 / 777)"
    using rate(1) assms(1) by (rule mult_left_mono)
  ultimately show ?thesis
    by (auto simp: dex_fee_amount_from_taker_coin_def dex_fee_amount_def dex_fee_threshold_def Let_def)
qed

theorem dex_fee_bounds_witness:
  "1 / 10000 \<le> dex_fee_amount_from_taker_coin sample_ctx (sample_coin True ''MORTY'') ''RICK'' 20 \<and>
   dex_fee_amount_from_taker_coin sample_ctx (sample_coin True ''MORTY'') ''RICK'' 20 \<le> max (20 / 777) (1 / 10000)"
  using dex_fee_bounds [of 20 21 "sample_coin True ''MORTY''" sample_ctx "''RICK''"]
  by (simp add: sample_coin_def)

section \<open>Balances\<close>

text \<open>
  What the running swaps lock of a coin is what swap \<open>u\<close> locks plus what the other swaps lock: the
  check of a swap that is already running leaves out exactly that swap.
\<close>

theorem locked_amounts_partition:
  "get_locked_amount ctx t ticker =
     get_locked_amount_by_other_swaps ctx t u ticker +
     sum_list (map (locked_share ticker)
       (concat (map snd (filter (\<lambda>swap. fst swap = u) (x_running_swaps ctx t)))))"
  using sum_list_concat_partition [of "locked_share ticker" snd "\<lambda>swap. fst swap \<noteq> u" "x_running_swaps ctx t"]
  by (simp add: get_locked_amount_sum get_locked_amount_by_other_swaps_sum)

text \<open>
  A maker whose balance check passes can pay: beside what the other running swaps have locked, the
  spendable balance covers the traded volume, and the fee when it is paid in the same coin;
  otherwise the base coin covers the fee. The fee for spending the taker payment is covered as
  well, unless it is taken from the traded volume.
\<close>

theorem maker_balance_check_sound:
  assumes "check_balance_for_maker_swap ctx t c other volume u (Some p) stage = Inr b"
  shows "(\<exists>balance. c_my_spendable_balance c t = Inr balance \<and>
      volume + (if tf_coin (mp_maker_payment_trade_fee p) = c_ticker c
                then tf_amount (mp_maker_payment_trade_fee p) else 0)
        + locked_by_others ctx t u (c_ticker c) \<le> balance) \<and>
    (tf_coin (mp_maker_payment_trade_fee p) \<noteq> c_ticker c \<longrightarrow>
      (\<exists>base. c_base_coin_balance c t = Inr base \<and>
        tf_amount (mp_maker_payment_trade_fee p)
          + locked_by_others ctx t u (tf_coin (mp_maker_payment_trade_fee p)) \<le> base)) \<and>
    (\<not> tf_paid_from_trading_vol (mp_taker_payment_spend_trade_fee p) \<longrightarrow>
      (\<exists>balance. (if c_ticker other = tf_coin (mp_taker_payment_spend_trade_fee p)
                  then c_my_spendable_balance other t else c_base_coin_balance other t) = Inr balance \<and>
        tf_amount (mp_taker_payment_spend_trade_fee p)
          + locked_by_others ctx t u (tf_coin (mp_taker_payment_spend_trade_fee p)) \<le> balance))"
proof -
  from assms have my: "check_my_coin_balance_for_swap ctx t c u volume (mp_maker_payment_trade_fee p) None = Inr b"
    and ot: "check_other_coin_balance_for_swap ctx t other u (mp_taker_payment_spend_trade_fee p) = Inr ()"
    by (simp_all add: check_balance_for_maker_swap_def split: sum.splits)
  from check_my_coin_balance_InrD [OF my] check_my_coin_base_InrD [OF my] check_other_coin_balance_InrD [OF ot]
  show ?thesis by (auto simp: le_diff_eq)
qed

theorem maker_balance_check_sound_witness:
  "\<exists>balance. c_my_spendable_balance (sample_coin True ''RICK'') 0 = Inr balance \<and>
     10 + 1 / 1000 + locked_by_others sample_ctx 0 None ''RICK'' \<le> balance"
proof -
  let ?p = "\<lparr>mp_maker_payment_trade_fee = sample_fee ''RICK'', mp_taker_payment_spend_trade_fee = sample_fee ''MORTY''\<rparr>"
  have "locked_by_others sample_ctx 0 None k = 0" for k
    by (simp add: locked_by_others_def get_locked_amount_sum sample_ctx_def)
  then have "check_balance_for_maker_swap sample_ctx 0 (sample_coin True ''RICK'') (sample_coin True ''MORTY'') 10 None
      (Some ?p) StartSwap = Inr (x_to_decimal sample_ctx 100)"
    by (simp add: check_balance_for_maker_swap_def check_my_coin_balance_for_swap_def
        check_other_coin_balance_for_swap_def sample_fee_def sample_coin_def Let_def)
  from maker_balance_check_sound [OF this] show ?thesis by (simp add: sample_fee_def sample_coin_sel)
qed

text \<open>
  A taker whose balance check passes can pay: beside what the other running swaps have locked, the
  spendable balance covers the traded volume and the DEX fee, and the two transaction fees when they
  are paid in the same coin; otherwise the base coin covers the two fees together.
\<close>

theorem taker_balance_check_sound:
  assumes "check_balance_for_taker_swap ctx t c other volume u (Some p) stage = Inr ()"
  shows "(\<exists>balance. c_my_spendable_balance c t = Inr balance \<and>
      volume + tp_dex_fee p + (if tf_coin (tp_taker_payment_trade_fee p) = c_ticker c
                then tf_amount (tp_taker_payment_trade_fee p) + tf_amount (tp_fee_to_send_dex_fee p) else 0)
        + locked_by_others ctx t u (c_ticker c) \<le> balance) \<and>
    (tf_coin (tp_taker_payment_trade_fee p) \<noteq> c_ticker c \<longrightarrow>
      (\<exists>base. c_base_coin_balance c t = Inr base \<and>
        tf_amount (tp_taker_payment_trade_fee p) + tf_amount (tp_fee_to_send_dex_fee p)
          + locked_by_others ctx t u (tf_coin (tp_taker_payment_trade_fee p)) \<le> base)) \<and>
    (\<not> tf_paid_from_trading_vol (tp_maker_payment_spend_trade_fee p) \<longrightarrow>
      (\<exists>balance. (if c_ticker other = tf_coin (tp_maker_payment_spend_trade_fee p)
                  then c_my_spendable_balance other t else c_base_coin_balance other t) = Inr balance \<and>
        tf_amount (tp_maker_payment_spend_trade_fee p)
          + locked_by_others ctx t u (tf_coin (tp_maker_payment_spend_trade_fee p)) \<le> balance))"
proof -
  let ?info = "\<lparr>ta_dex_fee = tp_dex_fee p, ta_fee_to_send_dex_fee = tp_fee_to_send_dex_fee p\<rparr>"
  from assms obtain b where
    my: "check_my_coin_balance_for_swap ctx t c u volume (tp_taker_payment_trade_fee p) (Some ?info) = Inr b"
    and ot: "\<not> tf_paid_from_trading_vol (tp_maker_payment_spend_trade_fee p) \<Longrightarrow>
      check_other_coin_balance_for_swap ctx t other u (tp_maker_payment_spend_trade_fee p) = Inr ()"
    by (auto simp: check_balance_for_taker_swap_def split: sum.splits if_splits)
  from check_my_coin_balance_InrD [OF my] check_my_coin_base_InrD [OF my] check_other_coin_balance_InrD [OF ot]
  show ?thesis by (auto simp: le_diff_eq)
qed

theorem taker_balance_check_sound_witness:
  "\<exists>balance. c_my_spendable_balance (sample_coin True ''MORTY'') 0 = Inr balance \<and>
     20 + 1 / 10 + (1 / 1000 + 1 / 1000) + locked_by_others sample_ctx 0 None ''MORTY'' \<le> balance"
proof -
  let ?p = "\<lparr>tp_dex_fee = 1 / 10, tp_fee_to_send_dex_fee = sample_fee ''MORTY'',
             tp_taker_payment_trade_fee = sample_fee ''MORTY'', tp_maker_payment_spend_trade_fee = sample_fee ''RICK''\<rparr>"
  have "locked_by_others sample_ctx 0 None k = 0" for k
    by (simp add: locked_by_others_def get_locked_amount_sum sample_ctx_def)
  then have "check_balance_for_taker_swap sample_ctx 0 (sample_coin True ''MORTY'') (sample_coin True ''RICK'') 20 None
      (Some ?p) StartSwap = Inr ()"
    by (simp add: check_balance_for_taker_swap_def check_my_coin_balance_for_swap_def
        check_other_coin_balance_for_swap_def sample_fee_def sample_coin_def Let_def)
  from taker_balance_check_sound [OF this] show ?thesis by (simp add: sample_fee_def sample_coin_sel)
qed

section \<open>Validation of the taker fee\<close>

lemma validate_fee_loop_from:
  "n \<le> 6 \<Longrightarrow> (validate_fee_loop c t args n = Inr () \<longleftrightarrow> (\<exists>i. n \<le> i \<and> i \<le> 6 \<and> c_validate_fee c t i args = Inr ()))"
proof (induction "6 - n" arbitrary: n)
  case 0
  then have "n = 6" by simp
  then show ?case
    by (subst validate_fee_loop.simps) (auto split: sum.split dest: le_antisym)
next
  case (Suc d)
  then have IH: "validate_fee_loop c t args (Suc n) = Inr () \<longleftrightarrow>
      (\<exists>i. Suc n \<le> i \<and> i \<le> 6 \<and> c_validate_fee c t i args = Inr ())" and n: "\<not> 6 \<le> n"
    by simp_all
  show ?case
  proof (cases "c_validate_fee c t n args")
    case (Inl e)
    then have "(\<exists>i. n \<le> i \<and> i \<le> 6 \<and> c_validate_fee c t i args = Inr ()) \<longleftrightarrow>
        (\<exists>i. Suc n \<le> i \<and> i \<le> 6 \<and> c_validate_fee c t i args = Inr ())"
      by (metis Suc_leD Suc_leI le_neq_implies_less sum.distinct(1))
    with IH Inl n show ?thesis by (subst validate_fee_loop.simps) simp
  next
    case (Inr u)
    with Suc.prems show ?thesis by (subst validate_fee_loop.simps) auto
  qed
qed

text \<open>
  The maker accepts the taker fee exactly when one of the seven attempts to validate it succeeds;
  otherwise he reports the error of the seventh.
\<close>

theorem validate_fee_seven_attempts:
  "(validate_fee_loop c t args 0 = Inr () \<longleftrightarrow> (\<exists>i. i \<le> 6 \<and> c_validate_fee c t i args = Inr ())) \<and>
   (case validate_fee_loop c t args 0 of Inl e \<Rightarrow> c_validate_fee c t 6 args = Inl e | Inr u \<Rightarrow> True)"
proof -
  have "validate_fee_loop c t args n = Inl e \<Longrightarrow> n \<le> 6 \<Longrightarrow> c_validate_fee c t 6 args = Inl e" for n e
  proof (induction "6 - n" arbitrary: n)
    case 0
    then have "n = 6" by simp
    with 0 show ?case by (subst (asm) validate_fee_loop.simps) (simp split: sum.splits)
  next
    case (Suc d)
    then have "\<not> 6 \<le> n" by simp
    with Suc.prems(1) have "validate_fee_loop c t args (Suc n) = Inl e"
      by (subst (asm) validate_fee_loop.simps) (simp split: sum.splits)
    then show ?case using Suc.hyps(1) [of "Suc n"] Suc.hyps(2) by simp
  qed
  then show ?thesis using validate_fee_loop_from [of 0 c t args] by (auto split: sum.split)
qed

end
