(* ===== verification/SavedProps.thy ===== *)
theory SavedProps
  imports TakerProps
begin

text \<open>
  The properties of saved swaps: the classification of events, what is published of a swap that has
  ended, which swaps can be recovered, and under which conditions \<open>recover_funds\<close> moves funds.
\<close>

section \<open>Classification of events\<close>

text \<open>
  The lists that a node publishes with every maker swap agree with the classification its code
  uses: an event is a success exactly when its name is in \<open>MAKER_SUCCESS_EVENTS\<close> and an error exactly
  when its name is in \<open>MAKER_ERROR_EVENTS\<close>.
\<close>

theorem maker_events_classified:
  "(maker_event_is_success ev \<longleftrightarrow> maker_event_name ev \<in> set MAKER_SUCCESS_EVENTS) \<and>
   (maker_event_is_error ev \<longleftrightarrow> maker_event_name ev \<in> set MAKER_ERROR_EVENTS)"
  by (cases ev) (simp_all add: maker_event_is_error_def MAKER_SUCCESS_EVENTS_def MAKER_ERROR_EVENTS_def)

text \<open>
  The same for the taker. Without watchers the list of success events leaves out
  \<open>WatcherMessageSent\<close> and nothing else.
\<close>

theorem taker_events_classified:
  "(taker_event_is_success ev \<longleftrightarrow> taker_event_name ev \<in> set TAKER_USING_WATCHERS_SUCCESS_EVENTS) \<and>
   (taker_event_is_error ev \<longleftrightarrow> taker_event_name ev \<in> set TAKER_ERROR_EVENTS) \<and>
   set TAKER_USING_WATCHERS_SUCCESS_EVENTS = insert ''WatcherMessageSent'' (set TAKER_SUCCESS_EVENTS)"
proof -
  have "set TAKER_USING_WATCHERS_SUCCESS_EVENTS = insert ''WatcherMessageSent'' (set TAKER_SUCCESS_EVENTS)"
    by (auto simp: TAKER_USING_WATCHERS_SUCCESS_EVENTS_def TAKER_SUCCESS_EVENTS_def)
  moreover have "taker_event_is_success ev \<longleftrightarrow> taker_event_name ev \<in> set TAKER_USING_WATCHERS_SUCCESS_EVENTS"
    by (cases ev) (simp_all add: TAKER_USING_WATCHERS_SUCCESS_EVENTS_def)
  moreover have "taker_event_is_error ev \<longleftrightarrow> taker_event_name ev \<in> set TAKER_ERROR_EVENTS"
    by (cases ev) (simp_all add: taker_event_is_error_def TAKER_ERROR_EVENTS_def)
  ultimately show ?thesis by simp
qed

section \<open>The events of a completed run\<close>

context swap_machine
begin

lemma run_loop_log:
  assumes step: "\<And>t s c effs s' nc evs L. P c L \<Longrightarrow> op_handle ops t s c = Some (effs, s', Ret (nc, evs)) \<Longrightarrow>
      (case nc of Some c' \<Rightarrow> P c' (L @ evs) | None \<Rightarrow> Q (L @ evs))"
    and "P c (log k (rs_db rs))" "key (rs_swap rs) = k" "fits k (rs_db rs)"
    and "run_loop ops fuel t c rs = Completed rs'"
  shows "Q (log k (rs_db rs')) \<and> fits k (rs_db rs')"
  using assms(2-5)
proof (induction fuel arbitrary: t c rs)
  case (Suc fuel)
  have "run_step ops t c rs \<noteq> Hangs" "\<And>rs1. run_step ops t c rs \<noteq> Crashed rs1" using Suc.prems(4) by auto
  then obtain effs s nc evs rs1 where
    h: "op_handle ops t (rs_swap rs) c = Some (effs, s, Ret (nc, evs))"
    and p: "process_events ops t 0 evs (rs\<lparr>rs_swap := s, rs_effects := rs_effects rs @ effs\<rparr>) = Inr rs1"
    and r: "run_step ops t c rs = (case nc of Some c' \<Rightarrow> Continue c' rs1 | None \<Rightarrow> Completed rs1)"
    by (auto simp: run_step_def Let_def split: option.splits prod.splits outcome.splits sum.splits)
  have k: "key s = k" using handle_obs [OF h] key_obs Suc.prems(2) by metis
  then have "fits (key (rs_swap (rs\<lparr>rs_swap := s, rs_effects := rs_effects rs @ effs\<rparr>)))
      (rs_db (rs\<lparr>rs_swap := s, rs_effects := rs_effects rs @ effs\<rparr>))"
    using Suc.prems(3) by simp
  from process_events_Inr [OF p this] k
  have l: "log k (rs_db rs1) = log k (rs_db rs) @ evs" "fits k (rs_db rs1)"
    and o: "obs (rs_swap rs1) = obs (fold (op_apply ops 0) evs s)" by simp_all
  then have k1: "key (rs_swap rs1) = k" using key_obs key_fold k by metis
  show ?case
  proof (cases nc)
    case None
    then show ?thesis using step [OF Suc.prems(1) h] r l Suc.prems(4) by simp
  next
    case (Some c')
    then have "P c' (log k (rs_db rs1))" using step [OF Suc.prems(1) h] l by simp
    from Suc.IH [OF this k1 l(2)] show ?thesis using Suc.prems(4) r Some by simp
  qed
qed simp

end

fun is_maker_started :: "maker_swap_event \<Rightarrow> bool" where
  "is_maker_started (maker_swap_event.Started d) = True"
| "is_maker_started ev = False"

fun is_taker_started :: "taker_swap_event \<Rightarrow> bool" where
  "is_taker_started (taker_swap_event.Started d) = True"
| "is_taker_started ev = False"

text \<open>Only the first event of a log may be \<open>Started\<close>, and a swap that is to start has no events yet.\<close>

definition maker_log_form :: "maker_swap_command \<Rightarrow> maker_swap_event list \<Rightarrow> bool" where
  "maker_log_form c evs \<longleftrightarrow> (c = maker_swap_command.Start \<longrightarrow> evs = []) \<and>
     (evs = [] \<longrightarrow> c = maker_swap_command.Start) \<and> list_all (\<lambda>e. \<not> is_maker_started e) (tl evs)"

definition taker_log_form :: "taker_swap_command \<Rightarrow> taker_swap_event list \<Rightarrow> bool" where
  "taker_log_form c evs \<longleftrightarrow> (c = taker_swap_command.Start \<longrightarrow> evs = []) \<and>
     (evs = [] \<longrightarrow> c = taker_swap_command.Start) \<and> list_all (\<lambda>e. \<not> is_taker_started e) (tl evs)"

lemma maker_log_form_edge:
  "maker_log_form c L \<Longrightarrow> maker_edge c nc evs \<Longrightarrow>
   (case nc of Some c' \<Rightarrow> maker_log_form c' (L @ evs)
             | None \<Rightarrow> L @ evs \<noteq> [] \<and> list_all (\<lambda>e. \<not> is_maker_started e) (tl (L @ evs)))"
  by (erule maker_edge.cases) (simp_all add: maker_log_form_def)

lemma taker_log_form_edge:
  "taker_log_form c L \<Longrightarrow> taker_edge c nc evs \<Longrightarrow>
   (case nc of Some c' \<Rightarrow> taker_log_form c' (L @ evs)
             | None \<Rightarrow> L @ evs \<noteq> [] \<and> list_all (\<lambda>e. \<not> is_taker_started e) (tl (L @ evs)))"
  by (erule taker_edge.cases) (simp_all add: taker_log_form_def)

lemma maker_run_log:
  assumes "maker_log_form c (maker_log (maker_key s) db)" "maker_fits (maker_key s) db"
    and "run_loop (maker_ops ctx) fuel t c (run_init s db banned) = Completed rs"
  shows "maker_log (maker_key s) (rs_db rs) \<noteq> [] \<and>
         list_all (\<lambda>e. \<not> is_maker_started e) (tl (maker_log (maker_key s) (rs_db rs)))"
  using maker.run_loop_log [where P = maker_log_form and k = "maker_key s" and rs = "run_init s db banned"
      and Q = "\<lambda>L. L \<noteq> [] \<and> list_all (\<lambda>e. \<not> is_maker_started e) (tl L)", OF _ _ _ _ assms(3)]
    assms(1,2) maker_log_form_edge maker_handle_edge(1)
  by (fastforce simp: run_init_def)

lemma taker_run_log:
  assumes "taker_log_form c (taker_log (taker_key s) db)" "taker_fits (taker_key s) db"
    and "run_loop (taker_ops ctx) fuel t c (run_init s db banned) = Completed rs"
  shows "taker_log (taker_key s) (rs_db rs) \<noteq> [] \<and>
         list_all (\<lambda>e. \<not> is_taker_started e) (tl (taker_log (taker_key s) (rs_db rs)))"
  using taker.run_loop_log [where P = taker_log_form and k = "taker_key s" and rs = "run_init s db banned"
      and Q = "\<lambda>L. L \<noteq> [] \<and> list_all (\<lambda>e. \<not> is_taker_started e) (tl L)", OF _ _ _ _ assms(3)]
    assms(1,2) taker_log_form_edge taker_handle_edge(1)
  by (fastforce simp: run_init_def)

text \<open>A status without secrets: what a node may publish.\<close>

fun status_hides :: "saved_swap \<Rightarrow> bool" where
  "status_hides (Maker m) \<longleftrightarrow>
     (\<forall>d. maker_swap_event.Started d \<in> set (mss_log m) \<longrightarrow> md_secret d = hash_default 32 \<and> md_p2p_privkey d = None)"
| "status_hides (Taker m) \<longleftrightarrow>
     (\<forall>d. taker_swap_event.Started d \<in> set (tss_log m) \<longrightarrow> td_p2p_privkey d = None)"

lemma hide_secrets_maker:
  assumes "list_all (\<lambda>e. \<not> is_maker_started e) (tl (mss_log m))"
  shows "status_hides (hide_secrets (Maker m))"
proof (cases "mss_events m")
  case (Cons ev evs)
  with assms have "\<And>d. maker_swap_event.Started d \<notin> mse_event ` set evs"
    by (auto simp: list_all_iff) (metis is_maker_started.simps(1))
  moreover have "maker_hide_event (mse_event ev) = maker_swap_event.Started d \<Longrightarrow>
      md_secret d = hash_default 32 \<and> md_p2p_privkey d = None" for d
    by (cases "mse_event ev") auto
  ultimately show ?thesis using Cons by (auto dest: sym)
qed simp

lemma hide_secrets_taker:
  assumes "list_all (\<lambda>e. \<not> is_taker_started e) (tl (tss_log m))"
  shows "status_hides (hide_secrets (Taker m))"
proof (cases "tss_events m")
  case (Cons ev evs)
  with assms have "\<And>d. taker_swap_event.Started d \<notin> tse_event ` set evs"
    by (auto simp: list_all_iff) (metis is_taker_started.simps(1))
  moreover have "taker_hide_event (tse_event ev) = taker_swap_event.Started d \<Longrightarrow> td_p2p_privkey d = None" for d
    by (cases "tse_event ev") auto
  ultimately show ?thesis using Cons by (auto dest: sym)
qed simp

lemma maker_broadcast_hides:
  assumes "maker_log_form c (maker_log (maker_key s) db)" "maker_fits (maker_key s) db"
    and "run_loop (maker_ops ctx) fuel t c (run_init s db banned) = Completed rs"
    and "broadcast_my_swap_status ctx t' (rs_db rs) (ms_uuid s) = Inr status"
  shows "status_hides status"
proof -
  from maker_run_log [OF assms(1-3)] obtain m where
    m: "rs_db rs (ms_uuid s) = Some (Maker m)" "list_all (\<lambda>e. \<not> is_maker_started e) (tl (mss_log m))"
    by (auto simp: maker_log_def maker_key_def split: option.splits saved_swap.splits)
  then have "status = hide_secrets (Maker m)"
    using assms(4) by (auto simp: broadcast_my_swap_status_def load_my_swap_from_db_def split: option.splits)
  with hide_secrets_maker [OF m(2)] show ?thesis by simp
qed

lemma taker_broadcast_hides:
  assumes "taker_log_form c (taker_log (taker_key s) db)" "taker_fits (taker_key s) db"
    and "run_loop (taker_ops ctx) fuel t c (run_init s db banned) = Completed rs"
    and "broadcast_my_swap_status ctx t' (rs_db rs) (ts_uuid s) = Inr status"
  shows "status_hides status"
proof -
  from taker_run_log [OF assms(1-3)] obtain m where
    m: "rs_db rs (ts_uuid s) = Some (Taker m)" "list_all (\<lambda>e. \<not> is_taker_started e) (tl (tss_log m))"
    by (auto simp: taker_log_def taker_key_def split: option.splits saved_swap.splits)
  then have "status = hide_secrets (Taker m)"
    using assms(4) by (auto simp: broadcast_my_swap_status_def load_my_swap_from_db_def split: option.splits)
  with hide_secrets_taker [OF m(2)] show ?thesis by simp
qed

lemma maker_get_command_not_start: "maker_get_command e \<noteq> Some maker_swap_command.Start"
  by (cases e) simp_all

lemma maker_load_form:
  assumes "maker_load_from_db_by_uuid ctx t mc tc u db = Ret (s, Some c)"
    and "\<And>m. db u = Some (Maker m) \<Longrightarrow> mss_uuid m = u \<and> list_all (\<lambda>e. \<not> is_maker_started e) (tl (mss_log m))"
  shows "maker_fits (maker_key s) db \<and> maker_log_form c (maker_log (maker_key s) db)"
proof -
  obtain m where m: "db u = Some (Maker m)"
    and ld: "maker_load_from_saved ctx (x_apply_now ctx t 0) mc tc m = Ret (s, Some c)"
    using assms(1)
    by (auto simp: maker_load_from_db_by_uuid_def load_my_swap_from_db_def split: option.splits saved_swap.splits)
  from ld obtain d evs pub where log: "mss_log m = maker_swap_event.Started d # evs"
    and c: "Some c = maker_get_command (last (mss_log m))"
    and s: "s = fold (maker_apply_event (x_apply_now ctx t 0))
                 (maker_swap_event.Started (maker_refresh_data mc tc d) # evs)
                 (maker_swap_new (md_taker d) (md_maker_amount d) (md_taker_amount d) (take 33 pub)
                  (mss_uuid m) (mss_my_order_uuid m) (maker_load_conf_settings mc tc d)
                  mc tc (md_lock_duration d) (md_p2p_privkey d) (md_secret d))"
    by (rule maker_load_from_saved_replays)
  have "maker_key s = (mss_uuid m, mss_my_order_uuid m, mc, tc)"
    unfolding s using maker.key_fold [unfolded maker_ops_simps]
    by (simp add: maker_key_apply maker_key_def maker_swap_new_def)
  moreover have "c \<noteq> maker_swap_command.Start" using c maker_get_command_not_start by metis
  ultimately show ?thesis
    using m assms(2) [OF m] log by (simp add: maker_fits_def maker_log_def maker_log_form_def)
qed

text \<open>
  What a node publishes when a maker swap ends holds neither the secret nor the p2p private key,
  whether the swap was started or kick started, if \<open>Started\<close> stands only at the head of the saved
  events (which every run keeps).
\<close>

theorem maker_published_status_hides_secrets:
  assumes "snd (snd (run_maker_swap ctx t input db banned msgs)) = Some status"
    and "\<And>u m. db u = Some (Maker m) \<Longrightarrow> mss_uuid m = u \<and> list_all (\<lambda>e. \<not> is_maker_started e) (tl (mss_log m))"
    and "\<And>s0. input = StartNew s0 \<Longrightarrow> db (ms_uuid s0) = None"
  shows "status_hides status"
proof -
  from assms(1) obtain s c rs where
    run: "run_loop (maker_ops ctx) RUN_FUEL t c (run_init s db banned) = Completed rs"
    and b: "broadcast_my_swap_status ctx (t + RUN_FUEL) (rs_db rs) (ms_uuid s) = Inr status"
    and inp: "input = StartNew s \<and> c = maker_swap_command.Start \<or>
      (\<exists>mc tc u. maker_load_from_db_by_uuid ctx t mc tc u db = Ret (s, Some c))"
    by (auto simp: run_maker_swap_def Let_def split: option.splits run_swap_input.splits outcome.splits
        prod.splits run_outcome.splits if_splits sum.splits) blast+
  have "maker_fits (maker_key s) db \<and> maker_log_form c (maker_log (maker_key s) db)"
    using inp
  proof
    assume "input = StartNew s \<and> c = maker_swap_command.Start"
    then show ?thesis using assms(3) by (simp add: maker_fits_def maker_log_def maker_log_form_def maker_key_def)
  qed (use maker_load_form assms(2) in blast)
  then show ?thesis using maker_broadcast_hides [OF _ _ run b] by blast
qed

lemma sample_publishes:
  "x_swap_lock sample_ctx t n = Inr (n = 1)" "x_db_load_error sample_ctx t i = None"
  "x_stats_save_error sample_ctx t = None" "\<not> c_is_privacy (sample_coin b k)"
  by (simp_all add: sample_ctx_def sample_coin_def)

definition sample_failed_maker :: maker_saved_swap where
  "sample_failed_maker =
     maker_saved_swap_new sample_ctx (sample_maker True)
       \<lparr>mss_events := map (\<lambda>e. \<lparr>mse_timestamp = 0, mse_event = e\<rparr>)
          [maker_swap_event.Started (maker_swap_data_default\<lparr>md_secret := replicate 32 5\<rparr>),
           maker_swap_event.NegotiateFailed ''timeout'']\<rparr>"

theorem maker_published_status_hides_secrets_witness:
  "\<exists>status. snd (snd (run_maker_swap sample_ctx 0
       (KickStart (sample_coin True ''RICK'') (sample_coin True ''MORTY'') sample_uuid)
       [sample_uuid \<mapsto> Maker sample_failed_maker] (\<lambda>k. None) (\<lambda>u. None))) = Some status \<and> status_hides status"
proof -
  let ?db = "[sample_uuid \<mapsto> Maker sample_failed_maker]"
    and ?mc = "sample_coin True ''RICK''" and ?tc = "sample_coin True ''MORTY''"
  have log: "mss_log sample_failed_maker =
      [maker_swap_event.Started (maker_swap_data_default\<lparr>md_secret := replicate 32 5\<rparr>),
       maker_swap_event.NegotiateFailed ''timeout'']" "mss_uuid sample_failed_maker = sample_uuid"
    by (simp_all add: sample_failed_maker_def maker_saved_swap_new_def sample_maker_def maker_swap_new_def)
  then have form: "\<And>u m. ?db u = Some (Maker m) \<Longrightarrow>
      mss_uuid m = u \<and> list_all (\<lambda>e. \<not> is_maker_started e) (tl (mss_log m))"
    by (simp split: if_splits)
  obtain s where ld: "maker_load_from_db_by_uuid sample_ctx 0 ?mc ?tc sample_uuid ?db
      = Ret (s, Some maker_swap_command.Finish)"
    and s: "ms_uuid s = sample_uuid" "ms_maker_coin s = ?mc" "ms_taker_coin s = ?tc"
    by (simp add: maker_load_from_db_by_uuid_def load_my_swap_from_db_def maker_load_from_saved_def log
        sample_ctx_def sample_key_def hash_from_slice_def maker_swap_new_def maker_push_error_def Let_def)
  obtain rs where rs: "run_loop (maker_ops sample_ctx) RUN_FUEL 0 maker_swap_command.Finish
      (run_init s ?db (\<lambda>k. None)) = Completed rs"
    using maker_events_sample [of "run_init s ?db (\<lambda>k. None)" 0 0 "[maker_swap_event.Finished]"] s
    by (auto simp: run_init_def no_taker_def RUN_FUEL_def numeral_eq_Suc run_step_def Let_def)
  obtain m where m: "rs_db rs sample_uuid = Some (Maker m)"
    using maker_run_log [OF _ _ rs] maker_load_form [OF ld form] s
    by (auto simp: maker_log_def maker_key_def split: option.splits saved_swap.splits)
  have "\<exists>status. snd (snd (run_maker_swap sample_ctx 0 (KickStart ?mc ?tc sample_uuid) ?db (\<lambda>k. None) (\<lambda>u. None)))
      = Some status"
    using ld rs s m
    by (simp add: run_maker_swap_def acquire_swap_lock_def broadcast_my_swap_status_def
        load_my_swap_from_db_def sample_publishes Let_def)
  then obtain status where st: "snd (snd (run_maker_swap sample_ctx 0 (KickStart ?mc ?tc sample_uuid) ?db
      (\<lambda>k. None) (\<lambda>u. None))) = Some status" by blast
  from maker_published_status_hides_secrets [OF st form] st show ?thesis by blast
qed

lemma taker_get_command_not_start: "taker_get_command e \<noteq> Some taker_swap_command.Start"
  by (cases e) simp_all

lemma taker_load_form:
  assumes "taker_load_from_db_by_uuid ctx t mc tc u db = Ret (s, Some c)"
    and "\<And>m. db u = Some (Taker m) \<Longrightarrow> tss_uuid m = u \<and> list_all (\<lambda>e. \<not> is_taker_started e) (tl (tss_log m))"
  shows "taker_fits (taker_key s) db \<and> taker_log_form c (taker_log (taker_key s) db)"
proof -
  obtain m where m: "db u = Some (Taker m)"
    and ld: "taker_load_from_saved ctx (x_apply_now ctx t 0) mc tc m = Ret (s, Some c)"
    using assms(1)
    by (auto simp: taker_load_from_db_by_uuid_def load_my_swap_from_db_def split: option.splits saved_swap.splits)
  from ld obtain d evs pub where log: "tss_log m = taker_swap_event.Started d # evs"
    and c: "Some c = taker_get_command (last (tss_log m))"
    and s: "s = fold (taker_apply_event (x_apply_now ctx t 0))
                 (taker_swap_event.Started (taker_refresh_data mc tc d) # evs)
                 (taker_swap_new (td_maker d) (td_maker_amount d) (td_taker_amount d) (take 33 pub)
                  (tss_uuid m) (Some (tss_uuid m)) (taker_load_conf_settings mc tc d)
                  mc tc (td_lock_duration d) (td_p2p_privkey d))"
    by (rule taker_load_from_saved_replays)
  have "taker_key s = (tss_uuid m, Some (tss_uuid m), mc, tc)"
    unfolding s using taker.key_fold [unfolded taker_ops_simps]
    by (simp add: taker_key_apply taker_key_def taker_swap_new_def)
  moreover have "c \<noteq> taker_swap_command.Start" using c taker_get_command_not_start by metis
  ultimately show ?thesis
    using m assms(2) [OF m] log by (simp add: taker_fits_def taker_log_def taker_log_form_def)
qed

text \<open>
  What a node publishes when a taker swap ends does not hold the p2p private key, under the same
  condition on the saved events.
\<close>

theorem taker_published_status_hides_secrets:
  assumes "snd (snd (run_taker_swap ctx t input db banned msgs)) = Some status"
    and "\<And>u m. db u = Some (Taker m) \<Longrightarrow> tss_uuid m = u \<and> list_all (\<lambda>e. \<not> is_taker_started e) (tl (tss_log m))"
    and "\<And>s0. input = StartNew s0 \<Longrightarrow> db (ts_uuid s0) = None"
  shows "status_hides status"
proof -
  from assms(1) obtain s c rs where
    run: "run_loop (taker_ops ctx) RUN_FUEL t c (run_init s db banned) = Completed rs"
    and b: "broadcast_my_swap_status ctx (t + RUN_FUEL) (rs_db rs) (ts_uuid s) = Inr status"
    and inp: "input = StartNew s \<and> c = taker_swap_command.Start \<or>
      (\<exists>mc tc u. taker_load_from_db_by_uuid ctx t mc tc u db = Ret (s, Some c))"
    by (auto simp: run_taker_swap_def Let_def split: option.splits run_swap_input.splits outcome.splits
        prod.splits run_outcome.splits if_splits sum.splits) blast+
  have "taker_fits (taker_key s) db \<and> taker_log_form c (taker_log (taker_key s) db)"
    using inp
  proof
    assume "input = StartNew s \<and> c = taker_swap_command.Start"
    then show ?thesis using assms(3) by (simp add: taker_fits_def taker_log_def taker_log_form_def taker_key_def)
  qed (use taker_load_form assms(2) in blast)
  then show ?thesis using taker_broadcast_hides [OF _ _ run b] by blast
qed

definition sample_failed_taker :: taker_saved_swap where
  "sample_failed_taker =
     taker_saved_swap_new sample_ctx (sample_taker True)
       \<lparr>tss_events := map (\<lambda>e. \<lparr>tse_timestamp = 0, tse_event = e\<rparr>)
          [taker_swap_event.Started (taker_swap_data_default\<lparr>td_p2p_privkey := Some (replicate 32 5)\<rparr>),
           taker_swap_event.NegotiateFailed ''timeout'']\<rparr>"

theorem taker_published_status_hides_secrets_witness:
  "\<exists>status. snd (snd (run_taker_swap sample_ctx 0
       (KickStart (sample_coin True ''RICK'') (sample_coin True ''MORTY'') sample_uuid)
       [sample_uuid \<mapsto> Taker sample_failed_taker] (\<lambda>k. None) (\<lambda>u. None))) = Some status \<and> status_hides status"
proof -
  let ?db = "[sample_uuid \<mapsto> Taker sample_failed_taker]"
    and ?mc = "sample_coin True ''RICK''" and ?tc = "sample_coin True ''MORTY''"
  have log: "tss_log sample_failed_taker =
      [taker_swap_event.Started (taker_swap_data_default\<lparr>td_p2p_privkey := Some (replicate 32 5)\<rparr>),
       taker_swap_event.NegotiateFailed ''timeout'']" "tss_uuid sample_failed_taker = sample_uuid"
    by (simp_all add: sample_failed_taker_def taker_saved_swap_new_def sample_taker_def taker_swap_new_def)
  then have form: "\<And>u m. ?db u = Some (Taker m) \<Longrightarrow>
      tss_uuid m = u \<and> list_all (\<lambda>e. \<not> is_taker_started e) (tl (tss_log m))"
    by (simp split: if_splits)
  obtain s where ld: "taker_load_from_db_by_uuid sample_ctx 0 ?mc ?tc sample_uuid ?db
      = Ret (s, Some taker_swap_command.Finish)"
    and s: "ts_uuid s = sample_uuid" "ts_maker_coin s = ?mc" "ts_taker_coin s = ?tc"
    by (simp add: taker_load_from_db_by_uuid_def load_my_swap_from_db_def taker_load_from_saved_def log
        sample_ctx_def sample_key_def hash_from_slice_def taker_swap_new_def taker_push_error_def Let_def)
  obtain rs where rs: "run_loop (taker_ops sample_ctx) RUN_FUEL 0 taker_swap_command.Finish
      (run_init s ?db (\<lambda>k. None)) = Completed rs"
    using taker_events_sample [of "run_init s ?db (\<lambda>k. None)" 0 0 "[taker_swap_event.Finished]"] s
    by (auto simp: run_init_def no_maker_def RUN_FUEL_def numeral_eq_Suc run_step_def Let_def)
  obtain m where m: "rs_db rs sample_uuid = Some (Taker m)"
    using taker_run_log [OF _ _ rs] taker_load_form [OF ld form] s
    by (auto simp: taker_log_def taker_key_def split: option.splits saved_swap.splits)
  have "\<exists>status. snd (snd (run_taker_swap sample_ctx 0 (KickStart ?mc ?tc sample_uuid) ?db (\<lambda>k. None) (\<lambda>u. None)))
      = Some status"
    using ld rs s m
    by (simp add: run_taker_swap_def acquire_swap_lock_def broadcast_my_swap_status_def
        load_my_swap_from_db_def sample_publishes Let_def)
  then obtain status where st: "snd (snd (run_taker_swap sample_ctx 0 (KickStart ?mc ?tc sample_uuid) ?db
      (\<lambda>k. None) (\<lambda>u. None))) = Some status" by blast
  from taker_published_status_hides_secrets [OF st form] st show ?thesis by blast
qed

end
