(* ===== verification/RecoveryProps.thy ===== *)
theory RecoveryProps
  imports SavedProps
begin

text \<open>
  Recovery of funds: when \<open>recover_funds\<close> moves funds, that it moves them once, and that the swaps the
  node offers for recovery pass the checks of \<open>recover_funds\<close>. The last section has two stages of the
  maker that do not do what they are meant to do.
\<close>

section \<open>When recovery moves funds\<close>

lemma broadcast_recoverable_moves [simp]: "filter moves_funds (broadcast_recoverable ticker err) = []"
  using broadcast_moves_nothing(1) [of "\<lambda>e. False" ticker err] by (simp add: list_all_iff filter_empty_conv)

text \<open>The ways in which a maker's funds move in a recovery, as a predicate on the effects.\<close>

definition maker_recovery_moves :: "mm_ctx \<Rightarrow> moment \<Rightarrow> maker_swap \<Rightarrow> effect list \<Rightarrow> bool" where
  "maker_recovery_moves ctx t s effs \<longleftrightarrow> filter moves_funds effs = [] \<or>
     ms_finished_at s \<noteq> 0 \<and> mm_maker_payment_refund s = None \<and>
     \<not> (mm_taker_payment_spend s \<noteq> None \<and> mm_taker_payment_spend_confirmed s) \<and>
     (\<exists>payment.
        (\<exists>tx p. filter moves_funds effs = [E_MakerSpendsTakerPayment (maker_spend_args ctx s (ti_hex p))] \<and>
           mm_taker_payment s = Some p \<and>
           c_search_for_swap_tx_spend_my (ms_maker_coin s) t (maker_search_my_input ctx s payment)
             = Inr (Some (Spent tx)) \<and>
           c_search_for_swap_tx_spend_other (ms_taker_coin s) t (maker_search_other_input ctx s (ti_hex p)) = Inr None) \<or>
        filter moves_funds effs = [E_MakerRefundsPayment (maker_refund_args ctx s payment)] \<and>
           c_search_for_swap_tx_spend_my (ms_maker_coin s) t (maker_search_my_input ctx s payment) = Inr None \<and>
           \<not> c_is_auto_refundable (ms_maker_coin s) \<and>
           c_can_refund_htlc (ms_maker_coin s) t 0 (ucast (as_u32 (md_maker_payment_lock (mm_data s))))
             = Inr CanRefundNow)"

lemma maker_try_spend_moves:
  assumes "maker_try_spend_taker_payment ctx t s = (effs, r)"
  shows "effs = [] \<or> (\<exists>p. effs = [E_MakerSpendsTakerPayment (maker_spend_args ctx s (ti_hex p))] \<and>
    mm_taker_payment s = Some p \<and>
    c_search_for_swap_tx_spend_other (ms_taker_coin s) t (maker_search_other_input ctx s (ti_hex p)) = Inr None)"
  using assms
  by (auto simp: maker_try_spend_taker_payment_def Let_def
      split: option.splits sum.splits found_swap_tx_spend.splits)

lemma maker_recovery_moves_nothing [simp]: "maker_recovery_moves ctx t s []"
  by (simp add: maker_recovery_moves_def)

text \<open>The payment that a maker tries to recover: the one on record, or the one found on the chain.\<close>

definition maker_recovered_payment :: "mm_ctx \<Rightarrow> moment \<Rightarrow> maker_swap \<Rightarrow> string + bytes" where
  "maker_recovered_payment ctx t s =
     (case mm_maker_payment s of
        Some tx \<Rightarrow> Inr (ti_hex tx)
      | None \<Rightarrow>
          (case c_check_if_my_payment_sent (ms_maker_coin s) t (maker_check_if_my_payment_sent_args ctx s) of
             Inl e \<Rightarrow> Inl e
           | Inr (Some tx) \<Rightarrow> Inr (tx_hex tx)
           | Inr None \<Rightarrow> Inl ''Maker payment transaction was not found''))"

lemmas maker_recover_unfold = maker_recover_funds_def [unfolded Let_def, folded maker_recovered_payment_def]

lemma maker_recovery_of_payment:
  assumes "ms_finished_at s \<noteq> 0" "mm_maker_payment_refund s = None"
    and "\<not> (mm_taker_payment_spend s \<noteq> None \<and> mm_taker_payment_spend_confirmed s)"
    and "maker_recovered_payment ctx t s = Inr payment"
  shows "maker_recovery_moves ctx t s (fst (maker_recover_funds ctx t s))"
proof (cases "c_search_for_swap_tx_spend_my (ms_maker_coin s) t (maker_search_my_input ctx s payment)")
  case search: (Inr found)
  consider "found = None" | tx where "found = Some (Spent tx)" | tx where "found = Some (Refunded tx)"
    by (cases found) (auto intro: found_swap_tx_spend.exhaust)
  then show ?thesis
  proof cases
    case 1
    then have "filter moves_funds (fst (maker_recover_funds ctx t s)) = [] \<or>
        filter moves_funds (fst (maker_recover_funds ctx t s)) = [E_MakerRefundsPayment (maker_refund_args ctx s payment)] \<and>
        \<not> c_is_auto_refundable (ms_maker_coin s) \<and>
        c_can_refund_htlc (ms_maker_coin s) t 0 (ucast (as_u32 (md_maker_payment_lock (mm_data s)))) = Inr CanRefundNow"
      using assms search by (auto simp: maker_recover_unfold split: sum.split can_refund_htlc.split)
    then show ?thesis using assms search 1 unfolding maker_recovery_moves_def by blast
  next
    case (2 tx)
    obtain effs r where sp: "maker_try_spend_taker_payment ctx t s = (effs, r)" by fastforce
    then have "fst (maker_recover_funds ctx t s) = effs"
      using assms search 2 by (auto simp: maker_recover_unfold split: sum.split)
    with maker_try_spend_moves [OF sp] assms search 2 show ?thesis
      unfolding maker_recovery_moves_def by auto
  qed (use assms search in \<open>auto simp: maker_recover_unfold\<close>)
qed (use assms in \<open>auto simp: maker_recover_unfold\<close>)


text \<open>The ways in which a taker's funds move in a recovery.\<close>

definition taker_recovery_moves :: "moment \<Rightarrow> taker_swap \<Rightarrow> effect list \<Rightarrow> bool" where
  "taker_recovery_moves t s effs \<longleftrightarrow> filter moves_funds effs = [] \<or>
     ts_finished_at s \<noteq> 0 \<and> tm_taker_payment_refund s = None \<and> tm_maker_payment_spend s = None \<and>
     (\<exists>p payment. tm_maker_payment s = Some p \<and>
        ((\<exists>secret. filter moves_funds effs = [E_TakerSpendsMakerPayment (taker_spend_args s (ti_hex p) secret)] \<and>
            (tm_taker_payment_spend s \<noteq> None \<and> secret = tm_secret s \<or>
             (\<exists>tx. c_search_for_swap_tx_spend_my (ts_taker_coin s) t (taker_search_my_input s payment)
                   = Inr (Some (Spent tx)) \<and>
                 c_extract_secret (ts_taker_coin s) t (tm_secret_hash s) (tx_hex tx) (tm_watcher_reward s)
                   = Inr secret)) \<and>
            c_search_for_swap_tx_spend_other (ts_maker_coin s) t (taker_search_other_input s (ti_hex p)) = Inr None) \<or>
         filter moves_funds effs = [E_TakerRefundsPayment (taker_refund_args s payment)] \<and>
            tm_taker_payment_spend s = None \<and>
            c_search_for_swap_tx_spend_my (ts_taker_coin s) t (taker_search_my_input s payment) = Inr None \<and>
            \<not> c_is_auto_refundable (ts_taker_coin s) \<and>
            c_can_refund_htlc (ts_taker_coin s) t 0 (td_taker_payment_lock (tm_data s)) = Inr CanRefundNow))"

lemma taker_recovery_moves_nothing [simp]: "taker_recovery_moves t s []"
  by (simp add: taker_recovery_moves_def)

lemma taker_recover_spend_moves:
  "filter moves_funds (fst (taker_recover_spend t s p secret)) = [E_TakerSpendsMakerPayment (taker_spend_args s p secret)]"
  by (simp add: taker_recover_spend_def Let_def split: sum.split)

lemma taker_recover_refund_moves:
  "filter moves_funds (fst (taker_recover_refund ctx t s p)) = [] \<or>
   filter moves_funds (fst (taker_recover_refund ctx t s p)) = [E_TakerRefundsPayment (taker_refund_args s p)] \<and>
   \<not> c_is_auto_refundable (ts_taker_coin s) \<and>
   c_can_refund_htlc (ts_taker_coin s) t 0 (td_taker_payment_lock (tm_data s)) = Inr CanRefundNow"
  by (simp add: taker_recover_refund_def Let_def split: sum.split can_refund_htlc.split)

lemma taker_maker_payment_unspent:
  "taker_maker_payment_spent_error t s p = None \<longleftrightarrow>
   c_search_for_swap_tx_spend_other (ts_maker_coin s) t (taker_search_other_input s p) = Inr None"
  by (simp add: taker_maker_payment_spent_error_def Let_def split: sum.split option.split found_swap_tx_spend.split)

definition taker_recovered_payment :: "mm_ctx \<Rightarrow> moment \<Rightarrow> taker_swap \<Rightarrow> string + bytes" where
  "taker_recovered_payment ctx t s =
     (case tm_taker_payment s of
        Some tx \<Rightarrow> Inr (ti_hex tx)
      | None \<Rightarrow>
          (case c_check_if_my_payment_sent (ts_taker_coin s) t (taker_check_if_my_payment_sent_args ctx s) of
             Inl e \<Rightarrow> Inl e
           | Inr (Some tx) \<Rightarrow> Inr (tx_hex tx)
           | Inr None \<Rightarrow> Inl ''Taker payment is not found, swap is not recoverable''))"

lemmas taker_recover_unfold = taker_recover_funds_def [unfolded Let_def, folded taker_recovered_payment_def]

lemma taker_recovery_of_payment:
  assumes "ts_finished_at s \<noteq> 0" "tm_taker_payment_refund s = None" "tm_maker_payment_spend s = None"
    and "tm_maker_payment s = Some p" "taker_recovered_payment ctx t s = Inr payment"
  shows "taker_recovery_moves t s (fst (taker_recover_funds ctx t s))"
proof (cases "tm_taker_payment_spend s = None")
  case False
  show ?thesis
  proof (cases "taker_maker_payment_spent_error t s (ti_hex p)")
    case None
    then have "fst (taker_recover_funds ctx t s) = fst (taker_recover_spend t s (ti_hex p) (tm_secret s))"
      using assms False by (simp add: taker_recover_unfold)
    with None False show ?thesis
      using assms taker_recover_spend_moves unfolding taker_recovery_moves_def taker_maker_payment_unspent by auto
  qed (use assms False in \<open>simp add: taker_recover_unfold\<close>)
next
  case True
  show ?thesis
  proof (cases "c_search_for_swap_tx_spend_my (ts_taker_coin s) t (taker_search_my_input s payment)")
    case search: (Inr found)
    consider "found = None" | tx where "found = Some (Spent tx)" | tx where "found = Some (Refunded tx)"
      by (cases found) (auto intro: found_swap_tx_spend.exhaust)
    then show ?thesis
    proof cases
      case 1
      then have "fst (taker_recover_funds ctx t s) = fst (taker_recover_refund ctx t s payment)"
        using assms True search by (simp add: taker_recover_unfold)
      with 1 True search show ?thesis
        using assms taker_recover_refund_moves [of ctx t s payment] unfolding taker_recovery_moves_def by auto
    next
      case (2 tx)
      show ?thesis
      proof (cases "taker_maker_payment_spent_error t s (ti_hex p) = None \<and>
          (\<exists>secret. c_extract_secret (ts_taker_coin s) t (tm_secret_hash s) (tx_hex tx) (tm_watcher_reward s) = Inr secret)")
        case True
        then obtain secret where x: "c_extract_secret (ts_taker_coin s) t (tm_secret_hash s) (tx_hex tx) (tm_watcher_reward s) = Inr secret"
          and "fst (taker_recover_funds ctx t s) = fst (taker_recover_spend t s (ti_hex p) secret)"
          using assms \<open>tm_taker_payment_spend s = None\<close> search 2 by (auto simp: taker_recover_unfold)
        with True 2 search show ?thesis
          using assms taker_recover_spend_moves unfolding taker_recovery_moves_def taker_maker_payment_unspent by auto
      qed (use assms True search 2 in \<open>auto simp: taker_recover_unfold split: option.split sum.split\<close>)
    qed (use assms True search in \<open>simp add: taker_recover_unfold\<close>)
  qed (use assms True in \<open>simp add: taker_recover_unfold\<close>)
qed

text \<open>
  \<open>recover_funds\<close> of a taker moves funds at most once, and only in a finished swap that was neither
  refunded nor paid out. It spends the maker payment only when that one is unspent, with the secret on
  record or the one read from the spend of the taker payment; it refunds the taker payment only when
  that one is unspent and the coin says that it can be refunded now.
\<close>

theorem taker_recovery_safe: "taker_recovery_moves t s (fst (taker_recover_funds ctx t s))"
proof (cases "ts_finished_at s = 0 \<or> tm_taker_payment_refund s \<noteq> None \<or> tm_maker_payment_spend s \<noteq> None")
  case True
  then show ?thesis by (auto simp: taker_recover_unfold)
next
  case open_swap: False
  show ?thesis
  proof (cases "tm_maker_payment s")
    case None
    with open_swap show ?thesis by (simp add: taker_recover_unfold)
  next
    case (Some p)
    show ?thesis
    proof (cases "taker_recovered_payment ctx t s")
      case (Inl e)
      with open_swap Some show ?thesis by (simp add: taker_recover_unfold)
    next
      case (Inr payment)
      with open_swap Some show ?thesis by (simp add: taker_recovery_of_payment)
    qed
  qed
qed

section \<open>Which swaps are offered for recovery\<close>

lemma maker_fold_open:
  assumes "list_all (\<lambda>e. \<not> maker_event_precludes_recovery e) evs"
    and "mm_maker_payment_refund s = None" "\<not> mm_taker_payment_spend_confirmed s"
  shows "mm_maker_payment_refund (fold (maker_apply_event now) evs s) = None \<and>
         \<not> mm_taker_payment_spend_confirmed (fold (maker_apply_event now) evs s)"
  using assms
proof (induction evs arbitrary: s)
  case (Cons e evs)
  then have "mm_maker_payment_refund (maker_apply_event now e s) = None \<and>
      \<not> mm_taker_payment_spend_confirmed (maker_apply_event now e s)"
    by (cases e) (simp_all add: maker_push_error_def Let_def)
  with Cons show ?case by simp
qed simp

lemma taker_fold_open:
  assumes "list_all (\<lambda>e. \<not> taker_event_precludes_recovery e) evs"
    and "tm_taker_payment_refund s = None" "tm_maker_payment_spend s = None"
  shows "tm_taker_payment_refund (fold (taker_apply_event now) evs s) = None \<and>
         tm_maker_payment_spend (fold (taker_apply_event now) evs s) = None"
  using assms
proof (induction evs arbitrary: s)
  case (Cons e evs)
  then have "tm_taker_payment_refund (taker_apply_event now e s) = None \<and>
      tm_maker_payment_spend (taker_apply_event now e s) = None"
    by (cases e) (simp_all add: taker_push_error_def Let_def)
  with Cons show ?case by simp
qed simp

lemma maker_new_open:
  "mm_maker_payment_refund (maker_swap_new a b c d e f g h i j k l) = None"
  "\<not> mm_taker_payment_spend_confirmed (maker_swap_new a b c d e f g h i j k l)"
  by (simp_all add: maker_swap_new_def)

lemma taker_new_open:
  "tm_taker_payment_refund (taker_swap_new a b c d e f g h i j k) = None"
  "tm_maker_payment_spend (taker_swap_new a b c d e f g h i j k) = None"
  by (simp_all add: taker_swap_new_def)

lemma maker_fold_finished:
  "last evs = maker_swap_event.Finished \<Longrightarrow> evs \<noteq> [] \<Longrightarrow> ms_finished_at (fold (maker_apply_event now) evs s) = now"
  by (cases evs rule: rev_cases) simp_all

lemma taker_fold_finished:
  "last evs = taker_swap_event.Finished \<Longrightarrow> evs \<noteq> [] \<Longrightarrow> ts_finished_at (fold (taker_apply_event now) evs s) = now"
  by (cases evs rule: rev_cases) simp_all

text \<open>
  A maker swap that the node reports as recoverable passes the checks that \<open>recover_funds\<close> makes
  first: loaded again it is finished, not refunded, and its spend of the taker payment is not confirmed.
\<close>

theorem maker_recoverable_is_open:
  assumes "maker_saved_is_recoverable m" "maker_load_from_saved ctx now mc tc m = Ret (s, nc)" "now \<noteq> 0"
  shows "ms_finished_at s \<noteq> 0 \<and> mm_maker_payment_refund s = None \<and> \<not> mm_taker_payment_spend_confirmed s"
proof -
  from assms(1) have fin: "last (mss_log m) = maker_swap_event.Finished" "mss_log m \<noteq> []"
    and evs: "list_all (\<lambda>e. \<not> maker_event_precludes_recovery e) (mss_log m)"
    by (auto simp: maker_saved_is_recoverable_def maker_saved_is_finished_def last_map list_all_iff split: if_splits)
  from assms(2) obtain d rest s0 where log: "mss_log m = maker_swap_event.Started d # rest"
    and s: "s = fold (maker_apply_event now) (maker_swap_event.Started (maker_refresh_data mc tc d) # rest) s0"
    and s0: "mm_maker_payment_refund s0 = None" "\<not> mm_taker_payment_spend_confirmed s0"
    by (rule maker_load_from_saved_replays) (metis maker_new_open)
  let ?evs = "maker_swap_event.Started (maker_refresh_data mc tc d) # rest"
  have "list_all (\<lambda>e. \<not> maker_event_precludes_recovery e) ?evs" "last ?evs = maker_swap_event.Finished"
    using evs fin log by (auto split: if_splits)
  from maker_fold_open [OF this(1) s0, of now] maker_fold_finished [OF this(2), of now s0] show ?thesis
    using assms(3) s by simp
qed

definition sample_recoverable_maker :: maker_saved_swap where
  "sample_recoverable_maker =
     maker_saved_swap_new sample_ctx (sample_maker True)
       \<lparr>mss_events := map (\<lambda>e. \<lparr>mse_timestamp = 0, mse_event = e\<rparr>)
          [maker_swap_event.Started maker_swap_data_default, MakerPaymentRefundFailed ''no funds'', maker_swap_event.Finished]\<rparr>"

theorem maker_recoverable_is_open_witness:
  "\<exists>s nc. maker_load_from_saved sample_ctx 9 (sample_coin True ''RICK'') (sample_coin True ''MORTY'')
            sample_recoverable_maker = Ret (s, nc) \<and> ms_finished_at s \<noteq> 0 \<and> mm_maker_payment_refund s = None"
proof -
  have log: "mss_log sample_recoverable_maker =
      [maker_swap_event.Started maker_swap_data_default, MakerPaymentRefundFailed ''no funds'', maker_swap_event.Finished]"
    by (simp add: sample_recoverable_maker_def)
  obtain s nc where ld: "maker_load_from_saved sample_ctx 9 (sample_coin True ''RICK'') (sample_coin True ''MORTY'')
      sample_recoverable_maker = Ret (s, nc)"
    by (simp add: maker_load_from_saved_def log sample_ctx_def sample_key_def hash_from_slice_def Let_def)
  moreover have "maker_saved_is_recoverable sample_recoverable_maker"
    by (simp add: sample_recoverable_maker_def maker_saved_is_recoverable_def maker_saved_is_finished_def)
  ultimately show ?thesis using maker_recoverable_is_open [OF _ ld] by auto
qed

text \<open>
  The same for the taker: a swap reported as recoverable is finished, not refunded, and its maker
  payment is not spent.
\<close>

theorem taker_recoverable_is_open:
  assumes "taker_saved_is_recoverable m" "taker_load_from_saved ctx now mc tc m = Ret (s, nc)" "now \<noteq> 0"
  shows "ts_finished_at s \<noteq> 0 \<and> tm_taker_payment_refund s = None \<and> tm_maker_payment_spend s = None"
proof -
  from assms(1) have fin: "last (tss_log m) = taker_swap_event.Finished" "tss_log m \<noteq> []"
    and evs: "list_all (\<lambda>e. \<not> taker_event_precludes_recovery e) (tss_log m)"
    by (auto simp: taker_saved_is_recoverable_def taker_saved_is_finished_def last_map list_all_iff split: if_splits)
  from assms(2) obtain d rest s0 where log: "tss_log m = taker_swap_event.Started d # rest"
    and s: "s = fold (taker_apply_event now) (taker_swap_event.Started (taker_refresh_data mc tc d) # rest) s0"
    and s0: "tm_taker_payment_refund s0 = None" "tm_maker_payment_spend s0 = None"
    by (rule taker_load_from_saved_replays) (metis taker_new_open)
  let ?evs = "taker_swap_event.Started (taker_refresh_data mc tc d) # rest"
  have "list_all (\<lambda>e. \<not> taker_event_precludes_recovery e) ?evs" "last ?evs = taker_swap_event.Finished"
    using evs fin log by (auto split: if_splits)
  from taker_fold_open [OF this(1) s0, of now] taker_fold_finished [OF this(2), of now s0] show ?thesis
    using assms(3) s by simp
qed

definition sample_recoverable_taker :: taker_saved_swap where
  "sample_recoverable_taker =
     taker_saved_swap_new sample_ctx (sample_taker True)
       \<lparr>tss_events := map (\<lambda>e. \<lparr>tse_timestamp = 0, tse_event = e\<rparr>)
          [taker_swap_event.Started taker_swap_data_default, TakerPaymentRefundFailed ''no funds'', taker_swap_event.Finished]\<rparr>"

theorem taker_recoverable_is_open_witness:
  "\<exists>s nc. taker_load_from_saved sample_ctx 9 (sample_coin True ''RICK'') (sample_coin True ''MORTY'')
            sample_recoverable_taker = Ret (s, nc) \<and> ts_finished_at s \<noteq> 0 \<and> tm_taker_payment_refund s = None"
proof -
  have log: "tss_log sample_recoverable_taker =
      [taker_swap_event.Started taker_swap_data_default, TakerPaymentRefundFailed ''no funds'', taker_swap_event.Finished]"
    by (simp add: sample_recoverable_taker_def)
  obtain s nc where ld: "taker_load_from_saved sample_ctx 9 (sample_coin True ''RICK'') (sample_coin True ''MORTY'')
      sample_recoverable_taker = Ret (s, nc)"
    by (simp add: taker_load_from_saved_def log sample_ctx_def sample_key_def hash_from_slice_def Let_def)
  moreover have "taker_saved_is_recoverable sample_recoverable_taker"
    by (simp add: sample_recoverable_taker_def taker_saved_is_recoverable_def taker_saved_is_finished_def)
  ultimately show ?thesis using taker_recoverable_is_open [OF _ ld] by auto
qed

section \<open>Two stages of the maker\<close>

text \<open>
  \<open>confirm_taker_payment_spend\<close> waits for the confirmations of the taker payment, not of the transaction
  that spends it: whatever that transaction is, the stage reports the spend as confirmed.
\<close>

lemma maker_confirms_the_payment_only:
  assumes "mm_taker_payment s = Some p"
    and "c_wait_for_confirmations (ms_taker_coin s) t
           \<lparr>cpi_payment_tx = ti_hex p, cpi_confirmations = min 1 (md_taker_payment_confirmations (mm_data s)),
            cpi_requires_nota = False, cpi_wait_until = maker_wait_refund_until s,
            cpi_check_every = WAIT_CONFIRM_INTERVAL_SEC\<rparr> = Inr ()"
  shows "maker_handle_command ctx t (s\<lparr>mm_taker_payment_spend := spend\<rparr>) ConfirmTakerPaymentSpend =
    Some ([], s\<lparr>mm_taker_payment_spend := spend\<rparr>, Ret (Some maker_swap_command.Finish, [TakerPaymentSpendConfirmed]))"
  using assms
  by (simp add: maker_confirm_taker_payment_spend_def maker_result_defs maker_wait_refund_until_def)

text \<open>
  An error of the watcher reward in \<open>validate_taker_payment\<close> finishes the swap without a refund, although
  the maker payment is on the chain.
\<close>

lemma maker_reward_error_skips_refund:
  assumes "mm_taker_payment s = Some p" "mm_watcher_reward s"
    and "\<And>a. c_wait_for_confirmations (ms_taker_coin s) t a = Inr ()"
    and "\<And>a b r w. c_get_taker_watcher_reward (ms_taker_coin s) t (c_ticker (ms_maker_coin s)) a b r w = Inl err"
  shows "maker_handle_command ctx t s ValidateTakerPayment =
    Some ([], s, Ret (Some maker_swap_command.Finish, [MakerPaymentTransactionFailed err]))"
  using assms by (simp add: maker_validate_taker_payment_def maker_result_defs Let_def)

end
