(* ===== verification/TimeCache.thy ===== *)
theory TimeCache
  imports Prelude "HOL-Library.AList"
begin

text \<open>
  The expiring map of \<open>common/time_cache.rs\<close>: a hash map of values with their times of expiry and a
  queue of keys in the order of their expiry, from which every operation that may change the map drops
  what has expired. An \<open>Instant\<close> is a natural number; each operation takes the instant of the call.

  \<open>alive\<close> is the abstract cache, the entries that have not expired yet. Under the invariant
  \<open>cache_inv\<close> the operations are the map operations on \<open>alive\<close>. The locale \<open>expiring_map\<close> states the
  contract of the cache over sequences of operations; its interpretation \<open>tc\<close> discharges it for the
  code's cache.
\<close>

section \<open>The cache\<close>

record ('k, 'v) time_cache =
  tch_map :: "('k \<times> 'v \<times> nat) list"
  tch_list :: "('k \<times> nat) list"
  tch_ttl :: nat

definition cache_new :: "nat \<Rightarrow> ('k, 'v) time_cache" where
  "cache_new ttl = \<lparr>tch_map = [], tch_list = [], tch_ttl = ttl\<rparr>"

fun expire_keys ::
  "nat \<Rightarrow> ('k \<times> nat) list \<Rightarrow> ('k \<times> 'v \<times> nat) list \<Rightarrow> ('k \<times> nat) list \<times> ('k \<times> 'v \<times> nat) list" where
  "expire_keys now [] m = ([], m)"
| "expire_keys now ((k, e) # rest) m =
     (if now < e then ((k, e) # rest, m)
      else expire_keys now rest
             (case map_of m k of
                Some (_, e') \<Rightarrow> if e' \<le> now then AList.delete k m else m
              | None \<Rightarrow> m))"

definition remove_expired_keys :: "nat \<Rightarrow> ('k, 'v) time_cache \<Rightarrow> ('k, 'v) time_cache" where
  "remove_expired_keys now c =
     (let (l, m) = expire_keys now (tch_list c) (tch_map c) in c\<lparr>tch_list := l, tch_map := m\<rparr>)"

text \<open>\<open>VacantEntry::insert\<close> and the two ways to update an occupied entry push the key once more.\<close>

definition cache_put :: "nat \<Rightarrow> 'k \<Rightarrow> 'v \<Rightarrow> ('k, 'v) time_cache \<Rightarrow> ('k, 'v) time_cache" where
  "cache_put now k v c =
     c\<lparr>tch_list := tch_list c @ [(k, now + tch_ttl c)],
       tch_map := AList.update k (v, now + tch_ttl c) (tch_map c)\<rparr>"

text \<open>\<open>insert\<close>: the new value only if the key is vacant; the result tells which.\<close>

definition cache_insert :: "nat \<Rightarrow> 'k \<Rightarrow> 'v \<Rightarrow> ('k, 'v) time_cache \<Rightarrow> bool \<times> ('k, 'v) time_cache" where
  "cache_insert now k v c =
     (let c' = remove_expired_keys now c in
      case map_of (tch_map c') k of
        None \<Rightarrow> (True, cache_put now k v c')
      | Some _ \<Rightarrow> (False, c'))"

text \<open>
  \<open>entry(k).or_insert_with_update_expiration(d)\<close> followed by a change \<open>f\<close> of the value through the
  reference it returns.
\<close>

definition cache_update ::
  "nat \<Rightarrow> 'k \<Rightarrow> 'v \<Rightarrow> ('v \<Rightarrow> 'v) \<Rightarrow> ('k, 'v) time_cache \<Rightarrow> ('k, 'v) time_cache" where
  "cache_update now k d f c =
     (let c' = remove_expired_keys now c in
      case map_of (tch_map c') k of
        None \<Rightarrow> cache_put now k (f d) c'
      | Some (v, _) \<Rightarrow> cache_put now k (f v) c')"

definition cache_remove :: "nat \<Rightarrow> 'k \<Rightarrow> ('k, 'v) time_cache \<Rightarrow> 'v option \<times> ('k, 'v) time_cache" where
  "cache_remove now k c =
     (map_option fst (map_of (tch_map c) k),
      remove_expired_keys now (c\<lparr>tch_map := AList.delete k (tch_map c)\<rparr>))"

definition cache_get :: "('k, 'v) time_cache \<Rightarrow> 'k \<Rightarrow> 'v option" where
  "cache_get c k = map_option fst (map_of (tch_map c) k)"

definition cache_contains_key :: "('k, 'v) time_cache \<Rightarrow> 'k \<Rightarrow> bool" where
  "cache_contains_key c k = (map_of (tch_map c) k \<noteq> None)"

definition cache_clear :: "('k, 'v) time_cache \<Rightarrow> ('k, 'v) time_cache" where
  "cache_clear c = c\<lparr>tch_map := [], tch_list := []\<rparr>"

text \<open>\<open>DuplicateCache\<close>: a cache of keys alone.\<close>

type_synonym 'k duplicate_cache = "('k, unit) time_cache"

definition duplicate_insert :: "nat \<Rightarrow> 'k \<Rightarrow> 'k duplicate_cache \<Rightarrow> bool \<times> 'k duplicate_cache" where
  "duplicate_insert now k c = cache_insert now k () c"

definition duplicate_contains :: "'k duplicate_cache \<Rightarrow> 'k \<Rightarrow> bool" where
  "duplicate_contains c k = cache_contains_key c k"

definition duplicate_remove :: "nat \<Rightarrow> 'k \<Rightarrow> 'k duplicate_cache \<Rightarrow> 'k duplicate_cache" where
  "duplicate_remove now k c = snd (cache_remove now k c)"

declare delete_conv' [simp] update_conv' [simp]

section \<open>The invariant and the abstract cache\<close>

definition alive :: "nat \<Rightarrow> ('k, 'v) time_cache \<Rightarrow> 'k \<Rightarrow> 'v option" where
  "alive now c k = (case map_of (tch_map c) k of Some (v, e) \<Rightarrow> if now < e then Some v else None | None \<Rightarrow> None)"

text \<open>
  The queue is sorted by expiry, no key outlives the time to live, counted from \<open>t\<close>, the time of the
  last operation, and the time of expiry of each entry stands in the queue.
\<close>

definition cache_inv :: "nat \<Rightarrow> ('k, 'v) time_cache \<Rightarrow> bool" where
  "cache_inv t c \<longleftrightarrow>
     sorted (map snd (tch_list c)) \<and>
     (\<forall>(k, e) \<in> set (tch_list c). e \<le> t + tch_ttl c) \<and>
     (\<forall>k v e. map_of (tch_map c) k = Some (v, e) \<longrightarrow> (k, e) \<in> set (tch_list c))"

lemma cache_inv_mono: "cache_inv t c \<Longrightarrow> t \<le> t' \<Longrightarrow> cache_inv t' c"
  by (fastforce simp: cache_inv_def)

lemma expire_keys_suffix:
  "expire_keys now l m = (l', m') \<Longrightarrow> l' = dropWhile (\<lambda>(k, e). e \<le> now) l"
  by (induction now l m arbitrary: l' m' rule: expire_keys.induct)
    (auto split: if_splits option.splits)

lemma expire_keys_keeps:
  "expire_keys now l m = (l', m') \<Longrightarrow> map_of m k = Some (v, e) \<Longrightarrow> now < e \<Longrightarrow> map_of m' k = Some (v, e)"
proof (induction now l m arbitrary: l' m' rule: expire_keys.induct)
  case (2 now k0 e0 rest m)
  then show ?case by (cases "k = k0") (auto split: if_splits option.splits)
qed simp

lemma expire_keys_subset:
  "expire_keys now l m = (l', m') \<Longrightarrow> map_of m' k = Some x \<Longrightarrow> map_of m k = Some x"
  by (induction now l m arbitrary: l' m' rule: expire_keys.induct)
    (fastforce split: if_splits option.splits)+

lemma expire_keys_drops:
  assumes "expire_keys now l m = (l', m')" "sorted (map snd l)"
    and "map_of m' k = Some (v, e)" "(k, e) \<in> set l"
  shows "now < e"
  using assms
proof (induction now l m arbitrary: l' m' rule: expire_keys.induct)
  case (2 now k0 e0 rest m)
  show ?case
  proof (cases "now < e0")
    case True
    then show ?thesis using 2(3,5) by (auto intro: less_le_trans)
  next
    case False
    let ?m = "case map_of m k0 of Some (_, e') \<Rightarrow> if e' \<le> now then AList.delete k0 m else m | None \<Rightarrow> m"
    from False 2(2) have rec: "expire_keys now rest ?m = (l', m')" by simp
    from rec 2(4) have sub: "map_of ?m k = Some (v, e)" by (rule expire_keys_subset)
    show ?thesis
    proof (cases "(k, e) \<in> set rest")
      case True
      then show ?thesis using 2(1) [OF False rec] 2(3,4) by simp
    next
      case notin: False
      with 2(5) have "k = k0" "e = e0" by auto
      with sub have "map_of m k0 = Some (v, e)" by (auto simp: delete_conv' split: option.splits if_splits)
      with sub False \<open>k = k0\<close> \<open>e = e0\<close> show ?thesis by (simp split: if_splits)
    qed
  qed
qed simp

lemma remove_expired_map:
  assumes "cache_inv t c"
  shows "map_of (tch_map (remove_expired_keys now c)) k =
           (case map_of (tch_map c) k of Some (v, e) \<Rightarrow> if now < e then Some (v, e) else None | None \<Rightarrow> None)"
proof -
  obtain l m where x: "expire_keys now (tch_list c) (tch_map c) = (l, m)" by fastforce
  have eq: "tch_map (remove_expired_keys now c) = m" by (simp add: remove_expired_keys_def x)
  show ?thesis
  proof (cases "map_of m k")
    case None
    then show ?thesis using expire_keys_keeps [OF x] by (fastforce simp: eq split: option.split)
  next
    case (Some p)
    obtain v e where p: "p = (v, e)" by fastforce
    with Some have orig: "map_of (tch_map c) k = Some (v, e)" using expire_keys_subset [OF x] by simp
    then have "(k, e) \<in> set (tch_list c)" using assms by (auto simp: cache_inv_def)
    moreover have "sorted (map snd (tch_list c))" using assms by (simp add: cache_inv_def)
    ultimately have "now < e" using expire_keys_drops [OF x] Some p by blast
    then show ?thesis using Some p orig by (simp add: eq)
  qed
qed

lemma remove_expired_alive:
  "cache_inv t c \<Longrightarrow> cache_get (remove_expired_keys now c) = alive now c"
  by (rule ext) (simp add: cache_get_def alive_def remove_expired_map split: option.split)

lemma remove_expired_list:
  "tch_list (remove_expired_keys now c) = dropWhile (\<lambda>(k, e). e \<le> now) (tch_list c)"
  "tch_ttl (remove_expired_keys now c) = tch_ttl c"
  by (auto simp: remove_expired_keys_def split: prod.splits dest: expire_keys_suffix)

lemma in_dropWhile_sorted:
  "sorted (map snd l) \<Longrightarrow> (k, e) \<in> set l \<Longrightarrow> now < e \<Longrightarrow> (k, e) \<in> set (dropWhile (\<lambda>(k, e). e \<le> now) l)"
  by (induction l) auto

lemma remove_expired_inv:
  assumes "cache_inv t c" "t \<le> now"
  shows "cache_inv now (remove_expired_keys now c)"
proof -
  have "sorted (map snd (dropWhile (\<lambda>(k, e). e \<le> now) (tch_list c)))"
    using assms(1) by (simp add: cache_inv_def sorted_wrt_map sorted_wrt_dropWhile)
  moreover have "\<forall>(k, e) \<in> set (dropWhile (\<lambda>(k, e). e \<le> now) (tch_list c)). e \<le> now + tch_ttl c"
  proof clarify
    fix k e
    assume "(k, e) \<in> set (dropWhile (\<lambda>(k, e). e \<le> now) (tch_list c))"
    then have "(k, e) \<in> set (tch_list c)" by (rule set_dropWhileD)
    then have "e \<le> t + tch_ttl c" using assms(1) by (auto simp: cache_inv_def)
    then show "e \<le> now + tch_ttl c" using assms(2) by linarith
  qed
  ultimately show ?thesis
    using assms(1) unfolding cache_inv_def
    by (auto simp: remove_expired_list remove_expired_map [OF assms(1)]
        intro!: in_dropWhile_sorted split: option.splits if_splits)
qed

lemma cache_put_inv: "cache_inv now c \<Longrightarrow> cache_inv now (cache_put now k v c)"
  by (auto simp: cache_inv_def cache_put_def sorted_append)

lemma cache_new_inv [simp]: "cache_inv t (cache_new ttl)"
  by (simp add: cache_inv_def cache_new_def)

lemma cache_insert_inv:
  "cache_inv t c \<Longrightarrow> t \<le> now \<Longrightarrow> cache_inv now (snd (cache_insert now k v c))"
  by (auto simp: cache_insert_def Let_def intro: cache_put_inv remove_expired_inv split: option.split)

lemma cache_update_inv:
  "cache_inv t c \<Longrightarrow> t \<le> now \<Longrightarrow> cache_inv now (cache_update now k d f c)"
  by (auto simp: cache_update_def Let_def intro: cache_put_inv remove_expired_inv split: option.split)

lemma cache_remove_inv:
  assumes "cache_inv t c" "t \<le> now"
  shows "cache_inv now (snd (cache_remove now k c))"
proof -
  have "cache_inv t (c\<lparr>tch_map := AList.delete k (tch_map c)\<rparr>)"
    using assms(1) by (auto simp: cache_inv_def split: if_splits)
  then show ?thesis using assms(2) by (simp add: cache_remove_def remove_expired_inv)
qed

text \<open>The number of entries falls with every key that \<open>remove\<close> finds.\<close>

lemma length_delete_less: "map_of al k = Some v \<Longrightarrow> length (AList.delete k al) < length al"
  by (induction al) (auto simp: AList.delete_eq intro: le_imp_less_Suc)

lemma expire_keys_length: "expire_keys now l m = (l', m') \<Longrightarrow> length m' \<le> length m"
proof (induction now l m arbitrary: l' m' rule: expire_keys.induct)
  case (2 now k0 e0 rest m)
  then show ?case by (auto split: if_splits option.splits dest: length_delete_less)
qed simp

lemma cache_remove_length:
  "cache_remove now k c = (Some v, c') \<Longrightarrow> length (tch_map c') < length (tch_map c)"
  by (auto simp: cache_remove_def remove_expired_keys_def split: prod.splits
      dest!: length_delete_less expire_keys_length)

lemma finite_dom_cache_get [simp]: "finite (dom (cache_get c))"
  by (rule finite_subset [OF _ finite_dom_map_of [of "tch_map c"]]) (auto simp: cache_get_def)

text \<open>What the operations do, seen through \<open>cache_get\<close>.\<close>

lemma cache_insert_get:
  assumes "cache_inv t c"
  shows "fst (cache_insert now k v c) = (alive now c k = None)"
    and "cache_get (snd (cache_insert now k v c)) =
           (if alive now c k = None then (alive now c)(k \<mapsto> v) else alive now c)"
proof -
  have get: "alive now c k = map_option fst (map_of (tch_map (remove_expired_keys now c)) k)" for k
    using remove_expired_alive [OF assms] by (metis cache_get_def)
  show "fst (cache_insert now k v c) = (alive now c k = None)"
    by (simp add: get cache_insert_def Let_def split: option.split)
  show "cache_get (snd (cache_insert now k v c)) =
          (if alive now c k = None then (alive now c)(k \<mapsto> v) else alive now c)"
    by (rule ext) (simp add: get cache_insert_def Let_def cache_get_def cache_put_def split: option.split)
qed

lemma cache_update_get:
  assumes "cache_inv t c"
  shows "cache_get (cache_update now k d f c) =
           (alive now c)(k \<mapsto> f (case alive now c k of Some v \<Rightarrow> v | None \<Rightarrow> d))"
proof -
  have get: "alive now c k = map_option fst (map_of (tch_map (remove_expired_keys now c)) k)" for k
    using remove_expired_alive [OF assms] by (metis cache_get_def)
  show ?thesis
    by (rule ext) (simp add: get cache_update_def Let_def cache_get_def cache_put_def split: option.split)
qed

lemma cache_remove_get:
  assumes "cache_inv t c"
  shows "cache_get (snd (cache_remove now k c)) = (alive now c)(k := None)"
proof -
  have "cache_inv t (c\<lparr>tch_map := AList.delete k (tch_map c)\<rparr>)"
    using assms by (auto simp: cache_inv_def split: if_splits)
  from remove_expired_alive [OF this, of now] show ?thesis
    by (auto simp: cache_remove_def alive_def fun_eq_iff)
qed


section \<open>The contract of the cache\<close>

text \<open>A call that may change the cache, and what it means for a map of values with times of expiry.\<close>

datatype ('k, 'v) cache_op =
    Insert_op 'k 'v
  | Update_op 'k 'v "'v \<Rightarrow> 'v"
  | Remove_op 'k
  | Clear_op

fun cache_step :: "nat \<Rightarrow> ('k, 'v) cache_op \<Rightarrow> ('k, 'v) time_cache \<Rightarrow> ('k, 'v) time_cache" where
  "cache_step now (Insert_op k v) c = snd (cache_insert now k v c)"
| "cache_step now (Update_op k d f) c = cache_update now k d f c"
| "cache_step now (Remove_op k) c = snd (cache_remove now k c)"
| "cache_step now Clear_op c = cache_clear c"

definition unexpired :: "nat \<Rightarrow> ('k \<Rightarrow> ('v \<times> nat) option) \<Rightarrow> 'k \<Rightarrow> ('v \<times> nat) option" where
  "unexpired now s k = (case s k of Some (v, e) \<Rightarrow> if now < e then Some (v, e) else None | None \<Rightarrow> None)"

fun spec_step ::
  "nat \<Rightarrow> nat \<Rightarrow> ('k, 'v) cache_op \<Rightarrow> ('k \<Rightarrow> ('v \<times> nat) option) \<Rightarrow> 'k \<Rightarrow> ('v \<times> nat) option" where
  "spec_step ttl now (Insert_op k v) s =
     (let s' = unexpired now s in if s' k = None then s'(k \<mapsto> (v, now + ttl)) else s')"
| "spec_step ttl now (Update_op k d f) s =
     (let s' = unexpired now s
      in s'(k \<mapsto> (f (case s' k of Some (v, _) \<Rightarrow> v | None \<Rightarrow> d), now + ttl)))"
| "spec_step ttl now (Remove_op k) s = (unexpired now s)(k := None)"
| "spec_step ttl now Clear_op s = (\<lambda>_. None)"

fun op_key :: "('k, 'v) cache_op \<Rightarrow> 'k option" where
  "op_key (Insert_op k v) = Some k"
| "op_key (Update_op k d f) = Some k"
| "op_key (Remove_op k) = Some k"
| "op_key Clear_op = None"

lemma spec_step_other:
  "op_key op \<noteq> Some k \<Longrightarrow> op \<noteq> Clear_op \<Longrightarrow> spec_step ttl now op s k = unexpired now s k"
  by (cases op) (auto simp: Let_def)

text \<open>
  A map whose entries expire: every call keeps the invariant and does to the entries what the
  specification says, and a lookup reads the entries.
\<close>

locale expiring_map =
  fixes ttl :: nat
    and init :: "'c"
    and step :: "nat \<Rightarrow> ('k, 'v) cache_op \<Rightarrow> 'c \<Rightarrow> 'c"
    and get :: "'c \<Rightarrow> 'k \<Rightarrow> 'v option"
    and entries :: "'c \<Rightarrow> 'k \<Rightarrow> ('v \<times> nat) option"
    and inv :: "nat \<Rightarrow> 'c \<Rightarrow> bool"
  assumes init_inv: "inv 0 init"
    and init_entries: "entries init = (\<lambda>_. None)"
    and step_inv: "inv t c \<Longrightarrow> t \<le> now \<Longrightarrow> inv now (step now op c)"
    and step_entries: "inv t c \<Longrightarrow> t \<le> now \<Longrightarrow> entries (step now op c) = spec_step ttl now op (entries c)"
    and get_entries: "get c k = map_option fst (entries c k)"
begin

lemma run_entries:
  assumes "inv t c" "sorted (t # map fst ops)"
  shows "entries (foldl (\<lambda>c (now, op). step now op c) c ops) =
           foldl (\<lambda>s (now, op). spec_step ttl now op s) (entries c) ops"
  using assms
proof (induction ops arbitrary: t c)
  case (Cons x ops)
  obtain now op where x: "x = (now, op)" by (cases x)
  have "inv now (step now op c)" "sorted (now # map fst ops)"
    using Cons.prems by (auto simp: x intro: step_inv)
  from Cons.IH [OF this] show ?case using Cons.prems by (simp add: x step_entries)
qed simp

lemma run_get:
  assumes "sorted (map fst ops)"
  shows "get (foldl (\<lambda>c (now, op). step now op c) init ops) k =
           map_option fst (foldl (\<lambda>s (now, op). spec_step ttl now op s) (\<lambda>_. None) ops k)"
  using run_entries [OF init_inv, of ops] assms by (simp add: get_entries init_entries)

lemma entry_lives:
  assumes "inv t c" "sorted (t # map fst ops)" "entries c k = Some (v, e)"
    and "\<And>now op. (now, op) \<in> set ops \<Longrightarrow> op_key op \<noteq> Some k \<and> op \<noteq> Clear_op"
  shows "get (foldl (\<lambda>c (now, op). step now op c) c ops) k = (if \<forall>(now, op) \<in> set ops. now < e then Some v else None)"
proof -
  have "foldl (\<lambda>s (now, op). spec_step ttl now op s) s ops k =
      (case s k of Some (v, e) \<Rightarrow> if \<forall>(now, op) \<in> set ops. now < e then Some (v, e) else None | None \<Rightarrow> None)" for s
    using assms(4)
  proof (induction ops arbitrary: s)
    case (Cons x ops)
    obtain now op where x: "x = (now, op)" by (cases x)
    have "spec_step ttl now op s k = unexpired now s k"
      using Cons.prems [of now op] by (intro spec_step_other) (auto simp: x)
    moreover have "foldl (\<lambda>s (now, op). spec_step ttl now op s) s' ops k =
        (case s' k of Some (v, e) \<Rightarrow> if \<forall>(now, op) \<in> set ops. now < e then Some (v, e) else None | None \<Rightarrow> None)" for s'
      by (rule Cons.IH, rule Cons.prems, auto)
    ultimately show ?case by (auto simp: x unexpired_def split: option.split)
  qed (simp split: option.split)
  then show ?thesis using run_entries [OF assms(1,2)] assms(3) by (simp add: get_entries)
qed

end

lemma cache_step_ttl [simp]: "tch_ttl (cache_step now op c) = tch_ttl c"
  by (cases op)
    (auto simp: cache_insert_def cache_update_def cache_remove_def cache_clear_def cache_put_def Let_def
      remove_expired_list split: option.split)

lemma cache_clear_inv: "cache_inv t (cache_clear c)"
  by (simp add: cache_inv_def cache_clear_def)

lemma cache_step_inv: "cache_inv t c \<Longrightarrow> t \<le> now \<Longrightarrow> cache_inv now (cache_step now op c)"
  by (cases op) (simp_all add: cache_insert_inv cache_update_inv cache_remove_inv cache_clear_inv)

lemma remove_expired_entries:
  "cache_inv t c \<Longrightarrow> map_of (tch_map (remove_expired_keys now c)) = unexpired now (map_of (tch_map c))"
  by (rule ext) (simp add: remove_expired_map unexpired_def)

lemma cache_step_entries:
  assumes "cache_inv t c"
  shows "map_of (tch_map (cache_step now op c)) = spec_step (tch_ttl c) now op (map_of (tch_map c))"
proof (cases op)
  case (Remove_op k)
  have "cache_inv t (c\<lparr>tch_map := AList.delete k (tch_map c)\<rparr>)"
    using assms by (auto simp: cache_inv_def split: if_splits)
  from remove_expired_entries [OF this] show ?thesis
    by (auto simp: Remove_op cache_remove_def unexpired_def)
qed (auto simp: cache_insert_def cache_update_def cache_clear_def cache_put_def Let_def remove_expired_entries [OF assms]
    remove_expired_list split: option.split)

interpretation tc: expiring_map ttl "cache_new ttl" cache_step cache_get "\<lambda>c. map_of (tch_map c)"
  "\<lambda>t c. cache_inv t c \<and> tch_ttl c = ttl" for ttl
proof
  fix t now c op
  assume c: "cache_inv t c \<and> tch_ttl c = ttl" "t \<le> now"
  then show "cache_inv now (cache_step now op c) \<and> tch_ttl (cache_step now op c) = ttl"
    using cache_step_inv by fastforce
  show "map_of (tch_map (cache_step now op c)) = spec_step ttl now op (map_of (tch_map c))"
    using cache_step_entries c by blast
qed (auto simp: cache_get_def cache_new_def cache_inv_def)

text \<open>
  C27. Over every sequence of calls at times that do not fall, the cache of the code, with its queue of keys
  in which a refreshed key stands more than once, gives the values of a plain map whose entries expire:
  each call first drops what has expired, an insertion does not replace a living value, and an update
  starts the time of an entry again.
\<close>

theorem time_cache_refines_map:
  assumes "sorted (map fst ops)"
  shows "cache_get (foldl (\<lambda>c (now, op). cache_step now op c) (cache_new ttl) ops) k =
           map_option fst (foldl (\<lambda>s (now, op). spec_step ttl now op s) (\<lambda>_. None) ops k)"
  by (rule tc.run_get [OF assms])

theorem time_cache_refines_map_witness:
  "cache_get (foldl (\<lambda>c (now, op). cache_step now op c) (cache_new 10)
      [(1, Insert_op ''a'' 1), (5, Update_op ''a'' 0 Suc), (12, Insert_op ''b'' 7)]) ''a'' = Some (2::nat)"
  using time_cache_refines_map [of "[(1, Insert_op ''a'' 1), (5, Update_op ''a'' 0 Suc), (12, Insert_op ''b'' 7)]" 10 "''a''"]
  by (simp add: unexpired_def)

end
