(* ===== verification/OrderTypes.thy ===== *)
theory OrderTypes
  imports TakerSwap MakerSwap "HOL-Library.AList" "HOL-Library.List_Lexorder" "HOL-Library.Char_ord"
begin

text \<open>
  The data of order matching, \<open>mm2_main/src/lp_ordermatch.rs\<close>: orders, requests and matches, the
  messages of \<open>lp_ordermatch/new_protocol.rs\<close> and the conversions between the two, and what the
  handlers see of the rest of the node.

  \<^item> A \<open>HashMap\<close> that the code iterates over is an association list with distinct keys; its order is
    one of the orders in which the map may yield its entries. Other maps are partial functions.
  \<^item> \<open>om_coin\<close> extends \<open>coin\<close> by the methods that only order matching calls.
  \<^item> \<open>om_env\<close> is the outside: the registry of activated coins, clock, keys, random values, the
    Patricia trie of \<open>sp_trie\<close> and the failures of the storage.
\<close>

section \<open>Settings and enums\<close>

datatype taker_action = Buy | Sell

datatype order_type = FillOrKill | GoodTillCancelled

datatype match_by = MatchAny | MatchOrders "uuid set" | MatchPubkeys "bytes set"

record order_confirmations_settings =
  oc_base_confs :: u64
  oc_base_nota :: bool
  oc_rel_confs :: u64
  oc_rel_nota :: bool

definition reversed :: "order_confirmations_settings \<Rightarrow> order_confirmations_settings" where
  "reversed s =
     \<lparr>oc_base_confs = oc_rel_confs s, oc_base_nota = oc_rel_nota s,
      oc_rel_confs = oc_base_confs s, oc_rel_nota = oc_base_nota s\<rparr>"

text \<open>A key pair of \<open>secp256k1\<close>: the secret and the compressed public key.\<close>

record keypair =
  kp_private :: bytes
  kp_public :: bytes

text \<open>\<open>PublicKey::unprefixed\<close> drops the first of the 33 bytes.\<close>

definition unprefixed :: "bytes \<Rightarrow> bytes" where
  "unprefixed pk = drop 1 pk"

section \<open>Requests, orders and matches\<close>

record taker_request =
  tr_base :: string
  tr_rel :: string
  tr_base_amount :: rat
  tr_rel_amount :: rat
  tr_action :: taker_action
  tr_uuid :: uuid
  tr_sender_pubkey :: bytes
  tr_dest_pub_key :: bytes
  tr_match_by :: match_by
  tr_conf_settings :: "order_confirmations_settings option"
  tr_base_protocol_info :: "bytes option"
  tr_rel_protocol_info :: "bytes option"

record taker_connect =
  tc_taker_order_uuid :: uuid
  tc_maker_order_uuid :: uuid
  tc_sender_pubkey :: bytes
  tc_dest_pub_key :: bytes

record maker_reserved =
  mr_base :: string
  mr_rel :: string
  mr_base_amount :: rat
  mr_rel_amount :: rat
  mr_taker_order_uuid :: uuid
  mr_maker_order_uuid :: uuid
  mr_sender_pubkey :: bytes
  mr_dest_pub_key :: bytes
  mr_conf_settings :: "order_confirmations_settings option"
  mr_base_protocol_info :: "bytes option"
  mr_rel_protocol_info :: "bytes option"

record maker_connected =
  mc_taker_order_uuid :: uuid
  mc_maker_order_uuid :: uuid
  mc_method :: string
  mc_sender_pubkey :: bytes
  mc_dest_pub_key :: bytes

record maker_match =
  mk_request :: taker_request
  mk_reserved :: maker_reserved
  mk_connect :: "taker_connect option"
  mk_connected :: "maker_connected option"
  mk_last_updated :: u64

record taker_match =
  tk_reserved :: maker_reserved
  tk_connect :: taker_connect
  tk_connected :: "maker_connected option"
  tk_last_updated :: u64

record taker_order =
  to_created_at :: u64
  to_request :: taker_request
  to_matches :: "(uuid \<times> taker_match) list"
  to_min_volume :: rat
  to_order_type :: order_type
  to_timeout :: u64
  to_save_in_history :: bool
  to_base_orderbook_ticker :: "string option"
  to_rel_orderbook_ticker :: "string option"
  to_p2p_privkey :: "keypair option"

text \<open>\<open>changes_history\<close> of a \<open>MakerOrder\<close> is kept for old files only: every order has \<open>None\<close>.\<close>

record maker_order =
  mo_max_base_vol :: rat
  mo_min_base_vol :: rat
  mo_price :: rat
  mo_created_at :: u64
  mo_updated_at :: "u64 option"
  mo_base :: string
  mo_rel :: string
  mo_matches :: "(uuid \<times> maker_match) list"
  mo_started_swaps :: "uuid list"
  mo_uuid :: uuid
  mo_conf_settings :: "order_confirmations_settings option"
  mo_save_in_history :: bool
  mo_base_orderbook_ticker :: "string option"
  mo_rel_orderbook_ticker :: "string option"
  mo_p2p_privkey :: "keypair option"

text \<open>The division of \<open>MmNumber\<close> panics on a zero divisor.\<close>

definition mm_div :: "rat \<Rightarrow> rat \<Rightarrow> rat option" where
  "mm_div a b = (if b = 0 then None else Some (a / b))"

definition mr_price :: "maker_reserved \<Rightarrow> rat option" where
  "mr_price r = mm_div (mr_rel_amount r) (mr_base_amount r)"

section \<open>Messages\<close>

type_synonym h64 = bytes

definition h64_default :: h64 where "h64_default = replicate 8 0"

record proto_maker_order_created =
  pc_uuid :: uuid
  pc_base :: string
  pc_rel :: string
  pc_price :: rat
  pc_max_volume :: rat
  pc_min_volume :: rat
  pc_created_at :: u64
  pc_conf_settings :: order_confirmations_settings
  pc_timestamp :: u64
  pc_pair_trie_root :: h64
  pc_base_protocol_info :: bytes
  pc_rel_protocol_info :: bytes

record maker_order_updated_v1 =
  u1_uuid :: uuid
  u1_new_price :: "rat option"
  u1_new_max_volume :: "rat option"
  u1_new_min_volume :: "rat option"
  u1_timestamp :: u64
  u1_pair_trie_root :: h64

record maker_order_updated_v2 =
  u2_uuid :: uuid
  u2_new_price :: "rat option"
  u2_new_max_volume :: "rat option"
  u2_new_min_volume :: "rat option"
  u2_timestamp :: u64
  u2_pair_trie_root :: h64
  u2_conf_settings :: "order_confirmations_settings option"

datatype maker_order_updated = MOU_V1 maker_order_updated_v1 | MOU_V2 maker_order_updated_v2

record pubkey_keep_alive =
  ka_trie_roots :: "(string \<times> h64) list"
  ka_timestamp :: u64

record maker_order_cancelled =
  ca_uuid :: uuid
  ca_timestamp :: u64
  ca_pair_trie_root :: h64

record proto_taker_request =
  pt_base :: string
  pt_rel :: string
  pt_base_amount :: rat
  pt_rel_amount :: rat
  pt_action :: taker_action
  pt_uuid :: uuid
  pt_match_by :: match_by
  pt_conf_settings :: order_confirmations_settings
  pt_base_protocol_info :: "bytes option"
  pt_rel_protocol_info :: "bytes option"

record proto_maker_reserved =
  pr_base :: string
  pr_rel :: string
  pr_base_amount :: rat
  pr_rel_amount :: rat
  pr_taker_order_uuid :: uuid
  pr_maker_order_uuid :: uuid
  pr_conf_settings :: order_confirmations_settings
  pr_base_protocol_info :: "bytes option"
  pr_rel_protocol_info :: "bytes option"

record proto_taker_connect =
  px_taker_order_uuid :: uuid
  px_maker_order_uuid :: uuid

record proto_maker_connected =
  pd_taker_order_uuid :: uuid
  pd_maker_order_uuid :: uuid

datatype ordermatch_message =
    MakerOrderCreatedMsg proto_maker_order_created
  | MakerOrderUpdatedMsg maker_order_updated
  | PubkeyKeepAliveMsg pubkey_keep_alive
  | MakerOrderCancelledMsg maker_order_cancelled
  | TakerRequestMsg proto_taker_request
  | MakerReservedMsg proto_maker_reserved
  | TakerConnectMsg proto_taker_connect
  | MakerConnectedMsg proto_maker_connected

definition maker_order_updated_new :: "uuid \<Rightarrow> u64 \<Rightarrow> maker_order_updated" where
  "maker_order_updated_new u now =
     MOU_V2 \<lparr>u2_uuid = u, u2_new_price = None, u2_new_max_volume = None, u2_new_min_volume = None,
       u2_timestamp = now, u2_pair_trie_root = h64_default, u2_conf_settings = None\<rparr>"

fun with_new_price :: "rat \<Rightarrow> maker_order_updated \<Rightarrow> maker_order_updated" where
  "with_new_price p (MOU_V1 m) = MOU_V1 (m\<lparr>u1_new_price := Some p\<rparr>)"
| "with_new_price p (MOU_V2 m) = MOU_V2 (m\<lparr>u2_new_price := Some p\<rparr>)"

fun with_new_max_volume :: "rat \<Rightarrow> maker_order_updated \<Rightarrow> maker_order_updated" where
  "with_new_max_volume v (MOU_V1 m) = MOU_V1 (m\<lparr>u1_new_max_volume := Some v\<rparr>)"
| "with_new_max_volume v (MOU_V2 m) = MOU_V2 (m\<lparr>u2_new_max_volume := Some v\<rparr>)"

fun with_new_min_volume :: "rat \<Rightarrow> maker_order_updated \<Rightarrow> maker_order_updated" where
  "with_new_min_volume v (MOU_V1 m) = MOU_V1 (m\<lparr>u1_new_min_volume := Some v\<rparr>)"
| "with_new_min_volume v (MOU_V2 m) = MOU_V2 (m\<lparr>u2_new_min_volume := Some v\<rparr>)"

fun with_new_conf_settings ::
  "order_confirmations_settings \<Rightarrow> maker_order_updated \<Rightarrow> maker_order_updated" where
  "with_new_conf_settings s (MOU_V1 m) = MOU_V1 m"
| "with_new_conf_settings s (MOU_V2 m) = MOU_V2 (m\<lparr>u2_conf_settings := Some s\<rparr>)"

fun new_price :: "maker_order_updated \<Rightarrow> rat option" where
  "new_price (MOU_V1 m) = u1_new_price m"
| "new_price (MOU_V2 m) = u2_new_price m"

fun new_max_volume :: "maker_order_updated \<Rightarrow> rat option" where
  "new_max_volume (MOU_V1 m) = u1_new_max_volume m"
| "new_max_volume (MOU_V2 m) = u2_new_max_volume m"

fun new_min_volume :: "maker_order_updated \<Rightarrow> rat option" where
  "new_min_volume (MOU_V1 m) = u1_new_min_volume m"
| "new_min_volume (MOU_V2 m) = u2_new_min_volume m"

fun new_conf_settings :: "maker_order_updated \<Rightarrow> order_confirmations_settings option" where
  "new_conf_settings (MOU_V1 m) = None"
| "new_conf_settings (MOU_V2 m) = u2_conf_settings m"

fun updated_uuid :: "maker_order_updated \<Rightarrow> uuid" where
  "updated_uuid (MOU_V1 m) = u1_uuid m"
| "updated_uuid (MOU_V2 m) = u2_uuid m"

section \<open>Conversions\<close>

definition to_base_ticker :: "taker_order \<Rightarrow> string" where
  "to_base_ticker ord = (case to_base_orderbook_ticker ord of Some s \<Rightarrow> s | None \<Rightarrow> tr_base (to_request ord))"

definition to_rel_ticker :: "taker_order \<Rightarrow> string" where
  "to_rel_ticker ord = (case to_rel_orderbook_ticker ord of Some s \<Rightarrow> s | None \<Rightarrow> tr_rel (to_request ord))"

text \<open>The message of a taker order; \<open>None\<close> is the panic of \<open>conf_settings.unwrap()\<close>.\<close>

definition message_of_taker_order :: "taker_order \<Rightarrow> ordermatch_message option" where
  "message_of_taker_order ord =
     (let r = to_request ord in
      map_option
        (\<lambda>s. TakerRequestMsg
           \<lparr>pt_base = to_base_ticker ord, pt_rel = to_rel_ticker ord,
            pt_base_amount = tr_base_amount r, pt_rel_amount = tr_rel_amount r,
            pt_action = tr_action r, pt_uuid = tr_uuid r, pt_match_by = tr_match_by r,
            pt_conf_settings = s, pt_base_protocol_info = tr_base_protocol_info r,
            pt_rel_protocol_info = tr_rel_protocol_info r\<rparr>)
        (tr_conf_settings r))"

definition taker_request_from_proto :: "proto_taker_request \<Rightarrow> bytes \<Rightarrow> taker_request" where
  "taker_request_from_proto m sender =
     \<lparr>tr_base = pt_base m, tr_rel = pt_rel m, tr_base_amount = pt_base_amount m,
      tr_rel_amount = pt_rel_amount m, tr_action = pt_action m, tr_uuid = pt_uuid m,
      tr_sender_pubkey = sender, tr_dest_pub_key = hash_default 32, tr_match_by = pt_match_by m,
      tr_conf_settings = Some (pt_conf_settings m), tr_base_protocol_info = pt_base_protocol_info m,
      tr_rel_protocol_info = pt_rel_protocol_info m\<rparr>"

definition message_of_maker_reserved :: "maker_reserved \<Rightarrow> ordermatch_message option" where
  "message_of_maker_reserved r =
     map_option
       (\<lambda>s. MakerReservedMsg
          \<lparr>pr_base = mr_base r, pr_rel = mr_rel r, pr_base_amount = mr_base_amount r,
           pr_rel_amount = mr_rel_amount r, pr_taker_order_uuid = mr_taker_order_uuid r,
           pr_maker_order_uuid = mr_maker_order_uuid r, pr_conf_settings = s,
           pr_base_protocol_info = mr_base_protocol_info r,
           pr_rel_protocol_info = mr_rel_protocol_info r\<rparr>)
       (mr_conf_settings r)"

definition maker_reserved_from_proto :: "proto_maker_reserved \<Rightarrow> bytes \<Rightarrow> maker_reserved" where
  "maker_reserved_from_proto m sender =
     \<lparr>mr_base = pr_base m, mr_rel = pr_rel m, mr_base_amount = pr_base_amount m,
      mr_rel_amount = pr_rel_amount m, mr_taker_order_uuid = pr_taker_order_uuid m,
      mr_maker_order_uuid = pr_maker_order_uuid m, mr_sender_pubkey = sender,
      mr_dest_pub_key = hash_default 32, mr_conf_settings = Some (pr_conf_settings m),
      mr_base_protocol_info = pr_base_protocol_info m,
      mr_rel_protocol_info = pr_rel_protocol_info m\<rparr>"

definition message_of_taker_connect :: "taker_connect \<Rightarrow> ordermatch_message" where
  "message_of_taker_connect c =
     TakerConnectMsg \<lparr>px_taker_order_uuid = tc_taker_order_uuid c,
       px_maker_order_uuid = tc_maker_order_uuid c\<rparr>"

definition taker_connect_from_proto :: "proto_taker_connect \<Rightarrow> taker_connect" where
  "taker_connect_from_proto m =
     \<lparr>tc_taker_order_uuid = px_taker_order_uuid m, tc_maker_order_uuid = px_maker_order_uuid m,
      tc_sender_pubkey = hash_default 32, tc_dest_pub_key = hash_default 32\<rparr>"

definition message_of_maker_connected :: "maker_connected \<Rightarrow> ordermatch_message" where
  "message_of_maker_connected c =
     MakerConnectedMsg \<lparr>pd_taker_order_uuid = mc_taker_order_uuid c,
       pd_maker_order_uuid = mc_maker_order_uuid c\<rparr>"

definition maker_connected_from_proto :: "proto_maker_connected \<Rightarrow> maker_connected" where
  "maker_connected_from_proto m =
     \<lparr>mc_taker_order_uuid = pd_taker_order_uuid m, mc_maker_order_uuid = pd_maker_order_uuid m,
      mc_method = [], mc_sender_pubkey = hash_default 32, mc_dest_pub_key = hash_default 32\<rparr>"

section \<open>Topics\<close>

definition ORDERBOOK_PREFIX :: string where "ORDERBOOK_PREFIX = ''orbk''"

definition TOPIC_SEPARATOR :: char where "TOPIC_SEPARATOR = CHR ''/''"

definition pub_sub_topic :: "string \<Rightarrow> string \<Rightarrow> string" where
  "pub_sub_topic prefix topic = prefix @ [TOPIC_SEPARATOR] @ topic"

definition alb_ordered_pair :: "string \<Rightarrow> string \<Rightarrow> string" where
  "alb_ordered_pair base rel =
     (let (first, second) = (if base < rel then (base, rel) else (rel, base))
      in first @ [CHR '':''] @ second)"

definition orderbook_topic_from_base_rel :: "string \<Rightarrow> string \<Rightarrow> string" where
  "orderbook_topic_from_base_rel base rel = pub_sub_topic ORDERBOOK_PREFIX (alb_ordered_pair base rel)"

definition orderbook_topic_from_ordered_pair :: "string \<Rightarrow> string" where
  "orderbook_topic_from_ordered_pair pair = pub_sub_topic ORDERBOOK_PREFIX pair"

text \<open>\<open>split\<close> of a string by a separator: the first two pieces, as the code takes them.\<close>

fun next_piece :: "char \<Rightarrow> string \<Rightarrow> string \<times> string option" where
  "next_piece sep [] = ([], None)"
| "next_piece sep (c # cs) =
     (if c = sep then ([], Some cs)
      else let (piece, rest) = next_piece sep cs in (c # piece, rest))"

definition parse_orderbook_pair_from_topic :: "string \<Rightarrow> (string \<times> string) option" where
  "parse_orderbook_pair_from_topic topic =
     (case next_piece TOPIC_SEPARATOR topic of
        (prefix, rest) \<Rightarrow>
          if prefix = ORDERBOOK_PREFIX
          then (case rest of
                  Some tail \<Rightarrow>
                    (let maybe_pair = fst (next_piece TOPIC_SEPARATOR tail) in
                     case next_piece (CHR '':'') maybe_pair of
                       (first, Some second) \<Rightarrow>
                         if second \<noteq> [] then Some (first, second) else None
                     | (_, None) \<Rightarrow> None)
                | None \<Rightarrow> None)
          else None)"

end
