(* ===== verification/TrieHistory.thy ===== *)
theory TrieHistory
  imports TimeCache OrderTypes
begin

text \<open>
  The history of the Patricia tries of orders (\<open>TrieDiffHistory\<close> and \<open>DeltaOrFullTrie\<close> of
  \<open>mm2_main/src/lp_ordermatch.rs\<close>): for a root hash the change that led away from it, so that a peer
  who knows an old root can be sent the changes since. Both the clean-up in \<open>insert_new_diff\<close> and the
  walk in \<open>from_history\<close> are \<open>while\<close> loops over the stored roots; they end because no chain of changes
  ever leads back to its start. All calls of one operation read the same instant.
\<close>

section \<open>Changes and their history\<close>

record ('k, 'v) trie_diff =
  df_delta :: "('k \<times> 'v option) list"
  df_next_root :: h64

type_synonym ('k, 'v) trie_diff_history = "(h64, ('k, 'v) trie_diff) time_cache"

text \<open>The \<open>while let\<close> loop of \<open>insert_new_diff\<close>: every turn takes an entry out of the map.\<close>

function drop_chain ::
  "nat \<Rightarrow> h64 \<Rightarrow> ('k, 'v) trie_diff_history \<Rightarrow> ('k, 'v) trie_diff_history" where
  "drop_chain now rt h =
     (case cache_remove now rt h of
        (Some diff, h') \<Rightarrow> drop_chain now (df_next_root diff) h'
      | (None, h') \<Rightarrow> h')"
  by pat_completeness auto
termination
  by (relation "measure (\<lambda>(now, rt, h). length (tch_map h))") (simp, simp, metis cache_remove_length)

declare drop_chain.simps [simp del]

definition insert_new_diff ::
  "nat \<Rightarrow> h64 \<Rightarrow> ('k, 'v) trie_diff \<Rightarrow> ('k, 'v) trie_diff_history \<Rightarrow> ('k, 'v) trie_diff_history" where
  "insert_new_diff now insert_at diff h =
     (if insert_at = df_next_root diff then h
      else case cache_remove now (df_next_root diff) h of
        (Some d, h') \<Rightarrow> drop_chain now (df_next_root d) h'
      | (None, h') \<Rightarrow> snd (cache_insert now insert_at diff h'))"

text \<open>\<open>HashMap::extend\<close>: later pairs replace earlier ones.\<close>

definition extend_delta :: "('k \<times> 'v) list \<Rightarrow> ('k \<times> 'v) list \<Rightarrow> ('k \<times> 'v) list" where
  "extend_delta m d = fold (\<lambda>(k, v) m. AList.update k v m) d m"

partial_function (option) follow_history ::
  "('k, 'v) trie_diff_history \<Rightarrow> h64 \<Rightarrow> ('k \<times> 'v option) list \<Rightarrow> (h64 \<times> ('k \<times> 'v option) list) option" where
  "follow_history h rt total_delta =
     (case cache_get h rt of
        Some cur \<Rightarrow> follow_history h (df_next_root cur) (extend_delta total_delta (df_delta cur))
      | None \<Rightarrow> Some (rt, total_delta))"

datatype ('k, 'v) delta_or_full_trie = Delta "('k \<times> 'v option) list" | FullTrie "('k \<times> 'v) list"

datatype trie_diff_history_error =
    TrieDbError string
  | TryFromBytesErr string
  | GetterNoneForKeyFromTrie

text \<open>
  The keys of the trie come from \<open>sp_trie\<close>, in the order of its iterator; the first key without a
  value ends the collection with an error.
\<close>

fun collect_values :: "('k \<Rightarrow> 'v option) \<Rightarrow> 'k list \<Rightarrow> trie_diff_history_error + ('k \<times> 'v) list" where
  "collect_values getter [] = Inr []"
| "collect_values getter (k # ks) =
     (case getter k of
        None \<Rightarrow> Inl GetterNoneForKeyFromTrie
      | Some v \<Rightarrow>
          (case collect_values getter ks of Inl e \<Rightarrow> Inl e | Inr kvs \<Rightarrow> Inr ((k, v) # kvs)))"

definition get_full_trie ::
  "(trie_diff_history_error + 'k list) \<Rightarrow> ('k \<Rightarrow> 'v option) \<Rightarrow> trie_diff_history_error + ('k \<times> 'v) list" where
  "get_full_trie keys getter = (case keys of Inl e \<Rightarrow> Inl e | Inr ks \<Rightarrow> collect_values getter ks)"

definition full_trie_result ::
  "(trie_diff_history_error + 'k list) \<Rightarrow> ('k \<Rightarrow> 'v option) \<Rightarrow>
   trie_diff_history_error + ('k, 'v) delta_or_full_trie" where
  "full_trie_result keys getter =
     (case get_full_trie keys getter of Inl e \<Rightarrow> Inl e | Inr t \<Rightarrow> Inr (FullTrie t))"

definition from_history ::
  "('k, 'v) trie_diff_history \<Rightarrow> h64 \<Rightarrow> h64 \<Rightarrow> (trie_diff_history_error + 'k list) \<Rightarrow>
   ('k \<Rightarrow> 'v option) \<Rightarrow> (trie_diff_history_error + ('k, 'v) delta_or_full_trie) option" where
  "from_history h from_hash actual_trie_root keys getter =
     (case cache_get h from_hash of
        Some delta \<Rightarrow>
          map_option
            (\<lambda>(last_root, total_delta).
               if last_root = actual_trie_root then Inr (Delta total_delta)
               else full_trie_result keys getter)
            (follow_history h (df_next_root delta) (extend_delta [] (df_delta delta)))
      | None \<Rightarrow> Some (full_trie_result keys getter))"

section \<open>No cycles\<close>

definition diff_edges :: "('k, 'v) trie_diff_history \<Rightarrow> (h64 \<times> h64) set" where
  "diff_edges h = {(a, df_next_root d) | a d. cache_get h a = Some d}"

text \<open>
  The invariant of a history: the cache is in order at time \<open>t\<close>, and the changes form no cycle.
\<close>

definition history_inv :: "nat \<Rightarrow> ('k, 'v) trie_diff_history \<Rightarrow> bool" where
  "history_inv t h \<longleftrightarrow> cache_inv t h \<and> acyclic (diff_edges h)"

lemma alive_get: "alive now c k = Some v \<Longrightarrow> cache_get c k = Some v"
  by (auto simp: alive_def cache_get_def split: option.splits if_splits)

lemma history_inv_subset:
  assumes "history_inv t h" "cache_inv t' h'"
    and "\<And>k d. cache_get h' k = Some d \<Longrightarrow> cache_get h k = Some d"
  shows "history_inv t' h'"
proof -
  have "diff_edges h' \<subseteq> diff_edges h"
    using assms(3) by (auto simp: diff_edges_def)
  then show ?thesis
    using assms(1,2) by (auto simp: history_inv_def intro: acyclic_subset)
qed

lemma history_inv_remove:
  assumes "history_inv t h" "t \<le> now"
  shows "history_inv now (snd (cache_remove now k h))"
proof -
  have inv: "cache_inv t h" using assms(1) by (simp add: history_inv_def)
  show ?thesis
    by (rule history_inv_subset [OF assms(1) cache_remove_inv [OF inv assms(2)]])
      (auto simp: cache_remove_get [OF inv] intro: alive_get split: if_splits)
qed

lemma diff_edges_insert:
  assumes "cache_inv t h"
  shows "diff_edges (snd (cache_insert now a d h)) \<subseteq> insert (a, df_next_root d) (diff_edges h)"
  by (auto simp: diff_edges_def cache_insert_get [OF assms] intro: alive_get split: if_splits)

lemma no_path_from_absent:
  assumes "cache_get h n = None" "n \<noteq> a"
  shows "(n, a) \<notin> (diff_edges h)\<^sup>*"
proof
  assume "(n, a) \<in> (diff_edges h)\<^sup>*"
  then obtain b where "(n, b) \<in> diff_edges h" using assms(2) by (auto elim: converse_rtranclE)
  then show False using assms(1) by (auto simp: diff_edges_def)
qed

lemma history_inv_insert:
  assumes "history_inv t h" "t \<le> now" "cache_get h (df_next_root d) = None" "a \<noteq> df_next_root d"
  shows "history_inv now (snd (cache_insert now a d h))"
proof -
  have inv: "cache_inv t h" using assms(1) by (simp add: history_inv_def)
  have "acyclic (insert (a, df_next_root d) (diff_edges h))"
    using assms no_path_from_absent [OF assms(3)] by (auto simp: history_inv_def acyclic_insert)
  then have "acyclic (diff_edges (snd (cache_insert now a d h)))"
    by (rule acyclic_subset) (rule diff_edges_insert [OF inv])
  then show ?thesis by (simp add: history_inv_def cache_insert_inv [OF inv assms(2)])
qed

section \<open>The loops end\<close>

lemma drop_chain_inv:
  assumes "history_inv now h"
  shows "history_inv now (drop_chain now rt h) \<and>
           (\<forall>k d. cache_get (drop_chain now rt h) k = Some d \<longrightarrow> cache_get h k = Some d)"
  using assms
proof (induction now rt h rule: drop_chain.induct)
  case (1 now rt h)
  have inv: "cache_inv now h" using 1(2) by (simp add: history_inv_def)
  obtain r h1 where rem: "cache_remove now rt h = (r, h1)" by fastforce
  have get1: "cache_get h1 = (alive now h)(rt := None)" using cache_remove_get [OF inv, of now rt] rem by simp
  have inv1: "history_inv now h1" using history_inv_remove [OF 1(2) order_refl, of rt] rem by simp
  have sub: "cache_get h1 k = Some d \<Longrightarrow> cache_get h k = Some d" for k d
    by (auto simp: get1 intro: alive_get split: if_splits)
  show ?case
    using 1(1) [OF rem [symmetric]] inv1 sub
    by (cases r) (auto simp: drop_chain.simps [of now rt] rem)
qed

lemma insert_new_diff_inv:
  assumes "history_inv t h" "t \<le> now"
  shows "history_inv now (insert_new_diff now a d h)"
    and "cache_get (insert_new_diff now a d h) k = Some x \<Longrightarrow>
           cache_get h k = Some x \<or> (k = a \<and> x = d \<and> a \<noteq> df_next_root d)"
proof -
  have inv: "cache_inv t h" using assms(1) by (simp add: history_inv_def)
  obtain r h1 where rem: "cache_remove now (df_next_root d) h = (r, h1)" by fastforce
  have get1: "cache_get h1 = (alive now h)(df_next_root d := None)"
    using cache_remove_get [OF inv, of now "df_next_root d"] rem by simp
  have inv1: "history_inv now h1" using history_inv_remove [OF assms, of "df_next_root d"] rem by simp
  then have c1: "cache_inv now h1" by (simp add: history_inv_def)
  have sub: "cache_get h1 k = Some x \<Longrightarrow> cache_get h k = Some x" for k x
    by (auto simp: get1 intro: alive_get split: if_splits)
  have "cache_get h1 (df_next_root d) = None" by (simp add: get1)
  moreover have "history_inv now h"
    using assms by (auto simp: history_inv_def intro: cache_inv_mono)
  ultimately show "history_inv now (insert_new_diff now a d h)"
    using drop_chain_inv [OF inv1] history_inv_insert [OF inv1 order_refl]
    by (cases r) (auto simp: insert_new_diff_def rem)
  show "cache_get h k = Some x \<or> (k = a \<and> x = d \<and> a \<noteq> df_next_root d)"
    if "cache_get (insert_new_diff now a d h) k = Some x"
    using that drop_chain_inv [OF inv1] sub
    by (cases r) (auto simp: insert_new_diff_def rem cache_insert_get [OF c1] dest: alive_get split: if_splits)
qed

lemma follow_history_ends:
  assumes "acyclic (diff_edges h)"
  shows "\<exists>r. follow_history h rt acc = Some r"
proof -
  have "diff_edges h \<subseteq> (\<lambda>a. (a, df_next_root (the (cache_get h a)))) ` dom (cache_get h)"
    by (auto simp: diff_edges_def image_iff)
  then have "finite (diff_edges h)" by (rule finite_subset) simp
  then have "wf ((diff_edges h)\<inverse>)" using assms by (simp add: finite_acyclic_wf_converse)
  then show ?thesis
  proof (induction rt arbitrary: acc rule: wf_induct_rule)
    case (less rt)
    then show ?case
      by (cases "cache_get h rt") (auto simp: follow_history.simps [of h rt] diff_edges_def)
  qed
qed

section \<open>The delta leads to the actual orders\<close>

definition apply_delta :: "('k \<times> 'v option) list \<Rightarrow> ('k \<Rightarrow> 'v option) \<Rightarrow> 'k \<Rightarrow> 'v option" where
  "apply_delta d m = fold (\<lambda>(k, v) m. m(k := v)) d m"

text \<open>
  \<open>contents\<close> gives the orders of the trie with a root; every change in the history leads from the
  orders of its key to the orders of its next root.
\<close>

definition history_describes :: "(h64 \<Rightarrow> 'k \<Rightarrow> 'v option) \<Rightarrow> ('k, 'v) trie_diff_history \<Rightarrow> bool" where
  "history_describes contents h \<longleftrightarrow>
     (\<forall>a d. cache_get h a = Some d \<longrightarrow> contents (df_next_root d) = apply_delta (df_delta d) (contents a))"

lemma apply_delta_lookup:
  "apply_delta d m k = (case map_of (rev d) k of Some v \<Rightarrow> v | None \<Rightarrow> m k)"
  by (induction d rule: rev_induct) (auto simp: apply_delta_def)

lemma map_of_rev_distinct: "distinct (map fst d) \<Longrightarrow> map_of (rev d) = map_of d"
  by (rule map_of_inject_set [THEN iffD2]) (simp_all add: rev_map [symmetric])

lemma apply_delta_distinct:
  "distinct (map fst d) \<Longrightarrow> apply_delta d m k = (case map_of d k of Some v \<Rightarrow> v | None \<Rightarrow> m k)"
  by (simp add: apply_delta_lookup map_of_rev_distinct)

lemma extend_delta_distinct:
  "distinct (map fst m) \<Longrightarrow> distinct (map fst (extend_delta m d))"
  by (induction d arbitrary: m) (auto simp: extend_delta_def distinct_update)

lemma extend_delta_map_of: "map_of (extend_delta m d) = map_of m ++ map_of (rev d)"
  by (induction d arbitrary: m) (auto simp: extend_delta_def update_conv' fun_eq_iff map_add_def split: option.splits)

lemma apply_extend_delta:
  assumes "distinct (map fst m)"
  shows "apply_delta (extend_delta m d) s = apply_delta d (apply_delta m s)"
  by (rule ext)
    (simp add: apply_delta_distinct [OF extend_delta_distinct [OF assms]] extend_delta_map_of
      apply_delta_distinct [OF assms] apply_delta_lookup [of d] map_add_def split: option.split)

lemma follow_history_describes:
  "follow_history h rt acc = Some r \<Longrightarrow> history_describes contents h \<longrightarrow>
    distinct (map fst acc) \<longrightarrow> contents rt = apply_delta acc s \<longrightarrow>
    contents (fst r) = apply_delta (snd r) s"
proof (erule follow_history.raw_induct [rotated])
  fix follow h rt acc r
  assume step: "\<And>h rt acc r. follow h rt acc = Some r \<Longrightarrow> history_describes contents h \<longrightarrow>
      distinct (map fst acc) \<longrightarrow> contents rt = apply_delta acc s \<longrightarrow> contents (fst r) = apply_delta (snd r) s"
    and eq: "(case cache_get h rt of None \<Rightarrow> Some (rt, acc)
        | Some cur \<Rightarrow> follow h (df_next_root cur) (extend_delta acc (df_delta cur))) = Some r"
  show "history_describes contents h \<longrightarrow> distinct (map fst acc) \<longrightarrow> contents rt = apply_delta acc s \<longrightarrow>
      contents (fst r) = apply_delta (snd r) s"
  proof (cases "cache_get h rt")
    case None
    then show ?thesis using eq by auto
  next
    case (Some cur)
    have "contents (df_next_root cur) = apply_delta (extend_delta acc (df_delta cur)) s"
      if "history_describes contents h" "distinct (map fst acc)" "contents rt = apply_delta acc s"
      using that Some by (simp add: history_describes_def apply_extend_delta)
    then show ?thesis using step eq Some by (simp add: extend_delta_distinct)
  qed
qed

end
