(* ===== verification/Orderbook.thy ===== *)
theory Orderbook
  imports TrieHistory "HOL-Library.Product_Lexorder"
begin

text \<open>
  The orderbook of a node (\<open>Orderbook\<close> and the functions on it in \<open>mm2_main/src/lp_ordermatch.rs\<close>):
  the known orders with the indexes by pair and price, the state of each maker, with the roots and
  the history of the tries of his orders, and the messages that change them.

  The Patricia trie itself is \<open>sp_trie\<close>: \<open>trie_env\<close> has its operations on the memory database, whose
  contents are left opaque, and the serialisation of an order for the trie. A \<open>BTreeSet\<close> is its
  ascending list; a \<open>HashSet\<close> that is iterated is a list without duplicates. \<open>now\<close> is the time in
  seconds, \<open>inst\<close> the instant the time caches read.
\<close>

section \<open>Items\<close>

record orderbook_p2p_item =
  op_pubkey :: string
  op_base :: string
  op_rel :: string
  op_price :: rat
  op_max_volume :: rat
  op_min_volume :: rat
  op_uuid :: uuid
  op_created_at :: u64

record base_rel_protocol_info =
  bp_base :: bytes
  bp_rel :: bytes

definition base_rel_protocol_info_default :: base_rel_protocol_info where
  "base_rel_protocol_info_default = \<lparr>bp_base = [], bp_rel = []\<rparr>"

record orderbook_item =
  oi_pubkey :: string
  oi_base :: string
  oi_rel :: string
  oi_price :: rat
  oi_max_volume :: rat
  oi_min_volume :: rat
  oi_uuid :: uuid
  oi_created_at :: u64
  oi_base_protocol_info :: bytes
  oi_rel_protocol_info :: bytes
  oi_conf_settings :: "order_confirmations_settings option"

definition orderbook_item_of_created :: "proto_maker_order_created \<Rightarrow> string \<Rightarrow> orderbook_item" where
  "orderbook_item_of_created m pubkey =
     \<lparr>oi_pubkey = pubkey, oi_base = pc_base m, oi_rel = pc_rel m, oi_price = pc_price m,
      oi_max_volume = pc_max_volume m, oi_min_volume = pc_min_volume m, oi_uuid = pc_uuid m,
      oi_created_at = pc_created_at m, oi_base_protocol_info = pc_base_protocol_info m,
      oi_rel_protocol_info = pc_rel_protocol_info m, oi_conf_settings = Some (pc_conf_settings m)\<rparr>"

definition p2p_item_of :: "orderbook_item \<Rightarrow> orderbook_p2p_item" where
  "p2p_item_of i =
     \<lparr>op_pubkey = oi_pubkey i, op_base = oi_base i, op_rel = oi_rel i, op_price = oi_price i,
      op_max_volume = oi_max_volume i, op_min_volume = oi_min_volume i, op_uuid = oi_uuid i,
      op_created_at = oi_created_at i\<rparr>"

definition from_p2p_and_info ::
  "orderbook_p2p_item \<Rightarrow> base_rel_protocol_info \<Rightarrow> order_confirmations_settings option \<Rightarrow> orderbook_item" where
  "from_p2p_and_info i proto_info conf_info =
     \<lparr>oi_pubkey = op_pubkey i, oi_base = op_base i, oi_rel = op_rel i, oi_price = op_price i,
      oi_max_volume = op_max_volume i, oi_min_volume = op_min_volume i, oi_uuid = op_uuid i,
      oi_created_at = op_created_at i, oi_base_protocol_info = bp_base proto_info,
      oi_rel_protocol_info = bp_rel proto_info, oi_conf_settings = conf_info\<rparr>"

definition base_rel_proto_info :: "orderbook_item \<Rightarrow> base_rel_protocol_info" where
  "base_rel_proto_info i = \<lparr>bp_base = oi_base_protocol_info i, bp_rel = oi_rel_protocol_info i\<rparr>"

definition oi_apply_updated :: "maker_order_updated \<Rightarrow> orderbook_item \<Rightarrow> orderbook_item" where
  "oi_apply_updated msg i =
     i\<lparr>oi_price := (case new_price msg of Some p \<Rightarrow> p | None \<Rightarrow> oi_price i),
       oi_max_volume := (case new_max_volume msg of Some v \<Rightarrow> v | None \<Rightarrow> oi_max_volume i),
       oi_min_volume := (case new_min_volume msg of Some v \<Rightarrow> v | None \<Rightarrow> oi_min_volume i)\<rparr>"

section \<open>The orderbook\<close>

datatype orderbook_requesting_state = Requested | NotRequested u64

type_synonym trie_order_history = "(uuid, orderbook_item) trie_diff_history"

record orderbook_pubkey_state =
  ps_last_keep_alive :: u64
  ps_history :: "(string, trie_order_history) time_cache"
  ps_orders_uuids :: "(uuid \<times> string) list"
  ps_trie_roots :: "(string \<times> h64) list"

type_synonym memory_db = bytes

record orderbook =
  ob_ordered :: "string \<times> string \<Rightarrow> (rat \<times> uuid) list option"
  ob_pairs_existing_for_base :: "string \<Rightarrow> string set option"
  ob_pairs_existing_for_rel :: "string \<Rightarrow> string set option"
  ob_unordered :: "string \<times> string \<Rightarrow> uuid list option"
  ob_order_set :: "uuid \<Rightarrow> orderbook_item option"
  ob_pubkeys_state :: "(string \<times> orderbook_pubkey_state) list"
  ob_topics_subscribed_to :: "string \<Rightarrow> orderbook_requesting_state option"
  ob_memory_db :: memory_db
  ob_my_p2p_pubkeys :: "string set"

record trie_env =
  te_insert :: "memory_db \<Rightarrow> h64 \<Rightarrow> uuid \<Rightarrow> bytes \<Rightarrow> string + memory_db \<times> h64"
  te_delete :: "memory_db \<Rightarrow> h64 \<Rightarrow> uuid \<Rightarrow> string + memory_db \<times> h64"
  te_keys :: "memory_db \<Rightarrow> h64 \<Rightarrow> trie_diff_history_error + uuid list"
  te_hashed_null_node :: h64
  te_item_bytes :: "orderbook_p2p_item \<Rightarrow> bytes"

definition TRIE_STATE_HISTORY_TIMEOUT :: nat where "TRIE_STATE_HISTORY_TIMEOUT = 14400"

definition TRIE_ORDER_HISTORY_TIMEOUT :: nat where "TRIE_ORDER_HISTORY_TIMEOUT = 300"

definition with_history_timeout :: "u64 \<Rightarrow> nat \<Rightarrow> orderbook_pubkey_state" where
  "with_history_timeout now ttl =
     \<lparr>ps_last_keep_alive = now, ps_history = cache_new ttl, ps_orders_uuids = [], ps_trie_roots = []\<rparr>"

text \<open>\<open>pubkey_state_mut\<close> and \<open>order_pair_root_mut\<close> create what is missing.\<close>

definition pubkey_state_mut :: "u64 \<Rightarrow> string \<Rightarrow> orderbook \<Rightarrow> orderbook_pubkey_state" where
  "pubkey_state_mut now pubkey ob =
     (case map_of (ob_pubkeys_state ob) pubkey of
        Some s \<Rightarrow> s
      | None \<Rightarrow> with_history_timeout now TRIE_STATE_HISTORY_TIMEOUT)"

definition set_pubkey_state :: "string \<Rightarrow> orderbook_pubkey_state \<Rightarrow> orderbook \<Rightarrow> orderbook" where
  "set_pubkey_state pubkey s ob = ob\<lparr>ob_pubkeys_state := AList.update pubkey s (ob_pubkeys_state ob)\<rparr>"

definition order_pair_root_mut :: "string \<Rightarrow> orderbook_pubkey_state \<Rightarrow> h64" where
  "order_pair_root_mut pair s =
     (case map_of (ps_trie_roots s) pair of Some r \<Rightarrow> r | None \<Rightarrow> h64_default)"

definition set_pair_root :: "string \<Rightarrow> h64 \<Rightarrow> orderbook_pubkey_state \<Rightarrow> orderbook_pubkey_state" where
  "set_pair_root pair r s = s\<lparr>ps_trie_roots := AList.update pair r (ps_trie_roots s)\<rparr>"

text \<open>\<open>pair_history_mut\<close> and the insertion of a change through it.\<close>

definition push_history ::
  "nat \<Rightarrow> string \<Rightarrow> h64 \<Rightarrow> (uuid, orderbook_item) trie_diff \<Rightarrow> orderbook_pubkey_state \<Rightarrow>
   orderbook_pubkey_state" where
  "push_history inst pair insert_at diff s =
     s\<lparr>ps_history := cache_update inst pair (cache_new TRIE_ORDER_HISTORY_TIMEOUT)
          (insert_new_diff inst insert_at diff) (ps_history s)\<rparr>"

definition find_order_by_uuid_and_pubkey :: "orderbook \<Rightarrow> uuid \<Rightarrow> string \<Rightarrow> orderbook_item option" where
  "find_order_by_uuid_and_pubkey ob u from_pubkey =
     (case ob_order_set ob u of
        Some i \<Rightarrow> if oi_pubkey i = from_pubkey then Some i else None
      | None \<Rightarrow> None)"

definition find_order_by_uuid :: "orderbook \<Rightarrow> uuid \<Rightarrow> orderbook_item option" where
  "find_order_by_uuid ob u = ob_order_set ob u"

definition btree_insert :: "'a::linorder \<Rightarrow> 'a list \<Rightarrow> 'a list" where
  "btree_insert x xs = (if x \<in> set xs then xs else insort x xs)"

text \<open>Removal from the set of a key of a map; a set that has become empty is removed too.\<close>

definition remove_from :: "'k \<Rightarrow> 'a \<Rightarrow> ('k \<Rightarrow> 'a list option) \<Rightarrow> 'k \<Rightarrow> 'a list option" where
  "remove_from k x m =
     (case m k of
        Some xs \<Rightarrow> (let xs' = removeAll x xs in m(k := if xs' = [] then None else Some xs'))
      | None \<Rightarrow> m)"

definition remove_order_index :: "orderbook_item \<Rightarrow> uuid \<Rightarrow> orderbook \<Rightarrow> orderbook" where
  "remove_order_index i u ob =
     (let base_rel = (oi_base i, oi_rel i) in
      ob\<lparr>ob_order_set := (ob_order_set ob)(u := None),
         ob_ordered := remove_from base_rel (oi_price i, u) (ob_ordered ob),
         ob_unordered := remove_from base_rel u (ob_unordered ob)\<rparr>)"

definition remove_order_trie_update ::
  "trie_env \<Rightarrow> u64 \<Rightarrow> nat \<Rightarrow> uuid \<Rightarrow> orderbook \<Rightarrow> orderbook_item option \<times> orderbook" where
  "remove_order_trie_update te now inst u ob =
     (case ob_order_set ob u of
        None \<Rightarrow> (None, ob)
      | Some i \<Rightarrow>
          (let ob1 = remove_order_index i u ob;
               alb_ordered = alb_ordered_pair (oi_base i) (oi_rel i);
               s = pubkey_state_mut now (oi_pubkey i) ob1;
               old_state = order_pair_root_mut alb_ordered s;
               s1 = set_pair_root alb_ordered old_state
                      (s\<lparr>ps_orders_uuids := removeAll (u, alb_ordered) (ps_orders_uuids s)\<rparr>)
           in case te_delete te (ob_memory_db ob1) old_state (oi_uuid i) of
                Inl _ \<Rightarrow> (Some i, set_pubkey_state (oi_pubkey i) s1 ob1)
              | Inr (db, new_root) \<Rightarrow>
                  (let s2 = set_pair_root alb_ordered new_root s1;
                       s3 = (if cache_get (ps_history s2) alb_ordered \<noteq> None
                             then push_history inst alb_ordered old_state
                                    \<lparr>df_delta = [(u, None)], df_next_root = new_root\<rparr> s2
                             else s2)
                   in (Some i, set_pubkey_state (oi_pubkey i) s3 (ob1\<lparr>ob_memory_db := db\<rparr>)))))"

definition is_invalid_item :: "orderbook_item \<Rightarrow> bool" where
  "is_invalid_item i \<longleftrightarrow> oi_max_volume i \<le> 0 \<or> oi_price i \<le> 0 \<or> oi_min_volume i < 0"

text \<open>The set of a key of a map with one more element; a missing set is created.\<close>

definition insert_into :: "'k \<Rightarrow> 'a \<Rightarrow> ('k \<Rightarrow> 'a set option) \<Rightarrow> 'k \<Rightarrow> 'a set option" where
  "insert_into k x m = m(k \<mapsto> insert x (case m k of Some s \<Rightarrow> s | None \<Rightarrow> {}))"

definition insert_order_index :: "orderbook_item \<Rightarrow> orderbook \<Rightarrow> orderbook" where
  "insert_order_index i ob =
     (let base_rel = (oi_base i, oi_rel i);
          ordered = (case ob_ordered ob base_rel of Some xs \<Rightarrow> xs | None \<Rightarrow> []);
          ordered1 = (case find (\<lambda>(_, u). u = oi_uuid i) ordered of
              Some existing \<Rightarrow> removeAll existing ordered
            | None \<Rightarrow> ordered);
          unordered = (case ob_unordered ob base_rel of Some xs \<Rightarrow> xs | None \<Rightarrow> [])
      in ob\<lparr>ob_ordered := (ob_ordered ob)(base_rel \<mapsto> btree_insert (oi_price i, oi_uuid i) ordered1),
            ob_pairs_existing_for_base :=
              insert_into (oi_base i) (oi_rel i) (ob_pairs_existing_for_base ob),
            ob_pairs_existing_for_rel :=
              insert_into (oi_rel i) (oi_base i) (ob_pairs_existing_for_rel ob),
            ob_unordered := (ob_unordered ob)(base_rel \<mapsto> List.insert (oi_uuid i) unordered),
            ob_order_set := (ob_order_set ob)(oi_uuid i \<mapsto> i)\<rparr>)"

definition insert_or_update_order ::
  "trie_env \<Rightarrow> u64 \<Rightarrow> nat \<Rightarrow> orderbook_item \<Rightarrow> orderbook \<Rightarrow> orderbook" where
  "insert_or_update_order te now inst i ob =
     (if is_invalid_item i then snd (remove_order_trie_update te now inst (oi_uuid i) ob)
      else insert_order_index i ob)"

definition insert_or_update_order_update_trie ::
  "trie_env \<Rightarrow> u64 \<Rightarrow> nat \<Rightarrow> orderbook_item \<Rightarrow> orderbook \<Rightarrow> orderbook" where
  "insert_or_update_order_update_trie te now inst i ob =
     (if is_invalid_item i then snd (remove_order_trie_update te now inst (oi_uuid i) ob)
      else
        let ob1 = insert_or_update_order te now inst i ob;
            s = pubkey_state_mut now (oi_pubkey i) ob1;
            alb_ordered = alb_ordered_pair (oi_base i) (oi_rel i);
            prev_root = order_pair_root_mut alb_ordered s;
            s1 = set_pair_root alb_ordered prev_root
                   (s\<lparr>ps_orders_uuids := List.insert (oi_uuid i, alb_ordered) (ps_orders_uuids s)\<rparr>)
        in case te_insert te (ob_memory_db ob1) prev_root (oi_uuid i) (te_item_bytes te (p2p_item_of i)) of
             Inl _ \<Rightarrow> set_pubkey_state (oi_pubkey i) s1 ob1
           | Inr (db, new_root) \<Rightarrow>
               (let s2 = set_pair_root alb_ordered new_root s1;
                    s3 = (if prev_root \<noteq> h64_default
                          then push_history inst alb_ordered prev_root
                                 \<lparr>df_delta = [(oi_uuid i, Some i)], df_next_root = new_root\<rparr> s2
                          else s2)
                in set_pubkey_state (oi_pubkey i) s3 (ob1\<lparr>ob_memory_db := db\<rparr>)))"

section \<open>Messages that change the orderbook\<close>

definition delete_order :: "trie_env \<Rightarrow> u64 \<Rightarrow> nat \<Rightarrow> string \<Rightarrow> uuid \<Rightarrow> orderbook \<Rightarrow> orderbook" where
  "delete_order te now inst pubkey u ob =
     (case ob_order_set ob u of
        Some i \<Rightarrow> if oi_pubkey i = pubkey then snd (remove_order_trie_update te now inst u ob) else ob
      | None \<Rightarrow> ob)"

definition process_maker_order_updated ::
  "trie_env \<Rightarrow> u64 \<Rightarrow> nat \<Rightarrow> string \<Rightarrow> maker_order_updated \<Rightarrow> orderbook \<Rightarrow> uuid + orderbook" where
  "process_maker_order_updated te now inst from_pubkey msg ob =
     (case find_order_by_uuid_and_pubkey ob (updated_uuid msg) from_pubkey of
        None \<Rightarrow> Inl (updated_uuid msg)
      | Some i \<Rightarrow> Inr (insert_or_update_order_update_trie te now inst (oi_apply_updated msg i) ob))"

definition process_my_maker_order_updated ::
  "trie_env \<Rightarrow> u64 \<Rightarrow> nat \<Rightarrow> maker_order_updated \<Rightarrow> orderbook \<Rightarrow> orderbook" where
  "process_my_maker_order_updated te now inst msg ob =
     (case find_order_by_uuid ob (updated_uuid msg) of
        None \<Rightarrow> ob
      | Some i \<Rightarrow> insert_or_update_order_update_trie te now inst (oi_apply_updated msg i) ob)"

definition insert_or_update_my_order ::
  "trie_env \<Rightarrow> u64 \<Rightarrow> nat \<Rightarrow> orderbook_item \<Rightarrow> keypair option \<Rightarrow> orderbook \<Rightarrow> orderbook" where
  "insert_or_update_my_order te now inst i p2p_privkey ob =
     (let ob1 = insert_or_update_order_update_trie te now inst i ob in
      case p2p_privkey of
        Some key \<Rightarrow> ob1\<lparr>ob_my_p2p_pubkeys := insert (show_hex (kp_public key)) (ob_my_p2p_pubkeys ob1)\<rparr>
      | None \<Rightarrow> ob1)"

definition delete_my_order ::
  "trie_env \<Rightarrow> u64 \<Rightarrow> nat \<Rightarrow> uuid \<Rightarrow> keypair option \<Rightarrow> orderbook \<Rightarrow> orderbook" where
  "delete_my_order te now inst u p2p_privkey ob =
     (let ob1 = snd (remove_order_trie_update te now inst u ob) in
      case p2p_privkey of
        Some key \<Rightarrow> ob1\<lparr>ob_my_p2p_pubkeys := ob_my_p2p_pubkeys ob1 - {show_hex (kp_public key)}\<rparr>
      | None \<Rightarrow> ob1)"

definition remove_orders :: "trie_env \<Rightarrow> u64 \<Rightarrow> nat \<Rightarrow> uuid list \<Rightarrow> orderbook \<Rightarrow> orderbook" where
  "remove_orders te now inst us ob =
     fold (\<lambda>u ob. snd (remove_order_trie_update te now inst u ob)) us ob"

definition remove_pubkey_pair_orders ::
  "trie_env \<Rightarrow> u64 \<Rightarrow> nat \<Rightarrow> string \<Rightarrow> string \<Rightarrow> orderbook \<Rightarrow> orderbook" where
  "remove_pubkey_pair_orders te now inst pubkey alb_pair ob =
     (case map_of (ob_pubkeys_state ob) pubkey of
        None \<Rightarrow> ob
      | Some s \<Rightarrow>
          if map_of (ps_trie_roots s) alb_pair = None then ob
          else
            let orders_to_remove = map fst (filter (\<lambda>(_, alb). alb = alb_pair) (ps_orders_uuids s));
                s1 = s\<lparr>ps_history := snd (cache_remove inst alb_pair (ps_history s)),
                       ps_orders_uuids := filter (\<lambda>(_, alb). alb \<noteq> alb_pair) (ps_orders_uuids s)\<rparr>;
                ob1 = remove_orders te now inst orders_to_remove (set_pubkey_state pubkey s1 ob)
            in case map_of (ob_pubkeys_state ob1) pubkey of
                 None \<Rightarrow> ob1
               | Some s2 \<Rightarrow>
                   set_pubkey_state pubkey
                     (s2\<lparr>ps_trie_roots := AList.delete alb_pair (ps_trie_roots s2)\<rparr>) ob1)"

text \<open>The protocol infos and confirmation settings that come beside the orders of a response.\<close>

definition item_with_infos ::
  "(uuid \<Rightarrow> base_rel_protocol_info option) \<Rightarrow> (uuid \<Rightarrow> order_confirmations_settings option) \<Rightarrow>
   uuid \<times> orderbook_p2p_item \<Rightarrow> orderbook_item" where
  "item_with_infos protocol_infos conf_infos =
     (\<lambda>(u, i). from_p2p_and_info i
        (case protocol_infos u of Some p \<Rightarrow> p | None \<Rightarrow> base_rel_protocol_info_default) (conf_infos u))"

definition process_pubkey_full_trie ::
  "trie_env \<Rightarrow> u64 \<Rightarrow> nat \<Rightarrow> string \<Rightarrow> string \<Rightarrow> (uuid \<Rightarrow> base_rel_protocol_info option) \<Rightarrow>
   (uuid \<Rightarrow> order_confirmations_settings option) \<Rightarrow> (uuid \<times> orderbook_p2p_item) list \<Rightarrow>
   orderbook \<Rightarrow> orderbook \<times> h64" where
  "process_pubkey_full_trie te now inst pubkey alb_pair protocol_infos conf_infos new_trie_orders ob =
     (let ob1 = remove_pubkey_pair_orders te now inst pubkey alb_pair ob;
          ob2 = fold (\<lambda>entry ob. insert_or_update_order_update_trie te now inst
                   (item_with_infos protocol_infos conf_infos entry) ob) new_trie_orders ob1;
          s = pubkey_state_mut now pubkey ob2
      in (set_pubkey_state pubkey s ob2,
          case map_of (ps_trie_roots s) alb_pair of Some r \<Rightarrow> r | None \<Rightarrow> h64_default))"

definition process_trie_delta ::
  "trie_env \<Rightarrow> u64 \<Rightarrow> nat \<Rightarrow> string \<Rightarrow> string \<Rightarrow> (uuid \<Rightarrow> base_rel_protocol_info option) \<Rightarrow>
   (uuid \<Rightarrow> order_confirmations_settings option) \<Rightarrow> (uuid \<times> orderbook_p2p_item option) list \<Rightarrow>
   orderbook \<Rightarrow> orderbook \<times> h64" where
  "process_trie_delta te now inst pubkey alb_pair protocol_infos conf_infos delta_orders ob =
     (let ob1 = fold (\<lambda>(u, item) ob.
            case item of
              Some i \<Rightarrow> insert_or_update_order_update_trie te now inst
                          (item_with_infos protocol_infos conf_infos (u, i)) ob
            | None \<Rightarrow> snd (remove_order_trie_update te now inst u ob)) delta_orders ob
      in (ob1,
          case map_of (ob_pubkeys_state ob1) pubkey of
            Some s \<Rightarrow> (case map_of (ps_trie_roots s) alb_pair of Some r \<Rightarrow> r | None \<Rightarrow> h64_default)
          | None \<Rightarrow> h64_default))"

section \<open>Keep alive messages\<close>

fun keep_alive_roots ::
  "trie_env \<Rightarrow> (string \<Rightarrow> bool) \<Rightarrow> (string \<times> h64) list \<Rightarrow> orderbook_pubkey_state \<Rightarrow>
   (string \<times> h64) list \<times> orderbook_pubkey_state" where
  "keep_alive_roots te relevant [] s = ([], s)"
| "keep_alive_roots te relevant ((alb_pair, trie_root) # rest) s =
     (if \<not> relevant alb_pair \<or> trie_root = h64_default \<or> trie_root = te_hashed_null_node te
      then keep_alive_roots te relevant rest s
      else
        let actual = order_pair_root_mut alb_pair s;
            (to_request, s') = keep_alive_roots te relevant rest (set_pair_root alb_pair actual s)
        in (if actual \<noteq> trie_root then (alb_pair, trie_root) # to_request else to_request, s'))"

text \<open>The roots to request from the peer, if any: \<open>SyncPubkeyOrderbookState\<close>.\<close>

definition process_keep_alive ::
  "trie_env \<Rightarrow> u64 \<Rightarrow> string \<Rightarrow> pubkey_keep_alive \<Rightarrow> bool \<Rightarrow> orderbook \<Rightarrow>
   (string \<times> h64) list option \<times> orderbook" where
  "process_keep_alive te now from_pubkey msg i_am_relay ob =
     (let s = (pubkey_state_mut now from_pubkey ob)\<lparr>ps_last_keep_alive := now\<rparr>;
          relevant = (\<lambda>alb_pair.
            ob_topics_subscribed_to ob (orderbook_topic_from_ordered_pair alb_pair) \<noteq> None \<or> i_am_relay);
          (to_request, s') = keep_alive_roots te relevant (ka_trie_roots msg) s
      in (if to_request = [] then None else Some to_request, set_pubkey_state from_pubkey s' ob))"

text \<open>Makers without a sign of life for \<open>maker_order_timeout\<close> seconds are dropped with their orders.\<close>

definition is_silent :: "string \<Rightarrow> u64 \<Rightarrow> u64 \<Rightarrow> string \<times> orderbook_pubkey_state \<Rightarrow> bool" where
  "is_silent my_pubsecp maker_order_timeout now =
     (\<lambda>(pubkey, s). \<not> (pubkey = my_pubsecp \<or> now < ps_last_keep_alive s + maker_order_timeout))"

definition remove_silent_makers ::
  "trie_env \<Rightarrow> u64 \<Rightarrow> nat \<Rightarrow> string \<Rightarrow> u64 \<Rightarrow> orderbook \<Rightarrow> orderbook" where
  "remove_silent_makers te now inst my_pubsecp maker_order_timeout ob =
     (let silent = filter (is_silent my_pubsecp maker_order_timeout now) (ob_pubkeys_state ob);
          uuids = concat (map (\<lambda>(_, s). map fst (ps_orders_uuids s)) silent);
          ob1 = remove_orders te now inst uuids ob
      in ob1\<lparr>ob_pubkeys_state := fold (\<lambda>(pubkey, _). AList.delete pubkey) silent (ob_pubkeys_state ob1)\<rparr>)"

section \<open>Requests of peers\<close>

record get_pubkeys_orders_res =
  gp_total_number_of_orders :: nat
  gp_uuids_by_pubkey :: "(string \<times> (uuid \<times> orderbook_p2p_item) list) list"
  gp_protocol_infos :: "(uuid \<times> base_rel_protocol_info) list"
  gp_conf_infos :: "(uuid \<times> order_confirmations_settings) list"

definition add_pubkey_order ::
  "orderbook \<Rightarrow> uuid \<Rightarrow> get_pubkeys_orders_res \<Rightarrow> get_pubkeys_orders_res" where
  "add_pubkey_order ob u r =
     (case ob_order_set ob u of
        None \<Rightarrow> r
      | Some i \<Rightarrow>
          (let uuids = (case map_of (gp_uuids_by_pubkey r) (oi_pubkey i) of Some us \<Rightarrow> us | None \<Rightarrow> [])
           in r\<lparr>gp_protocol_infos := AList.update (oi_uuid i) (base_rel_proto_info i) (gp_protocol_infos r),
                gp_conf_infos := (case oi_conf_settings i of
                    Some info \<Rightarrow> AList.update (oi_uuid i) info (gp_conf_infos r)
                  | None \<Rightarrow> gp_conf_infos r),
                gp_uuids_by_pubkey := AList.update (oi_pubkey i) (uuids @ [(u, p2p_item_of i)])
                  (gp_uuids_by_pubkey r)\<rparr>))"

definition get_pubkeys_orders :: "orderbook \<Rightarrow> string \<Rightarrow> string \<Rightarrow> get_pubkeys_orders_res" where
  "get_pubkeys_orders ob base rel =
     (let asks = (case ob_unordered ob (base, rel) of Some us \<Rightarrow> us | None \<Rightarrow> []);
          bids = (case ob_unordered ob (rel, base) of Some us \<Rightarrow> us | None \<Rightarrow> [])
      in fold (add_pubkey_order ob) (asks @ bids)
           \<lparr>gp_total_number_of_orders = length asks + length bids, gp_uuids_by_pubkey = [],
            gp_protocol_infos = [], gp_conf_infos = []\<rparr>)"

definition MAX_ORDERS_NUMBER_IN_ORDERBOOK_RESPONSE :: nat where
  "MAX_ORDERS_NUMBER_IN_ORDERBOOK_RESPONSE = 1000"

record get_orderbook_pubkey_item =
  gi_last_keep_alive :: u64
  gi_last_signed_pubkey_payload :: bytes
  gi_orders :: "(uuid \<times> orderbook_p2p_item) list"

record get_orderbook_res =
  go_pubkey_orders :: "(string \<times> get_orderbook_pubkey_item) list"
  go_protocol_infos :: "(uuid \<times> base_rel_protocol_info) list"
  go_conf_infos :: "(uuid \<times> order_confirmations_settings) list"

fun collect_pubkey_items ::
  "orderbook \<Rightarrow> (string \<times> (uuid \<times> orderbook_p2p_item) list) list \<Rightarrow>
   string + (string \<times> get_orderbook_pubkey_item) list" where
  "collect_pubkey_items ob [] = Inr []"
| "collect_pubkey_items ob ((pubkey, orders) # rest) =
     (case map_of (ob_pubkeys_state ob) pubkey of
        None \<Rightarrow> Inl (''Orderbook::pubkeys_state is expected to contain the '' @ debug_str pubkey @ '' pubkey'')
      | Some s \<Rightarrow>
          (case collect_pubkey_items ob rest of
             Inl e \<Rightarrow> Inl e
           | Inr items \<Rightarrow>
               Inr ((pubkey, \<lparr>gi_last_keep_alive = ps_last_keep_alive s, gi_last_signed_pubkey_payload = [],
                      gi_orders = orders\<rparr>) # items)))"

definition process_get_orderbook_request ::
  "orderbook \<Rightarrow> string \<Rightarrow> string \<Rightarrow> string + get_orderbook_res" where
  "process_get_orderbook_request ob base rel =
     (let r = get_pubkeys_orders ob base rel in
      if MAX_ORDERS_NUMBER_IN_ORDERBOOK_RESPONSE < gp_total_number_of_orders r
      then Inl ''Orderbook too large''
      else case collect_pubkey_items ob (gp_uuids_by_pubkey r) of
             Inl e \<Rightarrow> Inl e
           | Inr items \<Rightarrow>
               Inr \<lparr>go_pubkey_orders = items, go_protocol_infos = gp_protocol_infos r,
                    go_conf_infos = gp_conf_infos r\<rparr>)"

datatype sync_error = NoPairTrieRoot string | DiffError trie_diff_history_error

record sync_pubkey_orderbook_state_res =
  sr_last_signed_pubkey_payload :: bytes
  sr_pair_orders_diff :: "(string \<times> (uuid, orderbook_p2p_item) delta_or_full_trie) list"
  sr_protocol_infos :: "(uuid \<times> base_rel_protocol_info) list"
  sr_conf_infos :: "(uuid \<times> order_confirmations_settings) list"

text \<open>The changes of one pair; the outer \<open>None\<close> is a walk through the history that never ends.\<close>

definition pair_orders_diff ::
  "trie_env \<Rightarrow> orderbook \<Rightarrow> orderbook_pubkey_state \<Rightarrow> string \<Rightarrow> h64 \<Rightarrow>
   (sync_error + (uuid, orderbook_item) delta_or_full_trie) option" where
  "pair_orders_diff te ob s pair from_root =
     (case map_of (ps_trie_roots s) pair of
        None \<Rightarrow> Some (Inl (NoPairTrieRoot pair))
      | Some actual \<Rightarrow>
          (let keys = te_keys te (ob_memory_db ob) actual in
           map_option (\<lambda>r. case r of Inl e \<Rightarrow> Inl (DiffError e) | Inr d \<Rightarrow> Inr d)
             (case cache_get (ps_history s) pair of
                Some history \<Rightarrow> from_history history from_root actual keys (ob_order_set ob)
              | None \<Rightarrow> Some (full_trie_result keys (ob_order_set ob)))))"

fun collect_diffs ::
  "trie_env \<Rightarrow> orderbook \<Rightarrow> orderbook_pubkey_state \<Rightarrow> (string \<times> h64) list \<Rightarrow>
   (sync_error + (string \<times> (uuid, orderbook_item) delta_or_full_trie) list) option" where
  "collect_diffs te ob s [] = Some (Inr [])"
| "collect_diffs te ob s ((pair, from_root) # rest) =
     Option.bind (pair_orders_diff te ob s pair from_root) (\<lambda>r. case r of
       Inl e \<Rightarrow> Some (Inl e)
     | Inr d \<Rightarrow>
         map_option (\<lambda>r. case r of Inl e \<Rightarrow> Inl e | Inr ds \<Rightarrow> Inr ((pair, d) # ds))
           (collect_diffs te ob s rest))"

text \<open>\<open>map_to\<close> with the closure that gathers the infos of the orders.\<close>

fun diff_entries :: "('k, 'v) delta_or_full_trie \<Rightarrow> ('k \<times> 'v option) list" where
  "diff_entries (Delta d) = d"
| "diff_entries (FullTrie t) = map (\<lambda>(k, v). (k, Some v)) t"

fun diff_to_p2p :: "(uuid, orderbook_item) delta_or_full_trie \<Rightarrow> (uuid, orderbook_p2p_item) delta_or_full_trie" where
  "diff_to_p2p (Delta d) = Delta (map (\<lambda>(k, v). (k, map_option p2p_item_of v)) d)"
| "diff_to_p2p (FullTrie t) = FullTrie (map (\<lambda>(k, v). (k, p2p_item_of v)) t)"

definition gather_infos ::
  "uuid \<times> orderbook_item option \<Rightarrow>
   (uuid \<times> base_rel_protocol_info) list \<times> (uuid \<times> order_confirmations_settings) list \<Rightarrow>
   (uuid \<times> base_rel_protocol_info) list \<times> (uuid \<times> order_confirmations_settings) list" where
  "gather_infos = (\<lambda>(u, item) (protocol_infos, conf_infos).
     case item of
       Some i \<Rightarrow>
         (AList.update (oi_uuid i) (base_rel_proto_info i) protocol_infos,
          case oi_conf_settings i of
            Some info \<Rightarrow> AList.update (oi_uuid i) info conf_infos | None \<Rightarrow> conf_infos)
     | None \<Rightarrow> (AList.delete u protocol_infos, AList.delete u conf_infos))"

definition process_sync_pubkey_orderbook_state ::
  "trie_env \<Rightarrow> orderbook \<Rightarrow> string \<Rightarrow> (string \<times> h64) list \<Rightarrow>
   (sync_error + sync_pubkey_orderbook_state_res option) option" where
  "process_sync_pubkey_orderbook_state te ob pubkey trie_roots =
     (case map_of (ob_pubkeys_state ob) pubkey of
        None \<Rightarrow> Some (Inr None)
      | Some s \<Rightarrow>
          map_option (\<lambda>r. case r of
              Inl e \<Rightarrow> Inl e
            | Inr changes \<Rightarrow>
                (let (protocol_infos, conf_infos) =
                   fold gather_infos (concat (map (diff_entries \<circ> snd) changes)) ([], [])
                 in Inr (Some \<lparr>sr_last_signed_pubkey_payload = [],
                      sr_pair_orders_diff = map (\<lambda>(pair, d). (pair, diff_to_p2p d)) changes,
                      sr_protocol_infos = protocol_infos, sr_conf_infos = conf_infos\<rparr>)))
            (collect_diffs te ob s trie_roots))"

end
