(* ===== verification/OrderMatching.thy ===== *)
theory OrderMatching
  imports OrderTypes
begin

text \<open>
  Orders and how they match (\<open>mm2_main/src/lp_ordermatch.rs\<close>): the builders of taker and maker orders
  with their checks, the match of a maker order with a request, the taker's check of a reservation,
  updates of an order, the change of a taker order into a maker order, and the choice of the
  confirmation settings. A division by zero panics; functions that divide return an \<open>option\<close>, and
  \<open>None\<close> is the panic.
\<close>

record om_coin = coin +
  c_min_trading_vol :: rat
  c_required_confirmations :: u64
  c_wallet_only :: bool
  c_coin_protocol_info :: "rat option \<Rightarrow> bytes"
  c_is_coin_protocol_supported :: "bytes option \<Rightarrow> rat option \<Rightarrow> u64 \<Rightarrow> bool \<Rightarrow> bool"

text \<open>What an operation draws from the outside: the clock, a new identifier and a new key pair.\<close>

record draws =
  dr_now_ms :: u64
  dr_uuid :: uuid
  dr_keypair :: keypair

section \<open>Taker orders\<close>

definition TAKER_ORDER_TIMEOUT :: u64 where "TAKER_ORDER_TIMEOUT = 30"

definition ORDER_MATCH_TIMEOUT :: u64 where "ORDER_MATCH_TIMEOUT = 30"

record taker_order_builder =
  tb_base_coin :: om_coin
  tb_rel_coin :: om_coin
  tb_base_orderbook_ticker :: "string option"
  tb_rel_orderbook_ticker :: "string option"
  tb_base_amount :: rat
  tb_rel_amount :: rat
  tb_sender_pubkey :: bytes
  tb_action :: taker_action
  tb_match_by :: match_by
  tb_order_type :: order_type
  tb_conf_settings :: "order_confirmations_settings option"
  tb_min_volume :: "rat option"
  tb_timeout :: u64
  tb_save_in_history :: bool

datatype taker_order_build_error =
    TB_BaseEqualRel
  | TB_BaseAmountTooLow rat rat
  | TB_RelAmountTooLow rat rat
  | TB_MinVolumeTooLow rat rat
  | TB_MaxBaseVolBelowMinBaseVol rat rat
  | TB_SenderPubkeyIsZero
  | TB_ConfsSettingsNotSet

definition taker_order_builder_new :: "om_coin \<Rightarrow> om_coin \<Rightarrow> taker_order_builder" where
  "taker_order_builder_new base_coin rel_coin =
     \<lparr>tb_base_coin = base_coin, tb_rel_coin = rel_coin, tb_base_orderbook_ticker = None,
      tb_rel_orderbook_ticker = None, tb_base_amount = 0, tb_rel_amount = 0,
      tb_sender_pubkey = hash_default 32, tb_action = Buy, tb_match_by = MatchAny,
      tb_order_type = GoodTillCancelled, tb_conf_settings = None, tb_min_volume = None,
      tb_timeout = TAKER_ORDER_TIMEOUT, tb_save_in_history = True\<rparr>"

definition taker_order_of_builder :: "draws \<Rightarrow> taker_order_builder \<Rightarrow> rat \<Rightarrow> taker_order" where
  "taker_order_of_builder d b min_volume =
     (let base_coin = tb_base_coin b; rel_coin = tb_rel_coin b;
          my_coin = (case tb_action b of Buy \<Rightarrow> rel_coin | Sell \<Rightarrow> base_coin);
          p2p_privkey = (if c_is_privacy my_coin then Some (dr_keypair d) else None);
          base_info = (case tb_action b of
              Buy \<Rightarrow> c_coin_protocol_info base_coin (Some (tb_base_amount b))
            | Sell \<Rightarrow> c_coin_protocol_info base_coin None);
          rel_info = (case tb_action b of
              Buy \<Rightarrow> c_coin_protocol_info rel_coin None
            | Sell \<Rightarrow> c_coin_protocol_info rel_coin (Some (tb_rel_amount b)))
      in \<lparr>to_created_at = dr_now_ms d,
          to_request =
            \<lparr>tr_base = c_ticker base_coin, tr_rel = c_ticker rel_coin,
             tr_base_amount = tb_base_amount b, tr_rel_amount = tb_rel_amount b,
             tr_action = tb_action b, tr_uuid = dr_uuid d, tr_sender_pubkey = tb_sender_pubkey b,
             tr_dest_pub_key = hash_default 32, tr_match_by = tb_match_by b,
             tr_conf_settings = tb_conf_settings b, tr_base_protocol_info = Some base_info,
             tr_rel_protocol_info = Some rel_info\<rparr>,
          to_matches = [], to_min_volume = min_volume, to_order_type = tb_order_type b,
          to_timeout = tb_timeout b, to_save_in_history = tb_save_in_history b,
          to_base_orderbook_ticker = tb_base_orderbook_ticker b,
          to_rel_orderbook_ticker = tb_rel_orderbook_ticker b,
          to_p2p_privkey = p2p_privkey\<rparr>)"

definition taker_order_build ::
  "draws \<Rightarrow> taker_order_builder \<Rightarrow> (taker_order_build_error + taker_order) option" where
  "taker_order_build d b =
     (let min_base_amount = c_min_trading_vol (tb_base_coin b);
          min_rel_amount = c_min_trading_vol (tb_rel_coin b);
          base_amount = tb_base_amount b; rel_amount = tb_rel_amount b in
      if c_ticker (tb_base_coin b) = c_ticker (tb_rel_coin b) then Some (Inl TB_BaseEqualRel)
      else if base_amount < min_base_amount
      then Some (Inl (TB_BaseAmountTooLow base_amount min_base_amount))
      else if rel_amount < min_rel_amount
      then Some (Inl (TB_RelAmountTooLow rel_amount min_rel_amount))
      else if tb_sender_pubkey b = hash_default 32 then Some (Inl TB_SenderPubkeyIsZero)
      else if tb_conf_settings b = None then Some (Inl TB_ConfsSettingsNotSet)
      else
        Option.bind (mm_div rel_amount base_amount) (\<lambda>price.
        Option.bind (mm_div min_rel_amount price) (\<lambda>base_min_by_rel.
          let threshold = max min_base_amount base_min_by_rel;
              min_volume = (case tb_min_volume b of Some v \<Rightarrow> v | None \<Rightarrow> threshold)
          in if min_volume < threshold
             then Some (Inl (TB_MinVolumeTooLow min_volume threshold))
             else if base_amount < min_volume
             then Some (Inl (TB_MaxBaseVolBelowMinBaseVol base_amount min_volume))
             else Some (Inr (taker_order_of_builder d b min_volume)))))"

definition to_is_cancellable :: "taker_order \<Rightarrow> bool" where
  "to_is_cancellable ord = (to_matches ord = [])"

definition taker_coin_ticker :: "taker_order \<Rightarrow> string" where
  "taker_coin_ticker ord =
     (case tr_action (to_request ord) of Buy \<Rightarrow> tr_rel (to_request ord) | Sell \<Rightarrow> tr_base (to_request ord))"

definition maker_coin_ticker :: "taker_order \<Rightarrow> string" where
  "maker_coin_ticker ord =
     (case tr_action (to_request ord) of Buy \<Rightarrow> tr_base (to_request ord) | Sell \<Rightarrow> tr_rel (to_request ord))"

definition taker_orderbook_ticker :: "taker_order \<Rightarrow> string" where
  "taker_orderbook_ticker ord =
     (case tr_action (to_request ord) of Buy \<Rightarrow> to_rel_ticker ord | Sell \<Rightarrow> to_base_ticker ord)"

definition maker_orderbook_ticker :: "taker_order \<Rightarrow> string" where
  "maker_orderbook_ticker ord =
     (case tr_action (to_request ord) of Buy \<Rightarrow> to_base_ticker ord | Sell \<Rightarrow> to_rel_ticker ord)"

definition to_orderbook_topic :: "taker_order \<Rightarrow> string" where
  "to_orderbook_topic ord = orderbook_topic_from_base_rel (to_base_ticker ord) (to_rel_ticker ord)"

section \<open>Requests\<close>

definition can_match_with_maker_pubkey :: "taker_request \<Rightarrow> bytes \<Rightarrow> bool" where
  "can_match_with_maker_pubkey r maker_pubkey =
     (case tr_match_by r of MatchPubkeys pubkeys \<Rightarrow> maker_pubkey \<in> pubkeys | _ \<Rightarrow> True)"

definition can_match_with_uuid :: "taker_request \<Rightarrow> uuid \<Rightarrow> bool" where
  "can_match_with_uuid r u =
     (case tr_match_by r of MatchOrders uuids \<Rightarrow> u \<in> uuids | _ \<Rightarrow> True)"

definition base_protocol_info_for_maker :: "taker_request \<Rightarrow> bytes option" where
  "base_protocol_info_for_maker r =
     (case tr_action r of Buy \<Rightarrow> tr_base_protocol_info r | Sell \<Rightarrow> tr_rel_protocol_info r)"

definition rel_protocol_info_for_maker :: "taker_request \<Rightarrow> bytes option" where
  "rel_protocol_info_for_maker r =
     (case tr_action r of Buy \<Rightarrow> tr_rel_protocol_info r | Sell \<Rightarrow> tr_base_protocol_info r)"

datatype match_reserved_result = MR_Matched | MR_NotMatched

definition match_reserved :: "taker_order \<Rightarrow> maker_reserved \<Rightarrow> match_reserved_result" where
  "match_reserved ord r =
     (let q = to_request ord;
          allowed = (case tr_match_by q of
              MatchAny \<Rightarrow> True
            | MatchOrders uuids \<Rightarrow> mr_maker_order_uuid r \<in> uuids
            | MatchPubkeys pubkeys \<Rightarrow> mr_sender_pubkey r \<in> pubkeys)
      in if \<not> allowed then MR_NotMatched
         else case tr_action q of
           Buy \<Rightarrow>
             (let match_ticker =
                (tr_base q = mr_base r \<or> to_base_orderbook_ticker ord = Some (mr_base r)) \<and>
                (tr_rel q = mr_rel r \<or> to_rel_orderbook_ticker ord = Some (mr_rel r))
              in if match_ticker \<and> tr_base_amount q = mr_base_amount r
                    \<and> mr_rel_amount r \<le> tr_rel_amount q
                 then MR_Matched else MR_NotMatched)
         | Sell \<Rightarrow>
             (let match_ticker =
                (tr_base q = mr_rel r \<or> to_base_orderbook_ticker ord = Some (mr_rel r)) \<and>
                (tr_rel q = mr_base r \<or> to_rel_orderbook_ticker ord = Some (mr_base r))
              in if match_ticker \<and> tr_base_amount q = mr_rel_amount r
                    \<and> tr_rel_amount q \<le> mr_base_amount r
                 then MR_Matched else MR_NotMatched))"

section \<open>Maker orders\<close>

record maker_order_builder =
  mb_max_base_vol :: rat
  mb_min_base_vol :: "rat option"
  mb_price :: rat
  mb_base_coin :: om_coin
  mb_rel_coin :: om_coin
  mb_base_orderbook_ticker :: "string option"
  mb_rel_orderbook_ticker :: "string option"
  mb_conf_settings :: "order_confirmations_settings option"
  mb_save_in_history :: bool

datatype maker_order_build_error =
    MB_BaseEqualRel
  | MB_MaxBaseVolTooLow rat rat
  | MB_MinBaseVolTooLow rat rat
  | MB_PriceTooLow rat rat
  | MB_RelVolTooLow rat rat
  | MB_ConfSettingsNotSet
  | MB_MaxBaseVolBelowMinBaseVol rat rat

definition maker_order_builder_new :: "om_coin \<Rightarrow> om_coin \<Rightarrow> maker_order_builder" where
  "maker_order_builder_new base_coin rel_coin =
     \<lparr>mb_max_base_vol = 0, mb_min_base_vol = None, mb_price = 0, mb_base_coin = base_coin,
      mb_rel_coin = rel_coin, mb_base_orderbook_ticker = None, mb_rel_orderbook_ticker = None,
      mb_conf_settings = None, mb_save_in_history = True\<rparr>"

definition validate_price :: "rat \<Rightarrow> maker_order_build_error + unit" where
  "validate_price price =
     (let min_price = 1 / 100000000 in
      if price < min_price then Inl (MB_PriceTooLow price min_price) else Inr ())"

definition validate_and_get_min_vol ::
  "rat \<Rightarrow> rat \<Rightarrow> rat option \<Rightarrow> rat \<Rightarrow> (maker_order_build_error + rat) option" where
  "validate_and_get_min_vol min_base_amount min_rel_amount min_base_vol price =
     Option.bind (mm_div min_rel_amount price) (\<lambda>base_min_by_rel.
       let threshold = max min_base_amount base_min_by_rel;
           actual = (case min_base_vol of Some v \<Rightarrow> v | None \<Rightarrow> threshold)
       in if actual < threshold then Some (Inl (MB_MinBaseVolTooLow actual threshold))
          else Some (Inr actual))"

definition validate_max_vol ::
  "rat \<Rightarrow> rat \<Rightarrow> rat \<Rightarrow> rat option \<Rightarrow> rat \<Rightarrow> maker_order_build_error + unit" where
  "validate_max_vol min_base_amount min_rel_amount max_base_vol min_base_vol price =
     (if (case min_base_vol of Some m \<Rightarrow> max_base_vol < m | None \<Rightarrow> False)
      then Inl (MB_MaxBaseVolBelowMinBaseVol (the min_base_vol) max_base_vol)
      else if max_base_vol < min_base_amount
      then Inl (MB_MaxBaseVolTooLow max_base_vol min_base_amount)
      else
        let rel_vol = max_base_vol * price in
        if rel_vol < min_rel_amount then Inl (MB_RelVolTooLow rel_vol min_rel_amount)
        else Inr ())"

definition maker_order_of_builder :: "draws \<Rightarrow> maker_order_builder \<Rightarrow> rat \<Rightarrow> maker_order" where
  "maker_order_of_builder d b min_base_vol =
     \<lparr>mo_max_base_vol = mb_max_base_vol b, mo_min_base_vol = min_base_vol, mo_price = mb_price b,
      mo_created_at = dr_now_ms d, mo_updated_at = Some (dr_now_ms d),
      mo_base = c_ticker (mb_base_coin b), mo_rel = c_ticker (mb_rel_coin b), mo_matches = [],
      mo_started_swaps = [], mo_uuid = dr_uuid d, mo_conf_settings = mb_conf_settings b,
      mo_save_in_history = mb_save_in_history b,
      mo_base_orderbook_ticker = mb_base_orderbook_ticker b,
      mo_rel_orderbook_ticker = mb_rel_orderbook_ticker b,
      mo_p2p_privkey = (if c_is_privacy (mb_base_coin b) then Some (dr_keypair d) else None)\<rparr>"

definition maker_order_build ::
  "draws \<Rightarrow> maker_order_builder \<Rightarrow> (maker_order_build_error + maker_order) option" where
  "maker_order_build d b =
     (if c_ticker (mb_base_coin b) = c_ticker (mb_rel_coin b) then Some (Inl MB_BaseEqualRel)
      else if mb_conf_settings b = None then Some (Inl MB_ConfSettingsNotSet)
      else
        let min_base_amount = c_min_trading_vol (mb_base_coin b);
            min_rel_amount = c_min_trading_vol (mb_rel_coin b) in
        case validate_price (mb_price b) of
          Inl e \<Rightarrow> Some (Inl e)
        | Inr _ \<Rightarrow>
            Option.bind
              (validate_and_get_min_vol min_base_amount min_rel_amount (mb_min_base_vol b) (mb_price b))
              (\<lambda>r. case r of
                 Inl e \<Rightarrow> Some (Inl e)
               | Inr actual_min_base_vol \<Rightarrow>
                   (case validate_max_vol min_base_amount min_rel_amount (mb_max_base_vol b)
                           (mb_min_base_vol b) (mb_price b) of
                      Inl e \<Rightarrow> Some (Inl e)
                    | Inr _ \<Rightarrow> Some (Inr (maker_order_of_builder d b actual_min_base_vol)))))"

definition reserved_amount :: "maker_order \<Rightarrow> rat" where
  "reserved_amount ord =
     fold (\<lambda>(_, m) reserved. reserved + mr_base_amount (mk_reserved m)) (mo_matches ord) 0"

definition available_amount :: "maker_order \<Rightarrow> rat" where
  "available_amount ord = mo_max_base_vol ord - reserved_amount ord"

definition is_ongoing :: "maker_match \<Rightarrow> bool" where
  "is_ongoing m = (mk_connected m = None \<and> mk_connect m = None)"

definition has_ongoing_matches :: "maker_order \<Rightarrow> bool" where
  "has_ongoing_matches ord = list_ex (\<lambda>(_, m). is_ongoing m) (mo_matches ord)"

definition mo_is_cancellable :: "maker_order \<Rightarrow> bool" where
  "mo_is_cancellable ord = (\<not> has_ongoing_matches ord)"

definition mo_base_ticker :: "maker_order \<Rightarrow> string" where
  "mo_base_ticker ord = (case mo_base_orderbook_ticker ord of Some s \<Rightarrow> s | None \<Rightarrow> mo_base ord)"

definition mo_rel_ticker :: "maker_order \<Rightarrow> string" where
  "mo_rel_ticker ord = (case mo_rel_orderbook_ticker ord of Some s \<Rightarrow> s | None \<Rightarrow> mo_rel ord)"

definition mo_orderbook_topic :: "maker_order \<Rightarrow> string" where
  "mo_orderbook_topic ord = orderbook_topic_from_base_rel (mo_base_ticker ord) (mo_rel_ticker ord)"

definition was_updated :: "maker_order \<Rightarrow> bool" where
  "was_updated ord = (mo_updated_at ord \<noteq> Some (mo_created_at ord))"

datatype order_match_result = OM_Matched rat rat | OM_NotMatched

definition match_with_request :: "maker_order \<Rightarrow> taker_request \<Rightarrow> order_match_result option" where
  "match_with_request ord taker =
     (let taker_base_amount = tr_base_amount taker; taker_rel_amount = tr_rel_amount taker in
      if taker_base_amount \<le> 0 \<or> taker_rel_amount \<le> 0 then Some OM_NotMatched
      else case tr_action taker of
        Buy \<Rightarrow>
          (let ticker_match =
             (mo_base ord = tr_base taker \<or> mo_base_orderbook_ticker ord = Some (tr_base taker)) \<and>
             (mo_rel ord = tr_rel taker \<or> mo_rel_orderbook_ticker ord = Some (tr_rel taker));
             taker_price = taker_rel_amount / taker_base_amount
           in if ticker_match \<and> taker_base_amount \<le> available_amount ord
                 \<and> mo_min_base_vol ord \<le> taker_base_amount \<and> mo_price ord \<le> taker_price
              then Some (OM_Matched taker_base_amount (taker_base_amount * mo_price ord))
              else Some OM_NotMatched)
      | Sell \<Rightarrow>
          (let ticker_match =
             (mo_base ord = tr_rel taker \<or> mo_base_orderbook_ticker ord = Some (tr_rel taker)) \<and>
             (mo_rel ord = tr_base taker \<or> mo_rel_orderbook_ticker ord = Some (tr_base taker));
             taker_price = taker_base_amount / taker_rel_amount
           in Option.bind (mm_div taker_base_amount (mo_price ord)) (\<lambda>matched_base_amount.
                if ticker_match \<and> matched_base_amount \<le> available_amount ord
                   \<and> mo_min_base_vol ord \<le> matched_base_amount \<and> mo_price ord \<le> taker_price
                then Some (OM_Matched matched_base_amount taker_base_amount)
                else Some OM_NotMatched)))"

definition mo_apply_updated :: "u64 \<Rightarrow> maker_order_updated \<Rightarrow> maker_order \<Rightarrow> maker_order" where
  "mo_apply_updated now msg ord =
     ord\<lparr>mo_price := (case new_price msg of Some p \<Rightarrow> p | None \<Rightarrow> mo_price ord),
         mo_max_base_vol := (case new_max_volume msg of Some v \<Rightarrow> v | None \<Rightarrow> mo_max_base_vol ord),
         mo_min_base_vol := (case new_min_volume msg of Some v \<Rightarrow> v | None \<Rightarrow> mo_min_base_vol ord),
         mo_conf_settings := (case new_conf_settings msg of Some s \<Rightarrow> Some s | None \<Rightarrow> mo_conf_settings ord),
         mo_updated_at := Some now\<rparr>"

definition maker_order_from_taker :: "u64 \<Rightarrow> taker_order \<Rightarrow> maker_order option" where
  "maker_order_from_taker now ord =
     (let q = to_request ord in
      case tr_action q of
        Sell \<Rightarrow>
          map_option (\<lambda>price.
            \<lparr>mo_max_base_vol = tr_base_amount q, mo_min_base_vol = to_min_volume ord,
             mo_price = price, mo_created_at = now, mo_updated_at = Some now, mo_base = tr_base q,
             mo_rel = tr_rel q, mo_matches = [], mo_started_swaps = [], mo_uuid = tr_uuid q,
             mo_conf_settings = tr_conf_settings q, mo_save_in_history = to_save_in_history ord,
             mo_base_orderbook_ticker = to_base_orderbook_ticker ord,
             mo_rel_orderbook_ticker = to_rel_orderbook_ticker ord,
             mo_p2p_privkey = to_p2p_privkey ord\<rparr>)
            (mm_div (tr_rel_amount q) (tr_base_amount q))
      | Buy \<Rightarrow>
          Option.bind (mm_div (tr_base_amount q) (tr_rel_amount q)) (\<lambda>price.
            map_option (\<lambda>min_base_vol.
              \<lparr>mo_max_base_vol = tr_rel_amount q, mo_min_base_vol = min_base_vol,
               mo_price = price, mo_created_at = now, mo_updated_at = Some now, mo_base = tr_rel q,
               mo_rel = tr_base q, mo_matches = [], mo_started_swaps = [], mo_uuid = tr_uuid q,
               mo_conf_settings = map_option reversed (tr_conf_settings q),
               mo_save_in_history = to_save_in_history ord,
               mo_base_orderbook_ticker = to_rel_orderbook_ticker ord,
               mo_rel_orderbook_ticker = to_base_orderbook_ticker ord,
               mo_p2p_privkey = to_p2p_privkey ord\<rparr>)
              (mm_div (to_min_volume ord) price)))"

section \<open>Confirmation settings of the swap\<close>

definition coins_conf_settings :: "om_coin \<Rightarrow> om_coin \<Rightarrow> order_confirmations_settings" where
  "coins_conf_settings base_coin rel_coin =
     \<lparr>oc_base_confs = c_required_confirmations base_coin, oc_base_nota = c_requires_notarization base_coin,
      oc_rel_confs = c_required_confirmations rel_coin, oc_rel_nota = c_requires_notarization rel_coin\<rparr>"

definition choose_maker_confs_and_notas ::
  "order_confirmations_settings option \<Rightarrow> taker_request \<Rightarrow> om_coin \<Rightarrow> om_coin \<Rightarrow>
   swap_confirmations_settings" where
  "choose_maker_confs_and_notas maker_confs taker_req maker_coin taker_coin =
     (let m = (case maker_confs of Some s \<Rightarrow> s | None \<Rightarrow> coins_conf_settings maker_coin taker_coin);
          (confs, nota) =
            (case tr_conf_settings taker_req of
               Some s \<Rightarrow>
                 (case tr_action taker_req of
                    Sell \<Rightarrow>
                      (if oc_rel_confs s < oc_base_confs m then oc_rel_confs s else oc_base_confs m,
                       if \<not> oc_rel_nota s then oc_rel_nota s else oc_base_nota m)
                  | Buy \<Rightarrow>
                      (if oc_base_confs s < oc_base_confs m then oc_base_confs s else oc_base_confs m,
                       if \<not> oc_base_nota s then oc_base_nota s else oc_base_nota m))
             | None \<Rightarrow> (oc_base_confs m, oc_base_nota m))
      in \<lparr>sc_maker_coin_confs = confs, sc_maker_coin_nota = nota,
          sc_taker_coin_confs = oc_rel_confs m, sc_taker_coin_nota = oc_rel_nota m\<rparr>)"

definition choose_taker_confs_and_notas ::
  "taker_request \<Rightarrow> order_confirmations_settings option \<Rightarrow> om_coin \<Rightarrow> om_coin \<Rightarrow>
   swap_confirmations_settings" where
  "choose_taker_confs_and_notas taker_req maker_conf_settings maker_coin taker_coin =
     (let (taker_confs, taker_nota, maker_confs, maker_nota) =
        (case tr_conf_settings taker_req of
           Some s \<Rightarrow>
             (case tr_action taker_req of
                Buy \<Rightarrow> (oc_rel_confs s, oc_rel_nota s, oc_base_confs s, oc_base_nota s)
              | Sell \<Rightarrow> (oc_base_confs s, oc_base_nota s, oc_rel_confs s, oc_rel_nota s))
         | None \<Rightarrow>
             (c_required_confirmations taker_coin, c_requires_notarization taker_coin,
              c_required_confirmations maker_coin, c_requires_notarization maker_coin));
        (taker_confs', taker_nota') =
          (case maker_conf_settings of
             Some m \<Rightarrow>
               (if oc_rel_confs m < taker_confs then oc_rel_confs m else taker_confs,
                if \<not> oc_rel_nota m then oc_rel_nota m else taker_nota)
           | None \<Rightarrow> (taker_confs, taker_nota))
      in \<lparr>sc_maker_coin_confs = maker_confs, sc_maker_coin_nota = maker_nota,
          sc_taker_coin_confs = taker_confs', sc_taker_coin_nota = taker_nota'\<rparr>)"

end
