(* ===== verification/MaxVolume.thy ===== *)
theory MaxVolume
  imports CheckBalance
begin

text \<open>
  The largest volume a node can trade: \<open>calc_max_maker_vol\<close> and \<open>get_max_maker_vol\<close> of
  \<open>mm2_main/src/lp_swap/maker_swap.rs\<close>.
\<close>

record coin_volume_info =
  cv_volume :: rat
  cv_balance :: rat
  cv_locked_by_swaps :: rat

fun not_sufficient_balance :: "check_balance_error \<Rightarrow> bool" where
  "not_sufficient_balance (NotSufficientBalance _ _ _ _) = True"
| "not_sufficient_balance (NotSufficientBaseCoinBalance _ _ _ _) = True"
| "not_sufficient_balance _ = False"

definition calc_max_maker_vol ::
  "mm_ctx \<Rightarrow> moment \<Rightarrow> coin \<Rightarrow> rat \<Rightarrow> fee_approx_stage \<Rightarrow> check_balance_error + coin_volume_info" where
  "calc_max_maker_vol ctx t c balance stage =
     (let ticker = c_ticker c;
          locked_by_swaps = get_locked_amount ctx t ticker;
          available = balance - locked_by_swaps
      in case c_get_sender_trade_fee c t (UpperBound (x_to_decimal ctx available)) stage of
           Inl e \<Rightarrow> Inl (from_trade_preimage_error e ticker)
         | Inr fee \<Rightarrow>
             (case (if tf_coin fee = ticker then Inr (available - tf_amount fee, tf_amount fee)
                    else case c_base_coin_balance c t of
                      Inl e \<Rightarrow> Inl (check_balance_error_of_balance_error e)
                    | Inr base_coin_balance \<Rightarrow>
                        (case check_base_coin_balance_for_swap ctx t base_coin_balance fee None of
                           Inl e \<Rightarrow> Inl e
                         | Inr _ \<Rightarrow> Inr (available, 0))) of
                Inl e \<Rightarrow> Inl e
              | Inr (volume, required_to_pay_fee) \<Rightarrow>
                  (let min_tx_amount = c_min_tx_amount c in
                   if volume < min_tx_amount
                   then Inl (NotSufficientBalance ticker (x_to_decimal ctx available)
                          (x_to_decimal ctx (min_tx_amount + required_to_pay_fee))
                          (Some (x_to_decimal ctx locked_by_swaps)))
                   else Inr \<lparr>cv_volume = volume, cv_balance = balance,
                          cv_locked_by_swaps = locked_by_swaps\<rparr>)))"

definition get_max_maker_vol :: "mm_ctx \<Rightarrow> moment \<Rightarrow> coin \<Rightarrow> check_balance_error + coin_volume_info" where
  "get_max_maker_vol ctx t c =
     (case c_my_spendable_balance c t of
        Inl e \<Rightarrow> Inl (check_balance_error_of_balance_error e)
      | Inr balance \<Rightarrow> calc_max_maker_vol ctx t c balance OrderIssue)"

text \<open>What the volume found leaves room for: the locked amounts and the fee of the payment.\<close>

lemma calc_max_maker_vol_InrD:
  assumes "calc_max_maker_vol ctx t c balance stage = Inr v"
  shows "\<exists>fee. c_get_sender_trade_fee c t
           (UpperBound (x_to_decimal ctx (balance - get_locked_amount ctx t (c_ticker c)))) stage = Inr fee \<and>
         cv_volume v + get_locked_amount ctx t (c_ticker c)
           + (if tf_coin fee = c_ticker c then tf_amount fee else 0) = balance \<and>
         c_min_tx_amount c \<le> cv_volume v"
proof -
  obtain fee where fee: "c_get_sender_trade_fee c t
      (UpperBound (x_to_decimal ctx (balance - get_locked_amount ctx t (c_ticker c)))) stage = Inr fee"
    using assms by (simp add: calc_max_maker_vol_def Let_def split: sum.splits)
  show ?thesis
  proof (cases "tf_coin fee = c_ticker c")
    case True
    then show ?thesis using assms fee by (simp add: calc_max_maker_vol_def Let_def split: if_splits) auto
  next
    case False
    then show ?thesis
      using assms fee by (simp add: calc_max_maker_vol_def Let_def split: sum.splits if_splits) (auto split: if_splits)
  qed
qed

end
