(* ===== verification/OrderNode.thy ===== *)
theory OrderNode
  imports Orderbook OrderMatching MaxVolume
begin

text \<open>
  A node that trades: its own orders, the handlers of the messages of the ordermatch protocol, the
  timers and the requests of the user (\<open>mm2_main/src/lp_ordermatch.rs\<close>), with the files of active and
  past orders (\<open>lp_ordermatch/my_orders_storage.rs\<close>).

  A handler takes the environment, the moment of the call and the state, and returns the new state with
  its effects; \<open>None\<close> is a panic. A handler runs without interruption, as the code does under the lock
  of the order or of the taker orders; where the code lets go of its locks the handler is split in two:
  \<open>process_maker_reserved\<close> sleeps three seconds between its halves, and \<open>update_maker_order\<close> looks at
  the order again before it changes it.
\<close>

section \<open>State, environment and effects\<close>

datatype order = OrderMaker maker_order | OrderTaker taker_order

record om_state =
  om_orders :: "(uuid \<times> maker_order) list"
  om_order_tickers :: "uuid \<Rightarrow> string option"
  om_count_by_tickers :: "string \<Rightarrow> nat option"
  om_balance_loops :: "string set"
  om_taker_orders :: "(uuid \<times> taker_order) list"
  om_pending :: "uuid \<Rightarrow> maker_reserved list option"
  om_orderbook :: orderbook
  om_orderbook_tickers :: "string \<Rightarrow> string option"
  om_active_maker :: "(uuid \<times> maker_order) list"
  om_active_taker :: "(uuid \<times> taker_order) list"
  om_history :: "(uuid \<times> order) list"

datatype sql_op =
    InsertMakerOrder maker_order
  | InsertTakerOrder taker_order
  | UpdateMakerOrder maker_order
  | UpdateOrderStatus uuid string
  | UpdateWasTaker uuid

datatype storage_op =
    SaveActiveMaker uuid | SaveActiveTaker uuid | DeleteActiveMaker uuid | DeleteActiveTaker uuid
  | LoadActiveMaker uuid | SaveHistory uuid | Sql sql_op

record om_env =
  oe_ctx :: mm_ctx
  oe_public_key :: "bytes option"
  oe_coin :: "moment \<Rightarrow> string \<Rightarrow> string + om_coin option"
  oe_uuid :: "moment \<Rightarrow> uuid"
  oe_keypair :: "moment \<Rightarrow> keypair"
  oe_secret :: "moment \<Rightarrow> string + bytes"
  oe_instant :: "moment \<Rightarrow> nat"
  oe_trie :: trie_env
  oe_storage_error :: "moment \<Rightarrow> storage_op \<Rightarrow> string option"

datatype om_effect =
    Broadcast "string list" ordermatch_message "keypair option"
  | SubscribeToTopic string
  | SqlHistory sql_op
  | InsertNewSwap string string uuid u64
  | RunMakerSwap maker_swap
  | RunTakerSwap taker_swap

type_synonym om_result = "(om_state \<times> om_effect list) option"

definition now_ms :: "om_env \<Rightarrow> moment \<Rightarrow> u64" where
  "now_ms e t = x_now_ms (oe_ctx e) t 0"

definition now_sec :: "om_env \<Rightarrow> moment \<Rightarrow> u64" where
  "now_sec e t = x_now_sec (oe_ctx e) t"

definition draws_at :: "om_env \<Rightarrow> moment \<Rightarrow> draws" where
  "draws_at e t = \<lparr>dr_now_ms = now_ms e t, dr_uuid = oe_uuid e t, dr_keypair = oe_keypair e t\<rparr>"

definition find_pair :: "om_env \<Rightarrow> moment \<Rightarrow> string \<Rightarrow> string \<Rightarrow> string + (om_coin \<times> om_coin) option" where
  "find_pair e t base rel =
     (case oe_coin e t base of
        Inl err \<Rightarrow> Inl err
      | Inr b \<Rightarrow>
          (case oe_coin e t rel of
             Inl err \<Rightarrow> Inl err
           | Inr r \<Rightarrow> Inr (case (b, r) of (Some b, Some r) \<Rightarrow> Some (b, r) | _ \<Rightarrow> None)))"

definition orderbook_ticker :: "om_state \<Rightarrow> string \<Rightarrow> string option" where
  "orderbook_ticker st ticker = om_orderbook_tickers st ticker"

definition on_book :: "(orderbook \<Rightarrow> orderbook) \<Rightarrow> om_state \<Rightarrow> om_state" where
  "on_book f st = st\<lparr>om_orderbook := f (om_orderbook st)\<rparr>"

section \<open>Storage of orders\<close>

definition storage_ok :: "om_env \<Rightarrow> moment \<Rightarrow> storage_op \<Rightarrow> bool" where
  "storage_ok e t op = (oe_storage_error e t op = None)"

definition save_new_active_maker_order :: "om_env \<Rightarrow> moment \<Rightarrow> maker_order \<Rightarrow> om_state \<Rightarrow> om_state" where
  "save_new_active_maker_order e t ord st =
     (if storage_ok e t (SaveActiveMaker (mo_uuid ord))
      then st\<lparr>om_active_maker := AList.update (mo_uuid ord) ord (om_active_maker st)\<rparr> else st)"

definition save_new_active_taker_order :: "om_env \<Rightarrow> moment \<Rightarrow> taker_order \<Rightarrow> om_state \<Rightarrow> om_state" where
  "save_new_active_taker_order e t ord st =
     (if storage_ok e t (SaveActiveTaker (tr_uuid (to_request ord)))
      then st\<lparr>om_active_taker := AList.update (tr_uuid (to_request ord)) ord (om_active_taker st)\<rparr> else st)"

definition delete_active_maker_order :: "om_env \<Rightarrow> moment \<Rightarrow> uuid \<Rightarrow> om_state \<Rightarrow> om_state" where
  "delete_active_maker_order e t u st =
     (if storage_ok e t (DeleteActiveMaker u)
      then st\<lparr>om_active_maker := AList.delete u (om_active_maker st)\<rparr> else st)"

definition delete_active_taker_order :: "om_env \<Rightarrow> moment \<Rightarrow> uuid \<Rightarrow> om_state \<Rightarrow> om_state" where
  "delete_active_taker_order e t u st =
     (if storage_ok e t (DeleteActiveTaker u)
      then st\<lparr>om_active_taker := AList.delete u (om_active_taker st)\<rparr> else st)"

definition load_active_maker_order :: "om_env \<Rightarrow> moment \<Rightarrow> uuid \<Rightarrow> om_state \<Rightarrow> maker_order option" where
  "load_active_maker_order e t u st =
     (if storage_ok e t (LoadActiveMaker u) then map_of (om_active_maker st) u else None)"

fun order_uuid :: "order \<Rightarrow> uuid" where
  "order_uuid (OrderMaker ord) = mo_uuid ord"
| "order_uuid (OrderTaker ord) = tr_uuid (to_request ord)"

definition save_order_in_history :: "om_env \<Rightarrow> moment \<Rightarrow> order \<Rightarrow> om_state \<Rightarrow> om_state" where
  "save_order_in_history e t ord st =
     (if storage_ok e t (SaveHistory (order_uuid ord))
      then st\<lparr>om_history := AList.update (order_uuid ord) ord (om_history st)\<rparr> else st)"

datatype maker_order_cancellation_reason = MC_Fulfilled | MC_InsufficientBalance | MC_Cancelled

datatype taker_order_cancellation_reason = TC_Fulfilled | TC_ToMaker | TC_TimedOut | TC_Cancelled

fun show_maker_reason :: "maker_order_cancellation_reason \<Rightarrow> string" where
  "show_maker_reason MC_Fulfilled = ''Fulfilled''"
| "show_maker_reason MC_InsufficientBalance = ''InsufficientBalance''"
| "show_maker_reason MC_Cancelled = ''Cancelled''"

fun show_taker_reason :: "taker_order_cancellation_reason \<Rightarrow> string" where
  "show_taker_reason TC_Fulfilled = ''Fulfilled''"
| "show_taker_reason TC_ToMaker = ''ToMaker''"
| "show_taker_reason TC_TimedOut = ''TimedOut''"
| "show_taker_reason TC_Cancelled = ''Cancelled''"

text \<open>
  \<open>save_my_new_maker_order\<close> and its two siblings: a failure to write the file of an active order is
  logged only, a failure of the SQL history is the error of the call.
\<close>

definition save_my_new_maker_order ::
  "om_env \<Rightarrow> moment \<Rightarrow> maker_order \<Rightarrow> om_state \<Rightarrow> string option \<times> om_state \<times> om_effect list" where
  "save_my_new_maker_order e t ord st =
     (let st1 = save_new_active_maker_order e t ord st; op = InsertMakerOrder ord in
      if mo_save_in_history ord then (oe_storage_error e t (Sql op), st1, [SqlHistory op])
      else (None, st1, []))"

definition save_my_new_taker_order ::
  "om_env \<Rightarrow> moment \<Rightarrow> taker_order \<Rightarrow> om_state \<Rightarrow> string option \<times> om_state \<times> om_effect list" where
  "save_my_new_taker_order e t ord st =
     (let st1 = save_new_active_taker_order e t ord st; op = InsertTakerOrder ord in
      if to_save_in_history ord then (oe_storage_error e t (Sql op), st1, [SqlHistory op])
      else (None, st1, []))"

definition save_maker_order_on_update ::
  "om_env \<Rightarrow> moment \<Rightarrow> maker_order \<Rightarrow> om_state \<Rightarrow> string option \<times> om_state \<times> om_effect list" where
  "save_maker_order_on_update e t ord st =
     (let op = UpdateMakerOrder ord in
      case oe_storage_error e t (SaveActiveMaker (mo_uuid ord)) of
        Some err \<Rightarrow> (Some err, st, [])
      | None \<Rightarrow>
          (let st1 = save_new_active_maker_order e t ord st in
           if mo_save_in_history ord then (oe_storage_error e t (Sql op), st1, [SqlHistory op])
           else (None, st1, [])))"

definition delete_my_taker_order ::
  "om_env \<Rightarrow> moment \<Rightarrow> taker_order \<Rightarrow> taker_order_cancellation_reason \<Rightarrow> om_state \<Rightarrow>
   om_state \<times> om_effect list" where
  "delete_my_taker_order e t ord reason st =
     (let u = tr_uuid (to_request ord);
          st1 = delete_active_taker_order e t u st;
          st2 = (if reason \<noteq> TC_ToMaker \<and> to_save_in_history ord
                 then save_order_in_history e t (OrderTaker ord) st1 else st1)
      in (st2,
          if to_save_in_history ord then [SqlHistory (UpdateOrderStatus u (show_taker_reason reason))] else []))"

definition delete_my_maker_order ::
  "om_env \<Rightarrow> moment \<Rightarrow> maker_order \<Rightarrow> maker_order_cancellation_reason \<Rightarrow> om_state \<Rightarrow>
   om_state \<times> om_effect list" where
  "delete_my_maker_order e t ord reason st =
     (let u = mo_uuid ord;
          order_to_save =
            (if was_updated ord
             then case load_active_maker_order e t u st of Some from_file \<Rightarrow> from_file | None \<Rightarrow> ord
             else ord);
          st1 = delete_active_maker_order e t u st
      in if mo_save_in_history ord
         then (save_order_in_history e t (OrderMaker order_to_save) st1,
               [SqlHistory (UpdateOrderStatus u (show_maker_reason reason))])
         else (st1, []))"

section \<open>The maker orders of the node\<close>

definition add_order :: "maker_order \<Rightarrow> om_state \<Rightarrow> om_state" where
  "add_order ord st =
     st\<lparr>om_balance_loops := insert (mo_base ord) (om_balance_loops st),
        om_order_tickers := (om_order_tickers st)(mo_uuid ord \<mapsto> mo_base ord),
        om_count_by_tickers := (om_count_by_tickers st)(mo_base ord \<mapsto>
          (case om_count_by_tickers st (mo_base ord) of Some n \<Rightarrow> n | None \<Rightarrow> 0) + 1),
        om_orders := AList.update (mo_uuid ord) ord (om_orders st)\<rparr>"

definition coin_has_active_maker_orders :: "om_state \<Rightarrow> string \<Rightarrow> bool" where
  "coin_has_active_maker_orders st ticker =
     (case om_count_by_tickers st ticker of Some n \<Rightarrow> 0 < n | None \<Rightarrow> False)"

definition remove_order :: "uuid \<Rightarrow> om_state \<Rightarrow> maker_order option \<times> om_state" where
  "remove_order u st =
     (case map_of (om_orders st) u of
        None \<Rightarrow> (None, st)
      | Some ord \<Rightarrow>
          (let st1 = st\<lparr>om_orders := AList.delete u (om_orders st)\<rparr> in
           case om_order_tickers st1 u of
             None \<Rightarrow> (None, st1)
           | Some ticker \<Rightarrow>
               (let st2 = st1\<lparr>om_order_tickers := (om_order_tickers st1)(u := None),
                    om_count_by_tickers :=
                      (case om_count_by_tickers st1 ticker of
                         Some n \<Rightarrow> if 0 < n then (om_count_by_tickers st1)(ticker \<mapsto> n - 1)
                                   else om_count_by_tickers st1
                       | None \<Rightarrow> om_count_by_tickers st1)\<rparr>
                in (Some ord,
                    if \<not> coin_has_active_maker_orders st2 ticker
                    then st2\<lparr>om_balance_loops := om_balance_loops st2 - {ticker}\<rparr> else st2))))"

definition set_order :: "uuid \<Rightarrow> maker_order \<Rightarrow> om_state \<Rightarrow> om_state" where
  "set_order u ord st = st\<lparr>om_orders := AList.update u ord (om_orders st)\<rparr>"

section \<open>Announcements of maker orders\<close>

text \<open>
  \<open>maker_order_created_p2p_notify\<close>: the message, signed with the key of the order or of the node, and
  the node's own entry in the orderbook. It panics without confirmation settings or without a key.
\<close>

definition signing_public_key :: "om_env \<Rightarrow> keypair option \<Rightarrow> bytes option" where
  "signing_public_key e key = (case key of Some k \<Rightarrow> Some (kp_public k) | None \<Rightarrow> oe_public_key e)"

definition maker_order_created_p2p_notify ::
  "om_env \<Rightarrow> moment \<Rightarrow> maker_order \<Rightarrow> bytes \<Rightarrow> bytes \<Rightarrow> om_state \<Rightarrow> om_result" where
  "maker_order_created_p2p_notify e t ord base_info rel_info st =
     (case (mo_conf_settings ord, signing_public_key e (mo_p2p_privkey ord)) of
        (Some s, Some pk) \<Rightarrow>
          (let m = \<lparr>pc_uuid = mo_uuid ord, pc_base = mo_base_ticker ord, pc_rel = mo_rel_ticker ord,
                pc_price = mo_price ord, pc_max_volume = available_amount ord,
                pc_min_volume = mo_min_base_vol ord, pc_created_at = now_sec e t,
                pc_conf_settings = s, pc_timestamp = now_sec e t, pc_pair_trie_root = h64_default,
                pc_base_protocol_info = base_info, pc_rel_protocol_info = rel_info\<rparr>
           in Some (on_book (insert_or_update_my_order (oe_trie e) (now_sec e t) (oe_instant e t)
                      (orderbook_item_of_created m (show_hex pk)) (mo_p2p_privkey ord)) st,
                    [Broadcast [mo_orderbook_topic ord] (MakerOrderCreatedMsg m) (mo_p2p_privkey ord)]))
      | _ \<Rightarrow> None)"

definition maker_order_updated_p2p_notify ::
  "om_env \<Rightarrow> moment \<Rightarrow> string \<Rightarrow> maker_order_updated \<Rightarrow> keypair option \<Rightarrow> om_state \<Rightarrow>
   om_state \<times> om_effect list" where
  "maker_order_updated_p2p_notify e t topic msg key st =
     (on_book (process_my_maker_order_updated (oe_trie e) (now_sec e t) (oe_instant e t) msg) st,
      [Broadcast [topic] (MakerOrderUpdatedMsg msg) key])"

definition maker_order_cancelled_p2p_notify ::
  "om_env \<Rightarrow> moment \<Rightarrow> maker_order \<Rightarrow> om_state \<Rightarrow> om_state \<times> om_effect list" where
  "maker_order_cancelled_p2p_notify e t ord st =
     (on_book (delete_my_order (oe_trie e) (now_sec e t) (oe_instant e t) (mo_uuid ord) (mo_p2p_privkey ord)) st,
      [Broadcast [mo_orderbook_topic ord]
         (MakerOrderCancelledMsg \<lparr>ca_uuid = mo_uuid ord, ca_timestamp = now_sec e t,
            ca_pair_trie_root = h64_default\<rparr>) (mo_p2p_privkey ord)])"

text \<open>Removal of an order with the notice to the peers and the clean-up of its files.\<close>

definition cancel_maker_order ::
  "om_env \<Rightarrow> moment \<Rightarrow> uuid \<Rightarrow> maker_order \<Rightarrow> maker_order_cancellation_reason \<Rightarrow> om_state \<Rightarrow>
   bool \<times> om_state \<times> om_effect list" where
  "cancel_maker_order e t u ord reason st =
     (case remove_order u st of
        (None, st1) \<Rightarrow> (False, st1, [])
      | (Some _, st1) \<Rightarrow>
          (let (st2, fx1) = maker_order_cancelled_p2p_notify e t ord st1;
               (st3, fx2) = delete_my_maker_order e t ord reason st2
           in (True, st3, fx1 @ fx2)))"

end
