(* ===== verification/OrderHandlers.thy ===== *)
theory OrderHandlers
  imports OrderNode
begin

text \<open>
  The handlers of the ordermatch protocol (\<open>mm2_main/src/lp_ordermatch.rs\<close>). A taker's request makes a
  maker reserve a part of one of his orders; the taker connects to the cheapest reservation; the maker
  answers and starts his swap, and on his answer the taker starts hers.
\<close>

section \<open>Start of the swaps\<close>

definition lp_connect_start_bob ::
  "om_env \<Rightarrow> moment \<Rightarrow> maker_match \<Rightarrow> maker_order \<Rightarrow> om_effect list" where
  "lp_connect_start_bob e t m ord =
     (case (oe_coin e t (mo_rel ord), oe_coin e t (mo_base ord), oe_public_key e) of
        (Inr (Some taker_coin), Inr (Some maker_coin), Some my_persistent_pub) \<Rightarrow>
          (let u = tr_uuid (mk_request m);
               to_decimal = x_to_decimal (oe_ctx e);
               my_conf_settings =
                 choose_maker_confs_and_notas (mo_conf_settings ord) (mk_request m) maker_coin taker_coin;
               version = (case tr_conf_settings (mk_request m) of
                   Some _ \<Rightarrow> LT_V2 my_conf_settings
                     (choose_taker_confs_and_notas (mk_request m) (mr_conf_settings (mk_reserved m))
                        maker_coin taker_coin)
                 | None \<Rightarrow> LT_V1);
               lock_time = lp_atomic_locktime (mo_base_ticker ord) (mo_rel_ticker ord) version;
               new_swap = InsertNewSwap (c_ticker maker_coin) (c_ticker taker_coin) u (now_sec e t)
           in case oe_secret e t of
                Inl _ \<Rightarrow> [new_swap]
              | Inr secret \<Rightarrow>
                  [new_swap,
                   RunMakerSwap (maker_swap_new (tr_sender_pubkey (mk_request m))
                     (to_decimal (mr_base_amount (mk_reserved m)))
                     (to_decimal (mr_rel_amount (mk_reserved m))) my_persistent_pub u (Some (mo_uuid ord))
                     my_conf_settings (coin.truncate maker_coin) (coin.truncate taker_coin) lock_time
                     (map_option kp_private (mo_p2p_privkey ord)) secret)])
      | _ \<Rightarrow> [])"

definition lp_connected_alice ::
  "om_env \<Rightarrow> moment \<Rightarrow> taker_order \<Rightarrow> taker_match \<Rightarrow> om_effect list" where
  "lp_connected_alice e t ord m =
     (case (oe_coin e t (taker_coin_ticker ord), oe_coin e t (maker_coin_ticker ord), oe_public_key e) of
        (Inr (Some taker_coin), Inr (Some maker_coin), Some my_persistent_pub) \<Rightarrow>
          (let u = mr_taker_order_uuid (tk_reserved m);
               my_conf_settings =
                 choose_taker_confs_and_notas (to_request ord) (mr_conf_settings (tk_reserved m))
                   maker_coin taker_coin;
               version = (case mr_conf_settings (tk_reserved m) of
                   Some _ \<Rightarrow> LT_V2 my_conf_settings
                     (choose_maker_confs_and_notas (mr_conf_settings (tk_reserved m)) (to_request ord)
                        maker_coin taker_coin)
                 | None \<Rightarrow> LT_V1);
               lock_time = lp_atomic_locktime (maker_orderbook_ticker ord) (taker_orderbook_ticker ord) version
           in [InsertNewSwap (c_ticker taker_coin) (c_ticker maker_coin) u (now_sec e t),
               RunTakerSwap (taker_swap_new (mr_sender_pubkey (tk_reserved m))
                 (mr_base_amount (tk_reserved m)) (mr_rel_amount (tk_reserved m)) my_persistent_pub u
                 (Some u) my_conf_settings (coin.truncate maker_coin) (coin.truncate taker_coin) lock_time
                 (map_option kp_private (to_p2p_privkey ord)))])
      | _ \<Rightarrow> [])"

section \<open>The maker gets a request\<close>

definition our_public_id :: "om_env \<Rightarrow> bytes option" where
  "our_public_id e = map_option unprefixed (oe_public_key e)"

text \<open>The body of the loop for the first order that matches.\<close>

definition reserve_order ::
  "om_env \<Rightarrow> moment \<Rightarrow> bytes \<Rightarrow> taker_request \<Rightarrow> uuid \<Rightarrow> maker_order \<Rightarrow> rat \<Rightarrow> rat \<Rightarrow> om_state \<Rightarrow>
   om_state \<times> om_effect list" where
  "reserve_order e t public_id req u ord base_amount rel_amount st =
     (case find_pair e t (mo_base ord) (mo_rel ord) of
        Inr (Some (base_coin, rel_coin)) \<Rightarrow>
          (let my_conf_settings =
                 choose_maker_confs_and_notas (mo_conf_settings ord) req base_coin rel_coin;
               other_conf_settings =
                 choose_taker_confs_and_notas req (mo_conf_settings ord) base_coin rel_coin;
               lock_duration =
                 maker_lock_duration
                   (lp_atomic_locktime (mo_base_ticker ord) (mo_rel_ticker ord)
                      (LT_V2 my_conf_settings other_conf_settings))
                   (c_maker_locktime_multiplier rel_coin)
           in if map_of (mo_matches ord) (tr_uuid req) = None
                 \<and> c_is_coin_protocol_supported base_coin (base_protocol_info_for_maker req)
                     (Some base_amount) lock_duration True
                 \<and> c_is_coin_protocol_supported rel_coin (rel_protocol_info_for_maker req)
                     None lock_duration True
              then
                let conf = (case mo_conf_settings ord of
                      Some s \<Rightarrow> s | None \<Rightarrow> coins_conf_settings base_coin rel_coin);
                    reserved =
                      \<lparr>mr_base = mo_base_ticker ord, mr_rel = mo_rel_ticker ord,
                       mr_base_amount = base_amount, mr_rel_amount = rel_amount,
                       mr_taker_order_uuid = tr_uuid req, mr_maker_order_uuid = u,
                       mr_sender_pubkey = public_id, mr_dest_pub_key = tr_sender_pubkey req,
                       mr_conf_settings = Some conf,
                       mr_base_protocol_info = Some (c_coin_protocol_info base_coin None),
                       mr_rel_protocol_info = Some (c_coin_protocol_info rel_coin (Some rel_amount))\<rparr>;
                    m = \<lparr>mk_request = req, mk_reserved = reserved, mk_connect = None,
                         mk_connected = None, mk_last_updated = now_ms e t\<rparr>;
                    ord' = ord\<lparr>mo_matches := AList.update (tr_uuid req) m (mo_matches ord)\<rparr>
                in (save_new_active_maker_order e t ord' (set_order u ord' st),
                    [Broadcast [mo_orderbook_topic ord] (the (message_of_maker_reserved reserved))
                       (mo_p2p_privkey ord)])
              else (st, []))
      | _ \<Rightarrow> (st, []))"

fun request_orders ::
  "om_env \<Rightarrow> moment \<Rightarrow> bytes \<Rightarrow> taker_request \<Rightarrow> (uuid \<times> maker_order) list \<Rightarrow> om_state \<Rightarrow> om_result" where
  "request_orders e t public_id req [] st = Some (st, [])"
| "request_orders e t public_id req ((u, ord) # rest) st =
     (if can_match_with_uuid req u
      then case match_with_request ord req of
             None \<Rightarrow> None
           | Some OM_NotMatched \<Rightarrow> request_orders e t public_id req rest st
           | Some (OM_Matched base_amount rel_amount) \<Rightarrow>
               Some (reserve_order e t public_id req u ord base_amount rel_amount st)
      else request_orders e t public_id req rest st)"

definition process_taker_request ::
  "om_env \<Rightarrow> moment \<Rightarrow> bytes \<Rightarrow> taker_request \<Rightarrow> om_state \<Rightarrow> om_result" where
  "process_taker_request e t from_pubkey req st =
     (case our_public_id e of
        None \<Rightarrow> Some (st, [])
      | Some public_id \<Rightarrow>
          if public_id = from_pubkey \<or> \<not> can_match_with_maker_pubkey req public_id then Some (st, [])
          else request_orders e t public_id req (om_orders st) st)"

section \<open>The taker gets reservations\<close>

text \<open>
  The first half of \<open>process_maker_reserved\<close> puts the message on the list of its order; the result tells
  whether this call goes on to the second half, three seconds later. It panics without a key, which
  an existing taker order rules out.
\<close>

definition process_maker_reserved ::
  "om_env \<Rightarrow> bytes \<Rightarrow> maker_reserved \<Rightarrow> om_state \<Rightarrow> (om_state \<times> bool) option" where
  "process_maker_reserved e from_pubkey r st =
     (if map_of (om_taker_orders st) (mr_taker_order_uuid r) = None then Some (st, False)
      else case our_public_id e of
        None \<Rightarrow> None
      | Some public_id \<Rightarrow>
          if public_id = from_pubkey then Some (st, False)
          else
            let pending = (case om_pending st (mr_taker_order_uuid r) of Some rs \<Rightarrow> rs | None \<Rightarrow> []) @ [r]
            in Some (st\<lparr>om_pending := (om_pending st)(mr_taker_order_uuid r \<mapsto> pending)\<rparr>,
                     \<not> 1 < length pending))"

text \<open>
  \<open>sort_unstable_by_key\<close> with \<open>price()\<close> as the key: with two messages or more every key is computed, so
  that a zero amount panics. The list is one of the orders that the sort may leave equal keys in.
\<close>

definition sort_by_price :: "maker_reserved list \<Rightarrow> maker_reserved list option" where
  "sort_by_price rs =
     (if length rs < 2 then Some rs
      else if list_ex (\<lambda>r. mr_price r = None) rs then None
      else Some (sort_key (\<lambda>r. the (mr_price r)) rs))"

definition acceptable ::
  "taker_order \<Rightarrow> om_coin \<Rightarrow> om_coin \<Rightarrow> maker_reserved \<Rightarrow> bool" where
  "acceptable ord base_coin rel_coin r =
     (let my_conf_settings =
            choose_maker_confs_and_notas (mr_conf_settings r) (to_request ord) base_coin rel_coin;
          other_conf_settings =
            choose_taker_confs_and_notas (to_request ord) (mr_conf_settings r) base_coin rel_coin;
          lock_time = lp_atomic_locktime (maker_orderbook_ticker ord) (taker_orderbook_ticker ord)
            (LT_V2 my_conf_settings other_conf_settings)
      in match_reserved ord r = MR_Matched \<and> to_matches ord = [] \<and>
         c_is_coin_protocol_supported base_coin (mr_base_protocol_info r) None lock_time False \<and>
         c_is_coin_protocol_supported rel_coin (mr_rel_protocol_info r) (Some (mr_rel_amount r)) lock_time False)"

definition connect_to ::
  "om_env \<Rightarrow> moment \<Rightarrow> bytes \<Rightarrow> uuid \<Rightarrow> taker_order \<Rightarrow> maker_reserved \<Rightarrow> om_state \<Rightarrow>
   om_state \<times> om_effect list" where
  "connect_to e t public_id u ord r st =
     (let connect = \<lparr>tc_taker_order_uuid = mr_taker_order_uuid r,
            tc_maker_order_uuid = mr_maker_order_uuid r, tc_sender_pubkey = public_id,
            tc_dest_pub_key = mr_sender_pubkey r\<rparr>;
          m = \<lparr>tk_reserved = r, tk_connect = connect, tk_connected = None, tk_last_updated = now_ms e t\<rparr>;
          ord' = ord\<lparr>to_matches := AList.update (mr_maker_order_uuid r) m (to_matches ord)\<rparr>
      in (save_new_active_taker_order e t ord'
            (st\<lparr>om_taker_orders := AList.update u ord' (om_taker_orders st)\<rparr>),
          [Broadcast [to_orderbook_topic ord] (message_of_taker_connect connect) (to_p2p_privkey ord)]))"

definition process_pending_reserved :: "om_env \<Rightarrow> moment \<Rightarrow> uuid \<Rightarrow> om_state \<Rightarrow> om_result" where
  "process_pending_reserved e t u st =
     (case map_of (om_taker_orders st) u of
        None \<Rightarrow> Some (st, [])
      | Some ord \<Rightarrow>
          (case find_pair e t (maker_coin_ticker ord) (taker_coin_ticker ord) of
             Inr (Some (base_coin, rel_coin)) \<Rightarrow>
               (case om_pending st u of
                  None \<Rightarrow> Some (st, [])
                | Some rs \<Rightarrow>
                    (let st1 = st\<lparr>om_pending := (om_pending st)(u := None)\<rparr> in
                     case (sort_by_price rs, our_public_id e) of
                       (Some sorted_rs, Some public_id) \<Rightarrow>
                         (case find (acceptable ord base_coin rel_coin) sorted_rs of
                            Some r \<Rightarrow> Some (connect_to e t public_id u ord r st1)
                          | None \<Rightarrow> Some (st1, []))
                     | _ \<Rightarrow> None))
           | _ \<Rightarrow> Some (st, [])))"

section \<open>The maker is connected\<close>

definition process_taker_connect ::
  "om_env \<Rightarrow> moment \<Rightarrow> bytes \<Rightarrow> taker_connect \<Rightarrow> om_state \<Rightarrow> om_state \<times> om_effect list" where
  "process_taker_connect e t sender_pubkey msg st =
     (case our_public_id e of
        None \<Rightarrow> (st, [])
      | Some public_id \<Rightarrow>
          if public_id = sender_pubkey then (st, [])
          else case map_of (om_orders st) (tc_maker_order_uuid msg) of
            None \<Rightarrow> (st, [])
          | Some ord \<Rightarrow>
              (case map_of (mo_matches ord) (tc_taker_order_uuid msg) of
                 None \<Rightarrow> (st, [])
               | Some m \<Rightarrow>
                   if tr_sender_pubkey (mk_request m) \<noteq> sender_pubkey then (st, [])
                   else if mk_connected m = None \<and> mk_connect m = None
                   then
                     let connected = \<lparr>mc_taker_order_uuid = tc_taker_order_uuid msg,
                           mc_maker_order_uuid = tc_maker_order_uuid msg, mc_method = ''connected'',
                           mc_sender_pubkey = public_id, mc_dest_pub_key = tc_sender_pubkey msg\<rparr>;
                         m' = m\<lparr>mk_connect := Some msg, mk_connected := Some connected\<rparr>;
                         ord' = ord\<lparr>mo_matches := AList.update (tc_taker_order_uuid msg) m' (mo_matches ord),
                           mo_started_swaps := mo_started_swaps ord @ [tr_uuid (mk_request m')]\<rparr>;
                         fx1 = lp_connect_start_bob e t m' ord';
                         topic = mo_orderbook_topic ord';
                         st1 = set_order (tc_maker_order_uuid msg) ord' st;
                         (st2, fx3) =
                           (if mo_min_base_vol ord' \<le> available_amount ord'
                            then maker_order_updated_p2p_notify e t topic
                                   (with_new_max_volume (available_amount ord')
                                      (maker_order_updated_new (mo_uuid ord') (now_sec e t)))
                                   (mo_p2p_privkey ord') st1
                            else (st1, []))
                     in (save_new_active_maker_order e t ord' st2,
                         fx1 @ [Broadcast [topic] (message_of_maker_connected connected) (mo_p2p_privkey ord')]
                             @ fx3)
                   else (st, [])))"

section \<open>The taker is connected\<close>

definition process_maker_connected ::
  "om_env \<Rightarrow> moment \<Rightarrow> bytes \<Rightarrow> maker_connected \<Rightarrow> om_state \<Rightarrow> om_state \<times> om_effect list" where
  "process_maker_connected e t from_pubkey c st =
     (case our_public_id e of
        None \<Rightarrow> (st, [])
      | Some public_id \<Rightarrow>
          if public_id = from_pubkey then (st, [])
          else case map_of (om_taker_orders st) (mc_taker_order_uuid c) of
            None \<Rightarrow> (st, [])
          | Some ord \<Rightarrow>
              (case map_of (to_matches ord) (mc_maker_order_uuid c) of
                 None \<Rightarrow> (st, [])
               | Some m \<Rightarrow>
                   if mr_sender_pubkey (tk_reserved m) \<noteq> from_pubkey then (st, [])
                   else
                     let fx = lp_connected_alice e t ord m;
                         st1 = st\<lparr>om_taker_orders := AList.delete (mc_taker_order_uuid c) (om_taker_orders st)\<rparr>;
                         (st2, fx2) = delete_my_taker_order e t ord TC_Fulfilled st1
                     in (st2, fx @ fx2)))"

section \<open>Timers\<close>

definition is_timed_out :: "u64 \<Rightarrow> taker_order \<Rightarrow> bool" where
  "is_timed_out now ord = (\<not> now \<le> to_created_at ord + to_timeout ord * 1000)"

definition time_out_taker_order ::
  "om_env \<Rightarrow> moment \<Rightarrow> uuid \<Rightarrow> taker_order \<Rightarrow> om_state \<Rightarrow> om_result" where
  "time_out_taker_order e t u ord st =
     (if to_matches ord \<noteq> [] \<or> to_order_type ord \<noteq> GoodTillCancelled
      then Some (delete_my_taker_order e t ord TC_TimedOut st)
      else
        let (st1, fx1) = delete_my_taker_order e t ord TC_ToMaker st in
        Option.bind (maker_order_from_taker (now_ms e t) ord) (\<lambda>maker_order.
          let st2 = save_new_active_maker_order e t maker_order (add_order maker_order st1);
              fx2 = (if mo_save_in_history maker_order then [SqlHistory (UpdateWasTaker u)] else [])
          in case find_pair e t (mo_base maker_order) (mo_rel maker_order) of
               Inr (Some (base, rel)) \<Rightarrow>
                 map_option (\<lambda>(st3, fx3). (st3, fx1 @ fx2 @ fx3))
                   (maker_order_created_p2p_notify e t maker_order (c_coin_protocol_info base None)
                      (c_coin_protocol_info rel (Some (mo_max_base_vol maker_order * mo_price maker_order))) st2)
             | _ \<Rightarrow> Some (st2, fx1 @ fx2)))"

fun time_out_taker_orders ::
  "om_env \<Rightarrow> moment \<Rightarrow> (uuid \<times> taker_order) list \<Rightarrow> om_state \<Rightarrow> om_result" where
  "time_out_taker_orders e t [] st = Some (st, [])"
| "time_out_taker_orders e t ((u, ord) # rest) st =
     (if \<not> is_timed_out (now_ms e t) ord then time_out_taker_orders e t rest st
      else case time_out_taker_order e t u ord st of
        None \<Rightarrow> None
      | Some (st1, fx1) \<Rightarrow>
          map_option (\<lambda>(st2, fx2). (st2, fx1 @ fx2)) (time_out_taker_orders e t rest st1))"

definition handle_timed_out_taker_orders :: "om_env \<Rightarrow> moment \<Rightarrow> om_state \<Rightarrow> om_result" where
  "handle_timed_out_taker_orders e t st =
     map_option
       (\<lambda>(st1, fx). (st1\<lparr>om_taker_orders :=
            filter (\<lambda>(_, ord). \<not> is_timed_out (now_ms e t) ord) (om_taker_orders st)\<rparr>, fx))
       (time_out_taker_orders e t (om_taker_orders st) st)"

definition keeps_match :: "u64 \<Rightarrow> maker_match \<Rightarrow> bool" where
  "keeps_match now m = (now < mk_last_updated m + ORDER_MATCH_TIMEOUT * 1000 \<or> mk_connected m \<noteq> None)"

definition drop_timed_out_matches :: "u64 \<Rightarrow> maker_order \<Rightarrow> maker_order" where
  "drop_timed_out_matches now ord =
     ord\<lparr>mo_matches := filter (\<lambda>(_, m). keeps_match now m) (mo_matches ord)\<rparr>"

definition handle_timed_out_maker_matches :: "om_env \<Rightarrow> moment \<Rightarrow> om_state \<Rightarrow> om_state" where
  "handle_timed_out_maker_matches e t st =
     fold (\<lambda>(u, ord) st.
         let ord' = drop_timed_out_matches (now_ms e t) ord in
         if length (mo_matches ord') \<noteq> length (mo_matches ord)
         then save_new_active_maker_order e t ord' (set_order u ord' st)
         else st)
       (om_orders st) st"

definition check_balance_for_maker_order ::
  "om_env \<Rightarrow> moment \<Rightarrow> uuid \<Rightarrow> maker_order \<Rightarrow> om_state \<Rightarrow> om_state \<times> om_effect list" where
  "check_balance_for_maker_order e t u ord st =
     (if mo_min_base_vol ord \<le> available_amount ord \<or> has_ongoing_matches ord then (st, [])
      else snd (cancel_maker_order e t u ord
             (if mo_matches ord = [] then MC_InsufficientBalance else MC_Fulfilled) st))"

text \<open>A loop over the orders of the node as they were at its start, with the effects of its turns.\<close>

fun for_orders ::
  "(uuid \<Rightarrow> maker_order \<Rightarrow> om_state \<Rightarrow> om_state \<times> om_effect list) \<Rightarrow> (uuid \<times> maker_order) list \<Rightarrow>
   om_state \<Rightarrow> om_state \<times> om_effect list" where
  "for_orders f [] st = (st, [])"
| "for_orders f ((u, ord) # rest) st =
     (let (st1, fx1) = f u ord st; (st2, fx2) = for_orders f rest st1 in (st2, fx1 @ fx2))"

definition check_balance_for_maker_orders :: "om_env \<Rightarrow> moment \<Rightarrow> om_state \<Rightarrow> om_state \<times> om_effect list" where
  "check_balance_for_maker_orders e t st =
     for_orders (check_balance_for_maker_order e t) (om_orders st) st"

section \<open>A new balance\<close>

definition balance_updated_order ::
  "om_env \<Rightarrow> moment \<Rightarrow> om_coin \<Rightarrow> rat \<Rightarrow> uuid \<Rightarrow> maker_order \<Rightarrow> om_state \<Rightarrow> om_state \<times> om_effect list" where
  "balance_updated_order e t c new_volume u ord st =
     (if mo_base ord \<noteq> c_ticker c then (st, [])
      else
        let (cancelled, st1, fx1) =
              (if new_volume < mo_min_base_vol ord
               then cancel_maker_order e t u ord MC_InsufficientBalance st else (False, st, []))
        in if cancelled then (st1, fx1)
           else if new_volume < available_amount ord
           then
             let ord' = ord\<lparr>mo_max_base_vol := reserved_amount ord + new_volume\<rparr>;
                 st2 = (if map_of (om_orders st1) u = None then st1 else set_order u ord' st1);
                 (st3, fx3) = maker_order_updated_p2p_notify e t (mo_orderbook_topic ord')
                    (with_new_max_volume (available_amount ord')
                       (maker_order_updated_new (mo_uuid ord') (now_sec e t)))
                    (mo_p2p_privkey ord') st2
             in (st3, fx1 @ fx3)
           else (st1, fx1))"

definition balance_updated ::
  "om_env \<Rightarrow> moment \<Rightarrow> om_coin \<Rightarrow> rat \<Rightarrow> om_state \<Rightarrow> om_state \<times> om_effect list" where
  "balance_updated e t c new_balance st =
     (if c_wallet_only c then (st, [])
      else
        case (case calc_max_maker_vol (oe_ctx e) t (coin.truncate c) new_balance OrderIssue of
                Inr info \<Rightarrow> Some (cv_volume info)
              | Inl err \<Rightarrow> if not_sufficient_balance err then Some 0 else None) of
          None \<Rightarrow> (st, [])
        | Some new_volume \<Rightarrow>
            for_orders (balance_updated_order e t c new_volume) (om_orders st) st)"

end
