(* ===== verification/OrderRequests.thy ===== *)
theory OrderRequests
  imports OrderHandlers
begin

text \<open>
  The requests of the user on orders (\<open>setprice\<close>, \<open>buy\<close>, \<open>sell\<close>, \<open>update_maker_order\<close> and the
  cancellations), the loop of the ordermatch component, the start of a node with saved orders, and the
  dispatch of the messages of peers (\<open>mm2_main/src/lp_ordermatch.rs\<close>). The result of a request is an
  error text or its answer; the texts of errors that other parts of the node produce are theirs.
\<close>

section \<open>Subscription\<close>

definition ORDERBOOK_REQUESTING_TIMEOUT :: u64 where "ORDERBOOK_REQUESTING_TIMEOUT = 30 * 2"

text \<open>\<open>subscribe_to_orderbook_topic\<close> with \<open>request_orderbook = false\<close>, as the order requests call it.\<close>

definition subscribe_to_orderbook_topic ::
  "om_env \<Rightarrow> moment \<Rightarrow> string \<Rightarrow> string \<Rightarrow> om_state \<Rightarrow> om_state \<times> om_effect list" where
  "subscribe_to_orderbook_topic e t base rel st =
     (let topic = orderbook_topic_from_base_rel base rel; ob = om_orderbook st in
      case ob_topics_subscribed_to ob topic of
        None \<Rightarrow>
          (st\<lparr>om_orderbook := ob\<lparr>ob_topics_subscribed_to :=
              (ob_topics_subscribed_to ob)(topic \<mapsto> NotRequested (now_sec e t))\<rparr>\<rparr>, [SubscribeToTopic topic])
      | Some _ \<Rightarrow> (st, []))"

section \<open>New maker orders\<close>

record set_price_req =
  sp_base :: string
  sp_rel :: string
  sp_price :: rat
  sp_max :: bool
  sp_volume :: rat
  sp_min_volume :: "rat option"
  sp_cancel_previous :: bool
  sp_base_confs :: "u64 option"
  sp_base_nota :: "bool option"
  sp_rel_confs :: "u64 option"
  sp_rel_nota :: "bool option"
  sp_save_in_history :: bool

definition conf_settings_or ::
  "u64 option \<Rightarrow> bool option \<Rightarrow> u64 option \<Rightarrow> bool option \<Rightarrow> order_confirmations_settings \<Rightarrow>
   order_confirmations_settings" where
  "conf_settings_or base_confs base_nota rel_confs rel_nota d =
     \<lparr>oc_base_confs = (case base_confs of Some v \<Rightarrow> v | None \<Rightarrow> oc_base_confs d),
      oc_base_nota = (case base_nota of Some v \<Rightarrow> v | None \<Rightarrow> oc_base_nota d),
      oc_rel_confs = (case rel_confs of Some v \<Rightarrow> v | None \<Rightarrow> oc_rel_confs d),
      oc_rel_nota = (case rel_nota of Some v \<Rightarrow> v | None \<Rightarrow> oc_rel_nota d)\<rparr>"

definition cancel_previous_order ::
  "om_env \<Rightarrow> moment \<Rightarrow> string \<Rightarrow> string \<Rightarrow> uuid \<Rightarrow> maker_order \<Rightarrow> om_state \<Rightarrow> om_state \<times> om_effect list" where
  "cancel_previous_order e t base rel u ord st =
     (if mo_base ord = base \<and> mo_rel ord = rel
      then snd (cancel_maker_order e t u ord MC_Cancelled st) else (st, []))"

definition cancel_previous_maker_orders ::
  "om_env \<Rightarrow> moment \<Rightarrow> string \<Rightarrow> string \<Rightarrow> om_state \<Rightarrow> om_state \<times> om_effect list" where
  "cancel_previous_maker_orders e t base rel st =
     for_orders (cancel_previous_order e t base rel) (om_orders st) st"

definition cancel_orders_on_error ::
  "om_env \<Rightarrow> moment \<Rightarrow> set_price_req \<Rightarrow> om_state \<Rightarrow> om_state \<times> om_effect list" where
  "cancel_orders_on_error e t req st =
     (if sp_cancel_previous req
      then cancel_previous_maker_orders e t (sp_base req) (sp_rel req) st else (st, []))"

definition check_other_coin_balance_for_order_issue ::
  "om_env \<Rightarrow> moment \<Rightarrow> om_coin \<Rightarrow> check_balance_error + unit" where
  "check_other_coin_balance_for_order_issue e t other_coin =
     (case c_get_receiver_trade_fee other_coin t OrderIssue of
        Inl err \<Rightarrow> Inl (from_trade_preimage_error err (c_ticker other_coin))
      | Inr fee \<Rightarrow> check_other_coin_balance_for_swap (oe_ctx e) t (coin.truncate other_coin) None fee)"

datatype order_error =
    CoinLookup string
  | OtherError string
  | BalanceCheck check_balance_error
  | MakerBuild maker_order_build_error
  | TakerBuild taker_order_build_error
  | Storage string
  | NoCryptoCtx
  | NewVolumeNotPositive rat
  | NewVolumeNotOverReserved rat rat

type_synonym 'a om_request = "((order_error + 'a) \<times> om_state \<times> om_effect list) option"

text \<open>
  The volume of a new order and the balance it was checked against; on an error of the balance check,
  but for the one of the other coin when \<open>max\<close> is set, the previous orders of the pair are cancelled.
\<close>

definition set_price_volume ::
  "om_env \<Rightarrow> moment \<Rightarrow> set_price_req \<Rightarrow> om_coin \<Rightarrow> om_coin \<Rightarrow> om_state \<Rightarrow>
   (order_error + rat) \<times> om_state \<times> om_effect list" where
  "set_price_volume e t req base_coin rel_coin st =
     (if sp_max req
      then case get_max_maker_vol (oe_ctx e) t (coin.truncate base_coin) of
             Inl err \<Rightarrow> (Inl (BalanceCheck err), cancel_orders_on_error e t req st)
           | Inr info \<Rightarrow>
               (case check_other_coin_balance_for_order_issue e t rel_coin of
                  Inl err \<Rightarrow> (Inl (BalanceCheck err), st, [])
                | Inr _ \<Rightarrow> (Inr (cv_volume info), st, []))
      else case check_balance_for_maker_swap (oe_ctx e) t (coin.truncate base_coin) (coin.truncate rel_coin)
                  (sp_volume req) None None OrderIssue of
             Inl err \<Rightarrow> (Inl (BalanceCheck err), cancel_orders_on_error e t req st)
           | Inr balance \<Rightarrow> (Inr (sp_volume req), st, []))"

definition set_price_builder ::
  "om_state \<Rightarrow> set_price_req \<Rightarrow> om_coin \<Rightarrow> om_coin \<Rightarrow> rat \<Rightarrow> maker_order_builder" where
  "set_price_builder st req base_coin rel_coin volume =
     (maker_order_builder_new base_coin rel_coin)
       \<lparr>mb_max_base_vol := volume, mb_min_base_vol := sp_min_volume req, mb_price := sp_price req,
        mb_conf_settings := Some (conf_settings_or (sp_base_confs req) (sp_base_nota req)
          (sp_rel_confs req) (sp_rel_nota req) (coins_conf_settings base_coin rel_coin)),
        mb_save_in_history := sp_save_in_history req,
        mb_base_orderbook_ticker := orderbook_ticker st (c_ticker base_coin),
        mb_rel_orderbook_ticker := orderbook_ticker st (c_ticker rel_coin)\<rparr>"

text \<open>What is done with an order that was built: subscription, files, announcement, bookkeeping.\<close>

definition place_maker_order ::
  "om_env \<Rightarrow> moment \<Rightarrow> om_coin \<Rightarrow> om_coin \<Rightarrow> maker_order \<Rightarrow> om_state \<Rightarrow> maker_order om_request" where
  "place_maker_order e t base_coin rel_coin ord st =
     (let (st1, fx1) = subscribe_to_orderbook_topic e t (mo_base_ticker ord) (mo_rel_ticker ord) st;
          (saved, st2, fx2) = save_my_new_maker_order e t ord st1
      in case saved of
           Some err \<Rightarrow> Some (Inl (Storage err), st2, fx1 @ fx2)
         | None \<Rightarrow>
             map_option (\<lambda>(st3, fx3). (Inr ord, add_order ord st3, fx1 @ fx2 @ fx3))
               (maker_order_created_p2p_notify e t ord (c_coin_protocol_info base_coin None)
                  (c_coin_protocol_info rel_coin (Some (mo_max_base_vol ord * mo_price ord))) st2))"

definition create_maker_order :: "om_env \<Rightarrow> moment \<Rightarrow> set_price_req \<Rightarrow> om_state \<Rightarrow> maker_order om_request" where
  "create_maker_order e t req st =
     (case oe_coin e t (sp_base req) of
        Inl err \<Rightarrow> Some (Inl (CoinLookup err), st, [])
      | Inr None \<Rightarrow> Some (Inl (OtherError (''Base coin '' @ sp_base req @ '' is not found'')), st, [])
      | Inr (Some base_coin) \<Rightarrow>
      (case oe_coin e t (sp_rel req) of
        Inl err \<Rightarrow> Some (Inl (CoinLookup err), st, [])
      | Inr None \<Rightarrow> Some (Inl (OtherError (''Rel coin '' @ sp_rel req @ '' is not found'')), st, [])
      | Inr (Some rel_coin) \<Rightarrow>
          if c_wallet_only base_coin
          then Some (Inl (OtherError (''Base coin '' @ sp_base req @ '' is wallet only'')), st, [])
          else if c_wallet_only rel_coin
          then Some (Inl (OtherError (''Rel coin '' @ sp_rel req @ '' is wallet only'')), st, [])
          else case set_price_volume e t req base_coin rel_coin st of
            (Inl err, st1, fx1) \<Rightarrow> Some (Inl err, st1, fx1)
          | (Inr volume, st1, fx1) \<Rightarrow>
              (let (st2, fx2) = cancel_orders_on_error e t req st1 in
               Option.bind (maker_order_build (draws_at e t)
                   (set_price_builder st2 req base_coin rel_coin volume)) (\<lambda>r. case r of
                 Inl err \<Rightarrow> Some (Inl (MakerBuild err), st2, fx1 @ fx2)
               | Inr ord \<Rightarrow>
                   map_option (\<lambda>(r, st3, fx3). (r, st3, fx1 @ fx2 @ fx3))
                     (place_maker_order e t base_coin rel_coin ord st2)))))"

section \<open>Updates of a maker order\<close>

record maker_order_update_req =
  ur_uuid :: uuid
  ur_new_price :: "rat option"
  ur_max :: "bool option"
  ur_volume_delta :: "rat option"
  ur_min_volume :: "rat option"
  ur_base_confs :: "u64 option"
  ur_base_nota :: "bool option"
  ur_rel_confs :: "u64 option"
  ur_rel_nota :: "bool option"

text \<open>The new volume, and whether it goes into the update message.\<close>

definition update_volume ::
  "om_env \<Rightarrow> moment \<Rightarrow> maker_order_update_req \<Rightarrow> om_coin \<Rightarrow> om_coin \<Rightarrow> maker_order \<Rightarrow>
   order_error + rat \<times> bool" where
  "update_volume e t req base_coin rel_coin ord =
     (if ur_max req = Some True
      then case get_max_maker_vol (oe_ctx e) t (coin.truncate base_coin) of
             Inl err \<Rightarrow> Inl (BalanceCheck err)
           | Inr info \<Rightarrow>
               (case check_other_coin_balance_for_order_issue e t rel_coin of
                  Inl err \<Rightarrow> Inl (BalanceCheck err)
                | Inr _ \<Rightarrow> Inr (cv_volume info + reserved_amount ord, True))
      else case ur_volume_delta req of
        Some delta \<Rightarrow>
          (let volume = mo_max_base_vol ord + delta in
           if volume \<le> 0 then Inl (NewVolumeNotPositive volume)
           else case check_balance_for_maker_swap (oe_ctx e) t (coin.truncate base_coin)
                       (coin.truncate rel_coin) volume None None OrderIssue of
                  Inl err \<Rightarrow> Inl (BalanceCheck err)
                | Inr _ \<Rightarrow> Inr (volume, True))
      | None \<Rightarrow> Inr (mo_max_base_vol ord, False))"

text \<open>
  The checks of \<open>update_maker_order\<close> on the order as it was found: the update message and the new
  volume. The inner \<open>None\<close> is the panic on an order without confirmation settings or on a zero price.
\<close>

definition update_maker_order_checks ::
  "om_env \<Rightarrow> moment \<Rightarrow> maker_order_update_req \<Rightarrow> maker_order \<Rightarrow>
   (order_error + maker_order_updated \<times> rat) option" where
  "update_maker_order_checks e t req ord =
     (if has_ongoing_matches ord
      then Some (Inl (OtherError ''Can't update an order that has ongoing matches''))
      else case find_pair e t (mo_base ord) (mo_rel ord) of
        Inr (Some (base_coin, rel_coin)) \<Rightarrow>
          Option.bind (mo_conf_settings ord) (\<lambda>original.
            let conf = conf_settings_or (ur_base_confs req) (ur_base_nota req) (ur_rel_confs req)
                  (ur_rel_nota req) original;
                msg0 = with_new_conf_settings conf (maker_order_updated_new (ur_uuid req) (now_sec e t));
                min_base_amount = c_min_trading_vol base_coin;
                min_rel_amount = c_min_trading_vol rel_coin
            in case (case ur_new_price req of
                       Some p \<Rightarrow> (case validate_price p of
                          Inl err \<Rightarrow> Inl (MakerBuild err) | Inr _ \<Rightarrow> Inr (with_new_price p msg0, p))
                     | None \<Rightarrow> Inr (msg0, mo_price ord)) of
                 Inl err \<Rightarrow> Some (Inl err)
               | Inr (msg1, price) \<Rightarrow>
                   Option.bind
                     (case ur_min_volume req of
                        Some v \<Rightarrow> validate_and_get_min_vol min_base_amount min_rel_amount (Some v) price
                      | None \<Rightarrow> Some (Inr 0))
                     (\<lambda>m. case m of
                        Inl err \<Rightarrow> Some (Inl (MakerBuild err))
                      | Inr actual_min_vol \<Rightarrow>
                          (let msg2 = (if ur_min_volume req = None then msg1
                                 else with_new_min_volume actual_min_vol msg1) in
                           case update_volume e t req base_coin rel_coin ord of
                             Inl err \<Rightarrow> Some (Inl err)
                           | Inr (new_volume, announce) \<Rightarrow>
                               (let msg3 = (if announce then with_new_max_volume new_volume msg2 else msg2) in
                                if new_volume \<le> reserved_amount ord
                                then Some (Inl (NewVolumeNotOverReserved new_volume (reserved_amount ord)))
                                else case validate_max_vol min_base_amount min_rel_amount
                                       (new_volume - reserved_amount ord) (ur_min_volume req) price of
                                  Inl err \<Rightarrow> Some (Inl (MakerBuild err))
                                | Inr _ \<Rightarrow> Some (Inr (msg3, new_volume))))))
      | _ \<Rightarrow> Some (Inl (OtherError (''Base coin '' @ mo_base ord @ '' and/or rel coin '' @ mo_rel ord
          @ '' are not activated''))))"

text \<open>The change itself, if the order is still the one that was checked.\<close>

definition update_maker_order_commit ::
  "om_env \<Rightarrow> moment \<Rightarrow> uuid \<Rightarrow> maker_order \<Rightarrow> maker_order_updated \<Rightarrow> rat \<Rightarrow> om_state \<Rightarrow>
   (order_error + maker_order) \<times> om_state \<times> om_effect list" where
  "update_maker_order_commit e t u before msg new_volume st =
     (case map_of (om_orders st) u of
        None \<Rightarrow> (Inl (OtherError (''Order with UUID: '' @ x_show_uuid (oe_ctx e) u @ '' has been deleted'')), st, [])
      | Some ord \<Rightarrow>
          if ord \<noteq> before
          then (Inl (OtherError (''Order state has changed after price/volume/balance checks. ''
            @ ''Please try to update the order again if it's still needed.'')), st, [])
          else
            let ord' = mo_apply_updated (now_ms e t) msg ord;
                (saved, st1, fx1) = save_maker_order_on_update e t ord' (set_order u ord' st)
            in case saved of
                 Some err \<Rightarrow> (Inl (Storage err), set_order u before st1, fx1)
               | None \<Rightarrow>
                   (let (st2, fx2) = maker_order_updated_p2p_notify e t (mo_orderbook_topic ord')
                          (with_new_max_volume (new_volume - reserved_amount before) msg)
                          (mo_p2p_privkey ord') st1
                    in (Inr ord', st2, fx1 @ fx2)))"

text \<open>
  The whole of \<open>update_maker_order\<close>: the checks run on the order as it is in \<open>st\<close>; while they wait for
  balances no lock is held, so that the change is applied to a state \<open>st'\<close> that others may have changed.
\<close>

definition update_maker_order ::
  "om_env \<Rightarrow> moment \<Rightarrow> moment \<Rightarrow> maker_order_update_req \<Rightarrow> om_state \<Rightarrow> om_state \<Rightarrow> maker_order om_request" where
  "update_maker_order e t t' req st st' =
     (case map_of (om_orders st) (ur_uuid req) of
        None \<Rightarrow> Some (Inl (OtherError (''There is no order with UUID '' @ x_show_uuid (oe_ctx e) (ur_uuid req))), st', [])
      | Some ord \<Rightarrow>
          map_option (\<lambda>r. case r of
              Inl err \<Rightarrow> (Inl err, st', [])
            | Inr (msg, new_volume) \<Rightarrow> update_maker_order_commit e t' (ur_uuid req) ord msg new_volume st')
            (update_maker_order_checks e t req ord))"

section \<open>Cancellations\<close>

datatype cancel_order_error = OrderBeingMatched uuid | UUIDNotFound uuid

definition cancel_order ::
  "om_env \<Rightarrow> moment \<Rightarrow> uuid \<Rightarrow> om_state \<Rightarrow> (cancel_order_error + unit) \<times> om_state \<times> om_effect list" where
  "cancel_order e t u st =
     (case map_of (om_orders st) u of
        Some ord \<Rightarrow>
          if \<not> mo_is_cancellable ord then (Inl (OrderBeingMatched u), st, [])
          else (Inr (), snd (cancel_maker_order e t (mo_uuid ord) ord MC_Cancelled st))
      | None \<Rightarrow>
          (case map_of (om_taker_orders st) u of
             Some ord \<Rightarrow>
               if \<not> to_is_cancellable ord then (Inl (UUIDNotFound u), st, [])
               else (Inr (), delete_my_taker_order e t ord TC_Cancelled
                       (st\<lparr>om_taker_orders := AList.delete u (om_taker_orders st)\<rparr>))
           | None \<Rightarrow> (Inl (UUIDNotFound u), st, [])))"

datatype cancel_by = CancelAll | CancelPair string string | CancelCoin string

fun cancel_selects_maker :: "cancel_by \<Rightarrow> maker_order \<Rightarrow> bool" where
  "cancel_selects_maker CancelAll ord = True"
| "cancel_selects_maker (CancelPair base rel) ord = (mo_base ord = base \<and> mo_rel ord = rel)"
| "cancel_selects_maker (CancelCoin ticker) ord = (mo_base ord = ticker \<or> mo_rel ord = ticker)"

fun cancel_selects_taker :: "cancel_by \<Rightarrow> taker_order \<Rightarrow> bool" where
  "cancel_selects_taker CancelAll ord = True"
| "cancel_selects_taker (CancelPair base rel) ord =
     (tr_base (to_request ord) = base \<and> tr_rel (to_request ord) = rel)"
| "cancel_selects_taker (CancelCoin ticker) ord =
     (tr_base (to_request ord) = ticker \<or> tr_rel (to_request ord) = ticker)"

fun delete_taker_orders ::
  "om_env \<Rightarrow> moment \<Rightarrow> taker_order list \<Rightarrow> om_state \<Rightarrow> om_state \<times> om_effect list" where
  "delete_taker_orders e t [] st = (st, [])"
| "delete_taker_orders e t (ord # rest) st =
     (let (st1, fx1) = delete_my_taker_order e t ord TC_Cancelled st;
          (st2, fx2) = delete_taker_orders e t rest st1
      in (st2, fx1 @ fx2))"

definition cancelled_maker_order ::
  "om_env \<Rightarrow> moment \<Rightarrow> uuid \<Rightarrow> maker_order \<Rightarrow> om_state \<Rightarrow> om_state \<times> om_effect list" where
  "cancelled_maker_order e t u ord st =
     (let (st1, fx1) = maker_order_cancelled_p2p_notify e t ord st;
          (st2, fx2) = delete_my_maker_order e t ord MC_Cancelled st1
      in (st2, fx1 @ fx2))"

text \<open>The identifiers of the cancelled orders and of those that are being matched.\<close>

definition cancel_orders_by ::
  "om_env \<Rightarrow> moment \<Rightarrow> cancel_by \<Rightarrow> om_state \<Rightarrow> (uuid list \<times> uuid list) \<times> om_state \<times> om_effect list" where
  "cancel_orders_by e t by_what st =
     (let makers = filter (\<lambda>(_, ord). cancel_selects_maker by_what ord) (om_orders st);
          makers_off = filter (\<lambda>(_, ord). mo_is_cancellable ord) makers;
          makers_on = filter (\<lambda>(_, ord). \<not> mo_is_cancellable ord) makers;
          takers = filter (\<lambda>(_, ord). cancel_selects_taker by_what ord) (om_taker_orders st);
          takers_off = filter (\<lambda>(_, ord). to_is_cancellable ord) takers;
          takers_on = filter (\<lambda>(_, ord). \<not> to_is_cancellable ord) takers;
          st1 = fold (\<lambda>(u, _) st. snd (remove_order u st)) makers_off st;
          st2 = st1\<lparr>om_taker_orders :=
              filter (\<lambda>(_, ord). \<not> (cancel_selects_taker by_what ord \<and> to_is_cancellable ord))
                (om_taker_orders st1)\<rparr>;
          (st3, fx3) = for_orders (cancelled_maker_order e t) makers_off st2;
          (st4, fx4) = delete_taker_orders e t (map snd takers_off) st3
      in ((map fst makers_off @ map fst takers_off, map fst makers_on @ map fst takers_on),
          st4, fx3 @ fx4))"

section \<open>New taker orders\<close>

record sell_buy_request =
  sb_base :: string
  sb_rel :: string
  sb_price :: rat
  sb_volume :: rat
  sb_timeout :: "u64 option"
  sb_method :: string
  sb_match_by :: match_by
  sb_order_type :: order_type
  sb_base_confs :: "u64 option"
  sb_base_nota :: "bool option"
  sb_rel_confs :: "u64 option"
  sb_rel_nota :: "bool option"
  sb_min_volume :: "rat option"
  sb_save_in_history :: bool

definition auto_buy_builder ::
  "om_state \<Rightarrow> bytes \<Rightarrow> om_coin \<Rightarrow> om_coin \<Rightarrow> taker_action \<Rightarrow> sell_buy_request \<Rightarrow> taker_order_builder" where
  "auto_buy_builder st public_id base_coin rel_coin action input =
     (taker_order_builder_new base_coin rel_coin)
       \<lparr>tb_base_amount := sb_volume input, tb_rel_amount := sb_volume input * sb_price input,
        tb_action := action, tb_match_by := sb_match_by input, tb_min_volume := sb_min_volume input,
        tb_order_type := sb_order_type input,
        tb_conf_settings := Some (conf_settings_or (sb_base_confs input) (sb_base_nota input)
          (sb_rel_confs input) (sb_rel_nota input) (coins_conf_settings base_coin rel_coin)),
        tb_sender_pubkey := public_id, tb_save_in_history := sb_save_in_history input,
        tb_base_orderbook_ticker := orderbook_ticker st (c_ticker base_coin),
        tb_rel_orderbook_ticker := orderbook_ticker st (c_ticker rel_coin),
        tb_timeout := (case sb_timeout input of Some s \<Rightarrow> s | None \<Rightarrow> TAKER_ORDER_TIMEOUT)\<rparr>"

definition place_taker_order ::
  "om_env \<Rightarrow> moment \<Rightarrow> taker_order \<Rightarrow> om_state \<Rightarrow> taker_order om_request" where
  "place_taker_order e t ord st =
     (let (st1, fx1) = subscribe_to_orderbook_topic e t (to_base_ticker ord) (to_rel_ticker ord) st in
      Option.bind (message_of_taker_order ord) (\<lambda>msg.
        let (saved, st2, fx2) = save_my_new_taker_order e t ord st1;
            fx = fx1 @ [Broadcast [to_orderbook_topic ord] msg (to_p2p_privkey ord)] @ fx2
        in case saved of
             Some err \<Rightarrow> Some (Inl (Storage err), st2, fx)
           | None \<Rightarrow>
               Some (Inr ord, st2\<lparr>om_taker_orders :=
                 AList.update (tr_uuid (to_request ord)) ord (om_taker_orders st2)\<rparr>, fx)))"

definition lp_auto_buy ::
  "om_env \<Rightarrow> moment \<Rightarrow> om_coin \<Rightarrow> om_coin \<Rightarrow> sell_buy_request \<Rightarrow> om_state \<Rightarrow> taker_order om_request" where
  "lp_auto_buy e t base_coin rel_coin input st =
     (if sb_price input < 1 / 100000000
      then Some (Inl (OtherError ''Price is too low, minimum is 0.00000001''), st, [])
      else
        case (if sb_method input = ''buy'' then Some Buy
              else if sb_method input = ''sell'' then Some Sell else None) of
          None \<Rightarrow>
            Some (Inl (OtherError ''Auto buy must be called only from buy/sell RPC methods''), st, [])
        | Some action \<Rightarrow>
            (case our_public_id e of
               None \<Rightarrow> Some (Inl NoCryptoCtx, st, [])
             | Some public_id \<Rightarrow>
                 Option.bind (taker_order_build (draws_at e t)
                     (auto_buy_builder st public_id base_coin rel_coin action input)) (\<lambda>r. case r of
                   Inl err \<Rightarrow> Some (Inl (TakerBuild err), st, [])
                 | Inr ord \<Rightarrow> place_taker_order e t ord st)))"

text \<open>\<open>buy\<close> and \<open>sell\<close> look up the coins in a different order and check the balance of the coin they spend.\<close>

definition find_trading_coin :: "om_env \<Rightarrow> moment \<Rightarrow> string \<Rightarrow> string \<Rightarrow> order_error + om_coin" where
  "find_trading_coin e t side ticker =
     (case oe_coin e t ticker of
        Inl err \<Rightarrow> Inl (CoinLookup err)
      | Inr None \<Rightarrow> Inl (OtherError (side @ '' coin is not found or inactive''))
      | Inr (Some c) \<Rightarrow> Inr c)"

definition taker_trade ::
  "om_env \<Rightarrow> moment \<Rightarrow> om_coin \<Rightarrow> om_coin \<Rightarrow> om_coin \<Rightarrow> om_coin \<Rightarrow> rat \<Rightarrow> sell_buy_request \<Rightarrow> om_state \<Rightarrow>
   taker_order om_request" where
  "taker_trade e t base_coin rel_coin my_coin other_coin my_amount input st =
     (if c_wallet_only base_coin
      then Some (Inl (OtherError (''Base coin '' @ sb_base input @ '' is wallet only'')), st, [])
      else if c_wallet_only rel_coin
      then Some (Inl (OtherError (''Rel coin '' @ sb_rel input @ '' is wallet only'')), st, [])
      else case check_balance_for_taker_swap (oe_ctx e) t (coin.truncate my_coin) (coin.truncate other_coin)
                  my_amount None None OrderIssue of
             Inl err \<Rightarrow> Some (Inl (BalanceCheck err), st, [])
           | Inr _ \<Rightarrow> lp_auto_buy e t base_coin rel_coin input st)"

definition buy :: "om_env \<Rightarrow> moment \<Rightarrow> sell_buy_request \<Rightarrow> om_state \<Rightarrow> taker_order om_request" where
  "buy e t input st =
     (if sb_base input = sb_rel input
      then Some (Inl (OtherError ''Base and rel must be different coins''), st, [])
      else case find_trading_coin e t ''Rel'' (sb_rel input) of
        Inl err \<Rightarrow> Some (Inl err, st, [])
      | Inr rel_coin \<Rightarrow>
          (case find_trading_coin e t ''Base'' (sb_base input) of
             Inl err \<Rightarrow> Some (Inl err, st, [])
           | Inr base_coin \<Rightarrow>
               taker_trade e t base_coin rel_coin rel_coin base_coin (sb_volume input * sb_price input) input st))"

definition sell :: "om_env \<Rightarrow> moment \<Rightarrow> sell_buy_request \<Rightarrow> om_state \<Rightarrow> taker_order om_request" where
  "sell e t input st =
     (if sb_base input = sb_rel input
      then Some (Inl (OtherError ''Base and rel must be different coins''), st, [])
      else case find_trading_coin e t ''Base'' (sb_base input) of
        Inl err \<Rightarrow> Some (Inl err, st, [])
      | Inr base_coin \<Rightarrow>
          (case find_trading_coin e t ''Rel'' (sb_rel input) of
             Inl err \<Rightarrow> Some (Inl err, st, [])
           | Inr rel_coin \<Rightarrow>
               taker_trade e t base_coin rel_coin base_coin rel_coin (sb_volume input) input st))"

section \<open>Messages of peers\<close>

datatype p2p_handler_error = PubkeyNotAllowed string | OrderNotFound uuid

datatype p2p_answer = Done | AskPeer "(string \<times> h64) list" | ContinueReserved uuid

text \<open>
  \<open>process_msg\<close> on a decoded message with the public key that signed it. A keep alive message may ask
  the peer for orders, and a reservation may go on to \<open>process_pending_reserved\<close> later: the answers
  say so. \<open>None\<close> is a panic.
\<close>

definition process_msg ::
  "om_env \<Rightarrow> moment \<Rightarrow> (bytes \<Rightarrow> bool) \<Rightarrow> bool \<Rightarrow> bytes \<Rightarrow> ordermatch_message \<Rightarrow> om_state \<Rightarrow>
   ((p2p_handler_error + p2p_answer) \<times> om_state \<times> om_effect list) option" where
  "process_msg e t is_banned i_am_relay pubkey message st =
     (let te = oe_trie e; now = now_sec e t; inst = oe_instant e t; from = unprefixed pubkey in
      if is_banned from then Some (Inl (PubkeyNotAllowed (show_hex pubkey)), st, [])
      else case message of
        MakerOrderCreatedMsg m \<Rightarrow>
          Some (Inr Done,
            on_book (insert_or_update_order_update_trie te now inst
              (orderbook_item_of_created m (show_hex pubkey))) st, [])
      | PubkeyKeepAliveMsg m \<Rightarrow>
          (let (to_request, ob) = process_keep_alive te now (show_hex pubkey) m i_am_relay (om_orderbook st)
           in Some (Inr (case to_request of Some rs \<Rightarrow> AskPeer rs | None \<Rightarrow> Done),
                st\<lparr>om_orderbook := ob\<rparr>, []))
      | TakerRequestMsg m \<Rightarrow>
          map_option (\<lambda>(st1, fx). (Inr Done, st1, fx))
            (process_taker_request e t from (taker_request_from_proto m from) st)
      | MakerReservedMsg m \<Rightarrow>
          (let r = maker_reserved_from_proto m from in
           map_option (\<lambda>(st1, go_on).
               (Inr (if go_on then ContinueReserved (mr_taker_order_uuid r) else Done), st1, []))
             (process_maker_reserved e from r st))
      | TakerConnectMsg m \<Rightarrow>
          Some (Inr Done, process_taker_connect e t from (taker_connect_from_proto m) st)
      | MakerConnectedMsg m \<Rightarrow>
          Some (Inr Done, process_maker_connected e t from (maker_connected_from_proto m) st)
      | MakerOrderCancelledMsg m \<Rightarrow>
          Some (Inr Done, on_book (delete_order te now inst (show_hex pubkey) (ca_uuid m)) st, [])
      | MakerOrderUpdatedMsg m \<Rightarrow>
          Some (case process_maker_order_updated te now inst (show_hex pubkey) m (om_orderbook st) of
              Inl u \<Rightarrow> (Inl (OrderNotFound u), st, [])
            | Inr ob \<Rightarrow> (Inr Done, st\<lparr>om_orderbook := ob\<rparr>, [])))"

section \<open>Start of the node\<close>

text \<open>\<open>orders_kick_start\<close>: the saved orders become the orders of the node again; the coins they need.\<close>

definition orders_kick_start ::
  "maker_order list \<Rightarrow> taker_order list \<Rightarrow> om_state \<Rightarrow> string set \<times> om_state" where
  "orders_kick_start makers takers st =
     (set (map mo_base makers) \<union> set (map mo_rel makers)
        \<union> set (map (tr_base \<circ> to_request) takers) \<union> set (map (tr_rel \<circ> to_request) takers),
      (fold add_order makers st)\<lparr>om_taker_orders :=
         fold (\<lambda>ord. AList.update (tr_uuid (to_request ord)) ord) takers (om_taker_orders st)\<rparr>)"

end
