(* ===== verification/OrderLoop.thy ===== *)
theory OrderLoop
  imports OrderRequests
begin

text \<open>
  The loops of the ordermatch component (\<open>lp_ordermatch_loop\<close> and the keep alive loop of
  \<open>mm2_main/src/lp_ordermatch.rs\<close>) and what is done with the answers of peers to the node's own
  requests. A turn of a loop is a function of the state; the answers of peers are arguments.
\<close>

section \<open>Orders that are missing in the orderbook\<close>

datatype kickstart_result = KickstartSkip | KickstartCancel | KickstartAnnounce om_coin om_coin

text \<open>
  The body of the loop over \<open>missing_uuids\<close>: the order with the volume that the balance allows, and
  whether it is announced, cancelled later, or left alone because a coin is not active.
\<close>

definition kickstart_order ::
  "om_env \<Rightarrow> moment \<Rightarrow> maker_order \<Rightarrow> maker_order \<times> kickstart_result" where
  "kickstart_order e t ord =
     (case find_pair e t (mo_base ord) (mo_rel ord) of
        Inr (Some (base, rel)) \<Rightarrow>
          (case c_my_spendable_balance base t of
             Inl _ \<Rightarrow> (ord, KickstartCancel)
           | Inr current_balance \<Rightarrow>
               (case calc_max_maker_vol (oe_ctx e) t (coin.truncate base) current_balance OrderIssue of
                  Inl _ \<Rightarrow> (ord, KickstartCancel)
                | Inr info \<Rightarrow>
                    (let ord' = (if cv_volume info < available_amount ord
                                 then ord\<lparr>mo_max_base_vol := reserved_amount ord + cv_volume info\<rparr> else ord)
                     in (ord', if available_amount ord' < mo_min_base_vol ord' then KickstartCancel
                               else KickstartAnnounce base rel))))
      | _ \<Rightarrow> (ord, KickstartSkip))"

fun kickstart_missing ::
  "om_env \<Rightarrow> moment \<Rightarrow> uuid list \<Rightarrow> om_state \<Rightarrow> (uuid list \<times> om_state \<times> om_effect list) option" where
  "kickstart_missing e t [] st = Some ([], st, [])"
| "kickstart_missing e t (u # us) st =
     (case map_of (om_orders st) u of
        None \<Rightarrow> kickstart_missing e t us st
      | Some ord \<Rightarrow>
          (let (ord', r) = kickstart_order e t ord; st1 = set_order u ord' st in
           case r of
             KickstartSkip \<Rightarrow> kickstart_missing e t us st1
           | KickstartCancel \<Rightarrow>
               map_option (\<lambda>(to_cancel, st2, fx). (u # to_cancel, st2, fx)) (kickstart_missing e t us st1)
           | KickstartAnnounce base rel \<Rightarrow>
               (case maker_order_created_p2p_notify e t ord' (c_coin_protocol_info base None)
                       (c_coin_protocol_info rel (Some (mo_max_base_vol ord' * mo_price ord'))) st1 of
                  None \<Rightarrow> None
                | Some (st2, fx2) \<Rightarrow>
                    map_option (\<lambda>(to_cancel, st3, fx3).
                        (to_cancel, st3, [SubscribeToTopic (mo_orderbook_topic ord')] @ fx2 @ fx3))
                      (kickstart_missing e t us st2))))"

text \<open>The loop over \<open>to_cancel\<close>; the orders were never announced, so that no peer is told.\<close>

fun cancel_unfunded ::
  "om_env \<Rightarrow> moment \<Rightarrow> uuid list \<Rightarrow> om_state \<Rightarrow> om_state \<times> om_effect list" where
  "cancel_unfunded e t [] st = (st, [])"
| "cancel_unfunded e t (u # us) st =
     (case remove_order u st of
        (None, st1) \<Rightarrow> cancel_unfunded e t us st1
      | (Some ord, st1) \<Rightarrow>
          (let (st2, fx2) = delete_my_maker_order e t ord MC_InsufficientBalance st1;
               (st3, fx3) = cancel_unfunded e t us st2
           in (st3, fx2 @ fx3)))"

definition missing_uuids :: "om_state \<Rightarrow> uuid list" where
  "missing_uuids st =
     filter (\<lambda>u. ob_order_set (om_orderbook st) u = None) (map fst (om_orders st))"

section \<open>A turn of the ordermatch loop\<close>

definition ordermatch_loop_turn :: "om_env \<Rightarrow> moment \<Rightarrow> string \<Rightarrow> u64 \<Rightarrow> om_state \<Rightarrow> om_result" where
  "ordermatch_loop_turn e t my_pubsecp maker_order_timeout st =
     Option.bind (handle_timed_out_taker_orders e t st) (\<lambda>(st1, fx1).
       let st2 = handle_timed_out_maker_matches e t st1;
           (st3, fx3) = check_balance_for_maker_orders e t st2;
           st4 = on_book (remove_silent_makers (oe_trie e) (now_sec e t) (oe_instant e t) my_pubsecp
                   maker_order_timeout) st3
       in Option.bind (kickstart_missing e t (missing_uuids st4) st4) (\<lambda>(to_cancel, st5, fx5).
            let (st6, fx6) = cancel_unfunded e t to_cancel st5
            in Some (st6, fx1 @ fx3 @ fx5 @ fx6)))"

section \<open>Keep alive messages of the node\<close>

text \<open>
  A root is left out only if it is the default and the hash of the empty trie at once; the handler of
  the message leaves out either.
\<close>

definition broadcast_keep_alive_for_pub ::
  "om_env \<Rightarrow> moment \<Rightarrow> string \<Rightarrow> orderbook \<Rightarrow> keypair option \<Rightarrow> om_effect list" where
  "broadcast_keep_alive_for_pub e t pubkey ob key =
     (case map_of (ob_pubkeys_state ob) pubkey of
        None \<Rightarrow> []
      | Some s \<Rightarrow>
          (let sent = filter (\<lambda>(_, r). \<not> (r = h64_default \<and> r = te_hashed_null_node (oe_trie e)))
                        (ps_trie_roots s)
           in [Broadcast (remdups (map (orderbook_topic_from_ordered_pair \<circ> fst) sent))
                 (PubkeyKeepAliveMsg \<lparr>ka_trie_roots = sent, ka_timestamp = now_sec e t\<rparr>) key]))"

definition broadcast_maker_orders_keep_alive :: "om_env \<Rightarrow> moment \<Rightarrow> string \<Rightarrow> om_state \<Rightarrow> om_effect list" where
  "broadcast_maker_orders_keep_alive e t persistent_pubsecp st =
     concat (map (\<lambda>(_, ord). case mo_p2p_privkey ord of
         Some key \<Rightarrow> broadcast_keep_alive_for_pub e t (show_hex (kp_public key)) (om_orderbook st) (Some key)
       | None \<Rightarrow> []) (om_orders st))
     @ broadcast_keep_alive_for_pub e t persistent_pubsecp (om_orderbook st) None"

section \<open>Answers of peers\<close>

text \<open>The second half of \<open>process_orders_keep_alive\<close>: the answer to \<open>SyncPubkeyOrderbookState\<close>.\<close>

fun apply_pair_diff ::
  "trie_env \<Rightarrow> u64 \<Rightarrow> nat \<Rightarrow> string \<Rightarrow> (uuid \<Rightarrow> base_rel_protocol_info option) \<Rightarrow>
   (uuid \<Rightarrow> order_confirmations_settings option) \<Rightarrow>
   string \<times> (uuid, orderbook_p2p_item) delta_or_full_trie \<Rightarrow> orderbook \<Rightarrow> orderbook" where
  "apply_pair_diff te now inst pubkey infos confs (pair, Delta d) ob =
     fst (process_trie_delta te now inst pubkey pair infos confs d ob)"
| "apply_pair_diff te now inst pubkey infos confs (pair, FullTrie vs) ob =
     fst (process_pubkey_full_trie te now inst pubkey pair infos confs vs ob)"

definition process_sync_response ::
  "om_env \<Rightarrow> moment \<Rightarrow> string \<Rightarrow> sync_pubkey_orderbook_state_res \<Rightarrow> om_state \<Rightarrow> om_state" where
  "process_sync_response e t from_pubkey response st =
     on_book (fold (apply_pair_diff (oe_trie e) (now_sec e t) (oe_instant e t) from_pubkey
         (map_of (sr_protocol_infos response)) (map_of (sr_conf_infos response)))
       (sr_pair_orders_diff response)) st"

definition is_my_order :: "string \<Rightarrow> string option \<Rightarrow> string set \<Rightarrow> bool" where
  "is_my_order order_pubkey my_pub my_p2p_pubkeys \<longleftrightarrow>
     my_pub = Some order_pubkey \<or> order_pubkey \<in> my_p2p_pubkeys"

text \<open>
  \<open>request_and_fill_orderbook\<close> with the answer of a relay: \<open>decode\<close> is \<open>hex::decode\<close>. Taking the key
  without its first byte panics on an empty one (\<open>None\<close>).
\<close>

fun fill_orderbook ::
  "om_env \<Rightarrow> moment \<Rightarrow> (string \<Rightarrow> bytes option) \<Rightarrow> (bytes \<Rightarrow> bool) \<Rightarrow> string \<Rightarrow>
   (uuid \<Rightarrow> base_rel_protocol_info option) \<Rightarrow> (uuid \<Rightarrow> order_confirmations_settings option) \<Rightarrow>
   (string \<times> get_orderbook_pubkey_item) list \<Rightarrow> orderbook \<Rightarrow> orderbook option" where
  "fill_orderbook e t decode is_banned alb_pair infos confs [] ob = Some ob"
| "fill_orderbook e t decode is_banned alb_pair infos confs ((pubkey, item) # rest) ob =
     (case decode pubkey of
        None \<Rightarrow> fill_orderbook e t decode is_banned alb_pair infos confs rest ob
      | Some pubkey_bytes \<Rightarrow>
          if is_my_order pubkey (map_option show_hex (oe_public_key e)) (ob_my_p2p_pubkeys ob)
          then fill_orderbook e t decode is_banned alb_pair infos confs rest ob
          else if pubkey_bytes = [] then None
          else if is_banned (tl pubkey_bytes)
          then fill_orderbook e t decode is_banned alb_pair infos confs rest ob
          else fill_orderbook e t decode is_banned alb_pair infos confs rest
                 (fst (process_pubkey_full_trie (oe_trie e) (now_sec e t) (oe_instant e t) pubkey alb_pair
                    infos confs (gi_orders item) ob)))"

definition request_and_fill_orderbook ::
  "om_env \<Rightarrow> moment \<Rightarrow> (string \<Rightarrow> bytes option) \<Rightarrow> (bytes \<Rightarrow> bool) \<Rightarrow> string \<Rightarrow> string \<Rightarrow>
   get_orderbook_res option \<Rightarrow> om_state \<Rightarrow> om_state option" where
  "request_and_fill_orderbook e t decode is_banned base rel response st =
     (case response of
        None \<Rightarrow> Some st
      | Some r \<Rightarrow>
          map_option (\<lambda>ob. st\<lparr>om_orderbook := ob\<lparr>ob_topics_subscribed_to :=
              (ob_topics_subscribed_to ob)(orderbook_topic_from_base_rel base rel \<mapsto> Requested)\<rparr>\<rparr>)
            (fill_orderbook e t decode is_banned (alb_ordered_pair base rel)
               (map_of (go_protocol_infos r)) (map_of (go_conf_infos r)) (go_pubkey_orders r)
               (om_orderbook st)))"

end
