(* ===== verification/MatchProps.thy ===== *)
theory MatchProps
  imports OrderMatching
begin

text \<open>
  What the builders and the matching functions of orders guarantee: the bounds of a new order, the
  terms of a match, the taker's acceptance of the reservation a maker made for his request, the
  names of the topics of orderbooks.
\<close>

section \<open>New orders\<close>

lemma mm_div_Some_iff [simp]: "mm_div a b = Some c \<longleftrightarrow> b \<noteq> 0 \<and> c = a / b"
  by (auto simp: mm_div_def)

lemma mm_div_None_iff [simp]: "mm_div a b = None \<longleftrightarrow> b = 0"
  by (simp add: mm_div_def)

lemma validate_price_Inr_iff: "validate_price p = Inr v \<longleftrightarrow> 1 / 100000000 \<le> p"
  by (auto simp: validate_price_def Let_def)

lemma validate_and_get_min_vol_InrD:
  assumes "validate_and_get_min_vol a b m p = Some (Inr v)"
  shows "a \<le> v \<and> b / p \<le> v \<and> (m \<noteq> None \<longrightarrow> m = Some v) \<and> (m = None \<longrightarrow> v = max a (b / p))"
  using assms
  by (auto simp: validate_and_get_min_vol_def Let_def bind_eq_Some_conv split: if_splits option.splits)

lemma validate_max_vol_InrD:
  assumes "validate_max_vol a b v m p = Inr x"
  shows "a \<le> v \<and> b \<le> v * p \<and> (\<forall>w. m = Some w \<longrightarrow> w \<le> v)"
  using assms by (auto simp: validate_max_vol_def Let_def split: if_splits option.splits)

lemma maker_order_build_InrD:
  assumes "maker_order_build d b = Some (Inr ord)"
  defines "a \<equiv> c_min_trading_vol (mb_base_coin b)" and "r \<equiv> c_min_trading_vol (mb_rel_coin b)"
  shows "\<exists>v. validate_and_get_min_vol a r (mb_min_base_vol b) (mb_price b) = Some (Inr v) \<and>
    ord = maker_order_of_builder d b v \<and> 1 / 100000000 \<le> mb_price b \<and>
    c_ticker (mb_base_coin b) \<noteq> c_ticker (mb_rel_coin b) \<and> mb_conf_settings b \<noteq> None \<and>
    validate_max_vol a r (mb_max_base_vol b) (mb_min_base_vol b) (mb_price b) = Inr ()"
proof (cases "validate_and_get_min_vol a r (mb_min_base_vol b) (mb_price b)")
  case None
  then show ?thesis using assms(1)
    by (simp add: maker_order_build_def Let_def a_def r_def split: if_split_asm sum.split_asm)
next
  case (Some x)
  then show ?thesis using assms(1)
    by (cases x)
      (auto simp: maker_order_build_def Let_def validate_price_Inr_iff a_def r_def
        split: if_split_asm sum.split_asm)
qed

text \<open>
  The builder of maker orders never panics, and an order that it builds is tradable: different coins,
  a price that is high enough, and every volume between its bounds is worth at least the minimal
  trading volume of both coins.
\<close>

theorem maker_order_build_sound:
  "(\<exists>r. maker_order_build d b = Some r) \<and>
   (\<forall>ord. maker_order_build d b = Some (Inr ord) \<longrightarrow>
      mo_base ord \<noteq> mo_rel ord \<and> 1 / 100000000 \<le> mo_price ord \<and> mo_matches ord = [] \<and>
      available_amount ord = mb_max_base_vol b \<and>
      mo_min_base_vol ord \<le> mo_max_base_vol ord \<and>
      (\<forall>v. mo_min_base_vol ord \<le> v \<longrightarrow>
         c_min_trading_vol (mb_base_coin b) \<le> v \<and> c_min_trading_vol (mb_rel_coin b) \<le> v * mo_price ord))"
proof (intro conjI allI impI)
  show "\<exists>r. maker_order_build d b = Some r"
    by (auto simp: maker_order_build_def Let_def validate_price_def validate_and_get_min_vol_def mm_div_def
        split: sum.splits option.splits)
next
  fix ord assume *: "maker_order_build d b = Some (Inr ord)"
  let ?a = "c_min_trading_vol (mb_base_coin b)" and ?b = "c_min_trading_vol (mb_rel_coin b)"
  let ?p = "mb_price b"
  obtain v where v: "validate_and_get_min_vol ?a ?b (mb_min_base_vol b) ?p = Some (Inr v)"
      "ord = maker_order_of_builder d b v"
    and p: "1 / 100000000 \<le> ?p" "c_ticker (mb_base_coin b) \<noteq> c_ticker (mb_rel_coin b)"
    and m: "validate_max_vol ?a ?b (mb_max_base_vol b) (mb_min_base_vol b) ?p = Inr ()"
    using maker_order_build_InrD [OF *] by blast
  have pos: "0 < ?p" using p(1) by (rule less_le_trans [rotated]) simp
  have ord: "mo_base ord = c_ticker (mb_base_coin b)" "mo_rel ord = c_ticker (mb_rel_coin b)"
    "mo_price ord = ?p" "mo_matches ord = []" "mo_min_base_vol ord = v" "mo_max_base_vol ord = mb_max_base_vol b"
    by (simp_all add: v(2) maker_order_of_builder_def)
  note min = validate_and_get_min_vol_InrD [OF v(1)] and max = validate_max_vol_InrD [OF m]
  show "mo_base ord \<noteq> mo_rel ord" "1 / 100000000 \<le> mo_price ord" "mo_matches ord = []"
    using p by (simp_all add: ord)
  show "available_amount ord = mb_max_base_vol b"
    by (simp add: ord available_amount_def reserved_amount_def)
  show "mo_min_base_vol ord \<le> mo_max_base_vol ord"
  proof (cases "mb_min_base_vol b")
    case None
    then show ?thesis using min max pos by (simp add: ord divide_le_eq)
  next
    case (Some w)
    then show ?thesis using min max by (simp add: ord)
  qed
  fix w assume "mo_min_base_vol ord \<le> w"
  then have "?a \<le> w" "?b / ?p \<le> w" using min by (simp_all add: ord)
  then show "?a \<le> w" "?b \<le> w * mo_price ord" using pos by (simp_all add: ord divide_le_eq)
qed

lemma taker_order_build_InrD:
  assumes "taker_order_build d b = Some (Inr ord)"
  defines "price \<equiv> tb_rel_amount b / tb_base_amount b"
  shows "\<exists>v. ord = taker_order_of_builder d b v \<and> c_ticker (tb_base_coin b) \<noteq> c_ticker (tb_rel_coin b) \<and>
    tb_conf_settings b \<noteq> None \<and> tb_sender_pubkey b \<noteq> hash_default 32 \<and>
    c_min_trading_vol (tb_base_coin b) \<le> v \<and> c_min_trading_vol (tb_rel_coin b) / price \<le> v \<and>
    v \<le> tb_base_amount b \<and> tb_base_amount b \<noteq> 0 \<and> tb_rel_amount b \<noteq> 0 \<and>
    c_min_trading_vol (tb_base_coin b) \<le> tb_base_amount b \<and>
    c_min_trading_vol (tb_rel_coin b) \<le> tb_rel_amount b"
  using assms(1) unfolding price_def
  by (auto simp: taker_order_build_def Let_def bind_eq_Some_conv split: if_splits option.splits)

lemma taker_order_of_builder_simps [simp]:
  "to_request (taker_order_of_builder d b v) =
     \<lparr>tr_base = c_ticker (tb_base_coin b), tr_rel = c_ticker (tb_rel_coin b),
      tr_base_amount = tb_base_amount b, tr_rel_amount = tb_rel_amount b,
      tr_action = tb_action b, tr_uuid = dr_uuid d, tr_sender_pubkey = tb_sender_pubkey b,
      tr_dest_pub_key = hash_default 32, tr_match_by = tb_match_by b,
      tr_conf_settings = tb_conf_settings b,
      tr_base_protocol_info = Some (case tb_action b of
          Buy \<Rightarrow> c_coin_protocol_info (tb_base_coin b) (Some (tb_base_amount b))
        | Sell \<Rightarrow> c_coin_protocol_info (tb_base_coin b) None),
      tr_rel_protocol_info = Some (case tb_action b of
          Buy \<Rightarrow> c_coin_protocol_info (tb_rel_coin b) None
        | Sell \<Rightarrow> c_coin_protocol_info (tb_rel_coin b) (Some (tb_rel_amount b)))\<rparr>"
  "to_matches (taker_order_of_builder d b v) = []"
  "to_min_volume (taker_order_of_builder d b v) = v"
  "to_base_orderbook_ticker (taker_order_of_builder d b v) = tb_base_orderbook_ticker b"
  "to_rel_orderbook_ticker (taker_order_of_builder d b v) = tb_rel_orderbook_ticker b"
  by (simp_all add: taker_order_of_builder_def Let_def)

text \<open>
  A taker order that nobody took becomes a maker order on the other side of the book. With positive
  minimal trading volumes the change never panics, the price is the taker's own, the whole amount the
  taker would have given is offered, and every volume down to the new minimum is worth the minimal
  trading volume of both coins, as for an order that was built as a maker order.
\<close>

theorem taker_to_maker_sound:
  assumes "taker_order_build d b = Some (Inr ord)"
    and "0 < c_min_trading_vol (tb_base_coin b)" "0 < c_min_trading_vol (tb_rel_coin b)"
  shows "\<exists>m. maker_order_from_taker now ord = Some m \<and> 0 < mo_price m \<and> mo_matches m = [] \<and>
    mo_base m = taker_coin_ticker ord \<and> mo_rel m = maker_coin_ticker ord \<and>
    mo_max_base_vol m * mo_price m =
      (case tb_action b of Buy \<Rightarrow> tb_base_amount b | Sell \<Rightarrow> tb_rel_amount b) \<and>
    mo_min_base_vol m \<le> mo_max_base_vol m \<and>
    (\<forall>v. mo_min_base_vol m \<le> v \<longrightarrow>
       c_min_trading_vol (case tb_action b of Buy \<Rightarrow> tb_rel_coin b | Sell \<Rightarrow> tb_base_coin b) \<le> v \<and>
       c_min_trading_vol (case tb_action b of Buy \<Rightarrow> tb_base_coin b | Sell \<Rightarrow> tb_rel_coin b) \<le> v * mo_price m)"
proof -
  let ?B = "tb_base_amount b" and ?R = "tb_rel_amount b"
  let ?a = "c_min_trading_vol (tb_base_coin b)" and ?r = "c_min_trading_vol (tb_rel_coin b)"
  obtain w where w: "ord = taker_order_of_builder d b w" "?a \<le> w" "?r / (?R / ?B) \<le> w" "w \<le> ?B"
      "?a \<le> ?B" "?r \<le> ?R"
    using taker_order_build_InrD [OF assms(1)] by blast
  have pos: "0 < ?B" "0 < ?R" using w(5,6) assms(2,3) by (simp_all only: less_le_trans)
  have min: "?r * ?B \<le> w * ?R" using w(3) pos by (simp add: field_simps)
  show ?thesis
  proof (cases "tb_action b")
    case Sell
    have "?a \<le> v \<and> ?r \<le> v * (?R / ?B)" if "w \<le> v" for v
    proof -
      have "w * ?R \<le> v * ?R" using that pos by (intro mult_right_mono) simp_all
      then have "?r * ?B \<le> v * ?R" using min by simp
      then show ?thesis using that w(2) pos by (simp add: field_simps)
    qed
    then show ?thesis using Sell pos w(4)
      by (simp add: w(1) maker_order_from_taker_def taker_coin_ticker_def maker_coin_ticker_def Let_def mm_div_def)
  next
    case Buy
    have "?r \<le> v \<and> ?a \<le> v * (?B / ?R)" if "w / (?B / ?R) \<le> v" for v
    proof -
      have 1: "w * ?R \<le> v * ?B" using that pos by (simp add: field_simps)
      then have "?r * ?B \<le> v * ?B" using min by simp
      moreover have "?a * ?R \<le> w * ?R" using w(2) pos by (intro mult_right_mono) simp_all
      then have "?a * ?R \<le> v * ?B" using 1 by simp
      ultimately show ?thesis using pos by (simp add: field_simps)
    qed
    moreover have "w / (?B / ?R) \<le> ?R" using w(4) pos by (simp add: field_simps)
    ultimately show ?thesis using Buy pos
      by (simp add: w(1) maker_order_from_taker_def taker_coin_ticker_def maker_coin_ticker_def Let_def mm_div_def)
  qed
qed

section \<open>Matches\<close>

text \<open>The maker side of a match: what is reserved, and the taker's limit.\<close>

lemma match_with_request_MatchedD:
  assumes "match_with_request ord q = Some (OM_Matched base_amount rel_amount)"
  shows "0 < tr_base_amount q \<and> 0 < tr_rel_amount q \<and>
    mo_min_base_vol ord \<le> base_amount \<and> base_amount \<le> available_amount ord \<and>
    (case tr_action q of
       Buy \<Rightarrow> base_amount = tr_base_amount q \<and> rel_amount = base_amount * mo_price ord \<and>
         mo_price ord \<le> tr_rel_amount q / tr_base_amount q \<and>
         (mo_base ord = tr_base q \<or> mo_base_orderbook_ticker ord = Some (tr_base q)) \<and>
         (mo_rel ord = tr_rel q \<or> mo_rel_orderbook_ticker ord = Some (tr_rel q))
     | Sell \<Rightarrow> mo_price ord \<noteq> 0 \<and> rel_amount = tr_base_amount q \<and>
         base_amount = tr_base_amount q / mo_price ord \<and>
         mo_price ord \<le> tr_base_amount q / tr_rel_amount q \<and>
         (mo_base ord = tr_rel q \<or> mo_base_orderbook_ticker ord = Some (tr_rel q)) \<and>
         (mo_rel ord = tr_base q \<or> mo_rel_orderbook_ticker ord = Some (tr_base q)))"
  using assms
  by (auto simp: match_with_request_def Let_def bind_eq_Some_conv split: if_splits taker_action.splits)

lemma match_with_request_positive:
  assumes "match_with_request ord q = Some (OM_Matched base_amount rel_amount)" "0 < mo_price ord"
  shows "0 < base_amount \<and> 0 < rel_amount"
  using match_with_request_MatchedD [OF assms(1)] assms(2) by (auto split: taker_action.splits)

lemma match_with_request_total:
  "0 < mo_price ord \<Longrightarrow> \<exists>r. match_with_request ord q = Some r"
  by (auto simp: match_with_request_def Let_def mm_div_def split: taker_action.splits)

text \<open>The terms of a match, for both sides.\<close>

lemma match_terms:
  assumes "match_with_request ord q = Some (OM_Matched base_amount rel_amount)" "0 < mo_price ord"
  shows "0 < base_amount \<and> rel_amount = base_amount * mo_price ord \<and>
    mo_min_base_vol ord \<le> base_amount \<and> base_amount \<le> available_amount ord \<and>
    (case tr_action q of
       Buy \<Rightarrow> base_amount = tr_base_amount q \<and> rel_amount \<le> tr_rel_amount q
     | Sell \<Rightarrow> rel_amount = tr_base_amount q \<and> tr_rel_amount q \<le> base_amount)"
proof -
  note * = match_with_request_MatchedD [OF assms(1)]
  show ?thesis
  proof (cases "tr_action q")
    case Buy
    then show ?thesis
      using * match_with_request_positive [OF assms] pos_le_divide_eq [of "tr_base_amount q"]
      by (simp add: mult.commute)
  next
    case Sell
    then have "mo_price ord * tr_rel_amount q \<le> tr_base_amount q"
      and eq: "base_amount = tr_base_amount q / mo_price ord"
      using * pos_le_divide_eq [of "tr_rel_amount q"] by simp_all
    then have "tr_rel_amount q \<le> base_amount"
      unfolding eq using assms(2) by (simp add: pos_le_divide_eq mult.commute)
    then show ?thesis using Sell * match_with_request_positive [OF assms] assms(2) eq by simp
  qed
qed

section \<open>Topics\<close>

lemma next_piece_sep: "sep \<notin> set xs \<Longrightarrow> next_piece sep (xs @ sep # ys) = (xs, Some ys)"
  by (induction xs) auto

lemma next_piece_none: "sep \<notin> set xs \<Longrightarrow> next_piece sep xs = (xs, None)"
  by (induction xs) auto

lemma alb_ordered_pair_eq: "alb_ordered_pair base rel = min base rel @ CHR '':'' # max base rel"
  by (auto simp: alb_ordered_pair_def min_def max_def dest: less_imp_le less_asym)

lemma alb_ordered_pair_commute: "alb_ordered_pair base rel = alb_ordered_pair rel base"
  by (simp add: alb_ordered_pair_eq min.commute max.commute)

lemma parse_pub_sub_topic:
  assumes "TOPIC_SEPARATOR \<notin> set first \<union> set second" "CHR '':'' \<notin> set first" "second \<noteq> []"
  shows "parse_orderbook_pair_from_topic (pub_sub_topic ORDERBOOK_PREFIX (first @ CHR '':'' # second))
           = Some (first, second)"
proof -
  have "TOPIC_SEPARATOR \<notin> set ORDERBOOK_PREFIX"
    by (simp add: TOPIC_SEPARATOR_def ORDERBOOK_PREFIX_def)
  moreover have "TOPIC_SEPARATOR \<notin> set (first @ CHR '':'' # second)"
    using assms(1) by (simp add: TOPIC_SEPARATOR_def)
  ultimately show ?thesis
    using assms(2,3) next_piece_sep [of TOPIC_SEPARATOR ORDERBOOK_PREFIX]
      next_piece_none [of TOPIC_SEPARATOR "first @ CHR '':'' # second"]
    by (simp add: parse_orderbook_pair_from_topic_def pub_sub_topic_def next_piece_sep)
qed

text \<open>
  The topic of an orderbook does not depend on the side one looks from, and the pair is read back from
  it, in alphabetical order; so two pairs share a topic only if they are the same two coins.
\<close>

theorem orderbook_topic_roundtrip:
  assumes "TOPIC_SEPARATOR \<notin> set base \<union> set rel" "CHR '':'' \<notin> set base \<union> set rel" "base \<noteq> []" "rel \<noteq> []"
  shows "orderbook_topic_from_base_rel base rel = orderbook_topic_from_base_rel rel base \<and>
    parse_orderbook_pair_from_topic (orderbook_topic_from_base_rel base rel) = Some (min base rel, max base rel)"
proof
  show "orderbook_topic_from_base_rel base rel = orderbook_topic_from_base_rel rel base"
    by (simp add: orderbook_topic_from_base_rel_def alb_ordered_pair_commute)
  show "parse_orderbook_pair_from_topic (orderbook_topic_from_base_rel base rel) = Some (min base rel, max base rel)"
    unfolding orderbook_topic_from_base_rel_def alb_ordered_pair_eq
    using assms by (intro parse_pub_sub_topic) (auto simp: min_def max_def)
qed

theorem orderbook_topic_roundtrip_witness:
  "parse_orderbook_pair_from_topic (orderbook_topic_from_base_rel ''RICK'' ''MORTY'') = Some (''MORTY'', ''RICK'')"
proof -
  have "''MORTY'' < ''RICK''" by (simp add: less_char_def)
  then show ?thesis
    using orderbook_topic_roundtrip [of "''RICK''" "''MORTY''", THEN conjunct2]
    by (simp add: TOPIC_SEPARATOR_def min_def max_def)
qed

end
