(* ===== verification/NodeInv.thy ===== *)
theory NodeInv
  imports OrderLoop MatchProps
begin

text \<open>
  The invariant of the orders of a node, and that every operation on the list of orders keeps it:
  the reservations of an order never exceed its volume, every match belongs to its order and to one
  request, a swap is started once per match, and the counters by coin agree with the orders.
\<close>

section \<open>Association lists\<close>

lemma set_update_distinct:
  "distinct (map fst al) \<Longrightarrow> set (AList.update k v al) = insert (k, v) {x \<in> set al. fst x \<noteq> k}"
  by (induction al) (auto simp: rev_image_eqI)

lemma map_update_snd:
  "map (\<lambda>(k, v). (k, f v)) (AList.update k v al) = AList.update k (f v) (map (\<lambda>(k, v). (k, f v)) al)"
  by (induction al) auto

lemma map_delete_snd:
  "map (\<lambda>(k, v). (k, f v)) (AList.delete k al) = AList.delete k (map (\<lambda>(k, v). (k, f v)) al)"
  by (induction al) auto

lemma update_same: "map_of al k = Some v \<Longrightarrow> distinct (map fst al) \<Longrightarrow> AList.update k v al = al"
  by (induction al) (auto split: if_splits)

lemma update_new: "k \<notin> fst ` set al \<Longrightarrow> AList.update k v al = al @ [(k, v)]"
  by (induction al) auto

lemma delete_split:
  "map_of al k = Some v \<Longrightarrow> distinct (map fst al) \<Longrightarrow>
   \<exists>xs ys. al = xs @ (k, v) # ys \<and> AList.delete k al = xs @ ys"
proof (induction al)
  case (Cons x al)
  then show ?case
  proof (cases "fst x = k")
    case True
    then have "AList.delete k (x # al) = al" using Cons.prems by (cases x) (simp add: delete_idem)
    moreover have "x = (k, v)" using True Cons.prems(1) by (cases x) simp
    ultimately show ?thesis by (intro exI [of _ "[]"] exI [of _ al]) simp
  next
    case False
    then obtain xs ys where "al = xs @ (k, v) # ys" "AList.delete k al = xs @ ys"
      using Cons by (cases x) auto
    then have "x # al = (x # xs) @ (k, v) # ys" "AList.delete k (x # al) = (x # xs) @ ys"
      using False by (cases x; simp)+
    then show ?thesis by blast
  qed
qed simp

section \<open>The invariant\<close>

definition match_ok :: "uuid \<Rightarrow> uuid \<times> maker_match \<Rightarrow> bool" where
  "match_ok u = (\<lambda>(k, m).
     tr_uuid (mk_request m) = k \<and> mr_taker_order_uuid (mk_reserved m) = k \<and>
     mr_maker_order_uuid (mk_reserved m) = u \<and> 0 < mr_base_amount (mk_reserved m) \<and>
     0 < mr_rel_amount (mk_reserved m) \<and> (mk_connect m = None \<longleftrightarrow> mk_connected m = None))"

definition connected_matches :: "maker_order \<Rightarrow> uuid set" where
  "connected_matches ord = {k. \<exists>m. (k, m) \<in> set (mo_matches ord) \<and> mk_connected m \<noteq> None}"

definition order_ok :: "uuid \<Rightarrow> maker_order \<Rightarrow> bool" where
  "order_ok u ord \<longleftrightarrow>
     mo_uuid ord = u \<and> 0 < mo_price ord \<and> mo_conf_settings ord \<noteq> None \<and>
     distinct (map fst (mo_matches ord)) \<and> (\<forall>x \<in> set (mo_matches ord). match_ok u x) \<and>
     reserved_amount ord \<le> mo_max_base_vol ord \<and>
     distinct (mo_started_swaps ord) \<and> set (mo_started_swaps ord) = connected_matches ord"

definition taker_ok :: "uuid \<Rightarrow> taker_order \<Rightarrow> bool" where
  "taker_ok u ord \<longleftrightarrow>
     tr_uuid (to_request ord) = u \<and> 0 < tr_base_amount (to_request ord) \<and>
     0 < tr_rel_amount (to_request ord) \<and> tr_conf_settings (to_request ord) \<noteq> None \<and>
     length (to_matches ord) \<le> 1"

definition bases :: "om_state \<Rightarrow> (uuid \<times> string) list" where
  "bases st = map (\<lambda>(u, ord). (u, mo_base ord)) (om_orders st)"

definition counts_ok :: "om_state \<Rightarrow> bool" where
  "counts_ok st \<longleftrightarrow>
     om_order_tickers st = map_of (bases st) \<and>
     (\<forall>t. (case om_count_by_tickers st t of Some n \<Rightarrow> n | None \<Rightarrow> 0) = count_list (map snd (bases st)) t) \<and>
     om_balance_loops st = set (map snd (bases st))"

definition orders_ok :: "om_state \<Rightarrow> bool" where
  "orders_ok st \<longleftrightarrow>
     distinct (map fst (om_orders st)) \<and> (\<forall>(u, ord) \<in> set (om_orders st). order_ok u ord) \<and> counts_ok st"

definition takers_ok :: "om_state \<Rightarrow> bool" where
  "takers_ok st \<longleftrightarrow>
     distinct (map fst (om_taker_orders st)) \<and> (\<forall>(u, ord) \<in> set (om_taker_orders st). taker_ok u ord)"

definition node_inv :: "om_state \<Rightarrow> bool" where
  "node_inv st \<longleftrightarrow> orders_ok st \<and> takers_ok st \<and>
     fst ` set (om_orders st) \<inter> fst ` set (om_taker_orders st) = {}"

lemma orders_okD:
  assumes "orders_ok st" "map_of (om_orders st) u = Some ord"
  shows "order_ok u ord"
  using assms by (auto simp: orders_ok_def dest: map_of_SomeD)

lemma takers_okD:
  assumes "takers_ok st" "map_of (om_taker_orders st) u = Some ord"
  shows "taker_ok u ord"
  using assms by (auto simp: takers_ok_def dest: map_of_SomeD)

lemma fst_bases [simp]: "map fst (bases st) = map fst (om_orders st)"
  by (simp add: bases_def comp_def case_prod_beta)

lemma fst_set_bases [simp]: "fst ` set (bases st) = fst ` set (om_orders st)"
  by (force simp: bases_def image_iff)

lemma map_of_bases: "map_of (bases st) u = map_option mo_base (map_of (om_orders st) u)"
  by (simp add: bases_def map_of_map)

section \<open>Operations on the list of orders\<close>

text \<open>What the invariant reads of the state.\<close>

lemma orders_ok_cong:
  assumes "om_orders st' = om_orders st" "om_order_tickers st' = om_order_tickers st"
    "om_count_by_tickers st' = om_count_by_tickers st" "om_balance_loops st' = om_balance_loops st"
  shows "orders_ok st' = orders_ok st"
  using assms by (simp add: orders_ok_def counts_ok_def bases_def)

lemma set_order_orders_ok:
  assumes "orders_ok st" "map_of (om_orders st) u = Some ord" "order_ok u ord'" "mo_base ord' = mo_base ord"
  shows "orders_ok (set_order u ord' st)"
proof -
  have d: "distinct (map fst (om_orders st))" using assms(1) by (simp add: orders_ok_def)
  have "bases (set_order u ord' st) = AList.update u (mo_base ord') (bases st)"
    by (simp add: bases_def set_order_def map_update_snd)
  also have "\<dots> = bases st"
    using assms d by (intro update_same) (simp_all add: map_of_bases)
  finally have b: "bases (set_order u ord' st) = bases st" .
  show ?thesis
    using assms d b by (auto simp: orders_ok_def counts_ok_def set_order_def set_update_distinct
        distinct_update)
qed

lemma set_order_keys:
  assumes "map_of (om_orders st) u = Some ord"
  shows "fst ` set (om_orders (set_order u ord' st)) = fst ` set (om_orders st)"
  using dom_update [of u ord' "om_orders st"] assms
  by (auto simp: set_order_def simp flip: dom_map_of_conv_image_fst)

lemma add_order_orders_ok:
  assumes "orders_ok st" "order_ok u ord" "u \<notin> fst ` set (om_orders st)"
  shows "orders_ok (add_order ord st)"
proof -
  have u: "mo_uuid ord = u" using assms(2) by (simp add: order_ok_def)
  have orders: "om_orders (add_order ord st) = om_orders st @ [(u, ord)]"
    using assms(3) by (simp add: add_order_def u update_new)
  have b: "bases (add_order ord st) = bases st @ [(u, mo_base ord)]"
    by (simp add: bases_def orders)
  have "map_of (bases st @ [(u, mo_base ord)]) = (map_of (bases st))(u \<mapsto> mo_base ord)"
    using assms(3) [folded map_of_eq_None_iff]
    by (auto simp: map_add_def fun_eq_iff map_of_bases split: option.splits)
  moreover have "om_order_tickers (add_order ord st) = (om_order_tickers st)(u \<mapsto> mo_base ord)"
    "om_count_by_tickers (add_order ord st) = (om_count_by_tickers st)(mo_base ord \<mapsto>
       (case om_count_by_tickers st (mo_base ord) of Some n \<Rightarrow> n | None \<Rightarrow> 0) + 1)"
    "om_balance_loops (add_order ord st) = insert (mo_base ord) (om_balance_loops st)"
    by (simp_all add: add_order_def u)
  ultimately show ?thesis
    using assms by (auto simp: orders_ok_def counts_ok_def b orders)
qed

lemma remove_order_keys:
  assumes "orders_ok st" "remove_order u st = (r, st')"
  shows "om_orders st' = AList.delete u (om_orders st) \<and> r = map_of (om_orders st) u \<and>
    om_taker_orders st' = om_taker_orders st"
proof (cases "map_of (om_orders st) u")
  case None
  then show ?thesis using assms(2) by (simp add: remove_order_def) (simp add: map_of_eq_None_iff delete_idem)
next
  case (Some ord)
  moreover have "om_order_tickers st u = Some (mo_base ord)"
    using assms(1) Some by (simp add: orders_ok_def counts_ok_def map_of_bases)
  ultimately show ?thesis using assms(2) by (auto simp: remove_order_def Let_def)
qed

lemma remove_order_orders_ok:
  assumes "orders_ok st"
  shows "orders_ok (snd (remove_order u st))"
proof (cases "map_of (om_orders st) u")
  case None
  then show ?thesis using assms by (simp add: remove_order_def)
next
  case (Some ord)
  let ?b = "mo_base ord" and ?st = "snd (remove_order u st)"
  let ?c = "\<lambda>st t. case om_count_by_tickers st t of Some n \<Rightarrow> n | None \<Rightarrow> 0"
  have d: "distinct (map fst (om_orders st))" and c: "counts_ok st"
    and ok: "\<forall>(u, ord) \<in> set (om_orders st). order_ok u ord"
    using assms by (simp_all add: orders_ok_def)
  have t: "om_order_tickers st u = Some ?b" using c Some by (simp add: counts_ok_def map_of_bases)
  obtain xs ys where xy: "bases st = xs @ (u, ?b) # ys" "AList.delete u (bases st) = xs @ ys"
    using delete_split [of "bases st" u ?b] Some d by (auto simp: map_of_bases)
  have orders: "om_orders ?st = AList.delete u (om_orders st)"
    using remove_order_keys [OF assms, of u] by (cases "remove_order u st") simp
  have b: "bases ?st = xs @ ys"
    by (simp add: bases_def orders map_delete_snd flip: xy(2))
  obtain n where n: "om_count_by_tickers st ?b = Some (Suc n)" "n = count_list (map snd (xs @ ys)) ?b"
    using c xy(1) by (auto simp: counts_ok_def split: option.splits dest!: spec [of _ ?b])
  have st: "om_order_tickers ?st = (om_order_tickers st)(u := None)"
    "om_count_by_tickers ?st = (om_count_by_tickers st)(?b \<mapsto> n)"
    "om_balance_loops ?st = (if n = 0 then om_balance_loops st - {?b} else om_balance_loops st)"
    using Some t n by (simp_all add: remove_order_def Let_def coin_has_active_maker_orders_def)
  have "counts_ok ?st"
    unfolding counts_ok_def
  proof (intro conjI allI)
    show "om_order_tickers ?st = map_of (bases ?st)"
      using c by (simp add: st b counts_ok_def delete_conv' flip: xy(2))
    show "?c ?st t = count_list (map snd (bases ?st)) t" for t
      using c xy(1) n by (auto simp: st b counts_ok_def dest!: spec [of _ t])
    show "om_balance_loops ?st = set (map snd (bases ?st))"
      using c xy(1) n(2) by (auto simp: st b counts_ok_def count_list_0_iff)
  qed
  then show ?thesis using d ok
    by (auto simp: orders_ok_def orders distinct_map_filter AList.delete_eq)
qed

section \<open>What leaves the orders alone\<close>

definition orders_part ::
  "om_state \<Rightarrow> (uuid \<times> maker_order) list \<times> (uuid \<Rightarrow> string option) \<times> (string \<Rightarrow> nat option) \<times>
   string set \<times> (uuid \<times> taker_order) list" where
  "orders_part st =
     (om_orders st, om_order_tickers st, om_count_by_tickers st, om_balance_loops st, om_taker_orders st)"

lemma orders_partD:
  assumes "orders_part st' = orders_part st"
  shows "om_orders st' = om_orders st" "om_taker_orders st' = om_taker_orders st"
    "orders_ok st' = orders_ok st" "takers_ok st' = takers_ok st" "node_inv st' = node_inv st"
  using assms
  by (simp_all add: orders_part_def orders_ok_def counts_ok_def bases_def takers_ok_def node_inv_def)

lemma orders_part_set_order:
  "orders_part st' = orders_part st \<Longrightarrow> orders_part (set_order u ord st') = orders_part (set_order u ord st)"
  by (simp add: orders_part_def set_order_def)

lemma orders_part_frame [simp]:
  "orders_part (on_book f st) = orders_part st"
  "orders_part (st\<lparr>om_orderbook := ob\<rparr>) = orders_part st"
  "orders_part (st\<lparr>om_pending := p\<rparr>) = orders_part st"
  "orders_part (save_new_active_maker_order e t ord st) = orders_part st"
  "orders_part (save_new_active_taker_order e t tord st) = orders_part st"
  "orders_part (delete_active_maker_order e t u st) = orders_part st"
  "orders_part (delete_active_taker_order e t u st) = orders_part st"
  "orders_part (save_order_in_history e t h st) = orders_part st"
  by (simp_all add: orders_part_def on_book_def save_new_active_maker_order_def
      save_new_active_taker_order_def delete_active_maker_order_def delete_active_taker_order_def
      save_order_in_history_def)

lemma orders_part_frame2 [simp]:
  "orders_part (fst (delete_my_maker_order e t ord mreason st)) = orders_part st"
  "orders_part (fst (delete_my_taker_order e t tord treason st)) = orders_part st"
  "orders_part (fst (maker_order_updated_p2p_notify e t topic msg key st)) = orders_part st"
  "orders_part (fst (maker_order_cancelled_p2p_notify e t ord st)) = orders_part st"
  "orders_part (fst (snd (save_my_new_maker_order e t ord st))) = orders_part st"
  "orders_part (fst (snd (save_my_new_taker_order e t tord st))) = orders_part st"
  "orders_part (fst (snd (save_maker_order_on_update e t ord st))) = orders_part st"
  "orders_part (fst (subscribe_to_orderbook_topic e t base rel st)) = orders_part st"
  by (simp_all add: delete_my_maker_order_def delete_my_taker_order_def maker_order_updated_p2p_notify_def
      maker_order_cancelled_p2p_notify_def save_my_new_maker_order_def save_my_new_taker_order_def
      save_maker_order_on_update_def subscribe_to_orderbook_topic_def Let_def split: option.splits)

lemma orders_part_pairD:
  "delete_my_maker_order e t ord mreason st = (st', fx) \<Longrightarrow> orders_part st' = orders_part st"
  "delete_my_taker_order e t tord treason st = (st', fx) \<Longrightarrow> orders_part st' = orders_part st"
  "maker_order_updated_p2p_notify e t topic msg key st = (st', fx) \<Longrightarrow> orders_part st' = orders_part st"
  "maker_order_cancelled_p2p_notify e t ord st = (st', fx) \<Longrightarrow> orders_part st' = orders_part st"
  "save_my_new_maker_order e t ord st = (r, st', fx) \<Longrightarrow> orders_part st' = orders_part st"
  "save_my_new_taker_order e t tord st = (r, st', fx) \<Longrightarrow> orders_part st' = orders_part st"
  "save_maker_order_on_update e t ord st = (r, st', fx) \<Longrightarrow> orders_part st' = orders_part st"
  "subscribe_to_orderbook_topic e t base rel st = (st', fx) \<Longrightarrow> orders_part st' = orders_part st"
  by (metis fst_conv snd_conv orders_part_frame2)+

lemma orders_part_created:
  "maker_order_created_p2p_notify e t ord base_info rel_info st = Some (st', fx) \<Longrightarrow>
   orders_part st' = orders_part st"
  by (auto simp: maker_order_created_p2p_notify_def Let_def split: option.splits)

lemma maker_order_created_p2p_notify_total:
  assumes "mo_conf_settings ord \<noteq> None" "oe_public_key e \<noteq> None"
  shows "\<exists>st' fx. maker_order_created_p2p_notify e t ord base_info rel_info st = Some (st', fx)"
  using assms
  by (auto simp: maker_order_created_p2p_notify_def signing_public_key_def Let_def split: option.splits)

section \<open>Cancellation\<close>

lemma cancel_maker_order_orders:
  assumes "orders_ok st" "cancel_maker_order e t u ord reason st = (c, st', fx)"
  shows "orders_ok st' \<and> om_orders st' = AList.delete u (om_orders st) \<and>
    om_taker_orders st' = om_taker_orders st \<and> (c \<longleftrightarrow> u \<in> fst ` set (om_orders st))"
proof -
  obtain r st1 where rm: "remove_order u st = (r, st1)" by (cases "remove_order u st") simp
  note keys = remove_order_keys [OF assms(1) rm]
  have ok: "orders_ok st1" using remove_order_orders_ok [OF assms(1), of u] rm by simp
  have "orders_part st' = orders_part st1 \<and> (c \<longleftrightarrow> r \<noteq> None)"
    using assms(2)
    by (auto simp: cancel_maker_order_def rm dest!: orders_part_pairD split: option.splits prod.splits)
  then show ?thesis
    using ok keys orders_partD [of st' st1] by (auto simp: dom_map_of_conv_image_fst [symmetric])
qed

section \<open>Changes of an order\<close>

lemma fold_add_sum_list: "fold (\<lambda>x a. a + f x) xs (b :: rat) = b + sum_list (map f xs)"
  by (induction xs arbitrary: b) simp_all

lemma reserved_amount_conv:
  "reserved_amount ord =
     sum_list (map snd (map (\<lambda>(k, m). (k, mr_base_amount (mk_reserved m))) (mo_matches ord)))"
  using fold_add_sum_list [of "\<lambda>x. mr_base_amount (mk_reserved (snd x))" "mo_matches ord" 0]
  by (simp add: reserved_amount_def case_prod_beta' comp_def)

lemma sum_list_filter_le: "\<forall>x \<in> set xs. 0 < (f x :: rat) \<Longrightarrow> sum_list (map f (filter P xs)) \<le> sum_list (map f xs)"
  by (induction xs) (auto intro: add_increasing add_mono less_imp_le)

lemma add_match_order_ok:
  assumes "order_ok u ord" "match_ok u (k, m)" "map_of (mo_matches ord) k = None" "mk_connected m = None"
    "mr_base_amount (mk_reserved m) \<le> available_amount ord"
  shows "order_ok u (ord\<lparr>mo_matches := AList.update k m (mo_matches ord)\<rparr>)"
proof -
  let ?ord = "ord\<lparr>mo_matches := AList.update k m (mo_matches ord)\<rparr>"
  have new: "AList.update k m (mo_matches ord) = mo_matches ord @ [(k, m)]"
    using assms(3) by (intro update_new) (simp add: map_of_eq_None_iff)
  have "reserved_amount ?ord = reserved_amount ord + mr_base_amount (mk_reserved m)"
    by (simp add: reserved_amount_conv new)
  moreover have "connected_matches ?ord = connected_matches ord"
    using assms(4) by (auto simp: connected_matches_def new)
  ultimately show ?thesis
    using assms by (auto simp: order_ok_def new available_amount_def map_of_eq_None_iff)
qed

lemma connect_match_order_ok:
  assumes "order_ok u ord" "map_of (mo_matches ord) k = Some m" "mk_connected m = None"
    "m' = m\<lparr>mk_connect := Some c, mk_connected := Some d\<rparr>"
  shows "order_ok u (ord\<lparr>mo_matches := AList.update k m' (mo_matches ord),
           mo_started_swaps := mo_started_swaps ord @ [k]\<rparr>)"
proof -
  let ?f = "\<lambda>m. mr_base_amount (mk_reserved m)"
  let ?ord = "ord\<lparr>mo_matches := AList.update k m' (mo_matches ord),
                 mo_started_swaps := mo_started_swaps ord @ [k]\<rparr>"
  have d: "distinct (map fst (mo_matches ord))" using assms(1) by (simp add: order_ok_def)
  have m: "(k, m) \<in> set (mo_matches ord)" using assms(2) by (rule map_of_SomeD)
  have "map (\<lambda>(k, m). (k, ?f m)) (mo_matches ?ord)
          = AList.update k (?f m') (map (\<lambda>(k, m). (k, ?f m)) (mo_matches ord))"
    by (simp add: map_update_snd)
  also have "\<dots> = map (\<lambda>(k, m). (k, ?f m)) (mo_matches ord)"
    using assms(2,4) d by (intro update_same) (simp_all add: map_of_map comp_def case_prod_beta)
  finally have "reserved_amount ?ord = reserved_amount ord" by (simp add: reserved_amount_conv)
  moreover have "k \<notin> connected_matches ord"
    using d m assms(3) by (auto simp: connected_matches_def dest: eq_key_imp_eq_value)
  moreover have "j \<in> connected_matches ?ord \<longleftrightarrow> j = k \<or> j \<in> connected_matches ord" for j
    using d assms(4) by (cases "j = k") (auto simp: connected_matches_def set_update_distinct)
  then have "connected_matches ?ord = insert k (connected_matches ord)" by blast
  moreover have "match_ok u (k, m')" using assms(1,4) m by (auto simp: order_ok_def match_ok_def)
  ultimately show ?thesis
    using assms(1) d by (auto simp: order_ok_def set_update_distinct distinct_update)
qed

lemma drop_matches_order_ok:
  assumes "order_ok u ord"
  shows "order_ok u (drop_timed_out_matches now ord)"
proof -
  let ?ord = "drop_timed_out_matches now ord"
  have "reserved_amount ?ord \<le> reserved_amount ord"
    using assms unfolding reserved_amount_conv
    by (auto simp: drop_timed_out_matches_def order_ok_def match_ok_def comp_def case_prod_beta
        intro!: sum_list_filter_le)
  moreover have "connected_matches ?ord = connected_matches ord"
    by (auto simp: connected_matches_def drop_timed_out_matches_def keeps_match_def)
  ultimately show ?thesis
    using assms by (auto simp: order_ok_def drop_timed_out_matches_def distinct_map_filter)
qed

lemma lower_volume_order_ok:
  assumes "order_ok u ord" "0 \<le> v"
  shows "order_ok u (ord\<lparr>mo_max_base_vol := reserved_amount ord + v\<rparr>)"
  using assms by (simp add: order_ok_def reserved_amount_def connected_matches_def)

end
