(* ===== verification/NodeSteps.thy ===== *)
theory NodeSteps
  imports NodeInv
begin

text \<open>
  Every handler, timer and request of a node keeps the invariant of its orders. Operations that add no
  order are related by \<open>keeps\<close>, which composes along the loops of the code.
\<close>

section \<open>Operations that add no order\<close>

definition keeps :: "om_state \<Rightarrow> om_state \<Rightarrow> bool" where
  "keeps st st' \<longleftrightarrow> (orders_ok st \<longrightarrow>
     orders_ok st' \<and> set (bases st') \<subseteq> set (bases st) \<and> om_taker_orders st' = om_taker_orders st)"

lemma keeps_refl [simp]: "keeps st st"
  by (simp add: keeps_def)

lemma keeps_trans [trans]: "keeps st1 st2 \<Longrightarrow> keeps st2 st3 \<Longrightarrow> keeps st1 st3"
  by (auto simp: keeps_def)

lemma keeps_frame: "orders_part st' = orders_part st \<Longrightarrow> keeps st st'"
  using orders_partD [of st' st] by (simp add: keeps_def bases_def)

lemma keeps_node_inv: "keeps st st' \<Longrightarrow> node_inv st \<Longrightarrow> node_inv st'"
proof -
  assume "keeps st st'" "node_inv st"
  then have *: "orders_ok st'" "set (bases st') \<subseteq> set (bases st)" "om_taker_orders st' = om_taker_orders st"
    and inv: "node_inv st" by (auto simp: keeps_def node_inv_def)
  have "fst ` set (om_orders st') \<subseteq> fst ` set (om_orders st)"
    using image_mono [OF *(2), of fst] by simp
  then have "fst ` set (om_orders st') \<inter> fst ` set (om_taker_orders st') = {}"
    using inv *(3) by (auto simp only: node_inv_def)
  then show "node_inv st'" using * inv by (simp add: node_inv_def takers_ok_def)
qed

lemma keeps_set_order:
  assumes "map_of (om_orders st) u = Some ord" "order_ok u ord \<Longrightarrow> order_ok u ord'" "mo_base ord' = mo_base ord"
  shows "keeps st (set_order u ord' st)"
proof -
  have "orders_ok (set_order u ord' st) \<and> bases (set_order u ord' st) = bases st" if ok: "orders_ok st"
  proof
    show "orders_ok (set_order u ord' st)"
      using set_order_orders_ok [OF ok assms(1) _ assms(3)] assms(2) orders_okD [OF ok assms(1)] by simp
    have "bases (set_order u ord' st) = AList.update u (mo_base ord') (bases st)"
      by (simp add: bases_def set_order_def map_update_snd)
    also have "\<dots> = bases st"
      using assms ok by (intro update_same) (simp_all add: map_of_bases orders_ok_def)
    finally show "bases (set_order u ord' st) = bases st" .
  qed
  then show ?thesis by (simp add: keeps_def set_order_def)
qed

lemma set_delete_subset: "set (AList.delete k al) \<subseteq> set al"
  by (auto simp: AList.delete_eq)

lemma keeps_remove_order: "keeps st (snd (remove_order u st))"
  unfolding keeps_def
proof
  assume ok: "orders_ok st"
  obtain r st' where rm: "remove_order u st = (r, st')" by (cases "remove_order u st") simp
  note * = remove_order_keys [OF ok rm]
  have "bases st' = AList.delete u (bases st)" using * by (simp add: bases_def map_delete_snd)
  then show "orders_ok (snd (remove_order u st)) \<and> set (bases (snd (remove_order u st))) \<subseteq> set (bases st) \<and>
      om_taker_orders (snd (remove_order u st)) = om_taker_orders st"
    using remove_order_orders_ok [OF ok, of u] * set_delete_subset [of u "bases st"] by (simp add: rm)
qed

lemma keeps_cancel_maker_order: "keeps st (fst (snd (cancel_maker_order e t u ord reason st)))"
proof -
  have "orders_part (fst (snd (cancel_maker_order e t u ord reason st))) = orders_part (snd (remove_order u st))"
    by (auto simp: cancel_maker_order_def dest!: orders_part_pairD split: option.splits prod.splits)
  from keeps_trans [OF keeps_remove_order keeps_frame [OF this]] show ?thesis .
qed

text \<open>A loop over orders as they were: a turn may rely on the coin of its order, if the order is still there.\<close>

definition same_base :: "om_state \<Rightarrow> uuid \<times> maker_order \<Rightarrow> bool" where
  "same_base st = (\<lambda>(u, ord). \<forall>b. (u, b) \<in> set (bases st) \<longrightarrow> b = mo_base ord)"

lemma same_base_keeps:
  assumes "orders_ok st" "keeps st st'" "same_base st x"
  shows "same_base st' x"
  using assms by (auto simp: same_base_def keeps_def)

lemma same_base_orders:
  assumes "orders_ok st" "x \<in> set (om_orders st)"
  shows "same_base st x"
proof -
  have "distinct (map fst (bases st))" using assms(1) by (simp add: orders_ok_def)
  moreover have "(fst x, mo_base (snd x)) \<in> set (bases st)"
    using assms(2) by (force simp: bases_def case_prod_beta)
  ultimately show ?thesis
    by (auto simp: same_base_def case_prod_beta simp del: fst_bases dest: eq_key_imp_eq_value)
qed

lemma fold_keeps:
  assumes "\<And>x st. x \<in> set xs \<Longrightarrow> orders_ok st \<Longrightarrow> same_base st x \<Longrightarrow> keeps st (g x st)"
    and "\<forall>x \<in> set xs. same_base st x"
  shows "keeps st (fold g xs st)"
  using assms
proof (induction xs arbitrary: st)
  case (Cons x xs)
  show ?case unfolding keeps_def
  proof
    assume ok: "orders_ok st"
    have k: "keeps st (g x st)" using Cons.prems ok by simp
    then have "orders_ok (g x st)" using ok by (simp add: keeps_def)
    have "keeps (g x st) (fold g xs (g x st))"
      using Cons.prems same_base_keeps [OF ok k] by (intro Cons.IH) auto
    from keeps_trans [OF k this] ok
    show "orders_ok (fold g (x # xs) st) \<and> set (bases (fold g (x # xs) st)) \<subseteq> set (bases st) \<and>
        om_taker_orders (fold g (x # xs) st) = om_taker_orders st"
      by (simp add: keeps_def)
  qed
qed simp

lemma fst_for_orders: "fst (for_orders f xs st) = fold (\<lambda>(u, ord) st. fst (f u ord st)) xs st"
  by (induction xs arbitrary: st) (auto simp: case_prod_beta Let_def)

lemma for_orders_keeps:
  assumes "\<And>u ord st. orders_ok st \<Longrightarrow> (u, ord) \<in> set xs \<Longrightarrow> same_base st (u, ord) \<Longrightarrow> keeps st (fst (f u ord st))"
    and "\<forall>x \<in> set xs. same_base st x"
  shows "keeps st (fst (for_orders f xs st))"
  unfolding fst_for_orders using assms by (intro fold_keeps) (auto split: prod.splits)

lemma keeps_ok: "(orders_ok st \<Longrightarrow> keeps st st') \<Longrightarrow> keeps st st'"
  by (auto simp: keeps_def)

lemma for_own_orders_keeps:
  assumes "\<And>u ord st'. orders_ok st \<Longrightarrow> orders_ok st' \<Longrightarrow> (u, ord) \<in> set (om_orders st) \<Longrightarrow>
      same_base st' (u, ord) \<Longrightarrow> keeps st' (fst (f u ord st'))"
  shows "keeps st (fst (for_orders f (om_orders st) st))"
proof (rule keeps_ok)
  assume "orders_ok st"
  then show ?thesis using assms same_base_orders by (intro for_orders_keeps) auto
qed

section \<open>Messages\<close>

lemma keeps_set_order_save:
  assumes "map_of (om_orders st) u = Some ord" "order_ok u ord \<Longrightarrow> order_ok u ord'" "mo_base ord' = mo_base ord"
  shows "keeps st (save_new_active_maker_order e t x (set_order u ord' st))"
  by (rule keeps_trans [OF keeps_set_order [OF assms] keeps_frame]) simp_all

lemma reserve_order_keeps:
  assumes "map_of (om_orders st) u = Some ord" "match_with_request ord req = Some (OM_Matched b q)"
  shows "keeps st (fst (reserve_order e t public_id req u ord b q st))"
proof -
  have "order_ok u (ord\<lparr>mo_matches := AList.update (tr_uuid req) m (mo_matches ord)\<rparr>)"
    if "order_ok u ord" "map_of (mo_matches ord) (tr_uuid req) = None" "mk_connect m = None"
       "mk_connected m = None" "mk_request m = req" "mr_base_amount (mk_reserved m) = b"
       "mr_rel_amount (mk_reserved m) = q" "mr_taker_order_uuid (mk_reserved m) = tr_uuid req"
       "mr_maker_order_uuid (mk_reserved m) = u" for m
  proof (rule add_match_order_ok)
    have "0 < mo_price ord" using that(1) by (simp add: order_ok_def)
    from match_terms [OF assms(2) this] match_with_request_positive [OF assms(2) this]
    show "match_ok u (tr_uuid req, m)" "mr_base_amount (mk_reserved m) \<le> available_amount ord"
      using that by (simp_all add: match_ok_def)
  qed (use that in auto)
  then show ?thesis
    using assms(1)
    by (auto simp: reserve_order_def Let_def split: sum.splits option.splits
        intro!: keeps_set_order_save)
qed

lemma request_orders_keeps:
  assumes "\<forall>(u, ord) \<in> set xs. map_of (om_orders st) u = Some ord"
    and "request_orders e t public_id req xs st = Some (st', fx)"
  shows "keeps st st'"
  using assms reserve_order_keeps [of st _ _ req _ _ e t public_id]
  by (induction xs) (force split: if_splits option.splits order_match_result.splits)+

lemma process_taker_request_keeps:
  assumes "process_taker_request e t from_pubkey req st = Some (st', fx)"
  shows "keeps st st'"
proof (rule keeps_ok)
  assume "orders_ok st"
  then have "\<forall>(u, ord) \<in> set (om_orders st). map_of (om_orders st) u = Some ord"
    by (auto simp: orders_ok_def)
  then show ?thesis
    using assms request_orders_keeps
    by (auto simp: process_taker_request_def split: option.splits if_splits)
qed

lemma request_orders_total:
  assumes "\<forall>(u, ord) \<in> set xs. order_ok u ord"
  shows "\<exists>r. request_orders e t public_id req xs st = Some r"
  using assms
proof (induction xs)
  case (Cons x xs)
  obtain u ord where x: "x = (u, ord)" by (cases x)
  then have "0 < mo_price ord" using Cons.prems by (auto simp: order_ok_def)
  from match_with_request_total [OF this, of req] Cons show ?case
    by (auto simp: x split: order_match_result.splits)
qed simp

lemma process_taker_request_total:
  "orders_ok st \<Longrightarrow> \<exists>r. process_taker_request e t from_pubkey req st = Some r"
  using request_orders_total by (auto simp: process_taker_request_def orders_ok_def split: option.splits)

lemma process_taker_connect_keeps:
  "keeps st (fst (process_taker_connect e t sender msg st))"
proof (rule keeps_ok)
  assume ok: "orders_ok st"
  show ?thesis
  proof (cases "map_of (om_orders st) (tc_maker_order_uuid msg)")
    case None
    then show ?thesis by (simp add: process_taker_connect_def split: option.splits)
  next
    case ord: (Some ord)
    then have ord_ok: "order_ok (tc_maker_order_uuid msg) ord" by (rule orders_okD [OF ok])
    show ?thesis
    proof (cases "map_of (mo_matches ord) (tc_taker_order_uuid msg)")
      case None
      then show ?thesis using ord by (simp add: process_taker_connect_def split: option.splits)
    next
      case (Some m)
      then have "tr_uuid (mk_request m) = tc_taker_order_uuid msg"
        using ord_ok by (auto simp: order_ok_def match_ok_def dest: map_of_SomeD)
      moreover have "keeps st st'"
        if "mk_connected m = None" and "orders_part st' = orders_part (set_order (tc_maker_order_uuid msg)
          (ord\<lparr>mo_matches := AList.update (tc_taker_order_uuid msg)
             (m\<lparr>mk_connect := Some msg, mk_connected := Some d\<rparr>) (mo_matches ord),
           mo_started_swaps := mo_started_swaps ord @ [tc_taker_order_uuid msg]\<rparr>) st)" for d st'
        using that(1) Some
        by (intro keeps_trans [OF keeps_set_order [OF ord] keeps_frame [OF that(2)]])
          (auto intro!: connect_match_order_ok)
      ultimately show ?thesis
        using ord Some
        by (auto simp: process_taker_connect_def Let_def dest!: orders_part_pairD split: option.splits prod.splits)
    qed
  qed
qed

text \<open>Changes of the list of taker orders.\<close>

lemma node_inv_frame: "orders_part st' = orders_part st \<Longrightarrow> node_inv st \<Longrightarrow> node_inv st'"
  using orders_partD(5) by blast

lemma orders_ok_takers [simp]: "orders_ok (st\<lparr>om_taker_orders := xs\<rparr>) = orders_ok st"
  by (simp add: orders_ok_def counts_ok_def bases_def)

lemma node_inv_update_taker:
  assumes "node_inv st" "map_of (om_taker_orders st) u = Some ord" "taker_ok u ord'"
  shows "node_inv (st\<lparr>om_taker_orders := AList.update u ord' (om_taker_orders st)\<rparr>)"
proof -
  have "distinct (map fst (om_taker_orders st))" using assms(1) by (simp add: node_inv_def takers_ok_def)
  moreover have "u \<in> fst ` set (om_taker_orders st)" using assms(2) by (force dest: map_of_SomeD)
  ultimately show ?thesis using assms(1,3)
    by (auto simp: node_inv_def takers_ok_def set_update_distinct distinct_update)
qed

lemma node_inv_fewer_takers:
  assumes "node_inv st" "distinct (map fst xs)" "set xs \<subseteq> set (om_taker_orders st)"
  shows "node_inv (st\<lparr>om_taker_orders := xs\<rparr>)"
  using assms by (auto simp: node_inv_def takers_ok_def)

lemma node_inv_delete_taker:
  "node_inv st \<Longrightarrow> node_inv (st\<lparr>om_taker_orders := AList.delete u (om_taker_orders st)\<rparr>)"
  by (rule node_inv_fewer_takers)
    (auto simp: AList.delete_eq node_inv_def takers_ok_def distinct_map_filter)

lemma process_maker_reserved_frame:
  "process_maker_reserved e from_pubkey r st = Some (st', b) \<Longrightarrow> orders_part st' = orders_part st"
  by (auto simp: process_maker_reserved_def Let_def split: if_splits option.splits)

lemma connect_to_node_inv:
  assumes "node_inv st" "map_of (om_taker_orders st) u = Some ord" "to_matches ord = []"
  shows "node_inv (fst (connect_to e t public_id u ord r st))"
proof -
  have "taker_ok u ord" using assms(1,2) by (auto simp: node_inv_def intro: takers_okD)
  then have ok: "taker_ok u (ord\<lparr>to_matches := [x]\<rparr>)" for x by (simp add: taker_ok_def)
  have "orders_part (fst (connect_to e t public_id u ord r st))
      = orders_part (st\<lparr>om_taker_orders := AList.update u (ord\<lparr>to_matches := [(mr_maker_order_uuid r,
          \<lparr>tk_reserved = r, tk_connect = \<lparr>tc_taker_order_uuid = mr_taker_order_uuid r,
             tc_maker_order_uuid = mr_maker_order_uuid r, tc_sender_pubkey = public_id,
             tc_dest_pub_key = mr_sender_pubkey r\<rparr>, tk_connected = None, tk_last_updated = now_ms e t\<rparr>)]\<rparr>)
          (om_taker_orders st)\<rparr>)"
    by (simp add: connect_to_def Let_def assms(3))
  from node_inv_frame [OF this node_inv_update_taker [OF assms(1,2) ok]] show ?thesis .
qed

lemma process_pending_reserved_node_inv:
  assumes "node_inv st" "process_pending_reserved e t u st = Some (st', fx)"
  shows "node_inv st'"
proof (cases "orders_part st' = orders_part st")
  case True
  then show ?thesis using assms(1) by (rule node_inv_frame)
next
  case False
  then obtain ord base_coin rel_coin rs r public_id where "map_of (om_taker_orders st) u = Some ord"
      "find (acceptable ord base_coin rel_coin) rs = Some r"
      "connect_to e t public_id u ord r (st\<lparr>om_pending := (om_pending st)(u := None)\<rparr>) = (st', fx)"
    using assms(2) by (auto simp: process_pending_reserved_def Let_def split: option.splits sum.splits prod.splits)
  moreover from this(2) have "to_matches ord = []"
    by (auto simp: acceptable_def Let_def find_Some_iff)
  moreover have "node_inv (st\<lparr>om_pending := (om_pending st)(u := None)\<rparr>)"
    by (rule node_inv_frame [OF _ assms(1)]) simp
  ultimately show ?thesis
    using connect_to_node_inv [of "st\<lparr>om_pending := (om_pending st)(u := None)\<rparr>" u ord e t public_id r] by simp
qed

lemma process_maker_connected_node_inv:
  assumes "node_inv st"
  shows "node_inv (fst (process_maker_connected e t from_pubkey c st))"
proof -
  have "node_inv st'" if "delete_my_taker_order e t ord TC_Fulfilled
      (st\<lparr>om_taker_orders := AList.delete u (om_taker_orders st)\<rparr>) = (st', fx)" for ord st' fx u
    using node_inv_frame [OF orders_part_pairD(2) [OF that] node_inv_delete_taker [OF assms]] .
  then show ?thesis using assms
    by (auto simp: process_maker_connected_def Let_def split: option.splits prod.splits)
qed

text \<open>A message of a peer never panics the node, but for the missing key of a node with taker orders.\<close>

lemma process_msg_total:
  assumes "node_inv st" "oe_public_key e \<noteq> None \<or> om_taker_orders st = []"
  shows "\<exists>r. process_msg e t is_banned i_am_relay pubkey message st = Some r"
proof -
  have "\<exists>r. process_taker_request e t from_pubkey req st = Some r" for from_pubkey req
    using assms(1) by (intro process_taker_request_total) (simp add: node_inv_def)
  moreover have "\<exists>x. process_maker_reserved e from_pubkey r st = Some x" for from_pubkey r
    using assms(2) by (auto simp: process_maker_reserved_def our_public_id_def Let_def)
  ultimately show ?thesis
    by (cases message) (auto simp: process_msg_def Let_def split: prod.splits sum.splits)
qed

lemma process_msg_node_inv:
  assumes "node_inv st" "process_msg e t is_banned i_am_relay pubkey message st = Some (r, st', fx)"
  shows "node_inv st'"
proof -
  have frame: "node_inv (on_book f st)" "node_inv (st\<lparr>om_orderbook := ob\<rparr>)" for f ob
    by (rule node_inv_frame [OF _ assms(1)]; simp)+
  have 1: "node_inv st'" if "process_taker_request e t from_pubkey req st = Some (st', fx)" for st' fx from_pubkey req
    using keeps_node_inv [OF process_taker_request_keeps [OF that] assms(1)] .
  have 2: "node_inv st'" if "process_taker_connect e t sender msg st = (st', fx)" for st' fx sender msg
    using keeps_node_inv [OF process_taker_connect_keeps assms(1), of e t sender msg] that by simp
  have 3: "node_inv st'" if "process_maker_reserved e from_pubkey r st = Some (st', b)" for st' b from_pubkey r
    using node_inv_frame [OF process_maker_reserved_frame [OF that] assms(1)] .
  have 4: "node_inv st'" if "process_maker_connected e t from_pubkey c st = (st', fx)" for st' fx from_pubkey c
    using process_maker_connected_node_inv [OF assms(1), of e t from_pubkey c] that by simp
  show ?thesis
    using assms 1 2 3 4 frame
    by (cases message) (auto simp: process_msg_def Let_def split: if_splits prod.splits sum.splits)
qed

section \<open>Timers and balances\<close>

text \<open>What the code relies on of the coins: transactions are not negative, trading volumes are positive.\<close>

definition coins_ok :: "om_env \<Rightarrow> bool" where
  "coins_ok e \<longleftrightarrow> (\<forall>t ticker c. oe_coin e t ticker = Inr (Some c) \<longrightarrow>
     0 \<le> c_min_tx_amount c \<and> 0 < c_min_trading_vol c)"

lemma find_pair_coins_ok:
  assumes "coins_ok e" "find_pair e t base rel = Inr (Some (b, r))"
  shows "0 \<le> c_min_tx_amount b \<and> 0 < c_min_trading_vol b \<and> 0 \<le> c_min_tx_amount r \<and> 0 < c_min_trading_vol r"
proof -
  have "oe_coin e t base = Inr (Some b)" "oe_coin e t rel = Inr (Some r)"
    using assms(2) by (auto simp: find_pair_def split: sum.splits option.splits)
  then show ?thesis using assms(1) by (auto simp: coins_ok_def)
qed

lemma mo_base_drop [simp]: "mo_base (drop_timed_out_matches now ord) = mo_base ord"
  by (simp add: drop_timed_out_matches_def)

lemma drop_timed_out_matches_keeps:
  assumes "\<forall>(u, ord) \<in> set xs. order_ok u ord \<and>
      (\<exists>cur. map_of (om_orders st) u = Some cur \<and> mo_base cur = mo_base ord)"
  shows "keeps st (fold (\<lambda>(u, ord) st.
         let ord' = drop_timed_out_matches now ord in
         if length (mo_matches ord') \<noteq> length (mo_matches ord)
         then save_new_active_maker_order e t ord' (set_order u ord' st) else st) xs st)"
    (is "keeps st (fold ?g xs st)")
  using assms
proof (induction xs arbitrary: st)
  case (Cons x xs)
  obtain u ord where x: "x = (u, ord)" by (cases x)
  let ?ord = "drop_timed_out_matches now ord"
  define st1 where "st1 = ?g x st"
  obtain cur where cur: "map_of (om_orders st) u = Some cur" "mo_base cur = mo_base ord" "order_ok u ord"
    using Cons.prems by (auto simp: x)
  have "keeps st (save_new_active_maker_order e t ?ord (set_order u ?ord st))"
    by (rule keeps_set_order_save [OF cur(1)])
      (use cur in \<open>simp_all add: drop_matches_order_ok\<close>)
  then have k1: "keeps st st1" by (simp add: st1_def x Let_def)
  have "map_of (om_orders st1) v =
      (if v = u \<and> length (mo_matches ?ord) \<noteq> length (mo_matches ord) then Some ?ord else map_of (om_orders st) v)" for v
    by (simp add: st1_def x Let_def save_new_active_maker_order_def set_order_def update_conv')
  then have "keeps st1 (fold ?g xs st1)"
    using Cons.prems cur by (intro Cons.IH) (fastforce split: if_splits)
  with k1 show ?case by (simp add: st1_def keeps_trans)
qed simp

lemma handle_timed_out_maker_matches_keeps: "keeps st (handle_timed_out_maker_matches e t st)"
proof (rule keeps_ok)
  assume "orders_ok st"
  then show ?thesis unfolding handle_timed_out_maker_matches_def
    by (intro drop_timed_out_matches_keeps) (auto simp: orders_ok_def)
qed

lemma check_balance_for_maker_orders_keeps: "keeps st (fst (check_balance_for_maker_orders e t st))"
  unfolding check_balance_for_maker_orders_def
  by (rule for_own_orders_keeps)
    (simp add: check_balance_for_maker_order_def keeps_cancel_maker_order)

lemma cancel_previous_maker_orders_keeps: "keeps st (fst (cancel_previous_maker_orders e t base rel st))"
  unfolding cancel_previous_maker_orders_def
  by (rule for_own_orders_keeps) (simp add: cancel_previous_order_def keeps_cancel_maker_order)

lemma balance_updated_order_keeps:
  assumes "orders_ok st" "order_ok u ord" "same_base st (u, ord)" "0 \<le> v"
  shows "keeps st (fst (balance_updated_order e t c v u ord st))"
proof -
  obtain cancelled st1 fx1 where 1: "(if v < mo_min_base_vol ord
      then cancel_maker_order e t u ord MC_InsufficientBalance st else (False, st, [])) = (cancelled, st1, fx1)"
    by (metis prod_cases3)
  have k1: "keeps st st1"
    using 1 keeps_cancel_maker_order [of st e t u ord MC_InsufficientBalance] by (auto split: if_splits)
  let ?ord = "ord\<lparr>mo_max_base_vol := reserved_amount ord + v\<rparr>"
  let ?st2 = "if map_of (om_orders st1) u = None then st1 else set_order u ?ord st1"
  have k2: "keeps st1 ?st2"
  proof (cases "map_of (om_orders st1) u")
    case (Some cur)
    then have "(u, mo_base cur) \<in> set (bases st1)" by (force simp: bases_def dest: map_of_SomeD)
    then have "mo_base cur = mo_base ord"
      using same_base_keeps [OF assms(1) k1 assms(3)] by (auto simp: same_base_def)
    then show ?thesis
      using Some lower_volume_order_ok [OF assms(2,4)] by (auto intro!: keeps_set_order [OF Some])
  qed simp
  have "keeps st st3" if "orders_part st3 = orders_part ?st2" for st3
    using keeps_trans [OF keeps_trans [OF k1 k2] keeps_frame [OF that]] .
  then show ?thesis
    using k1 1 by (auto simp: balance_updated_order_def Let_def dest!: orders_part_pairD split: prod.splits)
qed

lemma balance_updated_keeps:
  assumes "0 \<le> c_min_tx_amount c"
  shows "keeps st (fst (balance_updated e t c new_balance st))"
proof -
  have nonneg: "0 \<le> cv_volume info"
    if "calc_max_maker_vol ctx t (coin.truncate c) b stage = Inr info" for ctx b stage info
    using calc_max_maker_vol_InrD [OF that] assms by (auto simp: coin.defs)
  have "keeps st (fst (for_orders (balance_updated_order e t c v) (om_orders st) st))" if "0 \<le> v" for v
    using that by (intro for_own_orders_keeps balance_updated_order_keeps) (auto simp: orders_ok_def)
  then show ?thesis using nonneg by (auto simp: balance_updated_def split: sum.splits option.splits)
qed

section \<open>The loop\<close>

lemma kickstart_order_ok:
  assumes "coins_ok e" "order_ok u ord"
  shows "order_ok u (fst (kickstart_order e t ord))"
proof -
  have "order_ok u (ord\<lparr>mo_max_base_vol := reserved_amount ord + cv_volume info\<rparr>)"
    if "find_pair e t (mo_base ord) (mo_rel ord) = Inr (Some (base, rel))"
      "calc_max_maker_vol (oe_ctx e) t (coin.truncate base) b OrderIssue = Inr info" for base rel b info
    using calc_max_maker_vol_InrD [OF that(2)] find_pair_coins_ok [OF assms(1) that(1)]
    by (intro lower_volume_order_ok [OF assms(2)]) (auto simp: coin.defs)
  then show ?thesis
    using assms(2) by (auto simp: kickstart_order_def Let_def split: sum.splits option.splits)
qed

lemma kickstart_order_simps [simp]:
  "mo_base (fst (kickstart_order e t ord)) = mo_base ord"
  "mo_conf_settings (fst (kickstart_order e t ord)) = mo_conf_settings ord"
  by (auto simp: kickstart_order_def Let_def split: sum.splits option.splits)

lemma kickstart_missing_keeps:
  assumes "coins_ok e" "kickstart_missing e t us st = Some (to_cancel, st', fx)"
  shows "keeps st st'"
  using assms(2)
proof (induction us arbitrary: st to_cancel fx)
  case (Cons u us)
  show ?case
  proof (cases "map_of (om_orders st) u")
    case None
    then show ?thesis using Cons by simp
  next
    case (Some ord)
    obtain ord' r where k: "kickstart_order e t ord = (ord', r)" by (cases "kickstart_order e t ord")
    have k1: "keeps st (set_order u ord' st)"
      using kickstart_order_ok [OF assms(1), of u ord t] kickstart_order_simps [of e t ord]
      by (intro keeps_set_order [OF Some]) (simp_all add: k)
    have k2: "keeps st st2" if "maker_order_created_p2p_notify e t ord' b q (set_order u ord' st) = Some (st2, fx2)"
      for b q st2 fx2 using keeps_trans [OF k1 keeps_frame [OF orders_part_created [OF that]]] .
    show ?thesis
      using Cons.prems Cons.IH k1 k2
      by (auto simp: Some k Let_def split: kickstart_result.splits option.splits
          intro: keeps_trans [OF k1] keeps_trans [OF k2])
  qed
qed simp

lemma kickstart_missing_total:
  assumes "oe_public_key e \<noteq> None" "coins_ok e" "orders_ok st"
  shows "\<exists>r. kickstart_missing e t us st = Some r"
  using assms(3)
proof (induction us arbitrary: st)
  case (Cons u us)
  show ?case
  proof (cases "map_of (om_orders st) u")
    case None
    then show ?thesis using Cons by simp
  next
    case (Some ord)
    obtain ord' r where k: "kickstart_order e t ord = (ord', r)" by (cases "kickstart_order e t ord")
    have ok: "order_ok u ord" using Cons.prems Some by (rule orders_okD)
    then have ok': "order_ok u ord'" "mo_base ord' = mo_base ord"
      using kickstart_order_ok [OF assms(2) ok, of t] kickstart_order_simps [of e t ord] by (simp_all add: k)
    have o1: "orders_ok (set_order u ord' st)" using Cons.prems Some ok' by (rule set_order_orders_ok)
    have created: "\<exists>st2 fx2. maker_order_created_p2p_notify e t ord' b q (set_order u ord' st) = Some (st2, fx2) \<and>
        orders_ok st2" for b q
    proof -
      obtain st2 fx2 where *: "maker_order_created_p2p_notify e t ord' b q (set_order u ord' st) = Some (st2, fx2)"
        using maker_order_created_p2p_notify_total [OF _ assms(1)] ok'(1) by (metis order_ok_def)
      then have "orders_ok st2" using o1 orders_partD(3) [OF orders_part_created [OF *]] by simp
      then show ?thesis using * by blast
    qed
    show ?thesis
    proof (cases r)
      case (KickstartAnnounce base rel)
      obtain st2 fx2 where *: "maker_order_created_p2p_notify e t ord' (c_coin_protocol_info base None)
          (c_coin_protocol_info rel (Some (mo_max_base_vol ord' * mo_price ord'))) (set_order u ord' st)
            = Some (st2, fx2)" "orders_ok st2"
        using created by blast
      then show ?thesis using Cons.IH [OF *(2)] by (auto simp: Some k KickstartAnnounce)
    qed (use Cons.IH [OF o1] in \<open>auto simp: Some k\<close>)
  qed
qed simp

lemma cancel_unfunded_keeps: "keeps st (fst (cancel_unfunded e t us st))"
proof (induction us arbitrary: st)
  case (Cons u us)
  obtain r st1 where rm: "remove_order u st = (r, st1)" by (cases "remove_order u st")
  have k1: "keeps st st1" using keeps_remove_order [of st u] by (simp add: rm)
  have "keeps st (fst (cancel_unfunded e t us st2))" if "orders_part st2 = orders_part st1" for st2
    using keeps_trans [OF keeps_trans [OF k1 keeps_frame [OF that]] Cons.IH] .
  then show ?case
    by (auto simp: rm Let_def case_prod_beta split: option.splits)
qed simp

end
