(* ===== verification/NodeRequests.thy ===== *)
theory NodeRequests
  imports NodeSteps
begin

text \<open>
  The operations that add orders or are asked for by the user keep the invariant too; the steps of a
  node, and the states they lead to.
\<close>

section \<open>Taker orders that become maker orders\<close>

lemma maker_order_from_taker_ok:
  assumes "taker_ok u ord"
  shows "\<exists>m. maker_order_from_taker now ord = Some m \<and> order_ok u m"
proof -
  let ?q = "to_request ord"
  have "tr_uuid ?q = u" "0 < tr_base_amount ?q" "0 < tr_rel_amount ?q" "tr_conf_settings ?q \<noteq> None"
    using assms by (simp_all add: taker_ok_def)
  then show ?thesis
    by (cases "tr_action ?q")
      (simp_all add: maker_order_from_taker_def Let_def mm_div_def order_ok_def reserved_amount_def
        connected_matches_def)
qed

lemma time_out_taker_order_ok:
  assumes "time_out_taker_order e t u ord st = Some (st', fx)" "taker_ok u ord" "orders_ok st"
    "u \<notin> fst ` set (om_orders st)"
  shows "orders_ok st' \<and> fst ` set (om_orders st') \<subseteq> insert u (fst ` set (om_orders st)) \<and>
    om_taker_orders st' = om_taker_orders st"
proof (cases "to_matches ord \<noteq> [] \<or> to_order_type ord \<noteq> GoodTillCancelled")
  case True
  then have "orders_part st' = orders_part st"
    using assms(1) orders_part_pairD(2) by (auto simp: time_out_taker_order_def)
  from orders_partD [OF this] assms(3) show ?thesis by auto
next
  case False
  obtain st1 fx1 where 1: "delete_my_taker_order e t ord TC_ToMaker st = (st1, fx1)" by fastforce
  obtain m where m: "maker_order_from_taker (now_ms e t) ord = Some m" "order_ok u m"
    using maker_order_from_taker_ok [OF assms(2)] by blast
  have u: "mo_uuid m = u" using m(2) by (simp add: order_ok_def)
  have fx: "orders_part st' = orders_part (add_order m st1)"
    using assms(1) False 1 m(1)
    by (auto simp: time_out_taker_order_def Let_def dest!: orders_part_created split: sum.splits option.splits)
  note st1 = orders_partD [OF orders_part_pairD(2) [OF 1]]
  have "orders_ok (add_order m st1)"
    using st1 assms(3,4) m(2) by (intro add_order_orders_ok [of _ u]) simp_all
  then show ?thesis
    using orders_partD [OF fx] st1
    by (simp add: add_order_def u dom_update)
qed

lemma time_out_taker_order_total:
  assumes "taker_ok u ord" "oe_public_key e \<noteq> None"
  shows "\<exists>st' fx. time_out_taker_order e t u ord st = Some (st', fx)"
proof -
  obtain m where m: "maker_order_from_taker (now_ms e t) ord = Some m" "order_ok u m"
    using maker_order_from_taker_ok [OF assms(1)] by blast
  have "\<exists>st' fx. maker_order_created_p2p_notify e t m b q st = Some (st', fx)" for b q st
    using m(2) by (intro maker_order_created_p2p_notify_total [OF _ assms(2)]) (simp add: order_ok_def)
  then show ?thesis
    by (cases "delete_my_taker_order e t ord TC_ToMaker st")
      (auto simp: time_out_taker_order_def m(1) Let_def split: sum.splits option.splits)
qed

lemma time_out_taker_orders_ok:
  assumes "time_out_taker_orders e t xs st = Some (st', fx)" "orders_ok st"
    "\<forall>(u, ord) \<in> set xs. taker_ok u ord" "distinct (map fst xs)"
    "fst ` set xs \<inter> fst ` set (om_orders st) = {}"
  shows "orders_ok st' \<and> om_taker_orders st' = om_taker_orders st \<and>
    fst ` set (om_orders st') \<subseteq>
      fst ` set (om_orders st) \<union> {u. \<exists>ord. (u, ord) \<in> set xs \<and> is_timed_out (now_ms e t) ord}"
  using assms
proof (induction xs arbitrary: st fx)
  case (Cons x xs)
  obtain u ord where x: "x = (u, ord)" by (cases x)
  show ?case
  proof (cases "is_timed_out (now_ms e t) ord")
    case False
    then have "time_out_taker_orders e t xs st = Some (st', fx)" using Cons.prems(1) by (simp add: x)
    from Cons.IH [OF this] Cons.prems show ?thesis by auto
  next
    case True
    obtain st1 fx1 fx2 where 1: "time_out_taker_order e t u ord st = Some (st1, fx1)"
        "time_out_taker_orders e t xs st1 = Some (st', fx2)"
      using Cons.prems(1) True by (auto simp: x split: option.splits prod.splits)
    have ok: "orders_ok st1" "fst ` set (om_orders st1) \<subseteq> insert u (fst ` set (om_orders st))"
        "om_taker_orders st1 = om_taker_orders st"
      using time_out_taker_order_ok [OF 1(1)] Cons.prems by (auto simp: x)
    have "fst ` set xs \<inter> fst ` set (om_orders st1) = {}"
      using ok(2) Cons.prems(4,5) by (simp add: x) blast
    moreover have "\<forall>(u, ord) \<in> set xs. taker_ok u ord" "distinct (map fst xs)"
      using Cons.prems(3,4) by simp_all
    ultimately have "orders_ok st'" "om_taker_orders st' = om_taker_orders st"
        "fst ` set (om_orders st') \<subseteq>
           fst ` set (om_orders st1) \<union> {u. \<exists>ord. (u, ord) \<in> set xs \<and> is_timed_out (now_ms e t) ord}"
      using Cons.IH [OF 1(2) ok(1)] ok(3) by simp_all
    moreover have "insert u {u. \<exists>ord. (u, ord) \<in> set xs \<and> is_timed_out (now_ms e t) ord} \<subseteq>
        {u. \<exists>ord. (u, ord) \<in> set (x # xs) \<and> is_timed_out (now_ms e t) ord}"
      using True by (auto simp: x)
    ultimately show ?thesis using ok(2) by blast
  qed
qed simp

lemma time_out_taker_orders_total:
  assumes "\<forall>(u, ord) \<in> set xs. taker_ok u ord" "oe_public_key e \<noteq> None"
  shows "\<exists>st' fx. time_out_taker_orders e t xs st = Some (st', fx)"
  using assms(1)
proof (induction xs arbitrary: st)
  case (Cons x xs)
  obtain u ord where x: "x = (u, ord)" by (cases x)
  obtain st1 fx1 where "time_out_taker_order e t u ord st = Some (st1, fx1)"
    using time_out_taker_order_total [of u ord e t st] Cons.prems assms(2) by (auto simp: x)
  moreover have "\<exists>st' fx. time_out_taker_orders e t xs st = Some (st', fx)" for st
    using Cons by simp
  ultimately show ?case by (auto simp: x)
qed simp

lemma handle_timed_out_taker_orders_node_inv:
  assumes "node_inv st" "handle_timed_out_taker_orders e t st = Some (st', fx)"
  shows "node_inv st'"
proof -
  let ?keep = "filter (\<lambda>(_, ord). \<not> is_timed_out (now_ms e t) ord) (om_taker_orders st)"
  obtain st1 fx1 where 1: "time_out_taker_orders e t (om_taker_orders st) st = Some (st1, fx1)"
      "st' = st1\<lparr>om_taker_orders := ?keep\<rparr>"
    using assms(2) by (auto simp: handle_timed_out_taker_orders_def)
  have d: "distinct (map fst (om_taker_orders st))" using assms(1) by (simp add: node_inv_def takers_ok_def)
  have inv: "orders_ok st" "fst ` set (om_orders st) \<inter> fst ` set (om_taker_orders st) = {}"
      "\<forall>(u, ord) \<in> set (om_taker_orders st). taker_ok u ord"
    using assms(1) by (auto simp only: node_inv_def takers_ok_def)
  have ok: "orders_ok st1"
      "fst ` set (om_orders st1) \<subseteq> fst ` set (om_orders st) \<union>
         {u. \<exists>ord. (u, ord) \<in> set (om_taker_orders st) \<and> is_timed_out (now_ms e t) ord}"
    using time_out_taker_orders_ok [OF 1(1) inv(1,3) d] inv(2) by (auto simp: Int_commute)
  have "fst ` set (om_orders st1) \<inter> fst ` set ?keep = {}"
  proof (rule equals0I, elim IntE)
    fix u assume u: "u \<in> fst ` set (om_orders st1)" and "u \<in> fst ` set ?keep"
    then obtain ord where ord: "(u, ord) \<in> set (om_taker_orders st)" "\<not> is_timed_out (now_ms e t) ord" by auto
    then have "u \<notin> fst ` set (om_orders st)" using inv(2) by force
    then obtain ord' where "(u, ord') \<in> set (om_taker_orders st)" "is_timed_out (now_ms e t) ord'"
      using u ok(2) by blast
    then show False using ord eq_key_imp_eq_value [OF d] by blast
  qed
  moreover have "takers_ok st'"
    using d inv(3) by (auto simp: 1(2) takers_ok_def distinct_map_filter)
  ultimately show ?thesis using ok(1) by (simp add: node_inv_def 1(2))
qed

lemma handle_timed_out_taker_orders_total:
  assumes "node_inv st" "oe_public_key e \<noteq> None"
  shows "\<exists>st' fx. handle_timed_out_taker_orders e t st = Some (st', fx)"
  using time_out_taker_orders_total [OF _ assms(2), of "om_taker_orders st" t st] assms(1)
  by (auto simp: handle_timed_out_taker_orders_def node_inv_def takers_ok_def)

text \<open>A whole turn of the loop keeps the invariant and never panics.\<close>

lemma ordermatch_loop_turn_node_inv:
  assumes "node_inv st" "coins_ok e" "ordermatch_loop_turn e t my_pubsecp timeout st = Some (st', fx)"
  shows "node_inv st'"
proof -
  obtain st1 fx1 where 1: "handle_timed_out_taker_orders e t st = Some (st1, fx1)"
    using assms(3) by (auto simp: ordermatch_loop_turn_def bind_eq_Some_conv)
  define st3 where "st3 = fst (check_balance_for_maker_orders e t (handle_timed_out_maker_matches e t st1))"
  define st4 where "st4 = on_book (remove_silent_makers (oe_trie e) (now_sec e t) (oe_instant e t) my_pubsecp timeout) st3"
  obtain to_cancel st5 fx5 where 5: "kickstart_missing e t (missing_uuids st4) st4 = Some (to_cancel, st5, fx5)"
      "st' = fst (cancel_unfunded e t to_cancel st5)"
    using assms(3) by (auto simp: ordermatch_loop_turn_def 1 bind_eq_Some_conv st3_def st4_def Let_def case_prod_beta)
  have "keeps st1 st3" unfolding st3_def
    by (rule keeps_trans [OF handle_timed_out_maker_matches_keeps check_balance_for_maker_orders_keeps])
  also have "keeps st3 st4" by (rule keeps_frame) (simp add: st4_def)
  also have "keeps st4 st5" using kickstart_missing_keeps [OF assms(2) 5(1)] .
  also have "keeps st5 st'" unfolding 5(2) by (rule cancel_unfunded_keeps)
  finally show ?thesis
    using keeps_node_inv handle_timed_out_taker_orders_node_inv [OF assms(1) 1] by blast
qed

lemma ordermatch_loop_turn_total:
  assumes "node_inv st" "coins_ok e" "oe_public_key e \<noteq> None"
  shows "\<exists>st' fx. ordermatch_loop_turn e t my_pubsecp timeout st = Some (st', fx)"
proof -
  obtain st1 fx1 where 1: "handle_timed_out_taker_orders e t st = Some (st1, fx1)"
    using handle_timed_out_taker_orders_total [OF assms(1,3)] by blast
  define st3 where "st3 = fst (check_balance_for_maker_orders e t (handle_timed_out_maker_matches e t st1))"
  define st4 where "st4 = on_book (remove_silent_makers (oe_trie e) (now_sec e t) (oe_instant e t) my_pubsecp timeout) st3"
  have "keeps st1 st4"
    unfolding st3_def st4_def
    by (rule keeps_trans [OF handle_timed_out_maker_matches_keeps
          keeps_trans [OF check_balance_for_maker_orders_keeps keeps_frame]]) simp
  moreover have "orders_ok st1"
    using handle_timed_out_taker_orders_node_inv [OF assms(1) 1] by (simp add: node_inv_def)
  ultimately have "orders_ok st4" by (simp add: keeps_def)
  then obtain r where "kickstart_missing e t (missing_uuids st4) st4 = Some r"
    using kickstart_missing_total [OF assms(3,2)] by blast
  then show ?thesis
    by (cases r) (auto simp: ordermatch_loop_turn_def 1 st3_def st4_def Let_def case_prod_beta)
qed

section \<open>New maker orders\<close>

lemma orders_part_add_order:
  "orders_part st' = orders_part st \<Longrightarrow> orders_part (add_order ord st') = orders_part (add_order ord st)"
  by (simp add: orders_part_def add_order_def)

lemma node_inv_add_order:
  assumes "node_inv st" "order_ok u ord" "u \<notin> fst ` set (om_orders st)" "u \<notin> fst ` set (om_taker_orders st)"
  shows "node_inv (add_order ord st)"
proof -
  have "mo_uuid ord = u" using assms(2) by (simp add: order_ok_def)
  then have "om_taker_orders (add_order ord st) = om_taker_orders st"
    "fst ` set (om_orders (add_order ord st)) = insert u (fst ` set (om_orders st))"
    by (simp_all add: add_order_def dom_update)
  then show ?thesis
    using assms add_order_orders_ok [of st u ord] by (simp add: node_inv_def takers_ok_def)
qed

lemma place_maker_order_cases:
  assumes "place_maker_order e t base_coin rel_coin ord st = Some (r, st', fx)"
  shows "orders_part st' = orders_part st \<or> orders_part st' = orders_part (add_order ord st)"
proof -
  obtain st1 fx1 saved st2 fx2 where
    1: "subscribe_to_orderbook_topic e t (mo_base_ticker ord) (mo_rel_ticker ord) st = (st1, fx1)" and
    2: "save_my_new_maker_order e t ord st1 = (saved, st2, fx2)" by (metis prod_cases3 surj_pair)
  have eq: "orders_part st2 = orders_part st"
    using orders_part_pairD(8) [OF 1] orders_part_pairD(5) [OF 2] by simp
  show ?thesis
  proof (cases saved)
    case None
    then obtain st3 fx3 b q where 3: "maker_order_created_p2p_notify e t ord b q st2 = Some (st3, fx3)"
        "st' = add_order ord st3"
      using assms by (auto simp: place_maker_order_def 1 2)
    from orders_part_add_order [OF trans [OF orders_part_created [OF 3(1)] eq]] show ?thesis by (simp add: 3(2))
  next
    case (Some err)
    then show ?thesis using assms eq by (auto simp: place_maker_order_def 1 2)
  qed
qed

lemma cancel_orders_on_error_keeps: "keeps st (fst (cancel_orders_on_error e t req st))"
  by (simp add: cancel_orders_on_error_def cancel_previous_maker_orders_keeps)

lemma set_price_volume_keeps:
  "set_price_volume e t req base_coin rel_coin st = (r, st', fx) \<Longrightarrow> keeps st st'"
  using cancel_orders_on_error_keeps [of st e t req]
  by (auto simp: set_price_volume_def split: if_splits sum.splits)

lemma maker_order_build_ok:
  assumes "maker_order_build d b = Some (Inr ord)" "0 < c_min_trading_vol (mb_base_coin b)"
  shows "order_ok (dr_uuid d) ord"
proof -
  obtain v where v: "ord = maker_order_of_builder d b v" "1 / 100000000 \<le> mb_price b" "mb_conf_settings b \<noteq> None"
      "validate_max_vol (c_min_trading_vol (mb_base_coin b)) (c_min_trading_vol (mb_rel_coin b))
         (mb_max_base_vol b) (mb_min_base_vol b) (mb_price b) = Inr ()"
    using maker_order_build_InrD [OF assms(1)] by blast
  then have "0 \<le> mb_max_base_vol b" using validate_max_vol_InrD [OF v(4)] assms(2) by simp
  moreover have "0 < mb_price b" using v(2) by (rule less_le_trans [rotated]) simp
  ultimately show ?thesis using v(3)
    by (simp add: v(1) order_ok_def maker_order_of_builder_def reserved_amount_def connected_matches_def)
qed

lemma maker_order_build_total: "\<exists>r. maker_order_build d b = Some r"
  by (auto simp: maker_order_build_def Let_def validate_price_def validate_and_get_min_vol_def mm_div_def
      split: sum.splits option.splits)

lemma keeps_fresh:
  assumes "keeps st st'" "node_inv st" "u \<notin> fst ` set (om_orders st)" "u \<notin> fst ` set (om_taker_orders st)"
  shows "u \<notin> fst ` set (om_orders st') \<and> u \<notin> fst ` set (om_taker_orders st')"
proof -
  have "set (bases st') \<subseteq> set (bases st)" "om_taker_orders st' = om_taker_orders st"
    using assms(1,2) by (simp_all add: keeps_def node_inv_def)
  from image_mono [OF this(1), of fst] this(2) assms(3,4) show ?thesis by auto
qed

lemma mb_simps [simp]:
  "mb_base_coin (set_price_builder st req base_coin rel_coin volume) = base_coin"
  "mb_conf_settings (set_price_builder st req base_coin rel_coin volume) \<noteq> None"
  by (simp_all add: set_price_builder_def maker_order_builder_new_def)

lemma create_maker_order_node_inv:
  assumes "node_inv st" "coins_ok e" "create_maker_order e t req st = Some (r, st', fx)"
    and fresh: "oe_uuid e t \<notin> fst ` set (om_orders st)" "oe_uuid e t \<notin> fst ` set (om_taker_orders st)"
  shows "node_inv st'"
proof -
  have place: "node_inv st3"
    if "set_price_volume e t req b c st = (y, st1, fx1)" "cancel_orders_on_error e t req st1 = (st2, fx2)" "oe_coin e t ticker = Inr (Some b)"
      "maker_order_build (draws_at e t) (set_price_builder st2 req b c v) = Some (Inr ord)"
      "place_maker_order e t b c ord st2 = Some (x, st3, fx3)" for y st1 fx1 st2 fx2 st3 fx3 ticker b c v ord x
  proof -
    have k: "keeps st st2"
      using keeps_trans [OF set_price_volume_keeps [OF that(1)] cancel_orders_on_error_keeps, of e t req] that(2) by simp
    have "order_ok (oe_uuid e t) ord"
      using maker_order_build_ok [OF that(4)] that(3) assms(2) by (auto simp: draws_at_def coins_ok_def)
    from node_inv_add_order [OF keeps_node_inv [OF k assms(1)] this]
    show ?thesis
      using keeps_fresh [OF k assms(1) fresh] place_maker_order_cases [OF that(5)]
        keeps_node_inv [OF k assms(1)] node_inv_frame by blast
  qed
  have 1: "node_inv st1" if "set_price_volume e t req b c st = (x, st1, fx1)" for b c x st1 fx1
    using keeps_node_inv [OF set_price_volume_keeps [OF that] assms(1)] .
  have 2: "node_inv st2" if "set_price_volume e t req b c st = (x, st1, fx1)"
      "cancel_orders_on_error e t req st1 = (st2, fx2)" for b c x st1 fx1 st2 fx2
    using keeps_node_inv [OF cancel_orders_on_error_keeps 1 [OF that(1)], of e t req] that(2) by simp
  show ?thesis
    using assms(1,3)
    by (auto simp: create_maker_order_def intro: place 1 2
        split: sum.split_asm option.split_asm if_split_asm prod.split_asm Option.bind_split_asm)
qed

section \<open>Updates and cancellations\<close>

text \<open>The fields of an update message under its setters.\<close>

lemma update_message_simps [simp]:
  "new_price (with_new_price p m) = Some p"
  "new_price (with_new_max_volume v m) = new_price m"
  "new_price (with_new_min_volume v m) = new_price m"
  "new_price (with_new_conf_settings c m) = new_price m"
  "new_max_volume (with_new_price p m) = new_max_volume m"
  "new_max_volume (with_new_max_volume v m) = Some v"
  "new_max_volume (with_new_min_volume v m) = new_max_volume m"
  "new_max_volume (with_new_conf_settings c m) = new_max_volume m"
  "new_min_volume (with_new_price p m) = new_min_volume m"
  "new_min_volume (with_new_max_volume v m) = new_min_volume m"
  "new_min_volume (with_new_min_volume v m) = Some v"
  "new_min_volume (with_new_conf_settings c m) = new_min_volume m"
  "new_price (maker_order_updated_new u now) = None"
  "new_max_volume (maker_order_updated_new u now) = None"
  "new_min_volume (maker_order_updated_new u now) = None"
  by (cases m; simp add: maker_order_updated_new_def)+

lemma update_volume_message:
  assumes "update_volume e t req base_coin rel_coin ord = Inr (v, announce)"
  shows "\<not> announce \<longrightarrow> v = mo_max_base_vol ord"
  using assms by (auto simp: update_volume_def Let_def split: if_splits sum.splits option.splits)

lemma update_maker_order_checks_ok:
  assumes "update_maker_order_checks e t req ord = Some (Inr (msg, v))" "order_ok u ord"
  shows "order_ok u (mo_apply_updated now msg ord) \<and> v = mo_max_base_vol (mo_apply_updated now msg ord) \<and>
    reserved_amount ord < v"
proof -
  obtain conf base_coin rel_coin msg1 price actual announce where
    pr: "case ur_new_price req of Some p \<Rightarrow> 1 / 100000000 \<le> p \<and> new_price msg = Some p | None \<Rightarrow> new_price msg = None"
    and vol: "update_volume e t req base_coin rel_coin ord = Inr (v, announce)" "reserved_amount ord < v"
      "new_max_volume msg = (if announce then Some v else None)"
    using assms(1)
    by (auto simp: update_maker_order_checks_def Let_def validate_price_Inr_iff
        split: if_split_asm sum.split_asm option.split_asm Option.bind_split_asm prod.split_asm)
  have "0 < mo_price (mo_apply_updated now msg ord)"
    using pr assms(2) by (auto simp: mo_apply_updated_def order_ok_def split: option.splits)
  moreover have "v = mo_max_base_vol (mo_apply_updated now msg ord)"
    using vol update_volume_message [OF vol(1)] by (auto simp: mo_apply_updated_def)
  moreover have "reserved_amount (mo_apply_updated now msg ord) = reserved_amount ord"
    "connected_matches (mo_apply_updated now msg ord) = connected_matches ord"
    by (simp_all add: mo_apply_updated_def reserved_amount_def connected_matches_def)
  moreover have "mo_conf_settings (mo_apply_updated now msg ord) \<noteq> None"
    using assms(2) by (auto simp: mo_apply_updated_def order_ok_def split: option.splits)
  ultimately show ?thesis
    using assms(2) vol(2) by (auto simp: order_ok_def) (simp_all add: mo_apply_updated_def)
qed

lemma update_maker_order_commit_keeps:
  assumes "update_maker_order_checks e t req before = Some (Inr (msg, v))"
  shows "keeps st (fst (snd (update_maker_order_commit e t' u before msg v st)))"
proof (rule keeps_ok)
  assume ok: "orders_ok st"
  show ?thesis
  proof (cases "map_of (om_orders st) u = Some before")
    case True
    let ?ord = "mo_apply_updated (now_ms e t') msg before"
    have before: "order_ok u before" using ok True by (rule orders_okD)
    have base: "mo_base ?ord = mo_base before" by (simp add: mo_apply_updated_def)
    have k1: "keeps st (set_order u ?ord st)"
      using update_maker_order_checks_ok [OF assms] base by (intro keeps_set_order [OF True]) simp_all
    obtain saved st1 fx1 where saved: "save_maker_order_on_update e t' ?ord (set_order u ?ord st) = (saved, st1, fx1)"
      by (metis prod_cases3)
    note part = orders_part_pairD(7) [OF saved]
    have k2: "keeps st st1" using keeps_trans [OF k1 keeps_frame [OF part]] .
    have "map_of (om_orders st1) u = Some ?ord"
      using orders_partD(1) [OF part] by (simp add: set_order_def update_conv')
    from keeps_trans [OF k2 keeps_set_order [OF this]]
    have k3: "keeps st (set_order u before st1)" using before base by simp
    have k4: "keeps st st2" if "orders_part st2 = orders_part st1" for st2
      using keeps_trans [OF k2 keeps_frame [OF that]] .
    show ?thesis
      using True k3 k4
      by (auto simp: update_maker_order_commit_def saved Let_def dest!: orders_part_pairD
          split: option.splits prod.splits)
  qed (auto simp: update_maker_order_commit_def split: option.splits)
qed

lemma update_maker_order_node_inv:
  assumes "node_inv st'" "update_maker_order e t t' req st st' = Some (r, st'', fx)"
  shows "node_inv st''"
proof (cases "map_of (om_orders st) (ur_uuid req)")
  case (Some ord)
  have "node_inv st''" if "update_maker_order_checks e t req ord = Some (Inr (msg, v))"
      "update_maker_order_commit e t' (ur_uuid req) ord msg v st' = (r, st'', fx)" for msg v
    using keeps_node_inv [OF update_maker_order_commit_keeps [OF that(1)] assms(1), of t' "ur_uuid req"] that(2) by simp
  moreover obtain x where "update_maker_order_checks e t req ord = Some x"
    using assms(2) by (auto simp: update_maker_order_def Some)
  ultimately show ?thesis using assms
    by (cases x) (auto simp: update_maker_order_def Some split: prod.split_asm)
qed (use assms in \<open>auto simp: update_maker_order_def\<close>)

lemma update_maker_order_checks_total:
  assumes "order_ok u ord"
  shows "\<exists>r. update_maker_order_checks e t req ord = Some r"
proof -
  obtain conf where conf: "mo_conf_settings ord = Some conf" "0 < mo_price ord"
    using assms by (auto simp: order_ok_def)
  have "\<exists>r. validate_and_get_min_vol a b m p = Some r" if "0 < p" for a b m p
    using that by (simp add: validate_and_get_min_vol_def Let_def mm_div_def)
  moreover have "0 < p" if "validate_price p = Inr x" for p x
    using that less_le_trans [of 0 "1 / 100000000" p] by (simp add: validate_price_Inr_iff)
  ultimately have v: "\<exists>r. validate_and_get_min_vol a b m p = Some r"
    if "validate_price p = Inr x \<or> p = mo_price ord" for a b m p x
    using that conf(2) by blast
  have v': "validate_and_get_min_vol a b m p \<noteq> None" if "validate_price p = Inr x \<or> p = mo_price ord" for a b m p x
    using v [OF that] by blast
  have "update_maker_order_checks e t req ord \<noteq> None"
  proof
    assume "update_maker_order_checks e t req ord = None"
    then show False using v' conf(1)
      by (auto simp: update_maker_order_checks_def Let_def simp del: not_None_eq
          split: if_split_asm sum.split_asm option.split_asm Option.bind_split_asm prod.split_asm)
  qed
  then show ?thesis by blast
qed

lemma cancel_order_node_inv:
  assumes "node_inv st" "cancel_order e t u st = (r, st', fx)"
  shows "node_inv st'"
proof -
  have 1: "node_inv (fst (snd (cancel_maker_order e t v ord reason st)))" for v ord reason
    using keeps_node_inv [OF keeps_cancel_maker_order assms(1)] .
  have 2: "node_inv (fst (delete_my_taker_order e t ord TC_Cancelled
      (st\<lparr>om_taker_orders := AList.delete u (om_taker_orders st)\<rparr>)))" for ord
    by (rule node_inv_frame [OF orders_part_frame2(2) node_inv_delete_taker [OF assms(1)]])
  show ?thesis
    using assms 1 2 by (auto simp: cancel_order_def split: option.splits if_splits) (metis fst_conv snd_conv)+
qed

lemma cancelled_frame:
  "orders_part (fst (for_orders (cancelled_maker_order e t) xs st)) = orders_part st"
  "orders_part (fst (delete_taker_orders e t ys st)) = orders_part st"
proof -
  have "orders_part (fst (cancelled_maker_order e t u ord st)) = orders_part st" for u ord st
    by (simp add: cancelled_maker_order_def Let_def case_prod_beta)
  then show "orders_part (fst (for_orders (cancelled_maker_order e t) xs st)) = orders_part st"
    by (induction xs arbitrary: st) (auto simp: Let_def case_prod_beta)
  show "orders_part (fst (delete_taker_orders e t ys st)) = orders_part st"
    by (induction ys arbitrary: st) (simp_all add: Let_def case_prod_beta)
qed

lemma cancel_orders_by_node_inv:
  assumes "node_inv st" "cancel_orders_by e t by_what st = (r, st', fx)"
  shows "node_inv st'"
proof -
  define off where "off = filter (\<lambda>(_, ord). mo_is_cancellable ord) (filter (\<lambda>(_, ord). cancel_selects_maker by_what ord) (om_orders st))"
  define st1 where "st1 = fold (\<lambda>(u, _) st. snd (remove_order u st)) off st"
  let ?st2 = "st1\<lparr>om_taker_orders := filter (\<lambda>(_, ord). \<not> (cancel_selects_taker by_what ord \<and> to_is_cancellable ord))
                (om_taker_orders st1)\<rparr>"
  have "keeps st1' (fold (\<lambda>(u, _) st. snd (remove_order u st)) xs st1')" for xs :: "(uuid \<times> maker_order) list" and st1'
    by (induction xs arbitrary: st1') (auto intro: keeps_trans [OF keeps_remove_order])
  then have "node_inv st1" unfolding st1_def using keeps_node_inv assms(1) by blast
  then have "node_inv ?st2"
    by (intro node_inv_fewer_takers) (auto simp: node_inv_def takers_ok_def distinct_map_filter)
  moreover have "orders_part st' = orders_part ?st2"
    using assms(2) cancelled_frame by (auto simp: cancel_orders_by_def Let_def st1_def off_def case_prod_beta)
  ultimately show ?thesis using node_inv_frame by blast
qed

section \<open>New taker orders\<close>

lemma taker_order_build_ok:
  assumes "taker_order_build d b = Some (Inr ord)"
    "0 < c_min_trading_vol (tb_base_coin b)" "0 < c_min_trading_vol (tb_rel_coin b)"
  shows "taker_ok (dr_uuid d) ord"
proof -
  obtain v where "ord = taker_order_of_builder d b v" "tb_conf_settings b \<noteq> None"
      "c_min_trading_vol (tb_base_coin b) \<le> tb_base_amount b"
      "c_min_trading_vol (tb_rel_coin b) \<le> tb_rel_amount b"
    using taker_order_build_InrD [OF assms(1)] by blast
  then show ?thesis using assms(2,3) by (simp add: taker_ok_def)
qed

lemma place_taker_order_node_inv:
  assumes "node_inv st" "taker_ok u ord" "u \<notin> fst ` set (om_orders st)" "u \<notin> fst ` set (om_taker_orders st)"
    "place_taker_order e t ord st = Some (r, st', fx)"
  shows "node_inv st'"
proof -
  obtain st1 fx1 where 1: "subscribe_to_orderbook_topic e t (to_base_ticker ord) (to_rel_ticker ord) st = (st1, fx1)"
    by fastforce
  obtain saved st2 fx2 where 2: "save_my_new_taker_order e t ord st1 = (saved, st2, fx2)"
    by (metis prod_cases3)
  have eq: "orders_part st2 = orders_part st"
    using orders_part_pairD(8) [OF 1] orders_part_pairD(6) [OF 2] by simp
  have inv: "node_inv st2" using node_inv_frame [OF eq assms(1)] .
  have u: "tr_uuid (to_request ord) = u" using assms(2) by (simp add: taker_ok_def)
  have new: "AList.update u ord (om_taker_orders st2) = om_taker_orders st2 @ [(u, ord)]"
    using assms(4) orders_partD(2) [OF eq] by (intro update_new) simp
  have "node_inv (st2\<lparr>om_taker_orders := om_taker_orders st2 @ [(u, ord)]\<rparr>)"
    using inv assms(2-4) orders_partD(1,2) [OF eq] by (simp add: node_inv_def takers_ok_def)
  then show ?thesis
    using assms(5) inv by (auto simp: place_taker_order_def 1 2 u new Let_def split: Option.bind_split_asm option.split_asm)
qed

lemma tb_simps [simp]:
  "tb_base_coin (auto_buy_builder st public_id base_coin rel_coin action input) = base_coin"
  "tb_rel_coin (auto_buy_builder st public_id base_coin rel_coin action input) = rel_coin"
  by (simp_all add: auto_buy_builder_def taker_order_builder_new_def)

lemma lp_auto_buy_node_inv:
  assumes "node_inv st" "0 < c_min_trading_vol base_coin" "0 < c_min_trading_vol rel_coin"
    "oe_uuid e t \<notin> fst ` set (om_orders st)" "oe_uuid e t \<notin> fst ` set (om_taker_orders st)"
    "lp_auto_buy e t base_coin rel_coin input st = Some (r, st', fx)"
  shows "node_inv st'"
proof -
  have "node_inv st'" if
    "taker_order_build (draws_at e t) (auto_buy_builder st public_id base_coin rel_coin action input) = Some (Inr ord)"
    "place_taker_order e t ord st = Some (r, st', fx)" for public_id action ord
    using taker_order_build_ok [OF that(1)] assms(2,3)
      place_taker_order_node_inv [OF assms(1) _ assms(4,5) that(2)] by (simp add: draws_at_def)
  then show ?thesis
    using assms(1,6) by (auto simp: lp_auto_buy_def
        split: if_split_asm option.split_asm Option.bind_split_asm sum.split_asm)
qed

lemma find_trading_coin_ok:
  "coins_ok e \<Longrightarrow> find_trading_coin e t side ticker = Inr c \<Longrightarrow> 0 < c_min_trading_vol c"
  by (auto simp: find_trading_coin_def coins_ok_def split: sum.split_asm option.split_asm)

lemma buy_sell_node_inv:
  assumes "node_inv st" "coins_ok e"
    "oe_uuid e t \<notin> fst ` set (om_orders st)" "oe_uuid e t \<notin> fst ` set (om_taker_orders st)"
    "buy e t input st = Some (r, st', fx) \<or> sell e t input st = Some (r, st', fx)"
  shows "node_inv st'"
proof -
  have "node_inv st'" if "find_trading_coin e t s1 t1 = Inr base_coin" "find_trading_coin e t s2 t2 = Inr rel_coin"
      "taker_trade e t base_coin rel_coin my other amount input st = Some (r, st', fx)"
    for s1 t1 s2 t2 base_coin rel_coin my other amount
    using that(3) assms(1) lp_auto_buy_node_inv [OF assms(1) find_trading_coin_ok [OF assms(2) that(1)]
        find_trading_coin_ok [OF assms(2) that(2)] assms(3,4)]
    by (auto simp: taker_trade_def split: if_split_asm sum.split_asm)
  then show ?thesis
    using assms(1,5) by (auto simp: buy_def sell_def split: if_split_asm sum.split_asm)
qed

section \<open>Start of the node\<close>

lemma add_orders_node_inv:
  assumes "node_inv st" "\<forall>ord \<in> set makers. order_ok (mo_uuid ord) ord" "distinct (map mo_uuid makers)"
    "set (map mo_uuid makers) \<inter> (fst ` set (om_orders st) \<union> fst ` set (om_taker_orders st)) = {}"
  shows "node_inv (fold add_order makers st) \<and>
    fst ` set (om_orders (fold add_order makers st)) = fst ` set (om_orders st) \<union> set (map mo_uuid makers) \<and>
    om_taker_orders (fold add_order makers st) = om_taker_orders st"
  using assms
proof (induction makers arbitrary: st)
  case (Cons ord makers)
  have inv: "node_inv (add_order ord st)"
    using Cons.prems by (intro node_inv_add_order [of _ "mo_uuid ord"]) auto
  have keys: "fst ` set (om_orders (add_order ord st)) = insert (mo_uuid ord) (fst ` set (om_orders st))"
    "om_taker_orders (add_order ord st) = om_taker_orders st"
    by (simp_all add: add_order_def dom_update)
  have "node_inv (fold add_order makers (add_order ord st)) \<and>
      fst ` set (om_orders (fold add_order makers (add_order ord st)))
        = fst ` set (om_orders (add_order ord st)) \<union> set (map mo_uuid makers) \<and>
      om_taker_orders (fold add_order makers (add_order ord st)) = om_taker_orders (add_order ord st)"
    using Cons.prems by (intro Cons.IH [OF inv]) (auto simp: keys)
  then show ?case using keys by auto
qed simp

definition empty_om_state :: "orderbook \<Rightarrow> (string \<Rightarrow> string option) \<Rightarrow> om_state" where
  "empty_om_state ob tickers =
     \<lparr>om_orders = [], om_order_tickers = Map.empty, om_count_by_tickers = Map.empty, om_balance_loops = {},
      om_taker_orders = [], om_pending = Map.empty, om_orderbook = ob, om_orderbook_tickers = tickers,
      om_active_maker = [], om_active_taker = [], om_history = []\<rparr>"

lemma node_inv_empty: "node_inv (empty_om_state ob tickers)"
  by (simp add: empty_om_state_def node_inv_def orders_ok_def takers_ok_def counts_ok_def bases_def)

text \<open>The files of a node: every order with its own identifier, as the invariant demands of an order.\<close>

definition saved_orders_ok :: "maker_order list \<Rightarrow> taker_order list \<Rightarrow> bool" where
  "saved_orders_ok makers takers \<longleftrightarrow>
     (\<forall>ord \<in> set makers. order_ok (mo_uuid ord) ord) \<and>
     (\<forall>ord \<in> set takers. taker_ok (tr_uuid (to_request ord)) ord) \<and>
     distinct (map mo_uuid makers @ map (tr_uuid \<circ> to_request) takers)"

lemma fold_update_takers:
  assumes "distinct (map (tr_uuid \<circ> to_request) takers)"
    "set (map (tr_uuid \<circ> to_request) takers) \<inter> fst ` set xs = {}"
  shows "fold (\<lambda>ord. AList.update (tr_uuid (to_request ord)) ord) takers xs
    = xs @ map (\<lambda>ord. (tr_uuid (to_request ord), ord)) takers"
  using assms by (induction takers arbitrary: xs) (auto simp: update_new)

lemma orders_kick_start_node_inv:
  assumes "saved_orders_ok makers takers"
  shows "node_inv (snd (orders_kick_start makers takers (empty_om_state ob tickers)))"
proof -
  let ?st = "fold add_order makers (empty_om_state ob tickers)"
  have "node_inv ?st \<and> fst ` set (om_orders ?st) = fst ` set (om_orders (empty_om_state ob tickers)) \<union> set (map mo_uuid makers) \<and>
      om_taker_orders ?st = om_taker_orders (empty_om_state ob tickers)"
    using assms node_inv_empty
    by (intro add_orders_node_inv) (auto simp: saved_orders_ok_def empty_om_state_def)
  then have st: "node_inv ?st" "fst ` set (om_orders ?st) = set (map mo_uuid makers)"
    by (simp_all add: empty_om_state_def)
  have takers: "om_taker_orders (snd (orders_kick_start makers takers (empty_om_state ob tickers)))
      = map (\<lambda>ord. (tr_uuid (to_request ord), ord)) takers"
    using fold_update_takers [of takers "[]"] assms
    by (simp add: orders_kick_start_def empty_om_state_def saved_orders_ok_def)
  have "orders_ok (snd (orders_kick_start makers takers (empty_om_state ob tickers)))"
    using st(1) by (simp add: orders_kick_start_def node_inv_def)
  moreover have "om_orders (snd (orders_kick_start makers takers (empty_om_state ob tickers))) = om_orders ?st"
    by (simp add: orders_kick_start_def)
  ultimately show ?thesis
    using assms st(2)
    by (auto simp: node_inv_def takers_ok_def takers saved_orders_ok_def comp_def)
qed

section \<open>Steps of a node\<close>

definition fresh_uuid :: "om_env \<Rightarrow> moment \<Rightarrow> om_state \<Rightarrow> bool" where
  "fresh_uuid e t st \<longleftrightarrow>
     oe_uuid e t \<notin> fst ` set (om_orders st) \<and> oe_uuid e t \<notin> fst ` set (om_taker_orders st)"

inductive node_step :: "om_env \<Rightarrow> om_state \<Rightarrow> om_effect list \<Rightarrow> om_state \<Rightarrow> bool" for e where
  message: "process_msg e t is_banned i_am_relay pubkey m st = Some (r, st', fx) \<Longrightarrow> node_step e st fx st'"
| pending: "process_pending_reserved e t u st = Some (st', fx) \<Longrightarrow> node_step e st fx st'"
| loop: "ordermatch_loop_turn e t my_pubsecp timeout st = Some (st', fx) \<Longrightarrow> node_step e st fx st'"
| sync: "st' = process_sync_response e t pubkey response st \<Longrightarrow> node_step e st [] st'"
| fill: "request_and_fill_orderbook e t decode is_banned base rel response st = Some st' \<Longrightarrow> node_step e st [] st'"
| balance: "0 \<le> c_min_tx_amount c \<Longrightarrow> balance_updated e t c new_balance st = (st', fx) \<Longrightarrow> node_step e st fx st'"
| set_price: "fresh_uuid e t st \<Longrightarrow> create_maker_order e t req st = Some (r, st', fx) \<Longrightarrow> node_step e st fx st'"
| update: "update_maker_order e t t' req st0 st = Some (r, st', fx) \<Longrightarrow> node_step e st fx st'"
| cancel: "cancel_order e t u st = (cr, st', fx) \<Longrightarrow> node_step e st fx st'"
| cancel_many: "cancel_orders_by e t by_what st = (cs, st', fx) \<Longrightarrow> node_step e st fx st'"
| take: "fresh_uuid e t st \<Longrightarrow> buy e t input st = Some (tr, st', fx) \<or> sell e t input st = Some (tr, st', fx) \<Longrightarrow>
    node_step e st fx st'"

inductive node_reachable :: "om_env \<Rightarrow> om_state \<Rightarrow> bool" for e where
  start: "saved_orders_ok makers takers \<Longrightarrow>
    st = snd (orders_kick_start makers takers (empty_om_state ob tickers)) \<Longrightarrow> node_reachable e st"
| step: "node_reachable e st \<Longrightarrow> node_step e st fx st' \<Longrightarrow> node_reachable e st'"

lemma node_step_inv:
  assumes "node_step e st fx st'" "coins_ok e" "node_inv st"
  shows "node_inv st'"
  using assms(1)
proof cases
  case message
  then show ?thesis using process_msg_node_inv assms(3) by blast
next
  case pending
  then show ?thesis using process_pending_reserved_node_inv assms(3) by blast
next
  case loop
  then show ?thesis using ordermatch_loop_turn_node_inv assms(2,3) by blast
next
  case sync
  then show ?thesis
    by (intro node_inv_frame [OF _ assms(3)]) (simp add: process_sync_response_def)
next
  case fill
  then show ?thesis
    by (intro node_inv_frame [OF _ assms(3)])
      (auto simp: request_and_fill_orderbook_def orders_part_def split: option.split_asm)
next
  case (balance c t new_balance)
  then show ?thesis
    using keeps_node_inv [OF balance_updated_keeps [OF balance(1)] assms(3), of e t new_balance] by simp
next
  case set_price
  then show ?thesis using create_maker_order_node_inv [OF assms(3,2)] by (auto simp: fresh_uuid_def)
next
  case update
  then show ?thesis using update_maker_order_node_inv assms(3) by blast
next
  case cancel
  then show ?thesis using cancel_order_node_inv assms(3) by blast
next
  case cancel_many
  then show ?thesis using cancel_orders_by_node_inv assms(3) by blast
next
  case take
  then show ?thesis using buy_sell_node_inv [OF assms(3,2)] unfolding fresh_uuid_def by blast
qed

lemma node_reachable_inv:
  assumes "node_reachable e st" "coins_ok e"
  shows "node_inv st"
  using assms(1)
proof induction
  case start
  then show ?case using orders_kick_start_node_inv by blast
next
  case step
  then show ?case using node_step_inv assms(2) by blast
qed

end
