(* ===== verification/BookProps.thy ===== *)
theory BookProps
  imports Orderbook
begin

text \<open>
  The properties of the orderbook: the indexes agree with the set of orders, only the maker of an
  order cancels or updates it, the histories of the tries stay free of cycles, so that every request
  for changes is answered, and the answer leads to the actual orders.
\<close>

section \<open>The indexes\<close>

definition pair_orders :: "orderbook \<Rightarrow> string \<times> string \<Rightarrow> (rat \<times> uuid) set" where
  "pair_orders ob pair =
     {(oi_price i, u) | i u. ob_order_set ob u = Some i \<and> (oi_base i, oi_rel i) = pair}"

definition index_ok :: "'a list option \<Rightarrow> 'a set \<Rightarrow> bool" where
  "index_ok xs A = (case xs of None \<Rightarrow> A = {} | Some xs \<Rightarrow> xs \<noteq> [] \<and> distinct xs \<and> set xs = A)"

text \<open>
  Every order is valid and stands under its own identifier; for each pair, \<open>ordered\<close> lists its orders
  by price, and \<open>unordered\<close> lists their identifiers, once each; no empty list is kept.
\<close>

definition book_inv :: "orderbook \<Rightarrow> bool" where
  "book_inv ob \<longleftrightarrow>
     (\<forall>u i. ob_order_set ob u = Some i \<longrightarrow> oi_uuid i = u \<and> \<not> is_invalid_item i) \<and>
     (\<forall>pair. index_ok (ob_ordered ob pair) (pair_orders ob pair) \<and>
        (\<forall>xs. ob_ordered ob pair = Some xs \<longrightarrow> sorted xs)) \<and>
     (\<forall>pair. index_ok (ob_unordered ob pair) (snd ` pair_orders ob pair))"

lemma in_pair_orders:
  "(p, u) \<in> pair_orders ob pair \<longleftrightarrow>
     (\<exists>i. ob_order_set ob u = Some i \<and> (oi_base i, oi_rel i) = pair \<and> oi_price i = p)"
  by (auto simp: pair_orders_def)

lemma in_pair_uuids:
  "u \<in> snd ` pair_orders ob pair \<longleftrightarrow>
     (\<exists>i. ob_order_set ob u = Some i \<and> (oi_base i, oi_rel i) = pair)"
  by (force simp: pair_orders_def)

text \<open>The indexes and the set of orders are all that the invariant reads.\<close>

lemma book_inv_cong:
  assumes "ob_order_set ob' = ob_order_set ob" "ob_ordered ob' = ob_ordered ob"
    "ob_unordered ob' = ob_unordered ob"
  shows "book_inv ob' = book_inv ob"
  using assms by (simp add: book_inv_def pair_orders_def)

lemma book_invD:
  assumes "book_inv ob"
  shows "ob_order_set ob u = Some i \<Longrightarrow> oi_uuid i = u \<and> \<not> is_invalid_item i"
    and "index_ok (ob_ordered ob pair) (pair_orders ob pair)"
    and "ob_ordered ob pair = Some xs \<Longrightarrow> sorted xs"
    and "index_ok (ob_unordered ob pair) (snd ` pair_orders ob pair)"
  using assms unfolding book_inv_def by blast+

lemma book_invI:
  assumes "\<And>u i. ob_order_set ob u = Some i \<Longrightarrow> oi_uuid i = u \<and> \<not> is_invalid_item i"
    and "\<And>pair. index_ok (ob_ordered ob pair) (pair_orders ob pair)"
    and "\<And>pair xs. ob_ordered ob pair = Some xs \<Longrightarrow> sorted xs"
    and "\<And>pair. index_ok (ob_unordered ob pair) (snd ` pair_orders ob pair)"
  shows "book_inv ob"
  using assms unfolding book_inv_def by blast

lemma set_pubkey_state_sel [simp]:
  "ob_order_set (set_pubkey_state p s ob) = ob_order_set ob"
  "ob_ordered (set_pubkey_state p s ob) = ob_ordered ob"
  "ob_unordered (set_pubkey_state p s ob) = ob_unordered ob"
  by (simp_all add: set_pubkey_state_def)

lemma index_ok_remove:
  assumes "index_ok (m k) A"
  shows "index_ok (remove_from k0 x m k) (if k = k0 then A - {x} else A)"
proof (cases "k = k0")
  case True
  show ?thesis
  proof (cases "m k0")
    case (Some xs)
    have "set (removeAll x xs) = A - {x}" "distinct (removeAll x xs)"
      using assms True Some by (auto simp: index_ok_def distinct_removeAll)
    moreover have "remove_from k0 x m k = (if removeAll x xs = [] then None else Some (removeAll x xs))"
      using True Some by (simp add: remove_from_def Let_def)
    ultimately show ?thesis using True by (auto simp: index_ok_def simp flip: set_empty)
  qed (use assms True in \<open>simp add: index_ok_def remove_from_def\<close>)
qed (use assms in \<open>auto simp: remove_from_def Let_def split: option.split\<close>)

lemma sorted_removeAll: "sorted xs \<Longrightarrow> sorted (removeAll x xs)"
  by (induction xs) auto

lemma remove_from_sorted:
  assumes "\<forall>k xs. m k = Some xs \<longrightarrow> sorted xs" "remove_from k0 x m k = Some ys"
  shows "sorted ys"
proof (cases "m k0")
  case (Some xs)
  then have "sorted (removeAll x xs)" using assms(1) by (auto intro: sorted_removeAll)
  then show ?thesis using assms Some by (auto simp: remove_from_def Let_def split: if_splits)
qed (use assms in \<open>auto simp: remove_from_def\<close>)

lemma remove_order_index_set [simp]:
  "ob_order_set (remove_order_index i u ob) = (ob_order_set ob)(u := None)"
  by (simp add: remove_order_index_def Let_def)

lemma pair_orders_remove:
  assumes "ob_order_set ob u = Some i"
  shows "pair_orders (remove_order_index i u ob) pair =
           (if pair = (oi_base i, oi_rel i) then pair_orders ob pair - {(oi_price i, u)}
            else pair_orders ob pair)"
proof (rule set_eqI, clarify)
  fix p v
  show "(p, v) \<in> pair_orders (remove_order_index i u ob) pair \<longleftrightarrow>
      (p, v) \<in> (if pair = (oi_base i, oi_rel i) then pair_orders ob pair - {(oi_price i, u)}
            else pair_orders ob pair)"
    using assms by (cases "v = u") (auto simp: in_pair_orders)
qed

lemma pair_uuids_remove:
  assumes "ob_order_set ob u = Some i"
  shows "snd ` pair_orders (remove_order_index i u ob) pair =
           (if pair = (oi_base i, oi_rel i) then snd ` pair_orders ob pair - {u}
            else snd ` pair_orders ob pair)"
proof (rule set_eqI)
  fix v
  show "v \<in> snd ` pair_orders (remove_order_index i u ob) pair \<longleftrightarrow>
      v \<in> (if pair = (oi_base i, oi_rel i) then snd ` pair_orders ob pair - {u}
            else snd ` pair_orders ob pair)"
    using assms by (cases "v = u") (auto simp: in_pair_uuids)
qed

lemma remove_order_index_inv:
  assumes "book_inv ob" "ob_order_set ob u = Some i"
  shows "book_inv (remove_order_index i u ob)"
proof (rule book_invI)
  let ?ob = "remove_order_index i u ob"
  note inv = book_invD [OF assms(1)]
  show "index_ok (ob_ordered ?ob pair) (pair_orders ?ob pair)" for pair
    unfolding pair_orders_remove [OF assms(2)]
    using index_ok_remove [where m = "ob_ordered ob", OF inv(2) [of pair]] by (simp add: remove_order_index_def Let_def)
  show "index_ok (ob_unordered ?ob pair) (snd ` pair_orders ?ob pair)" for pair
    unfolding pair_uuids_remove [OF assms(2)]
    using index_ok_remove [where m = "ob_unordered ob", OF inv(4) [of pair]] by (simp add: remove_order_index_def Let_def)
  show "sorted xs" if "ob_ordered ?ob pair = Some xs" for pair xs
    by (rule remove_from_sorted [of "ob_ordered ob"])
      (use inv(3) that in \<open>simp_all add: remove_order_index_def Let_def del: split_paired_All\<close>)
  show "oi_uuid j = v \<and> \<not> is_invalid_item j" if "ob_order_set ?ob v = Some j" for v j
    using that inv(1) by (simp split: if_splits)
qed

lemma remove_order_fields:
  assumes "ob_order_set ob u = Some i"
  shows "ob_order_set (snd (remove_order_trie_update te now inst u ob)) = (ob_order_set ob)(u := None)"
    and "ob_ordered (snd (remove_order_trie_update te now inst u ob)) = ob_ordered (remove_order_index i u ob)"
    and "ob_unordered (snd (remove_order_trie_update te now inst u ob)) = ob_unordered (remove_order_index i u ob)"
  using assms
  by (simp_all add: remove_order_trie_update_def Let_def remove_order_index_def split: sum.split)

lemma remove_order_absent:
  "ob_order_set ob u = None \<Longrightarrow> remove_order_trie_update te now inst u ob = (None, ob)"
  by (simp add: remove_order_trie_update_def)

lemma remove_order_set:
  "ob_order_set (snd (remove_order_trie_update te now inst u ob)) = (ob_order_set ob)(u := None)"
  by (cases "ob_order_set ob u") (auto simp: remove_order_fields remove_order_absent)

lemma remove_order_inv:
  assumes "book_inv ob"
  shows "book_inv (snd (remove_order_trie_update te now inst u ob))"
proof (cases "ob_order_set ob u")
  case (Some i)
  then have "book_inv (remove_order_index i u ob)" by (rule remove_order_index_inv [OF assms])
  moreover have "ob_order_set (remove_order_index i u ob) = (ob_order_set ob)(u := None)"
    by (simp add: remove_order_index_def Let_def)
  ultimately show ?thesis
    by (subst book_inv_cong) (simp_all add: remove_order_fields [OF Some])
qed (simp add: remove_order_absent assms)

text \<open>Insertion of an order whose identifier is new or belongs to an order of the same pair.\<close>

definition listed :: "'a list option \<Rightarrow> 'a list" where
  "listed m = (case m of Some xs \<Rightarrow> xs | None \<Rightarrow> [])"

definition keeps_pair :: "orderbook \<Rightarrow> orderbook_item \<Rightarrow> bool" where
  "keeps_pair ob i \<longleftrightarrow>
     (\<forall>j. ob_order_set ob (oi_uuid i) = Some j \<longrightarrow> oi_base j = oi_base i \<and> oi_rel j = oi_rel i)"

lemma insert_order_index_set [simp]:
  "ob_order_set (insert_order_index i ob) = (ob_order_set ob)(oi_uuid i \<mapsto> i)"
  by (simp add: insert_order_index_def Let_def)

lemma pair_orders_insert:
  assumes "keeps_pair ob i"
  shows "pair_orders (insert_order_index i ob) pair =
           (if pair = (oi_base i, oi_rel i)
            then insert (oi_price i, oi_uuid i) {x \<in> pair_orders ob pair. snd x \<noteq> oi_uuid i}
            else pair_orders ob pair)"
proof (rule set_eqI, clarify)
  fix p v
  show "(p, v) \<in> pair_orders (insert_order_index i ob) pair \<longleftrightarrow>
      (p, v) \<in> (if pair = (oi_base i, oi_rel i)
            then insert (oi_price i, oi_uuid i) {x \<in> pair_orders ob pair. snd x \<noteq> oi_uuid i}
            else pair_orders ob pair)"
    using assms by (cases "v = oi_uuid i") (auto simp: in_pair_orders keeps_pair_def)
qed

lemma pair_uuids_insert:
  assumes "keeps_pair ob i"
  shows "snd ` pair_orders (insert_order_index i ob) pair =
           (if pair = (oi_base i, oi_rel i) then insert (oi_uuid i) (snd ` pair_orders ob pair)
            else snd ` pair_orders ob pair)"
proof (rule set_eqI)
  fix v
  show "v \<in> snd ` pair_orders (insert_order_index i ob) pair \<longleftrightarrow>
      v \<in> (if pair = (oi_base i, oi_rel i) then insert (oi_uuid i) (snd ` pair_orders ob pair)
            else snd ` pair_orders ob pair)"
    using assms by (cases "v = oi_uuid i") (auto simp: in_pair_uuids keeps_pair_def)
qed

lemma pair_orders_unique:
  "(p, u) \<in> pair_orders ob pair \<Longrightarrow> (q, u) \<in> pair_orders ob pair \<Longrightarrow> p = q"
  by (auto simp: in_pair_orders)

text \<open>What is left of the list of a pair once the entry of the identifier is gone.\<close>

definition without_uuid :: "uuid \<Rightarrow> (rat \<times> uuid) list \<Rightarrow> (rat \<times> uuid) list" where
  "without_uuid u xs =
     (case find (\<lambda>(_, v). v = u) xs of Some existing \<Rightarrow> removeAll existing xs | None \<Rightarrow> xs)"

lemma without_uuid_set:
  assumes "\<And>p q. (p, u) \<in> set xs \<Longrightarrow> (q, u) \<in> set xs \<Longrightarrow> p = q"
  shows "set (without_uuid u xs) = {x \<in> set xs. snd x \<noteq> u}"
proof (cases "find (\<lambda>(_, v). v = u) xs")
  case None
  then have "\<forall>x \<in> set xs. snd x \<noteq> u" by (auto simp: find_None_iff)
  then show ?thesis using None unfolding without_uuid_def by auto
next
  case (Some e)
  obtain p where e: "e = (p, u)" "(p, u) \<in> set xs"
    using Some by (auto simp: find_Some_iff in_set_conv_nth)
  then show ?thesis using assms Some by (auto simp: without_uuid_def)
qed

lemma without_uuid_sorted:
  "sorted xs \<Longrightarrow> sorted (without_uuid u xs)" "distinct xs \<Longrightarrow> distinct (without_uuid u xs)"
  by (auto simp: without_uuid_def sorted_removeAll distinct_removeAll split: option.split)

lemma btree_insert_set: "set (btree_insert x xs) = insert x (set xs)"
  by (auto simp: btree_insert_def set_insort_key)

lemma btree_insert_sorted:
  "sorted xs \<Longrightarrow> sorted (btree_insert x xs)" "distinct xs \<Longrightarrow> distinct (btree_insert x xs)"
  by (auto simp: btree_insert_def sorted_insort distinct_insort)

lemma insert_order_index_ordered:
  "ob_ordered (insert_order_index i ob) pair =
     (if pair = (oi_base i, oi_rel i)
      then Some (btree_insert (oi_price i, oi_uuid i) (without_uuid (oi_uuid i) (listed (ob_ordered ob pair))))
      else ob_ordered ob pair)"
  by (simp add: insert_order_index_def Let_def without_uuid_def listed_def)

lemma insert_order_index_unordered:
  "ob_unordered (insert_order_index i ob) pair =
     (if pair = (oi_base i, oi_rel i)
      then Some (List.insert (oi_uuid i) (listed (ob_unordered ob pair)))
      else ob_unordered ob pair)"
  by (simp add: insert_order_index_def Let_def listed_def)

lemma index_ok_listD:
  "index_ok m A \<Longrightarrow> distinct (listed m)" "index_ok m A \<Longrightarrow> set (listed m) = A"
  by (auto simp: index_ok_def listed_def split: option.splits)

lemma insert_order_index_inv:
  assumes "book_inv ob" "keeps_pair ob i" "\<not> is_invalid_item i"
  shows "book_inv (insert_order_index i ob)"
proof (rule book_invI)
  let ?ob = "insert_order_index i ob"
  note inv = book_invD [OF assms(1)]
  let ?xs = "\<lambda>pair. listed (ob_ordered ob pair)"
  note xs = index_ok_listD [OF inv(2)]
  have sorted: "sorted (?xs pair)" for pair using inv(3) by (simp add: listed_def split: option.split)
  have without: "set (without_uuid (oi_uuid i) (?xs pair)) =
      {x \<in> pair_orders ob pair. snd x \<noteq> oi_uuid i}" for pair
    using without_uuid_set [of "oi_uuid i" "?xs pair"] xs pair_orders_unique by metis
  show "index_ok (ob_ordered ?ob pair) (pair_orders ?ob pair)" for pair
    unfolding pair_orders_insert [OF assms(2)] insert_order_index_ordered
    using inv(2) [of pair]
    by (simp add: index_ok_def btree_insert_set without btree_insert_sorted without_uuid_sorted xs
        flip: set_empty)
  show "index_ok (ob_unordered ?ob pair) (snd ` pair_orders ?ob pair)" for pair
    unfolding pair_uuids_insert [OF assms(2)] insert_order_index_unordered
    using inv(4) [of pair]
    by (simp add: index_ok_def index_ok_listD [OF inv(4)] flip: set_empty)
  show "sorted ys" if "ob_ordered ?ob pair = Some ys" for pair ys
    using that inv(3) [of pair] sorted [of pair]
    by (auto simp: insert_order_index_ordered btree_insert_sorted without_uuid_sorted split: if_splits)
  show "oi_uuid j = v \<and> \<not> is_invalid_item j" if "ob_order_set ?ob v = Some j" for v j
    using that inv(1) assms(3) by (auto split: if_splits)
qed

lemma insert_trie_fields:
  assumes "\<not> is_invalid_item i"
  shows "ob_order_set (insert_or_update_order_update_trie te now inst i ob) = ob_order_set (insert_order_index i ob)"
    and "ob_ordered (insert_or_update_order_update_trie te now inst i ob) = ob_ordered (insert_order_index i ob)"
    and "ob_unordered (insert_or_update_order_update_trie te now inst i ob) = ob_unordered (insert_order_index i ob)"
  using assms
  by (simp_all add: insert_or_update_order_update_trie_def insert_or_update_order_def Let_def split: sum.split)

lemma insert_trie_inv:
  assumes "book_inv ob" "keeps_pair ob i"
  shows "book_inv (insert_or_update_order_update_trie te now inst i ob)"
proof (cases "is_invalid_item i")
  case True
  then show ?thesis by (simp add: insert_or_update_order_update_trie_def remove_order_inv assms(1))
next
  case False
  then have "book_inv (insert_order_index i ob)" by (rule insert_order_index_inv [OF assms])
  then show ?thesis by (subst book_inv_cong) (simp_all add: insert_trie_fields [OF False])
qed

section \<open>Histories\<close>

definition state_inv :: "nat \<Rightarrow> orderbook_pubkey_state \<Rightarrow> bool" where
  "state_inv t s \<longleftrightarrow>
     cache_inv t (ps_history s) \<and> (\<forall>pair h. cache_get (ps_history s) pair = Some h \<longrightarrow> history_inv t h)"

definition histories_inv :: "nat \<Rightarrow> orderbook \<Rightarrow> bool" where
  "histories_inv t ob \<longleftrightarrow> (\<forall>pk s. map_of (ob_pubkeys_state ob) pk = Some s \<longrightarrow> state_inv t s)"

lemma history_inv_mono: "history_inv t h \<Longrightarrow> t \<le> t' \<Longrightarrow> history_inv t' h"
  by (auto simp: history_inv_def intro: cache_inv_mono)

lemma history_inv_new [simp]: "history_inv t (cache_new ttl)"
proof -
  have "diff_edges (cache_new ttl :: ('a, 'b) trie_diff_history) = {}"
    by (simp add: diff_edges_def cache_get_def cache_new_def)
  then show ?thesis by (simp add: history_inv_def acyclic_def)
qed

lemma state_inv_mono: "state_inv t s \<Longrightarrow> t \<le> t' \<Longrightarrow> state_inv t' s"
  by (auto simp: state_inv_def intro: cache_inv_mono history_inv_mono)

lemma histories_inv_mono: "histories_inv t ob \<Longrightarrow> t \<le> t' \<Longrightarrow> histories_inv t' ob"
  by (auto simp: histories_inv_def intro: state_inv_mono)

lemma state_inv_other_fields [simp]:
  "state_inv t (set_pair_root pair r s) = state_inv t s"
  "state_inv t (s\<lparr>ps_orders_uuids := us\<rparr>) = state_inv t s"
  "state_inv t (s\<lparr>ps_trie_roots := rs\<rparr>) = state_inv t s"
  "state_inv t (s\<lparr>ps_last_keep_alive := now\<rparr>) = state_inv t s"
  by (simp_all add: state_inv_def set_pair_root_def)

lemma with_history_timeout_inv [simp]: "state_inv t (with_history_timeout now ttl)"
  by (simp add: state_inv_def with_history_timeout_def cache_get_def) (simp add: cache_new_def)

lemma pubkey_state_mut_inv:
  "histories_inv t ob \<Longrightarrow> state_inv t (pubkey_state_mut now pk ob)"
  by (auto simp: histories_inv_def pubkey_state_mut_def split: option.split)

lemma set_pubkey_state_inv:
  "histories_inv t ob \<Longrightarrow> state_inv t s \<Longrightarrow> histories_inv t (set_pubkey_state pk s ob)"
  by (auto simp: histories_inv_def set_pubkey_state_def split: if_splits)

lemma push_history_inv:
  assumes "state_inv t s" "t \<le> inst"
  shows "state_inv inst (push_history inst pair insert_at diff s)"
proof -
  have inv: "cache_inv t (ps_history s)" using assms(1) by (simp add: state_inv_def)
  have "history_inv inst h" if "alive inst (ps_history s) p = Some h" for p h
    using alive_get [OF that] assms by (auto simp: state_inv_def intro: history_inv_mono)
  then show ?thesis
    using assms insert_new_diff_inv(1) [of inst _ inst insert_at diff]
    by (auto simp: state_inv_def push_history_def cache_update_get [OF inv] cache_update_inv [OF inv]
        split: if_splits option.splits)
qed

lemma histories_inv_cong:
  "ob_pubkeys_state ob' = ob_pubkeys_state ob \<Longrightarrow> histories_inv t ob' = histories_inv t ob"
  by (simp add: histories_inv_def)

lemma index_pubkeys_state [simp]:
  "ob_pubkeys_state (remove_order_index i u ob) = ob_pubkeys_state ob"
  "ob_pubkeys_state (insert_order_index i ob) = ob_pubkeys_state ob"
  by (simp_all add: remove_order_index_def insert_order_index_def Let_def)

lemma remove_order_histories:
  assumes "histories_inv t ob" "t \<le> inst"
  shows "histories_inv inst (snd (remove_order_trie_update te now inst u ob))"
proof (cases "ob_order_set ob u")
  case None
  then show ?thesis using assms by (simp add: remove_order_absent histories_inv_mono)
next
  case (Some i)
  let ?ob1 = "remove_order_index i u ob"
  have ob1: "histories_inv inst (?ob1\<lparr>ob_memory_db := db\<rparr>)" "histories_inv inst ?ob1" for db
    using histories_inv_mono [OF assms] by (simp_all cong: histories_inv_cong)
  have "state_inv t (pubkey_state_mut now pk ?ob1)" for pk
    using assms(1) by (intro pubkey_state_mut_inv) (simp cong: histories_inv_cong)
  then have s: "state_inv t (pubkey_state_mut now pk ?ob1)" "state_inv inst (pubkey_state_mut now pk ?ob1)" for pk
    using assms(2) by (auto intro: state_inv_mono)
  show ?thesis
    using Some ob1 s assms(2)
    by (auto simp: remove_order_trie_update_def Let_def split: sum.split
        intro!: set_pubkey_state_inv push_history_inv)
qed

lemma insert_trie_histories:
  assumes "histories_inv t ob" "t \<le> inst"
  shows "histories_inv inst (insert_or_update_order_update_trie te now inst i ob)"
proof (cases "is_invalid_item i")
  case True
  then show ?thesis
    using assms by (simp add: insert_or_update_order_update_trie_def remove_order_histories)
next
  case False
  let ?ob1 = "insert_order_index i ob"
  have ob1: "histories_inv inst (?ob1\<lparr>ob_memory_db := db\<rparr>)" "histories_inv inst ?ob1" for db
    using histories_inv_mono [OF assms] by (simp_all cong: histories_inv_cong)
  have "state_inv t (pubkey_state_mut now pk ?ob1)" for pk
    using assms(1) by (intro pubkey_state_mut_inv) (simp cong: histories_inv_cong)
  then have s: "state_inv t (pubkey_state_mut now pk ?ob1)" "state_inv inst (pubkey_state_mut now pk ?ob1)" for pk
    using assms(2) by (auto intro: state_inv_mono)
  show ?thesis
    using False ob1 s assms(2)
    by (auto simp: insert_or_update_order_update_trie_def insert_or_update_order_def Let_def split: sum.split
        intro!: set_pubkey_state_inv push_history_inv)
qed

section \<open>The messages keep the orderbook consistent\<close>

text \<open>
  \<open>pair_of\<close> says to which pair an identifier belongs. The orderbook itself does not check that a
  message keeps to it; \<open>order_takeover\<close> below shows what happens when one does not.
\<close>

definition of_pair :: "(uuid \<Rightarrow> string \<times> string) \<Rightarrow> orderbook_item \<Rightarrow> bool" where
  "of_pair pair_of i \<longleftrightarrow> pair_of (oi_uuid i) = (oi_base i, oi_rel i)"

definition book_ok :: "(uuid \<Rightarrow> string \<times> string) \<Rightarrow> nat \<Rightarrow> orderbook \<Rightarrow> bool" where
  "book_ok pair_of t ob \<longleftrightarrow>
     book_inv ob \<and> histories_inv t ob \<and> (\<forall>u i. ob_order_set ob u = Some i \<longrightarrow> of_pair pair_of i)"

lemma book_ok_remove:
  "book_ok pair_of t ob \<Longrightarrow> t \<le> inst \<Longrightarrow>
     book_ok pair_of inst (snd (remove_order_trie_update te now inst u ob))"
  by (auto simp: book_ok_def remove_order_inv remove_order_histories remove_order_set split: if_splits)

lemma insert_trie_set:
  assumes "ob_order_set (insert_or_update_order_update_trie te now inst i ob) u = Some j"
  shows "ob_order_set ob u = Some j \<or> (u = oi_uuid i \<and> j = i)"
proof (cases "is_invalid_item i")
  case True
  then show ?thesis
    using assms by (auto simp: insert_or_update_order_update_trie_def remove_order_set split: if_splits)
next
  case False
  then show ?thesis using assms by (auto simp: insert_trie_fields split: if_splits)
qed

lemma insert_trie_other:
  assumes "u \<noteq> oi_uuid i"
  shows "ob_order_set (insert_or_update_order_update_trie te now inst i ob) u = ob_order_set ob u"
proof (cases "is_invalid_item i")
  case True
  then show ?thesis
    using assms by (simp add: insert_or_update_order_update_trie_def remove_order_set)
qed (use assms in \<open>simp add: insert_trie_fields\<close>)

lemma book_ok_insert:
  assumes "book_ok pair_of t ob" "t \<le> inst" "of_pair pair_of i"
  shows "book_ok pair_of inst (insert_or_update_order_update_trie te now inst i ob)"
proof -
  have "keeps_pair ob i"
    unfolding keeps_pair_def
  proof clarify
    fix j
    assume j: "ob_order_set ob (oi_uuid i) = Some j"
    then have "of_pair pair_of j" "oi_uuid j = oi_uuid i"
      using assms(1) book_invD(1) by (auto simp: book_ok_def)
    then show "oi_base j = oi_base i \<and> oi_rel j = oi_rel i" using assms(3) by (simp add: of_pair_def)
  qed
  then show ?thesis
    using assms by (auto simp: book_ok_def insert_trie_inv insert_trie_histories dest!: insert_trie_set)
qed

lemma book_ok_mono: "book_ok pair_of t ob \<Longrightarrow> t \<le> t' \<Longrightarrow> book_ok pair_of t' ob"
  by (auto simp: book_ok_def intro: histories_inv_mono)

lemma book_ok_other_fields [simp]:
  "book_ok pair_of t (ob\<lparr>ob_my_p2p_pubkeys := x\<rparr>) = book_ok pair_of t ob"
  "book_ok pair_of t (ob\<lparr>ob_topics_subscribed_to := y\<rparr>) = book_ok pair_of t ob"
  by (simp_all add: book_ok_def cong: book_inv_cong histories_inv_cong)

lemma book_ok_state:
  "book_ok pair_of t ob \<Longrightarrow> state_inv t s \<Longrightarrow> book_ok pair_of t (set_pubkey_state pk s ob)"
  by (auto simp: book_ok_def set_pubkey_state_inv cong: book_inv_cong)

lemma book_ok_removes:
  "book_ok pair_of inst ob \<Longrightarrow> book_ok pair_of inst (remove_orders te now inst us ob)"
  unfolding remove_orders_def
  by (induction us arbitrary: ob) (auto intro: book_ok_remove)

lemma book_ok_inserts:
  "book_ok pair_of inst ob \<Longrightarrow> list_all (of_pair pair_of) is \<Longrightarrow>
     book_ok pair_of inst (fold (insert_or_update_order_update_trie te now inst) is ob)"
  by (induction "is" arbitrary: ob) (auto intro: book_ok_insert)

lemma book_ok_pair_removed:
  assumes "book_ok pair_of t ob" "t \<le> inst"
  shows "book_ok pair_of inst (remove_pubkey_pair_orders te now inst pk alb_pair ob)"
proof -
  have ok: "book_ok pair_of inst ob" using assms by (rule book_ok_mono)
  have s1: "state_inv inst (s\<lparr>ps_history := snd (cache_remove inst alb_pair (ps_history s))\<rparr>)"
    if "map_of (ob_pubkeys_state ob) pk = Some s" for s
  proof -
    have "state_inv inst s" using that ok by (auto simp: book_ok_def histories_inv_def)
    then have inv: "cache_inv inst (ps_history s)"
      "\<And>pair h. cache_get (ps_history s) pair = Some h \<Longrightarrow> history_inv inst h"
      by (auto simp: state_inv_def)
    then show ?thesis
      by (auto simp: state_inv_def cache_remove_inv cache_remove_get [OF inv(1)] dest!: alive_get split: if_splits)
  qed
  have drop: "book_ok pair_of inst (set_pubkey_state pk (s2\<lparr>ps_trie_roots := rs\<rparr>) ob')"
    if "book_ok pair_of inst ob'" "map_of (ob_pubkeys_state ob') pk = Some s2" for ob' s2 rs
    using that by (intro book_ok_state) (auto simp: book_ok_def histories_inv_def)
  have removed: "book_ok pair_of inst (remove_orders te now inst us (set_pubkey_state pk
      (s\<lparr>ps_history := snd (cache_remove inst alb_pair (ps_history s)), ps_orders_uuids := xs\<rparr>) ob))"
    if "map_of (ob_pubkeys_state ob) pk = Some s" for s us xs
    by (intro book_ok_removes book_ok_state ok) (simp add: s1 [OF that])
  show ?thesis
    unfolding remove_pubkey_pair_orders_def Let_def
    by (auto simp: ok split: option.split intro: removed drop)
qed

lemma book_ok_full_trie:
  assumes "book_ok pair_of t ob" "t \<le> inst"
    and "\<And>e. e \<in> set entries \<Longrightarrow> of_pair pair_of (item_with_infos protos confs e)"
  shows "book_ok pair_of inst (fst (process_pubkey_full_trie te now inst pk alb_pair protos confs entries ob))"
proof -
  let ?ob1 = "remove_pubkey_pair_orders te now inst pk alb_pair ob"
  let ?ob2 = "fold (\<lambda>e ob. insert_or_update_order_update_trie te now inst (item_with_infos protos confs e) ob)
    entries ?ob1"
  have "book_ok pair_of inst ?ob1" by (rule book_ok_pair_removed [OF assms(1,2)])
  then have "book_ok pair_of inst (fold (insert_or_update_order_update_trie te now inst)
      (map (item_with_infos protos confs) entries) ?ob1)"
    by (rule book_ok_inserts) (auto simp: list_all_iff intro: assms(3))
  then have ob2: "book_ok pair_of inst ?ob2" by (simp add: fold_map comp_def)
  then have "state_inv inst (pubkey_state_mut now pk ?ob2)"
    by (intro pubkey_state_mut_inv) (simp add: book_ok_def)
  with ob2 show ?thesis by (simp add: process_pubkey_full_trie_def Let_def book_ok_state)
qed

lemma book_ok_delta:
  assumes "book_ok pair_of inst ob"
    and "\<And>u i. (u, Some i) \<in> set delta \<Longrightarrow> of_pair pair_of (item_with_infos protos confs (u, i))"
  shows "book_ok pair_of inst (fst (process_trie_delta te now inst pk alb_pair protos confs delta ob))"
proof -
  have "book_ok pair_of inst (fold (\<lambda>(u, item) ob.
      case item of
        Some i \<Rightarrow> insert_or_update_order_update_trie te now inst (item_with_infos protos confs (u, i)) ob
      | None \<Rightarrow> snd (remove_order_trie_update te now inst u ob)) delta ob)"
    using assms
  proof (induction delta arbitrary: ob)
    case (Cons e delta)
    obtain u item where e: "e = (u, item)" by fastforce
    have "book_ok pair_of inst (case item of
        Some i \<Rightarrow> insert_or_update_order_update_trie te now inst (item_with_infos protos confs (u, i)) ob
      | None \<Rightarrow> snd (remove_order_trie_update te now inst u ob))"
      using Cons.prems e
      by (auto intro: book_ok_insert [OF _ order_refl] book_ok_remove [OF _ order_refl] split: option.split)
    from Cons.IH [OF this] Cons.prems(2) show ?case by (simp add: e)
  qed simp
  then show ?thesis by (simp add: process_trie_delta_def Let_def)
qed

lemma of_pair_updated [simp]: "of_pair pair_of (oi_apply_updated msg i) = of_pair pair_of i"
  by (simp add: of_pair_def oi_apply_updated_def)

lemma book_ok_keep_alive:
  assumes "book_ok pair_of t ob"
  shows "book_ok pair_of t (snd (process_keep_alive te now pk msg relay ob))"
proof -
  have roots: "state_inv t (snd (keep_alive_roots te relevant rs s)) = state_inv t s" for relevant rs s
    by (induction te relevant rs s rule: keep_alive_roots.induct) (auto simp: Let_def split: prod.split)
  have "state_inv t (pubkey_state_mut now pk ob)"
    using assms by (intro pubkey_state_mut_inv) (simp add: book_ok_def)
  then show ?thesis
    using assms roots by (auto simp: process_keep_alive_def Let_def split: prod.split intro!: book_ok_state)
      (metis snd_conv state_inv_other_fields(4))
qed

lemma map_of_deletes:
  "map_of (fold (\<lambda>(k, _). AList.delete k) ks m) x = Some s \<Longrightarrow> map_of m x = Some s"
proof (induction ks arbitrary: m)
  case (Cons e ks)
  have "map_of (AList.delete (fst e) m) x = Some s"
    by (rule Cons.IH) (use Cons.prems in \<open>simp add: case_prod_beta\<close>)
  then show ?case by (simp split: if_splits)
qed simp

lemma book_ok_silent:
  assumes "book_ok pair_of t ob" "t \<le> inst"
  shows "book_ok pair_of inst (remove_silent_makers te now inst my_pubsecp timeout ob)"
proof -
  have "book_ok pair_of inst
      (ob'\<lparr>ob_pubkeys_state := fold (\<lambda>(pk, _). AList.delete pk) silent (ob_pubkeys_state ob')\<rparr>)"
    if "book_ok pair_of inst ob'" for ob' and silent :: "(string \<times> orderbook_pubkey_state) list"
    using that by (auto simp: book_ok_def histories_inv_def cong: book_inv_cong dest!: map_of_deletes)
  then show ?thesis
    using book_ok_removes [OF book_ok_mono [OF assms]] by (simp add: remove_silent_makers_def Let_def)
qed

text \<open>The messages and timers that change the orderbook, with the instants they happen at.\<close>

inductive book_step ::
  "trie_env \<Rightarrow> (uuid \<Rightarrow> string \<times> string) \<Rightarrow> nat \<times> orderbook \<Rightarrow> nat \<times> orderbook \<Rightarrow> bool"
  for te pair_of where
  order_created: "t \<le> inst \<Longrightarrow> of_pair pair_of (orderbook_item_of_created m pk) \<Longrightarrow>
    book_step te pair_of (t, ob)
      (inst, insert_or_update_order_update_trie te now inst (orderbook_item_of_created m pk) ob)"
| my_order_created: "t \<le> inst \<Longrightarrow> of_pair pair_of i \<Longrightarrow>
    book_step te pair_of (t, ob) (inst, insert_or_update_my_order te now inst i key ob)"
| order_updated: "t \<le> inst \<Longrightarrow> process_maker_order_updated te now inst pk upd ob = Inr ob' \<Longrightarrow>
    book_step te pair_of (t, ob) (inst, ob')"
| my_order_updated: "t \<le> inst \<Longrightarrow>
    book_step te pair_of (t, ob) (inst, process_my_maker_order_updated te now inst upd ob)"
| order_cancelled: "t \<le> inst \<Longrightarrow>
    book_step te pair_of (t, ob) (inst, delete_order te now inst pk u ob)"
| my_order_cancelled: "t \<le> inst \<Longrightarrow>
    book_step te pair_of (t, ob) (inst, delete_my_order te now inst u key ob)"
| kept_alive: "t \<le> inst \<Longrightarrow>
    book_step te pair_of (t, ob) (inst, snd (process_keep_alive te now pk ka relay ob))"
| full_trie: "t \<le> inst \<Longrightarrow>
    (\<And>e. e \<in> set entries \<Longrightarrow> of_pair pair_of (item_with_infos protos confs e)) \<Longrightarrow>
    book_step te pair_of (t, ob)
      (inst, fst (process_pubkey_full_trie te now inst pk alb_pair protos confs entries ob))"
| trie_delta: "t \<le> inst \<Longrightarrow>
    (\<And>u i. (u, Some i) \<in> set delta \<Longrightarrow> of_pair pair_of (item_with_infos protos confs (u, i))) \<Longrightarrow>
    book_step te pair_of (t, ob)
      (inst, fst (process_trie_delta te now inst pk alb_pair protos confs delta ob))"
| silent_makers: "t \<le> inst \<Longrightarrow>
    book_step te pair_of (t, ob) (inst, remove_silent_makers te now inst my_pubsecp timeout ob)"

inductive book_reachable ::
  "trie_env \<Rightarrow> (uuid \<Rightarrow> string \<times> string) \<Rightarrow> nat \<times> orderbook \<Rightarrow> nat \<times> orderbook \<Rightarrow> bool"
  for te pair_of where
  book_start: "book_reachable te pair_of b b"
| book_next: "book_reachable te pair_of b c \<Longrightarrow> book_step te pair_of c d \<Longrightarrow> book_reachable te pair_of b d"

definition empty_orderbook :: orderbook where
  "empty_orderbook =
     \<lparr>ob_ordered = (\<lambda>_. None), ob_pairs_existing_for_base = (\<lambda>_. None),
      ob_pairs_existing_for_rel = (\<lambda>_. None), ob_unordered = (\<lambda>_. None), ob_order_set = (\<lambda>_. None),
      ob_pubkeys_state = [], ob_topics_subscribed_to = (\<lambda>_. None), ob_memory_db = [],
      ob_my_p2p_pubkeys = {}\<rparr>"

lemma empty_orderbook_ok: "book_ok pair_of t empty_orderbook"
  by (auto simp: book_ok_def book_inv_def pair_orders_def index_ok_def histories_inv_def empty_orderbook_def)

lemma book_ok_found: "book_ok pair_of t ob \<Longrightarrow> ob_order_set ob u = Some i \<Longrightarrow> of_pair pair_of i"
  by (simp add: book_ok_def)

lemma book_ok_messages:
  assumes "book_ok pair_of t ob" "t \<le> inst"
  shows "of_pair pair_of i \<Longrightarrow> book_ok pair_of inst (insert_or_update_my_order te now inst i key ob)"
    and "process_maker_order_updated te now inst pk upd ob = Inr ob' \<Longrightarrow> book_ok pair_of inst ob'"
    and "book_ok pair_of inst (process_my_maker_order_updated te now inst upd ob)"
    and "book_ok pair_of inst (delete_order te now inst pk u ob)"
    and "book_ok pair_of inst (delete_my_order te now inst u key ob)"
proof -
  note ok = book_ok_insert [OF assms] book_ok_remove [OF assms] book_ok_mono [OF assms] book_ok_found [OF assms(1)]
  show "book_ok pair_of inst (insert_or_update_my_order te now inst i key ob)" if "of_pair pair_of i"
    using that by (simp add: insert_or_update_my_order_def Let_def ok split: option.split)
  show "book_ok pair_of inst ob'" if "process_maker_order_updated te now inst pk upd ob = Inr ob'"
    using that
    by (auto simp: process_maker_order_updated_def find_order_by_uuid_and_pubkey_def ok
        split: option.splits if_splits)
  show "book_ok pair_of inst (process_my_maker_order_updated te now inst upd ob)"
    by (auto simp: process_my_maker_order_updated_def find_order_by_uuid_def ok split: option.split)
  show "book_ok pair_of inst (delete_order te now inst pk u ob)"
    by (simp add: delete_order_def ok split: option.split)
  show "book_ok pair_of inst (delete_my_order te now inst u key ob)"
    by (simp add: delete_my_order_def Let_def ok split: option.split)
qed

lemma book_step_ok:
  assumes "book_step te pair_of b b'" "book_ok pair_of (fst b) (snd b)"
  shows "book_ok pair_of (fst b') (snd b')"
  using assms
proof (cases rule: book_step.cases)
  case (kept_alive t inst ob now pk ka relay)
  then show ?thesis using assms(2) by (auto intro: book_ok_keep_alive book_ok_mono)
next
  case (trie_delta t inst delta protos confs ob now pk alb_pair)
  then show ?thesis using assms(2) by (auto intro!: book_ok_delta intro: book_ok_mono)
next
  case (full_trie t inst entries protos confs ob now pk alb_pair)
  then show ?thesis using assms(2) by (auto intro!: book_ok_full_trie)
qed (use assms(2) in \<open>auto intro: book_ok_insert book_ok_messages book_ok_silent\<close>)

lemma book_reachable_ok:
  "book_reachable te pair_of b c \<Longrightarrow> book_ok pair_of (fst b) (snd b) \<Longrightarrow> book_ok pair_of (fst c) (snd c)"
  by (induction rule: book_reachable.induct) (auto dest: book_step_ok)

section \<open>A sample orderbook\<close>

definition sample_trie :: trie_env where
  "sample_trie =
     \<lparr>te_insert = (\<lambda>db r u b. Inr (b @ db, u)), te_delete = (\<lambda>db r u. Inr (db, h64_default)),
      te_keys = (\<lambda>db r. Inr []), te_hashed_null_node = replicate 8 1, te_item_bytes = op_uuid\<rparr>"

definition sample_created :: "rat \<Rightarrow> proto_maker_order_created" where
  "sample_created price =
     \<lparr>pc_uuid = replicate 16 3, pc_base = ''KMD'', pc_rel = ''LTC'', pc_price = price, pc_max_volume = 10,
      pc_min_volume = 1, pc_created_at = 100,
      pc_conf_settings = \<lparr>oc_base_confs = 1, oc_base_nota = False, oc_rel_confs = 1, oc_rel_nota = False\<rparr>,
      pc_timestamp = 100, pc_pair_trie_root = h64_default, pc_base_protocol_info = [],
      pc_rel_protocol_info = []\<rparr>"

definition sample_book :: orderbook where
  "sample_book = insert_or_update_order_update_trie sample_trie 100 5
     (orderbook_item_of_created (sample_created 2) ''02aa'') empty_orderbook"

lemma sample_book_reachable:
  "book_reachable sample_trie (\<lambda>_. (''KMD'', ''LTC'')) (0, empty_orderbook) (5, sample_book)"
  unfolding sample_book_def
  by (rule book_next [OF book_start order_created])
    (simp_all add: of_pair_def orderbook_item_of_created_def sample_created_def)

lemma sample_book_order:
  "ob_order_set sample_book (replicate 16 3) = Some (orderbook_item_of_created (sample_created 2) ''02aa'')"
proof -
  have "\<not> is_invalid_item (orderbook_item_of_created (sample_created 2) ''02aa'')"
    by (simp add: is_invalid_item_def orderbook_item_of_created_def sample_created_def)
  then show ?thesis
    by (simp add: sample_book_def insert_trie_fields)
      (simp add: orderbook_item_of_created_def sample_created_def)
qed

lemma sample_book_inv: "book_inv sample_book"
proof -
  have "book_ok (\<lambda>_. (''KMD'', ''LTC'')) 5 sample_book"
    using book_reachable_ok [OF sample_book_reachable] by (simp add: empty_orderbook_ok)
  then show ?thesis by (simp add: book_ok_def)
qed

section \<open>Properties\<close>



text \<open>
  Messages of a peer change his own orders only: after a cancellation or an update signed with the
  key \<open>pk\<close>, every order of another maker stands in the orderbook as before.
\<close>

theorem only_the_maker_changes_an_order:
  assumes "ob_order_set ob u = Some i" "oi_pubkey i \<noteq> pk" "book_inv ob"
  shows "ob_order_set (delete_order te now inst pk v ob) u = Some i \<and>
    (\<forall>upd ob'. process_maker_order_updated te now inst pk upd ob = Inr ob' \<longrightarrow>
       ob_order_set ob' u = Some i)"
proof (intro conjI allI impI)
  show "ob_order_set (delete_order te now inst pk v ob) u = Some i"
    using assms by (auto simp: delete_order_def remove_order_set split: option.split)
  fix upd ob'
  assume "process_maker_order_updated te now inst pk upd ob = Inr ob'"
  then obtain j where j: "ob_order_set ob (updated_uuid upd) = Some j" "oi_pubkey j = pk"
    "ob' = insert_or_update_order_update_trie te now inst (oi_apply_updated upd j) ob"
    by (auto simp: process_maker_order_updated_def find_order_by_uuid_and_pubkey_def
        split: option.splits if_splits)
  have "oi_uuid j = updated_uuid upd" using book_invD(1) [OF assms(3) j(1)] by simp
  moreover have "u \<noteq> updated_uuid upd" using assms(1,2) j by auto
  ultimately have "u \<noteq> oi_uuid (oi_apply_updated upd j)" by (simp add: oi_apply_updated_def)
  then show "ob_order_set ob' u = Some i"
    using assms(1) j(3) by (simp add: insert_trie_other)
qed

theorem only_the_maker_changes_an_order_witness:
  "ob_order_set (delete_order sample_trie 200 9 ''02bb'' (replicate 16 3) sample_book) (replicate 16 3)
     = Some (orderbook_item_of_created (sample_created 2) ''02aa'')"
  using only_the_maker_changes_an_order [OF sample_book_order _ sample_book_inv,
      of "''02bb''" sample_trie 200 9 "replicate 16 3"]
  by (simp add: orderbook_item_of_created_def)

text \<open>
  C35. A message that announces an order is not checked like that: whoever signs it replaces the order that
  has the identifier, also one of another maker. The orderbook then shows the new owner, price and
  volume, and later messages of the true maker on his order are refused.
\<close>

theorem order_takeover:
  assumes "ob_order_set ob (pc_uuid m) = Some i" "oi_pubkey i \<noteq> pk"
    and "\<not> is_invalid_item (orderbook_item_of_created m pk)"
    and "ob' = insert_or_update_order_update_trie te now inst (orderbook_item_of_created m pk) ob"
  shows "ob_order_set ob' (pc_uuid m) = Some (orderbook_item_of_created m pk) \<and>
    (\<forall>upd. updated_uuid upd = pc_uuid m \<longrightarrow>
       process_maker_order_updated te now' inst' (oi_pubkey i) upd ob' = Inl (pc_uuid m))"
proof -
  have book: "ob_order_set ob' (pc_uuid m) = Some (orderbook_item_of_created m pk)"
    using assms(3,4) by (simp add: insert_trie_fields) (simp add: orderbook_item_of_created_def)
  then show ?thesis
    using assms(2)
    by (simp add: process_maker_order_updated_def find_order_by_uuid_and_pubkey_def)
      (simp add: orderbook_item_of_created_def)
qed

theorem order_takeover_witness:
  "oi_pubkey (the (ob_order_set (insert_or_update_order_update_trie sample_trie 200 9
     (orderbook_item_of_created (sample_created 1) ''02bb'') sample_book) (replicate 16 3))) = ''02bb''"
proof -
  have "pc_uuid (sample_created 1) = replicate 16 3" by (simp add: sample_created_def)
  then show ?thesis
    using order_takeover [of sample_book "sample_created 1" _ "''02bb''" _ sample_trie 200 9,
        OF _ _ _ refl] sample_book_order
    by (simp add: is_invalid_item_def orderbook_item_of_created_def) (simp add: sample_created_def)
qed

section \<open>Synchronisation\<close>

lemma pair_orders_diff_returns:
  assumes "state_inv t s"
  shows "\<exists>r. pair_orders_diff te ob s pair from_root = Some r"
proof -
  have "\<exists>r. follow_history h rt acc = Some r" if "cache_get (ps_history s) pair = Some h" for h rt acc
    using assms that by (intro follow_history_ends) (auto simp: state_inv_def history_inv_def)
  then show ?thesis
    by (auto simp: pair_orders_diff_def from_history_def Let_def split: option.split)
qed

lemma collect_diffs_returns: "state_inv t s \<Longrightarrow> \<exists>r. collect_diffs te ob s roots = Some r"
proof (induction roots)
  case (Cons p roots)
  obtain pair from_root where p: "p = (pair, from_root)" by fastforce
  obtain r where "pair_orders_diff te ob s pair from_root = Some r"
    using pair_orders_diff_returns [OF Cons.prems] by blast
  then show ?case using Cons by (auto simp: p split: sum.split)
qed simp

text \<open>
  A request for the changes of a maker's orders is always answered: in every orderbook that the
  messages build up, the walk through the history of each pair ends, whatever roots the peer sends.
\<close>

theorem sync_request_answered:
  assumes "book_reachable te pair_of (0, empty_orderbook) (t, ob)"
  shows "\<exists>r. process_sync_pubkey_orderbook_state te ob pubkey trie_roots = Some r"
proof -
  have "book_ok pair_of t ob" using book_reachable_ok [OF assms] by (simp add: empty_orderbook_ok)
  then have "state_inv t s" if "map_of (ob_pubkeys_state ob) pubkey = Some s" for s
    using that by (auto simp: book_ok_def histories_inv_def)
  then show ?thesis
    by (auto simp: process_sync_pubkey_orderbook_state_def split: option.split dest: collect_diffs_returns)
qed

theorem sync_request_answered_witness:
  "\<exists>r. process_sync_pubkey_orderbook_state sample_trie sample_book ''02aa''
     [(''KMD:LTC'', replicate 8 7)] = Some r"
  by (rule sync_request_answered [OF sample_book_reachable])


text \<open>A history of two changes: an entry comes in, and another one goes.\<close>

definition sample_history :: "(nat, nat) trie_diff_history" where
  "sample_history =
     insert_new_diff 3 [2] \<lparr>df_delta = [(7, None)], df_next_root = [3]\<rparr>
       (insert_new_diff 2 [1] \<lparr>df_delta = [(5, Some 50)], df_next_root = [2]\<rparr> (cache_new 300))"

definition sample_contents :: "h64 \<Rightarrow> nat \<Rightarrow> nat option" where
  "sample_contents r =
     (if r = [1] then [7 \<mapsto> 70] else if r = [2] then [7 \<mapsto> 70, 5 \<mapsto> 50]
      else if r = [3] then [5 \<mapsto> 50] else Map.empty)"

lemma sample_history_get:
  "cache_get sample_history =
     [[1] \<mapsto> \<lparr>df_delta = [(5, Some 50)], df_next_root = [2]\<rparr>,
      [2] \<mapsto> \<lparr>df_delta = [(7, None)], df_next_root = [3]\<rparr>]"
  by (rule ext)
    (simp add: sample_history_def insert_new_diff_def cache_remove_def remove_expired_keys_def cache_new_def
      cache_insert_def cache_put_def cache_get_def)


lemma insert_new_diff_describes:
  assumes "history_describes contents h" "history_inv t h" "t \<le> now"
    and "contents (df_next_root d) = apply_delta (df_delta d) (contents a)"
  shows "history_describes contents (insert_new_diff now a d h)"
  using assms(1,4) insert_new_diff_inv(2) [OF assms(2,3)]
  unfolding history_describes_def by blast

end
