(* ===== verification/OrderProps.thy ===== *)
theory OrderProps
  imports NodeRequests BookProps SampleNode
begin

text \<open>
  Properties of the orders of a node over all its states: reservations, counters, panics, and the start
  of swaps; with a sample node for the witnesses.
\<close>

section \<open>A sample node\<close>

definition sample_om_coin :: "string \<Rightarrow> om_coin" where
  "sample_om_coin ticker =
     coin.extend (sample_coin True ticker)
       (om_coin.fields (1 / 1000) 1 False (\<lambda>_. [1]) (\<lambda>_ _ _ _. True))"

definition sample_env :: om_env where
  "sample_env =
     \<lparr>oe_ctx = sample_ctx, oe_public_key = Some sample_key,
      oe_coin = (\<lambda>t ticker. if ticker = ''RICK'' \<or> ticker = ''MORTY''
                            then Inr (Some (sample_om_coin ticker)) else Inr None),
      oe_uuid = (\<lambda>t. replicate 16 (word_of_nat t)),
      oe_keypair = (\<lambda>t. \<lparr>kp_private = replicate 32 1, kp_public = replicate 33 3\<rparr>),
      oe_secret = (\<lambda>t. Inr (replicate 32 5)), oe_instant = (\<lambda>t. t), oe_trie = sample_trie,
      oe_storage_error = (\<lambda>_ _. None)\<rparr>"

definition sample_order_conf :: order_confirmations_settings where
  "sample_order_conf = \<lparr>oc_base_confs = 1, oc_base_nota = False, oc_rel_confs = 2, oc_rel_nota = False\<rparr>"

text \<open>A buyer of 2 RICK for at most 5 MORTY, and a seller of 10 RICK at 2 MORTY each.\<close>

definition sample_request :: taker_request where
  "sample_request =
     \<lparr>tr_base = ''RICK'', tr_rel = ''MORTY'', tr_base_amount = 2, tr_rel_amount = 5, tr_action = Buy,
      tr_uuid = replicate 16 7, tr_sender_pubkey = replicate 32 4, tr_dest_pub_key = hash_default 32,
      tr_match_by = MatchAny, tr_conf_settings = Some sample_order_conf,
      tr_base_protocol_info = None, tr_rel_protocol_info = None\<rparr>"

definition sample_maker_order :: "(uuid \<times> maker_match) list \<Rightarrow> maker_order" where
  "sample_maker_order matches =
     \<lparr>mo_max_base_vol = 10, mo_min_base_vol = 1, mo_price = 2, mo_created_at = 1, mo_updated_at = Some 1,
      mo_base = ''RICK'', mo_rel = ''MORTY'', mo_matches = matches,
      mo_started_swaps = map fst (filter (\<lambda>(_, m). mk_connected m \<noteq> None) matches),
      mo_uuid = replicate 16 9, mo_conf_settings = Some sample_order_conf, mo_save_in_history = True,
      mo_base_orderbook_ticker = None, mo_rel_orderbook_ticker = None, mo_p2p_privkey = None\<rparr>"

definition sample_reserved :: "rat \<Rightarrow> rat \<Rightarrow> maker_reserved" where
  "sample_reserved base_amount rel_amount =
     \<lparr>mr_base = ''RICK'', mr_rel = ''MORTY'', mr_base_amount = base_amount, mr_rel_amount = rel_amount,
      mr_taker_order_uuid = replicate 16 7, mr_maker_order_uuid = replicate 16 9,
      mr_sender_pubkey = replicate 32 2, mr_dest_pub_key = replicate 32 4,
      mr_conf_settings = Some sample_order_conf, mr_base_protocol_info = Some [1],
      mr_rel_protocol_info = Some [1]\<rparr>"

definition sample_match :: maker_match where
  "sample_match =
     \<lparr>mk_request = sample_request, mk_reserved = sample_reserved 2 4, mk_connect = None,
      mk_connected = None, mk_last_updated = 1\<rparr>"

definition sample_taker_order :: taker_order where
  "sample_taker_order =
     \<lparr>to_created_at = 1, to_request = sample_request, to_matches = [], to_min_volume = 1,
      to_order_type = GoodTillCancelled, to_timeout = 30, to_save_in_history = True,
      to_base_orderbook_ticker = None, to_rel_orderbook_ticker = None, to_p2p_privkey = None\<rparr>"

definition sample_node :: om_state where
  "sample_node = snd (orders_kick_start [sample_maker_order [(replicate 16 7, sample_match)]] []
     (empty_om_state empty_orderbook (\<lambda>_. None)))"

definition sample_connect :: taker_connect where
  "sample_connect =
     \<lparr>tc_taker_order_uuid = replicate 16 7, tc_maker_order_uuid = replicate 16 9,
      tc_sender_pubkey = hash_default 32, tc_dest_pub_key = hash_default 32\<rparr>"

lemma sample_om_coin_simps [simp]:
  "c_min_trading_vol (sample_om_coin ticker) = 1 / 1000" "c_min_tx_amount (sample_om_coin ticker) = 1 / 10000"
  "c_ticker (sample_om_coin ticker) = ticker" "c_is_privacy (sample_om_coin ticker) = False"
  by (simp_all add: sample_om_coin_def coin.defs om_coin.defs sample_coin_def)

lemma sample_unprefixed: "unprefixed sample_key = replicate 32 2"
  unfolding unprefixed_def sample_key_def drop_replicate by simp

lemma sample_env_coins_ok: "coins_ok sample_env"
  by (auto simp: coins_ok_def sample_env_def split: if_splits)

lemma sample_order_ok: "order_ok (replicate 16 9) (sample_maker_order [(replicate 16 7, sample_match)])"
  by (simp add: order_ok_def sample_maker_order_def match_ok_def sample_match_def sample_request_def
      sample_reserved_def reserved_amount_def connected_matches_def)

lemma sample_node_reachable: "node_reachable sample_env sample_node"
  unfolding sample_node_def
  by (rule node_reachable.start [OF _ refl])
    (use sample_order_ok in \<open>simp add: saved_orders_ok_def sample_maker_order_def\<close>)

lemma sample_node_orders:
  "om_orders sample_node = [(replicate 16 9, sample_maker_order [(replicate 16 7, sample_match)])]"
  by (simp add: sample_node_def orders_kick_start_def empty_om_state_def add_order_def)
    (simp add: sample_maker_order_def)

section \<open>New orders and matches\<close>

text \<open>
  A match gives both sides what they asked for: the maker sells at his price a positive volume that
  his order still has and that is not below his minimum; the taker gives exactly the amount he asked to
  sell, or gets exactly the amount he asked to buy, at no worse a price than his own.
\<close>

theorem match_sound:
  assumes "match_with_request ord q = Some (OM_Matched base_amount rel_amount)" "0 < mo_price ord"
  shows "0 < base_amount \<and> rel_amount = base_amount * mo_price ord \<and>
    mo_min_base_vol ord \<le> base_amount \<and> base_amount \<le> available_amount ord \<and>
    (case tr_action q of
       Buy \<Rightarrow> base_amount = tr_base_amount q \<and> rel_amount \<le> tr_rel_amount q
     | Sell \<Rightarrow> rel_amount = tr_base_amount q \<and> tr_rel_amount q \<le> base_amount)"
  by (rule match_terms [OF assms])

theorem match_sound_witness:
  "match_with_request (sample_maker_order []) sample_request = Some (OM_Matched 2 4) \<and>
   2 \<le> available_amount (sample_maker_order [])"
proof -
  have "match_with_request (sample_maker_order []) sample_request = Some (OM_Matched 2 4)"
    by (simp add: match_with_request_def sample_maker_order_def sample_request_def mm_div_def
        available_amount_def reserved_amount_def)
  with match_sound [OF this] show ?thesis by (simp add: sample_maker_order_def)
qed

definition sample_draws :: draws where
  "sample_draws = \<lparr>dr_now_ms = 1, dr_uuid = replicate 16 9,
     dr_keypair = \<lparr>kp_private = replicate 32 1, kp_public = replicate 33 3\<rparr>\<rparr>"

definition sample_builder :: maker_order_builder where
  "sample_builder = (maker_order_builder_new (sample_om_coin ''RICK'') (sample_om_coin ''MORTY''))
     \<lparr>mb_max_base_vol := 10, mb_price := 2, mb_conf_settings := Some sample_order_conf\<rparr>"

definition sample_taker_builder :: taker_order_builder where
  "sample_taker_builder =
     \<lparr>tb_base_coin = sample_om_coin ''RICK'', tb_rel_coin = sample_om_coin ''MORTY'',
      tb_base_orderbook_ticker = None, tb_rel_orderbook_ticker = None, tb_base_amount = 2, tb_rel_amount = 5,
      tb_sender_pubkey = replicate 32 4, tb_action = Buy, tb_match_by = MatchAny,
      tb_order_type = GoodTillCancelled, tb_conf_settings = Some sample_order_conf, tb_min_volume = None,
      tb_timeout = 30, tb_save_in_history = True\<rparr>"

theorem maker_order_build_sound_witness:
  "\<exists>ord. maker_order_build sample_draws sample_builder = Some (Inr ord) \<and> available_amount ord = 10 \<and>
     1 / 1000 \<le> mo_max_base_vol ord * mo_price ord"
proof -
  have "maker_order_build sample_draws sample_builder = Some (Inr (maker_order_of_builder sample_draws sample_builder (1 / 1000)))"
    by (simp add: maker_order_build_def Let_def sample_builder_def maker_order_builder_new_def validate_price_def
        validate_and_get_min_vol_def validate_max_vol_def mm_div_def)
  then obtain ord where b: "maker_order_build sample_draws sample_builder = Some (Inr ord)" by blast
  then have "available_amount ord = mb_max_base_vol sample_builder"
      "c_min_trading_vol (mb_rel_coin sample_builder) \<le> mo_max_base_vol ord * mo_price ord"
    using maker_order_build_sound [of sample_draws sample_builder] by blast+
  with b show ?thesis by (simp add: sample_builder_def maker_order_builder_new_def)
qed

theorem taker_to_maker_sound_witness:
  "\<exists>ord m. taker_order_build sample_draws sample_taker_builder = Some (Inr ord) \<and>
     maker_order_from_taker 7 ord = Some m \<and> 0 < mo_price m \<and> mo_max_base_vol m * mo_price m = 2"
proof -
  have "taker_order_build sample_draws sample_taker_builder
      = Some (Inr (taker_order_of_builder sample_draws sample_taker_builder (1 / 1000)))"
    by (simp add: taker_order_build_def Let_def sample_taker_builder_def mm_div_def hash_default_def max_def)
  then obtain ord where b: "taker_order_build sample_draws sample_taker_builder = Some (Inr ord)" by blast
  have "0 < c_min_trading_vol (tb_base_coin sample_taker_builder)" "0 < c_min_trading_vol (tb_rel_coin sample_taker_builder)"
    by (simp_all add: sample_taker_builder_def)
  from taker_to_maker_sound [OF b this, of 7] b show ?thesis by (auto simp: sample_taker_builder_def)
qed

section \<open>Reservations and counters\<close>

text \<open>
  C4. Whatever messages, timers and requests of the user a node handles, in whatever order: the amounts that
  an order of the node has reserved for its matches never exceed its volume, each of them is positive and
  belongs to exactly one request, and a swap was started exactly for the matches that are connected, once
  for each.
\<close>

theorem orders_never_overcommitted:
  assumes "node_reachable e st" "coins_ok e" "map_of (om_orders st) u = Some ord"
  shows "reserved_amount ord \<le> mo_max_base_vol ord \<and> 0 \<le> available_amount ord \<and>
    (\<forall>(k, m) \<in> set (mo_matches ord). 0 < mr_base_amount (mk_reserved m) \<and> tr_uuid (mk_request m) = k \<and>
       mr_maker_order_uuid (mk_reserved m) = u) \<and>
    distinct (mo_started_swaps ord) \<and>
    set (mo_started_swaps ord) = {k. \<exists>m. map_of (mo_matches ord) k = Some m \<and> mk_connected m \<noteq> None}"
proof -
  have ok: "order_ok u ord"
    using node_reachable_inv [OF assms(1,2)] assms(3) by (auto simp: node_inv_def intro: orders_okD)
  then have "(k, m) \<in> set (mo_matches ord) \<longleftrightarrow> map_of (mo_matches ord) k = Some m" for k m
    by (simp add: order_ok_def)
  then have "connected_matches ord = {k. \<exists>m. map_of (mo_matches ord) k = Some m \<and> mk_connected m \<noteq> None}"
    by (simp add: connected_matches_def)
  then show ?thesis
    using ok by (auto simp: order_ok_def match_ok_def available_amount_def)
qed

theorem orders_never_overcommitted_witness:
  "0 \<le> available_amount (sample_maker_order [(replicate 16 7, sample_match)])"
  using orders_never_overcommitted [OF sample_node_reachable sample_env_coins_ok, of "replicate 16 9"]
  by (simp add: sample_node_orders)

text \<open>
  The counters of active orders by coin agree with the orders themselves: a coin has active maker orders
  exactly if one of the orders sells it, and exactly then the loop that watches its balance runs.
\<close>

theorem order_counters_agree:
  assumes "node_reachable e st" "coins_ok e"
  shows "(coin_has_active_maker_orders st ticker \<longleftrightarrow> (\<exists>(u, ord) \<in> set (om_orders st). mo_base ord = ticker)) \<and>
    (ticker \<in> om_balance_loops st \<longleftrightarrow> coin_has_active_maker_orders st ticker)"
proof -
  have c: "counts_ok st" using node_reachable_inv [OF assms] by (simp add: node_inv_def orders_ok_def)
  have "ticker \<in> set (map snd (bases st)) \<longleftrightarrow> (\<exists>(u, ord) \<in> set (om_orders st). mo_base ord = ticker)"
    by (force simp: bases_def)
  moreover have "coin_has_active_maker_orders st ticker \<longleftrightarrow> count_list (map snd (bases st)) ticker \<noteq> 0"
    using c by (auto simp: coin_has_active_maker_orders_def counts_ok_def split: option.splits dest!: spec [of _ ticker])
  ultimately show ?thesis using c by (simp add: counts_ok_def count_list_0_iff)
qed

theorem order_counters_agree_witness:
  "coin_has_active_maker_orders sample_node ''RICK''"
  using order_counters_agree [OF sample_node_reachable sample_env_coins_ok, of "''RICK''"]
  by (simp add: sample_node_orders) (simp add: sample_maker_order_def)

section \<open>Panics\<close>

lemma maker_order_build_not_None: "maker_order_build d b = None \<longleftrightarrow> False"
  using maker_order_build_total [of d b] by auto

lemma maker_order_build_conf:
  assumes "maker_order_build d b = Some (Inr ord)"
  shows "mo_conf_settings ord \<noteq> None"
proof -
  obtain v where "ord = maker_order_of_builder d b v" "mb_conf_settings b \<noteq> None"
    using maker_order_build_InrD [OF assms] by blast
  then show ?thesis by (simp add: maker_order_of_builder_def)
qed



text \<open>
  There is one exception: the second half of \<open>process_maker_reserved\<close> divides by the base amounts of the
  reservations that came in for an order. Two messages suffice, from any peer, if the amount in the
  second one is zero.
\<close>

theorem zero_reservation_panics:
  assumes "map_of (om_taker_orders st) u = Some ord" "om_pending st u = None"
    and "find_pair e t (maker_coin_ticker ord) (taker_coin_ticker ord) = Inr (Some coins)"
    and "oe_public_key e = Some key" "pk \<noteq> unprefixed key"
    and "mr_taker_order_uuid r1 = u" "mr_taker_order_uuid r2 = u" "mr_base_amount r2 = 0"
  shows "\<exists>st1 st2. process_maker_reserved e pk r1 st = Some (st1, True) \<and>
    process_maker_reserved e pk r2 st1 = Some (st2, False) \<and>
    process_pending_reserved e t u st2 = None"
proof -
  let ?st1 = "st\<lparr>om_pending := (om_pending st)(u \<mapsto> [r1])\<rparr>"
  let ?st2 = "st\<lparr>om_pending := (om_pending st)(u \<mapsto> [r1, r2])\<rparr>"
  have "process_maker_reserved e pk r1 st = Some (?st1, True)" "process_maker_reserved e pk r2 ?st1 = Some (?st2, False)"
    using assms by (auto simp: process_maker_reserved_def our_public_id_def)
  moreover have "sort_by_price [r1, r2] = None"
    using assms(8) by (simp add: sort_by_price_def mr_price_def mm_div_def)
  then have "process_pending_reserved e t u ?st2 = None"
    using assms(1,3) by (cases coins) (simp add: process_pending_reserved_def)
  ultimately show ?thesis by blast
qed

theorem zero_reservation_panics_witness:
  "\<exists>st1 st2. process_maker_reserved sample_env (replicate 32 4) (sample_reserved 2 4)
      (sample_node\<lparr>om_taker_orders := [(replicate 16 7, sample_taker_order)]\<rparr>) = Some (st1, True) \<and>
    process_maker_reserved sample_env (replicate 32 4) (sample_reserved 0 4) st1 = Some (st2, False) \<and>
    process_pending_reserved sample_env 3 (replicate 16 7) st2 = None"
proof (rule zero_reservation_panics [where key = sample_key])
  show "find_pair sample_env 3 (maker_coin_ticker sample_taker_order) (taker_coin_ticker sample_taker_order)
      = Inr (Some (sample_om_coin ''RICK'', sample_om_coin ''MORTY''))"
    by (simp add: find_pair_def sample_env_def maker_coin_ticker_def taker_coin_ticker_def
        sample_taker_order_def sample_request_def)
  show "om_pending (sample_node\<lparr>om_taker_orders := [(replicate 16 7, sample_taker_order)]\<rparr>) (replicate 16 7) = None"
    by (simp add: sample_node_def orders_kick_start_def empty_om_state_def add_order_def)
qed (simp_all add: sample_env_def sample_unprefixed sample_reserved_def)

section \<open>Start of the maker's swap\<close>

lemma start_bob_swap:
  "RunMakerSwap sw \<in> set (lp_connect_start_bob e t m ord) \<Longrightarrow>
   ms_uuid sw = tr_uuid (mk_request m) \<and> ms_taker sw = tr_sender_pubkey (mk_request m) \<and>
   ms_maker_amount sw = x_to_decimal (oe_ctx e) (mr_base_amount (mk_reserved m)) \<and>
   ms_taker_amount sw = x_to_decimal (oe_ctx e) (mr_rel_amount (mk_reserved m))"
  by (cases "oe_secret e t"; cases "oe_public_key e"; cases "oe_coin e t (mo_base ord)"; cases "oe_coin e t (mo_rel ord)")
    (auto simp: lp_connect_start_bob_def Let_def maker_swap_new_def split: option.split_asm)

lemma updated_notify_effects:
  "maker_order_updated_p2p_notify e t topic msg key st = (st', fx) \<Longrightarrow> RunMakerSwap sw \<notin> set fx"
  by (auto simp: maker_order_updated_p2p_notify_def)

text \<open>The whole effect of a connect message that starts a swap.\<close>

lemma process_taker_connect_swapD:
  assumes "process_taker_connect e t sender msg st = (st', fx)" "RunMakerSwap sw \<in> set fx"
  shows "\<exists>ord m d. map_of (om_orders st) (tc_maker_order_uuid msg) = Some ord \<and>
    map_of (mo_matches ord) (tc_taker_order_uuid msg) = Some m \<and> mk_connected m = None \<and>
    tr_sender_pubkey (mk_request m) = sender \<and>
    (let m' = m\<lparr>mk_connect := Some msg, mk_connected := Some d\<rparr>;
         ord' = ord\<lparr>mo_matches := AList.update (tc_taker_order_uuid msg) m' (mo_matches ord),
                  mo_started_swaps := mo_started_swaps ord @ [tr_uuid (mk_request m')]\<rparr>
     in RunMakerSwap sw \<in> set (lp_connect_start_bob e t m' ord') \<and>
        orders_part st' = orders_part (set_order (tc_maker_order_uuid msg) ord' st))"
proof -
  let ?u = "tc_maker_order_uuid msg" and ?k = "tc_taker_order_uuid msg"
  obtain public_id where pid: "our_public_id e = Some public_id" "public_id \<noteq> sender"
    using assms by (cases "our_public_id e") (auto simp: process_taker_connect_def split: if_split_asm)
  obtain ord where ord: "map_of (om_orders st) ?u = Some ord"
    using assms pid by (cases "map_of (om_orders st) ?u") (auto simp: process_taker_connect_def)
  obtain m where m: "map_of (mo_matches ord) ?k = Some m"
    using assms pid ord by (cases "map_of (mo_matches ord) ?k") (auto simp: process_taker_connect_def)
  have c: "tr_sender_pubkey (mk_request m) = sender" "mk_connected m = None" "mk_connect m = None"
    using assms pid ord m by (auto simp: process_taker_connect_def split: if_split_asm)
  let ?d = "\<lparr>mc_taker_order_uuid = ?k, mc_maker_order_uuid = ?u, mc_method = ''connected'',
              mc_sender_pubkey = public_id, mc_dest_pub_key = tc_sender_pubkey msg\<rparr>"
  show ?thesis
    apply (intro exI [of _ ord] exI [of _ m] exI [of _ ?d] conjI)
    using assms pid ord m c
    apply (simp_all add: process_taker_connect_def Let_def updated_notify_effects split: if_split_asm prod.split_asm)
    apply (auto dest: orders_part_pairD updated_notify_effects)
    done
qed

text \<open>A match that is connected starts nothing.\<close>

lemma process_taker_connect_connected:
  assumes "map_of (om_orders st) (tc_maker_order_uuid msg) = Some ord"
    "map_of (mo_matches ord) (tc_taker_order_uuid msg) = Some m" "mk_connected m \<noteq> None"
  shows "snd (process_taker_connect e t sender msg st) = []"
  using assms by (auto simp: process_taker_connect_def split: option.splits)



end
