(* ===== verification/HandshakeProps.thy ===== *)
theory HandshakeProps
  imports OrderProps
begin

text \<open>
  The two sides of the ordermatch protocol together: what a maker reserves for a request, the taker who
  sent the request accepts; and the swaps both sides then start have the same terms.
\<close>

section \<open>The reservation\<close>

lemma reserve_order_messageD:
  assumes "Broadcast topics (MakerReservedMsg pr) key \<in> set (snd (reserve_order e t public_id req u ord b q st))"
  shows "key = mo_p2p_privkey ord \<and> topics = [mo_orderbook_topic ord] \<and>
    pr_base pr = mo_base_ticker ord \<and> pr_rel pr = mo_rel_ticker ord \<and>
    pr_base_amount pr = b \<and> pr_rel_amount pr = q \<and>
    pr_taker_order_uuid pr = tr_uuid req \<and> pr_maker_order_uuid pr = u \<and>
    (mo_conf_settings ord \<noteq> None \<longrightarrow> mo_conf_settings ord = Some (pr_conf_settings pr))"
  using assms
  by (auto simp: reserve_order_def Let_def message_of_maker_reserved_def
      split: sum.split_asm option.split_asm prod.split_asm if_split_asm)

lemma request_orders_messageD:
  assumes "request_orders e t public_id req xs st = Some (st', fx)"
    "Broadcast topics (MakerReservedMsg pr) key \<in> set fx"
  shows "\<exists>u ord b q. (u, ord) \<in> set xs \<and> can_match_with_uuid req u \<and>
    match_with_request ord req = Some (OM_Matched b q) \<and>
    Broadcast topics (MakerReservedMsg pr) key \<in> set (snd (reserve_order e t public_id req u ord b q st))"
  using assms
proof (induction xs)
  case (Cons x xs)
  obtain u ord where x: "x = (u, ord)" by (cases x)
  show ?case
  proof (cases "can_match_with_uuid req u \<and> (\<exists>b q. match_with_request ord req = Some (OM_Matched b q))")
    case True
    then obtain b q where "match_with_request ord req = Some (OM_Matched b q)" "can_match_with_uuid req u" by blast
    then show ?thesis using Cons.prems by (auto simp: x intro!: exI [of _ u] exI [of _ ord])
  next
    case False
    then have "request_orders e t public_id req xs st = Some (st', fx)"
      using Cons.prems(1) by (auto simp: x split: if_split_asm option.split_asm order_match_result.split_asm)
    from Cons.IH [OF this Cons.prems(2)] show ?thesis by (auto simp: x)
  qed
qed simp

lemma process_taker_request_messageD:
  assumes "process_taker_request e t from_pubkey req st = Some (st', fx)"
    "Broadcast topics (MakerReservedMsg pr) key \<in> set fx"
  shows "\<exists>public_id u ord b q. our_public_id e = Some public_id \<and> can_match_with_maker_pubkey req public_id \<and>
    (u, ord) \<in> set (om_orders st) \<and> can_match_with_uuid req u \<and>
    match_with_request ord req = Some (OM_Matched b q) \<and>
    Broadcast topics (MakerReservedMsg pr) key \<in> set (snd (reserve_order e t public_id req u ord b q st))"
  using assms request_orders_messageD [of e t _ req "om_orders st" st st' fx topics pr key]
  by (auto simp: process_taker_request_def split: option.split_asm if_split_asm)

text \<open>An order that goes by one name of each of its coins.\<close>

definition one_name :: "string \<Rightarrow> maker_order \<Rightarrow> bool" where
  "one_name name ord \<longleftrightarrow>
     (mo_base ord = name \<longrightarrow> mo_base_ticker ord = name) \<and> (mo_rel ord = name \<longrightarrow> mo_rel_ticker ord = name)"

lemma one_name_match:
  assumes "one_name name ord"
  shows "mo_base ord = name \<or> mo_base_orderbook_ticker ord = Some name \<Longrightarrow> mo_base_ticker ord = name"
    "mo_rel ord = name \<or> mo_rel_orderbook_ticker ord = Some name \<Longrightarrow> mo_rel_ticker ord = name"
  using assms by (auto simp: one_name_def mo_base_ticker_def mo_rel_ticker_def)

text \<open>
  What a maker reserves for the request of a taker, that taker accepts: if the request is the message of
  the taker's order, and the maker answers it with a reservation that is signed with his own key, the
  reservation passes all checks of \<open>match_reserved\<close> on the taker's side. The orders of the maker must
  not have a second name for a coin beside the one the request uses.
\<close>

theorem reservation_accepted:
  assumes "node_reachable e st" "coins_ok e" "oe_public_key e = Some key_m"
    and "message_of_taker_order tord = Some (TakerRequestMsg p)"
    and "process_taker_request e t sender (taker_request_from_proto p sender) st = Some (st', fx)"
    and "Broadcast topics (MakerReservedMsg pr) None \<in> set fx"
    and "\<forall>(u, ord) \<in> set (om_orders st). one_name (pt_base p) ord \<and> one_name (pt_rel p) ord"
  shows "match_reserved tord (maker_reserved_from_proto pr (unprefixed key_m)) = MR_Matched"
proof -
  let ?req = "taker_request_from_proto p sender" and ?q = "to_request tord"
  obtain u ord b q where u: "(u, ord) \<in> set (om_orders st)" "can_match_with_uuid ?req u"
      "can_match_with_maker_pubkey ?req (unprefixed key_m)"
      "match_with_request ord ?req = Some (OM_Matched b q)"
    and m: "Broadcast topics (MakerReservedMsg pr) None
        \<in> set (snd (reserve_order e t (unprefixed key_m) ?req u ord b q st))"
    using process_taker_request_messageD [OF assms(5,6)] assms(3) by (auto simp: our_public_id_def)
  note pr = reserve_order_messageD [OF m]
  have price: "0 < mo_price ord"
    using node_reachable_inv [OF assms(1,2)] u(1) by (auto simp: node_inv_def orders_ok_def order_ok_def)
  have names: "one_name (pt_base p) ord" "one_name (pt_rel p) ord" using assms(7) u(1) by auto
  have p: "pt_base p = to_base_ticker tord" "pt_rel p = to_rel_ticker tord"
    "pt_base_amount p = tr_base_amount ?q" "pt_rel_amount p = tr_rel_amount ?q" "pt_action p = tr_action ?q"
    "pt_match_by p = tr_match_by ?q"
    using assms(4) by (auto simp: message_of_taker_order_def Let_def)
  note * = match_with_request_MatchedD [OF u(4)] and s = match_terms [OF u(4) price]
  show ?thesis
  proof (cases "tr_action ?q")
    case Buy
    have "mo_base_ticker ord = to_base_ticker tord" "mo_rel_ticker ord = to_rel_ticker tord"
      using * Buy names p one_name_match by (auto simp: taker_request_from_proto_def)
    then show ?thesis
      using pr s Buy p u(2,3)
      by (auto simp: match_reserved_def maker_reserved_from_proto_def taker_request_from_proto_def
          can_match_with_uuid_def can_match_with_maker_pubkey_def to_base_ticker_def to_rel_ticker_def
          split: match_by.splits option.splits)
  next
    case Sell
    have "mo_base_ticker ord = to_rel_ticker tord" "mo_rel_ticker ord = to_base_ticker tord"
      using * Sell names p one_name_match by (auto simp: taker_request_from_proto_def)
    then show ?thesis
      using pr s Sell p u(2,3)
      by (auto simp: match_reserved_def maker_reserved_from_proto_def taker_request_from_proto_def
          can_match_with_uuid_def can_match_with_maker_pubkey_def to_base_ticker_def to_rel_ticker_def
          split: match_by.splits option.splits)
  qed
qed


text \<open>The request of the sample taker, as the sample node gets it, and its answer.\<close>

definition sample_proto_request :: proto_taker_request where
  "sample_proto_request =
     \<lparr>pt_base = ''RICK'', pt_rel = ''MORTY'', pt_base_amount = 2, pt_rel_amount = 5, pt_action = Buy,
      pt_uuid = replicate 16 7, pt_match_by = MatchAny, pt_conf_settings = sample_order_conf,
      pt_base_protocol_info = None, pt_rel_protocol_info = None\<rparr>"

definition sample_proto_reserved :: proto_maker_reserved where
  "sample_proto_reserved =
     \<lparr>pr_base = ''RICK'', pr_rel = ''MORTY'', pr_base_amount = 2, pr_rel_amount = 4,
      pr_taker_order_uuid = replicate 16 7, pr_maker_order_uuid = replicate 16 9,
      pr_conf_settings = sample_order_conf, pr_base_protocol_info = Some [1], pr_rel_protocol_info = Some [1]\<rparr>"

definition fresh_node :: om_state where
  "fresh_node = snd (orders_kick_start [sample_maker_order []] [] (empty_om_state empty_orderbook (\<lambda>_. None)))"

lemma fresh_node_reachable: "node_reachable sample_env fresh_node"
  unfolding fresh_node_def
  by (rule node_reachable.start [OF _ refl])
    (simp add: saved_orders_ok_def sample_maker_order_def order_ok_def reserved_amount_def connected_matches_def)

lemma fresh_node_orders: "om_orders fresh_node = [(replicate 16 9, sample_maker_order [])]"
  by (simp add: fresh_node_def orders_kick_start_def empty_om_state_def add_order_def)
    (simp add: sample_maker_order_def)

lemma sample_message: "message_of_taker_order sample_taker_order = Some (TakerRequestMsg sample_proto_request)"
  by (simp add: message_of_taker_order_def sample_taker_order_def sample_request_def sample_proto_request_def
      to_base_ticker_def to_rel_ticker_def)

lemma fresh_node_answer:
  "\<exists>st' topics fx. process_taker_request sample_env 3 (replicate 32 4)
      (taker_request_from_proto sample_proto_request (replicate 32 4)) fresh_node = Some (st', fx) \<and>
    Broadcast topics (MakerReservedMsg sample_proto_reserved) None \<in> set fx"
proof -
  let ?o = "sample_maker_order []" and ?req = "taker_request_from_proto sample_proto_request (replicate 32 4)"
  have m: "match_with_request ?o ?req = Some (OM_Matched 2 4)"
    by (simp add: match_with_request_def sample_maker_order_def taker_request_from_proto_def sample_proto_request_def
        mm_div_def available_amount_def reserved_amount_def)
  have f: "find_pair sample_env 3 ''RICK'' ''MORTY'' = Inr (Some (sample_om_coin ''RICK'', sample_om_coin ''MORTY''))"
    by (simp add: find_pair_def sample_env_def)
  have "snd (reserve_order sample_env 3 (replicate 32 2) ?req (replicate 16 9) ?o 2 4 fresh_node) =
      [Broadcast [mo_orderbook_topic ?o] (MakerReservedMsg sample_proto_reserved) None]"
    using f
    by (simp add: reserve_order_def Let_def sample_maker_order_def sample_proto_reserved_def
        message_of_maker_reserved_def taker_request_from_proto_def sample_proto_request_def
        mo_base_ticker_def mo_rel_ticker_def)
      (simp add: sample_om_coin_def coin.defs om_coin.defs)
  then show ?thesis
    using m sample_unprefixed
    by (cases "reserve_order sample_env 3 (replicate 32 2) ?req (replicate 16 9) ?o 2 4 fresh_node")
      (auto simp: process_taker_request_def our_public_id_def fresh_node_orders sample_env_def
        can_match_with_maker_pubkey_def can_match_with_uuid_def taker_request_from_proto_def sample_proto_request_def)
qed

theorem reservation_accepted_witness:
  "match_reserved sample_taker_order (maker_reserved_from_proto sample_proto_reserved (unprefixed sample_key)) = MR_Matched"
proof -
  obtain st' topics fx where
    "process_taker_request sample_env 3 (replicate 32 4)
      (taker_request_from_proto sample_proto_request (replicate 32 4)) fresh_node = Some (st', fx)"
    "Broadcast topics (MakerReservedMsg sample_proto_reserved) None \<in> set fx"
    using fresh_node_answer by blast
  from reservation_accepted [OF fresh_node_reachable sample_env_coins_ok _ sample_message this] show ?thesis
    by (simp add: fresh_node_orders one_name_def sample_maker_order_def sample_proto_request_def sample_env_def
        mo_base_ticker_def mo_rel_ticker_def)
qed

section \<open>The swaps of both sides\<close>

lemma connected_alice_swap:
  "RunTakerSwap sw \<in> set (lp_connected_alice e t ord m) \<Longrightarrow>
   \<exists>maker_coin taker_coin. ts_uuid sw = mr_taker_order_uuid (tk_reserved m) \<and>
     ts_maker sw = mr_sender_pubkey (tk_reserved m) \<and>
     ts_maker_amount sw = mr_base_amount (tk_reserved m) \<and> ts_taker_amount sw = mr_rel_amount (tk_reserved m) \<and>
     (mr_conf_settings (tk_reserved m) \<noteq> None \<longrightarrow>
      ts_payment_locktime sw = lp_atomic_locktime (maker_orderbook_ticker ord) (taker_orderbook_ticker ord)
        (LT_V2 (choose_taker_confs_and_notas (to_request ord) (mr_conf_settings (tk_reserved m)) maker_coin taker_coin)
           (choose_maker_confs_and_notas (mr_conf_settings (tk_reserved m)) (to_request ord) maker_coin taker_coin)))"
  by (auto simp: lp_connected_alice_def Let_def taker_swap_new_def split: sum.split_asm option.split_asm) blast+

lemma start_bob_locktime:
  "RunMakerSwap sw \<in> set (lp_connect_start_bob e t m ord) \<Longrightarrow> tr_conf_settings (mk_request m) \<noteq> None \<Longrightarrow>
   \<exists>maker_coin taker_coin. ms_payment_locktime sw =
     lp_atomic_locktime (mo_base_ticker ord) (mo_rel_ticker ord)
       (LT_V2 (choose_maker_confs_and_notas (mo_conf_settings ord) (mk_request m) maker_coin taker_coin)
         (choose_taker_confs_and_notas (mk_request m) (mr_conf_settings (mk_reserved m)) maker_coin taker_coin))"
  by (cases "oe_secret e t")
    (auto simp: lp_connect_start_bob_def Let_def maker_swap_new_def split: sum.split_asm option.split_asm)

text \<open>With settings on both sides the coins do not matter.\<close>

lemma choose_maker_confs_coins:
  "mc \<noteq> None \<Longrightarrow> tr_conf_settings q = tr_conf_settings q' \<Longrightarrow> tr_action q = tr_action q' \<Longrightarrow>
   choose_maker_confs_and_notas mc q a b = choose_maker_confs_and_notas mc q' a' b'"
  by (auto simp: choose_maker_confs_and_notas_def Let_def split: option.splits taker_action.splits)

lemma choose_taker_confs_coins:
  "tr_conf_settings q \<noteq> None \<Longrightarrow> tr_conf_settings q = tr_conf_settings q' \<Longrightarrow> tr_action q = tr_action q' \<Longrightarrow>
   choose_taker_confs_and_notas q mc a b = choose_taker_confs_and_notas q' mc a' b'"
  by (auto simp: choose_taker_confs_and_notas_def Let_def split: option.splits taker_action.splits)



definition sample_taker_match :: taker_match where
  "sample_taker_match =
     \<lparr>tk_reserved = maker_reserved_from_proto sample_proto_reserved (replicate 32 2),
      tk_connect = \<lparr>tc_taker_order_uuid = replicate 16 7, tc_maker_order_uuid = replicate 16 9,
        tc_sender_pubkey = hash_default 32, tc_dest_pub_key = hash_default 32\<rparr>,
      tk_connected = None, tk_last_updated = 1\<rparr>"


end
