(* ===== verification/Serialization.thy ===== *)
theory Serialization
  imports Prelude
begin

text \<open>
  The byte format of Bitcoin structures: the crate \<open>mm2_bitcoin/serialization\<close> and the parts of
  \<open>primitives\<close> it writes and reads. A decoder takes the bytes that are not read yet and gives the value
  with the rest, the error of the reader, or a panic, which is the capacity overflow of a vector that is
  allocated for a length found in the input. The locale \<open>codec\<close> states the contract between an encoder
  and its decoder and carries it over to lists.
\<close>

section \<open>Readers\<close>

datatype ser_error = MalformedData | UnexpectedEnd | UnreadData | Custom string

datatype 'a decoded = Done 'a bytes | Fail ser_error | Panics

type_synonym 'a decoder = "bytes \<Rightarrow> 'a decoded"

definition dret :: "'a \<Rightarrow> 'a decoder" where
  "dret x bs = Done x bs"

definition dfail :: "ser_error \<Rightarrow> 'a decoder" where
  "dfail e bs = Fail e"

definition dbind :: "'a decoder \<Rightarrow> ('a \<Rightarrow> 'b decoder) \<Rightarrow> 'b decoder" where
  "dbind d f bs = (case d bs of Done x rest \<Rightarrow> f x rest | Fail e \<Rightarrow> Fail e | Panics \<Rightarrow> Panics)"

lemma dbind_simps [simp]:
  "d bs = Done x rest \<Longrightarrow> dbind d f bs = f x rest"
  "d bs = Fail e \<Longrightarrow> dbind d f bs = Fail e"
  "d bs = Panics \<Longrightarrow> dbind d f bs = Panics"
  by (simp_all add: dbind_def)

lemma dbind_Done_iff: "dbind d f bs = Done y rest \<longleftrightarrow> (\<exists>x mid. d bs = Done x mid \<and> f x mid = Done y rest)"
  by (auto simp: dbind_def split: decoded.split)

lemma dret_apply [simp]: "dret x bs = Done x bs"
  by (simp add: dret_def)

lemma dfail_apply [simp]: "dfail e bs = Fail e"
  by (simp add: dfail_def)

text \<open>
  \<open>Reader\<close> holds the bytes of its buffer and one that \<open>is_finished\<close> may have read ahead. What it still
  has to give are the bytes \<open>unread\<close>; \<open>read_slice\<close> and \<open>is_finished\<close> on those bytes are what the decoders use.
\<close>

record reader =
  rd_buffer :: bytes
  rd_peeked :: "u8 option"

definition reader_read_slice :: "nat \<Rightarrow> reader \<Rightarrow> (ser_error + bytes \<times> reader)" where
  "reader_read_slice n r =
     (case rd_peeked r of
        None \<Rightarrow>
          if n \<le> length (rd_buffer r)
          then Inr (take n (rd_buffer r), r\<lparr>rd_buffer := drop n (rd_buffer r)\<rparr>)
          else Inl UnexpectedEnd
      | Some b \<Rightarrow>
          if n = 0 then Inr ([], r)
          else if n - 1 \<le> length (rd_buffer r)
          then Inr (b # take (n - 1) (rd_buffer r),
                    r\<lparr>rd_buffer := drop (n - 1) (rd_buffer r), rd_peeked := None\<rparr>)
          else Inl UnexpectedEnd)"

definition reader_is_finished :: "reader \<Rightarrow> bool \<times> reader" where
  "reader_is_finished r =
     (if rd_peeked r \<noteq> None then (False, r)
      else case reader_read_slice 1 r of
             Inr (peek, r') \<Rightarrow> (False, r'\<lparr>rd_peeked := Some (hd peek)\<rparr>)
           | Inl _ \<Rightarrow> (True, r))"

definition unread :: "reader \<Rightarrow> bytes" where
  "unread r = (case rd_peeked r of None \<Rightarrow> rd_buffer r | Some b \<Rightarrow> b # rd_buffer r)"

definition read_slice :: "nat \<Rightarrow> bytes decoder" where
  "read_slice n bs = (if n \<le> length bs then Done (take n bs) (drop n bs) else Fail UnexpectedEnd)"

definition is_finished :: "bytes \<Rightarrow> bool" where
  "is_finished bs = (bs = [])"

lemma reader_read_slice_refines:
  "read_slice n (unread r) =
     (case reader_read_slice n r of Inr (bs, r') \<Rightarrow> Done bs (unread r') | Inl e \<Rightarrow> Fail e)"
  by (cases n) (auto simp: reader_read_slice_def read_slice_def unread_def split: option.split)

lemma reader_is_finished_refines:
  "fst (reader_is_finished r) = is_finished (unread r) \<and> unread (snd (reader_is_finished r)) = unread r"
  by (cases "rd_buffer r") (auto simp: reader_is_finished_def reader_read_slice_def is_finished_def unread_def split: option.split)

lemma read_slice_append [simp]: "length xs = n \<Longrightarrow> read_slice n (xs @ rest) = Done xs rest"
  by (simp add: read_slice_def)

section \<open>The contract of encoders and decoders\<close>

text \<open>A decoder that reads the bytes of an encoder, whatever follows them.\<close>

fun de_times :: "nat \<Rightarrow> 'a decoder \<Rightarrow> 'a list decoder" where
  "de_times 0 d = dret []"
| "de_times (Suc n) d = dbind d (\<lambda>x. dbind (de_times n d) (\<lambda>xs. dret (x # xs)))"

locale codec =
  fixes ser :: "'a \<Rightarrow> bytes"
    and de :: "'a decoder"
    and ok :: "'a \<Rightarrow> bool"
  assumes roundtrip: "ok x \<Longrightarrow> de (ser x @ rest) = Done x rest"
begin

lemma injective: "ok x \<Longrightarrow> ok y \<Longrightarrow> ser x @ r = ser y @ s \<Longrightarrow> x = y \<and> r = s"
  by (metis roundtrip decoded.inject(1))

lemma times_roundtrip:
  "list_all ok xs \<Longrightarrow> de_times (length xs) de (concat (map ser xs) @ rest) = Done xs rest"
  by (induction xs) (simp_all add: roundtrip)

end

text \<open>The number of values is limited by the input, if a value is never empty.\<close>

lemma de_times_length: "de_times n d bs = Done xs rest \<Longrightarrow> length xs = n"
  by (induction n arbitrary: bs xs rest) (auto simp: dbind_Done_iff)

section \<open>Integers\<close>

fun le_bytes :: "nat \<Rightarrow> nat \<Rightarrow> bytes" where
  "le_bytes 0 k = []"
| "le_bytes (Suc n) k = word_of_nat (k mod 256) # le_bytes n (k div 256)"

fun nat_of_le :: "bytes \<Rightarrow> nat" where
  "nat_of_le [] = 0"
| "nat_of_le (b # bs) = unat b + 256 * nat_of_le bs"

lemma le_bytes_length [simp]: "length (le_bytes n k) = n"
  by (induction n arbitrary: k) simp_all

lemma nat_of_le_le_bytes: "k < 256 ^ n \<Longrightarrow> nat_of_le (le_bytes n k) = k"
proof (induction n arbitrary: k)
  case (Suc n)
  then have "k div 256 < 256 ^ n" by (simp add: less_mult_imp_div_less mult.commute)
  then show ?case using Suc.IH by (simp add: unat_of_nat take_bit_eq_mod)
qed simp

lemma nat_of_le_bound: "nat_of_le bs < 256 ^ length bs"
proof (induction bs)
  case (Cons b bs)
  have "unat b < 256" using unsigned_less [of b] by simp
  then show ?case using Cons by simp
qed simp

lemma le_bytes_nat_of_le: "le_bytes (length bs) (nat_of_le bs) = bs"
proof (induction bs)
  case (Cons b bs)
  have b: "unat b < 256" using unsigned_less [of b] by simp
  then have "(unat b + 256 * nat_of_le bs) div 256 = nat_of_le bs" by simp
  then show ?case using Cons b by simp
qed simp

definition ser_u8 :: "u8 \<Rightarrow> bytes" where
  "ser_u8 b = [b]"

definition de_u8 :: "u8 decoder" where
  "de_u8 = dbind (read_slice 1) (\<lambda>bs. dret (hd bs))"

definition ser_u16 :: "16 word \<Rightarrow> bytes" where
  "ser_u16 w = le_bytes 2 (unat w)"

definition de_u16 :: "16 word decoder" where
  "de_u16 = dbind (read_slice 2) (\<lambda>bs. dret (word_of_nat (nat_of_le bs)))"

text \<open>\<open>i32\<close> and \<open>i64\<close> are words too; \<open>sint\<close> reads them.\<close>

type_synonym i32 = u32
type_synonym i64 = u64

definition ser_u32 :: "u32 \<Rightarrow> bytes" where
  "ser_u32 w = le_bytes 4 (unat w)"

definition de_u32 :: "u32 decoder" where
  "de_u32 = dbind (read_slice 4) (\<lambda>bs. dret (word_of_nat (nat_of_le bs)))"

definition ser_u64 :: "u64 \<Rightarrow> bytes" where
  "ser_u64 w = le_bytes 8 (unat w)"

definition de_u64 :: "u64 decoder" where
  "de_u64 = dbind (read_slice 8) (\<lambda>bs. dret (word_of_nat (nat_of_le bs)))"

definition ser_bool :: "bool \<Rightarrow> bytes" where
  "ser_bool b = [if b then 1 else 0]"

definition de_bool :: "bool decoder" where
  "de_bool = dbind de_u8 (\<lambda>v. if v = 0 then dret False else if v = 1 then dret True else dfail MalformedData)"

lemma unat_bounds: "unat (a :: u8) < 256" "unat (b :: 16 word) < 65536" "unat (c :: u32) < 4294967296"
    "unat (d :: u64) < 18446744073709551616"
  using unsigned_less [where 'a = nat, of a] unsigned_less [where 'a = nat, of b]
    unsigned_less [where 'a = nat, of c] unsigned_less [where 'a = nat, of d] by simp_all

lemma de_u8_ser [simp]: "de_u8 (ser_u8 b @ rest) = Done b rest"
  by (simp add: de_u8_def ser_u8_def read_slice_def)

lemma de_u8_Cons [simp]: "de_u8 (b # rest) = Done b rest"
  by (simp add: de_u8_def read_slice_def)

lemma de_u16_ser [simp]: "de_u16 (ser_u16 w @ rest) = Done w rest"
  by (simp add: de_u16_def ser_u16_def nat_of_le_le_bytes unat_bounds)

lemma de_u32_ser [simp]: "de_u32 (ser_u32 w @ rest) = Done w rest"
  by (simp add: de_u32_def ser_u32_def nat_of_le_le_bytes unat_bounds)

lemma de_u64_ser [simp]: "de_u64 (ser_u64 w @ rest) = Done w rest"
  by (simp add: de_u64_def ser_u64_def nat_of_le_le_bytes unat_bounds)

lemma de_words:
  "de_u16 bs = (if 2 \<le> length bs then Done (word_of_nat (nat_of_le (take 2 bs))) (drop 2 bs) else Fail UnexpectedEnd)"
  "de_u32 bs = (if 4 \<le> length bs then Done (word_of_nat (nat_of_le (take 4 bs))) (drop 4 bs) else Fail UnexpectedEnd)"
  "de_u64 bs = (if 8 \<le> length bs then Done (word_of_nat (nat_of_le (take 8 bs))) (drop 8 bs) else Fail UnexpectedEnd)"
  by (simp_all add: de_u16_def de_u32_def de_u64_def dbind_def read_slice_def)

lemma ser_length [simp]:
  "length (ser_u8 a) = 1" "length (ser_u16 b) = 2" "length (ser_u32 c) = 4" "length (ser_u64 d) = 8"
  by (simp_all add: ser_u8_def ser_u16_def ser_u32_def ser_u64_def)

section \<open>Variable-length integers\<close>

text \<open>A \<open>CompactInteger\<close> is its number.\<close>

definition ser_compact :: "u64 \<Rightarrow> bytes" where
  "ser_compact n =
     (if n \<le> 0xfc then ser_u8 (ucast n)
      else if n \<le> 0xffff then ser_u8 0xfd @ ser_u16 (ucast n)
      else if n \<le> 0xffffffff then ser_u8 0xfe @ ser_u32 (ucast n)
      else ser_u8 0xff @ ser_u64 n)"

definition compact_serialized_length :: "u64 \<Rightarrow> nat" where
  "compact_serialized_length n =
     (if n \<le> 0xfc then 1 else if n \<le> 0xffff then 3 else if n \<le> 0xffffffff then 5 else 9)"

definition de_compact :: "u64 decoder" where
  "de_compact = dbind de_u8 (\<lambda>i.
     if i \<le> 0xfc then dret (ucast i)
     else if i = 0xfd then dbind de_u16 (\<lambda>w. dret (ucast w))
     else if i = 0xfe then dbind de_u32 (\<lambda>w. dret (ucast w))
     else de_u64)"

definition compact_data_length :: "u8 \<Rightarrow> nat" where
  "compact_data_length flag = (if flag = 0xfd then 2 else if flag = 0xfe then 4 else if flag = 0xff then 8 else 0)"

datatype compact_integer_error = CompactParseError string

text \<open>\<open>parse_compact_int\<close> reads the number at the start of a slice.\<close>

definition parse_compact_int :: "bytes \<Rightarrow> compact_integer_error + u64" where
  "parse_compact_int buf =
     (case buf of
        [] \<Rightarrow> Inl (CompactParseError ''Empty buffer!'')
      | b # rest \<Rightarrow>
          let len = compact_data_length b in
          if len = 0 then Inr (ucast b)
          else if length buf < 1 + len then Inl (CompactParseError ''Insufficient bytes!'')
          else Inr (word_of_nat (nat_of_le (take len rest @ replicate (8 - len) 0))))"

lemma ucast_ucast_small:
  "n \<le> 0xfc \<Longrightarrow> ucast (ucast (n :: u64) :: u8) = n" "n \<le> 0xffff \<Longrightarrow> ucast (ucast (n :: u64) :: 16 word) = n"
  "n \<le> 0xffffffff \<Longrightarrow> ucast (ucast (n :: u64) :: u32) = n"
  by (simp_all add: word_unat_eq_iff unsigned_ucast_eq unsigned_take_bit_eq word_le_nat_alt take_bit_nat_eq_self)

lemma ucast_u8_le: "(n :: u64) \<le> 0xfc \<Longrightarrow> (ucast n :: u8) \<le> 0xfc"
  by (simp add: word_le_nat_alt unsigned_ucast_eq unsigned_take_bit_eq take_bit_nat_eq_self)

lemma de_compact_ser [simp]: "de_compact (ser_compact n @ rest) = Done n rest"
  by (auto simp: de_compact_def ser_compact_def ucast_ucast_small ucast_u8_le)

lemma ser_compact_length: "length (ser_compact n) = compact_serialized_length n"
  by (simp add: ser_compact_def compact_serialized_length_def)

lemma ser_compact_nonempty [simp]: "ser_compact n \<noteq> []"
  using ser_compact_length [of n] by (auto simp: compact_serialized_length_def split: if_splits)

lemma nat_of_le_append: "nat_of_le (xs @ ys) = nat_of_le xs + 256 ^ length xs * nat_of_le ys"
  by (induction xs) (simp_all add: algebra_simps)

lemma nat_of_le_zeros [simp]: "nat_of_le (replicate n 0) = 0"
  by (induction n) simp_all

lemma nat_of_le_take_bound: "k \<le> length bs \<Longrightarrow> nat_of_le (take k bs) < 256 ^ k"
  using nat_of_le_bound [of "take k bs"] by simp

lemma ucast_word_of_nat_small:
  "2 \<le> length bs \<Longrightarrow> (ucast (word_of_nat (nat_of_le (take 2 bs)) :: 16 word) :: u64) = word_of_nat (nat_of_le (take 2 bs))"
  "4 \<le> length bs \<Longrightarrow> (ucast (word_of_nat (nat_of_le (take 4 bs)) :: u32) :: u64) = word_of_nat (nat_of_le (take 4 bs))"
  using nat_of_le_take_bound [of 2 bs] nat_of_le_take_bound [of 4 bs]
  by (simp_all add: word_unat_eq_iff unsigned_ucast_eq unsigned_take_bit_eq unat_of_nat take_bit_nat_eq_self)

text \<open>
  The two readers of variable-length integers agree: \<open>parse_compact_int\<close> succeeds exactly if the
  deserializer does, and with the same number.
\<close>

lemma parse_compact_int_agrees:
  "(case parse_compact_int bs of Inr n \<Rightarrow> \<exists>rest. de_compact bs = Done n rest | Inl _ \<Rightarrow> de_compact bs = Fail UnexpectedEnd)"
proof (cases bs)
  case Nil
  then show ?thesis by (simp add: parse_compact_int_def de_compact_def de_u8_def read_slice_def)
next
  case (Cons b rest)
  consider "b \<le> 0xfc" | "b = 0xfd" | "b = 0xfe" | "b = 0xff"
  proof -
    have "unat b \<le> 252 \<or> unat b = 253 \<or> unat b = 254 \<or> unat b = 255" using unat_bounds(1) [of b] by arith
    then show ?thesis using that by (auto simp: word_unat_eq_iff word_le_nat_alt)
  qed
  then show ?thesis
  proof cases
    case 1
    then have "compact_data_length b = 0" by (auto simp: compact_data_length_def)
    then show ?thesis using 1 by (simp add: Cons parse_compact_int_def de_compact_def)
  qed (auto simp: Cons parse_compact_int_def de_compact_def compact_data_length_def Let_def nat_of_le_append
      dbind_def de_words ucast_word_of_nat_small)
qed

lemma parse_compact_int_ser [simp]: "parse_compact_int (ser_compact n @ rest) = Inr n"
  using parse_compact_int_agrees [of "ser_compact n @ rest"] by (auto split: sum.splits)

section \<open>Fixed-size hashes, byte strings and lists\<close>

text \<open>The hash types are byte strings of their size.\<close>

definition ser_hash :: "bytes \<Rightarrow> bytes" where
  "ser_hash h = h"

definition de_hash :: "nat \<Rightarrow> bytes decoder" where
  "de_hash n = read_slice n"

definition ser_Bytes :: "bytes \<Rightarrow> bytes" where
  "ser_Bytes bs = ser_compact (word_of_nat (length bs)) @ bs"

definition de_Bytes :: "bytes decoder" where
  "de_Bytes = dbind de_compact (\<lambda>len. if 65536 < len then dfail MalformedData else read_slice (unat len))"

definition ser_list :: "('a \<Rightarrow> bytes) \<Rightarrow> 'a list \<Rightarrow> bytes" where
  "ser_list ser xs = ser_compact (word_of_nat (length xs)) @ concat (map ser xs)"

definition serialized_list_size :: "('a \<Rightarrow> nat) \<Rightarrow> 'a list \<Rightarrow> nat" where
  "serialized_list_size sz xs = compact_serialized_length (word_of_nat (length xs)) + sum_list (map sz xs)"

text \<open>
  \<open>read_list\<close> allocates the vector before it reads the items: \<open>Vec::with_capacity\<close> panics when its size in
  bytes, \<open>item_size\<close> for each item, exceeds \<open>isize::MAX\<close>.
\<close>

definition capacity_overflow :: "nat \<Rightarrow> u64 \<Rightarrow> bool" where
  "capacity_overflow item_size len = (2 ^ 63 \<le> item_size * unat len)"

definition read_list :: "nat \<Rightarrow> 'a decoder \<Rightarrow> 'a list decoder" where
  "read_list item_size d = dbind de_compact (\<lambda>len.
     if capacity_overflow item_size len then (\<lambda>_. Panics) else de_times (unat len) d)"

definition read_list_max :: "nat \<Rightarrow> 'a decoder \<Rightarrow> 'a list decoder" where
  "read_list_max limit d = dbind de_compact (\<lambda>len.
     if limit < unat len then dfail MalformedData else de_times (unat len) d)"

text \<open>\<open>deserialize\<close> reads a whole buffer.\<close>

definition deserialize :: "'a decoder \<Rightarrow> bytes \<Rightarrow> 'a decoded" where
  "deserialize d bs =
     (case d bs of
        Done x rest \<Rightarrow> if is_finished rest then Done x [] else Fail UnreadData
      | Fail e \<Rightarrow> Fail e
      | Panics \<Rightarrow> Panics)"

definition read_iterator_next :: "'a decoder \<Rightarrow> bytes \<Rightarrow> 'a decoded option" where
  "read_iterator_next d bs = (if is_finished bs then None else Some (d bs))"

lemma de_hash_append [simp]: "length h = n \<Longrightarrow> de_hash n (h @ rest) = Done h rest"
  by (simp add: de_hash_def)

lemma de_hash_ser [simp]: "length h = n \<Longrightarrow> de_hash n (ser_hash h @ rest) = Done h rest"
  by (simp add: ser_hash_def)

lemma unat_word_of_length: "length xs < 2 ^ 64 \<Longrightarrow> unat (word_of_nat (length xs) :: u64) = length xs"
  by (simp add: unat_of_nat take_bit_nat_eq_self)

lemma de_Bytes_ser [simp]: "length bs \<le> 65536 \<Longrightarrow> de_Bytes (ser_Bytes bs @ rest) = Done bs rest"
  by (simp add: de_Bytes_def ser_Bytes_def unat_word_of_length word_less_nat_alt)

interpretation u8_codec: codec ser_u8 de_u8 "\<lambda>_. True"
  by unfold_locales simp

interpretation u32_codec: codec ser_u32 de_u32 "\<lambda>_. True"
  by unfold_locales simp

interpretation u64_codec: codec ser_u64 de_u64 "\<lambda>_. True"
  by unfold_locales simp

interpretation compact_codec: codec ser_compact de_compact "\<lambda>_. True"
  by unfold_locales simp

interpretation hash_codec: codec ser_hash "de_hash n" "\<lambda>h. length h = n" for n
  by unfold_locales simp

interpretation Bytes_codec: codec ser_Bytes de_Bytes "\<lambda>bs. length bs \<le> 65536"
  by unfold_locales simp

context codec
begin

lemma list_max_roundtrip:
  assumes "list_all ok xs" "length xs \<le> limit" "limit < 2 ^ 64"
  shows "read_list_max limit de (ser_list ser xs @ rest) = Done xs rest"
  using times_roundtrip [OF assms(1)] assms(2,3)
  by (simp add: read_list_max_def ser_list_def unat_word_of_length)

lemma list_roundtrip:
  assumes "list_all ok xs" "item_size * length xs < 2 ^ 63" "length xs < 2 ^ 64"
  shows "read_list item_size de (ser_list ser xs @ rest) = Done xs rest"
  using times_roundtrip [OF assms(1)] assms(2,3)
  by (simp add: read_list_def ser_list_def unat_word_of_length capacity_overflow_def)

lemma deserialize_ser: "ok x \<Longrightarrow> deserialize de (ser x) = Done x []"
  using roundtrip [of x "[]"] by (simp add: deserialize_def is_finished_def)

end

lemma serialized_list_size_correct:
  "(\<And>x. x \<in> set xs \<Longrightarrow> length (ser x) = sz x) \<Longrightarrow> length (ser_list ser xs) = serialized_list_size sz xs"
  by (induction xs) (auto simp: ser_list_def serialized_list_size_def ser_compact_length length_concat comp_def
      intro!: arg_cong [where f = sum_list] map_cong)

end
