(* ===== verification/BtcTransaction.thy ===== *)
theory BtcTransaction
  imports Serialization
begin

text \<open>
  Transactions of Bitcoin and of the chains that come from it (\<open>mm2_bitcoin/chain/src/transaction.rs\<close>):
  inputs, outputs and witnesses, the shielded parts of Zcash, the time stamp of proof-of-stake chains, how
  they are written and how they are read.
\<close>

unbundle bit_operations_syntax

section \<open>Parts of transactions\<close>

abbreviation zero_hash :: "nat \<Rightarrow> bytes" where
  "zero_hash n \<equiv> replicate n 0"

definition WITNESS_MARKER :: u8 where "WITNESS_MARKER = 0"
definition WITNESS_FLAG :: u8 where "WITNESS_FLAG = 1"
definition MAX_LIST_SIZE :: nat where "MAX_LIST_SIZE = 8192"
definition SEQUENCE_FINAL :: u32 where "SEQUENCE_FINAL = 0xffffffff"
definition LOCKTIME_THRESHOLD :: u32 where "LOCKTIME_THRESHOLD = 500000000"

record out_point =
  op_hash :: bytes
  op_index :: u32

definition out_point_null :: out_point where
  "out_point_null = \<lparr>op_hash = zero_hash 32, op_index = - 1\<rparr>"

definition out_point_is_null :: "out_point \<Rightarrow> bool" where
  "out_point_is_null p = (list_all (\<lambda>b. b = 0) (op_hash p) \<and> op_index p = - 1)"

definition ser_out_point :: "out_point \<Rightarrow> bytes" where
  "ser_out_point p = ser_hash (op_hash p) @ ser_u32 (op_index p)"

definition de_out_point :: "out_point decoder" where
  "de_out_point = dbind (de_hash 32) (\<lambda>h. dbind de_u32 (\<lambda>i. dret \<lparr>op_hash = h, op_index = i\<rparr>))"

record transaction_input =
  ti_previous_output :: out_point
  ti_script_sig :: bytes
  ti_sequence :: u32
  ti_script_witness :: "bytes list"

definition input_coinbase :: "bytes \<Rightarrow> transaction_input" where
  "input_coinbase script_sig =
     \<lparr>ti_previous_output = out_point_null, ti_script_sig = script_sig, ti_sequence = SEQUENCE_FINAL,
      ti_script_witness = []\<rparr>"

definition input_is_final :: "transaction_input \<Rightarrow> bool" where
  "input_is_final i = (ti_sequence i = SEQUENCE_FINAL)"

definition input_has_witness :: "transaction_input \<Rightarrow> bool" where
  "input_has_witness i = (ti_script_witness i \<noteq> [])"

definition ser_input :: "transaction_input \<Rightarrow> bytes" where
  "ser_input i = ser_out_point (ti_previous_output i) @ ser_Bytes (ti_script_sig i) @ ser_u32 (ti_sequence i)"

definition de_input :: "transaction_input decoder" where
  "de_input =
     dbind de_out_point (\<lambda>p. dbind de_Bytes (\<lambda>s. dbind de_u32 (\<lambda>q.
       dret \<lparr>ti_previous_output = p, ti_script_sig = s, ti_sequence = q, ti_script_witness = []\<rparr>)))"

record transaction_output =
  xo_value :: u64
  xo_script_pubkey :: bytes

definition output_default :: transaction_output where
  "output_default = \<lparr>xo_value = 0xffffffffffffffff, xo_script_pubkey = []\<rparr>"

definition ser_output :: "transaction_output \<Rightarrow> bytes" where
  "ser_output x = ser_u64 (xo_value x) @ ser_Bytes (xo_script_pubkey x)"

definition de_output :: "transaction_output decoder" where
  "de_output = dbind de_u64 (\<lambda>v. dbind de_Bytes (\<lambda>s. dret \<lparr>xo_value = v, xo_script_pubkey = s\<rparr>))"

record shielded_spend =
  ss_cv :: bytes
  ss_anchor :: bytes
  ss_nullifier :: bytes
  ss_rk :: bytes
  ss_zkproof :: bytes
  ss_spend_auth_sig :: bytes

definition ser_shielded_spend :: "shielded_spend \<Rightarrow> bytes" where
  "ser_shielded_spend s =
     ser_hash (ss_cv s) @ ser_hash (ss_anchor s) @ ser_hash (ss_nullifier s) @ ser_hash (ss_rk s) @
     ser_hash (ss_zkproof s) @ ser_hash (ss_spend_auth_sig s)"

definition de_shielded_spend :: "shielded_spend decoder" where
  "de_shielded_spend =
     dbind (de_hash 32) (\<lambda>cv. dbind (de_hash 32) (\<lambda>anchor. dbind (de_hash 32) (\<lambda>nullifier.
     dbind (de_hash 32) (\<lambda>rk. dbind (de_hash 192) (\<lambda>zkproof. dbind (de_hash 64) (\<lambda>sig.
       dret \<lparr>ss_cv = cv, ss_anchor = anchor, ss_nullifier = nullifier, ss_rk = rk, ss_zkproof = zkproof,
             ss_spend_auth_sig = sig\<rparr>))))))"

record shielded_output =
  so_cv :: bytes
  so_cmu :: bytes
  so_ephemeral_key :: bytes
  so_enc_cipher_text :: bytes
  so_out_cipher_text :: bytes
  so_zkproof :: bytes

definition ser_shielded_output :: "shielded_output \<Rightarrow> bytes" where
  "ser_shielded_output s =
     ser_hash (so_cv s) @ ser_hash (so_cmu s) @ ser_hash (so_ephemeral_key s) @ ser_hash (so_enc_cipher_text s) @
     ser_hash (so_out_cipher_text s) @ ser_hash (so_zkproof s)"

definition de_shielded_output :: "shielded_output decoder" where
  "de_shielded_output =
     dbind (de_hash 32) (\<lambda>cv. dbind (de_hash 32) (\<lambda>cmu. dbind (de_hash 32) (\<lambda>ephemeral_key.
     dbind (de_hash 580) (\<lambda>enc. dbind (de_hash 80) (\<lambda>out. dbind (de_hash 192) (\<lambda>zkproof.
       dret \<lparr>so_cv = cv, so_cmu = cmu, so_ephemeral_key = ephemeral_key, so_enc_cipher_text = enc,
             so_out_cipher_text = out, so_zkproof = zkproof\<rparr>))))))"

datatype join_split_proof = PHGR bytes | Groth bytes

fun ser_join_split_proof :: "join_split_proof \<Rightarrow> bytes" where
  "ser_join_split_proof (PHGR p) = ser_hash p"
| "ser_join_split_proof (Groth p) = ser_hash p"

record join_split =
  js_v_pub_old :: bytes
  js_v_pub_new :: bytes
  js_anchor :: bytes
  js_nullifiers :: "bytes \<times> bytes"
  js_commitments :: "bytes \<times> bytes"
  js_ephemeral_key :: bytes
  js_random_seed :: bytes
  js_macs :: "bytes \<times> bytes"
  js_zkproof :: join_split_proof
  js_ciphertexts :: "bytes \<times> bytes"

definition ser_join_split :: "join_split \<Rightarrow> bytes" where
  "ser_join_split j =
     ser_hash (js_v_pub_old j) @ ser_hash (js_v_pub_new j) @ ser_hash (js_anchor j) @
     ser_hash (fst (js_nullifiers j)) @ ser_hash (snd (js_nullifiers j)) @
     ser_hash (fst (js_commitments j)) @ ser_hash (snd (js_commitments j)) @
     ser_hash (js_ephemeral_key j) @ ser_hash (js_random_seed j) @
     ser_hash (fst (js_macs j)) @ ser_hash (snd (js_macs j)) @
     ser_join_split_proof (js_zkproof j) @
     ser_hash (fst (js_ciphertexts j)) @ ser_hash (snd (js_ciphertexts j))"

definition deserialize_join_split :: "bool \<Rightarrow> join_split decoder" where
  "deserialize_join_split use_groth =
     dbind (de_hash 8) (\<lambda>old. dbind (de_hash 8) (\<lambda>new. dbind (de_hash 32) (\<lambda>anchor.
     dbind (de_hash 32) (\<lambda>n0. dbind (de_hash 32) (\<lambda>n1. dbind (de_hash 32) (\<lambda>c0. dbind (de_hash 32) (\<lambda>c1.
     dbind (de_hash 32) (\<lambda>key. dbind (de_hash 32) (\<lambda>seed.
     dbind (de_hash 32) (\<lambda>m0. dbind (de_hash 32) (\<lambda>m1.
     dbind (if use_groth then dbind (de_hash 192) (\<lambda>p. dret (Groth p)) else dbind (de_hash 296) (\<lambda>p. dret (PHGR p)))
       (\<lambda>proof.
     dbind (de_hash 601) (\<lambda>t0. dbind (de_hash 601) (\<lambda>t1.
       dret \<lparr>js_v_pub_old = old, js_v_pub_new = new, js_anchor = anchor, js_nullifiers = (n0, n1),
             js_commitments = (c0, c1), js_ephemeral_key = key, js_random_seed = seed, js_macs = (m0, m1),
             js_zkproof = proof, js_ciphertexts = (t0, t1)\<rparr>))))))))))))))"

section \<open>Transactions\<close>

datatype tx_hash_algo = DSHA256 | SHA256

record btc_transaction =
  tx_version :: i32
  tx_n_time :: "u32 option"
  tx_overwintered :: bool
  tx_version_group_id :: u32
  tx_inputs :: "transaction_input list"
  tx_outputs :: "transaction_output list"
  tx_lock_time :: u32
  tx_expiry_height :: u32
  tx_shielded_spends :: "shielded_spend list"
  tx_shielded_outputs :: "shielded_output list"
  tx_join_splits :: "join_split list"
  tx_value_balance :: i64
  tx_join_split_pubkey :: bytes
  tx_join_split_sig :: bytes
  tx_binding_sig :: bytes
  tx_zcash :: bool
  tx_posv :: bool
  tx_str_d_zeel :: "bytes option"
  tx_hash_algo :: tx_hash_algo

definition tx_is_empty :: "btc_transaction \<Rightarrow> bool" where
  "tx_is_empty tx = (tx_inputs tx = [] \<or> tx_outputs tx = [])"

definition tx_is_null :: "btc_transaction \<Rightarrow> bool" where
  "tx_is_null tx = list_ex (\<lambda>i. out_point_is_null (ti_previous_output i)) (tx_inputs tx)"

definition tx_is_coinbase :: "btc_transaction \<Rightarrow> bool" where
  "tx_is_coinbase tx = (length (tx_inputs tx) = 1 \<and> out_point_is_null (ti_previous_output (tx_inputs tx ! 0)))"

definition tx_is_final :: "btc_transaction \<Rightarrow> bool" where
  "tx_is_final tx = (tx_lock_time tx = 0 \<or> list_all input_is_final (tx_inputs tx))"

definition tx_is_final_in_block :: "u32 \<Rightarrow> u32 \<Rightarrow> btc_transaction \<Rightarrow> bool" where
  "tx_is_final_in_block block_height block_time tx =
     (if tx_lock_time tx = 0 then True
      else let max_lock_time = (if tx_lock_time tx < LOCKTIME_THRESHOLD then block_height else block_time)
           in if tx_lock_time tx < max_lock_time then True
              else list_all input_is_final (tx_inputs tx))"

definition tx_has_witness :: "btc_transaction \<Rightarrow> bool" where
  "tx_has_witness tx = list_ex input_has_witness (tx_inputs tx)"

text \<open>\<open>total_spends\<close> saturates.\<close>

fun sum_outputs :: "u64 \<Rightarrow> transaction_output list \<Rightarrow> u64" where
  "sum_outputs acc [] = acc"
| "sum_outputs acc (x # xs) = (if - 1 - acc < xo_value x then - 1 else sum_outputs (acc + xo_value x) xs)"

definition tx_total_spends :: "btc_transaction \<Rightarrow> u64" where
  "tx_total_spends tx = sum_outputs 0 (tx_outputs tx)"

definition ser_if :: "bool \<Rightarrow> bytes \<Rightarrow> bytes" where
  "ser_if c bs = (if c then bs else [])"

definition ser_tx_n_time :: "btc_transaction \<Rightarrow> bytes" where
  "ser_tx_n_time tx = (case tx_n_time tx of Some t \<Rightarrow> ser_u32 t | None \<Rightarrow> [])"

definition ser_tx_shielded :: "btc_transaction \<Rightarrow> bytes" where
  "ser_tx_shielded tx =
     ser_if (tx_overwintered tx \<and> 3 \<le> sint (tx_version tx))
       (ser_u32 (tx_expiry_height tx) @
        ser_if (4 \<le> sint (tx_version tx))
          (ser_u64 (tx_value_balance tx) @
           ser_list ser_shielded_spend (tx_shielded_spends tx) @
           ser_list ser_shielded_output (tx_shielded_outputs tx)))"

definition ser_tx_zcash :: "btc_transaction \<Rightarrow> bytes" where
  "ser_tx_zcash tx =
     ser_if (tx_zcash tx)
       (ser_if (sint (tx_version tx) = 2 \<or> tx_overwintered tx)
          (ser_list ser_join_split (tx_join_splits tx) @
           ser_if (tx_join_splits tx \<noteq> [])
             (ser_hash (tx_join_split_pubkey tx) @ ser_hash (tx_join_split_sig tx))) @
        ser_if (4 \<le> sint (tx_version tx) \<and> tx_overwintered tx \<and>
                \<not> (tx_shielded_outputs tx = [] \<and> tx_shielded_spends tx = []))
          (ser_hash (tx_binding_sig tx)))"

definition ser_tx_str_d_zeel :: "btc_transaction \<Rightarrow> bytes" where
  "ser_tx_str_d_zeel tx =
     (case tx_str_d_zeel tx of Some s \<Rightarrow> ser_compact (word_of_nat (length s)) @ s | None \<Rightarrow> [])"

text \<open>\<open>include_witness\<close>: the stream has the flag \<open>SERIALIZE_TRANSACTION_WITNESS\<close>.\<close>

definition ser_transaction :: "bool \<Rightarrow> btc_transaction \<Rightarrow> bytes" where
  "ser_transaction include_witness tx =
     (if \<not> (include_witness \<and> tx_has_witness tx) then
        ser_u32 (if tx_overwintered tx then tx_version tx OR push_bit 31 1 else tx_version tx) @
        ser_if (tx_overwintered tx) (ser_u32 (tx_version_group_id tx)) @
        ser_if (\<not> tx_posv tx) (ser_tx_n_time tx) @
        ser_list ser_input (tx_inputs tx) @
        ser_list ser_output (tx_outputs tx) @
        ser_u32 (tx_lock_time tx) @
        ser_if (tx_posv tx) (ser_tx_n_time tx) @
        ser_tx_shielded tx @
        ser_tx_zcash tx @
        ser_tx_str_d_zeel tx
      else
        ser_u32 (tx_version tx) @ ser_u8 WITNESS_MARKER @ ser_u8 WITNESS_FLAG @
        ser_list ser_input (tx_inputs tx) @
        ser_list ser_output (tx_outputs tx) @
        concat (map (\<lambda>i. ser_list ser_Bytes (ti_script_witness i)) (tx_inputs tx)) @
        ser_u32 (tx_lock_time tx))"

definition tx_hash :: "(bytes \<Rightarrow> bytes) \<Rightarrow> (bytes \<Rightarrow> bytes) \<Rightarrow> btc_transaction \<Rightarrow> bytes" where
  "tx_hash dhash256 sha256 tx =
     (case tx_hash_algo tx of
        DSHA256 \<Rightarrow> dhash256 (ser_transaction False tx)
      | SHA256 \<Rightarrow> sha256 (ser_transaction False tx))"

definition tx_witness_hash :: "(bytes \<Rightarrow> bytes) \<Rightarrow> btc_transaction \<Rightarrow> bytes" where
  "tx_witness_hash dhash256 tx = dhash256 (ser_transaction True tx)"


section \<open>Reading a transaction\<close>

datatype tx_type = StandardWithWitness | Zcash | PosWithNTime | PosvWithNTime

definition uses_witness :: "tx_type \<Rightarrow> bool" where
  "uses_witness tt = (tt = StandardWithWitness \<or> tt = PosvWithNTime)"

text \<open>\<open>std::str::from_utf8\<close>: which bytes are a text, a text being its bytes.\<close>

definition utf8_tail :: "u8 \<Rightarrow> bool" where
  "utf8_tail b = (0x80 \<le> b \<and> b \<le> 0xbf)"

fun utf8_valid :: "bytes \<Rightarrow> bool" where
  "utf8_valid [] = True"
| "utf8_valid (a # rest) =
     (if a \<le> 0x7f then utf8_valid rest
      else case rest of
        [] \<Rightarrow> False
      | b # rest1 \<Rightarrow>
          if 0xc2 \<le> a \<and> a \<le> 0xdf then utf8_tail b \<and> utf8_valid rest1
          else case rest1 of
            [] \<Rightarrow> False
          | c # rest2 \<Rightarrow>
              if 0xe0 \<le> a \<and> a \<le> 0xef
              then utf8_tail b \<and> utf8_tail c \<and> (a = 0xe0 \<longrightarrow> 0xa0 \<le> b) \<and> (a = 0xed \<longrightarrow> b \<le> 0x9f) \<and>
                   utf8_valid rest2
              else case rest2 of
                [] \<Rightarrow> False
              | d # rest3 \<Rightarrow>
                  0xf0 \<le> a \<and> a \<le> 0xf4 \<and> utf8_tail b \<and> utf8_tail c \<and> utf8_tail d \<and>
                  (a = 0xf0 \<longrightarrow> 0x90 \<le> b) \<and> (a = 0xf4 \<longrightarrow> b \<le> 0x8f) \<and> utf8_valid rest3)"

text \<open>A field that is read under a condition and has a default value otherwise.\<close>

definition de_if :: "bool \<Rightarrow> 'a decoder \<Rightarrow> 'a \<Rightarrow> 'a decoder" where
  "de_if c d x = (if c then d else dret x)"

definition de_some :: "'a decoder \<Rightarrow> 'a option decoder" where
  "de_some d = dbind d (\<lambda>x. dret (Some x))"

text \<open>The inputs, and whether witnesses follow the outputs.\<close>

definition de_tx_inputs :: "tx_type \<Rightarrow> bool \<Rightarrow> (transaction_input list \<times> bool) decoder" where
  "de_tx_inputs tt overwintered =
     dbind (read_list_max MAX_LIST_SIZE de_input) (\<lambda>inputs.
       if inputs = [] \<and> \<not> overwintered \<and> uses_witness tt
       then dbind de_u8 (\<lambda>witness_flag.
              if witness_flag \<noteq> WITNESS_FLAG then dfail MalformedData
              else dbind (read_list_max MAX_LIST_SIZE de_input) (\<lambda>inputs. dret (inputs, True)))
       else dret (inputs, False))"

fun de_witnesses :: "transaction_input list \<Rightarrow> transaction_input list decoder" where
  "de_witnesses [] = dret []"
| "de_witnesses (i # is) =
     dbind (read_list_max MAX_LIST_SIZE de_Bytes) (\<lambda>w.
       dbind (de_witnesses is) (\<lambda>js. dret (i\<lparr>ti_script_witness := w\<rparr> # js)))"

text \<open>Expiry height, value balance and the shielded spends and outputs.\<close>

definition de_tx_shielded ::
  "bool \<Rightarrow> i32 \<Rightarrow> (u32 \<times> i64 \<times> shielded_spend list \<times> shielded_output list) decoder" where
  "de_tx_shielded overwintered version =
     (if overwintered \<and> 3 \<le> sint version
      then dbind de_u32 (\<lambda>expiry_height.
             if 4 \<le> sint version
             then dbind de_u64 (\<lambda>value_balance.
                  dbind (read_list_max MAX_LIST_SIZE de_shielded_spend) (\<lambda>spends.
                  dbind (read_list_max MAX_LIST_SIZE de_shielded_output) (\<lambda>outs.
                    dret (expiry_height, value_balance, spends, outs))))
             else dret (expiry_height, 0, [], []))
      else dret (0, 0, [], []))"

text \<open>The join splits with their key and signature.\<close>

definition de_tx_join_splits :: "i32 \<Rightarrow> (join_split list \<times> bytes \<times> bytes) decoder" where
  "de_tx_join_splits version =
     dbind de_compact (\<lambda>len.
       if 0 < len
       then if MAX_LIST_SIZE < unat len then dfail MalformedData
            else dbind (de_times (unat len) (deserialize_join_split (2 < sint version))) (\<lambda>js.
                 dbind (de_hash 32) (\<lambda>pubkey. dbind (de_hash 64) (\<lambda>sig. dret (js, pubkey, sig))))
       else dret ([], zero_hash 32, zero_hash 64))"

text \<open>The text at the end of a transaction of NavCoin; \<open>vec![0; len]\<close> panics when it is too long.\<close>

definition de_tx_str_d_zeel :: "tx_type \<Rightarrow> bytes option decoder" where
  "de_tx_str_d_zeel tt bs =
     (if tt = PosWithNTime \<and> \<not> is_finished bs
      then dbind de_compact (\<lambda>len.
             if capacity_overflow 1 len then (\<lambda>_. Panics)
             else dbind (read_slice (unat len)) (\<lambda>buf.
                    if utf8_valid buf then dret (Some buf) else dfail MalformedData)) bs
      else Done None bs)"

definition de_tx_zcash ::
  "bool \<Rightarrow> bool \<Rightarrow> i32 \<Rightarrow> shielded_spend list \<Rightarrow> shielded_output list \<Rightarrow>
   (join_split list \<times> bytes \<times> bytes \<times> bytes) decoder" where
  "de_tx_zcash zcash overwintered version shielded_spends shielded_outputs =
     (if zcash
      then
        dbind (de_if (sint version = 2 \<or> overwintered) (de_tx_join_splits version)
                 ([], zero_hash 32, zero_hash 64)) (\<lambda>(join_splits, join_split_pubkey, join_split_sig).
        dbind (de_if (overwintered \<and> 4 \<le> sint version \<and> \<not> (shielded_spends = [] \<and> shielded_outputs = []))
                 (de_hash 64) (zero_hash 64)) (\<lambda>binding_sig.
          dret (join_splits, join_split_pubkey, join_split_sig, binding_sig)))
      else dret ([], zero_hash 32, zero_hash 64, zero_hash 64))"

text \<open>What follows the header of a transaction.\<close>

definition de_tx_body :: "tx_type \<Rightarrow> bool \<Rightarrow> i32 \<Rightarrow> btc_transaction decoder" where
  "de_tx_body tt overwintered version =
     dbind (de_if overwintered de_u32 0) (\<lambda>version_group_id.
     dbind (de_if (tt = PosWithNTime) (de_some de_u32) None) (\<lambda>n_time0.
     dbind (de_tx_inputs tt overwintered) (\<lambda>(inputs0, read_witness).
     dbind (read_list_max MAX_LIST_SIZE de_output) (\<lambda>outputs.
     if outputs = [] \<and> uses_witness tt then dfail (Custom ''Transaction has no output'')
     else
     dbind (de_if read_witness (de_witnesses inputs0) inputs0) (\<lambda>inputs.
     dbind de_u32 (\<lambda>lock_time.
     dbind (de_if (tt = PosvWithNTime) (de_some de_u32) n_time0) (\<lambda>n_time.
     dbind (de_tx_shielded overwintered version) (\<lambda>(expiry_height, value_balance, shielded_spends, shielded_outputs).
     dbind (de_tx_zcash (overwintered \<or> tt = Zcash) overwintered version shielded_spends shielded_outputs)
       (\<lambda>(join_splits, join_split_pubkey, join_split_sig, binding_sig).
     dbind (de_tx_str_d_zeel tt) (\<lambda>str_d_zeel.
       dret \<lparr>tx_version = version, tx_n_time = n_time, tx_overwintered = overwintered,
             tx_version_group_id = version_group_id, tx_inputs = inputs, tx_outputs = outputs,
             tx_lock_time = lock_time, tx_expiry_height = expiry_height,
             tx_shielded_spends = shielded_spends, tx_shielded_outputs = shielded_outputs,
             tx_join_splits = join_splits, tx_value_balance = value_balance,
             tx_join_split_pubkey = join_split_pubkey, tx_join_split_sig = join_split_sig,
             tx_binding_sig = binding_sig, tx_zcash = (overwintered \<or> tt = Zcash),
             tx_posv = (tt = PosvWithNTime), tx_str_d_zeel = str_d_zeel, tx_hash_algo = DSHA256\<rparr>))))))))))"

definition deserialize_tx :: "tx_type \<Rightarrow> btc_transaction decoder" where
  "deserialize_tx tt =
     dbind de_u32 (\<lambda>header.
       let overwintered = (signed_drop_bit 31 header \<noteq> 0);
           version = (if overwintered then header AND 0x7FFFFFFF else header)
       in de_tx_body tt overwintered version)"

text \<open>
  \<open>Transaction::deserialize\<close> takes all that is left in the reader and tries the formats in turn; what a
  format leaves unread is dropped.
\<close>

definition de_transaction :: "btc_transaction decoder" where
  "de_transaction buffer =
     (case deserialize_tx PosvWithNTime buffer of
        Done t _ \<Rightarrow> Done t []
      | Panics \<Rightarrow> Panics
      | Fail _ \<Rightarrow>
          (case deserialize_tx StandardWithWitness buffer of
             Done t _ \<Rightarrow> Done t []
           | Panics \<Rightarrow> Panics
           | Fail _ \<Rightarrow>
               (case deserialize_tx PosWithNTime buffer of
                  Done t _ \<Rightarrow> Done t []
                | Panics \<Rightarrow> Panics
                | Fail _ \<Rightarrow>
                    (case deserialize_tx Zcash buffer of
                       Done t _ \<Rightarrow> Done t []
                     | Panics \<Rightarrow> Panics
                     | Fail e \<Rightarrow> Fail e))))"

end
