(* ===== verification/BlockHeader.thy ===== *)
theory BlockHeader
  imports BtcTransaction "HOL-Library.Sublist"
begin

text \<open>
  Block headers of Bitcoin and of the chains that come from it (\<open>mm2_bitcoin/chain/src/block_header.rs\<close>,
  \<open>raw_block.rs\<close>), with the parts that Zcash, merged mining, Firo, Qtum, LBRY and Ravencoin add, and the
  variants of coins by which the reader tells headers of the same version apart (\<open>serialization/src/reader.rs\<close>).
\<close>

section \<open>Variants of coins\<close>

datatype coin_variant = CV_BTC | CV_Qtum | CV_LBC | CV_Standard | CV_PPC | CV_RICK | CV_MORTY

definition is_kmd_assetchain :: "coin_variant \<Rightarrow> bool" where
  "is_kmd_assetchain v = (v = CV_RICK \<or> v = CV_MORTY)"

definition ticker_matches :: "string \<Rightarrow> string \<Rightarrow> bool" where
  "ticker_matches ticker w = (ticker = w \<or> sublist (w @ ''-'') ticker \<or> sublist (w @ ''_'') ticker)"

definition coin_variant_from :: "string \<Rightarrow> coin_variant" where
  "coin_variant_from t =
     (if ticker_matches t ''BTC'' then CV_BTC
      else if ticker_matches t ''QTUM'' then CV_Qtum
      else if ticker_matches t ''LBC'' then CV_LBC
      else if ticker_matches t ''PPC'' then CV_PPC
      else if ticker_matches t ''RICK'' then CV_RICK
      else if ticker_matches t ''MORTY'' then CV_MORTY
      else CV_Standard)"

section \<open>Headers\<close>

datatype header_nonce = Nonce_U32 u32 | Nonce_H256 bytes

fun ser_nonce :: "header_nonce \<Rightarrow> bytes" where
  "ser_nonce (Nonce_U32 n) = ser_u32 n"
| "ser_nonce (Nonce_H256 h) = ser_hash h"

text \<open>A \<open>Compact\<close> is its 32 bits.\<close>

datatype header_bits = Bits_Compact u32 | Bits_U32 u32

fun bits_as_u32 :: "header_bits \<Rightarrow> u32" where
  "bits_as_u32 (Bits_Compact c) = c"
| "bits_as_u32 (Bits_U32 n) = n"

definition ser_bits :: "header_bits \<Rightarrow> bytes" where
  "ser_bits b = ser_u32 (bits_as_u32 b)"

definition AUX_POW_VERSION_DOGE :: u32 where "AUX_POW_VERSION_DOGE = 6422788"
definition AUX_POW_VERSION_NMC :: u32 where "AUX_POW_VERSION_NMC = 65796"
definition AUX_POW_VERSION_SYS :: u32 where "AUX_POW_VERSION_SYS = 537919744"
definition MTP_POW_VERSION :: u32 where "MTP_POW_VERSION = 0x20001000"
definition PROG_POW_SWITCH_TIME :: u32 where "PROG_POW_SWITCH_TIME = 1635228000"
definition BIP9_NO_SOFT_FORK_BLOCK_HEADER_VERSION :: u32 where
  "BIP9_NO_SOFT_FORK_BLOCK_HEADER_VERSION = 536870912"
definition KAWPOW_VERSION :: u32 where "KAWPOW_VERSION = 805306368"

record merkle_branch =
  mbr_branch_hashes :: "bytes list"
  mbr_branch_side_mask :: i32

definition ser_merkle_branch :: "merkle_branch \<Rightarrow> bytes" where
  "ser_merkle_branch m = ser_list ser_hash (mbr_branch_hashes m) @ ser_u32 (mbr_branch_side_mask m)"

definition de_merkle_branch :: "merkle_branch decoder" where
  "de_merkle_branch =
     dbind (read_list 32 (de_hash 32)) (\<lambda>hs. dbind de_u32 (\<lambda>mask.
       dret \<lparr>mbr_branch_hashes = hs, mbr_branch_side_mask = mask\<rparr>))"

record prog_pow =
  pp_n_height :: u32
  pp_n_nonce_64 :: u64
  pp_mix_hash :: bytes

definition ser_prog_pow :: "prog_pow \<Rightarrow> bytes" where
  "ser_prog_pow p = ser_u32 (pp_n_height p) @ ser_u64 (pp_n_nonce_64 p) @ ser_hash (pp_mix_hash p)"

definition de_prog_pow :: "prog_pow decoder" where
  "de_prog_pow =
     dbind de_u32 (\<lambda>h. dbind de_u64 (\<lambda>n. dbind (de_hash 32) (\<lambda>m.
       dret \<lparr>pp_n_height = h, pp_n_nonce_64 = n, pp_mix_hash = m\<rparr>)))"

record mtp_pow =
  mtp_n_version :: i32
  mtp_hash_value :: bytes
  mtp_reserved_0 :: bytes
  mtp_reserved_1 :: bytes

definition ser_mtp_pow :: "mtp_pow \<Rightarrow> bytes" where
  "ser_mtp_pow p =
     ser_u32 (mtp_n_version p) @ ser_hash (mtp_hash_value p) @ ser_hash (mtp_reserved_0 p) @ ser_hash (mtp_reserved_1 p)"

definition de_mtp_pow :: "mtp_pow decoder" where
  "de_mtp_pow =
     dbind de_u32 (\<lambda>v. dbind (de_hash 32) (\<lambda>h. dbind (de_hash 32) (\<lambda>r. dbind (de_hash 32) (\<lambda>s.
       dret \<lparr>mtp_n_version = v, mtp_hash_value = h, mtp_reserved_0 = r, mtp_reserved_1 = s\<rparr>))))"

text \<open>A header whose work was done on another chain holds the header of that chain.\<close>

datatype block_header =
  BlockHeader
    (bh_version: u32) (bh_previous_header_hash: bytes) (bh_merkle_root_hash: bytes)
    (bh_claim_trie_root: "bytes option") (bh_hash_final_sapling_root: "bytes option") (bh_time: u32)
    (bh_bits: header_bits) (bh_nonce: header_nonce) (bh_solution: "bytes option") (bh_aux_pow: "aux_pow option")
    (bh_prog_pow: "prog_pow option") (bh_mtp_pow: "mtp_pow option") (bh_is_verus: bool)
    (bh_hash_state_root: "bytes option") (bh_hash_utxo_root: "bytes option")
    (bh_prevout_stake: "out_point option") (bh_vch_block_sig_dlgt: "bytes option") (bh_n_height: "u32 option")
    (bh_n_nonce_u64: "u64 option") (bh_mix_hash: "bytes option")
and aux_pow =
  AuxPow
    (ap_coinbase_tx: btc_transaction) (ap_parent_block_hash: bytes) (ap_coinbase_branch: merkle_branch)
    (ap_blockchain_branch: merkle_branch) (ap_parent_block_header: block_header)

definition is_prog_pow :: "u32 \<Rightarrow> u32 \<Rightarrow> bool" where
  "is_prog_pow version time = (version = MTP_POW_VERSION \<and> PROG_POW_SWITCH_TIME \<le> time)"

definition ser_opt :: "('a \<Rightarrow> bytes) \<Rightarrow> 'a option \<Rightarrow> bytes" where
  "ser_opt ser x = (case x of Some v \<Rightarrow> ser v | None \<Rightarrow> [])"

definition ser_header_start :: "u32 \<Rightarrow> bytes \<Rightarrow> bytes \<Rightarrow> bytes option \<Rightarrow> bytes option \<Rightarrow> u32 \<Rightarrow> header_bits \<Rightarrow>
    header_nonce \<Rightarrow> bytes option \<Rightarrow> bool \<Rightarrow> bytes" where
  "ser_header_start version prev mroot claim sapling time bits nonce solution is_verus =
     ser_u32 (if is_verus then version XOR 0x00010000 else version) @ ser_hash prev @ ser_hash mroot @
     ser_opt ser_hash claim @ ser_opt ser_hash sapling @ ser_u32 time @ ser_bits bits @
     ser_if (\<not> is_prog_pow version time \<and> (version \<noteq> KAWPOW_VERSION \<or> nonce \<noteq> Nonce_U32 0)) (ser_nonce nonce) @
     ser_opt (ser_list ser_u8) solution"

definition ser_header_end :: "prog_pow option \<Rightarrow> mtp_pow option \<Rightarrow> bytes option \<Rightarrow> bytes option \<Rightarrow>
    out_point option \<Rightarrow> bytes option \<Rightarrow> u32 option \<Rightarrow> u64 option \<Rightarrow> bytes option \<Rightarrow> bytes" where
  "ser_header_end prog mtp state_root utxo_root stake sig n_height n_nonce mix =
     ser_opt ser_prog_pow prog @ ser_opt ser_mtp_pow mtp @ ser_opt ser_hash state_root @ ser_opt ser_hash utxo_root @
     ser_opt ser_out_point stake @ ser_opt (ser_list ser_u8) sig @ ser_opt ser_u32 n_height @
     ser_opt ser_u64 n_nonce @ ser_opt ser_hash mix"

fun ser_block_header :: "block_header \<Rightarrow> bytes"
and ser_aux_pow :: "aux_pow \<Rightarrow> bytes" where
  "ser_block_header (BlockHeader version prev mroot claim sapling time bits nonce solution aux prog mtp is_verus
       state_root utxo_root stake sig n_height n_nonce mix) =
     ser_header_start version prev mroot claim sapling time bits nonce solution is_verus @
     (case aux of Some pow \<Rightarrow> ser_aux_pow pow | None \<Rightarrow> []) @
     ser_header_end prog mtp state_root utxo_root stake sig n_height n_nonce mix"
| "ser_aux_pow (AuxPow coinbase_tx parent_hash coinbase_branch blockchain_branch parent) =
     ser_transaction False coinbase_tx @ ser_hash parent_hash @ ser_merkle_branch coinbase_branch @
     ser_merkle_branch blockchain_branch @ ser_block_header parent"

definition de_opt :: "bool \<Rightarrow> 'a decoder \<Rightarrow> 'a option decoder" where
  "de_opt c d = de_if c (de_some d) None"

definition de_aux_pow :: "block_header decoder \<Rightarrow> aux_pow decoder" where
  "de_aux_pow de_header =
     dbind (deserialize_tx StandardWithWitness) (\<lambda>tx. dbind (de_hash 32) (\<lambda>h.
     dbind de_merkle_branch (\<lambda>c. dbind de_merkle_branch (\<lambda>b. dbind de_header (\<lambda>p. dret (AuxPow tx h c b p))))))"

definition header_is_zcash :: "coin_variant \<Rightarrow> u32 \<Rightarrow> bool" where
  "header_is_zcash variant version =
     ((version = 4 \<and> variant \<noteq> CV_BTC \<and> variant \<noteq> CV_PPC) \<or> is_kmd_assetchain variant)"

definition is_aux_pow_version :: "u32 \<Rightarrow> bool" where
  "is_aux_pow_version version =
     (version = AUX_POW_VERSION_DOGE \<or> version = AUX_POW_VERSION_SYS \<or> version = AUX_POW_VERSION_NMC)"

definition de_bits :: "bool \<Rightarrow> header_bits decoder" where
  "de_bits is_zcash = dbind de_u32 (\<lambda>b. dret (if is_zcash then Bits_U32 b else Bits_Compact b))"

definition de_nonce :: "coin_variant \<Rightarrow> u32 \<Rightarrow> u32 \<Rightarrow> header_nonce decoder" where
  "de_nonce variant version time =
     (if header_is_zcash variant version then dbind (de_hash 32) (\<lambda>h. dret (Nonce_H256 h))
      else if (version = KAWPOW_VERSION \<and> variant \<noteq> CV_BTC) \<or> is_prog_pow version time then dret (Nonce_U32 0)
      else dbind de_u32 (\<lambda>n. dret (Nonce_U32 n)))"

text \<open>One level of the reader: \<open>de_header\<close> reads the header of the parent chain.\<close>

definition de_block_header_with :: "block_header decoder \<Rightarrow> coin_variant \<Rightarrow> block_header decoder" where
  "de_block_header_with de_header variant =
     dbind de_u32 (\<lambda>raw.
     let is_verus = (raw XOR 0x00010000 = 4);
         version = (if is_verus then raw XOR 0x00010000 else raw);
         is_zcash = header_is_zcash variant version;
         is_qtum = (version = BIP9_NO_SOFT_FORK_BLOCK_HEADER_VERSION \<and> variant = CV_Qtum);
         is_kawpow = (version = KAWPOW_VERSION \<and> variant \<noteq> CV_BTC) in
     dbind (de_hash 32) (\<lambda>prev. dbind (de_hash 32) (\<lambda>mroot.
     dbind (de_opt (version = BIP9_NO_SOFT_FORK_BLOCK_HEADER_VERSION \<and> variant = CV_LBC) (de_hash 32)) (\<lambda>claim.
     dbind (de_opt is_zcash (de_hash 32)) (\<lambda>sapling.
     dbind de_u32 (\<lambda>time. dbind (de_bits is_zcash) (\<lambda>bits. dbind (de_nonce variant version time) (\<lambda>nonce.
     dbind (de_opt is_zcash (read_list 1 de_u8)) (\<lambda>solution.
     dbind (de_opt (is_aux_pow_version version) (de_aux_pow de_header)) (\<lambda>aux.
     dbind (de_opt (is_prog_pow version time) de_prog_pow) (\<lambda>prog.
     dbind (de_opt (version = MTP_POW_VERSION \<and> time < PROG_POW_SWITCH_TIME \<and> prog = None) de_mtp_pow) (\<lambda>mtp.
     dbind (de_opt is_qtum (de_hash 32)) (\<lambda>state_root. dbind (de_opt is_qtum (de_hash 32)) (\<lambda>utxo_root.
     dbind (de_opt is_qtum de_out_point) (\<lambda>stake. dbind (de_opt is_qtum (read_list 1 de_u8)) (\<lambda>sig.
     dbind (de_opt is_kawpow de_u32) (\<lambda>n_height. dbind (de_opt is_kawpow de_u64) (\<lambda>n_nonce.
     dbind (de_opt is_kawpow (de_hash 32)) (\<lambda>mix.
       dret (BlockHeader version prev mroot claim sapling time bits nonce solution aux prog mtp is_verus
               state_root utxo_root stake sig n_height n_nonce mix))))))))))))))))))))"

text \<open>
  The reader calls itself for the header of the parent chain. Every level reads at least the four bytes of
  its version first, so the length of the input bounds the depth.
\<close>

fun de_block_header_fuel :: "nat \<Rightarrow> coin_variant \<Rightarrow> block_header decoder" where
  "de_block_header_fuel 0 variant = dfail UnexpectedEnd"
| "de_block_header_fuel (Suc n) variant = de_block_header_with (de_block_header_fuel n variant) variant"

definition de_block_header :: "coin_variant \<Rightarrow> block_header decoder" where
  "de_block_header variant bs = de_block_header_fuel (length bs) variant bs"

definition header_hash :: "(bytes \<Rightarrow> bytes) \<Rightarrow> block_header \<Rightarrow> bytes" where
  "header_hash dhash256 h = dhash256 (ser_block_header h)"

section \<open>Raw headers\<close>

definition MIN_RAW_HEADER_SIZE :: nat where "MIN_RAW_HEADER_SIZE = 80"

datatype raw_header_error = RHE_WrongLengthHeader nat

definition raw_header_new :: "bytes \<Rightarrow> raw_header_error + bytes" where
  "raw_header_new buf =
     (if length buf < MIN_RAW_HEADER_SIZE then Inl (RHE_WrongLengthHeader MIN_RAW_HEADER_SIZE) else Inr buf)"

definition raw_digest :: "(bytes \<Rightarrow> bytes) \<Rightarrow> bytes \<Rightarrow> bytes" where
  "raw_digest dhash256 raw = dhash256 raw"

definition raw_extract_merkle_root :: "bytes \<Rightarrow> bytes" where
  "raw_extract_merkle_root raw = take 32 (drop 36 raw)"

definition raw_parent :: "bytes \<Rightarrow> bytes" where
  "raw_parent raw = take 32 (drop 4 raw)"

end
