(* ===== verification/Spv.thy ===== *)
theory Spv
  imports BlockHeader "HOL-Library.Log_Nat"
begin

text \<open>
  Simple payment verification: compact targets (\<open>mm2_bitcoin/primitives/src/compact.rs\<close>), the Merkle root of a
  block (\<open>chain/src/merkle_root.rs\<close>, \<open>block.rs\<close>), the rules for the difficulty (\<open>spv_validation/src/work.rs\<close>), the
  configuration (\<open>conf.rs\<close>), the checks of headers and Merkle proofs (\<open>helpers_validation.rs\<close>, \<open>spv_proof.rs\<close>).
  The double SHA-256 \<open>H\<close> and the storage of headers are parameters. A \<open>U256\<close> is a natural number below
  \<open>2 ^ 256\<close>; its multiplication panics on overflow.
\<close>

section \<open>Compact targets\<close>

definition compact_to_u256 :: "u32 \<Rightarrow> nat + nat" where
  "compact_to_u256 c =
     (let size = unat c div 2 ^ 24;
          w = unat c mod 2 ^ 23;
          word = (if size \<le> 3 then w div 2 ^ (8 * (3 - size)) else w);
          result = (if size \<le> 3 then word else word * 2 ^ (8 * (size - 3)) mod 2 ^ 256);
          is_negative = (word \<noteq> 0 \<and> odd (unat c div 2 ^ 23));
          is_overflow = (word \<noteq> 0 \<and> 34 < size) \<or> (0xff < word \<and> 33 < size) \<or> (0xffff < word \<and> 32 < size)
      in if is_negative \<or> is_overflow then Inl result else Inr result)"

text \<open>The conversion that ignores overflows and negative values.\<close>

definition u256_from_compact :: "u32 \<Rightarrow> nat" where
  "u256_from_compact c = (case compact_to_u256 c of Inr x \<Rightarrow> x | Inl x \<Rightarrow> x)"

definition compact_from_u256 :: "nat \<Rightarrow> u32 option" where
  "compact_from_u256 val =
     (let size = (floorlog 2 val + 7) div 8;
          compact = (if size \<le> 3 then val mod 2 ^ 64 * 2 ^ (8 * (3 - size)) mod 2 ^ 32
                     else val div 2 ^ (8 * (size - 3)) mod 2 ^ 32);
          (compact, size) = (if odd (compact div 2 ^ 23) then (compact div 2 ^ 8, size + 1) else (compact, size))
      in if compact < 2 ^ 23 \<and> size < 256 then Some (word_of_nat (compact + size * 2 ^ 24)) else None)"

fun header_target :: "header_bits \<Rightarrow> nat + nat" where
  "header_target (Bits_Compact c) = compact_to_u256 c"
| "header_target (Bits_U32 nb) = Inr (unat nb)"

section \<open>Merkle trees\<close>

definition merkle_node_hash :: "(bytes \<Rightarrow> bytes) \<Rightarrow> bytes \<Rightarrow> bytes \<Rightarrow> bytes" where
  "merkle_node_hash H left right = H (left @ right)"

text \<open>The next row: pairs are joined, a last single hash is joined with itself.\<close>

fun merkle_row :: "(bytes \<Rightarrow> bytes) \<Rightarrow> bytes list \<Rightarrow> bytes list" where
  "merkle_row H (a # b # rest) = merkle_node_hash H a b # merkle_row H rest"
| "merkle_row H [a] = [merkle_node_hash H a a]"
| "merkle_row H [] = []"

text \<open>Not to return is \<open>None\<close>: the recursion has no end for no hashes.\<close>

partial_function (option) merkle_root :: "(bytes \<Rightarrow> bytes) \<Rightarrow> bytes list \<Rightarrow> bytes option" where
  "merkle_root H hashes =
     (if length hashes = 1 then Some (hd hashes) else merkle_root H (merkle_row H hashes))"

definition block_merkle_root :: "(bytes \<Rightarrow> bytes) \<Rightarrow> (bytes \<Rightarrow> bytes) \<Rightarrow> btc_transaction list \<Rightarrow> bytes option" where
  "block_merkle_root dhash256 sha256 txs = merkle_root dhash256 (map (tx_hash dhash256 sha256) txs)"

definition witness_merkle_root :: "(bytes \<Rightarrow> bytes) \<Rightarrow> btc_transaction list \<Rightarrow> bytes option" where
  "witness_merkle_root dhash256 txs =
     merkle_root dhash256 (case txs of [] \<Rightarrow> [] | _ # rest \<Rightarrow> zero_hash 32 # map (tx_witness_hash dhash256) rest)"

section \<open>Errors\<close>

datatype storage_error =
    AddToStorageError string string
  | GetFromStorageError string string
  | CantRetrieveTableError string string
  | UnableToDeleteHeaders u64 u64 string string
  | QueryError string string
  | InitializationError string string
  | DecodeError string string
  | StorageInternal string

datatype next_block_bits_error =
    StorageError storage_error
  | NoSuchBlockHeader string u64
  | NoBlockHeaderWithNoMaxBits string

datatype spv_error =
    InitialValidationError string
  | ReadOverrun
  | BadCompactInt
  | MalformattedOutput
  | UnableToGetHeader string
  | WrongLengthHeader
  | UnexpectedDifficultyChange
  | InsufficientWork
  | DifficultyCalculationError next_block_bits_error
  | WrongDigest
  | WrongMerkleRoot
  | WrongPrevHash
  | InvalidVin
  | InvalidVout
  | BadMerkleProof
  | UnableToGetMerkle string string
  | InvalidHeight string
  | SpvTimeout
  | HeaderStorageError storage_error
  | WrongRetargetHeight string u64
  | SpvInternal string
  | ParentHashMismatch string u64

section \<open>Merkle proofs\<close>

definition merkle_array_new :: "bytes \<Rightarrow> spv_error + bytes" where
  "merkle_array_new bs = (if length bs mod 32 = 0 then Inr bs else Inl BadMerkleProof)"

definition merkle_array_len :: "bytes \<Rightarrow> nat" where
  "merkle_array_len a = length a div 32"

definition merkle_array_index :: "bytes \<Rightarrow> nat \<Rightarrow> spv_error + bytes" where
  "merkle_array_index a index =
     (let to_index = (index + 1) * 32 in
      if length a < to_index then Inl BadMerkleProof else Inr (take 32 (drop (index * 32) a)))"

definition hash256_merkle_step :: "(bytes \<Rightarrow> bytes) \<Rightarrow> bytes \<Rightarrow> bytes \<Rightarrow> bytes" where
  "hash256_merkle_step H a b = H (a @ b)"

text \<open>The loop, from node \<open>i\<close> on, \<open>n\<close> nodes to go.\<close>

fun merkle_climb :: "(bytes \<Rightarrow> bytes) \<Rightarrow> bytes \<Rightarrow> nat \<Rightarrow> nat \<Rightarrow> u64 \<Rightarrow> bytes \<Rightarrow> spv_error + bytes" where
  "merkle_climb H nodes 0 i idx current = Inr current"
| "merkle_climb H nodes (Suc n) i idx current =
     (case merkle_array_index nodes i of
        Inl e \<Rightarrow> Inl e
      | Inr next \<Rightarrow>
          merkle_climb H nodes n (i + 1) (drop_bit 1 idx)
            (if idx mod 2 = 1 then hash256_merkle_step H next current else hash256_merkle_step H current next))"

definition verify_hash256_merkle ::
  "(bytes \<Rightarrow> bytes) \<Rightarrow> bytes \<Rightarrow> bytes \<Rightarrow> bytes \<Rightarrow> u64 \<Rightarrow> spv_error + unit" where
  "verify_hash256_merkle H txid mroot nodes index =
     (let proof_len = merkle_array_len nodes in
      if (proof_len = 0 \<and> txid = mroot) \<or> proof_len = 1 then Inr ()
      else case merkle_climb H nodes proof_len 0 index txid of
             Inl e \<Rightarrow> Inl e
           | Inr current \<Rightarrow> if current \<noteq> mroot then Inl BadMerkleProof else Inr ())"

definition merkle_prove :: "(bytes \<Rightarrow> bytes) \<Rightarrow> bytes \<Rightarrow> bytes \<Rightarrow> bytes list \<Rightarrow> u64 \<Rightarrow> spv_error + unit" where
  "merkle_prove H txid mroot intermediate_nodes index =
     (if txid = mroot \<and> index = 0 \<and> intermediate_nodes = [] then Inr ()
      else case merkle_array_new (concat intermediate_nodes) of
             Inl e \<Rightarrow> Inl e
           | Inr nodes \<Rightarrow> verify_hash256_merkle H txid mroot nodes index)"

section \<open>The format of inputs and outputs\<close>

text \<open>Lengths are machine integers and wrap around.\<close>

definition determine_input_length :: "bytes \<Rightarrow> spv_error + u64" where
  "determine_input_length tx_in =
     (if length tx_in < 37 then Inl ReadOverrun
      else case parse_compact_int (drop 36 tx_in) of
             Inl _ \<Rightarrow> Inl BadCompactInt
           | Inr n \<Rightarrow> Inr (40 + word_of_nat (compact_serialized_length n) + n))"

definition determine_output_length :: "bytes \<Rightarrow> spv_error + u64" where
  "determine_output_length tx_out =
     (if length tx_out < 9 then Inl MalformattedOutput
      else case parse_compact_int (drop 8 tx_out) of
             Inl _ \<Rightarrow> Inl BadCompactInt
           | Inr n \<Rightarrow> Inr (8 + word_of_nat (compact_serialized_length n) + n))"

fun walk_items :: "(bytes \<Rightarrow> spv_error + u64) \<Rightarrow> bytes \<Rightarrow> nat \<Rightarrow> u64 \<Rightarrow> u64 option" where
  "walk_items item_length v 0 offset = Some offset"
| "walk_items item_length v (Suc n) offset =
     (if length v \<le> unat offset then None
      else case item_length (drop (unat offset) v) of
             Inl _ \<Rightarrow> None
           | Inr l \<Rightarrow> walk_items item_length v n (offset + l))"

definition validate_items :: "(bytes \<Rightarrow> spv_error + u64) \<Rightarrow> bytes \<Rightarrow> bool" where
  "validate_items item_length v =
     (case parse_compact_int v of
        Inl _ \<Rightarrow> False
      | Inr n \<Rightarrow>
          if n = 0 then False
          else case walk_items item_length v (unat n) (word_of_nat (compact_serialized_length n)) of
                 None \<Rightarrow> False
               | Some offset \<Rightarrow> unat offset = length v)"

definition validate_vin :: "bytes \<Rightarrow> bool" where
  "validate_vin vin = validate_items determine_input_length vin"

definition validate_vout :: "bytes \<Rightarrow> bool" where
  "validate_vout vout = validate_items determine_output_length vout"

record spv_proof =
  sp_tx_id :: bytes
  sp_vin :: bytes
  sp_vout :: bytes
  sp_index :: u64
  sp_intermediate_nodes :: "bytes list"

definition spv_proof_validate :: "(bytes \<Rightarrow> bytes) \<Rightarrow> block_header \<Rightarrow> spv_proof \<Rightarrow> spv_error + unit" where
  "spv_proof_validate H validated_header p =
     (if \<not> validate_vin (sp_vin p) then Inl InvalidVin
      else if \<not> validate_vout (sp_vout p) then Inl InvalidVout
      else merkle_prove H (sp_tx_id p) (bh_merkle_root_hash validated_header) (sp_intermediate_nodes p) (sp_index p))"

text \<open>
  The check of a payment by an Electrum client (\<open>coins/utxo/spv.rs\<close>). \<open>fetched\<close> is what
  \<open>get_merkle_and_validated_header\<close> gave in time, if it did; hashes of the branch come reversed.
\<close>

record tx_merkle_branch =
  mb_merkle :: "bytes list"
  mb_block_height :: u64
  mb_pos :: u64

record confirmed_transaction_info =
  ct_tx :: btc_transaction
  ct_header :: block_header
  ct_index :: u64
  ct_height :: u64

definition validate_spv_proof ::
  "(bytes \<Rightarrow> bytes) \<Rightarrow> (bytes \<Rightarrow> bytes) \<Rightarrow> btc_transaction \<Rightarrow> (tx_merkle_branch \<times> block_header \<times> u64) option \<Rightarrow>
   spv_error + confirmed_transaction_info" where
  "validate_spv_proof H sha256 tx fetched =
     (if tx_outputs tx = [] then Inl InvalidVout
      else case fetched of
        None \<Rightarrow> Inl SpvTimeout
      | Some (merkle_branch, validated_header, height) \<Rightarrow>
          let p = \<lparr>sp_tx_id = tx_hash H sha256 tx, sp_vin = ser_list ser_input (tx_inputs tx),
                   sp_vout = ser_list ser_output (tx_outputs tx), sp_index = mb_pos merkle_branch,
                   sp_intermediate_nodes = map rev (mb_merkle merkle_branch)\<rparr> in
          case spv_proof_validate H validated_header p of
            Inl e \<Rightarrow> Inl e
          | Inr _ \<Rightarrow> Inr \<lparr>ct_tx = tx, ct_header = validated_header, ct_index = sp_index p, ct_height = height\<rparr>)"


section \<open>Difficulty\<close>

definition RETARGETING_FACTOR :: u32 where "RETARGETING_FACTOR = 4"
definition TARGET_SPACING_SECONDS :: u32 where "TARGET_SPACING_SECONDS = 10 * 60"
definition TARGET_TIMESPAN_SECONDS :: u32 where "TARGET_TIMESPAN_SECONDS = 2 * 7 * 24 * 60 * 60"
definition RETARGETING_INTERVAL :: u32 where
  "RETARGETING_INTERVAL = TARGET_TIMESPAN_SECONDS div TARGET_SPACING_SECONDS"
definition MIN_TIMESPAN :: u32 where "MIN_TIMESPAN = TARGET_TIMESPAN_SECONDS div RETARGETING_FACTOR"
definition MAX_TIMESPAN :: u32 where "MAX_TIMESPAN = TARGET_TIMESPAN_SECONDS * RETARGETING_FACTOR"
definition MAX_BITS_BTC :: u32 where "MAX_BITS_BTC = 486604799"

definition is_retarget_height :: "u64 \<Rightarrow> bool" where
  "is_retarget_height height = (height mod ucast RETARGETING_INTERVAL = 0)"

datatype difficulty_algorithm = BitcoinMainnet | BitcoinTestnet

record spv_block_header =
  sh_height :: u64
  sh_hash :: bytes
  sh_time :: u32
  sh_bits :: header_bits

definition spv_header_from :: "(bytes \<Rightarrow> bytes) \<Rightarrow> block_header \<Rightarrow> u64 \<Rightarrow> spv_block_header" where
  "spv_header_from H h height =
     \<lparr>sh_height = height, sh_hash = header_hash H h, sh_time = bh_time h, sh_bits = bh_bits h\<rparr>"

text \<open>The queries of \<open>BlockHeaderStorageOps\<close> that the checks make; \<open>None\<close> is a panic.\<close>

record header_storage =
  hs_get_block_header :: "u64 \<Rightarrow> (storage_error + block_header option) option"
  hs_get_last_with_non_max_bits :: "u32 \<Rightarrow> (storage_error + block_header option) option"

definition range_constrain :: "int \<Rightarrow> int \<Rightarrow> int \<Rightarrow> int" where
  "range_constrain v lo hi = min (max v lo) hi"

definition retarget_timespan :: "u32 \<Rightarrow> u32 \<Rightarrow> u32" where
  "retarget_timespan retarget_timestamp last_timestamp =
     word_of_int (range_constrain (uint last_timestamp - uint retarget_timestamp) (uint MIN_TIMESPAN) (uint MAX_TIMESPAN))"

definition u256_mul :: "nat \<Rightarrow> nat \<Rightarrow> nat option" where
  "u256_mul a b = (if a * b < 2 ^ 256 then Some (a * b) else None)"

text \<open>The new target; \<open>None\<close> is a panic of the arithmetic.\<close>

definition btc_retarget_bits ::
  "(bytes \<Rightarrow> bytes) \<Rightarrow> string \<Rightarrow> spv_block_header \<Rightarrow> header_storage \<Rightarrow> (next_block_bits_error + header_bits) option" where
  "btc_retarget_bits H coin last_block_header storage =
     (let retarget_ref = sh_height last_block_header + 1 - ucast RETARGETING_INTERVAL in
      if retarget_ref = 0 then Some (Inr (Bits_Compact MAX_BITS_BTC))
      else case hs_get_block_header storage retarget_ref of
        None \<Rightarrow> None
      | Some (Inl e) \<Rightarrow> Some (Inl (StorageError e))
      | Some (Inr None) \<Rightarrow> Some (Inl (NoSuchBlockHeader coin retarget_ref))
      | Some (Inr (Some h)) \<Rightarrow>
          (let timespan = retarget_timespan (bh_time h) (sh_time last_block_header);
               old = u256_from_compact (bits_as_u32 (sh_bits last_block_header)) in
           Option.bind (u256_mul old (unat timespan)) (\<lambda>product.
             let retarget = product div unat TARGET_TIMESPAN_SECONDS in
             if u256_from_compact MAX_BITS_BTC < retarget then Some (Inr (Bits_Compact MAX_BITS_BTC))
             else map_option (\<lambda>c. Inr (Bits_Compact c)) (compact_from_u256 retarget))))"

definition btc_mainnet_next_block_bits ::
  "(bytes \<Rightarrow> bytes) \<Rightarrow> string \<Rightarrow> spv_block_header \<Rightarrow> header_storage \<Rightarrow> (next_block_bits_error + header_bits) option" where
  "btc_mainnet_next_block_bits H coin last_block_header storage =
     (if sh_height last_block_header = 0 then Some (Inr (Bits_Compact MAX_BITS_BTC))
      else if is_retarget_height (sh_height last_block_header + 1)
      then btc_retarget_bits H coin last_block_header storage
      else Some (Inr (sh_bits last_block_header)))"

definition btc_testnet_next_block_bits ::
  "(bytes \<Rightarrow> bytes) \<Rightarrow> string \<Rightarrow> u32 \<Rightarrow> spv_block_header \<Rightarrow> header_storage \<Rightarrow> (next_block_bits_error + header_bits) option" where
  "btc_testnet_next_block_bits H coin current_block_timestamp last_block_header storage =
     (let max_bits = Bits_Compact MAX_BITS_BTC in
      if sh_height last_block_header = 0 then Some (Inr max_bits)
      else
        let max_time_gap = sh_time last_block_header + 2 * TARGET_SPACING_SECONDS in
        if is_retarget_height (sh_height last_block_header + 1)
        then btc_retarget_bits H coin last_block_header storage
        else if max_time_gap < current_block_timestamp then Some (Inr max_bits)
        else if sh_bits last_block_header \<noteq> max_bits then Some (Inr (sh_bits last_block_header))
        else case hs_get_last_with_non_max_bits storage MAX_BITS_BTC of
               None \<Rightarrow> None
             | Some (Inl e) \<Rightarrow> Some (Inl (StorageError e))
             | Some (Inr (Some h)) \<Rightarrow> Some (Inr (bh_bits h))
             | Some (Inr None) \<Rightarrow> Some (Inr max_bits))"

definition next_block_bits ::
  "(bytes \<Rightarrow> bytes) \<Rightarrow> string \<Rightarrow> u32 \<Rightarrow> spv_block_header \<Rightarrow> header_storage \<Rightarrow> difficulty_algorithm \<Rightarrow>
   (next_block_bits_error + header_bits) option" where
  "next_block_bits H coin current_block_timestamp last_block_header storage algorithm =
     (case algorithm of
        BitcoinMainnet \<Rightarrow> btc_mainnet_next_block_bits H coin last_block_header storage
      | BitcoinTestnet \<Rightarrow> btc_testnet_next_block_bits H coin current_block_timestamp last_block_header storage)"

section \<open>Configuration and validation of headers\<close>

record header_validation_params =
  vp_difficulty_check :: bool
  vp_constant_difficulty :: bool
  vp_difficulty_algorithm :: "difficulty_algorithm option"

record spv_conf =
  cf_starting_block_header :: spv_block_header
  cf_max_stored_block_headers :: "u64 option"
  cf_validation_params :: "header_validation_params option"

definition validate_btc_max_stored_headers_value :: "u64 \<Rightarrow> spv_error + unit" where
  "validate_btc_max_stored_headers_value max_stored =
     (if (ucast max_stored :: u32) < RETARGETING_INTERVAL
      then Inl (InitialValidationError (''max_stored_block_headers '' @ show_u64 max_stored @
        '' must be greater than retargeting interval '' @ show_u64 (ucast RETARGETING_INTERVAL)))
      else Inr ())"

definition validate_btc_spv_header_height :: "string \<Rightarrow> u64 \<Rightarrow> spv_error + unit" where
  "validate_btc_spv_header_height coin height =
     (let is_retarget = height mod ucast RETARGETING_INTERVAL in
      if is_retarget \<noteq> 0 then Inl (WrongRetargetHeight coin (height - is_retarget)) else Inr ())"

definition spv_conf_validate :: "string \<Rightarrow> spv_conf \<Rightarrow> spv_error + unit" where
  "spv_conf_validate coin conf =
     (case Option.bind (cf_validation_params conf) vp_difficulty_algorithm of
        None \<Rightarrow> Inr ()
      | Some BitcoinMainnet \<Rightarrow>
          (case validate_btc_spv_header_height coin (sh_height (cf_starting_block_header conf)) of
             Inl e \<Rightarrow> Inl e
           | Inr _ \<Rightarrow>
               (case cf_max_stored_block_headers conf of
                  None \<Rightarrow> Inr ()
                | Some m \<Rightarrow> validate_btc_max_stored_headers_value m))
      | Some BitcoinTestnet \<Rightarrow> Inl (SpvInternal ''Bitcoin Testnet is not supported yet.''))"

datatype starting_header_error = BitsNotAcceptable u32 u32 | HashNotAcceptable bytes bytes | TimeNotAcceptable u32 u32

definition validate_rpc_starting_header ::
  "(bytes \<Rightarrow> bytes) \<Rightarrow> spv_conf \<Rightarrow> u64 \<Rightarrow> block_header \<Rightarrow> starting_header_error + unit" where
  "validate_rpc_starting_header H conf height rpc_header =
     (let rpc = spv_header_from H rpc_header height;
          spv = cf_starting_block_header conf in
      if bits_as_u32 (sh_bits rpc) \<noteq> bits_as_u32 (sh_bits spv)
      then Inl (BitsNotAcceptable (bits_as_u32 (sh_bits spv)) (bits_as_u32 (sh_bits rpc)))
      else if sh_hash rpc \<noteq> sh_hash spv then Inl (HashNotAcceptable (sh_hash spv) (sh_hash rpc))
      else if sh_time rpc \<noteq> sh_time spv then Inl (TimeNotAcceptable (sh_time spv) (sh_time rpc))
      else Inr ())"

text \<open>The checks of one header against the header before it.\<close>

definition validate_header_bits ::
  "(bytes \<Rightarrow> bytes) \<Rightarrow> string \<Rightarrow> header_storage \<Rightarrow> spv_conf \<Rightarrow> spv_block_header \<Rightarrow> block_header \<Rightarrow>
   (spv_error + unit) option" where
  "validate_header_bits H coin storage conf prev_header h =
     (case cf_validation_params conf of
        None \<Rightarrow> Some (Inr ())
      | Some params \<Rightarrow>
          if vp_constant_difficulty params \<and> vp_difficulty_check params \<and> bh_bits h \<noteq> sh_bits prev_header
          then Some (Inl UnexpectedDifficultyChange)
          else case vp_difficulty_algorithm params of
            None \<Rightarrow> Some (Inr ())
          | Some algorithm \<Rightarrow>
              Option.bind (next_block_bits H coin (bh_time h) prev_header storage algorithm) (\<lambda>r.
                case r of
                  Inl e \<Rightarrow> Some (Inl (DifficultyCalculationError e))
                | Inr bits \<Rightarrow>
                    if \<not> vp_constant_difficulty params \<and> vp_difficulty_check params \<and> bh_bits h \<noteq> bits
                    then Some (Inl InsufficientWork) else Some (Inr ())))"

fun validate_header_chain ::
  "(bytes \<Rightarrow> bytes) \<Rightarrow> string \<Rightarrow> header_storage \<Rightarrow> spv_conf \<Rightarrow> spv_block_header \<Rightarrow> block_header list \<Rightarrow>
   (spv_error + unit) option" where
  "validate_header_chain H coin storage conf prev_header [] = Some (Inr ())"
| "validate_header_chain H coin storage conf prev_header (h # hs) =
     (if bh_previous_header_hash h \<noteq> sh_hash prev_header
      then Some (Inl (ParentHashMismatch coin (sh_height prev_header + 1)))
      else Option.bind (validate_header_bits H coin storage conf prev_header h) (\<lambda>r.
        case r of
          Inl e \<Rightarrow> Some (Inl e)
        | Inr _ \<Rightarrow> validate_header_chain H coin storage conf (spv_header_from H h (sh_height prev_header + 1)) hs))"

definition validate_headers ::
  "(bytes \<Rightarrow> bytes) \<Rightarrow> string \<Rightarrow> u64 \<Rightarrow> block_header list \<Rightarrow> header_storage \<Rightarrow> spv_conf \<Rightarrow> (spv_error + unit) option" where
  "validate_headers H coin last_validated_height headers storage conf =
     (if last_validated_height = sh_height (cf_starting_block_header conf)
      then validate_header_chain H coin storage conf (cf_starting_block_header conf) headers
      else case hs_get_block_header storage last_validated_height of
        None \<Rightarrow> None
      | Some (Inl e) \<Rightarrow> Some (Inl (HeaderStorageError e))
      | Some (Inr None) \<Rightarrow> Some (Inl (HeaderStorageError (GetFromStorageError coin
          (''Header with height '' @ show_u64 last_validated_height @ '' is not found in storage''))))
      | Some (Inr (Some h)) \<Rightarrow>
          validate_header_chain H coin storage conf (spv_header_from H h last_validated_height) headers)"

end
