(* ===== verification/HeaderSync.thy ===== *)
theory HeaderSync
  imports Spv
begin

text \<open>
  The loop that keeps the block headers of a light client up to date (\<open>coins/utxo/utxo_builder/utxo_arc_builder.rs\<close>), the
  requests for headers it makes (\<open>rpc_clients.rs\<close>) and the table the headers are stored in
  (\<open>utxo_block_header_storage/sql_block_header_storage.rs\<close>).

  What comes from outside is a \<open>sync_env\<close>: the answers of the servers and the errors of the database, each a function
  of the tick, the number of calls made so far. The state of the loop is a \<open>sync_state\<close>. The loop over possible
  reorganisations may not end, which is \<open>None\<close>; a panic is a result of its own.
\<close>

section \<open>The table of headers\<close>

text \<open>Heights are stored as signed integers, headers in their serialized form, hashes reversed.\<close>

record header_row =
  hr_height :: int
  hr_hex :: bytes
  hr_bits :: u32
  hr_hash :: bytes

definition as_i64 :: "u64 \<Rightarrow> int" where
  "as_i64 w = sint w"

definition row_of :: "(bytes \<Rightarrow> bytes) \<Rightarrow> u64 \<Rightarrow> block_header \<Rightarrow> header_row" where
  "row_of H height h =
     \<lparr>hr_height = as_i64 height, hr_hex = ser_block_header h, hr_bits = bits_as_u32 (bh_bits h), hr_hash = rev (header_hash H h)\<rparr>"

text \<open>\<open>INSERT OR REPLACE\<close> with a unique height and a unique hash.\<close>

definition insert_row :: "header_row \<Rightarrow> header_row list \<Rightarrow> header_row list" where
  "insert_row r table = filter (\<lambda>x. hr_height x \<noteq> hr_height r \<and> hr_hash x \<noteq> hr_hash r) table @ [r]"

text \<open>The insertions of a call are one transaction.\<close>

definition add_block_headers_to_storage ::
  "(bytes \<Rightarrow> bytes) \<Rightarrow> storage_error option \<Rightarrow> (u64 \<times> block_header) list \<Rightarrow> header_row list \<Rightarrow>
   (storage_error + unit) \<times> header_row list" where
  "add_block_headers_to_storage H failure headers table =
     (case failure of
        Some e \<Rightarrow> (Inl e, table)
      | None \<Rightarrow> (Inr (), fold (\<lambda>(height, h). insert_row (row_of H height h)) headers table))"

definition row_at :: "header_row list \<Rightarrow> int \<Rightarrow> header_row option" where
  "row_at table height = find (\<lambda>r. hr_height r = height) table"

definition show_ser_error :: "ser_error \<Rightarrow> string" where
  "show_ser_error e =
     (case e of
        MalformedData \<Rightarrow> ''MalformedData'' | UnexpectedEnd \<Rightarrow> ''UnexpectedEnd'' | UnreadData \<Rightarrow> ''UnreadData''
      | Custom s \<Rightarrow> s)"

definition decode_row :: "string \<Rightarrow> header_row option \<Rightarrow> (storage_error + block_header option) option" where
  "decode_row coin row =
     (case row of
        None \<Rightarrow> Some (Inr None)
      | Some r \<Rightarrow>
          (case de_block_header (coin_variant_from coin) (hr_hex r) of
             Done h rest \<Rightarrow> Some (Inr (Some h))
           | Fail e \<Rightarrow> Some (Inl (DecodeError coin (show_ser_error e)))
           | Panics \<Rightarrow> None))"

definition table_get_block_header ::
  "string \<Rightarrow> storage_error option \<Rightarrow> u64 \<Rightarrow> header_row list \<Rightarrow> (storage_error + block_header option) option" where
  "table_get_block_header coin failure height table =
     (case failure of Some e \<Rightarrow> Some (Inl e) | None \<Rightarrow> decode_row coin (row_at table (as_i64 height)))"

fun highest_row :: "header_row list \<Rightarrow> header_row option" where
  "highest_row [] = None"
| "highest_row (r # rs) =
     (case highest_row rs of None \<Rightarrow> Some r | Some x \<Rightarrow> Some (if hr_height x < hr_height r then r else x))"

definition get_last_block_height :: "string \<Rightarrow> storage_error option \<Rightarrow> header_row list \<Rightarrow> storage_error + u64 option" where
  "get_last_block_height coin failure table =
     (case failure of
        Some e \<Rightarrow> Inl e
      | None \<Rightarrow>
          (case highest_row table of
             None \<Rightarrow> Inr None
           | Some r \<Rightarrow>
               if hr_height r < 0 then Inl (DecodeError coin ''out of range integral type conversion attempted'')
               else Inr (Some (word_of_int (hr_height r)))))"

definition table_get_last_with_non_max_bits ::
  "string \<Rightarrow> storage_error option \<Rightarrow> u32 \<Rightarrow> header_row list \<Rightarrow> (storage_error + block_header option) option" where
  "table_get_last_with_non_max_bits coin failure max_bits table =
     (case failure of
        Some e \<Rightarrow> Some (Inl e)
      | None \<Rightarrow> decode_row coin (highest_row (filter (\<lambda>r. hr_bits r \<noteq> max_bits) table)))"

definition get_block_height_by_hash :: "storage_error option \<Rightarrow> bytes \<Rightarrow> header_row list \<Rightarrow> storage_error + int option" where
  "get_block_height_by_hash failure hash table =
     (case failure of
        Some e \<Rightarrow> Inl e
      | None \<Rightarrow> Inr (map_option hr_height (find (\<lambda>r. hr_hash r = hash) table)))"

definition remove_headers_from_storage ::
  "storage_error option \<Rightarrow> u64 \<Rightarrow> u64 \<Rightarrow> header_row list \<Rightarrow> (storage_error + unit) \<times> header_row list" where
  "remove_headers_from_storage failure from_height to_height table =
     (case failure of
        Some e \<Rightarrow> (Inl e, table)
      | None \<Rightarrow> (Inr (), filter (\<lambda>r. \<not> (uint from_height \<le> hr_height r \<and> hr_height r \<le> uint to_height)) table))"

definition remove_excessive_headers_from_storage ::
  "storage_error option \<Rightarrow> u64 \<Rightarrow> u64 \<Rightarrow> header_row list \<Rightarrow> (storage_error + unit) \<times> header_row list" where
  "remove_excessive_headers_from_storage failure last_height_to_be_added max_allowed_headers table =
     (if max_allowed_headers < last_height_to_be_added
      then remove_headers_from_storage failure 0 (last_height_to_be_added - max_allowed_headers) table
      else (Inr (), table))"

section \<open>Servers\<close>

text \<open>The flag of \<open>ResponseParseError\<close> says that the error code is \<open>RESPONSE_TOO_LARGE_CODE\<close>.\<close>

datatype utxo_rpc_error =
    Transport string
  | ResponseParseError bool string
  | InvalidResponse string
  | RpcInternal string

fun is_network_error :: "utxo_rpc_error \<Rightarrow> bool" where
  "is_network_error (Transport e) = True"
| "is_network_error e = False"

fun is_response_too_large :: "utxo_rpc_error \<Rightarrow> bool" where
  "is_response_too_large (ResponseParseError too_large e) = too_large"
| "is_response_too_large e = False"

record electrum_headers =
  eh_count :: u64
  eh_hex :: bytes

record sync_env =
  se_ticker :: string
  se_H :: "bytes \<Rightarrow> bytes"
  se_header_size :: nat
  se_client_alive :: "nat \<Rightarrow> bool"
  se_last_height_error :: "nat \<Rightarrow> storage_error option"
  se_read_error :: "nat \<Rightarrow> u64 \<Rightarrow> storage_error option"
  se_write_error :: "nat \<Rightarrow> storage_error option"
  se_block_count :: "nat \<Rightarrow> string \<Rightarrow> utxo_rpc_error + u64"
  se_block_header :: "nat \<Rightarrow> u64 \<Rightarrow> string + bytes"
  se_block_headers :: "nat \<Rightarrow> string \<Rightarrow> u64 \<Rightarrow> u64 \<Rightarrow> utxo_rpc_error + electrum_headers"
  se_random :: "nat \<Rightarrow> nat"

definition storage_of :: "sync_env \<Rightarrow> nat \<Rightarrow> header_row list \<Rightarrow> header_storage" where
  "storage_of env tick table =
     \<lparr>hs_get_block_header = (\<lambda>height. table_get_block_header (se_ticker env) (se_read_error env tick height) height table),
      hs_get_last_with_non_max_bits =
        (\<lambda>max_bits. table_get_last_with_non_max_bits (se_ticker env) (se_read_error env tick 0) max_bits table)\<rparr>"

text \<open>The headers of an answer with their heights.\<close>

fun number_headers :: "u64 \<Rightarrow> block_header list \<Rightarrow> (u64 \<times> block_header) list" where
  "number_headers height [] = []"
| "number_headers height (h # hs) = (height, h) # number_headers (height + 1) hs"

datatype retrieved =
    Retrieved_Headers "(u64 \<times> block_header) list" "block_header list"
  | Retrieve_Error utxo_rpc_error
  | Retrieve_Panics

definition retrieve_headers_from :: "sync_env \<Rightarrow> nat \<Rightarrow> string \<Rightarrow> u64 \<Rightarrow> u64 \<Rightarrow> retrieved" where
  "retrieve_headers_from env tick server_address from_height to_height =
     (if from_height = 0 \<or> to_height < from_height
      then Retrieve_Error (RpcInternal ''Invalid values for from/to parameters'')
      else if to_height - from_height + 1 = 0
      then Retrieve_Error (RpcInternal ''out of range integral type conversion attempted'')
      else case se_block_headers env tick server_address from_height (to_height - from_height + 1) of
        Inl e \<Rightarrow> Retrieve_Error e
      | Inr answer \<Rightarrow>
          if eh_count answer = 0 then Retrieve_Error (RpcInternal ''No headers available'')
          else case read_list (se_header_size env) (de_block_header (coin_variant_from (se_ticker env)))
                 (ser_compact (eh_count answer) @ eh_hex answer) of
            Fail e \<Rightarrow> Retrieve_Error (InvalidResponse (show_ser_error e))
          | Panics \<Rightarrow> Retrieve_Panics
          | Done headers rest \<Rightarrow> Retrieved_Headers (number_headers from_height headers) headers)"

definition get_servers_with_latest_block_count ::
  "sync_env \<Rightarrow> nat \<Rightarrow> string list \<Rightarrow> utxo_rpc_error + (string list \<times> u64)" where
  "get_servers_with_latest_block_count env tick connections =
     (let answers = List.map_filter (\<lambda>addr. case se_block_count env tick addr of
                                          Inl e \<Rightarrow> None | Inr count \<Rightarrow> Some (addr, count)) connections in
      if answers = [] then Inl (RpcInternal (''Couldn't get block count from any server for '' @ se_ticker env))
      else let max_count = Max (set (map snd answers)) in
           Inr (map fst (filter (\<lambda>(addr, count). count = max_count) answers), max_count))"

section \<open>The state of the loop\<close>

text \<open>What is sent as the text of an error is the error itself here.\<close>

datatype retrieval_error = NetworkError string string | RetrievalPermanentError utxo_rpc_error string

datatype possible_chain_reorg_error =
    BadStartingHeaderChain
  | ReorgValidationError spv_error
  | HeadersRetrievalError retrieval_error

datatype starting_header_validation_error =
    StartingDecodeErr string ser_error
  | StartingRpcError string
  | StartingStorageError storage_error
  | StartingValidationError string starting_header_error

datatype header_sync_error =
    Text string
  | Storage_Failed storage_error
  | Rpc_Failed utxo_rpc_error
  | Starting_Failed starting_header_validation_error
  | Retrieval_Failed retrieval_error
  | Reorganisation_Failed possible_chain_reorg_error

datatype utxo_sync_status =
    SyncingBlockHeaders u64 u64
  | TemporaryError header_sync_error
  | PermanentError header_sync_error
  | SyncFinished u64

record sync_state =
  sy_tick :: nat
  sy_table :: "header_row list"
  sy_connections :: "string list"
  sy_chunk_size :: u64
  sy_electrum_addresses :: "string list"
  sy_block_count :: u64
  sy_notified :: "utxo_sync_status list"

definition notify :: "utxo_sync_status \<Rightarrow> sync_state \<Rightarrow> sync_state" where
  "notify status st = st\<lparr>sy_notified := sy_notified st @ [status]\<rparr>"

definition next_tick :: "sync_state \<Rightarrow> sync_state" where
  "next_tick st = st\<lparr>sy_tick := Suc (sy_tick st)\<rparr>"

definition CHUNK_SIZE_REDUCER_VALUE :: u64 where "CHUNK_SIZE_REDUCER_VALUE = 100"
definition TRY_TO_RETRIEVE_HEADERS_ATTEMPTS :: nat where "TRY_TO_RETRIEVE_HEADERS_ATTEMPTS = 10"
definition DEFAULT_CHUNK_SIZE :: u64 where "DEFAULT_CHUNK_SIZE = 2016"

text \<open>The results of \<open>try_to_retrieve_headers_until_success\<close>.\<close>

datatype retrieval =
    Headers_Retrieved "(u64 \<times> block_header) list" "block_header list"
  | Headers_Failed retrieval_error
  | Retrieval_Panics

function try_to_retrieve_headers :: "sync_env \<Rightarrow> string \<Rightarrow> u64 \<Rightarrow> u64 \<Rightarrow> nat \<Rightarrow> sync_state \<Rightarrow> sync_state \<times> retrieval" where
  "try_to_retrieve_headers env server_address retrieve_from retrieve_to attempts st =
     (case retrieve_headers_from env (sy_tick st) server_address retrieve_from retrieve_to of
        Retrieved_Headers registry headers \<Rightarrow> (next_tick st, Headers_Retrieved registry headers)
      | Retrieve_Panics \<Rightarrow> (next_tick st, Retrieval_Panics)
      | Retrieve_Error e \<Rightarrow>
          if is_network_error e
          then if attempts = 0
               then (next_tick st, Headers_Failed (NetworkError
                       ''Max attempts of 10 reached, will try to retrieve headers from a random server again!'' server_address))
               else try_to_retrieve_headers env server_address retrieve_from retrieve_to (attempts - 1) (next_tick st)
          else if is_response_too_large e \<and> CHUNK_SIZE_REDUCER_VALUE < sy_chunk_size st
          then try_to_retrieve_headers env server_address retrieve_from retrieve_to attempts
                 (next_tick st\<lparr>sy_chunk_size := sy_chunk_size st - CHUNK_SIZE_REDUCER_VALUE\<rparr>)
          else (next_tick st, Headers_Failed (RetrievalPermanentError e server_address)))"
  by pat_completeness auto
termination
proof (relation "measure (\<lambda>(env, server, a, b, attempts, st). attempts + unat (sy_chunk_size st))")
  show "((env, server_address, retrieve_from, retrieve_to, attempts,
      next_tick st\<lparr>sy_chunk_size := sy_chunk_size st - CHUNK_SIZE_REDUCER_VALUE\<rparr>),
     (env, server_address, retrieve_from, retrieve_to, attempts, st))
    \<in> measure (\<lambda>(env, server, a, b, attempts, st). attempts + unat (sy_chunk_size st))"
    if "is_response_too_large e \<and> CHUNK_SIZE_REDUCER_VALUE < sy_chunk_size st"
    for env server_address retrieve_from retrieve_to attempts st e
    using that by (simp add: CHUNK_SIZE_REDUCER_VALUE_def word_less_nat_alt unat_sub_if')
qed (simp_all add: next_tick_def)

declare try_to_retrieve_headers.simps [simp del]

definition try_to_retrieve_headers_until_success ::
  "sync_env \<Rightarrow> string \<Rightarrow> u64 \<Rightarrow> u64 \<Rightarrow> sync_state \<Rightarrow> sync_state \<times> retrieval" where
  "try_to_retrieve_headers_until_success env server_address retrieve_from retrieve_to st =
     try_to_retrieve_headers env server_address retrieve_from retrieve_to TRY_TO_RETRIEVE_HEADERS_ATTEMPTS st"

section \<open>Reorganisations of the chain\<close>

fun reorg_is_network_error :: "possible_chain_reorg_error \<Rightarrow> bool" where
  "reorg_is_network_error (HeadersRetrievalError (NetworkError e addr)) = True"
| "reorg_is_network_error e = False"

datatype reorg_result = Reorg_Resolved | Reorg_Failed possible_chain_reorg_error | Reorg_Panics

definition saturating_sub :: "u64 \<Rightarrow> u64 \<Rightarrow> u64" where
  "saturating_sub a b = (if a < b then 0 else a - b)"

text \<open>The height in a \<open>ParentHashMismatch\<close>; every other error is \<open>None\<close>.\<close>

fun mismatched_height :: "spv_error \<Rightarrow> u64 option" where
  "mismatched_height (ParentHashMismatch coin mismatched_block_height) = Some mismatched_block_height"
| "mismatched_height e = None"

text \<open>One turn of the loop of \<open>resolve_possible_chain_reorg\<close>: it returns, or goes on with another range of heights.\<close>

datatype reorg_step = Reorg_Returns sync_state reorg_result | Reorg_Again u64 u64 sync_state

definition resolve_reorg_step ::
  "sync_env \<Rightarrow> spv_conf \<Rightarrow> string \<Rightarrow> u64 \<Rightarrow> u64 \<Rightarrow> u64 \<Rightarrow> sync_state \<Rightarrow> reorg_step" where
  "resolve_reorg_step env conf server_address last_height_in_storage retrieve_from retrieve_to st =
     (case try_to_retrieve_headers_until_success env server_address retrieve_from retrieve_to st of
        (st', Headers_Failed e) \<Rightarrow> Reorg_Returns st' (Reorg_Failed (HeadersRetrievalError e))
      | (st', Retrieval_Panics) \<Rightarrow> Reorg_Returns st' Reorg_Panics
      | (st', Headers_Retrieved registry headers) \<Rightarrow>
          (case validate_headers (se_H env) (se_ticker env) (retrieve_from - 1) headers
                  (storage_of env (sy_tick st') (sy_table st')) conf of
             None \<Rightarrow> Reorg_Returns st' Reorg_Panics
           | Some (Inr _) \<Rightarrow>
               (case remove_headers_from_storage (se_write_error env (sy_tick st')) retrieve_from last_height_in_storage (sy_table st') of
                  (Inl e, _) \<Rightarrow> Reorg_Again retrieve_from retrieve_to (next_tick st')
                | (Inr _, table) \<Rightarrow> Reorg_Returns (next_tick st'\<lparr>sy_table := table\<rparr>) Reorg_Resolved)
           | Some (Inl e) \<Rightarrow>
               (case mismatched_height e of
                  None \<Rightarrow> Reorg_Returns st' (Reorg_Failed (ReorgValidationError e))
                | Some mismatched_block_height \<Rightarrow>
                    let retrieve_to = mismatched_block_height - 1;
                        starting_height = sh_height (cf_starting_block_header conf) in
                    if retrieve_to = starting_height then Reorg_Returns st' (Reorg_Failed BadStartingHeaderChain)
                    else Reorg_Again (max (saturating_sub retrieve_to (sy_chunk_size st')) (starting_height + 1)) retrieve_to
                           (next_tick st'))))"

partial_function (option) resolve_reorg_loop ::
  "sync_env \<Rightarrow> spv_conf \<Rightarrow> string \<Rightarrow> u64 \<Rightarrow> u64 \<Rightarrow> u64 \<Rightarrow> sync_state \<Rightarrow> (sync_state \<times> reorg_result) option" where
  "resolve_reorg_loop env conf server_address last_height_in_storage retrieve_from retrieve_to st =
     (case resolve_reorg_step env conf server_address last_height_in_storage retrieve_from retrieve_to st of
        Reorg_Returns st' result \<Rightarrow> Some (st', result)
      | Reorg_Again retrieve_from retrieve_to st' \<Rightarrow>
          resolve_reorg_loop env conf server_address last_height_in_storage retrieve_from retrieve_to st')"

declare resolve_reorg_loop.simps [code]

definition resolve_possible_chain_reorg ::
  "sync_env \<Rightarrow> spv_conf \<Rightarrow> string \<Rightarrow> u64 \<Rightarrow> u64 \<Rightarrow> sync_state \<Rightarrow> (sync_state \<times> reorg_result) option" where
  "resolve_possible_chain_reorg env conf server_address last_height_in_storage mismatched_block_height st =
     resolve_reorg_loop env conf server_address last_height_in_storage mismatched_block_height
       (mismatched_block_height + sy_chunk_size st) st"

section \<open>A turn of the loop\<close>

definition validate_and_store_starting_header ::
  "sync_env \<Rightarrow> spv_conf \<Rightarrow> sync_state \<Rightarrow> sync_state \<times> ((starting_header_validation_error + unit) option)" where
  "validate_and_store_starting_header env conf st =
     (let height = sh_height (cf_starting_block_header conf); ticker = se_ticker env in
      case se_block_header env (sy_tick st) height of
        Inl e \<Rightarrow> (next_tick st, Some (Inl (StartingRpcError e)))
      | Inr header_bytes \<Rightarrow>
          (case de_block_header (coin_variant_from ticker) header_bytes of
             Fail e \<Rightarrow> (next_tick st, Some (Inl (StartingDecodeErr ticker e)))
           | Panics \<Rightarrow> (next_tick st, None)
           | Done h rest \<Rightarrow>
               (case validate_rpc_starting_header (se_H env) conf height h of
                  Inl e \<Rightarrow> (next_tick st, Some (Inl (StartingValidationError ticker e)))
                | Inr _ \<Rightarrow>
                    (case add_block_headers_to_storage (se_H env) (se_write_error env (sy_tick st)) [(height, h)] (sy_table st) of
                       (Inl e, _) \<Rightarrow> (next_tick st, Some (Inl (StartingStorageError e)))
                     | (Inr _, table) \<Rightarrow> (next_tick st\<lparr>sy_table := table\<rparr>, Some (Inr ()))))))"

datatype turn_result = Goes_On sync_state | Stops sync_state | Turn_Panics

definition remove_server :: "string \<Rightarrow> string list \<Rightarrow> string list option" where
  "remove_server server_addr connections = (if server_addr \<in> set connections then Some (remove1 server_addr connections) else None)"

text \<open>The macro \<open>remove_server_and_break_if_no_servers_left\<close> with the \<open>continue\<close> that follows it.\<close>

definition remove_server_and_go_on :: "sync_env \<Rightarrow> string \<Rightarrow> sync_state \<Rightarrow> turn_result" where
  "remove_server_and_go_on env server_address st =
     (case remove_server server_address (sy_connections st) of
        None \<Rightarrow> Stops (notify (PermanentError (Text (''Error on removing server '' @ server_address))) st)
      | Some connections \<Rightarrow>
          if connections = []
          then Stops (notify (PermanentError (Text (''All servers are removed for '' @ se_ticker env))) (st\<lparr>sy_connections := []\<rparr>))
          else Goes_On (st\<lparr>sy_connections := connections\<rparr>))"

text \<open>From the headers of a server on: they are validated and stored, or a reorganisation is resolved.\<close>

definition store_retrieved_headers ::
  "sync_env \<Rightarrow> spv_conf \<Rightarrow> string \<Rightarrow> u64 \<Rightarrow> (u64 \<times> block_header) list \<Rightarrow> block_header list \<Rightarrow> sync_state \<Rightarrow> turn_result option" where
  "store_retrieved_headers env conf server_address last_height_in_storage block_registry block_headers st =
     (case validate_headers (se_H env) (se_ticker env) last_height_in_storage block_headers
             (storage_of env (sy_tick st) (sy_table st)) conf of
        None \<Rightarrow> Some Turn_Panics
      | Some (Inr _) \<Rightarrow>
          Some (Goes_On (next_tick st\<lparr>sy_table :=
            snd (add_block_headers_to_storage (se_H env) (se_write_error env (sy_tick st)) block_registry (sy_table st))\<rparr>))
      | Some (Inl e) \<Rightarrow>
          (case mismatched_height e of
             None \<Rightarrow> Some (remove_server_and_go_on env server_address (next_tick st))
           | Some mismatched_block_height \<Rightarrow>
               map_option (\<lambda>(st', result).
                 case result of
                   Reorg_Resolved \<Rightarrow> Goes_On st'
                 | Reorg_Panics \<Rightarrow> Turn_Panics
                 | Reorg_Failed e \<Rightarrow>
                     if reorg_is_network_error e then Goes_On (notify (TemporaryError (Reorganisation_Failed e)) st')
                     else remove_server_and_go_on env server_address st')
               (resolve_possible_chain_reorg env conf server_address last_height_in_storage mismatched_block_height (next_tick st))))"

definition retrieve_and_store ::
  "sync_env \<Rightarrow> spv_conf \<Rightarrow> u64 \<Rightarrow> u64 \<Rightarrow> sync_state \<Rightarrow> turn_result option" where
  "retrieve_and_store env conf last_height_in_storage retrieve_to st =
     (let st1 = (case cf_max_stored_block_headers conf of
                   None \<Rightarrow> st
                 | Some max_stored_block_headers \<Rightarrow>
                     (case remove_excessive_headers_from_storage (se_write_error env (sy_tick st)) retrieve_to
                             max_stored_block_headers (sy_table st) of
                        (Inl e, _) \<Rightarrow> next_tick (notify (TemporaryError (Storage_Failed e)) st)
                      | (Inr _, table) \<Rightarrow> next_tick st\<lparr>sy_table := table\<rparr>));
          st2 = notify (SyncingBlockHeaders (last_height_in_storage + 1) retrieve_to) st1 in
      if sy_electrum_addresses st2 = [] then Some Turn_Panics
      else
        let server_address = sy_electrum_addresses st2 ! (se_random env (sy_tick st2) mod length (sy_electrum_addresses st2)) in
        case try_to_retrieve_headers_until_success env server_address (last_height_in_storage + 1) retrieve_to st2 of
          (st3, Headers_Retrieved block_registry block_headers) \<Rightarrow>
            store_retrieved_headers env conf server_address last_height_in_storage block_registry block_headers st3
        | (st3, Headers_Failed (NetworkError e addr)) \<Rightarrow>
            Some (Goes_On (notify (TemporaryError (Retrieval_Failed (NetworkError e addr))) st3))
        | (st3, Headers_Failed (RetrievalPermanentError e addr)) \<Rightarrow> Some (remove_server_and_go_on env server_address st3)
        | (st3, Retrieval_Panics) \<Rightarrow> Some Turn_Panics)"

definition sync_from_height :: "sync_env \<Rightarrow> spv_conf \<Rightarrow> u64 \<Rightarrow> sync_state \<Rightarrow> turn_result option" where
  "sync_from_height env conf last_height_in_storage st =
     (let retrieve_to = last_height_in_storage + sy_chunk_size st;
          answer = (if sy_block_count st < retrieve_to
                    then get_servers_with_latest_block_count env (sy_tick st) (sy_connections st)
                    else Inr (sy_electrum_addresses st, sy_block_count st)) in
      case answer of
        Inl e \<Rightarrow> Some (Goes_On (notify (TemporaryError (Rpc_Failed e)) (next_tick st)))
      | Inr (electrum_addresses, block_count) \<Rightarrow>
          let st' = next_tick st\<lparr>sy_electrum_addresses := electrum_addresses, sy_block_count := block_count\<rparr>;
              retrieve_to = (if block_count < retrieve_to then block_count else retrieve_to) in
          if last_height_in_storage = block_count then Some (Goes_On (notify (SyncFinished block_count) st'))
          else retrieve_and_store env conf last_height_in_storage retrieve_to st')"

definition header_sync_turn :: "sync_env \<Rightarrow> spv_conf \<Rightarrow> sync_state \<Rightarrow> turn_result option" where
  "header_sync_turn env conf st =
     (if \<not> se_client_alive env (sy_tick st) then Some (Stops st)
      else case get_last_block_height (se_ticker env) (se_last_height_error env (sy_tick st)) (sy_table st) of
        Inl e \<Rightarrow> Some (Goes_On (notify (TemporaryError (Storage_Failed e)) (next_tick st)))
      | Inr (Some height) \<Rightarrow> sync_from_height env conf height st
      | Inr None \<Rightarrow>
          (case validate_and_store_starting_header env conf st of
             (st', None) \<Rightarrow> Some Turn_Panics
           | (st', Some (Inl e)) \<Rightarrow> Some (Stops (notify (PermanentError (Starting_Failed e)) st'))
           | (st', Some (Inr _)) \<Rightarrow> sync_from_height env conf (sh_height (cf_starting_block_header conf)) st'))"

text \<open>The start of the loop: the client is alive and some server answers.\<close>

definition header_sync_start :: "sync_env \<Rightarrow> header_row list \<Rightarrow> string list \<Rightarrow> sync_state + header_sync_error" where
  "header_sync_start env table connections =
     (if \<not> se_client_alive env 0 then Inr (Text ''Electrum client dropped!'')
      else case get_servers_with_latest_block_count env 0 connections of
        Inl e \<Rightarrow> Inr (Rpc_Failed e)
      | Inr (electrum_addresses, block_count) \<Rightarrow>
          Inl \<lparr>sy_tick = 1, sy_table = table, sy_connections = connections, sy_chunk_size = DEFAULT_CHUNK_SIZE,
               sy_electrum_addresses = electrum_addresses, sy_block_count = block_count, sy_notified = []\<rparr>)"

section \<open>Confirmed transactions\<close>

fun show_storage_error :: "storage_error \<Rightarrow> string" where
  "show_storage_error (AddToStorageError coin reason) = ''Can't add to the storage for '' @ coin @ '' - reason: '' @ reason"
| "show_storage_error (GetFromStorageError coin reason) = ''Can't get from the storage for '' @ coin @ '' - reason: '' @ reason"
| "show_storage_error (CantRetrieveTableError coin reason) =
     ''Can't retrieve the table from the storage for '' @ coin @ '' - reason: '' @ reason"
| "show_storage_error (UnableToDeleteHeaders from_height to_height coin reason) =
     ''Unable to delete block headers from_height: '' @ show_u64 from_height @ '' to_height: '' @ show_u64 to_height @
     '' from storage for '' @ coin @ '' - reason: '' @ reason"
| "show_storage_error (QueryError query reason) = ''Can't query from the storage - query: '' @ query @ '' - reason: '' @ reason"
| "show_storage_error (InitializationError coin reason) = ''Can't init from the storage - coin: '' @ coin @ '' - reason: '' @ reason"
| "show_storage_error (DecodeError coin reason) =
     ''Can't decode/deserialize from storage for '' @ coin @ '' - reason: '' @ reason"
| "show_storage_error (StorageInternal s) = s"

record electrum_tx_env =
  et_blockhash :: "bytes \<Rightarrow> string + bytes"
  et_get_merkle :: "bytes \<Rightarrow> u64 \<Rightarrow> string + tx_merkle_branch"

text \<open>\<open>get_tx_height_from_storage\<close> and \<open>get_merkle_and_validated_header\<close>; errors become those of the proof.\<close>

definition get_tx_height_from_storage ::
  "sync_env \<Rightarrow> nat \<Rightarrow> electrum_tx_env \<Rightarrow> header_row list \<Rightarrow> bytes \<Rightarrow> spv_error + u64" where
  "get_tx_height_from_storage env tick net table txid =
     (case et_blockhash net (rev txid) of
        Inl e \<Rightarrow> Inl (InvalidHeight e)
      | Inr blockhash \<Rightarrow>
          (case get_block_height_by_hash (se_read_error env tick 0) blockhash table of
             Inl e \<Rightarrow> Inl (HeaderStorageError e)
           | Inr None \<Rightarrow> Inl (InvalidHeight (''Transaction block header is not found in storage for '' @ se_ticker env))
           | Inr (Some height) \<Rightarrow>
               if height < 0 then Inl (SpvInternal ''out of range integral type conversion attempted'')
               else Inr (word_of_int height)))"

definition get_merkle_and_validated_header ::
  "sync_env \<Rightarrow> nat \<Rightarrow> electrum_tx_env \<Rightarrow> header_row list \<Rightarrow> bytes \<Rightarrow>
   (spv_error + (tx_merkle_branch \<times> block_header \<times> u64)) option" where
  "get_merkle_and_validated_header env tick net table txid =
     (case get_tx_height_from_storage env tick net table txid of
        Inl e \<Rightarrow> Some (Inl e)
      | Inr height \<Rightarrow>
          (case et_get_merkle net (rev txid) height of
             Inl e \<Rightarrow> Some (Inl (UnableToGetMerkle (se_ticker env) e))
           | Inr merkle_branch \<Rightarrow>
               (case table_get_block_header (se_ticker env) (se_read_error env tick height) height table of
                  None \<Rightarrow> None
                | Some (Inl e) \<Rightarrow> Some (Inl (UnableToGetHeader (''Block header storage error: '' @ show_storage_error e)))
                | Some (Inr None) \<Rightarrow> Some (Inl (UnableToGetHeader (''Internal error: Header not found in storage for '' @ se_ticker env)))
                | Some (Inr (Some header)) \<Rightarrow> Some (Inr (merkle_branch, header, height)))))"

end
