(* ===== verification/BtcTxProps.thy ===== *)
theory BtcTxProps
  imports BtcTransaction
begin

text \<open>
  Round trips of transactions: every transaction that is well formed for a format is read back from its
  bytes. The parts are instances of \<open>codec\<close>; the properties at the end are about whole transactions, and
  about bytes that no transaction was written to.
\<close>

section \<open>The parts\<close>

definition out_point_ok :: "out_point \<Rightarrow> bool" where
  "out_point_ok p \<longleftrightarrow> length (op_hash p) = 32"

definition input_ok :: "transaction_input \<Rightarrow> bool" where
  "input_ok i \<longleftrightarrow> out_point_ok (ti_previous_output i) \<and> length (ti_script_sig i) \<le> 65536 \<and> ti_script_witness i = []"

definition output_ok :: "transaction_output \<Rightarrow> bool" where
  "output_ok x \<longleftrightarrow> length (xo_script_pubkey x) \<le> 65536"

definition shielded_spend_ok :: "shielded_spend \<Rightarrow> bool" where
  "shielded_spend_ok s \<longleftrightarrow> length (ss_cv s) = 32 \<and> length (ss_anchor s) = 32 \<and> length (ss_nullifier s) = 32 \<and>
     length (ss_rk s) = 32 \<and> length (ss_zkproof s) = 192 \<and> length (ss_spend_auth_sig s) = 64"

definition shielded_output_ok :: "shielded_output \<Rightarrow> bool" where
  "shielded_output_ok s \<longleftrightarrow> length (so_cv s) = 32 \<and> length (so_cmu s) = 32 \<and> length (so_ephemeral_key s) = 32 \<and>
     length (so_enc_cipher_text s) = 580 \<and> length (so_out_cipher_text s) = 80 \<and> length (so_zkproof s) = 192"

fun proof_ok :: "bool \<Rightarrow> join_split_proof \<Rightarrow> bool" where
  "proof_ok use_groth (PHGR p) \<longleftrightarrow> \<not> use_groth \<and> length p = 296"
| "proof_ok use_groth (Groth p) \<longleftrightarrow> use_groth \<and> length p = 192"

definition pair_ok :: "nat \<Rightarrow> bytes \<times> bytes \<Rightarrow> bool" where
  "pair_ok n p \<longleftrightarrow> length (fst p) = n \<and> length (snd p) = n"

definition join_split_ok :: "bool \<Rightarrow> join_split \<Rightarrow> bool" where
  "join_split_ok use_groth j \<longleftrightarrow> length (js_v_pub_old j) = 8 \<and> length (js_v_pub_new j) = 8 \<and>
     length (js_anchor j) = 32 \<and> pair_ok 32 (js_nullifiers j) \<and> pair_ok 32 (js_commitments j) \<and>
     length (js_ephemeral_key j) = 32 \<and> length (js_random_seed j) = 32 \<and> pair_ok 32 (js_macs j) \<and>
     proof_ok use_groth (js_zkproof j) \<and> pair_ok 601 (js_ciphertexts j)"

interpretation out_point_codec: codec ser_out_point de_out_point out_point_ok
  by unfold_locales (simp add: ser_out_point_def de_out_point_def out_point_ok_def)

interpretation input_codec: codec ser_input de_input input_ok
  by unfold_locales (simp add: ser_input_def de_input_def input_ok_def out_point_codec.roundtrip)

interpretation output_codec: codec ser_output de_output output_ok
  by unfold_locales (simp add: ser_output_def de_output_def output_ok_def)

interpretation shielded_spend_codec: codec ser_shielded_spend de_shielded_spend shielded_spend_ok
  by unfold_locales (simp add: ser_shielded_spend_def de_shielded_spend_def shielded_spend_ok_def)

interpretation shielded_output_codec: codec ser_shielded_output de_shielded_output shielded_output_ok
  by unfold_locales (simp add: ser_shielded_output_def de_shielded_output_def shielded_output_ok_def)

lemma de_join_split_proof:
  "proof_ok use_groth p \<Longrightarrow>
   (if use_groth then dbind (de_hash 192) (\<lambda>p. dret (Groth p)) else dbind (de_hash 296) (\<lambda>p. dret (PHGR p)))
     (ser_join_split_proof p @ rest) = Done p rest"
  by (cases p) auto

interpretation join_split_codec: codec ser_join_split "deserialize_join_split use_groth" "join_split_ok use_groth" for use_groth
  by unfold_locales
    (simp add: ser_join_split_def deserialize_join_split_def join_split_ok_def pair_ok_def de_join_split_proof)

section \<open>Well-formed transactions\<close>

text \<open>A transaction as a reader of the format \<open>tt\<close> can give it.\<close>

definition witness_ok :: "transaction_input \<Rightarrow> bool" where
  "witness_ok i \<longleftrightarrow> length (ti_script_witness i) \<le> MAX_LIST_SIZE \<and>
     list_all (\<lambda>w. length w \<le> 65536) (ti_script_witness i)"

definition strip_witness :: "transaction_input \<Rightarrow> transaction_input" where
  "strip_witness i = i\<lparr>ti_script_witness := []\<rparr>"

definition tx_lists_ok :: "btc_transaction \<Rightarrow> bool" where
  "tx_lists_ok tx \<longleftrightarrow>
     length (tx_inputs tx) \<le> MAX_LIST_SIZE \<and> list_all (\<lambda>i. input_ok (strip_witness i)) (tx_inputs tx) \<and>
     length (tx_outputs tx) \<le> MAX_LIST_SIZE \<and> list_all output_ok (tx_outputs tx)"

definition tx_time_ok :: "tx_type \<Rightarrow> btc_transaction \<Rightarrow> bool" where
  "tx_time_ok tt tx \<longleftrightarrow> (tx_n_time tx \<noteq> None \<longleftrightarrow> tt = PosWithNTime \<or> tt = PosvWithNTime) \<and>
     tx_posv tx = (tt = PosvWithNTime)"

definition tx_shielded_ok :: "btc_transaction \<Rightarrow> bool" where
  "tx_shielded_ok tx \<longleftrightarrow>
     (\<not> (tx_overwintered tx \<and> 3 \<le> sint (tx_version tx)) \<longrightarrow> tx_expiry_height tx = 0) \<and>
     (\<not> (tx_overwintered tx \<and> 4 \<le> sint (tx_version tx)) \<longrightarrow>
        tx_value_balance tx = 0 \<and> tx_shielded_spends tx = [] \<and> tx_shielded_outputs tx = []) \<and>
     length (tx_shielded_spends tx) \<le> MAX_LIST_SIZE \<and> list_all shielded_spend_ok (tx_shielded_spends tx) \<and>
     length (tx_shielded_outputs tx) \<le> MAX_LIST_SIZE \<and> list_all shielded_output_ok (tx_shielded_outputs tx)"

definition tx_zcash_ok :: "tx_type \<Rightarrow> btc_transaction \<Rightarrow> bool" where
  "tx_zcash_ok tt tx \<longleftrightarrow>
     tx_zcash tx = (tx_overwintered tx \<or> tt = Zcash) \<and>
     (\<not> (tx_zcash tx \<and> (sint (tx_version tx) = 2 \<or> tx_overwintered tx)) \<longrightarrow> tx_join_splits tx = []) \<and>
     length (tx_join_splits tx) \<le> MAX_LIST_SIZE \<and>
     list_all (join_split_ok (2 < sint (tx_version tx))) (tx_join_splits tx) \<and>
     length (tx_join_split_pubkey tx) = 32 \<and> length (tx_join_split_sig tx) = 64 \<and>
     (tx_join_splits tx = [] \<longrightarrow>
        tx_join_split_pubkey tx = zero_hash 32 \<and> tx_join_split_sig tx = zero_hash 64) \<and>
     length (tx_binding_sig tx) = 64 \<and>
     (\<not> (tx_overwintered tx \<and> 4 \<le> sint (tx_version tx) \<and>
         \<not> (tx_shielded_spends tx = [] \<and> tx_shielded_outputs tx = [])) \<longrightarrow>
        tx_binding_sig tx = zero_hash 64)"

definition tx_ok :: "tx_type \<Rightarrow> btc_transaction \<Rightarrow> bool" where
  "tx_ok tt tx \<longleftrightarrow>
     \<not> bit (tx_version tx) 31 \<and> (tx_overwintered tx \<or> tx_version_group_id tx = 0) \<and>
     tx_lists_ok tx \<and> tx_time_ok tt tx \<and> tx_shielded_ok tx \<and> tx_zcash_ok tt tx \<and>
     (uses_witness tt \<longrightarrow> tx_outputs tx \<noteq> [] \<and> (tx_overwintered tx \<or> tx_inputs tx \<noteq> [])) \<and>
     (tx_has_witness tx \<longrightarrow> tt = StandardWithWitness \<and> \<not> tx_overwintered tx \<and> list_all witness_ok (tx_inputs tx)) \<and>
     (case tx_str_d_zeel tx of
        Some s \<Rightarrow> tt = PosWithNTime \<and> utf8_valid s \<and> length s < 2 ^ 63
      | None \<Rightarrow> True) \<and>
     tx_hash_algo tx = DSHA256"

section \<open>Reading back\<close>

lemma MAX_LIST_SIZE_less [simp]: "MAX_LIST_SIZE < 18446744073709551616"
  by (simp add: MAX_LIST_SIZE_def)

lemma de_if_ser_if:
  "(c \<Longrightarrow> d (bs @ rest) = Done v rest) \<Longrightarrow> (\<not> c \<Longrightarrow> v = x) \<Longrightarrow> de_if c d x (ser_if c bs @ rest) = Done v rest"
  by (simp add: de_if_def ser_if_def)

lemma de_if_simps [simp]: "de_if True d x = d" "de_if False d x = dret x"
  by (simp_all add: de_if_def)

lemma ser_if_simps [simp]: "ser_if True bs = bs" "ser_if False bs = []"
  by (simp_all add: ser_if_def)

lemma de_some_Done [simp]: "d bs = Done x rest \<Longrightarrow> de_some d bs = Done (Some x) rest"
  by (simp add: de_some_def)

lemma ser_list_inputs: "ser_list ser_input (map strip_witness xs) = ser_list ser_input xs"
proof -
  have "ser_input (strip_witness i) = ser_input i" for i by (simp add: strip_witness_def ser_input_def)
  then show ?thesis by (simp add: ser_list_def comp_def)
qed

lemma de_tx_inputs_ser:
  assumes "tx_lists_ok tx" "tx_overwintered tx \<or> \<not> uses_witness tt \<or> tx_inputs tx \<noteq> []"
  shows "de_tx_inputs tt (tx_overwintered tx) (ser_list ser_input (tx_inputs tx) @ rest)
           = Done (map strip_witness (tx_inputs tx), False) rest"
  using input_codec.list_max_roundtrip [of "map strip_witness (tx_inputs tx)" MAX_LIST_SIZE rest] assms
  by (auto simp: de_tx_inputs_def tx_lists_ok_def ser_list_inputs list_all_iff)

lemma de_tx_inputs_witness:
  assumes "tx_lists_ok tx" "uses_witness tt"
  shows "de_tx_inputs tt False
           (ser_u8 WITNESS_MARKER @ ser_u8 WITNESS_FLAG @ ser_list ser_input (tx_inputs tx) @ rest)
           = Done (map strip_witness (tx_inputs tx), True) rest"
proof -
  have "read_list_max MAX_LIST_SIZE de_input (ser_u8 WITNESS_MARKER @ bs) = Done [] bs" for bs
    by (simp add: read_list_max_def de_compact_def WITNESS_MARKER_def)
  then show ?thesis
    using input_codec.list_max_roundtrip [of "map strip_witness (tx_inputs tx)" MAX_LIST_SIZE rest] assms
    by (auto simp: de_tx_inputs_def tx_lists_ok_def ser_list_inputs list_all_iff)
qed

lemma de_tx_outputs_ser:
  "tx_lists_ok tx \<Longrightarrow> read_list_max MAX_LIST_SIZE de_output (ser_list ser_output (tx_outputs tx) @ rest) = Done (tx_outputs tx) rest"
  by (simp add: output_codec.list_max_roundtrip tx_lists_ok_def)

lemma de_witnesses_ser:
  "list_all witness_ok is \<Longrightarrow>
   de_witnesses (map strip_witness is) (concat (map (\<lambda>i. ser_list ser_Bytes (ti_script_witness i)) is) @ rest) = Done is rest"
proof (induction "is")
  case (Cons i "is")
  then have "read_list_max MAX_LIST_SIZE de_Bytes (ser_list ser_Bytes (ti_script_witness i) @ bs) = Done (ti_script_witness i) bs" for bs
    by (simp add: Bytes_codec.list_max_roundtrip witness_ok_def)
  then show ?case using Cons by (simp add: strip_witness_def)
qed simp

lemma strip_witness_id: "\<not> tx_has_witness tx \<Longrightarrow> map strip_witness (tx_inputs tx) = tx_inputs tx"
  by (auto simp: tx_has_witness_def list_ex_iff input_has_witness_def strip_witness_def intro!: map_idI)

lemma de_tx_shielded_ser:
  "tx_shielded_ok tx \<Longrightarrow> de_tx_shielded (tx_overwintered tx) (tx_version tx) (ser_tx_shielded tx @ rest)
     = Done (tx_expiry_height tx, tx_value_balance tx, tx_shielded_spends tx, tx_shielded_outputs tx) rest"
  by (auto simp: de_tx_shielded_def tx_shielded_ok_def ser_tx_shielded_def ser_if_def
      shielded_spend_codec.list_max_roundtrip shielded_output_codec.list_max_roundtrip)

lemma de_tx_join_splits_ser:
  assumes "list_all (join_split_ok (2 < sint v)) js" "length js \<le> MAX_LIST_SIZE" "length pk = 32" "length sig = 64"
    and "js = [] \<longrightarrow> pk = zero_hash 32 \<and> sig = zero_hash 64"
  shows "de_tx_join_splits v (ser_list ser_join_split js @ ser_if (js \<noteq> []) (ser_hash pk @ ser_hash sig) @ rest)
           = Done (js, pk, sig) rest"
proof -
  have "unat (word_of_nat (length js) :: u64) = length js"
    using assms(2) by (intro unat_word_of_length) (simp add: MAX_LIST_SIZE_def)
  then show ?thesis
    using assms join_split_codec.times_roundtrip [OF assms(1)]
    by (auto simp: de_tx_join_splits_def ser_list_def word_less_nat_alt ser_if_def)
qed

lemma de_tx_zcash_ser:
  assumes "tx_zcash_ok tt tx"
  shows "de_tx_zcash (tx_zcash tx) (tx_overwintered tx) (tx_version tx) (tx_shielded_spends tx) (tx_shielded_outputs tx)
           (ser_tx_zcash tx @ rest)
           = Done (tx_join_splits tx, tx_join_split_pubkey tx, tx_join_split_sig tx, tx_binding_sig tx) rest"
proof (cases "tx_zcash tx")
  case False
  then show ?thesis using assms by (auto simp: de_tx_zcash_def ser_tx_zcash_def tx_zcash_ok_def)
next
  case True
  let ?j = "ser_list ser_join_split (tx_join_splits tx) @
      ser_if (tx_join_splits tx \<noteq> []) (ser_hash (tx_join_split_pubkey tx) @ ser_hash (tx_join_split_sig tx))"
  have "de_if (sint (tx_version tx) = 2 \<or> tx_overwintered tx) (de_tx_join_splits (tx_version tx))
      ([], zero_hash 32, zero_hash 64) (ser_if (sint (tx_version tx) = 2 \<or> tx_overwintered tx) ?j @ bs)
      = Done (tx_join_splits tx, tx_join_split_pubkey tx, tx_join_split_sig tx) bs" for bs
    using assms True de_tx_join_splits_ser [of "tx_version tx" "tx_join_splits tx"]
    by (intro de_if_ser_if) (auto simp: tx_zcash_ok_def)
  moreover have "de_if (tx_overwintered tx \<and> 4 \<le> sint (tx_version tx) \<and>
         \<not> (tx_shielded_spends tx = [] \<and> tx_shielded_outputs tx = [])) (de_hash 64) (zero_hash 64)
      (ser_if (4 \<le> sint (tx_version tx) \<and> tx_overwintered tx \<and>
         \<not> (tx_shielded_outputs tx = [] \<and> tx_shielded_spends tx = [])) (ser_hash (tx_binding_sig tx)) @ rest)
      = Done (tx_binding_sig tx) rest"
    using assms by (auto simp: tx_zcash_ok_def de_if_def ser_if_def)
  ultimately show ?thesis
    by (simp only: de_tx_zcash_def ser_tx_zcash_def True ser_if_simps if_True append_assoc dbind_simps case_prod_conv dret_apply)
qed

lemma de_tx_str_d_zeel_ser:
  assumes "case tx_str_d_zeel tx of Some s \<Rightarrow> tt = PosWithNTime \<and> utf8_valid s \<and> length s < 2 ^ 63
      | None \<Rightarrow> rest = [] \<or> tt \<noteq> PosWithNTime"
  shows "de_tx_str_d_zeel tt (ser_tx_str_d_zeel tx @ rest) = Done (tx_str_d_zeel tx) rest"
  using assms
  by (auto simp: de_tx_str_d_zeel_def ser_tx_str_d_zeel_def is_finished_def capacity_overflow_def unat_word_of_length
      split: option.split_asm)

lemma de_tx_time_ser:
  assumes "tx_time_ok tt tx"
  shows "de_if (tt = PosWithNTime) (de_some de_u32) None (ser_if (\<not> tx_posv tx) (ser_tx_n_time tx) @ rest)
      = Done (if tt = PosWithNTime then tx_n_time tx else None) rest"
    and "de_if (tt = PosvWithNTime) (de_some de_u32) (if tt = PosWithNTime then tx_n_time tx else None)
      (ser_if (tx_posv tx) (ser_tx_n_time tx) @ rest) = Done (tx_n_time tx) rest"
  using assms by (auto simp: tx_time_ok_def de_if_def ser_if_def ser_tx_n_time_def split: option.split)

text \<open>The header: the top bit tells an overwintered transaction.\<close>

lemma header_overwintered:
  "\<not> bit (v :: i32) 31 \<Longrightarrow> signed_drop_bit 31 (v OR push_bit 31 1) \<noteq> 0"
  "\<not> bit (v :: i32) 31 \<Longrightarrow> (v OR push_bit 31 1) AND 0x7FFFFFFF = v"
  "\<not> bit (v :: i32) 31 \<Longrightarrow> signed_drop_bit 31 v = 0"
proof -
  assume v: "\<not> bit v 31"
  have "bit (signed_drop_bit 31 (v OR push_bit 31 1)) 0"
    by (simp add: bit_signed_drop_bit_iff bit_or_iff bit_push_bit_iff)
  then show "signed_drop_bit 31 (v OR push_bit 31 1) \<noteq> 0" by auto
  have m: "0x7FFFFFFF = (mask 31 :: u32)" by (simp add: mask_eq_exp_minus_1)
  show "(v OR push_bit 31 1) AND 0x7FFFFFFF = v" unfolding m
  proof (rule bit_word_eqI)
    fix n assume "n < LENGTH(32)"
    then have "n < 31 \<or> n = 31" by auto
    moreover have "bit (push_bit 31 (1 :: u32)) n \<Longrightarrow> 31 \<le> n" by (simp only: bit_push_bit_iff)
    ultimately show "bit ((v OR push_bit 31 1) AND mask 31) n = bit v n"
      unfolding bit_and_iff bit_or_iff bit_mask_iff using v by auto
  qed
  show "signed_drop_bit 31 v = 0"
    using v by (intro bit_word_eqI) (auto simp: bit_signed_drop_bit_iff not_le)
qed


lemma deserialize_tx_header:
  assumes "\<not> bit v 31"
  shows "deserialize_tx tt (ser_u32 (if ow then v OR push_bit 31 1 else v) @ rest) = de_tx_body tt ow v rest"
  using header_overwintered [OF assms] by (simp add: deserialize_tx_def)

text \<open>Reading what was written without witnesses.\<close>

lemma plain_roundtrip:
  assumes ok: "tx_ok tt tx" and nw: "\<not> tx_has_witness tx"
    and fin: "tx_str_d_zeel tx = None \<longrightarrow> rest = [] \<or> tt \<noteq> PosWithNTime"
  shows "deserialize_tx tt (ser_transaction w tx @ rest) = Done tx rest"
proof -
  have v: "\<not> bit (tx_version tx) 31" and lists: "tx_lists_ok tx" and time: "tx_time_ok tt tx"
    and sh: "tx_shielded_ok tx" and z: "tx_zcash_ok tt tx" and algo: "tx_hash_algo tx = DSHA256"
    and group: "\<not> tx_overwintered tx \<longrightarrow> tx_version_group_id tx = 0"
    and uses: "uses_witness tt \<longrightarrow> tx_outputs tx \<noteq> [] \<and> (tx_overwintered tx \<or> tx_inputs tx \<noteq> [])"
    and zeel: "case tx_str_d_zeel tx of Some s \<Rightarrow> tt = PosWithNTime \<and> utf8_valid s \<and> length s < 2 ^ 63
                | None \<Rightarrow> rest = [] \<or> tt \<noteq> PosWithNTime"
    using ok fin by (auto simp: tx_ok_def split: option.split)
  have group': "de_if (tx_overwintered tx) de_u32 0 (ser_if (tx_overwintered tx) (ser_u32 (tx_version_group_id tx)) @ bs)
      = Done (tx_version_group_id tx) bs" for bs
    using group by (intro de_if_ser_if) auto
  have zc: "tx_overwintered tx \<or> tt = Zcash \<longleftrightarrow> tx_zcash tx" and posv: "(tt = PosvWithNTime) = tx_posv tx"
    using z time by (simp_all add: tx_zcash_ok_def tx_time_ok_def)
  have ins: "de_tx_inputs tt (tx_overwintered tx) (ser_list ser_input (tx_inputs tx) @ bs) = Done (tx_inputs tx, False) bs" for bs
    using de_tx_inputs_ser [OF lists, of tt bs] uses strip_witness_id [OF nw] by simp
  have outs: "(tx_outputs tx = [] \<and> uses_witness tt) = False" using uses by auto
  note steps = group' de_tx_time_ser [OF time] ins de_tx_outputs_ser [OF lists] de_tx_shielded_ser [OF sh]
    de_tx_zcash_ser [OF z] de_tx_str_d_zeel_ser [OF zeel] de_u32_ser
  have "de_tx_body tt (tx_overwintered tx) (tx_version tx)
      (ser_if (tx_overwintered tx) (ser_u32 (tx_version_group_id tx)) @
        ser_if (\<not> tx_posv tx) (ser_tx_n_time tx) @ ser_list ser_input (tx_inputs tx) @
        ser_list ser_output (tx_outputs tx) @ ser_u32 (tx_lock_time tx) @
        ser_if (tx_posv tx) (ser_tx_n_time tx) @ ser_tx_shielded tx @ ser_tx_zcash tx @ ser_tx_str_d_zeel tx @ rest)
      = Done tx rest"
    by (simp only: de_tx_body_def dbind_simps(1) steps case_prod_conv outs if_False de_if_simps zc dret_apply)
      (simp add: posv algo)
  then show ?thesis
    using nw by (simp add: ser_transaction_def deserialize_tx_header [OF v])
qed


text \<open>Reading what was written with witnesses.\<close>

lemma ser_transaction_witness:
  "tx_has_witness tx \<Longrightarrow> ser_transaction True tx =
     ser_u32 (if False then tx_version tx OR push_bit 31 1 else tx_version tx) @
     ser_u8 WITNESS_MARKER @ ser_u8 WITNESS_FLAG @ ser_list ser_input (tx_inputs tx) @ ser_list ser_output (tx_outputs tx) @
     concat (map (\<lambda>i. ser_list ser_Bytes (ti_script_witness i)) (tx_inputs tx)) @ ser_u32 (tx_lock_time tx)"
  by (simp add: ser_transaction_def)

text \<open>A transaction that is not overwintered has no Zcash parts.\<close>

lemma not_overwintered_fields:
  assumes "tx_ok StandardWithWitness tx" "\<not> tx_overwintered tx"
  shows "tx_version_group_id tx = 0" "tx_expiry_height tx = 0" "tx_value_balance tx = 0" "tx_shielded_spends tx = []"
    "tx_shielded_outputs tx = []" "tx_zcash tx = False" "tx_join_splits tx = []" "tx_join_split_pubkey tx = zero_hash 32"
    "tx_join_split_sig tx = zero_hash 64" "tx_binding_sig tx = zero_hash 64" "tx_str_d_zeel tx = None"
    "tx_n_time tx = None" "tx_posv tx = False" "tx_hash_algo tx = DSHA256"
  using assms by (auto simp: tx_ok_def tx_shielded_ok_def tx_zcash_ok_def tx_time_ok_def split: option.split_asm)

lemma witness_roundtrip:
  assumes ok: "tx_ok StandardWithWitness tx" and w: "tx_has_witness tx"
  shows "deserialize_tx StandardWithWitness (ser_transaction True tx @ rest) = Done tx rest"
proof -
  have v: "\<not> bit (tx_version tx) 31" and lists: "tx_lists_ok tx" and now: "\<not> tx_overwintered tx"
    and wit: "list_all witness_ok (tx_inputs tx)" and outs: "tx_outputs tx \<noteq> []"
    using ok w by (auto simp: tx_ok_def uses_witness_def)
  note f = not_overwintered_fields [OF ok now]
  have u: "uses_witness StandardWithWitness" by (simp add: uses_witness_def)
  have "de_tx_body StandardWithWitness False (tx_version tx)
     (ser_u8 WITNESS_MARKER @ ser_u8 WITNESS_FLAG @ ser_list ser_input (tx_inputs tx) @ ser_list ser_output (tx_outputs tx) @
      concat (map (\<lambda>i. ser_list ser_Bytes (ti_script_witness i)) (tx_inputs tx)) @ ser_u32 (tx_lock_time tx) @ rest) = Done tx rest"
    using outs now f
    by (simp add: de_tx_body_def de_tx_inputs_witness [OF lists u] de_tx_outputs_ser [OF lists] de_witnesses_ser [OF wit]
        de_tx_shielded_def de_tx_zcash_def de_tx_str_d_zeel_def)
  then show ?thesis
    by (simp only: ser_transaction_witness [OF w] append_assoc deserialize_tx_header [OF v])
qed

section \<open>Properties\<close>

text \<open>
  C25. Every transaction that is well formed for a format is read back from its bytes, followed by anything:
  with its witnesses if it has some, with the shielded parts and join splits of Zcash, with the time stamp
  of proof-of-stake chains before the inputs or after the lock time. Only the format with the optional
  text at the end needs the end of the input to tell that there is none.
\<close>

theorem transaction_roundtrip:
  assumes "tx_ok tt tx" "tx_has_witness tx \<longrightarrow> w" "tx_str_d_zeel tx = None \<longrightarrow> rest = [] \<or> tt \<noteq> PosWithNTime"
  shows "deserialize_tx tt (ser_transaction w tx @ rest) = Done tx rest"
proof (cases "tx_has_witness tx")
  case True
  then have "w" "tt = StandardWithWitness" using assms by (simp_all add: tx_ok_def)
  then show ?thesis using witness_roundtrip assms(1) True by simp
next
  case False
  from plain_roundtrip [OF assms(1) this assms(3)] show ?thesis .
qed

definition sample_input :: transaction_input where
  "sample_input =
     \<lparr>ti_previous_output = \<lparr>op_hash = replicate 32 7, op_index = 1\<rparr>, ti_script_sig = [1, 2],
      ti_sequence = SEQUENCE_FINAL, ti_script_witness = [[3], [4, 5]]\<rparr>"

definition sample_tx :: btc_transaction where
  "sample_tx =
     \<lparr>tx_version = 2, tx_n_time = None, tx_overwintered = False, tx_version_group_id = 0,
      tx_inputs = [sample_input], tx_outputs = [\<lparr>xo_value = 1000, xo_script_pubkey = [6]\<rparr>], tx_lock_time = 9,
      tx_expiry_height = 0, tx_shielded_spends = [], tx_shielded_outputs = [], tx_join_splits = [],
      tx_value_balance = 0, tx_join_split_pubkey = zero_hash 32, tx_join_split_sig = zero_hash 64,
      tx_binding_sig = zero_hash 64, tx_zcash = False, tx_posv = False, tx_str_d_zeel = None, tx_hash_algo = DSHA256\<rparr>"

lemma sample_tx_ok: "tx_ok StandardWithWitness sample_tx"
  by (simp add: tx_ok_def sample_tx_def sample_input_def tx_lists_ok_def tx_time_ok_def tx_shielded_ok_def tx_zcash_ok_def
      tx_has_witness_def input_has_witness_def witness_ok_def input_ok_def output_ok_def out_point_ok_def strip_witness_def
      MAX_LIST_SIZE_def bit_numeral_rec)

theorem transaction_roundtrip_witness:
  "deserialize_tx StandardWithWitness (ser_transaction True sample_tx @ [8]) = Done sample_tx [8]"
  using transaction_roundtrip [OF sample_tx_ok] by simp

lemma de_u32_short: "length bs < 4 \<Longrightarrow> de_u32 bs = Fail UnexpectedEnd"
  by (simp add: de_words)

lemma de_u64_short: "length bs < 8 \<Longrightarrow> de_u64 bs = Fail UnexpectedEnd"
  by (simp add: de_words)

text \<open>A transaction of the usual kind, read in the format that expects a time stamp after the lock time.\<close>

definition plain_tx :: "btc_transaction \<Rightarrow> bool" where
  "plain_tx tx \<longleftrightarrow> tx_shielded_spends tx = [] \<and> tx_shielded_outputs tx = [] \<and> tx_join_splits tx = []"

lemma ser_list_Nil [simp]: "ser_list ser [] = [0]"
  by (simp add: ser_list_def ser_compact_def ser_u8_def)

lemma posv_tail_fails:
  assumes "tx_ok StandardWithWitness tx" "plain_tx tx" "length junk < 4" "tx_overwintered tx \<longrightarrow> junk = []"
  shows "dbind (de_some de_u32) (\<lambda>n. dbind (de_tx_shielded (tx_overwintered tx) (tx_version tx)) (f n))
    (ser_tx_shielded tx @ ser_tx_zcash tx @ junk) = Fail UnexpectedEnd"
proof (cases "tx_overwintered tx")
  case False
  then show ?thesis
    using assms not_overwintered_fields [OF assms(1) False]
    by (simp add: ser_tx_shielded_def ser_tx_zcash_def de_some_def de_u32_short)
next
  case True
  then have z: "tx_zcash tx" using assms(1) by (simp add: tx_ok_def tx_zcash_ok_def)
  consider "sint (tx_version tx) < 3" | "sint (tx_version tx) = 3" | "4 \<le> sint (tx_version tx)" by linarith
  then show ?thesis
  proof cases
    case 3
    have "de_u32 (ser_u64 b @ [0, 0, 0]) = Done (word_of_nat (nat_of_le (take 4 (ser_u64 b)))) (drop 4 (ser_u64 b) @ [0, 0, 0])" for b
      by (simp add: de_words)
    then show ?thesis
      using True z assms(2,4) 3
      by (simp add: ser_tx_shielded_def ser_tx_zcash_def plain_tx_def de_tx_shielded_def de_u64_short)
  qed (use True z assms(2,4) in \<open>simp_all add: ser_tx_shielded_def ser_tx_zcash_def plain_tx_def de_tx_shielded_def de_some_def de_u32_short\<close>)
qed


lemma posv_fails:
  assumes ok: "tx_ok StandardWithWitness tx" and plain: "plain_tx tx"
    and junk: "length junk < 4" "tx_overwintered tx \<longrightarrow> junk = []"
  shows "deserialize_tx PosvWithNTime (ser_transaction True tx @ junk) = Fail UnexpectedEnd"
proof -
  have v: "\<not> bit (tx_version tx) 31" and lists: "tx_lists_ok tx" and outs: "(tx_outputs tx = []) = False"
    and wit: "tx_has_witness tx \<longrightarrow> \<not> tx_overwintered tx \<and> list_all witness_ok (tx_inputs tx)"
    and time: "tx_n_time tx = None" "tx_posv tx = False" "tx_str_d_zeel tx = None"
    and ins: "tx_overwintered tx \<or> \<not> uses_witness PosvWithNTime \<or> tx_inputs tx \<noteq> []"
    and group: "\<not> tx_overwintered tx \<longrightarrow> tx_version_group_id tx = 0"
    using ok by (auto simp: tx_ok_def uses_witness_def tx_time_ok_def split: option.split_asm)
  have u: "uses_witness PosvWithNTime" by (simp add: uses_witness_def)
  show ?thesis
  proof (cases "tx_has_witness tx")
    case True
    then have "de_witnesses (map strip_witness (tx_inputs tx))
        (concat (map (\<lambda>i. ser_list ser_Bytes (ti_script_witness i)) (tx_inputs tx)) @ rest) = Done (tx_inputs tx) rest" for rest
      using wit de_witnesses_ser by blast
    then show ?thesis
      using junk(1) outs
      by (simp add: ser_transaction_witness [OF True] deserialize_tx_header [OF v, where ow = False, simplified] de_tx_body_def
          de_tx_inputs_witness [OF lists u] de_tx_outputs_ser [OF lists] de_some_def de_u32_short)
  next
    case False
    have g: "de_if (tx_overwintered tx) de_u32 0 (ser_if (tx_overwintered tx) (ser_u32 (tx_version_group_id tx)) @ bs)
        = Done (tx_version_group_id tx) bs" for bs
      using group by (intro de_if_ser_if) auto
    have "de_tx_body PosvWithNTime (tx_overwintered tx) (tx_version tx)
        (ser_if (tx_overwintered tx) (ser_u32 (tx_version_group_id tx)) @ ser_list ser_input (tx_inputs tx) @
         ser_list ser_output (tx_outputs tx) @ ser_u32 (tx_lock_time tx) @ ser_tx_shielded tx @ ser_tx_zcash tx @ junk)
        = Fail UnexpectedEnd"
      using posv_tail_fails [OF ok plain junk]
      by (simp add: de_tx_body_def g de_tx_inputs_ser [OF lists ins] de_tx_outputs_ser [OF lists] outs)
    then show ?thesis
      using False by (simp add: ser_transaction_def deserialize_tx_header [OF v] time ser_tx_n_time_def ser_tx_str_d_zeel_def)
  qed
qed

text \<open>
  \<open>deserialize\<close> of a transaction finds the right format by itself: a transaction of the usual kind, or of
  Zcash without shielded parts and join splits, is read back as it was. It does not tell that something
  follows the transaction, though: the error for unread data cannot occur, and up to three more bytes are
  dropped.
\<close>

theorem transaction_recognised:
  assumes "tx_ok StandardWithWitness tx" "plain_tx tx" "length junk < 4" "tx_overwintered tx \<longrightarrow> junk = []"
  shows "deserialize de_transaction (ser_transaction True tx @ junk) = Done tx []"
proof -
  have "deserialize_tx StandardWithWitness (ser_transaction True tx @ junk) = Done tx junk"
  proof (cases "tx_has_witness tx")
    case True
    with assms(1) show ?thesis by (rule witness_roundtrip)
  next
    case False
    with assms(1) show ?thesis by (rule plain_roundtrip) simp
  qed
  then show ?thesis by (simp add: deserialize_def de_transaction_def posv_fails [OF assms] is_finished_def)
qed

theorem transaction_recognised_witness:
  "deserialize de_transaction (ser_transaction True sample_tx @ [1, 2, 3]) = Done sample_tx []"
  using transaction_recognised [OF sample_tx_ok, of "[1, 2, 3]"] by (simp add: plain_tx_def sample_tx_def)

text \<open>
  A message of a peer can make the reader panic: the text at the end of a NavCoin transaction is allocated
  for whatever length stands before it. These 23 bytes are no transaction of the other formats.
\<close>

theorem crafted_transaction_panics:
  "deserialize de_transaction ([1, 0, 0, 0] @ replicate 10 0 @ replicate 9 255) = Panics"
proof -
  let ?len = "replicate 9 (255 :: u8)"
  have header: "deserialize_tx tt ([1, 0, 0, 0] @ bs) = de_tx_body tt False 1 bs" for tt bs
  proof -
    have "ser_u32 1 = [1, 0, 0, 0]" by code_simp
    then show ?thesis using deserialize_tx_header [of 1 tt False bs] by (simp add: bit_1_iff)
  qed
  have zeros: "replicate 10 (0 :: u8) = [0, 0, 0, 0, 0, 0, 0, 0, 0, 0]" by code_simp
  have list: "read_list_max MAX_LIST_SIZE d (0 # bs) = Done [] bs" for d :: "'a decoder" and bs
    by (simp add: read_list_max_def de_compact_def)
  have int: "de_u32 (0 # 0 # 0 # 0 # bs) = Done 0 bs" for bs by (simp add: de_words)
  have posv: "deserialize_tx tt ([1, 0, 0, 0] @ replicate 10 0 @ ?len) = Fail MalformedData"
    if "tt = PosvWithNTime \<or> tt = StandardWithWitness" for tt
    using that unfolding header zeros
    by (auto simp: de_tx_body_def de_tx_inputs_def list uses_witness_def WITNESS_FLAG_def)
  have len: "?len = [255, 255, 255, 255, 255, 255, 255, 255, 255]" by code_simp
  have "de_compact ?len = Done (- 1) []"
    unfolding len by (simp add: de_compact_def de_words)
  then have zeel: "de_tx_str_d_zeel PosWithNTime ?len = Panics"
    by (simp add: de_tx_str_d_zeel_def is_finished_def capacity_overflow_def unsigned_minus_1_eq_mask mask_eq_exp_minus_1)
  have "deserialize_tx PosWithNTime ([1, 0, 0, 0] @ replicate 10 0 @ ?len) = Panics"
    unfolding header zeros
    by (simp add: de_tx_body_def de_tx_inputs_def list int uses_witness_def de_tx_shielded_def de_tx_zcash_def zeel)
  then show ?thesis by (simp only: deserialize_def de_transaction_def posv simp_thms decoded.case)
qed

end
