(* ===== verification/BlockHeaderProps.thy ===== *)
theory BlockHeaderProps
  imports BlockHeader BtcTxProps
begin

text \<open>
  Headers are read back as they were written, for every variant of coins; the recursion of the reader
  through headers of merged mining always ends; and a header whose solution claims to be too long panics.
\<close>

section \<open>The recursion of the reader ends\<close>

named_theorems shrink_rules \<open>decoders that give back no more than they got\<close>

definition shrinks :: "'a decoder \<Rightarrow> bool" where
  "shrinks d \<longleftrightarrow> (\<forall>bs x rest. d bs = Done x rest \<longrightarrow> length rest \<le> length bs)"

lemma shrinks_dbind [shrink_rules]: "shrinks d \<Longrightarrow> (\<And>x. shrinks (f x)) \<Longrightarrow> shrinks (dbind d f)"
  unfolding shrinks_def dbind_Done_iff by (meson le_trans)

lemma shrinks_basic [shrink_rules]: "shrinks (dret x)" "shrinks (dfail e)" "shrinks (read_slice n)" "shrinks (\<lambda>_. Panics)"
  by (auto simp: shrinks_def read_slice_def split: if_splits)

lemma shrinks_if [shrink_rules]: "shrinks d \<Longrightarrow> shrinks d' \<Longrightarrow> shrinks (if c then d else d')"
  by simp

lemma shrinks_prod [shrink_rules]: "(\<And>a b. shrinks (f a b)) \<Longrightarrow> shrinks (case p of (a, b) \<Rightarrow> f a b)"
  by (cases p) simp

lemma shrinks_words [shrink_rules]: "shrinks de_u8" "shrinks de_u16" "shrinks de_u32" "shrinks de_u64" "shrinks (de_hash n)"
  unfolding de_u8_def de_u16_def de_u32_def de_u64_def de_hash_def by (intro shrink_rules)+

lemma shrinks_compact [shrink_rules]: "shrinks de_compact"
  unfolding de_compact_def by (intro shrink_rules)

lemma shrinks_times [shrink_rules]: "shrinks d \<Longrightarrow> shrinks (de_times n d)"
  by (induction n) (simp_all add: shrink_rules)

lemma shrinks_lists [shrink_rules]: "shrinks d \<Longrightarrow> shrinks (read_list s d)" "shrinks d \<Longrightarrow> shrinks (read_list_max m d)"
  "shrinks de_Bytes"
  unfolding read_list_def read_list_max_def de_Bytes_def by (intro shrink_rules; assumption)+

lemma shrinks_de_if [shrink_rules]: "shrinks d \<Longrightarrow> shrinks (de_if c d x)"
  unfolding de_if_def by (intro shrink_rules)

lemma shrinks_de_some [shrink_rules]: "shrinks d \<Longrightarrow> shrinks (de_some d)"
  unfolding de_some_def by (intro shrink_rules)

lemma shrinks_de_opt [shrink_rules]: "shrinks d \<Longrightarrow> shrinks (de_opt c d)"
  unfolding de_opt_def by (intro shrink_rules)

lemma shrinks_parts [shrink_rules]:
  "shrinks de_out_point" "shrinks de_input" "shrinks de_output" "shrinks de_shielded_spend" "shrinks de_shielded_output"
  "shrinks (deserialize_join_split g)" "shrinks de_merkle_branch" "shrinks de_prog_pow" "shrinks de_mtp_pow"
  "shrinks (de_bits z)" "shrinks (de_nonce v u t)"
  unfolding de_out_point_def de_input_def de_output_def de_shielded_spend_def de_shielded_output_def
    deserialize_join_split_def de_merkle_branch_def de_prog_pow_def de_mtp_pow_def de_bits_def de_nonce_def
  by (intro shrink_rules)+

lemma shrinks_witnesses [shrink_rules]: "shrinks (de_witnesses is)"
  by (induction "is") (simp_all only: de_witnesses.simps shrink_rules)

lemma shrinks_join_splits [shrink_rules]: "shrinks (de_tx_join_splits v)"
  unfolding de_tx_join_splits_def by (intro shrink_rules)

lemma shrinks_tx [shrink_rules]:
  "shrinks (de_tx_inputs tt ow)" "shrinks (de_tx_shielded ow v)" "shrinks (de_tx_zcash z ow v a b)"
  unfolding de_tx_inputs_def de_tx_shielded_def de_tx_zcash_def by (intro shrink_rules)+

lemma shrinks_zeel [shrink_rules]: "shrinks (de_tx_str_d_zeel tt)"
proof -
  have "shrinks (dbind de_compact (\<lambda>len. if capacity_overflow 1 len then (\<lambda>_. Panics)
      else dbind (read_slice (unat len)) (\<lambda>buf. if utf8_valid buf then dret (Some buf) else dfail MalformedData)))"
    by (intro shrink_rules)
  then show ?thesis by (simp add: shrinks_def de_tx_str_d_zeel_def)
qed

lemma shrinks_transaction [shrink_rules]: "shrinks (deserialize_tx tt)"
  unfolding deserialize_tx_def de_tx_body_def Let_def by (intro shrink_rules)

text \<open>Two readers that agree on shorter inputs can be exchanged.\<close>

lemma dbind_cong_shorter:
  assumes "shrinks d" "length bs \<le> k" "\<And>x rest. length rest \<le> k \<Longrightarrow> f x rest = g x rest"
  shows "dbind d f bs = dbind d g bs"
proof (cases "d bs")
  case (Done x rest)
  then have "length rest \<le> k" using assms(1,2) by (meson shrinks_def le_trans)
  then show ?thesis using Done assms(3) by simp
qed simp_all

lemma de_u32_shorter:
  assumes "\<And>x rest. length rest < length bs \<Longrightarrow> f x rest = g x rest"
  shows "dbind de_u32 f bs = dbind de_u32 g bs"
  using assms by (auto simp: dbind_def de_words)

lemma de_opt_cong: "(\<And>cs. length cs \<le> k \<Longrightarrow> d cs = d' cs) \<Longrightarrow> length bs \<le> k \<Longrightarrow> de_opt c d bs = de_opt c d' bs"
  by (simp add: de_opt_def de_if_def de_some_def dbind_def)

lemma de_aux_pow_cong:
  assumes "\<And>cs. length cs \<le> k \<Longrightarrow> p cs = q cs" "length bs \<le> k"
  shows "de_aux_pow p bs = de_aux_pow q bs"
  unfolding de_aux_pow_def
  by (intro dbind_cong_shorter [where k = k] shrink_rules assms(2)) (simp_all add: dbind_def assms(1))

lemma dbind_cong_first:
  assumes "d bs = d' bs" "\<And>x rest. f x rest = g x rest"
  shows "dbind d f bs = dbind d' g bs"
  using assms by (simp add: dbind_def split: decoded.split)

lemma de_block_header_with_cong:
  assumes "\<And>cs. length cs < length bs \<Longrightarrow> p cs = q cs"
  shows "de_block_header_with p v bs = de_block_header_with q v bs"
  unfolding de_block_header_with_def Let_def
proof (rule de_u32_shorter, goal_cases)
  case (1 raw rest)
  have "de_aux_pow p cs = de_aux_pow q cs" if "length cs \<le> length rest" for cs
    using that 1 by (intro de_aux_pow_cong [of "length rest"] assms) simp_all
  then have aux: "de_opt c (de_aux_pow p) cs = de_opt c (de_aux_pow q) cs" if "length cs \<le> length rest" for c cs
    using that by (rule de_opt_cong)
  show ?case
    by (intro dbind_cong_shorter [where k = "length rest" and d = "de_hash 32"]
        dbind_cong_shorter [where k = "length rest" and d = "de_opt _ (de_hash 32)"]
        dbind_cong_shorter [where k = "length rest" and d = de_u32]
        dbind_cong_shorter [where k = "length rest" and d = "de_bits _"]
        dbind_cong_shorter [where k = "length rest" and d = "de_nonce _ _ _"]
        dbind_cong_shorter [where k = "length rest" and d = "de_opt _ (read_list 1 de_u8)"]
        dbind_cong_first [where d = "de_opt _ (de_aux_pow p)"] aux shrink_rules refl order_refl; assumption?)
qed

text \<open>The equation of the recursion, as the reader has it.\<close>

lemma de_block_header_fuel_enough:
  "length bs \<le> n \<Longrightarrow> length bs \<le> m \<Longrightarrow> de_block_header_fuel n v bs = de_block_header_fuel m v bs"
proof (induction "length bs" arbitrary: bs n m rule: less_induct)
  case less
  have empty: "de_block_header_with p v [] = Fail UnexpectedEnd" for p
    by (simp add: de_block_header_with_def dbind_def de_words)
  show ?case
  proof (cases bs)
    case Nil
    then show ?thesis by (cases n; cases m) (simp_all add: empty)
  next
    case (Cons b cs)
    then obtain n' m' where "n = Suc n'" "m = Suc m'" using less.prems by (cases n; cases m) auto
    moreover have "de_block_header_with (de_block_header_fuel n' v) v bs = de_block_header_with (de_block_header_fuel m' v) v bs"
      using less.prems calculation by (intro de_block_header_with_cong less.hyps) simp_all
    ultimately show ?thesis by simp
  qed
qed

lemma de_block_header_unfold: "de_block_header v bs = de_block_header_with (de_block_header v) v bs"
proof -
  have "de_block_header v bs = de_block_header_fuel (Suc (length bs)) v bs"
    unfolding de_block_header_def by (rule de_block_header_fuel_enough) simp_all
  also have "\<dots> = de_block_header_with (de_block_header v) v bs"
    unfolding de_block_header_fuel.simps
    by (rule de_block_header_with_cong) (simp add: de_block_header_def de_block_header_fuel_enough)
  finally show ?thesis .
qed


section \<open>Round trip\<close>

definition opt_ok :: "bool \<Rightarrow> ('a \<Rightarrow> bool) \<Rightarrow> 'a option \<Rightarrow> bool" where
  "opt_ok c ok x \<longleftrightarrow> (case x of Some v \<Rightarrow> c \<and> ok v | None \<Rightarrow> \<not> c)"

definition hash_ok :: "bytes \<Rightarrow> bool" where
  "hash_ok h \<longleftrightarrow> length h = 32"

definition branch_ok :: "merkle_branch \<Rightarrow> bool" where
  "branch_ok m \<longleftrightarrow> list_all hash_ok (mbr_branch_hashes m) \<and> 32 * length (mbr_branch_hashes m) < 2 ^ 63"

definition vec_ok :: "bytes \<Rightarrow> bool" where
  "vec_ok v \<longleftrightarrow> length v < 2 ^ 63"

definition nonce_ok :: "coin_variant \<Rightarrow> u32 \<Rightarrow> u32 \<Rightarrow> header_nonce \<Rightarrow> bool" where
  "nonce_ok variant version time nonce \<longleftrightarrow>
     (if header_is_zcash variant version
      then (\<exists>h. nonce = Nonce_H256 h \<and> hash_ok h) \<and> \<not> is_prog_pow version time
      else if (version = KAWPOW_VERSION \<and> variant \<noteq> CV_BTC) \<or> is_prog_pow version time then nonce = Nonce_U32 0
      else \<exists>n. nonce = Nonce_U32 n \<and> (version = KAWPOW_VERSION \<longrightarrow> n \<noteq> 0))"

fun bits_ok :: "bool \<Rightarrow> header_bits \<Rightarrow> bool" where
  "bits_ok is_zcash (Bits_Compact c) \<longleftrightarrow> \<not> is_zcash"
| "bits_ok is_zcash (Bits_U32 n) \<longleftrightarrow> is_zcash"

text \<open>A header as a reader for the variant can give it; the fields are present as the version says.\<close>

fun header_ok :: "coin_variant \<Rightarrow> block_header \<Rightarrow> bool"
and aux_ok :: "coin_variant \<Rightarrow> aux_pow \<Rightarrow> bool" where
  "header_ok variant (BlockHeader version prev mroot claim sapling time bits nonce solution aux prog mtp is_verus
       state_root utxo_root stake sig n_height n_nonce mix) \<longleftrightarrow>
     (if is_verus then version = 4 else version XOR 0x00010000 \<noteq> 4) \<and> hash_ok prev \<and> hash_ok mroot \<and>
     opt_ok (version = BIP9_NO_SOFT_FORK_BLOCK_HEADER_VERSION \<and> variant = CV_LBC) hash_ok claim \<and>
     opt_ok (header_is_zcash variant version) hash_ok sapling \<and> bits_ok (header_is_zcash variant version) bits \<and>
     nonce_ok variant version time nonce \<and> opt_ok (header_is_zcash variant version) vec_ok solution \<and>
     (case aux of Some pow \<Rightarrow> is_aux_pow_version version \<and> aux_ok variant pow | None \<Rightarrow> \<not> is_aux_pow_version version) \<and>
     opt_ok (is_prog_pow version time) (\<lambda>p. hash_ok (pp_mix_hash p)) prog \<and>
     opt_ok (version = MTP_POW_VERSION \<and> time < PROG_POW_SWITCH_TIME)
       (\<lambda>p. hash_ok (mtp_hash_value p) \<and> hash_ok (mtp_reserved_0 p) \<and> hash_ok (mtp_reserved_1 p)) mtp \<and>
     (let is_qtum = (version = BIP9_NO_SOFT_FORK_BLOCK_HEADER_VERSION \<and> variant = CV_Qtum);
          is_kawpow = (version = KAWPOW_VERSION \<and> variant \<noteq> CV_BTC)
      in opt_ok is_qtum hash_ok state_root \<and> opt_ok is_qtum hash_ok utxo_root \<and> opt_ok is_qtum out_point_ok stake \<and>
         opt_ok is_qtum vec_ok sig \<and> opt_ok is_kawpow (\<lambda>_. True) n_height \<and> opt_ok is_kawpow (\<lambda>_. True) n_nonce \<and>
         opt_ok is_kawpow hash_ok mix)"
| "aux_ok variant (AuxPow coinbase_tx parent_hash coinbase_branch blockchain_branch parent) \<longleftrightarrow>
     tx_ok StandardWithWitness coinbase_tx \<and> \<not> tx_has_witness coinbase_tx \<and> hash_ok parent_hash \<and>
     branch_ok coinbase_branch \<and> branch_ok blockchain_branch \<and> header_ok variant parent"

lemma de_opt_ser:
  "opt_ok c ok x \<Longrightarrow> (\<And>v. ok v \<Longrightarrow> d (ser v @ rest) = Done v rest) \<Longrightarrow> de_opt c d (ser_opt ser x @ rest) = Done x rest"
  by (auto simp: opt_ok_def de_opt_def ser_opt_def split: option.split_asm)

lemma de_hash_ok: "hash_ok h \<Longrightarrow> de_hash 32 (ser_hash h @ rest) = Done h rest"
  by (simp add: hash_ok_def)

lemma de_vec_ok: "vec_ok v \<Longrightarrow> read_list 1 de_u8 (ser_list ser_u8 v @ rest) = Done v rest"
  by (rule u8_codec.list_roundtrip) (simp_all add: vec_ok_def list_all_iff)

lemma de_branch_ok: "branch_ok m \<Longrightarrow> de_merkle_branch (ser_merkle_branch m @ rest) = Done m rest"
  using hash_codec.list_roundtrip [where n = 32 and xs = "mbr_branch_hashes m" and item_size = 32]
  by (simp add: branch_ok_def de_merkle_branch_def ser_merkle_branch_def list_all_iff hash_ok_def)

lemma de_prog_ok: "hash_ok (pp_mix_hash p) \<Longrightarrow> de_prog_pow (ser_prog_pow p @ rest) = Done p rest"
  by (simp add: de_prog_pow_def ser_prog_pow_def hash_ok_def)

lemma de_mtp_ok:
  "hash_ok (mtp_hash_value p) \<and> hash_ok (mtp_reserved_0 p) \<and> hash_ok (mtp_reserved_1 p) \<Longrightarrow>
   de_mtp_pow (ser_mtp_pow p @ rest) = Done p rest"
  by (simp add: de_mtp_pow_def ser_mtp_pow_def hash_ok_def)

lemma de_bits_ok: "bits_ok z b \<Longrightarrow> de_bits z (ser_bits b @ rest) = Done b rest"
  by (cases b) (auto simp: de_bits_def ser_bits_def)

lemma de_nonce_ok:
  "nonce_ok variant version time nonce \<Longrightarrow>
   de_nonce variant version time
     (ser_if (\<not> is_prog_pow version time \<and> (version \<noteq> KAWPOW_VERSION \<or> nonce \<noteq> Nonce_U32 0)) (ser_nonce nonce) @ rest)
   = Done nonce rest"
  by (auto simp: nonce_ok_def de_nonce_def hash_ok_def ser_if_def split: if_split_asm)

lemma verus_version:
  "(if is_verus then version = 4 else version XOR 0x00010000 \<noteq> (4 :: u32)) \<Longrightarrow>
   ((if is_verus then version XOR 0x00010000 else version) XOR 0x00010000 = 4) = is_verus"
  "(if is_verus then version = 4 else version XOR 0x00010000 \<noteq> (4 :: u32)) \<Longrightarrow>
   (if is_verus then (if is_verus then version XOR 0x00010000 else version) XOR 0x00010000
    else (if is_verus then version XOR 0x00010000 else version)) = version"
  by (auto split: if_splits)

lemma header_level_roundtrip:
  assumes "header_ok variant h"
    and aux: "\<And>pow rest. bh_aux_pow h = Some pow \<Longrightarrow> de_aux_pow p (ser_aux_pow pow @ rest) = Done pow rest"
  shows "de_block_header_with p variant (ser_block_header h @ rest) = Done h rest"
proof (cases h)
  case (BlockHeader version prev mroot claim sapling time bits nonce solution apow prog mtp is_verus state_root utxo_root
      stake sig n_height n_nonce mix)
  note ok = assms(1) [unfolded BlockHeader header_ok.simps Let_def]
  have v: "if is_verus then version = 4 else version XOR 0x00010000 \<noteq> 4" using ok by blast
  have aux': "de_opt (is_aux_pow_version version) (de_aux_pow p)
      ((case apow of Some pow \<Rightarrow> ser_aux_pow pow | None \<Rightarrow> []) @ bs) = Done apow bs" for bs
    using ok aux by (auto simp: BlockHeader de_opt_def split: option.split_asm)
  have mtp: "opt_ok (version = MTP_POW_VERSION \<and> time < PROG_POW_SWITCH_TIME \<and> prog = None)
       (\<lambda>p. hash_ok (mtp_hash_value p) \<and> hash_ok (mtp_reserved_0 p) \<and> hash_ok (mtp_reserved_1 p)) mtp"
  proof -
    have "opt_ok (version = MTP_POW_VERSION \<and> time < PROG_POW_SWITCH_TIME)
       (\<lambda>p. hash_ok (mtp_hash_value p) \<and> hash_ok (mtp_reserved_0 p) \<and> hash_ok (mtp_reserved_1 p)) mtp"
      "opt_ok (is_prog_pow version time) (\<lambda>p. hash_ok (pp_mix_hash p)) prog" using ok by blast+
    then show ?thesis by (auto simp: opt_ok_def is_prog_pow_def not_le split: option.splits)
  qed
  let ?z = "header_is_zcash variant version"
  let ?q = "version = BIP9_NO_SOFT_FORK_BLOCK_HEADER_VERSION \<and> variant = CV_Qtum"
  let ?k = "version = KAWPOW_VERSION \<and> variant \<noteq> CV_BTC"
  have "hash_ok prev" "hash_ok mroot" using ok by simp_all
  note hashes = de_hash_ok [OF this(1)] de_hash_ok [OF this(2)]
  have "opt_ok (version = BIP9_NO_SOFT_FORK_BLOCK_HEADER_VERSION \<and> variant = CV_LBC) hash_ok claim" "opt_ok ?z hash_ok sapling"
    "opt_ok ?q hash_ok state_root" "opt_ok ?q hash_ok utxo_root" "opt_ok ?k hash_ok mix"
    using ok by simp_all
  note opts = this [THEN de_opt_ser, OF de_hash_ok]
  have "opt_ok ?z vec_ok solution" "opt_ok ?q vec_ok sig" using ok by simp_all
  note vecs = this [THEN de_opt_ser, OF de_vec_ok]
  have "bits_ok ?z bits" "nonce_ok variant version time nonce" using ok by simp_all
  note bn = de_bits_ok [OF this(1)] de_nonce_ok [OF this(2)]
  have "opt_ok (is_prog_pow version time) (\<lambda>p. hash_ok (pp_mix_hash p)) prog" using ok by simp
  note prog = de_opt_ser [OF this de_prog_ok]
  have "opt_ok ?q out_point_ok stake" using ok by simp
  note stake = de_opt_ser [OF this out_point_codec.roundtrip]
  have "opt_ok ?k (\<lambda>_. True) n_height" "opt_ok ?k (\<lambda>_. True) n_nonce" using ok by simp_all
  note nums = de_opt_ser [OF this(1) de_u32_ser] de_opt_ser [OF this(2) de_u64_ser]
  show ?thesis
    by (simp only: BlockHeader de_block_header_with_def ser_block_header.simps ser_header_start_def ser_header_end_def Let_def
        append_assoc dbind_simps(1) de_u32_ser verus_version [OF v] hashes opts vecs bn aux' prog
        de_opt_ser [OF mtp de_mtp_ok] stake nums dret_apply)
qed

lemma header_reads_back:
  assumes "header_ok variant h"
  shows "de_block_header variant (ser_block_header h @ rest) = Done h rest"
proof -
  have "header_ok variant h \<Longrightarrow> de_block_header variant (ser_block_header h @ rest) = Done h rest"
    and "aux_ok variant pow \<Longrightarrow> de_aux_pow (de_block_header variant) (ser_aux_pow pow @ rest) = Done pow rest" for h pow rest
  proof (induction h and pow arbitrary: rest and rest rule: ser_block_header_ser_aux_pow.induct)
    case (1 version prev mroot claim sapling time bits nonce solution apow)
    have "de_aux_pow (de_block_header variant) (ser_aux_pow pow @ bs) = Done pow bs" if "apow = Some pow" for pow bs
      using 1 that by simp
    then show ?case
      by (subst de_block_header_unfold) (intro header_level_roundtrip 1(2), simp)
  next
    case (2 tx h c b parent)
    then show ?case
      by (simp add: de_aux_pow_def plain_roundtrip de_hash_ok de_branch_ok)
  qed
  with assms show ?thesis by blast
qed

interpretation header_codec: codec ser_block_header "de_block_header variant" "header_ok variant" for variant
  by unfold_locales (rule header_reads_back)

text \<open>
  Every header that is well formed for a variant of coins is read back from its bytes, whatever follows
  them: with the fields of Zcash, LBRY, Qtum, Firo and Ravencoin, and for merged mining with the transaction,
  the branches and the header of the parent chain, which may be merged mined in turn.
\<close>

theorem block_header_roundtrip:
  assumes "header_ok variant h"
  shows "de_block_header variant (ser_block_header h @ rest) = Done h rest"
  using assms by (rule header_codec.roundtrip)

text \<open>A header of Bitcoin, and a header of Dogecoin that is mined with it.\<close>

definition plain_header :: "u32 \<Rightarrow> bytes \<Rightarrow> bytes \<Rightarrow> u32 \<Rightarrow> u32 \<Rightarrow> aux_pow option \<Rightarrow> block_header" where
  "plain_header version prev mroot time bits aux =
     BlockHeader version prev mroot None None time (Bits_Compact bits) (Nonce_U32 7) None aux None None False
       None None None None None None None"

definition doge_header :: block_header where
  "doge_header =
     plain_header AUX_POW_VERSION_DOGE (replicate 32 1) (replicate 32 2) 100 0x1d00ffff
       (Some (AuxPow (sample_tx\<lparr>tx_inputs := [sample_input\<lparr>ti_script_witness := []\<rparr>]\<rparr>) (replicate 32 3)
          \<lparr>mbr_branch_hashes = [replicate 32 4], mbr_branch_side_mask = 0\<rparr>
          \<lparr>mbr_branch_hashes = [], mbr_branch_side_mask = 0\<rparr>
          (plain_header 1 (replicate 32 5) (replicate 32 6) 90 0x1d00ffff None)))"

lemmas header_versions = AUX_POW_VERSION_DOGE_def AUX_POW_VERSION_SYS_def AUX_POW_VERSION_NMC_def MTP_POW_VERSION_def
  BIP9_NO_SOFT_FORK_BLOCK_HEADER_VERSION_def KAWPOW_VERSION_def

lemma doge_header_ok: "header_ok CV_Standard doge_header"
proof -
  have "tx_ok StandardWithWitness (sample_tx\<lparr>tx_inputs := [sample_input\<lparr>ti_script_witness := []\<rparr>]\<rparr>)"
    by (simp add: tx_ok_def sample_tx_def sample_input_def tx_lists_ok_def tx_time_ok_def tx_shielded_ok_def tx_zcash_ok_def
      tx_has_witness_def input_has_witness_def witness_ok_def input_ok_def output_ok_def out_point_ok_def strip_witness_def
      MAX_LIST_SIZE_def bit_numeral_rec)
  moreover have "\<not> tx_has_witness (sample_tx\<lparr>tx_inputs := [sample_input\<lparr>ti_script_witness := []\<rparr>]\<rparr>)"
    by (simp add: tx_has_witness_def input_has_witness_def)
  ultimately show ?thesis
    by (simp add: doge_header_def plain_header_def hash_ok_def opt_ok_def header_is_zcash_def is_kmd_assetchain_def nonce_ok_def
        is_aux_pow_version_def is_prog_pow_def branch_ok_def header_versions)
qed

theorem block_header_roundtrip_witness:
  "de_block_header CV_Standard (ser_block_header doge_header @ [9]) = Done doge_header [9]"
  by (rule block_header_roundtrip [OF doge_header_ok])

text \<open>A header of the Zcash kind whose solution claims a length of \<open>2 ^ 63\<close> or more.\<close>

lemma header_solution_panics:
  assumes "length prev = 32" "length mroot = 32" "length sapling = 32" "length nonce = 32" "2 ^ 63 \<le> unat n"
  shows "de_block_header CV_Standard
    (ser_u32 4 @ prev @ mroot @ sapling @ ser_u32 time @ ser_u32 bits @ nonce @ ser_compact n @ rest) = Panics"
  using assms
  by (subst de_block_header_unfold)
    (simp add: de_block_header_with_def de_opt_def header_is_zcash_def header_versions de_bits_def de_nonce_def
      read_list_def capacity_overflow_def de_some_def)

section \<open>What is read is well formed\<close>

definition yields :: "('a \<Rightarrow> bool) \<Rightarrow> 'a decoder \<Rightarrow> bool" where
  "yields P d \<longleftrightarrow> (\<forall>bs x rest. d bs = Done x rest \<longrightarrow> P x)"

lemma yields_bind: "yields P d \<Longrightarrow> (\<And>x. P x \<Longrightarrow> yields Q (f x)) \<Longrightarrow> yields Q (dbind d f)"
  unfolding yields_def dbind_Done_iff by blast

lemma yields_ret: "Q x \<Longrightarrow> yields Q (dret x)"
  by (auto simp: yields_def)

lemma yields_any: "yields (\<lambda>_. True) d"
  by (simp add: yields_def)

lemma yields_opt: "yields ok d \<Longrightarrow> yields (opt_ok c ok) (de_opt c d)"
  by (cases c) (fastforce simp: yields_def de_opt_def de_if_def de_some_def opt_ok_def dbind_Done_iff)+

lemma opt_None: "opt_ok c ok None \<longleftrightarrow> \<not> c" "opt_ok False ok x \<longleftrightarrow> x = None"
  by (simp_all add: opt_ok_def split: option.split)

lemma yields_hash: "yields hash_ok (de_hash 32)"
  by (auto simp: yields_def de_hash_def read_slice_def hash_ok_def split: if_splits)

lemma yields_vec: "yields vec_ok (read_list 1 d)"
  by (auto simp: yields_def read_list_def dbind_Done_iff vec_ok_def capacity_overflow_def not_le dest!: de_times_length
      split: if_splits)

lemma yields_parts:
  "yields out_point_ok de_out_point" "yields (\<lambda>p. hash_ok (pp_mix_hash p)) de_prog_pow"
  "yields (\<lambda>p. hash_ok (mtp_hash_value p) \<and> hash_ok (mtp_reserved_0 p) \<and> hash_ok (mtp_reserved_1 p)) de_mtp_pow"
  "yields (bits_ok z) (de_bits z)"
  unfolding de_out_point_def de_prog_pow_def de_mtp_pow_def de_bits_def
  by (intro yields_bind [OF yields_hash] yields_bind [OF yields_any] yields_ret;
      simp add: out_point_ok_def hash_ok_def)+

lemma yields_nonce:
  "version \<noteq> KAWPOW_VERSION \<Longrightarrow> \<not> is_prog_pow version time \<Longrightarrow> yields (nonce_ok variant version time) (de_nonce variant version time)"
  using yields_hash by (auto simp: de_nonce_def yields_def dbind_Done_iff nonce_ok_def)

text \<open>
  C36. Every header that is read, other than those of merged mining, ProgPow and KawPow, is well formed: hashes have 32 bytes and
  each optional field is there exactly if version and variant say so. So it is read back from what is written for it.
\<close>

theorem decoded_header_well_formed:
  assumes "de_block_header variant bs = Done h rest" "bh_version h \<noteq> KAWPOW_VERSION" "bh_version h \<noteq> MTP_POW_VERSION"
    "bh_aux_pow h = None"
  shows "header_ok variant h"
proof -
  let ?Q = "\<lambda>h. bh_version h \<noteq> KAWPOW_VERSION \<longrightarrow> bh_version h \<noteq> MTP_POW_VERSION \<longrightarrow> bh_aux_pow h = None \<longrightarrow> header_ok variant h"
  have nonce: "yields (\<lambda>n. version \<noteq> KAWPOW_VERSION \<longrightarrow> version \<noteq> MTP_POW_VERSION \<longrightarrow> nonce_ok variant version time n)
      (de_nonce variant version time)" for version time
    using yields_nonce [of version time variant] by (auto simp: yields_def is_prog_pow_def)
  have "yields ?Q (de_block_header_with (de_block_header variant) variant)"
    unfolding de_block_header_with_def Let_def
  proof (rule yields_bind [OF yields_any], goal_cases)
    case (1 raw)
    define is_verus where "is_verus = (raw XOR 0x00010000 = 4)"
    define version where "version = (if is_verus then raw XOR 0x00010000 else raw)"
    have verus: "if is_verus then version = 4 else version XOR 0x00010000 \<noteq> 4"
      by (simp add: is_verus_def version_def)
    show ?case
      unfolding is_verus_def [symmetric] version_def [symmetric]
      by (intro yields_bind [OF yields_hash] yields_bind [OF yields_opt [OF yields_hash]]
          yields_bind [OF yields_any, where d = de_u32] yields_bind [OF yields_parts(4)] yields_bind [OF nonce]
          yields_bind [OF yields_opt [OF yields_vec]] yields_bind [OF yields_opt [OF yields_any [where d = "de_aux_pow _"]]]
          yields_bind [OF yields_opt [OF yields_parts(2)]] yields_bind [OF yields_opt [OF yields_parts(3)]]
          yields_bind [OF yields_opt [OF yields_parts(1)]] yields_bind [OF yields_opt [OF yields_any [where d = de_u32]]]
          yields_bind [OF yields_opt [OF yields_any [where d = de_u64]]] yields_ret)
        (use verus in \<open>auto simp: opt_None Let_def is_prog_pow_def\<close>)
  qed
  then show ?thesis
    using assms unfolding de_block_header_unfold [of variant bs] yields_def by blast
qed

lemma plain_bytes:
  "de_block_header CV_BTC (ser_u32 1 @ replicate 32 5 @ replicate 32 6 @ ser_u32 100 @ ser_u32 9 @ ser_u32 7 @ [3]) =
     Done (plain_header 1 (replicate 32 5) (replicate 32 6) 100 9 None) [3]"
  by (subst de_block_header_unfold)
    (simp add: de_block_header_with_def de_opt_def header_is_zcash_def is_kmd_assetchain_def is_aux_pow_version_def is_prog_pow_def
      header_versions de_bits_def de_nonce_def plain_header_def)

theorem decoded_header_well_formed_witness:
  "header_ok CV_BTC (plain_header 1 (replicate 32 5) (replicate 32 6) 100 9 None)"
  using decoded_header_well_formed [OF plain_bytes] by (simp add: plain_header_def header_versions)

end
