(* ===== verification/MerkleProps.thy ===== *)
theory MerkleProps
  imports Spv BlockHeaderProps
begin

text \<open>
  Merkle trees and the proofs that a light client accepts: the root of a block exists for every list of hashes but the
  empty one, the branch of a leaf proves it, and what a proof establishes is exactly a node of the tree, unless the
  proof has one node only, which is accepted unseen.
\<close>

section \<open>Rows and roots\<close>

text \<open>The number of rows above the leaves.\<close>

function merkle_depth :: "nat \<Rightarrow> nat" where
  "merkle_depth n = (if n \<le> 1 then 0 else Suc (merkle_depth ((n + 1) div 2)))"
  by pat_completeness auto
termination by (relation "measure id") auto

declare merkle_depth.simps [simp del]

lemma merkle_row_length [simp]: "length (merkle_row H xs) = (length xs + 1) div 2"
  by (induction H xs rule: merkle_row.induct) auto

lemma merkle_row_Nil_iff [simp]: "merkle_row H xs = [] \<longleftrightarrow> xs = []"
  by (cases "(H, xs)" rule: merkle_row.cases) auto

lemma merkle_row_nth:
  "j < (length xs + 1) div 2 \<Longrightarrow>
     merkle_row H xs ! j = merkle_node_hash H (xs ! (2 * j)) (xs ! (min (2 * j + 1) (length xs - 1)))"
proof (induction H xs arbitrary: j rule: merkle_row.induct)
  case (1 H a b rest)
  then show ?case by (cases j) (auto simp: min_def nth_Cons')
qed auto

lemma merkle_root_step:
  "length xs \<noteq> 1 \<Longrightarrow> merkle_root H xs = merkle_root H (merkle_row H xs)"
  by (subst merkle_root.simps) simp

lemma merkle_root_single: "merkle_root H [x] = Some x"
  by (subst merkle_root.simps) simp

lemma merkle_depth_one [simp]: "n \<le> 1 \<Longrightarrow> merkle_depth n = 0"
  by (subst merkle_depth.simps) simp

lemma merkle_depth_step: "1 < n \<Longrightarrow> merkle_depth n = Suc (merkle_depth ((n + 1) div 2))"
  by (subst merkle_depth.simps) simp

lemma merkle_root_rows:
  "xs \<noteq> [] \<Longrightarrow> \<exists>r. (merkle_row H ^^ merkle_depth (length xs)) xs = [r] \<and> merkle_root H xs = Some r"
proof (induction "length xs" arbitrary: xs rule: merkle_depth.induct)
  case 1
  show ?case
  proof (cases "length xs \<le> 1")
    case True
    then obtain x where "xs = [x]" using "1.prems" by (cases xs) auto
    then show ?thesis by (simp add: merkle_root_single)
  next
    case False
    have "\<exists>r. (merkle_row H ^^ merkle_depth (length (merkle_row H xs))) (merkle_row H xs) = [r] \<and>
      merkle_root H (merkle_row H xs) = Some r"
      by (rule "1.hyps") (use False "1.prems" in auto)
    then show ?thesis
      using False by (simp add: merkle_root_step merkle_depth_step funpow_swap1)
  qed
qed

lemma merkle_root_none:
  assumes "merkle_root H xs = Some r"
  shows "xs \<noteq> []"
proof (rule merkle_root.raw_induct [OF _ assms])
  show "hs \<noteq> []"
    if "\<And>H hs r. root_of H hs = Some r \<Longrightarrow> hs \<noteq> []"
      "(if length hs = 1 then Some (hd hs) else root_of H (merkle_row H hs)) = Some r" for root_of H hs r
    using that(1) [of H "merkle_row H hs"] that(2) by (auto split: if_splits)
qed

section \<open>Proofs as lists of nodes\<close>

fun climb :: "(bytes \<Rightarrow> bytes) \<Rightarrow> bytes list \<Rightarrow> nat \<Rightarrow> bytes \<Rightarrow> bytes" where
  "climb H [] idx current = current"
| "climb H (next # rest) idx current =
     climb H rest (idx div 2) (if odd idx then H (next @ current) else H (current @ next))"

text \<open>What is hashed on the way, and what is hashed to compute the rows of a tree.\<close>

fun climb_inputs :: "(bytes \<Rightarrow> bytes) \<Rightarrow> bytes list \<Rightarrow> nat \<Rightarrow> bytes \<Rightarrow> bytes list" where
  "climb_inputs H [] idx current = []"
| "climb_inputs H (next # rest) idx current =
     (let joined = (if odd idx then next @ current else current @ next) in
      joined # climb_inputs H rest (idx div 2) (H joined))"

fun row_inputs :: "bytes list \<Rightarrow> bytes list" where
  "row_inputs (a # b # rest) = (a @ b) # row_inputs rest"
| "row_inputs [a] = [a @ a]"
| "row_inputs [] = []"

fun tree_inputs :: "(bytes \<Rightarrow> bytes) \<Rightarrow> nat \<Rightarrow> bytes list \<Rightarrow> bytes list" where
  "tree_inputs H 0 xs = []"
| "tree_inputs H (Suc n) xs = row_inputs xs @ tree_inputs H n (merkle_row H xs)"

lemma merkle_row_map: "merkle_row H xs = map H (row_inputs xs)"
  by (induction H xs rule: merkle_row.induct) (auto simp: merkle_node_hash_def)

lemma row_inputs_length [simp]: "length (row_inputs xs) = (length xs + 1) div 2"
  using arg_cong [OF merkle_row_map, of length] by simp

lemma row_inputs_nth:
  "j < (length xs + 1) div 2 \<Longrightarrow> row_inputs xs ! j = xs ! (2 * j) @ xs ! (min (2 * j + 1) (length xs - 1))"
proof (induction xs arbitrary: j rule: row_inputs.induct)
  case (1 a b rest)
  then show ?case by (cases j) (auto simp: min_def nth_Cons')
qed auto

lemma row_inputs_set:
  "p \<in> set (row_inputs xs) \<Longrightarrow> \<exists>a\<in>set xs. \<exists>b\<in>set xs. p = a @ b"
  by (induction xs rule: row_inputs.induct) auto

lemma take_drop_concat:
  "(\<forall>x\<in>set nodes. length x = k) \<Longrightarrow> i < length nodes \<Longrightarrow> take k (drop (i * k) (concat nodes)) = nodes ! i"
proof (induction nodes arbitrary: i)
  case (Cons a nodes)
  then show ?case by (cases i) auto
qed simp

lemma length_concat_same: "(\<forall>x\<in>set nodes. length x = k) \<Longrightarrow> length (concat nodes) = length nodes * k"
  by (induction nodes) auto

lemma merkle_climb_list:
  assumes "\<forall>x\<in>set nodes. length x = 32" "n + i = length nodes"
  shows "merkle_climb H (concat nodes) n i idx current = Inr (climb H (drop i nodes) (unat idx) current)"
  using assms
proof (induction n arbitrary: i idx current)
  case (Suc n)
  have "merkle_array_index (concat nodes) i = Inr (nodes ! i)"
    using Suc.prems take_drop_concat [of nodes 32 i] length_concat_same [of nodes 32]
    by (simp add: merkle_array_index_def)
  moreover have "drop i nodes = nodes ! i # drop (Suc i) nodes"
    using Suc.prems by (simp add: Cons_nth_drop_Suc)
  moreover have "unat (drop_bit 1 idx) = unat idx div 2"
    by (simp add: drop_bit_Suc unat_div)
  moreover have "idx mod 2 = 1 \<longleftrightarrow> odd (unat idx)"
    using unat_mod [of idx 2] by (auto simp: odd_iff_mod_2_eq_one word_unat_eq_iff)
  ultimately show ?case
    using Suc.IH [of "Suc i"] Suc.prems by (simp add: hash256_merkle_step_def)
qed simp

lemma verify_hash256_merkle_list:
  assumes "\<forall>x\<in>set nodes. length x = 32"
  shows "verify_hash256_merkle H txid r (concat nodes) idx =
    (if length nodes = 1 \<or> climb H nodes (unat idx) txid = r then Inr () else Inl BadMerkleProof)"
  using assms merkle_climb_list [of nodes "length nodes" 0 H idx txid] length_concat_same [of nodes 32]
  by (cases nodes) (auto simp: verify_hash256_merkle_def merkle_array_len_def Let_def)

lemma merkle_prove_list:
  assumes "\<forall>x\<in>set nodes. length x = 32"
  shows "merkle_prove H txid r nodes idx =
    (if length nodes = 1 \<or> climb H nodes (unat idx) txid = r then Inr () else Inl BadMerkleProof)"
proof (cases "txid = r \<and> idx = 0 \<and> nodes = []")
  case True
  then show ?thesis by (simp add: merkle_prove_def)
next
  case False
  have "length (concat nodes) mod 32 = 0"
    using length_concat_same [OF assms] by simp
  then show ?thesis
    using False verify_hash256_merkle_list [OF assms, of H txid r idx]
    by (simp add: merkle_prove_def merkle_array_new_def)
qed

section \<open>Completeness\<close>

text \<open>The branch of a leaf, as servers answer it: its sibling, or itself at the end of a row, then the branch above.\<close>

definition sibling :: "bytes list \<Rightarrow> nat \<Rightarrow> bytes" where
  "sibling xs i = xs ! (if odd i then i - 1 else min (i + 1) (length xs - 1))"

fun merkle_path :: "(bytes \<Rightarrow> bytes) \<Rightarrow> nat \<Rightarrow> bytes list \<Rightarrow> nat \<Rightarrow> bytes list" where
  "merkle_path H 0 xs i = []"
| "merkle_path H (Suc n) xs i = sibling xs i # merkle_path H n (merkle_row H xs) (i div 2)"

definition merkle_branch_of :: "(bytes \<Rightarrow> bytes) \<Rightarrow> bytes list \<Rightarrow> nat \<Rightarrow> bytes list" where
  "merkle_branch_of H xs i = merkle_path H (merkle_depth (length xs)) xs i"

lemma joined_sibling:
  assumes "i < length xs"
  shows "(if odd i then sibling xs i @ xs ! i else xs ! i @ sibling xs i) = row_inputs xs ! (i div 2)"
  using assms by (auto simp: sibling_def row_inputs_nth min_def elim!: oddE evenE)

lemma climb_path:
  "i < length xs \<Longrightarrow>
     climb H (merkle_path H n xs i) i (xs ! i) = (merkle_row H ^^ n) xs ! (i div 2 ^ n)"
proof (induction n arbitrary: xs i)
  case (Suc n)
  have "(if odd i then H (sibling xs i @ xs ! i) else H (xs ! i @ sibling xs i)) = merkle_row H xs ! (i div 2)"
    using joined_sibling [OF Suc.prems] Suc.prems by (auto simp: merkle_row_map split: if_splits)
  then show ?case
    using Suc.IH [of "i div 2" "merkle_row H xs"] Suc.prems
    by (simp add: funpow_swap1 div_mult2_eq)
qed simp

lemma merkle_path_lengths:
  assumes "\<forall>x\<in>set xs. length x = 32" "\<And>bs. length (H bs) = 32" "i < length xs"
  shows "\<forall>x\<in>set (merkle_path H n xs i). length x = 32"
  using assms(1,3)
proof (induction n arbitrary: xs i)
  case (Suc n)
  have "sibling xs i \<in> set xs" using Suc.prems by (auto simp: sibling_def)
  moreover have "\<forall>x\<in>set (merkle_path H n (merkle_row H xs) (i div 2)). length x = 32"
    using Suc.prems by (intro Suc.IH) (auto simp: merkle_row_map assms(2))
  ultimately show ?case using Suc.prems by simp
qed simp

lemma div_rows: "length ((merkle_row H ^^ n) xs) = 1 \<Longrightarrow> i < length xs \<Longrightarrow> i div 2 ^ n = 0"
proof (induction n arbitrary: i xs)
  case (Suc n)
  then have "i div 2 div 2 ^ n = 0" by (intro Suc.IH [of "merkle_row H xs"]) (auto simp: funpow_swap1)
  then show ?case by (simp add: div_mult2_eq)
qed simp

lemma merkle_branch_proves:
  assumes "merkle_root H xs = Some r" "i < length xs" "length xs < 2 ^ 64"
    "\<forall>x\<in>set xs. length x = 32" "\<And>bs. length (H bs) = 32"
  shows "merkle_prove H (xs ! i) r (merkle_branch_of H xs i) (word_of_nat i) = Inr ()"
proof -
  have rows: "(merkle_row H ^^ merkle_depth (length xs)) xs = [r]"
    using merkle_root_rows [of xs H] merkle_root_none [OF assms(1)] assms(1) by auto
  have "climb H (merkle_branch_of H xs i) i (xs ! i) = r"
    using climb_path [OF assms(2), of H "merkle_depth (length xs)"] div_rows [of "merkle_depth (length xs)" H xs i] assms(2) rows
    by (simp add: merkle_branch_of_def)
  moreover have "unat (word_of_nat i :: u64) = i"
    using assms(2,3) by (simp add: unat_of_nat)
  ultimately show ?thesis
    using merkle_prove_list [of "merkle_branch_of H xs i"] merkle_path_lengths [OF assms(4,5,2)]
    by (simp add: merkle_branch_of_def)
qed

section \<open>Soundness\<close>

lemma append_eq_32: "length a = 32 \<Longrightarrow> length c = 32 \<Longrightarrow> a @ b = c @ d \<longleftrightarrow> a = c \<and> b = d"
  by (auto simp: append_eq_append_conv)

lemma climb_sound:
  assumes "climb H nodes idx current = r" "(merkle_row H ^^ length nodes) xs = [r]"
    "inj_on H (set (climb_inputs H nodes idx current) \<union> set (tree_inputs H (length nodes) xs))"
    "\<And>bs. length (H bs) = 32" "\<forall>x\<in>set xs. length x = 32" "\<forall>x\<in>set nodes. length x = 32" "length current = 32"
  shows "current \<in> set xs \<and> (idx < length xs \<longrightarrow> current = xs ! idx)"
  using assms
proof (induction nodes arbitrary: idx current xs)
  case (Cons a rest)
  define joined where "joined = (if odd idx then a @ current else current @ a)"
  have H_joined: "H joined \<in> set (merkle_row H xs) \<and>
      (idx div 2 < length (merkle_row H xs) \<longrightarrow> H joined = merkle_row H xs ! (idx div 2))"
  proof (rule Cons.IH)
    show "climb H rest (idx div 2) (H joined) = r"
      using Cons.prems(1) by (simp add: joined_def if_distrib)
    show "inj_on H (set (climb_inputs H rest (idx div 2) (H joined)) \<union>
        set (tree_inputs H (length rest) (merkle_row H xs)))"
      using Cons.prems(3) by (rule inj_on_subset) (auto simp: joined_def Let_def)
    show "(merkle_row H ^^ length rest) (merkle_row H xs) = [r]"
      using Cons.prems(2) by (simp add: funpow_swap1)
  qed (use Cons.prems in \<open>auto simp: merkle_row_map\<close>)
  have joined_in: "joined \<in> set (climb_inputs H (a # rest) idx current)"
    by (simp add: joined_def Let_def)
  have unhash: "joined = p" if "p \<in> set (row_inputs xs)" "H joined = H p" for p
    using Cons.prems(3) joined_in that by (auto dest: inj_onD)
  obtain p where p: "p \<in> set (row_inputs xs)" "joined = p"
    using H_joined unhash by (auto simp: merkle_row_map)
  then obtain x y where xy: "x \<in> set xs" "y \<in> set xs" "joined = x @ y"
    using row_inputs_set by blast
  have "current \<in> set xs"
    using xy Cons.prems(5-7) by (auto simp: joined_def append_eq_32 split: if_splits)
  moreover have "current = xs ! idx" if idx: "idx < length xs"
  proof -
    have "joined = row_inputs xs ! (idx div 2)"
      using idx H_joined by (intro unhash) (auto simp: merkle_row_map)
    then have "joined = xs ! (2 * (idx div 2)) @ xs ! min (2 * (idx div 2) + 1) (length xs - 1)"
      using idx by (simp add: row_inputs_nth)
    then show ?thesis
      using idx Cons.prems(5-7) by (auto simp: joined_def append_eq_32 min_def elim!: oddE evenE split: if_splits)
  qed
  ultimately show ?case by blast
qed simp

section \<open>The format of inputs and outputs\<close>

text \<open>What a transaction that fits into memory has: hashes of 32 bytes and lists shorter than \<open>2 ^ 64\<close> bytes.\<close>

definition spv_fits :: "btc_transaction \<Rightarrow> bool" where
  "spv_fits tx \<longleftrightarrow>
     tx_inputs tx \<noteq> [] \<and> tx_outputs tx \<noteq> [] \<and> (\<forall>i\<in>set (tx_inputs tx). out_point_ok (ti_previous_output i)) \<and>
     length (ser_list ser_input (tx_inputs tx)) < 2 ^ 64 \<and> length (ser_list ser_output (tx_outputs tx)) < 2 ^ 64"

lemma determine_input_length_ser:
  assumes "out_point_ok (ti_previous_output x)"
  shows "determine_input_length (ser_input x @ rest) = Inr (word_of_nat (length (ser_input x)))"
proof -
  let ?script = "ser_Bytes (ti_script_sig x)"
  have split: "ser_input x @ rest = ser_out_point (ti_previous_output x) @
      ser_compact (word_of_nat (length (ti_script_sig x))) @ ti_script_sig x @ ser_u32 (ti_sequence x) @ rest"
    by (simp add: ser_input_def ser_Bytes_def)
  have point: "length (ser_out_point (ti_previous_output x)) = 36"
    using assms by (simp add: ser_out_point_def out_point_ok_def ser_hash_def)
  have "length (ser_input x) = 40 + compact_serialized_length (word_of_nat (length (ti_script_sig x))) + length (ti_script_sig x)"
    using point by (simp add: ser_input_def ser_Bytes_def ser_compact_length)
  moreover have "37 \<le> length (ser_input x)"
    using calculation by simp
  moreover have "drop 36 (ser_input x @ rest) =
      ser_compact (word_of_nat (length (ti_script_sig x))) @ ti_script_sig x @ ser_u32 (ti_sequence x) @ rest"
    using point unfolding split by simp
  ultimately show ?thesis
    by (simp add: determine_input_length_def)
qed

lemma determine_output_length_ser:
  "determine_output_length (ser_output x @ rest) = Inr (word_of_nat (length (ser_output x)))"
proof -
  have "length (ser_output x) =
      8 + compact_serialized_length (word_of_nat (length (xo_script_pubkey x))) + length (xo_script_pubkey x)"
    by (simp add: ser_output_def ser_Bytes_def ser_compact_length)
  moreover have "\<not> length (ser_output x @ rest) < 9"
    using calculation by (simp add: compact_serialized_length_def)
  moreover have "drop 8 (ser_output x @ rest) =
      ser_compact (word_of_nat (length (xo_script_pubkey x))) @ xo_script_pubkey x @ rest"
    by (simp add: ser_output_def ser_Bytes_def)
  ultimately show ?thesis
    by (simp add: determine_output_length_def)
qed

lemma walk_items_ser:
  assumes "\<And>x rest. x \<in> set xs \<Longrightarrow> item_length (ser x @ rest) = Inr (word_of_nat (length (ser x)))"
    "\<And>x. x \<in> set xs \<Longrightarrow> ser x \<noteq> []"
    "length (before @ concat (map ser xs)) < 2 ^ 64"
  shows "walk_items item_length (before @ concat (map ser xs)) (length xs) (word_of_nat (length before)) =
    Some (word_of_nat (length (before @ concat (map ser xs))))"
  using assms
proof (induction xs arbitrary: before)
  case (Cons x xs)
  have "unat (word_of_nat (length before) :: u64) = length before"
    using Cons.prems(3) by (simp add: unat_of_nat)
  then show ?case
    using Cons.IH [of "before @ ser x"] Cons.prems by simp
qed simp

lemma concat_nonempty_length:
  "(\<And>x. x \<in> set xs \<Longrightarrow> ser x \<noteq> []) \<Longrightarrow> length xs \<le> length (concat (map ser xs))"
proof (induction xs)
  case (Cons x xs)
  then have "ser x \<noteq> []" "length xs \<le> length (concat (map ser xs))" by auto
  then show ?case by (cases "ser x") auto
qed simp

lemma ser_item_nonempty [simp]: "ser_input x \<noteq> []" "ser_output y \<noteq> []"
  by (simp_all add: ser_input_def ser_output_def ser_Bytes_def)

lemma validate_items_ser:
  assumes "\<And>x rest. x \<in> set xs \<Longrightarrow> item_length (ser x @ rest) = Inr (word_of_nat (length (ser x)))"
    "\<And>x. x \<in> set xs \<Longrightarrow> ser x \<noteq> []" "xs \<noteq> []" "length (ser_list ser xs) < 2 ^ 64"
  shows "validate_items item_length (ser_list ser xs)"
proof -
  let ?n = "word_of_nat (length xs) :: u64"
  have "length xs \<le> length (concat (map ser xs))"
    using assms(2) by (rule concat_nonempty_length)
  then have n: "unat ?n = length xs"
    using assms(4) by (simp add: ser_list_def unat_of_nat)
  then have "?n \<noteq> 0" using assms(3) by (auto simp: word_unat_eq_iff)
  moreover have "unat (word_of_nat (length (ser_list ser xs)) :: u64) = length (ser_list ser xs)"
    using assms(4) by (simp add: unat_of_nat del: of_nat_add)
  moreover have "walk_items item_length (ser_list ser xs) (length xs) (word_of_nat (compact_serialized_length ?n)) =
      Some (word_of_nat (length (ser_list ser xs)))"
    using walk_items_ser [of xs item_length ser "ser_compact ?n", OF assms(1,2)] assms(4)
    by (simp add: ser_list_def ser_compact_length)
  moreover have "parse_compact_int (ser_list ser xs) = Inr ?n"
    by (simp add: ser_list_def)
  ultimately show ?thesis
    using n by (simp add: validate_items_def)
qed

lemma validate_vin_ser:
  "\<lbrakk>\<forall>x\<in>set xs. out_point_ok (ti_previous_output x); xs \<noteq> []; length (ser_list ser_input xs) < 2 ^ 64\<rbrakk> \<Longrightarrow>
     validate_vin (ser_list ser_input xs)"
  unfolding validate_vin_def
  by (rule validate_items_ser) (simp_all add: determine_input_length_ser)

lemma validate_vout_ser:
  "\<lbrakk>xs \<noteq> []; length (ser_list ser_output xs) < 2 ^ 64\<rbrakk> \<Longrightarrow> validate_vout (ser_list ser_output xs)"
  unfolding validate_vout_def
  by (rule validate_items_ser) (simp_all add: determine_output_length_ser)

section \<open>What a verified payment is\<close>

lemma spv_proof_validate_ser:
  assumes "spv_fits tx"
  shows "validate_spv_proof H sha256 tx (Some (branch, h, height)) =
    (case merkle_prove H (tx_hash H sha256 tx) (bh_merkle_root_hash h) (map rev (mb_merkle branch)) (mb_pos branch) of
       Inl e \<Rightarrow> Inl e
     | Inr _ \<Rightarrow> Inr \<lparr>ct_tx = tx, ct_header = h, ct_index = mb_pos branch, ct_height = height\<rparr>)"
proof -
  have "validate_vin (ser_list ser_input (tx_inputs tx))" "validate_vout (ser_list ser_output (tx_outputs tx))"
    "tx_outputs tx \<noteq> []"
    using assms by (auto simp: spv_fits_def intro!: validate_vin_ser validate_vout_ser)
  then show ?thesis
    by (simp add: validate_spv_proof_def spv_proof_validate_def split: sum.split unit.split)
qed

lemma spv_proof_validate_Inr:
  "spv_proof_validate H h p = Inr () \<longleftrightarrow>
     validate_vin (sp_vin p) \<and> validate_vout (sp_vout p) \<and>
     merkle_prove H (sp_tx_id p) (bh_merkle_root_hash h) (sp_intermediate_nodes p) (sp_index p) = Inr ()"
  by (simp add: spv_proof_validate_def)

lemma validate_spv_proof_Inr:
  assumes "validate_spv_proof H sha256 tx (Some (branch, h, height)) = Inr info"
  shows "merkle_prove H (tx_hash H sha256 tx) (bh_merkle_root_hash h) (map rev (mb_merkle branch)) (mb_pos branch) = Inr () \<and>
    ct_tx info = tx \<and> ct_header info = h"
proof -
  define p where "p = \<lparr>sp_tx_id = tx_hash H sha256 tx, sp_vin = ser_list ser_input (tx_inputs tx),
    sp_vout = ser_list ser_output (tx_outputs tx), sp_index = mb_pos branch,
    sp_intermediate_nodes = map rev (mb_merkle branch)\<rparr>"
  have "spv_proof_validate H h p = Inr () \<and> ct_tx info = tx \<and> ct_header info = h"
    using assms by (cases "spv_proof_validate H h p") (auto simp: validate_spv_proof_def p_def Let_def split: if_splits)
  then show ?thesis
    by (simp add: spv_proof_validate_Inr p_def)
qed

lemma tx_hash_length: "(\<And>bs. length (H bs) = 32) \<Longrightarrow> (\<And>bs. length (sha256 bs) = 32) \<Longrightarrow> length (tx_hash H sha256 tx) = 32"
  by (simp add: tx_hash_def split: tx_hash_algo.split)

definition branch_answer :: "(bytes \<Rightarrow> bytes) \<Rightarrow> (bytes \<Rightarrow> bytes) \<Rightarrow> btc_transaction list \<Rightarrow> nat \<Rightarrow> u64 \<Rightarrow> tx_merkle_branch" where
  "branch_answer H sha256 txs i height =
     \<lparr>mb_merkle = map rev (merkle_branch_of H (map (tx_hash H sha256) txs) i), mb_block_height = height,
      mb_pos = word_of_nat i\<rparr>"

text \<open>
  Every transaction of a block is verified: with the header whose Merkle root is that of the transactions, and the
  branch that an honest server answers, \<open>validate_spv_proof\<close> accepts the transaction and gives its place.
\<close>

theorem spv_verifies_block_transactions:
  assumes "block_merkle_root H sha256 txs = Some (bh_merkle_root_hash h)" "i < length txs" "length txs < 2 ^ 64"
    "spv_fits (txs ! i)" "\<And>bs. length (H bs) = 32" "\<And>bs. length (sha256 bs) = 32"
  shows "validate_spv_proof H sha256 (txs ! i) (Some (branch_answer H sha256 txs i height, h, height)) =
    Inr \<lparr>ct_tx = txs ! i, ct_header = h, ct_index = word_of_nat i, ct_height = height\<rparr>"
proof -
  let ?ids = "map (tx_hash H sha256) txs"
  have "merkle_prove H (?ids ! i) (bh_merkle_root_hash h) (merkle_branch_of H ?ids i) (word_of_nat i) = Inr ()"
    by (rule merkle_branch_proves) (use assms tx_hash_length in \<open>auto simp: block_merkle_root_def\<close>)
  then show ?thesis
    using assms(2,4) by (simp add: spv_proof_validate_ser branch_answer_def comp_def)
qed

text \<open>
  C22. What a proof shows: an accepted proof of \<open>d\<close> nodes, \<open>d\<close> not one and at most the depth of the tree, means that the
  transaction identifier is a node of the tree \<open>d\<close> rows below the root, at the claimed index when that index
  exists in the row. Nothing is assumed of the hash function but that it has no collision among the strings that
  are hashed for the tree and for the proof.
\<close>

theorem spv_proof_sound:
  assumes "validate_spv_proof H sha256 tx (Some (branch, h, height)) = Inr info"
    "merkle_root H ids = Some (bh_merkle_root_hash h)"
    "length (mb_merkle branch) = d" "d \<noteq> 1" "d \<le> merkle_depth (length ids)"
    "row = (merkle_row H ^^ (merkle_depth (length ids) - d)) ids"
    "inj_on H (set (climb_inputs H (map rev (mb_merkle branch)) (unat (mb_pos branch)) (tx_hash H sha256 tx)) \<union>
       set (tree_inputs H d row))"
    "\<And>bs. length (H bs) = 32" "\<And>bs. length (sha256 bs) = 32"
    "\<forall>x\<in>set ids. length x = 32" "\<forall>x\<in>set (mb_merkle branch). length x = 32"
  shows "tx_hash H sha256 tx \<in> set row \<and>
    (unat (mb_pos branch) < length row \<longrightarrow> tx_hash H sha256 tx = row ! unat (mb_pos branch)) \<and>
    ct_tx info = tx \<and> ct_header info = h"
proof -
  let ?nodes = "map rev (mb_merkle branch)" and ?id = "tx_hash H sha256 tx"
  have info: "merkle_prove H ?id (bh_merkle_root_hash h) ?nodes (mb_pos branch) = Inr ()"
    "ct_tx info = tx" "ct_header info = h"
    using validate_spv_proof_Inr [OF assms(1)] by simp_all
  have "(merkle_row H ^^ merkle_depth (length ids)) ids = [bh_merkle_root_hash h]"
    using merkle_root_rows [of ids H] merkle_root_none [OF assms(2)] assms(2) by auto
  moreover have "merkle_row H ^^ d \<circ> merkle_row H ^^ (merkle_depth (length ids) - d) = merkle_row H ^^ merkle_depth (length ids)"
    using assms(5) by (simp flip: funpow_add)
  ultimately have top: "(merkle_row H ^^ length ?nodes) row = [bh_merkle_root_hash h]"
    using assms(3,6) by (metis comp_apply length_map)
  have "\<forall>x\<in>set row. length x = 32"
    unfolding assms(6) by (cases "merkle_depth (length ids) - d") (auto simp: merkle_row_map assms(8,10))
  note row = this
  have nodes: "\<forall>x\<in>set ?nodes. length x = 32"
    using assms(11) by simp
  have climbed: "climb H ?nodes (unat (mb_pos branch)) ?id = bh_merkle_root_hash h"
    using info(1) assms(3,4) unfolding merkle_prove_list [OF nodes] by (simp split: if_splits)
  have inj: "inj_on H (set (climb_inputs H ?nodes (unat (mb_pos branch)) ?id) \<union> set (tree_inputs H (length ?nodes) row))"
    using assms(7) unfolding length_map assms(3) .
  from climb_sound [OF climbed top inj assms(8) row nodes tx_hash_length [OF assms(8,9)]] info(2,3) show ?thesis by simp
qed

text \<open>
  C38. A branch of one node is accepted for every transaction and every header: \<open>verify_hash256_merkle\<close> returns before it
  hashes anything when the proof has one node.
\<close>

theorem one_node_proof_accepted:
  assumes "spv_fits tx" "length node = 32"
  shows "validate_spv_proof H sha256 tx (Some (\<lparr>mb_merkle = [node], mb_block_height = height, mb_pos = pos\<rparr>, h, height)) =
    Inr \<lparr>ct_tx = tx, ct_header = h, ct_index = pos, ct_height = height\<rparr>"
  using assms by (simp add: spv_proof_validate_ser merkle_prove_list)

section \<open>A block of three transactions\<close>

text \<open>A hash of 32 bytes that is easy to compute: the sum of the bytes, each times its place.\<close>

fun weigh :: "u8 \<Rightarrow> bytes \<Rightarrow> u8" where
  "weigh n [] = 0"
| "weigh n (b # bs) = n * b + weigh (n + 1) bs"

definition toy_hash :: "bytes \<Rightarrow> bytes" where
  "toy_hash bs = weigh 1 bs # replicate 31 0"

lemma toy_hash_length [simp]: "length (toy_hash bs) = 32"
  by (simp add: toy_hash_def)

definition block_tx :: "u32 \<Rightarrow> btc_transaction" where
  "block_tx lock_time = sample_tx\<lparr>tx_inputs := [sample_input\<lparr>ti_sequence := 0\<rparr>], tx_lock_time := lock_time\<rparr>"

definition sample_block :: "btc_transaction list" where
  "sample_block = [block_tx 9, block_tx 10, block_tx 11]"

definition sample_ids :: "bytes list" where
  "sample_ids = map (tx_hash toy_hash toy_hash) sample_block"

definition sample_header :: block_header where
  "sample_header = plain_header 1 (replicate 32 0) (68 # replicate 31 0) 100 0x1d00ffff None"

lemma sample_ids_eval:
  "sample_ids = [166 # replicate 31 0, 226 # replicate 31 0, 30 # replicate 31 0]"
  by code_simp

lemma sample_depth: "merkle_depth (length sample_ids) = 2"
  by (simp add: sample_ids_eval merkle_depth_step)

lemma sample_root: "merkle_root toy_hash sample_ids = Some (bh_merkle_root_hash sample_header)"
proof -
  have "(merkle_row toy_hash ^^ 2) sample_ids = [bh_merkle_root_hash sample_header]"
    unfolding sample_ids_eval by code_simp
  moreover have "sample_ids \<noteq> []"
    by (simp add: sample_ids_eval)
  ultimately show ?thesis
    using merkle_root_rows [of sample_ids toy_hash] unfolding sample_depth by auto
qed

lemma sample_fits: "spv_fits (block_tx 11)"
  by (simp add: spv_fits_def block_tx_def sample_tx_def sample_input_def out_point_ok_def ser_list_def ser_input_def ser_output_def
      ser_out_point_def ser_hash_def ser_Bytes_def ser_compact_length compact_serialized_length_def)

theorem spv_verifies_block_transactions_witness:
  "validate_spv_proof toy_hash toy_hash (block_tx 11) (Some (branch_answer toy_hash toy_hash sample_block 2 5, sample_header, 5)) =
    Inr \<lparr>ct_tx = block_tx 11, ct_header = sample_header, ct_index = 2, ct_height = 5\<rparr>"
  using spv_verifies_block_transactions [of toy_hash toy_hash sample_block sample_header 2 5] sample_root sample_fits
  by (simp add: block_merkle_root_def sample_ids_def sample_block_def)

theorem one_node_proof_accepted_witness:
  "validate_spv_proof toy_hash toy_hash (block_tx 11)
     (Some (\<lparr>mb_merkle = [replicate 32 1], mb_block_height = 5, mb_pos = 7\<rparr>, sample_header, 5)) =
    Inr \<lparr>ct_tx = block_tx 11, ct_header = sample_header, ct_index = 7, ct_height = 5\<rparr>"
  using one_node_proof_accepted [OF sample_fits, of "replicate 32 1"] by simp

lemma sample_branch:
  "map rev (mb_merkle (branch_answer toy_hash toy_hash sample_block 2 5)) = [30 # replicate 31 0, 200 # replicate 31 0]"
  by code_simp

lemma sample_inputs:
  "climb_inputs toy_hash [30 # replicate 31 0, 200 # replicate 31 0] 2 (30 # replicate 31 0) =
     [(30 # replicate 31 0) @ (30 # replicate 31 0), (200 # replicate 31 0) @ (252 # replicate 31 0)]"
  "tree_inputs toy_hash 2 sample_ids =
     [(166 # replicate 31 0) @ (226 # replicate 31 0), (30 # replicate 31 0) @ (30 # replicate 31 0),
      (200 # replicate 31 0) @ (252 # replicate 31 0)]"
  unfolding sample_ids_eval by code_simp+

lemma toy_no_collision:
  "inj_on toy_hash {(30 # replicate 31 0) @ (30 # replicate 31 0), (200 # replicate 31 0) @ (252 # replicate 31 0),
     (166 # replicate 31 0) @ (226 # replicate 31 0)}"
  by code_simp

lemma sample_tx_id: "tx_hash toy_hash toy_hash (block_tx 11) = 30 # replicate 31 0"
  by code_simp

theorem spv_proof_sound_witness:
  "tx_hash toy_hash toy_hash (block_tx 11) \<in> set sample_ids \<and> tx_hash toy_hash toy_hash (block_tx 11) = sample_ids ! 2"
proof -
  let ?branch = "branch_answer toy_hash toy_hash sample_block 2 5"
    and ?info = "\<lparr>ct_tx = block_tx 11, ct_header = sample_header, ct_index = 2, ct_height = 5\<rparr>"
  have accepted: "validate_spv_proof toy_hash toy_hash (block_tx 11) (Some (?branch, sample_header, 5)) = Inr ?info"
    using merkle_branch_proves [OF sample_root, of 2] sample_tx_id
    by (simp add: spv_proof_validate_ser [OF sample_fits] branch_answer_def comp_def sample_ids_eval flip: sample_ids_def)
  have pos: "unat (mb_pos ?branch) = 2" and nodes: "length (mb_merkle ?branch) = 2"
    and lengths: "\<forall>x\<in>set (mb_merkle ?branch). length x = 32"
    using arg_cong [OF sample_branch, of length] arg_cong [OF sample_branch, of "\<lambda>xs. \<forall>x\<in>set xs. length x = 32"]
    by (simp_all add: branch_answer_def)
  have "inj_on toy_hash (set (climb_inputs toy_hash (map rev (mb_merkle ?branch)) (unat (mb_pos ?branch))
      (tx_hash toy_hash toy_hash (block_tx 11))) \<union> set (tree_inputs toy_hash 2 sample_ids))"
    unfolding sample_branch sample_tx_id pos sample_inputs by (rule inj_on_subset [OF toy_no_collision]) auto
  then show ?thesis
    using spv_proof_sound [OF accepted sample_root nodes, of sample_ids] sample_depth pos lengths
    by (simp add: sample_ids_eval)
qed

end
