(* ===== verification/DifficultyProps.thy ===== *)
theory DifficultyProps
  imports MerkleProps
begin

text \<open>
  Compact targets and the difficulty: the compact form of a target is its largest approximation from below with 15 bits of
  precision, and a retarget keeps the new target within a factor of four of the old one and below the limit.
\<close>

section \<open>Compact targets\<close>

lemma floorlog2_bounds:
  assumes "0 < v"
  shows "2 ^ (floorlog 2 v - 1) \<le> v" "v < 2 ^ floorlog 2 v" "0 < floorlog 2 v"
  using floorlog_bounds [of v 2] floorlog_eq_zero_iff [of 2 v] assms by auto

text \<open>The number of bytes of a positive number.\<close>

lemma byte_size_bounds:
  assumes "0 < v" "n = (floorlog 2 v + 7) div 8"
  shows "256 ^ (n - 1) \<le> v" "v < 256 ^ n" "0 < n"
proof -
  have 256: "(256 :: nat) ^ k = 2 ^ (8 * k)" for k by (simp add: power_mult)
  have "8 * (n - 1) \<le> floorlog 2 v - 1" "floorlog 2 v \<le> 8 * n" and n: "0 < n"
    using assms floorlog2_bounds(3) [OF assms(1)] by auto
  then have "(2 :: nat) ^ (8 * (n - 1)) \<le> 2 ^ (floorlog 2 v - 1)" "(2 :: nat) ^ floorlog 2 v \<le> 2 ^ (8 * n)"
    by (auto intro: power_increasing)
  with floorlog2_bounds(1,2) [OF assms(1)] show "256 ^ (n - 1) \<le> v" "v < 256 ^ n"
    unfolding 256 by (blast intro: order.trans less_le_trans)+
  show "0 < n" by (fact n)
qed

lemma byte_size_le_32: "v < 2 ^ 256 \<Longrightarrow> (floorlog 2 v + 7) div 8 \<le> 32"
proof (cases "v = 0")
  case False
  assume "v < 2 ^ 256"
  moreover have "256 ^ ((floorlog 2 v + 7) div 8 - 1) \<le> v"
    using byte_size_bounds(1) [of v] False by simp
  ultimately have "(256 :: nat) ^ ((floorlog 2 v + 7) div 8 - 1) < 256 ^ 32" by simp
  then have "(floorlog 2 v + 7) div 8 - 1 < 32" by (subst (asm) power_strict_increasing_iff) auto
  then show ?thesis by simp
qed (simp add: floorlog_def)

text \<open>The value of a mantissa \<open>m\<close> and a size \<open>n\<close>, put together the way \<open>from_u256\<close> does.\<close>

lemma compact_parts:
  assumes "m < 2 ^ 23" "n < 256"
  shows "unat (word_of_nat (m + n * 2 ^ 24) :: u32) div 2 ^ 24 = n" "unat (word_of_nat (m + n * 2 ^ 24) :: u32) mod 2 ^ 23 = m"
    "even (unat (word_of_nat (m + n * 2 ^ 24) :: u32) div 2 ^ 23)"
proof -
  let ?w = "word_of_nat (m + n * 2 ^ 24) :: u32"
  have w: "unat ?w = m + n * 2 ^ 24"
    using assms by (simp add: unat_of_nat del: of_nat_add of_nat_mult)
  have w2: "m + n * 2 ^ 24 = m + (n * 2) * 2 ^ 23" by simp
  show "unat ?w div 2 ^ 24 = n"
    unfolding w using assms by (subst div_mult_self1) auto
  show "unat ?w mod 2 ^ 23 = m"
    unfolding w using assms unfolding w2 by (subst mod_mult_self1) auto
  show "even (unat ?w div 2 ^ 23)"
    unfolding w using assms unfolding w2 by (subst div_mult_self1) auto
qed

lemma compact_to_u256_small:
  assumes "m < 2 ^ 23" "n \<le> 3"
  shows "compact_to_u256 (word_of_nat (m + n * 2 ^ 24)) = Inr (m div 256 ^ (3 - n))"
proof -
  have "m div 256 ^ (3 - n) \<le> m" by simp
  then show ?thesis
    using assms compact_parts [of m n] by (simp add: compact_to_u256_def Let_def power_mult del: of_nat_add of_nat_mult)
qed

lemma compact_to_u256_big:
  assumes "m < 2 ^ 23" "3 < n" "n \<le> 33" "m < 2 ^ 16 \<or> n \<le> 32"
  shows "compact_to_u256 (word_of_nat (m + n * 2 ^ 24)) = Inr (m * 256 ^ (n - 3))"
proof -
  have "m * 256 ^ (n - 3) < 2 ^ 256"
  proof (cases "n \<le> 32")
    case True
    then have "(256 :: nat) ^ (n - 3) \<le> 256 ^ 29" by (intro power_increasing) auto
    then have "m * 256 ^ (n - 3) \<le> 2 ^ 23 * 256 ^ 29" using assms(1) by (intro mult_mono) auto
    also have "\<dots> < (2 :: nat) ^ 256" by simp
    finally show ?thesis .
  next
    case False
    then have "n = 33" "m < 2 ^ 16" using assms by auto
    then show ?thesis by simp
  qed
  then show ?thesis
    using assms compact_parts [of m n] by (auto simp: compact_to_u256_def Let_def power_mult simp del: of_nat_add of_nat_mult)
qed

lemma div_approx:
  fixes v :: nat
  assumes "2 ^ 15 \<le> v div b" "0 < b"
  shows "v div b * b \<le> v" "(v - v div b * b) * 2 ^ 15 \<le> v div b * b"
proof -
  have "v - v div b * b < b" using assms(2) by (simp add: minus_div_mult_eq_mod)
  then have "(v - v div b * b) * 2 ^ 15 \<le> b * (v div b)"
    using assms(1) by (intro mult_mono) auto
  then show "v div b * b \<le> v" "(v - v div b * b) * 2 ^ 15 \<le> v div b * b" by (auto simp: mult.commute)
qed

definition close_below :: "nat \<Rightarrow> nat \<Rightarrow> bool" where
  "close_below t v \<longleftrightarrow> t \<le> v \<and> (v - t) * 2 ^ 15 \<le> t"

lemma close_below_self [simp]: "close_below v v"
  by (simp add: close_below_def)

lemma sign_bit_iff:
  assumes "(m :: nat) < 2 ^ 24"
  shows "odd (m div 2 ^ 23) \<longleftrightarrow> 2 ^ 23 \<le> m"
proof (cases "2 ^ 23 \<le> m")
  case True
  then have "m div 2 ^ 23 = 1" using assms by (intro div_nat_eqI) auto
  then show ?thesis using True by simp
qed simp

lemma compact_from_u256_big:
  assumes "3 < n" "n \<le> 32" "n = (floorlog 2 v + 7) div 8" "0 < v"
  shows "\<exists>c t. compact_from_u256 v = Some c \<and> compact_to_u256 c = Inr t \<and> close_below t v"
proof -
  let ?b = "256 ^ (n - 3) :: nat"
  have 256: "(2 :: nat) ^ (8 * k) = 256 ^ k" for k by (simp add: power_mult)
  have size: "256 ^ (n - 1) \<le> v" "v < 256 ^ n" using byte_size_bounds [OF assms(4,3)] by auto
  obtain k where k: "n = k + 3" using assms(1) by (metis less_imp_le_nat le_add_diff_inverse2)
  have "256 ^ (n - 1) = 2 ^ 16 * ?b" "256 ^ n = 2 ^ 24 * ?b"
    by (simp_all add: k power_add)
  then have m: "2 ^ 16 \<le> v div ?b" "v div ?b < 2 ^ 24"
    using size by (simp_all add: less_eq_div_iff_mult_less_eq div_less_iff_less_mult mult.commute)
  show ?thesis
  proof (cases "odd (v div ?b div 2 ^ 23)")
    case False
    then have "v div ?b < 2 ^ 23" unfolding sign_bit_iff [OF m(2)] by simp
    then have "compact_from_u256 v = Some (word_of_nat (v div ?b + n * 2 ^ 24))"
      using assms False by (simp add: compact_from_u256_def Let_def 256 del: of_nat_add of_nat_mult)
    then show ?thesis
      using compact_to_u256_big [of "v div ?b" n] assms div_approx [of v ?b] m \<open>v div ?b < 2 ^ 23\<close>
      by (auto simp: close_below_def)
  next
    case True
    let ?B = "256 * ?b"
    have B: "v div ?b div 256 = v div ?B" by (metis div_mult2_eq mult.commute)
    have "2 ^ 23 \<le> v div ?b" using True unfolding sign_bit_iff [OF m(2)] .
    then have big: "2 ^ 15 \<le> v div ?B" "v div ?B < 2 ^ 16"
      using m(2) unfolding B [symmetric] by (simp_all add: less_eq_div_iff_mult_less_eq div_less_iff_less_mult)
    then have "compact_from_u256 v = Some (word_of_nat (v div ?B + (n + 1) * 2 ^ 24))"
      using assms True m(2) B by (simp add: compact_from_u256_def Let_def 256 del: of_nat_add of_nat_mult)
    moreover have "256 ^ (n + 1 - 3) = ?B"
      using assms(1) by (simp add: Suc_diff_le flip: power_Suc)
    moreover have "compact_to_u256 (word_of_nat (v div ?B + (n + 1) * 2 ^ 24)) = Inr (v div ?B * 256 ^ (n + 1 - 3))"
      using assms big by (intro compact_to_u256_big) auto
    moreover have "close_below (v div ?B * ?B) v"
      unfolding close_below_def using div_approx [OF big(1)] by simp
    ultimately show ?thesis by metis
  qed
qed

lemma compact_from_u256_small:
  assumes "n \<le> 3" "n = (floorlog 2 v + 7) div 8" "0 < v"
  shows "\<exists>c t. compact_from_u256 v = Some c \<and> compact_to_u256 c = Inr t \<and> close_below t v"
proof -
  let ?m = "v * 256 ^ (3 - n)"
  have 256: "(2 :: nat) ^ (8 * k) = 256 ^ k" for k by (simp add: power_mult)
  have size: "v < 256 ^ n" "0 < n" using byte_size_bounds [OF assms(3,2)] by auto
  have "?m < 256 ^ n * 256 ^ (3 - n)" using size by simp
  also have "\<dots> = 2 ^ 24" using assms(1) by (simp flip: power_add)
  finally have m: "?m < 2 ^ 24" .
  have "v \<le> ?m" by simp
  then have "v < 2 ^ 24" using m by (rule le_less_trans)
  then have v: "?m mod 2 ^ 32 = ?m" "v mod 2 ^ 64 = v" using m by simp_all
  show ?thesis
  proof (cases "odd (?m div 2 ^ 23)")
    case False
    then have sign: "?m < 2 ^ 23" unfolding sign_bit_iff [OF m] by simp
    have "compact_from_u256 v = Some (word_of_nat (?m + n * 2 ^ 24))"
      unfolding compact_from_u256_def assms(2) [symmetric] Let_def 256
      using v assms(1) False sign by (simp del: of_nat_add of_nat_mult)
    then show ?thesis
      using compact_to_u256_small [OF sign assms(1)] by auto
  next
    case True
    then have sign: "2 ^ 23 \<le> ?m" unfolding sign_bit_iff [OF m] .
    have high: "2 ^ 15 \<le> ?m div 256" "?m div 256 < 2 ^ 16"
      using sign m by (simp_all add: less_eq_div_iff_mult_less_eq div_less_iff_less_mult)
    have "compact_from_u256 v = Some (word_of_nat (?m div 256 + (n + 1) * 2 ^ 24))"
      unfolding compact_from_u256_def assms(2) [symmetric] Let_def 256
      using v assms(1) True high(2) by (simp del: of_nat_add of_nat_mult)
    moreover have "\<exists>t. compact_to_u256 (word_of_nat (?m div 256 + (n + 1) * 2 ^ 24)) = Inr t \<and> close_below t v"
    proof (cases "n = 3")
      case True
      then show ?thesis
        using compact_to_u256_big [of "?m div 256" "n + 1"] div_approx [of v 256] high by (auto simp: close_below_def)
    next
      case False
      then obtain k where k: "3 - n = Suc k" "3 - (n + 1) = k" using assms(1) size(2) by (cases "3 - n") auto
      then show ?thesis
        using compact_to_u256_small [of "?m div 256" "n + 1"] high assms(1) False by auto
    qed
    ultimately show ?thesis by blast
  qed
qed

lemma compact_of_u256:
  assumes "v < 2 ^ 256"
  shows "\<exists>c t. compact_from_u256 v = Some c \<and> compact_to_u256 c = Inr t \<and> close_below t v"
proof (cases "v = 0")
  case True
  have "compact_from_u256 0 = Some 0" "compact_to_u256 0 = Inr 0"
    by (simp_all add: compact_from_u256_def compact_to_u256_def floorlog_def)
  then show ?thesis using True by auto
next
  case False
  then show ?thesis
    using compact_from_u256_small [OF _ refl, of v] compact_from_u256_big [OF _ _ refl, of v] byte_size_le_32 [OF assms]
    by (metis gr0I not_le)
qed

section \<open>Retargeting\<close>

lemmas work_constants = TARGET_TIMESPAN_SECONDS_def TARGET_SPACING_SECONDS_def RETARGETING_FACTOR_def RETARGETING_INTERVAL_def
  MIN_TIMESPAN_def MAX_TIMESPAN_def MAX_BITS_BTC_def

definition max_target :: nat where
  "max_target = 0xffff * 2 ^ 208"

lemma max_target_compact: "u256_from_compact MAX_BITS_BTC = max_target" "compact_to_u256 MAX_BITS_BTC = Inr max_target"
  by (simp_all add: u256_from_compact_def compact_to_u256_def work_constants max_target_def)

lemma work_numbers:
  "unat TARGET_TIMESPAN_SECONDS = 1209600" "unat RETARGETING_INTERVAL = 2016"
  "uint MIN_TIMESPAN = 302400" "uint MAX_TIMESPAN = 4838400"
  by (simp_all add: work_constants unat_div uint_div uint_word_ariths)

lemma retarget_timespan_bounds: "302400 \<le> unat (retarget_timespan a b)" "unat (retarget_timespan a b) \<le> 4838400"
proof -
  let ?t = "range_constrain (uint b - uint a) 302400 4838400"
  have t: "302400 \<le> ?t" "?t \<le> 4838400" by (simp_all add: range_constrain_def)
  have "unat (retarget_timespan a b) = nat ?t"
    unfolding retarget_timespan_def work_numbers
    using t by (simp add: unat_eq_nat_uint uint_word_of_int take_bit_int_eq_self)
  with t show "302400 \<le> unat (retarget_timespan a b)" "unat (retarget_timespan a b) \<le> 4838400" by auto
qed

lemma close_belowD: "close_below t v \<Longrightarrow> t \<le> v \<and> v \<le> t + t div 2 ^ 15"
proof -
  assume "close_below t v"
  then have "t \<le> v" "(v - t) * 2 ^ 15 \<le> t" by (auto simp: close_below_def)
  moreover from this have "v - t \<le> t div 2 ^ 15" by (simp add: less_eq_div_iff_mult_less_eq)
  ultimately show ?thesis by simp
qed

lemma retarget_product:
  assumes "old \<le> max_target" "302400 \<le> timespan" "timespan \<le> 4838400"
  shows "u256_mul old timespan = Some (old * timespan)" "old div 4 \<le> old * timespan div 1209600"
    "old * timespan div 1209600 \<le> 4 * old"
proof -
  have "old * timespan \<le> max_target * 4838400" using assms by (intro mult_mono) auto
  also have "\<dots> < 2 ^ 256" by (simp add: max_target_def)
  finally show "u256_mul old timespan = Some (old * timespan)" by (simp add: u256_mul_def)
  have "old * 302400 div 1209600 = old div 4" by simp
  moreover have "old * 302400 div 1209600 \<le> old * timespan div 1209600"
    using assms(2) by (intro div_le_mono mult_le_mono2)
  ultimately show "old div 4 \<le> old * timespan div 1209600" by (simp only:)
  have "old * timespan div 1209600 \<le> old * 4838400 div 1209600"
    using assms(3) by (intro div_le_mono mult_le_mono2)
  also have "\<dots> = 4 * old" by simp
  finally show "old * timespan div 1209600 \<le> 4 * old" .
qed

text \<open>
  C37. A retarget never panics and moves the target by a factor of four at most: from an old target within the limit
  \<open>btc_retarget_bits\<close> computes one that is valid, within the limit, at most four times the old one, and at least a
  quarter of it up to the precision of the compact form.
\<close>

theorem retarget_bounds:
  assumes "compact_to_u256 (bits_as_u32 (sh_bits prev)) = Inr old" "old \<le> max_target"
    "retarget_ref = sh_height prev + 1 - ucast RETARGETING_INTERVAL" "retarget_ref \<noteq> 0"
    "hs_get_block_header storage retarget_ref = Some (Inr (Some first))"
  shows "\<exists>c t. btc_retarget_bits H coin prev storage = Some (Inr (Bits_Compact c)) \<and> compact_to_u256 c = Inr t \<and>
    t \<le> max_target \<and> t \<le> 4 * old \<and> old div 4 \<le> t + t div 2 ^ 15"
proof -
  let ?ts = "unat (retarget_timespan (bh_time first) (sh_time prev))"
  let ?r = "old * ?ts div 1209600"
  have old: "u256_from_compact (bits_as_u32 (sh_bits prev)) = old"
    using assms(1) by (simp add: u256_from_compact_def)
  note product = retarget_product [OF assms(2) retarget_timespan_bounds]
  have bits: "btc_retarget_bits H coin prev storage =
      (if max_target < ?r then Some (Inr (Bits_Compact MAX_BITS_BTC))
       else map_option (\<lambda>c. Inr (Bits_Compact c)) (compact_from_u256 ?r))"
    using assms(3-5) by (simp add: btc_retarget_bits_def Let_def old product(1) work_numbers max_target_compact)
  show ?thesis
  proof (cases "max_target < ?r")
    case True
    then show ?thesis
      unfolding bits using product(3) [of "bh_time first" "sh_time prev"] max_target_compact(2) assms(2)
      by (intro exI [of _ MAX_BITS_BTC] exI [of _ max_target]) auto
  next
    case False
    then have "?r < 2 ^ 256" by (simp add: max_target_def)
    then obtain c t where c: "compact_from_u256 ?r = Some c" "compact_to_u256 c = Inr t" "close_below t ?r"
      using compact_of_u256 by blast
    then show ?thesis
      unfolding bits using close_belowD [OF c(3)] product(2,3) [of "bh_time first" "sh_time prev"] False
      by (intro exI [of _ c] exI [of _ t]) auto
  qed
qed

definition sample_storage :: header_storage where
  "sample_storage =
     \<lparr>hs_get_block_header = (\<lambda>height. Some (Inr (if height = 2016 then Some sample_header else None))),
      hs_get_last_with_non_max_bits = (\<lambda>_. Some (Inr None))\<rparr>"

definition sample_last :: spv_block_header where
  "sample_last = \<lparr>sh_height = 4031, sh_hash = replicate 32 1, sh_time = 5000, sh_bits = Bits_Compact 0x1b0404cb\<rparr>"

lemma sample_last_target: "compact_to_u256 (bits_as_u32 (sh_bits sample_last)) = Inr (0x0404cb * 2 ^ 192)"
  by (simp add: sample_last_def compact_to_u256_def)

theorem retarget_bounds_witness:
  "\<exists>c t. btc_retarget_bits toy_hash ''BTC'' sample_last sample_storage = Some (Inr (Bits_Compact c)) \<and> compact_to_u256 c = Inr t \<and>
    t \<le> max_target \<and> t \<le> 4 * (0x0404cb * 2 ^ 192) \<and> 0x0404cb * 2 ^ 192 div 4 \<le> t + t div 2 ^ 15"
proof -
  have target: "0x0404cb * 2 ^ 192 \<le> max_target" by (simp add: max_target_def)
  have ref: "2016 = sh_height sample_last + 1 - ucast RETARGETING_INTERVAL"
    by code_simp
  show ?thesis
    by (rule retarget_bounds [OF sample_last_target target ref, of _ sample_header]) (simp_all add: sample_storage_def)
qed

section \<open>Chains of headers\<close>

text \<open>The header before the \<open>i\<close>th one of a list.\<close>

definition header_before :: "(bytes \<Rightarrow> bytes) \<Rightarrow> spv_block_header \<Rightarrow> block_header list \<Rightarrow> nat \<Rightarrow> spv_block_header" where
  "header_before H start hs i =
     (if i = 0 then start else spv_header_from H (hs ! (i - 1)) (sh_height start + word_of_nat i))"

lemma header_before_Cons:
  "header_before H start (h # hs) (Suc i) = header_before H (spv_header_from H h (sh_height start + 1)) hs i"
  by (auto simp: header_before_def spv_header_from_def nth_Cons' add.assoc)

lemma validate_header_chain_iff:
  "validate_header_chain H coin storage conf start hs = Some (Inr ()) \<longleftrightarrow>
     (\<forall>i < length hs. bh_previous_header_hash (hs ! i) = sh_hash (header_before H start hs i) \<and>
        validate_header_bits H coin storage conf (header_before H start hs i) (hs ! i) = Some (Inr ()))"
proof (induction hs arbitrary: start)
  case (Cons h hs)
  have "validate_header_chain H coin storage conf start (h # hs) = Some (Inr ()) \<longleftrightarrow>
      bh_previous_header_hash h = sh_hash start \<and> validate_header_bits H coin storage conf start h = Some (Inr ()) \<and>
      validate_header_chain H coin storage conf (spv_header_from H h (sh_height start + 1)) hs = Some (Inr ())"
  proof (cases "validate_header_bits H coin storage conf start h")
    case (Some r)
    then show ?thesis by (cases r) auto
  qed auto
  also have "\<dots> \<longleftrightarrow> bh_previous_header_hash h = sh_hash start \<and> validate_header_bits H coin storage conf start h = Some (Inr ()) \<and>
      (\<forall>i < length hs. bh_previous_header_hash (hs ! i) = sh_hash (header_before H start (h # hs) (Suc i)) \<and>
        validate_header_bits H coin storage conf (header_before H start (h # hs) (Suc i)) (hs ! i) = Some (Inr ()))"
    unfolding Cons.IH header_before_Cons ..
  finally show ?case
    by (simp add: All_less_Suc2 header_before_def [of _ _ _ 0])
qed simp

lemma header_before_height: "sh_height (header_before H start hs i) = sh_height start + word_of_nat i"
  by (simp add: header_before_def spv_header_from_def)

text \<open>
  C39. Headers are accepted without work: between two retargets every list of headers that are linked by their hashes and
  repeat the difficulty bits passes \<open>validate_headers\<close> with the rules of Bitcoin. Nothing relates the hash of a header
  to the target that its bits stand for, \<open>InsufficientWork\<close> is the error for other bits than expected.
\<close>

theorem headers_accepted_without_work:
  assumes "start = cf_starting_block_header conf" "sh_height start \<noteq> 0" "unat (sh_height start) + length hs < 2 ^ 64"
    "cf_validation_params conf =
       Some \<lparr>vp_difficulty_check = True, vp_constant_difficulty = False, vp_difficulty_algorithm = Some BitcoinMainnet\<rparr>"
    "\<forall>i < length hs. bh_previous_header_hash (hs ! i) = sh_hash (header_before H start hs i)"
    "\<forall>i < length hs. bh_bits (hs ! i) = sh_bits start"
    "\<forall>i < length hs. \<not> is_retarget_height (sh_height start + word_of_nat (Suc i))"
  shows "validate_headers H coin (sh_height start) hs storage conf = Some (Inr ())"
proof -
  have "validate_header_bits H coin storage conf (header_before H start hs i) (hs ! i) = Some (Inr ())"
    if i: "i < length hs" for i
  proof -
    have "sh_bits (header_before H start hs i) = sh_bits start"
      using assms(6) i by (auto simp: header_before_def spv_header_from_def)
    moreover have "sh_height (header_before H start hs i) \<noteq> 0"
    proof -
      have "unat (sh_height start + word_of_nat i) = unat (sh_height start) + i"
        using assms(3) i by (simp add: unat_word_ariths unat_of_nat)
      then show ?thesis using assms(2) unfolding header_before_height by (simp add: word_unat_eq_iff)
    qed
    moreover have "\<not> is_retarget_height (sh_height (header_before H start hs i) + 1)"
      using assms(7) i unfolding header_before_height by (simp add: ac_simps)
    ultimately show ?thesis
      using assms(4,6) i by (simp add: validate_header_bits_def next_block_bits_def btc_mainnet_next_block_bits_def)
  qed
  then have "validate_header_chain H coin storage conf start hs = Some (Inr ())"
    using assms(5) validate_header_chain_iff by blast
  then show ?thesis using assms(1) by (simp add: validate_headers_def)
qed

definition work_conf :: spv_conf where
  "work_conf =
     \<lparr>cf_starting_block_header = \<lparr>sh_height = 2016, sh_hash = replicate 32 9, sh_time = 0, sh_bits = Bits_Compact 0x01010000\<rparr>,
      cf_max_stored_block_headers = None,
      cf_validation_params =
        Some \<lparr>vp_difficulty_check = True, vp_constant_difficulty = False, vp_difficulty_algorithm = Some BitcoinMainnet\<rparr>\<rparr>"

text \<open>The target of these bits is one.\<close>

theorem headers_accepted_without_work_witness:
  "compact_to_u256 0x01010000 = Inr 1 \<and>
   validate_headers toy_hash ''BTC'' 2016 [plain_header 1 (replicate 32 9) (replicate 32 8) 1 0x01010000 None] sample_storage work_conf =
     Some (Inr ())"
proof -
  have "validate_headers toy_hash ''BTC'' (sh_height (cf_starting_block_header work_conf))
      [plain_header 1 (replicate 32 9) (replicate 32 8) 1 0x01010000 None] sample_storage work_conf = Some (Inr ())"
    by (rule headers_accepted_without_work [OF refl])
      (simp_all add: work_conf_def plain_header_def header_before_def is_retarget_height_def work_constants unsigned_ucast_eq)
  then show ?thesis by (simp add: work_conf_def compact_to_u256_def)
qed

end
