(* ===== verification/HeaderSyncProps.thy ===== *)
theory HeaderSyncProps
  imports HeaderSync DifficultyProps
begin

text \<open>
  The headers that the loop stores: whatever servers answer, the table holds chains of headers that are linked by
  their hashes; the search for the point of a reorganisation ends with every server that answers no more
  headers than it is asked for; and a configuration that passes its check and cannot work.
\<close>

section \<open>Rows\<close>

definition row_prev :: "string \<Rightarrow> header_row \<Rightarrow> bytes" where
  "row_prev coin r =
     (case de_block_header (coin_variant_from coin) (hr_hex r) of Done h rest \<Rightarrow> bh_previous_header_hash h | _ \<Rightarrow> [])"

definition rows_linked :: "string \<Rightarrow> header_row set \<Rightarrow> bool" where
  "rows_linked coin rows \<longleftrightarrow>
     (\<forall>r\<in>rows. \<forall>r'\<in>rows. hr_height r' = hr_height r + 1 \<longrightarrow> row_prev coin r' = rev (hr_hash r))"

definition row_ok :: "sync_env \<Rightarrow> header_row \<Rightarrow> bool" where
  "row_ok env r \<longleftrightarrow>
     (\<exists>w h. r = row_of (se_H env) w h \<and> header_ok (coin_variant_from (se_ticker env)) h)"

definition start_row_ok :: "spv_conf \<Rightarrow> header_row \<Rightarrow> bool" where
  "start_row_ok conf r \<longleftrightarrow>
     uint (sh_height (cf_starting_block_header conf)) \<le> hr_height r \<and>
     (hr_height r = uint (sh_height (cf_starting_block_header conf)) \<longrightarrow>
        hr_hash r = rev (sh_hash (cf_starting_block_header conf)))"

definition table_ok :: "sync_env \<Rightarrow> spv_conf \<Rightarrow> header_row list \<Rightarrow> bool" where
  "table_ok env conf table \<longleftrightarrow>
     distinct (map hr_height table) \<and> rows_linked (se_ticker env) (set table) \<and>
     (\<forall>r\<in>set table. row_ok env r \<and> start_row_ok conf r)"

definition heights_below :: "int \<Rightarrow> header_row list \<Rightarrow> bool" where
  "heights_below n table \<longleftrightarrow> (\<forall>r\<in>set table. hr_height r < n)"

lemma rows_linked_subset: "rows_linked coin rows \<Longrightarrow> rows' \<subseteq> rows \<Longrightarrow> rows_linked coin rows'"
  unfolding rows_linked_def by blast

lemma distinct_map_filter_heights: "distinct (map hr_height table) \<Longrightarrow> distinct (map hr_height (filter P table))"
  by (induction table) auto

lemma table_ok_filter: "table_ok env conf table \<Longrightarrow> table_ok env conf (filter P table)"
  unfolding table_ok_def using rows_linked_subset [of "se_ticker env" "set table" "set (filter P table)"]
  by (auto simp: distinct_map_filter_heights)

lemma table_ok_Nil [simp]: "table_ok env conf []"
  by (simp add: table_ok_def rows_linked_def)

lemma row_prev_row_of:
  "header_ok (coin_variant_from coin) h \<Longrightarrow> row_prev coin (row_of H w h) = bh_previous_header_hash h"
  using header_codec.roundtrip [of "coin_variant_from coin" h "[]"] by (simp add: row_prev_def row_of_def)

lemma row_of_simps [simp]:
  "hr_height (row_of H w h) = as_i64 w" "hr_hash (row_of H w h) = rev (header_hash H h)"
  by (simp_all add: row_of_def)

lemma as_i64_small:
  assumes "uint w < 2 ^ 63"
  shows "as_i64 w = uint w"
proof -
  have "- (2 ^ 63) \<le> uint w" by (rule order.trans [of _ 0]) simp_all
  then have "signed_take_bit 63 (uint w) = uint w"
    using assms by (rule signed_take_bit_int_eq_self)
  then show ?thesis by (simp add: as_i64_def sint_uint)
qed

lemma decode_row_row_of:
  "header_ok (coin_variant_from coin) h \<Longrightarrow> decode_row coin (Some (row_of H w h)) = Some (Inr (Some h))"
  using header_codec.roundtrip [of "coin_variant_from coin" h "[]"] by (simp add: decode_row_def row_of_def)

lemma row_at_in: "row_at table k = Some r \<Longrightarrow> r \<in> set table \<and> hr_height r = k"
  unfolding row_at_def by (induction table) (auto split: if_splits)

lemma row_at_distinct:
  assumes "distinct (map hr_height table)" "r \<in> set table"
  shows "row_at table (hr_height r) = Some r"
  using assms by (induction table) (auto simp: row_at_def image_iff)

section \<open>Insertion of a batch\<close>

lemma insert_row_set: "set (insert_row r table) \<subseteq> insert r (set table)" "r \<in> set (insert_row r table)"
  by (auto simp: insert_row_def)

lemma insert_row_distinct: "distinct (map hr_height table) \<Longrightarrow> distinct (map hr_height (insert_row r table))"
  by (auto simp: insert_row_def distinct_map_filter_heights)

definition batch_rows :: "sync_env \<Rightarrow> (u64 \<times> block_header) list \<Rightarrow> header_row list" where
  "batch_rows env registry = map (\<lambda>(height, h). row_of (se_H env) height h) registry"

definition insert_batch :: "sync_env \<Rightarrow> (u64 \<times> block_header) list \<Rightarrow> header_row list \<Rightarrow> header_row list" where
  "insert_batch env registry table = fold (\<lambda>(height, h). insert_row (row_of (se_H env) height h)) registry table"

lemma insert_batch_set: "set (insert_batch env registry table) \<subseteq> set table \<union> set (batch_rows env registry)"
proof (induction registry arbitrary: table)
  case (Cons x registry)
  obtain height h where x: "x = (height, h)" by fastforce
  show ?case
    using Cons.IH [of "insert_row (row_of (se_H env) height h) table"] insert_row_set(1) [of "row_of (se_H env) height h" table]
    by (auto simp: insert_batch_def batch_rows_def x)
qed (simp add: insert_batch_def)

lemma insert_batch_distinct: "distinct (map hr_height table) \<Longrightarrow> distinct (map hr_height (insert_batch env registry table))"
  by (induction registry arbitrary: table) (auto simp: insert_batch_def insert_row_distinct)

lemma number_headers_nth:
  "number_headers height hs = map (\<lambda>i. (height + word_of_nat i, hs ! i)) [0..<length hs]"
proof (induction height hs rule: number_headers.induct)
  case (2 height h hs)
  have "[0..<length (h # hs)] = 0 # map Suc [0..<length hs]"
    by (simp add: upt_conv_Cons map_Suc_upt del: upt_Suc)
  then show ?case using 2 by (simp add: add.assoc)
qed simp

section \<open>A validated batch continues the table\<close>

lemma validate_header_chain_links:
  assumes "validate_header_chain H coin storage conf start hs = Some (Inr ())" "i < length hs"
  shows "bh_previous_header_hash (hs ! i) = (if i = 0 then sh_hash start else header_hash H (hs ! (i - 1)))"
  using assms validate_header_chain_iff [of H coin storage conf start hs]
  by (auto simp: header_before_def spv_header_from_def)

lemma validate_headers_start:
  assumes "validate_headers (se_H env) (se_ticker env) height hs (storage_of env tick table) conf = Some (Inr ())"
    "table_ok env conf table" "uint height < 2 ^ 62"
  shows "\<exists>start. validate_header_chain (se_H env) (se_ticker env) (storage_of env tick table) conf start hs = Some (Inr ()) \<and>
    (\<forall>r\<in>set table. hr_height r = uint height \<longrightarrow> hr_hash r = rev (sh_hash start))"
proof (cases "height = sh_height (cf_starting_block_header conf)")
  case True
  then show ?thesis
    using assms by (auto simp: validate_headers_def table_ok_def start_row_ok_def)
next
  case False
  have i64: "as_i64 height = uint height" using assms(3) by (intro as_i64_small) simp
  obtain h where h: "hs_get_block_header (storage_of env tick table) height = Some (Inr (Some h))"
    and chain: "validate_header_chain (se_H env) (se_ticker env) (storage_of env tick table) conf
      (spv_header_from (se_H env) h height) hs = Some (Inr ())"
    using assms(1) False by (auto simp: validate_headers_def split: option.splits sum.splits)
  have decoded: "decode_row (se_ticker env) (row_at table (uint height)) = Some (Inr (Some h))"
    using h by (auto simp: storage_of_def table_get_block_header_def i64 split: option.splits)
  have "hr_hash r = rev (header_hash (se_H env) h)" if r: "r \<in> set table" "hr_height r = uint height" for r
  proof -
    obtain w h' where "r = row_of (se_H env) w h'" "header_ok (coin_variant_from (se_ticker env)) h'"
      using assms(2) r(1) by (auto simp: table_ok_def row_ok_def)
    moreover have "row_at table (uint height) = Some r"
      using row_at_distinct [of table r] assms(2) r by (simp add: table_ok_def)
    ultimately show ?thesis
      using decoded by (simp add: decode_row_row_of)
  qed
  then show ?thesis
    using chain by (intro exI [of _ "spv_header_from (se_H env) h height"]) (simp add: spv_header_from_def)
qed

lemma batch_rows_nth:
  assumes "uint height < 2 ^ 62" "length hs < 2 ^ 32" "r \<in> set (batch_rows env (number_headers (height + 1) hs))"
  shows "\<exists>i < length hs. r = row_of (se_H env) (height + 1 + word_of_nat i) (hs ! i) \<and> hr_height r = uint height + 1 + int i"
proof -
  obtain i where i: "i < length hs" "r = row_of (se_H env) (height + 1 + word_of_nat i) (hs ! i)"
    using assms(3) by (auto simp: batch_rows_def number_headers_nth)
  have "uint (height + 1 + word_of_nat i) = uint height + 1 + int i"
  proof -
    have "height + 1 + word_of_nat i = word_of_int (uint height + 1 + int i)" by simp
    then have "uint (height + 1 + word_of_nat i) = (uint height + 1 + int i) mod 2 ^ 64"
      by (simp only: uint_word_of_int) simp
    also have "\<dots> = uint height + 1 + int i"
      using assms(1,2) i(1) by (intro mod_pos_pos_trivial) auto
    finally show ?thesis .
  qed
  then show ?thesis
    using i assms(1,2) as_i64_small [of "height + 1 + word_of_nat i"] by auto
qed

lemma insert_batch_ok:
  assumes "validate_headers (se_H env) (se_ticker env) height hs (storage_of env tick table) conf = Some (Inr ())"
    "table_ok env conf table" "uint height < 2 ^ 62" "length hs < 2 ^ 32"
    "\<forall>h\<in>set hs. header_ok (coin_variant_from (se_ticker env)) h" "heights_below (uint height + 1) table"
    "uint (sh_height (cf_starting_block_header conf)) \<le> uint height"
  shows "table_ok env conf (insert_batch env (number_headers (height + 1) hs) table)"
proof -
  let ?batch = "set (batch_rows env (number_headers (height + 1) hs))" and ?coin = "se_ticker env"
  obtain start where chain: "validate_header_chain (se_H env) ?coin (storage_of env tick table) conf start hs = Some (Inr ())"
    and start: "\<And>r. r \<in> set table \<Longrightarrow> hr_height r = uint height \<Longrightarrow> hr_hash r = rev (sh_hash start)"
    using validate_headers_start [OF assms(1-3)] by blast
  note batch = batch_rows_nth [OF assms(3,4)]
  have old: "rows_linked ?coin (set table)" "\<And>r. r \<in> set table \<Longrightarrow> row_ok env r \<and> start_row_ok conf r"
    "\<And>r. r \<in> set table \<Longrightarrow> hr_height r \<le> uint height"
    using assms(2,6) by (auto simp: table_ok_def heights_below_def)
  have link: "row_prev ?coin r' = rev (hr_hash r)"
    if rr: "r \<in> set table \<union> ?batch" "r' \<in> set table \<union> ?batch" "hr_height r' = hr_height r + 1" for r r'
  proof (cases "r' \<in> ?batch")
    case True
    obtain i where i: "i < length hs" "r' = row_of (se_H env) (height + 1 + word_of_nat i) (hs ! i)"
      "hr_height r' = uint height + 1 + int i"
      using batch [OF True] by blast
    have prev: "row_prev ?coin r' = (if i = 0 then sh_hash start else header_hash (se_H env) (hs ! (i - 1)))"
      using validate_header_chain_links [OF chain i(1)] assms(5) i(1,2) by (simp add: row_prev_row_of)
    show ?thesis
    proof (cases "r \<in> ?batch")
      case True
      obtain j where j: "j < length hs" "r = row_of (se_H env) (height + 1 + word_of_nat j) (hs ! j)"
        "hr_height r = uint height + 1 + int j"
        using batch [OF True] by blast
      then have "i = Suc j" using rr(3) i(3) by simp
      then show ?thesis using prev j(2) by simp
    next
      case False
      then have r: "r \<in> set table" using rr(1) by blast
      then have "i = 0" "hr_height r = uint height" using old(3) [OF r] i(3) rr(3) by auto
      then show ?thesis using prev start [OF r] by simp
    qed
  next
    case False
    then have r': "r' \<in> set table" using rr(2) by blast
    moreover have "r \<notin> ?batch" using batch [of r] old(3) [OF r'] rr(3) by force
    ultimately show ?thesis using old(1) rr unfolding rows_linked_def by blast
  qed
  have rows: "row_ok env r \<and> start_row_ok conf r" if r: "r \<in> set table \<union> ?batch" for r
  proof (cases "r \<in> set table")
    case True
    then show ?thesis by (rule old(2))
  next
    case False
    then obtain i where "i < length hs" "r = row_of (se_H env) (height + 1 + word_of_nat i) (hs ! i)"
      "hr_height r = uint height + 1 + int i"
      using batch [of r env] r by blast
    then have "row_ok env r" "uint (sh_height (cf_starting_block_header conf)) < hr_height r"
      unfolding row_ok_def using assms(5,7) by (blast intro: nth_mem, simp)
    then show ?thesis by (simp add: start_row_ok_def)
  qed
  have "rows_linked ?coin (set table \<union> ?batch)" unfolding rows_linked_def using link by blast
  then show ?thesis
    using insert_batch_set [of env "number_headers (height + 1) hs" table] rows assms(2) rows_linked_subset
    unfolding table_ok_def by (blast intro: insert_batch_distinct)
qed

section \<open>What a turn does to the table\<close>

definition rows_removed :: "header_row list \<Rightarrow> header_row list \<Rightarrow> bool" where
  "rows_removed table table' \<longleftrightarrow> (\<exists>P. table' = filter P table)"

lemma rows_removed_refl [simp]: "rows_removed table table"
  unfolding rows_removed_def by (rule exI [of _ "\<lambda>_. True"]) simp

lemma rows_removed_filter [simp]: "rows_removed table (filter P table)"
  by (auto simp: rows_removed_def)

lemma rows_removed_trans: "rows_removed a b \<Longrightarrow> rows_removed b c \<Longrightarrow> rows_removed a c"
  by (auto simp: rows_removed_def)

lemma rows_removed_ok: "rows_removed table table' \<Longrightarrow> table_ok env conf table \<Longrightarrow> table_ok env conf table'"
  by (auto simp: rows_removed_def table_ok_filter)

lemma rows_removed_heights: "rows_removed table table' \<Longrightarrow> heights_below n table \<Longrightarrow> heights_below n table'"
  by (auto simp: rows_removed_def heights_below_def)

lemma remove_headers_shrinks: "rows_removed table (snd (remove_headers_from_storage failure a b table))"
  by (simp add: remove_headers_from_storage_def split: option.split)

lemma remove_excessive_shrinks: "rows_removed table (snd (remove_excessive_headers_from_storage failure a b table))"
  by (simp add: remove_excessive_headers_from_storage_def remove_headers_shrinks)

lemma state_simps [simp]:
  "sy_table (notify s st) = sy_table st" "sy_table (next_tick st) = sy_table st"
  "sy_tick (next_tick st) = Suc (sy_tick st)" "sy_chunk_size (next_tick st) = sy_chunk_size st"
  "sy_connections (next_tick st) = sy_connections st" "sy_connections (notify s st) = sy_connections st"
  "sy_electrum_addresses (notify s st) = sy_electrum_addresses st"
  "sy_electrum_addresses (next_tick st) = sy_electrum_addresses st"
  "sy_tick (notify s st) = sy_tick st" "sy_chunk_size (notify s st) = sy_chunk_size st"
  by (simp_all add: notify_def next_tick_def)

lemma try_to_retrieve_table:
  "sy_table (fst (try_to_retrieve_headers env server a b attempts st)) = sy_table st"
proof (induction env server a b attempts st rule: try_to_retrieve_headers.induct)
  case (1 env server a b attempts st)
  show ?case
    using "1.IH" by (subst try_to_retrieve_headers.simps) (auto split: retrieved.split)
qed

text \<open>What is retrieved is an answer of the server, numbered from the first height asked for.\<close>

lemma try_to_retrieve_answer:
  "snd (try_to_retrieve_headers env server a b attempts st) = Headers_Retrieved registry headers \<Longrightarrow>
     \<exists>tick. retrieve_headers_from env tick server a b = Retrieved_Headers registry headers"
proof (induction env server a b attempts st rule: try_to_retrieve_headers.induct)
  case (1 env server a b attempts st)
  note step = "1.prems" [unfolded try_to_retrieve_headers.simps [of env server a b attempts st]]
  show ?case
    using "1.IH" step by (auto split: retrieved.splits if_splits)
qed

text \<open>What the servers may answer: at most \<open>2 ^ 32\<close> headers at once, all well formed.\<close>

definition answers_ok :: "sync_env \<Rightarrow> bool" where
  "answers_ok env \<longleftrightarrow>
     (\<forall>tick server a b registry headers. retrieve_headers_from env tick server a b = Retrieved_Headers registry headers \<longrightarrow>
        length headers < 2 ^ 32 \<and> (\<forall>h\<in>set headers. header_ok (coin_variant_from (se_ticker env)) h)) \<and>
     (\<forall>tick height bs h rest. se_block_header env tick height = Inr bs \<longrightarrow>
        de_block_header (coin_variant_from (se_ticker env)) bs = Done h rest \<longrightarrow> header_ok (coin_variant_from (se_ticker env)) h)"

lemma retrieved_registry:
  "retrieve_headers_from env tick server a b = Retrieved_Headers registry headers \<Longrightarrow> registry = number_headers a headers"
  by (auto simp: retrieve_headers_from_def split: if_splits sum.splits decoded.splits)

lemma retrieve_until_success_table:
  "try_to_retrieve_headers_until_success env server a b st = (st', r) \<Longrightarrow> sy_table st' = sy_table st"
  using try_to_retrieve_table [of env server a b TRY_TO_RETRIEVE_HEADERS_ATTEMPTS st]
  by (simp add: try_to_retrieve_headers_until_success_def)

lemma reorg_step_shrinks:
  "case resolve_reorg_step env conf server height a b st of
     Reorg_Returns st' result \<Rightarrow> rows_removed (sy_table st) (sy_table st')
   | Reorg_Again a' b' st' \<Rightarrow> sy_table st' = sy_table st"
proof -
  obtain st' r where r: "try_to_retrieve_headers_until_success env server a b st = (st', r)" by fastforce
  show ?thesis
    using retrieve_until_success_table [OF r] remove_headers_shrinks [of "sy_table st" "se_write_error env (sy_tick st')" a height]
    by (auto simp: resolve_reorg_step_def r Let_def split: retrieval.split option.split sum.split prod.split)
qed

lemma resolve_reorg_shrinks:
  assumes "resolve_reorg_loop env conf server height a b st = Some out"
  shows "rows_removed (sy_table st) (sy_table (fst out))"
proof (rule resolve_reorg_loop.raw_induct [OF _ assms])
  show "rows_removed (sy_table st) (sy_table (fst out))"
    if ind: "\<And>env conf server height a b st out. loop env conf server height a b st = Some out \<Longrightarrow>
        rows_removed (sy_table st) (sy_table (fst out))"
      "(case resolve_reorg_step env conf server height a b st of
          Reorg_Returns st' result \<Rightarrow> Some (st', result)
        | Reorg_Again a b st' \<Rightarrow> loop env conf server height a b st') = Some out"
    for loop env conf server height a b st out
  proof (cases "resolve_reorg_step env conf server height a b st")
    case (Reorg_Returns st' result)
    then show ?thesis using reorg_step_shrinks [of st env conf server height a b] ind(2) by auto
  next
    case (Reorg_Again a' b' st')
    then have "rows_removed (sy_table st') (sy_table (fst out))"
      using ind(2) by (intro ind(1) [of env conf server height a' b' st']) simp
    then show ?thesis using Reorg_Again reorg_step_shrinks [of st env conf server height a b] by simp
  qed
qed

section \<open>The invariant\<close>

lemma store_retrieved_ok:
  assumes "store_retrieved_headers env conf server height registry headers st = Some (Goes_On st')"
    "table_ok env conf (sy_table st)" "heights_below (uint height + 1) (sy_table st)" "uint height < 2 ^ 62"
    "registry = number_headers (height + 1) headers" "length headers < 2 ^ 32"
    "\<forall>h\<in>set headers. header_ok (coin_variant_from (se_ticker env)) h"
    "uint (sh_height (cf_starting_block_header conf)) \<le> uint height"
  shows "table_ok env conf (sy_table st')"
proof (cases "validate_headers (se_H env) (se_ticker env) height headers (storage_of env (sy_tick st) (sy_table st)) conf")
  case None
  then show ?thesis using assms(1) by (simp add: store_retrieved_headers_def)
next
  case (Some r)
  show ?thesis
  proof (cases r)
    case (Inr u)
    have "table_ok env conf (insert_batch env registry (sy_table st))"
      unfolding assms(5) using Some Inr assms by (intro insert_batch_ok) auto
    then show ?thesis
      using assms(1,2) Some Inr
      by (auto simp: store_retrieved_headers_def add_block_headers_to_storage_def insert_batch_def split: option.splits)
  next
    case (Inl e)
    have "rows_removed (sy_table st) (sy_table st')"
    proof (cases "mismatched_height e")
      case None
      then show ?thesis
        using assms(1) Some Inl
        by (auto simp: store_retrieved_headers_def remove_server_and_go_on_def split: option.splits if_splits)
    next
      case (Some m)
      then obtain out where out: "resolve_possible_chain_reorg env conf server height m (next_tick st) = Some out"
        "(case snd out of Reorg_Resolved \<Rightarrow> Goes_On (fst out) | Reorg_Panics \<Rightarrow> Turn_Panics
          | Reorg_Failed e \<Rightarrow> if reorg_is_network_error e then Goes_On (notify (TemporaryError (Reorganisation_Failed e)) (fst out))
                     else remove_server_and_go_on env server (fst out)) = Goes_On st'"
        using assms(1) Inl \<open>validate_headers _ _ _ _ _ _ = Some r\<close>
        by (auto simp: store_retrieved_headers_def case_prod_beta)
      have "sy_table st' = sy_table (fst out)"
        using out(2) by (auto simp: remove_server_and_go_on_def split: reorg_result.splits if_splits option.splits)
      then show ?thesis
        using out(1) resolve_reorg_shrinks by (fastforce simp: resolve_possible_chain_reorg_def)
    qed
    then show ?thesis using assms(2) by (rule rows_removed_ok)
  qed
qed

lemma retrieve_and_store_ok:
  assumes "retrieve_and_store env conf height retrieve_to st = Some (Goes_On st')" "answers_ok env"
    "table_ok env conf (sy_table st)" "heights_below (uint height + 1) (sy_table st)" "uint height < 2 ^ 62"
    "uint (sh_height (cf_starting_block_header conf)) \<le> uint height"
  shows "table_ok env conf (sy_table st')"
proof -
  define st1 where "st1 = (case cf_max_stored_block_headers conf of
                   None \<Rightarrow> st
                 | Some m \<Rightarrow>
                     (case remove_excessive_headers_from_storage (se_write_error env (sy_tick st)) retrieve_to m (sy_table st) of
                        (Inl e, _) \<Rightarrow> next_tick (notify (TemporaryError (Storage_Failed e)) st)
                      | (Inr _, table) \<Rightarrow> next_tick st\<lparr>sy_table := table\<rparr>))"
  define st2 where "st2 = notify (SyncingBlockHeaders (height + 1) retrieve_to) st1"
  define server where "server = sy_electrum_addresses st2 ! (se_random env (sy_tick st2) mod length (sy_electrum_addresses st2))"
  obtain st3 r where r: "try_to_retrieve_headers_until_success env server (height + 1) retrieve_to st2 = (st3, r)" by fastforce
  have "rows_removed (sy_table st) (sy_table st1)"
    using remove_excessive_shrinks [of "sy_table st" "se_write_error env (sy_tick st)" retrieve_to]
    unfolding st1_def by (auto split: option.split prod.split sum.split) (metis snd_conv)
  then have "rows_removed (sy_table st) (sy_table st3)"
    using retrieve_until_success_table [OF r] by (simp add: st2_def)
  then have st3: "table_ok env conf (sy_table st3)" "heights_below (uint height + 1) (sy_table st3)"
    using assms(3,4) rows_removed_ok rows_removed_heights by blast+
  have turn: "(case (st3, r) of
          (st3, Headers_Retrieved registry headers) \<Rightarrow> store_retrieved_headers env conf server height registry headers st3
        | (st3, Headers_Failed (NetworkError e addr)) \<Rightarrow>
            Some (Goes_On (notify (TemporaryError (Retrieval_Failed (NetworkError e addr))) st3))
        | (st3, Headers_Failed (RetrievalPermanentError e addr)) \<Rightarrow> Some (remove_server_and_go_on env server st3)
        | (st3, Retrieval_Panics) \<Rightarrow> Some Turn_Panics) = Some (Goes_On st')"
    using assms(1) unfolding retrieve_and_store_def Let_def st1_def [symmetric] st2_def [symmetric] server_def [symmetric] r
    by (auto split: if_splits)
  show ?thesis
  proof (cases r)
    case (Headers_Retrieved registry headers)
    then obtain tick where "retrieve_headers_from env tick server (height + 1) retrieve_to = Retrieved_Headers registry headers"
      using r try_to_retrieve_answer [of env server] by (metis snd_conv try_to_retrieve_headers_until_success_def)
    then have "registry = number_headers (height + 1) headers" "length headers < 2 ^ 32"
      "\<forall>h\<in>set headers. header_ok (coin_variant_from (se_ticker env)) h"
      using retrieved_registry assms(2) unfolding answers_ok_def by blast+
    moreover have "store_retrieved_headers env conf server height registry headers st3 = Some (Goes_On st')"
      using turn Headers_Retrieved by simp
    ultimately show ?thesis
      using store_retrieved_ok [of env conf server height registry headers st3 st'] assms(5,6) st3 by blast
  qed (use turn st3 in \<open>auto simp: remove_server_and_go_on_def split: retrieval_error.splits option.splits if_splits\<close>)
qed

lemma sync_from_height_ok:
  assumes "sync_from_height env conf height st = Some (Goes_On st')" "answers_ok env"
    "table_ok env conf (sy_table st)" "heights_below (uint height + 1) (sy_table st)" "uint height < 2 ^ 62"
    "uint (sh_height (cf_starting_block_header conf)) \<le> uint height"
  shows "table_ok env conf (sy_table st')"
proof -
  define answer where "answer = (if sy_block_count st < height + sy_chunk_size st
    then get_servers_with_latest_block_count env (sy_tick st) (sy_connections st)
    else Inr (sy_electrum_addresses st, sy_block_count st))"
  show ?thesis
  proof (cases answer)
    case (Inl e)
    then show ?thesis using assms(1,3) by (auto simp: sync_from_height_def answer_def [symmetric])
  next
    case (Inr x)
    obtain addresses count where x: "x = (addresses, count)" by fastforce
    let ?st = "next_tick st\<lparr>sy_electrum_addresses := addresses, sy_block_count := count\<rparr>"
    let ?to = "if count < height + sy_chunk_size st then count else height + sy_chunk_size st"
    have turn: "(if height = count then Some (Goes_On (notify (SyncFinished count) ?st))
        else retrieve_and_store env conf height ?to ?st) = Some (Goes_On st')"
      using assms(1) Inr x by (simp add: sync_from_height_def Let_def flip: answer_def)
    have table: "sy_table ?st = sy_table st" by (simp add: next_tick_def)
    show ?thesis
    proof (cases "height = count")
      case True
      then show ?thesis using turn assms(3) table by auto
    next
      case False
      then have go: "retrieve_and_store env conf height ?to ?st = Some (Goes_On st')" using turn by (simp only: if_False)
      show ?thesis
        by (rule retrieve_and_store_ok [OF go assms(2)]) (simp_all only: table assms(3-6))
    qed
  qed
qed

lemma highest_row_None: "highest_row table = None \<longleftrightarrow> table = []"
  by (cases table) (auto split: option.split)

lemma highest_row_in: "highest_row table = Some r \<Longrightarrow> r \<in> set table \<and> (\<forall>x\<in>set table. hr_height x \<le> hr_height r)"
proof (induction table arbitrary: r)
  case (Cons a table)
  show ?case
  proof (cases "highest_row table")
    case None
    then show ?thesis using Cons.prems by (simp add: highest_row_None)
  next
    case (Some x)
    then show ?thesis using Cons.prems Cons.IH [OF Some] by (auto split: if_splits)
  qed
qed simp

lemma validate_rpc_starting_header_hash:
  "validate_rpc_starting_header H conf height h = Inr u \<Longrightarrow> header_hash H h = sh_hash (cf_starting_block_header conf)"
  by (auto simp: validate_rpc_starting_header_def Let_def spv_header_from_def split: if_splits)

lemma starting_header_ok:
  assumes "validate_and_store_starting_header env conf st = (st', Some (Inr u))" "answers_ok env" "sy_table st = []"
    "uint (sh_height (cf_starting_block_header conf)) < 2 ^ 62"
  shows "table_ok env conf (sy_table st') \<and> heights_below (uint (sh_height (cf_starting_block_header conf)) + 1) (sy_table st')"
proof -
  let ?height = "sh_height (cf_starting_block_header conf)"
  obtain bs h rest where bs: "se_block_header env (sy_tick st) ?height = Inr bs"
    and h: "de_block_header (coin_variant_from (se_ticker env)) bs = Done h rest"
    and valid: "validate_rpc_starting_header (se_H env) conf ?height h = Inr ()"
    and table: "sy_table st' = [row_of (se_H env) ?height h]"
    using assms(1,3) by (auto simp: validate_and_store_starting_header_def Let_def add_block_headers_to_storage_def insert_row_def
        next_tick_def split: sum.splits decoded.splits option.splits)
  have i64: "as_i64 ?height = uint ?height" using assms(4) by (intro as_i64_small) simp
  have "header_ok (coin_variant_from (se_ticker env)) h"
    using assms(2) bs h unfolding answers_ok_def by blast
  then have "row_ok env (row_of (se_H env) ?height h)" unfolding row_ok_def by blast
  then show ?thesis
    using validate_rpc_starting_header_hash [OF valid] i64
    by (simp add: table table_ok_def rows_linked_def start_row_ok_def heights_below_def)
qed

lemma header_sync_turn_ok:
  assumes "header_sync_turn env conf st = Some (Goes_On st')" "answers_ok env" "table_ok env conf (sy_table st)"
    "heights_below (2 ^ 62) (sy_table st)" "uint (sh_height (cf_starting_block_header conf)) < 2 ^ 62"
  shows "table_ok env conf (sy_table st')"
proof (cases "get_last_block_height (se_ticker env) (se_last_height_error env (sy_tick st)) (sy_table st)")
  case (Inl e)
  then show ?thesis using assms(1,3) by (auto simp: header_sync_turn_def split: if_splits)
next
  case (Inr last_height)
  have alive: "se_client_alive env (sy_tick st)" using assms(1) by (auto simp: header_sync_turn_def split: if_splits)
  show ?thesis
  proof (cases last_height)
    case None
    then have empty: "sy_table st = []"
      using Inr by (auto simp: get_last_block_height_def highest_row_None split: option.splits if_splits)
    obtain st1 u where st1: "validate_and_store_starting_header env conf st = (st1, Some (Inr u))"
      and turn: "sync_from_height env conf (sh_height (cf_starting_block_header conf)) st1 = Some (Goes_On st')"
      using assms(1) Inr None alive by (auto simp: header_sync_turn_def split: prod.splits option.splits sum.splits)
    show ?thesis
      using starting_header_ok [OF st1 assms(2) empty assms(5)] sync_from_height_ok [OF turn assms(2)] assms(5) by simp
  next
    case (Some height)
    then obtain r where r: "highest_row (sy_table st) = Some r" "0 \<le> hr_height r" "height = word_of_int (hr_height r)"
      using Inr by (auto simp: get_last_block_height_def split: option.splits if_splits)
    have top: "r \<in> set (sy_table st)" "\<And>x. x \<in> set (sy_table st) \<Longrightarrow> hr_height x \<le> hr_height r"
      using highest_row_in [OF r(1)] by auto
    have "hr_height r < 2 ^ 62" using assms(4) top(1) by (simp add: heights_below_def)
    then have height: "uint height = hr_height r"
      using r(2,3) by (simp add: uint_word_of_int)
    have "heights_below (uint height + 1) (sy_table st)" using top(2) height by (force simp: heights_below_def)
    moreover have "uint (sh_height (cf_starting_block_header conf)) \<le> uint height"
      using assms(3) top(1) height by (auto simp: table_ok_def start_row_ok_def)
    moreover have "sync_from_height env conf height st = Some (Goes_On st')"
      using assms(1) Inr Some alive by (simp add: header_sync_turn_def)
    ultimately show ?thesis
      using sync_from_height_ok [of env conf height st st'] assms(2,3) height \<open>hr_height r < 2 ^ 62\<close> by simp
  qed
qed

text \<open>The states that the loop passes through while heights stay below \<open>2 ^ 62\<close>.\<close>

inductive sync_reaches :: "sync_env \<Rightarrow> spv_conf \<Rightarrow> sync_state \<Rightarrow> sync_state \<Rightarrow> bool" for env conf start where
  sync_start: "sync_reaches env conf start start"
| sync_turn: "sync_reaches env conf start st \<Longrightarrow> heights_below (2 ^ 62) (sy_table st) \<Longrightarrow>
    header_sync_turn env conf st = Some (Goes_On st') \<Longrightarrow> sync_reaches env conf start st'"

lemma sync_reaches_ok:
  assumes "sync_reaches env conf start st" "answers_ok env" "sy_table start = []"
    "uint (sh_height (cf_starting_block_header conf)) < 2 ^ 62"
  shows "table_ok env conf (sy_table st)"
  using assms(1)
proof induction
  case (sync_turn st st')
  then show ?case using header_sync_turn_ok assms(2,4) by blast
qed (simp add: assms(3))

lemma stored_header_row:
  assumes "table_ok env conf table" "table_get_block_header (se_ticker env) None k table = Some (Inr (Some h))" "uint k < 2 ^ 62"
  shows "\<exists>r\<in>set table. hr_height r = uint k \<and> hr_hash r = rev (header_hash (se_H env) h) \<and>
    row_prev (se_ticker env) r = bh_previous_header_hash h"
proof -
  have i64: "as_i64 k = uint k" using assms(3) by (intro as_i64_small) simp
  obtain r where r: "row_at table (uint k) = Some r"
    using assms(2) by (auto simp: table_get_block_header_def decode_row_def i64 split: option.splits)
  then have in_table: "r \<in> set table" "hr_height r = uint k" using row_at_in by blast+
  then obtain w h' where h': "r = row_of (se_H env) w h'" "header_ok (coin_variant_from (se_ticker env)) h'"
    using assms(1) by (auto simp: table_ok_def row_ok_def)
  then have "h' = h"
    using assms(2) r decode_row_row_of [OF h'(2), of "se_H env" w] by (simp add: table_get_block_header_def i64)
  then show ?thesis using in_table h' by (intro bexI [of _ r]) (simp_all add: row_prev_row_of)
qed


section \<open>A client that syncs\<close>

definition start_header :: block_header where
  "start_header = plain_header 1 (replicate 32 0) (replicate 32 2) 100 7 None"

definition next_header :: block_header where
  "next_header = plain_header 1 (toy_hash (ser_block_header start_header)) (replicate 32 3) 101 7 None"

definition sync_conf :: spv_conf where
  "sync_conf =
     \<lparr>cf_starting_block_header = spv_header_from toy_hash start_header 4, cf_max_stored_block_headers = None,
      cf_validation_params = None\<rparr>"

definition sample_env :: sync_env where
  "sample_env =
     \<lparr>se_ticker = ''BTC'', se_H = toy_hash, se_header_size = 500, se_client_alive = (\<lambda>_. True),
      se_last_height_error = (\<lambda>_. None), se_read_error = (\<lambda>_ _. None), se_write_error = (\<lambda>_. None),
      se_block_count = (\<lambda>_ _. Inr 5), se_block_header = (\<lambda>_ _. Inr (ser_block_header start_header)),
      se_block_headers = (\<lambda>_ _ _ _. Inr \<lparr>eh_count = 1, eh_hex = ser_block_header next_header\<rparr>), se_random = (\<lambda>_. 0)\<rparr>"

definition sync_state_0 :: sync_state where
  "sync_state_0 =
     \<lparr>sy_tick = 1, sy_table = [], sy_connections = [''electrum''], sy_chunk_size = DEFAULT_CHUNK_SIZE,
      sy_electrum_addresses = [''electrum''], sy_block_count = 5, sy_notified = []\<rparr>"

lemma sample_env_simps [simp]:
  "se_ticker sample_env = ''BTC''" "se_H sample_env = toy_hash" "se_client_alive sample_env tick"
  "se_last_height_error sample_env tick = None" "se_read_error sample_env tick height = None"
  "se_write_error sample_env tick = None" "se_block_count sample_env tick server = Inr 5"
  "se_block_header sample_env tick height = Inr (ser_block_header start_header)" "se_random sample_env tick = 0"
  by (simp_all add: sample_env_def)

lemma plain_header_ok:
  "length prev = 32 \<Longrightarrow> length mroot = 32 \<Longrightarrow> header_ok CV_BTC (plain_header 1 prev mroot t b None)"
  by (simp add: plain_header_def hash_ok_def opt_ok_def header_is_zcash_def is_kmd_assetchain_def nonce_ok_def
      is_aux_pow_version_def is_prog_pow_def header_versions)

lemma BTC_variant: "coin_variant_from ''BTC'' = CV_BTC"
  by code_simp

lemma sample_headers_ok: "header_ok CV_BTC start_header" "header_ok CV_BTC next_header"
  by (simp_all add: start_header_def next_header_def plain_header_ok)

lemma sample_retrieve:
  "retrieve_headers_from sample_env tick server a b =
     (if a = 0 \<or> b < a then Retrieve_Error (RpcInternal ''Invalid values for from/to parameters'')
      else if b - a + 1 = 0 then Retrieve_Error (RpcInternal ''out of range integral type conversion attempted'')
      else Retrieved_Headers [(a, next_header)] [next_header])"
proof -
  have "read_list 500 (de_block_header CV_BTC) (ser_list ser_block_header [next_header] @ []) = Done [next_header] []"
    by (rule header_codec.list_roundtrip) (simp_all add: sample_headers_ok)
  then show ?thesis
    by (simp add: retrieve_headers_from_def sample_env_def BTC_variant ser_list_def)
qed

lemma sample_answers_ok: "answers_ok sample_env"
  using header_codec.roundtrip [OF sample_headers_ok(1), of "[]"]
  by (auto simp: answers_ok_def sample_retrieve sample_headers_ok BTC_variant split: if_splits)

lemma sample_hashes_differ: "header_hash toy_hash start_header \<noteq> header_hash toy_hash next_header"
  by code_simp

lemma sample_heights: "as_i64 4 = 4" "as_i64 5 = 5"
  using as_i64_small [of 4] as_i64_small [of 5] by simp_all

lemma sync_conf_simps [simp]:
  "cf_max_stored_block_headers sync_conf = None" "cf_validation_params sync_conf = None"
  "sh_height (cf_starting_block_header sync_conf) = 4"
  "sh_hash (cf_starting_block_header sync_conf) = header_hash toy_hash start_header"
  by (simp_all add: sync_conf_def spv_header_from_def)

lemma sample_start:
  "validate_and_store_starting_header sample_env sync_conf sync_state_0 =
     (next_tick sync_state_0\<lparr>sy_table := [row_of toy_hash 4 start_header]\<rparr>, Some (Inr ()))"
proof -
  have "validate_rpc_starting_header toy_hash sync_conf 4 start_header = Inr ()"
    by (simp add: validate_rpc_starting_header_def sync_conf_def spv_header_from_def)
  then show ?thesis
    using header_codec.roundtrip [OF sample_headers_ok(1), of "[]"]
    by (simp add: validate_and_store_starting_header_def BTC_variant add_block_headers_to_storage_def insert_row_def
        sync_state_0_def next_tick_def)
qed

lemma sample_valid: "validate_headers toy_hash ''BTC'' 4 [next_header] storage sync_conf = Some (Inr ())"
  by (simp add: validate_headers_def validate_header_bits_def next_header_def plain_header_def header_hash_def)

definition sync_state_1 :: sync_state where
  "sync_state_1 =
     \<lparr>sy_tick = 5, sy_table = [row_of toy_hash 4 start_header, row_of toy_hash 5 next_header],
      sy_connections = [''electrum''], sy_chunk_size = DEFAULT_CHUNK_SIZE, sy_electrum_addresses = [''electrum''],
      sy_block_count = 5, sy_notified = [SyncingBlockHeaders 5 5]\<rparr>"

lemma sample_servers: "get_servers_with_latest_block_count sample_env tick [''electrum''] = Inr ([''electrum''], 5)"
  by (simp add: get_servers_with_latest_block_count_def map_filter_simps)

lemma sample_retrieve_and_store:
  "retrieve_and_store sample_env sync_conf 4 5
     \<lparr>sy_tick = 3, sy_table = [row_of toy_hash 4 start_header], sy_connections = [''electrum''],
      sy_chunk_size = DEFAULT_CHUNK_SIZE, sy_electrum_addresses = [''electrum''], sy_block_count = 5, sy_notified = []\<rparr> =
   Some (Goes_On sync_state_1)"
  using sample_hashes_differ
  by (simp add: retrieve_and_store_def try_to_retrieve_headers_until_success_def try_to_retrieve_headers.simps sample_retrieve
      store_retrieved_headers_def sample_valid add_block_headers_to_storage_def insert_row_def sample_heights
      sync_state_1_def next_tick_def notify_def)

lemma sample_turn: "header_sync_turn sample_env sync_conf sync_state_0 = Some (Goes_On sync_state_1)"
proof -
  have "sy_table sync_state_0 = []" by (simp add: sync_state_0_def)
  then have "header_sync_turn sample_env sync_conf sync_state_0 =
      sync_from_height sample_env sync_conf 4 (next_tick sync_state_0\<lparr>sy_table := [row_of toy_hash 4 start_header]\<rparr>)"
    by (simp add: header_sync_turn_def get_last_block_height_def sample_start)
  also have "\<dots> = Some (Goes_On sync_state_1)"
    using sample_retrieve_and_store
    by (simp add: sync_from_height_def sync_state_0_def next_tick_def DEFAULT_CHUNK_SIZE_def sample_servers numeral_3_eq_3)
  finally show ?thesis .
qed

lemma sample_stored:
  "table_get_block_header ''BTC'' None 4 (sy_table sync_state_1) = Some (Inr (Some start_header))"
  "table_get_block_header ''BTC'' None 5 (sy_table sync_state_1) = Some (Inr (Some next_header))"
  using sample_headers_ok
  by (simp_all add: table_get_block_header_def sync_state_1_def row_at_def sample_heights decode_row_row_of BTC_variant)


section \<open>The search for a reorganisation ends\<close>

definition counts_honest :: "sync_env \<Rightarrow> string \<Rightarrow> bool" where
  "counts_honest env server \<longleftrightarrow>
     (\<forall>tick a b registry headers. retrieve_headers_from env tick server a b = Retrieved_Headers registry headers \<longrightarrow>
        length headers \<le> unat (b - a + 1))"

lemma validate_header_bits_no_mismatch:
  "validate_header_bits H coin storage conf prev h = Some (Inl e) \<Longrightarrow> mismatched_height e = None"
  by (auto simp: validate_header_bits_def split: option.splits if_splits sum.splits Option.bind_splits)

lemma validate_header_chain_mismatch:
  "validate_header_chain H coin storage conf prev hs = Some (Inl e) \<Longrightarrow> mismatched_height e = Some m \<Longrightarrow>
     \<exists>i < length hs. m = sh_height prev + 1 + word_of_nat i"
proof (induction hs arbitrary: prev)
  case (Cons h hs)
  show ?case
  proof (cases "bh_previous_header_hash h = sh_hash prev")
    case False
    then show ?thesis using Cons.prems by (intro exI [of _ 0]) auto
  next
    case True
    then obtain r where r: "validate_header_bits H coin storage conf prev h = Some r"
      using Cons.prems(1) by (auto simp: Option.bind_eq_Some_conv)
    show ?thesis
    proof (cases r)
      case (Inl e')
      then show ?thesis using Cons.prems True r validate_header_bits_no_mismatch by force
    next
      case (Inr u)
      then obtain i where "i < length hs" "m = sh_height (spv_header_from H h (sh_height prev + 1)) + 1 + word_of_nat i"
        using Cons.IH [of "spv_header_from H h (sh_height prev + 1)"] Cons.prems True r by auto
      then show ?thesis
        by (intro exI [of _ "Suc i"]) (simp add: spv_header_from_def add.assoc)
    qed
  qed
qed simp

lemma validate_headers_mismatch:
  assumes "validate_headers H coin height hs storage conf = Some (Inl e)" "mismatched_height e = Some m"
  shows "\<exists>i < length hs. m = height + 1 + word_of_nat i"
proof (cases "height = sh_height (cf_starting_block_header conf)")
  case True
  then show ?thesis
    using assms validate_header_chain_mismatch [of H coin storage conf "cf_starting_block_header conf"]
    by (simp add: validate_headers_def)
next
  case False
  then show ?thesis
    using assms validate_header_chain_mismatch [of H coin storage conf "spv_header_from H _ height"]
    by (auto simp: validate_headers_def spv_header_from_def split: option.splits sum.splits)
qed

lemma mismatch_within:
  fixes a b m :: u64
  assumes "unat a \<le> unat b" "i < unat (b - a + 1)" "0 < unat a" "m = a - 1 + 1 + word_of_nat i"
  shows "unat m = unat a + i" "unat m \<le> unat b"
proof -
  have "unat (b - a) = unat b - unat a" using assms(1) by (simp add: unat_sub word_le_nat_alt)
  then have "unat (b - a + 1) \<le> unat b - unat a + 1"
    by (metis unat_1 unat_plus_if' le_add1 add_le_same_cancel1 diff_le_self linorder_le_cases word_arith_nat_add mod_less_eq_dividend unat_of_nat)
  then have i: "unat a + i \<le> unat b" using assms(1,2) by simp
  have "unat b < 2 ^ 64" using unsigned_less [where 'a = nat, of b] by simp
  with i have small: "unat a + i < 2 ^ 64" by (rule le_less_trans)
  have "m = word_of_nat (unat a + i)" using assms(4) by simp
  then have "unat m = (unat a + i) mod 2 ^ 64" by (simp only: unat_of_nat) simp
  then show "unat m = unat a + i" "unat m \<le> unat b" using small i by simp_all
qed

text \<open>Every turn of the search that does not return lowers the end of the range and stays above the starting height.\<close>

lemma reorg_step_decreases:
  assumes "resolve_reorg_step env conf server height a b st = Reorg_Again a' b' st'" "counts_honest env server"
    "\<And>tick. se_write_error env tick = None" "sh_height (cf_starting_block_header conf) < a" "a \<le> b"
  shows "b' < b \<and> sh_height (cf_starting_block_header conf) < a' \<and> a' \<le> b'"
proof -
  let ?start = "sh_height (cf_starting_block_header conf)"
  obtain st1 r where r: "try_to_retrieve_headers_until_success env server a b st = (st1, r)" by fastforce
  obtain registry headers where headers: "r = Headers_Retrieved registry headers"
    using assms(1) by (cases r) (auto simp: resolve_reorg_step_def r)
  obtain e m where e: "validate_headers (se_H env) (se_ticker env) (a - 1) headers (storage_of env (sy_tick st1) (sy_table st1)) conf =
      Some (Inl e)" "mismatched_height e = Some m"
    and next_range: "b' = m - 1" "b' \<noteq> ?start" "a' = max (saturating_sub b' (sy_chunk_size st1)) (?start + 1)"
    using assms(1,3)
    by (auto simp: resolve_reorg_step_def r headers Let_def remove_headers_from_storage_def
        split: option.splits sum.splits if_splits)
  obtain tick where "retrieve_headers_from env tick server a b = Retrieved_Headers registry headers"
    using r headers try_to_retrieve_answer [of env server a b] by (metis snd_conv try_to_retrieve_headers_until_success_def)
  then have "length headers \<le> unat (b - a + 1)" using assms(2) unfolding counts_honest_def by blast
  moreover obtain i where "i < length headers" "m = a - 1 + 1 + word_of_nat i"
    using validate_headers_mismatch [OF e] by blast
  ultimately have i: "i < unat (b - a + 1)" "m = a - 1 + 1 + word_of_nat i"
    by (simp_all only: less_le_trans)
  have order: "unat a \<le> unat b" "unat ?start < unat a" using assms(4,5) by (simp_all add: word_less_nat_alt word_le_nat_alt)
  note m = mismatch_within [OF order(1) i(1) _ i(2)]
  have "m \<noteq> 0" using m(1) order(2) by auto
  then have "unat b' = unat m - 1" using next_range(1) unat_minus_one by blast
  then have b': "unat b' < unat b" "unat ?start \<le> unat b'" using m order by auto
  moreover have "unat b' \<noteq> unat ?start" using next_range(2) by (simp add: word_unat_eq_iff)
  moreover have "unat (?start + 1) = unat ?start + 1"
    using b' order unsigned_less [where 'a = nat, of b] by (simp add: unat_plus_if')
  ultimately show ?thesis
    using next_range(3) by (auto simp: word_less_nat_alt word_le_nat_alt max_def saturating_sub_def unat_sub)
qed

lemma resolve_reorg_loop_ends:
  assumes "counts_honest env server" "\<And>tick. se_write_error env tick = None"
    "sh_height (cf_starting_block_header conf) < a" "a \<le> b"
  shows "\<exists>out. resolve_reorg_loop env conf server height a b st = Some out"
  using assms(3,4)
proof (induction "unat b" arbitrary: a b st rule: less_induct)
  case less
  show ?case
  proof (cases "resolve_reorg_step env conf server height a b st")
    case (Reorg_Returns st' result)
    then show ?thesis by (subst resolve_reorg_loop.simps) simp
  next
    case (Reorg_Again a' b' st')
    then have "b' < b" "sh_height (cf_starting_block_header conf) < a'" "a' \<le> b'"
      using reorg_step_decreases [OF Reorg_Again assms(1,2)] less.prems by blast+
    then have "\<exists>out. resolve_reorg_loop env conf server height a' b' st' = Some out"
      by (intro less.hyps) (simp_all add: word_less_nat_alt)
    then show ?thesis using Reorg_Again by (subst resolve_reorg_loop.simps) simp
  qed
qed

text \<open>
  The search for the point of a reorganisation ends: if the server sends no more headers than it is asked for and
  the database can be written, \<open>resolve_possible_chain_reorg\<close> returns, for every mismatch above the starting height.
\<close>

theorem reorg_resolution_ends:
  assumes "counts_honest env server" "\<forall>tick. se_write_error env tick = None"
    "sh_height (cf_starting_block_header conf) < mismatched" "mismatched \<le> mismatched + sy_chunk_size st"
  shows "\<exists>st' result. resolve_possible_chain_reorg env conf server height mismatched st = Some (st', result)"
  using resolve_reorg_loop_ends [of env server conf mismatched "mismatched + sy_chunk_size st" height st] assms
  by (auto simp: resolve_possible_chain_reorg_def)

section \<open>A limit of stored headers that cannot work\<close>

lemma remove_all_rows:
  assumes "\<forall>r\<in>set table. 0 \<le> hr_height r \<and> hr_height r \<le> uint to_height"
  shows "remove_headers_from_storage None 0 to_height table = (Inr (), [])"
  using assms by (auto simp: remove_headers_from_storage_def filter_empty_conv)

lemma validate_headers_empty_table:
  assumes "height \<noteq> sh_height (cf_starting_block_header conf)"
  shows "\<exists>e. validate_headers H coin height hs (storage_of env tick []) conf = Some (Inl (HeaderStorageError e))"
  using assms by (simp add: validate_headers_def storage_of_def table_get_block_header_def decode_row_def row_at_def split: option.split)

text \<open>
  A limit of 2016 stored headers passes the check of the configuration, and the loop cannot work with it: when
  2016 more headers are to be fetched, all stored headers are removed before, the last validated one among them. The
  headers that the server sends cannot be validated any more, and the server is removed as if it were at fault; with
  one server the loop stops.
\<close>

theorem header_limit_of_one_interval_fails:
  assumes "spv_conf_validate (se_ticker env) conf = Inr ()" "cf_max_stored_block_headers conf = Some 2016"
    "get_last_block_height (se_ticker env) (se_last_height_error env (sy_tick st)) (sy_table st) = Inr (Some height)"
    "\<forall>r\<in>set (sy_table st). 0 \<le> hr_height r \<and> hr_height r \<le> uint height"
    "height \<noteq> sh_height (cf_starting_block_header conf)" "sy_chunk_size st = 2016"
    "0 < height" "unat height < 2 ^ 62" "height + 2016 \<le> sy_block_count st"
    "\<forall>tick. se_client_alive env tick \<and> se_write_error env tick = None"
    "sy_electrum_addresses st = [server]" "sy_connections st = [server]"
    "\<forall>tick. \<exists>registry headers.
       retrieve_headers_from env tick server (height + 1) (height + 2016) = Retrieved_Headers registry headers"
  shows "\<exists>st'. header_sync_turn env conf st = Some (Stops st') \<and> sy_table st' = [] \<and> sy_connections st' = []"
proof -
  let ?st = "next_tick (next_tick st\<lparr>sy_electrum_addresses := [server], sy_block_count := sy_block_count st\<rparr>)\<lparr>sy_table := []\<rparr>"
  let ?st2 = "notify (SyncingBlockHeaders (height + 1) (height + 2016)) ?st"
  obtain registry headers where headers:
    "retrieve_headers_from env (sy_tick ?st2) server (height + 1) (height + 2016) = Retrieved_Headers registry headers"
    using assms(13) by blast
  obtain e where e: "validate_headers (se_H env) (se_ticker env) height headers (storage_of env (sy_tick (next_tick ?st2)) []) conf =
      Some (Inl (HeaderStorageError e))"
    using validate_headers_empty_table [OF assms(5)] by blast
  have sum: "unat (height + 2016) = unat height + 2016" using assms(8) by (simp add: unat_plus_if')
  then have limit: "2016 < height + 2016" "height + 2016 - 2016 = height"
    using assms(7) by (simp_all add: word_less_nat_alt)
  have count: "\<not> sy_block_count st < height + 2016" "height \<noteq> sy_block_count st"
    using assms(9) sum by (auto simp: word_le_nat_alt word_less_nat_alt)
  have removed: "remove_headers_from_storage None 0 height (sy_table st) = (Inr (), [])"
    using assms(4) by (rule remove_all_rows)
  have "header_sync_turn env conf st = sync_from_height env conf height st"
    using assms(3,10) by (simp add: header_sync_turn_def)
  also have "\<dots> = retrieve_and_store env conf height (height + 2016)
      (next_tick st\<lparr>sy_electrum_addresses := [server], sy_block_count := sy_block_count st\<rparr>)"
    using count assms(6,11) by (simp add: sync_from_height_def Let_def)
  also have "\<dots> = store_retrieved_headers env conf server height registry headers (next_tick ?st2)"
    using headers assms(2,10) limit removed
    by (simp add: retrieve_and_store_def remove_excessive_headers_from_storage_def try_to_retrieve_headers_until_success_def
        try_to_retrieve_headers.simps)
  also have "\<dots> = Some (remove_server_and_go_on env server (next_tick (next_tick ?st2)))"
    using e by (simp add: store_retrieved_headers_def)
  finally show ?thesis
    using assms(12) by (simp add: remove_server_and_go_on_def remove_server_def)
qed

definition limit_conf :: spv_conf where
  "limit_conf =
     \<lparr>cf_starting_block_header = spv_header_from toy_hash start_header 0, cf_max_stored_block_headers = Some 2016,
      cf_validation_params =
        Some \<lparr>vp_difficulty_check = True, vp_constant_difficulty = False, vp_difficulty_algorithm = Some BitcoinMainnet\<rparr>\<rparr>"

lemma limit_conf_valid: "spv_conf_validate ''BTC'' limit_conf = Inr ()"
  by (simp add: spv_conf_validate_def limit_conf_def validate_btc_spv_header_height_def spv_header_from_def
      validate_btc_max_stored_headers_value_def work_constants)

definition limit_state :: sync_state where
  "limit_state =
     \<lparr>sy_tick = 1, sy_table = [row_of toy_hash 5 next_header], sy_connections = [''electrum''],
      sy_chunk_size = DEFAULT_CHUNK_SIZE, sy_electrum_addresses = [''electrum''], sy_block_count = 10000, sy_notified = []\<rparr>"

theorem header_limit_of_one_interval_fails_witness:
  "spv_conf_validate ''BTC'' limit_conf = Inr () \<and>
   (\<exists>st'. header_sync_turn sample_env limit_conf limit_state = Some (Stops st') \<and> sy_table st' = [] \<and> sy_connections st' = [])"
proof -
  have "\<exists>st'. header_sync_turn sample_env limit_conf limit_state = Some (Stops st') \<and> sy_table st' = [] \<and> sy_connections st' = []"
    by (rule header_limit_of_one_interval_fails [of _ _ _ 5 "''electrum''"])
      (simp_all add: limit_conf_valid, simp_all add: limit_conf_def limit_state_def get_last_block_height_def sample_heights
        spv_header_from_def DEFAULT_CHUNK_SIZE_def sample_retrieve)
  then show ?thesis using limit_conf_valid by simp
qed

lemma sample_counts_honest: "counts_honest sample_env server"
proof -
  have "Suc 0 \<le> unat w" if "w \<noteq> 0" for w :: u64
    using that by (metis One_nat_def Suc_leI unat_gt_0)
  then show ?thesis by (auto simp: counts_honest_def sample_retrieve)
qed

theorem reorg_resolution_ends_witness:
  "\<exists>st' result. resolve_possible_chain_reorg sample_env sync_conf ''electrum'' 5 6 sync_state_1 = Some (st', result)"
  by (rule reorg_resolution_ends) (simp_all add: sample_counts_honest sync_state_1_def DEFAULT_CHUNK_SIZE_def)

section \<open>A server that keeps the search going\<close>

lemma loop_never_returns:
  assumes again: "\<And>b st. a \<le> b \<Longrightarrow> \<exists>st'. resolve_reorg_step env conf server height a b st = Reorg_Again a a st'"
    and "a \<le> b"
  shows "resolve_reorg_loop env conf server height a b st = None"
proof (rule ccontr)
  assume "resolve_reorg_loop env conf server height a b st \<noteq> None"
  then obtain out where out: "resolve_reorg_loop env conf server height a b st = Some out" by blast
  have "env' = env \<longrightarrow> conf' = conf \<longrightarrow> server' = server \<longrightarrow> height' = height \<longrightarrow> a' = a \<longrightarrow> a \<le> b' \<longrightarrow> False"
    if "resolve_reorg_loop env' conf' server' height' a' b' st' = Some out'" for env' conf' server' height' a' b' st' out'
  proof (rule resolve_reorg_loop.raw_induct [OF _ that])
    show "env' = env \<longrightarrow> conf' = conf \<longrightarrow> server' = server \<longrightarrow> height' = height \<longrightarrow> a' = a \<longrightarrow> a \<le> b' \<longrightarrow> False"
      if ind: "\<And>env' conf' server' height' a' b' st' out'. loop env' conf' server' height' a' b' st' = Some out' \<Longrightarrow>
          env' = env \<longrightarrow> conf' = conf \<longrightarrow> server' = server \<longrightarrow> height' = height \<longrightarrow> a' = a \<longrightarrow> a \<le> b' \<longrightarrow> False"
        "(case resolve_reorg_step env' conf' server' height' a' b' st' of
            Reorg_Returns st'' result \<Rightarrow> Some (st'', result)
          | Reorg_Again a'' b'' st'' \<Rightarrow> loop env' conf' server' height' a'' b'' st'') = Some out'"
      for loop env' conf' server' height' a' b' st' out'
    proof (intro impI)
      assume "env' = env" "conf' = conf" "server' = server" "height' = height" "a' = a" "a \<le> b'"
      moreover obtain st'' where "resolve_reorg_step env conf server height a b' st' = Reorg_Again a a st''"
        using again [OF \<open>a \<le> b'\<close>] by blast
      ultimately have "loop env conf server height a a st'' = Some out'" using ind(2) by simp
      from ind(1) [OF this] show False by simp
    qed
  qed
  then show False using out assms(2) by blast
qed

text \<open>
  A server can keep the search going forever: it answers every request from the starting height on with two headers, the
  first of which continues the starting header while the second does not continue the first. The number of headers of an answer
  is not compared with the number asked for, so the range never shrinks below one header.
\<close>

theorem reorg_search_may_not_end:
  assumes "start = sh_height (cf_starting_block_header conf)" "cf_validation_params conf = None" "unat start < 2 ^ 62"
    "bh_previous_header_hash good = sh_hash (cf_starting_block_header conf)"
    "bh_previous_header_hash bad \<noteq> header_hash (se_H env) good"
    "\<forall>tick b. start + 1 \<le> b \<longrightarrow> (\<exists>registry. retrieve_headers_from env tick server (start + 1) b =
       Retrieved_Headers registry [good, bad])"
    "start + 1 \<le> start + 1 + sy_chunk_size st"
  shows "resolve_possible_chain_reorg env conf server start (start + 1) st = None"
proof -
  have "\<exists>st'. resolve_reorg_step env conf server start (start + 1) b st = Reorg_Again (start + 1) (start + 1) st'"
    if b: "start + 1 \<le> b" for b st
  proof -
    obtain registry where answer: "retrieve_headers_from env (sy_tick st) server (start + 1) b = Retrieved_Headers registry [good, bad]"
      using assms(6) b by blast
    then have retrieved: "try_to_retrieve_headers_until_success env server (start + 1) b st =
        (next_tick st, Headers_Retrieved registry [good, bad])"
      by (simp add: try_to_retrieve_headers_until_success_def try_to_retrieve_headers.simps)
    have valid: "validate_headers (se_H env) (se_ticker env) start [good, bad] storage conf =
        Some (Inl (ParentHashMismatch (se_ticker env) (start + 1 + 1)))" for storage
      using assms(1-5) by (simp add: validate_headers_def validate_header_bits_def spv_header_from_def)
    have "max (saturating_sub (1 + start) c) (start + 1) = start + 1" for c
      unfolding add.commute [of 1 start] by (simp add: max_def saturating_sub_def word_le_nat_alt word_less_nat_alt unat_sub not_less)
    moreover have "start + 1 \<noteq> start" by simp
    ultimately show ?thesis
      using valid by (simp add: resolve_reorg_step_def retrieved Let_def flip: assms(1))
  qed
  then show ?thesis
    unfolding resolve_possible_chain_reorg_def using assms(7) by (intro loop_never_returns)
qed

definition bad_env :: sync_env where
  "bad_env = sample_env\<lparr>se_block_headers :=
     (\<lambda>_ _ _ _. Inr \<lparr>eh_count = 2, eh_hex = ser_block_header next_header @ ser_block_header start_header\<rparr>)\<rparr>"

lemma bad_retrieve:
  "5 \<le> b \<Longrightarrow> retrieve_headers_from bad_env tick server 5 b = Retrieved_Headers [(5, next_header), (6, start_header)] [next_header, start_header]"
proof -
  assume b: "5 \<le> b"
  have "read_list 500 (de_block_header CV_BTC) (ser_list ser_block_header [next_header, start_header] @ []) =
      Done [next_header, start_header] []"
    by (rule header_codec.list_roundtrip) (simp_all add: sample_headers_ok)
  moreover have "b - 5 + 1 \<noteq> 0"
  proof
    assume "b - 5 + 1 = 0"
    then have "b = 4" by (simp add: add_eq_0_iff diff_eq_eq)
    then show False using b by simp
  qed
  ultimately show ?thesis
    using b by (simp add: retrieve_headers_from_def bad_env_def sample_env_def BTC_variant ser_list_def not_less)
qed

theorem reorg_search_may_not_end_witness:
  "resolve_possible_chain_reorg bad_env sync_conf ''electrum'' 4 5 sync_state_1 = None"
proof -
  have "bh_previous_header_hash start_header \<noteq> header_hash (se_H bad_env) next_header"
    by code_simp
  moreover have "bh_previous_header_hash next_header = header_hash toy_hash start_header"
    by (simp add: next_header_def plain_header_def header_hash_def)
  ultimately show ?thesis
    using reorg_search_may_not_end [of 4 sync_conf next_header start_header bad_env "''electrum''" sync_state_1] bad_retrieve
    by (simp add: sync_state_1_def DEFAULT_CHUNK_SIZE_def)
qed

end
