(* ===== verification/BtcScript.thy ===== *)
theory BtcScript
  imports BtcTransaction "HOL-Library.Monad_Syntax"
begin

text \<open>
  Scripts of transaction inputs and outputs (\<open>mm2_bitcoin/script/src\<close>): opcodes, the builder, the parser of
  instructions, the classification of scripts and script numbers. An opcode is the byte of its discriminant
  (\<open>enum Opcode\<close> is \<open>repr(u8)\<close>), and comparisons of opcodes are those of the bytes. \<open>None\<close> is a panic: an index
  out of range, a push of bytes the builder refuses.
\<close>

section \<open>Opcodes\<close>

type_synonym opcode = u8
type_synonym script = bytes

definition OP_0 :: opcode where "OP_0 = 0x00"
definition OP_PUSHBYTES_1 :: opcode where "OP_PUSHBYTES_1 = 0x01"
definition OP_PUSHBYTES_20 :: opcode where "OP_PUSHBYTES_20 = 0x14"
definition OP_PUSHBYTES_32 :: opcode where "OP_PUSHBYTES_32 = 0x20"
definition OP_PUSHBYTES_33 :: opcode where "OP_PUSHBYTES_33 = 0x21"
definition OP_PUSHBYTES_65 :: opcode where "OP_PUSHBYTES_65 = 0x41"
definition OP_PUSHBYTES_70 :: opcode where "OP_PUSHBYTES_70 = 0x46"
definition OP_PUSHBYTES_71 :: opcode where "OP_PUSHBYTES_71 = 0x47"
definition OP_PUSHBYTES_72 :: opcode where "OP_PUSHBYTES_72 = 0x48"
definition OP_PUSHBYTES_75 :: opcode where "OP_PUSHBYTES_75 = 0x4b"
definition OP_PUSHDATA1 :: opcode where "OP_PUSHDATA1 = 0x4c"
definition OP_PUSHDATA2 :: opcode where "OP_PUSHDATA2 = 0x4d"
definition OP_PUSHDATA4 :: opcode where "OP_PUSHDATA4 = 0x4e"
definition OP_1 :: opcode where "OP_1 = 0x51"
definition OP_16 :: opcode where "OP_16 = 0x60"
definition OP_IF :: opcode where "OP_IF = 0x63"
definition OP_ELSE :: opcode where "OP_ELSE = 0x67"
definition OP_ENDIF :: opcode where "OP_ENDIF = 0x68"
definition OP_RETURN :: opcode where "OP_RETURN = 0x6a"
definition OP_DROP :: opcode where "OP_DROP = 0x75"
definition OP_DUP :: opcode where "OP_DUP = 0x76"
definition OP_SIZE :: opcode where "OP_SIZE = 0x82"
definition OP_EQUAL :: opcode where "OP_EQUAL = 0x87"
definition OP_EQUALVERIFY :: opcode where "OP_EQUALVERIFY = 0x88"
definition OP_HASH160 :: opcode where "OP_HASH160 = 0xa9"
definition OP_CODESEPARATOR :: opcode where "OP_CODESEPARATOR = 0xab"
definition OP_CHECKSIG :: opcode where "OP_CHECKSIG = 0xac"
definition OP_CHECKSIGVERIFY :: opcode where "OP_CHECKSIGVERIFY = 0xad"
definition OP_CHECKMULTISIG :: opcode where "OP_CHECKMULTISIG = 0xae"
definition OP_CHECKMULTISIGVERIFY :: opcode where "OP_CHECKMULTISIGVERIFY = 0xaf"
definition OP_CHECKLOCKTIMEVERIFY :: opcode where "OP_CHECKLOCKTIMEVERIFY = 0xb1"

lemmas opcode_defs =
  OP_0_def OP_PUSHBYTES_1_def OP_PUSHBYTES_20_def OP_PUSHBYTES_32_def OP_PUSHBYTES_33_def OP_PUSHBYTES_65_def
  OP_PUSHBYTES_70_def OP_PUSHBYTES_71_def OP_PUSHBYTES_72_def OP_PUSHBYTES_75_def OP_PUSHDATA1_def
  OP_PUSHDATA2_def OP_PUSHDATA4_def OP_1_def OP_16_def OP_IF_def OP_ELSE_def OP_ENDIF_def OP_RETURN_def
  OP_DROP_def OP_DUP_def OP_SIZE_def OP_EQUAL_def OP_EQUALVERIFY_def OP_HASH160_def OP_CODESEPARATOR_def
  OP_CHECKSIG_def OP_CHECKSIGVERIFY_def OP_CHECKMULTISIG_def OP_CHECKMULTISIGVERIFY_def
  OP_CHECKLOCKTIMEVERIFY_def

text \<open>The bytes without an opcode are those from \<open>0xba\<close> to \<open>0xc0\<close> and those from \<open>0xc5\<close>.\<close>

definition opcode_from_u8 :: "u8 \<Rightarrow> opcode option" where
  "opcode_from_u8 u = (if u \<le> 0xb9 \<or> (0xc1 \<le> u \<and> u \<le> 0xc4) then Some u else None)"

definition is_within_op_n :: "opcode \<Rightarrow> bool" where
  "is_within_op_n op = (OP_1 \<le> op \<and> op \<le> OP_16)"

definition decode_op_n :: "opcode \<Rightarrow> u8 option" where
  "decode_op_n op = (if is_within_op_n op then Some (op - (OP_1 - 1)) else None)"

datatype script_error = BadOpcode | NumberOverflow | NumberNotMinimallyEncoded

section \<open>The builder\<close>

definition push_opcode :: "opcode \<Rightarrow> script \<Rightarrow> script" where
  "push_opcode op data = data @ [op]"

definition push_bool :: "bool \<Rightarrow> script \<Rightarrow> script" where
  "push_bool value data = data @ [if value then OP_1 else OP_0]"

definition push_bytes :: "bytes \<Rightarrow> script \<Rightarrow> script option" where
  "push_bytes bs data =
     (let len = length bs in
      if \<not> (1 \<le> len \<and> len \<le> 75) then None
      else map_option (\<lambda>op. data @ [op] @ bs) (opcode_from_u8 (word_of_nat (unat OP_PUSHBYTES_1 + len - 1))))"

definition push_data :: "bytes \<Rightarrow> script \<Rightarrow> script option" where
  "push_data bs data =
     (let len = length bs in
      if len < unat OP_PUSHDATA1 then Some (data @ [word_of_nat len] @ bs)
      else if len < 0x100 then Some (data @ [OP_PUSHDATA1, word_of_nat len] @ bs)
      else if len < 0x10000 then Some (data @ [OP_PUSHDATA2, word_of_nat len, word_of_nat (len div 2 ^ 8)] @ bs)
      else if len < 0x100000000
      then Some (data @ [OP_PUSHDATA4, word_of_nat len, word_of_nat (len div 2 ^ 8), word_of_nat (len div 2 ^ 16),
                         word_of_nat (len div 2 ^ 24)] @ bs)
      else None)"

definition return_bytes :: "bytes \<Rightarrow> script \<Rightarrow> script option" where
  "return_bytes bs data =
     (let len = length bs in
      if \<not> (1 \<le> len \<and> len \<le> 75) then None
      else map_option (\<lambda>op. data @ [OP_RETURN, op] @ bs) (opcode_from_u8 (word_of_nat (unat OP_PUSHBYTES_1 + len - 1))))"

definition build_p2pkh :: "bytes \<Rightarrow> script option" where
  "build_p2pkh address =
     do { b \<leftarrow> push_bytes address (push_opcode OP_HASH160 (push_opcode OP_DUP []));
          Some (push_opcode OP_CHECKSIG (push_opcode OP_EQUALVERIFY b)) }"

definition build_p2pk :: "bytes \<Rightarrow> script option" where
  "build_p2pk pubkey = do { b \<leftarrow> push_bytes pubkey []; Some (push_opcode OP_CHECKSIG b) }"

definition build_p2sh :: "bytes \<Rightarrow> script option" where
  "build_p2sh address =
     do { b \<leftarrow> push_bytes address (push_opcode OP_HASH160 []); Some (push_opcode OP_EQUAL b) }"

definition build_witness_script :: "bytes \<Rightarrow> script option" where
  "build_witness_script address = push_bytes address (push_opcode OP_0 [])"

definition build_nulldata :: "bytes \<Rightarrow> script option" where
  "build_nulldata bs = push_bytes bs (push_opcode OP_RETURN [])"

section \<open>Instructions\<close>

record instruction =
  in_opcode :: opcode
  in_step :: nat
  in_data :: "bytes option"

definition get_opcode :: "script \<Rightarrow> nat \<Rightarrow> (script_error + opcode) option" where
  "get_opcode s position =
     (if position < length s
      then Some (case opcode_from_u8 (s ! position) of None \<Rightarrow> Inl BadOpcode | Some op \<Rightarrow> Inr op)
      else None)"

definition script_take :: "script \<Rightarrow> nat \<Rightarrow> nat \<Rightarrow> script_error + bytes" where
  "script_take s offset len = (if length s < offset + len then Inl BadOpcode else Inr (take len (drop offset s)))"

definition read_usize :: "bytes \<Rightarrow> nat \<Rightarrow> script_error + nat" where
  "read_usize data n = (if length data < n then Inl BadOpcode else Inr (nat_of_le (take n data)))"

definition get_instruction_at :: "script \<Rightarrow> nat \<Rightarrow> (script_error + instruction) option" where
  "get_instruction_at s position =
     (case get_opcode s position of
        None \<Rightarrow> None
      | Some (Inl e) \<Rightarrow> Some (Inl e)
      | Some (Inr op) \<Rightarrow> Some (
          if op \<in> {OP_PUSHDATA1, OP_PUSHDATA2, OP_PUSHDATA4} then
            let len = (if op = OP_PUSHDATA1 then 1 else if op = OP_PUSHDATA2 then 2 else 4) in
            (case script_take s (position + 1) len of
               Inl e \<Rightarrow> Inl e
             | Inr bs0 \<Rightarrow>
                 (case read_usize bs0 len of
                    Inl e \<Rightarrow> Inl e
                  | Inr n \<Rightarrow>
                      (case script_take s (position + 1 + len) n of
                         Inl e \<Rightarrow> Inl e
                       | Inr bs \<Rightarrow> Inr \<lparr>in_opcode = op, in_step = len + n + 1, in_data = Some bs\<rparr>)))
          else if op \<le> OP_PUSHBYTES_75 then
            (case script_take s (position + 1) (unat op) of
               Inl e \<Rightarrow> Inl e
             | Inr bs \<Rightarrow> Inr \<lparr>in_opcode = op, in_step = unat op + 1, in_data = Some bs\<rparr>)
          else Inr \<lparr>in_opcode = op, in_step = 1, in_data = None\<rparr>))"

text \<open>
  The iterators: \<open>Instructions\<close> ends after an error, \<open>Opcodes\<close> stays where it is. The state is the position.
\<close>

definition instructions_next :: "script \<Rightarrow> nat \<Rightarrow> (script_error + instruction) option \<times> nat" where
  "instructions_next s position =
     (if length s \<le> position then (None, position)
      else case get_instruction_at s position of
        None \<Rightarrow> (None, position)
      | Some (Inl e) \<Rightarrow> (Some (Inl e), length s)
      | Some (Inr i) \<Rightarrow> (Some (Inr i), position + in_step i))"

definition opcodes_next :: "script \<Rightarrow> nat \<Rightarrow> (script_error + opcode) option \<times> nat" where
  "opcodes_next s position =
     (if length s \<le> position then (None, position)
      else case get_instruction_at s position of
        None \<Rightarrow> (None, position)
      | Some (Inl e) \<Rightarrow> (Some (Inl e), position)
      | Some (Inr i) \<Rightarrow> (Some (Inr (in_opcode i)), position + in_step i))"

lemma in_step_positive [simp]: "get_instruction_at s p = Some (Inr i) \<Longrightarrow> 0 < in_step i"
  by (auto simp: get_instruction_at_def Let_def split: option.splits sum.splits if_splits)

lemma get_instruction_at_in_range: "p < length s \<Longrightarrow> get_instruction_at s p \<noteq> None"
  by (simp add: get_instruction_at_def get_opcode_def split: option.split)

lemma get_instruction_at_fits:
  "get_instruction_at s p = Some (Inr i) \<Longrightarrow> p + in_step i \<le> length s"
  by (auto simp: get_instruction_at_def get_opcode_def script_take_def Let_def
      split: option.splits sum.splits if_splits)

text \<open>All that \<open>Instructions\<close> gives from a position on.\<close>

function instructions_from :: "script \<Rightarrow> nat \<Rightarrow> (script_error + instruction) list" where
  "instructions_from s position =
     (case instructions_next s position of
        (None, _) \<Rightarrow> []
      | (Some (Inl e), _) \<Rightarrow> [Inl e]
      | (Some (Inr i), next) \<Rightarrow> Inr i # instructions_from s next)"
  by pat_completeness auto
termination
  by (relation "measure (\<lambda>(s, p). length s - p)")
    (auto simp: instructions_next_def dest: in_step_positive split: if_splits option.splits sum.splits)

declare instructions_from.simps [simp del]

definition script_iter :: "script \<Rightarrow> (script_error + instruction) list" where
  "script_iter s = instructions_from s 0"

definition get_instruction :: "script \<Rightarrow> nat \<Rightarrow> (script_error + instruction) option" where
  "get_instruction s index = (if index < length (script_iter s) then Some (script_iter s ! index) else None)"


section \<open>Classification\<close>

definition MAX_PUBKEYS_PER_MULTISIG :: nat where "MAX_PUBKEYS_PER_MULTISIG = 20"

definition is_pay_to_public_key_hash :: "script \<Rightarrow> bool" where
  "is_pay_to_public_key_hash s \<longleftrightarrow>
     length s = 25 \<and> s ! 0 = OP_DUP \<and> s ! 1 = OP_HASH160 \<and> s ! 2 = OP_PUSHBYTES_20 \<and>
     s ! 23 = OP_EQUALVERIFY \<and> s ! 24 = OP_CHECKSIG"

definition is_pay_to_public_key :: "script \<Rightarrow> bool" where
  "is_pay_to_public_key s =
     (if s = [] then False
      else if s ! 0 = OP_PUSHBYTES_33 then length s = 35 \<and> s ! 34 = OP_CHECKSIG
      else if s ! 0 = OP_PUSHBYTES_65 then length s = 67 \<and> s ! 66 = OP_CHECKSIG
      else False)"

definition is_pay_to_script_hash :: "script \<Rightarrow> bool" where
  "is_pay_to_script_hash s \<longleftrightarrow>
     length s = 23 \<and> s ! 0 = OP_HASH160 \<and> s ! 1 = OP_PUSHBYTES_20 \<and> s ! 22 = OP_EQUAL"

definition is_pay_to_witness_key_hash :: "script \<Rightarrow> bool" where
  "is_pay_to_witness_key_hash s \<longleftrightarrow> length s = 22 \<and> s ! 0 = OP_0 \<and> s ! 1 = OP_PUSHBYTES_20"

definition is_pay_to_witness_script_hash :: "script \<Rightarrow> bool" where
  "is_pay_to_witness_script_hash s \<longleftrightarrow> length s = 34 \<and> s ! 0 = OP_0 \<and> s ! 1 = OP_PUSHBYTES_32"

definition parse_witness_program :: "script \<Rightarrow> (u8 \<times> bytes) option" where
  "parse_witness_program s =
     (if length s < 4 \<or> 42 < length s \<or> length s \<noteq> unat (s ! 1) + 2 then None
      else case opcode_from_u8 (s ! 0) of
        None \<Rightarrow> None
      | Some op \<Rightarrow>
          if op = OP_0 then Some (0, drop 2 s)
          else if is_within_op_n op then Some (op - OP_1 + 1, drop 2 s)
          else None)"

text \<open>The number that \<open>OP_0\<close>, \<open>OP_1\<close>, \dots, \<open>OP_16\<close> stand for in a multisig script.\<close>

definition small_number_at :: "script \<Rightarrow> nat \<Rightarrow> u8 option" where
  "small_number_at s position =
     (case get_opcode s position of
        Some (Inr op) \<Rightarrow>
          if op = OP_0 then Some 0
          else if is_within_op_n op then Some (op - (OP_1 - 1))
          else None
      | _ \<Rightarrow> None)"

text \<open>The counter of keys is a byte, since it is compared with one.\<close>

function count_multisig_keys :: "script \<Rightarrow> nat \<Rightarrow> u8 \<Rightarrow> u8 option" where
  "count_multisig_keys s pc keys =
     (if pc < length s - 2
      then case get_instruction_at s pc of
             Some (Inr i) \<Rightarrow>
               if in_opcode i = OP_PUSHBYTES_33 \<or> in_opcode i = OP_PUSHBYTES_65
               then count_multisig_keys s (pc + in_step i) (keys + 1)
               else None
           | _ \<Rightarrow> None
      else Some keys)"
  by pat_completeness auto
termination
  by (relation "measure (\<lambda>(s, p, k). length s - p)") (auto dest: in_step_positive)

declare count_multisig_keys.simps [simp del]

definition is_multisig_script :: "script \<Rightarrow> bool" where
  "is_multisig_script s =
     (if length s < 3 then False
      else case small_number_at s 0 of
        None \<Rightarrow> False
      | Some siglen \<Rightarrow>
          (case small_number_at s (length s - 2) of
             None \<Rightarrow> False
           | Some keylen \<Rightarrow>
               if keylen < siglen then False
               else if s ! (length s - 1) \<noteq> OP_CHECKMULTISIG then False
               else count_multisig_keys s 1 0 = Some keylen))"

function is_push_only_from :: "script \<Rightarrow> nat \<Rightarrow> bool" where
  "is_push_only_from s pc =
     (if pc < length s
      then case get_instruction_at s pc of
             Some (Inr i) \<Rightarrow> if OP_16 < in_opcode i then False else is_push_only_from s (pc + in_step i)
           | _ \<Rightarrow> False
      else True)"
  by pat_completeness auto
termination
  by (relation "measure (\<lambda>(s, p). length s - p)") (auto dest: in_step_positive)

declare is_push_only_from.simps [simp del]

definition is_push_only :: "script \<Rightarrow> bool" where
  "is_push_only s = is_push_only_from s 0"

definition is_null_data_script :: "script \<Rightarrow> bool" where
  "is_null_data_script s \<longleftrightarrow> s \<noteq> [] \<and> s ! 0 = OP_RETURN \<and> is_push_only (drop 1 s)"

datatype script_type =
    NonStandard | PubKey | PubKeyHash | ScriptHash | Multisig | NullData | WitnessScript | WitnessKey
  | CallSender | CreateSender | Call | Create | ColdStaking

definition classify_script :: "script \<Rightarrow> script_type" where
  "classify_script s =
     (if is_pay_to_public_key s then PubKey
      else if is_pay_to_public_key_hash s then PubKeyHash
      else if is_pay_to_script_hash s then ScriptHash
      else if is_multisig_script s then Multisig
      else if is_null_data_script s then NullData
      else if is_pay_to_witness_key_hash s then WitnessKey
      else if is_pay_to_witness_script_hash s then WitnessScript
      else NonStandard)"

datatype keys_type = P2PKH | P2SH | P2WPKH | P2WSH

datatype address_hash = AddressHash bytes | WitnessScriptHash bytes

fun address_hash_to_vec :: "address_hash \<Rightarrow> bytes" where
  "address_hash_to_vec (AddressHash h) = h"
| "address_hash_to_vec (WitnessScriptHash h) = h"

record script_address =
  sa_kind :: keys_type
  sa_hash :: address_hash

text \<open>\<open>Public::from_slice\<close>: a public key has 33 or 65 bytes; nothing else is checked.\<close>

definition public_from_slice :: "bytes \<Rightarrow> bytes option" where
  "public_from_slice data = (if length data = 33 \<or> length data = 65 then Some data else None)"

text \<open>The loop over the keys of a multisig script; the outer option is a panic, the inner one \<open>InvalidPublic\<close>.\<close>

function multisig_destinations ::
  "(bytes \<Rightarrow> bytes) \<Rightarrow> script \<Rightarrow> nat \<Rightarrow> script_address list option option" where
  "multisig_destinations dhash160 s pc =
     (if pc < length s - 2
      then case get_instruction_at s pc of
             Some (Inr i) \<Rightarrow>
               (case in_data i of
                  None \<Rightarrow> None
                | Some data \<Rightarrow>
                    (case public_from_slice data of
                       None \<Rightarrow> Some None
                     | Some key \<Rightarrow>
                         map_option (map_option (\<lambda>as. \<lparr>sa_kind = P2PKH, sa_hash = AddressHash (dhash160 key)\<rparr> # as))
                           (multisig_destinations dhash160 s (pc + in_step i))))
           | _ \<Rightarrow> None
      else Some (Some []))"
  by pat_completeness auto
termination
  by (relation "measure (\<lambda>(h, s, p). length s - p)") (auto dest: in_step_positive)

declare multisig_destinations.simps [simp del]

definition script_slice :: "nat \<Rightarrow> nat \<Rightarrow> script \<Rightarrow> bytes" where
  "script_slice a b s = take (b - a) (drop a s)"

definition extract_destinations :: "(bytes \<Rightarrow> bytes) \<Rightarrow> script \<Rightarrow> script_address list option option" where
  "extract_destinations dhash160 s =
     (case classify_script s of
        PubKey \<Rightarrow>
          Some (map_option (\<lambda>key. [\<lparr>sa_kind = P2PKH, sa_hash = AddressHash (dhash160 key)\<rparr>])
            (public_from_slice (if s ! 0 = OP_PUSHBYTES_33 then script_slice 1 34 s else script_slice 1 66 s)))
      | PubKeyHash \<Rightarrow> Some (Some [\<lparr>sa_kind = P2PKH, sa_hash = AddressHash (script_slice 3 23 s)\<rparr>])
      | ScriptHash \<Rightarrow> Some (Some [\<lparr>sa_kind = P2SH, sa_hash = AddressHash (script_slice 2 22 s)\<rparr>])
      | Multisig \<Rightarrow> multisig_destinations dhash160 s 1
      | WitnessScript \<Rightarrow> Some (Some [\<lparr>sa_kind = P2WSH, sa_hash = WitnessScriptHash (script_slice 2 34 s)\<rparr>])
      | WitnessKey \<Rightarrow> Some (Some [\<lparr>sa_kind = P2WPKH, sa_hash = AddressHash (script_slice 2 22 s)\<rparr>])
      | _ \<Rightarrow> Some (Some []))"

definition num_signatures_required :: "script \<Rightarrow> u8" where
  "num_signatures_required s =
     (if is_multisig_script s then (if s ! 0 = OP_0 then 0 else s ! 0 - OP_1 + 1) else 1)"

section \<open>Rewriting and counting\<close>

function without_separators_from :: "script \<Rightarrow> nat \<Rightarrow> script" where
  "without_separators_from s pc =
     (if pc < length s
      then case get_instruction_at s pc of
             Some (Inr i) \<Rightarrow>
               (if in_opcode i \<noteq> OP_CODESEPARATOR then take (in_step i) (drop pc s) else []) @
               without_separators_from s (pc + in_step i)
           | _ \<Rightarrow> s ! pc # without_separators_from s (pc + 1)
      else [])"
  by pat_completeness auto
termination
  by (relation "measure (\<lambda>(s, p). length s - p)") (auto dest: in_step_positive)

declare without_separators_from.simps [simp del]

definition without_separators :: "script \<Rightarrow> script" where
  "without_separators s = without_separators_from s 0"

text \<open>The loop stops before the last place where the data could stand.\<close>

function find_and_delete_from :: "script \<Rightarrow> bytes \<Rightarrow> nat \<Rightarrow> script" where
  "find_and_delete_from s data current =
     (if data \<noteq> [] \<and> current < length s - length data
      then if take (length data) (drop current s) \<noteq> data
           then s ! current # find_and_delete_from s data (current + 1)
           else find_and_delete_from s data (current + length data)
      else drop current s)"
  by pat_completeness auto
termination
  by (relation "measure (\<lambda>(s, d, c). length s - c)") (auto simp flip: length_greater_0_conv)

declare find_and_delete_from.simps [simp del]

definition find_and_delete :: "script \<Rightarrow> bytes \<Rightarrow> script" where
  "find_and_delete s data =
     (if length s < length data \<or> length data = 0 then s else find_and_delete_from s data 0)"

function sigops_from :: "bool \<Rightarrow> script \<Rightarrow> nat \<Rightarrow> opcode \<Rightarrow> nat \<Rightarrow> nat" where
  "sigops_from serialized_script s position last_opcode count =
     (case opcodes_next s position of
        (Some (Inr op), next) \<Rightarrow>
          sigops_from serialized_script s next op
            (if op = OP_CHECKSIG \<or> op = OP_CHECKSIGVERIFY then count + 1
             else if op = OP_CHECKMULTISIG \<or> op = OP_CHECKMULTISIGVERIFY
             then count + (if serialized_script \<and> is_within_op_n last_opcode
                           then unat (last_opcode - (OP_1 - 1)) else MAX_PUBKEYS_PER_MULTISIG)
             else count)
      | _ \<Rightarrow> count)"
  by pat_completeness auto
termination
  by (relation "measure (\<lambda>(b, s, p, l, t). length s - p)")
    (auto simp: opcodes_next_def dest: in_step_positive split: if_splits option.splits sum.splits)

declare sigops_from.simps [simp del]

definition sigops_count :: "bool \<Rightarrow> script \<Rightarrow> nat" where
  "sigops_count serialized_script s = sigops_from serialized_script s 0 OP_0 0"

definition pay_to_script_hash_sigops :: "script \<Rightarrow> script \<Rightarrow> nat option" where
  "pay_to_script_hash_sigops s prev_out =
     (if \<not> is_pay_to_script_hash prev_out then Some 0
      else if s = [] \<or> \<not> is_push_only s then Some 0
      else case last (script_iter s) of
             Inr i \<Rightarrow> map_option (sigops_count True) (in_data i)
           | Inl _ \<Rightarrow> None)"

section \<open>Script numbers\<close>

definition num_from_slice :: "bytes \<Rightarrow> bool \<Rightarrow> nat \<Rightarrow> script_error + i64" where
  "num_from_slice data require_minimal max_size =
     (if max_size < length data then Inl NumberOverflow
      else if data = [] then Inr 0
      else if require_minimal \<and> last data AND 0x7f = 0 \<and>
              (length data \<le> 1 \<or> data ! (length data - 2) AND 0x80 = 0)
      then Inl NumberNotMinimallyEncoded
      else let result = foldr (\<lambda>(i, item) acc. push_bit (8 * i mod 64) (ucast item) OR acc) (enumerate 0 data) 0 in
           if last data AND 0x80 \<noteq> 0
           then Inr (- (result AND NOT (push_bit (8 * (length data - 1) mod 64) 0x80)))
           else Inr result)"

function num_magnitude_bytes :: "u64 \<Rightarrow> bytes" where
  "num_magnitude_bytes absvalue =
     (if 0 < absvalue then ucast absvalue # num_magnitude_bytes (drop_bit 8 absvalue) else [])"
  by pat_completeness auto
termination
  by (relation "measure unat") (auto simp: drop_bit_eq_div word_gt_0 unat_div unat_gt_0)

declare num_magnitude_bytes.simps [simp del]

definition num_to_bytes :: "i64 \<Rightarrow> bytes" where
  "num_to_bytes n =
     (if n = 0 then []
      else let negative = (sint n < 0);
               result = num_magnitude_bytes (if negative then - n else n)
           in if last result AND 0x80 \<noteq> 0 then result @ [if negative then 0x80 else 0]
              else if negative then butlast result @ [last result OR 0x80]
              else result)"

definition push_num :: "i64 \<Rightarrow> script \<Rightarrow> script option" where
  "push_num n data = push_data (num_to_bytes n) data"

end
