(* ===== verification/TxSigner.thy ===== *)
theory TxSigner
  imports BtcScript
begin

text \<open>
  Signing of transactions: the hash that is signed (\<open>mm2_bitcoin/script/src/sign.rs\<close>) and the inputs that
  are made from signatures (\<open>coins/utxo_signer\<close>). The hash functions and the signatures of secp256k1 are
  parameters; a panic is \<open>None\<close>.
\<close>

section \<open>Hash functions\<close>

record hash_functions =
  h_dhash256 :: "bytes \<Rightarrow> bytes"
  h_sha256 :: "bytes \<Rightarrow> bytes"
  h_dhash160 :: "bytes \<Rightarrow> bytes"
  h_ripemd160 :: "bytes \<Rightarrow> bytes"
  h_blake_2b_256_personal :: "bytes \<Rightarrow> bytes \<Rightarrow> bytes"

text \<open>\<open>H256::from(u8)\<close>.\<close>

definition h256_from_u8 :: "u8 \<Rightarrow> bytes" where
  "h256_from_u8 v = v # replicate 31 0"

text \<open>The personalization strings of Zcash are ASCII texts.\<close>

definition ascii_bytes :: "string \<Rightarrow> bytes" where
  "ascii_bytes s = map (\<lambda>c. word_of_nat (of_char c)) s"

definition ZCASH_PREVOUTS_HASH_PERSONALIZATION :: bytes where
  "ZCASH_PREVOUTS_HASH_PERSONALIZATION = ascii_bytes ''ZcashPrevoutHash''"
definition ZCASH_SEQUENCE_HASH_PERSONALIZATION :: bytes where
  "ZCASH_SEQUENCE_HASH_PERSONALIZATION = ascii_bytes ''ZcashSequencHash''"
definition ZCASH_OUTPUTS_HASH_PERSONALIZATION :: bytes where
  "ZCASH_OUTPUTS_HASH_PERSONALIZATION = ascii_bytes ''ZcashOutputsHash''"
definition ZCASH_JOIN_SPLITS_HASH_PERSONALIZATION :: bytes where
  "ZCASH_JOIN_SPLITS_HASH_PERSONALIZATION = ascii_bytes ''ZcashJSplitsHash''"
definition ZCASH_SHIELDED_SPENDS_HASH_PERSONALIZATION :: bytes where
  "ZCASH_SHIELDED_SPENDS_HASH_PERSONALIZATION = ascii_bytes ''ZcashSSpendsHash''"
definition ZCASH_SHIELDED_OUTPUTS_HASH_PERSONALIZATION :: bytes where
  "ZCASH_SHIELDED_OUTPUTS_HASH_PERSONALIZATION = ascii_bytes ''ZcashSOutputHash''"
definition ZCASH_SIG_HASH_PERSONALIZATION :: bytes where
  "ZCASH_SIG_HASH_PERSONALIZATION = ascii_bytes ''ZcashSigHash''"

section \<open>The kind of a signature\<close>

datatype signature_version = Base | WitnessV0 | ForkId

datatype sighash_base = SighashAll | SighashNone | SighashSingle

fun sighash_base_u32 :: "sighash_base \<Rightarrow> u32" where
  "sighash_base_u32 SighashAll = 1"
| "sighash_base_u32 SighashNone = 2"
| "sighash_base_u32 SighashSingle = 3"

record sighash =
  sg_base :: sighash_base
  sg_anyone_can_pay :: bool
  sg_fork_id :: bool

definition sighash_to_u32 :: "sighash \<Rightarrow> u32" where
  "sighash_to_u32 s =
     (let base = sighash_base_u32 (sg_base s);
          base = (if sg_anyone_can_pay s then base OR 0x80 else base)
      in if sg_fork_id s then base OR 0x40 else base)"

definition sighash_is_defined :: "signature_version \<Rightarrow> u32 \<Rightarrow> bool" where
  "sighash_is_defined version u =
     (let u = (case version of ForkId \<Rightarrow> u AND NOT (0x40 OR 0x80) | _ \<Rightarrow> u AND NOT 0x80)
      in u = 1 \<or> u = 2 \<or> u = 3)"

definition sighash_from_u32 :: "signature_version \<Rightarrow> u32 \<Rightarrow> sighash" where
  "sighash_from_u32 version u =
     \<lparr>sg_base = (if u AND 0x1f = 2 then SighashNone else if u AND 0x1f = 3 then SighashSingle else SighashAll),
      sg_anyone_can_pay = (u AND 0x80 = 0x80),
      sg_fork_id = (version = ForkId \<and> u AND 0x40 = 0x40)\<rparr>"

section \<open>Transactions to be signed\<close>

record unsigned_input =
  ui_previous_output :: out_point
  ui_sequence :: u32
  ui_amount :: u64
  ui_witness :: "bytes list"

text \<open>\<open>SignerHashAlgo\<close> has the two cases of \<open>TxHashAlgo\<close>.\<close>

record input_signer =
  is_version :: i32
  is_n_time :: "u32 option"
  is_overwintered :: bool
  is_version_group_id :: u32
  is_consensus_branch_id :: u32
  is_expiry_height :: u32
  is_value_balance :: i64
  is_inputs :: "unsigned_input list"
  is_outputs :: "transaction_output list"
  is_lock_time :: u32
  is_join_splits :: "join_split list"
  is_shielded_spends :: "shielded_spend list"
  is_shielded_outputs :: "shielded_output list"
  is_zcash :: bool
  is_posv :: bool
  is_str_d_zeel :: "bytes option"
  is_hash_algo :: tx_hash_algo

definition unsigned_input_from :: "transaction_input \<Rightarrow> unsigned_input" where
  "unsigned_input_from i =
     \<lparr>ui_previous_output = ti_previous_output i, ui_sequence = ti_sequence i, ui_amount = 0,
      ui_witness = ti_script_witness i\<rparr>"

definition signer_of_transaction :: "btc_transaction \<Rightarrow> input_signer" where
  "signer_of_transaction t =
     \<lparr>is_version = tx_version t, is_n_time = tx_n_time t, is_overwintered = tx_overwintered t,
      is_version_group_id = tx_version_group_id t, is_consensus_branch_id = 0,
      is_expiry_height = tx_expiry_height t, is_value_balance = tx_value_balance t,
      is_inputs = map unsigned_input_from (tx_inputs t), is_outputs = tx_outputs t,
      is_lock_time = tx_lock_time t, is_join_splits = tx_join_splits t,
      is_shielded_spends = tx_shielded_spends t, is_shielded_outputs = tx_shielded_outputs t,
      is_zcash = tx_zcash t, is_posv = tx_posv t, is_str_d_zeel = tx_str_d_zeel t,
      is_hash_algo = tx_hash_algo t\<rparr>"

definition transaction_of_signer :: "input_signer \<Rightarrow> btc_transaction" where
  "transaction_of_signer t =
     \<lparr>tx_version = is_version t, tx_n_time = is_n_time t, tx_overwintered = is_overwintered t,
      tx_version_group_id = is_version_group_id t,
      tx_inputs = map (\<lambda>i. \<lparr>ti_previous_output = ui_previous_output i, ti_script_sig = [],
                             ti_sequence = ui_sequence i, ti_script_witness = []\<rparr>) (is_inputs t),
      tx_outputs = is_outputs t, tx_lock_time = is_lock_time t, tx_expiry_height = is_expiry_height t,
      tx_shielded_spends = is_shielded_spends t, tx_shielded_outputs = is_shielded_outputs t,
      tx_join_splits = is_join_splits t, tx_value_balance = is_value_balance t,
      tx_join_split_pubkey = zero_hash 32, tx_join_split_sig = zero_hash 64, tx_binding_sig = zero_hash 64,
      tx_zcash = is_zcash t, tx_posv = is_posv t, tx_str_d_zeel = is_str_d_zeel t,
      tx_hash_algo = is_hash_algo t\<rparr>"

section \<open>The hash that is signed\<close>

definition signature_hash_overwintered :: "hash_functions \<Rightarrow> input_signer \<Rightarrow> nat \<Rightarrow> script \<Rightarrow> u32 \<Rightarrow> bytes option" where
  "signature_hash_overwintered H t input_index script_pubkey sighashtype =
     (let blake = h_blake_2b_256_personal H;
          personalization = ZCASH_SIG_HASH_PERSONALIZATION @
            (if 3 \<le> sint (is_version t) then ser_u32 (is_consensus_branch_id t) else []);
          header = (if is_overwintered t then is_version t OR push_bit 31 1 else is_version t)
      in if input_index < length (is_inputs t)
         then let input = is_inputs t ! input_index in
           Some (blake (
             ser_u32 header @
             ser_u32 (is_version_group_id t) @
             ser_hash (blake (concat (map (\<lambda>i. ser_out_point (ui_previous_output i)) (is_inputs t)))
               ZCASH_PREVOUTS_HASH_PERSONALIZATION) @
             ser_hash (blake (concat (map (\<lambda>i. ser_u32 (ui_sequence i)) (is_inputs t)))
               ZCASH_SEQUENCE_HASH_PERSONALIZATION) @
             ser_hash (blake (concat (map ser_output (is_outputs t))) ZCASH_OUTPUTS_HASH_PERSONALIZATION) @
             ser_hash (if is_join_splits t \<noteq> []
               then blake (concat (map ser_join_split (is_join_splits t))) ZCASH_JOIN_SPLITS_HASH_PERSONALIZATION
               else zero_hash 32) @
             ser_hash (if is_shielded_spends t \<noteq> []
               then blake (concat (map (\<lambda>s. ser_hash (ss_cv s) @ ser_hash (ss_anchor s) @ ser_hash (ss_nullifier s) @
                                            ser_hash (ss_rk s) @ ser_hash (ss_zkproof s)) (is_shielded_spends t)))
                      ZCASH_SHIELDED_SPENDS_HASH_PERSONALIZATION
               else zero_hash 32) @
             ser_hash (if is_shielded_outputs t \<noteq> []
               then blake (concat (map ser_shielded_output (is_shielded_outputs t)))
                      ZCASH_SHIELDED_OUTPUTS_HASH_PERSONALIZATION
               else zero_hash 32) @
             ser_u32 (is_lock_time t) @
             ser_u32 (is_expiry_height t) @
             ser_u64 (is_value_balance t) @
             ser_u32 sighashtype @
             ser_out_point (ui_previous_output input) @
             ser_Bytes script_pubkey @
             ser_u64 (ui_amount input) @
             ser_u32 (ui_sequence input)) personalization)
         else None)"

text \<open>The inputs and outputs of the transaction whose bytes are hashed.\<close>

definition sighash_input :: "sighash \<Rightarrow> nat \<Rightarrow> script \<Rightarrow> nat \<times> unsigned_input \<Rightarrow> transaction_input" where
  "sighash_input sg input_index script_pubkey = (\<lambda>(n, input).
     \<lparr>ti_previous_output = ui_previous_output input,
      ti_script_sig = (if n = input_index then script_pubkey else []),
      ti_sequence = (if (sg_base sg = SighashSingle \<or> sg_base sg = SighashNone) \<and> n \<noteq> input_index then 0
                     else ui_sequence input),
      ti_script_witness = []\<rparr>)"

definition sighash_inputs :: "sighash \<Rightarrow> nat \<Rightarrow> script \<Rightarrow> input_signer \<Rightarrow> transaction_input list" where
  "sighash_inputs sg input_index script_pubkey t =
     (if sg_anyone_can_pay sg
      then let input = is_inputs t ! input_index in
           [\<lparr>ti_previous_output = ui_previous_output input, ti_script_sig = script_pubkey,
             ti_sequence = ui_sequence input, ti_script_witness = []\<rparr>]
      else map (sighash_input sg input_index script_pubkey) (enumerate 0 (is_inputs t)))"

definition sighash_outputs :: "sighash \<Rightarrow> nat \<Rightarrow> input_signer \<Rightarrow> transaction_output list" where
  "sighash_outputs sg input_index t =
     (case sg_base sg of
        SighashAll \<Rightarrow> is_outputs t
      | SighashSingle \<Rightarrow>
          map (\<lambda>(n, out). if n = input_index then out else output_default)
            (enumerate 0 (take (input_index + 1) (is_outputs t)))
      | SighashNone \<Rightarrow> [])"

definition sighash_transaction :: "sighash \<Rightarrow> nat \<Rightarrow> script \<Rightarrow> input_signer \<Rightarrow> btc_transaction" where
  "sighash_transaction sg input_index script_pubkey t =
     \<lparr>tx_version = is_version t, tx_n_time = (if is_posv t then None else is_n_time t), tx_overwintered = False,
      tx_version_group_id = 0, tx_inputs = sighash_inputs sg input_index script_pubkey t,
      tx_outputs = sighash_outputs sg input_index t, tx_lock_time = is_lock_time t, tx_expiry_height = 0,
      tx_shielded_spends = [], tx_shielded_outputs = [], tx_join_splits = [], tx_value_balance = 0,
      tx_join_split_pubkey = zero_hash 32, tx_join_split_sig = zero_hash 64, tx_binding_sig = zero_hash 64,
      tx_zcash = is_zcash t, tx_posv = is_posv t, tx_str_d_zeel = is_str_d_zeel t,
      tx_hash_algo = is_hash_algo t\<rparr>"

definition signature_hash_original ::
  "hash_functions \<Rightarrow> input_signer \<Rightarrow> nat \<Rightarrow> script \<Rightarrow> u32 \<Rightarrow> sighash \<Rightarrow> bytes option" where
  "signature_hash_original H t input_index script_pubkey sighashtype sg =
     (if length (is_inputs t) \<le> input_index then Some (h256_from_u8 1)
      else if sg_base sg = SighashSingle \<and> length (is_outputs t) \<le> input_index then Some (h256_from_u8 1)
      else if 3 \<le> sint (is_version t) \<and> is_overwintered t
      then signature_hash_overwintered H t input_index script_pubkey sighashtype
      else let tx = sighash_transaction sg input_index (without_separators script_pubkey) t;
               out = ser_transaction False tx @ ser_u32 sighashtype
           in Some (case is_hash_algo t of DSHA256 \<Rightarrow> h_dhash256 H out | SHA256 \<Rightarrow> h_sha256 H out))"

definition compute_hash_prevouts :: "hash_functions \<Rightarrow> sighash \<Rightarrow> unsigned_input list \<Rightarrow> bytes" where
  "compute_hash_prevouts H sg inputs =
     (if sg_anyone_can_pay sg then h256_from_u8 0
      else h_dhash256 H (concat (map (\<lambda>i. ser_out_point (ui_previous_output i)) inputs)))"

definition compute_hash_sequence :: "hash_functions \<Rightarrow> sighash \<Rightarrow> unsigned_input list \<Rightarrow> bytes" where
  "compute_hash_sequence H sg inputs =
     (if sg_base sg = SighashAll \<and> \<not> sg_anyone_can_pay sg
      then h_dhash256 H (concat (map (\<lambda>i. ser_u32 (ui_sequence i)) inputs))
      else h256_from_u8 0)"

definition compute_hash_outputs :: "hash_functions \<Rightarrow> sighash \<Rightarrow> nat \<Rightarrow> transaction_output list \<Rightarrow> bytes" where
  "compute_hash_outputs H sg input_index outputs =
     (if sg_base sg = SighashAll then h_dhash256 H (concat (map ser_output outputs))
      else if sg_base sg = SighashSingle \<and> input_index < length outputs
      then h_dhash256 H (ser_output (outputs ! input_index))
      else h256_from_u8 0)"

definition witness0_preimage ::
  "hash_functions \<Rightarrow> input_signer \<Rightarrow> unsigned_input \<Rightarrow> nat \<Rightarrow> u64 \<Rightarrow> script \<Rightarrow> u32 \<Rightarrow> sighash \<Rightarrow> bytes" where
  "witness0_preimage H t input input_index input_amount script_pubkey sighashtype sg =
     ser_u32 (is_version t) @
     ser_hash (compute_hash_prevouts H sg (is_inputs t)) @
     ser_hash (compute_hash_sequence H sg (is_inputs t)) @
     ser_out_point (ui_previous_output input) @
     ser_list ser_u8 script_pubkey @
     ser_u64 input_amount @
     ser_u32 (ui_sequence input) @
     ser_hash (compute_hash_outputs H sg input_index (is_outputs t)) @
     ser_u32 (is_lock_time t) @
     ser_u32 sighashtype"

definition signature_hash_witness0 ::
  "hash_functions \<Rightarrow> input_signer \<Rightarrow> nat \<Rightarrow> u64 \<Rightarrow> script \<Rightarrow> u32 \<Rightarrow> sighash \<Rightarrow> bytes option" where
  "signature_hash_witness0 H t input_index input_amount script_pubkey sighashtype sg =
     (if input_index < length (is_inputs t)
      then Some (h_dhash256 H (witness0_preimage H t (is_inputs t ! input_index) input_index input_amount
             script_pubkey sighashtype sg))
      else None)"

definition signature_hash_fork_id ::
  "hash_functions \<Rightarrow> input_signer \<Rightarrow> nat \<Rightarrow> u64 \<Rightarrow> script \<Rightarrow> u32 \<Rightarrow> sighash \<Rightarrow> bytes option" where
  "signature_hash_fork_id H t input_index input_amount script_pubkey sighashtype sg =
     (if length (is_inputs t) \<le> input_index then Some (h256_from_u8 1)
      else if sg_base sg = SighashSingle \<and> length (is_outputs t) \<le> input_index then Some (h256_from_u8 1)
      else signature_hash_witness0 H t input_index input_amount script_pubkey sighashtype sg)"

definition signature_hash ::
  "hash_functions \<Rightarrow> input_signer \<Rightarrow> nat \<Rightarrow> u64 \<Rightarrow> script \<Rightarrow> signature_version \<Rightarrow> u32 \<Rightarrow> bytes option" where
  "signature_hash H t input_index input_amount script_pubkey sigversion sighashtype =
     (let sg = sighash_from_u32 sigversion sighashtype in
      if sigversion = ForkId \<and> sg_fork_id sg
      then signature_hash_fork_id H t input_index input_amount script_pubkey sighashtype sg
      else if sigversion = WitnessV0
      then signature_hash_witness0 H t input_index input_amount script_pubkey sighashtype sg
      else signature_hash_original H t input_index script_pubkey sighashtype sg)"

section \<open>Signed inputs\<close>

text \<open>
  A key pair: the public key, and the signature of a message with the private key. \<open>sign_message\<close> of
  \<open>with_key_pair.rs\<close> is \<open>kp_sign\<close>.
\<close>

record key_pair =
  kp_public :: bytes
  kp_sign :: "bytes \<Rightarrow> string + bytes"

datatype sign_error =
    MismatchScript string script script
  | InputIndexOutOfBound nat nat
  | ErrorSigning string

definition sig_script_sig :: "bytes \<Rightarrow> u32 \<Rightarrow> bytes" where
  "sig_script_sig signature fork_id = signature @ [1 OR ucast fork_id]"

definition script_sig_with_pub :: "bytes \<Rightarrow> u32 \<Rightarrow> bytes \<Rightarrow> bytes option" where
  "script_sig_with_pub public_key fork_id signature =
     do { b \<leftarrow> push_data (sig_script_sig signature fork_id) []; push_data public_key b }"

definition signed_input_of :: "unsigned_input \<Rightarrow> bytes \<Rightarrow> bytes list \<Rightarrow> transaction_input" where
  "signed_input_of i s w =
     \<lparr>ti_previous_output = ui_previous_output i, ti_script_sig = s, ti_sequence = ui_sequence i,
      ti_script_witness = w\<rparr>"

definition p2pk_spend_with_signature :: "unsigned_input \<Rightarrow> u32 \<Rightarrow> bytes \<Rightarrow> transaction_input option" where
  "p2pk_spend_with_signature i fork_id signature =
     do { s \<leftarrow> push_bytes (sig_script_sig signature fork_id) []; Some (signed_input_of i s []) }"

definition p2pkh_spend_with_signature :: "unsigned_input \<Rightarrow> bytes \<Rightarrow> u32 \<Rightarrow> bytes \<Rightarrow> transaction_input option" where
  "p2pkh_spend_with_signature i public_key fork_id signature =
     do { s \<leftarrow> script_sig_with_pub public_key fork_id signature; Some (signed_input_of i s []) }"

definition p2sh_spend_with_signature ::
  "unsigned_input \<Rightarrow> script \<Rightarrow> script \<Rightarrow> u32 \<Rightarrow> bytes \<Rightarrow> transaction_input option" where
  "p2sh_spend_with_signature i redeem_script script_data fork_id signature =
     do { resulting_script \<leftarrow> push_data (sig_script_sig signature fork_id) [];
          redeem_part \<leftarrow> push_data redeem_script [];
          Some (signed_input_of i
            ((if script_data \<noteq> [] then resulting_script @ script_data else resulting_script) @ redeem_part) []) }"

definition p2wpkh_spend_with_signature :: "unsigned_input \<Rightarrow> bytes \<Rightarrow> u32 \<Rightarrow> bytes \<Rightarrow> transaction_input" where
  "p2wpkh_spend_with_signature i public_key fork_id signature =
     signed_input_of i [] [sig_script_sig signature fork_id, public_key]"

definition get_input :: "input_signer \<Rightarrow> nat \<Rightarrow> sign_error + unsigned_input" where
  "get_input t input_index =
     (if input_index < length (is_inputs t) then Inr (is_inputs t ! input_index)
      else Inl (InputIndexOutOfBound (length (is_inputs t)) input_index))"

definition signature_hash_to_sign ::
  "hash_functions \<Rightarrow> input_signer \<Rightarrow> nat \<Rightarrow> script \<Rightarrow> signature_version \<Rightarrow> u32 \<Rightarrow> (sign_error + bytes) option" where
  "signature_hash_to_sign H t input_index output_script signature_version fork_id =
     (case get_input t input_index of
        Inl e \<Rightarrow> Some (Inl e)
      | Inr input \<Rightarrow>
          map_option Inr (signature_hash H t input_index (ui_amount input) output_script signature_version (1 OR fork_id)))"

definition calc_and_sign_sighash ::
  "hash_functions \<Rightarrow> input_signer \<Rightarrow> nat \<Rightarrow> script \<Rightarrow> key_pair \<Rightarrow> signature_version \<Rightarrow> u32 \<Rightarrow>
   (sign_error + bytes) option" where
  "calc_and_sign_sighash H t input_index output_script key_pair signature_version fork_id =
     (case signature_hash_to_sign H t input_index output_script signature_version fork_id of
        None \<Rightarrow> None
      | Some (Inl e) \<Rightarrow> Some (Inl e)
      | Some (Inr hash) \<Rightarrow>
          Some (case kp_sign key_pair hash of Inl e \<Rightarrow> Inl (ErrorSigning e) | Inr s \<Rightarrow> Inr s))"

text \<open>What the four functions below have in common: the signature is made, and put into the input.\<close>

definition spend_input ::
  "hash_functions \<Rightarrow> input_signer \<Rightarrow> nat \<Rightarrow> script \<Rightarrow> key_pair \<Rightarrow> signature_version \<Rightarrow> u32 \<Rightarrow>
   (unsigned_input \<Rightarrow> bytes \<Rightarrow> transaction_input option) \<Rightarrow> (sign_error + transaction_input) option" where
  "spend_input H t input_index output_script key_pair signature_version fork_id f =
     (case get_input t input_index of
        Inl e \<Rightarrow> Some (Inl e)
      | Inr input \<Rightarrow>
          (case calc_and_sign_sighash H t input_index output_script key_pair signature_version fork_id of
             None \<Rightarrow> None
           | Some (Inl e) \<Rightarrow> Some (Inl e)
           | Some (Inr signature) \<Rightarrow> map_option Inr (f input signature)))"

definition p2pk_spend ::
  "hash_functions \<Rightarrow> input_signer \<Rightarrow> nat \<Rightarrow> key_pair \<Rightarrow> signature_version \<Rightarrow> u32 \<Rightarrow>
   (sign_error + transaction_input) option" where
  "p2pk_spend H t input_index key_pair signature_version fork_id =
     (case get_input t input_index of
        Inl e \<Rightarrow> Some (Inl e)
      | Inr _ \<Rightarrow>
          (case build_p2pk (kp_public key_pair) of
             None \<Rightarrow> None
           | Some script \<Rightarrow>
               spend_input H t input_index script key_pair signature_version fork_id
                 (\<lambda>i. p2pk_spend_with_signature i fork_id)))"

definition p2pkh_spend ::
  "hash_functions \<Rightarrow> input_signer \<Rightarrow> nat \<Rightarrow> key_pair \<Rightarrow> script \<Rightarrow> signature_version \<Rightarrow> u32 \<Rightarrow>
   (sign_error + transaction_input) option" where
  "p2pkh_spend H t input_index key_pair prev_script signature_version fork_id =
     (case get_input t input_index of
        Inl e \<Rightarrow> Some (Inl e)
      | Inr _ \<Rightarrow>
          (case build_p2pkh (h_dhash160 H (kp_public key_pair)) of
             None \<Rightarrow> None
           | Some script \<Rightarrow>
               if script \<noteq> prev_script then Some (Inl (MismatchScript ''P2PKH'' script prev_script))
               else spend_input H t input_index script key_pair signature_version fork_id
                      (\<lambda>i. p2pkh_spend_with_signature i (kp_public key_pair) fork_id)))"

definition p2sh_spend ::
  "hash_functions \<Rightarrow> input_signer \<Rightarrow> nat \<Rightarrow> key_pair \<Rightarrow> script \<Rightarrow> script \<Rightarrow> signature_version \<Rightarrow> u32 \<Rightarrow>
   (sign_error + transaction_input) option" where
  "p2sh_spend H t input_index key_pair script_data redeem_script signature_version fork_id =
     spend_input H t input_index redeem_script key_pair signature_version fork_id
       (\<lambda>i. p2sh_spend_with_signature i redeem_script script_data fork_id)"

definition p2wpkh_spend ::
  "hash_functions \<Rightarrow> input_signer \<Rightarrow> nat \<Rightarrow> key_pair \<Rightarrow> script \<Rightarrow> signature_version \<Rightarrow> u32 \<Rightarrow>
   (sign_error + transaction_input) option" where
  "p2wpkh_spend H t input_index key_pair prev_script signature_version fork_id =
     (case get_input t input_index of
        Inl e \<Rightarrow> Some (Inl e)
      | Inr _ \<Rightarrow>
          (case build_p2pkh (h_dhash160 H (kp_public key_pair)) of
             None \<Rightarrow> None
           | Some script \<Rightarrow>
               if script \<noteq> prev_script then Some (Inl (MismatchScript ''P2PKH'' script prev_script))
               else spend_input H t input_index script key_pair signature_version fork_id
                      (\<lambda>i s. Some (p2wpkh_spend_with_signature i (kp_public key_pair) fork_id s))))"

definition complete_tx :: "input_signer \<Rightarrow> transaction_input list \<Rightarrow> btc_transaction" where
  "complete_tx t signed_inputs =
     \<lparr>tx_version = is_version t, tx_n_time = is_n_time t, tx_overwintered = is_overwintered t,
      tx_version_group_id = is_version_group_id t, tx_inputs = signed_inputs,
      tx_outputs = is_outputs t, tx_lock_time = is_lock_time t,
      tx_expiry_height = is_expiry_height t, tx_shielded_spends = [], tx_shielded_outputs = [],
      tx_join_splits = [], tx_value_balance = 0, tx_join_split_pubkey = zero_hash 32,
      tx_join_split_sig = zero_hash 64, tx_binding_sig = zero_hash 64, tx_zcash = is_zcash t,
      tx_posv = is_posv t, tx_str_d_zeel = is_str_d_zeel t, tx_hash_algo = is_hash_algo t\<rparr>"

text \<open>The loop over the inputs; the first error or panic ends it.\<close>

fun sign_inputs :: "(nat \<Rightarrow> (sign_error + transaction_input) option) \<Rightarrow> nat list \<Rightarrow>
    (sign_error + transaction_input list) option" where
  "sign_inputs f [] = Some (Inr [])"
| "sign_inputs f (i # is) =
     (case f i of
        None \<Rightarrow> None
      | Some (Inl e) \<Rightarrow> Some (Inl e)
      | Some (Inr input) \<Rightarrow>
          (case sign_inputs f is of
             None \<Rightarrow> None
           | Some (Inl e) \<Rightarrow> Some (Inl e)
           | Some (Inr inputs) \<Rightarrow> Some (Inr (input # inputs))))"

definition sign_tx ::
  "hash_functions \<Rightarrow> input_signer \<Rightarrow> key_pair \<Rightarrow> script \<Rightarrow> signature_version \<Rightarrow> u32 \<Rightarrow>
   (sign_error + btc_transaction) option" where
  "sign_tx H t key_pair prev_script signature_version fork_id =
     (let spend = (if signature_version = WitnessV0 then p2wpkh_spend else p2pkh_spend) in
      case sign_inputs (\<lambda>i. spend H t i key_pair prev_script signature_version fork_id)
             [0..<length (is_inputs t)] of
        None \<Rightarrow> None
      | Some (Inl e) \<Rightarrow> Some (Inl e)
      | Some (Inr inputs) \<Rightarrow> Some (Inr (complete_tx t inputs)))"

end
