(* ===== verification/UtxoCoin.thy ===== *)
theory UtxoCoin
  imports TxSigner SwapTypes
begin

text \<open>
  A coin of a chain of the Bitcoin family (\<open>coins/utxo.rs\<close>, \<open>coins/utxo/utxo_common.rs\<close>): its configuration,
  fees, the builder that chooses inputs and makes transactions, the rewards of Komodo, and the cache of outputs
  that were spent a short while ago. The answers of the node that the coin asks are in a record \<open>utxo_rpc\<close>, one for
  each operation; calls that an operation makes several times take the number of the call. \<open>None\<close> is a panic.
\<close>

section \<open>Configuration\<close>

datatype address_format = Standard | Segwit | CashAddressFormat string u8 u8

record utxo_address =
  ad_prefix :: u8
  ad_t_addr_prefix :: u8
  ad_hrp :: "string option"
  ad_hash :: address_hash
  ad_addr_format :: address_format

datatype tx_fee_conf = TxFee_Dynamic | TxFee_FixedPerKb u64

datatype actual_tx_fee = Dynamic u64 | FixedPerKb u64

datatype fee_policy = SendExact | DeductFromOutput nat

record utxo_coin =
  uc_ticker :: string
  uc_decimals :: u8
  uc_is_pos :: bool
  uc_is_posv :: bool
  uc_overwintered :: bool
  uc_zcash :: bool
  uc_tx_version :: i32
  uc_version_group_id :: u32
  uc_consensus_branch_id :: u32
  uc_signature_version :: signature_version
  uc_fork_id :: u32
  uc_tx_hash_algo :: tx_hash_algo
  uc_force_min_relay_fee :: bool
  uc_dust_amount :: u64
  uc_tx_fee :: tx_fee_conf
  uc_tx_fee_volatility_percent :: rat
  uc_pub_addr_prefix :: u8
  uc_pub_t_addr_prefix :: u8
  uc_p2sh_addr_prefix :: u8
  uc_p2sh_t_addr_prefix :: u8
  uc_bech32_hrp :: "string option"
  uc_spv_conf :: bool
  uc_electrum :: bool
  uc_check_utxo_maturity :: bool
  uc_mature_confirmations :: u32
  uc_my_address :: "utxo_address option"
  uc_key_pair :: "key_pair option"
  uc_hashes :: hash_functions

record rpc_transaction =
  rt_hex :: bytes
  rt_locktime :: u32
  rt_confirmations :: u32
  rt_height :: "u64 option"
  rt_is_coinbase :: bool

datatype verbose_transaction_from = FromCache rpc_transaction | FromRpc rpc_transaction

record unspent_info =
  us_outpoint :: out_point
  us_value :: u64
  us_height :: "u64 option"

text \<open>
  \<open>ur_to_u64\<close> is \<open>BigDecimal::to_u64\<close>, \<open>ur_f64\<close> the rounding of a number to a double.
\<close>

record utxo_rpc =
  ur_now_sec :: "nat \<Rightarrow> u64"
  ur_estimate_fee_sat :: "string + u64"
  ur_relay_fee :: "string + rat"
  ur_block_count :: "string + u64"
  ur_current_mtp :: "nat \<Rightarrow> string + u32"
  ur_list_unspent :: "string + unspent_info list"
  ur_verbose_transaction :: "bytes \<Rightarrow> string + rpc_transaction"
  ur_verbose_transactions :: "bytes list \<Rightarrow> string + (bytes \<rightharpoonup> verbose_transaction_from)"
  ur_transaction_bytes :: "nat \<Rightarrow> bytes \<Rightarrow> string + bytes"
  ur_script_history :: "bytes \<Rightarrow> string + bytes list"
  ur_block_hash :: "u64 \<Rightarrow> string + bytes"
  ur_list_since_block :: "bytes \<Rightarrow> string + (bytes \<times> bool) list"
  ur_import_address :: "utxo_address \<Rightarrow> string + unit"
  ur_spv_proof :: "btc_transaction \<Rightarrow> string + unit"
  ur_send_transaction :: "btc_transaction \<Rightarrow> string + bytes"
  ur_to_u64 :: "rat \<Rightarrow> u64 option"
  ur_f64 :: "rat \<Rightarrow> rat"

definition now_sec_u32 :: "utxo_rpc \<Rightarrow> nat \<Rightarrow> u32" where
  "now_sec_u32 rpc n = ucast (ur_now_sec rpc n)"

section \<open>Amounts, addresses and scripts\<close>

definition KILO_BYTE :: u64 where "KILO_BYTE = 1000"
definition MAX_DER_SIGNATURE_LEN :: nat where "MAX_DER_SIGNATURE_LEN = 72"
definition COMPRESSED_PUBKEY_LEN :: nat where "COMPRESSED_PUBKEY_LEN = 33"
definition P2PKH_OUTPUT_LEN :: u64 where "P2PKH_OUTPUT_LEN = 34"

definition big_decimal_from_sat_unsigned :: "u64 \<Rightarrow> u8 \<Rightarrow> rat" where
  "big_decimal_from_sat_unsigned satoshis decimals = of_nat (unat satoshis) / of_nat (unat ((10 :: u64) ^ unat decimals))"

definition big_decimal_from_sat :: "i64 \<Rightarrow> u8 \<Rightarrow> rat" where
  "big_decimal_from_sat satoshis decimals = of_int (sint satoshis) / of_nat (unat ((10 :: u64) ^ unat decimals))"

definition sat_from_big_decimal :: "utxo_rpc \<Rightarrow> rat \<Rightarrow> u8 \<Rightarrow> string + u64" where
  "sat_from_big_decimal rpc amount decimals =
     (case ur_to_u64 rpc (amount * of_nat (unat ((10 :: u64) ^ unat decimals))) of
        None \<Rightarrow> Inl ''Could not get sat from amount''
      | Some n \<Rightarrow> Inr n)"

definition output_script :: "utxo_address \<Rightarrow> keys_type \<Rightarrow> script option" where
  "output_script address script_type =
     (let hash = address_hash_to_vec (ad_hash address) in
      if ad_addr_format address = Segwit then build_witness_script hash
      else case script_type of
        P2PKH \<Rightarrow> build_p2pkh hash
      | P2SH \<Rightarrow> build_p2sh hash
      | P2WPKH \<Rightarrow> build_witness_script hash
      | P2WSH \<Rightarrow> build_witness_script hash)"

definition address_from_raw_pubkey ::
  "utxo_coin \<Rightarrow> bytes \<Rightarrow> address_format \<Rightarrow> string + utxo_address" where
  "address_from_raw_pubkey coin pub_key addr_format =
     (case public_from_slice pub_key of
        None \<Rightarrow> Inl ''Invalid Public''
      | Some key \<Rightarrow>
          Inr \<lparr>ad_prefix = uc_pub_addr_prefix coin, ad_t_addr_prefix = uc_pub_t_addr_prefix coin,
               ad_hrp = uc_bech32_hrp coin, ad_hash = AddressHash (h_dhash160 (uc_hashes coin) key),
               ad_addr_format = addr_format\<rparr>)"

section \<open>Fees\<close>

definition get_tx_fee :: "utxo_coin \<Rightarrow> utxo_rpc \<Rightarrow> string + actual_tx_fee" where
  "get_tx_fee coin rpc =
     (case uc_tx_fee coin of
        TxFee_Dynamic \<Rightarrow> (case ur_estimate_fee_sat rpc of Inl e \<Rightarrow> Inl e | Inr fee \<Rightarrow> Inr (Dynamic fee))
      | TxFee_FixedPerKb satoshis \<Rightarrow> Inr (FixedPerKb satoshis))"

text \<open>The product is computed with doubles and rounded half up.\<close>

definition increase_by_percent :: "utxo_rpc \<Rightarrow> u64 \<Rightarrow> rat \<Rightarrow> u64" where
  "increase_by_percent rpc num percent =
     (let f = ur_f64 rpc; p = f (f (f (of_nat (unat num)) / 100) * percent)
      in num + f64_as_u64 (of_int \<lfloor>p + 1 / 2\<rfloor>))"

definition increase_dynamic_fee_by_stage :: "utxo_coin \<Rightarrow> utxo_rpc \<Rightarrow> u64 \<Rightarrow> fee_approx_stage \<Rightarrow> u64" where
  "increase_dynamic_fee_by_stage coin rpc dynamic_fee stage =
     (let base_percent = uc_tx_fee_volatility_percent coin in
      case stage of
        WithoutApprox \<Rightarrow> dynamic_fee
      | StartSwap \<Rightarrow> increase_by_percent rpc dynamic_fee base_percent
      | WatcherPreimage \<Rightarrow> increase_by_percent rpc dynamic_fee base_percent
      | OrderIssue \<Rightarrow> increase_by_percent rpc dynamic_fee (ur_f64 rpc (base_percent * 2))
      | TradePreimage \<Rightarrow> increase_by_percent rpc dynamic_fee (ur_f64 rpc (base_percent * (5 / 2))))"

definition fee_for_kilobytes :: "u64 \<Rightarrow> u64 \<Rightarrow> u64" where
  "fee_for_kilobytes satoshis tx_size =
     satoshis * (if tx_size mod KILO_BYTE = 0 then tx_size div KILO_BYTE else tx_size div KILO_BYTE + 1)"

definition get_htlc_spend_fee :: "utxo_coin \<Rightarrow> utxo_rpc \<Rightarrow> u64 \<Rightarrow> fee_approx_stage \<Rightarrow> string + u64" where
  "get_htlc_spend_fee coin rpc tx_size stage =
     (case get_tx_fee coin rpc of
        Inl e \<Rightarrow> Inl e
      | Inr coin_fee \<Rightarrow>
          let fee = (case coin_fee of
                Dynamic fee_per_kb \<Rightarrow> (increase_dynamic_fee_by_stage coin rpc fee_per_kb stage * tx_size) div KILO_BYTE
              | FixedPerKb satoshis \<Rightarrow> fee_for_kilobytes satoshis tx_size)
          in if uc_force_min_relay_fee coin
             then case ur_relay_fee rpc of
                    Inl e \<Rightarrow> Inl e
                  | Inr relay_fee \<Rightarrow>
                      (case sat_from_big_decimal rpc relay_fee (uc_decimals coin) of
                         Inl e \<Rightarrow> Inl e
                       | Inr relay_fee_sat \<Rightarrow> Inr (if fee < relay_fee_sat then relay_fee_sat else fee))
             else Inr fee)"

text \<open>The size is computed with doubles, exactly: \<open>0.75 * base + 0.25 * total\<close> is a quarter of a small integer.\<close>

definition tx_size_in_v_bytes :: "address_format \<Rightarrow> btc_transaction \<Rightarrow> nat" where
  "tx_size_in_v_bytes from_addr_format tx =
     (let base_size = length (ser_transaction False tx);
          additional_len = 2 + MAX_DER_SIGNATURE_LEN + COMPRESSED_PUBKEY_LEN
      in if from_addr_format = Segwit
         then let total_size = base_size + 4 + length (tx_inputs tx) * (additional_len + 1)
              in (3 * base_size + total_size) div 4
         else base_size + length (tx_inputs tx) * additional_len)"

section \<open>The builder of transactions\<close>

definition transaction_preimage :: "utxo_coin \<Rightarrow> utxo_rpc \<Rightarrow> input_signer" where
  "transaction_preimage coin rpc =
     \<lparr>is_version = uc_tx_version coin,
      is_n_time = (if uc_is_pos coin then Some (now_sec_u32 rpc 1) else None),
      is_overwintered = uc_overwintered coin, is_version_group_id = uc_version_group_id coin,
      is_consensus_branch_id = uc_consensus_branch_id coin, is_expiry_height = 0, is_value_balance = 0,
      is_inputs = [], is_outputs = [],
      is_lock_time = (if uc_ticker coin = ''KMD'' then now_sec_u32 rpc 0 - 3600 + 777 * 2 else now_sec_u32 rpc 0),
      is_join_splits = [], is_shielded_spends = [], is_shielded_outputs = [], is_zcash = uc_zcash coin,
      is_posv = uc_is_posv coin, is_str_d_zeel = (if uc_ticker coin = ''NAV'' then Some [] else None),
      is_hash_algo = uc_tx_hash_algo coin\<rparr>"

record tx_builder =
  tb_from :: "utxo_address option"
  tb_available_inputs :: "unspent_info list"
  tb_fee_policy :: fee_policy
  tb_fee :: "actual_tx_fee option"
  tb_gas_fee :: "u64 option"
  tb_tx :: input_signer
  tb_change :: u64
  tb_sum_inputs :: u64
  tb_sum_outputs_value :: u64
  tb_tx_fee :: u64
  tb_min_relay_fee :: "u64 option"
  tb_dust :: "u64 option"

definition tx_builder_new :: "utxo_coin \<Rightarrow> utxo_rpc \<Rightarrow> tx_builder" where
  "tx_builder_new coin rpc =
     \<lparr>tb_from = uc_my_address coin, tb_available_inputs = [], tb_fee_policy = SendExact, tb_fee = None,
      tb_gas_fee = None, tb_tx = transaction_preimage coin rpc, tb_change = 0, tb_sum_inputs = 0,
      tb_sum_outputs_value = 0, tb_tx_fee = 0, tb_min_relay_fee = None, tb_dust = None\<rparr>"

definition unsigned_of_unspent :: "unspent_info \<Rightarrow> unsigned_input" where
  "unsigned_of_unspent u =
     \<lparr>ui_previous_output = us_outpoint u, ui_sequence = SEQUENCE_FINAL, ui_amount = us_value u, ui_witness = []\<rparr>"

definition with_from_address :: "utxo_address \<Rightarrow> tx_builder \<Rightarrow> tx_builder" where
  "with_from_address a b = b\<lparr>tb_from := Some a\<rparr>"

definition with_dust :: "u64 \<Rightarrow> tx_builder \<Rightarrow> tx_builder" where
  "with_dust dust_amount b = b\<lparr>tb_dust := Some dust_amount\<rparr>"

definition add_tx_inputs :: "unsigned_input list \<Rightarrow> tx_builder \<Rightarrow> tx_builder" where
  "add_tx_inputs is b = b\<lparr>tb_tx := (tb_tx b)\<lparr>is_inputs := is_inputs (tb_tx b) @ is\<rparr>\<rparr>"

definition add_required_inputs :: "unspent_info list \<Rightarrow> tx_builder \<Rightarrow> tx_builder" where
  "add_required_inputs inputs b = add_tx_inputs (map unsigned_of_unspent inputs) b"

definition add_available_inputs :: "unspent_info list \<Rightarrow> tx_builder \<Rightarrow> tx_builder" where
  "add_available_inputs inputs b = b\<lparr>tb_available_inputs := tb_available_inputs b @ inputs\<rparr>"

definition add_outputs :: "transaction_output list \<Rightarrow> tx_builder \<Rightarrow> tx_builder" where
  "add_outputs outputs b = b\<lparr>tb_tx := (tb_tx b)\<lparr>is_outputs := is_outputs (tb_tx b) @ outputs\<rparr>\<rparr>"

definition with_fee_policy :: "fee_policy \<Rightarrow> tx_builder \<Rightarrow> tx_builder" where
  "with_fee_policy p b = b\<lparr>tb_fee_policy := p\<rparr>"

definition with_fee :: "actual_tx_fee \<Rightarrow> tx_builder \<Rightarrow> tx_builder" where
  "with_fee f b = b\<lparr>tb_fee := Some f\<rparr>"

definition with_gas_fee :: "u64 \<Rightarrow> tx_builder \<Rightarrow> tx_builder" where
  "with_gas_fee gas_fee b = b\<lparr>tb_gas_fee := Some gas_fee\<rparr>"

definition builder_dust :: "utxo_coin \<Rightarrow> tx_builder \<Rightarrow> u64" where
  "builder_dust coin b = (case tb_dust b of Some d \<Rightarrow> d | None \<Rightarrow> uc_dust_amount coin)"

definition tx_fee_of_size :: "address_format \<Rightarrow> actual_tx_fee \<Rightarrow> input_signer \<Rightarrow> u64" where
  "tx_fee_of_size from_addr_format actual_tx_fee t =
     (let v_size = word_of_nat (tx_size_in_v_bytes from_addr_format (transaction_of_signer t)) in
      case actual_tx_fee of
        Dynamic f \<Rightarrow> (f * v_size) div KILO_BYTE
      | FixedPerKb f \<Rightarrow> fee_for_kilobytes f v_size)"

definition change_output_fee :: "actual_tx_fee \<Rightarrow> u64" where
  "change_output_fee actual_tx_fee =
     (case actual_tx_fee of Dynamic f \<Rightarrow> (f * P2PKH_OUTPUT_LEN) div KILO_BYTE | FixedPerKb _ \<Rightarrow> 0)"

definition raise_to_relay_fee :: "u64 option \<Rightarrow> u64 \<Rightarrow> u64" where
  "raise_to_relay_fee min_relay_fee fee =
     (case min_relay_fee of Some min_relay \<Rightarrow> if fee < min_relay then min_relay else fee | None \<Rightarrow> fee)"

definition update_fee_and_check_completeness ::
  "utxo_coin \<Rightarrow> address_format \<Rightarrow> actual_tx_fee \<Rightarrow> tx_builder \<Rightarrow> tx_builder \<times> bool" where
  "update_fee_and_check_completeness coin from_addr_format actual_tx_fee b0 =
     (let b = b0\<lparr>tb_tx_fee := tx_fee_of_size from_addr_format actual_tx_fee (tb_tx b0)\<rparr> in
      case tb_fee_policy b of
        SendExact \<Rightarrow>
          let outputs_plus_fee = tb_sum_outputs_value b + tb_tx_fee b in
          if outputs_plus_fee \<le> tb_sum_inputs b then
            let change = tb_sum_inputs b - outputs_plus_fee;
                extra = (if builder_dust coin b < change then change_output_fee actual_tx_fee else 0);
                fee = tb_tx_fee b + extra;
                fee' = raise_to_relay_fee (tb_min_relay_fee b) fee;
                outputs_plus_fee' = outputs_plus_fee + extra - fee + fee'
            in (b\<lparr>tb_change := change, tb_tx_fee := fee'\<rparr>, outputs_plus_fee' \<le> tb_sum_inputs b)
          else (b, False)
      | DeductFromOutput _ \<Rightarrow>
          if tb_sum_outputs_value b \<le> tb_sum_inputs b then
            let change = tb_sum_inputs b - tb_sum_outputs_value b;
                extra = (if builder_dust coin b < change then change_output_fee actual_tx_fee else 0)
            in (b\<lparr>tb_change := change,
                   tb_tx_fee := raise_to_relay_fee (tb_min_relay_fee b) (tb_tx_fee b + extra)\<rparr>, True)
          else (b, False))"

text \<open>The loop over the available inputs, which stops as soon as the transaction is complete.\<close>

fun choose_inputs :: "utxo_coin \<Rightarrow> address_format \<Rightarrow> actual_tx_fee \<Rightarrow> unspent_info list \<Rightarrow> tx_builder \<Rightarrow> tx_builder" where
  "choose_inputs coin from_addr_format fee [] b = b"
| "choose_inputs coin from_addr_format fee (u # us) b =
     (let b1 = add_tx_inputs [unsigned_of_unspent u] b;
          b2 = b1\<lparr>tb_sum_inputs := tb_sum_inputs b1 + us_value u\<rparr>;
          (b3, complete) = update_fee_and_check_completeness coin from_addr_format fee b2
      in if complete then b3 else choose_inputs coin from_addr_format fee us b3)"

datatype generate_tx_error =
    EmptyUtxoSet u64
  | EmptyOutputs
  | OutputValueLessThanDust u64 u64
  | DeductFeeFromOutputFailed nat u64 u64
  | NotEnoughUtxos u64 u64
  | GenerateTx_Rpc string
  | GenerateTx_Internal string

text \<open>The loop over the outputs: their sum, and what comes back to the own address.\<close>

fun check_outputs :: "u64 \<Rightarrow> script \<Rightarrow> transaction_output list \<Rightarrow> u64 \<Rightarrow> u64 \<Rightarrow> generate_tx_error + u64 \<times> u64" where
  "check_outputs dust change_script [] sum_outputs_value received_by_me = Inr (sum_outputs_value, received_by_me)"
| "check_outputs dust change_script (x # xs) sum_outputs_value received_by_me =
     (if fst (opcodes_next (xo_script_pubkey x) 0) \<noteq> Some (Inr OP_RETURN) \<and> xo_value x < dust
      then Inl (OutputValueLessThanDust (xo_value x) dust)
      else check_outputs dust change_script xs (sum_outputs_value + xo_value x)
             (if xo_script_pubkey x = change_script then received_by_me + xo_value x else received_by_me))"

record additional_tx_data =
  at_received_by_me :: u64
  at_spent_by_me :: u64
  at_fee_amount :: u64
  at_unused_change :: "u64 option"
  at_kmd_rewards :: "rat option"

section \<open>Rewards of Komodo\<close>

datatype kmd_rewards_not_accrued_reason =
    LocktimeNotSet | LocktimeLessThanThreshold | UtxoHeightGreaterThanEndOfEra | UtxoAmountLessThanTen
  | OneHourNotPassedYet | TransactionInMempool

definition kmd_interest :: "u64 option \<Rightarrow> u64 \<Rightarrow> u64 \<Rightarrow> u64 \<Rightarrow> kmd_rewards_not_accrued_reason + u64" where
  "kmd_interest height value lock_time current_time =
     (if value < 1000000000 then Inl UtxoAmountLessThanTen
      else if lock_time = 0 then Inl LocktimeNotSet
      else if lock_time < 500000000 then Inl LocktimeLessThanThreshold
      else case height of
        None \<Rightarrow> Inl TransactionInMempool
      | Some height \<Rightarrow>
          if 7777777 \<le> height then Inl UtxoHeightGreaterThanEndOfEra
          else if current_time < lock_time then Inl OneHourNotPassedYet
          else let minutes = (current_time - lock_time) div 60 in
            if minutes < 60 then Inl OneHourNotPassedYet
            else let minutes = (if 525600 < minutes then 525600 else minutes);
                     minutes = (if 1000000 \<le> height \<and> 44640 < minutes then 44640 else minutes) - 59
                 in Inr (if 3484958 \<le> height then (value div 10512000) * minutes div 500
                         else (value div 10512000) * minutes))"

fun sum_interest :: "utxo_rpc \<Rightarrow> u32 \<Rightarrow> unsigned_input list \<Rightarrow> u64 \<Rightarrow> string + u64" where
  "sum_interest rpc lock_time [] interest = Inr interest"
| "sum_interest rpc lock_time (i # is) interest =
     (case ur_verbose_transaction rpc (rev (op_hash (ui_previous_output i))) of
        Inl e \<Rightarrow> Inl e
      | Inr tx \<Rightarrow>
          sum_interest rpc lock_time is
            (case kmd_interest (rt_height tx) (ui_amount i) (ucast (rt_locktime tx)) (ucast lock_time) of
               Inl _ \<Rightarrow> interest
             | Inr output_interest \<Rightarrow> interest + output_interest))"

fun add_interest_output :: "u64 \<Rightarrow> script \<Rightarrow> transaction_output list \<Rightarrow> transaction_output list" where
  "add_interest_output interest my_script_pub [] = [\<lparr>xo_value = interest, xo_script_pubkey = my_script_pub\<rparr>]"
| "add_interest_output interest my_script_pub (x # xs) =
     (if xo_script_pubkey x = my_script_pub then x\<lparr>xo_value := xo_value x + interest\<rparr> # xs
      else x # add_interest_output interest my_script_pub xs)"

definition calc_interest_if_required ::
  "utxo_coin \<Rightarrow> utxo_rpc \<Rightarrow> input_signer \<Rightarrow> additional_tx_data \<Rightarrow> script \<Rightarrow> string + input_signer \<times> additional_tx_data" where
  "calc_interest_if_required coin rpc t data my_script_pub =
     (if uc_ticker coin \<noteq> ''KMD'' then Inr (t, data)
      else case ur_current_mtp rpc 0 of
        Inl e \<Rightarrow> Inl e
      | Inr mtp \<Rightarrow>
          (case sum_interest rpc mtp (is_inputs t) 0 of
             Inl e \<Rightarrow> Inl e
           | Inr interest \<Rightarrow>
               let rewards = Some (big_decimal_from_sat_unsigned interest (uc_decimals coin)) in
               if 0 < interest
               then Inr (t\<lparr>is_lock_time := mtp,
                           is_outputs := add_interest_output interest my_script_pub (is_outputs t)\<rparr>,
                         data\<lparr>at_received_by_me := at_received_by_me data + interest, at_kmd_rewards := rewards\<rparr>)
               else Inr (t\<lparr>is_lock_time := now_sec_u32 rpc 2 - 3600 + 777 * 2\<rparr>, data\<lparr>at_kmd_rewards := rewards\<rparr>)))"

section \<open>Building a transaction\<close>

text \<open>What follows the choice of the inputs: the fee is paid, and the change is given back.\<close>

definition deduct_fee ::
  "u64 \<Rightarrow> script \<Rightarrow> u64 \<Rightarrow> tx_builder \<Rightarrow> (generate_tx_error + tx_builder \<times> u64) option" where
  "deduct_fee dust change_script received_by_me b =
     (case tb_fee_policy b of
        SendExact \<Rightarrow> Some (Inr (b\<lparr>tb_sum_outputs_value := tb_sum_outputs_value b + tb_tx_fee b\<rparr>, received_by_me))
      | DeductFromOutput i \<Rightarrow>
          let min_output = tb_tx_fee b + dust; outputs = is_outputs (tb_tx b) in
          if \<not> i < length outputs then None
          else let out = outputs ! i in
            if xo_value out < min_output
            then Some (Inl (DeductFeeFromOutputFailed i (xo_value out) min_output))
            else Some (Inr (
              b\<lparr>tb_tx := (tb_tx b)\<lparr>is_outputs := outputs[i := out\<lparr>xo_value := xo_value out - tb_tx_fee b\<rparr>]\<rparr>\<rparr>,
              if xo_script_pubkey out = change_script then received_by_me - tb_tx_fee b else received_by_me)))"

definition finish_build ::
  "u64 \<Rightarrow> script \<Rightarrow> u64 \<Rightarrow> tx_builder \<Rightarrow> generate_tx_error + input_signer \<times> additional_tx_data" where
  "finish_build dust change_script received_by_me b =
     (if tb_sum_inputs b < tb_sum_outputs_value b
      then Inl (NotEnoughUtxos (tb_sum_inputs b) (tb_sum_outputs_value b))
      else let change = tb_sum_inputs b - tb_sum_outputs_value b;
               data = \<lparr>at_received_by_me = (if dust < change then received_by_me + change else received_by_me),
                       at_spent_by_me = tb_sum_inputs b, at_fee_amount = tb_tx_fee b,
                       at_unused_change = (if dust < change then None else if 0 < change then Some change else None),
                       at_kmd_rewards = None\<rparr>;
               t = (if dust < change
                    then (tb_tx b)\<lparr>is_outputs := is_outputs (tb_tx b) @
                            [\<lparr>xo_value = change, xo_script_pubkey = change_script\<rparr>]\<rparr>
                    else tb_tx b)
           in Inr (t, data))"

definition min_relay_fee_of :: "utxo_coin \<Rightarrow> utxo_rpc \<Rightarrow> generate_tx_error + u64 option" where
  "min_relay_fee_of coin rpc =
     (if uc_force_min_relay_fee coin
      then case ur_relay_fee rpc of
             Inl e \<Rightarrow> Inl (GenerateTx_Rpc e)
           | Inr fee_dec \<Rightarrow>
               (case sat_from_big_decimal rpc fee_dec (uc_decimals coin) of
                  Inl e \<Rightarrow> Inl (GenerateTx_Internal e)
                | Inr fee \<Rightarrow> Inr (Some fee))
      else Inr None)"

definition tx_builder_build ::
  "utxo_coin \<Rightarrow> utxo_rpc \<Rightarrow> tx_builder \<Rightarrow> (generate_tx_error + input_signer \<times> additional_tx_data) option" where
  "tx_builder_build coin rpc b =
     (let dust = builder_dust coin b in
      case tb_from b of
        None \<Rightarrow> Some (Inl (GenerateTx_Internal (CHR 0x27 # ''from'' @ CHR 0x27 # '' address is not specified'')))
      | Some from \<Rightarrow>
          (case output_script from P2PKH of
             None \<Rightarrow> None
           | Some change_script \<Rightarrow>
               (case (case tb_fee b of Some fee \<Rightarrow> Inr fee | None \<Rightarrow> get_tx_fee coin rpc) of
                  Inl e \<Rightarrow> Some (Inl (GenerateTx_Rpc e))
                | Inr fee \<Rightarrow>
                    if is_outputs (tb_tx b) = [] then Some (Inl EmptyOutputs)
                    else (case check_outputs dust change_script (is_outputs (tb_tx b)) (tb_sum_outputs_value b) 0 of
                       Inl e \<Rightarrow> Some (Inl e)
                     | Inr (sum_outputs_value, received_by_me) \<Rightarrow>
                         let required = sum_outputs_value + (case tb_gas_fee b of Some g \<Rightarrow> g | None \<Rightarrow> 0) in
                         if tb_available_inputs b = [] \<and> is_inputs (tb_tx b) = []
                         then Some (Inl (EmptyUtxoSet required))
                         else (case min_relay_fee_of coin rpc of
                            Inl e \<Rightarrow> Some (Inl e)
                          | Inr min_relay \<Rightarrow>
                              let b' = choose_inputs coin (ad_addr_format from) fee (tb_available_inputs b)
                                    (b\<lparr>tb_sum_outputs_value := required, tb_min_relay_fee := min_relay\<rparr>)
                              in (case deduct_fee dust change_script received_by_me b' of
                                 None \<Rightarrow> None
                               | Some (Inl e) \<Rightarrow> Some (Inl e)
                               | Some (Inr (b'', received)) \<Rightarrow>
                                   (case finish_build dust change_script received b'' of
                                      Inl e \<Rightarrow> Some (Inl e)
                                    | Inr (t, data) \<Rightarrow>
                                        Some (case calc_interest_if_required coin rpc t data change_script of
                                                Inl e \<Rightarrow> Inl (GenerateTx_Rpc e)
                                              | Inr r \<Rightarrow> Inr r))))))))"

end
