(* ===== verification/RecentlySpent.thy ===== *)
theory RecentlySpent
  imports UtxoCoin
begin

text \<open>
  Sending transactions (\<open>coins/utxo.rs\<close>): the cache of outputs that were spent a short while ago, which
  corrects the list of unspent outputs that a server gives, the order in which outputs are spent, and the
  signing and broadcasting of a transaction. A \<open>HashSet\<close> is the list of its elements in the order of the
  iteration, without duplicates.
\<close>

section \<open>The cache\<close>

record cached_unspent =
  cu_outpoint :: out_point
  cu_value :: u64

definition cached_of :: "unspent_info \<Rightarrow> cached_unspent" where
  "cached_of u = \<lparr>cu_outpoint = us_outpoint u, cu_value = us_value u\<rparr>"

definition unspent_of :: "cached_unspent \<Rightarrow> unspent_info" where
  "unspent_of c = \<lparr>us_outpoint = cu_outpoint c, us_value = cu_value c, us_height = None\<rparr>"

record recently_spent =
  rs_input_to_output :: "cached_unspent \<rightharpoonup> cached_unspent list"
  rs_output_to_input :: "cached_unspent \<rightharpoonup> cached_unspent list"
  rs_for_script_pubkey :: script

definition recently_spent_new :: "script \<Rightarrow> recently_spent" where
  "recently_spent_new s =
     \<lparr>rs_input_to_output = Map.empty, rs_output_to_input = Map.empty, rs_for_script_pubkey = s\<rparr>"

definition own_outputs :: "script \<Rightarrow> bytes \<Rightarrow> transaction_output list \<Rightarrow> cached_unspent list" where
  "own_outputs script spend_tx_hash outputs =
     map (\<lambda>(index, x). \<lparr>cu_outpoint = \<lparr>op_hash = spend_tx_hash, op_index = word_of_nat index\<rparr>, cu_value = xo_value x\<rparr>)
       (filter (\<lambda>(index, x). xo_script_pubkey x = script) (enumerate 0 outputs))"

text \<open>An input that is an output of an earlier transaction of the cache: the chains that lead to it are extended.\<close>

definition extend_chain ::
  "cached_unspent list \<Rightarrow> cached_unspent \<Rightarrow> cached_unspent \<Rightarrow>
   (cached_unspent \<rightharpoonup> cached_unspent list) \<times> cached_unspent list \<Rightarrow>
   (cached_unspent \<rightharpoonup> cached_unspent list) \<times> cached_unspent list" where
  "extend_chain to_replace input prev_input = (\<lambda>(m, prev).
     case m prev_input of
       None \<Rightarrow> (m, prev)
     | Some outs \<Rightarrow> (m(prev_input \<mapsto> fold List.insert to_replace (removeAll input outs)), List.insert prev_input prev))"

definition extend_chains ::
  "(cached_unspent \<rightharpoonup> cached_unspent list) \<Rightarrow> cached_unspent list \<Rightarrow> cached_unspent \<Rightarrow>
   (cached_unspent \<rightharpoonup> cached_unspent list) \<times> cached_unspent list \<Rightarrow>
   (cached_unspent \<rightharpoonup> cached_unspent list) \<times> cached_unspent list" where
  "extend_chains output_to_input to_replace input acc =
     (case output_to_input input of
        None \<Rightarrow> acc
      | Some prev_inputs \<Rightarrow> fold (extend_chain to_replace input) prev_inputs acc)"

definition add_spent :: "unspent_info list \<Rightarrow> bytes \<Rightarrow> transaction_output list \<Rightarrow> recently_spent \<Rightarrow> recently_spent" where
  "add_spent unspents spend_tx_hash outputs c =
     (let inputs = remdups (map cached_of unspents);
          to_replace = remdups (own_outputs (rs_for_script_pubkey c) spend_tx_hash outputs);
          (m, prev) = fold (extend_chains (rs_output_to_input c) to_replace) inputs (rs_input_to_output c, []);
          prev_inputs_spent = fold List.insert inputs prev
      in c\<lparr>rs_output_to_input := fold (\<lambda>x f. f(x \<mapsto> prev_inputs_spent)) to_replace (rs_output_to_input c),
           rs_input_to_output := fold (\<lambda>i f. f(i \<mapsto> to_replace)) inputs m\<rparr>)"

text \<open>One call of \<open>replace_spent_outputs_with_cache\<close>: the outputs that stay, and those that replace the others.\<close>

definition unspent_kept :: "recently_spent \<Rightarrow> unspent_info list \<Rightarrow> unspent_info list" where
  "unspent_kept c outputs = filter (\<lambda>u. rs_input_to_output c (cached_of u) = None) outputs"

definition unspent_replacements :: "recently_spent \<Rightarrow> unspent_info list \<Rightarrow> cached_unspent list" where
  "unspent_replacements c outputs =
     remdups (concat (map (\<lambda>u. case rs_input_to_output c (cached_of u) of Some outs \<Rightarrow> outs | None \<Rightarrow> []) outputs))"

partial_function (option) replace_spent_outputs_with_cache ::
  "recently_spent \<Rightarrow> unspent_info list \<Rightarrow> unspent_info list option" where
  "replace_spent_outputs_with_cache c outputs =
     (if unspent_replacements c outputs = [] then Some (unspent_kept c outputs)
      else replace_spent_outputs_with_cache c
             (remdups (unspent_kept c outputs @ map unspent_of (unspent_replacements c outputs))))"

text \<open>\<open>unique_by\<close> keeps the first output of each outpoint; outputs of the same value are in no certain order.\<close>

fun unique_outpoints :: "out_point list \<Rightarrow> unspent_info list \<Rightarrow> unspent_info list" where
  "unique_outpoints seen [] = []"
| "unique_outpoints seen (u # us) =
     (if us_outpoint u \<in> set seen then unique_outpoints seen us
      else u # unique_outpoints (us_outpoint u # seen) us)"

definition sort_dedup_unspents :: "unspent_info list \<Rightarrow> unspent_info list" where
  "sort_dedup_unspents us = sort_key us_value (unique_outpoints [] us)"

definition get_all_unspent_ordered_list ::
  "utxo_rpc \<Rightarrow> recently_spent \<Rightarrow> (string + unspent_info list) option" where
  "get_all_unspent_ordered_list rpc c =
     (case ur_list_unspent rpc of
        Inl e \<Rightarrow> Some (Inl e)
      | Inr unspents \<Rightarrow>
          map_option (\<lambda>us. Inr (sort_dedup_unspents us)) (replace_spent_outputs_with_cache c (remdups unspents)))"

section \<open>Mature outputs\<close>

definition calc_actual_cached_tx_confirmations :: "rpc_transaction \<Rightarrow> u64 \<Rightarrow> string + u32" where
  "calc_actual_cached_tx_confirmations tx block_count =
     (case rt_height tx of
        None \<Rightarrow> Inl ''height of cached tx is unknown''
      | Some tx_height \<Rightarrow>
          if tx_height = 0 then Inl ''height of cached tx is expected to be non-zero''
          else if block_count < tx_height then Inl ''actual block_count less than cached tx_height''
          else Inr (ucast (block_count - tx_height + 1)))"

definition is_unspent_mature :: "u32 \<Rightarrow> rpc_transaction \<Rightarrow> bool" where
  "is_unspent_mature mature_confirmations tx \<longleftrightarrow> \<not> rt_is_coinbase tx \<or> mature_confirmations \<le> rt_confirmations tx"

text \<open>What is known about the transaction of an unspent output; an unknown number of confirmations stays as it was.\<close>

fun updated_tx_info :: "u64 \<Rightarrow> unspent_info \<Rightarrow> verbose_transaction_from \<Rightarrow> rpc_transaction" where
  "updated_tx_info block_count u (FromCache tx) =
     (let tx = (if us_height u \<noteq> None then tx\<lparr>rt_height := us_height u\<rparr> else tx) in
      case calc_actual_cached_tx_confirmations tx block_count of
        Inl _ \<Rightarrow> tx
      | Inr conf \<Rightarrow> tx\<lparr>rt_confirmations := conf\<rparr>)"
| "updated_tx_info block_count u (FromRpc tx) =
     (if rt_height tx = None then tx\<lparr>rt_height := us_height u\<rparr> else tx)"

fun split_mature ::
  "u32 \<Rightarrow> u64 \<Rightarrow> (bytes \<rightharpoonup> verbose_transaction_from) \<Rightarrow> unspent_info list \<Rightarrow>
   string + unspent_info list \<times> unspent_info list" where
  "split_mature confs block_count verbose_txs [] = Inr ([], [])"
| "split_mature confs block_count verbose_txs (u # us) =
     (case verbose_txs (rev (op_hash (us_outpoint u))) of
        None \<Rightarrow> Inl ''get_verbose_transactions_from_cache_or_rpc should have returned the transaction''
      | Some tx \<Rightarrow>
          (case split_mature confs block_count verbose_txs us of
             Inl e \<Rightarrow> Inl e
           | Inr (mature, immature) \<Rightarrow>
               if is_unspent_mature confs (updated_tx_info block_count u tx)
               then Inr (u # mature, immature) else Inr (mature, u # immature)))"

definition identify_mature_unspents ::
  "utxo_coin \<Rightarrow> utxo_rpc \<Rightarrow> unspent_info list \<Rightarrow> string + unspent_info list \<times> unspent_info list" where
  "identify_mature_unspents coin rpc unspents =
     (case ur_block_count rpc of
        Inl e \<Rightarrow> Inl e
      | Inr block_count \<Rightarrow>
          (case ur_verbose_transactions rpc (remdups (map (\<lambda>u. rev (op_hash (us_outpoint u))) unspents)) of
             Inl e \<Rightarrow> Inl e
           | Inr verbose_txs \<Rightarrow> split_mature (uc_mature_confirmations coin) block_count verbose_txs unspents))"

definition get_mature_unspent_ordered_list ::
  "utxo_coin \<Rightarrow> utxo_rpc \<Rightarrow> recently_spent \<Rightarrow> (string + unspent_info list \<times> unspent_info list) option" where
  "get_mature_unspent_ordered_list coin rpc c =
     (case get_all_unspent_ordered_list rpc c of
        None \<Rightarrow> None
      | Some (Inl e) \<Rightarrow> Some (Inl e)
      | Some (Inr unspents) \<Rightarrow> Some (identify_mature_unspents coin rpc unspents))"

definition get_unspent_ordered_list ::
  "utxo_coin \<Rightarrow> utxo_rpc \<Rightarrow> recently_spent \<Rightarrow> (string + unspent_info list) option" where
  "get_unspent_ordered_list coin rpc c =
     (if uc_check_utxo_maturity coin
      then map_option (map_sum id fst) (get_mature_unspent_ordered_list coin rpc c)
      else get_all_unspent_ordered_list rpc c)"

section \<open>Sending\<close>

definition utxo_tx_hex :: "btc_transaction \<Rightarrow> bytes" where
  "utxo_tx_hex tx = (if tx_has_witness tx then ser_transaction True tx else ser_transaction False tx)"

definition utxo_tx_id :: "utxo_coin \<Rightarrow> btc_transaction \<Rightarrow> bytes" where
  "utxo_tx_id coin tx = BtcTransaction.tx_hash (h_dhash256 (uc_hashes coin)) (h_sha256 (uc_hashes coin)) tx"

definition transaction_enum :: "utxo_coin \<Rightarrow> btc_transaction \<Rightarrow> transaction" where
  "transaction_enum coin tx =
     \<lparr>transaction.tx_kind = UtxoTx, tx_hex = utxo_tx_hex tx, transaction.tx_hash = rev (utxo_tx_id coin tx)\<rparr>"

text \<open>
  \<open>generate_and_send_tx\<close>, with the cache that it locks as a state. The texts of errors that are formatted
  from data are not spelled out.
\<close>

definition generate_and_send_tx ::
  "utxo_coin \<Rightarrow> utxo_rpc \<Rightarrow> unspent_info list \<Rightarrow> unspent_info list option \<Rightarrow> fee_policy \<Rightarrow>
   transaction_output list \<Rightarrow> recently_spent \<Rightarrow> ((transaction_err + btc_transaction) \<times> recently_spent) option" where
  "generate_and_send_tx coin rpc unspents required_inputs fee_policy outputs c =
     (case (uc_my_address coin, uc_key_pair coin) of
        (None, _) \<Rightarrow> Some (Inl (Plain ''UnexpectedDerivationMethod''), c)
      | (_, None) \<Rightarrow> Some (Inl (Plain ''PrivKeyPolicyNotAllowed''), c)
      | (Some my_address, Some key_pair) \<Rightarrow>
          let b0 = with_fee_policy fee_policy (add_outputs outputs (add_available_inputs unspents (tx_builder_new coin rpc)));
              builder = (case required_inputs of Some r \<Rightarrow> add_required_inputs r b0 | None \<Rightarrow> b0)
          in (case tx_builder_build coin rpc builder of
                None \<Rightarrow> None
              | Some (Inl e) \<Rightarrow> Some (Inl (Plain ''GenerateTxError''), c)
              | Some (Inr (t, _)) \<Rightarrow>
                  let spent_unspents = map (\<lambda>i. \<lparr>us_outpoint = ui_previous_output i, us_value = ui_amount i,
                                                   us_height = None\<rparr>) (is_inputs t);
                      signature_version = (if ad_addr_format my_address = Segwit then WitnessV0
                                           else uc_signature_version coin)
                  in (case build_p2pkh (address_hash_to_vec (ad_hash my_address)) of
                        None \<Rightarrow> None
                      | Some prev_script \<Rightarrow>
                          (case sign_tx (uc_hashes coin) t key_pair prev_script signature_version (uc_fork_id coin) of
                             None \<Rightarrow> None
                           | Some (Inl e) \<Rightarrow> Some (Inl (Plain ''UtxoSignWithKeyPairError''), c)
                           | Some (Inr signed_tx) \<Rightarrow>
                               (case ur_send_transaction rpc signed_tx of
                                  Inl e \<Rightarrow> Some (Inl (TxRecoverable (transaction_enum coin signed_tx) e), c)
                                | Inr _ \<Rightarrow>
                                    Some (Inr signed_tx,
                                      add_spent spent_unspents (utxo_tx_id coin signed_tx) (tx_outputs signed_tx) c))))))"

definition send_outputs_from_my_address ::
  "utxo_coin \<Rightarrow> utxo_rpc \<Rightarrow> transaction_output list \<Rightarrow> recently_spent \<Rightarrow>
   ((transaction_err + btc_transaction) \<times> recently_spent) option" where
  "send_outputs_from_my_address coin rpc outputs c =
     (case uc_my_address coin of
        None \<Rightarrow> Some (Inl (Plain ''UnexpectedDerivationMethod''), c)
      | Some _ \<Rightarrow>
          (case get_unspent_ordered_list coin rpc c of
             None \<Rightarrow> None
           | Some (Inl e) \<Rightarrow> Some (Inl (Plain e), c)
           | Some (Inr unspents) \<Rightarrow> generate_and_send_tx coin rpc unspents None SendExact outputs c))"

end
