(* ===== verification/UtxoHtlc.thy ===== *)
theory UtxoHtlc
  imports RecentlySpent
begin

text \<open>
  Hash time locked contracts of coins of the Bitcoin family (\<open>coins/utxo/utxo_common.rs\<close>): the script of a
  payment, sending, spending and refunding it, the preimages for watchers, the validation of the payment and
  of the fee of the other side, the search for the spend of a payment and the extraction of the secret.
\<close>

section \<open>Scripts of payments\<close>

definition DEFAULT_FEE_VOUT :: nat where "DEFAULT_FEE_VOUT = 0"
definition DEFAULT_SWAP_TX_SPEND_SIZE :: u64 where "DEFAULT_SWAP_TX_SPEND_SIZE = 305"
definition DEFAULT_SWAP_VOUT :: nat where "DEFAULT_SWAP_VOUT = 0"
definition DEFAULT_SWAP_VIN :: nat where "DEFAULT_SWAP_VIN = 0"

definition payment_script :: "hash_functions \<Rightarrow> u32 \<Rightarrow> bytes \<Rightarrow> bytes \<Rightarrow> bytes \<Rightarrow> script option" where
  "payment_script H time_lock secret_hash pub_0 pub_1 =
     do { b \<leftarrow> push_bytes (ser_u32 time_lock) (push_opcode OP_IF []);
          b \<leftarrow> push_bytes pub_0 (push_opcode OP_DROP (push_opcode OP_CHECKLOCKTIMEVERIFY b));
          b \<leftarrow> push_bytes [32] (push_opcode OP_SIZE (push_opcode OP_ELSE (push_opcode OP_CHECKSIG b)));
          b \<leftarrow> push_bytes (if length secret_hash = 32 then h_ripemd160 H secret_hash else secret_hash)
                 (push_opcode OP_HASH160 (push_opcode OP_EQUALVERIFY b));
          b \<leftarrow> push_bytes pub_1 (push_opcode OP_EQUALVERIFY b);
          Some (push_opcode OP_ENDIF (push_opcode OP_CHECKSIG b)) }"

definition dex_fee_script :: "bytes \<Rightarrow> u32 \<Rightarrow> bytes \<Rightarrow> bytes \<Rightarrow> script option" where
  "dex_fee_script u time_lock watcher_pub sender_pub =
     do { b \<leftarrow> push_bytes u [];
          b \<leftarrow> push_bytes (ser_u32 time_lock) (push_opcode OP_IF (push_opcode OP_DROP b));
          b \<leftarrow> push_bytes sender_pub (push_opcode OP_DROP (push_opcode OP_CHECKLOCKTIMEVERIFY b));
          b \<leftarrow> push_bytes watcher_pub (push_opcode OP_ELSE (push_opcode OP_CHECKSIG b));
          Some (push_opcode OP_ENDIF (push_opcode OP_CHECKSIG b)) }"

definition p2sh_of :: "hash_functions \<Rightarrow> script \<Rightarrow> script option" where
  "p2sh_of H redeem_script = build_p2sh (h_dhash160 H redeem_script)"

text \<open>\<open>derive_htlc_key_pair\<close> ignores the data of the swap; with a hardware wallet it is not implemented.\<close>

definition derive_htlc_key_pair :: "utxo_coin \<Rightarrow> bytes \<Rightarrow> key_pair option" where
  "derive_htlc_key_pair coin swap_unique_data = uc_key_pair coin"

section \<open>Sending a payment\<close>

definition generate_swap_payment_outputs ::
  "utxo_coin \<Rightarrow> utxo_rpc \<Rightarrow> u32 \<Rightarrow> bytes \<Rightarrow> bytes \<Rightarrow> bytes \<Rightarrow> rat \<Rightarrow>
   (string + utxo_address \<times> transaction_output list) option" where
  "generate_swap_payment_outputs coin rpc time_lock my_pub other_pub secret_hash amount =
     (case (public_from_slice my_pub, public_from_slice other_pub) of
        (Some my_public, Some other_public) \<Rightarrow>
          (case payment_script (uc_hashes coin) time_lock secret_hash my_public other_public of
             None \<Rightarrow> None
           | Some redeem_script \<Rightarrow>
               let redeem_script_hash = h_dhash160 (uc_hashes coin) redeem_script in
               (case sat_from_big_decimal rpc amount (uc_decimals coin) of
                  Inl e \<Rightarrow> Some (Inl e)
                | Inr amount \<Rightarrow>
                    (case (build_p2sh redeem_script_hash,
                           if uc_ticker coin = ''ARRR'' then push_data redeem_script (push_opcode OP_RETURN [])
                           else push_bytes secret_hash (push_opcode OP_RETURN [])) of
                       (Some htlc_script, Some op_return_script) \<Rightarrow>
                         Some (Inr (\<lparr>ad_prefix = uc_p2sh_addr_prefix coin, ad_t_addr_prefix = uc_p2sh_t_addr_prefix coin,
                                     ad_hrp = uc_bech32_hrp coin, ad_hash = AddressHash redeem_script_hash,
                                     ad_addr_format = Standard\<rparr>,
                           [\<lparr>xo_value = amount, xo_script_pubkey = htlc_script\<rparr>,
                            \<lparr>xo_value = 0, xo_script_pubkey = op_return_script\<rparr>]))
                     | _ \<Rightarrow> None)))
      | _ \<Rightarrow> Some (Inl ''InvalidPublic''))"

definition send_payment_outputs ::
  "utxo_coin \<Rightarrow> utxo_rpc \<Rightarrow> (string + utxo_address \<times> transaction_output list) option \<Rightarrow> recently_spent \<Rightarrow>
   ((transaction_err + transaction) \<times> recently_spent) option" where
  "send_payment_outputs coin rpc generated c =
     (case generated of
        None \<Rightarrow> None
      | Some (Inl e) \<Rightarrow> Some (Inl (Plain e), c)
      | Some (Inr (payment_address, outputs)) \<Rightarrow>
          (case (if uc_electrum coin then Inr () else ur_import_address rpc payment_address) of
             Inl e \<Rightarrow> Some (Inl (Plain e), c)
           | Inr _ \<Rightarrow>
               map_option (\<lambda>(r, c'). (map_sum id (transaction_enum coin) r, c'))
                 (send_outputs_from_my_address coin rpc outputs c)))"

definition send_maker_payment ::
  "utxo_coin \<Rightarrow> utxo_rpc \<Rightarrow> send_payment_args \<Rightarrow> recently_spent \<Rightarrow>
   ((transaction_err + transaction) \<times> recently_spent) option" where
  "send_maker_payment coin rpc args c =
     (case derive_htlc_key_pair coin (spa_swap_unique_data args) of
        None \<Rightarrow> None
      | Some key_pair \<Rightarrow>
          send_payment_outputs coin rpc
            (generate_swap_payment_outputs coin rpc (spa_time_lock args) (kp_public key_pair)
               (spa_other_pubkey args) (spa_secret_hash args) (spa_amount args)) c)"

definition send_taker_payment ::
  "utxo_coin \<Rightarrow> utxo_rpc \<Rightarrow> send_payment_args \<Rightarrow> recently_spent \<Rightarrow>
   ((transaction_err + transaction) \<times> recently_spent) option" where
  "send_taker_payment coin rpc args c =
     (let total_amount = (case spa_watcher_reward args of
            Some reward \<Rightarrow> spa_amount args + wr_amount reward | None \<Rightarrow> spa_amount args)
      in case derive_htlc_key_pair coin (spa_swap_unique_data args) of
        None \<Rightarrow> None
      | Some key_pair \<Rightarrow>
          send_payment_outputs coin rpc
            (generate_swap_payment_outputs coin rpc (spa_time_lock args) (kp_public key_pair)
               (spa_other_pubkey args) (spa_secret_hash args) total_amount) c)"

definition addr_format_of :: "utxo_coin \<Rightarrow> address_format" where
  "addr_format_of coin = (case uc_my_address coin of Some a \<Rightarrow> ad_addr_format a | None \<Rightarrow> Standard)"

definition send_taker_fee ::
  "utxo_coin \<Rightarrow> utxo_rpc \<Rightarrow> bytes \<Rightarrow> rat \<Rightarrow> recently_spent \<Rightarrow>
   ((transaction_err + transaction) \<times> recently_spent) option" where
  "send_taker_fee coin rpc fee_pub_key amount c =
     (case address_from_raw_pubkey coin fee_pub_key (addr_format_of coin) of
        Inl e \<Rightarrow> Some (Inl (Plain e), c)
      | Inr address \<Rightarrow>
          (case sat_from_big_decimal rpc amount (uc_decimals coin) of
             Inl e \<Rightarrow> Some (Inl (Plain e), c)
           | Inr sat \<Rightarrow>
               (case build_p2pkh (address_hash_to_vec (ad_hash address)) of
                  None \<Rightarrow> None
                | Some script \<Rightarrow>
                    map_option (\<lambda>(r, c'). (map_sum id (transaction_enum coin) r, c'))
                      (send_outputs_from_my_address coin rpc [\<lparr>xo_value = sat, xo_script_pubkey = script\<rparr>] c))))"

section \<open>Spending a payment\<close>

definition p2sh_tx_locktime :: "utxo_coin \<Rightarrow> utxo_rpc \<Rightarrow> nat \<Rightarrow> u32 \<Rightarrow> string + u32" where
  "p2sh_tx_locktime coin rpc n htlc_locktime =
     (case (if uc_ticker coin = ''KMD'' then Inr (now_sec_u32 rpc n - 3600 + 2 * 777)
            else map_sum id (\<lambda>mtp. mtp - 1) (ur_current_mtp rpc n)) of
        Inl e \<Rightarrow> Inl e
      | Inr lock_time \<Rightarrow> Inr (max lock_time htlc_locktime))"

definition p2sh_spending_tx ::
  "utxo_coin \<Rightarrow> utxo_rpc \<Rightarrow> btc_transaction \<Rightarrow> script \<Rightarrow> transaction_output list \<Rightarrow> script \<Rightarrow> u32 \<Rightarrow> u32 \<Rightarrow>
   key_pair \<Rightarrow> (string + btc_transaction) option" where
  "p2sh_spending_tx coin rpc prev_transaction redeem_script outputs script_data seq htlc_lock_time keypair =
     (if tx_outputs prev_transaction = [] then Some (Inl (''Transaction doesn'' @ CHR 0x27 # ''t have any output''))
      else case p2sh_tx_locktime coin rpc 0 htlc_lock_time of
        Inl e \<Rightarrow> Some (Inl e)
      | Inr lock_time \<Rightarrow>
          let t = \<lparr>is_version = uc_tx_version coin,
                   is_n_time = (if uc_is_pos coin then Some (now_sec_u32 rpc 1) else None),
                   is_overwintered = uc_overwintered coin, is_version_group_id = uc_version_group_id coin,
                   is_consensus_branch_id = uc_consensus_branch_id coin, is_expiry_height = 0, is_value_balance = 0,
                   is_inputs = [\<lparr>ui_previous_output =
                       \<lparr>op_hash = utxo_tx_id coin prev_transaction, op_index = word_of_nat DEFAULT_SWAP_VOUT\<rparr>,
                     ui_sequence = seq, ui_amount = xo_value (tx_outputs prev_transaction ! 0), ui_witness = []\<rparr>],
                   is_outputs = outputs, is_lock_time = lock_time, is_join_splits = [], is_shielded_spends = [],
                   is_shielded_outputs = [], is_zcash = uc_zcash coin, is_posv = uc_is_posv coin,
                   is_str_d_zeel = (if uc_ticker coin = ''NAV'' then Some [] else None),
                   is_hash_algo = uc_tx_hash_algo coin\<rparr>
          in case p2sh_spend (uc_hashes coin) t DEFAULT_SWAP_VOUT keypair script_data redeem_script
                    (uc_signature_version coin) (uc_fork_id coin) of
               None \<Rightarrow> None
             | Some (Inl e) \<Rightarrow> Some (Inl ''UtxoSignWithKeyPairError'')
             | Some (Inr signed_input) \<Rightarrow>
                 Some (Inr \<lparr>tx_version = is_version t, tx_n_time = is_n_time t, tx_overwintered = is_overwintered t,
                   tx_version_group_id = uc_version_group_id coin, tx_inputs = [signed_input],
                   tx_outputs = is_outputs t, tx_lock_time = is_lock_time t, tx_expiry_height = is_expiry_height t,
                   tx_shielded_spends = [], tx_shielded_outputs = [], tx_join_splits = [], tx_value_balance = 0,
                   tx_join_split_pubkey = zero_hash 32, tx_join_split_sig = zero_hash 64,
                   tx_binding_sig = zero_hash 64, tx_zcash = uc_zcash coin, tx_posv = uc_is_posv coin,
                   tx_str_d_zeel = is_str_d_zeel t, tx_hash_algo = is_hash_algo t\<rparr>))"

text \<open>Reading a transaction that is passed as bytes; the hash algorithm is that of the coin.\<close>

datatype 'a read_tx = TxRead 'a | TxUnreadable ser_error | TxPanics

definition read_utxo_tx :: "bytes \<Rightarrow> btc_transaction read_tx" where
  "read_utxo_tx raw =
     (case deserialize de_transaction raw of Done tx _ \<Rightarrow> TxRead tx | Fail e \<Rightarrow> TxUnreadable e | Panics \<Rightarrow> TxPanics)"

text \<open>
  The common part of the functions that spend the first output of a payment: the fee is taken from the amount,
  and the rest goes to the own address. The key of the other side is read before the fee is asked for.
\<close>

definition spend_payment ::
  "utxo_coin \<Rightarrow> utxo_rpc \<Rightarrow> bytes \<Rightarrow> (bytes \<Rightarrow> script option option) \<Rightarrow> script option \<Rightarrow> u32 \<Rightarrow> u32 \<Rightarrow> fee_approx_stage \<Rightarrow>
   (transaction_err + btc_transaction) option" where
  "spend_payment coin rpc payment_tx redeem_script_for script_data seq time_lock stage =
     (case uc_my_address coin of
        None \<Rightarrow> Some (Inl (Plain ''UnexpectedDerivationMethod''))
      | Some my_address \<Rightarrow>
          (case read_utxo_tx payment_tx of
             TxPanics \<Rightarrow> None
           | TxUnreadable e \<Rightarrow> Some (Inl (Plain ''Error''))
           | TxRead prev0 \<Rightarrow>
               let prev_transaction = prev0\<lparr>tx_hash_algo := uc_tx_hash_algo coin\<rparr> in
               if tx_outputs prev_transaction = []
               then Some (Inl (Plain (''Transaction doesn'' @ CHR 0x27 # ''t have any output'')))
               else case (uc_key_pair coin, script_data) of
                 (Some key_pair, Some script_data) \<Rightarrow>
                   (case redeem_script_for (kp_public key_pair) of
                      None \<Rightarrow> Some (Inl (Plain ''InvalidPublic''))
                    | Some None \<Rightarrow> None
                    | Some (Some redeem_script) \<Rightarrow>
                        (case get_htlc_spend_fee coin rpc DEFAULT_SWAP_TX_SPEND_SIZE stage of
                           Inl e \<Rightarrow> Some (Inl (Plain e))
                         | Inr fee \<Rightarrow>
                             let value = xo_value (tx_outputs prev_transaction ! 0) in
                             if value \<le> fee
                             then Some (Inl (Plain (''HTLC spend fee '' @ show_u64 fee @
                                    '' is greater than transaction output '' @ show_u64 value)))
                             else case output_script my_address P2PKH of
                               None \<Rightarrow> None
                             | Some script_pubkey \<Rightarrow>
                                 map_option (map_sum Plain id)
                                   (p2sh_spending_tx coin rpc prev_transaction redeem_script
                                      [\<lparr>xo_value = value - fee, xo_script_pubkey = script_pubkey\<rparr>] script_data
                                      seq time_lock key_pair)))
               | _ \<Rightarrow> None))"

definition broadcast_spend ::
  "utxo_coin \<Rightarrow> utxo_rpc \<Rightarrow> (transaction_err + btc_transaction) option \<Rightarrow> (transaction_err + transaction) option" where
  "broadcast_spend coin rpc r =
     (case r of
        None \<Rightarrow> None
      | Some (Inl e) \<Rightarrow> Some (Inl e)
      | Some (Inr tx) \<Rightarrow>
          Some (case ur_send_transaction rpc tx of
                  Inl e \<Rightarrow> Inl (TxRecoverable (transaction_enum coin tx) e)
                | Inr _ \<Rightarrow> Inr (transaction_enum coin tx)))"

definition secret_script_data :: "bytes \<Rightarrow> script option" where
  "secret_script_data secret = map_option (push_opcode OP_0) (push_data secret [])"

definition refund_script_data :: script where
  "refund_script_data = push_opcode OP_1 []"

text \<open>The script of a payment the other side made to us, and of one we made; \<open>None\<close> is an invalid public key.\<close>

definition other_redeem_script :: "utxo_coin \<Rightarrow> u32 \<Rightarrow> bytes \<Rightarrow> bytes \<Rightarrow> bytes \<Rightarrow> script option option" where
  "other_redeem_script coin time_lock secret_hash other_pub my_pub =
     map_option (\<lambda>other. payment_script (uc_hashes coin) time_lock secret_hash other my_pub) (public_from_slice other_pub)"

definition my_redeem_script :: "utxo_coin \<Rightarrow> u32 \<Rightarrow> bytes \<Rightarrow> bytes \<Rightarrow> bytes \<Rightarrow> script option option" where
  "my_redeem_script coin time_lock secret_hash other_pub my_pub =
     map_option (\<lambda>other. payment_script (uc_hashes coin) time_lock secret_hash my_pub other) (public_from_slice other_pub)"

definition send_maker_spends_taker_payment ::
  "utxo_coin \<Rightarrow> utxo_rpc \<Rightarrow> spend_payment_args \<Rightarrow> (transaction_err + transaction) option" where
  "send_maker_spends_taker_payment coin rpc args =
     broadcast_spend coin rpc
       (spend_payment coin rpc (sp_other_payment_tx args)
          (other_redeem_script coin (sp_time_lock args) (sp_secret_hash args) (sp_other_pubkey args))
          (secret_script_data (sp_secret args)) SEQUENCE_FINAL (sp_time_lock args) WithoutApprox)"

definition send_taker_spends_maker_payment ::
  "utxo_coin \<Rightarrow> utxo_rpc \<Rightarrow> spend_payment_args \<Rightarrow> (transaction_err + transaction) option" where
  "send_taker_spends_maker_payment coin rpc args =
     broadcast_spend coin rpc
       (spend_payment coin rpc (sp_other_payment_tx args)
          (other_redeem_script coin (sp_time_lock args) (sp_secret_hash args) (sp_other_pubkey args))
          (secret_script_data (sp_secret args)) SEQUENCE_FINAL (sp_time_lock args) WithoutApprox)"

definition send_taker_refunds_payment ::
  "utxo_coin \<Rightarrow> utxo_rpc \<Rightarrow> refund_payment_args \<Rightarrow> (transaction_err + transaction) option" where
  "send_taker_refunds_payment coin rpc args =
     broadcast_spend coin rpc
       (spend_payment coin rpc (rpa_payment_tx args)
          (my_redeem_script coin (rpa_time_lock args) (rpa_secret_hash args) (rpa_other_pubkey args))
          (Some refund_script_data) (SEQUENCE_FINAL - 1) (rpa_time_lock args) WithoutApprox)"

definition send_maker_refunds_payment ::
  "utxo_coin \<Rightarrow> utxo_rpc \<Rightarrow> refund_payment_args \<Rightarrow> (transaction_err + transaction) option" where
  "send_maker_refunds_payment coin rpc args =
     broadcast_spend coin rpc
       (spend_payment coin rpc (rpa_payment_tx args)
          (my_redeem_script coin (rpa_time_lock args) (rpa_secret_hash args) (rpa_other_pubkey args))
          (Some refund_script_data) (SEQUENCE_FINAL - 1) (rpa_time_lock args) WithoutApprox)"

section \<open>Preimages for watchers\<close>

definition create_maker_payment_spend_preimage ::
  "utxo_coin \<Rightarrow> utxo_rpc \<Rightarrow> bytes \<Rightarrow> u32 \<Rightarrow> bytes \<Rightarrow> bytes \<Rightarrow> (transaction_err + transaction) option" where
  "create_maker_payment_spend_preimage coin rpc maker_payment_tx time_lock maker_pub secret_hash =
     map_option (map_sum id (transaction_enum coin))
       (spend_payment coin rpc maker_payment_tx (other_redeem_script coin time_lock secret_hash maker_pub)
          (Some []) SEQUENCE_FINAL time_lock WatcherPreimage)"

definition create_taker_payment_refund_preimage ::
  "utxo_coin \<Rightarrow> utxo_rpc \<Rightarrow> bytes \<Rightarrow> u32 \<Rightarrow> bytes \<Rightarrow> bytes \<Rightarrow> (transaction_err + transaction) option" where
  "create_taker_payment_refund_preimage coin rpc taker_payment_tx time_lock maker_pub secret_hash =
     map_option (map_sum id (transaction_enum coin))
       (spend_payment coin rpc taker_payment_tx (my_redeem_script coin time_lock secret_hash maker_pub)
          (Some refund_script_data) (SEQUENCE_FINAL - 1) time_lock WatcherPreimage)"

text \<open>A watcher puts the secret between the signature and the script of the preimage.\<close>

definition preimage_parts :: "script \<Rightarrow> string + bytes \<times> bytes" where
  "preimage_parts script =
     (case instructions_next script 0 of
        (None, _) \<Rightarrow> Inl ''Instruction not found''
      | (Some (Inl e), _) \<Rightarrow> Inl ''Error''
      | (Some (Inr instruction_1), p) \<Rightarrow>
          (case instructions_next script p of
             (None, _) \<Rightarrow> Inl ''Instruction not found''
           | (Some (Inl e), _) \<Rightarrow> Inl ''Error''
           | (Some (Inr instruction_2), _) \<Rightarrow>
               (case (in_data instruction_1, in_data instruction_2) of
                  (None, _) \<Rightarrow> Inl ''No script signature in the taker spends maker payment preimage''
                | (_, None) \<Rightarrow> Inl ''No redeem script in the taker spends maker payment preimage''
                | (Some script_sig, Some redeem_script) \<Rightarrow> Inr (script_sig, redeem_script))))"

definition send_maker_payment_spend_preimage ::
  "utxo_coin \<Rightarrow> utxo_rpc \<Rightarrow> bytes \<Rightarrow> bytes \<Rightarrow> (transaction_err + transaction) option" where
  "send_maker_payment_spend_preimage coin rpc preimage secret =
     (case read_utxo_tx preimage of
        TxPanics \<Rightarrow> None
      | TxUnreadable e \<Rightarrow> Some (Inl (Plain ''Error''))
      | TxRead tx \<Rightarrow>
          (case tx_inputs tx of
             [] \<Rightarrow> Some (Inl (Plain (''Transaction doesn'' @ CHR 0x27 # ''t have any input'')))
           | input # inputs \<Rightarrow>
               (case preimage_parts (ti_script_sig input) of
                  Inl e \<Rightarrow> Some (Inl (Plain e))
                | Inr (script_sig, redeem_script) \<Rightarrow>
                    do { script_data \<leftarrow> secret_script_data secret;
                         resulting_script \<leftarrow> push_data script_sig [];
                         redeem_part \<leftarrow> push_data redeem_script [];
                         broadcast_spend coin rpc (Some (Inr (tx\<lparr>tx_inputs :=
                           input\<lparr>ti_script_sig := resulting_script @ script_data @ redeem_part\<rparr> # inputs\<rparr>))) })))"

definition send_taker_payment_refund_preimage ::
  "utxo_coin \<Rightarrow> utxo_rpc \<Rightarrow> bytes \<Rightarrow> (transaction_err + transaction) option" where
  "send_taker_payment_refund_preimage coin rpc payment_tx =
     (case read_utxo_tx payment_tx of
        TxPanics \<Rightarrow> None
      | TxUnreadable e \<Rightarrow> Some (Inl (Plain ''Error''))
      | TxRead tx \<Rightarrow> broadcast_spend coin rpc (Some (Inr tx)))"


section \<open>Validation of payments\<close>

datatype validate_payment_error =
    TxDeserializationError string
  | InvalidParameter string
  | WrongPaymentTx string
  | InternalError string
  | ValidateTransport string
  | SPVProofError string

definition get_reward_lower_boundary :: "utxo_rpc \<Rightarrow> u64 \<Rightarrow> u64" where
  "get_reward_lower_boundary rpc reward =
     f64_as_u64 (ur_f64 rpc (ur_f64 rpc (of_nat (unat reward)) * ur_f64 rpc (1 - ur_f64 rpc (5 / 100))))"

definition get_reward_upper_boundary :: "utxo_rpc \<Rightarrow> u64 \<Rightarrow> u64" where
  "get_reward_upper_boundary rpc reward =
     f64_as_u64 (ur_f64 rpc (ur_f64 rpc (of_nat (unat reward)) * ur_f64 rpc (1 + ur_f64 rpc (5 / 100))))"

definition validate_watcher_reward :: "utxo_rpc \<Rightarrow> u64 \<Rightarrow> u64 \<Rightarrow> bool \<Rightarrow> validate_payment_error + unit" where
  "validate_watcher_reward rpc expected_reward actual_reward is_exact =
     (if is_exact
      then if actual_reward \<noteq> expected_reward
           then Inl (WrongPaymentTx ''Payment tx reward_amount arg is invalid'') else Inr ()
      else if actual_reward < get_reward_lower_boundary rpc expected_reward
              \<or> get_reward_upper_boundary rpc expected_reward < actual_reward
      then Inl (WrongPaymentTx ''Provided watcher reward is not within the expected interval'')
      else Inr ())"

text \<open>\<open>retry_on_err!(...).attempts(4)\<close>: the first answer that is no error, or the last error.\<close>

definition retried_transaction_bytes :: "utxo_rpc \<Rightarrow> bytes \<Rightarrow> string + bytes" where
  "retried_transaction_bytes rpc txid =
     (case ur_transaction_bytes rpc 0 txid of
        Inr b \<Rightarrow> Inr b
      | Inl _ \<Rightarrow> (case ur_transaction_bytes rpc 1 txid of
          Inr b \<Rightarrow> Inr b
        | Inl _ \<Rightarrow> (case ur_transaction_bytes rpc 2 txid of
            Inr b \<Rightarrow> Inr b
          | Inl _ \<Rightarrow> ur_transaction_bytes rpc 3 txid)))"

definition validate_payment ::
  "utxo_coin \<Rightarrow> utxo_rpc \<Rightarrow> btc_transaction \<Rightarrow> nat \<Rightarrow> bytes \<Rightarrow> bytes \<Rightarrow> bytes \<Rightarrow> rat \<Rightarrow> watcher_reward option \<Rightarrow> u32 \<Rightarrow>
   u64 \<Rightarrow> (validate_payment_error + unit) option" where
  "validate_payment coin rpc tx output_index first_pub0 second_pub0 priv_bn_hash amount watcher_reward time_lock confirmations =
     (case sat_from_big_decimal rpc amount (uc_decimals coin) of
        Inl e \<Rightarrow> Some (Inl (InternalError e))
      | Inr amount \<Rightarrow>
          (case payment_script (uc_hashes coin) time_lock priv_bn_hash first_pub0 second_pub0 of
             None \<Rightarrow> None
           | Some expected_redeem \<Rightarrow>
               (case retried_transaction_bytes rpc (rev (utxo_tx_id coin tx)) of
                  Inl e \<Rightarrow> Some (Inl (ValidateTransport e))
                | Inr tx_from_rpc \<Rightarrow>
                    if ser_transaction False tx \<noteq> tx_from_rpc \<and> ser_transaction True tx \<noteq> tx_from_rpc
                    then Some (Inl (WrongPaymentTx (''Provided payment tx doesn'' @ CHR 0x27 # ''t match tx data from rpc'')))
                    else case p2sh_of (uc_hashes coin) expected_redeem of
                      None \<Rightarrow> None
                    | Some expected_script_pubkey \<Rightarrow>
                        if \<not> output_index < length (tx_outputs tx)
                        then Some (Inl (WrongPaymentTx ''Payment tx has no outputs''))
                        else let actual_output = tx_outputs tx ! output_index in
                          if expected_script_pubkey \<noteq> xo_script_pubkey actual_output
                          then Some (Inl (WrongPaymentTx (''Provided payment tx script pubkey doesn'' @ CHR 0x27 # ''t match expected'')))
                          else case (case watcher_reward of
                               Some reward \<Rightarrow>
                                 (case sat_from_big_decimal rpc (wr_amount reward) (uc_decimals coin) of
                                    Inl e \<Rightarrow> Inl (InternalError e)
                                  | Inr expected_reward \<Rightarrow>
                                      validate_watcher_reward rpc expected_reward (xo_value actual_output - amount) False)
                             | None \<Rightarrow>
                                 if xo_value actual_output \<noteq> amount
                                 then Inl (WrongPaymentTx (''Provided payment tx output value doesn'' @ CHR 0x27 # ''t match expected''))
                                 else Inr ()) of
                            Inl e \<Rightarrow> Some (Inl e)
                          | Inr _ \<Rightarrow>
                              if uc_electrum coin \<and> uc_spv_conf coin \<and> confirmations \<noteq> 0
                              then Some (map_sum SPVProofError id (ur_spv_proof rpc tx))
                              else Some (Inr ()))))"

definition validate_maker_payment ::
  "utxo_coin \<Rightarrow> utxo_rpc \<Rightarrow> validate_payment_input \<Rightarrow> (validate_payment_error + unit) option" where
  "validate_maker_payment coin rpc input =
     (case read_utxo_tx (vpi_payment_tx input) of
        TxPanics \<Rightarrow> None
      | TxUnreadable e \<Rightarrow> Some (Inl (TxDeserializationError ''Error''))
      | TxRead tx0 \<Rightarrow>
          (case derive_htlc_key_pair coin (vpi_unique_swap_data input) of
             None \<Rightarrow> None
           | Some htlc_keypair \<Rightarrow>
               (case public_from_slice (vpi_other_pub input) of
                  None \<Rightarrow> Some (Inl (InvalidParameter ''InvalidPublic''))
                | Some other_pub \<Rightarrow>
                    validate_payment coin rpc (tx0\<lparr>tx_hash_algo := uc_tx_hash_algo coin\<rparr>) DEFAULT_SWAP_VOUT other_pub
                      (kp_public htlc_keypair) (vpi_secret_hash input) (vpi_amount input) (vpi_watcher_reward input)
                      (vpi_time_lock input) (vpi_confirmations input))))"

definition validate_taker_payment ::
  "utxo_coin \<Rightarrow> utxo_rpc \<Rightarrow> validate_payment_input \<Rightarrow> (validate_payment_error + unit) option" where
  "validate_taker_payment coin rpc input =
     (case read_utxo_tx (vpi_payment_tx input) of
        TxPanics \<Rightarrow> None
      | TxUnreadable e \<Rightarrow> Some (Inl (TxDeserializationError ''Error''))
      | TxRead tx0 \<Rightarrow>
          (case derive_htlc_key_pair coin (vpi_unique_swap_data input) of
             None \<Rightarrow> None
           | Some htlc_keypair \<Rightarrow>
               (case public_from_slice (vpi_other_pub input) of
                  None \<Rightarrow> Some (Inl (InvalidParameter ''InvalidPublic''))
                | Some other_pub \<Rightarrow>
                    validate_payment coin rpc (tx0\<lparr>tx_hash_algo := uc_tx_hash_algo coin\<rparr>) DEFAULT_SWAP_VOUT other_pub
                      (kp_public htlc_keypair) (vpi_secret_hash input) (vpi_amount input) (vpi_watcher_reward input)
                      (vpi_time_lock input) (vpi_confirmations input))))"

section \<open>Who signed the inputs\<close>

text \<open>
  The parser of signatures and of curve points is that of secp256k1: \<open>der_ok\<close> is \<open>Signature::from_der\<close>, and
  \<open>parse_point\<close> gives the compressed form of a public key.
\<close>

record secp_parsers =
  sp_der_ok :: "bytes \<Rightarrow> bool"
  sp_parse_point :: "bytes \<Rightarrow> bytes option"

definition pubkey_from_script_sig :: "secp_parsers \<Rightarrow> script \<Rightarrow> string + bytes" where
  "pubkey_from_script_sig secp script =
     (case get_instruction script 0 of
        None \<Rightarrow> Inl ''None instruction 0 of script''
      | Some (Inl e) \<Rightarrow> Inl ''Error on getting instruction 0 of script''
      | Some (Inr i) \<Rightarrow>
          if in_opcode i \<notin> {OP_PUSHBYTES_70, OP_PUSHBYTES_71, OP_PUSHBYTES_72} then Inl ''Unexpected opcode''
          else (case in_data i of
             None \<Rightarrow> Inl ''No data at instruction 0 of script''
           | Some bs \<Rightarrow>
               if \<not> sp_der_ok secp (take (length bs - 1) bs) then Inl ''malformed signature''
               else (case get_instruction script 1 of
                  None \<Rightarrow> Inl ''None instruction 1 of script''
                | Some (Inl e) \<Rightarrow> Inl ''Error on getting instruction 1 of script''
                | Some (Inr j) \<Rightarrow>
                    if in_opcode j \<noteq> OP_PUSHBYTES_33 then Inl ''Unexpected opcode''
                    else (case in_data j of
                       None \<Rightarrow> Inl ''No data at instruction 1 of script''
                     | Some key \<Rightarrow>
                         (case sp_parse_point secp key of
                            None \<Rightarrow> Inl ''malformed public key''
                          | Some pubkey \<Rightarrow>
                              if get_instruction script 2 \<noteq> None
                              then Inl ''Unexpected instruction at position 2 of script''
                              else Inr pubkey)))))"

definition pubkey_from_witness_script :: "secp_parsers \<Rightarrow> bytes list \<Rightarrow> string + bytes" where
  "pubkey_from_witness_script secp witness_script =
     (case witness_script of
        [signature, key] \<Rightarrow>
          if signature = [] then Inl ''Empty signature data in witness script''
          else if \<not> sp_der_ok secp (butlast signature) then Inl ''malformed signature''
          else (case sp_parse_point secp key of None \<Rightarrow> Inl ''malformed public key'' | Some pubkey \<Rightarrow> Inr pubkey)
      | _ \<Rightarrow> Inl ''Invalid witness length'')"

fun inputs_signed_by :: "secp_parsers \<Rightarrow> bytes \<Rightarrow> transaction_input list \<Rightarrow> validate_payment_error + bool" where
  "inputs_signed_by secp expected_pub [] = Inr True"
| "inputs_signed_by secp expected_pub (input # inputs) =
     (case (if input_has_witness input then pubkey_from_witness_script secp (ti_script_witness input)
            else pubkey_from_script_sig secp (ti_script_sig input)) of
        Inl e \<Rightarrow> Inl (TxDeserializationError e)
      | Inr pubkey \<Rightarrow> if pubkey \<noteq> expected_pub then Inr False else inputs_signed_by secp expected_pub inputs)"

definition check_all_utxo_inputs_signed_by_pub ::
  "secp_parsers \<Rightarrow> btc_transaction \<Rightarrow> bytes \<Rightarrow> validate_payment_error + bool" where
  "check_all_utxo_inputs_signed_by_pub secp tx expected_pub = inputs_signed_by secp expected_pub (tx_inputs tx)"

definition is_tx_confirmed_before_block :: "utxo_rpc \<Rightarrow> rpc_transaction \<Rightarrow> u64 \<Rightarrow> string + bool" where
  "is_tx_confirmed_before_block rpc tx block_number =
     (case rt_height tx of
        Some confirmed_at \<Rightarrow> Inr (confirmed_at \<le> block_number)
      | None \<Rightarrow>
          if 0 < rt_confirmations tx
          then (case ur_block_count rpc of
                  Inl e \<Rightarrow> Inl e
                | Inr current_block \<Rightarrow> Inr (current_block + 1 - ucast (rt_confirmations tx) \<le> block_number))
          else Inr False)"

definition validate_fee ::
  "utxo_coin \<Rightarrow> utxo_rpc \<Rightarrow> secp_parsers \<Rightarrow> btc_transaction \<Rightarrow> nat \<Rightarrow> bytes \<Rightarrow> rat \<Rightarrow> u64 \<Rightarrow> bytes \<Rightarrow>
   (validate_payment_error + unit) option" where
  "validate_fee coin rpc secp tx output_index sender_pubkey amount min_block_number fee_addr =
     (case address_from_raw_pubkey coin fee_addr (addr_format_of coin) of
        Inl e \<Rightarrow> Some (Inl (TxDeserializationError e))
      | Inr address \<Rightarrow>
          (case check_all_utxo_inputs_signed_by_pub secp tx sender_pubkey of
             Inl e \<Rightarrow> Some (Inl e)
           | Inr False \<Rightarrow> Some (Inl (WrongPaymentTx ''Taker payment does not belong to the verified public key''))
           | Inr True \<Rightarrow>
               (case sat_from_big_decimal rpc amount (uc_decimals coin) of
                  Inl e \<Rightarrow> Some (Inl (InternalError e))
                | Inr sat \<Rightarrow>
                    (case ur_verbose_transaction rpc (rev (utxo_tx_id coin tx)) of
                       Inl e \<Rightarrow> Some (Inl (ValidateTransport e))
                     | Inr tx_from_rpc \<Rightarrow>
                         (case is_tx_confirmed_before_block rpc tx_from_rpc min_block_number of
                            Inl e \<Rightarrow> Some (Inl (InternalError e))
                          | Inr True \<Rightarrow> Some (Inl (WrongPaymentTx ''Fee tx confirmed before min_block''))
                          | Inr False \<Rightarrow>
                              if rt_hex tx_from_rpc \<noteq> ser_transaction False tx \<and>
                                 rt_hex tx_from_rpc \<noteq> ser_transaction True tx
                              then Some (Inl (WrongPaymentTx (''Provided dex fee tx doesn'' @ CHR 0x27 # ''t match tx data from rpc'')))
                              else if \<not> output_index < length (tx_outputs tx)
                              then Some (Inl (WrongPaymentTx ''Provided dex fee tx does not have output''))
                              else (case build_p2pkh (address_hash_to_vec (ad_hash address)) of
                                 None \<Rightarrow> None
                               | Some expected_script_pubkey \<Rightarrow>
                                   let out = tx_outputs tx ! output_index in
                                   if xo_script_pubkey out \<noteq> expected_script_pubkey
                                   then Some (Inl (WrongPaymentTx (''Provided dex fee tx output script_pubkey doesn'' @ CHR 0x27 # ''t match expected'')))
                                   else if xo_value out < sat
                                   then Some (Inl (WrongPaymentTx ''Provided dex fee tx output value is less than expected''))
                                   else Some (Inr ())))))))"

section \<open>What became of a payment\<close>

text \<open>The inputs of a transaction that spend an output.\<close>

definition spends_output :: "bytes \<Rightarrow> nat \<Rightarrow> btc_transaction \<Rightarrow> bool" where
  "spends_output txid vout tx =
     list_ex (\<lambda>i. op_hash (ti_previous_output i) = txid \<and> op_index (ti_previous_output i) = word_of_nat vout) (tx_inputs tx)"

text \<open>The loop over the transactions of a history, in the order given.\<close>

fun find_spend :: "utxo_rpc \<Rightarrow> bytes \<Rightarrow> nat \<Rightarrow> nat \<Rightarrow> bytes list \<Rightarrow> (string + btc_transaction option) option" where
  "find_spend rpc txid vout n [] = Some (Inr None)"
| "find_spend rpc txid vout n (h # hs) =
     (case ur_transaction_bytes rpc n h of
        Inl e \<Rightarrow> Some (Inl e)
      | Inr raw \<Rightarrow>
          (case read_utxo_tx raw of
             TxPanics \<Rightarrow> None
           | TxUnreadable e \<Rightarrow> Some (Inl ''Error'')
           | TxRead tx \<Rightarrow>
               if spends_output txid vout tx then Some (Inr (Some tx)) else find_spend rpc txid vout (n + 1) hs))"

definition electrum_script_hash :: "hash_functions \<Rightarrow> script \<Rightarrow> bytes" where
  "electrum_script_hash H script = rev (h_sha256 H script)"

definition electrum_find_output_spend ::
  "utxo_coin \<Rightarrow> utxo_rpc \<Rightarrow> bytes \<Rightarrow> script \<Rightarrow> nat \<Rightarrow> (string + btc_transaction option) option" where
  "electrum_find_output_spend coin rpc txid script_pubkey vout =
     (case ur_script_history rpc (electrum_script_hash (uc_hashes coin) script_pubkey) of
        Inl e \<Rightarrow> Some (Inl e)
      | Inr history \<Rightarrow> if length history < 2 then Some (Inr None) else find_spend rpc txid vout 0 history)"

definition native_find_output_spend ::
  "utxo_rpc \<Rightarrow> bytes \<Rightarrow> nat \<Rightarrow> u64 \<Rightarrow> (string + btc_transaction option) option" where
  "native_find_output_spend rpc txid vout from_block =
     (case ur_block_hash rpc from_block of
        Inl e \<Rightarrow> Some (Inl e)
      | Inr from_block_hash \<Rightarrow>
          (case ur_list_since_block rpc from_block_hash of
             Inl e \<Rightarrow> Some (Inl e)
           | Inr transactions \<Rightarrow>
               find_spend rpc txid vout 0 (map fst (filter (\<lambda>(h, is_conflicting). \<not> is_conflicting) transactions))))"

definition find_output_spend ::
  "utxo_coin \<Rightarrow> utxo_rpc \<Rightarrow> bytes \<Rightarrow> script \<Rightarrow> nat \<Rightarrow> u64 \<Rightarrow> (string + btc_transaction option) option" where
  "find_output_spend coin rpc txid script_pubkey vout from_block =
     (if uc_electrum coin then electrum_find_output_spend coin rpc txid script_pubkey vout
      else native_find_output_spend rpc txid vout from_block)"

text \<open>The third instruction of a script that spends, or the second one of a script that refunds.\<close>

definition opcode_at :: "script \<Rightarrow> nat \<Rightarrow> opcode option" where
  "opcode_at script n = (case get_instruction script n of Some (Inr i) \<Rightarrow> Some (in_opcode i) | _ \<Rightarrow> None)"

definition classify_spend :: "script \<Rightarrow> transaction \<Rightarrow> string + found_swap_tx_spend option" where
  "classify_spend script tx =
     (if opcode_at script 2 = Some OP_0 then Inr (Some (Spent tx))
      else if opcode_at script 1 = Some OP_1 then Inr (Some (Refunded tx))
      else Inl (''Couldn'' @ CHR 0x27 # ''t find required instruction in script_sig of input 0 of tx''))"

definition search_for_swap_output_spend ::
  "utxo_coin \<Rightarrow> utxo_rpc \<Rightarrow> u32 \<Rightarrow> bytes \<Rightarrow> bytes \<Rightarrow> bytes \<Rightarrow> bytes \<Rightarrow> nat \<Rightarrow> u64 \<Rightarrow>
   (string + found_swap_tx_spend option) option" where
  "search_for_swap_output_spend coin rpc time_lock first_pub second_pub secret_hash raw output_index search_from_block =
     (case read_utxo_tx raw of
        TxPanics \<Rightarrow> None
      | TxUnreadable e \<Rightarrow> Some (Inl ''Error'')
      | TxRead tx0 \<Rightarrow>
          let tx = tx0\<lparr>tx_hash_algo := uc_tx_hash_algo coin\<rparr> in
          if tx_outputs tx = [] then Some (Inl (''Transaction doesn'' @ CHR 0x27 # ''t have any output''))
          else case Option.bind (payment_script (uc_hashes coin) time_lock secret_hash first_pub second_pub)
                      (p2sh_of (uc_hashes coin)) of
            None \<Rightarrow> None
          | Some expected_script_pubkey \<Rightarrow>
              if xo_script_pubkey (tx_outputs tx ! 0) \<noteq> expected_script_pubkey
              then Some (Inl (''Transaction output 0 script_pubkey doesn'' @ CHR 0x27 # ''t match expected''))
              else if \<not> output_index < length (tx_outputs tx) then None
              else (case find_output_spend coin rpc (utxo_tx_id coin tx) (xo_script_pubkey (tx_outputs tx ! output_index))
                           output_index search_from_block of
                 None \<Rightarrow> None
               | Some (Inl e) \<Rightarrow> Some (Inl e)
               | Some (Inr None) \<Rightarrow> Some (Inr None)
               | Some (Inr (Some spend0)) \<Rightarrow>
                   let spend = spend0\<lparr>tx_hash_algo := uc_tx_hash_algo coin\<rparr> in
                   (case tx_inputs spend of
                      [] \<Rightarrow> None
                    | input # _ \<Rightarrow> Some (classify_spend (ti_script_sig input) (transaction_enum coin spend)))))"

definition search_for_swap_tx_spend_my ::
  "utxo_coin \<Rightarrow> utxo_rpc \<Rightarrow> search_for_swap_tx_spend_input \<Rightarrow> nat \<Rightarrow> (string + found_swap_tx_spend option) option" where
  "search_for_swap_tx_spend_my coin rpc input output_index =
     (case derive_htlc_key_pair coin (sfi_swap_unique_data input) of
        None \<Rightarrow> None
      | Some key_pair \<Rightarrow>
          (case public_from_slice (sfi_other_pub input) of
             None \<Rightarrow> Some (Inl ''InvalidPublic'')
           | Some other \<Rightarrow>
               search_for_swap_output_spend coin rpc (sfi_time_lock input) (kp_public key_pair) other
                 (sfi_secret_hash input) (sfi_tx input) output_index (sfi_search_from_block input)))"

definition search_for_swap_tx_spend_other ::
  "utxo_coin \<Rightarrow> utxo_rpc \<Rightarrow> search_for_swap_tx_spend_input \<Rightarrow> nat \<Rightarrow> (string + found_swap_tx_spend option) option" where
  "search_for_swap_tx_spend_other coin rpc input output_index =
     (case public_from_slice (sfi_other_pub input) of
        None \<Rightarrow> Some (Inl ''InvalidPublic'')
      | Some other \<Rightarrow>
          (case derive_htlc_key_pair coin (sfi_swap_unique_data input) of
             None \<Rightarrow> None
           | Some key_pair \<Rightarrow>
               search_for_swap_output_spend coin rpc (sfi_time_lock input) other (kp_public key_pair)
                 (sfi_secret_hash input) (sfi_tx input) output_index (sfi_search_from_block input)))"

text \<open>\<open>H160::from\<close> of a slice takes its first twenty bytes and panics when there are fewer.\<close>

definition h160_from_slice :: "bytes \<Rightarrow> bytes option" where
  "h160_from_slice bs = (if length bs < 20 then None else Some (take 20 bs))"

fun extract_secret_from_inputs ::
  "hash_functions \<Rightarrow> bytes \<Rightarrow> transaction_input list \<Rightarrow> (string + bytes) option" where
  "extract_secret_from_inputs H secret_hash [] = Some (Inl (''Couldn'' @ CHR 0x27 # ''t extract secret''))"
| "extract_secret_from_inputs H secret_hash (input # inputs) =
     (case get_instruction (ti_script_sig input) 1 of
        Some (Inr i) \<Rightarrow>
          if in_opcode i \<noteq> OP_PUSHBYTES_32 then extract_secret_from_inputs H secret_hash inputs
          else (case in_data i of
             None \<Rightarrow> extract_secret_from_inputs H secret_hash inputs
           | Some secret \<Rightarrow>
               (case (if length secret_hash = 32 then Some (h_ripemd160 H secret_hash) else h160_from_slice secret_hash) of
                  None \<Rightarrow> None
                | Some expected_secret_hash \<Rightarrow>
                    if h_dhash160 H secret \<noteq> expected_secret_hash then extract_secret_from_inputs H secret_hash inputs
                    else Some (Inr secret)))
      | _ \<Rightarrow> extract_secret_from_inputs H secret_hash inputs)"

definition extract_secret :: "hash_functions \<Rightarrow> bytes \<Rightarrow> bytes \<Rightarrow> (string + bytes) option" where
  "extract_secret H secret_hash spend_tx =
     (case read_utxo_tx spend_tx of
        TxPanics \<Rightarrow> None
      | TxUnreadable e \<Rightarrow> Some (Inl ''Error'')
      | TxRead tx \<Rightarrow> extract_secret_from_inputs H secret_hash (tx_inputs tx))"

text \<open>\<open>check_if_my_payment_sent\<close> of a coin with an Electrum client: the first transaction of the history of the script.\<close>

definition electrum_check_if_my_payment_sent ::
  "utxo_coin \<Rightarrow> utxo_rpc \<Rightarrow> check_if_my_payment_sent_args \<Rightarrow> (string + transaction option) option" where
  "electrum_check_if_my_payment_sent coin rpc args =
     (case derive_htlc_key_pair coin (cia_swap_unique_data args) of
        None \<Rightarrow> None
      | Some key_pair \<Rightarrow>
          (case public_from_slice (cia_other_pub args) of
             None \<Rightarrow> Some (Inl ''InvalidPublic'')
           | Some other \<Rightarrow>
               (case Option.bind (payment_script (uc_hashes coin) (cia_time_lock args) (cia_secret_hash args)
                       (kp_public key_pair) other) (p2sh_of (uc_hashes coin)) of
                  None \<Rightarrow> None
                | Some p2sh \<Rightarrow>
                    (case ur_script_history rpc (electrum_script_hash (uc_hashes coin) p2sh) of
                       Inl e \<Rightarrow> Some (Inl e)
                     | Inr [] \<Rightarrow> Some (Inr None)
                     | Inr (h # _) \<Rightarrow>
                         (case ur_transaction_bytes rpc 0 h of
                            Inl e \<Rightarrow> Some (Inl e)
                          | Inr raw \<Rightarrow>
                              (case read_utxo_tx raw of
                                 TxPanics \<Rightarrow> None
                               | TxUnreadable e \<Rightarrow> Some (Inl ''Error'')
                               | TxRead tx \<Rightarrow>
                                   Some (Inr (Some (transaction_enum coin (tx\<lparr>tx_hash_algo := uc_tx_hash_algo coin\<rparr>))))))))))"

text \<open>\<open>can_refund_htlc\<close> asks for the median time of the last blocks twice.\<close>

definition can_refund_htlc_utxo :: "utxo_coin \<Rightarrow> utxo_rpc \<Rightarrow> u64 \<Rightarrow> string + can_refund_htlc" where
  "can_refund_htlc_utxo coin rpc locktime =
     (let now = ur_now_sec rpc 0 in
      if now < locktime then Inr (HaveToWait (min (locktime - now + 1) 3600))
      else case ur_current_mtp rpc 0 of
        Inl e \<Rightarrow> Inl e
      | Inr mtp \<Rightarrow>
          (case p2sh_tx_locktime coin rpc 1 (ucast locktime) of
             Inl e \<Rightarrow> Inl e
           | Inr lock_time \<Rightarrow>
               if lock_time < mtp then Inr CanRefundNow
               else Inr (HaveToWait (min (ucast (lock_time - mtp + 1)) 3600))))"

text \<open>
  \<open>wait_for_output_spend\<close> asks again and again; \<open>rpcs\<close> has the answers of each turn, \<open>None\<close> is that it never
  returns. The inner option is a panic.
\<close>

partial_function (option) wait_for_output_spend_loop ::
  "utxo_coin \<Rightarrow> (nat \<Rightarrow> utxo_rpc) \<Rightarrow> nat \<Rightarrow> btc_transaction \<Rightarrow> nat \<Rightarrow> u64 \<Rightarrow> u64 \<Rightarrow>
   (transaction_err + transaction) option option" where
  "wait_for_output_spend_loop coin rpcs n tx output_index from_block wait_until =
     (if \<not> output_index < length (tx_outputs tx) then Some None
      else case find_output_spend coin (rpcs n) (utxo_tx_id coin tx) (xo_script_pubkey (tx_outputs tx ! output_index))
                  output_index from_block of
        None \<Rightarrow> Some None
      | Some (Inr (Some spend)) \<Rightarrow>
          Some (Some (Inr (transaction_enum coin (spend\<lparr>tx_hash_algo := uc_tx_hash_algo coin\<rparr>))))
      | Some _ \<Rightarrow>
          if wait_until < ur_now_sec (rpcs n) 0
          then Some (Some (Inl (Plain (''Waited too long until '' @ show_u64 wait_until))))
          else wait_for_output_spend_loop coin rpcs (n + 1) tx output_index from_block wait_until)"

definition wait_for_output_spend ::
  "utxo_coin \<Rightarrow> (nat \<Rightarrow> utxo_rpc) \<Rightarrow> bytes \<Rightarrow> nat \<Rightarrow> u64 \<Rightarrow> u64 \<Rightarrow>
   (transaction_err + transaction) option option" where
  "wait_for_output_spend coin rpcs tx_bytes output_index from_block wait_until =
     (case read_utxo_tx tx_bytes of
        TxPanics \<Rightarrow> Some None
      | TxUnreadable e \<Rightarrow> Some (Some (Inl (Plain ''Error'')))
      | TxRead tx \<Rightarrow>
          wait_for_output_spend_loop coin rpcs 0 (tx\<lparr>tx_hash_algo := uc_tx_hash_algo coin\<rparr>) output_index
            from_block wait_until)"

definition tx_enum_from_bytes :: "utxo_coin \<Rightarrow> bytes \<Rightarrow> (string + transaction) option" where
  "tx_enum_from_bytes coin bs =
     (case read_utxo_tx bs of
        TxPanics \<Rightarrow> None
      | TxUnreadable e \<Rightarrow> Some (Inl ''InvalidInput'')
      | TxRead tx \<Rightarrow>
          if length bs \<noteq> length (utxo_tx_hex tx) then Some (Inl ''CrossCheckFailed'')
          else Some (Inr (transaction_enum coin (tx\<lparr>tx_hash_algo := uc_tx_hash_algo coin\<rparr>))))"

definition validate_other_pubkey :: "bytes \<Rightarrow> string + unit" where
  "validate_other_pubkey raw_pubkey =
     (if public_from_slice raw_pubkey = None then Inl ''InvalidPubKey'' else Inr ())"

end
