(* ===== verification/ScriptProps.thy ===== *)
theory ScriptProps
  imports TxSigner BtcTxProps
begin

text \<open>
  Scripts that the builder makes are parsed into the instructions they were made from. Lemmas on code that is
  part of longer code carry the proofs; the rest of the development uses the bundle \<open>script_parse\<close>.
\<close>

section \<open>Parsing a part of a script\<close>

lemma get_opcode_shift: "get_opcode (pre @ s) (length pre + p) = get_opcode s p"
  by (simp add: get_opcode_def)

lemma script_take_shift: "script_take (pre @ s) (length pre + p) n = script_take s p n"
  by (simp add: script_take_def)

lemma get_instruction_at_shift: "get_instruction_at (pre @ s) (length pre + p) = get_instruction_at s p"
  unfolding get_instruction_at_def get_opcode_shift
  by (simp only: add.assoc script_take_shift)

lemma instructions_next_shift:
  "instructions_next (pre @ s) (length pre + p) =
     (case instructions_next s p of (r, q) \<Rightarrow> (r, length pre + q))"
  by (simp add: instructions_next_def get_instruction_at_shift split: option.split sum.split)

lemma instructions_from_shift: "instructions_from (pre @ s) (length pre + p) = instructions_from s p"
proof (induction s p rule: instructions_from.induct)
  case (1 s p)
  show ?case
    using 1 by (subst (1 2) instructions_from.simps)
      (auto simp: instructions_next_shift split: prod.split option.split sum.split)
qed

lemma instructions_from_append: "instructions_from (pre @ s) (length pre) = script_iter s"
  using instructions_from_shift [of pre s 0] by (simp add: script_iter_def)

lemma script_iter_Nil [simp]: "script_iter [] = []"
  by (simp add: script_iter_def instructions_from.simps [of "[]" 0] instructions_next_def)

text \<open>The first instruction, if the script starts with one.\<close>

lemma script_iter_step:
  assumes "get_instruction_at (pre @ s) 0 = Some (Inr i)" "in_step i = length pre"
  shows "script_iter (pre @ s) = Inr i # script_iter s"
proof -
  have "pre @ s \<noteq> []" using in_step_positive [OF assms(1)] assms(2) by auto
  then show ?thesis
    using assms
    by (simp add: script_iter_def instructions_from.simps [of "pre @ s" 0] instructions_next_def
        instructions_from_append [unfolded script_iter_def])
qed

section \<open>The items a builder is given\<close>

datatype script_item = Op opcode | Data bytes | Bytes bytes

text \<open>Opcodes that do not announce data.\<close>

definition plain_opcode :: "opcode \<Rightarrow> bool" where
  "plain_opcode op \<longleftrightarrow> OP_PUSHDATA4 < op \<and> opcode_from_u8 op \<noteq> None"

fun push_item :: "script_item \<Rightarrow> script \<Rightarrow> script option" where
  "push_item (Op op) s = Some (push_opcode op s)"
| "push_item (Data d) s = push_data d s"
| "push_item (Bytes d) s = push_bytes d s"

fun item_ok :: "script_item \<Rightarrow> bool" where
  "item_ok (Op op) \<longleftrightarrow> plain_opcode op \<or> op = OP_0"
| "item_ok (Data d) \<longleftrightarrow> True"
| "item_ok (Bytes d) \<longleftrightarrow> True"

definition data_instruction :: "bytes \<Rightarrow> instruction" where
  "data_instruction d =
     (let n = length d in
      if n < 76 then \<lparr>in_opcode = word_of_nat n, in_step = n + 1, in_data = Some d\<rparr>
      else if n < 256 then \<lparr>in_opcode = OP_PUSHDATA1, in_step = n + 2, in_data = Some d\<rparr>
      else if n < 65536 then \<lparr>in_opcode = OP_PUSHDATA2, in_step = n + 3, in_data = Some d\<rparr>
      else \<lparr>in_opcode = OP_PUSHDATA4, in_step = n + 5, in_data = Some d\<rparr>)"

fun item_instruction :: "script_item \<Rightarrow> instruction" where
  "item_instruction (Op op) =
     (if op = OP_0 then data_instruction [] else \<lparr>in_opcode = op, in_step = 1, in_data = None\<rparr>)"
| "item_instruction (Data d) = data_instruction d"
| "item_instruction (Bytes d) = data_instruction d"

lemma unat_small_byte: "n < 256 \<Longrightarrow> unat (word_of_nat n :: u8) = n"
  by (simp add: unat_of_nat take_bit_eq_mod)

lemma opcode_from_small: "n < 76 \<Longrightarrow> opcode_from_u8 (word_of_nat n) = Some (word_of_nat n)"
  by (simp add: opcode_from_u8_def word_le_nat_alt unat_small_byte)

lemma small_opcode_not_pushdata:
  "n < 76 \<Longrightarrow> (word_of_nat n :: u8) \<notin> {OP_PUSHDATA1, OP_PUSHDATA2, OP_PUSHDATA4} \<and> (word_of_nat n :: u8) \<le> OP_PUSHBYTES_75"
  by (auto simp: opcode_defs word_le_nat_alt unat_small_byte word_unat_eq_iff)

lemma parse_small_push:
  assumes "length d < 76"
  shows "get_instruction_at ((word_of_nat (length d) # d) @ s) 0 = Some (Inr (data_instruction d))"
  using assms small_opcode_not_pushdata [OF assms]
  by (simp add: get_instruction_at_def get_opcode_def opcode_from_small script_take_def unat_small_byte
      data_instruction_def Let_def)

lemma parse_pushdata:
  assumes "op \<in> {OP_PUSHDATA1, OP_PUSHDATA2, OP_PUSHDATA4}"
    and "length n = (if op = OP_PUSHDATA1 then 1 else if op = OP_PUSHDATA2 then 2 else 4)"
    and "nat_of_le n = length d"
  shows "get_instruction_at ((op # n @ d) @ s) 0 =
           Some (Inr \<lparr>in_opcode = op, in_step = length n + length d + 1, in_data = Some d\<rparr>)"
proof -
  have "opcode_from_u8 op = Some op" using assms(1) by (auto simp: opcode_from_u8_def opcode_defs)
  then show ?thesis
    using assms by (simp add: get_instruction_at_def get_opcode_def script_take_def read_usize_def Let_def)
qed

lemma nat_of_le_digits:
  "n < 256 \<Longrightarrow> nat_of_le [word_of_nat n] = n"
  "n < 65536 \<Longrightarrow> nat_of_le [word_of_nat n, word_of_nat (n div 2 ^ 8)] = n"
  "n < 4294967296 \<Longrightarrow>
   nat_of_le [word_of_nat n, word_of_nat (n div 2 ^ 8), word_of_nat (n div 2 ^ 16), word_of_nat (n div 2 ^ 24)] = n"
proof -
  have mod: "(word_of_nat (k mod 256) :: u8) = word_of_nat k" for k
    by (rule word_unat_eq_iff [THEN iffD2]) (simp add: unat_of_nat take_bit_eq_mod)
  have suc: "2 = Suc (Suc 0)" "4 = Suc (Suc (Suc (Suc 0)))" by simp_all
  have le1: "le_bytes 1 n = [word_of_nat n]" for n by (simp add: mod)
  have "le_bytes (Suc (Suc 0)) n = [word_of_nat n, word_of_nat (n div 2 ^ 8)]" for n
    unfolding le_bytes.simps mod by simp
  then have le2: "le_bytes 2 n = [word_of_nat n, word_of_nat (n div 2 ^ 8)]" for n by (simp only: suc(1) [symmetric])
  have le4: "le_bytes 4 n =
      [word_of_nat n, word_of_nat (n div 2 ^ 8), word_of_nat (n div 2 ^ 16), word_of_nat (n div 2 ^ 24)]" for n
    unfolding suc(2) le_bytes.simps mod by (simp add: div_mult2_eq [symmetric])
  note le = le1 le2 le4
  show "n < 256 \<Longrightarrow> nat_of_le [word_of_nat n] = n"
    using nat_of_le_le_bytes [of n 1] by (simp add: le)
  show "n < 65536 \<Longrightarrow> nat_of_le [word_of_nat n, word_of_nat (n div 2 ^ 8)] = n"
    using nat_of_le_le_bytes [of n 2] by (simp only: le) simp
  show "n < 4294967296 \<Longrightarrow>
     nat_of_le [word_of_nat n, word_of_nat (n div 2 ^ 8), word_of_nat (n div 2 ^ 16), word_of_nat (n div 2 ^ 24)] = n"
    using nat_of_le_le_bytes [of n 4] by (simp only: le) simp
qed

lemma push_data_bytes:
  assumes "push_data d s = Some s'"
  shows "\<exists>part. s' = s @ part \<and> length part = in_step (data_instruction d) \<and>
           (\<forall>rest. get_instruction_at (part @ rest) 0 = Some (Inr (data_instruction d)))"
proof -
  have 76: "unat OP_PUSHDATA1 = 76" by (simp add: opcode_defs)
  have ne: "OP_PUSHDATA1 \<noteq> OP_PUSHDATA2" "OP_PUSHDATA1 \<noteq> OP_PUSHDATA4" "OP_PUSHDATA2 \<noteq> OP_PUSHDATA4"
    by (simp_all add: opcode_defs)
  consider "length d < 76" "s' = s @ (word_of_nat (length d) # d)"
    | "76 \<le> length d" "length d < 256" "s' = s @ (OP_PUSHDATA1 # [word_of_nat (length d)] @ d)"
    | "256 \<le> length d" "length d < 65536"
      "s' = s @ (OP_PUSHDATA2 # [word_of_nat (length d), word_of_nat (length d div 2 ^ 8)] @ d)"
    | "65536 \<le> length d" "length d < 4294967296"
      "s' = s @ (OP_PUSHDATA4 # [word_of_nat (length d), word_of_nat (length d div 2 ^ 8),
         word_of_nat (length d div 2 ^ 16), word_of_nat (length d div 2 ^ 24)] @ d)"
    using assms by (auto simp: push_data_def 76 Let_def not_less split: if_splits)
  then show ?thesis
  proof cases
    case 1
    then show ?thesis
      using parse_small_push [of d]
      by (intro exI [of _ "word_of_nat (length d) # d"]) (auto simp: data_instruction_def Let_def)
  next
    case 2
    then show ?thesis
      using parse_pushdata [of OP_PUSHDATA1 "[word_of_nat (length d)]" d] nat_of_le_digits(1)
      by (intro exI [of _ "OP_PUSHDATA1 # [word_of_nat (length d)] @ d"]) (auto simp: data_instruction_def)
  next
    case 3
    then show ?thesis
      using parse_pushdata [of OP_PUSHDATA2 "[word_of_nat (length d), word_of_nat (length d div 2 ^ 8)]" d]
        nat_of_le_digits(2) [of "length d"] ne
      by (intro exI [of _ "OP_PUSHDATA2 # [word_of_nat (length d), word_of_nat (length d div 2 ^ 8)] @ d"])
        (auto simp: data_instruction_def)
  next
    case 4
    then show ?thesis
      using parse_pushdata [of OP_PUSHDATA4 "[word_of_nat (length d), word_of_nat (length d div 2 ^ 8),
         word_of_nat (length d div 2 ^ 16), word_of_nat (length d div 2 ^ 24)]" d]
        nat_of_le_digits(3) [of "length d"] ne
      by (intro exI [of _ "OP_PUSHDATA4 # [word_of_nat (length d), word_of_nat (length d div 2 ^ 8),
         word_of_nat (length d div 2 ^ 16), word_of_nat (length d div 2 ^ 24)] @ d"])
        (auto simp: data_instruction_def)
  qed
qed

text \<open>A push of bytes that the builder accepts is a push of data.\<close>

lemma push_bytes_is_push_data: "push_bytes d s = (if 1 \<le> length d \<and> length d \<le> 75 then push_data d s else None)"
proof -
  have "opcode_from_u8 (word_of_nat (length d)) = Some (word_of_nat (length d))" if "length d \<le> 75"
    using that by (intro opcode_from_small) simp
  moreover have "unat OP_PUSHBYTES_1 = 1" "unat OP_PUSHDATA1 = 76" by (simp_all add: opcode_defs)
  ultimately show ?thesis by (auto simp: push_bytes_def push_data_def Let_def)
qed

lemma push_item_parses:
  assumes "push_item x s = Some s'" "item_ok x"
  shows "\<exists>part. s' = s @ part \<and> (\<forall>rest. script_iter (part @ rest) = Inr (item_instruction x) # script_iter rest)"
proof -
  have data: "\<exists>part. s' = s @ part \<and> (\<forall>rest. script_iter (part @ rest) = Inr (data_instruction d) # script_iter rest)"
    if "push_data d s = Some s'" for d
    using push_data_bytes [OF that] script_iter_step by metis
  show ?thesis
  proof (cases x)
    case (Op op)
    show ?thesis
    proof (cases "op = OP_0")
      case True
      have "push_data [] s = Some (s @ [OP_0])" by (simp add: push_data_def opcode_defs)
      then show ?thesis using Op True assms(1) data [of "[]"] by (simp add: push_opcode_def)
    next
      case False
      with Op assms(2) have p: "OP_PUSHDATA4 < op" "opcode_from_u8 op = Some op"
        by (auto simp: plain_opcode_def opcode_from_u8_def split: if_splits)
      then have "\<not> op \<le> OP_PUSHBYTES_75" "op \<notin> {OP_PUSHDATA1, OP_PUSHDATA2, OP_PUSHDATA4}"
        by (auto simp: opcode_defs word_le_nat_alt word_less_nat_alt)
      then have "get_instruction_at ([op] @ rest) 0 = Some (Inr (item_instruction x))" for rest
        using Op p False by (simp add: get_instruction_at_def get_opcode_def)
      moreover have "in_step (item_instruction x) = length [op]" using Op False by simp
      ultimately have "script_iter ([op] @ rest) = Inr (item_instruction x) # script_iter rest" for rest
        by (intro script_iter_step)
      then show ?thesis using Op assms(1) by (auto simp: push_opcode_def)
    qed
  next
    case (Data d)
    then show ?thesis using data assms by simp
  next
    case (Bytes d)
    then show ?thesis using data assms by (simp add: push_bytes_is_push_data split: if_splits)
  qed
qed

fun push_items :: "script_item list \<Rightarrow> script \<Rightarrow> script option" where
  "push_items [] s = Some s"
| "push_items (x # xs) s = Option.bind (push_item x s) (push_items xs)"

lemma push_items_parse:
  assumes "push_items xs s = Some s'" "list_all item_ok xs"
  shows "\<exists>part. s' = s @ part \<and>
           (\<forall>rest. script_iter (part @ rest) = map (Inr \<circ> item_instruction) xs @ script_iter rest)"
  using assms
proof (induction xs arbitrary: s)
  case (Cons x xs)
  then obtain s1 where 1: "push_item x s = Some s1" "push_items xs s1 = Some s'"
    by (auto simp: bind_eq_Some_conv)
  obtain a where a: "s1 = s @ a" "\<And>rest. script_iter (a @ rest) = Inr (item_instruction x) # script_iter rest"
    using push_item_parses [OF 1(1)] Cons.prems by auto
  obtain b where b: "s' = s1 @ b"
    "\<And>rest. script_iter (b @ rest) = map (Inr \<circ> item_instruction) xs @ script_iter rest"
    using Cons.IH [OF 1(2)] Cons.prems by auto
  have "s' = s @ a @ b" using a(1) b(1) by simp
  moreover have "script_iter ((a @ b) @ rest) = map (Inr \<circ> item_instruction) (x # xs) @ script_iter rest" for rest
    by (simp add: a(2) b(2))
  ultimately show ?case by (metis append_assoc)
qed simp

lemma script_iter_items:
  assumes "push_items xs [] = Some s" "list_all item_ok xs"
  shows "script_iter s = map (Inr \<circ> item_instruction) xs"
  using push_items_parse [OF assms] by (metis append_Nil append_Nil2 script_iter_Nil)

text \<open>
  C28. Every script that the builder makes of items, which are opcodes and data of any length, is parsed into the
  instructions of these items, and nothing else: what was pushed is read back, byte by byte, in the same order.
\<close>

theorem built_script_parses:
  assumes "push_items xs [] = Some s" "list_all item_ok xs"
  shows "script_iter s = map (Inr \<circ> item_instruction) xs \<and>
         (\<forall>n. get_instruction s n = (if n < length xs then Some (Inr (item_instruction (xs ! n))) else None))"
  using script_iter_items [OF assms] by (auto simp: get_instruction_def)

theorem built_script_parses_witness:
  "script_iter [81, 2, 7, 9, 172] =
     map (Inr \<circ> item_instruction) [Op OP_1, Data [7, 9], Op OP_CHECKSIG] \<and>
   get_instruction [81, 2, 7, 9, 172] 1 = Some (Inr (data_instruction [7, 9]))"
proof -
  have "push_items [Op OP_1, Data [7, 9], Op OP_CHECKSIG] [] = Some [81, 2, 7, 9, 172]"
    by (simp add: push_opcode_def push_data_def opcode_defs)
  moreover have "list_all item_ok [Op OP_1, Data [7, 9], Op OP_CHECKSIG]"
    by (simp add: plain_opcode_def opcode_from_u8_def opcode_defs)
  ultimately have "script_iter [81, 2, 7, 9, 172] = map (Inr \<circ> item_instruction) [Op OP_1, Data [7, 9], Op OP_CHECKSIG]"
    and "\<forall>n. get_instruction [81, 2, 7, 9, 172] n =
           (if n < 3 then Some (Inr (item_instruction ([Op OP_1, Data [7, 9], Op OP_CHECKSIG] ! n))) else None)"
    using built_script_parses [of "[Op OP_1, Data [7, 9], Op OP_CHECKSIG]"] by (simp_all only: list.size) simp_all
  then show ?thesis by (simp del: map_eq_Cons_conv)
qed

end
