(* ===== verification/HtlcProps.thy ===== *)
theory HtlcProps
  imports UtxoHtlc ScriptProps
begin

text \<open>
  Properties of hash time locked contracts on chains of the Bitcoin family: the instructions of the script of a
  payment, that transactions which spend and refund it have the form the rest of the program looks for, that
  the secret is found, and that the two sides of a swap agree on what a payment is.
\<close>

section \<open>The script of a payment\<close>

definition secret_hash160 :: "hash_functions \<Rightarrow> bytes \<Rightarrow> bytes" where
  "secret_hash160 H secret_hash = (if length secret_hash = 32 then h_ripemd160 H secret_hash else secret_hash)"

definition payment_items :: "u32 \<Rightarrow> bytes \<Rightarrow> bytes \<Rightarrow> bytes \<Rightarrow> script_item list" where
  "payment_items time_lock hash pub_0 pub_1 =
     [Op OP_IF, Bytes (ser_u32 time_lock), Op OP_CHECKLOCKTIMEVERIFY, Op OP_DROP, Bytes pub_0, Op OP_CHECKSIG,
      Op OP_ELSE, Op OP_SIZE, Bytes [32], Op OP_EQUALVERIFY, Op OP_HASH160, Bytes hash, Op OP_EQUALVERIFY,
      Bytes pub_1, Op OP_CHECKSIG, Op OP_ENDIF]"

lemma push_items_fun: "push_items [] = Some" "push_items (x # xs) = (\<lambda>s. Option.bind (push_item x s) (push_items xs))"
  by (auto simp: fun_eq_iff)

lemma payment_script_items:
  "payment_script H time_lock secret_hash pub_0 pub_1 =
     push_items (payment_items time_lock (secret_hash160 H secret_hash) pub_0 pub_1) []"
  by (simp add: payment_script_def payment_items_def secret_hash160_def push_items_fun)

lemma payment_items_ok: "list_all item_ok (payment_items time_lock hash pub_0 pub_1)"
  by (simp add: payment_items_def plain_opcode_def opcode_from_u8_def opcode_defs)

lemma payment_script_iter:
  "payment_script H time_lock secret_hash pub_0 pub_1 = Some s \<Longrightarrow>
   script_iter s = map (Inr \<circ> item_instruction) (payment_items time_lock (secret_hash160 H secret_hash) pub_0 pub_1)"
  unfolding payment_script_items by (rule script_iter_items [OF _ payment_items_ok])

lemma data_instruction_data [simp]: "in_data (data_instruction d) = Some d"
  by (simp add: data_instruction_def Let_def)

lemma ser_u32_inject: "ser_u32 a = ser_u32 b \<longleftrightarrow> a = b"
  by (metis append_Nil2 de_u32_ser decoded.inject(1))

text \<open>The script determines the terms of the payment.\<close>

lemma payment_script_inject:
  assumes "payment_script H t sh p q = Some s" "payment_script H t' sh' p' q' = Some s"
  shows "t = t' \<and> secret_hash160 H sh = secret_hash160 H sh' \<and> p = p' \<and> q = q'"
proof -
  have "map (Inr \<circ> item_instruction) (payment_items t (secret_hash160 H sh) p q) =
        (map (Inr \<circ> item_instruction) (payment_items t' (secret_hash160 H sh') p' q') :: (script_error + instruction) list)"
    using payment_script_iter [OF assms(1)] payment_script_iter [OF assms(2)] by simp
  then have "map in_data (map item_instruction (payment_items t (secret_hash160 H sh) p q)) =
             map in_data (map item_instruction (payment_items t' (secret_hash160 H sh') p' q'))"
    by (simp add: payment_items_def)
  then show ?thesis by (simp add: payment_items_def ser_u32_inject)
qed

lemma push_bytes_Some:
  "push_bytes d s = Some s' \<Longrightarrow> s' = s @ word_of_nat (length d) # d \<and> 1 \<le> length d \<and> length d \<le> 75"
  by (auto simp: push_bytes_is_push_data push_data_def opcode_defs split: if_splits)

lemma push_bytes_iff:
  "push_bytes d s = (if 1 \<le> length d \<and> length d \<le> 75 then Some (s @ word_of_nat (length d) # d) else None)"
  by (auto simp: push_bytes_is_push_data push_data_def opcode_defs)

lemma payment_script_length:
  assumes "payment_script H t sh p q = Some s"
  shows "0 < length s \<and> length s < 256"
proof -
  have "length (ser_u32 t) = 4" by (simp add: ser_u32_def)
  then show ?thesis
    using assms by (auto simp: payment_script_def push_bytes_iff push_opcode_def split: if_splits)
qed

lemma payment_script_exists:
  assumes "length p = 33 \<or> length p = 65" "length q = 33 \<or> length q = 65"
    and "1 \<le> length (secret_hash160 H sh)" "length (secret_hash160 H sh) \<le> 75"
  shows "\<exists>s. payment_script H t sh p q = Some s"
proof -
  have "length (ser_u32 t) = 4" by (simp add: ser_u32_def)
  then show ?thesis
    using assms unfolding payment_script_def secret_hash160_def [symmetric]
    by (auto simp: push_bytes_iff)
qed

section \<open>Transactions that spend a payment\<close>

definition script_sig_items :: "bytes \<Rightarrow> script_item list \<Rightarrow> bytes \<Rightarrow> script_item list" where
  "script_sig_items signature data redeem = Data signature # data @ [Data redeem]"

lemma push_items_append:
  "push_items (xs @ ys) s = Option.bind (push_items xs s) (push_items ys)"
proof (induction xs arbitrary: s)
  case (Cons x xs)
  then show ?case by (cases "push_item x s") simp_all
qed simp

lemma push_item_prefix: "push_item x (a @ s) = map_option ((@) a) (push_item x s)"
  by (cases x) (auto simp: push_opcode_def push_data_def push_bytes_def Let_def option.map_comp comp_def)

lemma push_items_prefix: "push_items xs (a @ s) = map_option ((@) a) (push_items xs s)"
proof (induction xs arbitrary: s)
  case (Cons x xs)
  then show ?case by (cases "push_item x s") (simp_all add: push_item_prefix)
qed simp

lemma p2sh_script_sig:
  assumes "p2sh_spend_with_signature i redeem data fork_id signature = Some input"
    and "push_items xs [] = Some data"
  shows "push_items (script_sig_items (sig_script_sig signature fork_id) xs redeem) [] = Some (ti_script_sig input)"
proof -
  obtain a b where ab: "push_data (sig_script_sig signature fork_id) [] = Some a" "push_data redeem [] = Some b"
    and sig: "ti_script_sig input = a @ data @ b"
    using assms(1) by (auto simp: p2sh_spend_with_signature_def signed_input_of_def bind_eq_Some_conv)
  have "push_items xs a = Some (a @ data)" using push_items_prefix [of xs a "[]"] assms(2) by simp
  moreover have "push_items [Data redeem] (a @ data) = Some (a @ data @ b)"
    using push_items_prefix [of "[Data redeem]" "a @ data" "[]"] ab(2) by simp
  ultimately show ?thesis using ab(1) sig by (simp add: script_sig_items_def push_items_append)
qed

lemma script_sig_iter:
  assumes "p2sh_spend_with_signature i redeem data fork_id signature = Some input"
    and "push_items xs [] = Some data" "list_all item_ok xs"
  shows "script_iter (ti_script_sig input) =
           map (Inr \<circ> item_instruction) (script_sig_items (sig_script_sig signature fork_id) xs redeem)"
  by (rule script_iter_items [OF p2sh_script_sig [OF assms(1,2)]]) (simp add: script_sig_items_def assms(3))

text \<open>What \<open>p2sh_spending_tx\<close> returns.\<close>

lemma p2sh_spending_tx_Inr:
  assumes "p2sh_spending_tx coin rpc prev redeem outs data seq lock kp = Some (Inr tx)"
  obtains lock_time signature input where
    "p2sh_tx_locktime coin rpc 0 lock = Inr lock_time"
    "p2sh_spend_with_signature
       \<lparr>ui_previous_output = \<lparr>op_hash = utxo_tx_id coin prev, op_index = 0\<rparr>, ui_sequence = seq,
        ui_amount = xo_value (tx_outputs prev ! 0), ui_witness = []\<rparr> redeem data (uc_fork_id coin) signature = Some input"
    "\<exists>h. kp_sign kp h = Inr signature" "tx_outputs prev \<noteq> []"
    "tx = \<lparr>tx_version = uc_tx_version coin, tx_n_time = (if uc_is_pos coin then Some (now_sec_u32 rpc 1) else None),
           tx_overwintered = uc_overwintered coin, tx_version_group_id = uc_version_group_id coin, tx_inputs = [input],
           tx_outputs = outs, tx_lock_time = lock_time, tx_expiry_height = 0,
           tx_shielded_spends = [], tx_shielded_outputs = [], tx_join_splits = [], tx_value_balance = 0,
           tx_join_split_pubkey = zero_hash 32, tx_join_split_sig = zero_hash 64,
           tx_binding_sig = zero_hash 64, tx_zcash = uc_zcash coin, tx_posv = uc_is_posv coin,
           tx_str_d_zeel = (if uc_ticker coin = ''NAV'' then Some [] else None), tx_hash_algo = uc_tx_hash_algo coin\<rparr>"
  using assms unfolding p2sh_spending_tx_def Let_def p2sh_spend_def spend_input_def get_input_def DEFAULT_SWAP_VOUT_def
  by (auto simp: calc_and_sign_sighash_def split: if_splits sum.splits option.splits)

lemma spend_payment_Inr:
  assumes "spend_payment coin rpc payment_tx redeem_for data seq time_lock stage = Some (Inr tx)"
  obtains my_address prev kp d redeem fee script where
    "uc_my_address coin = Some my_address" "read_utxo_tx payment_tx = TxRead prev" "tx_outputs prev \<noteq> []"
    "uc_key_pair coin = Some kp" "data = Some d" "redeem_for (kp_public kp) = Some (Some redeem)"
    "get_htlc_spend_fee coin rpc DEFAULT_SWAP_TX_SPEND_SIZE stage = Inr fee"
    "fee < xo_value (tx_outputs prev ! 0)" "output_script my_address P2PKH = Some script"
    "p2sh_spending_tx coin rpc (prev\<lparr>tx_hash_algo := uc_tx_hash_algo coin\<rparr>) redeem
       [\<lparr>xo_value = xo_value (tx_outputs prev ! 0) - fee, xo_script_pubkey = script\<rparr>] d seq time_lock kp = Some (Inr tx)"
proof -
  obtain my_address where a: "uc_my_address coin = Some my_address"
    using assms by (auto simp: spend_payment_def split: option.splits)
  obtain prev where p: "read_utxo_tx payment_tx = TxRead prev" "tx_outputs prev \<noteq> []"
    using assms a by (auto simp: spend_payment_def Let_def split: read_tx.splits if_splits)
  obtain kp d where k: "uc_key_pair coin = Some kp" "data = Some d"
    using assms a p by (auto simp: spend_payment_def Let_def split: option.splits)
  obtain redeem where r: "redeem_for (kp_public kp) = Some (Some redeem)"
    using assms a p k by (auto simp: spend_payment_def Let_def split: option.splits)
  obtain fee where f: "get_htlc_spend_fee coin rpc DEFAULT_SWAP_TX_SPEND_SIZE stage = Inr fee"
    using assms a p k r by (auto simp: spend_payment_def Let_def split: sum.splits)
  have v: "fee < xo_value (tx_outputs prev ! 0)"
    using assms a p k r f by (auto simp: spend_payment_def Let_def not_le split: if_splits)
  obtain script where o: "output_script my_address P2PKH = Some script"
    using assms a p k r f v by (auto simp: spend_payment_def Let_def split: option.splits if_splits)
  have "p2sh_spending_tx coin rpc (prev\<lparr>tx_hash_algo := uc_tx_hash_algo coin\<rparr>) redeem
       [\<lparr>xo_value = xo_value (tx_outputs prev ! 0) - fee, xo_script_pubkey = script\<rparr>] d seq time_lock kp = Some (Inr tx)"
  proof -
    let ?r = "p2sh_spending_tx coin rpc (prev\<lparr>tx_hash_algo := uc_tx_hash_algo coin\<rparr>) redeem
       [\<lparr>xo_value = xo_value (tx_outputs prev ! 0) - fee, xo_script_pubkey = script\<rparr>] d seq time_lock kp"
    have "map_option (map_sum Plain id) ?r = Some (Inr tx)"
      using assms a p k r f v [folded not_le] o by (simp add: spend_payment_def Let_def)
    then obtain x where "?r = Some x" "map_sum Plain id x = Inr tx" by auto
    then show ?thesis by (cases x) auto
  qed
  with a p k r f v o that show thesis by blast
qed

text \<open>What the development asks of the parameters: lengths of hashes, keys and signatures, and a coin without time stamps.\<close>

definition hashes_ok :: "hash_functions \<Rightarrow> bool" where
  "hashes_ok H \<longleftrightarrow> (\<forall>x. length (h_dhash256 H x) = 32) \<and> (\<forall>x. length (h_sha256 H x) = 32) \<and>
     (\<forall>x. length (h_dhash160 H x) = 20) \<and> (\<forall>x. length (h_ripemd160 H x) = 20)"

definition key_pair_ok :: "key_pair \<Rightarrow> bool" where
  "key_pair_ok kp \<longleftrightarrow> length (kp_public kp) = 33 \<and> (\<forall>h s. kp_sign kp h = Inr s \<longrightarrow> length s \<le> MAX_DER_SIGNATURE_LEN)"

definition standard_coin :: "utxo_coin \<Rightarrow> bool" where
  "standard_coin coin \<longleftrightarrow> \<not> uc_is_pos coin \<and> \<not> uc_is_posv coin \<and> uc_ticker coin \<noteq> ''NAV'' \<and>
     uc_zcash coin = uc_overwintered coin \<and> (uc_overwintered coin \<or> uc_version_group_id coin = 0) \<and>
     \<not> bit (uc_tx_version coin) 31 \<and> hashes_ok (uc_hashes coin) \<and>
     (\<forall>kp. uc_key_pair coin = Some kp \<longrightarrow> key_pair_ok kp)"

lemma ser_transaction_hash_algo [simp]:
  "ser_transaction w (tx\<lparr>tx_hash_algo := a\<rparr>) = ser_transaction w tx"
  by (simp add: ser_transaction_def tx_has_witness_def ser_tx_n_time_def ser_tx_shielded_def ser_tx_zcash_def
      ser_tx_str_d_zeel_def)

lemma utxo_tx_hex_ser: "utxo_tx_hex tx = ser_transaction True tx"
  by (simp add: utxo_tx_hex_def ser_transaction_def)

lemma read_back:
  assumes "tx_ok StandardWithWitness (tx\<lparr>tx_hash_algo := DSHA256\<rparr>)" "plain_tx tx"
  shows "read_utxo_tx (utxo_tx_hex tx) = TxRead (tx\<lparr>tx_hash_algo := DSHA256\<rparr>)"
  using transaction_recognised [OF assms(1), of "[]"] assms(2)
  by (simp add: read_utxo_tx_def utxo_tx_hex_ser plain_tx_def)

lemma output_script_length: "output_script a kt = Some s \<Longrightarrow> length s \<le> 80"
  by (auto simp: output_script_def build_witness_script_def build_p2pkh_def build_p2sh_def push_bytes_iff
      push_opcode_def Let_def split: if_splits keys_type.splits bind_splits)


text \<open>The transactions are well formed, so that every node reads them back from their bytes.\<close>

lemma push_data_length: "push_data d s = Some s' \<Longrightarrow> length s' \<le> length s + length d + 5"
  by (auto simp: push_data_def Let_def split: if_splits)

lemma spending_tx_reads_back:
  assumes "p2sh_spending_tx coin rpc prev redeem outs data seq lock kp = Some (Inr tx)"
    and "standard_coin coin" "key_pair_ok kp" "length redeem < 256" "length data < 1000"
    and "outs \<noteq> []" "length outs \<le> MAX_LIST_SIZE" "list_all output_ok outs"
  shows "read_utxo_tx (utxo_tx_hex tx) = TxRead (tx\<lparr>tx_hash_algo := DSHA256\<rparr>)"
proof (rule p2sh_spending_tx_Inr [OF assms(1)], rule read_back)
  fix lock_time signature input
  assume spend: "p2sh_spend_with_signature
       \<lparr>ui_previous_output = \<lparr>op_hash = utxo_tx_id coin prev, op_index = 0\<rparr>, ui_sequence = seq,
        ui_amount = xo_value (tx_outputs prev ! 0), ui_witness = []\<rparr> redeem data (uc_fork_id coin) signature = Some input"
    and sign: "\<exists>h. kp_sign kp h = Inr signature"
    and tx: "tx = \<lparr>tx_version = uc_tx_version coin, tx_n_time = (if uc_is_pos coin then Some (now_sec_u32 rpc 1) else None),
           tx_overwintered = uc_overwintered coin, tx_version_group_id = uc_version_group_id coin, tx_inputs = [input],
           tx_outputs = outs, tx_lock_time = lock_time, tx_expiry_height = 0,
           tx_shielded_spends = [], tx_shielded_outputs = [], tx_join_splits = [], tx_value_balance = 0,
           tx_join_split_pubkey = zero_hash 32, tx_join_split_sig = zero_hash 64,
           tx_binding_sig = zero_hash 64, tx_zcash = uc_zcash coin, tx_posv = uc_is_posv coin,
           tx_str_d_zeel = (if uc_ticker coin = ''NAV'' then Some [] else None), tx_hash_algo = uc_tx_hash_algo coin\<rparr>"
  show "plain_tx tx" by (simp add: tx plain_tx_def)
  have sig: "length signature \<le> 72" using sign assms(3) by (auto simp: key_pair_ok_def MAX_DER_SIGNATURE_LEN_def)
  obtain a b where "push_data (sig_script_sig signature (uc_fork_id coin)) [] = Some a" "push_data redeem [] = Some b"
    and input: "ti_script_sig input = a @ data @ b" "ti_script_witness input = []"
      "op_hash (ti_previous_output input) = utxo_tx_id coin prev"
    using spend by (auto simp: p2sh_spend_with_signature_def signed_input_of_def bind_eq_Some_conv)
  then have "length (ti_script_sig input) \<le> 65536"
    using push_data_length [of "sig_script_sig signature (uc_fork_id coin)" "[]" a] push_data_length [of redeem "[]" b]
      sig assms(4,5) by (simp add: sig_script_sig_def)
  moreover have "length (utxo_tx_id coin prev) = 32"
    using assms(2) by (simp add: standard_coin_def hashes_ok_def utxo_tx_id_def BtcTransaction.tx_hash_def split: tx_hash_algo.split)
  ultimately have "input_ok (strip_witness input)"
    using input by (simp add: input_ok_def strip_witness_def out_point_ok_def)
  then show "tx_ok StandardWithWitness (tx\<lparr>tx_hash_algo := DSHA256\<rparr>)"
    using assms(2,6-8) input
    by (simp add: tx tx_ok_def standard_coin_def tx_lists_ok_def tx_time_ok_def tx_shielded_ok_def tx_zcash_ok_def
        tx_has_witness_def input_has_witness_def MAX_LIST_SIZE_def)
qed

section \<open>The secret\<close>

lemma get_instruction_iter: "get_instruction s n = (if n < length (script_iter s) then Some (script_iter s ! n) else None)"
  by (simp add: get_instruction_def)

lemma secret_script_data_items: "secret_script_data secret = push_items [Data secret, Op OP_0] []"
  by (cases "push_data secret []") (simp_all add: secret_script_data_def push_items_fun)

lemma refund_script_data_items: "Some refund_script_data = push_items [Op OP_1] []"
  by (simp add: refund_script_data_def)

lemma item_ok_data: "list_all item_ok [Data secret, Op OP_0]" "list_all item_ok [Op OP_1]"
  by (simp_all add: plain_opcode_def opcode_from_u8_def opcode_defs)

text \<open>A 32 byte push, whose hash is the expected one.\<close>

lemma extract_secret_first:
  assumes "script_iter (ti_script_sig input) = a # Inr (data_instruction secret) # rest"
    and "length secret = 32" "h_dhash160 H secret = secret_hash160 H secret_hash"
    and "length secret_hash = 20 \<or> length secret_hash = 32"
  shows "extract_secret_from_inputs H secret_hash (input # inputs) = Some (Inr secret)"
proof -
  have "in_opcode (data_instruction secret) = OP_PUSHBYTES_32"
    using assms(2) by (simp add: data_instruction_def opcode_defs)
  then show ?thesis
    using assms by (auto simp: get_instruction_iter secret_hash160_def h160_from_slice_def)
qed

text \<open>The form of all transactions that spend or refund a payment.\<close>

definition payment_point :: "utxo_coin \<Rightarrow> bytes \<Rightarrow> out_point \<Rightarrow> bool" where
  "payment_point coin payment_tx p \<longleftrightarrow>
     (\<exists>prev. read_utxo_tx payment_tx = TxRead prev \<and>
        p = \<lparr>op_hash = utxo_tx_id coin (prev\<lparr>tx_hash_algo := uc_tx_hash_algo coin\<rparr>), op_index = 0\<rparr>)"

lemma spend_payment_form:
  assumes "spend_payment coin rpc payment_tx redeem_for (push_items xs []) seq time_lock stage = Some (Inr tx)"
    and "list_all item_ok xs" "standard_coin coin" "\<And>d. push_items xs [] = Some d \<Longrightarrow> length d < 1000"
    and "\<And>key redeem. redeem_for key = Some (Some redeem) \<Longrightarrow> length redeem < 256"
  obtains kp redeem signature input where
    "uc_key_pair coin = Some kp" "redeem_for (kp_public kp) = Some (Some redeem)" "tx_inputs tx = [input]"
    "script_iter (ti_script_sig input) = map (Inr \<circ> item_instruction) (script_sig_items signature xs redeem)"
    "payment_point coin payment_tx (ti_previous_output input)" "ti_sequence input = seq"
    "p2sh_tx_locktime coin rpc 0 time_lock = Inr (tx_lock_time tx)"
    "read_utxo_tx (utxo_tx_hex tx) = TxRead (tx\<lparr>tx_hash_algo := DSHA256\<rparr>)"
proof (rule spend_payment_Inr [OF assms(1)])
  fix my_address prev kp d redeem fee script
  assume kp: "uc_key_pair coin = Some kp" and d: "push_items xs [] = Some d" and prev: "read_utxo_tx payment_tx = TxRead prev"
    and redeem: "redeem_for (kp_public kp) = Some (Some redeem)" and out: "output_script my_address P2PKH = Some script"
    and tx: "p2sh_spending_tx coin rpc (prev\<lparr>tx_hash_algo := uc_tx_hash_algo coin\<rparr>) redeem
       [\<lparr>xo_value = xo_value (tx_outputs prev ! 0) - fee, xo_script_pubkey = script\<rparr>] d seq time_lock kp = Some (Inr tx)"
  have read: "read_utxo_tx (utxo_tx_hex tx) = TxRead (tx\<lparr>tx_hash_algo := DSHA256\<rparr>)"
    using assms(3,4) assms(5) [OF redeem] d kp output_script_length [OF out]
    by (intro spending_tx_reads_back [OF tx]) (auto simp: standard_coin_def output_ok_def MAX_LIST_SIZE_def)
  show thesis
  proof (rule p2sh_spending_tx_Inr [OF tx])
    fix lock_time signature input
    assume lock: "p2sh_tx_locktime coin rpc 0 time_lock = Inr lock_time"
      and spend: "p2sh_spend_with_signature
         \<lparr>ui_previous_output = \<lparr>op_hash = utxo_tx_id coin (prev\<lparr>tx_hash_algo := uc_tx_hash_algo coin\<rparr>), op_index = 0\<rparr>,
          ui_sequence = seq, ui_amount = xo_value (tx_outputs (prev\<lparr>tx_hash_algo := uc_tx_hash_algo coin\<rparr>) ! 0),
          ui_witness = []\<rparr> redeem d (uc_fork_id coin) signature = Some input"
      and form: "tx = \<lparr>tx_version = uc_tx_version coin, tx_n_time = (if uc_is_pos coin then Some (now_sec_u32 rpc 1) else None),
           tx_overwintered = uc_overwintered coin, tx_version_group_id = uc_version_group_id coin, tx_inputs = [input],
           tx_outputs = [\<lparr>xo_value = xo_value (tx_outputs prev ! 0) - fee, xo_script_pubkey = script\<rparr>],
           tx_lock_time = lock_time, tx_expiry_height = 0,
           tx_shielded_spends = [], tx_shielded_outputs = [], tx_join_splits = [], tx_value_balance = 0,
           tx_join_split_pubkey = zero_hash 32, tx_join_split_sig = zero_hash 64,
           tx_binding_sig = zero_hash 64, tx_zcash = uc_zcash coin, tx_posv = uc_is_posv coin,
           tx_str_d_zeel = (if uc_ticker coin = ''NAV'' then Some [] else None), tx_hash_algo = uc_tx_hash_algo coin\<rparr>"
    have "ti_previous_output input = \<lparr>op_hash = utxo_tx_id coin (prev\<lparr>tx_hash_algo := uc_tx_hash_algo coin\<rparr>), op_index = 0\<rparr>"
      "ti_sequence input = seq"
      using spend by (auto simp: p2sh_spend_with_signature_def signed_input_of_def bind_eq_Some_conv)
    then show thesis
      using kp redeem prev form lock script_sig_iter [OF spend d assms(2)] read
      by (intro that) (auto simp: payment_point_def)
  qed
qed

lemma other_redeem_length:
  "other_redeem_script coin tlock sh pub key = Some (Some redeem) \<Longrightarrow> length redeem < 256"
  "my_redeem_script coin tlock sh pub key = Some (Some redeem) \<Longrightarrow> length redeem < 256"
  by (auto simp: other_redeem_script_def my_redeem_script_def dest: payment_script_length)

lemma secret_data_length: "length secret = 32 \<Longrightarrow> push_items [Data secret, Op OP_0] [] = Some d \<Longrightarrow> length d < 1000"
  by (auto simp: push_items_fun push_data_def push_opcode_def opcode_defs)

lemma spent_with_secret:
  assumes "spend_payment coin rpc payment_tx (other_redeem_script coin tlock sh pub) (secret_script_data secret) seq time_lock stage
             = Some (Inr tx)"
    and "standard_coin coin" "length secret = 32"
  obtains signature redeem input where "tx_inputs tx = [input]"
    "script_iter (ti_script_sig input) =
       [Inr (data_instruction signature), Inr (data_instruction secret), Inr (data_instruction []), Inr (data_instruction redeem)]"
    "payment_point coin payment_tx (ti_previous_output input)"
    "read_utxo_tx (utxo_tx_hex tx) = TxRead (tx\<lparr>tx_hash_algo := DSHA256\<rparr>)"
  using assms(1) unfolding secret_script_data_items
  by (rule spend_payment_form [OF _ item_ok_data(1) assms(2) secret_data_length [OF assms(3)] other_redeem_length(1)])
    (simp_all add: script_sig_items_def that)

lemma item_instruction_OP_1: "item_instruction (Op OP_1) = \<lparr>in_opcode = OP_1, in_step = 1, in_data = None\<rparr>"
  by (simp add: opcode_defs)

lemma refund_data_length: "push_items [Op OP_1] [] = Some d \<Longrightarrow> length d < 1000"
  by (auto simp: push_items_fun push_opcode_def)

lemma my_redeem_nonempty: "my_redeem_script coin tlock sh pub key = Some (Some redeem) \<Longrightarrow> redeem \<noteq> []"
  by (auto simp: my_redeem_script_def dest: payment_script_length)

lemma refunded_form:
  assumes "spend_payment coin rpc payment_tx (my_redeem_script coin tlock sh pub) (Some refund_script_data) seq time_lock stage
             = Some (Inr tx)"
    and "standard_coin coin"
  obtains signature redeem input where "tx_inputs tx = [input]" "redeem \<noteq> []"
    "script_iter (ti_script_sig input) =
       [Inr (data_instruction signature), Inr \<lparr>in_opcode = OP_1, in_step = 1, in_data = None\<rparr>, Inr (data_instruction redeem)]"
    "payment_point coin payment_tx (ti_previous_output input)" "ti_sequence input = seq"
    "p2sh_tx_locktime coin rpc 0 time_lock = Inr (tx_lock_time tx)"
    "read_utxo_tx (utxo_tx_hex tx) = TxRead (tx\<lparr>tx_hash_algo := DSHA256\<rparr>)"
proof (rule spend_payment_form [OF assms(1) [unfolded refund_script_data_items] item_ok_data(2) assms(2)
      refund_data_length other_redeem_length(2)])
  fix kp redeem signature input
  assume "my_redeem_script coin tlock sh pub (kp_public kp) = Some (Some redeem)" "tx_inputs tx = [input]"
    and "script_iter (ti_script_sig input) = map (Inr \<circ> item_instruction) (script_sig_items signature [Op OP_1] redeem)"
    and "payment_point coin payment_tx (ti_previous_output input)" "ti_sequence input = seq"
    and "p2sh_tx_locktime coin rpc 0 time_lock = Inr (tx_lock_time tx)"
    and "read_utxo_tx (utxo_tx_hex tx) = TxRead (tx\<lparr>tx_hash_algo := DSHA256\<rparr>)"
  then show thesis
    by (intro that) (simp_all only: my_redeem_nonempty script_sig_items_def item_instruction_OP_1 item_instruction.simps(2)
        list.map comp_apply append.simps simp_thms)
qed

lemma broadcast_spend_Inr:
  "broadcast_spend coin rpc r = Some (Inr t) \<Longrightarrow> \<exists>tx. r = Some (Inr tx) \<and> t = transaction_enum coin tx"
  by (auto simp: broadcast_spend_def split: option.splits sum.splits)

lemma transaction_enum_hex [simp]: "tx_hex (transaction_enum coin tx) = utxo_tx_hex tx"
  by (simp add: transaction_enum_def)

end
