(* ===== verification/HtlcSample.thy ===== *)
theory HtlcSample
  imports HtlcProps
begin

text \<open>
  A coin, a server and a payment at which the theorems about hash time locked contracts are tried: with constant
  hash functions the transactions that spend and refund the payment can be computed.
\<close>

lemma signature_hash_Some:
  assumes "n < length (is_inputs t)" "\<not> is_overwintered t"
  shows "\<exists>h. signature_hash H t n amount script version sighashtype = Some h"
  using assms
  by (auto simp: signature_hash_def signature_hash_fork_id_def signature_hash_witness0_def signature_hash_original_def Let_def)

definition sample_hashes :: hash_functions where
  "sample_hashes = \<lparr>h_dhash256 = (\<lambda>_. replicate 32 7), h_sha256 = (\<lambda>_. replicate 32 8), h_dhash160 = (\<lambda>_. replicate 20 9),
     h_ripemd160 = (\<lambda>_. replicate 20 9), h_blake_2b_256_personal = (\<lambda>_ _. replicate 32 6)\<rparr>"

definition sample_key :: "u8 \<Rightarrow> key_pair" where
  "sample_key k = \<lparr>kp_public = 2 # replicate 32 k, kp_sign = (\<lambda>_. Inr (replicate 71 k))\<rparr>"

definition sample_coin :: "u8 \<Rightarrow> utxo_coin" where
  "sample_coin k = \<lparr>uc_ticker = ''BTC'', uc_decimals = 8, uc_is_pos = False, uc_is_posv = False, uc_overwintered = False,
     uc_zcash = False, uc_tx_version = 1, uc_version_group_id = 0, uc_consensus_branch_id = 0, uc_signature_version = Base,
     uc_fork_id = 0, uc_tx_hash_algo = DSHA256, uc_force_min_relay_fee = False, uc_dust_amount = 1000,
     uc_tx_fee = TxFee_FixedPerKb 1000, uc_tx_fee_volatility_percent = 1 / 2, uc_pub_addr_prefix = 0, uc_pub_t_addr_prefix = 0,
     uc_p2sh_addr_prefix = 5, uc_p2sh_t_addr_prefix = 0, uc_bech32_hrp = None, uc_spv_conf = False, uc_electrum = True,
     uc_check_utxo_maturity = False, uc_mature_confirmations = 100,
     uc_my_address = Some \<lparr>ad_prefix = 0, ad_t_addr_prefix = 0, ad_hrp = None, ad_hash = AddressHash (replicate 20 9),
       ad_addr_format = Standard\<rparr>,
     uc_key_pair = Some (sample_key k), uc_hashes = sample_hashes\<rparr>"

lemma sample_coin_standard: "standard_coin (sample_coin k)"
  by (simp add: standard_coin_def sample_coin_def sample_hashes_def hashes_ok_def sample_key_def key_pair_ok_def
      MAX_DER_SIGNATURE_LEN_def bit_numeral_rec)

definition sample_rpc :: "unspent_info list \<Rightarrow> bytes list \<Rightarrow> (bytes \<Rightarrow> bytes) \<Rightarrow> utxo_rpc" where
  "sample_rpc unspents history raw_of = \<lparr>ur_now_sec = (\<lambda>_. 1700000000), ur_estimate_fee_sat = Inr 1000, ur_relay_fee = Inr 0,
     ur_block_count = Inr 800000, ur_current_mtp = (\<lambda>_. Inr 1699990000), ur_list_unspent = Inr unspents,
     ur_verbose_transaction = (\<lambda>_. Inl ''not found''), ur_verbose_transactions = (\<lambda>_. Inl ''not found''),
     ur_transaction_bytes = (\<lambda>_ h. Inr (raw_of h)), ur_script_history = (\<lambda>_. Inr history), ur_block_hash = (\<lambda>_. Inl ''electrum''),
     ur_list_since_block = (\<lambda>_. Inl ''electrum''), ur_import_address = (\<lambda>_. Inl ''electrum''), ur_spv_proof = (\<lambda>_. Inr ()),
     ur_send_transaction = (\<lambda>_. Inr []),
     ur_to_u64 = (\<lambda>r. if 0 \<le> r \<and> r < 18446744073709551616 then Some (word_of_int \<lfloor>r\<rfloor>) else None), ur_f64 = id\<rparr>"

definition sample_payment :: btc_transaction where
  "sample_payment = sample_tx\<lparr>tx_inputs := [sample_input\<lparr>ti_previous_output := \<lparr>op_hash = replicate 32 1, op_index = 0\<rparr>\<rparr>],
     tx_outputs := [\<lparr>xo_value = 100000, xo_script_pubkey = OP_HASH160 # 20 # replicate 20 9 @ [OP_EQUAL]\<rparr>]\<rparr>"

lemma sample_payment_outputs:
  "tx_outputs sample_payment = [\<lparr>xo_value = 100000, xo_script_pubkey = OP_HASH160 # 20 # replicate 20 9 @ [OP_EQUAL]\<rparr>]"
  by (simp add: sample_payment_def)

lemma sample_payment_reads: "read_utxo_tx (utxo_tx_hex sample_payment) = TxRead sample_payment"
proof -
  have eq: "sample_payment\<lparr>tx_hash_algo := DSHA256\<rparr> = sample_payment"
    by (simp add: sample_payment_def sample_tx_def)
  have "tx_ok StandardWithWitness sample_payment" "plain_tx sample_payment"
    by (simp_all add: tx_ok_def sample_payment_def sample_tx_def sample_input_def tx_lists_ok_def tx_time_ok_def tx_shielded_ok_def
        tx_zcash_ok_def tx_has_witness_def input_has_witness_def witness_ok_def input_ok_def output_ok_def out_point_ok_def
        strip_witness_def MAX_LIST_SIZE_def plain_tx_def bit_numeral_rec)
  then show ?thesis using read_back [of sample_payment] eq by simp
qed

lemma select_convs_update_hash_algo: "tx_outputs (tx\<lparr>tx_hash_algo := a\<rparr>) = tx_outputs tx"
  by simp

lemma sample_output_script:
  "output_script \<lparr>ad_prefix = 0, ad_t_addr_prefix = 0, ad_hrp = None, ad_hash = AddressHash (replicate 20 9), ad_addr_format = Standard\<rparr> P2PKH
     = Some (OP_DUP # OP_HASH160 # 20 # replicate 20 9 @ [OP_EQUALVERIFY, OP_CHECKSIG])"
  by (simp add: output_script_def build_p2pkh_def push_bytes_iff push_opcode_def)

lemma sample_spend_fee: "get_htlc_spend_fee (sample_coin k) (sample_rpc us history raw_of) DEFAULT_SWAP_TX_SPEND_SIZE stage = Inr 1000"
  by (simp add: get_htlc_spend_fee_def get_tx_fee_def sample_coin_def DEFAULT_SWAP_TX_SPEND_SIZE_def fee_for_kilobytes_def KILO_BYTE_def)

lemma push_data_exists: "length d < 256 \<Longrightarrow> \<exists>s'. push_data d s = Some s'"
  by (auto simp: push_data_def Let_def)

lemma sample_p2sh_spending_tx:
  assumes "tx_outputs prev \<noteq> []" "length redeem < 256"
  shows "\<exists>tx. p2sh_spending_tx (sample_coin k) (sample_rpc us history raw_of) prev redeem outs data seq lock (sample_key k) = Some (Inr tx)"
proof -
  obtain a b where ab: "push_data (sig_script_sig (replicate 71 k) 0) [] = Some a" "push_data redeem [] = Some b"
    using push_data_exists [of "sig_script_sig (replicate 71 k) 0" "[]"] push_data_exists [OF assms(2), of "[]"]
    by (auto simp: sig_script_sig_def)
  let ?sign = "\<lambda>t. p2sh_spend sample_hashes t 0 (sample_key k) data redeem Base 0"
  have "\<exists>i. ?sign t = Some (Inr i)" if t: "is_inputs t = [i0]" "\<not> is_overwintered t" for t i0
  proof -
    obtain h where "signature_hash sample_hashes t 0 (ui_amount i0) redeem Base 1 = Some h"
      using signature_hash_Some [of 0 t sample_hashes "ui_amount i0" redeem Base 1] t by auto
    then show ?thesis
      using t ab by (simp add: p2sh_spend_def spend_input_def get_input_def calc_and_sign_sighash_def signature_hash_to_sign_def
          p2sh_spend_with_signature_def sample_key_def)
  qed
  then obtain f where f: "\<And>t i0. is_inputs t = [i0] \<Longrightarrow> \<not> is_overwintered t \<Longrightarrow> ?sign t = Some (Inr (f t))"
    by metis
  show ?thesis
    using assms(1) by (simp add: p2sh_spending_tx_def Let_def p2sh_tx_locktime_def sample_rpc_def f [simplified]
        sample_coin_def DEFAULT_SWAP_VOUT_def)
qed

lemma sample_spend_payment:
  assumes "redeem_for (kp_public (sample_key k)) = Some (Some redeem)" "length redeem < 256"
  shows "\<exists>tx. spend_payment (sample_coin k) (sample_rpc us history raw_of) (utxo_tx_hex sample_payment) redeem_for (Some data)
            seq time_lock stage = Some (Inr tx)"
proof -
  have "tx_outputs sample_payment \<noteq> []" "xo_value (tx_outputs sample_payment ! 0) = 100000"
    by (simp_all add: sample_payment_def)
  moreover from this(1) obtain tx where "p2sh_spending_tx (sample_coin k) (sample_rpc us history raw_of)
      (sample_payment\<lparr>tx_hash_algo := DSHA256\<rparr>) redeem
      [\<lparr>xo_value = 99000, xo_script_pubkey = OP_DUP # OP_HASH160 # 20 # replicate 20 9 @ [OP_EQUALVERIFY, OP_CHECKSIG]\<rparr>]
      data seq time_lock (sample_key k) = Some (Inr tx)"
    using sample_p2sh_spending_tx [OF _ assms(2)] by (metis select_convs_update_hash_algo)
  moreover have "uc_my_address (sample_coin k) = Some \<lparr>ad_prefix = 0, ad_t_addr_prefix = 0, ad_hrp = None,
      ad_hash = AddressHash (replicate 20 9), ad_addr_format = Standard\<rparr>"
    "uc_key_pair (sample_coin k) = Some (sample_key k)" "uc_tx_hash_algo (sample_coin k) = DSHA256"
    by (simp_all add: sample_coin_def)
  ultimately show ?thesis
    using assms(1) by (simp add: spend_payment_def sample_payment_reads sample_output_script sample_spend_fee)
qed

lemma sample_redeem:
  "\<exists>redeem. payment_script sample_hashes tlock (replicate 20 9) (2 # replicate 32 j) (2 # replicate 32 k) = Some redeem \<and> length redeem < 256"
proof -
  obtain redeem where "payment_script sample_hashes tlock (replicate 20 9) (2 # replicate 32 j) (2 # replicate 32 k) = Some redeem"
    using payment_script_exists [of "2 # replicate 32 j" "2 # replicate 32 k" sample_hashes "replicate 20 9" tlock]
    by (auto simp: secret_hash160_def)
  then show ?thesis using payment_script_length by blast
qed

definition sample_spend_args :: spend_payment_args where
  "sample_spend_args = \<lparr>sp_other_payment_tx = utxo_tx_hex sample_payment, sp_time_lock = 1600000000,
     sp_other_pubkey = 2 # replicate 32 4, sp_secret = replicate 32 3, sp_secret_hash = replicate 20 9,
     sp_swap_contract_address = None, sp_swap_unique_data = [], sp_watcher_reward = False\<rparr>"

definition sample_refund_args :: refund_payment_args where
  "sample_refund_args = \<lparr>rpa_payment_tx = utxo_tx_hex sample_payment, rpa_time_lock = 1600000000,
     rpa_other_pubkey = 2 # replicate 32 5, rpa_secret_hash = replicate 20 9,
     rpa_swap_contract_address = None, rpa_swap_unique_data = [], rpa_watcher_reward = False\<rparr>"

lemma sample_broadcast: "broadcast_spend coin (sample_rpc us history raw_of) (Some (Inr tx)) = Some (Inr (transaction_enum coin tx))"
  by (simp add: broadcast_spend_def sample_rpc_def)

lemma sample_secret_data: "secret_script_data (replicate 32 3) = Some (32 # replicate 32 3 @ [OP_0])"
  by (simp add: secret_script_data_def push_data_def push_opcode_def opcode_defs)

lemma sample_other_redeem:
  obtains redeem where "other_redeem_script (sample_coin k) tlock (replicate 20 9) (2 # replicate 32 j) (kp_public (sample_key k)) = Some (Some redeem)"
    "length redeem < 256"
proof -
  obtain redeem where r: "payment_script sample_hashes tlock (replicate 20 9) (2 # replicate 32 j) (2 # replicate 32 k) = Some redeem"
    "length redeem < 256"
    using sample_redeem by blast
  then have "other_redeem_script (sample_coin k) tlock (replicate 20 9) (2 # replicate 32 j) (kp_public (sample_key k)) = Some (Some redeem)"
    by (simp add: other_redeem_script_def public_from_slice_def sample_coin_def sample_key_def)
  then show thesis using r(2) by (rule that)
qed

lemma sample_my_redeem:
  obtains redeem where "my_redeem_script (sample_coin k) tlock (replicate 20 9) (2 # replicate 32 j) (kp_public (sample_key k)) = Some (Some redeem)"
    "length redeem < 256"
proof -
  obtain redeem where r: "payment_script sample_hashes tlock (replicate 20 9) (2 # replicate 32 k) (2 # replicate 32 j) = Some redeem"
    "length redeem < 256"
    using sample_redeem by blast
  then have "my_redeem_script (sample_coin k) tlock (replicate 20 9) (2 # replicate 32 j) (kp_public (sample_key k)) = Some (Some redeem)"
    by (simp add: my_redeem_script_def public_from_slice_def sample_coin_def sample_key_def)
  then show thesis using r(2) by (rule that)
qed

lemma sample_maker_spends:
  "\<exists>t. send_maker_spends_taker_payment (sample_coin 5) (sample_rpc us history raw_of) sample_spend_args = Some (Inr t)"
proof -
  obtain tx where "spend_payment (sample_coin 5) (sample_rpc us history raw_of) (utxo_tx_hex sample_payment)
      (other_redeem_script (sample_coin 5) 1600000000 (replicate 20 9) (2 # replicate 32 4))
      (secret_script_data (replicate 32 3)) SEQUENCE_FINAL 1600000000 WithoutApprox = Some (Inr tx)"
    using sample_spend_payment unfolding sample_secret_data by (metis sample_other_redeem)
  then show ?thesis by (simp add: send_maker_spends_taker_payment_def sample_spend_args_def sample_broadcast)
qed

lemma sample_taker_refunds:
  "\<exists>t. send_taker_refunds_payment (sample_coin 4) (sample_rpc us history raw_of) sample_refund_args = Some (Inr t)"
proof -
  obtain tx where "spend_payment (sample_coin 4) (sample_rpc us history raw_of) (utxo_tx_hex sample_payment)
      (my_redeem_script (sample_coin 4) 1600000000 (replicate 20 9) (2 # replicate 32 5))
      (Some refund_script_data) (SEQUENCE_FINAL - 1) 1600000000 WithoutApprox = Some (Inr tx)"
    using sample_spend_payment by (metis sample_my_redeem)
  then show ?thesis by (simp add: send_taker_refunds_payment_def sample_refund_args_def sample_broadcast)
qed

end
