(* ===== verification/TxBuilderProps.thy ===== *)
theory TxBuilderProps
  imports HtlcSample
begin

text \<open>
  Properties of the builder of transactions: nothing of the value of the chosen inputs is lost, and the outputs that
  were asked for are the first outputs of the transaction, so that the payment one side of a swap sends is the one
  that the other side accepts.
\<close>

section \<open>The steps of the builder\<close>

lemma tx_builder_build_Inr:
  assumes "tx_builder_build coin rpc b = Some (Inr (t, data))"
  obtains from_address change_script fee acc received min_relay b' received' t' data' where
    "tb_from b = Some from_address" "output_script from_address P2PKH = Some change_script"
    "check_outputs (builder_dust coin b) change_script (is_outputs (tb_tx b)) (tb_sum_outputs_value b) 0 = Inr (acc, received)"
    "deduct_fee (builder_dust coin b) change_script received
       (choose_inputs coin (ad_addr_format from_address) fee (tb_available_inputs b)
          (b\<lparr>tb_sum_outputs_value := acc + (case tb_gas_fee b of Some g \<Rightarrow> g | None \<Rightarrow> 0), tb_min_relay_fee := min_relay\<rparr>))
       = Some (Inr (b', received'))"
    "finish_build (builder_dust coin b) change_script received' b' = Inr (t', data')"
    "calc_interest_if_required coin rpc t' data' change_script = Inr (t, data)"
    "tb_available_inputs b \<noteq> [] \<or> is_inputs (tb_tx b) \<noteq> []"
proof -
  obtain a s where a: "tb_from b = Some a" "output_script a P2PKH = Some s"
    using assms by (auto simp: tx_builder_build_def Let_def split: option.splits)
  obtain fee where f: "(case tb_fee b of Some fee \<Rightarrow> Inr fee | None \<Rightarrow> get_tx_fee coin rpc) = Inr fee"
    using assms a by (cases "case tb_fee b of Some fee \<Rightarrow> Inr fee | None \<Rightarrow> get_tx_fee coin rpc") (auto simp: tx_builder_build_def Let_def)
  obtain acc received where c:
    "check_outputs (builder_dust coin b) s (is_outputs (tb_tx b)) (tb_sum_outputs_value b) 0 = Inr (acc, received)"
    using assms a f by (auto simp: tx_builder_build_def Let_def split: sum.splits if_splits)
  obtain min_relay where m: "min_relay_fee_of coin rpc = Inr min_relay"
    using assms a f c by (auto simp: tx_builder_build_def Let_def split: sum.splits if_splits)
  obtain b' received' where d: "deduct_fee (builder_dust coin b) s received
       (choose_inputs coin (ad_addr_format a) fee (tb_available_inputs b)
          (b\<lparr>tb_sum_outputs_value := acc + (case tb_gas_fee b of Some g \<Rightarrow> g | None \<Rightarrow> 0), tb_min_relay_fee := min_relay\<rparr>))
       = Some (Inr (b', received'))"
    using assms a f c m by (auto simp: tx_builder_build_def Let_def split: sum.splits if_splits option.splits)
  obtain t' data' where e: "finish_build (builder_dust coin b) s received' b' = Inr (t', data')"
    using assms a f c m d by (auto simp: tx_builder_build_def Let_def split: sum.splits if_splits)
  have "calc_interest_if_required coin rpc t' data' s = Inr (t, data)"
    using assms a f c m d e by (auto simp: tx_builder_build_def Let_def split: sum.splits if_splits)
  moreover have "tb_available_inputs b \<noteq> [] \<or> is_inputs (tb_tx b) \<noteq> []"
    using assms a f c by (auto simp: tx_builder_build_def Let_def split: if_splits)
  ultimately show thesis using a c d e that by blast
qed

text \<open>What the choice of inputs and the fee leave as it was.\<close>

definition same_request :: "tx_builder \<Rightarrow> tx_builder \<Rightarrow> bool" where
  "same_request b b' \<longleftrightarrow> tb_sum_outputs_value b' = tb_sum_outputs_value b \<and> tb_fee_policy b' = tb_fee_policy b \<and>
     tb_tx b' = (tb_tx b)\<lparr>is_inputs := is_inputs (tb_tx b')\<rparr>"

lemma same_request_refl: "same_request b b"
  by (simp add: same_request_def)

lemma same_request_trans: "same_request a b \<Longrightarrow> same_request b c \<Longrightarrow> same_request a c"
  unfolding same_request_def by (metis input_signer.update_convs(8) input_signer.surjective)

lemma same_request_outputs:
  assumes "same_request b b'"
  shows "is_outputs (tb_tx b') = is_outputs (tb_tx b)"
proof -
  have "is_outputs (tb_tx b') = is_outputs ((tb_tx b)\<lparr>is_inputs := is_inputs (tb_tx b')\<rparr>)"
    by (rule arg_cong [where f = is_outputs]) (use assms in \<open>simp add: same_request_def\<close>)
  then show ?thesis by simp
qed

lemma update_fee_keeps:
  "update_fee_and_check_completeness coin fmt fee b = (b', full) \<Longrightarrow>
   tb_tx b' = tb_tx b \<and> tb_sum_outputs_value b' = tb_sum_outputs_value b \<and> tb_fee_policy b' = tb_fee_policy b \<and>
   tb_sum_inputs b' = tb_sum_inputs b"
  by (auto simp: update_fee_and_check_completeness_def Let_def split: fee_policy.splits if_splits)

lemma choose_inputs_prefix:
  "\<exists>k. is_inputs (tb_tx (choose_inputs coin fmt fee us b)) = is_inputs (tb_tx b) @ map unsigned_of_unspent (take k us) \<and>
       tb_sum_inputs (choose_inputs coin fmt fee us b) = tb_sum_inputs b + sum_list (map us_value (take k us)) \<and>
       same_request b (choose_inputs coin fmt fee us b) \<and> (us \<noteq> [] \<longrightarrow> 0 < k)"
proof (induction us arbitrary: b)
  case Nil
  show ?case by (simp add: same_request_refl)
next
  case (Cons u us)
  define b2 where "b2 = (add_tx_inputs [unsigned_of_unspent u] b)\<lparr>tb_sum_inputs := tb_sum_inputs b + us_value u\<rparr>"
  obtain b3 full where b3: "update_fee_and_check_completeness coin fmt fee b2 = (b3, full)" by fastforce
  have step: "choose_inputs coin fmt fee (u # us) b = (if full then b3 else choose_inputs coin fmt fee us b3)"
    using b3 by (simp add: b2_def add_tx_inputs_def)
  have b3': "tb_tx b3 = (tb_tx b)\<lparr>is_inputs := is_inputs (tb_tx b) @ [unsigned_of_unspent u]\<rparr>"
    "tb_sum_inputs b3 = tb_sum_inputs b + us_value u" "tb_sum_outputs_value b3 = tb_sum_outputs_value b"
    "tb_fee_policy b3 = tb_fee_policy b"
    using update_fee_keeps [OF b3] by (simp_all add: b2_def add_tx_inputs_def)
  have same: "same_request b b3" using b3' by (simp add: same_request_def)
  show ?case
  proof (cases full)
    case True
    then show ?thesis
      using b3'(1,2) same unfolding step by (intro exI [of _ 1]) (simp del: choose_inputs.simps)
  next
    case False
    obtain k where "is_inputs (tb_tx (choose_inputs coin fmt fee us b3)) = is_inputs (tb_tx b3) @ map unsigned_of_unspent (take k us)"
      "tb_sum_inputs (choose_inputs coin fmt fee us b3) = tb_sum_inputs b3 + sum_list (map us_value (take k us))"
      "same_request b3 (choose_inputs coin fmt fee us b3)"
      using Cons.IH by blast
    then show ?thesis
      using False b3'(1,2) same_request_trans [OF same] unfolding step
      by (intro exI [of _ "Suc k"]) (simp add: ac_simps del: choose_inputs.simps)
  qed
qed

lemma check_outputs_sum:
  "check_outputs dust s xs acc received = Inr (acc', received') \<Longrightarrow> acc' = acc + sum_list (map xo_value xs)"
proof (induction xs arbitrary: acc received)
  case (Cons x xs)
  from Cons.prems have "check_outputs dust s xs (acc + xo_value x)
      (if xo_script_pubkey x = s then received + xo_value x else received) = Inr (acc', received')"
    by (auto split: if_splits)
  from Cons.IH [OF this] show ?case by (simp add: ac_simps)
qed simp

lemma sum_list_reduce:
  fixes xs :: "transaction_output list"
  assumes "i < length xs"
  shows "sum_list (map xo_value (xs[i := (xs ! i)\<lparr>xo_value := xo_value (xs ! i) - f\<rparr>])) + f = sum_list (map xo_value xs)"
  using assms
proof (induction xs arbitrary: i)
  case (Cons x xs)
  then show ?case by (cases i) (simp_all add: ac_simps)
qed simp

text \<open>The fee is paid, and the rest is change.\<close>

lemma deduct_fee_sum:
  assumes "deduct_fee dust s received b = Some (Inr (b', received'))"
  shows "sum_list (map xo_value (is_outputs (tb_tx b'))) + tb_tx_fee b' + tb_sum_outputs_value b =
           sum_list (map xo_value (is_outputs (tb_tx b))) + tb_sum_outputs_value b' \<and>
         tb_sum_inputs b' = tb_sum_inputs b \<and> is_inputs (tb_tx b') = is_inputs (tb_tx b)"
  using assms sum_list_reduce [of _ "is_outputs (tb_tx b)" "tb_tx_fee b"]
  by (auto simp: deduct_fee_def Let_def ac_simps split: fee_policy.splits if_splits)

lemma finish_build_sum:
  assumes "finish_build dust s received b = Inr (t, data)"
  shows "sum_list (map xo_value (is_outputs t)) + (case at_unused_change data of Some c \<Rightarrow> c | None \<Rightarrow> 0) + tb_sum_outputs_value b =
           sum_list (map xo_value (is_outputs (tb_tx b))) + tb_sum_inputs b \<and>
         at_fee_amount data = tb_tx_fee b \<and> at_spent_by_me data = tb_sum_inputs b \<and> is_inputs t = is_inputs (tb_tx b)"
  using assms by (auto simp: finish_build_def Let_def word_gt_0 split: if_splits)

section \<open>The value of a transaction\<close>

lemma unat_sum_list: "unat (sum_list ws) = sum_list (map unat (ws :: u64 list)) mod 2 ^ 64"
proof (induction ws)
  case (Cons w ws)
  then show ?case by (simp add: unat_word_ariths mod_simps)
qed simp

definition gas_of :: "tx_builder \<Rightarrow> u64" where
  "gas_of b = (case tb_gas_fee b of Some g \<Rightarrow> g | None \<Rightarrow> 0)"

definition unused_change_of :: "additional_tx_data \<Rightarrow> u64" where
  "unused_change_of data = (case at_unused_change data of Some c \<Rightarrow> c | None \<Rightarrow> 0)"

lemma no_interest: "uc_ticker coin \<noteq> ''KMD'' \<Longrightarrow> calc_interest_if_required coin rpc t data s = Inr (t, data)"
  by (simp add: calc_interest_if_required_def)

lemma conserved:
  fixes outs outs1 outs2 sum1 total_in fee gas unused :: u64
  assumes "outs1 + fee + (outs + gas) = outs + sum1" "outs2 + unused + sum1 = outs1 + total_in"
  shows "total_in = outs2 + fee + gas + unused"
proof -
  have "sum1 = outs1 + fee + gas" using assms(1) by (simp add: algebra_simps)
  then show ?thesis using assms(2) by (simp add: algebra_simps)
qed

lemma build_value:
  assumes "tx_builder_build coin rpc b = Some (Inr (t, data))" "is_inputs (tb_tx b) = []" "tb_sum_inputs b = 0"
    and "tb_sum_outputs_value b = 0" "uc_ticker coin \<noteq> ''KMD''"
  shows "\<exists>k. is_inputs t = map unsigned_of_unspent (take k (tb_available_inputs b)) \<and>
             at_spent_by_me data = sum_list (map ui_amount (is_inputs t)) \<and>
             sum_list (map ui_amount (is_inputs t)) =
               sum_list (map xo_value (is_outputs t)) + at_fee_amount data + gas_of b + unused_change_of data"
proof (rule tx_builder_build_Inr [OF assms(1)])
  fix from_address change_script fee acc received min_relay b' received' t' data'
  let ?b0 = "b\<lparr>tb_sum_outputs_value := acc + (case tb_gas_fee b of Some g \<Rightarrow> g | None \<Rightarrow> 0), tb_min_relay_fee := min_relay\<rparr>"
  let ?b1 = "choose_inputs coin (ad_addr_format from_address) fee (tb_available_inputs b) ?b0"
  assume checked: "check_outputs (builder_dust coin b) change_script (is_outputs (tb_tx b)) (tb_sum_outputs_value b) 0 = Inr (acc, received)"
    and deducted: "deduct_fee (builder_dust coin b) change_script received ?b1 = Some (Inr (b', received'))"
    and finished: "finish_build (builder_dust coin b) change_script received' b' = Inr (t', data')"
    and "calc_interest_if_required coin rpc t' data' change_script = Inr (t, data)"
  then have eq: "t' = t" "data' = data" by (simp_all add: no_interest [OF assms(5)])
  obtain k where k: "is_inputs (tb_tx ?b1) = map unsigned_of_unspent (take k (tb_available_inputs b))"
    "tb_sum_inputs ?b1 = sum_list (map us_value (take k (tb_available_inputs b)))" "same_request ?b0 ?b1"
    using choose_inputs_prefix [of coin "ad_addr_format from_address" fee "tb_available_inputs b" ?b0] assms(2,3) by auto
  have outs: "is_outputs (tb_tx ?b1) = is_outputs (tb_tx b)"
    using same_request_outputs [OF k(3)] by simp
  have "tb_sum_outputs_value ?b1 = sum_list (map xo_value (is_outputs (tb_tx b))) + gas_of b"
    using k(3) check_outputs_sum [OF checked] assms(4) by (simp add: same_request_def gas_of_def)
  then have "tb_sum_inputs b' = sum_list (map xo_value (is_outputs t)) + tb_tx_fee b' + gas_of b + unused_change_of data"
    using deduct_fee_sum [OF deducted] finish_build_sum [OF finished] outs eq
    by (intro conserved [of "sum_list (map xo_value (is_outputs (tb_tx b')))" _ "sum_list (map xo_value (is_outputs (tb_tx b)))" _
          "tb_sum_outputs_value b'"]) (simp_all add: unused_change_of_def)
  moreover have "sum_list (map ui_amount (map unsigned_of_unspent us)) = sum_list (map us_value us)" for us
    by (induction us) (simp_all add: unsigned_of_unspent_def)
  ultimately show ?thesis
    using deduct_fee_sum [OF deducted] finish_build_sum [OF finished] k(1,2) eq by (intro exI [of _ k]) simp
qed


section \<open>A transaction to try the theorem on\<close>

definition sample_unspent :: unspent_info where
  "sample_unspent = \<lparr>us_outpoint = \<lparr>op_hash = replicate 32 2, op_index = 0\<rparr>, us_value = 200000, us_height = Some 700000\<rparr>"

definition sample_outputs :: "transaction_output list" where
  "sample_outputs = [\<lparr>xo_value = 100000, xo_script_pubkey = OP_HASH160 # 20 # replicate 20 9 @ [OP_EQUAL]\<rparr>,
     \<lparr>xo_value = 0, xo_script_pubkey = OP_RETURN # 20 # replicate 20 9\<rparr>]"

definition sample_builder :: "utxo_rpc \<Rightarrow> tx_builder" where
  "sample_builder rpc = with_fee_policy SendExact (add_outputs sample_outputs
     (add_available_inputs [sample_unspent] (tx_builder_new (sample_coin 5) rpc)))"

definition sample_chosen :: "utxo_rpc \<Rightarrow> input_signer" where
  "sample_chosen rpc = (transaction_preimage (sample_coin 5) rpc)\<lparr>is_inputs := [unsigned_of_unspent sample_unspent], is_outputs := sample_outputs\<rparr>"

lemma sample_v_size: "tx_size_in_v_bytes Standard (transaction_of_signer (sample_chosen (sample_rpc us h r))) = 221"
  by (simp add: tx_size_in_v_bytes_def sample_chosen_def transaction_of_signer_def transaction_preimage_def sample_coin_def sample_outputs_def
     ser_transaction_def ser_tx_n_time_def ser_tx_shielded_def ser_tx_zcash_def ser_tx_str_d_zeel_def ser_list_def ser_compact_def
     ser_input_def ser_output_def ser_out_point_def unsigned_of_unspent_def sample_unspent_def MAX_DER_SIGNATURE_LEN_def COMPRESSED_PUBKEY_LEN_def
     ser_u32_def ser_u64_def ser_u8_def ser_hash_def ser_Bytes_def)

definition sample_change :: transaction_output where
  "sample_change = \<lparr>xo_value = 99000, xo_script_pubkey = OP_DUP # OP_HASH160 # 20 # replicate 20 9 @ [OP_EQUALVERIFY, OP_CHECKSIG]\<rparr>"

lemma sample_fee: "tx_fee_of_size Standard (FixedPerKb 1000) (sample_chosen (sample_rpc us h r)) = 1000"
  by (simp add: tx_fee_of_size_def sample_v_size fee_for_kilobytes_def KILO_BYTE_def)

lemma sample_builder_sel:
  "tb_from (sample_builder rpc) = Some \<lparr>ad_prefix = 0, ad_t_addr_prefix = 0, ad_hrp = None, ad_hash = AddressHash (replicate 20 9), ad_addr_format = Standard\<rparr>"
  "tb_fee (sample_builder rpc) = None" "tb_sum_outputs_value (sample_builder rpc) = 0" "tb_sum_inputs (sample_builder rpc) = 0"
  "tb_gas_fee (sample_builder rpc) = None" "tb_available_inputs (sample_builder rpc) = [sample_unspent]"
  "is_outputs (tb_tx (sample_builder rpc)) = sample_outputs" "is_inputs (tb_tx (sample_builder rpc)) = []"
  "builder_dust (sample_coin 5) (sample_builder rpc) = 1000" "tb_fee_policy (sample_builder rpc) = SendExact"
  "tb_tx (add_tx_inputs [unsigned_of_unspent sample_unspent] (sample_builder rpc)) = sample_chosen rpc"
  by (simp_all add: sample_builder_def with_fee_policy_def add_outputs_def add_available_inputs_def tx_builder_new_def transaction_preimage_def
    sample_coin_def builder_dust_def add_tx_inputs_def sample_chosen_def)

lemma sample_builder_chosen:
  "(tb_tx (sample_builder rpc))\<lparr>is_inputs := [unsigned_of_unspent sample_unspent]\<rparr> = sample_chosen rpc"
  by (simp add: sample_builder_def with_fee_policy_def add_outputs_def add_available_inputs_def tx_builder_new_def transaction_preimage_def
    sample_coin_def sample_chosen_def)

lemma sample_choose:
  "choose_inputs (sample_coin 5) Standard (FixedPerKb 1000) [sample_unspent]
     ((sample_builder (sample_rpc us h r))\<lparr>tb_sum_outputs_value := 100000, tb_min_relay_fee := None\<rparr>) =
   (sample_builder (sample_rpc us h r))\<lparr>tb_sum_outputs_value := 100000, tb_min_relay_fee := None, tb_tx := sample_chosen (sample_rpc us h r),
     tb_sum_inputs := 200000, tb_change := 99000, tb_tx_fee := 1000\<rparr>"
  by (simp add: add_tx_inputs_def sample_builder_sel sample_builder_chosen update_fee_and_check_completeness_def sample_fee
      change_output_fee_def raise_to_relay_fee_def sample_unspent_def [THEN arg_cong [where f = us_value], simplified] Let_def)

lemma sample_checked:
  "check_outputs 1000 (xo_script_pubkey sample_change) sample_outputs 0 0 = Inr (100000, 0)"
  by (simp add: sample_outputs_def sample_change_def opcodes_next_def get_instruction_at_def get_opcode_def opcode_from_u8_def opcode_defs)

lemma sample_build:
  obtains data where "tx_builder_build (sample_coin 5) (sample_rpc us h r) (sample_builder (sample_rpc us h r)) =
      Some (Inr ((sample_chosen (sample_rpc us h r))\<lparr>is_outputs := sample_outputs @ [sample_change]\<rparr>, data))"
proof -
  let ?rpc = "sample_rpc us h r"
  have coin: "uc_tx_fee (sample_coin 5) = TxFee_FixedPerKb 1000" "uc_force_min_relay_fee (sample_coin 5) = False"
    "uc_ticker (sample_coin 5) \<noteq> ''KMD''" by (simp_all add: sample_coin_def)
  have out: "output_script \<lparr>ad_prefix = 0, ad_t_addr_prefix = 0, ad_hrp = None, ad_hash = AddressHash (replicate 20 9), ad_addr_format = Standard\<rparr> P2PKH
     = Some (xo_script_pubkey sample_change)" by (simp add: sample_output_script sample_change_def)
  have change: "\<lparr>xo_value = 99000, xo_script_pubkey = xo_script_pubkey sample_change\<rparr> = sample_change"
    by (simp add: sample_change_def)
  have nonempty: "sample_outputs \<noteq> []" "is_outputs (sample_chosen ?rpc) = sample_outputs"
    by (simp_all add: sample_outputs_def sample_chosen_def)
  show thesis
    by (rule that, simp add: tx_builder_build_def sample_builder_sel out get_tx_fee_def coin sample_checked min_relay_fee_of_def
      sample_choose deduct_fee_def finish_build_def no_interest nonempty change Let_def del: choose_inputs.simps)
qed


end
