(* ===== verification/SpendSearchProps.thy ===== *)
theory SpendSearchProps
  imports HtlcSample
begin

text \<open>
  What a side of a swap finds out about a payment: the secret is extracted from the transaction that spends it, and
  the search for the spend on a server (\<open>search_for_swap_tx_spend_my\<close>, \<open>wait_for_output_spend\<close>) finds it and
  tells a spend from a refund.
\<close>

section \<open>The history of a script\<close>

text \<open>
  A server that tells the truth about the history of the script of output \<open>0\<close> of a payment: it returns the bytes of each
  transaction, all of them can be read, and the transaction \<open>raw\<close> is the only one that spends the output.
\<close>

definition history_shows :: "utxo_coin \<Rightarrow> utxo_rpc \<Rightarrow> bytes \<Rightarrow> script \<Rightarrow> (bytes \<Rightarrow> bytes) \<Rightarrow> bytes list \<Rightarrow> bytes \<Rightarrow> bool" where
  "history_shows coin rpc txid script raw_of history raw \<longleftrightarrow>
     ur_script_history rpc (electrum_script_hash (uc_hashes coin) script) = Inr history \<and> 2 \<le> length history \<and>
     (\<forall>n. \<forall>h \<in> set history. ur_transaction_bytes rpc n h = Inr (raw_of h)) \<and>
     (\<forall>h \<in> set history. \<exists>tx. read_utxo_tx (raw_of h) = TxRead tx \<and> (spends_output txid 0 tx \<longrightarrow> raw_of h = raw)) \<and>
     (\<exists>h \<in> set history. raw_of h = raw)"

lemma find_spend_finds:
  assumes "\<forall>n. \<forall>h \<in> set history. ur_transaction_bytes rpc n h = Inr (raw_of h)"
    and "\<forall>h \<in> set history. \<exists>tx. read_utxo_tx (raw_of h) = TxRead tx \<and> (spends_output txid vout tx \<longrightarrow> raw_of h = raw)"
    and "\<exists>h \<in> set history. raw_of h = raw" "read_utxo_tx raw = TxRead spend" "spends_output txid vout spend"
  shows "find_spend rpc txid vout n history = Some (Inr (Some spend))"
  using assms
proof (induction history arbitrary: n)
  case (Cons h hs)
  obtain tx where tx: "read_utxo_tx (raw_of h) = TxRead tx" "spends_output txid vout tx \<longrightarrow> raw_of h = raw"
    using Cons.prems(2) by auto
  show ?case
  proof (cases "spends_output txid vout tx")
    case True
    then show ?thesis using tx Cons.prems(1,4) by simp
  next
    case False
    then have "raw_of h \<noteq> raw" using tx Cons.prems(4,5) by auto
    then have "find_spend rpc txid vout (n + 1) hs = Some (Inr (Some spend))" using Cons by simp
    then show ?thesis using False tx Cons.prems(1) by simp
  qed
qed simp

lemma history_find_spend:
  assumes "history_shows coin rpc txid script raw_of history raw" "uc_electrum coin"
    and "read_utxo_tx raw = TxRead spend" "spends_output txid 0 spend"
  shows "find_output_spend coin rpc txid script 0 from_block = Some (Inr (Some spend))"
  using assms find_spend_finds [of history rpc raw_of txid 0 raw spend 0]
  by (simp add: find_output_spend_def electrum_find_output_spend_def history_shows_def)

text \<open>
  The two sides of a swap use the same functions and the same algorithm for the hashes of transactions, which
  the protocol of the chain fixes.
\<close>

definition same_chain :: "utxo_coin \<Rightarrow> utxo_coin \<Rightarrow> bool" where
  "same_chain c d \<longleftrightarrow> uc_hashes c = uc_hashes d \<and> uc_tx_hash_algo c = uc_tx_hash_algo d"

lemma same_chain_tx_id: "same_chain c d \<Longrightarrow> utxo_tx_id c tx = utxo_tx_id d tx"
  by (simp add: same_chain_def utxo_tx_id_def)

text \<open>What the search gives for a transaction of which the first input spends the payment.\<close>

lemma search_classifies:
  assumes "read_utxo_tx payment = TxRead prev" "tx_outputs prev \<noteq> []"
    and "payment_script (uc_hashes coin) tlock sh p q = Some redeem"
    and "p2sh_of (uc_hashes coin) redeem = Some (xo_script_pubkey (tx_outputs prev ! 0))"
    and "history_shows coin rpc (utxo_tx_id coin (prev\<lparr>tx_hash_algo := uc_tx_hash_algo coin\<rparr>))
           (xo_script_pubkey (tx_outputs prev ! 0)) raw_of history raw" "uc_electrum coin"
    and "read_utxo_tx raw = TxRead spend" "tx_inputs spend = [input]"
    and "payment_point coin payment (ti_previous_output input)"
  shows "search_for_swap_output_spend coin rpc tlock p q sh payment 0 from_block =
     Some (classify_spend (ti_script_sig input) (transaction_enum coin (spend\<lparr>tx_hash_algo := uc_tx_hash_algo coin\<rparr>)))"
proof -
  let ?id = "utxo_tx_id coin (prev\<lparr>tx_hash_algo := uc_tx_hash_algo coin\<rparr>)"
  have "spends_output ?id 0 spend"
    using assms(1,8,9) by (simp add: spends_output_def payment_point_def)
  then have "find_output_spend coin rpc ?id (xo_script_pubkey (tx_outputs prev ! 0)) 0 from_block = Some (Inr (Some spend))"
    by (rule history_find_spend [OF assms(5-7)])
  then show ?thesis
    using assms(1-4,8) by (simp add: search_for_swap_output_spend_def)
qed

lemma payment_point_same_chain: "same_chain c d \<Longrightarrow> payment_point c raw p \<longleftrightarrow> payment_point d raw p"
  by (simp add: payment_point_def same_chain_tx_id) (simp add: same_chain_def)

lemma transaction_enum_same_hex:
  "utxo_tx_hex (tx\<lparr>tx_hash_algo := a\<rparr>) = utxo_tx_hex tx"
  by (simp add: utxo_tx_hex_ser)

text \<open>A payment to the script of the given terms.\<close>

definition pays_to :: "utxo_coin \<Rightarrow> bytes \<Rightarrow> btc_transaction \<Rightarrow> u32 \<Rightarrow> bytes \<Rightarrow> bytes \<Rightarrow> bytes \<Rightarrow> bool" where
  "pays_to coin payment prev tlock sh p q \<longleftrightarrow>
     read_utxo_tx payment = TxRead prev \<and> tx_outputs prev \<noteq> [] \<and>
     Option.bind (payment_script (uc_hashes coin) tlock sh p q) (p2sh_of (uc_hashes coin)) =
       Some (xo_script_pubkey (tx_outputs prev ! 0))"

definition payment_history_shows ::
  "utxo_coin \<Rightarrow> utxo_rpc \<Rightarrow> btc_transaction \<Rightarrow> (bytes \<Rightarrow> bytes) \<Rightarrow> bytes list \<Rightarrow> bytes \<Rightarrow> bool" where
  "payment_history_shows coin rpc prev raw_of history raw \<longleftrightarrow> uc_electrum coin \<and>
     history_shows coin rpc (utxo_tx_id coin (prev\<lparr>tx_hash_algo := uc_tx_hash_algo coin\<rparr>))
       (xo_script_pubkey (tx_outputs prev ! 0)) raw_of history raw"

lemma search_recognises:
  assumes "pays_to coin payment prev tlock sh p q" "payment_history_shows coin rpc prev raw_of history raw"
    and "read_utxo_tx raw = TxRead spend" "tx_inputs spend = [input]" "payment_point coin payment (ti_previous_output input)"
  shows "search_for_swap_output_spend coin rpc tlock p q sh payment 0 from_block =
     Some (classify_spend (ti_script_sig input) (transaction_enum coin (spend\<lparr>tx_hash_algo := uc_tx_hash_algo coin\<rparr>)))"
  using assms search_classifies by (auto simp: pays_to_def payment_history_shows_def bind_eq_Some_conv)

lemma data_instruction_opcode: "in_opcode (data_instruction d) = OP_0 \<longleftrightarrow> d = []"
  using small_opcode_not_pushdata [of "length d"] unat_small_byte [of "length d"]
  by (auto simp: data_instruction_def Let_def opcode_defs word_unat_eq_iff)

lemma classify_secret:
  assumes "script_iter s = [Inr (data_instruction a), Inr (data_instruction b), Inr (data_instruction []), Inr (data_instruction c)]"
  shows "classify_spend s t = Inr (Some (Spent t))"
  using assms by (simp add: classify_spend_def opcode_at_def get_instruction_iter data_instruction_opcode)

lemma classify_refund:
  assumes "script_iter s =
      [Inr (data_instruction a), Inr \<lparr>in_opcode = OP_1, in_step = 1, in_data = None\<rparr>, Inr (data_instruction c)]" "c \<noteq> []"
  shows "classify_spend s t = Inr (Some (Refunded t))"
  using assms by (simp add: classify_spend_def opcode_at_def get_instruction_iter data_instruction_opcode)

section \<open>Collecting and refunding\<close>

text \<open>
  What a swap relies on when it leaves a payment to a chain, whatever the chain is: who collects a payment reveals the
  secret, and a party that searches for the spend finds the transaction and tells a spend from a refund.
\<close>

locale htlc_chain =
  fixes collected :: "'a \<Rightarrow> transaction \<Rightarrow> bool"
    and refunded :: "'b \<Rightarrow> transaction \<Rightarrow> bool"
    and payment_of :: "'a \<Rightarrow> bytes"
    and refund_of :: "'b \<Rightarrow> bytes"
    and secret_of :: "'a \<Rightarrow> bytes"
    and reveal :: "'a \<Rightarrow> bytes \<Rightarrow> bytes option"
    and shows_spend :: "'v \<Rightarrow> bytes \<Rightarrow> bytes \<Rightarrow> bool"
    and search :: "'v \<Rightarrow> found_swap_tx_spend option"
  assumes reveals: "collected a t \<Longrightarrow> reveal a (tx_hex t) = Some (secret_of a)"
    and finds_collected: "collected a t \<Longrightarrow> shows_spend v (payment_of a) (tx_hex t) \<Longrightarrow>
          \<exists>s. search v = Some (Spent s) \<and> tx_hex s = tx_hex t"
    and finds_refunded: "refunded b t \<Longrightarrow> shows_spend v (refund_of b) (tx_hex t) \<Longrightarrow>
          \<exists>s. search v = Some (Refunded s) \<and> tx_hex s = tx_hex t"
begin

lemma secret_found:
  assumes "collected a t" "shows_spend v (payment_of a) (tx_hex t)"
  shows "\<exists>s. search v = Some (Spent s) \<and> tx_hex s = tx_hex t \<and> reveal a (tx_hex s) = Some (secret_of a)"
  using finds_collected [OF assms] reveals [OF assms(1)] by auto

lemma never_both:
  assumes "collected a t" "refunded b u" "payment_of a = refund_of b" "shows_spend v (payment_of a) (tx_hex t)"
  shows "tx_hex t \<noteq> tx_hex u"
proof
  assume eq: "tx_hex t = tx_hex u"
  obtain x where "search v = Some (Spent x)" using finds_collected [OF assms(1,4)] by blast
  moreover obtain y where "search v = Some (Refunded y)"
    using finds_refunded [OF assms(2)] assms(3,4) eq by auto
  ultimately show False by simp
qed

end

subsection \<open>Chains of the Bitcoin family\<close>

definition utxo_collected ::
  "hash_functions \<Rightarrow> tx_hash_algo \<Rightarrow> utxo_coin \<times> utxo_rpc \<times> spend_payment_args \<Rightarrow> transaction \<Rightarrow> bool" where
  "utxo_collected H algo = (\<lambda>(coin, rpc, args) t.
     uc_hashes coin = H \<and> uc_tx_hash_algo coin = algo \<and> standard_coin coin \<and> length (sp_secret args) = 32 \<and>
     (length (sp_secret_hash args) = 20 \<or> length (sp_secret_hash args) = 32) \<and>
     h_dhash160 H (sp_secret args) = secret_hash160 H (sp_secret_hash args) \<and>
     (send_maker_spends_taker_payment coin rpc args = Some (Inr t) \<or> send_taker_spends_maker_payment coin rpc args = Some (Inr t)))"

definition utxo_refunded ::
  "hash_functions \<Rightarrow> tx_hash_algo \<Rightarrow> utxo_coin \<times> utxo_rpc \<times> refund_payment_args \<Rightarrow> transaction \<Rightarrow> bool" where
  "utxo_refunded H algo = (\<lambda>(coin, rpc, args) t.
     uc_hashes coin = H \<and> uc_tx_hash_algo coin = algo \<and> standard_coin coin \<and>
     (send_taker_refunds_payment coin rpc args = Some (Inr t) \<or> send_maker_refunds_payment coin rpc args = Some (Inr t)))"

text \<open>A party that searches: \<open>mine\<close> tells whether it made the payment itself.\<close>

definition utxo_search :: "utxo_coin \<times> utxo_rpc \<times> bool \<times> search_for_swap_tx_spend_input \<Rightarrow> found_swap_tx_spend option" where
  "utxo_search = (\<lambda>(coin, rpc, mine, input).
     case (if mine then search_for_swap_tx_spend_my coin rpc input 0 else search_for_swap_tx_spend_other coin rpc input 0) of
       Some (Inr found) \<Rightarrow> found
     | _ \<Rightarrow> None)"

definition utxo_shows ::
  "hash_functions \<Rightarrow> tx_hash_algo \<Rightarrow> utxo_coin \<times> utxo_rpc \<times> bool \<times> search_for_swap_tx_spend_input \<Rightarrow> bytes \<Rightarrow> bytes \<Rightarrow> bool" where
  "utxo_shows H algo = (\<lambda>(coin, rpc, mine, input) payment raw.
     uc_hashes coin = H \<and> uc_tx_hash_algo coin = algo \<and> sfi_tx input = payment \<and>
     (\<exists>kp other prev raw_of history. uc_key_pair coin = Some kp \<and> public_from_slice (sfi_other_pub input) = Some other \<and>
        pays_to coin payment prev (sfi_time_lock input) (sfi_secret_hash input)
          (if mine then kp_public kp else other) (if mine then other else kp_public kp) \<and>
        payment_history_shows coin rpc prev raw_of history raw))"

lemma utxo_search_recognises:
  assumes "utxo_shows H algo (coin, rpc, mine, input) payment raw"
    and "read_utxo_tx raw = TxRead spend" "tx_inputs spend = [i]" "payment_point coin payment (ti_previous_output i)"
    and "classify_spend (ti_script_sig i) (transaction_enum coin (spend\<lparr>tx_hash_algo := uc_tx_hash_algo coin\<rparr>)) = Inr (Some found)"
  shows "utxo_search (coin, rpc, mine, input) = Some found"
proof -
  obtain kp other prev raw_of history where v: "sfi_tx input = payment" "uc_key_pair coin = Some kp"
      "public_from_slice (sfi_other_pub input) = Some other"
    and pays: "pays_to coin payment prev (sfi_time_lock input) (sfi_secret_hash input)
          (if mine then kp_public kp else other) (if mine then other else kp_public kp)"
    and shown: "payment_history_shows coin rpc prev raw_of history raw"
    using assms(1) by (auto simp: utxo_shows_def)
  have "search_for_swap_output_spend coin rpc (sfi_time_lock input) (if mine then kp_public kp else other)
      (if mine then other else kp_public kp) (sfi_secret_hash input) payment 0 (sfi_search_from_block input) = Some (Inr (Some found))"
    using search_recognises [OF pays shown assms(2-4)] assms(5) by simp
  then show ?thesis
    using v by (cases mine) (simp_all add: utxo_search_def search_for_swap_tx_spend_my_def search_for_swap_tx_spend_other_def
        derive_htlc_key_pair_def)
qed

lemma utxo_collected_form:
  assumes "utxo_collected H algo (coin, rpc, args) t"
  obtains tx signature redeem i where "t = transaction_enum coin tx" "tx_inputs tx = [i]"
    "script_iter (ti_script_sig i) =
       [Inr (data_instruction signature), Inr (data_instruction (sp_secret args)), Inr (data_instruction []),
        Inr (data_instruction redeem)]"
    "payment_point coin (sp_other_payment_tx args) (ti_previous_output i)"
    "read_utxo_tx (tx_hex t) = TxRead (tx\<lparr>tx_hash_algo := DSHA256\<rparr>)"
proof -
  have ok: "standard_coin coin" "length (sp_secret args) = 32" using assms by (auto simp: utxo_collected_def)
  obtain tx where tx: "spend_payment coin rpc (sp_other_payment_tx args)
      (other_redeem_script coin (sp_time_lock args) (sp_secret_hash args) (sp_other_pubkey args))
      (secret_script_data (sp_secret args)) SEQUENCE_FINAL (sp_time_lock args) WithoutApprox = Some (Inr tx)"
    and t: "t = transaction_enum coin tx"
    using assms unfolding utxo_collected_def send_maker_spends_taker_payment_def send_taker_spends_maker_payment_def
    by (auto dest: broadcast_spend_Inr)
  show thesis by (rule spent_with_secret [OF tx ok]) (rule that [OF t], simp_all add: t)
qed

lemma utxo_refunded_form:
  assumes "utxo_refunded H algo (coin, rpc, args) t"
  obtains tx signature redeem i where "t = transaction_enum coin tx" "tx_inputs tx = [i]" "redeem \<noteq> []"
    "script_iter (ti_script_sig i) =
       [Inr (data_instruction signature), Inr \<lparr>in_opcode = OP_1, in_step = 1, in_data = None\<rparr>, Inr (data_instruction redeem)]"
    "payment_point coin (rpa_payment_tx args) (ti_previous_output i)"
    "read_utxo_tx (tx_hex t) = TxRead (tx\<lparr>tx_hash_algo := DSHA256\<rparr>)"
proof -
  have ok: "standard_coin coin" using assms by (auto simp: utxo_refunded_def)
  obtain tx where tx: "spend_payment coin rpc (rpa_payment_tx args)
      (my_redeem_script coin (rpa_time_lock args) (rpa_secret_hash args) (rpa_other_pubkey args))
      (Some refund_script_data) (SEQUENCE_FINAL - 1) (rpa_time_lock args) WithoutApprox = Some (Inr tx)"
    and t: "t = transaction_enum coin tx"
    using assms unfolding utxo_refunded_def send_taker_refunds_payment_def send_maker_refunds_payment_def
    by (auto dest: broadcast_spend_Inr)
  show thesis by (rule refunded_form [OF tx ok]) (rule that [OF t], simp_all add: t)
qed

lemma utxo_reveals:
  assumes "utxo_collected H algo (coin, rpc, args) t"
  shows "extract_secret H (sp_secret_hash args) (tx_hex t) = Some (Inr (sp_secret args))"
  using assms
  by (rule_tac utxo_collected_form [OF assms])
    (auto simp: extract_secret_def utxo_collected_def extract_secret_first simp del: extract_secret_from_inputs.simps)

lemma utxo_finds_collected:
  assumes "utxo_collected H algo (coin, rpc, args) t" "utxo_shows H algo (c, r, mine, input) (sp_other_payment_tx args) (tx_hex t)"
  shows "\<exists>s. utxo_search (c, r, mine, input) = Some (Spent s) \<and> tx_hex s = tx_hex t"
proof -
  have same: "same_chain c coin" using assms by (auto simp: same_chain_def utxo_collected_def utxo_shows_def)
  obtain tx signature redeem i where t: "t = transaction_enum coin tx" and i: "tx_inputs tx = [i]"
    "script_iter (ti_script_sig i) =
       [Inr (data_instruction signature), Inr (data_instruction (sp_secret args)), Inr (data_instruction []),
        Inr (data_instruction redeem)]"
    "payment_point coin (sp_other_payment_tx args) (ti_previous_output i)"
    "read_utxo_tx (tx_hex t) = TxRead (tx\<lparr>tx_hash_algo := DSHA256\<rparr>)"
    by (rule utxo_collected_form [OF assms(1)])
  have "utxo_search (c, r, mine, input) = Some (Spent (transaction_enum c (tx\<lparr>tx_hash_algo := uc_tx_hash_algo c\<rparr>)))"
    by (rule utxo_search_recognises [OF assms(2) i(4), of i])
      (simp_all add: i(1,3) payment_point_same_chain [OF same] classify_secret [OF i(2)])
  then show ?thesis by (simp add: t transaction_enum_same_hex)
qed

lemma utxo_finds_refunded:
  assumes "utxo_refunded H algo (coin, rpc, args) t" "utxo_shows H algo (c, r, mine, input) (rpa_payment_tx args) (tx_hex t)"
  shows "\<exists>s. utxo_search (c, r, mine, input) = Some (Refunded s) \<and> tx_hex s = tx_hex t"
proof -
  have same: "same_chain c coin" using assms by (auto simp: same_chain_def utxo_refunded_def utxo_shows_def)
  obtain tx signature redeem i where t: "t = transaction_enum coin tx" and i: "tx_inputs tx = [i]" "redeem \<noteq> []"
    "script_iter (ti_script_sig i) =
       [Inr (data_instruction signature), Inr \<lparr>in_opcode = OP_1, in_step = 1, in_data = None\<rparr>, Inr (data_instruction redeem)]"
    "payment_point coin (rpa_payment_tx args) (ti_previous_output i)"
    "read_utxo_tx (tx_hex t) = TxRead (tx\<lparr>tx_hash_algo := DSHA256\<rparr>)"
    by (rule utxo_refunded_form [OF assms(1)])
  have "utxo_search (c, r, mine, input) = Some (Refunded (transaction_enum c (tx\<lparr>tx_hash_algo := uc_tx_hash_algo c\<rparr>)))"
    by (rule utxo_search_recognises [OF assms(2) i(5), of i])
      (simp_all add: i(1,4) payment_point_same_chain [OF same] classify_refund [OF i(3,2)])
  then show ?thesis by (simp add: t transaction_enum_same_hex)
qed

definition extracted :: "hash_functions \<Rightarrow> bytes \<Rightarrow> bytes \<Rightarrow> bytes option" where
  "extracted H secret_hash raw = (case extract_secret H secret_hash raw of Some (Inr secret) \<Rightarrow> Some secret | _ \<Rightarrow> None)"

interpretation utxo: htlc_chain "utxo_collected H algo" "utxo_refunded H algo" "\<lambda>(coin, rpc, args). sp_other_payment_tx args"
  "\<lambda>(coin, rpc, args). rpa_payment_tx args" "\<lambda>(coin, rpc, args). sp_secret args"
  "\<lambda>(coin, rpc, args). extracted H (sp_secret_hash args)" "utxo_shows H algo" utxo_search for H algo
  by unfold_locales (auto simp: extracted_def utxo_reveals dest: utxo_finds_collected utxo_finds_refunded)

section \<open>The secret reaches the other side\<close>

text \<open>
  C5. When one side of a swap has collected a payment with the secret, the side that made the payment and searches for its
  spend, on a server that shows the transaction, finds it, recognises it as a spend, and gets the secret from its bytes.
\<close>

theorem collected_payment_reveals_secret:
  assumes "utxo_collected H algo (coin, rpc, args) t"
    and "utxo_shows H algo (c, r, mine, input) (sp_other_payment_tx args) (tx_hex t)"
  shows "\<exists>s. utxo_search (c, r, mine, input) = Some (Spent s) \<and> tx_hex s = tx_hex t \<and>
             extracted H (sp_secret_hash args) (tx_hex s) = Some (sp_secret args)"
  using utxo.secret_found [of H algo "(coin, rpc, args)" t "(c, r, mine, input)"] assms by simp

lemma sample_pays:
  "pays_to (sample_coin k) (utxo_tx_hex sample_payment) sample_payment tlock (replicate 20 9) (2 # replicate 32 i) (2 # replicate 32 j)"
proof -
  obtain redeem where "payment_script sample_hashes tlock (replicate 20 9) (2 # replicate 32 i) (2 # replicate 32 j) = Some redeem"
    using sample_redeem by blast
  then show ?thesis
    by (simp add: pays_to_def sample_payment_reads sample_coin_def p2sh_of_def build_p2sh_def push_bytes_iff push_opcode_def
        sample_hashes_def sample_payment_outputs)
qed

lemma sample_history:
  assumes "read_utxo_tx raw = TxRead spend"
  shows "payment_history_shows (sample_coin k) (sample_rpc [] [[0], [1]] (\<lambda>h. if h = [1] then raw else utxo_tx_hex sample_payment))
           sample_payment (\<lambda>h. if h = [1] then raw else utxo_tx_hex sample_payment) [[0], [1]] raw"
proof -
  have "\<not> spends_output (utxo_tx_id (sample_coin k) tx) 0 sample_payment" for tx
    by (simp add: spends_output_def sample_payment_def utxo_tx_id_def sample_coin_def sample_hashes_def BtcTransaction.tx_hash_def
        split: tx_hash_algo.split) 
  then show ?thesis
    using assms by (simp add: payment_history_shows_def history_shows_def sample_rpc_def sample_payment_reads)
      (simp add: sample_coin_def)
qed

definition sample_search :: search_for_swap_tx_spend_input where
  "sample_search = \<lparr>sfi_time_lock = 1600000000, sfi_other_pub = 2 # replicate 32 5, sfi_secret_hash = replicate 20 9,
     sfi_tx = utxo_tx_hex sample_payment, sfi_search_from_block = 0, sfi_swap_contract_address = None,
     sfi_swap_unique_data = [], sfi_watcher_reward = False\<rparr>"

lemma sample_same_chain: "same_chain (sample_coin i) (sample_coin j)"
  by (simp add: same_chain_def sample_coin_def)

lemma sample_shows:
  assumes "read_utxo_tx raw = TxRead tx"
  shows "utxo_shows sample_hashes DSHA256 (sample_coin 4, sample_rpc [] [[0], [1]] (\<lambda>h. if h = [1] then raw else utxo_tx_hex sample_payment),
      True, sample_search) (sp_other_payment_tx sample_spend_args) raw"
proof -
  have "pays_to (sample_coin 4) (utxo_tx_hex sample_payment) sample_payment 1600000000 (replicate 20 9) (2 # replicate 32 4) (2 # replicate 32 5)"
    by (rule sample_pays)
  moreover have "uc_key_pair (sample_coin 4) = Some (sample_key 4)" "uc_hashes (sample_coin 4) = sample_hashes" "uc_tx_hash_algo (sample_coin 4) = DSHA256"
    by (simp_all add: sample_coin_def)
  ultimately show ?thesis
    using sample_history [OF assms, of 4]
    unfolding utxo_shows_def
    by (auto simp: sample_search_def sample_spend_args_def public_from_slice_def sample_key_def)
qed

lemma sample_collected:
  obtains t where "send_maker_spends_taker_payment (sample_coin 5) (sample_rpc [] [] id) sample_spend_args = Some (Inr t)"
    "utxo_collected sample_hashes DSHA256 (sample_coin 5, sample_rpc [] [] id, sample_spend_args) t"
proof -
  obtain t where t: "send_maker_spends_taker_payment (sample_coin 5) (sample_rpc [] [] id) sample_spend_args = Some (Inr t)"
    using sample_maker_spends by blast
  then have "utxo_collected sample_hashes DSHA256 (sample_coin 5, sample_rpc [] [] id, sample_spend_args) t"
    using sample_coin_standard
    by (simp add: utxo_collected_def) (simp add: sample_coin_def sample_spend_args_def secret_hash160_def sample_hashes_def)
  with t show thesis by (rule that)
qed

theorem collected_payment_reveals_secret_witness:
  "\<exists>rpc t s. send_maker_spends_taker_payment (sample_coin 5) (sample_rpc [] [] id) sample_spend_args = Some (Inr t) \<and>
     search_for_swap_tx_spend_my (sample_coin 4) rpc sample_search 0 = Some (Inr (Some (Spent s))) \<and>
     extract_secret sample_hashes (replicate 20 9) (tx_hex s) = Some (Inr (replicate 32 3))"
proof -
  obtain t where t: "send_maker_spends_taker_payment (sample_coin 5) (sample_rpc [] [] id) sample_spend_args = Some (Inr t)"
    and c: "utxo_collected sample_hashes DSHA256 (sample_coin 5, sample_rpc [] [] id, sample_spend_args) t"
    by (rule sample_collected)
  obtain tx where "read_utxo_tx (tx_hex t) = TxRead tx" by (rule utxo_collected_form [OF c])
  then have shown: "utxo_shows sample_hashes DSHA256 (sample_coin 4, sample_rpc [] [[0], [1]] (\<lambda>h. if h = [1] then tx_hex t else utxo_tx_hex sample_payment),
      True, sample_search) (sp_other_payment_tx sample_spend_args) (tx_hex t)" (is "utxo_shows _ _ (_, ?rpc, _, _) _ _")
    by (rule sample_shows)
  have "\<exists>s. utxo_search (sample_coin 4, ?rpc, True, sample_search) = Some (Spent s) \<and>
      extracted sample_hashes (replicate 20 9) (tx_hex s) = Some (replicate 32 3)"
    using collected_payment_reveals_secret [OF c shown] by (auto simp: sample_spend_args_def)
  then show ?thesis
    using t by (fastforce simp: utxo_search_def extracted_def split: option.splits sum.splits)
qed

text \<open>
  C23. When a payment was refunded, either side that searches for its spend on a server that shows the transaction finds
  it and recognises the refund; and a transaction that collects the payment is never one that refunds it.
\<close>

theorem refunds_are_recognised:
  assumes "utxo_refunded H algo (coin, rpc, args) t"
    and "utxo_shows H algo (c, r, mine, input) (rpa_payment_tx args) (tx_hex t)"
  shows "(\<exists>s. utxo_search (c, r, mine, input) = Some (Refunded s) \<and> tx_hex s = tx_hex t) \<and>
         (\<forall>coin' rpc' args' u. utxo_collected H algo (coin', rpc', args') u \<longrightarrow> sp_other_payment_tx args' = rpa_payment_tx args \<longrightarrow>
            tx_hex u \<noteq> tx_hex t)"
proof -
  have "tx_hex u \<noteq> tx_hex t" if "utxo_collected H algo (coin', rpc', args') u" "sp_other_payment_tx args' = rpa_payment_tx args"
    for coin' rpc' args' u
    using utxo.never_both [of H algo "(coin', rpc', args')" u "(coin, rpc, args)" t "(c, r, mine, input)"] that assms by auto
  then show ?thesis using utxo.finds_refunded [of H algo "(coin, rpc, args)" t "(c, r, mine, input)"] assms by auto
qed

theorem refunds_are_recognised_witness:
  "\<exists>rpc t s. send_taker_refunds_payment (sample_coin 4) (sample_rpc [] [] id) sample_refund_args = Some (Inr t) \<and>
     search_for_swap_tx_spend_my (sample_coin 4) rpc sample_search 0 = Some (Inr (Some (Refunded s))) \<and> tx_hex s = tx_hex t"
proof -
  obtain t where t: "send_taker_refunds_payment (sample_coin 4) (sample_rpc [] [] id) sample_refund_args = Some (Inr t)"
    using sample_taker_refunds by blast
  have c: "utxo_refunded sample_hashes DSHA256 (sample_coin 4, sample_rpc [] [] id, sample_refund_args) t"
    using t sample_coin_standard by (simp add: utxo_refunded_def) (simp add: sample_coin_def)
  obtain tx where "read_utxo_tx (tx_hex t) = TxRead tx" by (rule utxo_refunded_form [OF c])
  then have "utxo_shows sample_hashes DSHA256 (sample_coin 4, sample_rpc [] [[0], [1]] (\<lambda>h. if h = [1] then tx_hex t else utxo_tx_hex sample_payment),
      True, sample_search) (sp_other_payment_tx sample_spend_args) (tx_hex t)" (is "utxo_shows _ _ (_, ?rpc, _, _) _ _")
    by (rule sample_shows)
  then have shown: "utxo_shows sample_hashes DSHA256 (sample_coin 4, ?rpc, True, sample_search) (rpa_payment_tx sample_refund_args) (tx_hex t)"
    by (simp add: sample_spend_args_def sample_refund_args_def)
  have "\<exists>s. utxo_search (sample_coin 4, ?rpc, True, sample_search) = Some (Refunded s) \<and> tx_hex s = tx_hex t"
    using refunds_are_recognised [OF c shown] by blast
  then show ?thesis
    using t by (fastforce simp: utxo_search_def split: option.splits sum.splits)
qed

section \<open>Waiting for the spend\<close>

text \<open>
  The result of the loop: a spend that a server had, a timeout after the deadline, or a panic (\<open>None\<close>) for an
  output that does not exist or an answer that makes the parser panic.
\<close>

definition wait_result_ok ::
  "utxo_coin \<Rightarrow> (nat \<Rightarrow> utxo_rpc) \<Rightarrow> btc_transaction \<Rightarrow> nat \<Rightarrow> u64 \<Rightarrow> u64 \<Rightarrow> (transaction_err + transaction) option \<Rightarrow> bool" where
  "wait_result_ok coin rpcs tx k from_block wait_until y \<longleftrightarrow>
     (let found = (\<lambda>m. find_output_spend coin (rpcs m) (utxo_tx_id coin tx) (xo_script_pubkey (tx_outputs tx ! k)) k from_block) in
      case y of
        None \<Rightarrow> length (tx_outputs tx) \<le> k \<or> (\<exists>m. found m = None)
      | Some (Inl e) \<Rightarrow> \<exists>m. wait_until < ur_now_sec (rpcs m) 0
      | Some (Inr s) \<Rightarrow> \<exists>m spend. found m = Some (Inr (Some spend)) \<and> tx_hex s = utxo_tx_hex spend)"

lemma wait_result_found:
  "find_output_spend coin (rpcs m) (utxo_tx_id coin tx) (xo_script_pubkey (tx_outputs tx ! k)) k from_block = Some (Inr (Some spend)) \<Longrightarrow>
   wait_result_ok coin rpcs tx k from_block wait_until (Some (Inr (transaction_enum coin (spend\<lparr>tx_hash_algo := a\<rparr>))))"
  unfolding wait_result_ok_def by (auto simp: transaction_enum_same_hex intro!: exI [of _ m])

lemma wait_loop_returns:
  assumes "n \<le> m" "wait_until < ur_now_sec (rpcs m) 0"
  shows "\<exists>y. wait_for_output_spend_loop coin rpcs n tx k from_block wait_until = Some y \<and>
             wait_result_ok coin rpcs tx k from_block wait_until y"
  using assms(1)
proof (induction n rule: inc_induct)
  case base
  show ?case
    using assms(2)
    by (subst wait_for_output_spend_loop.simps)
      (auto simp: wait_result_found wait_result_ok_def [of _ _ _ _ _ _ None] wait_result_ok_def [of _ _ _ _ _ _ "Some (Inl e)" for e]
        split: option.split sum.split)
next
  case (step n)
  then show ?case
    by (subst wait_for_output_spend_loop.simps)
      (auto simp: wait_result_found wait_result_ok_def [of _ _ _ _ _ _ None] wait_result_ok_def [of _ _ _ _ _ _ "Some (Inl e)" for e]
        split: option.split sum.split)
qed

text \<open>
  \<open>wait_for_output_spend\<close> returns once the clock has passed the deadline, whatever the server answers at each turn.
  A transaction that it returns is one that the server gave as the spend of the output, with the bytes the server
  gave, and it reports a timeout only when the clock has passed the deadline.
\<close>

theorem wait_for_output_spend_returns:
  assumes "read_utxo_tx tx_bytes = TxRead tx0" "wait_until < ur_now_sec (rpcs m) 0"
  shows "\<exists>y. wait_for_output_spend coin rpcs tx_bytes k from_block wait_until = Some y \<and>
             wait_result_ok coin rpcs (tx0\<lparr>tx_hash_algo := uc_tx_hash_algo coin\<rparr>) k from_block wait_until y"
  using wait_loop_returns [of 0 m wait_until rpcs coin] assms
  by (simp add: wait_for_output_spend_def)

theorem wait_for_output_spend_returns_witness:
  "\<exists>y. wait_for_output_spend (sample_coin 4) (\<lambda>n. sample_rpc [] [] id) (utxo_tx_hex sample_payment) 0 0 1600000000 = Some y \<and>
       wait_result_ok (sample_coin 4) (\<lambda>n. sample_rpc [] [] id) (sample_payment\<lparr>tx_hash_algo := DSHA256\<rparr>) 0 0 1600000000 y"
  using wait_for_output_spend_returns [OF sample_payment_reads, of 1600000000 "\<lambda>n. sample_rpc [] [] id" 0 "sample_coin 4" 0 0]
  by (simp add: sample_rpc_def) (simp add: sample_coin_def)

end
