(* ===== verification/RefundProps.thy ===== *)
theory RefundProps
  imports HtlcSample
begin

text \<open>
  Refunds, preimages for watchers and the validation of payments: a refund respects the lock time and is final when
  the coin says that it can be sent, a watcher completes a preimage to the transaction that the taker would have
  sent, and an accepted payment is locked to the terms of the swap.
\<close>

section \<open>Refunds\<close>

lemma p2sh_tx_locktime_ge: "p2sh_tx_locktime coin rpc n lock = Inr lock_time \<Longrightarrow> lock \<le> lock_time"
  by (auto simp: p2sh_tx_locktime_def split: sum.splits)

lemma p2sh_tx_locktime_below:
  assumes "p2sh_tx_locktime coin rpc n lock = Inr lock_time" "uc_ticker coin \<noteq> ''KMD''"
    and "ur_current_mtp rpc n = Inr mtp" "lock < mtp"
  shows "lock_time < mtp"
proof -
  have "mtp - 1 < mtp" using assms(4) by (auto simp: word_less_nat_alt unat_sub_if_size)
  then show ?thesis using assms by (auto simp: p2sh_tx_locktime_def)
qed

lemma can_refund_now:
  assumes "can_refund_htlc_utxo coin rpc (ucast (lock :: u32)) = Inr CanRefundNow" "ur_current_mtp rpc 0 = Inr mtp"
  shows "lock < mtp"
proof -
  have "ucast (ucast lock :: u64) = lock" by transfer simp
  then show ?thesis
    using assms p2sh_tx_locktime_ge [of coin rpc 1 lock]
    by (auto simp: can_refund_htlc_utxo_def Let_def split: if_splits sum.splits)
qed

lemma refund_sent:
  assumes "send_taker_refunds_payment coin rpc args = Some (Inr t) \<or> send_maker_refunds_payment coin rpc args = Some (Inr t)"
  obtains tx where "spend_payment coin rpc (rpa_payment_tx args)
      (my_redeem_script coin (rpa_time_lock args) (rpa_secret_hash args) (rpa_other_pubkey args))
      (Some refund_script_data) (SEQUENCE_FINAL - 1) (rpa_time_lock args) WithoutApprox = Some (Inr tx)"
    "t = transaction_enum coin tx"
  using assms broadcast_spend_Inr unfolding send_taker_refunds_payment_def send_maker_refunds_payment_def by metis



section \<open>Preimages for watchers\<close>

text \<open>The transaction depends on the data of the script only in the script of its input.\<close>

lemma p2sh_spending_tx_data:
  assumes "p2sh_spending_tx coin rpc prev redeem outs [] seq lock kp = Some (Inr tx)"
  obtains signature a b input where
    "push_data (sig_script_sig signature (uc_fork_id coin)) [] = Some a" "push_data redeem [] = Some b"
    "tx_inputs tx = [input]" "ti_script_sig input = a @ b"
    "\<And>d. p2sh_spending_tx coin rpc prev redeem outs d seq lock kp =
            Some (Inr (tx\<lparr>tx_inputs := [input\<lparr>ti_script_sig := a @ d @ b\<rparr>]\<rparr>))"
proof -
  obtain signature input where s: "p2sh_spend_with_signature
       \<lparr>ui_previous_output = \<lparr>op_hash = utxo_tx_id coin prev, op_index = 0\<rparr>, ui_sequence = seq,
        ui_amount = xo_value (tx_outputs prev ! 0), ui_witness = []\<rparr> redeem [] (uc_fork_id coin) signature = Some input"
    and input: "tx_inputs tx = [input]"
    and all: "\<And>d. p2sh_spending_tx coin rpc prev redeem outs d seq lock kp =
        map_option (\<lambda>i. Inr (tx\<lparr>tx_inputs := [i]\<rparr>)) (p2sh_spend_with_signature
       \<lparr>ui_previous_output = \<lparr>op_hash = utxo_tx_id coin prev, op_index = 0\<rparr>, ui_sequence = seq,
        ui_amount = xo_value (tx_outputs prev ! 0), ui_witness = []\<rparr> redeem d (uc_fork_id coin) signature)"
    using assms unfolding p2sh_spending_tx_def Let_def p2sh_spend_def spend_input_def get_input_def DEFAULT_SWAP_VOUT_def
    by (auto split: if_splits sum.splits option.splits)
  obtain a b where ab: "push_data (sig_script_sig signature (uc_fork_id coin)) [] = Some a" "push_data redeem [] = Some b"
    "ti_script_sig input = a @ b"
    using s by (auto simp: p2sh_spend_with_signature_def signed_input_of_def bind_eq_Some_conv)
  have "p2sh_spending_tx coin rpc prev redeem outs d seq lock kp =
            Some (Inr (tx\<lparr>tx_inputs := [input\<lparr>ti_script_sig := a @ d @ b\<rparr>]\<rparr>))" for d
    using ab s by (auto simp: all p2sh_spend_with_signature_def signed_input_of_def)
  with ab input show thesis by (intro that) auto
qed

lemma spend_payment_data:
  assumes "spend_payment coin rpc payment_tx redeem_for (Some []) seq lock stage = Some (Inr tx)"
  obtains signature redeem kp a b input where "uc_key_pair coin = Some kp" "redeem_for (kp_public kp) = Some (Some redeem)"
    "push_data (sig_script_sig signature (uc_fork_id coin)) [] = Some a" "push_data redeem [] = Some b"
    "tx_inputs tx = [input]" "ti_script_sig input = a @ b"
    "\<And>d. spend_payment coin rpc payment_tx redeem_for (Some d) seq lock stage =
            Some (Inr (tx\<lparr>tx_inputs := [input\<lparr>ti_script_sig := a @ d @ b\<rparr>]\<rparr>))"
proof (rule spend_payment_Inr [OF assms])
  fix my_address prev kp d redeem fee script
  assume *: "uc_my_address coin = Some my_address" "read_utxo_tx payment_tx = TxRead prev" "tx_outputs prev \<noteq> []"
    "uc_key_pair coin = Some kp" "redeem_for (kp_public kp) = Some (Some redeem)"
    "get_htlc_spend_fee coin rpc DEFAULT_SWAP_TX_SPEND_SIZE stage = Inr fee" "output_script my_address P2PKH = Some script"
    and fee: "fee < xo_value (tx_outputs prev ! 0)" and "Some [] = Some d"
    and tx: "p2sh_spending_tx coin rpc (prev\<lparr>tx_hash_algo := uc_tx_hash_algo coin\<rparr>) redeem
       [\<lparr>xo_value = xo_value (tx_outputs prev ! 0) - fee, xo_script_pubkey = script\<rparr>] d seq lock kp = Some (Inr tx)"
  then have "p2sh_spending_tx coin rpc (prev\<lparr>tx_hash_algo := uc_tx_hash_algo coin\<rparr>) redeem
       [\<lparr>xo_value = xo_value (tx_outputs prev ! 0) - fee, xo_script_pubkey = script\<rparr>] [] seq lock kp = Some (Inr tx)" by simp
  then show thesis
  proof (rule p2sh_spending_tx_data)
    fix signature a b input
    assume ab: "push_data (sig_script_sig signature (uc_fork_id coin)) [] = Some a" "push_data redeem [] = Some b"
      "tx_inputs tx = [input]" "ti_script_sig input = a @ b"
      and all: "\<And>d. p2sh_spending_tx coin rpc (prev\<lparr>tx_hash_algo := uc_tx_hash_algo coin\<rparr>) redeem
         [\<lparr>xo_value = xo_value (tx_outputs prev ! 0) - fee, xo_script_pubkey = script\<rparr>] d seq lock kp =
            Some (Inr (tx\<lparr>tx_inputs := [input\<lparr>ti_script_sig := a @ d @ b\<rparr>]\<rparr>))"
    have "spend_payment coin rpc payment_tx redeem_for (Some d) seq lock stage =
            Some (Inr (tx\<lparr>tx_inputs := [input\<lparr>ti_script_sig := a @ d @ b\<rparr>]\<rparr>))" for d
      using * fee [folded not_le] all by (simp add: spend_payment_def)
    with * ab show thesis by (intro that)
  qed
qed

lemma preimage_parts_iter:
  assumes "script_iter s = [Inr i, Inr j]" "in_data i = Some x" "in_data j = Some y"
  shows "preimage_parts s = Inr (x, y)"
proof -
  obtain p where p: "instructions_next s 0 = (Some (Inr i), p)" "instructions_from s p = [Inr j]"
    using assms(1) unfolding script_iter_def
    by (subst (asm) instructions_from.simps) (auto split: prod.splits option.splits sum.splits)
  then obtain q where "instructions_next s p = (Some (Inr j), q)"
    by (subst (asm) instructions_from.simps) (auto split: prod.splits option.splits sum.splits)
  with p assms(2,3) show ?thesis by (simp add: preimage_parts_def)
qed

lemma preimage_completed:
  assumes "create_maker_payment_spend_preimage taker rpc maker_payment time_lock maker_pub secret_hash = Some (Inr preimage)"
    and "standard_coin taker" "uc_tx_hash_algo taker = DSHA256" "length secret = 32"
  obtains tx where "spend_payment taker rpc maker_payment (other_redeem_script taker time_lock secret_hash maker_pub)
      (secret_script_data secret) SEQUENCE_FINAL time_lock WatcherPreimage = Some (Inr tx)"
    "\<And>w r. send_maker_payment_spend_preimage w r (tx_hex preimage) secret = broadcast_spend w r (Some (Inr tx))"
proof -
  let ?redeem_for = "other_redeem_script taker time_lock secret_hash maker_pub"
  obtain tx where tx: "spend_payment taker rpc maker_payment ?redeem_for (Some []) SEQUENCE_FINAL time_lock WatcherPreimage = Some (Inr tx)"
    and preimage: "preimage = transaction_enum taker tx"
    using assms(1) unfolding create_maker_payment_spend_preimage_def
    by (auto simp: map_option_case split: option.splits) (metis id_apply map_sum.simps obj_sumE sum.inject(2) sum.distinct(1))
  have items: "spend_payment taker rpc maker_payment ?redeem_for (push_items [] []) SEQUENCE_FINAL time_lock WatcherPreimage = Some (Inr tx)"
    using tx by simp
  have algo: "tx_hash_algo tx = DSHA256"
    by (rule spend_payment_Inr [OF tx], erule p2sh_spending_tx_Inr) (simp add: assms(3))
  have read: "read_utxo_tx (utxo_tx_hex tx) = TxRead tx"
    by (rule spend_payment_form [OF items _ assms(2) _ other_redeem_length(1)]) (simp_all add: algo)
  obtain signature redeem kp a b input where
    ab: "push_data (sig_script_sig signature (uc_fork_id taker)) [] = Some a" "push_data redeem [] = Some b"
    and input: "tx_inputs tx = [input]" "ti_script_sig input = a @ b"
    and all: "\<And>d. spend_payment taker rpc maker_payment ?redeem_for (Some d) SEQUENCE_FINAL time_lock WatcherPreimage =
            Some (Inr (tx\<lparr>tx_inputs := [input\<lparr>ti_script_sig := a @ d @ b\<rparr>]\<rparr>))"
    by (rule spend_payment_data [OF tx]) blast
  have "push_items [Data (sig_script_sig signature (uc_fork_id taker)), Data redeem] [] = Some (a @ b)"
    using ab push_item_prefix [of "Data redeem" a "[]"] by simp
  from script_iter_items [OF this]
  have "script_iter (a @ b) = [Inr (data_instruction (sig_script_sig signature (uc_fork_id taker))), Inr (data_instruction redeem)]"
    by simp
  then have parts: "preimage_parts (a @ b) = Inr (sig_script_sig signature (uc_fork_id taker), redeem)"
    by (rule preimage_parts_iter) simp_all
  obtain d where d: "secret_script_data secret = Some d"
    using push_data_exists [of secret "[]"] assms(4) by (auto simp: secret_script_data_def)
  have "send_maker_payment_spend_preimage w r (tx_hex preimage) secret =
      broadcast_spend w r (Some (Inr (tx\<lparr>tx_inputs := [input\<lparr>ti_script_sig := a @ d @ b\<rparr>]\<rparr>)))" for w r
    using read input parts ab d by (simp add: send_maker_payment_spend_preimage_def preimage)
  with all [of d] d show thesis by (intro that) simp_all
qed


lemma sample_preimage:
  obtains preimage where "create_maker_payment_spend_preimage (sample_coin 4) (sample_rpc [] [] id) (utxo_tx_hex sample_payment)
      1600000000 (2 # replicate 32 5) (replicate 20 9) = Some (Inr preimage)"
proof -
  obtain tx where "spend_payment (sample_coin 4) (sample_rpc [] [] id) (utxo_tx_hex sample_payment)
      (other_redeem_script (sample_coin 4) 1600000000 (replicate 20 9) (2 # replicate 32 5))
      (Some []) SEQUENCE_FINAL 1600000000 WatcherPreimage = Some (Inr tx)"
    using sample_spend_payment by (metis sample_other_redeem)
  then show thesis by (intro that) (simp add: create_maker_payment_spend_preimage_def)
qed


section \<open>Accepted payments\<close>

lemma build_p2sh_inject: "build_p2sh a = Some s \<Longrightarrow> build_p2sh b = Some s \<Longrightarrow> a = b"
  by (auto simp: build_p2sh_def push_bytes_iff push_opcode_def split: if_splits)

lemma retried_from: "retried_transaction_bytes rpc txid = Inr raw \<Longrightarrow> \<exists>n. ur_transaction_bytes rpc n txid = Inr raw"
  by (auto simp: retried_transaction_bytes_def split: sum.splits)

lemma validate_payment_Inr:
  assumes "validate_payment coin rpc tx n p q sh amount None tlock confs = Some (Inr ())"
  obtains sat redeem where "sat_from_big_decimal rpc amount (uc_decimals coin) = Inr sat"
    "payment_script (uc_hashes coin) tlock sh p q = Some redeem"
    "\<exists>k. ur_transaction_bytes rpc k (rev (utxo_tx_id coin tx)) \<in> {Inr (ser_transaction False tx), Inr (ser_transaction True tx)}"
    "n < length (tx_outputs tx)" "p2sh_of (uc_hashes coin) redeem = Some (xo_script_pubkey (tx_outputs tx ! n))"
    "xo_value (tx_outputs tx ! n) = sat"
proof -
  obtain sat redeem where sr: "sat_from_big_decimal rpc amount (uc_decimals coin) = Inr sat"
    "payment_script (uc_hashes coin) tlock sh p q = Some redeem"
    using assms by (auto simp: validate_payment_def split: sum.splits option.splits)
  obtain raw where raw: "retried_transaction_bytes rpc (rev (utxo_tx_id coin tx)) = Inr raw"
      "ser_transaction False tx = raw \<or> ser_transaction True tx = raw"
    using assms sr by (auto simp: validate_payment_def split: sum.splits if_splits)
  obtain script where script: "p2sh_of (uc_hashes coin) redeem = Some script"
    using assms sr raw by (auto simp: validate_payment_def split: option.splits)
  have "n < length (tx_outputs tx) \<and> script = xo_script_pubkey (tx_outputs tx ! n) \<and> xo_value (tx_outputs tx ! n) = sat"
    using assms sr raw script by (auto simp: validate_payment_def Let_def split: if_splits)
  with sr script show thesis
    using retried_from [OF raw(1)] raw(2) by (intro that) auto
qed

lemma validate_payment_accepts:
  assumes "sat_from_big_decimal rpc amount (uc_decimals coin) = Inr sat"
    and "payment_script (uc_hashes coin) tlock sh p q = Some redeem"
    and "ur_transaction_bytes rpc 0 (rev (utxo_tx_id coin tx)) = Inr (ser_transaction True tx)"
    and "n < length (tx_outputs tx)" "p2sh_of (uc_hashes coin) redeem = Some (xo_script_pubkey (tx_outputs tx ! n))"
    and "xo_value (tx_outputs tx ! n) = sat"
    and "uc_electrum coin \<and> uc_spv_conf coin \<and> confs \<noteq> 0 \<longrightarrow> ur_spv_proof rpc tx = Inr ()"
  shows "validate_payment coin rpc tx n p q sh amount None tlock confs = Some (Inr ())"
  using assms by (simp add: validate_payment_def retried_transaction_bytes_def)

text \<open>
  C8. A payment that is accepted without a watcher reward is on the chain with exactly the expected amount, and every
  script that can be revealed to spend it has the hash of the script of the swap, whose instructions are: before the
  lock time only the own key with the secret, after it the key of the other side. So, but for a collision of the
  hash, the payment cannot be taken in any other way.
\<close>

theorem accepted_payment_locked_to_terms:
  assumes "validate_maker_payment coin rpc input = Some (Inr ()) \<or> validate_taker_payment coin rpc input = Some (Inr ())"
    and "vpi_watcher_reward input = None"
  shows "\<exists>tx kp expected. read_utxo_tx (vpi_payment_tx input) = TxRead tx \<and> tx_outputs tx \<noteq> [] \<and>
     (\<exists>n. ur_transaction_bytes rpc n (rev (utxo_tx_id coin (tx\<lparr>tx_hash_algo := uc_tx_hash_algo coin\<rparr>)))
            \<in> {Inr (ser_transaction False tx), Inr (ser_transaction True tx)}) \<and>
     sat_from_big_decimal rpc (vpi_amount input) (uc_decimals coin) = Inr (xo_value (tx_outputs tx ! 0)) \<and>
     uc_key_pair coin = Some kp \<and>
     script_iter expected = map (Inr \<circ> item_instruction)
       (payment_items (vpi_time_lock input) (secret_hash160 (uc_hashes coin) (vpi_secret_hash input))
          (vpi_other_pub input) (kp_public kp)) \<and>
     (\<forall>revealed. p2sh_of (uc_hashes coin) revealed = Some (xo_script_pubkey (tx_outputs tx ! 0)) \<longrightarrow>
        h_dhash160 (uc_hashes coin) revealed = h_dhash160 (uc_hashes coin) expected)"
proof -
  obtain tx kp where tx: "read_utxo_tx (vpi_payment_tx input) = TxRead tx" "uc_key_pair coin = Some kp"
    and v: "validate_payment coin rpc (tx\<lparr>tx_hash_algo := uc_tx_hash_algo coin\<rparr>) 0 (vpi_other_pub input) (kp_public kp)
              (vpi_secret_hash input) (vpi_amount input) None (vpi_time_lock input) (vpi_confirmations input) = Some (Inr ())"
    using assms by (auto simp: validate_maker_payment_def validate_taker_payment_def derive_htlc_key_pair_def public_from_slice_def
        DEFAULT_SWAP_VOUT_def split: read_tx.splits option.splits if_splits)
  show ?thesis
  proof (rule validate_payment_Inr [OF v])
    fix sat redeem
    assume redeem: "payment_script (uc_hashes coin) (vpi_time_lock input) (vpi_secret_hash input) (vpi_other_pub input) (kp_public kp) = Some redeem"
      and out: "p2sh_of (uc_hashes coin) redeem = Some (xo_script_pubkey (tx_outputs (tx\<lparr>tx_hash_algo := uc_tx_hash_algo coin\<rparr>) ! 0))"
      and *: "sat_from_big_decimal rpc (vpi_amount input) (uc_decimals coin) = Inr sat"
        "\<exists>k. ur_transaction_bytes rpc k (rev (utxo_tx_id coin (tx\<lparr>tx_hash_algo := uc_tx_hash_algo coin\<rparr>))) \<in>
           {Inr (ser_transaction False (tx\<lparr>tx_hash_algo := uc_tx_hash_algo coin\<rparr>)),
            Inr (ser_transaction True (tx\<lparr>tx_hash_algo := uc_tx_hash_algo coin\<rparr>))}"
        "0 < length (tx_outputs (tx\<lparr>tx_hash_algo := uc_tx_hash_algo coin\<rparr>))"
        "xo_value (tx_outputs (tx\<lparr>tx_hash_algo := uc_tx_hash_algo coin\<rparr>) ! 0) = sat"
    have "\<forall>revealed. p2sh_of (uc_hashes coin) revealed = Some (xo_script_pubkey (tx_outputs tx ! 0)) \<longrightarrow>
        h_dhash160 (uc_hashes coin) revealed = h_dhash160 (uc_hashes coin) redeem"
      using out build_p2sh_inject by (auto simp: p2sh_of_def)
    then show ?thesis
      using tx * payment_script_iter [OF redeem] by (intro exI [of _ tx] exI [of _ kp] exI [of _ redeem]) auto
  qed
qed

definition sample_validation :: validate_payment_input where
  "sample_validation = \<lparr>vpi_payment_tx = utxo_tx_hex sample_payment, vpi_time_lock_duration = 0, vpi_time_lock = 1600000000,
     vpi_other_pub = 2 # replicate 32 5, vpi_secret_hash = replicate 20 9, vpi_amount = 1 / 1000, vpi_swap_contract_address = None,
     vpi_try_spv_proof_until = 0, vpi_confirmations = 1, vpi_unique_swap_data = [], vpi_watcher_reward = None\<rparr>"

lemma sample_sat: "sat_from_big_decimal (sample_rpc us history raw_of) (1 / 1000) 8 = Inr 100000"
  by (simp add: sat_from_big_decimal_def sample_rpc_def)

lemma sample_p2sh: "p2sh_of sample_hashes redeem = Some (OP_HASH160 # 20 # replicate 20 9 @ [OP_EQUAL])"
  by (simp add: p2sh_of_def build_p2sh_def push_bytes_iff push_opcode_def sample_hashes_def)

lemma utxo_coin_sel:
  "uc_hashes (sample_coin k) = sample_hashes" "uc_decimals (sample_coin k) = 8" "uc_spv_conf (sample_coin k) = False"
  "uc_key_pair (sample_coin k) = Some (sample_key k)" "uc_tx_hash_algo (sample_coin k) = DSHA256"
  "kp_public (sample_key k) = 2 # replicate 32 k"
  by (simp_all add: sample_coin_def sample_key_def)

lemma sample_validated:
  "validate_maker_payment (sample_coin 4) (sample_rpc [] [] (\<lambda>_. utxo_tx_hex sample_payment)) sample_validation = Some (Inr ())"
proof -
  obtain redeem where "payment_script sample_hashes 1600000000 (replicate 20 9) (2 # replicate 32 5) (2 # replicate 32 4) = Some redeem"
    using sample_redeem by blast
  then have "validate_payment (sample_coin 4) (sample_rpc [] [] (\<lambda>_. utxo_tx_hex sample_payment)) (sample_payment\<lparr>tx_hash_algo := DSHA256\<rparr>) 0
      (2 # replicate 32 5) (2 # replicate 32 4) (replicate 20 9) (1 / 1000) None 1600000000 1 = Some (Inr ())"
    by (intro validate_payment_accepts) (simp_all add: utxo_coin_sel sample_sat sample_p2sh sample_payment_outputs,
        simp add: sample_rpc_def utxo_tx_hex_ser)
  then show ?thesis
    by (simp add: validate_maker_payment_def sample_validation_def sample_payment_reads derive_htlc_key_pair_def utxo_coin_sel
        public_from_slice_def DEFAULT_SWAP_VOUT_def)
qed

theorem accepted_payment_locked_to_terms_witness:
  "\<exists>tx kp expected. read_utxo_tx (utxo_tx_hex sample_payment) = TxRead tx \<and> uc_key_pair (sample_coin 4) = Some kp \<and>
     script_iter expected = map (Inr \<circ> item_instruction)
       (payment_items 1600000000 (replicate 20 9) (2 # replicate 32 5) (kp_public kp)) \<and>
     (\<forall>revealed. p2sh_of sample_hashes revealed = Some (xo_script_pubkey (tx_outputs tx ! 0)) \<longrightarrow>
        h_dhash160 sample_hashes revealed = h_dhash160 sample_hashes expected)"
  using accepted_payment_locked_to_terms [OF disjI1 [OF sample_validated]]
  by (auto simp: sample_validation_def utxo_coin_sel secret_hash160_def)

end
