(* ===== verification/SentPaymentProps.thy ===== *)
theory SentPaymentProps
  imports TxBuilderProps SpendSearchProps RefundProps
begin

text \<open>
  The payment that one side of a swap sends is accepted by the other side: the transaction that comes out of the
  builder and the signer can be read by everyone, and its first output is the one that the validation asks for.
\<close>

section \<open>Signed transactions\<close>

lemma sign_inputs_all:
  "sign_inputs f ns = Some (Inr inputs) \<Longrightarrow> list_all2 (\<lambda>n i. f n = Some (Inr i)) ns inputs"
proof (induction ns arbitrary: inputs)
  case (Cons n ns)
  then show ?case by (auto split: option.splits sum.splits)
qed simp

definition signed_ok :: "signature_version \<Rightarrow> transaction_input \<Rightarrow> bool" where
  "signed_ok version i \<longleftrightarrow> length (ti_script_sig i) \<le> 65536 \<and> witness_ok i \<and> (version \<noteq> WitnessV0 \<longrightarrow> ti_script_witness i = [])"

lemma key_script_length:
  assumes "script_sig_with_pub (kp_public kp) fork_id signature = Some s" "key_pair_ok kp" "length signature \<le> 72"
  shows "length s \<le> 65536"
proof -
  obtain b where "push_data (sig_script_sig signature fork_id) [] = Some b" "push_data (kp_public kp) b = Some s"
    using assms(1) by (auto simp: script_sig_with_pub_def bind_eq_Some_conv)
  then show ?thesis
    using push_data_length [of "sig_script_sig signature fork_id" "[]" b] push_data_length [of "kp_public kp" b s] assms(2,3)
    by (simp add: sig_script_sig_def key_pair_ok_def)
qed

lemma signed_input_ok:
  assumes "(if version = WitnessV0 then p2wpkh_spend else p2pkh_spend) H t n kp script version fork_id = Some (Inr i)" "key_pair_ok kp"
  shows "n < length (is_inputs t) \<and> ti_previous_output i = ui_previous_output (is_inputs t ! n) \<and> signed_ok version i"
proof -
  have n: "n < length (is_inputs t)"
    using assms(1) by (auto simp: p2wpkh_spend_def p2pkh_spend_def get_input_def split: if_splits)
  then obtain signature where s: "\<exists>h. kp_sign kp h = Inr signature"
    and i: "i = signed_input_of (is_inputs t ! n) [] [sig_script_sig signature fork_id, kp_public kp] \<and> version = WitnessV0 \<or>
      (\<exists>s. script_sig_with_pub (kp_public kp) fork_id signature = Some s \<and> i = signed_input_of (is_inputs t ! n) s []) \<and> version \<noteq> WitnessV0"
    using assms(1)
    by (auto simp: p2wpkh_spend_def p2pkh_spend_def get_input_def spend_input_def calc_and_sign_sighash_def
        p2wpkh_spend_with_signature_def p2pkh_spend_with_signature_def bind_eq_Some_conv split: if_splits option.splits sum.splits)
  have "length signature \<le> 72" "length (kp_public kp) = 33"
    using s assms(2) by (auto simp: key_pair_ok_def MAX_DER_SIGNATURE_LEN_def)
  then show ?thesis
    using n i key_script_length [OF _ assms(2)]
    by (auto simp: signed_input_of_def signed_ok_def witness_ok_def sig_script_sig_def MAX_LIST_SIZE_def)
qed

lemma sign_tx_ok:
  assumes "sign_tx H t kp script version fork_id = Some (Inr tx)" "key_pair_ok kp"
  obtains inputs where "tx = complete_tx t inputs" "length inputs = length (is_inputs t)"
    "map ti_previous_output inputs = map ui_previous_output (is_inputs t)" "list_all (signed_ok version) inputs"
proof -
  obtain inputs where inputs: "sign_inputs (\<lambda>i. (if version = WitnessV0 then p2wpkh_spend else p2pkh_spend) H t i kp script version fork_id)
      [0..<length (is_inputs t)] = Some (Inr inputs)" and tx: "tx = complete_tx t inputs"
    using assms(1) unfolding sign_tx_def Let_def by (auto split: option.splits sum.splits)
  from sign_inputs_all [OF inputs]
  have len: "length inputs = length (is_inputs t)" and nth:
    "\<And>n. n < length (is_inputs t) \<Longrightarrow>
       (if version = WitnessV0 then p2wpkh_spend else p2pkh_spend) H t n kp script version fork_id = Some (Inr (inputs ! n))"
    by (auto simp: list_all2_conv_all_nth)
  have "map ti_previous_output inputs = map ui_previous_output (is_inputs t)"
    using len signed_input_ok [OF nth assms(2)] by (intro nth_equalityI) auto
  moreover have "list_all (signed_ok version) inputs"
    using len signed_input_ok [OF nth assms(2)] by (auto simp: list_all_length)
  ultimately show thesis using tx len by (intro that)
qed

section \<open>Outputs\<close>

lemma add_interest_output_props:
  "length (add_interest_output interest s xs) \<le> Suc (length xs)"
  "length s \<le> 65536 \<Longrightarrow> list_all output_ok xs \<Longrightarrow> list_all output_ok (add_interest_output interest s xs)"
  "xs \<noteq> [] \<Longrightarrow> xo_script_pubkey (xs ! 0) \<noteq> s \<Longrightarrow> add_interest_output interest s xs ! 0 = xs ! 0"
  "add_interest_output interest s xs \<noteq> []"
proof (induction xs)
  case (Cons x xs)
  { case 1 show ?case using Cons by simp }
  { case 2 show ?case using Cons 2 by (simp add: output_ok_def) }
  { case 3 show ?case using 3 by simp }
  { case 4 show ?case by simp }
qed (simp_all add: output_ok_def)

text \<open>What a transaction of the builder has of the request: the fields of the coin, the inputs, and the first output.\<close>

definition request_kept :: "utxo_coin \<Rightarrow> transaction_output list \<Rightarrow> unspent_info list \<Rightarrow> input_signer \<Rightarrow> bool" where
  "request_kept coin outs us t \<longleftrightarrow>
     is_version t = uc_tx_version coin \<and> is_n_time t = None \<and> is_overwintered t = uc_overwintered coin \<and>
     is_version_group_id t = uc_version_group_id coin \<and> is_expiry_height t = 0 \<and> is_zcash t = uc_zcash coin \<and>
     is_posv t = uc_is_posv coin \<and> is_str_d_zeel t = None \<and> is_hash_algo t = uc_tx_hash_algo coin \<and>
     (\<exists>k. is_inputs t = map unsigned_of_unspent (take k us)) \<and> is_inputs t \<noteq> [] \<and>
     is_outputs t \<noteq> [] \<and> is_outputs t ! 0 = outs ! 0 \<and> length (is_outputs t) \<le> length outs + 2 \<and> list_all output_ok (is_outputs t)"

lemma calc_interest_keeps:
  assumes "calc_interest_if_required coin rpc t data s = Inr (t', data')" "request_kept coin outs us t"
    and "length (is_outputs t) \<le> length outs + 1" "xo_script_pubkey (outs ! 0) \<noteq> s" "length s \<le> 65536"
  shows "request_kept coin outs us t'"
proof -
  have "t' = t \<or> (\<exists>lock. t' = t\<lparr>is_lock_time := lock\<rparr>) \<or>
      (\<exists>lock interest. t' = t\<lparr>is_lock_time := lock, is_outputs := add_interest_output interest s (is_outputs t)\<rparr>)"
    using assms(1) by (auto simp: calc_interest_if_required_def Let_def split: if_splits sum.splits)
  then show ?thesis
    using assms(2-5) add_interest_output_props(2-4) [where xs = "is_outputs t" and s = s] le_trans [OF add_interest_output_props(1)]
    by (elim disjE exE) (simp_all add: request_kept_def)
qed

lemma finish_build_tx:
  "finish_build dust s received b = Inr (t, data) \<Longrightarrow>
   t = tb_tx b \<or> (\<exists>c. t = (tb_tx b)\<lparr>is_outputs := is_outputs (tb_tx b) @ [\<lparr>xo_value = c, xo_script_pubkey = s\<rparr>]\<rparr>)"
  by (auto simp: finish_build_def Let_def split: if_splits)

lemma deduct_fee_SendExact:
  "deduct_fee dust s received b = Some (Inr (b', received')) \<Longrightarrow> tb_fee_policy b = SendExact \<Longrightarrow> tb_tx b' = tb_tx b"
  by (auto simp: deduct_fee_def)

lemma preimage_kept:
  assumes "standard_coin coin" "outs \<noteq> []" "list_all output_ok outs" "us \<noteq> []" "0 < k"
  shows "request_kept coin outs us ((transaction_preimage coin rpc)\<lparr>is_inputs := map unsigned_of_unspent (take k us), is_outputs := outs\<rparr>)"
  using assms by (auto simp: request_kept_def transaction_preimage_def standard_coin_def)

lemma build_keeps:
  assumes "tx_builder_build coin rpc (with_fee_policy SendExact (add_outputs outs (add_available_inputs us (tx_builder_new coin rpc))))
             = Some (Inr (t, data))" (is "tx_builder_build coin rpc ?b = _")
    and "standard_coin coin" "outs \<noteq> []" "list_all output_ok outs"
    and "\<And>a s. uc_my_address coin = Some a \<Longrightarrow> output_script a P2PKH = Some s \<Longrightarrow> xo_script_pubkey (outs ! 0) \<noteq> s"
  shows "request_kept coin outs us t"
proof -
  obtain from_address s fee acc received min_relay b' received' t' data' where
    a: "tb_from ?b = Some from_address" "output_script from_address P2PKH = Some s"
    and deducted: "deduct_fee (builder_dust coin ?b) s received
       (choose_inputs coin (ad_addr_format from_address) fee (tb_available_inputs ?b)
          (?b\<lparr>tb_sum_outputs_value := acc + (case tb_gas_fee ?b of Some g \<Rightarrow> g | None \<Rightarrow> 0), tb_min_relay_fee := min_relay\<rparr>))
       = Some (Inr (b', received'))"
    and finished: "finish_build (builder_dust coin ?b) s received' b' = Inr (t', data')"
    and interest: "calc_interest_if_required coin rpc t' data' s = Inr (t, data)"
    and nonempty: "tb_available_inputs ?b \<noteq> [] \<or> is_inputs (tb_tx ?b) \<noteq> []"
    by (rule tx_builder_build_Inr [OF assms(1)])
  let ?b0 = "?b\<lparr>tb_sum_outputs_value := acc + (case tb_gas_fee ?b of Some g \<Rightarrow> g | None \<Rightarrow> 0), tb_min_relay_fee := min_relay\<rparr>"
  let ?b1 = "choose_inputs coin (ad_addr_format from_address) fee (tb_available_inputs ?b) ?b0"
  have b: "tb_available_inputs ?b = us" "tb_tx ?b = (transaction_preimage coin rpc)\<lparr>is_outputs := outs\<rparr>" "tb_fee_policy ?b = SendExact"
    by (simp_all add: with_fee_policy_def add_outputs_def add_available_inputs_def tx_builder_new_def transaction_preimage_def)
  have s: "xo_script_pubkey (outs ! 0) \<noteq> s" "length s \<le> 65536"
    using assms(5) a output_script_length [OF a(2)]
    by (simp_all add: with_fee_policy_def add_outputs_def add_available_inputs_def tx_builder_new_def)
  have us: "us \<noteq> []"
    using nonempty by (simp add: with_fee_policy_def add_outputs_def add_available_inputs_def tx_builder_new_def transaction_preimage_def)
  obtain k where k: "is_inputs (tb_tx ?b1) = map unsigned_of_unspent (take k us)" "same_request ?b0 ?b1" "0 < k"
    using us choose_inputs_prefix [of coin "ad_addr_format from_address" fee "tb_available_inputs ?b" ?b0] b(1,2)
    by (auto simp: transaction_preimage_def)
  have "tb_tx ?b1 = (tb_tx ?b)\<lparr>is_inputs := map unsigned_of_unspent (take k us)\<rparr>" "tb_fee_policy ?b1 = SendExact"
    using k b(3) by (simp_all add: same_request_def)
  then have tx: "tb_tx b' = (transaction_preimage coin rpc)\<lparr>is_inputs := map unsigned_of_unspent (take k us), is_outputs := outs\<rparr>"
    using deduct_fee_SendExact [OF deducted] b(2) by simp
  have kept: "request_kept coin outs us (tb_tx b')"
    unfolding tx by (rule preimage_kept [OF assms(2-4) us k(3)])
  have "request_kept coin outs us t' \<and> length (is_outputs t') \<le> length outs + 1"
    using finish_build_tx [OF finished] kept s(2) assms(3) tx
    by (elim disjE exE) (simp_all add: request_kept_def output_ok_def nth_append)
  then show ?thesis using calc_interest_keeps [OF interest _ _ s] by blast
qed

section \<open>Sent transactions\<close>

definition signing_version :: "utxo_coin \<Rightarrow> signature_version" where
  "signing_version coin = (if addr_format_of coin = Segwit then WitnessV0 else uc_signature_version coin)"

lemma generate_and_send_Inr:
  assumes "generate_and_send_tx coin rpc us None SendExact outs c = Some (Inr tx, c')"
  obtains kp t data script where "uc_key_pair coin = Some kp"
    "tx_builder_build coin rpc (with_fee_policy SendExact (add_outputs outs (add_available_inputs us (tx_builder_new coin rpc))))
       = Some (Inr (t, data))"
    "sign_tx (uc_hashes coin) t kp script (signing_version coin) (uc_fork_id coin) = Some (Inr tx)"
proof -
  obtain a kp where a: "uc_my_address coin = Some a" "uc_key_pair coin = Some kp"
    using assms by (auto simp: generate_and_send_tx_def split: option.splits)
  obtain t data where b:
    "tx_builder_build coin rpc (with_fee_policy SendExact (add_outputs outs (add_available_inputs us (tx_builder_new coin rpc))))
       = Some (Inr (t, data))"
    using assms a by (auto simp: generate_and_send_tx_def Let_def split: option.splits sum.splits)
  obtain script where "sign_tx (uc_hashes coin) t kp script (signing_version coin) (uc_fork_id coin) = Some (Inr tx)"
    using assms a b
    by (auto simp: generate_and_send_tx_def Let_def signing_version_def addr_format_of_def split: option.splits sum.splits)
  with a b that show thesis by blast
qed

lemma complete_tx_ok:
  assumes "standard_coin coin" "request_kept coin outs us t" "length us \<le> MAX_LIST_SIZE"
    and "\<forall>u \<in> set us. length (op_hash (us_outpoint u)) = 32" "length outs + 2 \<le> MAX_LIST_SIZE"
    and "length inputs = length (is_inputs t)" "map ti_previous_output inputs = map ui_previous_output (is_inputs t)"
    and "list_all (signed_ok version) inputs" "version = WitnessV0 \<longrightarrow> \<not> uc_overwintered coin"
  shows "tx_ok StandardWithWitness ((complete_tx t inputs)\<lparr>tx_hash_algo := DSHA256\<rparr>)"
proof -
  obtain k where k: "is_inputs t = map unsigned_of_unspent (take k us)" using assms(2) by (auto simp: request_kept_def)
  have "set (map ti_previous_output inputs) \<subseteq> us_outpoint ` set us"
    unfolding assms(7) k by (auto simp: unsigned_of_unspent_def dest: in_set_takeD)
  then have "length (op_hash (ti_previous_output i)) = 32" if "i \<in> set inputs" for i
    using that assms(4) by fastforce
  then have "list_all (\<lambda>i. input_ok (strip_witness i)) inputs" "list_all witness_ok inputs"
    using assms(8) by (auto simp: list_all_iff input_ok_def strip_witness_def out_point_ok_def signed_ok_def)
  moreover have "length inputs \<le> MAX_LIST_SIZE" using assms(3,6) k by simp
  moreover have "is_inputs t \<noteq> []" using assms(2) by (simp add: request_kept_def)
  then have "inputs \<noteq> []" using assms(6) by force
  moreover have "list_ex input_has_witness inputs \<longrightarrow> \<not> uc_overwintered coin"
    using assms(8,9) by (auto simp: list_ex_iff list_all_iff input_has_witness_def signed_ok_def)
  ultimately show ?thesis
    using assms(1,2,5)
    by (auto simp: request_kept_def tx_ok_def complete_tx_def standard_coin_def tx_lists_ok_def tx_time_ok_def tx_shielded_ok_def
        tx_zcash_ok_def tx_has_witness_def)
qed

lemma sent_tx_read_back:
  assumes "generate_and_send_tx coin rpc us None SendExact outs c = Some (Inr tx, c')"
    and "standard_coin coin" "outs \<noteq> []" "list_all output_ok outs" "length outs + 2 \<le> MAX_LIST_SIZE"
    and "\<And>a s. uc_my_address coin = Some a \<Longrightarrow> output_script a P2PKH = Some s \<Longrightarrow> xo_script_pubkey (outs ! 0) \<noteq> s"
    and "length us \<le> MAX_LIST_SIZE" "\<forall>u \<in> set us. length (op_hash (us_outpoint u)) = 32"
    and "signing_version coin = WitnessV0 \<longrightarrow> \<not> uc_overwintered coin"
  shows "read_utxo_tx (utxo_tx_hex tx) = TxRead (tx\<lparr>tx_hash_algo := DSHA256\<rparr>) \<and> tx_outputs tx \<noteq> [] \<and> tx_outputs tx ! 0 = outs ! 0 \<and>
         tx_hash_algo tx = uc_tx_hash_algo coin"
proof (rule generate_and_send_Inr [OF assms(1)])
  fix kp t data script
  assume kp: "uc_key_pair coin = Some kp"
    and built: "tx_builder_build coin rpc (with_fee_policy SendExact (add_outputs outs (add_available_inputs us (tx_builder_new coin rpc))))
       = Some (Inr (t, data))"
    and signed: "sign_tx (uc_hashes coin) t kp script (signing_version coin) (uc_fork_id coin) = Some (Inr tx)"
  have kept: "request_kept coin outs us t" by (rule build_keeps [OF built assms(2-4,6)])
  have "key_pair_ok kp" using assms(2) kp by (simp add: standard_coin_def)
  then obtain inputs where tx: "tx = complete_tx t inputs" and inputs: "length inputs = length (is_inputs t)"
    "map ti_previous_output inputs = map ui_previous_output (is_inputs t)" "list_all (signed_ok (signing_version coin)) inputs"
    using sign_tx_ok [OF signed] by blast
  have "tx_ok StandardWithWitness (tx\<lparr>tx_hash_algo := DSHA256\<rparr>)"
    unfolding tx by (rule complete_tx_ok [OF assms(2) kept assms(7,8,5) inputs assms(9)])
  then have "read_utxo_tx (utxo_tx_hex tx) = TxRead (tx\<lparr>tx_hash_algo := DSHA256\<rparr>)"
    by (rule read_back) (simp add: tx complete_tx_def plain_tx_def)
  then show ?thesis using kept by (simp add: tx complete_tx_def request_kept_def)
qed

section \<open>Payments\<close>

lemma p2sh_not_own_script:
  assumes "build_p2sh h = Some p" "output_script a P2PKH = Some q"
  shows "p \<noteq> q"
  using assms by (auto simp: build_p2sh_def output_script_def build_witness_script_def build_p2pkh_def push_bytes_iff push_opcode_def
      Let_def opcode_defs split: if_splits)

lemma swap_outputs:
  assumes "generate_swap_payment_outputs coin rpc tlock my other sh amount = Some (Inr (address, outs))"
  obtains redeem sat script op_return where "length my = 33 \<or> length my = 65" "length other = 33 \<or> length other = 65"
    "payment_script (uc_hashes coin) tlock sh my other = Some redeem"
    "sat_from_big_decimal rpc amount (uc_decimals coin) = Inr sat" "build_p2sh (h_dhash160 (uc_hashes coin) redeem) = Some script"
    "outs = [\<lparr>xo_value = sat, xo_script_pubkey = script\<rparr>, \<lparr>xo_value = 0, xo_script_pubkey = op_return\<rparr>]"
    "length script \<le> 1000" "length op_return \<le> 1000"
proof -
  have keys: "length my = 33 \<or> length my = 65" "length other = 33 \<or> length other = 65"
    using assms by (auto simp: generate_swap_payment_outputs_def public_from_slice_def split: option.splits if_splits)
  then have pub: "public_from_slice my = Some my" "public_from_slice other = Some other" by (auto simp: public_from_slice_def)
  obtain redeem where redeem: "payment_script (uc_hashes coin) tlock sh my other = Some redeem"
    using assms pub by (auto simp: generate_swap_payment_outputs_def split: option.splits)
  obtain sat where sat: "sat_from_big_decimal rpc amount (uc_decimals coin) = Inr sat"
    using assms pub redeem by (auto simp: generate_swap_payment_outputs_def Let_def split: sum.splits)
  obtain script op_return where s: "build_p2sh (h_dhash160 (uc_hashes coin) redeem) = Some script"
    "(if uc_ticker coin = ''ARRR'' then push_data redeem (push_opcode OP_RETURN []) else push_bytes sh (push_opcode OP_RETURN [])) = Some op_return"
    "outs = [\<lparr>xo_value = sat, xo_script_pubkey = script\<rparr>, \<lparr>xo_value = 0, xo_script_pubkey = op_return\<rparr>]"
    using assms pub redeem sat by (auto simp: generate_swap_payment_outputs_def Let_def split: option.splits)
  have "length op_return \<le> 1000"
    using s(2) payment_script_length [OF redeem] push_data_length [of redeem "push_opcode OP_RETURN []" op_return]
    by (auto simp: push_bytes_iff push_opcode_def split: if_splits)
  moreover have "length script \<le> 1000"
    using s(1) by (auto simp: build_p2sh_def push_bytes_iff push_opcode_def split: if_splits)
  ultimately show thesis using keys redeem sat s(1,3) by (intro that)
qed

lemma map_sum_Inr: "map_sum f g a = Inr t \<longleftrightarrow> (\<exists>x. a = Inr x \<and> t = g x)"
  by (cases a) auto

lemma send_payment_Inr:
  assumes "send_payment_outputs coin rpc g c = Some (Inr t, c')"
  obtains address outs us tx where "g = Some (Inr (address, outs))" "get_unspent_ordered_list coin rpc c = Some (Inr us)"
    "generate_and_send_tx coin rpc us None SendExact outs c = Some (Inr tx, c')" "t = transaction_enum coin tx"
proof -
  obtain address outs where g: "g = Some (Inr (address, outs))"
    using assms by (auto simp: send_payment_outputs_def split: option.splits sum.splits)
  then obtain tx where tx: "send_outputs_from_my_address coin rpc outs c = Some (Inr tx, c')" "t = transaction_enum coin tx"
    using assms by (auto simp: send_payment_outputs_def map_sum_Inr split: sum.splits if_splits)
  obtain us where "get_unspent_ordered_list coin rpc c = Some (Inr us)"
    "generate_and_send_tx coin rpc us None SendExact outs c = Some (Inr tx, c')"
    using tx(1) by (auto simp: send_outputs_from_my_address_def split: option.splits sum.splits)
  with g tx(2) that show thesis by blast
qed

text \<open>What the two sides of a swap have agreed on, and what the server of the other side answers about the payment.\<close>

definition terms_agree :: "utxo_coin \<Rightarrow> utxo_coin \<Rightarrow> utxo_rpc \<Rightarrow> utxo_rpc \<Rightarrow> send_payment_args \<Rightarrow> validate_payment_input \<Rightarrow> bool" where
  "terms_agree payer other prpc orpc args input \<longleftrightarrow>
     same_chain other payer \<and> uc_decimals other = uc_decimals payer \<and> ur_to_u64 orpc = ur_to_u64 prpc \<and>
     (\<exists>kp okp. uc_key_pair payer = Some kp \<and> uc_key_pair other = Some okp \<and>
        vpi_other_pub input = kp_public kp \<and> spa_other_pubkey args = kp_public okp) \<and>
     vpi_time_lock input = spa_time_lock args \<and> vpi_secret_hash input = spa_secret_hash args \<and>
     vpi_amount input = spa_amount args \<and> vpi_watcher_reward input = None"

lemma sent_payment_accepted:
  assumes "send_payment_outputs payer prpc (generate_swap_payment_outputs payer prpc (spa_time_lock args) (kp_public kp)
             (spa_other_pubkey args) (spa_secret_hash args) (spa_amount args)) c = Some (Inr t, c')"
    and "uc_key_pair payer = Some kp" "standard_coin payer" "terms_agree payer other prpc orpc args input"
    and "\<And>us. get_unspent_ordered_list payer prpc c = Some (Inr us) \<Longrightarrow>
           length us \<le> MAX_LIST_SIZE \<and> (\<forall>u \<in> set us. length (op_hash (us_outpoint u)) = 32)"
    and "signing_version payer = WitnessV0 \<longrightarrow> \<not> uc_overwintered payer"
    and "vpi_payment_tx input = tx_hex t" "ur_transaction_bytes orpc 0 (transaction.tx_hash t) = Inr (tx_hex t)"
    and "uc_electrum other \<and> uc_spv_conf other \<and> vpi_confirmations input \<noteq> 0 \<longrightarrow>
           (\<forall>tx. utxo_tx_hex tx = tx_hex t \<longrightarrow> ur_spv_proof orpc tx = Inr ())"
  shows "validate_maker_payment other orpc input = Some (Inr ()) \<and> validate_taker_payment other orpc input = Some (Inr ())"
proof (rule send_payment_Inr [OF assms(1)])
  fix address outs us tx
  assume g: "generate_swap_payment_outputs payer prpc (spa_time_lock args) (kp_public kp) (spa_other_pubkey args)
      (spa_secret_hash args) (spa_amount args) = Some (Inr (address, outs))"
    and us: "get_unspent_ordered_list payer prpc c = Some (Inr us)"
    and sent: "generate_and_send_tx payer prpc us None SendExact outs c = Some (Inr tx, c')" and t: "t = transaction_enum payer tx"
  obtain redeem sat script op_return where o: "length (kp_public kp) = 33 \<or> length (kp_public kp) = 65"
      "payment_script (uc_hashes payer) (spa_time_lock args) (spa_secret_hash args) (kp_public kp) (spa_other_pubkey args) = Some redeem"
      "sat_from_big_decimal prpc (spa_amount args) (uc_decimals payer) = Inr sat"
      "build_p2sh (h_dhash160 (uc_hashes payer) redeem) = Some script"
      "outs = [\<lparr>xo_value = sat, xo_script_pubkey = script\<rparr>, \<lparr>xo_value = 0, xo_script_pubkey = op_return\<rparr>]"
      "length script \<le> 1000" "length op_return \<le> 1000"
    by (rule swap_outputs [OF g])
  have read: "read_utxo_tx (utxo_tx_hex tx) = TxRead (tx\<lparr>tx_hash_algo := DSHA256\<rparr>)" "tx_outputs tx \<noteq> []"
    "tx_outputs tx ! 0 = \<lparr>xo_value = sat, xo_script_pubkey = script\<rparr>" "tx_hash_algo tx = uc_tx_hash_algo payer"
    using sent_tx_read_back [OF sent assms(3)] assms(5) [OF us] assms(6) o(5-7) p2sh_not_own_script [OF o(4)]
    by (auto simp: output_ok_def MAX_LIST_SIZE_def)
  obtain okp where agree: "same_chain other payer" "uc_decimals other = uc_decimals payer" "ur_to_u64 orpc = ur_to_u64 prpc"
      "uc_key_pair other = Some okp" "vpi_other_pub input = kp_public kp" "spa_other_pubkey args = kp_public okp"
      "vpi_time_lock input = spa_time_lock args" "vpi_secret_hash input = spa_secret_hash args"
      "vpi_amount input = spa_amount args" "vpi_watcher_reward input = None"
    using assms(2,4) by (auto simp: terms_agree_def)
  have algo: "uc_hashes other = uc_hashes payer" "tx\<lparr>tx_hash_algo := uc_tx_hash_algo other\<rparr> = tx"
    using agree(1) read(4) by (simp_all add: same_chain_def)
  have "validate_payment other orpc tx 0 (kp_public kp) (kp_public okp) (spa_secret_hash args) (spa_amount args) None
      (spa_time_lock args) (vpi_confirmations input) = Some (Inr ())"
  proof (rule validate_payment_accepts)
    show "sat_from_big_decimal orpc (spa_amount args) (uc_decimals other) = Inr sat"
      using o(3) agree(2,3) by (simp add: sat_from_big_decimal_def)
    show "payment_script (uc_hashes other) (spa_time_lock args) (spa_secret_hash args) (kp_public kp) (kp_public okp) = Some redeem"
      using o(2) agree(6) algo(1) by simp
    show "ur_transaction_bytes orpc 0 (rev (utxo_tx_id other tx)) = Inr (ser_transaction True tx)"
      using assms(8) t same_chain_tx_id [OF agree(1)] by (simp add: transaction_enum_def utxo_tx_hex_ser)
    show "0 < length (tx_outputs tx)" "xo_value (tx_outputs tx ! 0) = sat"
      "p2sh_of (uc_hashes other) redeem = Some (xo_script_pubkey (tx_outputs tx ! 0))"
      using read(2,3) o(4) algo(1) by (simp_all add: p2sh_of_def)
    show "uc_electrum other \<and> uc_spv_conf other \<and> vpi_confirmations input \<noteq> 0 \<longrightarrow> ur_spv_proof orpc tx = Inr ()"
      using assms(9) t by simp
  qed
  then show ?thesis
    using read(1) agree algo(2) o(1) assms(7) t
    by (simp add: validate_maker_payment_def validate_taker_payment_def derive_htlc_key_pair_def public_from_slice_def DEFAULT_SWAP_VOUT_def)
qed

text \<open>
  C3. The payment that a maker sends is accepted by the taker, and the payment that a taker sends (without a watcher
  reward) is accepted by the maker: when both agree on the terms and the server of the other side knows the transaction, the
  validation of its bytes succeeds.
\<close>

theorem sent_payment_is_accepted:
  assumes "send_maker_payment payer prpc args c = Some (Inr t, c') \<or>
           send_taker_payment payer prpc args c = Some (Inr t, c') \<and> spa_watcher_reward args = None"
    and "standard_coin payer" "terms_agree payer other prpc orpc args input"
    and "\<And>us. get_unspent_ordered_list payer prpc c = Some (Inr us) \<Longrightarrow>
           length us \<le> MAX_LIST_SIZE \<and> (\<forall>u \<in> set us. length (op_hash (us_outpoint u)) = 32)"
    and "signing_version payer = WitnessV0 \<longrightarrow> \<not> uc_overwintered payer"
    and "vpi_payment_tx input = tx_hex t" "ur_transaction_bytes orpc 0 (transaction.tx_hash t) = Inr (tx_hex t)"
    and "uc_electrum other \<and> uc_spv_conf other \<and> vpi_confirmations input \<noteq> 0 \<longrightarrow>
           (\<forall>tx. utxo_tx_hex tx = tx_hex t \<longrightarrow> ur_spv_proof orpc tx = Inr ())"
  shows "validate_maker_payment other orpc input = Some (Inr ()) \<and> validate_taker_payment other orpc input = Some (Inr ())"
proof -
  obtain kp where kp: "uc_key_pair payer = Some kp" using assms(3) by (auto simp: terms_agree_def)
  then have "send_payment_outputs payer prpc (generate_swap_payment_outputs payer prpc (spa_time_lock args) (kp_public kp)
             (spa_other_pubkey args) (spa_secret_hash args) (spa_amount args)) c = Some (Inr t, c')"
    using assms(1) by (auto simp: send_maker_payment_def send_taker_payment_def derive_htlc_key_pair_def)
  from sent_payment_accepted [OF this kp assms(2-8)] show ?thesis .
qed

lemma sample_sign:
  "\<exists>tx. sign_tx sample_hashes ((sample_chosen rpc)\<lparr>is_outputs := sample_outputs @ [sample_change]\<rparr>) (sample_key 5)
     (xo_script_pubkey sample_change) Base 0 = Some (Inr tx)"
proof -
  let ?t = "(sample_chosen rpc)\<lparr>is_outputs := sample_outputs @ [sample_change]\<rparr>"
  have t: "is_inputs ?t = [unsigned_of_unspent sample_unspent]" "\<not> is_overwintered ?t"
    by (simp_all add: sample_chosen_def transaction_preimage_def sample_coin_def)
  obtain h where h: "signature_hash sample_hashes ?t 0 200000 (xo_script_pubkey sample_change) Base 1 = Some h"
    using signature_hash_Some [of 0 ?t sample_hashes 200000 "xo_script_pubkey sample_change" Base 1] t by auto
  have script: "build_p2pkh (h_dhash160 sample_hashes (kp_public (sample_key 5))) = Some (xo_script_pubkey sample_change)"
    by (simp add: build_p2pkh_def push_bytes_iff push_opcode_def sample_hashes_def sample_change_def)
  obtain b where b: "push_data (sig_script_sig (replicate 71 5) 0) [] = Some b"
    using push_data_exists [of "sig_script_sig (replicate 71 5) 0" "[]"] by (auto simp: sig_script_sig_def)
  obtain s where "push_data (kp_public (sample_key 5)) b = Some s"
    using push_data_exists [of "kp_public (sample_key 5)" b] by (auto simp: sample_key_def)
  with b have s: "script_sig_with_pub (kp_public (sample_key 5)) 0 (replicate 71 5) = Some s"
    by (simp add: script_sig_with_pub_def)
  have amount: "ui_amount (unsigned_of_unspent sample_unspent) = 200000" by (simp add: unsigned_of_unspent_def sample_unspent_def)
  have "p2pkh_spend sample_hashes ?t 0 (sample_key 5) (xo_script_pubkey sample_change) Base 0 =
      Some (Inr (signed_input_of (unsigned_of_unspent sample_unspent) s []))"
    using t(1) h s
    by (simp add: p2pkh_spend_def get_input_def script spend_input_def calc_and_sign_sighash_def signature_hash_to_sign_def amount
        p2pkh_spend_with_signature_def) (simp add: sample_key_def p2pkh_spend_with_signature_def)
  then show ?thesis using t(1) by (simp add: sign_tx_def)
qed

definition sample_send_args :: send_payment_args where
  "sample_send_args = \<lparr>spa_time_lock_duration = 0, spa_time_lock = 1600000000, spa_other_pubkey = 2 # replicate 32 4,
     spa_secret_hash = replicate 20 9, spa_amount = 1 / 1000, spa_swap_contract_address = None, spa_swap_unique_data = [],
     spa_payment_instructions = None, spa_watcher_reward = None, spa_wait_for_confirmation_until = 0\<rparr>"

lemma sample_unspents:
  "get_unspent_ordered_list (sample_coin 5) (sample_rpc [sample_unspent] h r) (recently_spent_new []) = Some (Inr [sample_unspent])"
proof -
  have "replace_spent_outputs_with_cache (recently_spent_new []) [sample_unspent] = Some [sample_unspent]"
    by (subst replace_spent_outputs_with_cache.simps) (simp add: unspent_replacements_def unspent_kept_def recently_spent_new_def)
  then show ?thesis
    by (simp add: get_unspent_ordered_list_def get_all_unspent_ordered_list_def sample_coin_def sample_rpc_def sort_dedup_unspents_def)
qed

lemma sample_chosen_algo: "is_hash_algo (sample_chosen rpc) = DSHA256"
  by (simp add: sample_chosen_def transaction_preimage_def sample_coin_def)

lemma sample_generated:
  "\<exists>tx. generate_and_send_tx (sample_coin 5) (sample_rpc [sample_unspent] h r) [sample_unspent] None SendExact sample_outputs c =
     Some (Inr tx, add_spent [\<lparr>us_outpoint = ui_previous_output (unsigned_of_unspent sample_unspent),
       us_value = ui_amount (unsigned_of_unspent sample_unspent), us_height = None\<rparr>] (utxo_tx_id (sample_coin 5) tx) (tx_outputs tx) c) \<and>
     tx_outputs tx = sample_outputs @ [sample_change] \<and> tx_hash_algo tx = DSHA256"
proof -
  let ?rpc = "sample_rpc [sample_unspent] h r"
  let ?t = "(sample_chosen ?rpc)\<lparr>is_outputs := sample_outputs @ [sample_change]\<rparr>"
  have coin: "uc_fork_id (sample_coin 5) = 0" "uc_signature_version (sample_coin 5) = Base" "uc_my_address (sample_coin 5) =
      Some \<lparr>ad_prefix = 0, ad_t_addr_prefix = 0, ad_hrp = None, ad_hash = AddressHash (replicate 20 9), ad_addr_format = Standard\<rparr>"
    by (simp_all add: sample_coin_def)
  obtain data where b: "tx_builder_build (sample_coin 5) ?rpc (sample_builder ?rpc) = Some (Inr (?t, data))"
    by (rule sample_build)
  obtain tx where tx: "sign_tx sample_hashes ?t (sample_key 5) (xo_script_pubkey sample_change) Base 0 = Some (Inr tx)"
    using sample_sign by blast
  have "key_pair_ok (sample_key 5)" by (simp add: key_pair_ok_def sample_key_def MAX_DER_SIGNATURE_LEN_def)
  then obtain signed_inputs where "tx = complete_tx ?t signed_inputs" by (rule sign_tx_ok [OF tx])
  then have form: "tx_outputs tx = sample_outputs @ [sample_change]" "tx_hash_algo tx = DSHA256"
    by (simp_all add: complete_tx_def sample_chosen_algo)
  have inputs: "is_inputs (sample_chosen ?rpc) = [unsigned_of_unspent sample_unspent]" by (simp add: sample_chosen_def)
  have script: "build_p2pkh (replicate 20 9) = Some (xo_script_pubkey sample_change)"
    by (simp add: build_p2pkh_def push_bytes_iff push_opcode_def sample_change_def)
  have sent: "ur_send_transaction ?rpc tx = Inr []" by (simp add: sample_rpc_def)
  show ?thesis
    using b tx script sent form
    by (intro exI [of _ tx]) (simp add: generate_and_send_tx_def coin utxo_coin_sel sample_builder_def [symmetric] inputs Let_def)
qed

lemma sample_sent:
  "\<exists>t c. send_maker_payment (sample_coin 5) (sample_rpc [sample_unspent] h r) sample_send_args (recently_spent_new []) = Some (Inr t, c)"
proof -
  let ?rpc = "sample_rpc [sample_unspent] h r"
  obtain redeem where redeem: "payment_script sample_hashes 1600000000 (replicate 20 9) (2 # replicate 32 5) (2 # replicate 32 4) = Some redeem"
    using sample_redeem by blast
  have coin: "uc_ticker (sample_coin 5) = ''BTC''" "uc_electrum (sample_coin 5)" "uc_fork_id (sample_coin 5) = 0"
    "uc_signature_version (sample_coin 5) = Base" "uc_my_address (sample_coin 5) =
      Some \<lparr>ad_prefix = 0, ad_t_addr_prefix = 0, ad_hrp = None, ad_hash = AddressHash (replicate 20 9), ad_addr_format = Standard\<rparr>"
    by (simp_all add: sample_coin_def)
  have "\<exists>address. generate_swap_payment_outputs (sample_coin 5) ?rpc 1600000000 (2 # replicate 32 5) (2 # replicate 32 4) (replicate 20 9) (1 / 1000)
      = Some (Inr (address, sample_outputs))"
    using redeem sample_p2sh [of redeem, unfolded p2sh_of_def] sample_sat [of "[sample_unspent]" h r]
    by (simp add: generate_swap_payment_outputs_def public_from_slice_def utxo_coin_sel coin push_bytes_iff push_opcode_def sample_outputs_def)
  then obtain address where g: "generate_swap_payment_outputs (sample_coin 5) ?rpc 1600000000 (2 # replicate 32 5) (2 # replicate 32 4)
      (replicate 20 9) (1 / 1000) = Some (Inr (address, sample_outputs))" by blast
  obtain tx c where "generate_and_send_tx (sample_coin 5) ?rpc [sample_unspent] None SendExact sample_outputs (recently_spent_new [])
      = Some (Inr tx, c)"
    using sample_generated by blast
  then obtain c where "send_payment_outputs (sample_coin 5) ?rpc (Some (Inr (address, sample_outputs))) (recently_spent_new [])
      = Some (Inr (transaction_enum (sample_coin 5) tx), c)"
    by (auto simp: send_payment_outputs_def coin send_outputs_from_my_address_def sample_unspents)
  then show ?thesis
    using g by (auto simp: send_maker_payment_def derive_htlc_key_pair_def utxo_coin_sel sample_send_args_def)
qed

theorem sent_payment_is_accepted_witness:
  "\<exists>t c. send_maker_payment (sample_coin 5) (sample_rpc [sample_unspent] [] id) sample_send_args (recently_spent_new []) = Some (Inr t, c) \<and>
     validate_maker_payment (sample_coin 4) (sample_rpc [] [] (\<lambda>_. tx_hex t)) (sample_validation\<lparr>vpi_payment_tx := tx_hex t\<rparr>) = Some (Inr ())"
proof -
  obtain t c where t: "send_maker_payment (sample_coin 5) (sample_rpc [sample_unspent] [] id) sample_send_args (recently_spent_new []) = Some (Inr t, c)"
    using sample_sent by blast
  have "terms_agree (sample_coin 5) (sample_coin 4) (sample_rpc [sample_unspent] [] id) (sample_rpc [] [] (\<lambda>_. tx_hex t)) sample_send_args
      (sample_validation\<lparr>vpi_payment_tx := tx_hex t\<rparr>)"
    by (simp add: terms_agree_def sample_same_chain utxo_coin_sel sample_send_args_def sample_validation_def) (simp add: sample_rpc_def)
  moreover have "signing_version (sample_coin 5) = Base"
    by (simp add: signing_version_def addr_format_of_def sample_coin_def)
  moreover have "length (op_hash (us_outpoint sample_unspent)) = 32" by (simp add: sample_unspent_def)
  moreover have "ur_transaction_bytes (sample_rpc [] [] (\<lambda>_. tx_hex t)) 0 (transaction.tx_hash t) = Inr (tx_hex t)"
    by (simp add: sample_rpc_def)
  ultimately show ?thesis
    using t sent_payment_is_accepted [of "sample_coin 5" "sample_rpc [sample_unspent] [] id" sample_send_args "recently_spent_new []" t c
        "sample_coin 4" "sample_rpc [] [] (\<lambda>_. tx_hex t)" "sample_validation\<lparr>vpi_payment_tx := tx_hex t\<rparr>"] sample_coin_standard
    by (simp add: sample_unspents utxo_coin_sel MAX_LIST_SIZE_def)
qed

end
