(* ===== verification/RecentlySpentProps.thy ===== *)
theory RecentlySpentProps
  imports SentPaymentProps
begin

text \<open>
  Properties of the cache of recently spent outputs: it keeps a wallet from spending an output twice although the
  server still lists it, and following it always ends.
\<close>

section \<open>The maps of the cache\<close>

lemma fold_map_upd: "fold (\<lambda>i f. f(i \<mapsto> y)) xs m z = (if z \<in> set xs then Some y else m z)"
  by (induction xs arbitrary: m) auto

lemma set_fold_insert: "set (fold List.insert xs ys) = set xs \<union> set ys"
  by (induction xs arbitrary: ys) auto

text \<open>No entry is lost, and what an entry has is new or was there before.\<close>

definition extends_map ::
  "cached_unspent set \<Rightarrow> (cached_unspent \<rightharpoonup> cached_unspent list) \<Rightarrow> (cached_unspent \<rightharpoonup> cached_unspent list) \<Rightarrow> bool" where
  "extends_map new m m' \<longleftrightarrow> dom m' = dom m \<and>
     (\<forall>i xs. m' i = Some xs \<longrightarrow> (\<forall>x \<in> set xs. x \<in> new \<or> (\<exists>ys. m i = Some ys \<and> x \<in> set ys)))"

lemma extends_map_refl: "extends_map new m m"
  by (auto simp: extends_map_def)

lemma extends_map_trans: "extends_map new a b \<Longrightarrow> extends_map new b c \<Longrightarrow> extends_map new a c"
  unfolding extends_map_def by (metis (no_types))

lemma extend_chain_extends: "extends_map (set new) m (fst (extend_chain new input i (m, prev)))"
  by (auto simp: extend_chain_def extends_map_def set_fold_insert split: option.splits if_splits)

lemma fold_extends:
  assumes "\<And>i m prev. extends_map new m (fst (f i (m, prev)))"
  shows "extends_map new m (fst (fold f is (m, prev)))"
proof (induction "is" arbitrary: m prev)
  case (Cons i "is")
  obtain m1 prev1 where "f i (m, prev) = (m1, prev1)" by fastforce
  then show ?case using assms [of m i prev] Cons.IH [of m1 prev1] extends_map_trans by fastforce
qed (simp add: extends_map_refl)

lemma extend_chains_extends: "extends_map (set new) m (fst (extend_chains back new i (m, prev)))"
  by (auto simp: extend_chains_def extends_map_refl fold_extends extend_chain_extends split: option.split)

lemma add_spent_map:
  obtains m where "extends_map (set (own_outputs (rs_for_script_pubkey c) h outs)) (rs_input_to_output c) m"
    "\<And>i. rs_input_to_output (add_spent us h outs c) i =
       (if i \<in> cached_of ` set us then Some (remdups (own_outputs (rs_for_script_pubkey c) h outs)) else m i)"
proof -
  define new where "new = remdups (own_outputs (rs_for_script_pubkey c) h outs)"
  define m where "m = fst (fold (extend_chains (rs_output_to_input c) new) (remdups (map cached_of us)) (rs_input_to_output c, []))"
  have "extends_map (set new) (rs_input_to_output c) m"
    unfolding m_def by (rule fold_extends) (rule extend_chains_extends)
  moreover have "rs_input_to_output (add_spent us h outs c) i = (if i \<in> cached_of ` set us then Some new else m i)" for i
    by (simp add: add_spent_def Let_def new_def m_def fold_map_upd split: prod.split)
  ultimately show thesis using that unfolding new_def by simp
qed

lemma add_spent_script [simp]: "rs_for_script_pubkey (add_spent us h outs c) = rs_for_script_pubkey c"
  by (simp add: add_spent_def Let_def split: prod.split)

lemma add_spent_dom:
  "dom (rs_input_to_output (add_spent us h outs c)) = cached_of ` set us \<union> dom (rs_input_to_output c)"
proof (rule add_spent_map [where us = us and h = h and outs = outs and c = c])
  fix m
  assume ext: "extends_map (set (own_outputs (rs_for_script_pubkey c) h outs)) (rs_input_to_output c) m"
    and m: "\<And>i. rs_input_to_output (add_spent us h outs c) i =
       (if i \<in> cached_of ` set us then Some (remdups (own_outputs (rs_for_script_pubkey c) h outs)) else m i)"
  have "dom (rs_input_to_output (add_spent us h outs c)) = cached_of ` set us \<union> dom m"
    using m by (auto simp: dom_def)
  then show ?thesis using ext by (simp add: extends_map_def)
qed

lemma add_spent_edge:
  assumes "rs_input_to_output (add_spent us h outs c) i = Some xs" "x \<in> set xs"
  shows "x \<in> set (own_outputs (rs_for_script_pubkey c) h outs) \<or> (\<exists>ys. rs_input_to_output c i = Some ys \<and> x \<in> set ys)"
  using assms
  by (rule_tac add_spent_map [where us = us and h = h and outs = outs and c = c]) (auto simp: extends_map_def split: if_splits)

section \<open>Following the cache\<close>

text \<open>Outputs that the cache gives are not spent, and are among the given ones or outputs of own transactions.\<close>

definition cache_values :: "(out_point \<Rightarrow> u64) \<Rightarrow> recently_spent \<Rightarrow> bool" where
  "cache_values val c \<longleftrightarrow>
     (\<forall>i xs. rs_input_to_output c i = Some xs \<longrightarrow> (\<forall>x \<in> set xs. cu_value x = val (cu_outpoint x)))"

definition true_values :: "(out_point \<Rightarrow> u64) \<Rightarrow> unspent_info list \<Rightarrow> bool" where
  "true_values val us \<longleftrightarrow> (\<forall>u \<in> set us. us_value u = val (us_outpoint u))"

lemma set_unspent_replacements:
  "x \<in> set (unspent_replacements c us) \<longleftrightarrow> (\<exists>u \<in> set us. \<exists>xs. rs_input_to_output c (cached_of u) = Some xs \<and> x \<in> set xs)"
  by (auto simp: unspent_replacements_def eq_commute [of "Some _"] split: option.splits)

lemma cached_of_unspent [simp]: "cached_of (unspent_of x) = x"
  by (cases x) (simp add: cached_of_def unspent_of_def)

lemma true_values_step:
  assumes "cache_values val c" "true_values val us"
  shows "true_values val (remdups (unspent_kept c us @ map unspent_of (unspent_replacements c us)))"
proof -
  have "cu_value x = val (cu_outpoint x)" if "x \<in> set (unspent_replacements c us)" for x
    using that assms(1) by (auto simp: set_unspent_replacements cache_values_def)
  then show ?thesis using assms(2) by (auto simp: true_values_def unspent_kept_def unspent_of_def)
qed

lemma replaced_unspent:
  assumes "replace_spent_outputs_with_cache c us = Some r"
  shows "cache_values val c \<longrightarrow> true_values val us \<longrightarrow> true_values val r \<and> (\<forall>u \<in> set r. rs_input_to_output c (cached_of u) = None)"
proof (rule replace_spent_outputs_with_cache.raw_induct [OF _ assms,
      where P = "\<lambda>c us r. cache_values val c \<longrightarrow> true_values val us \<longrightarrow>
        true_values val r \<and> (\<forall>u \<in> set r. rs_input_to_output c (cached_of u) = None)"])
  fix loop c us r
  assume IH: "\<And>c us r. loop c us = Some r \<Longrightarrow> cache_values val c \<longrightarrow> true_values val us \<longrightarrow>
        true_values val r \<and> (\<forall>u \<in> set r. rs_input_to_output c (cached_of u) = None)"
    and step: "(if unspent_replacements c us = [] then Some (unspent_kept c us)
        else loop c (remdups (unspent_kept c us @ map unspent_of (unspent_replacements c us)))) = Some r"
  show "cache_values val c \<longrightarrow> true_values val us \<longrightarrow>
        true_values val r \<and> (\<forall>u \<in> set r. rs_input_to_output c (cached_of u) = None)"
  proof (cases "unspent_replacements c us = []")
    case True
    then show ?thesis using step by (auto simp: unspent_kept_def true_values_def)
  next
    case False
    then show ?thesis using step IH true_values_step by (metis (no_types, lifting))
  qed
qed

lemma unique_outpoints_props:
  "distinct (map us_outpoint (unique_outpoints seen us))" "set (unique_outpoints seen us) \<subseteq> set us"
  "set (map us_outpoint (unique_outpoints seen us)) \<inter> set seen = {}"
proof (induction us arbitrary: seen)
  case (Cons u us)
  { case 1 show ?case using Cons(1) [of seen] Cons(1) [of "us_outpoint u # seen"] Cons(3) [of "us_outpoint u # seen"] by auto }
  { case 2 show ?case using Cons(2) [of seen] Cons(2) [of "us_outpoint u # seen"] by auto }
  { case 3 show ?case using Cons(3) [of seen] Cons(3) [of "us_outpoint u # seen"] by auto }
qed simp_all

lemma sort_dedup_props:
  "distinct (map us_outpoint (sort_dedup_unspents us))" "set (sort_dedup_unspents us) \<subseteq> set us"
  using unique_outpoints_props(1,2) [of "[]" us] by (auto simp: sort_dedup_unspents_def distinct_map)

lemma split_mature_subset:
  "split_mature confs n txs us = Inr (mature, immature) \<Longrightarrow>
   set mature \<subseteq> set us \<and> (distinct (map us_outpoint us) \<longrightarrow> distinct (map us_outpoint mature))"
proof (induction us arbitrary: mature immature)
  case (Cons u us)
  obtain m i where "split_mature confs n txs us = Inr (m, i)" "mature = m \<or> mature = u # m"
    using Cons.prems by (auto split: option.splits sum.splits if_splits)
  then show ?case using Cons.IH [of m i] by (auto simp: subset_iff image_iff)
qed simp

text \<open>The outputs that are offered for spending.\<close>

lemma all_unspents:
  assumes "get_all_unspent_ordered_list rpc c = Some (Inr us)" "cache_values val c"
    and "\<And>us. ur_list_unspent rpc = Inr us \<Longrightarrow> true_values val us"
  shows "true_values val us \<and> (\<forall>u \<in> set us. rs_input_to_output c (cached_of u) = None) \<and> distinct (map us_outpoint us)"
proof -
  obtain us0 r where us0: "ur_list_unspent rpc = Inr us0" "replace_spent_outputs_with_cache c (remdups us0) = Some r"
    "us = sort_dedup_unspents r"
    using assms(1) by (auto simp: get_all_unspent_ordered_list_def split: sum.splits)
  have "true_values val (remdups us0)" using assms(3) [OF us0(1)] by (simp add: true_values_def)
  then have "true_values val r \<and> (\<forall>u \<in> set r. rs_input_to_output c (cached_of u) = None)"
    using replaced_unspent [OF us0(2)] assms(2) by blast
  then show ?thesis using sort_dedup_props [of r] us0(3) by (auto simp: true_values_def)
qed

lemma offered_unspents:
  assumes "get_unspent_ordered_list coin rpc c = Some (Inr us)" "cache_values val c"
    and "\<And>us. ur_list_unspent rpc = Inr us \<Longrightarrow> true_values val us"
  shows "true_values val us \<and> (\<forall>u \<in> set us. rs_input_to_output c (cached_of u) = None) \<and> distinct (map us_outpoint us)"
proof (cases "uc_check_utxo_maturity coin")
  case True
  then obtain all immature where all: "get_all_unspent_ordered_list rpc c = Some (Inr all)"
    "identify_mature_unspents coin rpc all = Inr (us, immature)"
    using assms(1)
    by (auto simp: get_unspent_ordered_list_def get_mature_unspent_ordered_list_def map_sum_Inr split: option.splits sum.splits)
  then have "set us \<subseteq> set all \<and> (distinct (map us_outpoint all) \<longrightarrow> distinct (map us_outpoint us))"
    by (auto simp: identify_mature_unspents_def split: sum.splits dest: split_mature_subset)
  then show ?thesis using all_unspents [OF all(1) assms(2,3)] by (auto simp: true_values_def)
next
  case False
  then show ?thesis using assms all_unspents by (simp add: get_unspent_ordered_list_def)
qed

section \<open>No output is spent twice\<close>

lemma calc_interest_inputs: "calc_interest_if_required coin rpc t data s = Inr (t', data') \<Longrightarrow> is_inputs t' = is_inputs t"
  by (auto simp: calc_interest_if_required_def Let_def split: if_splits sum.splits)

lemma build_inputs:
  assumes "tx_builder_build coin rpc b = Some (Inr (t, data))" "is_inputs (tb_tx b) = []"
  shows "\<exists>k. is_inputs t = map unsigned_of_unspent (take k (tb_available_inputs b))"
proof -
  obtain from_address s fee acc received min_relay b' received' t' data' where
    "tb_from b = Some from_address"
    and deducted: "deduct_fee (builder_dust coin b) s received
       (choose_inputs coin (ad_addr_format from_address) fee (tb_available_inputs b)
          (b\<lparr>tb_sum_outputs_value := acc + (case tb_gas_fee b of Some g \<Rightarrow> g | None \<Rightarrow> 0), tb_min_relay_fee := min_relay\<rparr>))
       = Some (Inr (b', received'))"
    and finished: "finish_build (builder_dust coin b) s received' b' = Inr (t', data')"
    and interest: "calc_interest_if_required coin rpc t' data' s = Inr (t, data)"
    by (rule tx_builder_build_Inr [OF assms(1)])
  show ?thesis
    using choose_inputs_prefix [of coin "ad_addr_format from_address" fee "tb_available_inputs b"
        "b\<lparr>tb_sum_outputs_value := acc + (case tb_gas_fee b of Some g \<Rightarrow> g | None \<Rightarrow> 0), tb_min_relay_fee := min_relay\<rparr>"]
      deduct_fee_sum [OF deducted] finish_build_sum [OF finished] calc_interest_inputs [OF interest] assms(2)
    by auto
qed

definition input_unspent :: "unsigned_input \<Rightarrow> unspent_info" where
  "input_unspent i = \<lparr>us_outpoint = ui_previous_output i, us_value = ui_amount i, us_height = None\<rparr>"

lemma generate_and_send_effect:
  assumes "generate_and_send_tx coin rpc us None SendExact outs c = Some (r, c')" "standard_coin coin"
  shows "(\<exists>e. r = Inl e \<and> c' = c) \<or>
         (\<exists>tx k. r = Inr tx \<and> map ti_previous_output (tx_inputs tx) = map us_outpoint (take k us) \<and>
            c' = add_spent (map (input_unspent \<circ> unsigned_of_unspent) (take k us)) (utxo_tx_id coin tx) (tx_outputs tx) c)"
proof (cases r)
  case (Inl e)
  then show ?thesis using assms(1) by (auto simp: generate_and_send_tx_def Let_def split: option.splits sum.splits)
next
  case (Inr tx)
  with assms(1) have sent: "generate_and_send_tx coin rpc us None SendExact outs c = Some (Inr tx, c')" by simp
  show ?thesis
  proof (rule generate_and_send_Inr [OF sent])
    fix kp t data script
    assume kp: "uc_key_pair coin = Some kp"
      and built: "tx_builder_build coin rpc (with_fee_policy SendExact (add_outputs outs (add_available_inputs us (tx_builder_new coin rpc))))
         = Some (Inr (t, data))"
      and signed: "sign_tx (uc_hashes coin) t kp script (signing_version coin) (uc_fork_id coin) = Some (Inr tx)"
    have "key_pair_ok kp" using assms(2) kp by (simp add: standard_coin_def)
    then have prev: "map ti_previous_output (tx_inputs tx) = map ui_previous_output (is_inputs t)"
      by (rule_tac sign_tx_ok [OF signed]) (simp_all add: complete_tx_def)
    obtain k where k: "is_inputs t = map unsigned_of_unspent (take k us)"
      using build_inputs [OF built]
      by (auto simp: with_fee_policy_def add_outputs_def add_available_inputs_def tx_builder_new_def transaction_preimage_def)
    have "c' = add_spent (map input_unspent (is_inputs t)) (utxo_tx_id coin tx) (tx_outputs tx) c"
      using sent built by (auto simp: generate_and_send_tx_def Let_def input_unspent_def [abs_def] split: option.splits sum.splits)
    then show ?thesis
      using Inr prev k by (intro disjI2 exI [of _ tx] exI [of _ k]) (simp add: unsigned_of_unspent_def)
  qed
qed

text \<open>A wallet that sends one transaction after the other; each time the server gives its own list of unspent outputs.\<close>

fun send_all ::
  "utxo_coin \<Rightarrow> (utxo_rpc \<times> transaction_output list) list \<Rightarrow> recently_spent \<Rightarrow> (btc_transaction list \<times> recently_spent) option" where
  "send_all coin [] c = Some ([], c)"
| "send_all coin ((rpc, outs) # requests) c =
     (case send_outputs_from_my_address coin rpc outs c of
        None \<Rightarrow> None
      | Some (Inl e, c1) \<Rightarrow> send_all coin requests c1
      | Some (Inr tx, c1) \<Rightarrow> map_option (\<lambda>(txs, c'). (tx # txs, c')) (send_all coin requests c1))"

definition spent_points :: "btc_transaction \<Rightarrow> out_point list" where
  "spent_points tx = map ti_previous_output (tx_inputs tx)"

definition cache_knows :: "(out_point \<Rightarrow> u64) \<Rightarrow> out_point set \<Rightarrow> recently_spent \<Rightarrow> bool" where
  "cache_knows val S c \<longleftrightarrow> cache_values val c \<and> (\<forall>p \<in> S. \<lparr>cu_outpoint = p, cu_value = val p\<rparr> \<in> dom (rs_input_to_output c))"

lemma cache_knows_add:
  assumes "cache_knows val S c" "true_values val us" "spent = map (input_unspent \<circ> unsigned_of_unspent) us"
    and "\<forall>x \<in> set (own_outputs (rs_for_script_pubkey c) h outs). cu_value x = val (cu_outpoint x)"
  shows "cache_knows val (S \<union> us_outpoint ` set us) (add_spent spent h outs c)"
proof -
  have "cached_of ` set spent = (\<lambda>p. \<lparr>cu_outpoint = p, cu_value = val p\<rparr>) ` us_outpoint ` set us"
    using assms(2) by (auto simp: assms(3) cached_of_def input_unspent_def unsigned_of_unspent_def true_values_def image_iff)
  moreover have "cache_values val (add_spent spent h outs c)"
    using assms(1,4) by (fastforce simp: cache_values_def cache_knows_def dest: add_spent_edge)
  ultimately show ?thesis
    using assms(1) by (auto simp: cache_knows_def add_spent_dom)
qed

lemma send_error_keeps_cache:
  assumes "send_outputs_from_my_address coin rpc outs c = Some (Inl e, c1)" "standard_coin coin"
  shows "c1 = c"
  using assms
  by (auto simp: send_outputs_from_my_address_def split: option.splits sum.splits dest!: generate_and_send_effect)

lemma send_all_disjoint:
  assumes "send_all coin requests c = Some (txs, c')" "standard_coin coin" "cache_knows val S c"
    and "\<forall>(rpc, outs) \<in> set requests. \<forall>us. ur_list_unspent rpc = Inr us \<longrightarrow> true_values val us"
    and "\<forall>tx \<in> set txs. \<forall>script. \<forall>x \<in> set (own_outputs script (utxo_tx_id coin tx) (tx_outputs tx)). cu_value x = val (cu_outpoint x)"
  shows "distinct (concat (map spent_points txs)) \<and> S \<inter> set (concat (map spent_points txs)) = {}"
  using assms(1,3-5)
proof (induction requests arbitrary: c txs S)
  case (Cons request requests)
  obtain rpc outs where request: "request = (rpc, outs)" by fastforce
  obtain r c1 where r: "send_outputs_from_my_address coin rpc outs c = Some (r, c1)"
    using Cons.prems(1) request by (auto split: option.splits)
  show ?case
  proof (cases r)
    case (Inl e)
    then have "c1 = c" "send_all coin requests c1 = Some (txs, c')"
      using r Cons.prems(1) request send_error_keeps_cache [OF _ assms(2)] by auto
    then show ?thesis using Cons.IH Cons.prems by simp
  next
    case (Inr tx)
    then obtain txs' where txs: "txs = tx # txs'" "send_all coin requests c1 = Some (txs', c')"
      using r Cons.prems(1) request by auto
    obtain us where us: "get_unspent_ordered_list coin rpc c = Some (Inr us)"
      "generate_and_send_tx coin rpc us None SendExact outs c = Some (Inr tx, c1)"
      using r Inr by (auto simp: send_outputs_from_my_address_def split: option.splits sum.splits)
    obtain k where k: "spent_points tx = map us_outpoint (take k us)"
      "c1 = add_spent (map (input_unspent \<circ> unsigned_of_unspent) (take k us)) (utxo_tx_id coin tx) (tx_outputs tx) c"
      using generate_and_send_effect [OF us(2) assms(2)] by (auto simp: spent_points_def)
    have offered: "true_values val us" "\<forall>u \<in> set us. rs_input_to_output c (cached_of u) = None" "distinct (map us_outpoint us)"
      using offered_unspents [OF us(1), of val] Cons.prems(2,3) request by (auto simp: cache_knows_def)
    have "true_values val (take k us)" using offered(1) by (auto simp: true_values_def dest: in_set_takeD)
    then have "cache_knows val (S \<union> set (spent_points tx)) c1"
      using cache_knows_add [OF Cons.prems(2) _ refl] Cons.prems(4) k txs(1) by simp
    then have "distinct (concat (map spent_points txs'))"
      "(S \<union> set (spent_points tx)) \<inter> set (concat (map spent_points txs')) = {}"
      using Cons.IH [OF txs(2)] Cons.prems(3,4) txs(1) by auto
    moreover have "distinct (spent_points tx)"
      unfolding k(1) using offered(3) by (simp add: take_map [symmetric] distinct_take)
    moreover have "us_outpoint u \<notin> S" if "u \<in> set us" for u
      using that offered(1,2) Cons.prems(2) by (force simp: cache_knows_def true_values_def cached_of_def)
    then have "S \<inter> set (spent_points tx) = {}" using k(1) by (auto dest: in_set_takeD)
    ultimately show ?thesis using txs(1) by auto
  qed
qed simp

text \<open>
  C9. A wallet that starts with an empty cache never spends an output twice, whatever lists of unspent outputs the server
  gives from transaction to transaction, stale ones included: all outpoints that its transactions spend are different. The
  server has to tell the true value of an outpoint.
\<close>

theorem no_output_spent_twice:
  assumes "send_all coin requests (recently_spent_new script) = Some (txs, c)" "standard_coin coin"
    and "\<forall>(rpc, outs) \<in> set requests. \<forall>us. ur_list_unspent rpc = Inr us \<longrightarrow> true_values val us"
    and "\<forall>tx \<in> set txs. \<forall>script. \<forall>x \<in> set (own_outputs script (utxo_tx_id coin tx) (tx_outputs tx)). cu_value x = val (cu_outpoint x)"
  shows "distinct (concat (map spent_points txs))"
proof -
  have "cache_knows val {} (recently_spent_new script)"
    by (simp add: cache_knows_def cache_values_def recently_spent_new_def)
  then show ?thesis using send_all_disjoint [OF assms(1,2) _ assms(3,4)] by blast
qed

text \<open>A server that lists the same output again after it was spent: the second transaction is not made.\<close>

lemma sample_first_send:
  obtains tx where "send_outputs_from_my_address (sample_coin 5) (sample_rpc [sample_unspent] [] id) sample_outputs (recently_spent_new [])
      = Some (Inr tx, add_spent [input_unspent (unsigned_of_unspent sample_unspent)] (replicate 32 7) (sample_outputs @ [sample_change])
          (recently_spent_new []))"
    "tx_outputs tx = sample_outputs @ [sample_change]" "utxo_tx_id (sample_coin 5) tx = replicate 32 7"
proof -
  let ?rpc = "sample_rpc [sample_unspent] [] id"
  obtain tx where tx: "generate_and_send_tx (sample_coin 5) ?rpc [sample_unspent] None SendExact sample_outputs (recently_spent_new [])
      = Some (Inr tx, add_spent [input_unspent (unsigned_of_unspent sample_unspent)] (utxo_tx_id (sample_coin 5) tx) (tx_outputs tx)
          (recently_spent_new []))" "tx_outputs tx = sample_outputs @ [sample_change]" "tx_hash_algo tx = DSHA256"
    using sample_generated [of "[]" id "recently_spent_new []"] by (auto simp: input_unspent_def)
  have id: "utxo_tx_id (sample_coin 5) tx = replicate 32 7"
    using tx(3) by (simp add: utxo_tx_id_def BtcTransaction.tx_hash_def utxo_coin_sel sample_hashes_def)
  have "uc_my_address (sample_coin 5) \<noteq> None" by (simp add: sample_coin_def)
  then have "send_outputs_from_my_address (sample_coin 5) ?rpc sample_outputs (recently_spent_new [])
      = Some (Inr tx, add_spent [input_unspent (unsigned_of_unspent sample_unspent)] (replicate 32 7) (sample_outputs @ [sample_change])
          (recently_spent_new []))"
    using tx(1,2) id by (auto simp: send_outputs_from_my_address_def sample_unspents)
  then show thesis using tx(2) id by (rule that)
qed

lemma sample_second_send:
  assumes "rs_input_to_output c (cached_of sample_unspent) = Some []"
  shows "\<exists>e. send_outputs_from_my_address (sample_coin 5) (sample_rpc [sample_unspent] [] id) sample_outputs c = Some (Inl e, c)"
proof -
  let ?rpc = "sample_rpc [sample_unspent] [] id"
  have "replace_spent_outputs_with_cache c [sample_unspent] = Some []"
    using assms by (subst replace_spent_outputs_with_cache.simps) (simp add: unspent_replacements_def unspent_kept_def)
  then have none: "get_unspent_ordered_list (sample_coin 5) ?rpc c = Some (Inr [])"
    by (simp add: get_unspent_ordered_list_def get_all_unspent_ordered_list_def sample_coin_def sample_rpc_def sort_dedup_unspents_def)
  have coin: "uc_tx_fee (sample_coin 5) = TxFee_FixedPerKb 1000" "uc_dust_amount (sample_coin 5) = 1000"
    "uc_my_address (sample_coin 5) = Some \<lparr>ad_prefix = 0, ad_t_addr_prefix = 0, ad_hrp = None, ad_hash = AddressHash (replicate 20 9),
       ad_addr_format = Standard\<rparr>" by (simp_all add: sample_coin_def)
  have "tx_builder_build (sample_coin 5) ?rpc (with_fee_policy SendExact (add_outputs sample_outputs
      (add_available_inputs [] (tx_builder_new (sample_coin 5) ?rpc)))) = Some (Inl (EmptyUtxoSet 100000))"
    using sample_output_script sample_checked
    by (simp add: tx_builder_build_def with_fee_policy_def add_outputs_def add_available_inputs_def tx_builder_new_def coin
        transaction_preimage_def builder_dust_def get_tx_fee_def sample_change_def) (simp add: sample_outputs_def)
  then show ?thesis
    by (simp add: send_outputs_from_my_address_def none generate_and_send_tx_def coin utxo_coin_sel)
qed

theorem no_output_spent_twice_witness:
  "\<exists>tx c. send_all (sample_coin 5) [(sample_rpc [sample_unspent] [] id, sample_outputs), (sample_rpc [sample_unspent] [] id, sample_outputs)]
       (recently_spent_new []) = Some ([tx], c) \<and> distinct (concat (map spent_points [tx]))"
proof (rule sample_first_send)
  let ?rpc = "sample_rpc [sample_unspent] [] id"
  let ?c = "add_spent [input_unspent (unsigned_of_unspent sample_unspent)] (replicate 32 7) (sample_outputs @ [sample_change])
          (recently_spent_new [])"
  fix tx
  assume tx: "send_outputs_from_my_address (sample_coin 5) ?rpc sample_outputs (recently_spent_new []) = Some (Inr tx, ?c)"
    "tx_outputs tx = sample_outputs @ [sample_change]" "utxo_tx_id (sample_coin 5) tx = replicate 32 7"
  have "rs_input_to_output ?c (cached_of sample_unspent) = Some []"
  proof (rule add_spent_map)
    fix m
    assume m: "\<And>i. rs_input_to_output ?c i = (if i \<in> cached_of ` set [input_unspent (unsigned_of_unspent sample_unspent)]
        then Some (remdups (own_outputs (rs_for_script_pubkey (recently_spent_new [])) (replicate 32 7) (sample_outputs @ [sample_change])))
        else m i)"
    have "own_outputs [] (replicate 32 7) (sample_outputs @ [sample_change]) = []"
      by (simp add: own_outputs_def sample_outputs_def sample_change_def)
    then show ?thesis
      unfolding m by (simp add: recently_spent_new_def cached_of_def input_unspent_def unsigned_of_unspent_def)
  qed
  then have sent: "send_all (sample_coin 5) [(?rpc, sample_outputs), (?rpc, sample_outputs)] (recently_spent_new []) = Some ([tx], ?c)"
    using sample_second_send [of ?c] tx(1) by auto
  define val :: "out_point \<Rightarrow> u64" where
    "val p = (if op_hash p = replicate 32 2 then 200000 else xo_value ((sample_outputs @ [sample_change]) ! unat (op_index p)))" for p
  have "\<forall>(rpc, outs) \<in> set [(?rpc, sample_outputs), (?rpc, sample_outputs)]. \<forall>us. ur_list_unspent rpc = Inr us \<longrightarrow> true_values val us"
    by (simp add: sample_rpc_def true_values_def val_def sample_unspent_def)
  moreover have "\<forall>t \<in> set [tx]. \<forall>script. \<forall>x \<in> set (own_outputs script (utxo_tx_id (sample_coin 5) t) (tx_outputs t)). cu_value x = val (cu_outpoint x)"
    using tx(2,3) by (auto simp: own_outputs_def val_def sample_outputs_def)
  ultimately show ?thesis
    using no_output_spent_twice [OF sent sample_coin_standard] sent by blast
qed

section \<open>Following the cache ends\<close>

definition ranked :: "(cached_unspent \<Rightarrow> nat) \<Rightarrow> nat \<Rightarrow> recently_spent \<Rightarrow> bool" where
  "ranked rank n c \<longleftrightarrow> (\<forall>x. rank x \<le> n) \<and>
     (\<forall>i xs. rs_input_to_output c i = Some xs \<longrightarrow> (\<forall>x \<in> set xs. rank i < rank x))"

lemma ranked_replace_ends:
  assumes "ranked rank n c" "\<forall>u \<in> set us. rs_input_to_output c (cached_of u) \<noteq> None \<longrightarrow> n < rank (cached_of u) + d"
  shows "\<exists>r. replace_spent_outputs_with_cache c us = Some r"
  using assms(2)
proof (induction d arbitrary: us)
  case 0
  have "x \<notin> set (unspent_replacements c us)" for x
    using 0 assms(1) unfolding ranked_def set_unspent_replacements by (metis add_0_right leD option.distinct(1))
  then have "unspent_replacements c us = []" by (metis list.set_intros(1) neq_Nil_conv)
  then show ?case by (subst replace_spent_outputs_with_cache.simps) simp
next
  case (Suc d)
  have "n < rank x + d" if x: "x \<in> set (unspent_replacements c us)" for x
  proof -
    obtain u xs where "u \<in> set us" "rs_input_to_output c (cached_of u) = Some xs" "x \<in> set xs"
      using x by (auto simp: set_unspent_replacements)
    then show ?thesis using Suc.prems assms(1) by (fastforce simp: ranked_def)
  qed
  then have "\<exists>r. replace_spent_outputs_with_cache c
      (remdups (unspent_kept c us @ map unspent_of (unspent_replacements c us))) = Some r"
    by (intro Suc.IH) (auto simp: unspent_kept_def)
  then show ?case by (subst replace_spent_outputs_with_cache.simps) simp
qed

lemma ranked_add_spent:
  assumes "ranked rank n c" "\<forall>u \<in> set us. op_hash (us_outpoint u) \<noteq> h"
    and "\<forall>i \<in> dom (rs_input_to_output c). op_hash (cu_outpoint i) \<noteq> h"
  shows "ranked (\<lambda>x. if op_hash (cu_outpoint x) = h then Suc n else rank x) (Suc n) (add_spent us h outs c)"
proof -
  have "(if op_hash (cu_outpoint i) = h then Suc n else rank i) < (if op_hash (cu_outpoint x) = h then Suc n else rank x)"
    if edge: "rs_input_to_output (add_spent us h outs c) i = Some xs" "x \<in> set xs" for i x xs
  proof -
    have "i \<in> cached_of ` set us \<union> dom (rs_input_to_output c)" using edge(1) add_spent_dom by blast
    then have "op_hash (cu_outpoint i) \<noteq> h" using assms(2,3) by (auto simp: cached_of_def)
    moreover have "op_hash (cu_outpoint x) = h \<or> rank i < rank x"
      using add_spent_edge [OF edge] assms(1) by (auto simp: own_outputs_def ranked_def)
    ultimately show ?thesis using assms(1) by (auto simp: ranked_def less_Suc_eq_le)
  qed
  then show ?thesis using assms(1) by (auto simp: ranked_def le_SucI)
qed

text \<open>A history of the cache: the outputs that each transaction spends, its hash and its outputs.\<close>

type_synonym spending = "unspent_info list \<times> bytes \<times> transaction_output list"

definition cache_after :: "script \<Rightarrow> spending list \<Rightarrow> recently_spent" where
  "cache_after script history = fold (\<lambda>(us, h, outs). add_spent us h outs) history (recently_spent_new script)"

text \<open>No transaction, nor one before it, spends an output of this same transaction: its hash is not among theirs.\<close>

definition hashes_fresh :: "spending list \<Rightarrow> bool" where
  "hashes_fresh history \<longleftrightarrow>
     (\<forall>j < length history. \<forall>i \<le> j. \<forall>u \<in> set (fst (history ! i)). op_hash (us_outpoint u) \<noteq> fst (snd (history ! j)))"

lemma hashes_fresh_snoc:
  "hashes_fresh (history @ [(us, h, outs)]) \<longleftrightarrow>
     hashes_fresh history \<and> (\<forall>u \<in> set us. op_hash (us_outpoint u) \<noteq> h) \<and>
     (\<forall>spending \<in> set history. \<forall>u \<in> set (fst spending). op_hash (us_outpoint u) \<noteq> h)"
proof -
  have "hashes_fresh (history @ [(us, h, outs)]) \<longleftrightarrow> hashes_fresh history \<and>
      (\<forall>i \<le> length history. \<forall>u \<in> set (fst ((history @ [(us, h, outs)]) ! i)). op_hash (us_outpoint u) \<noteq> h)"
    unfolding hashes_fresh_def by (auto simp: nth_append less_Suc_eq)
  moreover have "(\<forall>i \<le> length history. \<forall>u \<in> set (fst ((history @ [(us, h, outs)]) ! i)). op_hash (us_outpoint u) \<noteq> h) \<longleftrightarrow>
      (\<forall>u \<in> set us. op_hash (us_outpoint u) \<noteq> h) \<and>
      (\<forall>i < length history. \<forall>u \<in> set (fst (history ! i)). op_hash (us_outpoint u) \<noteq> h)"
    by (auto simp: nth_append le_less)
  ultimately show ?thesis by (simp add: all_set_conv_all_nth [of history])
qed

lemma cache_after_ranked:
  "hashes_fresh history \<Longrightarrow> \<exists>rank n. ranked rank n (cache_after script history) \<and>
     dom (rs_input_to_output (cache_after script history)) \<subseteq> (\<Union>spending \<in> set history. cached_of ` set (fst spending))"
proof (induction history rule: rev_induct)
  case Nil
  show ?case by (auto simp: cache_after_def ranked_def recently_spent_new_def)
next
  case (snoc spending history)
  obtain us h outs where s: "spending = (us, h, outs)" by (metis prod_cases3)
  obtain rank n where r: "ranked rank n (cache_after script history)"
    "dom (rs_input_to_output (cache_after script history)) \<subseteq> (\<Union>spending \<in> set history. cached_of ` set (fst spending))"
    using snoc s by (auto simp: hashes_fresh_snoc)
  have eq: "cache_after script (history @ [spending]) = add_spent us h outs (cache_after script history)"
    by (simp add: cache_after_def s)
  have "\<forall>i \<in> dom (rs_input_to_output (cache_after script history)). op_hash (cu_outpoint i) \<noteq> h"
    using r(2) snoc.prems unfolding s hashes_fresh_snoc by (fastforce simp: cached_of_def)
  then have "ranked (\<lambda>x. if op_hash (cu_outpoint x) = h then Suc n else rank x) (Suc n) (cache_after script (history @ [spending]))"
    unfolding eq using snoc.prems r(1) by (intro ranked_add_spent) (simp_all add: s hashes_fresh_snoc)
  moreover have "dom (rs_input_to_output (cache_after script (history @ [spending]))) \<subseteq>
      (\<Union>spending \<in> set (history @ [spending]). cached_of ` set (fst spending))"
    unfolding eq add_spent_dom using r(2) by (auto simp: s)
  ultimately show ?case by blast
qed

text \<open>
  C29. \<open>replace_spent_outputs_with_cache\<close>, which calls itself until nothing is replaced any more, returns for every list of
  outputs and every cache that comes from transactions whose hashes are not among those of the outputs spent before:
  the chains of the cache lead to later and later transactions.
\<close>

theorem replacing_spent_outputs_ends:
  assumes "hashes_fresh history"
  shows "\<exists>r. replace_spent_outputs_with_cache (cache_after script history) us = Some r"
proof -
  obtain rank n where "ranked rank n (cache_after script history)" using cache_after_ranked [OF assms] by blast
  then show ?thesis by (rule ranked_replace_ends [where d = "Suc n"]) simp
qed

theorem replacing_spent_outputs_ends_witness:
  "\<exists>r. replace_spent_outputs_with_cache
         (cache_after [1] [([sample_unspent], replicate 32 7, [\<lparr>xo_value = 5000, xo_script_pubkey = [1]\<rparr>])]) [sample_unspent] = Some r"
  by (rule replacing_spent_outputs_ends) (simp add: hashes_fresh_def sample_unspent_def)

end
