(* ===== verification/SwapWatcher.thy ===== *)
theory SwapWatcher
  imports SwapCommon TimeCache
begin

text \<open>
  The watcher of a taker's swap, \<open>lp_swap/swap_watcher.rs\<close>: a node that other takers ask to collect the maker payment or to
  refund the taker payment while they are offline.

  \<^item> \<open>watcher_coin\<close> extends the coin of \<open>SwapEnv\<close> by the methods of the trait \<open>WatcherOps\<close> and of \<open>MmCoin\<close> that a watcher
    calls. \<open>watcher_context\<close> is \<open>WatcherContext\<close> with the clock; a \<open>f64\<close> is a rational number and \<open>wx_f64\<close> the rounding.
  \<^item> \<open>watcher_state\<close> has the states of the machine with their fields, \<open>on_changed\<close> what is done on entering each, and
    \<open>watcher_run\<close> is \<open>StateMachine::run\<close>. Of the two options of a result the outer one is that the call never returns, the
    inner one a panic.
  \<^item> \<open>spawn_taker_swap_watcher\<close> checks a message and takes the lock of its fee hash, an entry of an expiring cache,
    which the task gives back when it ends, however it ends.
\<close>

section \<open>The coins of a watcher\<close>

record watcher_validate_taker_fee_input =
  wvf_taker_fee_hash :: bytes
  wvf_sender_pubkey :: bytes
  wvf_min_block_number :: u64
  wvf_fee_addr :: bytes
  wvf_lock_duration :: u64

record watcher_validate_payment_input =
  wvp_payment_tx :: bytes
  wvp_taker_payment_refund_preimage :: bytes
  wvp_time_lock :: u32
  wvp_taker_pub :: bytes
  wvp_maker_pub :: bytes
  wvp_secret_hash :: bytes
  wvp_wait_until :: u64
  wvp_confirmations :: u64
  wvp_maker_coin :: string

record watcher_search_for_swap_tx_spend_input =
  wsi_time_lock :: u32
  wsi_taker_pub :: bytes
  wsi_maker_pub :: bytes
  wsi_secret_hash :: bytes
  wsi_tx :: bytes
  wsi_search_from_block :: u64
  wsi_watcher_reward :: bool

record send_maker_payment_spend_preimage_input =
  smp_preimage :: bytes
  smp_secret_hash :: bytes
  smp_secret :: bytes
  smp_taker_pub :: bytes
  smp_watcher_reward :: bool

record watcher_coin = coin +
  wc_watcher_validate_taker_fee :: "moment \<Rightarrow> watcher_validate_taker_fee_input \<Rightarrow> string + unit"
  wc_watcher_validate_taker_payment :: "moment \<Rightarrow> watcher_validate_payment_input \<Rightarrow> string + unit"
  wc_watcher_search_for_swap_tx_spend ::
    "moment \<Rightarrow> nat \<Rightarrow> watcher_search_for_swap_tx_spend_input \<Rightarrow> string + found_swap_tx_spend option"
  wc_send_maker_payment_spend_preimage ::
    "moment \<Rightarrow> send_maker_payment_spend_preimage_input \<Rightarrow> transaction_err + transaction"
  wc_send_taker_payment_refund_preimage :: "moment \<Rightarrow> refund_payment_args \<Rightarrow> transaction_err + transaction"
  wc_get_tx_hex_by_hash :: "moment \<Rightarrow> bytes \<Rightarrow> string + bytes"

section \<open>The context\<close>

definition TAKER_SWAP_CONFIRMATIONS :: u64 where "TAKER_SWAP_CONFIRMATIONS = 1"

definition TAKER_SWAP_ENTRY_TIMEOUT_SEC :: nat where "TAKER_SWAP_ENTRY_TIMEOUT_SEC = 21600"

record watcher_conf =
  wf_wait_taker_payment :: rat
  wf_wait_maker_payment_spend_factor :: rat
  wf_refund_start_factor :: rat
  wf_search_interval :: rat

definition watcher_conf_default :: watcher_conf where
  "watcher_conf_default = \<lparr>wf_wait_taker_payment = 60, wf_wait_maker_payment_spend_factor = 1,
     wf_refund_start_factor = 3 / 2, wf_search_interval = 300\<rparr>"

record watcher_context =
  wx_taker_coin :: watcher_coin
  wx_maker_coin :: watcher_coin
  wx_verified_pub :: bytes
  wx_data :: taker_swap_watcher_data
  wx_conf :: watcher_conf
  wx_watcher_reward :: bool
  wx_use_test_locktime :: bool
  wx_now_sec :: "moment \<Rightarrow> nat \<Rightarrow> u64"
  wx_f64 :: "rat \<Rightarrow> rat"

definition taker_locktime :: "watcher_context \<Rightarrow> u64" where
  "taker_locktime w = wd_swap_started_at (wx_data w) + wd_lock_duration (wx_data w)"

definition wait_for_maker_payment_spend_deadline :: "watcher_context \<Rightarrow> u64" where
  "wait_for_maker_payment_spend_deadline w =
     wd_swap_started_at (wx_data w) +
     f64_as_u64 (wx_f64 w (wf_wait_maker_payment_spend_factor (wx_conf w) *
       wx_f64 w (of_nat (unat (wd_lock_duration (wx_data w))))))"

definition refund_start_time :: "watcher_context \<Rightarrow> u64" where
  "refund_start_time w =
     wd_swap_started_at (wx_data w) +
     f64_as_u64 (wx_f64 w (wf_refund_start_factor (wx_conf w) * wx_f64 w (of_nat (unat (wd_lock_duration (wx_data w))))))"

section \<open>States\<close>

datatype watcher_success =
    MakerPaymentSpent_W | TakerPaymentRefunded_W | MakerPaymentSpentByTaker_W | TakerPaymentRefundedByTaker_W

datatype watcher_error =
    InvalidTakerFee string
  | TakerPaymentNotConfirmed string
  | InvalidTakerPayment string
  | UnableToExtractSecret string
  | MakerPaymentSpendFailed_W string
  | MakerPaymentCouldNotBeFound string
  | TakerPaymentRefundFailed_W string

datatype stop_reason = StopFinished watcher_success | StopError watcher_error

datatype watcher_state =
    ValidateTakerFee_W
  | ValidateTakerPayment_W
  | WaitForTakerPaymentSpend_W bytes
  | RefundTakerPayment_W
  | SpendMakerPayment_W bytes
  | Stopped_W stop_reason

datatype watcher_effect =
    W_SendMakerPaymentSpendPreimage send_maker_payment_spend_preimage_input
  | W_SendTakerPaymentRefundPreimage refund_payment_args
  | W_BroadcastTx string bytes

definition watcher_broadcast :: "string \<Rightarrow> transaction \<Rightarrow> watcher_effect list" where
  "watcher_broadcast ticker tx = (if \<not> supports_tx_helper tx then [] else [W_BroadcastTx ticker (tx_hex tx)])"

text \<open>After a transaction was sent: what is broadcast, and how the machine stops.\<close>

definition watcher_after_send ::
  "string \<Rightarrow> watcher_success \<Rightarrow> (string \<Rightarrow> watcher_error) \<Rightarrow> transaction_err + transaction \<Rightarrow> watcher_effect list \<times> watcher_state" where
  "watcher_after_send ticker success failure r =
     (case r of
        Inr transaction \<Rightarrow> (watcher_broadcast ticker transaction, Stopped_W (StopFinished success))
      | Inl err \<Rightarrow> ((case get_tx err of Some tx \<Rightarrow> watcher_broadcast ticker tx | None \<Rightarrow> []),
                   Stopped_W (StopError (failure (get_plain_text_format err)))))"

definition on_validate_taker_fee :: "watcher_context \<Rightarrow> moment \<Rightarrow> watcher_state" where
  "on_validate_taker_fee w t =
     (case wc_watcher_validate_taker_fee (wx_taker_coin w) t
             \<lparr>wvf_taker_fee_hash = wd_taker_fee_hash (wx_data w), wvf_sender_pubkey = wx_verified_pub w,
              wvf_min_block_number = wd_taker_coin_start_block (wx_data w), wvf_fee_addr = DEX_FEE_ADDR_RAW_PUBKEY,
              wvf_lock_duration = wd_lock_duration (wx_data w)\<rparr> of
        Inl err \<Rightarrow> Stopped_W (StopError (InvalidTakerFee err))
      | Inr _ \<Rightarrow> ValidateTakerPayment_W)"

definition watcher_confirm_input :: "watcher_context \<Rightarrow> bytes \<Rightarrow> confirm_payment_input" where
  "watcher_confirm_input w taker_payment_hex =
     \<lparr>cpi_payment_tx = taker_payment_hex,
      cpi_confirmations = min (wd_taker_payment_confirmations (wx_data w)) TAKER_SWAP_CONFIRMATIONS,
      cpi_requires_nota = (case wd_taker_payment_requires_nota (wx_data w) of Some b \<Rightarrow> b | None \<Rightarrow> False),
      cpi_wait_until = taker_payment_spend_deadline (wd_swap_started_at (wx_data w)) (wd_lock_duration (wx_data w)),
      cpi_check_every = WAIT_CONFIRM_INTERVAL_SEC\<rparr>"

definition watcher_payment_input :: "watcher_context \<Rightarrow> bytes \<Rightarrow> watcher_validate_payment_input" where
  "watcher_payment_input w taker_payment_hex =
     \<lparr>wvp_payment_tx = taker_payment_hex,
      wvp_taker_payment_refund_preimage = wd_taker_payment_refund_preimage (wx_data w),
      wvp_time_lock = as_u32 (if wx_use_test_locktime w then wd_swap_started_at (wx_data w) else taker_locktime w),
      wvp_taker_pub = wx_verified_pub w, wvp_maker_pub = wd_maker_pub (wx_data w),
      wvp_secret_hash = wd_secret_hash (wx_data w),
      wvp_wait_until = taker_payment_spend_deadline (wd_swap_started_at (wx_data w)) (wd_lock_duration (wx_data w)),
      wvp_confirmations = min (wd_taker_payment_confirmations (wx_data w)) TAKER_SWAP_CONFIRMATIONS,
      wvp_maker_coin = c_ticker (wx_maker_coin w)\<rparr>"

definition on_validate_taker_payment :: "watcher_context \<Rightarrow> moment \<Rightarrow> watcher_state" where
  "on_validate_taker_payment w t =
     (case wc_get_tx_hex_by_hash (wx_taker_coin w) t (wd_taker_payment_hash (wx_data w)) of
        Inl err \<Rightarrow> Stopped_W (StopError (InvalidTakerPayment err))
      | Inr taker_payment_hex \<Rightarrow>
          (case c_wait_for_confirmations (wx_taker_coin w) t (watcher_confirm_input w taker_payment_hex) of
             Inl err \<Rightarrow> Stopped_W (StopError (TakerPaymentNotConfirmed err))
           | Inr _ \<Rightarrow>
               (case wc_watcher_validate_taker_payment (wx_taker_coin w) t (watcher_payment_input w taker_payment_hex) of
                  Inl err \<Rightarrow> Stopped_W (StopError (InvalidTakerPayment err))
                | Inr _ \<Rightarrow> WaitForTakerPaymentSpend_W taker_payment_hex)))"

definition watcher_search_input :: "watcher_context \<Rightarrow> bytes \<Rightarrow> watcher_search_for_swap_tx_spend_input" where
  "watcher_search_input w taker_payment_hex =
     \<lparr>wsi_time_lock = as_u32 (taker_locktime w), wsi_taker_pub = wx_verified_pub w,
      wsi_maker_pub = wd_maker_pub (wx_data w), wsi_secret_hash = wd_secret_hash (wx_data w), wsi_tx = taker_payment_hex,
      wsi_search_from_block = wd_taker_coin_start_block (wx_data w), wsi_watcher_reward = wx_watcher_reward w\<rparr>"

definition watcher_wait_args :: "watcher_context \<Rightarrow> bytes \<Rightarrow> wait_for_htlc_tx_spend_args" where
  "watcher_wait_args w maker_payment_hex =
     \<lparr>wha_tx_bytes = maker_payment_hex, wha_secret_hash = wd_secret_hash (wx_data w),
      wha_wait_until = wait_for_maker_payment_spend_deadline w, wha_from_block = wd_maker_coin_start_block (wx_data w),
      wha_swap_contract_address = None, wha_check_every = wf_search_interval (wx_conf w),
      wha_watcher_reward = wx_watcher_reward w\<rparr>"

text \<open>The taker payment was spent by \<open>tx\<close>: the secret goes on to the next state; \<open>None\<close> is the panic of \<open>H256Json::from\<close>.\<close>

definition watcher_extracts :: "watcher_context \<Rightarrow> moment \<Rightarrow> transaction \<Rightarrow> watcher_state option" where
  "watcher_extracts w t tx =
     (case c_extract_secret (wx_taker_coin w) t (wd_secret_hash (wx_data w)) (tx_hex tx) True of
        Inl err \<Rightarrow> Some (Stopped_W (StopError (UnableToExtractSecret err)))
      | Inr bs \<Rightarrow> map_option SpendMakerPayment_W (hash_from_slice 32 bs))"

definition watcher_payment_spent :: "watcher_context \<Rightarrow> moment \<Rightarrow> u64 \<Rightarrow> transaction \<Rightarrow> watcher_state option" where
  "watcher_payment_spent w t now tx =
     (if now < taker_locktime w
      then case wc_get_tx_hex_by_hash (wx_maker_coin w) t (wd_maker_payment_hash (wx_data w)) of
          Inl err \<Rightarrow> Some (Stopped_W (StopError (MakerPaymentCouldNotBeFound err)))
        | Inr maker_payment_hex \<Rightarrow>
            (case c_wait_for_htlc_tx_spend (wx_maker_coin w) t (watcher_wait_args w maker_payment_hex) of
               Inr _ \<Rightarrow> Some (Stopped_W (StopFinished MakerPaymentSpentByTaker_W))
             | Inl _ \<Rightarrow> watcher_extracts w t tx)
      else watcher_extracts w t tx)"

text \<open>
  A turn of the loop of \<open>WaitForTakerPaymentSpend\<close>, in which the clock is read twice at most; \<open>None\<close> is that the loop goes on.
  \<open>i\<close> counts the turns.
\<close>

definition wait_turn :: "watcher_context \<Rightarrow> moment \<Rightarrow> bytes \<Rightarrow> nat \<Rightarrow> watcher_state option option" where
  "wait_turn w t taker_payment_hex i =
     (if refund_start_time w < wx_now_sec w t (2 * i) then Some (Some RefundTakerPayment_W)
      else case wc_watcher_search_for_swap_tx_spend (wx_taker_coin w) t i (watcher_search_input w taker_payment_hex) of
          Inr (Some (Spent tx)) \<Rightarrow> Some (watcher_payment_spent w t (wx_now_sec w t (2 * i + 1)) tx)
        | Inr (Some (Refunded tx)) \<Rightarrow> Some (Some (Stopped_W (StopFinished TakerPaymentRefundedByTaker_W)))
        | Inr None \<Rightarrow> None
        | Inl err \<Rightarrow> None)"

partial_function (option) wait_for_taker_payment_spend ::
  "watcher_context \<Rightarrow> moment \<Rightarrow> bytes \<Rightarrow> nat \<Rightarrow> watcher_state option option" where
  "wait_for_taker_payment_spend w t taker_payment_hex i =
     (case wait_turn w t taker_payment_hex i of
        Some r \<Rightarrow> Some r
      | None \<Rightarrow> wait_for_taker_payment_spend w t taker_payment_hex (Suc i))"

definition watcher_spend_input :: "watcher_context \<Rightarrow> bytes \<Rightarrow> send_maker_payment_spend_preimage_input" where
  "watcher_spend_input w secret =
     \<lparr>smp_preimage = wd_maker_payment_spend_preimage (wx_data w), smp_secret_hash = wd_secret_hash (wx_data w),
      smp_secret = secret, smp_taker_pub = wx_verified_pub w, smp_watcher_reward = wx_watcher_reward w\<rparr>"

definition on_spend_maker_payment :: "watcher_context \<Rightarrow> moment \<Rightarrow> bytes \<Rightarrow> watcher_effect list \<times> watcher_state" where
  "on_spend_maker_payment w t secret =
     (let input = watcher_spend_input w secret;
          (effects, next_state) = watcher_after_send (c_ticker (wx_maker_coin w)) MakerPaymentSpent_W MakerPaymentSpendFailed_W
            (wc_send_maker_payment_spend_preimage (wx_maker_coin w) t input)
      in (W_SendMakerPaymentSpendPreimage input # effects, next_state))"

definition watcher_refund_args :: "watcher_context \<Rightarrow> refund_payment_args" where
  "watcher_refund_args w =
     \<lparr>rpa_payment_tx = wd_taker_payment_refund_preimage (wx_data w), rpa_time_lock = as_u32 (taker_locktime w),
      rpa_other_pubkey = wx_verified_pub w, rpa_secret_hash = wd_secret_hash (wx_data w), rpa_swap_contract_address = None,
      rpa_swap_unique_data = [], rpa_watcher_reward = wx_watcher_reward w\<rparr>"

definition on_refund_taker_payment :: "watcher_context \<Rightarrow> moment \<Rightarrow> (watcher_effect list \<times> watcher_state) option" where
  "on_refund_taker_payment w t =
     (case (if wx_use_test_locktime w then Some () else wait_can_refund (coin.truncate (wx_taker_coin w)) t (taker_locktime w) 0) of
        None \<Rightarrow> None
      | Some _ \<Rightarrow>
          (let args = watcher_refund_args w;
               (effects, next_state) = watcher_after_send (c_ticker (wx_taker_coin w)) TakerPaymentRefunded_W TakerPaymentRefundFailed_W
                 (wc_send_taker_payment_refund_preimage (wx_taker_coin w) t args)
           in Some (W_SendTakerPaymentRefundPreimage args # effects, next_state)))"

section \<open>The machine\<close>

fun on_changed :: "watcher_context \<Rightarrow> moment \<Rightarrow> watcher_state \<Rightarrow> (watcher_effect list \<times> watcher_state) option option" where
  "on_changed w t ValidateTakerFee_W = Some (Some ([], on_validate_taker_fee w t))"
| "on_changed w t ValidateTakerPayment_W = Some (Some ([], on_validate_taker_payment w t))"
| "on_changed w t (WaitForTakerPaymentSpend_W taker_payment_hex) =
     map_option (map_option (Pair [])) (wait_for_taker_payment_spend w t taker_payment_hex 0)"
| "on_changed w t RefundTakerPayment_W = map_option Some (on_refund_taker_payment w t)"
| "on_changed w t (SpendMakerPayment_W secret) = Some (Some (on_spend_maker_payment w t secret))"
| "on_changed w t (Stopped_W reason) = Some (Some ([], Stopped_W reason))"

text \<open>The transitions that the code declares with \<open>TransitionFrom\<close>.\<close>

fun transition_from :: "watcher_state \<Rightarrow> watcher_state \<Rightarrow> bool" where
  "transition_from ValidateTakerFee_W ValidateTakerPayment_W = True"
| "transition_from ValidateTakerPayment_W (WaitForTakerPaymentSpend_W hex) = True"
| "transition_from (WaitForTakerPaymentSpend_W hex) (SpendMakerPayment_W secret) = True"
| "transition_from (WaitForTakerPaymentSpend_W hex) RefundTakerPayment_W = True"
| "transition_from (Stopped_W reason) s = False"
| "transition_from s (Stopped_W reason) = True"
| "transition_from s s' = False"

fun watcher_rank :: "watcher_state \<Rightarrow> nat" where
  "watcher_rank ValidateTakerFee_W = 4"
| "watcher_rank ValidateTakerPayment_W = 3"
| "watcher_rank (WaitForTakerPaymentSpend_W hex) = 2"
| "watcher_rank RefundTakerPayment_W = 1"
| "watcher_rank (SpendMakerPayment_W secret) = 1"
| "watcher_rank (Stopped_W reason) = 0"

lemma transition_from_rank: "transition_from s s' \<Longrightarrow> watcher_rank s' < watcher_rank s"
  by (induction s s' rule: transition_from.induct) simp_all

lemma watcher_extracts_next:
  "watcher_extracts w t tx = Some s \<Longrightarrow> transition_from (WaitForTakerPaymentSpend_W hex) s"
  by (auto simp: watcher_extracts_def split: sum.splits)

lemma watcher_payment_spent_next:
  "watcher_payment_spent w t now tx = Some s \<Longrightarrow> transition_from (WaitForTakerPaymentSpend_W hex) s"
  by (auto simp: watcher_payment_spent_def intro: watcher_extracts_next split: sum.splits if_splits)

lemma wait_turn_next: "wait_turn w t hex i = Some (Some s) \<Longrightarrow> transition_from (WaitForTakerPaymentSpend_W hex) s"
  by (auto simp: wait_turn_def intro: watcher_payment_spent_next
      split: if_splits sum.splits option.splits found_swap_tx_spend.splits)

lemma wait_for_taker_payment_spend_result:
  assumes "wait_for_taker_payment_spend w t hex i = Some r"
  shows "\<exists>j \<ge> i. wait_turn w t hex j = Some r \<and> (\<forall>k. i \<le> k \<and> k < j \<longrightarrow> wait_turn w t hex k = None)"
  using _ assms
proof (rule wait_for_taker_payment_spend.raw_induct)
  fix loop w t hex i r
  assume IH: "\<And>w t hex i r. loop w t hex i = Some r \<Longrightarrow>
      \<exists>j \<ge> i. wait_turn w t hex j = Some r \<and> (\<forall>k. i \<le> k \<and> k < j \<longrightarrow> wait_turn w t hex k = None)"
    and r: "(case wait_turn w t hex i of None \<Rightarrow> loop w t hex (Suc i) | Some r \<Rightarrow> Some r) = Some r"
  show "\<exists>j \<ge> i. wait_turn w t hex j = Some r \<and> (\<forall>k. i \<le> k \<and> k < j \<longrightarrow> wait_turn w t hex k = None)"
  proof (cases "wait_turn w t hex i")
    case None
    with r IH [of w t hex "Suc i" r] obtain j where "Suc i \<le> j" "wait_turn w t hex j = Some r"
      "\<forall>k. Suc i \<le> k \<and> k < j \<longrightarrow> wait_turn w t hex k = None" by auto
    then show ?thesis using None by (intro exI [of _ j]) (auto, metis Suc_leI le_neq_implies_less)
  qed (use r in \<open>auto intro: exI [of _ i]\<close>)
qed

lemma wait_for_taker_payment_spend_returns:
  assumes "i \<le> j" "wait_turn w t hex j \<noteq> None"
  shows "\<exists>r. wait_for_taker_payment_spend w t hex i = Some r"
  using assms
proof (induction i rule: inc_induct)
  case base
  then show ?case by (subst wait_for_taker_payment_spend.simps) auto
next
  case (step i)
  then show ?case by (subst wait_for_taker_payment_spend.simps) (auto split: option.split)
qed

lemma on_changed_transition:
  assumes "on_changed w t s = Some (Some (effects, s'))" "\<And>reason. s \<noteq> Stopped_W reason"
  shows "transition_from s s'"
proof (cases s)
  case (SpendMakerPayment_W secret)
  then show ?thesis
    using assms(1) by (auto simp: on_spend_maker_payment_def watcher_after_send_def Let_def split: sum.splits)
next
  case RefundTakerPayment_W
  then show ?thesis
    using assms(1) by (auto simp: on_refund_taker_payment_def watcher_after_send_def Let_def split: option.splits sum.splits)
qed (use assms in \<open>auto simp: on_validate_taker_fee_def on_validate_taker_payment_def
       dest!: wait_for_taker_payment_spend_result dest: wait_turn_next split: sum.splits\<close>)

lemma on_changed_rank:
  "on_changed w t s = Some (Some (effects, s')) \<Longrightarrow> \<forall>reason. s \<noteq> Stopped_W reason \<Longrightarrow> watcher_rank s' < watcher_rank s"
  by (blast intro: transition_from_rank on_changed_transition)

text \<open>\<open>StateMachine::run\<close>: the last state stops the machine. Each transition goes down in the order of the states.\<close>

function watcher_run ::
  "watcher_context \<Rightarrow> moment \<Rightarrow> watcher_state \<Rightarrow> (watcher_effect list \<times> stop_reason) option option" where
  "watcher_run w t s =
     (case s of
        Stopped_W reason \<Rightarrow> Some (Some ([], reason))
      | _ \<Rightarrow>
          (case on_changed w t s of
             None \<Rightarrow> None
           | Some None \<Rightarrow> Some None
           | Some (Some (effects, next_state)) \<Rightarrow>
               map_option (map_option (\<lambda>(more, reason). (effects @ more, reason))) (watcher_run w (t + 1) next_state)))"
  by pat_completeness auto
termination
  by (relation "measure (\<lambda>(w, t, s). watcher_rank s)")
    (auto simp del: on_changed.simps watcher_rank.simps dest!: on_changed_rank)

declare watcher_run.simps [simp del]

section \<open>Starting a watcher\<close>

text \<open>
  \<open>we_coinfind\<close> is \<open>lp_coinfind\<close>, \<open>we_watcher_conf\<close> the entry \<open>watcher_conf\<close> of the configuration, if it can be read.
\<close>

record watcher_env =
  we_coinfind :: "string \<Rightarrow> string + watcher_coin option"
  we_watcher_conf :: "watcher_conf option"
  we_use_test_locktime :: bool
  we_now_sec :: "moment \<Rightarrow> nat \<Rightarrow> u64"
  we_f64 :: "rat \<Rightarrow> rat"

datatype spawned = NotSpawned | Spawned taker_swap_watcher_data bytes | SpawnPanics

text \<open>\<open>SwapWatcherLock\<close>: taking the lock of a fee hash, and giving it back.\<close>

definition lock_taker :: "nat \<Rightarrow> bytes \<Rightarrow> bytes duplicate_cache \<Rightarrow> bool \<times> bytes duplicate_cache" where
  "lock_taker now fee_hash locks = duplicate_insert now fee_hash locks"

definition drop_taker_lock :: "nat \<Rightarrow> bytes \<Rightarrow> bytes duplicate_cache \<Rightarrow> bytes duplicate_cache" where
  "drop_taker_lock now fee_hash locks = duplicate_remove now fee_hash locks"

text \<open>A panic unwinds and gives the lock back.\<close>

definition spawn_taker_swap_watcher ::
  "nat \<Rightarrow> (uuid \<rightharpoonup> swap_msg_store) \<Rightarrow> bytes duplicate_cache \<Rightarrow> taker_swap_watcher_data \<Rightarrow> bytes \<Rightarrow> bytes duplicate_cache \<times> spawned" where
  "spawn_taker_swap_watcher now swap_msgs locks watcher_data verified_pub =
     (if wd_lock_duration watcher_data \<noteq> PAYMENT_LOCKTIME \<and> wd_lock_duration watcher_data \<noteq> PAYMENT_LOCKTIME * 4
         \<and> wd_lock_duration watcher_data \<noteq> PAYMENT_LOCKTIME * 10
      then (locks, NotSpawned)
      else if swap_msgs (wd_uuid watcher_data) \<noteq> None then (locks, NotSpawned)
      else let (locked, locks') = lock_taker now (wd_taker_fee_hash watcher_data) locks in
        if \<not> locked then (locks', NotSpawned)
        else case hash_from_slice 32 (wd_taker_fee_hash watcher_data) of
            None \<Rightarrow> (drop_taker_lock now (wd_taker_fee_hash watcher_data) locks', SpawnPanics)
          | Some fee_hash \<Rightarrow> (locks', Spawned watcher_data verified_pub))"

definition watcher_context_of ::
  "watcher_env \<Rightarrow> watcher_coin \<Rightarrow> watcher_coin \<Rightarrow> taker_swap_watcher_data \<Rightarrow> bytes \<Rightarrow> watcher_context" where
  "watcher_context_of env maker_coin taker_coin watcher_data verified_pub =
     \<lparr>wx_taker_coin = taker_coin, wx_maker_coin = maker_coin, wx_verified_pub = verified_pub, wx_data = watcher_data,
      wx_conf = (case we_watcher_conf env of Some conf \<Rightarrow> conf | None \<Rightarrow> watcher_conf_default),
      wx_watcher_reward = is_eth (coin.truncate maker_coin), wx_use_test_locktime = we_use_test_locktime env,
      wx_now_sec = we_now_sec env, wx_f64 = we_f64 env\<rparr>"

text \<open>The spawned task; without the coins, or when one of them does not support watchers, it ends at once.\<close>

definition taker_swap_watcher_task ::
  "watcher_env \<Rightarrow> moment \<Rightarrow> taker_swap_watcher_data \<Rightarrow> bytes \<Rightarrow> (watcher_effect list \<times> stop_reason option) option option" where
  "taker_swap_watcher_task env t watcher_data verified_pub =
     (case we_coinfind env (wd_taker_coin watcher_data) of
        Inr (Some taker_coin) \<Rightarrow>
          (case we_coinfind env (wd_maker_coin watcher_data) of
             Inr (Some maker_coin) \<Rightarrow>
               if \<not> c_is_supported_by_watchers taker_coin \<or> \<not> c_is_supported_by_watchers maker_coin then Some (Some ([], None))
               else map_option (map_option (apsnd Some))
                      (watcher_run (watcher_context_of env maker_coin taker_coin watcher_data verified_pub) t ValidateTakerFee_W)
           | _ \<Rightarrow> Some (Some ([], None)))
      | _ \<Rightarrow> Some (Some ([], None)))"

text \<open>The decoder of a signed message with the key of its signer comes from a library.\<close>

definition process_watcher_msg ::
  "(bytes \<Rightarrow> string + taker_swap_watcher_data \<times> bytes) \<Rightarrow> nat \<Rightarrow> (uuid \<rightharpoonup> swap_msg_store) \<Rightarrow> bytes duplicate_cache \<Rightarrow> bytes \<Rightarrow>
   bytes duplicate_cache \<times> (string + spawned)" where
  "process_watcher_msg decode_signed now swap_msgs locks msg =
     (case decode_signed msg of
        Inl e \<Rightarrow> (locks, Inl e)
      | Inr (watcher_data, verified_pubkey) \<Rightarrow> apsnd Inr (spawn_taker_swap_watcher now swap_msgs locks watcher_data verified_pubkey))"

section \<open>The watchers of a node\<close>

text \<open>
  The node with its locks and the watchers that run: their fee hashes and the times they started. A step is a message
  or the end of a watcher; between steps the clock goes on.
\<close>

record watcher_node =
  wn_now :: nat
  wn_locks :: "bytes duplicate_cache"
  wn_running :: "(bytes \<times> nat) list"

definition watcher_node_new :: watcher_node where
  "watcher_node_new = \<lparr>wn_now = 0, wn_locks = cache_new TAKER_SWAP_ENTRY_TIMEOUT_SEC, wn_running = []\<rparr>"

definition started :: "nat \<Rightarrow> string + spawned \<Rightarrow> (bytes \<times> nat) list" where
  "started now r = (case r of Inr (Spawned watcher_data verified_pub) \<Rightarrow> [(wd_taker_fee_hash watcher_data, now)] | _ \<Rightarrow> [])"

inductive watcher_node_step ::
  "(bytes \<Rightarrow> string + taker_swap_watcher_data \<times> bytes) \<Rightarrow> watcher_node \<Rightarrow> watcher_node \<Rightarrow> bool" for decode_signed where
  message: "wn_now n \<le> now \<Longrightarrow> process_watcher_msg decode_signed now swap_msgs (wn_locks n) msg = (locks, r) \<Longrightarrow>
     watcher_node_step decode_signed n \<lparr>wn_now = now, wn_locks = locks, wn_running = wn_running n @ started now r\<rparr>"
| ends: "wn_now n \<le> now \<Longrightarrow> wn_running n = before @ (fee_hash, since) # after \<Longrightarrow>
     watcher_node_step decode_signed n \<lparr>wn_now = now, wn_locks = drop_taker_lock now fee_hash (wn_locks n),
       wn_running = before @ after\<rparr>"

end
