(* ===== verification/UtxoWatcher.thy ===== *)
theory UtxoWatcher
  imports UtxoHtlc SwapWatcher
begin

text \<open>
  What a coin of the Bitcoin family does for watchers (\<open>utxo_common.rs\<close>): the validation of the taker fee and of the taker payment
  with the preimage of its refund, and the search for the spend. \<open>rpcs\<close> has the answers of the server at each attempt.
\<close>

section \<open>The taker fee\<close>

text \<open>The transaction of the fee, asked for four times at most; with it the number of the attempt that succeeded.\<close>

function taker_fee_from_rpc :: "(nat \<Rightarrow> utxo_rpc) \<Rightarrow> bytes \<Rightarrow> nat \<Rightarrow> string + nat \<times> rpc_transaction" where
  "taker_fee_from_rpc rpcs fee_hash attempts =
     (case ur_verbose_transaction (rpcs attempts) fee_hash of
        Inr t \<Rightarrow> Inr (attempts, t)
      | Inl e \<Rightarrow> if 2 < attempts then Inl e else taker_fee_from_rpc rpcs fee_hash (attempts + 1))"
  by pat_completeness auto
termination
  by (relation "measure (\<lambda>(rpcs, fee_hash, attempts). 3 - attempts)") auto

declare taker_fee_from_rpc.simps [simp del]

definition watcher_check_fee ::
  "utxo_coin \<Rightarrow> utxo_rpc \<Rightarrow> secp_parsers \<Rightarrow> watcher_validate_taker_fee_input \<Rightarrow> nat \<Rightarrow> rpc_transaction \<Rightarrow> btc_transaction \<Rightarrow>
   (validate_payment_error + unit) option" where
  "watcher_check_fee coin rpc secp input output_index tx_from_rpc taker_fee_tx =
     (case check_all_utxo_inputs_signed_by_pub secp taker_fee_tx (wvf_sender_pubkey input) of
        Inl e \<Rightarrow> Some (Inl e)
      | Inr False \<Rightarrow> Some (Inl (WrongPaymentTx ''Taker fee does not belong to the verified public key''))
      | Inr True \<Rightarrow>
          (case is_tx_confirmed_before_block rpc tx_from_rpc (wvf_min_block_number input) of
             Inl e \<Rightarrow> Some (Inl (InternalError e))
           | Inr True \<Rightarrow> Some (Inl (WrongPaymentTx ''Fee tx confirmed before min_block''))
           | Inr False \<Rightarrow>
               if as_u32 (wvf_lock_duration input) < now_sec_u32 rpc 0 - tx_lock_time taker_fee_tx
               then Some (Inl (WrongPaymentTx ''Taker fee is too old''))
               else (case address_from_raw_pubkey coin (wvf_fee_addr input) (addr_format_of coin) of
                  Inl e \<Rightarrow> Some (Inl (TxDeserializationError e))
                | Inr address \<Rightarrow>
                    if \<not> output_index < length (tx_outputs taker_fee_tx)
                    then Some (Inl (WrongPaymentTx ''Provided dex fee tx does not have output''))
                    else (case build_p2pkh (address_hash_to_vec (ad_hash address)) of
                       None \<Rightarrow> None
                     | Some expected_script_pubkey \<Rightarrow>
                         if xo_script_pubkey (tx_outputs taker_fee_tx ! output_index) \<noteq> expected_script_pubkey
                         then Some (Inl (WrongPaymentTx (''Provided dex fee tx output script_pubkey doesn'' @ CHR 0x27 # ''t match expected'')))
                         else Some (Inr ())))))"

definition watcher_validate_taker_fee ::
  "utxo_coin \<Rightarrow> (nat \<Rightarrow> utxo_rpc) \<Rightarrow> secp_parsers \<Rightarrow> watcher_validate_taker_fee_input \<Rightarrow> nat \<Rightarrow> (validate_payment_error + unit) option" where
  "watcher_validate_taker_fee coin rpcs secp input output_index =
     (case hash_from_slice 32 (wvf_taker_fee_hash input) of
        None \<Rightarrow> None
      | Some fee_hash \<Rightarrow>
          (case taker_fee_from_rpc rpcs fee_hash 0 of
             Inl e \<Rightarrow> Some (Inl (ValidateTransport e))
           | Inr (attempts, tx_from_rpc) \<Rightarrow>
               (case read_utxo_tx (rt_hex tx_from_rpc) of
                  TxPanics \<Rightarrow> None
                | TxUnreadable e \<Rightarrow> Some (Inl (TxDeserializationError ''Error''))
                | TxRead taker_fee_tx \<Rightarrow> watcher_check_fee coin (rpcs attempts) secp input output_index tx_from_rpc taker_fee_tx)))"

section \<open>The taker payment\<close>

text \<open>The redeem script that the preimage of the refund reveals: the data of the last instruction of its script.\<close>

definition revealed_redeem_script :: "script \<Rightarrow> validate_payment_error + bytes" where
  "revealed_redeem_script script_sig =
     (if script_iter script_sig = [] then Inl (WrongPaymentTx ''Instruction not found'')
      else case last (script_iter script_sig) of
        Inl e \<Rightarrow> Inl (WrongPaymentTx ''Error'')
      | Inr instruction \<Rightarrow>
          (case in_data instruction of
             None \<Rightarrow> Inl (WrongPaymentTx ''No redeem script in the taker payment refund preimage'')
           | Some redeem_script \<Rightarrow> Inr redeem_script))"

definition watcher_check_payment ::
  "utxo_coin \<Rightarrow> utxo_rpc \<Rightarrow> secp_parsers \<Rightarrow> watcher_validate_payment_input \<Rightarrow> btc_transaction \<Rightarrow> btc_transaction \<Rightarrow> script \<Rightarrow>
   (validate_payment_error + unit) option" where
  "watcher_check_payment coin rpc secp input taker_payment_tx taker_payment_refund_preimage expected_redeem =
     (case check_all_utxo_inputs_signed_by_pub secp taker_payment_tx (wvp_taker_pub input) of
        Inl e \<Rightarrow> Some (Inl e)
      | Inr False \<Rightarrow> Some (Inl (WrongPaymentTx ''Taker payment does not belong to the verified public key''))
      | Inr True \<Rightarrow>
          (case tx_outputs taker_payment_tx of
             [] \<Rightarrow> Some (Inl (WrongPaymentTx ''Payment tx has no outputs''))
           | output # _ \<Rightarrow>
               (case p2sh_of (uc_hashes coin) expected_redeem of
                  None \<Rightarrow> None
                | Some expected_locking_script \<Rightarrow>
                    if xo_script_pubkey output \<noteq> expected_locking_script
                    then Some (Inl (WrongPaymentTx (''Payment tx locking script doesn'' @ CHR 0x27 # ''t match expected'')))
                    else (case tx_inputs taker_payment_refund_preimage of
                       [] \<Rightarrow> Some (Inl (WrongPaymentTx ''Taker payment refund tx has no inputs''))
                     | preimage_input # _ \<Rightarrow>
                         (case revealed_redeem_script (ti_script_sig preimage_input) of
                            Inl e \<Rightarrow> Some (Inl e)
                          | Inr redeem_script \<Rightarrow>
                              if expected_redeem \<noteq> redeem_script
                              then Some (Inl (WrongPaymentTx
                                (''Taker payment tx locking script doesn'' @ CHR 0x27 # ''t match with taker payment refund redeem script'')))
                              else if uc_electrum coin \<and> uc_spv_conf coin \<and> wvp_confirmations input \<noteq> 0
                              then Some (map_sum SPVProofError id (ur_spv_proof rpc taker_payment_tx))
                              else Some (Inr ()))))))"

definition watcher_validate_taker_payment ::
  "utxo_coin \<Rightarrow> utxo_rpc \<Rightarrow> secp_parsers \<Rightarrow> watcher_validate_payment_input \<Rightarrow> (validate_payment_error + unit) option" where
  "watcher_validate_taker_payment coin rpc secp input =
     (case read_utxo_tx (wvp_payment_tx input) of
        TxPanics \<Rightarrow> None
      | TxUnreadable e \<Rightarrow> Some (Inl (TxDeserializationError ''Error''))
      | TxRead taker_payment_tx \<Rightarrow>
          (case read_utxo_tx (wvp_taker_payment_refund_preimage input) of
             TxPanics \<Rightarrow> None
           | TxUnreadable e \<Rightarrow> Some (Inl (TxDeserializationError ''Error''))
           | TxRead taker_payment_refund_preimage \<Rightarrow>
               (case public_from_slice (wvp_taker_pub input) of
                  None \<Rightarrow> Some (Inl (InvalidParameter ''InvalidPublic''))
                | Some taker_pub \<Rightarrow>
                    (case public_from_slice (wvp_maker_pub input) of
                       None \<Rightarrow> Some (Inl (InvalidParameter ''InvalidPublic''))
                     | Some maker_pub \<Rightarrow>
                         (case payment_script (uc_hashes coin) (wvp_time_lock input) (wvp_secret_hash input) taker_pub maker_pub of
                            None \<Rightarrow> None
                          | Some expected_redeem \<Rightarrow>
                              watcher_check_payment coin rpc secp input taker_payment_tx taker_payment_refund_preimage expected_redeem)))))"

section \<open>The spend of the taker payment\<close>

definition watcher_search_for_swap_tx_spend ::
  "utxo_coin \<Rightarrow> utxo_rpc \<Rightarrow> watcher_search_for_swap_tx_spend_input \<Rightarrow> nat \<Rightarrow> (string + found_swap_tx_spend option) option" where
  "watcher_search_for_swap_tx_spend coin rpc input output_index =
     (case public_from_slice (wsi_taker_pub input) of
        None \<Rightarrow> Some (Inl ''InvalidPublic'')
      | Some taker_pub \<Rightarrow>
          (case public_from_slice (wsi_maker_pub input) of
             None \<Rightarrow> Some (Inl ''InvalidPublic'')
           | Some maker_pub \<Rightarrow>
               search_for_swap_output_spend coin rpc (wsi_time_lock input) taker_pub maker_pub (wsi_secret_hash input)
                 (wsi_tx input) output_index (wsi_search_from_block input)))"

section \<open>The coin of a watcher\<close>

text \<open>
  \<open>UtxoStandardCoin\<close> gives the calls of a watcher to these functions. A watcher's coin stands for the coin \<open>coin\<close> with the
  servers \<open>rpcs\<close> when its methods give the results of the functions, wherever these do not panic; \<open>show_error\<close> renders errors.
\<close>

definition utxo_validates ::
  "utxo_coin \<Rightarrow> secp_parsers \<Rightarrow> (moment \<Rightarrow> nat \<Rightarrow> utxo_rpc) \<Rightarrow> (validate_payment_error \<Rightarrow> string) \<Rightarrow> watcher_coin \<Rightarrow> bool" where
  "utxo_validates coin secp rpcs show_error wc \<longleftrightarrow>
     (\<forall>t input r. watcher_validate_taker_fee coin (rpcs t) secp input DEFAULT_FEE_VOUT = Some r \<longrightarrow>
        wc_watcher_validate_taker_fee wc t input = map_sum show_error id r) \<and>
     (\<forall>t input r. watcher_validate_taker_payment coin (rpcs t 0) secp input = Some r \<longrightarrow>
        wc_watcher_validate_taker_payment wc t input = map_sum show_error id r)"

definition utxo_watches :: "utxo_coin \<Rightarrow> (moment \<Rightarrow> nat \<Rightarrow> utxo_rpc) \<Rightarrow> watcher_coin \<Rightarrow> bool" where
  "utxo_watches coin rpcs wc \<longleftrightarrow>
     (\<forall>t i input r. watcher_search_for_swap_tx_spend coin (rpcs t i) input DEFAULT_SWAP_VOUT = Some r \<longrightarrow>
        wc_watcher_search_for_swap_tx_spend wc t i input = r) \<and>
     (\<forall>t secret_hash raw reward r. extract_secret (uc_hashes coin) secret_hash raw = Some r \<longrightarrow>
        c_extract_secret wc t secret_hash raw reward = r) \<and>
     (\<forall>t input r. send_maker_payment_spend_preimage coin (rpcs t 0) (smp_preimage input) (smp_secret input) = Some r \<longrightarrow>
        wc_send_maker_payment_spend_preimage wc t input = r) \<and>
     (\<forall>t args r. send_taker_payment_refund_preimage coin (rpcs t 0) (rpa_payment_tx args) = Some r \<longrightarrow>
        wc_send_taker_payment_refund_preimage wc t args = r)"

end
