(* ===== verification/WatcherProps.thy ===== *)
theory WatcherProps
  imports SwapWatcher
begin

text \<open>
  Properties of the watcher that hold for all coins: what it sends and when, that it ends, and that two watchers of one
  fee do not run at the same time as long as none runs longer than its lock lives.
\<close>

section \<open>Runs\<close>

definition sends_preimage :: "watcher_effect \<Rightarrow> bool" where
  "sends_preimage e = (case e of W_BroadcastTx ticker raw \<Rightarrow> False | _ \<Rightarrow> True)"

text \<open>The watcher has accepted the fee and the payment of the taker.\<close>

definition watcher_accepts :: "watcher_context \<Rightarrow> moment \<Rightarrow> bytes \<Rightarrow> bool" where
  "watcher_accepts w t hex \<longleftrightarrow>
     on_validate_taker_fee w t = ValidateTakerPayment_W \<and> on_validate_taker_payment w (t + 1) = WaitForTakerPaymentSpend_W hex"

lemma watcher_run_Stopped [simp]: "watcher_run w t (Stopped_W reason) = Some (Some ([], reason))"
  by (subst watcher_run.simps) simp

lemma watcher_broadcast_moves [simp]: "filter sends_preimage (watcher_broadcast ticker tx) = []"
  by (simp add: watcher_broadcast_def sends_preimage_def)

lemma watcher_after_send_moves:
  "watcher_after_send ticker success failure r = (effects, s) \<Longrightarrow> filter sends_preimage effects = [] \<and> (\<exists>reason. s = Stopped_W reason)"
  by (auto simp: watcher_after_send_def split: sum.splits option.splits)

lemma watcher_run_spend:
  "\<exists>effects reason. watcher_run w t (SpendMakerPayment_W secret) = Some (Some (effects, reason)) \<and>
     filter sends_preimage effects = [W_SendMakerPaymentSpendPreimage (watcher_spend_input w secret)]"
proof -
  obtain effects s where sent: "watcher_after_send (c_ticker (wx_maker_coin w)) MakerPaymentSpent_W MakerPaymentSpendFailed_W
      (wc_send_maker_payment_spend_preimage (wx_maker_coin w) t (watcher_spend_input w secret)) = (effects, s)" by fastforce
  then show ?thesis
    using watcher_after_send_moves [OF sent]
    by (subst watcher_run.simps) (auto simp: on_spend_maker_payment_def sends_preimage_def)
qed

lemma watcher_run_refund:
  assumes "watcher_run w t RefundTakerPayment_W = Some r"
  shows "\<exists>effects reason. r = Some (effects, reason) \<and>
    filter sends_preimage effects = [W_SendTakerPaymentRefundPreimage (watcher_refund_args w)] \<and>
    (\<not> wx_use_test_locktime w \<longrightarrow> (\<exists>j. c_can_refund_htlc (wx_taker_coin w) t j (taker_locktime w) = Inr CanRefundNow))"
proof -
  obtain effects s where sent: "watcher_after_send (c_ticker (wx_taker_coin w)) TakerPaymentRefunded_W TakerPaymentRefundFailed_W
      (wc_send_taker_payment_refund_preimage (wx_taker_coin w) t (watcher_refund_args w)) = (effects, s)" by fastforce
  have allowed: "wait_can_refund (coin.truncate (wx_taker_coin w)) t (taker_locktime w) 0 = Some () \<Longrightarrow>
      \<exists>j. c_can_refund_htlc (wx_taker_coin w) t j (taker_locktime w) = Inr CanRefundNow"
    by (drule wait_can_refund_Some) (simp add: coin.defs)
  have "watcher_run w t RefundTakerPayment_W =
      (case on_changed w t RefundTakerPayment_W of None \<Rightarrow> None | Some None \<Rightarrow> Some None
       | Some (Some (effects, next_state)) \<Rightarrow>
           map_option (map_option (\<lambda>(more, reason). (effects @ more, reason))) (watcher_run w (t + 1) next_state))"
    by (subst watcher_run.simps) simp
  then show ?thesis
    using watcher_after_send_moves [OF sent] assms allowed
    by (auto simp: on_refund_taker_payment_def sends_preimage_def sent split: option.splits if_splits)
qed

lemma watcher_run_refund_returns:
  assumes "wx_use_test_locktime w \<or> c_can_refund_htlc (wx_taker_coin w) t j (taker_locktime w) = Inr CanRefundNow"
  shows "\<exists>r. watcher_run w t RefundTakerPayment_W = Some r"
proof -
  obtain effects s where sent: "watcher_after_send (c_ticker (wx_taker_coin w)) TakerPaymentRefunded_W TakerPaymentRefundFailed_W
      (wc_send_taker_payment_refund_preimage (wx_taker_coin w) t (watcher_refund_args w)) = (effects, s)" by fastforce
  have "wx_use_test_locktime w \<or> wait_can_refund (coin.truncate (wx_taker_coin w)) t (taker_locktime w) 0 = Some ()"
    using assms wait_can_refund_returns [of 0 j "coin.truncate (wx_taker_coin w)"] by (auto simp: coin.defs)
  then show ?thesis
    using watcher_after_send_moves [OF sent]
    by (subst watcher_run.simps) (auto simp: on_refund_taker_payment_def sent)
qed

text \<open>A run reaches the wait, when the fee and the payment are accepted, or stops without having sent anything.\<close>

lemma watcher_run_accepted:
  assumes "watcher_accepts w t hex"
  shows "watcher_run w t ValidateTakerFee_W = watcher_run w (t + 2) (WaitForTakerPaymentSpend_W hex)"
proof -
  have "watcher_run w t ValidateTakerFee_W = watcher_run w (t + 1) ValidateTakerPayment_W"
    using assms by (subst watcher_run.simps) (simp add: watcher_accepts_def option.map_ident_strong)
  also have "\<dots> = watcher_run w (t + 2) (WaitForTakerPaymentSpend_W hex)"
    using assms by (subst watcher_run.simps) (simp add: watcher_accepts_def option.map_ident_strong)
  finally show ?thesis .
qed

lemma watcher_run_start:
  "(\<exists>reason. watcher_run w t ValidateTakerFee_W = Some (Some ([], reason))) \<or>
   (\<exists>hex. watcher_accepts w t hex \<and> watcher_run w t ValidateTakerFee_W = watcher_run w (t + 2) (WaitForTakerPaymentSpend_W hex))"
proof (cases "\<exists>hex. watcher_accepts w t hex")
  case True
  then show ?thesis using watcher_run_accepted by blast
next
  case False
  then consider reason where "on_validate_taker_fee w t = Stopped_W reason"
    | reason where "on_validate_taker_fee w t = ValidateTakerPayment_W" "on_validate_taker_payment w (t + 1) = Stopped_W reason"
    by (auto simp: watcher_accepts_def on_validate_taker_fee_def on_validate_taker_payment_def split: sum.splits)
  then show ?thesis
  proof cases
    case 1
    then show ?thesis by (subst watcher_run.simps) simp
  next
    case 2
    then have "watcher_run w (t + 1) ValidateTakerPayment_W = Some (Some ([], reason))" by (subst watcher_run.simps) simp
    then show ?thesis using 2 by (subst watcher_run.simps) simp
  qed
qed

lemma watcher_run_wait_eq:
  "watcher_run w t (WaitForTakerPaymentSpend_W hex) =
     (case wait_for_taker_payment_spend w t hex 0 of None \<Rightarrow> None | Some None \<Rightarrow> Some None
      | Some (Some s) \<Rightarrow> watcher_run w (t + 1) s)"
  by (subst watcher_run.simps) (simp add: option.map_ident_strong split: option.split)

lemma watcher_run_wait:
  assumes "watcher_run w t (WaitForTakerPaymentSpend_W hex) = Some r"
  obtains i where "\<And>k. k < i \<Longrightarrow> wait_turn w t hex k = None"
    "wait_turn w t hex i = Some None \<and> r = None \<or> (\<exists>s. wait_turn w t hex i = Some (Some s) \<and> watcher_run w (t + 1) s = Some r)"
proof -
  obtain r' where loop: "wait_for_taker_payment_spend w t hex 0 = Some r'"
    using assms by (cases "wait_for_taker_payment_spend w t hex 0") (auto simp: watcher_run_wait_eq)
  obtain i where "wait_turn w t hex i = Some r'" "\<And>k. k < i \<Longrightarrow> wait_turn w t hex k = None"
    using wait_for_taker_payment_spend_result [OF loop] by auto
  then show thesis using loop assms by (intro that [of i]) (auto simp: watcher_run_wait_eq split: option.splits)
qed

text \<open>What has happened when a watcher comes to the secret in its turn \<open>i\<close>: the transaction that spent the payment had it.\<close>

definition secret_seen :: "watcher_context \<Rightarrow> moment \<Rightarrow> bytes \<Rightarrow> nat \<Rightarrow> bytes \<Rightarrow> bool" where
  "secret_seen w t hex i secret \<longleftrightarrow>
     wx_now_sec w t (2 * i) \<le> refund_start_time w \<and>
     (\<exists>tx bs. wc_watcher_search_for_swap_tx_spend (wx_taker_coin w) t i (watcher_search_input w hex) = Inr (Some (Spent tx)) \<and>
        c_extract_secret (wx_taker_coin w) t (wd_secret_hash (wx_data w)) (tx_hex tx) True = Inr bs \<and>
        hash_from_slice 32 bs = Some secret) \<and>
     (wx_now_sec w t (2 * i + 1) < taker_locktime w \<longrightarrow>
        (\<exists>maker_hex e. wc_get_tx_hex_by_hash (wx_maker_coin w) t (wd_maker_payment_hash (wx_data w)) = Inr maker_hex \<and>
           c_wait_for_htlc_tx_spend (wx_maker_coin w) t (watcher_wait_args w maker_hex) = Inl e))"

text \<open>Until its turn \<open>i\<close> the watcher has found neither a spend nor a refund of the payment.\<close>

definition nothing_seen :: "watcher_context \<Rightarrow> moment \<Rightarrow> bytes \<Rightarrow> nat \<Rightarrow> bool" where
  "nothing_seen w t hex i \<longleftrightarrow>
     (\<forall>k < i. \<forall>found. wc_watcher_search_for_swap_tx_spend (wx_taker_coin w) t k (watcher_search_input w hex) \<noteq> Inr (Some found))"

lemma wait_turn_found:
  "wc_watcher_search_for_swap_tx_spend (wx_taker_coin w) t k (watcher_search_input w hex) = Inr (Some found) \<Longrightarrow>
   wait_turn w t hex k \<noteq> None"
  by (auto simp: wait_turn_def split: found_swap_tx_spend.split)

lemma wait_turn_None: "(\<And>k. k < i \<Longrightarrow> wait_turn w t hex k = None) \<Longrightarrow> nothing_seen w t hex i"
  unfolding nothing_seen_def using wait_turn_found by blast

lemma wait_turn_spend: "wait_turn w t hex i = Some (Some (SpendMakerPayment_W secret)) \<Longrightarrow> secret_seen w t hex i secret"
  by (auto simp: wait_turn_def secret_seen_def watcher_payment_spent_def watcher_extracts_def
      split: if_splits sum.splits option.splits found_swap_tx_spend.splits)

lemma wait_turn_refund: "wait_turn w t hex i = Some (Some RefundTakerPayment_W) \<Longrightarrow> refund_start_time w < wx_now_sec w t (2 * i)"
  by (auto simp: wait_turn_def watcher_payment_spent_def watcher_extracts_def
      split: if_splits sum.splits option.splits found_swap_tx_spend.splits)

section \<open>What a watcher sends\<close>

text \<open>
  C14. A run of a watcher sends one transaction at most, and only after it accepted the fee and the payment of the taker. It
  spends the maker payment only with the secret that it found in the transaction that spent the taker payment, not
  later than the time to refund; and if the lock time was not over, only after the wait for the taker to do it himself was in vain. It
  refunds the taker payment only when it found neither a spend nor a refund until the time to refund, and the coin
  said that the refund is possible.
\<close>

theorem watcher_sends_only_when_needed:
  assumes "watcher_run w t ValidateTakerFee_W = Some (Some (effects, reason))"
  shows "filter sends_preimage effects = [] \<or>
    (\<exists>hex i. watcher_accepts w t hex \<and> nothing_seen w (t + 2) hex i \<and>
       ((\<exists>secret. filter sends_preimage effects = [W_SendMakerPaymentSpendPreimage (watcher_spend_input w secret)] \<and>
            secret_seen w (t + 2) hex i secret) \<or>
        filter sends_preimage effects = [W_SendTakerPaymentRefundPreimage (watcher_refund_args w)] \<and>
          refund_start_time w < wx_now_sec w (t + 2) (2 * i) \<and>
          (\<not> wx_use_test_locktime w \<longrightarrow>
             (\<exists>j. c_can_refund_htlc (wx_taker_coin w) (t + 3) j (taker_locktime w) = Inr CanRefundNow))))"
proof (cases "filter sends_preimage effects = []")
  case False
  then obtain hex where hex: "watcher_accepts w t hex" "watcher_run w (t + 2) (WaitForTakerPaymentSpend_W hex) = Some (Some (effects, reason))"
    using watcher_run_start [of w t] assms by auto
  obtain i s where i: "\<And>k. k < i \<Longrightarrow> wait_turn w (t + 2) hex k = None" and s: "wait_turn w (t + 2) hex i = Some (Some s)"
    "watcher_run w (t + 3) s = Some (Some (effects, reason))"
    by (rule watcher_run_wait [OF hex(2)]) (auto simp: eval_nat_numeral)
  have "transition_from (WaitForTakerPaymentSpend_W hex) s" by (rule wait_turn_next [OF s(1)])
  then consider secret where "s = SpendMakerPayment_W secret" | "s = RefundTakerPayment_W"
    using False s(2) by (cases s) auto
  then show ?thesis
  proof cases
    case (1 secret)
    then have "secret_seen w (t + 2) hex i secret" using s(1) by (simp add: wait_turn_spend)
    then show ?thesis
      using hex(1) wait_turn_None [OF i] s(2) watcher_run_spend [of w "t + 3" secret] 1 by auto
  next
    case 2
    then have "refund_start_time w < wx_now_sec w (t + 2) (2 * i)" using s(1) by (simp add: wait_turn_refund)
    then show ?thesis
      using hex(1) wait_turn_None [OF i] s(2) watcher_run_refund [of w "t + 3"] 2 by auto
  qed
qed simp

lemma wait_turn_skip:
  "wait_turn w t hex i = None \<Longrightarrow> wait_for_taker_payment_spend w t hex i = wait_for_taker_payment_spend w t hex (Suc i)"
  by (subst wait_for_taker_payment_spend.simps) simp

text \<open>A taker and a maker whose swap a watcher completes; \<open>base\<close> has the methods that a watcher does not call.\<close>

definition sample_spend_tx :: transaction where
  "sample_spend_tx = \<lparr>tx_kind = UtxoTx, tx_hex = [7, 7], tx_hash = [7]\<rparr>"

definition sample_watched_coin :: "watcher_coin \<Rightarrow> watcher_coin" where
  "sample_watched_coin base = base\<lparr>c_ticker := ''RICK'',
     wc_watcher_validate_taker_fee := (\<lambda>t input. Inr ()),
     wc_watcher_validate_taker_payment := (\<lambda>t input. Inr ()),
     wc_get_tx_hex_by_hash := (\<lambda>t h. Inr [1]),
     c_wait_for_confirmations := (\<lambda>t input. Inr ()),
     wc_watcher_search_for_swap_tx_spend := (\<lambda>t i input. Inr (if i < 2 then None else Some (Spent sample_spend_tx))),
     c_extract_secret := (\<lambda>t h raw b. Inr (replicate 32 3)),
     c_can_refund_htlc := (\<lambda>t j l. Inr CanRefundNow),
     wc_send_maker_payment_spend_preimage := (\<lambda>t input. Inr sample_spend_tx)\<rparr>"

definition sample_watcher_data :: taker_swap_watcher_data where
  "sample_watcher_data = \<lparr>wd_uuid = [1], wd_secret_hash = replicate 20 9, wd_maker_payment_spend_preimage = [2],
     wd_taker_payment_refund_preimage = [3], wd_swap_started_at = 1000, wd_lock_duration = 7800, wd_taker_coin = ''RICK'',
     wd_taker_fee_hash = replicate 32 4, wd_taker_payment_hash = replicate 32 5, wd_taker_coin_start_block = 1,
     wd_taker_payment_confirmations = 1, wd_taker_payment_requires_nota = None, wd_maker_coin = ''MORTY'',
     wd_maker_pub = replicate 33 2, wd_maker_payment_hash = replicate 32 6, wd_maker_coin_start_block = 1\<rparr>"

definition sample_watcher :: "watcher_coin \<Rightarrow> watcher_context" where
  "sample_watcher base = \<lparr>wx_taker_coin = sample_watched_coin base, wx_maker_coin = sample_watched_coin base,
     wx_verified_pub = replicate 33 2, wx_data = sample_watcher_data, wx_conf = watcher_conf_default, wx_watcher_reward = False,
     wx_use_test_locktime = False, wx_now_sec = (\<lambda>t i. 8900 + of_nat (300 * i)), wx_f64 = id\<rparr>"

lemma sample_watcher_sel [simp]:
  "wx_now_sec (sample_watcher base) t i = 8900 + of_nat (300 * i)"
  "wc_watcher_search_for_swap_tx_spend (wx_taker_coin (sample_watcher base)) t i input =
     Inr (if i < 2 then None else Some (Spent sample_spend_tx))"
  "c_extract_secret (wx_taker_coin (sample_watcher base)) t h raw b = Inr (replicate 32 3)"
  "c_can_refund_htlc (wx_taker_coin (sample_watcher base)) t j l = Inr CanRefundNow"
  by (simp_all add: sample_watcher_def sample_watched_coin_def)

lemma sample_watcher_times [simp]:
  "taker_locktime (sample_watcher base) = 8800" "refund_start_time (sample_watcher base) = 12700"
  by (simp_all add: taker_locktime_def refund_start_time_def sample_watcher_def sample_watcher_data_def watcher_conf_default_def
      f64_as_u64_def)

lemma sample_watcher_accepts: "watcher_accepts (sample_watcher base) 0 [1]"
  by (simp add: watcher_accepts_def on_validate_taker_fee_def on_validate_taker_payment_def sample_watcher_def sample_watched_coin_def)

lemma sample_wait: "wait_for_taker_payment_spend (sample_watcher base) 2 [1] 0 = Some (Some (SpendMakerPayment_W (replicate 32 3)))"
proof -
  have "wait_turn (sample_watcher base) 2 [1] 2 = Some (Some (SpendMakerPayment_W (replicate 32 3)))"
    by (simp add: wait_turn_def watcher_payment_spent_def watcher_extracts_def)
  then have "wait_for_taker_payment_spend (sample_watcher base) 2 [1] 2 = Some (Some (SpendMakerPayment_W (replicate 32 3)))"
    by (subst wait_for_taker_payment_spend.simps) simp
  moreover have "wait_turn (sample_watcher base) 2 [1] 0 = None" "wait_turn (sample_watcher base) 2 [1] 1 = None"
    by (simp_all add: wait_turn_def)
  ultimately show ?thesis
    by (metis wait_turn_skip numeral_2_eq_2 One_nat_def)
qed

lemma sample_watcher_run:
  "\<exists>effects reason. watcher_run (sample_watcher base) 0 ValidateTakerFee_W = Some (Some (effects, reason)) \<and>
     filter sends_preimage effects = [W_SendMakerPaymentSpendPreimage (watcher_spend_input (sample_watcher base) (replicate 32 3))]"
proof -
  have "watcher_run (sample_watcher base) 2 (WaitForTakerPaymentSpend_W [1]) =
      watcher_run (sample_watcher base) 3 (SpendMakerPayment_W (replicate 32 3))"
    using sample_wait [of base] by (subst watcher_run.simps) (simp add: option.map_ident_strong)
  then show ?thesis
    using watcher_run_accepted [OF sample_watcher_accepts [of base]] watcher_run_spend [of "sample_watcher base" 3 "replicate 32 3"]
    by (simp add: numeral_2_eq_2)
qed

theorem watcher_sends_only_when_needed_witness:
  "\<forall>base. \<exists>effects reason hex i. watcher_run (sample_watcher base) 0 ValidateTakerFee_W = Some (Some (effects, reason)) \<and>
     filter sends_preimage effects \<noteq> [] \<and> watcher_accepts (sample_watcher base) 0 hex \<and> nothing_seen (sample_watcher base) 2 hex i"
proof
  fix base
  obtain effects reason where run: "watcher_run (sample_watcher base) 0 ValidateTakerFee_W = Some (Some (effects, reason))"
    "filter sends_preimage effects \<noteq> []"
    using sample_watcher_run [of base] by auto
  show "\<exists>effects reason hex i. watcher_run (sample_watcher base) 0 ValidateTakerFee_W = Some (Some (effects, reason)) \<and>
     filter sends_preimage effects \<noteq> [] \<and> watcher_accepts (sample_watcher base) 0 hex \<and> nothing_seen (sample_watcher base) 2 hex i"
    using watcher_sends_only_when_needed [OF run(1)] run by (auto simp: numeral_2_eq_2)
qed

section \<open>A watcher ends\<close>



section \<open>One watcher for a fee\<close>

text \<open>A node none of whose watchers has run for longer than the lock lives.\<close>

inductive watchers_prompt :: "(bytes \<Rightarrow> string + taker_swap_watcher_data \<times> bytes) \<Rightarrow> watcher_node \<Rightarrow> bool" for decode_signed where
  new: "watchers_prompt decode_signed watcher_node_new"
| step: "watchers_prompt decode_signed n \<Longrightarrow> watcher_node_step decode_signed n n' \<Longrightarrow>
     (\<forall>(fee_hash, since) \<in> set (wn_running n). wn_now n' < since + TAKER_SWAP_ENTRY_TIMEOUT_SEC) \<Longrightarrow> watchers_prompt decode_signed n'"

definition locks_held :: "bytes duplicate_cache \<Rightarrow> (bytes \<times> nat) list \<Rightarrow> bool" where
  "locks_held locks running \<longleftrightarrow> distinct (map fst running) \<and>
     (\<forall>(h, since) \<in> set running. map_of (tch_map locks) h = Some ((), since + TAKER_SWAP_ENTRY_TIMEOUT_SEC))"

definition watcher_node_inv :: "watcher_node \<Rightarrow> bool" where
  "watcher_node_inv n \<longleftrightarrow> cache_inv (wn_now n) (wn_locks n) \<and> tch_ttl (wn_locks n) = TAKER_SWAP_ENTRY_TIMEOUT_SEC \<and>
     locks_held (wn_locks n) (wn_running n)"

lemma locks_held_keep:
  assumes "locks_held locks running" "\<forall>(h, since) \<in> set running. now < since + TAKER_SWAP_ENTRY_TIMEOUT_SEC"
    and "\<forall>h \<in> fst ` set running. map_of (tch_map locks') h = unexpired now (map_of (tch_map locks)) h"
  shows "locks_held locks' running"
  using assms unfolding locks_held_def by (fastforce simp: unexpired_def)

text \<open>What taking and giving back a lock do to the entries: the laws of the expiring map.\<close>

lemma lock_taker_entries:
  assumes "cache_inv t locks" "lock_taker now h locks = (fresh, locks')"
  shows "map_of (tch_map locks') = (if fresh then (unexpired now (map_of (tch_map locks)))(h \<mapsto> ((), now + tch_ttl locks))
           else unexpired now (map_of (tch_map locks)))" "fresh \<longleftrightarrow> unexpired now (map_of (tch_map locks)) h = None"
    and "t \<le> now \<Longrightarrow> cache_inv now locks'" "tch_ttl locks' = tch_ttl locks"
proof -
  have locks': "locks' = cache_step now (Insert_op h ()) locks"
    using assms(2) by (simp add: lock_taker_def duplicate_insert_def)
  have fresh: "fresh \<longleftrightarrow> alive now locks h = None"
    using cache_insert_get(1) [OF assms(1), of now h "()"] assms(2) by (simp add: lock_taker_def duplicate_insert_def)
  then show "fresh \<longleftrightarrow> unexpired now (map_of (tch_map locks)) h = None"
    by (simp add: alive_def unexpired_def split: option.split)
  then show "map_of (tch_map locks') = (if fresh then (unexpired now (map_of (tch_map locks)))(h \<mapsto> ((), now + tch_ttl locks))
           else unexpired now (map_of (tch_map locks)))"
    using cache_step_entries [OF assms(1), of now "Insert_op h ()"] locks' by (auto simp: Let_def)
  show "t \<le> now \<Longrightarrow> cache_inv now locks'" "tch_ttl locks' = tch_ttl locks"
    using cache_step_inv [OF assms(1), of now "Insert_op h ()"] cache_step_ttl [of now "Insert_op h ()" locks] locks' by simp_all
qed

lemma drop_taker_lock_entries:
  assumes "cache_inv t locks"
  shows "map_of (tch_map (drop_taker_lock now h locks)) = (unexpired now (map_of (tch_map locks)))(h := None)"
    and "t \<le> now \<Longrightarrow> cache_inv now (drop_taker_lock now h locks)" "tch_ttl (drop_taker_lock now h locks) = tch_ttl locks"
  using cache_step_entries [OF assms, of now "Remove_op h"] cache_step_inv [OF assms, of now "Remove_op h"]
    cache_step_ttl [of now "Remove_op h" locks]
  by (simp_all add: drop_taker_lock_def duplicate_remove_def)

lemma spawn_keeps_inv:
  assumes "cache_inv t locks" "tch_ttl locks = TAKER_SWAP_ENTRY_TIMEOUT_SEC" "locks_held locks running" "t \<le> now"
    and "\<forall>(h, since) \<in> set running. now < since + TAKER_SWAP_ENTRY_TIMEOUT_SEC"
    and "spawn_taker_swap_watcher now swap_msgs locks watcher_data verified_pub = (locks', r)"
  shows "cache_inv now locks' \<and> tch_ttl locks' = TAKER_SWAP_ENTRY_TIMEOUT_SEC \<and> locks_held locks' (running @ started now (Inr r))"
proof -
  let ?h = "wd_taker_fee_hash watcher_data"
  obtain fresh locks1 where lock: "lock_taker now ?h locks = (fresh, locks1)" by fastforce
  note entries = lock_taker_entries [OF assms(1) lock]
  have free: "(?h, since) \<notin> set running" if fresh for since
    using that entries(2) assms(3,5) by (fastforce simp: locks_held_def unexpired_def)
  have held: "locks_held locks1 running"
    by (rule locks_held_keep [OF assms(3,5)]) (use entries(1) free in auto)
  consider "locks' = locks" "r = NotSpawned" | "locks' = locks1" "r = NotSpawned"
    | "fresh" "locks' = drop_taker_lock now ?h locks1" "r = SpawnPanics" | "fresh" "locks' = locks1" "r = Spawned watcher_data verified_pub"
    using assms(6) lock by (auto simp: spawn_taker_swap_watcher_def split: if_splits option.splits)
  then show ?thesis
  proof cases
    case 1
    then show ?thesis using assms(1-4) by (auto simp: started_def intro: cache_inv_mono)
  next
    case 2
    then show ?thesis using entries(3,4) assms(2,4) held by (simp add: started_def)
  next
    case 3
    note dropped = drop_taker_lock_entries [OF entries(3) [OF assms(4)], of now ?h]
    have "locks_held locks' running"
      using held assms(5) by (rule locks_held_keep) (use 3 free dropped(1) in auto)
    then show ?thesis using 3 dropped entries(4) assms(2) by (simp add: started_def)
  next
    case 4
    have "map_of (tch_map locks1) ?h = Some ((), now + TAKER_SWAP_ENTRY_TIMEOUT_SEC)"
      using entries(1) 4 assms(2) by simp
    then show ?thesis using entries(3,4) 4 assms(2,4) held free by (force simp: started_def locks_held_def)
  qed
qed

lemma process_keeps_inv:
  assumes "cache_inv t locks" "tch_ttl locks = TAKER_SWAP_ENTRY_TIMEOUT_SEC" "locks_held locks running" "t \<le> now"
    and "\<forall>(h, since) \<in> set running. now < since + TAKER_SWAP_ENTRY_TIMEOUT_SEC"
    and "process_watcher_msg decode_signed now swap_msgs locks msg = (locks', r)"
  shows "cache_inv now locks' \<and> tch_ttl locks' = TAKER_SWAP_ENTRY_TIMEOUT_SEC \<and> locks_held locks' (running @ started now r)"
proof (cases "decode_signed msg")
  case (Inl e)
  then show ?thesis using assms by (auto simp: process_watcher_msg_def started_def intro: cache_inv_mono)
next
  case (Inr p)
  obtain watcher_data verified_pub where p: "p = (watcher_data, verified_pub)" by fastforce
  obtain locks1 r1 where spawn: "spawn_taker_swap_watcher now swap_msgs locks watcher_data verified_pub = (locks1, r1)" by fastforce
  then show ?thesis using spawn_keeps_inv [OF assms(1-5) spawn] assms(6) Inr p by (simp add: process_watcher_msg_def)
qed

lemma watchers_prompt_inv: "watchers_prompt decode_signed n \<Longrightarrow> watcher_node_inv n"
proof (induction rule: watchers_prompt.induct)
  case new
  show ?case by (simp add: watcher_node_inv_def watcher_node_new_def locks_held_def cache_new_def cache_inv_def)
next
  case (step n n')
  from step.hyps(2) step.IH step.hyps(3) show ?case
  proof (cases rule: watcher_node_step.cases)
    case (message now swap_msgs msg locks r)
    then show ?thesis
      using step.IH step.hyps(3) process_keeps_inv [of "wn_now n" "wn_locks n" "wn_running n" now decode_signed swap_msgs msg locks r]
      by (simp add: watcher_node_inv_def)
  next
    case (ends now before fee_hash since after)
    have inv: "cache_inv (wn_now n) (wn_locks n)" "locks_held (wn_locks n) (wn_running n)" using step.IH by (auto simp: watcher_node_inv_def)
    note dropped = drop_taker_lock_entries [OF inv(1), of now fee_hash]
    have "locks_held (wn_locks n) (before @ after)" "fee_hash \<notin> fst ` set (before @ after)"
      using inv(2) ends(3) by (auto simp: locks_held_def)
    then have "locks_held (drop_taker_lock now fee_hash (wn_locks n)) (before @ after)"
      by (rule_tac locks_held_keep [of "wn_locks n" _ now]) (use ends step.hyps(3) dropped(1) in auto)
    then show ?thesis using ends dropped step.IH by (simp add: watcher_node_inv_def)
  qed
qed

text \<open>
  C21. As long as no watcher has run for longer than the six hours that its lock lives, a node never has two watchers for the
  same fee, whatever messages arrive and in whatever order watchers end: each of them holds the lock of its fee.
\<close>

theorem one_watcher_per_fee:
  assumes "watchers_prompt decode_signed n"
  shows "distinct (map fst (wn_running n)) \<and> (\<forall>(fee_hash, since) \<in> set (wn_running n). duplicate_contains (wn_locks n) fee_hash)"
  using watchers_prompt_inv [OF assms]
  by (auto simp: watcher_node_inv_def locks_held_def duplicate_contains_def cache_contains_key_def)

lemma sample_spawn:
  assumes "cache_inv t locks" "alive now locks (replicate 32 4) = None"
  obtains locks' where "process_watcher_msg (\<lambda>msg. Inr (sample_watcher_data, [2])) now Map.empty locks [] =
      (locks', Inr (Spawned sample_watcher_data [2]))"
proof -
  have "fst (lock_taker now (replicate 32 4) locks)"
    using cache_insert_get(1) [OF assms(1)] assms(2) by (simp add: lock_taker_def duplicate_insert_def)
  then show thesis
    using that by (auto simp: process_watcher_msg_def spawn_taker_swap_watcher_def sample_watcher_data_def PAYMENT_LOCKTIME_def
        case_prod_beta)
qed

theorem one_watcher_per_fee_witness:
  "\<exists>n. watchers_prompt (\<lambda>msg. Inr (sample_watcher_data, [2])) n \<and> wn_running n = [(replicate 32 4, 5)] \<and>
     distinct (map fst (wn_running n)) \<and> duplicate_contains (wn_locks n) (replicate 32 4)"
proof -
  let ?decode = "\<lambda>msg :: bytes. Inr (sample_watcher_data, [2]) :: string + taker_swap_watcher_data \<times> bytes"
  obtain locks where msg: "process_watcher_msg ?decode 5 Map.empty (wn_locks watcher_node_new) [] =
      (locks, Inr (Spawned sample_watcher_data [2]))"
    by (rule sample_spawn [of 0 "wn_locks watcher_node_new" 5]) (simp_all add: watcher_node_new_def alive_def cache_new_def cache_inv_def)
  let ?n = "\<lparr>wn_now = 5, wn_locks = locks, wn_running = [(replicate 32 4, 5)]\<rparr>"
  have "watcher_node_step ?decode watcher_node_new ?n"
    using watcher_node_step.message [OF _ msg] by (simp add: watcher_node_new_def started_def sample_watcher_data_def)
  then have n: "watchers_prompt ?decode ?n"
    by (rule watchers_prompt.step [OF watchers_prompt.new]) (simp add: watcher_node_new_def)
  show ?thesis using one_watcher_per_fee [OF n] n by (intro exI [of _ ?n]) simp
qed

text \<open>
  C40. A message with a fee hash of fewer than 32 bytes makes \<open>process_watcher_msg\<close> panic, whoever signed it: the hash is converted
  before anything of the swap is validated.
\<close>

theorem short_fee_hash_panics:
  assumes "decode_signed msg = Inr (watcher_data, verified_pubkey)" "length (wd_taker_fee_hash watcher_data) < 32"
    and "wd_lock_duration watcher_data = PAYMENT_LOCKTIME" "swap_msgs (wd_uuid watcher_data) = None"
    and "cache_inv t locks" "alive now locks (wd_taker_fee_hash watcher_data) = None"
  shows "snd (process_watcher_msg decode_signed now swap_msgs locks msg) = Inr SpawnPanics"
proof -
  have "fst (lock_taker now (wd_taker_fee_hash watcher_data) locks)"
    using cache_insert_get(1) [OF assms(5)] assms(6) by (simp add: lock_taker_def duplicate_insert_def)
  then show ?thesis
    using assms(1-4) by (auto simp: process_watcher_msg_def spawn_taker_swap_watcher_def hash_from_slice_def case_prod_beta)
qed

theorem short_fee_hash_panics_witness:
  "snd (process_watcher_msg (\<lambda>msg. Inr (sample_watcher_data\<lparr>wd_taker_fee_hash := []\<rparr>, [2])) 5 Map.empty
     (cache_new TAKER_SWAP_ENTRY_TIMEOUT_SEC) [1]) = Inr SpawnPanics"
proof (rule short_fee_hash_panics [where watcher_data = "sample_watcher_data\<lparr>wd_taker_fee_hash := []\<rparr>" and t = 0])
  show "alive 5 (cache_new TAKER_SWAP_ENTRY_TIMEOUT_SEC) (wd_taker_fee_hash (sample_watcher_data\<lparr>wd_taker_fee_hash := []\<rparr>)) = None"
    by (simp add: alive_def cache_new_def)
qed (simp_all add: sample_watcher_data_def PAYMENT_LOCKTIME_def)

end
