(* ===== verification/UtxoWatcherProps.thy ===== *)
theory UtxoWatcherProps
  imports UtxoWatcher WatcherProps SpendSearchProps RefundProps
begin

text \<open>
  A watcher on coins of the Bitcoin family: it collects the maker payment for a taker who is offline, and what it
  accepts is the payment of the swap.
\<close>

section \<open>Collecting for the taker\<close>

text \<open>The server of the watcher shows the transaction \<open>raw\<close> as the spend of the taker payment.\<close>

definition watcher_shows ::
  "hash_functions \<Rightarrow> tx_hash_algo \<Rightarrow> utxo_coin \<Rightarrow> utxo_rpc \<Rightarrow> watcher_context \<Rightarrow> bytes \<Rightarrow> bytes \<Rightarrow> bool" where
  "watcher_shows H algo coin rpc w payment raw \<longleftrightarrow> uc_hashes coin = H \<and> uc_tx_hash_algo coin = algo \<and>
     (\<exists>taker_pub maker_pub prev raw_of history. public_from_slice (wx_verified_pub w) = Some taker_pub \<and>
        public_from_slice (wd_maker_pub (wx_data w)) = Some maker_pub \<and>
        pays_to coin payment prev (as_u32 (taker_locktime w)) (wd_secret_hash (wx_data w)) taker_pub maker_pub \<and>
        payment_history_shows coin rpc prev raw_of history raw)"

lemma watcher_finds_spend:
  assumes "utxo_collected H algo (maker, maker_rpc, args) spend"
    and "watcher_shows H algo coin (rpcs t i) w (sp_other_payment_tx args) (tx_hex spend)" "utxo_watches coin rpcs wc"
  shows "\<exists>s. wc_watcher_search_for_swap_tx_spend wc t i (watcher_search_input w (sp_other_payment_tx args)) = Inr (Some (Spent s)) \<and>
             tx_hex s = tx_hex spend"
proof -
  obtain taker_pub maker_pub prev raw_of history where pubs: "public_from_slice (wx_verified_pub w) = Some taker_pub"
      "public_from_slice (wd_maker_pub (wx_data w)) = Some maker_pub"
    and pays: "pays_to coin (sp_other_payment_tx args) prev (as_u32 (taker_locktime w)) (wd_secret_hash (wx_data w)) taker_pub maker_pub"
    and shown: "payment_history_shows coin (rpcs t i) prev raw_of history (tx_hex spend)"
    and chain: "uc_hashes coin = H" "uc_tx_hash_algo coin = algo"
    using assms(2) by (auto simp: watcher_shows_def)
  have same: "same_chain coin maker" using assms(1) chain by (auto simp: same_chain_def utxo_collected_def)
  obtain tx signature redeem input where tx: "spend = transaction_enum maker tx" "tx_inputs tx = [input]"
    "script_iter (ti_script_sig input) =
       [Inr (data_instruction signature), Inr (data_instruction (sp_secret args)), Inr (data_instruction []),
        Inr (data_instruction redeem)]"
    "payment_point maker (sp_other_payment_tx args) (ti_previous_output input)"
    "read_utxo_tx (tx_hex spend) = TxRead (tx\<lparr>tx_hash_algo := DSHA256\<rparr>)"
    by (rule utxo_collected_form [OF assms(1)])
  let ?found = "transaction_enum coin (tx\<lparr>tx_hash_algo := uc_tx_hash_algo coin\<rparr>)"
  have "search_for_swap_output_spend coin (rpcs t i) (as_u32 (taker_locktime w)) taker_pub maker_pub (wd_secret_hash (wx_data w))
      (sp_other_payment_tx args) 0 from_block = Some (Inr (Some (Spent ?found)))" for from_block
    using search_recognises [OF pays shown tx(5), of input from_block] tx(2,4) payment_point_same_chain [OF same]
    by (simp add: classify_secret [OF tx(3)])
  then have "wc_watcher_search_for_swap_tx_spend wc t i (watcher_search_input w (sp_other_payment_tx args)) = Inr (Some (Spent ?found))"
    using assms(3) pubs
    by (simp add: utxo_watches_def watcher_search_for_swap_tx_spend_def watcher_search_input_def DEFAULT_SWAP_VOUT_def)
  then show ?thesis by (simp add: tx(1) transaction_enum_same_hex)
qed

lemma wait_for_first_turn:
  assumes "\<And>k. k < i \<Longrightarrow> wait_turn w t hex k = None" "wait_turn w t hex i = Some r"
  shows "wait_for_taker_payment_spend w t hex 0 = Some r"
proof -
  obtain r' where loop: "wait_for_taker_payment_spend w t hex 0 = Some r'"
    using wait_for_taker_payment_spend_returns [of 0 i w t hex] assms(2) by auto
  obtain j where j: "wait_turn w t hex j = Some r'" "\<And>k. k < j \<Longrightarrow> wait_turn w t hex k = None"
    using wait_for_taker_payment_spend_result [OF loop] by auto
  have "i = j" using assms j by (metis linorder_cases option.distinct(1))
  then show ?thesis using loop j assms(2) by simp
qed

lemma nothing_seen_turn:
  assumes "nothing_seen w t hex i" "k < i" "wx_now_sec w t (2 * k) \<le> refund_start_time w"
  shows "wait_turn w t hex k = None"
  using assms by (auto simp: nothing_seen_def wait_turn_def split: sum.split option.split)


text \<open>A coin of a watcher that gives its calls to the functions of the Bitcoin family; \<open>base\<close> has the other methods.\<close>

definition utxo_watched_coin :: "watcher_coin \<Rightarrow> utxo_coin \<Rightarrow> (moment \<Rightarrow> nat \<Rightarrow> utxo_rpc) \<Rightarrow> watcher_coin" where
  "utxo_watched_coin base coin rpcs = (sample_watched_coin base)\<lparr>
     wc_get_tx_hex_by_hash := (\<lambda>t h. Inr (utxo_tx_hex sample_payment)),
     wc_watcher_search_for_swap_tx_spend := (\<lambda>t i input.
       case watcher_search_for_swap_tx_spend coin (rpcs t i) input DEFAULT_SWAP_VOUT of Some r \<Rightarrow> r | None \<Rightarrow> Inl ''panic''),
     c_extract_secret := (\<lambda>t h raw reward. case extract_secret (uc_hashes coin) h raw of Some r \<Rightarrow> r | None \<Rightarrow> Inl ''panic''),
     wc_send_maker_payment_spend_preimage := (\<lambda>t input.
       case send_maker_payment_spend_preimage coin (rpcs t 0) (smp_preimage input) (smp_secret input) of
         Some r \<Rightarrow> r | None \<Rightarrow> Inl (Plain ''panic'')),
     wc_send_taker_payment_refund_preimage := (\<lambda>t args.
       case send_taker_payment_refund_preimage coin (rpcs t 0) (rpa_payment_tx args) of Some r \<Rightarrow> r | None \<Rightarrow> Inl (Plain ''panic''))\<rparr>"

lemma utxo_watched_coin_watches: "utxo_watches coin rpcs (utxo_watched_coin base coin rpcs)"
  by (simp add: utxo_watches_def utxo_watched_coin_def)

definition sample_utxo_watcher :: "watcher_coin \<Rightarrow> utxo_rpc \<Rightarrow> bytes \<Rightarrow> watcher_context" where
  "sample_utxo_watcher base rpc preimage = (sample_watcher base)\<lparr>
     wx_taker_coin := utxo_watched_coin base (sample_coin 6) (\<lambda>t i. rpc),
     wx_maker_coin := utxo_watched_coin base (sample_coin 6) (\<lambda>t i. rpc),
     wx_verified_pub := 2 # replicate 32 4,
     wx_data := sample_watcher_data\<lparr>wd_swap_started_at := 1599992200, wd_maker_pub := 2 # replicate 32 5,
       wd_maker_payment_spend_preimage := preimage\<rparr>,
     wx_now_sec := (\<lambda>t i. 1600000100)\<rparr>"

lemma sample_utxo_watcher_sel:
  "wx_taker_coin (sample_utxo_watcher base rpc preimage) = utxo_watched_coin base (sample_coin 6) (\<lambda>t i. rpc)"
  "wx_maker_coin (sample_utxo_watcher base rpc preimage) = utxo_watched_coin base (sample_coin 6) (\<lambda>t i. rpc)"
  "wx_verified_pub (sample_utxo_watcher base rpc preimage) = 2 # replicate 32 4"
  "wd_maker_pub (wx_data (sample_utxo_watcher base rpc preimage)) = 2 # replicate 32 5"
  "wd_secret_hash (wx_data (sample_utxo_watcher base rpc preimage)) = replicate 20 9"
  "wd_maker_payment_spend_preimage (wx_data (sample_utxo_watcher base rpc preimage)) = preimage"
  "wx_now_sec (sample_utxo_watcher base rpc preimage) t i = 1600000100"
  "taker_locktime (sample_utxo_watcher base rpc preimage) = 1600000000"
  "refund_start_time (sample_utxo_watcher base rpc preimage) = 1600003900"
  by (simp_all add: sample_utxo_watcher_def sample_watcher_data_def taker_locktime_def refund_start_time_def)
    (simp add: sample_watcher_def watcher_conf_default_def f64_as_u64_def)

lemma sample_utxo_watcher_accepts: "watcher_accepts (sample_utxo_watcher base rpc preimage) 0 (utxo_tx_hex sample_payment)"
  by (simp add: watcher_accepts_def on_validate_taker_fee_def on_validate_taker_payment_def sample_utxo_watcher_sel
      utxo_watched_coin_def sample_watched_coin_def)

lemma sample_watcher_shows:
  assumes "read_utxo_tx raw = TxRead tx"
  shows "watcher_shows sample_hashes DSHA256 (sample_coin 6)
      (sample_rpc [] [[0], [1]] (\<lambda>h. if h = [1] then raw else utxo_tx_hex sample_payment))
      (sample_utxo_watcher base rpc preimage) (utxo_tx_hex sample_payment) raw"
proof -
  have "pays_to (sample_coin 6) (utxo_tx_hex sample_payment) sample_payment (as_u32 1600000000) (replicate 20 9)
      (2 # replicate 32 4) (2 # replicate 32 5)"
    by (rule sample_pays)
  then show ?thesis
    using sample_history [OF assms, of 6] unfolding watcher_shows_def sample_utxo_watcher_sel
    by (auto simp: public_from_slice_def sample_coin_def)
qed


section \<open>What a watcher accepts\<close>

text \<open>
  A payment that passes the validation was signed by the sender of the message with the preimages in all its inputs, pays to
  the script of the terms, and the preimage of the refund reveals this script.
\<close>

lemma watcher_validate_taker_payment_Inr:
  assumes "watcher_validate_taker_payment coin rpc secp input = Some (Inr ())"
  shows "\<exists>payment refund i is taker_pub maker_pub redeem. read_utxo_tx (wvp_payment_tx input) = TxRead payment \<and>
     read_utxo_tx (wvp_taker_payment_refund_preimage input) = TxRead refund \<and> tx_inputs refund = i # is \<and>
     public_from_slice (wvp_taker_pub input) = Some taker_pub \<and> public_from_slice (wvp_maker_pub input) = Some maker_pub \<and>
     payment_script (uc_hashes coin) (wvp_time_lock input) (wvp_secret_hash input) taker_pub maker_pub = Some redeem \<and>
     pays_to coin (wvp_payment_tx input) payment (wvp_time_lock input) (wvp_secret_hash input) taker_pub maker_pub \<and>
     revealed_redeem_script (ti_script_sig i) = Inr redeem \<and>
     inputs_signed_by secp (wvp_taker_pub input) (tx_inputs payment) = Inr True"
  using assms
  by (auto simp: watcher_validate_taker_payment_def watcher_check_payment_def pays_to_def check_all_utxo_inputs_signed_by_pub_def
      split: read_tx.splits option.splits sum.splits bool.splits list.splits if_splits)

lemma watcher_accepts_utxo:
  assumes "utxo_validates coin secp rpcs show_error (wx_taker_coin w)" "watcher_accepts w t hex"
    and "watcher_validate_taker_payment coin (rpcs (t + 1) 0) secp (watcher_payment_input w hex) \<noteq> None"
  shows "watcher_validate_taker_payment coin (rpcs (t + 1) 0) secp (watcher_payment_input w hex) = Some (Inr ())"
proof -
  obtain r where r: "watcher_validate_taker_payment coin (rpcs (t + 1) 0) secp (watcher_payment_input w hex) = Some r"
    using assms(3) by auto
  then have "wc_watcher_validate_taker_payment (wx_taker_coin w) (t + 1) (watcher_payment_input w hex) = map_sum show_error id r"
    using assms(1) by (simp add: utxo_validates_def)
  then have "\<exists>u. r = Inr u"
    using assms(2) by (cases r) (auto simp: watcher_accepts_def on_validate_taker_payment_def split: sum.splits)
  then show ?thesis using r by auto
qed

end
