(* ===== verification/Spec2Isabelle.thy ===== *)
theory Spec2Isabelle
  imports MakerProps TakerProps CommonProps SavedProps RecoveryProps HandshakeProps MaxVolume
    HeaderSyncProps RecentlySpentProps UtxoWatcherProps
begin

text \<open>
  Verification of the AtomicDEX API, a node of a peer-to-peer exchange of coins of different chains.
  Two nodes agree on a trade by messages (order matching, \<open>mm2src/mm2_main/src/lp_ordermatch.rs\<close>) and
  then run an atomic swap against each other (\<open>mm2src/mm2_main/src/lp_swap\<close>): the taker pays a fee, the
  maker and the taker lock their payments in hash time locked contracts, the maker collects the taker's
  payment and so reveals a secret, with which the taker collects the maker's payment; and whoever is let
  down refunds his payment after its lock time.

  \<^bold>\<open>Conventions.\<close> \<open>Prelude\<close> has the machine types: \<open>u8\<close>, \<open>u32\<close> and \<open>u64\<close> are words and wrap around as a
  release build does. A call that can panic gives an option, \<open>None\<close> being the panic; a call that returns a
  \<open>Result\<close> gives a sum, \<open>Inl\<close> being the error. \<open>MmNumber\<close> and \<open>BigDecimal\<close> are rational numbers, the
  rounding to a decimal a parameter of the context. A \<open>HashMap\<close> that is iterated over is an association
  list in the order of the iteration. The texts of errors are those of the code, without the position in
  the file that the macros \<open>ERR!\<close> and \<open>ERRL!\<close> put in front. Coins, the clock, random numbers, files and
  the peers are parameters: the record \<open>coin\<close> of \<open>SwapEnv\<close> has the operations of the traits of
  \<open>coins/lp_coins.rs\<close> that the engine calls, and every call takes the moment at which it is made, so that
  each answer may differ from the one before. What a call does to the outside is in the list of effects it
  returns (messages sent, transactions broadcast, records saved).

  \<^bold>\<open>Swaps.\<close> \<open>SwapTypes\<close> and \<open>SwapEnv\<close> hold the data and the environment, \<open>SwapCommon\<close> what both sides share
  (\<open>lp_swap.rs\<close>), \<open>CheckBalance\<close> the balance checks (\<open>check_balance.rs\<close>), \<open>MakerSwap\<close> and \<open>TakerSwap\<close> the
  events and one definition for each stage of \<open>maker_swap.rs\<close> and \<open>taker_swap.rs\<close>, \<open>MakerSaved\<close> and
  \<open>TakerSaved\<close> saving, loading, and \<open>recover_funds\<close>, \<open>SavedSwap\<close> the swap of either kind
  (\<open>saved_swap.rs\<close>) and the functions that run a swap to its end. \<open>SwapMachine\<close> has the loop once for both
  sides: the locale \<open>event_replay\<close> says that events replayed on a new swap give the running one, and
  \<open>swap_machine\<close> extends it by the laws of the stages; \<open>MakerMachine\<close>, \<open>MakerLife\<close>, \<open>TakerMachine\<close> and
  \<open>TakerLife\<close> interpret them on the stages of the code. The loop has fuel 12: the diagrams \<open>maker_edge\<close> and
  \<open>taker_edge\<close> have twelve commands and no cycle, so that each command is visited once at most, and
  \<open>maker_run_ends\<close> and \<open>taker_run_ends\<close> prove that the fuel suffices. \<open>MakerProps\<close>, \<open>TakerProps\<close>,
  \<open>CommonProps\<close>, \<open>SavedProps\<close> and \<open>RecoveryProps\<close> have the properties: when each side pays, spends and
  refunds, that a restarted node goes on where the old one stopped, that no stage panics, what is published,
  deadlines and fees, and when recovery moves funds. \<open>SampleNode\<close> and \<open>SampleTaker\<close> are the concrete nodes
  of the witnesses.

  \<^bold>\<open>Order matching.\<close> \<open>OrderTypes\<close> has the orders and the messages (\<open>new_protocol.rs\<close>), \<open>OrderMatching\<close> the
  builders of orders and the matching, \<open>TimeCache\<close> the expiring map of \<open>common/time_cache.rs\<close> with its
  contract, the locale \<open>expiring_map\<close>, interpreted on the code's cache, \<open>TrieHistory\<close> and \<open>Orderbook\<close> the
  orderbook with its tries, their histories and the synchronisation between nodes (the Patricia trie itself
  is a library and a parameter), \<open>OrderNode\<close>, \<open>OrderHandlers\<close>, \<open>OrderRequests\<close> and \<open>OrderLoop\<close> the node:
  saved orders, the handlers of messages, the requests of the user, and the loop with its timeouts;
  \<open>MaxVolume\<close> the largest volume a maker can offer. \<open>NodeInv\<close>, \<open>NodeSteps\<close> and \<open>NodeRequests\<close> prove the
  invariant of the orders of a node for every step of the relation \<open>node_step\<close>. \<open>MatchProps\<close>, \<open>BookProps\<close>,
  \<open>OrderProps\<close> and \<open>HandshakeProps\<close> have the properties: new orders and matches are sound, the indexes of the
  orderbook agree, volumes are never promised twice, a swap starts once, and the swaps that both sides start
  have the same terms.

  \<^bold>\<open>Bitcoin data.\<close> A node that has no full node asks Electrum servers and verifies their answers with block
  headers (the crates under \<open>mm2src/mm2_bitcoin\<close>). \<open>Serialization\<close> has the byte format: a decoder takes the
  bytes that are left and gives a value with the rest, an error, or the panic of a reservation of memory
  that is beyond the address space; the locale \<open>codec\<close> states that what is written is read back, whatever
  follows, so that encodings are injective and lists of encoded values are read back. \<open>BtcTransaction\<close> and
  \<open>BtcTxProps\<close> model and verify the transactions of \<open>chain/transaction.rs\<close> in their four formats, \<open>BlockHeader\<close> and
  \<open>BlockHeaderProps\<close> the headers of \<open>chain/block_header.rs\<close>, those of merged mining with a parent header
  included; the parent header of a header is read with fuel, the number of bytes left, each nested header
  taking some of them. The hash function is a parameter of all definitions; the one property that needs
  it to be free of collisions says among which strings.

  \<^bold>\<open>Verification of payments.\<close> \<open>Spv\<close> has the Merkle tree, the Merkle proofs, the compact form of
  targets with the retargeting of Bitcoin, and the validation of a chain of headers (\<open>spv_validation\<close>).
  \<open>MerkleProps\<close> proves that transactions of a block are accepted and that what is accepted is in the tree,
  except for the proofs of one node; \<open>DifficultyProps\<close> bounds the new target of a retarget and shows what
  the validation does not ask for. \<open>HeaderSync\<close> is the loop of \<open>utxo_arc_builder.rs\<close> with the requests of
  \<open>rpc_clients.rs\<close> and the table of \<open>sql_block_header_storage.rs\<close>; the answers of the servers and the failures
  of the data base are functions of the number of the call, so that every behaviour of them is covered. The
  search for a reorganisation is a \<open>partial_function\<close>, not returning being \<open>None\<close>. \<open>HeaderSyncProps\<close> has the
  invariant of the table over all turns of the loop, and when the search ends and when it does not.

  \<^bold>\<open>Coins of the Bitcoin family.\<close> What the engine of the swaps asks of a coin is here modelled down to the bytes of the
  transactions. \<open>BtcScript\<close> has the scripts of the crate \<open>script\<close> (opcodes, parsing, the builder, types of scripts,
  signature operations, numbers), \<open>TxSigner\<close> the hashes that are signed (\<open>script/sign.rs\<close>) and the signing of the crate
  \<open>utxo_signer\<close>, \<open>UtxoCoin\<close> the fees, the builder of transactions and the unspent outputs of \<open>utxo.rs\<close> and
  \<open>utxo_common.rs\<close>, \<open>RecentlySpent\<close> the cache of the outputs that were spent lately and the sending of a transaction, and
  \<open>UtxoHtlc\<close> the operations of swaps: payments, spends, refunds, the preimages for watchers, validation, the
  search for a spend and the extraction of the secret. Parameters are the hash functions (\<open>hash_functions\<close>), the key
  pair with its signatures (\<open>key_pair\<close>), and the answers of the servers with the clock (\<open>utxo_rpc\<close>); \<open>utxo_coin\<close> is the configuration.
  Loops over the bytes of a script have the bytes left as their measure; \<open>replace_spent_outputs_with_cache\<close> and the
  loop that waits for a spend are partial functions. \<open>ScriptProps\<close> shows that what the builder makes is what the
  parser reads, \<open>HtlcProps\<close> the form of the contract, of spends and of refunds. The locale \<open>htlc_chain\<close> of
  \<open>SpendSearchProps\<close> states what a swap relies on when it leaves a payment to a chain, and is interpreted on the operations of
  \<open>UtxoHtlc\<close>: who collects reveals the secret, who searches finds it and tells a spend from a refund. \<open>RefundProps\<close> shows when a
  refund is final, that a watcher broadcasts what the taker would have sent, and what an accepted payment is locked
  to; \<open>TxBuilderProps\<close> that a transaction neither creates nor loses value; \<open>SentPaymentProps\<close> that what one side sends
  the other side accepts; \<open>RecentlySpentProps\<close> that no output is spent twice and that the replacement ends.
  \<open>HtlcSample\<close> has the coin and the payment of the witnesses.

  \<^bold>\<open>Watchers.\<close> A taker may give the preimages of his transactions to other nodes, which complete the swap while he is
  offline (\<open>lp_swap/swap_watcher.rs\<close>). \<open>SwapWatcher\<close> has the states of the machine with what each does on entry, the run of the
  machine (\<open>common/patterns/state_machine.rs\<close>), a function whose termination proof is that every transition goes down in the order
  of the states, the wait for the spend as a partial function, and the lock of a watcher, an entry of the expiring
  cache of \<open>TimeCache\<close>; \<open>watcher_node_step\<close> are the messages and the ends of watchers in any order. \<open>UtxoWatcher\<close> has what
  coins of the Bitcoin family do for watchers. \<open>WatcherProps\<close> shows what a watcher sends and when, that it ends, and that
  one fee has one watcher as long as its lock lives; \<open>UtxoWatcherProps\<close> joins the watcher with the coins: it broadcasts the
  transaction with which the taker would have collected the maker payment.

  \<^bold>\<open>Not modelled.\<close> The clients of the other chains (Ethereum, Tendermint, Lightning, SLP tokens and more), which call
  contracts and nodes outside the repository; of the Bitcoin family balances, withdrawals, histories of transactions, HD wallets,
  hardware wallets and the activation of coins; the network layer (\<open>mm2_libp2p\<close>, \<open>gossipsub\<close>) and the data bases; the rendering of
  answers to RPC calls. They are requests to remote nodes and the reading of their answers, with little logic of their own.
\<close>

end
